(* ===== verification/Prelude.thy ===== *)
theory Prelude
  imports Main "HOL-Library.List_Lexorder" "HOL-Library.Char_ord" "HOL-Library.Product_Lexorder"
begin

text \<open>
  Shared vocabulary of the development.

  A Rust \<open>String\<close> or \<open>&str\<close> is modelled by the list of its UTF-8 bytes, the library type
  \<open>string\<close> (a \<open>char\<close> is one byte).  Rust compares strings bytewise, which is the lexicographic
  order \<open>List_Lexorder\<close> puts on \<open>string\<close>.  Operations that work on Unicode characters
  (\<open>chars\<close>, \<open>trim\<close>) go through \<open>utf8_chars\<close>, which groups the bytes of each character.

  A fallible function returns \<open>error + 'a\<close> with the error on the left, as \<open>Result\<close> does.
\<close>

named_theorems key_simps \<open>facts on state keys and their components\<close>
named_theorems map_simps \<open>lookup after an operation of an ordered map or set\<close>
named_theorems ledger_defs \<open>definitions of the ledger's operations\<close>

type_synonym ('e, 'a) result = "'e + 'a"

section \<open>Results\<close>

definition bind_result :: "('e, 'a) result \<Rightarrow> ('a \<Rightarrow> ('e, 'b) result) \<Rightarrow> ('e, 'b) result" where
  "bind_result r f = (case r of Inl e \<Rightarrow> Inl e | Inr x \<Rightarrow> f x)"

lemma bind_result_simps [simp]:
  "bind_result (Inl e) f = Inl e"
  "bind_result (Inr x) f = f x"
  by (simp_all add: bind_result_def)

lemma bind_result_Inr_iff:
  "bind_result r f = Inr y \<longleftrightarrow> (\<exists>x. r = Inr x \<and> f x = Inr y)"
  by (cases r) auto

definition is_ok :: "('e, 'a) result \<Rightarrow> bool" where
  "is_ok r = (case r of Inl _ \<Rightarrow> False | Inr _ \<Rightarrow> True)"

lemma is_ok_simps [simp]: "\<not> is_ok (Inl e)" "is_ok (Inr x)"
  by (simp_all add: is_ok_def)

lemma is_ok_bind [simp]: "is_ok (bind_result r f) \<longleftrightarrow> (\<exists>x. r = Inr x \<and> is_ok (f x))"
  by (cases r) auto

text \<open>A loop whose body may return early with an error.\<close>

fun fold_result :: "('a \<Rightarrow> 's \<Rightarrow> ('e, 's) result) \<Rightarrow> 'a list \<Rightarrow> 's \<Rightarrow> ('e, 's) result" where
  "fold_result f [] s = Inr s"
| "fold_result f (x # xs) s = bind_result (f x s) (fold_result f xs)"

lemma fold_result_append:
  "fold_result f (xs @ ys) s = bind_result (fold_result f xs s) (fold_result f ys)"
proof (induction xs arbitrary: s)
  case (Cons x xs)
  then show ?case by (cases "f x s") auto
qed simp

text \<open>What holds at the end of a loop, and what a later state remembers of an earlier step.\<close>

lemma fold_result_invariant:
  assumes "fold_result f xs s = Inr t" and "I s"
    and "\<And>x s t. x \<in> set xs \<Longrightarrow> I s \<Longrightarrow> f x s = Inr t \<Longrightarrow> I t"
  shows "I t"
  using assms
proof (induction xs arbitrary: s)
  case (Cons x xs)
  then obtain u where u: "f x s = Inr u" "fold_result f xs u = Inr t"
    by (auto simp: bind_result_Inr_iff)
  show ?case
    by (rule Cons.IH[OF u(2)]) (use Cons.prems(2,3) u(1) in auto)
qed simp

lemma fold_result_step:
  assumes "fold_result f xs s = Inr t" and "I s" and "x \<in> set xs"
    and "\<And>x s t. x \<in> set xs \<Longrightarrow> I s \<Longrightarrow> f x s = Inr t \<Longrightarrow> I t"
    and "\<And>x s t. f x s = Inr t \<Longrightarrow> R s t" and "\<And>s. R s s" and "\<And>s t u. R s t \<Longrightarrow> R t u \<Longrightarrow> R s u"
  obtains u v where "I u" "f x u = Inr v" "R v t"
proof -
  obtain ys zs where xs: "xs = ys @ x # zs" using assms(3) by (auto dest: split_list)
  then obtain u v where uv: "fold_result f ys s = Inr u" "f x u = Inr v" "fold_result f zs v = Inr t"
    using assms(1) by (auto simp: fold_result_append bind_result_Inr_iff)
  have "I u"
    by (rule fold_result_invariant[where I = I, OF uv(1) assms(2)]) (use xs assms(4) in auto)
  moreover have "R v t"
    by (rule fold_result_invariant[where I = "R v", OF uv(3) assms(6)]) (use assms(5,7) in blast)
  ultimately show thesis using that uv(2) by blast
qed

text \<open>A loop that rewrites its elements and threads a state, and may return early with an error.\<close>

fun map_result :: "('a \<Rightarrow> 's \<Rightarrow> ('e, 'b \<times> 's) result) \<Rightarrow> 'a list \<Rightarrow> 's \<Rightarrow> ('e, 'b list \<times> 's) result" where
  "map_result f [] s = Inr ([], s)"
| "map_result f (x # xs) s =
     bind_result (f x s) (\<lambda>(y, s). bind_result (map_result f xs s) (\<lambda>(ys, s). Inr (y # ys, s)))"

lemma fold_result_cong [fundef_cong]:
  assumes "xs = ys" and "s = t" and "\<And>x s. x \<in> set ys \<Longrightarrow> f x s = g x s"
  shows "fold_result f xs s = fold_result g ys t"
proof -
  have "(\<And>x s. x \<in> set ys \<Longrightarrow> f x s = g x s) \<Longrightarrow> fold_result f ys t = fold_result g ys t" for t
    by (induction ys arbitrary: t) (auto simp: bind_result_def split: sum.splits)
  then show ?thesis using assms by simp
qed

lemma map_result_cong [fundef_cong]:
  assumes "xs = ys" and "s = t" and "\<And>x s. x \<in> set ys \<Longrightarrow> f x s = g x s"
  shows "map_result f xs s = map_result g ys t"
proof -
  have "(\<And>x s. x \<in> set ys \<Longrightarrow> f x s = g x s) \<Longrightarrow> map_result f ys t = map_result g ys t" for t
    by (induction ys arbitrary: t) (auto simp: bind_result_def split: sum.splits)
  then show ?thesis using assms by simp
qed

text \<open>A loop that only reads is the rewriting loop less the rewritten elements.\<close>

lemma fold_map_result:
  assumes "\<And>x s. x \<in> set xs \<Longrightarrow> f x s = map_sum id snd (g x s)"
  shows "fold_result f xs s = map_sum id snd (map_result g xs s)"
  using assms
proof (induction xs arbitrary: s)
  case (Cons x xs)
  have "f x s = map_sum id snd (g x s)" by (rule Cons.prems) simp
  moreover have "fold_result f xs t = map_sum id snd (map_result g xs t)" for t
    by (rule Cons.IH, rule Cons.prems) simp
  ultimately show ?case
    by (cases "g x s") (auto simp: bind_result_def split: sum.splits)
qed simp

text \<open>
  What the rewriting loop returns: every element rewritten in the state its turn found, of which
  only facts every step preserves are known.
\<close>

lemma map_result_rel:
  assumes "map_result f xs s = Inr (ys, t)" and "I s"
    and "\<And>x s y t. x \<in> set xs \<Longrightarrow> I s \<Longrightarrow> f x s = Inr (y, t) \<Longrightarrow> I t \<and> P x y"
  shows "I t \<and> list_all2 P xs ys"
  using assms
proof (induction xs arbitrary: s ys)
  case (Cons x xs)
  then obtain y u zs where u: "f x s = Inr (y, u)" "map_result f xs u = Inr (zs, t)" "ys = y # zs"
    by (auto simp: bind_result_Inr_iff)
  have 1: "I u \<and> P x y" by (rule Cons.prems(3)[OF _ Cons.prems(2) u(1)]) simp
  have "I t \<and> list_all2 P xs zs"
    by (rule Cons.IH[OF u(2)]) (use 1 Cons.prems(3) in auto)
  then show ?case using 1 u(3) by simp
qed simp

section \<open>UTF-8 characters of a string\<close>

definition is_cont :: "char \<Rightarrow> bool" where
  "is_cont b = (128 \<le> (of_char b :: nat) \<and> (of_char b :: nat) < 192)"

definition is_ascii :: "char \<Rightarrow> bool" where
  "is_ascii b = ((of_char b :: nat) < 128)"

text \<open>\<open>str::chars\<close>: each character is the list of its bytes, a lead byte and its continuation bytes.\<close>

function utf8_chars :: "string \<Rightarrow> string list" where
  "utf8_chars [] = []"
| "utf8_chars (b # bs) =
     (if is_ascii b then [b] # utf8_chars bs
      else (b # takeWhile is_cont bs) # utf8_chars (dropWhile is_cont bs))"
  by pat_completeness auto
termination
  by (relation "measure length") (auto simp: le_imp_less_Suc length_dropWhile_le)

lemma is_ascii_not_cont: "is_ascii b \<Longrightarrow> \<not> is_cont b"
  by (simp add: is_ascii_def is_cont_def)

lemma concat_utf8_chars [simp]: "concat (utf8_chars s) = s"
  by (induction s rule: utf8_chars.induct) auto

lemma utf8_chars_nonempty: "c \<in> set (utf8_chars s) \<Longrightarrow> c \<noteq> []"
  by (induction s rule: utf8_chars.induct) (auto split: if_splits)

lemma utf8_chars_ascii: "list_all is_ascii s \<Longrightarrow> utf8_chars s = map (\<lambda>b. [b]) s"
  by (induction s) auto

text \<open>
  Splitting at an ASCII byte splits the characters: what follows an ASCII byte never belongs to
  the character before it.
\<close>

lemma takeWhile_cont_append_ascii:
  "is_ascii b \<Longrightarrow> takeWhile is_cont (xs @ b # ys) = takeWhile is_cont xs"
  by (induction xs) (auto simp: is_ascii_not_cont)

lemma dropWhile_cont_append_ascii:
  "is_ascii b \<Longrightarrow> dropWhile is_cont (xs @ b # ys) = dropWhile is_cont xs @ b # ys"
  by (induction xs) (auto simp: is_ascii_not_cont)

lemma utf8_chars_append_ascii:
  "is_ascii b \<Longrightarrow> utf8_chars (xs @ b # ys) = utf8_chars xs @ [b] # utf8_chars ys"
  by (induction xs rule: utf8_chars.induct)
     (auto simp: takeWhile_cont_append_ascii dropWhile_cont_append_ascii)

section \<open>String operations of the standard library\<close>

text \<open>\<open>char::is_whitespace\<close> (the Unicode \<open>White_Space\<close> property), by UTF-8 encoding.\<close>

definition whitespace_chars :: "string list" where
  "whitespace_chars =
     [[CHR 0x09], [CHR 0x0A], [CHR 0x0B], [CHR 0x0C], [CHR 0x0D], [CHR 0x20],
      [CHR 0xC2, CHR 0x85], [CHR 0xC2, CHR 0xA0], [CHR 0xE1, CHR 0x9A, CHR 0x80],
      [CHR 0xE2, CHR 0x80, CHR 0x80], [CHR 0xE2, CHR 0x80, CHR 0x81],
      [CHR 0xE2, CHR 0x80, CHR 0x82], [CHR 0xE2, CHR 0x80, CHR 0x83],
      [CHR 0xE2, CHR 0x80, CHR 0x84], [CHR 0xE2, CHR 0x80, CHR 0x85],
      [CHR 0xE2, CHR 0x80, CHR 0x86], [CHR 0xE2, CHR 0x80, CHR 0x87],
      [CHR 0xE2, CHR 0x80, CHR 0x88], [CHR 0xE2, CHR 0x80, CHR 0x89],
      [CHR 0xE2, CHR 0x80, CHR 0x8A], [CHR 0xE2, CHR 0x80, CHR 0xA8],
      [CHR 0xE2, CHR 0x80, CHR 0xA9], [CHR 0xE2, CHR 0x80, CHR 0xAF],
      [CHR 0xE2, CHR 0x81, CHR 0x9F], [CHR 0xE3, CHR 0x80, CHR 0x80]]"

definition is_whitespace :: "string \<Rightarrow> bool" where
  "is_whitespace c = (c \<in> set whitespace_chars)"

definition trim_start_chars :: "string list \<Rightarrow> string list" where
  "trim_start_chars cs = dropWhile is_whitespace cs"

definition trim_end_chars :: "string list \<Rightarrow> string list" where
  "trim_end_chars cs = rev (dropWhile is_whitespace (rev cs))"

text \<open>\<open>str::trim\<close> and \<open>str::trim_start\<close>.\<close>

definition trim :: "string \<Rightarrow> string" where
  "trim s = concat (trim_end_chars (trim_start_chars (utf8_chars s)))"

definition trim_start :: "string \<Rightarrow> string" where
  "trim_start s = concat (trim_start_chars (utf8_chars s))"

text \<open>\<open>str::replace\<close> with a one-byte pattern.\<close>

definition replace_byte :: "char \<Rightarrow> string \<Rightarrow> string \<Rightarrow> string" where
  "replace_byte c r s = concat (map (\<lambda>b. if b = c then r else [b]) s)"

lemma replace_byte_simps [simp]:
  "replace_byte c r [] = []"
  "replace_byte c r (b # s) = (if b = c then r else [b]) @ replace_byte c r s"
  by (simp_all add: replace_byte_def)

text \<open>\<open>str::splitn(n, c)\<close> and \<open>str::split(c)\<close> with a one-byte separator.\<close>

fun splitn :: "nat \<Rightarrow> char \<Rightarrow> string \<Rightarrow> string list" where
  "splitn 0 c s = []"
| "splitn (Suc 0) c s = [s]"
| "splitn (Suc (Suc n)) c s =
     (if c \<in> set s
      then takeWhile (\<lambda>b. b \<noteq> c) s # splitn (Suc n) c (tl (dropWhile (\<lambda>b. b \<noteq> c) s))
      else [s])"

fun split_on :: "char \<Rightarrow> string \<Rightarrow> string list" where
  "split_on c [] = [[]]"
| "split_on c (b # s) =
     (if b = c then [] # split_on c s
      else (case split_on c s of [] \<Rightarrow> [[b]] | p # ps \<Rightarrow> (b # p) # ps))"

text \<open>\<open>str::split_once(c)\<close>.\<close>

definition split_once :: "char \<Rightarrow> string \<Rightarrow> (string \<times> string) option" where
  "split_once c s =
     (if c \<in> set s
      then Some (takeWhile (\<lambda>b. b \<noteq> c) s, tl (dropWhile (\<lambda>b. b \<noteq> c) s)) else None)"

lemma takeWhile_no_sep: "c \<notin> set a \<Longrightarrow> takeWhile (\<lambda>b. b \<noteq> c) (a @ c # s) = a"
  by (induction a) auto

lemma dropWhile_no_sep: "c \<notin> set a \<Longrightarrow> dropWhile (\<lambda>b. b \<noteq> c) (a @ c # s) = c # s"
  by (induction a) auto

lemma splitn_Cons_sep:
  "c \<notin> set a \<Longrightarrow> splitn (Suc (Suc n)) c (a @ c # s) = a # splitn (Suc n) c s"
  by (simp add: splitn.simps(3) takeWhile_no_sep dropWhile_no_sep)

lemma split_once_sep: "c \<notin> set a \<Longrightarrow> split_once c (a @ c # s) = Some (a, s)"
  by (simp add: split_once_def takeWhile_no_sep dropWhile_no_sep)

declare splitn.simps(3) [simp del]

text \<open>\<open>[_]::join(sep)\<close>.\<close>

fun join :: "string \<Rightarrow> string list \<Rightarrow> string" where
  "join sep [] = []"
| "join sep [x] = x"
| "join sep (x # y # ys) = x @ sep @ join sep (y # ys)"

text \<open>\<open>u8::to_ascii_lowercase\<close> and \<open>str::eq_ignore_ascii_case\<close>.\<close>

definition ascii_lower_char :: "char \<Rightarrow> char" where
  "ascii_lower_char c =
     (if 65 \<le> (of_char c :: nat) \<and> (of_char c :: nat) \<le> 90
      then char_of ((of_char c :: nat) + 32) else c)"

definition to_ascii_lowercase :: "string \<Rightarrow> string" where
  "to_ascii_lowercase s = map ascii_lower_char s"

definition eq_ignore_ascii_case :: "string \<Rightarrow> string \<Rightarrow> bool" where
  "eq_ignore_ascii_case a b = (to_ascii_lowercase a = to_ascii_lowercase b)"

definition is_ascii_digit :: "char \<Rightarrow> bool" where
  "is_ascii_digit c = (48 \<le> (of_char c :: nat) \<and> (of_char c :: nat) \<le> 57)"

definition is_ascii_alphabetic :: "char \<Rightarrow> bool" where
  "is_ascii_alphabetic c =
     (65 \<le> (of_char c :: nat) \<and> (of_char c :: nat) \<le> 90 \<or>
      97 \<le> (of_char c :: nat) \<and> (of_char c :: nat) \<le> 122)"

definition is_ascii_alphanumeric :: "char \<Rightarrow> bool" where
  "is_ascii_alphanumeric c = (is_ascii_digit c \<or> is_ascii_alphabetic c)"

text \<open>The \<open>Display\<close> form of an unsigned integer, a signed integer and a boolean.\<close>

fun show_nat :: "nat \<Rightarrow> string" where
  "show_nat n =
     (if n < 10 then [char_of (48 + n)] else show_nat (n div 10) @ [char_of (48 + n mod 10)])"

declare show_nat.simps [simp del]

definition show_bool :: "bool \<Rightarrow> string" where
  "show_bool b = (if b then ''true'' else ''false'')"

text \<open>The em dash of the source's messages, in UTF-8.\<close>

definition em_dash :: string where
  "em_dash = [CHR 0xE2, CHR 0x80, CHR 0x94]"

end
