(* ===== verification/Text.thy ===== *)
theory Text
  imports Prelude "HOL-Library.Word"
begin

text \<open>
  String and path operations of the standard library that several components use: prefixes and
  suffixes, searching, splitting at whitespace, decimal numbers, UTF-8 validity and \<open>Path::join\<close>.
\<close>

section \<open>Prefixes, suffixes and searching\<close>

definition starts_with :: "string \<Rightarrow> string \<Rightarrow> bool" where
  "starts_with s p = (take (length p) s = p)"

definition ends_with :: "string \<Rightarrow> string \<Rightarrow> bool" where
  "ends_with s suffix = (length suffix \<le> length s \<and> drop (length s - length suffix) s = suffix)"

definition strip_prefix :: "string \<Rightarrow> string \<Rightarrow> string option" where
  "strip_prefix p s = (if take (length p) s = p then Some (drop (length p) s) else None)"

definition strip_suffix :: "string \<Rightarrow> string \<Rightarrow> string option" where
  "strip_suffix suffix s =
     (if length suffix \<le> length s \<and> drop (length s - length suffix) s = suffix
      then Some (take (length s - length suffix) s) else None)"

text \<open>\<open>str::contains\<close> and \<open>str::find\<close> with a string pattern.\<close>

fun contains_str :: "string \<Rightarrow> string \<Rightarrow> bool" where
  "contains_str [] p = (p = [])"
| "contains_str (c # s) p = (starts_with (c # s) p \<or> contains_str s p)"

text \<open>\<open>str::split_once\<close> with a string pattern.\<close>

fun split_once_str :: "string \<Rightarrow> string \<Rightarrow> (string \<times> string) option" where
  "split_once_str p [] = (if p = [] then Some ([], []) else None)"
| "split_once_str p (c # s) =
     (if starts_with (c # s) p then Some ([], drop (length p) (c # s))
      else map_option (apfst (Cons c)) (split_once_str p s))"

text \<open>\<open>str::replace\<close> with a non-empty string pattern.\<close>

function replace_str :: "string \<Rightarrow> string \<Rightarrow> string \<Rightarrow> string" where
  "replace_str p r [] = []"
| "replace_str p r (c # s) =
     (if p \<noteq> [] \<and> starts_with (c # s) p then r @ replace_str p r (drop (length p) (c # s))
      else c # replace_str p r s)"
  by pat_completeness auto
termination
proof (relation "measure (\<lambda>(_, _, s). length s)")
  fix p r s :: string and c
  assume "p \<noteq> [] \<and> starts_with (c # s) p"
  then show "((p, r, drop (length p) (c # s)), p, r, c # s) \<in> measure (\<lambda>(_, _, s). length s)"
    by (cases p) simp_all
qed simp_all

definition rsplit_once :: "char \<Rightarrow> string \<Rightarrow> (string \<times> string) option" where
  "rsplit_once c s =
     (if c \<in> set s
      then Some (rev (tl (dropWhile (\<lambda>b. b \<noteq> c) (rev s))), rev (takeWhile (\<lambda>b. b \<noteq> c) (rev s)))
      else None)"

lemma strip_prefix_Some: "strip_prefix p s = Some t \<longleftrightarrow> s = p @ t"
  by (auto simp: strip_prefix_def split: if_splits) (metis append_take_drop_id)

lemma strip_suffix_Some: "strip_suffix x s = Some t \<longleftrightarrow> s = t @ x"
  by (auto simp: strip_suffix_def split: if_splits) (metis append_take_drop_id)

lemma starts_with_iff: "starts_with s p \<longleftrightarrow> (\<exists>t. s = p @ t)"
  by (auto simp: starts_with_def) (metis append_take_drop_id)

lemma ends_with_iff: "ends_with s x \<longleftrightarrow> (\<exists>t. s = t @ x)"
  by (auto simp: ends_with_def) (metis append_take_drop_id)

lemma ends_with_append: "ends_with (s @ suffix) suffix"
  by (simp add: ends_with_def)

lemma contains_str_iff: "contains_str s p \<longleftrightarrow> (\<exists>a b. s = a @ p @ b)"
proof (induction s)
  case (Cons c s)
  have "(\<exists>a b. c # s = a @ p @ b) \<longleftrightarrow> (\<exists>b. c # s = p @ b) \<or> (\<exists>a b. s = a @ p @ b)"
    by (metis Cons_eq_append_conv append_Cons append_Nil)
  then show ?case using Cons by (auto simp: starts_with_iff)
qed simp

section \<open>Whitespace\<close>

text \<open>\<open>str::split_whitespace\<close>: the maximal runs of characters that are not white space.\<close>

fun words_of :: "string list \<Rightarrow> string \<Rightarrow> string list" where
  "words_of [] w = (if w = [] then [] else [w])"
| "words_of (c # cs) w =
     (if is_whitespace c then (if w = [] then words_of cs [] else w # words_of cs [])
      else words_of cs (w @ c))"

definition split_whitespace :: "string \<Rightarrow> string list" where
  "split_whitespace s = words_of (utf8_chars s) []"

section \<open>Splitting what was joined\<close>

lemma split_on_plain: "c \<notin> set s \<Longrightarrow> split_on c s = [s]"
  by (induction s) auto

lemma split_on_sep: "c \<notin> set a \<Longrightarrow> split_on c (a @ c # s) = a # split_on c s"
  by (induction a) auto

lemma split_on_join: "xs \<noteq> [] \<Longrightarrow> list_all (\<lambda>x. c \<notin> set x) xs \<Longrightarrow> split_on c (join [c] xs) = xs"
  by (induction "[c]" xs rule: join.induct) (auto simp: split_on_plain split_on_sep)

section \<open>Numbers\<close>

definition is_ascii_hexdigit :: "char \<Rightarrow> bool" where
  "is_ascii_hexdigit c =
     (is_ascii_digit c \<or> 65 \<le> (of_char c :: nat) \<and> (of_char c :: nat) \<le> 70 \<or>
      97 \<le> (of_char c :: nat) \<and> (of_char c :: nat) \<le> 102)"

text \<open>\<open>str::parse::<u64>\<close>: an optional \<open>+\<close>, then digits, below two to the 64.\<close>

definition decimal_value :: "string \<Rightarrow> nat" where
  "decimal_value ds = foldl (\<lambda>n d. n * 10 + (of_char d - 48)) 0 ds"

definition parse_u64 :: "string \<Rightarrow> 64 word option" where
  "parse_u64 s =
     (let ds = (case s of [] \<Rightarrow> [] | c # cs \<Rightarrow> if c = CHR ''+'' then cs else s) in
      if ds \<noteq> [] \<and> list_all is_ascii_digit ds \<and> decimal_value ds < 2 ^ 64
      then Some (of_nat (decimal_value ds)) else None)"

text \<open>The decimal form of a number consists of digits and reads back as the number.\<close>

lemma digit_char: "n < 10 \<Longrightarrow> is_ascii_digit (char_of (48 + n)) \<and> (of_char (char_of (48 + n) :: char) :: nat) = 48 + n"
  by (simp add: is_ascii_digit_def)

lemma show_nat_digits: "show_nat n \<noteq> [] \<and> list_all is_ascii_digit (show_nat n)"
proof (induction n rule: show_nat.induct)
  case (1 n)
  then show ?case
    using digit_char[of n] digit_char[of "n mod 10"] by (subst (1 2) show_nat.simps) (auto simp: list_all_iff)
qed

lemma decimal_value_show_nat: "decimal_value (show_nat n) = n"
proof (induction n rule: show_nat.induct)
  case (1 n)
  show ?case
  proof (cases "n < 10")
    case True
    then show ?thesis using digit_char[of n] by (subst show_nat.simps) (simp add: decimal_value_def)
  next
    case False
    then have "decimal_value (show_nat (n div 10)) = n div 10" using 1 by blast
    then show ?thesis
      using False digit_char[of "n mod 10"] by (subst show_nat.simps) (simp add: decimal_value_def)
  qed
qed

lemma show_nat_inject [simp]: "show_nat m = show_nat n \<longleftrightarrow> m = n"
  by (metis decimal_value_show_nat)

lemma show_nat_not_member:
  assumes "\<not> is_ascii_digit c"
  shows "c \<notin> set (show_nat n)"
  using show_nat_digits[of n] assms by (auto simp: list_all_iff)

section \<open>UTF-8\<close>

text \<open>\<open>str::from_utf8\<close>: the well-formed byte sequences of the Unicode standard.\<close>

definition byte_in :: "nat \<Rightarrow> nat \<Rightarrow> char \<Rightarrow> bool" where
  "byte_in lo hi b = (lo \<le> (of_char b :: nat) \<and> (of_char b :: nat) \<le> hi)"

fun utf8_valid :: "string \<Rightarrow> bool" where
  "utf8_valid [] = True"
| "utf8_valid (a # s) =
     (if is_ascii a then utf8_valid s
      else (case s of
          [] \<Rightarrow> False
        | b # s1 \<Rightarrow>
            if byte_in 0xC2 0xDF a then is_cont b \<and> utf8_valid s1
            else (case s1 of
                [] \<Rightarrow> False
              | c # s2 \<Rightarrow>
                  if byte_in 0xE0 0xEF a
                  then (if byte_in 0xE0 0xE0 a then byte_in 0xA0 0xBF b
                        else if byte_in 0xED 0xED a then byte_in 0x80 0x9F b else is_cont b) \<and>
                       is_cont c \<and> utf8_valid s2
                  else (case s2 of
                      [] \<Rightarrow> False
                    | d # s3 \<Rightarrow>
                        byte_in 0xF0 0xF4 a \<and>
                        (if byte_in 0xF0 0xF0 a then byte_in 0x90 0xBF b
                         else if byte_in 0xF4 0xF4 a then byte_in 0x80 0x8F b else is_cont b) \<and>
                        is_cont c \<and> is_cont d \<and> utf8_valid s3))))"

lemma utf8_valid_ascii: "list_all is_ascii s \<Longrightarrow> utf8_valid s"
  by (induction s) auto

section \<open>Paths\<close>

text \<open>\<open>Path::join\<close>: an absolute path replaces the base.\<close>

definition path_join :: "string \<Rightarrow> string \<Rightarrow> string" where
  "path_join d p =
     (if starts_with p ''/'' then p else if d = [] \<or> ends_with d ''/'' then d @ p else d @ ''/'' @ p)"

end
