(* ===== verification/Maps.thy ===== *)
theory Maps
  imports Text
begin

text \<open>
  \<open>BTreeMap\<close> and \<open>BTreeSet\<close> of the standard library: an association list sorted by its keys and a
  sorted list.  Two interfaces, \<open>dict\<close> and \<open>finset\<close>, state what their users rely on; what a loop
  of insertions does is proved once from those laws and used by the ledger, the configuration
  helpers and the JSON objects through the interpretations \<open>bt\<close> and \<open>bs\<close>.
\<close>

section \<open>Interfaces\<close>

locale dict =
  fixes get :: "'m \<Rightarrow> 'k \<Rightarrow> 'v option"
    and put :: "'k \<Rightarrow> 'v \<Rightarrow> 'm \<Rightarrow> 'm"
    and keep :: "('k \<Rightarrow> bool) \<Rightarrow> 'm \<Rightarrow> 'm"
    and ok :: "'m \<Rightarrow> bool"
  assumes get_put: "ok m \<Longrightarrow> get (put k v m) = (get m)(k \<mapsto> v)"
    and get_keep: "ok m \<Longrightarrow> get (keep p m) k = (if p k then get m k else None)"
    and ok_put: "ok m \<Longrightarrow> ok (put k v m)"
    and ok_keep: "ok m \<Longrightarrow> ok (keep p m)"
begin

lemma ok_fold_put: "ok m \<Longrightarrow> ok (fold (\<lambda>x. put (f x) (g x)) xs m)"
  by (induction xs arbitrary: m) (auto simp: ok_put)

lemma get_fold_put:
  "ok m \<Longrightarrow> get (fold (\<lambda>x. put (f x) v) xs m) k = (if k \<in> f ` set xs then Some v else get m k)"
  by (induction xs arbitrary: m) (auto simp: get_put ok_put)

lemma dom_get_fold_put:
  "ok m \<Longrightarrow> dom (get (fold (\<lambda>x. put (f x) v) xs m)) = f ` set xs \<union> dom (get m)"
  by (auto simp: dom_def get_fold_put split: if_splits)

lemma dom_get_keep: "ok m \<Longrightarrow> dom (get (keep p m)) = {k \<in> dom (get m). p k}"
  by (auto simp: dom_def get_keep split: if_splits)

lemma keep_then_put_frame:
  "ok m \<Longrightarrow> k \<notin> f ` set xs \<Longrightarrow> p k \<Longrightarrow>
     get (fold (\<lambda>x. put (f x) v) xs (keep p m)) k = get m k"
  by (simp add: get_fold_put ok_keep get_keep)

end

locale finset =
  fixes mem :: "'a \<Rightarrow> 's \<Rightarrow> bool"
    and add :: "'a \<Rightarrow> 's \<Rightarrow> 's"
    and restrict :: "('a \<Rightarrow> bool) \<Rightarrow> 's \<Rightarrow> 's"
    and ok :: "'s \<Rightarrow> bool"
  assumes mem_add: "ok s \<Longrightarrow> mem x (add y s) \<longleftrightarrow> x = y \<or> mem x s"
    and mem_restrict: "ok s \<Longrightarrow> mem x (restrict p s) \<longleftrightarrow> p x \<and> mem x s"
    and ok_add: "ok s \<Longrightarrow> ok (add x s)"
    and ok_restrict: "ok s \<Longrightarrow> ok (restrict p s)"
begin

lemma ok_fold_add: "ok s \<Longrightarrow> ok (fold (\<lambda>x. add (f x)) xs s)"
  by (induction xs arbitrary: s) (auto simp: ok_add)

lemma mem_fold_add:
  "ok s \<Longrightarrow> mem y (fold (\<lambda>x. add (f x)) xs s) \<longleftrightarrow> y \<in> f ` set xs \<or> mem y s"
  by (induction xs arbitrary: s) (auto simp: mem_add ok_add)

end

section \<open>\<open>BTreeMap\<close>\<close>

type_synonym ('k, 'v) btree_map = "('k \<times> 'v) list"

definition bt_wf :: "('k::linorder, 'v) btree_map \<Rightarrow> bool" where
  "bt_wf m = sorted_wrt (<) (map fst m)"

fun bt_insert :: "'k::linorder \<Rightarrow> 'v \<Rightarrow> ('k, 'v) btree_map \<Rightarrow> ('k, 'v) btree_map" where
  "bt_insert k v [] = [(k, v)]"
| "bt_insert k v ((k', v') # m) =
     (if k < k' then (k, v) # (k', v') # m
      else if k = k' then (k, v) # m
      else (k', v') # bt_insert k v m)"

definition bt_get :: "('k, 'v) btree_map \<Rightarrow> 'k \<Rightarrow> 'v option" where
  "bt_get m k = map_of m k"

definition bt_retain :: "('k \<Rightarrow> bool) \<Rightarrow> ('k, 'v) btree_map \<Rightarrow> ('k, 'v) btree_map" where
  "bt_retain p m = filter (\<lambda>e. p (fst e)) m"

definition bt_remove :: "'k \<Rightarrow> ('k, 'v) btree_map \<Rightarrow> ('k, 'v) btree_map" where
  "bt_remove k m = bt_retain (\<lambda>k'. k' \<noteq> k) m"

definition bt_keys :: "('k, 'v) btree_map \<Rightarrow> 'k list" where
  "bt_keys m = map fst m"

definition bt_contains :: "('k, 'v) btree_map \<Rightarrow> 'k \<Rightarrow> bool" where
  "bt_contains m k = (bt_get m k \<noteq> None)"

definition bt_of_list :: "('k::linorder \<times> 'v) list \<Rightarrow> ('k, 'v) btree_map" where
  "bt_of_list es = fold (\<lambda>e. bt_insert (fst e) (snd e)) es []"

lemma bt_wf_Nil [simp]: "bt_wf []"
  by (simp add: bt_wf_def)

lemma set_bt_insert_keys: "fst ` set (bt_insert k v m) = insert k (fst ` set m)"
proof (induction m)
  case (Cons e m)
  then show ?case by (cases e) (auto simp: insert_commute)
qed simp

lemma bt_wf_insert: "bt_wf m \<Longrightarrow> bt_wf (bt_insert k v m)"
proof (induction m)
  case Nil
  then show ?case by (simp add: bt_wf_def)
next
  case (Cons e m)
  obtain k' v' where e: "e = (k', v')" by (cases e)
  have IH: "bt_wf (bt_insert k v m)" using Cons by (auto simp: bt_wf_def)
  show ?case
  proof (cases "k \<le> k'")
    case True
    then show ?thesis using Cons.prems e by (auto simp: bt_wf_def)
  next
    case False
    then have "\<forall>x \<in> fst ` set (bt_insert k v m). k' < x"
      using Cons.prems e unfolding set_bt_insert_keys by (auto simp: bt_wf_def)
    then show ?thesis using IH e False by (auto simp: bt_wf_def)
  qed
qed

lemma bt_wf_retain: "bt_wf m \<Longrightarrow> bt_wf (bt_retain p m)"
  using sorted_wrt_filter[of "(<)" "map fst m" p]
  by (simp add: bt_wf_def bt_retain_def filter_map comp_def)

lemma bt_get_insert: "bt_wf m \<Longrightarrow> bt_get (bt_insert k v m) = (bt_get m)(k \<mapsto> v)"
proof (induction m)
  case (Cons e m)
  obtain k' v' where e: "e = (k', v')" by (cases e)
  have "bt_wf m" using Cons.prems by (simp add: bt_wf_def)
  then have "bt_get (bt_insert k v m) = (bt_get m)(k \<mapsto> v)" by (rule Cons.IH)
  then have "bt_get (bt_insert k v m) x = ((bt_get m)(k \<mapsto> v)) x" for x by simp
  then show ?case using e by (auto simp: bt_get_def fun_eq_iff split: if_splits)
qed (auto simp: bt_get_def fun_eq_iff)

lemma bt_get_retain: "bt_wf m \<Longrightarrow> bt_get (bt_retain p m) k = (if p k then bt_get m k else None)"
  by (induction m) (auto simp: bt_get_def bt_retain_def bt_wf_def map_of_eq_None_iff)

lemma bt_get_remove: "bt_wf m \<Longrightarrow> bt_get (bt_remove k m) = (bt_get m)(k := None)"
  by (auto simp: bt_remove_def bt_get_retain fun_eq_iff)

lemma bt_wf_remove: "bt_wf m \<Longrightarrow> bt_wf (bt_remove k m)"
  by (simp add: bt_remove_def bt_wf_retain)

lemma set_bt_keys: "set (bt_keys m) = dom (bt_get m)"
  by (simp add: bt_keys_def bt_get_def[abs_def] dom_map_of_conv_image_fst)

interpretation bt: dict "bt_get :: ('k::linorder, 'v) btree_map \<Rightarrow> 'k \<Rightarrow> 'v option"
  bt_insert bt_retain bt_wf
  by unfold_locales (simp_all add: bt_get_insert bt_get_retain bt_wf_insert bt_wf_retain)

lemmas [map_simps] = bt_get_insert bt_get_retain bt_get_remove bt_wf_insert bt_wf_retain
  bt_wf_remove bt_wf_Nil

lemma bt_wf_of_list: "bt_wf (bt_of_list es)"
  unfolding bt_of_list_def by (rule bt.ok_fold_put) simp

lemma bt_wf_unique: "bt_wf m \<Longrightarrow> bt_wf n \<Longrightarrow> bt_get m = bt_get n \<Longrightarrow> m = n"
proof (induction m arbitrary: n)
  case Nil
  then show ?case by (cases n) (auto simp: bt_get_def fun_eq_iff split: if_splits)
next
  case (Cons e m)
  obtain k v where e: "e = (k, v)" by (cases e)
  have ne: "n \<noteq> []" using fun_cong[OF Cons.prems(3), of k] e by (auto simp: bt_get_def)
  then obtain k' v' n' where n: "n = (k', v') # n'" by (cases n) auto
  have lt: "\<forall>x \<in> fst ` set m. k < x" "\<forall>x \<in> fst ` set n'. k' < x"
    using Cons.prems e n by (auto simp: bt_wf_def)
  have d: "insert k (fst ` set m) = insert k' (fst ` set n')"
    using set_bt_keys[of "e # m"] set_bt_keys[of n] Cons.prems(3) e n by (simp add: bt_keys_def)
  have kk: "k = k'"
    using lt d by (metis insertE insertI1 not_less_iff_gr_or_eq)
  have nm: "k \<notin> fst ` set m" "k \<notin> fst ` set n'" using lt kk by auto
  have eq: "bt_get ((k, v) # m) x = bt_get ((k, v') # n') x" for x
    using Cons.prems(3) e n kk by simp
  have vv: "v = v'" using eq[of k] by (simp add: bt_get_def)
  have "bt_get m = bt_get n'"
  proof
    fix x
    show "bt_get m x = bt_get n' x"
      using eq[of x] nm by (cases "x = k") (auto simp: bt_get_def map_of_eq_None_iff[THEN iffD2])
  qed
  then show ?case using Cons e n kk vv by (auto simp: bt_wf_def)
qed

section \<open>\<open>BTreeSet\<close>\<close>

fun bs_insert :: "'a::linorder \<Rightarrow> 'a list \<Rightarrow> 'a list" where
  "bs_insert x [] = [x]"
| "bs_insert x (y # ys) = (if x < y then x # y # ys else if x = y then y # ys else y # bs_insert x ys)"

definition bs_wf :: "'a::linorder list \<Rightarrow> bool" where
  "bs_wf s = sorted_wrt (<) s"

definition bs_contains :: "'a \<Rightarrow> 'a list \<Rightarrow> bool" where
  "bs_contains x s = (x \<in> set s)"

definition bs_retain :: "('a \<Rightarrow> bool) \<Rightarrow> 'a list \<Rightarrow> 'a list" where
  "bs_retain p s = filter p s"

definition bs_remove :: "'a \<Rightarrow> 'a list \<Rightarrow> 'a list" where
  "bs_remove x s = bs_retain (\<lambda>y. y \<noteq> x) s"

definition bs_of_list :: "'a::linorder list \<Rightarrow> 'a list" where
  "bs_of_list xs = fold bs_insert xs []"

lemma set_bs_insert [simp]: "set (bs_insert x s) = insert x (set s)"
  by (induction s) auto

lemma bs_wf_Nil [simp]: "bs_wf []"
  by (simp add: bs_wf_def)

lemma bs_wf_insert: "bs_wf s \<Longrightarrow> bs_wf (bs_insert x s)"
  unfolding bs_wf_def by (induction s) auto

lemma bs_wf_retain: "bs_wf s \<Longrightarrow> bs_wf (bs_retain p s)"
  by (simp add: bs_wf_def bs_retain_def sorted_wrt_filter)

lemma set_bs_retain [simp]: "set (bs_retain p s) = {x \<in> set s. p x}"
  by (auto simp: bs_retain_def)

lemma set_bs_remove [simp]: "set (bs_remove x s) = set s - {x}"
  by (auto simp: bs_remove_def)

interpretation bs: finset bs_contains "bs_insert :: 'a::linorder \<Rightarrow> 'a list \<Rightarrow> 'a list" bs_retain bs_wf
  by unfold_locales (auto simp: bs_contains_def bs_wf_insert bs_wf_retain)

lemma set_bs_of_list [simp]: "set (bs_of_list xs) = set xs"
  using bs.mem_fold_add[of "[]" _ "\<lambda>x. x" xs] by (auto simp: bs_of_list_def bs_contains_def)

lemma bs_wf_of_list: "bs_wf (bs_of_list xs)"
  unfolding bs_of_list_def using bs.ok_fold_add[of "[]" "\<lambda>x. x"] by simp

lemma bs_wf_distinct: "bs_wf s \<Longrightarrow> distinct s"
  by (simp add: bs_wf_def strict_sorted_iff)

lemma bs_wf_unique: "bs_wf s \<Longrightarrow> bs_wf t \<Longrightarrow> set s = set t \<Longrightarrow> s = t"
  by (simp add: bs_wf_def strict_sorted_equal)

lemmas [map_simps] = bs_wf_insert bs_wf_retain bs_wf_Nil

end
