(* ===== verification/Json.thy ===== *)
theory Json
  imports Complex_Main Maps "HOL-Library.Word"
begin

text \<open>
  \<open>serde_json::Value\<close> and the fixed-width integers of the program.  An object is a \<open>BTreeMap\<close> (the
  crate is built without \<open>preserve_order\<close>), so it is a sorted association list.  A number is
  \<open>PosInt(u64)\<close>, \<open>NegInt(i64)\<close> or a finite float; the crate never holds a NaN or an infinity, and
  its equality identifies the two zeros, so a float is its rational value.

  The field helpers say what serde's attributes do to one field of a derived \<open>Serialize\<close>: a plain
  field is always written, an optional one only when present, a collection under
  \<open>skip_serializing_if = "is_empty"\<close> only when not empty, a flag under \<open>Not::not\<close> only when set.
\<close>

type_synonym u8 = "8 word"
type_synonym u16 = "16 word"
type_synonym u32 = "32 word"
type_synonym u64 = "64 word"
type_synonym usize = "64 word"

datatype jnum = PosInt nat | NegInt int | JFloat rat

datatype json =
    JNull
  | JBool bool
  | JNumber jnum
  | JString string
  | JArray "json list"
  | JObject "(string \<times> json) list"

section \<open>Accessors\<close>

text \<open>\<open>Value::get\<close> with a string index: only an object answers.\<close>

fun jget :: "json \<Rightarrow> string \<Rightarrow> json option" where
  "jget (JObject m) k = bt_get m k"
| "jget _ k = None"

fun as_str :: "json \<Rightarrow> string option" where
  "as_str (JString s) = Some s"
| "as_str _ = None"

fun as_bool :: "json \<Rightarrow> bool option" where
  "as_bool (JBool b) = Some b"
| "as_bool _ = None"

fun as_u64 :: "json \<Rightarrow> nat option" where
  "as_u64 (JNumber (PosInt n)) = Some n"
| "as_u64 _ = None"

fun as_array :: "json \<Rightarrow> json list option" where
  "as_array (JArray xs) = Some xs"
| "as_array _ = None"

fun as_object :: "json \<Rightarrow> (string \<times> json) list option" where
  "as_object (JObject m) = Some m"
| "as_object _ = None"

text \<open>Every object inside a value is a sorted map, as every \<open>serde_json::Map\<close> is.\<close>

fun json_wf :: "json \<Rightarrow> bool" where
  "json_wf (JArray xs) = list_all json_wf xs"
| "json_wf (JObject m) = (bt_wf m \<and> list_all (\<lambda>e. json_wf (snd e)) m)"
| "json_wf _ = True"

section \<open>Serialized fields\<close>

type_synonym fields = "(string \<times> json) list"

definition fld :: "string \<Rightarrow> json \<Rightarrow> fields" where
  "fld n v = [(n, v)]"

definition opt_fld :: "string \<Rightarrow> ('a \<Rightarrow> json) \<Rightarrow> 'a option \<Rightarrow> fields" where
  "opt_fld n f v = (case v of None \<Rightarrow> [] | Some x \<Rightarrow> [(n, f x)])"

definition list_fld :: "string \<Rightarrow> ('a \<Rightarrow> json) \<Rightarrow> 'a list \<Rightarrow> fields" where
  "list_fld n f xs = (if xs = [] then [] else [(n, JArray (map f xs))])"

definition flag_fld :: "string \<Rightarrow> bool \<Rightarrow> fields" where
  "flag_fld n b = (if b then [(n, JBool True)] else [])"

definition jword :: "'a::len word \<Rightarrow> json" where
  "jword w = JNumber (PosInt (unat w))"

definition jstrs :: "string list \<Rightarrow> json" where
  "jstrs xs = JArray (map JString xs)"

definition jstr_map :: "(string, string) btree_map \<Rightarrow> json" where
  "jstr_map m = JObject (map (apsnd JString) m)"

definition map_fld :: "string \<Rightarrow> (string, string) btree_map \<Rightarrow> fields" where
  "map_fld n m = (if m = [] then [] else [(n, jstr_map m)])"

text \<open>
  A struct becomes an object: its fields are inserted in order, so under \<open>#[serde(flatten)]\<close> an
  entry of \<open>extra\<close> is inserted after the struct's own fields.
\<close>

definition jstruct :: "fields \<Rightarrow> json" where
  "jstruct fs = JObject (bt_of_list fs)"

lemma bt_wf_jstr_map: "bt_wf m \<Longrightarrow> jstr_map m = JObject n \<Longrightarrow> bt_wf n"
  by (auto simp: jstr_map_def bt_wf_def comp_def)

lemma as_object_jstruct [simp]: "as_object (jstruct fs) = Some (bt_of_list fs)"
  by (simp add: jstruct_def)

lemma jget_jstruct: "jget (jstruct fs) k = map_of (rev fs) k"
proof -
  have "bt_get (fold (\<lambda>e. bt_insert (fst e) (snd e)) fs m) k =
      (case map_of (rev fs) k of None \<Rightarrow> bt_get m k | Some v \<Rightarrow> Some v)" if "bt_wf m" for m
    using that
  proof (induction fs arbitrary: m)
    case (Cons e fs)
    then show ?case
      by (auto simp: bt_wf_insert bt_get_insert map_add_def split: option.splits)
  qed simp
  from this[of "[]"] show ?thesis
    by (simp add: jstruct_def bt_of_list_def bt_get_def split: option.splits)
qed

end
