(* ===== verification/Schema.thy ===== *)
theory Schema
  imports Json
begin

text \<open>
  The resource types of \<open>src/config/schema.rs\<close>: every enum as a datatype, every struct as a record
  with the source's fields (prefixed, since record fields share one name space), the wire names,
  and the JSON value the derived \<open>Serialize\<close> produces, field by field in declaration order with
  the serde attributes of the source.  Comparison of resources (\<open>Diff\<close>) works on these values.

  A timestamp is kept as its serialized text, an \<open>f32\<close> as its rational value or \<open>None\<close> when it is
  not finite (serialized as \<open>null\<close>).
\<close>

section \<open>Enums\<close>

datatype backend_scheme = Http | Https | Tcp | Tcps | Udp | Dtls

fun backend_scheme_str :: "backend_scheme \<Rightarrow> string" where
  "backend_scheme_str Http = ''http''"
| "backend_scheme_str Https = ''https''"
| "backend_scheme_str Tcp = ''tcp''"
| "backend_scheme_str Tcps = ''tcps''"
| "backend_scheme_str Udp = ''udp''"
| "backend_scheme_str Dtls = ''dtls''"

definition backend_scheme_from_wire :: "string \<Rightarrow> backend_scheme option" where
  "backend_scheme_from_wire v =
     (if v = ''http'' then Some Http
      else if v = ''https'' then Some Https
      else if v = ''tcp'' then Some Tcp
      else if v = ''tcps'' then Some Tcps
      else if v = ''udp'' then Some Udp
      else if v = ''dtls'' then Some Dtls
      else if v = ''ws'' then Some Http
      else if v = ''wss'' then Some Https
      else if v = ''grpc'' then Some Http
      else if v = ''grpcs'' then Some Https
      else if v = ''h3'' then Some Https
      else if v = ''tcp_tls'' then Some Tcps
      else None)"

datatype lb_algorithm = RoundRobin | WeightedRoundRobin | LeastConnections | LeastLatency
  | ConsistentHashing | RandomLb | PassthroughLb

fun lb_algorithm_str :: "lb_algorithm \<Rightarrow> string" where
  "lb_algorithm_str RoundRobin = ''round_robin''"
| "lb_algorithm_str WeightedRoundRobin = ''weighted_round_robin''"
| "lb_algorithm_str LeastConnections = ''least_connections''"
| "lb_algorithm_str LeastLatency = ''least_latency''"
| "lb_algorithm_str ConsistentHashing = ''consistent_hashing''"
| "lb_algorithm_str RandomLb = ''random''"
| "lb_algorithm_str PassthroughLb = ''passthrough''"

datatype backend_proxy_protocol = V2

fun backend_proxy_protocol_str :: "backend_proxy_protocol \<Rightarrow> string" where
  "backend_proxy_protocol_str V2 = ''v2''"

datatype mesh_sd_topology = Ambient | Sidecar

fun mesh_sd_topology_str :: "mesh_sd_topology \<Rightarrow> string" where
  "mesh_sd_topology_str Ambient = ''ambient''"
| "mesh_sd_topology_str Sidecar = ''sidecar''"

datatype sd_stale_policy = Retain | Withdraw | FailReadiness

fun sd_stale_policy_str :: "sd_stale_policy \<Rightarrow> string" where
  "sd_stale_policy_str Retain = ''retain''"
| "sd_stale_policy_str Withdraw = ''withdraw''"
| "sd_stale_policy_str FailReadiness = ''fail_readiness''"

datatype health_probe_type = HttpProbe | TcpProbe | UdpProbe | GrpcProbe

fun health_probe_type_str :: "health_probe_type \<Rightarrow> string" where
  "health_probe_type_str HttpProbe = ''http''"
| "health_probe_type_str TcpProbe = ''tcp''"
| "health_probe_type_str UdpProbe = ''udp''"
| "health_probe_type_str GrpcProbe = ''grpc''"

datatype sd_provider = DnsSd | Kubernetes | Consul | Mesh

fun sd_provider_str :: "sd_provider \<Rightarrow> string" where
  "sd_provider_str DnsSd = ''dns_sd''"
| "sd_provider_str Kubernetes = ''kubernetes''"
| "sd_provider_str Consul = ''consul''"
| "sd_provider_str Mesh = ''mesh''"

datatype auth_mode = Single | Multi

fun auth_mode_str :: "auth_mode \<Rightarrow> string" where
  "auth_mode_str Single = ''single''"
| "auth_mode_str Multi = ''multi''"

datatype response_body_mode = Stream | Buffer

fun response_body_mode_str :: "response_body_mode \<Rightarrow> string" where
  "response_body_mode_str Stream = ''stream''"
| "response_body_mode_str Buffer = ''buffer''"

datatype plugin_scope = Global | ProxyScope | ProxyGroup

fun plugin_scope_str :: "plugin_scope \<Rightarrow> string" where
  "plugin_scope_str Global = ''global''"
| "plugin_scope_str ProxyScope = ''proxy''"
| "plugin_scope_str ProxyGroup = ''proxy_group''"

section \<open>Upstream parts\<close>

record plugin_association =
  pa_plugin_config_id :: string

definition plugin_association_to_value :: "plugin_association \<Rightarrow> json" where
  "plugin_association_to_value a = jstruct (fld ''plugin_config_id'' (JString (pa_plugin_config_id a)))"

record upstream_target =
  ut_host :: string
  ut_port :: u16
  ut_weight :: u32
  ut_tags :: "(string, string) btree_map"
  ut_locality :: "string option"
  ut_path :: "string option"

definition upstream_target_to_value :: "upstream_target \<Rightarrow> json" where
  "upstream_target_to_value t = jstruct
     (fld ''host'' (JString (ut_host t)) @ fld ''port'' (jword (ut_port t)) @
      fld ''weight'' (jword (ut_weight t)) @ fld ''tags'' (jstr_map (ut_tags t)) @
      opt_fld ''locality'' JString (ut_locality t) @ opt_fld ''path'' JString (ut_path t))"

record subset_traffic_policy =
  stp_load_balancer_algorithm :: "lb_algorithm option"
  stp_hash_on :: "string option"

definition subset_traffic_policy_to_value :: "subset_traffic_policy \<Rightarrow> json" where
  "subset_traffic_policy_to_value p = jstruct
     (opt_fld ''load_balancer_algorithm'' (JString \<circ> lb_algorithm_str)
        (stp_load_balancer_algorithm p) @
      opt_fld ''hash_on'' JString (stp_hash_on p))"

record subset_definition =
  sub_name :: string
  sub_labels :: "(string, string) btree_map"
  sub_traffic_policy :: "subset_traffic_policy option"

definition subset_definition_to_value :: "subset_definition \<Rightarrow> json" where
  "subset_definition_to_value s = jstruct
     (fld ''name'' (JString (sub_name s)) @ fld ''labels'' (jstr_map (sub_labels s)) @
      opt_fld ''traffic_policy'' subset_traffic_policy_to_value (sub_traffic_policy s))"

record active_health_check =
  ahc_http_path :: string
  ahc_interval_seconds :: u64
  ahc_timeout_ms :: u64
  ahc_healthy_threshold :: u32
  ahc_unhealthy_threshold :: u32
  ahc_healthy_status_codes :: "u16 list"
  ahc_use_tls :: bool
  ahc_probe_type :: health_probe_type
  ahc_udp_probe_payload :: "string option"
  ahc_grpc_service_name :: "string option"

definition active_health_check_to_value :: "active_health_check \<Rightarrow> json" where
  "active_health_check_to_value a = jstruct
     (fld ''http_path'' (JString (ahc_http_path a)) @
      fld ''interval_seconds'' (jword (ahc_interval_seconds a)) @
      fld ''timeout_ms'' (jword (ahc_timeout_ms a)) @
      fld ''healthy_threshold'' (jword (ahc_healthy_threshold a)) @
      fld ''unhealthy_threshold'' (jword (ahc_unhealthy_threshold a)) @
      fld ''healthy_status_codes'' (JArray (map jword (ahc_healthy_status_codes a))) @
      fld ''use_tls'' (JBool (ahc_use_tls a)) @
      fld ''probe_type'' (JString (health_probe_type_str (ahc_probe_type a))) @
      opt_fld ''udp_probe_payload'' JString (ahc_udp_probe_payload a) @
      opt_fld ''grpc_service_name'' JString (ahc_grpc_service_name a))"

record passive_health_check =
  phc_unhealthy_status_codes :: "u16 list"
  phc_unhealthy_threshold :: u32
  phc_unhealthy_window_seconds :: u64
  phc_healthy_after_seconds :: u64
  phc_max_ejection_percent :: "u8 option"
  phc_gateway_error_codes :: "u16 list option"
  phc_split_external_local_origin_errors :: "bool option"
  phc_consecutive_error_mode :: bool
  phc_consecutive_5xx_ejection_disabled :: bool

definition passive_health_check_to_value :: "passive_health_check \<Rightarrow> json" where
  "passive_health_check_to_value p = jstruct
     (fld ''unhealthy_status_codes'' (JArray (map jword (phc_unhealthy_status_codes p))) @
      fld ''unhealthy_threshold'' (jword (phc_unhealthy_threshold p)) @
      fld ''unhealthy_window_seconds'' (jword (phc_unhealthy_window_seconds p)) @
      fld ''healthy_after_seconds'' (jword (phc_healthy_after_seconds p)) @
      opt_fld ''max_ejection_percent'' jword (phc_max_ejection_percent p) @
      opt_fld ''gateway_error_codes'' (\<lambda>xs. JArray (map jword xs)) (phc_gateway_error_codes p) @
      opt_fld ''split_external_local_origin_errors'' JBool
        (phc_split_external_local_origin_errors p) @
      flag_fld ''consecutive_error_mode'' (phc_consecutive_error_mode p) @
      flag_fld ''consecutive_5xx_ejection_disabled'' (phc_consecutive_5xx_ejection_disabled p))"

record health_check_config =
  hcc_active :: "active_health_check option"
  hcc_passive :: "passive_health_check option"

definition health_check_config_to_value :: "health_check_config \<Rightarrow> json" where
  "health_check_config_to_value h = jstruct
     (opt_fld ''active'' active_health_check_to_value (hcc_active h) @
      opt_fld ''passive'' passive_health_check_to_value (hcc_passive h))"

record hash_on_cookie_config =
  hoc_path :: string
  hoc_ttl_seconds :: u64
  hoc_session_cookie :: bool
  hoc_domain :: "string option"
  hoc_http_only :: bool
  hoc_secure :: bool
  hoc_same_site :: "string option"

definition hash_on_cookie_config_to_value :: "hash_on_cookie_config \<Rightarrow> json" where
  "hash_on_cookie_config_to_value h = jstruct
     (fld ''path'' (JString (hoc_path h)) @ fld ''ttl_seconds'' (jword (hoc_ttl_seconds h)) @
      flag_fld ''session_cookie'' (hoc_session_cookie h) @
      opt_fld ''domain'' JString (hoc_domain h) @ fld ''http_only'' (JBool (hoc_http_only h)) @
      fld ''secure'' (JBool (hoc_secure h)) @ opt_fld ''same_site'' JString (hoc_same_site h))"

section \<open>Service discovery\<close>

record dns_sd_config =
  dns_service_name :: string
  dns_poll_interval_seconds :: u64

definition dns_sd_config_to_value :: "dns_sd_config \<Rightarrow> json" where
  "dns_sd_config_to_value d = jstruct
     (fld ''service_name'' (JString (dns_service_name d)) @
      fld ''poll_interval_seconds'' (jword (dns_poll_interval_seconds d)))"

record kubernetes_config =
  k8s_namespace :: string
  k8s_service_name :: string
  k8s_port_name :: "string option"
  k8s_address_type :: "string option"
  k8s_label_selector :: "string option"
  k8s_poll_interval_seconds :: u64

definition kubernetes_config_to_value :: "kubernetes_config \<Rightarrow> json" where
  "kubernetes_config_to_value k = jstruct
     (fld ''namespace'' (JString (k8s_namespace k)) @
      fld ''service_name'' (JString (k8s_service_name k)) @
      opt_fld ''port_name'' JString (k8s_port_name k) @
      opt_fld ''address_type'' JString (k8s_address_type k) @
      opt_fld ''label_selector'' JString (k8s_label_selector k) @
      fld ''poll_interval_seconds'' (jword (k8s_poll_interval_seconds k)))"

record consul_config =
  consul_address :: string
  consul_service_name :: string
  consul_datacenter :: "string option"
  consul_tag :: "string option"
  consul_healthy_only :: bool
  consul_token :: "string option"
  consul_poll_interval_seconds :: u64

definition consul_config_to_value :: "consul_config \<Rightarrow> json" where
  "consul_config_to_value c = jstruct
     (fld ''address'' (JString (consul_address c)) @
      fld ''service_name'' (JString (consul_service_name c)) @
      opt_fld ''datacenter'' JString (consul_datacenter c) @
      opt_fld ''tag'' JString (consul_tag c) @
      fld ''healthy_only'' (JBool (consul_healthy_only c)) @
      opt_fld ''token'' JString (consul_token c) @
      fld ''poll_interval_seconds'' (jword (consul_poll_interval_seconds c)))"

record mesh_sd_config =
  msd_service_name :: string
  msd_namespace :: "string option"
  msd_port :: "u16 option"
  msd_poll_interval_seconds :: u64
  msd_topology :: mesh_sd_topology

definition mesh_sd_config_to_value :: "mesh_sd_config \<Rightarrow> json" where
  "mesh_sd_config_to_value m = jstruct
     (fld ''service_name'' (JString (msd_service_name m)) @
      opt_fld ''namespace'' JString (msd_namespace m) @
      opt_fld ''port'' jword (msd_port m) @
      fld ''poll_interval_seconds'' (jword (msd_poll_interval_seconds m)) @
      (if msd_topology m = Ambient then []
       else fld ''topology'' (JString (mesh_sd_topology_str (msd_topology m)))))"

record service_discovery_config =
  sd_provider :: sd_provider
  sd_dns_sd :: "dns_sd_config option"
  sd_kubernetes :: "kubernetes_config option"
  sd_consul :: "consul_config option"
  sd_mesh :: "mesh_sd_config option"
  sd_max_stale_seconds :: "u64 option"
  sd_stale_policy :: "sd_stale_policy option"
  sd_default_weight :: u32

definition service_discovery_config_to_value :: "service_discovery_config \<Rightarrow> json" where
  "service_discovery_config_to_value s = jstruct
     (fld ''provider'' (JString (sd_provider_str (sd_provider s))) @
      opt_fld ''dns_sd'' dns_sd_config_to_value (sd_dns_sd s) @
      opt_fld ''kubernetes'' kubernetes_config_to_value (sd_kubernetes s) @
      opt_fld ''consul'' consul_config_to_value (sd_consul s) @
      opt_fld ''mesh'' mesh_sd_config_to_value (sd_mesh s) @
      opt_fld ''max_stale_seconds'' jword (sd_max_stale_seconds s) @
      opt_fld ''stale_policy'' (JString \<circ> sd_stale_policy_str) (sd_stale_policy s) @
      fld ''default_weight'' (jword (sd_default_weight s)))"

end
