(* ===== verification/Resources.thy ===== *)
theory Resources
  imports Schema
begin

text \<open>
  The second half of \<open>src/config/schema.rs\<close>: traffic policy types, the plugin trigger tree, the four
  managed resources (\<open>Proxy\<close>, \<open>Consumer\<close>, \<open>Upstream\<close>, \<open>PluginConfig\<close>), the configuration that holds
  them, the mesh document and the \<open>Resource\<close> file wrapper, each with the value \<open>Serialize\<close> gives.
  The last section states what every resource offers to code that is generic in the kind.
\<close>

section \<open>Defaults of absent fields\<close>

definition default_namespace :: string where "default_namespace = ''ferrum''"
definition default_config_version :: string where "default_config_version = ''1''"
definition default_connect_timeout :: u64 where "default_connect_timeout = 5000"
definition default_read_timeout :: u64 where "default_read_timeout = 30000"
definition default_write_timeout :: u64 where "default_write_timeout = 30000"
definition default_udp_idle_timeout :: u64 where "default_udp_idle_timeout = 60"

section \<open>Resilience\<close>

datatype backoff_strategy = Fixed (delay_ms: u64) | Exponential (base_ms: u64) (max_ms: u64)

fun backoff_strategy_to_value :: "backoff_strategy \<Rightarrow> json" where
  "backoff_strategy_to_value (Fixed d) =
     jstruct (fld ''fixed'' (jstruct (fld ''delay_ms'' (jword d))))"
| "backoff_strategy_to_value (Exponential b m) =
     jstruct (fld ''exponential''
       (jstruct (fld ''base_ms'' (jword b) @ fld ''max_ms'' (jword m))))"

definition backoff_strategy_default :: backoff_strategy where
  "backoff_strategy_default = Fixed 100"

record circuit_breaker_config =
  cb_failure_threshold :: u32
  cb_success_threshold :: u32
  cb_timeout_seconds :: u64
  cb_failure_status_codes :: "u16 list"
  cb_half_open_max_requests :: u32
  cb_trip_on_connection_errors :: bool

definition circuit_breaker_config_to_value :: "circuit_breaker_config \<Rightarrow> json" where
  "circuit_breaker_config_to_value c = jstruct
     (fld ''failure_threshold'' (jword (cb_failure_threshold c)) @
      fld ''success_threshold'' (jword (cb_success_threshold c)) @
      fld ''timeout_seconds'' (jword (cb_timeout_seconds c)) @
      fld ''failure_status_codes'' (JArray (map jword (cb_failure_status_codes c))) @
      fld ''half_open_max_requests'' (jword (cb_half_open_max_requests c)) @
      fld ''trip_on_connection_errors'' (JBool (cb_trip_on_connection_errors c)))"

record retry_config =
  rc_max_retries :: u32
  rc_retryable_status_codes :: "u16 list"
  rc_retryable_methods :: "string list"
  rc_backoff :: backoff_strategy
  rc_retry_on_connect_failure :: bool

definition retry_config_to_value :: "retry_config \<Rightarrow> json" where
  "retry_config_to_value r = jstruct
     (fld ''max_retries'' (jword (rc_max_retries r)) @
      fld ''retryable_status_codes'' (JArray (map jword (rc_retryable_status_codes r))) @
      fld ''retryable_methods'' (jstrs (rc_retryable_methods r)) @
      fld ''backoff'' (backoff_strategy_to_value (rc_backoff r)) @
      fld ''retry_on_connect_failure'' (JBool (rc_retry_on_connect_failure r)))"

section \<open>Stream match predicates\<close>

record stream_match_arm =
  sma_source_labels :: "(string, string) btree_map"
  sma_source_namespace :: "string option"
  sma_source_subnets :: "string list"
  sma_destination_subnets :: "string list"
  sma_gateways :: "string list"

definition stream_match_arm_to_value :: "stream_match_arm \<Rightarrow> json" where
  "stream_match_arm_to_value a = jstruct
     (map_fld ''source_labels'' (sma_source_labels a) @
      opt_fld ''source_namespace'' JString (sma_source_namespace a) @
      list_fld ''source_subnets'' JString (sma_source_subnets a) @
      list_fld ''destination_subnets'' JString (sma_destination_subnets a) @
      list_fld ''gateways'' JString (sma_gateways a))"

record stream_match_criteria =
  smc_arms :: "stream_match_arm list"

definition stream_match_criteria_to_value :: "stream_match_criteria \<Rightarrow> json" where
  "stream_match_criteria_to_value c =
     jstruct (list_fld ''arms'' stream_match_arm_to_value (smc_arms c))"

section \<open>Plugin triggers\<close>

datatype trigger_presence = Present | Absent

fun trigger_presence_str :: "trigger_presence \<Rightarrow> string" where
  "trigger_presence_str Present = ''present''"
| "trigger_presence_str Absent = ''absent''"

datatype trigger_multi_value = AnyValue | AllValues

fun trigger_multi_value_str :: "trigger_multi_value \<Rightarrow> string" where
  "trigger_multi_value_str AnyValue = ''any''"
| "trigger_multi_value_str AllValues = ''all''"

datatype trigger_protocol = TpHttp1 | TpHttp2 | TpHttp3 | TpGrpc | TpGrpcWeb | TpWebsocket
  | TpTcp | TpUdp | TpDtls

fun trigger_protocol_str :: "trigger_protocol \<Rightarrow> string" where
  "trigger_protocol_str TpHttp1 = ''http1''"
| "trigger_protocol_str TpHttp2 = ''http2''"
| "trigger_protocol_str TpHttp3 = ''http3''"
| "trigger_protocol_str TpGrpc = ''grpc''"
| "trigger_protocol_str TpGrpcWeb = ''grpc_web''"
| "trigger_protocol_str TpWebsocket = ''websocket''"
| "trigger_protocol_str TpTcp = ''tcp''"
| "trigger_protocol_str TpUdp = ''udp''"
| "trigger_protocol_str TpDtls = ''dtls''"

record trigger_string_match =
  tsm_exact :: "string list option"
  tsm_prefix :: "string list option"
  tsm_regex :: "string option"
  tsm_case_insensitive :: bool

definition trigger_string_match_to_value :: "trigger_string_match \<Rightarrow> json" where
  "trigger_string_match_to_value m = jstruct
     (opt_fld ''exact'' jstrs (tsm_exact m) @ opt_fld ''prefix'' jstrs (tsm_prefix m) @
      opt_fld ''regex'' JString (tsm_regex m) @
      flag_fld ''case_insensitive'' (tsm_case_insensitive m))"

record trigger_field_match =
  tfm_name :: string
  tfm_presence :: trigger_presence
  tfm_value :: "trigger_string_match option"
  tfm_multi_value :: trigger_multi_value

definition trigger_field_match_to_value :: "trigger_field_match \<Rightarrow> json" where
  "trigger_field_match_to_value m = jstruct
     (fld ''name'' (JString (tfm_name m)) @
      fld ''presence'' (JString (trigger_presence_str (tfm_presence m))) @
      opt_fld ''value'' trigger_string_match_to_value (tfm_value m) @
      fld ''multi_value'' (JString (trigger_multi_value_str (tfm_multi_value m))))"

record trigger_identity_match =
  tim_presence :: trigger_presence
  tim_value :: "trigger_string_match option"

definition trigger_identity_match_to_value :: "trigger_identity_match \<Rightarrow> json" where
  "trigger_identity_match_to_value m = jstruct
     (fld ''presence'' (JString (trigger_presence_str (tim_presence m))) @
      opt_fld ''value'' trigger_string_match_to_value (tim_value m))"

record trigger_match =
  tm_method :: "string list option"
  tm_path :: "trigger_string_match option"
  tm_host :: "trigger_string_match option"
  tm_sni :: "trigger_string_match option"
  tm_header :: "trigger_field_match option"
  tm_query :: "trigger_field_match option"
  tm_cookie :: "trigger_field_match option"
  tm_protocol :: "trigger_protocol list option"
  tm_source_cidr :: "string list option"
  tm_namespace :: "string list option"
  tm_proxy_id :: "string list option"
  tm_listen_port :: "u16 list option"
  tm_consumer :: "trigger_identity_match option"
  tm_auth_method :: "string list option"
  tm_spiffe_id :: "trigger_identity_match option"

definition trigger_match_to_value :: "trigger_match \<Rightarrow> json" where
  "trigger_match_to_value m = jstruct
     (opt_fld ''method'' jstrs (tm_method m) @
      opt_fld ''path'' trigger_string_match_to_value (tm_path m) @
      opt_fld ''host'' trigger_string_match_to_value (tm_host m) @
      opt_fld ''sni'' trigger_string_match_to_value (tm_sni m) @
      opt_fld ''header'' trigger_field_match_to_value (tm_header m) @
      opt_fld ''query'' trigger_field_match_to_value (tm_query m) @
      opt_fld ''cookie'' trigger_field_match_to_value (tm_cookie m) @
      opt_fld ''protocol'' (\<lambda>ps. jstrs (map trigger_protocol_str ps)) (tm_protocol m) @
      opt_fld ''source_cidr'' jstrs (tm_source_cidr m) @
      opt_fld ''namespace'' jstrs (tm_namespace m) @
      opt_fld ''proxy_id'' jstrs (tm_proxy_id m) @
      opt_fld ''listen_port'' (\<lambda>ps. JArray (map jword ps)) (tm_listen_port m) @
      opt_fld ''consumer'' trigger_identity_match_to_value (tm_consumer m) @
      opt_fld ''auth_method'' jstrs (tm_auth_method m) @
      opt_fld ''spiffe_id'' trigger_identity_match_to_value (tm_spiffe_id m))"

datatype trigger_node = TriggerNode
  (tn_all: "trigger_node list option")
  (tn_any: "trigger_node list option")
  (tn_not: "trigger_node option")
  (tn_match: "trigger_match option")

primrec trigger_node_to_value :: "trigger_node \<Rightarrow> json" where
  "trigger_node_to_value (TriggerNode al an nt mt) = jstruct
     (opt_fld ''all'' JArray (map_option (map trigger_node_to_value) al) @
      opt_fld ''any'' JArray (map_option (map trigger_node_to_value) an) @
      opt_fld ''not'' (\<lambda>v. v) (map_option trigger_node_to_value nt) @
      opt_fld ''match'' trigger_match_to_value mt)"

record plugin_trigger =
  pt_when :: trigger_node

definition plugin_trigger_to_value :: "plugin_trigger \<Rightarrow> json" where
  "plugin_trigger_to_value t = jstruct (fld ''when'' (trigger_node_to_value (pt_when t)))"

end
