(* ===== verification/Managed.thy ===== *)
theory Managed
  imports Resources
begin

text \<open>
  The four managed resources of \<open>src/config/schema.rs\<close> as records, with the value the derived
  \<open>Serialize\<close> gives each (its fields in declaration order, then the flattened unknown fields), the
  configuration that holds them, the mesh document, and the interface a managed kind offers to the
  code that is generic in the kind.
\<close>

text \<open>An \<open>f32\<close>: a finite one as its value, any other is serialized as \<open>null\<close>.\<close>

definition jf32 :: "rat option \<Rightarrow> json" where
  "jf32 v = (case v of None \<Rightarrow> JNull | Some q \<Rightarrow> JNumber (JFloat q))"

section \<open>The managed resources\<close>

record proxy =
  p_labels :: "(string, string) btree_map"
  p_id :: string
  p_name :: "string option"
  p_namespace :: string
  p_hosts :: "string list"
  p_listen_path :: "string option"
  p_backend_scheme :: "backend_scheme option"
  p_backend_host :: string
  p_backend_port :: u16
  p_backend_path :: "string option"
  p_strip_listen_path :: bool
  p_preserve_host_header :: bool
  p_allow_path_parameters :: bool
  p_backend_connect_timeout_ms :: u64
  p_backend_read_timeout_ms :: u64
  p_backend_write_timeout_ms :: u64
  p_backend_tls_client_cert_path :: "string option"
  p_backend_tls_client_key_path :: "string option"
  p_backend_tls_verify_server_cert :: bool
  p_backend_tls_server_ca_cert_path :: "string option"
  p_dns_override :: "string option"
  p_dns_cache_ttl_seconds :: "u64 option"
  p_auth_mode :: auth_mode
  p_plugins :: "plugin_association list"
  p_pool_idle_timeout_seconds :: "u64 option"
  p_pool_enable_http_keep_alive :: "bool option"
  p_pool_enable_http2 :: "bool option"
  p_pool_tcp_keepalive_seconds :: "u64 option"
  p_pool_http2_keep_alive_interval_seconds :: "u64 option"
  p_pool_http2_keep_alive_timeout_seconds :: "u64 option"
  p_pool_http2_initial_stream_window_size :: "u32 option"
  p_pool_http2_initial_connection_window_size :: "u32 option"
  p_pool_http2_adaptive_window :: "bool option"
  p_pool_http2_max_frame_size :: "u32 option"
  p_pool_http2_max_concurrent_streams :: "u32 option"
  p_pool_http3_connections_per_backend :: "usize option"
  p_pool_max_requests_per_connection :: "u64 option"
  p_upstream_id :: "string option"
  p_upstream_subset :: "string option"
  p_api_spec_id :: "string option"
  p_circuit_breaker :: "circuit_breaker_config option"
  p_retry :: "retry_config option"
  p_response_body_mode :: response_body_mode
  p_listen_port :: "u16 option"
  p_frontend_tls :: bool
  p_passthrough :: bool
  p_udp_idle_timeout_seconds :: u64
  p_udp_max_response_amplification_factor :: "rat option option"
  p_tcp_idle_timeout_seconds :: "u64 option"
  p_websocket_idle_timeout_seconds :: "u64 option"
  p_stream_proxy_protocol :: "bool option"
  p_backend_proxy_protocol :: "backend_proxy_protocol option"
  p_stream_match :: "stream_match_criteria option"
  p_allowed_methods :: "string list option"
  p_allowed_ws_origins :: "string list"
  p_created_at :: "string option"
  p_updated_at :: "string option"
  p_extra :: "(string, json) btree_map"

definition proxy_to_value :: "proxy \<Rightarrow> json" where
  "proxy_to_value r = jstruct
     (map_fld ''labels'' (p_labels r) @
      fld ''id'' (JString (p_id r)) @
      opt_fld ''name'' JString (p_name r) @
      fld ''namespace'' (JString (p_namespace r)) @
      fld ''hosts'' (jstrs (p_hosts r)) @
      opt_fld ''listen_path'' JString (p_listen_path r) @
      opt_fld ''backend_scheme'' (JString \<circ> backend_scheme_str) (p_backend_scheme r) @
      fld ''backend_host'' (JString (p_backend_host r)) @
      fld ''backend_port'' (jword (p_backend_port r)) @
      opt_fld ''backend_path'' JString (p_backend_path r) @
      fld ''strip_listen_path'' (JBool (p_strip_listen_path r)) @
      fld ''preserve_host_header'' (JBool (p_preserve_host_header r)) @
      fld ''allow_path_parameters'' (JBool (p_allow_path_parameters r)) @
      fld ''backend_connect_timeout_ms'' (jword (p_backend_connect_timeout_ms r)) @
      fld ''backend_read_timeout_ms'' (jword (p_backend_read_timeout_ms r)) @
      fld ''backend_write_timeout_ms'' (jword (p_backend_write_timeout_ms r)) @
      opt_fld ''backend_tls_client_cert_path'' JString (p_backend_tls_client_cert_path r) @
      opt_fld ''backend_tls_client_key_path'' JString (p_backend_tls_client_key_path r) @
      fld ''backend_tls_verify_server_cert'' (JBool (p_backend_tls_verify_server_cert r)) @
      opt_fld ''backend_tls_server_ca_cert_path'' JString (p_backend_tls_server_ca_cert_path r) @
      opt_fld ''dns_override'' JString (p_dns_override r) @
      opt_fld ''dns_cache_ttl_seconds'' jword (p_dns_cache_ttl_seconds r) @
      fld ''auth_mode'' (JString (auth_mode_str (p_auth_mode r))) @
      fld ''plugins'' (JArray (map plugin_association_to_value (p_plugins r))) @
      opt_fld ''pool_idle_timeout_seconds'' jword (p_pool_idle_timeout_seconds r) @
      opt_fld ''pool_enable_http_keep_alive'' JBool (p_pool_enable_http_keep_alive r) @
      opt_fld ''pool_enable_http2'' JBool (p_pool_enable_http2 r) @
      opt_fld ''pool_tcp_keepalive_seconds'' jword (p_pool_tcp_keepalive_seconds r) @
      opt_fld ''pool_http2_keep_alive_interval_seconds''
        jword (p_pool_http2_keep_alive_interval_seconds r) @
      opt_fld ''pool_http2_keep_alive_timeout_seconds''
        jword (p_pool_http2_keep_alive_timeout_seconds r) @
      opt_fld ''pool_http2_initial_stream_window_size''
        jword (p_pool_http2_initial_stream_window_size r) @
      opt_fld ''pool_http2_initial_connection_window_size''
        jword (p_pool_http2_initial_connection_window_size r) @
      opt_fld ''pool_http2_adaptive_window'' JBool (p_pool_http2_adaptive_window r) @
      opt_fld ''pool_http2_max_frame_size'' jword (p_pool_http2_max_frame_size r) @
      opt_fld ''pool_http2_max_concurrent_streams'' jword (p_pool_http2_max_concurrent_streams r) @
      opt_fld ''pool_http3_connections_per_backend''
        jword (p_pool_http3_connections_per_backend r) @
      opt_fld ''pool_max_requests_per_connection'' jword (p_pool_max_requests_per_connection r) @
      opt_fld ''upstream_id'' JString (p_upstream_id r) @
      opt_fld ''upstream_subset'' JString (p_upstream_subset r) @
      opt_fld ''api_spec_id'' JString (p_api_spec_id r) @
      opt_fld ''circuit_breaker'' circuit_breaker_config_to_value (p_circuit_breaker r) @
      opt_fld ''retry'' retry_config_to_value (p_retry r) @
      fld ''response_body_mode'' (JString (response_body_mode_str (p_response_body_mode r))) @
      opt_fld ''listen_port'' jword (p_listen_port r) @
      fld ''frontend_tls'' (JBool (p_frontend_tls r)) @
      fld ''passthrough'' (JBool (p_passthrough r)) @
      fld ''udp_idle_timeout_seconds'' (jword (p_udp_idle_timeout_seconds r)) @
      opt_fld ''udp_max_response_amplification_factor''
        jf32 (p_udp_max_response_amplification_factor r) @
      opt_fld ''tcp_idle_timeout_seconds'' jword (p_tcp_idle_timeout_seconds r) @
      opt_fld ''websocket_idle_timeout_seconds'' jword (p_websocket_idle_timeout_seconds r) @
      opt_fld ''stream_proxy_protocol'' JBool (p_stream_proxy_protocol r) @
      opt_fld ''backend_proxy_protocol''
        (JString \<circ> backend_proxy_protocol_str) (p_backend_proxy_protocol r) @
      opt_fld ''stream_match'' stream_match_criteria_to_value (p_stream_match r) @
      opt_fld ''allowed_methods'' jstrs (p_allowed_methods r) @
      fld ''allowed_ws_origins'' (jstrs (p_allowed_ws_origins r)) @
      opt_fld ''created_at'' JString (p_created_at r) @
      opt_fld ''updated_at'' JString (p_updated_at r) @
      p_extra r)"

record consumer =
  c_labels :: "(string, string) btree_map"
  c_id :: string
  c_username :: string
  c_namespace :: string
  c_custom_id :: "string option"
  c_credentials :: "(string, json) btree_map"
  c_acl_groups :: "string list"
  c_created_at :: "string option"
  c_updated_at :: "string option"
  c_extra :: "(string, json) btree_map"

definition consumer_to_value :: "consumer \<Rightarrow> json" where
  "consumer_to_value r = jstruct
     (map_fld ''labels'' (c_labels r) @
      fld ''id'' (JString (c_id r)) @
      fld ''username'' (JString (c_username r)) @
      fld ''namespace'' (JString (c_namespace r)) @
      opt_fld ''custom_id'' JString (c_custom_id r) @
      fld ''credentials'' (JObject (c_credentials r)) @
      fld ''acl_groups'' (jstrs (c_acl_groups r)) @
      opt_fld ''created_at'' JString (c_created_at r) @
      opt_fld ''updated_at'' JString (c_updated_at r) @
      c_extra r)"

record upstream =
  u_labels :: "(string, string) btree_map"
  u_id :: string
  u_name :: "string option"
  u_namespace :: string
  u_targets :: "upstream_target list"
  u_algorithm :: lb_algorithm
  u_hash_on :: "string option"
  u_hash_on_cookie_config :: "hash_on_cookie_config option"
  u_health_checks :: "health_check_config option"
  u_service_discovery :: "service_discovery_config option"
  u_subsets :: "subset_definition list option"
  u_backend_tls_client_cert_path :: "string option"
  u_backend_tls_client_key_path :: "string option"
  u_backend_tls_verify_server_cert :: bool
  u_backend_tls_server_ca_cert_path :: "string option"
  u_backend_tls_sni :: "string option"
  u_backend_tls_san_allow_list :: "string list"
  u_api_spec_id :: "string option"
  u_created_at :: "string option"
  u_updated_at :: "string option"
  u_extra :: "(string, json) btree_map"

definition upstream_to_value :: "upstream \<Rightarrow> json" where
  "upstream_to_value r = jstruct
     (map_fld ''labels'' (u_labels r) @
      fld ''id'' (JString (u_id r)) @
      opt_fld ''name'' JString (u_name r) @
      fld ''namespace'' (JString (u_namespace r)) @
      fld ''targets'' (JArray (map upstream_target_to_value (u_targets r))) @
      fld ''algorithm'' (JString (lb_algorithm_str (u_algorithm r))) @
      opt_fld ''hash_on'' JString (u_hash_on r) @
      opt_fld ''hash_on_cookie_config'' hash_on_cookie_config_to_value (u_hash_on_cookie_config r) @
      opt_fld ''health_checks'' health_check_config_to_value (u_health_checks r) @
      opt_fld ''service_discovery'' service_discovery_config_to_value (u_service_discovery r) @
      opt_fld ''subsets'' (\<lambda>xs. JArray (map subset_definition_to_value xs)) (u_subsets r) @
      opt_fld ''backend_tls_client_cert_path'' JString (u_backend_tls_client_cert_path r) @
      opt_fld ''backend_tls_client_key_path'' JString (u_backend_tls_client_key_path r) @
      fld ''backend_tls_verify_server_cert'' (JBool (u_backend_tls_verify_server_cert r)) @
      opt_fld ''backend_tls_server_ca_cert_path'' JString (u_backend_tls_server_ca_cert_path r) @
      opt_fld ''backend_tls_sni'' JString (u_backend_tls_sni r) @
      list_fld ''backend_tls_san_allow_list'' JString (u_backend_tls_san_allow_list r) @
      opt_fld ''api_spec_id'' JString (u_api_spec_id r) @
      opt_fld ''created_at'' JString (u_created_at r) @
      opt_fld ''updated_at'' JString (u_updated_at r) @
      u_extra r)"

record plugin_config =
  pc_labels :: "(string, string) btree_map"
  pc_id :: string
  pc_plugin_name :: string
  pc_namespace :: string
  pc_config :: json
  pc_scope :: plugin_scope
  pc_proxy_id :: "string option"
  pc_enabled :: bool
  pc_priority_override :: "u16 option"
  pc_trigger :: "plugin_trigger option"
  pc_api_spec_id :: "string option"
  pc_created_at :: "string option"
  pc_updated_at :: "string option"
  pc_extra :: "(string, json) btree_map"

definition plugin_config_to_value :: "plugin_config \<Rightarrow> json" where
  "plugin_config_to_value r = jstruct
     (map_fld ''labels'' (pc_labels r) @
      fld ''id'' (JString (pc_id r)) @
      fld ''plugin_name'' (JString (pc_plugin_name r)) @
      fld ''namespace'' (JString (pc_namespace r)) @
      fld ''config'' (pc_config r) @
      fld ''scope'' (JString (plugin_scope_str (pc_scope r))) @
      opt_fld ''proxy_id'' JString (pc_proxy_id r) @
      fld ''enabled'' (JBool (pc_enabled r)) @
      opt_fld ''priority_override'' jword (pc_priority_override r) @
      opt_fld ''trigger'' plugin_trigger_to_value (pc_trigger r) @
      opt_fld ''api_spec_id'' JString (pc_api_spec_id r) @
      opt_fld ''created_at'' JString (pc_created_at r) @
      opt_fld ''updated_at'' JString (pc_updated_at r) @
      pc_extra r)"

definition is_conditional :: "plugin_config \<Rightarrow> bool" where
  "is_conditional pc = (pc_trigger pc \<noteq> None)"

section \<open>Credential types\<close>

definition KNOWN_CREDENTIAL_TYPES :: "string list" where
  "KNOWN_CREDENTIAL_TYPES = [''basicauth'', ''keyauth'', ''jwt'', ''hmac_auth'', ''mtls_auth'']"

definition CREDENTIAL_TYPE_SUGGESTIONS :: "(string \<times> string) list" where
  "CREDENTIAL_TYPE_SUGGESTIONS = [(''api_key'', ''keyauth''), (''basic_auth'', ''basicauth'')]"

definition is_known_credential_type :: "string \<Rightarrow> bool" where
  "is_known_credential_type key = (key \<in> set KNOWN_CREDENTIAL_TYPES)"

definition suggest_credential_type :: "string \<Rightarrow> string option" where
  "suggest_credential_type unknown =
     map_option snd
       (find (\<lambda>e. eq_ignore_ascii_case (fst e) unknown) CREDENTIAL_TYPE_SUGGESTIONS)"

definition recognized_credential_types_list :: string where
  "recognized_credential_types_list = join '', '' KNOWN_CREDENTIAL_TYPES"

definition unknown_credential_type_message :: "string \<Rightarrow> string \<Rightarrow> string \<Rightarrow> string" where
  "unknown_credential_type_message unknown consumer_id namespace =
     ''Unknown credential type '' @ [CHR 0x27] @ unknown @ [CHR 0x27] @ '' on consumer '' @ consumer_id @
     '' in namespace '' @ namespace @ ''; Ferrum Edge authenticates only '' @
     recognized_credential_types_list @
     (case suggest_credential_type unknown of
        None \<Rightarrow> []
      | Some suggestion \<Rightarrow> '' (did you mean '' @ [CHR 0x27] @ suggestion @ [CHR 0x27] @ ''?)'')"

section \<open>The gateway configuration\<close>

record gateway_config =
  gc_version :: string
  gc_proxies :: "proxy list"
  gc_consumers :: "consumer list"
  gc_plugin_configs :: "plugin_config list"
  gc_upstreams :: "upstream list"

definition gateway_config_default :: gateway_config where
  "gateway_config_default =
     \<lparr>gc_version = default_config_version, gc_proxies = [], gc_consumers = [],
      gc_plugin_configs = [], gc_upstreams = []\<rparr>"

section \<open>The mesh document\<close>

record mesh_config_spec =
  m_istio_root_namespace :: "string option"
  m_workloads :: "json list"
  m_services :: "json list"
  m_mesh_policies :: "json list"
  m_ext_authz_providers :: "json list"
  m_peer_authentications :: "json list"
  m_service_entries :: "json list"
  m_request_authentications :: "json list"
  m_telemetry_resources :: "json list"
  m_destination_rules :: "json list"
  m_virtual_service_cors_policies :: "json list"
  m_proxy_configs :: "json list"
  m_sidecars :: "json list"
  m_waypoint_bindings :: "json list"
  m_trust_bundles :: "json option"
  m_multi_cluster :: "json option"
  m_outbound_traffic_policy :: "json option"
  m_extension_configs :: "json list"

definition mesh_config_spec_default :: mesh_config_spec where
  "mesh_config_spec_default =
     \<lparr>m_istio_root_namespace = None, m_workloads = [], m_services = [], m_mesh_policies = [],
      m_ext_authz_providers = [], m_peer_authentications = [], m_service_entries = [],
      m_request_authentications = [], m_telemetry_resources = [], m_destination_rules = [],
      m_virtual_service_cors_policies = [], m_proxy_configs = [], m_sidecars = [],
      m_waypoint_bindings = [], m_trust_bundles = None, m_multi_cluster = None,
      m_outbound_traffic_policy = None, m_extension_configs = []\<rparr>"

definition mesh_is_empty :: "mesh_config_spec \<Rightarrow> bool" where
  "mesh_is_empty m = (m = mesh_config_spec_default)"

definition count_label :: "string \<times> nat \<Rightarrow> string" where
  "count_label e =
     (if snd e = 1 then ''1 '' @ fst e else show_nat (snd e) @ '' '' @ fst e @ ''s'')"

definition mesh_summary :: "mesh_config_spec \<Rightarrow> string" where
  "mesh_summary m =
     (let counts =
        [(''workload'', length (m_workloads m)),
         (''service'', length (m_services m)),
         (''mesh policy'', length (m_mesh_policies m)),
         (''ext authz provider'', length (m_ext_authz_providers m)),
         (''peer authentication'', length (m_peer_authentications m)),
         (''service entry'', length (m_service_entries m)),
         (''request authentication'', length (m_request_authentications m)),
         (''telemetry resource'', length (m_telemetry_resources m)),
         (''destination rule'', length (m_destination_rules m)),
         (''CORS policy'', length (m_virtual_service_cors_policies m)),
         (''proxy config'', length (m_proxy_configs m)),
         (''sidecar'', length (m_sidecars m)),
         (''waypoint binding'', length (m_waypoint_bindings m)),
         (''extension config'', length (m_extension_configs m))];
        flags =
        [(''trust bundles'', m_trust_bundles m \<noteq> None),
         (''multi-cluster'', m_multi_cluster m \<noteq> None),
         (''outbound traffic policy'', m_outbound_traffic_policy m \<noteq> None)]
      in join '', ''
           (map count_label (filter (\<lambda>e. snd e > 0) counts) @ map fst (filter snd flags)))"

section \<open>The resource file wrapper\<close>

datatype resource =
    ProxyRes proxy
  | ConsumerRes consumer
  | UpstreamRes upstream
  | PluginConfigRes plugin_config
  | MeshConfigRes "string option" mesh_config_spec

section \<open>Resources with every optional field absent\<close>

definition bare_proxy :: "string \<Rightarrow> string \<Rightarrow> proxy" where
  "bare_proxy ns rid =
     \<lparr>p_labels = [], p_id = rid, p_name = None, p_namespace = ns, p_hosts = [],
      p_listen_path = None, p_backend_scheme = None, p_backend_host = ''backend'',
      p_backend_port = 8080, p_backend_path = None, p_strip_listen_path = True,
      p_preserve_host_header = False, p_allow_path_parameters = False,
      p_backend_connect_timeout_ms = default_connect_timeout,
      p_backend_read_timeout_ms = default_read_timeout,
      p_backend_write_timeout_ms = default_write_timeout, p_backend_tls_client_cert_path = None,
      p_backend_tls_client_key_path = None, p_backend_tls_verify_server_cert = True,
      p_backend_tls_server_ca_cert_path = None, p_dns_override = None,
      p_dns_cache_ttl_seconds = None, p_auth_mode = Single, p_plugins = [],
      p_pool_idle_timeout_seconds = None, p_pool_enable_http_keep_alive = None,
      p_pool_enable_http2 = None, p_pool_tcp_keepalive_seconds = None,
      p_pool_http2_keep_alive_interval_seconds = None,
      p_pool_http2_keep_alive_timeout_seconds = None,
      p_pool_http2_initial_stream_window_size = None,
      p_pool_http2_initial_connection_window_size = None, p_pool_http2_adaptive_window = None,
      p_pool_http2_max_frame_size = None, p_pool_http2_max_concurrent_streams = None,
      p_pool_http3_connections_per_backend = None, p_pool_max_requests_per_connection = None,
      p_upstream_id = None, p_upstream_subset = None, p_api_spec_id = None,
      p_circuit_breaker = None, p_retry = None, p_response_body_mode = Stream,
      p_listen_port = None, p_frontend_tls = False, p_passthrough = False,
      p_udp_idle_timeout_seconds = default_udp_idle_timeout,
      p_udp_max_response_amplification_factor = None, p_tcp_idle_timeout_seconds = None,
      p_websocket_idle_timeout_seconds = None, p_stream_proxy_protocol = None,
      p_backend_proxy_protocol = None, p_stream_match = None, p_allowed_methods = None,
      p_allowed_ws_origins = [], p_created_at = None, p_updated_at = None, p_extra = []\<rparr>"

definition bare_plugin_config :: "string \<Rightarrow> string \<Rightarrow> string \<Rightarrow> plugin_config" where
  "bare_plugin_config ns rid plugin =
     \<lparr>pc_labels = [], pc_id = rid, pc_plugin_name = plugin, pc_namespace = ns,
      pc_config = JObject [], pc_scope = Global, pc_proxy_id = None, pc_enabled = True,
      pc_priority_override = None, pc_trigger = None, pc_api_spec_id = None,
      pc_created_at = None, pc_updated_at = None, pc_extra = []\<rparr>"

section \<open>What a managed kind offers\<close>

text \<open>
  The comparison of two resources works on the serialized objects and on the map of unknown fields
  (\<open>PassthroughFields\<close>); it relies on the serialized form being an object that carries every unknown
  field with its value.
\<close>

locale managed_kind =
  fixes to_value :: "'r \<Rightarrow> json" and passthrough :: "'r \<Rightarrow> (string, json) btree_map"
  assumes to_value_object: "\<exists>m. to_value r = JObject m \<and> bt_wf m"
    and passthrough_kept:
      "bt_wf (passthrough r) \<Longrightarrow> bt_get (passthrough r) k = Some v \<Longrightarrow>
       jget (to_value r) k = Some v"
begin

lemma passthrough_key:
  "bt_wf (passthrough r) \<Longrightarrow> bt_contains (passthrough r) k \<Longrightarrow> jget (to_value r) k \<noteq> None"
  using passthrough_kept by (auto simp: bt_contains_def)

lemma to_value_cases:
  obtains m where "to_value r = JObject m" and "bt_wf m"
  using to_value_object[of r] by auto

end

lemma jstruct_object: "\<exists>m. jstruct fs = JObject m \<and> bt_wf m"
  by (simp add: jstruct_def bt_wf_of_list)

lemma map_of_rev_wf: "bt_wf m \<Longrightarrow> map_of (rev m) = map_of m"
  by (rule map_of_inject_set[THEN iffD2])
     (auto simp: bt_wf_def strict_sorted_iff rev_map[symmetric])

lemma jget_jstruct_extra:
  "bt_wf m \<Longrightarrow> bt_get m k = Some v \<Longrightarrow> jget (jstruct (fs @ m)) k = Some v"
  by (simp add: jget_jstruct map_of_rev_wf bt_get_def map_add_def)

interpretation proxy_kind: managed_kind proxy_to_value p_extra
  by unfold_locales (simp_all add: proxy_to_value_def jstruct_object
      append_assoc[symmetric] jget_jstruct_extra del: append_assoc)

interpretation consumer_kind: managed_kind consumer_to_value c_extra
  by unfold_locales (simp_all add: consumer_to_value_def jstruct_object
      append_assoc[symmetric] jget_jstruct_extra del: append_assoc)

interpretation upstream_kind: managed_kind upstream_to_value u_extra
  by unfold_locales (simp_all add: upstream_to_value_def jstruct_object
      append_assoc[symmetric] jget_jstruct_extra del: append_assoc)

interpretation plugin_config_kind: managed_kind plugin_config_to_value pc_extra
  by unfold_locales (simp_all add: plugin_config_to_value_def jstruct_object
      append_assoc[symmetric] jget_jstruct_extra del: append_assoc)

end
