(* ===== verification/StateKey.thy ===== *)
theory StateKey
  imports Maps
begin

text \<open>
  The canonical identity \<open>prefix:namespace:Kind:id\<close> of a managed resource
  (\<open>src/diff/resource_diff.rs\<close>, \<open>state_key\<close> and its parser): the ledger of \<open>src/state.rs\<close> and the
  shared-mode delete fence are sets of these keys.  The interface \<open>percent_codec\<close> states what the
  key format needs of the component encoding (it can be undone, and it removes the separator);
  the facts on whole keys follow from it.
\<close>

section \<open>The code\<close>

definition STATE_KEY_PREFIX :: string where
  "STATE_KEY_PREFIX = ''__gitforgeops_state_key_v2''"

definition STATE_KEY_KINDS :: "string list" where
  "STATE_KEY_KINDS = [''Proxy'', ''Consumer'', ''Upstream'', ''PluginConfig'']"

definition is_state_key_kind :: "string \<Rightarrow> bool" where
  "is_state_key_kind v = (v \<in> set STATE_KEY_KINDS)"

definition encode_state_key_component :: "string \<Rightarrow> string" where
  "encode_state_key_component v =
     replace_byte CHR '':'' ''%3A'' (replace_byte CHR ''%'' ''%25'' v)"

fun decode_chars :: "string list \<Rightarrow> string list" where
  "decode_chars [] = []"
| "decode_chars (ch # cs) =
     (if ch = ''%'' then
        (case cs of
           [] \<Rightarrow> [''%'']
         | [a] \<Rightarrow> [''%'', a]
         | a # b # rest \<Rightarrow>
             (if a = ''2'' \<and> b = ''5'' then ''%'' # decode_chars rest
              else if a = ''3'' \<and> (b = ''A'' \<or> b = ''a'') then '':'' # decode_chars rest
              else ''%'' # a # b # decode_chars rest))
      else ch # decode_chars cs)"

definition decode_state_key_component :: "string \<Rightarrow> string" where
  "decode_state_key_component v = concat (decode_chars (utf8_chars v))"

definition state_key :: "string \<Rightarrow> string \<Rightarrow> string \<Rightarrow> string" where
  "state_key namespace kind rid =
     STATE_KEY_PREFIX @ '':'' @ encode_state_key_component namespace @ '':'' @ kind @ '':'' @
     encode_state_key_component rid"

definition parse_state_key :: "string \<Rightarrow> (string \<times> string \<times> string) option" where
  "parse_state_key key =
     (case splitn 4 CHR '':'' key of
        [prefix, namespace, kind, rid] \<Rightarrow>
          (if prefix \<noteq> STATE_KEY_PREFIX then None
           else if namespace \<noteq> [] \<and> rid \<noteq> [] \<and> is_state_key_kind kind
           then Some (namespace, kind, rid) else None)
      | _ \<Rightarrow> None)"

definition state_key_namespace :: "string \<Rightarrow> string option" where
  "state_key_namespace key =
     (case parse_state_key key of
        None \<Rightarrow> None
      | Some (namespace, kind, rid) \<Rightarrow> Some (decode_state_key_component namespace))"

section \<open>What the key format needs of the component encoding\<close>

locale percent_codec =
  fixes enc :: "string \<Rightarrow> string" and dec :: "string \<Rightarrow> string" and sep :: char
  assumes dec_enc: "dec (enc v) = v"
    and enc_no_sep: "sep \<notin> set (enc v)"
    and enc_empty: "enc v = [] \<longleftrightarrow> v = []"
begin

lemma enc_inject: "enc v = enc w \<longleftrightarrow> v = w"
  by (metis dec_enc)

lemma splitn_key:
  assumes "sep \<notin> set p" and "sep \<notin> set k"
  shows "splitn 4 sep (p @ sep # enc n @ sep # k @ sep # enc i) = [p, enc n, k, enc i]"
  using assms enc_no_sep by (simp add: numeral_eq_Suc splitn_Cons_sep)

lemma key_inject:
  assumes "sep \<notin> set p" and "sep \<notin> set k" and "sep \<notin> set k'"
    and "p @ sep # enc n @ sep # k @ sep # enc i = p @ sep # enc n' @ sep # k' @ sep # enc i'"
  shows "n = n' \<and> k = k' \<and> i = i'"
proof -
  have "[p, enc n, k, enc i] = [p, enc n', k', enc i']"
    unfolding splitn_key[OF assms(1,2), symmetric] splitn_key[OF assms(1,3), symmetric] assms(4)
    by (rule refl)
  then show ?thesis by (simp add: enc_inject)
qed

end

section \<open>The encoding of the code is such a codec\<close>

definition escape_byte :: "char \<Rightarrow> string" where
  "escape_byte b = (if b = CHR ''%'' then ''%25'' else if b = CHR '':'' then ''%3A'' else [b])"

lemma encode_escape: "encode_state_key_component v = concat (map escape_byte v)"
  by (induction v) (auto simp: encode_state_key_component_def escape_byte_def)

lemma escape_byte_cases:
  obtains "b = CHR ''%''" "escape_byte b = ''%25''"
  | "b = CHR '':''" "escape_byte b = ''%3A''"
  | "b \<noteq> CHR ''%''" "b \<noteq> CHR '':''" "escape_byte b = [b]"
  by (auto simp: escape_byte_def)

lemma escape_cont: "is_cont b \<Longrightarrow> escape_byte b = [b]"
  by (auto simp: escape_byte_def is_cont_def)

lemma escape_not_cont: "\<not> is_cont b \<Longrightarrow> \<exists>c cs. escape_byte b = c # cs \<and> \<not> is_cont c"
  by (auto simp: escape_byte_def is_cont_def)

lemma cont_prefix_escape:
  "takeWhile is_cont (concat (map escape_byte v)) = takeWhile is_cont v \<and>
   dropWhile is_cont (concat (map escape_byte v)) = concat (map escape_byte (dropWhile is_cont v))"
proof (induction v)
  case (Cons b v)
  then show ?case
    using escape_cont[of b] escape_not_cont[of b] by (cases "is_cont b") auto
qed simp

lemma decode_escape: "concat (decode_chars (utf8_chars (concat (map escape_byte v)))) = v"
proof (induction v rule: utf8_chars.induct)
  case (2 b bs)
  show ?case
  proof (cases "is_ascii b")
    case True
    have a: "is_ascii (CHR ''%'')" "is_ascii (CHR ''2'')" "is_ascii (CHR ''5'')"
      "is_ascii (CHR ''3'')" "is_ascii (CHR ''A'')" by (simp_all add: is_ascii_def)
    show ?thesis
      using 2(1)[OF True] True a by (cases b rule: escape_byte_cases) auto
  next
    case False
    have "escape_byte b = [b]" "b \<noteq> CHR ''%''"
      using False by (auto simp: escape_byte_def is_ascii_def)
    then show ?thesis
      using 2(2)[OF False] False cont_prefix_escape[of bs] by simp
  qed
qed simp

lemma decode_encode [key_simps]:
  "decode_state_key_component (encode_state_key_component v) = v"
  by (simp add: decode_state_key_component_def encode_escape decode_escape)

lemma escape_no_sep: "CHR '':'' \<notin> set (escape_byte b)"
  by (auto simp: escape_byte_def)

lemma encode_no_sep: "CHR '':'' \<notin> set (encode_state_key_component v)"
  using escape_no_sep by (auto simp: encode_escape)

lemma encode_empty: "encode_state_key_component v = [] \<longleftrightarrow> v = []"
  by (cases v) (auto simp: encode_escape escape_byte_def)

interpretation sk: percent_codec encode_state_key_component decode_state_key_component "CHR '':''"
  by unfold_locales (simp_all add: decode_encode encode_no_sep encode_empty)

lemma kind_no_sep: "is_state_key_kind kind \<Longrightarrow> CHR '':'' \<notin> set kind"
  by (auto simp: is_state_key_kind_def STATE_KEY_KINDS_def)

lemma kinds_simps [simp]:
  "is_state_key_kind ''Proxy''" "is_state_key_kind ''Consumer''"
  "is_state_key_kind ''Upstream''" "is_state_key_kind ''PluginConfig''"
  by (simp_all add: is_state_key_kind_def STATE_KEY_KINDS_def)

lemma prefix_no_sep: "CHR '':'' \<notin> set STATE_KEY_PREFIX"
  by (simp add: STATE_KEY_PREFIX_def)

lemma splitn_state_key:
  assumes "CHR '':'' \<notin> set kind"
  shows "splitn 4 CHR '':'' (state_key namespace kind rid) =
    [STATE_KEY_PREFIX, encode_state_key_component namespace, kind, encode_state_key_component rid]"
  using sk.splitn_key[OF prefix_no_sep assms, of namespace rid] by (simp add: state_key_def)

lemma parse_state_key_of_key [key_simps]:
  assumes "is_state_key_kind kind"
  shows "parse_state_key (state_key namespace kind rid) =
    (if namespace = [] \<or> rid = [] then None
     else Some (encode_state_key_component namespace, kind, encode_state_key_component rid))"
  using assms splitn_state_key[OF kind_no_sep[OF assms], of namespace rid]
  by (simp add: parse_state_key_def encode_empty)

lemma state_key_namespace_of_key [key_simps]:
  assumes "is_state_key_kind kind"
  shows "state_key_namespace (state_key namespace kind rid) =
    (if namespace = [] \<or> rid = [] then None else Some namespace)"
  using assms by (simp add: state_key_namespace_def key_simps)

lemma state_key_eq_iff [key_simps]:
  assumes "is_state_key_kind kind" and "is_state_key_kind kind'"
  shows "state_key namespace kind rid = state_key namespace' kind' rid' \<longleftrightarrow>
    namespace = namespace' \<and> kind = kind' \<and> rid = rid'"
proof
  assume "state_key namespace kind rid = state_key namespace' kind' rid'"
  then show "namespace = namespace' \<and> kind = kind' \<and> rid = rid'"
    using sk.key_inject[OF prefix_no_sep kind_no_sep[OF assms(1)] kind_no_sep[OF assms(2)],
        of namespace rid namespace' rid']
    by (simp add: state_key_def)
qed simp

text \<open>
  A state key determines the resource it names: two resources of the four managed kinds have
  the same key exactly when they agree in namespace, kind and id, whatever characters (\<open>:\<close> and
  \<open>%\<close> included) namespace and id hold.  Without it the delete fence of shared mode could take one
  resource for another.
\<close>

theorem state_key_injective:
  "is_state_key_kind kind \<and> is_state_key_kind kind' \<Longrightarrow>
   state_key namespace kind rid = state_key namespace' kind' rid' \<longleftrightarrow>
     (namespace, kind, rid) = (namespace', kind', rid')"
  by (simp add: state_key_eq_iff)

theorem state_key_injective_witness:
  "state_key ''a:b'' ''Proxy'' ''c%'' \<noteq> state_key ''a'' ''Proxy'' ''b:c%''"
  using state_key_injective[of "''Proxy''" "''Proxy''" "''a:b''" "''c%''" "''a''" "''b:c%''"]
  by simp

text \<open>
  The namespace of a resource can be read back from its key, by the parser that the ledger
  uses on load, on save and on every scoped update; the parser refuses exactly the keys of
  resources with an empty namespace or an empty id.
\<close>

theorem state_key_namespace_roundtrip:
  "is_state_key_kind kind \<Longrightarrow>
   state_key_namespace (state_key namespace kind rid) =
     (if namespace = [] \<or> rid = [] then None else Some namespace)"
  by (rule state_key_namespace_of_key)

theorem state_key_namespace_roundtrip_witness:
  "state_key_namespace (state_key ''team:a%3A'' ''Upstream'' ''u:1'') = Some ''team:a%3A''"
  using state_key_namespace_roundtrip[of "''Upstream''" "''team:a%3A''" "''u:1''"] by simp

end
