(* ===== verification/Config.thy ===== *)
theory Config
  imports Managed StateKey "HOL-Library.Multiset"
begin

text \<open>
  The configuration helpers of \<open>src/config/mod.rs\<close>: selecting a namespace, splitting a
  configuration by namespace, and the check that no two resources share
  \<open>(namespace, kind, id)\<close>, which every comparison and every apply relies on.
\<close>

section \<open>The code\<close>

definition filter_config_by_namespace :: "gateway_config \<Rightarrow> string \<Rightarrow> gateway_config" where
  "filter_config_by_namespace config namespace =
     \<lparr>gc_version = gc_version config,
      gc_proxies = filter (\<lambda>p. p_namespace p = namespace) (gc_proxies config),
      gc_consumers = filter (\<lambda>c. c_namespace c = namespace) (gc_consumers config),
      gc_plugin_configs = filter (\<lambda>p. pc_namespace p = namespace) (gc_plugin_configs config),
      gc_upstreams = filter (\<lambda>u. u_namespace u = namespace) (gc_upstreams config)\<rparr>"

definition select_config_namespace :: "gateway_config \<Rightarrow> string option \<Rightarrow> gateway_config" where
  "select_config_namespace config namespace_filter =
     (case namespace_filter of
        Some namespace \<Rightarrow> filter_config_by_namespace config namespace
      | None \<Rightarrow> config)"

definition collect_namespaces :: "gateway_config \<Rightarrow> string list" where
  "collect_namespaces config =
     fold (\<lambda>p. bs_insert (pc_namespace p)) (gc_plugin_configs config)
       (fold (\<lambda>u. bs_insert (u_namespace u)) (gc_upstreams config)
         (fold (\<lambda>c. bs_insert (c_namespace c)) (gc_consumers config)
           (fold (\<lambda>p. bs_insert (p_namespace p)) (gc_proxies config) [])))"

definition split_config_by_namespace ::
    "gateway_config \<Rightarrow> string option \<Rightarrow> (string \<times> gateway_config) list" where
  "split_config_by_namespace config namespace_filter =
     (case namespace_filter of
        Some namespace \<Rightarrow> [(namespace, filter_config_by_namespace config namespace)]
      | None \<Rightarrow>
          map (\<lambda>namespace. (namespace, filter_config_by_namespace config namespace))
            (collect_namespaces config))"

type_synonym resource_key = "string \<times> string \<times> string"

datatype config_error =
    DuplicateResourceKey string string string
  | DuplicateLiveResource config_error

definition insert_resource_key ::
    "string \<Rightarrow> string \<Rightarrow> string \<Rightarrow> resource_key list \<Rightarrow> (config_error, resource_key list) result" where
  "insert_resource_key namespace kind rid seen =
     (if bs_contains (namespace, kind, rid) seen
      then Inl (DuplicateResourceKey namespace kind rid)
      else Inr (bs_insert (namespace, kind, rid) seen))"

definition validate_unique_resource_keys :: "gateway_config \<Rightarrow> (config_error, unit) result" where
  "validate_unique_resource_keys config =
     bind_result
       (fold_result (\<lambda>p. insert_resource_key (p_namespace p) ''Proxy'' (p_id p))
         (gc_proxies config) [])
       (\<lambda>seen. bind_result
         (fold_result (\<lambda>c. insert_resource_key (c_namespace c) ''Consumer'' (c_id c))
           (gc_consumers config) seen)
         (\<lambda>seen. bind_result
           (fold_result (\<lambda>u. insert_resource_key (u_namespace u) ''Upstream'' (u_id u))
             (gc_upstreams config) seen)
           (\<lambda>seen. bind_result
             (fold_result (\<lambda>p. insert_resource_key (pc_namespace p) ''PluginConfig'' (pc_id p))
               (gc_plugin_configs config) seen)
             (\<lambda>_. Inr ()))))"

definition validate_unique_live_resource_keys ::
    "gateway_config \<Rightarrow> (config_error, unit) result" where
  "validate_unique_live_resource_keys config =
     (case validate_unique_resource_keys config of
        Inl e \<Rightarrow> Inl (DuplicateLiveResource e)
      | Inr u \<Rightarrow> Inr u)"

section \<open>The keys of a configuration\<close>

definition proxy_key :: "proxy \<Rightarrow> resource_key" where
  "proxy_key p = (p_namespace p, ''Proxy'', p_id p)"

definition consumer_key :: "consumer \<Rightarrow> resource_key" where
  "consumer_key c = (c_namespace c, ''Consumer'', c_id c)"

definition upstream_key :: "upstream \<Rightarrow> resource_key" where
  "upstream_key u = (u_namespace u, ''Upstream'', u_id u)"

definition plugin_config_key :: "plugin_config \<Rightarrow> resource_key" where
  "plugin_config_key p = (pc_namespace p, ''PluginConfig'', pc_id p)"

definition config_keys :: "gateway_config \<Rightarrow> resource_key list" where
  "config_keys config =
     map proxy_key (gc_proxies config) @ map consumer_key (gc_consumers config) @
     map upstream_key (gc_upstreams config) @ map plugin_config_key (gc_plugin_configs config)"

definition insert_key :: "resource_key \<Rightarrow> resource_key list \<Rightarrow> (config_error, resource_key list) result"
  where "insert_key k = insert_resource_key (fst k) (fst (snd k)) (snd (snd k))"

lemma fold_result_map: "fold_result f (map g xs) s = fold_result (\<lambda>x. f (g x)) xs s"
proof (induction xs arbitrary: s)
  case (Cons x xs)
  then show ?case by (cases "f (g x) s") auto
qed simp

lemma bind_result_assoc:
  "bind_result (bind_result r f) g = bind_result r (\<lambda>x. bind_result (f x) g)"
  by (cases r) auto

lemma validate_unique_fold:
  "validate_unique_resource_keys config =
     bind_result (fold_result insert_key (config_keys config) []) (\<lambda>_. Inr ())"
  by (simp add: validate_unique_resource_keys_def config_keys_def fold_result_append
      fold_result_map bind_result_assoc insert_key_def proxy_key_def consumer_key_def
      upstream_key_def plugin_config_key_def)

lemma insert_key_eq:
  "insert_key k seen =
     (if k \<in> set seen then Inl (DuplicateResourceKey (fst k) (fst (snd k)) (snd (snd k)))
      else Inr (bs_insert k seen))"
  by (cases k) (simp add: insert_key_def insert_resource_key_def bs_contains_def)

lemma fold_insert_key_ok:
  "fold_result insert_key ks seen = Inr s \<Longrightarrow> distinct ks \<and> set ks \<inter> set seen = {}"
proof (induction ks arbitrary: seen)
  case (Cons k ks)
  then have "k \<notin> set seen" and "fold_result insert_key ks (bs_insert k seen) = Inr s"
    by (auto simp: insert_key_eq[of k] split: if_splits)
  with Cons.IH[OF this(2)] show ?case by auto
qed simp

lemma fold_insert_key_error:
  "fold_result insert_key ks seen = Inl e \<Longrightarrow>
     \<exists>k pre post. ks = pre @ k # post \<and> k \<in> set pre \<union> set seen \<and> distinct pre \<and>
       set pre \<inter> set seen = {} \<and>
       e = DuplicateResourceKey (fst k) (fst (snd k)) (snd (snd k))"
proof (induction ks arbitrary: seen)
  case (Cons k ks)
  show ?case
  proof (cases "k \<in> set seen")
    case True
    then show ?thesis
      using Cons.prems by (intro exI[of _ k] exI[of _ "[]"] exI[of _ ks]) (simp add: insert_key_eq[of k])
  next
    case False
    then have "fold_result insert_key ks (bs_insert k seen) = Inl e"
      using Cons.prems by (simp add: insert_key_eq[of k])
    from Cons.IH[OF this] obtain k' pre post where *: "ks = pre @ k' # post"
      "k' \<in> set pre \<union> set (bs_insert k seen)" "distinct pre"
      "set pre \<inter> set (bs_insert k seen) = {}"
      "e = DuplicateResourceKey (fst k') (fst (snd k')) (snd (snd k'))" by blast
    then show ?thesis using False by (intro exI[of _ k'] exI[of _ "k # pre"] exI[of _ post]) auto
  qed
qed simp

lemma validate_unique_ok_iff:
  "validate_unique_resource_keys config = Inr () \<longleftrightarrow> distinct (config_keys config)"
proof (cases "fold_result insert_key (config_keys config) []")
  case (Inl e)
  from fold_insert_key_error[OF this] show ?thesis by (auto simp: validate_unique_fold Inl)
next
  case (Inr s)
  from fold_insert_key_ok[OF this] show ?thesis by (simp add: validate_unique_fold Inr)
qed

lemma validate_unique_live_ok_iff:
  "validate_unique_live_resource_keys config = Inr () \<longleftrightarrow> distinct (config_keys config)"
  by (auto simp: validate_unique_live_resource_keys_def validate_unique_ok_iff[symmetric]
      split: sum.splits)

text \<open>
  The uniqueness check accepts exactly the configurations in which every
  \<open>(namespace, kind, id)\<close> occurs once, and a refusal names the first key, in the order proxies,
  consumers, upstreams, plugin configs, that repeats an earlier one.
\<close>

theorem validate_unique_resource_keys_exact:
  "case validate_unique_resource_keys config of
     Inr _ \<Rightarrow> distinct (config_keys config)
   | Inl e \<Rightarrow> \<exists>namespace kind rid pre post.
       config_keys config = pre @ (namespace, kind, rid) # post \<and> distinct pre \<and>
       (namespace, kind, rid) \<in> set pre \<and> e = DuplicateResourceKey namespace kind rid"
proof (cases "fold_result insert_key (config_keys config) []")
  case (Inl e)
  from fold_insert_key_error[OF this] obtain namespace kind rid pre post where
    "config_keys config = pre @ (namespace, kind, rid) # post" "distinct pre"
    "(namespace, kind, rid) \<in> set pre" "e = DuplicateResourceKey namespace kind rid" by auto
  then have "\<exists>namespace kind rid pre post.
      config_keys config = pre @ (namespace, kind, rid) # post \<and> distinct pre \<and>
      (namespace, kind, rid) \<in> set pre \<and> e = DuplicateResourceKey namespace kind rid"
    by blast
  then show ?thesis by (simp add: validate_unique_fold Inl)
next
  case (Inr s)
  from fold_insert_key_ok[OF this] show ?thesis by (simp add: validate_unique_fold Inr)
qed

section \<open>Splitting by namespace\<close>

lemma collect_namespaces_wf: "bs_wf (collect_namespaces config)"
  unfolding collect_namespaces_def by (intro bs.ok_fold_add bs_wf_Nil)

lemma set_fold_bs_insert: "set (fold (\<lambda>x. bs_insert (f x)) xs s) = f ` set xs \<union> set s"
  by (induction xs arbitrary: s) auto

lemma set_collect_namespaces:
  "set (collect_namespaces config) = fst ` set (config_keys config)"
  by (simp add: collect_namespaces_def set_fold_bs_insert config_keys_def image_Un image_image
      proxy_key_def consumer_key_def upstream_key_def plugin_config_key_def Un_ac)

lemma sum_list_insert_one:
  "distinct ns \<Longrightarrow> a \<in> set ns \<Longrightarrow>
     (\<Sum>n\<leftarrow>ns. if a = n then add_mset x (g n) else g n) = add_mset x (\<Sum>n\<leftarrow>ns. g n)"
proof (induction ns)
  case (Cons n ns)
  have "(\<Sum>n\<leftarrow>ns. if a = n then add_mset x (g n) else g n) = (\<Sum>n\<leftarrow>ns. g n)" if "a \<notin> set ns"
    using that by (induction ns) auto
  then show ?case using Cons by (cases "a = n") auto
qed simp

lemma mset_partition:
  "distinct ns \<Longrightarrow> f ` set xs \<subseteq> set ns \<Longrightarrow>
     mset (concat (map (\<lambda>n. filter (\<lambda>x. f x = n) xs) ns)) = mset xs"
proof (induction xs)
  case Nil
  then show ?case by (induction ns) auto
next
  case (Cons x xs)
  have "(\<Sum>n\<leftarrow>ns. mset (filter (\<lambda>y. f y = n) (x # xs))) =
      (\<Sum>n\<leftarrow>ns. if f x = n then add_mset x (mset (filter (\<lambda>y. f y = n) xs))
        else mset (filter (\<lambda>y. f y = n) xs))"
    by (intro arg_cong[where f = sum_list] map_cong) auto
  also have "\<dots> = add_mset x (\<Sum>n\<leftarrow>ns. mset (filter (\<lambda>y. f y = n) xs))"
    using Cons.prems by (intro sum_list_insert_one) auto
  also have "\<dots> = add_mset x (mset xs)"
    using Cons by (simp add: mset_concat comp_def)
  finally show ?case by (simp add: mset_concat comp_def)
qed

definition in_namespace :: "string \<Rightarrow> gateway_config \<Rightarrow> bool" where
  "in_namespace ns config = list_all (\<lambda>k. fst k = ns) (config_keys config)"

lemma in_namespace_filter: "in_namespace ns (filter_config_by_namespace config ns)"
  by (auto simp: in_namespace_def filter_config_by_namespace_def config_keys_def list_all_iff
      proxy_key_def consumer_key_def upstream_key_def plugin_config_key_def)

text \<open>
  Splitting a configuration by namespace is a partition of it: the namespaces come out sorted
  and without repetition, every part holds resources of its namespace only, and the parts together
  hold exactly the resources of the configuration, each as often as it occurs, for all four kinds.
\<close>

theorem split_config_partition:
  "let parts = split_config_by_namespace config None in
     sorted_wrt (<) (map fst parts) \<and>
     list_all (\<lambda>(ns, part). in_namespace ns part) parts \<and>
     mset (concat (map (gc_proxies \<circ> snd) parts)) = mset (gc_proxies config) \<and>
     mset (concat (map (gc_consumers \<circ> snd) parts)) = mset (gc_consumers config) \<and>
     mset (concat (map (gc_upstreams \<circ> snd) parts)) = mset (gc_upstreams config) \<and>
     mset (concat (map (gc_plugin_configs \<circ> snd) parts)) = mset (gc_plugin_configs config)"
proof -
  let ?ns = "collect_namespaces config"
  have d: "distinct ?ns" by (rule bs_wf_distinct[OF collect_namespaces_wf])
  have "fst ` set (config_keys config) \<subseteq> set ?ns" by (simp add: set_collect_namespaces)
  then have sub: "p_namespace ` set (gc_proxies config) \<subseteq> set ?ns"
    "c_namespace ` set (gc_consumers config) \<subseteq> set ?ns"
    "u_namespace ` set (gc_upstreams config) \<subseteq> set ?ns"
    "pc_namespace ` set (gc_plugin_configs config) \<subseteq> set ?ns"
    by (auto simp: config_keys_def proxy_key_def consumer_key_def upstream_key_def
        plugin_config_key_def image_Un image_image)
  show ?thesis
    using collect_namespaces_wf[of config] in_namespace_filter[of _ config]
      mset_partition[OF d sub(1)] mset_partition[OF d sub(2)]
      mset_partition[OF d sub(3)] mset_partition[OF d sub(4)]
    by (simp add: split_config_by_namespace_def bs_wf_def comp_def list_all_iff
        filter_config_by_namespace_def)
qed

end
