(* ===== verification/Redact.thy ===== *)
theory Redact
  imports Config
begin

text \<open>
  Redaction of service-discovery changes before they are rendered: the URL userinfo of
  \<open>src/secrets/service_discovery.rs\<close> and the leaf redaction of \<open>src/diff/resource_diff.rs\<close>.
  \<open>serde_json\<close>'s printer and parser are the parameters \<open>to_str\<close> and \<open>from_str\<close>.
\<close>

section \<open>URL userinfo\<close>

definition REDACTION :: string where
  "REDACTION = ''[REDACTED]''"

definition is_url_scheme :: "string \<Rightarrow> bool" where
  "is_url_scheme candidate =
     (case candidate of
        [] \<Rightarrow> False
      | c # cs \<Rightarrow> is_ascii_alphabetic c \<and>
          list_all (\<lambda>c. is_ascii_alphanumeric c \<or> c = CHR ''+'' \<or> c = CHR ''-'' \<or> c = CHR ''.'') cs)"

definition is_blank_byte :: "char \<Rightarrow> bool" where
  "is_blank_byte c = ((of_char c :: nat) \<le> 32)"

definition is_line_byte :: "char \<Rightarrow> bool" where
  "is_line_byte c = (c = CHR 0x09 \<or> c = CHR 0x0A \<or> c = CHR 0x0D)"

definition trim_blank :: "string \<Rightarrow> string" where
  "trim_blank s = rev (dropWhile is_blank_byte (rev (dropWhile is_blank_byte s)))"

definition is_slash :: "char \<Rightarrow> bool" where
  "is_slash c = (c = CHR ''/'' \<or> c = CHR 0x5C)"

definition ends_authority :: "char \<Rightarrow> bool" where
  "ends_authority c = (is_slash c \<or> c = CHR ''?'' \<or> c = CHR ''#'')"

record url_userinfo =
  ui_scheme :: "string option"
  ui_userinfo :: string
  ui_after :: string

definition clean_url :: "string \<Rightarrow> string" where
  "clean_url txt = filter (\<lambda>c. \<not> is_line_byte c) (trim_blank txt)"

definition split_scheme :: "string \<Rightarrow> string option \<times> string" where
  "split_scheme cleaned =
     (case split_once CHR '':'' cleaned of
        None \<Rightarrow> (None, cleaned)
      | Some (before, behind) \<Rightarrow>
          if is_url_scheme before then (Some before, behind) else (None, cleaned))"

definition split_url_userinfo :: "string \<Rightarrow> url_userinfo option" where
  "split_url_userinfo txt =
     (let (scheme, rest0) = split_scheme (clean_url txt);
          rest = dropWhile is_slash rest0;
          authority = takeWhile (\<lambda>c. \<not> ends_authority c) rest;
          behind = dropWhile (\<lambda>c. \<not> ends_authority c) rest
      in case rsplit_once CHR ''@'' authority of
           None \<Rightarrow> None
         | Some (userinfo, host) \<Rightarrow>
             Some \<lparr>ui_scheme = scheme, ui_userinfo = userinfo, ui_after = host @ behind\<rparr>)"

definition redact_url_userinfo :: "string \<Rightarrow> string option" where
  "redact_url_userinfo txt =
     (case split_url_userinfo txt of
        None \<Rightarrow> None
      | Some parts \<Rightarrow>
          (let redacted = REDACTION @ ''@'' @ ui_after parts in
           Some (case ui_scheme parts of
                   Some scheme \<Rightarrow> scheme @ ''://'' @ redacted
                 | None \<Rightarrow> redacted)))"

definition address_is_normalized :: "string \<Rightarrow> bool" where
  "address_is_normalized address =
     (trim_blank address \<noteq> address \<or> list_ex is_line_byte address)"

section \<open>Leaves of a JSON document\<close>

fun json_leaf :: "json \<Rightarrow> string list \<Rightarrow> json option" where
  "json_leaf v [] = Some v"
| "json_leaf v (part # ps) =
     (case as_object v of
        None \<Rightarrow> None
      | Some m \<Rightarrow> (case bt_get m part of None \<Rightarrow> None | Some c \<Rightarrow> json_leaf c ps))"

text \<open>Writing through the reference \<open>json_leaf_mut\<close> returns.\<close>

fun json_set_leaf :: "json \<Rightarrow> string list \<Rightarrow> json \<Rightarrow> json" where
  "json_set_leaf v [] x = x"
| "json_set_leaf v (part # ps) x =
     (case as_object v of
        None \<Rightarrow> v
      | Some m \<Rightarrow> (case bt_get m part of
            None \<Rightarrow> v
          | Some c \<Rightarrow> JObject (bt_insert part (json_set_leaf c ps x) m)))"

record sd_secret_field =
  sf_path :: "string list"
  sf_generatable :: bool
  sf_ungeneratable_reason :: string

definition SD_SECRET_FIELDS :: "sd_secret_field list" where
  "SD_SECRET_FIELDS =
     [\<lparr>sf_path = [''consul'', ''token''], sf_generatable = False,
       sf_ungeneratable_reason =
         ''a Consul ACL token is minted by the Consul cluster and bound to its policies, '' @
         ''so a random value can never authenticate''\<rparr>]"

definition redact_secret_field :: "sd_secret_field \<Rightarrow> json \<times> bool \<Rightarrow> json \<times> bool" where
  "redact_secret_field field vr =
     (case json_leaf (fst vr) (sf_path field) of
        Some (JString _) \<Rightarrow> (json_set_leaf (fst vr) (sf_path field) (JString REDACTION), True)
      | _ \<Rightarrow> vr)"

definition redact_consul_address :: "json \<times> bool \<Rightarrow> json \<times> bool" where
  "redact_consul_address vr =
     (case json_leaf (fst vr) [''consul'', ''address''] of
        Some (JString address) \<Rightarrow>
          (case redact_url_userinfo address of
             Some safe \<Rightarrow> (json_set_leaf (fst vr) [''consul'', ''address''] (JString safe), True)
           | None \<Rightarrow> vr)
      | _ \<Rightarrow> vr)"

definition redact_service_discovery_json ::
    "(json \<Rightarrow> string) \<Rightarrow> (string \<Rightarrow> json option) \<Rightarrow> string \<Rightarrow> string option" where
  "redact_service_discovery_json to_str from_str serialized =
     (case from_str serialized of
        None \<Rightarrow> None
      | Some value \<Rightarrow>
          (let vr = redact_consul_address
                      (fold redact_secret_field SD_SECRET_FIELDS (value, False))
           in if snd vr then Some (to_str (fst vr)) else None))"

record field_change =
  fc_field :: string
  fc_old_value :: string
  fc_new_value :: string

definition is_sensitive_diff_field :: "string \<Rightarrow> string \<Rightarrow> bool" where
  "is_sensitive_diff_field kind field =
     ((kind = ''Consumer'' \<and> field = ''credentials'') \<or>
      (kind = ''PluginConfig'' \<and> field = ''config''))"

definition redact_side :: "(json \<Rightarrow> string) \<Rightarrow> (string \<Rightarrow> json option) \<Rightarrow> string \<Rightarrow> string" where
  "redact_side to_str from_str side =
     (case redact_service_discovery_json to_str from_str side of
        Some redacted \<Rightarrow> redacted | None \<Rightarrow> side)"

definition redact_sensitive_leaves ::
    "(json \<Rightarrow> string) \<Rightarrow> (string \<Rightarrow> json option) \<Rightarrow> string \<Rightarrow> field_change list \<Rightarrow> field_change list"
  where
  "redact_sensitive_leaves to_str from_str kind changes =
     (if kind \<noteq> ''Upstream'' then changes
      else map (\<lambda>c. if fc_field c = ''service_discovery''
                     then c\<lparr>fc_old_value := redact_side to_str from_str (fc_old_value c),
                            fc_new_value := redact_side to_str from_str (fc_new_value c)\<rparr>
                     else c) changes)"

section \<open>What a redacted address is\<close>

lemma rsplit_once_last:
  "rsplit_once c s = Some (a, b) \<Longrightarrow> s = a @ c # b \<and> c \<notin> set b"
proof -
  assume a: "rsplit_once c s = Some (a, b)"
  then have c: "c \<in> set s" by (auto simp: rsplit_once_def split: if_splits)
  then obtain xs ys where s: "s = xs @ c # ys" "c \<notin> set ys" by (metis split_list_last)
  have "takeWhile (\<lambda>x. x \<noteq> c) (rev s) = rev ys" "dropWhile (\<lambda>x. x \<noteq> c) (rev s) = c # rev xs"
    using s by (simp_all add: takeWhile_no_sep dropWhile_no_sep)
  then show ?thesis using a c s by (auto simp: rsplit_once_def)
qed

lemma rsplit_once_sep: "c \<notin> set b \<Longrightarrow> rsplit_once c (a @ c # b) = Some (a, b)"
  by (simp add: rsplit_once_def takeWhile_no_sep dropWhile_no_sep)

definition is_clean :: "string \<Rightarrow> bool" where
  "is_clean s =
     (list_all (\<lambda>c. \<not> is_line_byte c) s \<and>
      (s = [] \<or> \<not> is_blank_byte (hd s) \<and> \<not> is_blank_byte (last s)))"

lemma line_byte_blank: "is_line_byte c \<Longrightarrow> is_blank_byte c"
  by (auto simp: is_line_byte_def is_blank_byte_def)

lemma trim_blank_clean_ends:
  assumes "trim_blank s \<noteq> []"
  shows "\<not> is_blank_byte (hd (trim_blank s))" "\<not> is_blank_byte (last (trim_blank s))"
proof -
  define u where "u = dropWhile is_blank_byte s"
  define w where "w = dropWhile is_blank_byte (rev u)"
  have t: "trim_blank s = rev w" by (simp add: trim_blank_def u_def w_def)
  then have w: "w \<noteq> []" using assms by simp
  have "\<not> is_blank_byte (hd w)" using w unfolding w_def by (rule hd_dropWhile)
  then show "\<not> is_blank_byte (last (trim_blank s))" using w by (simp add: t last_rev)
  have u: "u = rev w @ rev (takeWhile is_blank_byte (rev u))"
    unfolding w_def by (metis rev_append rev_rev_ident takeWhile_dropWhile_id)
  then have "u \<noteq> []" using w by auto
  then have "\<not> is_blank_byte (hd u)" unfolding u_def by (rule hd_dropWhile)
  moreover have "hd u = hd (rev w)" using u w by (metis Nil_is_rev_conv hd_append2)
  ultimately show "\<not> is_blank_byte (hd (trim_blank s))" by (simp add: t)
qed

lemma filter_keeps_ends:
  assumes "s \<noteq> []" and "q (hd s)" and "q (last s)"
  shows "filter q s \<noteq> []" "hd (filter q s) = hd s" "last (filter q s) = last s"
proof -
  show "hd (filter q s) = hd s" using assms by (cases s) auto
  have s: "s = butlast s @ [last s]" using assms(1) by simp
  have f: "filter q s = filter q (butlast s) @ [last s]" using assms(3) by (subst s) simp
  show "filter q s \<noteq> []" "last (filter q s) = last s" by (simp_all add: f)
qed

lemma clean_url_clean: "is_clean (clean_url txt)"
proof (cases "trim_blank txt = []")
  case False
  let ?q = "\<lambda>c. \<not> is_line_byte c"
  have q: "?q (hd (trim_blank txt))" "?q (last (trim_blank txt))"
    using trim_blank_clean_ends[OF False] line_byte_blank by blast+
  show ?thesis
    using trim_blank_clean_ends[OF False] filter_keeps_ends[where q = ?q, OF False q]
    by (auto simp: is_clean_def clean_url_def list_all_iff)
qed (simp add: is_clean_def clean_url_def)

lemma clean_url_id: "is_clean s \<Longrightarrow> clean_url s = s"
proof -
  assume c: "is_clean s"
  have "trim_blank s = s"
  proof (cases "s = []")
    case False
    then have "dropWhile is_blank_byte s = s" "dropWhile is_blank_byte (rev s) = rev s"
      using c by (auto simp: is_clean_def dropWhile_eq_self_iff hd_rev)
    then show ?thesis by (simp add: trim_blank_def)
  qed (simp add: trim_blank_def)
  then show ?thesis using c by (simp add: clean_url_def is_clean_def filter_id_conv list_all_iff)
qed

lemma split_once_SomeD: "split_once c s = Some (a, b) \<Longrightarrow> s = a @ c # b \<and> c \<notin> set a"
proof -
  assume a: "split_once c s = Some (a, b)"
  then have "c \<in> set s" by (auto simp: split_once_def split: if_splits)
  then obtain xs ys where "s = xs @ c # ys" "c \<notin> set xs" by (metis split_list_first)
  then show ?thesis using a by (simp add: split_once_sep)
qed

text \<open>The pieces of an address in which a userinfo was found.\<close>

lemma split_url_userinfo_parts:
  assumes "split_url_userinfo txt = Some p"
  shows "CHR ''@'' \<notin> set (takeWhile (\<lambda>c. \<not> ends_authority c) (ui_after p))"
    and "\<exists>pre. clean_url txt = pre @ ui_after p"
    and "ui_scheme p = Some sc \<Longrightarrow>
      is_url_scheme sc \<and> CHR '':'' \<notin> set sc \<and> (\<exists>b. clean_url txt = sc @ CHR '':'' # b)"
proof -
  obtain scheme rest0 where sp: "split_scheme (clean_url txt) = (scheme, rest0)"
    by (cases "split_scheme (clean_url txt)")
  define rest where "rest = dropWhile is_slash rest0"
  define auth where "auth = takeWhile (\<lambda>c. \<not> ends_authority c) rest"
  define behind where "behind = dropWhile (\<lambda>c. \<not> ends_authority c) rest"
  obtain ui host where r: "rsplit_once CHR ''@'' auth = Some (ui, host)"
    and p: "p = \<lparr>ui_scheme = scheme, ui_userinfo = ui, ui_after = host @ behind\<rparr>"
    using assms by (auto simp: split_url_userinfo_def sp Let_def rest_def auth_def behind_def
        split: option.splits)
  have a: "auth = ui @ CHR ''@'' # host" "CHR ''@'' \<notin> set host"
    using rsplit_once_last[OF r] by simp_all
  have "list_all (\<lambda>c. \<not> ends_authority c) auth"
    unfolding auth_def by (auto simp: list_all_iff dest: set_takeWhileD)
  then have "list_all (\<lambda>c. \<not> ends_authority c) host" by (simp add: a)
  then have "takeWhile (\<lambda>c. \<not> ends_authority c) (host @ behind) = host"
    unfolding behind_def
    by (simp add: takeWhile_append2 list_all_iff takeWhile_dropWhile_id)
      (metis (mono_tags, lifting) hd_dropWhile list.collapse takeWhile.simps)
  then show "CHR ''@'' \<notin> set (takeWhile (\<lambda>c. \<not> ends_authority c) (ui_after p))"
    using a(2) by (simp add: p)
  have "rest = auth @ behind" by (simp add: auth_def behind_def)
  then have "rest = ui @ CHR ''@'' # host @ behind" by (simp add: a(1))
  then have "rest0 = takeWhile is_slash rest0 @ ui @ CHR ''@'' # host @ behind"
    using takeWhile_dropWhile_id[of is_slash rest0] by (simp add: rest_def)
  then obtain pre where "rest0 = pre @ host @ behind" by (metis append.assoc append_Cons append_Nil)
  moreover have "\<exists>pre. clean_url txt = pre @ rest0"
    using sp by (auto simp: split_scheme_def split: option.splits if_splits
        dest!: split_once_SomeD)
  ultimately show "\<exists>pre. clean_url txt = pre @ ui_after p"
    by (metis append.assoc p url_userinfo.select_convs(3))
  show "ui_scheme p = Some sc \<Longrightarrow>
      is_url_scheme sc \<and> CHR '':'' \<notin> set sc \<and> (\<exists>b. clean_url txt = sc @ CHR '':'' # b)"
    using sp by (auto simp: p split_scheme_def split: option.splits if_splits
        dest!: split_once_SomeD)
qed

lemma url_scheme_first: "is_url_scheme sc \<Longrightarrow> \<exists>c cs. sc = c # cs \<and> is_ascii_alphabetic c"
  by (cases sc) (auto simp: is_url_scheme_def)

lemma split_redacted:
  assumes ci: "is_clean (pre @ after)" and at: "CHR ''@'' \<notin> set (takeWhile (\<lambda>c. \<not> ends_authority c) after)"
  shows "split_url_userinfo (REDACTION @ ''@'' @ after) =
      Some \<lparr>ui_scheme = None, ui_userinfo = REDACTION, ui_after = after\<rparr>"
    and "is_url_scheme sc \<Longrightarrow> CHR '':'' \<notin> set sc \<Longrightarrow> list_all (\<lambda>c. \<not> is_line_byte c) sc \<Longrightarrow>
      split_url_userinfo (sc @ ''://'' @ REDACTION @ ''@'' @ after) =
      Some \<lparr>ui_scheme = Some sc, ui_userinfo = REDACTION, ui_after = after\<rparr>"
proof -
  have na: "list_all (\<lambda>c. \<not> is_line_byte c) after"
    and la: "after \<noteq> [] \<Longrightarrow> \<not> is_blank_byte (last after)"
    using ci by (auto simp: is_clean_def)
  have cl: "clean_url (REDACTION @ ''@'' @ after) = REDACTION @ ''@'' @ after"
    by (rule clean_url_id)
      (use na la in \<open>auto simp: is_clean_def REDACTION_def is_line_byte_def is_blank_byte_def\<close>)
  have tw: "takeWhile (\<lambda>c. \<not> ends_authority c) (REDACTION @ ''@'' @ after) =
      REDACTION @ CHR ''@'' # takeWhile (\<lambda>c. \<not> ends_authority c) after"
    "dropWhile (\<lambda>c. \<not> ends_authority c) (REDACTION @ ''@'' @ after) =
      dropWhile (\<lambda>c. \<not> ends_authority c) after"
    by (simp_all add: REDACTION_def ends_authority_def is_slash_def)
  have ds: "dropWhile is_slash (REDACTION @ ''@'' @ after) = REDACTION @ ''@'' @ after"
    by (simp add: REDACTION_def is_slash_def)
  have ss: "split_scheme (REDACTION @ ''@'' @ after) = (None, REDACTION @ ''@'' @ after)"
  proof -
    have "\<not> is_url_scheme b" if "split_once CHR '':'' (REDACTION @ ''@'' @ after) = Some (b, r)"
      for b r
      using that by (auto simp: split_once_def REDACTION_def is_url_scheme_def
          is_ascii_alphabetic_def split: if_splits)
    then show ?thesis by (auto simp: split_scheme_def split: option.splits)
  qed
  show "split_url_userinfo (REDACTION @ ''@'' @ after) =
      Some \<lparr>ui_scheme = None, ui_userinfo = REDACTION, ui_after = after\<rparr>"
    unfolding split_url_userinfo_def cl ss Let_def prod.case ds tw rsplit_once_sep[OF at] by simp
  assume sc: "is_url_scheme sc" "CHR '':'' \<notin> set sc" "list_all (\<lambda>c. \<not> is_line_byte c) sc"
  obtain c cs where cc: "sc = c # cs" "is_ascii_alphabetic c" using url_scheme_first[OF sc(1)] by blast
  have cl2: "clean_url (sc @ ''://'' @ REDACTION @ ''@'' @ after) = sc @ ''://'' @ REDACTION @ ''@'' @ after"
    by (rule clean_url_id)
      (use na la sc(3) cc in \<open>auto simp: is_clean_def REDACTION_def is_line_byte_def is_blank_byte_def
        is_ascii_alphabetic_def\<close>)
  have ss2: "split_scheme (sc @ ''://'' @ REDACTION @ ''@'' @ after) =
      (Some sc, ''//'' @ REDACTION @ ''@'' @ after)"
    using split_once_sep[OF sc(2)] sc(1) by (simp add: split_scheme_def)
  have ds2: "dropWhile is_slash (''//'' @ REDACTION @ ''@'' @ after) = REDACTION @ ''@'' @ after"
    by (simp add: REDACTION_def is_slash_def)
  show "split_url_userinfo (sc @ ''://'' @ REDACTION @ ''@'' @ after) =
      Some \<lparr>ui_scheme = Some sc, ui_userinfo = REDACTION, ui_after = after\<rparr>"
    unfolding split_url_userinfo_def cl2 ss2 Let_def prod.case ds2 tw rsplit_once_sep[OF at] by simp
qed

lemma redact_url_userinfo_split:
  assumes r: "redact_url_userinfo txt = Some r"
  obtains p where "split_url_userinfo txt = Some p"
    and "split_url_userinfo r = Some (p\<lparr>ui_userinfo := REDACTION\<rparr>)"
proof -
  obtain p where p: "split_url_userinfo txt = Some p"
    using r by (auto simp: redact_url_userinfo_def split: option.splits)
  note parts = split_url_userinfo_parts[OF p]
  obtain pre where "clean_url txt = pre @ ui_after p" using parts(2) by blast
  then have ci: "is_clean (pre @ ui_after p)" using clean_url_clean[of "txt"] by simp
  show ?thesis
  proof (cases "ui_scheme p")
    case None
    then have "r = REDACTION @ ''@'' @ ui_after p"
      using r p by (simp add: redact_url_userinfo_def)
    then show ?thesis using that[OF p] split_redacted(1)[OF ci parts(1)] None by simp
  next
    case (Some sc)
    then have "r = sc @ ''://'' @ REDACTION @ ''@'' @ ui_after p"
      using r p by (simp add: redact_url_userinfo_def)
    moreover have "list_all (\<lambda>c. \<not> is_line_byte c) sc"
      using parts(3)[OF Some] clean_url_clean[of "txt"] by (auto simp: is_clean_def)
    ultimately show ?thesis
      using that[OF p] split_redacted(2)[OF ci parts(1)] parts(3)[OF Some] Some by simp
  qed
qed

text \<open>
  Redacting an address removes its userinfo and nothing else: the lenient parser that found
  the credential finds, in the redacted address, the same scheme and the same host and path, with
  \<open>[REDACTED]\<close> as the userinfo.  So a second redaction changes nothing and no part of the old
  userinfo can be read as one.
\<close>

theorem redact_url_userinfo_exact:
  "redact_url_userinfo address = Some redacted \<Longrightarrow>
   split_url_userinfo redacted =
     map_option (\<lambda>p. p\<lparr>ui_userinfo := REDACTION\<rparr>) (split_url_userinfo address) \<and>
   redact_url_userinfo redacted = Some redacted"
proof -
  assume r: "redact_url_userinfo address = Some redacted"
  from redact_url_userinfo_split[OF this] obtain p where
    p: "split_url_userinfo address = Some p"
      "split_url_userinfo redacted = Some (p\<lparr>ui_userinfo := REDACTION\<rparr>)" by blast
  then have "redact_url_userinfo redacted = redact_url_userinfo address"
    by (simp add: redact_url_userinfo_def)
  then show ?thesis using r p by simp
qed

theorem redact_url_userinfo_exact_witness:
  "split_url_userinfo ''https://[REDACTED]@consul:8500/v1'' =
     Some \<lparr>ui_scheme = Some ''https'', ui_userinfo = ''[REDACTED]'', ui_after = ''consul:8500/v1''\<rparr>"
proof -
  have "redact_url_userinfo ''https:///bob:p@ss@consul:8500/v1'' =
      Some ''https://[REDACTED]@consul:8500/v1''"
    by code_simp
  from redact_url_userinfo_exact[OF this] show ?thesis by code_simp
qed

section \<open>What a redacted service-discovery value is\<close>

lemma jstruct_insert:
  assumes "k \<notin> fst ` set B"
  shows "JObject (bt_insert k v' (bt_of_list (A @ (k, v) # B))) = jstruct (A @ (k, v') # B)"
proof -
  have g: "bt_get (bt_of_list fs) = map_of (rev fs)" for fs :: fields
  proof
    fix x show "bt_get (bt_of_list fs) x = map_of (rev fs) x"
      using jget_jstruct[of fs x] by (simp add: jstruct_def)
  qed
  have n: "map_of (rev B) k = None" using assms by (simp add: map_of_eq_None_iff)
  have "bt_insert k v' (bt_of_list (A @ (k, v) # B)) = bt_of_list (A @ (k, v') # B)"
    by (rule bt_wf_unique)
      (use n in \<open>auto simp: g map_simps bt_wf_of_list map_add_def fun_eq_iff split: option.splits\<close>)
  then show ?thesis by (simp add: jstruct_def)
qed

lemma keys_fields [simp]:
  "fst ` set (fld n v) = {n}"
  "fst ` set (opt_fld n f x) = (case x of None \<Rightarrow> {} | Some _ \<Rightarrow> {n})"
  by (auto simp: fld_def opt_fld_def split: option.splits)

definition with_consul_token :: "service_discovery_config \<Rightarrow> consul_config \<Rightarrow> string \<Rightarrow> json" where
  "with_consul_token sd c t =
     service_discovery_config_to_value (sd\<lparr>sd_consul := Some (c\<lparr>consul_token := Some t\<rparr>)\<rparr>)"

lemma consul_struct_split:
  obtains A B where "''token'' \<notin> fst ` set B"
    and "\<And>t. consul_config_to_value (c\<lparr>consul_token := Some t\<rparr>) =
      jstruct (A @ (''token'', JString t) # B)"
proof
  let ?B = "fld ''poll_interval_seconds'' (jword (consul_poll_interval_seconds c))"
  show "''token'' \<notin> fst ` set ?B" by simp
  let ?A = "fld ''address'' (JString (consul_address c)) @
      fld ''service_name'' (JString (consul_service_name c)) @
      opt_fld ''datacenter'' JString (consul_datacenter c) @
      opt_fld ''tag'' JString (consul_tag c) @
      fld ''healthy_only'' (JBool (consul_healthy_only c))"
  show "consul_config_to_value (c\<lparr>consul_token := Some t\<rparr>) =
      jstruct (?A @ (''token'', JString t) # ?B)" for t
    by (simp add: consul_config_to_value_def opt_fld_def[of "''token''"])
qed

lemma sd_struct_split:
  obtains A B where "''consul'' \<notin> fst ` set B"
    and "\<And>c. service_discovery_config_to_value (sd\<lparr>sd_consul := Some c\<rparr>) =
      jstruct (A @ (''consul'', consul_config_to_value c) # B)"
proof
  let ?B = "opt_fld ''mesh'' mesh_sd_config_to_value (sd_mesh sd) @
      opt_fld ''max_stale_seconds'' jword (sd_max_stale_seconds sd) @
      opt_fld ''stale_policy'' (JString \<circ> sd_stale_policy_str) (sd_stale_policy sd) @
      fld ''default_weight'' (jword (sd_default_weight sd))"
  show "''consul'' \<notin> fst ` set ?B" by (auto simp: image_Un split: option.splits)
  let ?A = "fld ''provider'' (JString (sd_provider_str (sd_provider sd))) @
      opt_fld ''dns_sd'' dns_sd_config_to_value (sd_dns_sd sd) @
      opt_fld ''kubernetes'' kubernetes_config_to_value (sd_kubernetes sd)"
  show "service_discovery_config_to_value (sd\<lparr>sd_consul := Some c\<rparr>) =
      jstruct (?A @ (''consul'', consul_config_to_value c) # ?B)" for c
    by (simp add: service_discovery_config_to_value_def opt_fld_def[of "''consul''"])
qed

lemma jget_jstruct_here:
  fixes B :: fields
  shows "k \<notin> fst ` set B \<Longrightarrow> bt_get (bt_of_list (A @ (k, v) # B)) k = Some v"
  using jget_jstruct[of "A @ (k, v) # B" k]
  by (simp add: jstruct_def map_add_def map_of_eq_None_iff[of "rev B", THEN iffD2])

lemma snd_redact_consul_address: "snd vr \<Longrightarrow> snd (redact_consul_address vr)"
  by (auto simp: redact_consul_address_def split: option.splits json.splits)

lemma redact_token_field:
  "redact_secret_field (hd SD_SECRET_FIELDS) (with_consul_token sd c t, b) =
     (with_consul_token sd c REDACTION, True)"
  "json_leaf (with_consul_token sd c t) [''consul'', ''token''] = Some (JString t)"
proof -
  obtain A B where ab: "''token'' \<notin> fst ` set B"
    "\<And>t. consul_config_to_value (c\<lparr>consul_token := Some t\<rparr>) =
      jstruct (A @ (''token'', JString t) # B)" by (rule consul_struct_split[of c]) blast
  obtain A' B' where ab': "''consul'' \<notin> fst ` set B'"
    "\<And>c. service_discovery_config_to_value (sd\<lparr>sd_consul := Some c\<rparr>) =
      jstruct (A' @ (''consul'', consul_config_to_value c) # B')" by (rule sd_struct_split[of sd]) blast
  have w: "with_consul_token sd c t =
      jstruct (A' @ (''consul'', jstruct (A @ (''token'', JString t) # B)) # B')" for t
    by (simp add: with_consul_token_def ab ab')
  show "json_leaf (with_consul_token sd c t) [''consul'', ''token''] = Some (JString t)"
    unfolding w by (simp add: jget_jstruct_here[OF ab(1)] jget_jstruct_here[OF ab'(1)])
  show "redact_secret_field (hd SD_SECRET_FIELDS) (with_consul_token sd c t, b) =
     (with_consul_token sd c REDACTION, True)"
    unfolding w
    by (simp add: redact_secret_field_def SD_SECRET_FIELDS_def jget_jstruct_here[OF ab(1)]
        jget_jstruct_here[OF ab'(1)] jstruct_insert[OF ab(1)] jstruct_insert[OF ab'(1)])
qed

text \<open>
  The rendered form of a service-discovery change does not depend on the Consul ACL token: for
  any two tokens the text that reaches the plan and the review comment is the same, so a reader
  learns nothing of the token from it.  What is relied on of \<open>serde_json\<close> is that it reads back the
  values it printed.
\<close>

theorem consul_token_not_rendered:
  "(\<And>x. from_str (to_str (with_consul_token sd c x)) = Some (with_consul_token sd c x)) \<Longrightarrow>
   redact_sensitive_leaves to_str from_str ''Upstream''
     [\<lparr>fc_field = ''service_discovery'', fc_old_value = to_str (with_consul_token sd c t1),
       fc_new_value = to_str (with_consul_token sd c t2)\<rparr>] =
   redact_sensitive_leaves to_str from_str ''Upstream''
     [\<lparr>fc_field = ''service_discovery'', fc_old_value = to_str (with_consul_token sd c t3),
       fc_new_value = to_str (with_consul_token sd c t4)\<rparr>]"
proof -
  assume rt: "\<And>x. from_str (to_str (with_consul_token sd c x)) = Some (with_consul_token sd c x)"
  have f: "SD_SECRET_FIELDS = [hd SD_SECRET_FIELDS]" by (simp add: SD_SECRET_FIELDS_def)
  have "fold redact_secret_field SD_SECRET_FIELDS (with_consul_token sd c t, False) =
      (with_consul_token sd c REDACTION, True)" for t
    by (subst f) (simp add: redact_token_field)
  then have "redact_side to_str from_str (to_str (with_consul_token sd c t)) =
      redact_side to_str from_str (to_str (with_consul_token sd c t'))" for t t'
    using snd_redact_consul_address[of "(with_consul_token sd c REDACTION, True)"]
    by (simp add: redact_side_def redact_service_discovery_json_def rt Let_def)
  then show ?thesis by (simp add: redact_sensitive_leaves_def)
qed

definition example_consul :: consul_config where
  "example_consul = \<lparr>consul_address = ''http://consul:8500'', consul_service_name = ''api'',
     consul_datacenter = None, consul_tag = None, consul_healthy_only = True,
     consul_token = None, consul_poll_interval_seconds = 30\<rparr>"

definition example_sd :: service_discovery_config where
  "example_sd = \<lparr>sd_provider = Consul, sd_dns_sd = None, sd_kubernetes = None, sd_consul = None,
     sd_mesh = None, sd_max_stale_seconds = None, sd_stale_policy = None, sd_default_weight = 1\<rparr>"

definition token_only :: "json \<Rightarrow> string" where
  "token_only j = (case json_leaf j [''consul'', ''token''] of Some (JString s) \<Rightarrow> s | _ \<Rightarrow> [])"

definition from_token :: "string \<Rightarrow> json option" where
  "from_token s = Some (with_consul_token example_sd example_consul s)"

theorem consul_token_not_rendered_witness:
  "redact_sensitive_leaves token_only from_token ''Upstream''
     [\<lparr>fc_field = ''service_discovery'', fc_old_value = ''secret1'', fc_new_value = ''secret2''\<rparr>] =
   redact_sensitive_leaves token_only from_token ''Upstream''
     [\<lparr>fc_field = ''service_discovery'', fc_old_value = ''a'', fc_new_value = ''b''\<rparr>]"
proof -
  have t: "token_only (with_consul_token example_sd example_consul x) = x" for x
    unfolding token_only_def redact_token_field(2) by simp
  show ?thesis
    using consul_token_not_rendered[of from_token token_only example_sd example_consul
        "''secret1''" "''secret2''" "''a''" "''b''"]
    by (simp add: t from_token_def)
qed

end
