(* ===== verification/Diff.thy ===== *)
theory Diff
  imports Redact "HOL-Library.Option_ord"
begin

text \<open>
  The comparison of a desired and a live configuration (\<open>src/diff/resource_diff.rs\<close>): the field-level
  comparison of two resources, the classification of every row of one kind, and the whole diff
  under an ownership scope.  A \<open>HashMap\<close> built from a list is the list's last-wins lookup; the order
  in which a \<open>HashMap\<close> is walked is the parameter \<open>order\<close>, a rearrangement of its keys that may differ
  for every map.  \<open>to_str\<close> and \<open>from_str\<close> stand for \<open>serde_json\<close>'s printer and parser.
\<close>

section \<open>Comparing two resources\<close>

definition association_id :: "json \<Rightarrow> string option" where
  "association_id v = (case jget v ''plugin_config_id'' of None \<Rightarrow> None | Some x \<Rightarrow> as_str x)"

definition normalize_associations_for_comparison :: "string \<Rightarrow> json \<Rightarrow> json" where
  "normalize_associations_for_comparison kind value =
     (if kind \<noteq> ''Proxy'' then value
      else (case value of
              JObject m \<Rightarrow>
                (case bt_get m ''plugins'' of
                   Some (JArray plugins) \<Rightarrow>
                     JObject (bt_insert ''plugins'' (JArray (sort_key association_id plugins)) m)
                 | _ \<Rightarrow> value)
            | _ \<Rightarrow> value))"

definition is_timestamp :: "string \<Rightarrow> bool" where
  "is_timestamp key = (key = ''created_at'' \<or> key = ''updated_at'')"

definition jget_or_null :: "json \<Rightarrow> string \<Rightarrow> json" where
  "jget_or_null v key = (case jget v key of None \<Rightarrow> JNull | Some x \<Rightarrow> x)"

definition declared_changes ::
    "(json \<Rightarrow> string) \<Rightarrow> string \<Rightarrow> json \<Rightarrow> json \<Rightarrow> (string, json) btree_map \<Rightarrow>
     (string, json) btree_map \<Rightarrow> field_change list" where
  "declared_changes to_str kind d0 a0 d_map a_map =
     concat (map (\<lambda>(key, d_val).
       if is_timestamp key then []
       else (let a_val = jget_or_null (JObject a_map) key in
             if d_val = a_val then []
             else (let (d_show, a_show) =
                     (if key = ''plugins'' \<and> kind = ''Proxy''
                      then (jget_or_null d0 ''plugins'', jget_or_null a0 ''plugins'')
                      else (d_val, a_val))
                   in [\<lparr>fc_field = key, fc_old_value = to_str a_show,
                        fc_new_value = to_str d_show\<rparr>]))) d_map)"

definition live_only_changes ::
    "(json \<Rightarrow> string) \<Rightarrow> (string, json) btree_map \<Rightarrow> (string, json) btree_map \<Rightarrow>
     (string, json) btree_map \<Rightarrow> (string, json) btree_map \<Rightarrow> field_change list" where
  "live_only_changes to_str d_extra a_extra d_map a_map =
     concat (map (\<lambda>(key, a_val).
       if is_timestamp key then []
       else if bt_contains a_extra key \<and> \<not> bt_contains d_extra key then []
       else if bt_contains d_map key then []
       else [\<lparr>fc_field = key, fc_old_value = to_str a_val, fc_new_value = ''null''\<rparr>]) a_map)"

definition compare_fields ::
    "(json \<Rightarrow> string) \<Rightarrow> ('r \<Rightarrow> json) \<Rightarrow> ('r \<Rightarrow> (string, json) btree_map) \<Rightarrow> string \<Rightarrow> 'r \<Rightarrow> 'r \<Rightarrow>
     field_change list" where
  "compare_fields to_str to_value passthrough kind desired actual =
     (let d0 = to_value desired; a0 = to_value actual;
          desired_val = normalize_associations_for_comparison kind d0;
          actual_val = normalize_associations_for_comparison kind a0
      in if desired_val = actual_val then []
         else (case (desired_val, actual_val) of
                 (JObject d_map, JObject a_map) \<Rightarrow>
                   declared_changes to_str kind d0 a0 d_map a_map @
                   live_only_changes to_str (passthrough desired) (passthrough actual) d_map a_map
               | _ \<Rightarrow> []))"

section \<open>The diff\<close>

datatype diff_action = Add | Modify | Delete

record resource_diff =
  rd_action :: diff_action
  rd_kind :: string
  rd_id :: string
  rd_namespace :: string
  rd_details :: "field_change list"

record unmanaged_resource =
  um_kind :: string
  um_id :: string
  um_namespace :: string

record spec_owned_resource =
  so_kind :: string
  so_id :: string
  so_namespace :: string
  so_api_spec_id :: string
  so_declared_in_repo :: bool
  so_pruned :: bool

definition is_conflict :: "spec_owned_resource \<Rightarrow> bool" where
  "is_conflict s = so_declared_in_repo s"

record diff_result =
  dr_diffs :: "resource_diff list"
  dr_unmanaged :: "unmanaged_resource list"
  dr_spec_owned :: "spec_owned_resource list"

definition diff_result_default :: diff_result where
  "diff_result_default = \<lparr>dr_diffs = [], dr_unmanaged = [], dr_spec_owned = []\<rparr>"

definition spec_conflicts :: "diff_result \<Rightarrow> spec_owned_resource list" where
  "spec_conflicts r = filter is_conflict (dr_spec_owned r)"

datatype ownership_scope = Shared "string set" | Exclusive

record diff_options =
  do_prune_spec_owned :: bool

record collection_context =
  cx_ownership_scope :: ownership_scope
  cx_options :: diff_options

type_synonym row_key = "string \<times> string"
type_synonym iter_order = "string \<Rightarrow> bool \<Rightarrow> row_key list \<Rightarrow> row_key list"

record 'r kind_ops =
  ko_kind :: string
  ko_key :: "'r \<Rightarrow> row_key"
  ko_spec :: "'r \<Rightarrow> string option"
  ko_details :: "'r \<Rightarrow> 'r \<Rightarrow> field_change list"

definition hash_map :: "('r \<Rightarrow> row_key) \<Rightarrow> 'r list \<Rightarrow> row_key \<rightharpoonup> 'r" where
  "hash_map key rs = map_of (rev (map (\<lambda>r. (key r, r)) rs))"

definition push_diff ::
    "diff_action \<Rightarrow> string \<Rightarrow> row_key \<Rightarrow> field_change list \<Rightarrow> diff_result \<Rightarrow> diff_result" where
  "push_diff action kind k details result =
     result\<lparr>dr_diffs := dr_diffs result @
       [\<lparr>rd_action = action, rd_kind = kind, rd_id = snd k, rd_namespace = fst k,
         rd_details = details\<rparr>]\<rparr>"

definition push_spec_owned ::
    "string \<Rightarrow> row_key \<Rightarrow> string \<Rightarrow> bool \<Rightarrow> bool \<Rightarrow> diff_result \<Rightarrow> diff_result" where
  "push_spec_owned kind k api_spec_id declared pruned result =
     result\<lparr>dr_spec_owned := dr_spec_owned result @
       [\<lparr>so_kind = kind, so_id = snd k, so_namespace = fst k, so_api_spec_id = api_spec_id,
         so_declared_in_repo = declared, so_pruned = pruned\<rparr>]\<rparr>"

definition push_unmanaged :: "string \<Rightarrow> row_key \<Rightarrow> diff_result \<Rightarrow> diff_result" where
  "push_unmanaged kind k result =
     result\<lparr>dr_unmanaged := dr_unmanaged result @
       [\<lparr>um_kind = kind, um_id = snd k, um_namespace = fst k\<rparr>]\<rparr>"

definition desired_step ::
    "'r kind_ops \<Rightarrow> (row_key \<rightharpoonup> 'r) \<Rightarrow> row_key \<Rightarrow> 'r \<Rightarrow> diff_result \<Rightarrow> diff_result" where
  "desired_step ops actual_map k desired_res result =
     (case actual_map k of
        Some actual_res \<Rightarrow>
          (case ko_spec ops actual_res of
             Some api_spec_id \<Rightarrow> push_spec_owned (ko_kind ops) k api_spec_id True False result
           | None \<Rightarrow>
               (let details = ko_details ops desired_res actual_res in
                if details \<noteq> [] then push_diff Modify (ko_kind ops) k details result
                else result))
      | None \<Rightarrow> push_diff Add (ko_kind ops) k [] result)"

definition actual_step ::
    "'r kind_ops \<Rightarrow> collection_context \<Rightarrow> (row_key \<rightharpoonup> 'r) \<Rightarrow> row_key \<Rightarrow> 'r \<Rightarrow> diff_result \<Rightarrow>
     diff_result" where
  "actual_step ops ctx desired_map k actual_res result =
     (if desired_map k \<noteq> None then result
      else (case ko_spec ops actual_res of
              Some api_spec_id \<Rightarrow>
                (let prune = (cx_ownership_scope ctx = Exclusive) \<and>
                       do_prune_spec_owned (cx_options ctx);
                     result1 = push_spec_owned (ko_kind ops) k api_spec_id False prune result
                 in if \<not> prune then result1
                    else push_diff Delete (ko_kind ops) k [] result1)
            | None \<Rightarrow>
                (case cx_ownership_scope ctx of
                   Shared previously_managed \<Rightarrow>
                     if state_key (fst k) (ko_kind ops) (snd k) \<in> previously_managed
                     then push_diff Delete (ko_kind ops) k [] result
                     else push_unmanaged (ko_kind ops) k result
                 | Exclusive \<Rightarrow> push_diff Delete (ko_kind ops) k [] result)))"

definition walk ::
    "(row_key \<rightharpoonup> 'r) \<Rightarrow> (row_key \<Rightarrow> 'r \<Rightarrow> diff_result \<Rightarrow> diff_result) \<Rightarrow> row_key list \<Rightarrow> diff_result \<Rightarrow>
     diff_result" where
  "walk m step ks result =
     fold (\<lambda>k result. case m k of None \<Rightarrow> result | Some r \<Rightarrow> step k r result) ks result"

definition diff_collection ::
    "iter_order \<Rightarrow> 'r kind_ops \<Rightarrow> collection_context \<Rightarrow> 'r list \<Rightarrow> 'r list \<Rightarrow> diff_result \<Rightarrow>
     diff_result" where
  "diff_collection order ops ctx desired actual result =
     (let desired_map = hash_map (ko_key ops) desired;
          actual_map = hash_map (ko_key ops) actual;
          desired_keys = order (ko_kind ops) True (remdups (map (ko_key ops) desired));
          actual_keys = order (ko_kind ops) False (remdups (map (ko_key ops) actual))
      in walk actual_map (actual_step ops ctx desired_map) actual_keys
           (walk desired_map (desired_step ops actual_map) desired_keys result))"

section \<open>The four kinds\<close>

type_synonym codec = "(json \<Rightarrow> string) \<times> (string \<Rightarrow> json option)"

definition details_of ::
    "codec \<Rightarrow> ('r \<Rightarrow> json) \<Rightarrow> ('r \<Rightarrow> (string, json) btree_map) \<Rightarrow> string \<Rightarrow> 'r \<Rightarrow> 'r \<Rightarrow>
     field_change list" where
  "details_of codec to_value passthrough kind desired actual =
     redact_sensitive_leaves (fst codec) (snd codec) kind
       (compare_fields (fst codec) to_value passthrough kind desired actual)"

definition proxy_ops :: "codec \<Rightarrow> proxy kind_ops" where
  "proxy_ops codec =
     \<lparr>ko_kind = ''Proxy'', ko_key = (\<lambda>p. (p_namespace p, p_id p)), ko_spec = p_api_spec_id,
      ko_details = details_of codec proxy_to_value p_extra ''Proxy''\<rparr>"

definition consumer_ops :: "codec \<Rightarrow> consumer kind_ops" where
  "consumer_ops codec =
     \<lparr>ko_kind = ''Consumer'', ko_key = (\<lambda>c. (c_namespace c, c_id c)), ko_spec = (\<lambda>_. None),
      ko_details = details_of codec consumer_to_value c_extra ''Consumer''\<rparr>"

definition upstream_ops :: "codec \<Rightarrow> upstream kind_ops" where
  "upstream_ops codec =
     \<lparr>ko_kind = ''Upstream'', ko_key = (\<lambda>u. (u_namespace u, u_id u)), ko_spec = u_api_spec_id,
      ko_details = details_of codec upstream_to_value u_extra ''Upstream''\<rparr>"

definition plugin_config_ops :: "codec \<Rightarrow> plugin_config kind_ops" where
  "plugin_config_ops codec =
     \<lparr>ko_kind = ''PluginConfig'', ko_key = (\<lambda>p. (pc_namespace p, pc_id p)),
      ko_spec = pc_api_spec_id,
      ko_details = details_of codec plugin_config_to_value pc_extra ''PluginConfig''\<rparr>"

definition rd_key :: "resource_diff \<Rightarrow> resource_key" where
  "rd_key d = (rd_namespace d, rd_kind d, rd_id d)"

definition um_key :: "unmanaged_resource \<Rightarrow> resource_key" where
  "um_key u = (um_namespace u, um_kind u, um_id u)"

definition so_key :: "spec_owned_resource \<Rightarrow> resource_key" where
  "so_key s = (so_namespace s, so_kind s, so_id s)"

definition diff_all ::
    "iter_order \<Rightarrow> codec \<Rightarrow> collection_context \<Rightarrow> gateway_config \<Rightarrow> gateway_config \<Rightarrow> diff_result"
  where
  "diff_all order codec ctx desired actual =
     diff_collection order (plugin_config_ops codec) ctx
       (gc_plugin_configs desired) (gc_plugin_configs actual)
       (diff_collection order (upstream_ops codec) ctx (gc_upstreams desired) (gc_upstreams actual)
         (diff_collection order (consumer_ops codec) ctx
           (gc_consumers desired) (gc_consumers actual)
           (diff_collection order (proxy_ops codec) ctx (gc_proxies desired) (gc_proxies actual)
             diff_result_default)))"

definition compute_diff_with_options ::
    "iter_order \<Rightarrow> codec \<Rightarrow> gateway_config \<Rightarrow> gateway_config \<Rightarrow> ownership_scope \<Rightarrow> diff_options \<Rightarrow>
     (config_error, diff_result) result" where
  "compute_diff_with_options order codec desired actual scope options =
     bind_result (validate_unique_live_resource_keys actual)
       (\<lambda>_. let result = diff_all order codec
                 \<lparr>cx_ownership_scope = scope, cx_options = options\<rparr> desired actual
            in Inr \<lparr>dr_diffs = sort_key rd_key (dr_diffs result),
                    dr_unmanaged = sort_key um_key (dr_unmanaged result),
                    dr_spec_owned = sort_key so_key (dr_spec_owned result)\<rparr>)"

definition compute_diff_with_scope ::
    "iter_order \<Rightarrow> codec \<Rightarrow> gateway_config \<Rightarrow> gateway_config \<Rightarrow> ownership_scope \<Rightarrow>
     (config_error, diff_result) result" where
  "compute_diff_with_scope order codec desired actual scope =
     compute_diff_with_options order codec desired actual scope \<lparr>do_prune_spec_owned = False\<rparr>"

definition compute_diff_with_ownership ::
    "iter_order \<Rightarrow> codec \<Rightarrow> gateway_config \<Rightarrow> gateway_config \<Rightarrow> string set option \<Rightarrow>
     (config_error, diff_result) result" where
  "compute_diff_with_ownership order codec desired actual previously_managed =
     compute_diff_with_scope order codec desired actual
       (case previously_managed of Some pm \<Rightarrow> Shared pm | None \<Rightarrow> Exclusive)"

definition compute_diff ::
    "iter_order \<Rightarrow> codec \<Rightarrow> gateway_config \<Rightarrow> gateway_config \<Rightarrow>
     (config_error, resource_diff list) result" where
  "compute_diff order codec desired actual =
     bind_result (compute_diff_with_scope order codec desired actual Exclusive)
       (\<lambda>r. Inr (dr_diffs r))"

end
