(* ===== verification/Ledger.thy ===== *)
theory Ledger
  imports Diff
begin

text \<open>
  The ownership ledger \<open>.state/<env>.json\<close> (\<open>src/state.rs\<close>): which resources this repository has
  applied (\<open>resources\<close>, the delete fence of shared mode), which creates are announced but not proven
  (\<open>pending_creates\<close>), which credential slots were written, and the overrides on record.  The clock
  and \<open>git rev-parse HEAD\<close> are parameters (\<open>now\<close>, \<open>head\<close>); the file itself is the value last saved.
\<close>

section \<open>Records\<close>

record credential_metadata =
  cm_slot :: string
  cm_shard :: u32
  cm_last_rotated :: string
  cm_delivered_to :: "string option"
  cm_delivered_run_id :: "string option"
  cm_allocation_commit :: "string option"
  cm_allocation_recipient :: "string option"

record override_record =
  ov_rule_id :: string
  ov_commit :: string
  ov_approver :: string
  ov_recorded_at :: string
  ov_pr_number :: "u64 option"
  ov_authorized_head :: "string option"
  ov_review_id :: "u64 option"

record state_file =
  st_version :: u32
  st_environment :: string
  st_last_applied_at :: "string option"
  st_last_applied_commit :: "string option"
  st_resources :: "(string, string) btree_map"
  st_pending_creates :: "string list"
  st_credentials :: "(string, credential_metadata) btree_map"
  st_credential_shard_count :: u32
  st_overrides :: "override_record list"
  st_mesh_document_path :: "string option"

definition STATE_VERSION :: u32 where "STATE_VERSION = 3"
definition MIN_SUPPORTED_STATE_VERSION :: u32 where "MIN_SUPPORTED_STATE_VERSION = 2"

definition state_file_default :: state_file where
  "state_file_default =
     \<lparr>st_version = STATE_VERSION, st_environment = ''default'', st_last_applied_at = None,
      st_last_applied_commit = None, st_resources = [], st_pending_creates = [],
      st_credentials = [], st_credential_shard_count = 1, st_overrides = [],
      st_mesh_document_path = None\<rparr>"

definition managed_resource_marker :: string where
  "managed_resource_marker = ''managed:v1''"

section \<open>The binding of an allocation\<close>

record allocation_binding =
  ab_revision :: "string option"
  ab_recipient :: "string option"

datatype ledger_error =
    BlankRecipient
  | NotALogin string
  | BadEnvironmentName string
  | UnsupportedVersion u32
  | InvalidResourceKey string
  | CreateNotDesired string string string

definition non_blank :: "string option \<Rightarrow> string option" where
  "non_blank value =
     (case value of
        None \<Rightarrow> None
      | Some v \<Rightarrow> if trim v = [] then None else Some (trim v))"

definition allocation_binding_new :: "string option \<Rightarrow> string option \<Rightarrow> allocation_binding" where
  "allocation_binding_new revision recipient =
     \<lparr>ab_revision = non_blank revision, ab_recipient = non_blank recipient\<rparr>"

definition is_valid_github_login :: "string \<Rightarrow> bool" where
  "is_valid_github_login login =
     (case login of
        [] \<Rightarrow> False
      | c # rest \<Rightarrow>
          is_ascii_alphanumeric c \<and>
          (let (body, mx) = (case strip_suffix ''[bot]'' rest of
                               Some body \<Rightarrow> (body, 33) | None \<Rightarrow> (rest, 38 :: nat))
           in length body \<le> mx \<and>
              list_all (\<lambda>b. is_ascii_alphanumeric b \<or> b = CHR ''-'') body))"

definition check_recipient_login :: "string \<Rightarrow> (ledger_error, unit) result" where
  "check_recipient_login login =
     (if is_valid_github_login login then Inr () else Inl (NotALogin login))"

definition resolve_binding ::
    "string option \<Rightarrow> string option \<Rightarrow> string option \<Rightarrow> (ledger_error, allocation_binding) result"
  where
  "resolve_binding configured_revision recipient checkout_head =
     (let recipient = map_option trim recipient in
      bind_result
        (case recipient of
           Some login \<Rightarrow> if login = [] then Inl BlankRecipient else check_recipient_login login
         | None \<Rightarrow> Inr ())
        (\<lambda>_. let revision = (case non_blank configured_revision of
                               Some r \<Rightarrow> Some r | None \<Rightarrow> checkout_head)
             in Inr (allocation_binding_new revision recipient)))"

definition recorded :: "allocation_binding \<Rightarrow> credential_metadata \<Rightarrow> bool" where
  "recorded b metadata =
     (case (ab_revision b, ab_recipient b, cm_allocation_commit metadata,
            cm_allocation_recipient metadata) of
        (Some revision, Some recipient, Some commit, Some rec) \<Rightarrow>
          revision = commit \<and> recipient = rec
      | _ \<Rightarrow> False)"

section \<open>Keys of a configuration\<close>

definition resource_keys_from_config :: "gateway_config \<Rightarrow> string list" where
  "resource_keys_from_config config =
     map (\<lambda>r. state_key (p_namespace r) ''Proxy'' (p_id r)) (gc_proxies config) @
     map (\<lambda>r. state_key (c_namespace r) ''Consumer'' (c_id r)) (gc_consumers config) @
     map (\<lambda>r. state_key (u_namespace r) ''Upstream'' (u_id r)) (gc_upstreams config) @
     map (\<lambda>r. state_key (pc_namespace r) ''PluginConfig'' (pc_id r)) (gc_plugin_configs config)"

definition resource_keys_contains :: "string list \<Rightarrow> string \<Rightarrow> bool" where
  "resource_keys_contains keys key = (key \<in> set keys)"

section \<open>Loading and saving\<close>

definition validate_component_name :: "string \<Rightarrow> bool" where
  "validate_component_name name =
     (name \<noteq> [] \<and> length name \<le> 64 \<and>
      list_all (\<lambda>c. is_ascii_alphanumeric c \<or> c = CHR ''-'' \<or> c = CHR ''_'') name)"

definition validate_env_name :: "string \<Rightarrow> (ledger_error, unit) result" where
  "validate_env_name name =
     (if validate_component_name name \<and> is_ascii_alphanumeric (hd name) then Inr ()
      else Inl (BadEnvironmentName name))"

definition validate_resource_keys :: "state_file \<Rightarrow> (ledger_error, unit) result" where
  "validate_resource_keys st =
     (case find (\<lambda>key. state_key_namespace key = None)
             (bt_keys (st_resources st) @ st_pending_creates st) of
        Some key \<Rightarrow> Inl (InvalidResourceKey key)
      | None \<Rightarrow> Inr ())"

definition reset_markers :: "(string, string) btree_map \<Rightarrow> (string, string) btree_map" where
  "reset_markers m = map (\<lambda>(k, _). (k, managed_resource_marker)) m"

text \<open>\<open>load\<close>: \<open>disk\<close> is the parsed content of the environment's file, if there is one.\<close>

definition load_state ::
    "string \<Rightarrow> state_file option \<Rightarrow> (ledger_error, state_file) result" where
  "load_state environment disk =
     bind_result (validate_env_name environment)
       (\<lambda>_. case disk of
              None \<Rightarrow> Inr (state_file_default\<lparr>st_environment := environment\<rparr>)
            | Some state \<Rightarrow>
                if \<not> (MIN_SUPPORTED_STATE_VERSION \<le> st_version state \<and>
                       st_version state \<le> STATE_VERSION)
                then Inl (UnsupportedVersion (st_version state))
                else (let state = state\<lparr>st_environment := environment,
                                        st_version := STATE_VERSION,
                                        st_resources := reset_markers (st_resources state)\<rparr>
                      in bind_result (validate_resource_keys state) (\<lambda>_. Inr state)))"

text \<open>\<open>save\<close>: the value written, or the refusal that leaves the file as it was.\<close>

definition save_state :: "state_file \<Rightarrow> (ledger_error, state_file) result" where
  "save_state st =
     bind_result (validate_env_name (st_environment st))
       (\<lambda>_. bind_result (validate_resource_keys st)
         (\<lambda>_. Inr (st\<lparr>st_version := STATE_VERSION,
                      st_resources := reset_markers (st_resources st)\<rparr>)))"

section \<open>Recording a run\<close>

definition outside_scope :: "string list \<Rightarrow> string \<Rightarrow> bool" where
  "outside_scope scope key =
     (case state_key_namespace key of Some ns \<Rightarrow> ns \<notin> set scope | None \<Rightarrow> False)"

definition insert_scoped ::
    "string list \<Rightarrow> ('r \<Rightarrow> string) \<Rightarrow> string \<Rightarrow> ('r \<Rightarrow> string) \<Rightarrow> 'r list \<Rightarrow>
     (string, string) btree_map \<Rightarrow> (string, string) btree_map" where
  "insert_scoped scope ns kind rid rs m =
     fold (\<lambda>r m. if ns r \<notin> set scope then m
                 else bt_insert (state_key (ns r) kind (rid r)) managed_resource_marker m) rs m"

definition insert_config_scoped ::
    "gateway_config \<Rightarrow> string list \<Rightarrow> (string, string) btree_map \<Rightarrow> (string, string) btree_map"
  where
  "insert_config_scoped config scope m =
     insert_scoped scope pc_namespace ''PluginConfig'' pc_id (gc_plugin_configs config)
       (insert_scoped scope u_namespace ''Upstream'' u_id (gc_upstreams config)
         (insert_scoped scope c_namespace ''Consumer'' c_id (gc_consumers config)
           (insert_scoped scope p_namespace ''Proxy'' p_id (gc_proxies config) m)))"

definition record_state ::
    "string \<Rightarrow> string option \<Rightarrow> gateway_config \<Rightarrow> string list \<Rightarrow> state_file \<Rightarrow> state_file" where
  "record_state now head config scope_namespaces st =
     st\<lparr>st_resources := insert_config_scoped config scope_namespaces
          (bt_retain (outside_scope scope_namespaces) (st_resources st)),
        st_pending_creates := bs_retain (outside_scope scope_namespaces) (st_pending_creates st),
        st_last_applied_at := Some now,
        st_last_applied_commit := head\<rparr>"

record applied_op =
  ao_kind :: string
  ao_namespace :: string
  ao_id :: string
  ao_action :: diff_action

definition record_op :: "applied_op \<Rightarrow> string list \<Rightarrow> state_file \<Rightarrow> state_file" where
  "record_op op desired st =
     (let key = state_key (ao_namespace op) (ao_kind op) (ao_id op) in
      case ao_action op of
        Delete \<Rightarrow> st\<lparr>st_resources := bt_remove key (st_resources st),
                     st_pending_creates := bs_remove key (st_pending_creates st)\<rparr>
      | _ \<Rightarrow> if resource_keys_contains desired key
             then st\<lparr>st_resources := bt_insert key managed_resource_marker (st_resources st),
                     st_pending_creates := bs_remove key (st_pending_creates st)\<rparr>
             else st)"

text \<open>\<open>reserve_adds\<close> may stop half way; the state then holds the reservations made so far.\<close>

fun reserve_loop ::
    "resource_diff list \<Rightarrow> string list \<Rightarrow> state_file \<Rightarrow> nat \<Rightarrow>
     state_file \<times> (ledger_error, nat) result" where
  "reserve_loop [] desired st reserved = (st, Inr reserved)"
| "reserve_loop (d # ds) desired st reserved =
     (if rd_action d \<noteq> Add then reserve_loop ds desired st reserved
      else (let key = state_key (rd_namespace d) (rd_kind d) (rd_id d) in
            if \<not> resource_keys_contains desired key
            then (st, Inl (CreateNotDesired (rd_kind d) (rd_id d) (rd_namespace d)))
            else if \<not> bt_contains (st_resources st) key \<and>
                    \<not> bs_contains key (st_pending_creates st)
            then reserve_loop ds desired
                   (st\<lparr>st_pending_creates := bs_insert key (st_pending_creates st)\<rparr>)
                   (reserved + 1)
            else reserve_loop ds desired st reserved))"

definition reserve_adds ::
    "resource_diff list \<Rightarrow> gateway_config \<Rightarrow> state_file \<Rightarrow>
     state_file \<times> (ledger_error, nat) result" where
  "reserve_adds ds desired st =
     reserve_loop ds (resource_keys_from_config desired) st 0"

section \<open>Reconciling with a backup\<close>

datatype pending_create_scope = PendingShared | PendingExclusive | FullReplaceScope

datatype pending_warning =
    DroppedUnparseable string
  | ForgottenUnmanaged string
  | ForgottenToPrune string
  | ForgottenBeforeReplace string string

record pending_create_reconciliation =
  pr_forgotten :: nat
  pr_warnings :: "pending_warning list"

definition changed :: "pending_create_reconciliation \<Rightarrow> bool" where
  "changed r = (0 < pr_forgotten r)"

definition forget ::
    "string \<Rightarrow> pending_warning list \<Rightarrow> state_file \<times> pending_create_reconciliation \<Rightarrow>
     state_file \<times> pending_create_reconciliation" where
  "forget key warnings s =
     ((fst s)\<lparr>st_pending_creates := bs_remove key (st_pending_creates (fst s))\<rparr>,
      \<lparr>pr_forgotten = pr_forgotten (snd s) + 1, pr_warnings = pr_warnings (snd s) @ warnings\<rparr>)"

definition reconcile_pending_step ::
    "string list \<Rightarrow> (string, gateway_config) btree_map \<Rightarrow> pending_create_scope \<Rightarrow> string \<Rightarrow>
     state_file \<times> pending_create_reconciliation \<Rightarrow> state_file \<times> pending_create_reconciliation"
  where
  "reconcile_pending_step desired actual_by_namespace scope key s =
     (if bt_contains (st_resources (fst s)) key then forget key [] s
      else (case state_key_namespace key of
              None \<Rightarrow> forget key [DroppedUnparseable key] s
            | Some namespace \<Rightarrow>
                (case bt_get actual_by_namespace namespace of
                   None \<Rightarrow> s
                 | Some actual \<Rightarrow>
                     if scope = FullReplaceScope then forget key [] s
                     else (case (resource_keys_contains desired key,
                                 resource_keys_contains (resource_keys_from_config actual) key) of
                             (True, _) \<Rightarrow> s
                           | (False, False) \<Rightarrow> forget key [] s
                           | (False, True) \<Rightarrow>
                               forget key
                                 [case scope of
                                    PendingShared \<Rightarrow> ForgottenUnmanaged key
                                  | PendingExclusive \<Rightarrow> ForgottenToPrune key
                                  | FullReplaceScope \<Rightarrow> ForgottenBeforeReplace key namespace] s))))"

definition reconcile_pending_creates ::
    "gateway_config \<Rightarrow> (string, gateway_config) btree_map \<Rightarrow> pending_create_scope \<Rightarrow> state_file \<Rightarrow>
     state_file \<times> pending_create_reconciliation" where
  "reconcile_pending_creates desired actual_by_namespace scope st =
     fold (reconcile_pending_step (resource_keys_from_config desired) actual_by_namespace scope)
       (st_pending_creates st) (st, \<lparr>pr_forgotten = 0, pr_warnings = []\<rparr>)"

definition still_present ::
    "string list \<Rightarrow> (string, gateway_config) btree_map \<Rightarrow> string \<Rightarrow> bool" where
  "still_present desired actual_by_namespace key =
     (case state_key_namespace key of
        None \<Rightarrow> True
      | Some namespace \<Rightarrow>
          (case bt_get actual_by_namespace namespace of
             None \<Rightarrow> True
           | Some actual \<Rightarrow>
               resource_keys_contains desired key \<or>
               resource_keys_contains (resource_keys_from_config actual) key))"

definition reconcile_absent_managed_resources ::
    "gateway_config \<Rightarrow> (string, gateway_config) btree_map \<Rightarrow> state_file \<Rightarrow> state_file \<times> nat" where
  "reconcile_absent_managed_resources desired actual_by_namespace st =
     (let before = length (st_resources st);
          st' = st\<lparr>st_resources := bt_retain
                  (still_present (resource_keys_from_config desired) actual_by_namespace)
                  (st_resources st)\<rparr>
      in (st', before - length (st_resources st')))"

definition insert_filtered ::
    "string \<Rightarrow> ('r \<Rightarrow> string) \<Rightarrow> string \<Rightarrow> ('r \<Rightarrow> string) \<Rightarrow> 'r list \<Rightarrow>
     (string, string) btree_map \<Rightarrow> (string, string) btree_map" where
  "insert_filtered namespace ns kind rid rs m =
     fold (\<lambda>r. bt_insert (state_key (ns r) kind (rid r)) managed_resource_marker)
       (filter (\<lambda>r. ns r = namespace) rs) m"

definition other_namespace :: "string \<Rightarrow> string \<Rightarrow> bool" where
  "other_namespace namespace key =
     (case state_key_namespace key of Some ns \<Rightarrow> ns \<noteq> namespace | None \<Rightarrow> False)"

definition record_full_replace :: "string \<Rightarrow> gateway_config \<Rightarrow> state_file \<Rightarrow> state_file" where
  "record_full_replace namespace desired st =
     st\<lparr>st_resources :=
          insert_filtered namespace pc_namespace ''PluginConfig'' pc_id (gc_plugin_configs desired)
            (insert_filtered namespace u_namespace ''Upstream'' u_id (gc_upstreams desired)
              (insert_filtered namespace c_namespace ''Consumer'' c_id (gc_consumers desired)
                (insert_filtered namespace p_namespace ''Proxy'' p_id (gc_proxies desired)
                  (bt_retain (other_namespace namespace) (st_resources st))))),
        st_pending_creates := bs_retain (other_namespace namespace) (st_pending_creates st)\<rparr>"

section \<open>Metadata\<close>

definition stamp_last_applied :: "string \<Rightarrow> string option \<Rightarrow> state_file \<Rightarrow> state_file" where
  "stamp_last_applied now head st =
     st\<lparr>st_last_applied_at := Some now, st_last_applied_commit := head\<rparr>"

definition stamp_last_applied_if_clean ::
    "string \<Rightarrow> string option \<Rightarrow> bool \<Rightarrow> state_file \<Rightarrow> state_file" where
  "stamp_last_applied_if_clean now head apply_succeeded st =
     (if apply_succeeded then stamp_last_applied now head st else st)"

definition credential_metadata_now ::
    "string \<Rightarrow> string \<Rightarrow> u32 \<Rightarrow> string option \<Rightarrow> string option \<Rightarrow> credential_metadata" where
  "credential_metadata_now now slot shard delivered_to delivered_run_id =
     \<lparr>cm_slot = slot, cm_shard = shard, cm_last_rotated = now, cm_delivered_to = delivered_to,
      cm_delivered_run_id = delivered_run_id, cm_allocation_commit = None,
      cm_allocation_recipient = None\<rparr>"

definition record_credential ::
    "string \<Rightarrow> string \<Rightarrow> u32 \<Rightarrow> string option \<Rightarrow> string option \<Rightarrow> state_file \<Rightarrow> state_file" where
  "record_credential now slot shard delivered_to delivered_run_id st =
     st\<lparr>st_credentials := bt_insert slot
          (credential_metadata_now now slot shard delivered_to delivered_run_id)
          (st_credentials st)\<rparr>"

record allocated_slot =
  as_slot :: string
  as_shard :: u32
  as_delivered_login :: "string option"

definition saturating_succ :: "u32 \<Rightarrow> u32" where
  "saturating_succ n = (if n = - 1 then - 1 else n + 1)"

definition record_allocated_slot ::
    "string \<Rightarrow> string option \<Rightarrow> allocation_binding \<Rightarrow> allocated_slot \<Rightarrow> state_file \<Rightarrow> state_file"
  where
  "record_allocated_slot now delivered_run_id bnd slot st =
     (let metadata =
        (credential_metadata_now now (as_slot slot) (as_shard slot) (as_delivered_login slot)
           delivered_run_id)
        \<lparr>cm_allocation_commit := ab_revision bnd, cm_allocation_recipient := ab_recipient bnd\<rparr>
      in st\<lparr>st_credentials := bt_insert (as_slot slot) metadata (st_credentials st),
            st_credential_shard_count :=
              max (st_credential_shard_count st) (saturating_succ (as_shard slot))\<rparr>)"

definition record_allocation ::
    "string \<Rightarrow> allocated_slot list \<Rightarrow> string option \<Rightarrow> allocation_binding \<Rightarrow> state_file \<Rightarrow> state_file"
  where
  "record_allocation now allocated delivered_run_id bnd st =
     fold (record_allocated_slot now delivered_run_id bnd) allocated st"

definition record_override ::
    "string \<Rightarrow> string \<Rightarrow> string \<Rightarrow> string \<Rightarrow> state_file \<Rightarrow> state_file" where
  "record_override now rule_id commit approver st =
     st\<lparr>st_overrides := st_overrides st @
          [\<lparr>ov_rule_id = rule_id, ov_commit = commit, ov_approver = approver, ov_recorded_at = now,
            ov_pr_number = None, ov_authorized_head = None, ov_review_id = None\<rparr>]\<rparr>"

record verified_override =
  vo_approver :: string
  vo_permission :: string
  vo_pr_number :: u64
  vo_authorized_head :: string
  vo_review_id :: u64
  vo_applied_revision :: string

definition record_verified_override ::
    "string \<Rightarrow> string \<Rightarrow> verified_override \<Rightarrow> state_file \<Rightarrow> state_file" where
  "record_verified_override now rule_id verified st =
     st\<lparr>st_overrides := st_overrides st @
          [\<lparr>ov_rule_id = rule_id, ov_commit = vo_applied_revision verified,
            ov_approver = vo_approver verified, ov_recorded_at = now,
            ov_pr_number = Some (vo_pr_number verified),
            ov_authorized_head = Some (vo_authorized_head verified),
            ov_review_id = Some (vo_review_id verified)\<rparr>]\<rparr>"

definition publishes_mesh_document :: "string \<Rightarrow> state_file \<Rightarrow> bool" where
  "publishes_mesh_document output_path st = (st_mesh_document_path st = Some output_path)"

definition record_mesh_publication :: "string \<Rightarrow> state_file \<Rightarrow> state_file" where
  "record_mesh_publication output_path st = st\<lparr>st_mesh_document_path := Some output_path\<rparr>"

definition previously_managed_keys :: "state_file \<Rightarrow> string set" where
  "previously_managed_keys st = set (bt_keys (st_resources st))"

end
