(* ===== verification/RepoConfig.thy ===== *)
theory RepoConfig
  imports Ledger
begin

text \<open>
  The repository configuration \<open>.gitforgeops/config.yaml\<close> (\<open>config/repo_config.rs\<close>): environments,
  their ownership, monitoring and promotion settings, and the checks made when the file is loaded.

  Each refusal of \<open>validate\<close> is a constructor of \<open>repo_config_error\<close> that carries the values its
  message is built from.  The walk along \<open>promotion.requires\<close> is a \<open>while\<close> loop that stops at the
  first repeated name; \<open>cycle_walk\<close> is the same loop as a recursion, and its termination proof is
  the argument that the list of names seen can only grow to the number of declared predecessors.
\<close>

section \<open>The configuration\<close>

datatype apply_strategy = Incremental | FullReplace

datatype ownership_mode = Exclusive | Shared

definition ownership_mode_default :: ownership_mode where
  "ownership_mode_default = Shared"

definition DEFAULT_LARGE_PRUNE_THRESHOLD_PERCENT :: u8 where
  "DEFAULT_LARGE_PRUNE_THRESHOLD_PERCENT = 25"

definition REPO_CONFIG_VERSION :: u32 where
  "REPO_CONFIG_VERSION = 1"

definition MONITORING_ENVIRONMENT_SUFFIX :: string where
  "MONITORING_ENVIRONMENT_SUFFIX = ''-monitor''"

record drift_alert_on =
  da_managed_modified :: bool
  da_managed_deleted :: bool
  da_unmanaged_added :: bool

definition drift_alert_on_default :: drift_alert_on where
  "drift_alert_on_default =
     \<lparr>da_managed_modified = True, da_managed_deleted = True, da_unmanaged_added = False\<rparr>"

record ownership_config =
  oc_mode :: ownership_mode
  oc_namespaces :: "string list option"
  oc_drift_report :: bool
  oc_drift_alert_on :: drift_alert_on
  oc_large_prune_threshold_percent :: u8

definition ownership_config_default :: ownership_config where
  "ownership_config_default =
     \<lparr>oc_mode = ownership_mode_default, oc_namespaces = None, oc_drift_report = True,
      oc_drift_alert_on = drift_alert_on_default,
      oc_large_prune_threshold_percent = DEFAULT_LARGE_PRUNE_THRESHOLD_PERCENT\<rparr>"

record monitoring_config =
  mc_unattended :: bool

record promotion_config =
  pr_requires :: "string option"

record environment_config =
  ev_overlay :: "string option"
  ev_live_review :: bool
  ev_namespace_filter :: "string option"
  ev_apply_strategy :: apply_strategy
  ev_ownership :: ownership_config
  ev_monitoring :: monitoring_config
  ev_promotion :: promotion_config

definition environment_config_default :: environment_config where
  "environment_config_default =
     \<lparr>ev_overlay = None, ev_live_review = True, ev_namespace_filter = None,
      ev_apply_strategy = Incremental, ev_ownership = ownership_config_default,
      ev_monitoring = \<lparr>mc_unattended = False\<rparr>, ev_promotion = \<lparr>pr_requires = None\<rparr>\<rparr>"

type_synonym environments = "(string, environment_config) btree_map"

record repo_config =
  rc_version :: u32
  rc_environments :: environments
  rc_default_environment :: "string option"

definition repo_config_default :: repo_config where
  "repo_config_default =
     \<lparr>rc_version = REPO_CONFIG_VERSION, rc_environments = [], rc_default_environment = None\<rparr>"

definition environment :: "repo_config \<Rightarrow> string \<Rightarrow> environment_config option" where
  "environment c name = bt_get (rc_environments c) name"

definition environment_names :: "repo_config \<Rightarrow> string list" where
  "environment_names c = bt_keys (rc_environments c)"

section \<open>Routing data for the workflow matrix\<close>

definition monitoring_environment_name :: "string \<Rightarrow> string" where
  "monitoring_environment_name env = env @ MONITORING_ENVIRONMENT_SUFFIX"

record environment_scope =
  es_environment :: string
  es_live_review :: bool
  es_namespaces :: "string list option"
  es_monitoring_environment :: string
  es_unattended_monitoring :: bool
  es_promotion_requires :: "string option"

definition scope_namespaces :: "environment_config \<Rightarrow> string list option" where
  "scope_namespaces env =
     map_option (\<lambda>values. remdups_adj (sort values))
       (case ev_namespace_filter env of
          Some ns \<Rightarrow> Some [ns]
        | None \<Rightarrow> if oc_mode (ev_ownership env) = Exclusive then oc_namespaces (ev_ownership env)
                  else None)"

definition environment_scope_of :: "string \<times> environment_config \<Rightarrow> environment_scope" where
  "environment_scope_of entry =
     (case entry of (name, env) \<Rightarrow>
        \<lparr>es_environment = name, es_live_review = ev_live_review env,
         es_namespaces = scope_namespaces env,
         es_monitoring_environment =
           (if mc_unattended (ev_monitoring env) then monitoring_environment_name name else name),
         es_unattended_monitoring = mc_unattended (ev_monitoring env),
         es_promotion_requires = pr_requires (ev_promotion env)\<rparr>)"

definition environment_scopes :: "repo_config \<Rightarrow> environment_scope list" where
  "environment_scopes c = map environment_scope_of (rc_environments c)"

section \<open>Validation\<close>

datatype repo_config_error =
    UnsupportedConfigVersion u32
  | EmptyEnvironments
  | BadEnvName string
  | BadOverlayName string
  | ReservedSuffix string
  | ExclusiveWithoutNamespaces string
  | SharedFullReplace string
  | ThresholdOutOfRange string u8
  | PromotesItself string
  | PromotesUndeclared string string
  | PromotionCycle string "string list" string
  | PromotionTooDeep string string string
  | UnknownDefault string
  | EnvironmentNotFound string
  | AmbiguousEnvironment "string list"

definition check_env_name :: "string \<Rightarrow> (repo_config_error, unit) result" where
  "check_env_name name =
     (case validate_env_name name of Inl _ \<Rightarrow> Inl (BadEnvName name) | Inr _ \<Rightarrow> Inr ())"

definition validate_overlay_name :: "string \<Rightarrow> (repo_config_error, unit) result" where
  "validate_overlay_name name =
     (if validate_component_name name then Inr () else Inl (BadOverlayName name))"

definition check_overlay :: "string option \<Rightarrow> (repo_config_error, unit) result" where
  "check_overlay overlay = (case overlay of Some name \<Rightarrow> validate_overlay_name name | None \<Rightarrow> Inr ())"

definition exclusive_unbounded :: "ownership_config \<Rightarrow> bool" where
  "exclusive_unbounded own =
     (oc_mode own = Exclusive \<and> (case oc_namespaces own of Some ns \<Rightarrow> ns = [] | None \<Rightarrow> True))"

definition shared_full_replace :: "ownership_config \<Rightarrow> apply_strategy \<Rightarrow> bool" where
  "shared_full_replace own strategy = (oc_mode own = Shared \<and> strategy = FullReplace)"

definition validate_environment ::
    "string \<times> environment_config \<Rightarrow> unit \<Rightarrow> (repo_config_error, unit) result" where
  "validate_environment entry u =
     (case entry of (name, env) \<Rightarrow>
        bind_result (check_env_name name) (\<lambda>_.
        bind_result (check_overlay (ev_overlay env)) (\<lambda>_.
          if ends_with name MONITORING_ENVIRONMENT_SUFFIX then Inl (ReservedSuffix name)
          else if exclusive_unbounded (ev_ownership env) then Inl (ExclusiveWithoutNamespaces name)
          else if shared_full_replace (ev_ownership env) (ev_apply_strategy env)
          then Inl (SharedFullReplace name)
          else if 100 < oc_large_prune_threshold_percent (ev_ownership env)
          then Inl (ThresholdOutOfRange name (oc_large_prune_threshold_percent (ev_ownership env)))
          else Inr ())))"

definition promotion_of :: "environments \<Rightarrow> string \<Rightarrow> string option" where
  "promotion_of envs name =
     (case bt_get envs name of Some env \<Rightarrow> pr_requires (ev_promotion env) | None \<Rightarrow> None)"

definition check_promotion_target ::
    "environments \<Rightarrow> string \<times> environment_config \<Rightarrow> unit \<Rightarrow> (repo_config_error, unit) result" where
  "check_promotion_target envs entry u =
     (case entry of (name, env) \<Rightarrow>
        case pr_requires (ev_promotion env) of
          None \<Rightarrow> Inr ()
        | Some required \<Rightarrow>
            if required = name then Inl (PromotesItself name)
            else if \<not> bt_contains envs required then Inl (PromotesUndeclared name required)
            else Inr ())"

text \<open>The loop of the cycle check: \<open>seen\<close> is the walk so far, \<open>cursor\<close> its last name.\<close>

function cycle_walk ::
    "environments \<Rightarrow> string \<Rightarrow> string list \<Rightarrow> string \<Rightarrow> (repo_config_error, unit) result" where
  "cycle_walk envs name seen cursor =
     (case promotion_of envs cursor of
        None \<Rightarrow> Inr ()
      | Some next \<Rightarrow>
          if next \<in> set seen then Inl (PromotionCycle name seen next)
          else cycle_walk envs name (seen @ [next]) next)"
  by pat_completeness auto

definition predecessors :: "environments \<Rightarrow> string set" where
  "predecessors envs = {r. Some r \<in> (\<lambda>env. pr_requires (ev_promotion env)) ` snd ` set envs}"

lemma finite_predecessors: "finite (predecessors envs)"
proof -
  have "Some ` predecessors envs \<subseteq> (\<lambda>env. pr_requires (ev_promotion env)) ` snd ` set envs"
    by (auto simp: predecessors_def)
  then have "finite (Some ` predecessors envs)" by (rule finite_subset) simp
  then show ?thesis by (rule finite_imageD) (simp add: inj_on_def)
qed

lemma promotion_of_predecessors: "promotion_of envs name = Some r \<Longrightarrow> r \<in> predecessors envs"
  unfolding promotion_of_def bt_get_def predecessors_def
  by (force dest: map_of_SomeD split: option.splits)

termination cycle_walk
proof (relation "measure (\<lambda>(envs, _, seen, _). card (predecessors envs - set seen))")
  fix envs :: environments and name :: string and seen cursor r
  assume p: "promotion_of envs cursor = Some r" and n: "r \<notin> set seen"
  have "predecessors envs - set (seen @ [r]) \<subset> predecessors envs - set seen"
    using promotion_of_predecessors[OF p] n by auto
  then show "((envs, name, seen @ [r], r), (envs, name, seen, cursor))
      \<in> measure (\<lambda>(envs, _, seen, _). card (predecessors envs - set seen))"
    by (simp add: psubset_card_mono finite_predecessors)
qed simp

declare cycle_walk.simps [simp del]

definition check_cycle ::
    "environments \<Rightarrow> string \<times> environment_config \<Rightarrow> unit \<Rightarrow> (repo_config_error, unit) result" where
  "check_cycle envs entry u = cycle_walk envs (fst entry) [fst entry] (fst entry)"

definition check_stage ::
    "environments \<Rightarrow> string \<times> environment_config \<Rightarrow> unit \<Rightarrow> (repo_config_error, unit) result" where
  "check_stage envs entry u =
     (case entry of (name, env) \<Rightarrow>
        case pr_requires (ev_promotion env) of
          None \<Rightarrow> Inr ()
        | Some required \<Rightarrow>
            (case promotion_of envs required of
               Some grand \<Rightarrow> Inl (PromotionTooDeep name required grand)
             | None \<Rightarrow> Inr ()))"

definition check_default :: "repo_config \<Rightarrow> (repo_config_error, unit) result" where
  "check_default c =
     (case rc_default_environment c of
        Some name \<Rightarrow> if bt_contains (rc_environments c) name then Inr () else Inl (UnknownDefault name)
      | None \<Rightarrow> Inr ())"

definition validate_repo_config :: "repo_config \<Rightarrow> (repo_config_error, unit) result" where
  "validate_repo_config c =
     (let envs = rc_environments c in
      if rc_version c \<noteq> REPO_CONFIG_VERSION then Inl (UnsupportedConfigVersion (rc_version c))
      else if envs = [] then Inl EmptyEnvironments
      else bind_result (fold_result validate_environment envs ()) (\<lambda>_.
           bind_result (fold_result (check_promotion_target envs) envs ()) (\<lambda>_.
           bind_result (fold_result (check_cycle envs) envs ()) (\<lambda>_.
           bind_result (fold_result (check_stage envs) envs ()) (\<lambda>_. check_default c)))))"

end
