(* ===== verification/RepoConfig_Facts.thy ===== *)
theory RepoConfig_Facts
  imports RepoConfig
begin

text \<open>
  What the checks of the repository configuration establish: the exact set of accepted files, the
  exact meaning of the cycle check, and what an accepted file guarantees to the workflows that
  read its routing data.
\<close>

section \<open>The checks, one by one\<close>

definition env_ok :: "string \<times> environment_config \<Rightarrow> bool" where
  "env_ok entry =
     (case entry of (name, env) \<Rightarrow>
        is_ok (validate_env_name name) \<and>
        (case ev_overlay env of Some o' \<Rightarrow> validate_component_name o' | None \<Rightarrow> True) \<and>
        \<not> ends_with name MONITORING_ENVIRONMENT_SUFFIX \<and>
        \<not> exclusive_unbounded (ev_ownership env) \<and>
        \<not> shared_full_replace (ev_ownership env) (ev_apply_strategy env) \<and>
        oc_large_prune_threshold_percent (ev_ownership env) \<le> 100)"

definition one_stage :: "environments \<Rightarrow> string \<times> environment_config \<Rightarrow> bool" where
  "one_stage envs entry =
     (case entry of (name, env) \<Rightarrow>
        case pr_requires (ev_promotion env) of
          None \<Rightarrow> True
        | Some r \<Rightarrow> r \<noteq> name \<and> bt_contains envs r \<and> promotion_of envs r = None)"

lemma is_ok_unit_iff: "is_ok r \<longleftrightarrow> r = Inr ()"
  by (cases r) auto

lemma fold_result_unit:
  "fold_result f xs () = Inr () \<longleftrightarrow> list_all (\<lambda>x. f x () = Inr ()) xs"
proof (induction xs)
  case (Cons x xs)
  then show ?case by (cases "f x ()") auto
qed simp

lemma bind_unit_iff:
  "bind_result (r :: ('e, unit) result) (\<lambda>_. s) = Inr y \<longleftrightarrow> r = Inr () \<and> s = Inr y"
  by (cases r) auto

lemma validate_environment_iff: "validate_environment entry () = Inr () \<longleftrightarrow> env_ok entry"
  by (cases entry)
     (auto simp: validate_environment_def env_ok_def bind_unit_iff check_env_name_def
        check_overlay_def validate_overlay_name_def is_ok_unit_iff
        split: sum.splits option.splits if_splits)

lemma check_promotion_target_iff:
  "check_promotion_target envs entry () = Inr () \<longleftrightarrow>
     (case pr_requires (ev_promotion (snd entry)) of
        None \<Rightarrow> True | Some r \<Rightarrow> r \<noteq> fst entry \<and> bt_contains envs r)"
  by (cases entry) (auto simp: check_promotion_target_def split: option.splits)

lemma check_stage_iff:
  "check_stage envs entry () = Inr () \<longleftrightarrow>
     (case pr_requires (ev_promotion (snd entry)) of
        None \<Rightarrow> True | Some r \<Rightarrow> promotion_of envs r = None)"
  by (cases entry) (auto simp: check_stage_def split: option.splits)

lemma one_stage_split:
  "list_all (one_stage envs) es \<longleftrightarrow>
     list_all (\<lambda>e. check_promotion_target envs e () = Inr ()) es \<and>
     list_all (\<lambda>e. check_stage envs e () = Inr ()) es"
  by (induction es)
     (auto simp: one_stage_def check_promotion_target_iff check_stage_iff split: option.splits)

lemma promotion_of_entry:
  assumes "promotion_of envs name = Some r"
  shows "\<exists>env. (name, env) \<in> set envs \<and> pr_requires (ev_promotion env) = Some r"
  using assms by (auto simp: promotion_of_def bt_get_def split: option.splits dest: map_of_SomeD)

lemma one_stage_no_cycle:
  assumes "list_all (one_stage envs) envs"
  shows "check_cycle envs entry () = Inr ()"
proof (cases "promotion_of envs (fst entry)")
  case None
  then show ?thesis by (simp add: check_cycle_def cycle_walk.simps)
next
  case (Some r)
  then obtain env where "(fst entry, env) \<in> set envs" "pr_requires (ev_promotion env) = Some r"
    using promotion_of_entry by blast
  then have "r \<noteq> fst entry \<and> promotion_of envs r = None"
    using assms by (auto simp: list_all_iff one_stage_def)
  then show ?thesis
    using Some by (simp add: check_cycle_def cycle_walk.simps[of _ _ "[fst entry]"]
        cycle_walk.simps[of _ _ "[fst entry, r]"])
qed

lemma validate_repo_config_iff:
  "validate_repo_config c = Inr () \<longleftrightarrow>
     rc_version c = REPO_CONFIG_VERSION \<and> rc_environments c \<noteq> [] \<and>
     list_all env_ok (rc_environments c) \<and>
     list_all (one_stage (rc_environments c)) (rc_environments c) \<and>
     (case rc_default_environment c of
        Some d \<Rightarrow> bt_contains (rc_environments c) d | None \<Rightarrow> True)"
proof -
  have d: "check_default c = Inr () \<longleftrightarrow>
      (case rc_default_environment c of
         Some d \<Rightarrow> bt_contains (rc_environments c) d | None \<Rightarrow> True)"
    by (auto simp: check_default_def split: option.splits)
  have cyc: "list_all (one_stage (rc_environments c)) (rc_environments c) \<Longrightarrow>
      list_all (\<lambda>e. check_cycle (rc_environments c) e () = Inr ()) (rc_environments c)"
    using one_stage_no_cycle by (auto simp: list_all_iff)
  show ?thesis
    unfolding validate_repo_config_def Let_def
    using cyc
    by (auto simp: bind_unit_iff fold_result_unit validate_environment_iff d one_stage_split)
qed

section \<open>The cycle check\<close>

fun follow :: "environments \<Rightarrow> nat \<Rightarrow> string \<Rightarrow> string option" where
  "follow envs 0 name = Some name"
| "follow envs (Suc k) name =
     (case follow envs k name of None \<Rightarrow> None | Some c \<Rightarrow> promotion_of envs c)"

lemma follow_shift: "follow envs i n = follow envs k n \<Longrightarrow> follow envs (i + d) n = follow envs (k + d) n"
  by (induction d) auto

lemma follow_periodic:
  assumes "follow envs i n = follow envs k n" and "i < k" and "\<And>m. m < k \<Longrightarrow> follow envs m n \<noteq> None"
  shows "follow envs j n \<noteq> None"
proof (induction j rule: less_induct)
  case (less j)
  show ?case
  proof (cases "j < k")
    case True
    then show ?thesis using assms(3) by simp
  next
    case False
    then have "follow envs (i + (j - k)) n = follow envs j n"
      using follow_shift[OF assms(1), of "j - k"] by simp
    moreover have "i + (j - k) < j" using False assms(2) by simp
    ultimately show ?thesis using less by metis
  qed
qed

lemma cycle_walk_exact:
  assumes "seen = map (\<lambda>i. the (follow envs i n)) [0..<Suc k]"
    and "follow envs k n = Some cursor" and "\<And>i. i \<le> k \<Longrightarrow> follow envs i n \<noteq> None"
  shows "cycle_walk envs n seen cursor = Inr () \<longleftrightarrow> (\<exists>j. follow envs j n = None)"
  using assms
proof (induction envs n seen cursor arbitrary: k rule: cycle_walk.induct)
  case (1 envs n seen cursor)
  show ?case
  proof (cases "promotion_of envs cursor")
    case None
    then have "follow envs (Suc k) n = None" using "1.prems" by simp
    then have "\<exists>j. follow envs j n = None" by (rule exI)
    then show ?thesis using None by (simp add: cycle_walk.simps)
  next
    case (Some r)
    then have r: "follow envs (Suc k) n = Some r" using "1.prems" by simp
    show ?thesis
    proof (cases "r \<in> set seen")
      case True
      then have "r \<in> (\<lambda>i. the (follow envs i n)) ` {..<Suc k}"
        unfolding "1.prems"(1) by (simp only: set_map set_upt atLeast_upt[symmetric] lessThan_atLeast0)
      then obtain i where i: "i \<le> k" "r = the (follow envs i n)"
        by (auto simp: less_Suc_eq_le)
      then have "follow envs i n = follow envs (Suc k) n" using "1.prems"(3) r by force
      then have "follow envs j n \<noteq> None" for j
        using follow_periodic[of envs i n "Suc k" j] i "1.prems"(3) by simp
      then show ?thesis using Some True by (simp add: cycle_walk.simps)
    next
      case False
      have "\<And>i. i \<le> Suc k \<Longrightarrow> follow envs i n \<noteq> None"
        using "1.prems"(3) r by (metis le_Suc_eq option.distinct(1))
      moreover have "seen @ [r] = map (\<lambda>i. the (follow envs i n)) [0..<Suc (Suc k)]"
        using "1.prems"(1) r by simp
      ultimately have "cycle_walk envs n (seen @ [r]) r = Inr () \<longleftrightarrow> (\<exists>j. follow envs j n = None)"
        using "1.IH"[OF Some False, of "Suc k"] r by blast
      then show ?thesis using Some False by (simp add: cycle_walk.simps[of _ _ seen])
    qed
  qed
qed

section \<open>Properties\<close>

text \<open>
  The repository configuration is accepted exactly when its version is the supported one, it
  declares an environment, every environment passes its own checks (a safe name without the
  reserved suffix, a safe overlay name, a bounded exclusive scope, no full replacement of a shared
  gateway, a threshold of at most 100), every promotion names another declared environment that
  is not promoted itself, and the default environment is declared.
\<close>

theorem validate_repo_config_exact:
  "(validate_repo_config c = Inr ()) =
     (rc_version c = REPO_CONFIG_VERSION \<and> rc_environments c \<noteq> [] \<and>
      list_all env_ok (rc_environments c) \<and>
      list_all (one_stage (rc_environments c)) (rc_environments c) \<and>
      (case rc_default_environment c of
         Some d \<Rightarrow> bt_contains (rc_environments c) d | None \<Rightarrow> True))"
  by (rule validate_repo_config_iff)

text \<open>
  C5.  The cycle check is exact, and its loop ends on every configuration: for an environment it
  reports no cycle if and only if following \<open>promotion.requires\<close> from it comes to an end, that is,
  some number of steps reaches an environment that requires nothing.
\<close>

theorem cycle_check_exact:
  "(check_cycle envs (name, env) () = Inr ()) = (\<exists>k. follow envs k name = None)"
  using cycle_walk_exact[of "[name]" envs name 0 name] by (simp add: check_cycle_def)

text \<open>Names that carry the reserved suffix.\<close>

lemma scope_fields:
  "s \<in> set (environment_scopes c) \<Longrightarrow>
     \<exists>env. (es_environment s, env) \<in> set (rc_environments c) \<and> s = environment_scope_of (es_environment s, env)"
  by (auto simp: environment_scopes_def environment_scope_of_def split: prod.splits)

lemma accepted_names:
  "validate_repo_config c = Inr () \<Longrightarrow> (name, env) \<in> set (rc_environments c) \<Longrightarrow>
     \<not> ends_with name MONITORING_ENVIRONMENT_SUFFIX"
  by (auto simp: validate_repo_config_iff list_all_iff env_ok_def)

lemma monitoring_is_declared_iff:
  assumes "validate_repo_config c = Inr ()" and "s \<in> set (environment_scopes c)"
  shows "es_monitoring_environment s \<in> set (environment_names c) \<longleftrightarrow> \<not> es_unattended_monitoring s"
proof -
  obtain env where env: "(es_environment s, env) \<in> set (rc_environments c)"
      "s = environment_scope_of (es_environment s, env)" using scope_fields[OF assms(2)] by blast
  have unat: "es_unattended_monitoring s = mc_unattended (ev_monitoring env)"
    and mon: "es_monitoring_environment s =
       (if mc_unattended (ev_monitoring env) then monitoring_environment_name (es_environment s)
        else es_environment s)"
    by (subst env(2), simp add: environment_scope_of_def)+
  have "monitoring_environment_name (es_environment s) \<notin> set (environment_names c)"
    using accepted_names[OF assms(1)] ends_with_append
    by (fastforce simp: environment_names_def bt_keys_def monitoring_environment_name_def)
  then show ?thesis using unat mon env(1) by (force simp: environment_names_def bt_keys_def)
qed

lemma monitoring_target_injective:
  assumes "validate_repo_config c = Inr ()"
    and "s \<in> set (environment_scopes c)" and "t \<in> set (environment_scopes c)"
    and "es_monitoring_environment s = es_monitoring_environment t"
  shows "es_environment s = es_environment t"
proof -
  have u: "es_unattended_monitoring s = es_unattended_monitoring t"
    using monitoring_is_declared_iff[OF assms(1)] assms(2-4) by metis
  obtain a where a: "s = environment_scope_of (es_environment s, a)" using scope_fields[OF assms(2)] by blast
  obtain b where b: "t = environment_scope_of (es_environment t, b)" using scope_fields[OF assms(3)] by blast
  have "es_monitoring_environment s =
      (if es_unattended_monitoring s then monitoring_environment_name (es_environment s) else es_environment s)"
    by (subst (1 2) a, simp add: environment_scope_of_def)
  moreover have "es_monitoring_environment t =
      (if es_unattended_monitoring t then monitoring_environment_name (es_environment t) else es_environment t)"
    by (subst (1 2) b, simp add: environment_scope_of_def)
  ultimately show ?thesis using assms(4) u by (auto simp: monitoring_environment_name_def split: if_splits)
qed

lemma exclusive_scope_bounded:
  assumes "validate_repo_config c = Inr ()" and "(name, env) \<in> set (rc_environments c)"
    and "oc_mode (ev_ownership env) = Exclusive"
  shows "\<exists>n ns. scope_namespaces env = Some (n # ns)"
proof -
  have "\<not> exclusive_unbounded (ev_ownership env)"
    using assms by (auto simp: validate_repo_config_iff list_all_iff env_ok_def)
  then obtain ns where ns: "oc_namespaces (ev_ownership env) = Some ns" "ns \<noteq> []"
    using assms(3) by (auto simp: exclusive_unbounded_def split: option.splits)
  have "remdups_adj (sort xs) \<noteq> []" if "xs \<noteq> []" for xs :: "string list"
    using that by (metis remdups_adj_Nil_iff set_empty set_sort)
  from this[OF ns(2)] have "\<exists>m ms. remdups_adj (sort ns) = m # ms" by (simp only: neq_Nil_conv)
  then show ?thesis using ns(1) assms(3)
    by (cases "ev_namespace_filter env") (auto simp: scope_namespaces_def)
qed

text \<open>
  An accepted configuration keeps drift monitoring apart from deployment: the environment a
  scheduled check binds is a declared deployment environment exactly when the environment did not
  opt into unattended monitoring, so an unreviewed monitoring target can never be a write target;
  and two deployment environments never share a monitoring environment.
\<close>

theorem monitoring_separated:
  assumes "validate_repo_config c = Inr ()"
    and "s \<in> set (environment_scopes c)" and "t \<in> set (environment_scopes c)"
  shows "(es_monitoring_environment s \<in> set (environment_names c)) = (\<not> es_unattended_monitoring s) \<and>
         (es_environment s \<noteq> es_environment t \<longrightarrow>
            es_monitoring_environment s \<noteq> es_monitoring_environment t)"
  using monitoring_is_declared_iff[OF assms(1,2)] monitoring_target_injective[OF assms] by blast

definition staged_config :: repo_config where
  "staged_config =
     \<lparr>rc_version = 1,
      rc_environments =
        [(''production'', environment_config_default
            \<lparr>ev_apply_strategy := FullReplace,
             ev_ownership := ownership_config_default
               \<lparr>oc_mode := Exclusive, oc_namespaces := Some [''team-b'', ''team-a'']\<rparr>,
             ev_promotion := \<lparr>pr_requires = Some ''staging''\<rparr>\<rparr>),
         (''staging'', environment_config_default\<lparr>ev_monitoring := \<lparr>mc_unattended = True\<rparr>\<rparr>)],
      rc_default_environment = Some ''staging''\<rparr>"

lemma staged_config_accepted: "validate_repo_config staged_config = Inr ()"
  by code_simp

lemma staged_scopes:
  "environment_scopes staged_config =
     [\<lparr>es_environment = ''production'', es_live_review = True,
       es_namespaces = Some [''team-a'', ''team-b''], es_monitoring_environment = ''production'',
       es_unattended_monitoring = False, es_promotion_requires = Some ''staging''\<rparr>,
      \<lparr>es_environment = ''staging'', es_live_review = True, es_namespaces = None,
       es_monitoring_environment = ''staging-monitor'', es_unattended_monitoring = True,
       es_promotion_requires = None\<rparr>]"
  by code_simp

theorem monitoring_separated_witness:
  "''staging-monitor'' \<notin> set (environment_names staged_config)"
  using monitoring_separated[OF staged_config_accepted,
      of "environment_scopes staged_config ! 1" "environment_scopes staged_config ! 1"]
  by (simp add: staged_scopes)

end
