(* ===== verification/Resolved.thy ===== *)
theory Resolved
  imports RepoConfig_Facts
begin

text \<open>
  The settings of one run (\<open>config/resolved.rs\<close>): which environment a command works on, and which
  overlay, namespace filter, strategy and ownership apply to it, from the repository configuration
  and the process environment.

  \<open>env_config\<close> holds the four process settings the resolution reads.  Whether an overlay
  directory exists is a question to the file system: \<open>validate_overlay_selection\<close> takes the answer
  as the argument \<open>is_dir\<close>.
\<close>

section \<open>Definitions\<close>

record env_config =
  ec_namespace_filter :: "string option"
  ec_apply_strategy :: apply_strategy
  ec_overlay :: "string option"
  ec_env_name :: "string option"

record resolved_env =
  re_name :: string
  re_overlay :: "string option"
  re_namespace_filter :: "string option"
  re_namespace_filter_is_environment_scope :: bool
  re_apply_strategy :: apply_strategy
  re_ownership :: ownership_config

definition default_env_name :: string where
  "default_env_name = ''default''"

definition covers_environment :: "resolved_env \<Rightarrow> bool" where
  "covers_environment r =
     (re_namespace_filter r = None \<or> re_namespace_filter_is_environment_scope r)"

definition validate_resolved :: "resolved_env \<Rightarrow> (repo_config_error, unit) result" where
  "validate_resolved r =
     bind_result (check_env_name (re_name r)) (\<lambda>_.
     bind_result (check_overlay (re_overlay r)) (\<lambda>_.
       if shared_full_replace (re_ownership r) (re_apply_strategy r)
       then Inl (SharedFullReplace (re_name r))
       else if exclusive_unbounded (re_ownership r)
       then Inl (ExclusiveWithoutNamespaces (re_name r))
       else Inr ()))"

definition or_else_opt :: "'a option \<Rightarrow> 'a option \<Rightarrow> 'a option" where
  "or_else_opt a b = (case a of Some x \<Rightarrow> Some x | None \<Rightarrow> b)"

definition merge_env :: "string \<Rightarrow> environment_config \<Rightarrow> env_config \<Rightarrow> resolved_env" where
  "merge_env name env ec =
     \<lparr>re_name = name,
      re_overlay = or_else_opt (ev_overlay env) (ec_overlay ec),
      re_namespace_filter = or_else_opt (ev_namespace_filter env) (ec_namespace_filter ec),
      re_namespace_filter_is_environment_scope = (ev_namespace_filter env \<noteq> None),
      re_apply_strategy = ev_apply_strategy env,
      re_ownership = ev_ownership env\<rparr>"

definition synthetic_default :: "env_config \<Rightarrow> string option \<Rightarrow> resolved_env" where
  "synthetic_default ec explicit_env =
     \<lparr>re_name = (case or_else_opt explicit_env (ec_env_name ec) of
                   Some name \<Rightarrow> name | None \<Rightarrow> default_env_name),
      re_overlay = ec_overlay ec,
      re_namespace_filter = ec_namespace_filter ec,
      re_namespace_filter_is_environment_scope = False,
      re_apply_strategy = ec_apply_strategy ec,
      re_ownership = ownership_config_default\<lparr>oc_mode := Shared\<rparr>\<rparr>"

definition select_environment ::
    "repo_config option \<Rightarrow> env_config \<Rightarrow> string option \<Rightarrow> (repo_config_error, resolved_env) result" where
  "select_environment repo ec selected =
     (case repo of
        None \<Rightarrow> Inr (synthetic_default ec selected)
      | Some c \<Rightarrow>
          (case selected of
             Some name \<Rightarrow>
               (case environment c name of
                  None \<Rightarrow> Inl (EnvironmentNotFound name)
                | Some env \<Rightarrow> Inr (merge_env name env ec))
           | None \<Rightarrow>
               (case rc_default_environment c of
                  Some d \<Rightarrow>
                    (case environment c d of
                       None \<Rightarrow> Inl (UnknownDefault d)
                     | Some env \<Rightarrow> Inr (merge_env d env ec))
                | None \<Rightarrow>
                    (case rc_environments c of
                       [] \<Rightarrow> Inr (synthetic_default ec selected)
                     | [(name, env)] \<Rightarrow> Inr (merge_env name env ec)
                     | _ \<Rightarrow> Inl (AmbiguousEnvironment (environment_names c))))))"

definition resolve_env ::
    "repo_config option \<Rightarrow> env_config \<Rightarrow> string option \<Rightarrow> (repo_config_error, resolved_env) result" where
  "resolve_env repo ec explicit_env =
     bind_result (select_environment repo ec (or_else_opt explicit_env (ec_env_name ec)))
       (\<lambda>r. bind_result (validate_resolved r) (\<lambda>_. Inr r))"

datatype overlay_source = DeclaredByEnvironment | SelectedByEnvVar

datatype overlay_error = OverlayName repo_config_error | OverlayMissing string string overlay_source

definition validate_overlay_selection ::
    "resolved_env \<Rightarrow> repo_config option \<Rightarrow> (string \<Rightarrow> bool) \<Rightarrow> (overlay_error, unit) result" where
  "validate_overlay_selection r repo is_dir =
     (case re_overlay r of
        None \<Rightarrow> Inr ()
      | Some overlay \<Rightarrow>
          (case validate_overlay_name overlay of
             Inl e \<Rightarrow> Inl (OverlayName e)
           | Inr _ \<Rightarrow>
               if is_dir overlay then Inr ()
               else let declared = (case repo of
                        None \<Rightarrow> None
                      | Some c \<Rightarrow> (case environment c (re_name r) of
                                    None \<Rightarrow> None | Some env \<Rightarrow> ev_overlay env))
                    in Inl (OverlayMissing (re_name r) overlay
                         (if declared = Some overlay then DeclaredByEnvironment else SelectedByEnvVar))))"

section \<open>Facts\<close>

lemma or_else_opt_simps [simp]:
  "or_else_opt (Some x) b = Some x" "or_else_opt None b = b"
  by (simp_all add: or_else_opt_def)

lemma resolve_env_Inr:
  "resolve_env repo ec x = Inr r \<longleftrightarrow>
     select_environment repo ec (or_else_opt x (ec_env_name ec)) = Inr r \<and> validate_resolved r = Inr ()"
  by (auto simp: resolve_env_def bind_result_Inr_iff)

lemma validate_resolved_iff:
  "validate_resolved r = Inr () \<longleftrightarrow>
     is_ok (validate_env_name (re_name r)) \<and>
     (case re_overlay r of Some o' \<Rightarrow> validate_component_name o' | None \<Rightarrow> True) \<and>
     \<not> shared_full_replace (re_ownership r) (re_apply_strategy r) \<and>
     \<not> exclusive_unbounded (re_ownership r)"
  by (auto simp: validate_resolved_def bind_unit_iff check_env_name_def check_overlay_def
      validate_overlay_name_def is_ok_unit_iff split: sum.splits option.splits if_splits)

lemma exclusive_unbounded_default [simp]:
  "\<not> exclusive_unbounded (ownership_config_default\<lparr>oc_mode := Shared\<rparr>)"
  by (simp add: exclusive_unbounded_def)

lemma select_from_repo:
  assumes "select_environment (Some c) ec sel = Inr r" and "rc_environments c \<noteq> []"
  shows "\<exists>env. environment c (re_name r) = Some env \<and> r = merge_env (re_name r) env ec"
  using assms
  by (auto simp: select_environment_def environment_def bt_get_def merge_env_def
      split: option.splits list.splits prod.splits if_splits)

lemma selected_name:
  assumes "select_environment (Some c) ec sel = Inr r" and "rc_environments c \<noteq> []"
  shows "(case or_else_opt sel (rc_default_environment c) of
            Some name \<Rightarrow> re_name r = name
          | None \<Rightarrow> environment_names c = [re_name r])"
  using assms
  by (auto simp: select_environment_def merge_env_def environment_names_def bt_keys_def
      split: option.splits list.splits prod.splits)

lemma accepted_entry:
  "validate_repo_config c = Inr () \<Longrightarrow> environment c name = Some env \<Longrightarrow> env_ok (name, env)"
  by (auto simp: validate_repo_config_iff list_all_iff environment_def bt_get_def dest!: map_of_SomeD)

lemma accepted_merge_valid:
  assumes "validate_repo_config c = Inr ()" and "environment c name = Some env"
  shows "validate_resolved (merge_env name env ec) = Inr () \<longleftrightarrow>
     (case ev_overlay env of
        Some _ \<Rightarrow> True
      | None \<Rightarrow> (case ec_overlay ec of Some o' \<Rightarrow> validate_component_name o' | None \<Rightarrow> True))"
  using accepted_entry[OF assms]
  by (auto simp: env_ok_def validate_resolved_iff merge_env_def split: option.splits)

section \<open>Properties\<close>

text \<open>
  C6.  With a repository configuration the process environment cannot widen what a run may do: the
  run works on a declared environment, the one asked for or the configured default or the only
  one, with that environment's strategy and ownership; a declared overlay and namespace filter win
  over the process variables, and the run counts as covering the environment exactly when no
  ad-hoc filter narrows it.
\<close>

theorem resolve_env_authority:
  assumes "resolve_env (Some c) ec x = Inr r" and "rc_environments c \<noteq> []"
  shows "\<exists>env. environment c (re_name r) = Some env \<and>
     (case or_else_opt (or_else_opt x (ec_env_name ec)) (rc_default_environment c) of
        Some name \<Rightarrow> re_name r = name | None \<Rightarrow> environment_names c = [re_name r]) \<and>
     re_apply_strategy r = ev_apply_strategy env \<and> re_ownership r = ev_ownership env \<and>
     re_overlay r = or_else_opt (ev_overlay env) (ec_overlay ec) \<and>
     re_namespace_filter r = or_else_opt (ev_namespace_filter env) (ec_namespace_filter ec) \<and>
     covers_environment r = (ev_namespace_filter env \<noteq> None \<or> ec_namespace_filter ec = None)"
proof -
  have sel: "select_environment (Some c) ec (or_else_opt x (ec_env_name ec)) = Inr r"
    using assms(1) by (simp add: resolve_env_Inr)
  obtain env where env: "environment c (re_name r) = Some env" "r = merge_env (re_name r) env ec"
    using select_from_repo[OF sel assms(2)] by blast
  have cov: "covers_environment (merge_env n env ec) =
      (ev_namespace_filter env \<noteq> None \<or> ec_namespace_filter ec = None)" for n
    by (cases "ev_namespace_filter env") (auto simp: covers_environment_def merge_env_def)
  have "re_apply_strategy (merge_env n env ec) = ev_apply_strategy env"
    "re_ownership (merge_env n env ec) = ev_ownership env"
    "re_overlay (merge_env n env ec) = or_else_opt (ev_overlay env) (ec_overlay ec)"
    "re_namespace_filter (merge_env n env ec) =
       or_else_opt (ev_namespace_filter env) (ec_namespace_filter ec)" for n
    by (simp_all add: merge_env_def)
  then show ?thesis using env selected_name[OF sel assms(2)] cov by metis
qed

definition laptop_env :: env_config where
  "laptop_env = \<lparr>ec_namespace_filter = Some ''team-a'', ec_apply_strategy = FullReplace,
                 ec_overlay = None, ec_env_name = None\<rparr>"

definition laptop_run :: resolved_env where
  "laptop_run = merge_env ''staging'' (environment_config_default\<lparr>ev_monitoring := \<lparr>mc_unattended = True\<rparr>\<rparr>) laptop_env"

theorem resolve_env_authority_witness:
  "\<exists>env. environment staged_config ''staging'' = Some env \<and>
     re_apply_strategy laptop_run = ev_apply_strategy env \<and> \<not> covers_environment laptop_run"
proof -
  have r: "resolve_env (Some staged_config) laptop_env None = Inr laptop_run" by code_simp
  have n: "rc_environments staged_config \<noteq> []" by code_simp
  have "re_name laptop_run = ''staging''" "\<not> covers_environment laptop_run" by code_simp+
  then show ?thesis using resolve_env_authority[OF r n] by metis
qed

text \<open>
  Without a repository configuration a run is always shared and incremental: whatever the
  process environment says, it may neither prune rows it does not own nor replace a namespace.
\<close>

theorem synthetic_run_confined:
  assumes "resolve_env None ec x = Inr r"
  shows "oc_mode (re_ownership r) = Shared \<and> re_apply_strategy r = Incremental \<and>
     re_name r = (case or_else_opt x (ec_env_name ec) of Some n \<Rightarrow> n | None \<Rightarrow> default_env_name) \<and>
     covers_environment r = (ec_namespace_filter ec = None)"
proof -
  have r: "r = synthetic_default ec (or_else_opt x (ec_env_name ec))" and v: "validate_resolved r = Inr ()"
    using assms by (auto simp: resolve_env_Inr select_environment_def)
  have m: "oc_mode (re_ownership r) = Shared" by (simp add: r synthetic_default_def)
  then have "re_apply_strategy r = Incremental"
    using v by (cases "re_apply_strategy r") (auto simp: validate_resolved_iff shared_full_replace_def)
  moreover have "or_else_opt (or_else_opt x (ec_env_name ec)) (ec_env_name ec) =
      or_else_opt x (ec_env_name ec)"
    by (cases x; cases "ec_env_name ec") auto
  ultimately show ?thesis using m by (simp add: r synthetic_default_def covers_environment_def)
qed

theorem synthetic_run_confined_witness:
  "oc_mode (re_ownership (synthetic_default (laptop_env\<lparr>ec_apply_strategy := Incremental\<rparr>) None)) = Shared \<and>
   resolve_env None laptop_env None = Inl (SharedFullReplace ''default'')"
proof -
  have "resolve_env None (laptop_env\<lparr>ec_apply_strategy := Incremental\<rparr>) None =
      Inr (synthetic_default (laptop_env\<lparr>ec_apply_strategy := Incremental\<rparr>) None)" by code_simp
  moreover have "resolve_env None laptop_env None = Inl (SharedFullReplace ''default'')" by code_simp
  ultimately show ?thesis using synthetic_run_confined by blast
qed

text \<open>
  A configuration accepted when it was loaded cannot be refused later for its own content: the
  resolution succeeds exactly when the selection names a declared environment, or there is a
  default or a single environment to take, and an overlay that only the process environment
  supplies is a safe name.
\<close>

theorem accepted_config_resolves:
  assumes "validate_repo_config c = Inr ()"
  shows "is_ok (resolve_env (Some c) ec x) =
    (case (case or_else_opt (or_else_opt x (ec_env_name ec)) (rc_default_environment c) of
             Some name \<Rightarrow> environment c name
           | None \<Rightarrow> (case rc_environments c of [(_, env)] \<Rightarrow> Some env | _ \<Rightarrow> None)) of
       None \<Rightarrow> False
     | Some env \<Rightarrow> (case or_else_opt (ev_overlay env) (ec_overlay ec) of
                     Some o' \<Rightarrow> ev_overlay env \<noteq> None \<or> validate_component_name o'
                   | None \<Rightarrow> True))"
proof -
  have ne: "rc_environments c \<noteq> []" using assms by (simp add: validate_repo_config_iff)
  have ok: "is_ok (bind_result (validate_resolved (merge_env n env ec)) (\<lambda>_. Inr r)) =
      (case or_else_opt (ev_overlay env) (ec_overlay ec) of
         Some o' \<Rightarrow> ev_overlay env \<noteq> None \<or> validate_component_name o' | None \<Rightarrow> True)"
    if "environment c n = Some env" for n env and r :: resolved_env
    using accepted_merge_valid[OF assms that, of ec]
    by (cases "ev_overlay env"; cases "ec_overlay ec") (auto simp: is_ok_unit_iff)
  have single: "environment c n = Some env" if "rc_environments c = [(n, env)]" for n env
    using that by (simp add: environment_def bt_get_def)
  show ?thesis
    unfolding resolve_env_def select_environment_def
    using ne ok single
    by (auto split: option.splits list.splits prod.splits)
qed

theorem accepted_config_resolves_witness:
  "is_ok (resolve_env (Some staged_config) laptop_env None)"
  unfolding accepted_config_resolves[OF staged_config_accepted] by code_simp

end
