(* ===== verification/Reconcile.thy ===== *)
theory Reconcile
  imports Resolved
begin

text \<open>
  The scope of a run and the guard in front of it: which namespaces a command iterates and what may
  be deleted in them (\<open>reconcile.rs\<close>), the check that an exclusive environment stays inside its
  namespaces (\<open>pipeline.rs\<close>), the diff over all namespaces and the large-prune guard of \<open>apply\<close>
  (\<open>main.rs\<close> and the arithmetic in \<open>apply/api_target.rs\<close>).

  A \<open>HashSet\<close> of keys is a \<open>set\<close>; its \<open>count\<close> after a filter is the cardinality.  A namespace
  snapshot is a pair of the namespace and its desired and live configuration.
\<close>

section \<open>The scope of a run\<close>

definition resolved_namespaces :: "resolved_env \<Rightarrow> gateway_config \<Rightarrow> state_file \<Rightarrow> string list" where
  "resolved_namespaces resolved desired state =
     (case oc_mode (re_ownership resolved) of
        ownership_mode.Exclusive \<Rightarrow>
          (let owned = (case oc_namespaces (re_ownership resolved) of Some ns \<Rightarrow> ns | None \<Rightarrow> [])
           in case re_namespace_filter resolved of Some ns \<Rightarrow> [ns] | None \<Rightarrow> owned)
      | ownership_mode.Shared \<Rightarrow>
          (case re_namespace_filter resolved of
             Some ns \<Rightarrow> [ns]
           | None \<Rightarrow>
               fold (\<lambda>key s. case state_key_namespace key of Some ns \<Rightarrow> bs_insert ns s | None \<Rightarrow> s)
                 (bt_keys (st_resources state) @ st_pending_creates state)
                 (bs_of_list (collect_namespaces desired))))"

definition previously_managed :: "resolved_env \<Rightarrow> state_file \<Rightarrow> string set option" where
  "previously_managed resolved state =
     (case oc_mode (re_ownership resolved) of
        ownership_mode.Shared \<Rightarrow> Some (previously_managed_keys state)
      | ownership_mode.Exclusive \<Rightarrow> None)"

datatype scope_error =
    FilterNotOwned string "string list"
  | OutsideOwnedNamespaces "resource_key list" "string list"

definition enforce_exclusive_scope ::
    "resolved_env \<Rightarrow> gateway_config \<Rightarrow> (scope_error, unit) result" where
  "enforce_exclusive_scope resolved desired =
     (if oc_mode (re_ownership resolved) \<noteq> ownership_mode.Exclusive then Inr ()
      else let owned = (case oc_namespaces (re_ownership resolved) of Some ns \<Rightarrow> ns | None \<Rightarrow> []);
               violations = filter (\<lambda>k. fst k \<notin> set owned) (config_keys desired)
           in case re_namespace_filter resolved of
                Some f \<Rightarrow>
                  if f \<notin> set owned then Inl (FilterNotOwned f owned)
                  else if violations \<noteq> [] then Inl (OutsideOwnedNamespaces violations owned)
                  else Inr ()
              | None \<Rightarrow>
                  if violations \<noteq> [] then Inl (OutsideOwnedNamespaces violations owned) else Inr ())"

section \<open>The diff of a run\<close>

type_synonym snapshot = "string \<times> gateway_config \<times> gateway_config"

definition ownership_scope_of :: "string set option \<Rightarrow> ownership_scope" where
  "ownership_scope_of fence =
     (case fence of Some keys \<Rightarrow> ownership_scope.Shared keys | None \<Rightarrow> ownership_scope.Exclusive)"

definition extend_result :: "diff_result \<Rightarrow> diff_result \<Rightarrow> diff_result" where
  "extend_result acc r =
     \<lparr>dr_diffs = dr_diffs acc @ dr_diffs r, dr_unmanaged = dr_unmanaged acc @ dr_unmanaged r,
      dr_spec_owned = dr_spec_owned acc @ dr_spec_owned r\<rparr>"

definition diff_pair ::
    "iter_order \<Rightarrow> codec \<Rightarrow> ownership_scope \<Rightarrow> diff_options \<Rightarrow> snapshot \<Rightarrow> diff_result \<Rightarrow>
     (config_error, diff_result) result" where
  "diff_pair order codec scope options pair acc =
     bind_result
       (compute_diff_with_options order codec (fst (snd pair)) (snd (snd pair)) scope options)
       (\<lambda>r. Inr (extend_result acc r))"

definition compute_diffs_for_pairs ::
    "iter_order \<Rightarrow> codec \<Rightarrow> snapshot list \<Rightarrow> string set option \<Rightarrow> diff_options \<Rightarrow>
     (config_error, diff_result) result" where
  "compute_diffs_for_pairs order codec pairs fence options =
     fold_result (diff_pair order codec (ownership_scope_of fence) options) pairs diff_result_default"

section \<open>The large-prune guard\<close>

type_synonym u128 = "128 word"

definition large_prune_exceeds_threshold :: "usize \<Rightarrow> usize \<Rightarrow> u8 \<Rightarrow> bool" where
  "large_prune_exceeds_threshold delete_count denominator threshold_percent =
     (0 < denominator \<and>
      (ucast threshold_percent :: u128) * ucast denominator < ucast delete_count * 100)"

definition exclusive_prune_denominator :: "gateway_config \<Rightarrow> bool \<Rightarrow> nat" where
  "exclusive_prune_denominator actual confirm_api_spec_deletion =
     (let eligible = (\<lambda>api_spec_id. confirm_api_spec_deletion \<or> api_spec_id = None)
      in length (gc_consumers actual) +
         length (filter (\<lambda>r. eligible (p_api_spec_id r)) (gc_proxies actual)) +
         length (filter (\<lambda>r. eligible (u_api_spec_id r)) (gc_upstreams actual)) +
         length (filter (\<lambda>r. eligible (pc_api_spec_id r)) (gc_plugin_configs actual)))"

definition pad_two :: "string \<Rightarrow> string" where
  "pad_two s = replicate (2 - length s) (CHR ''0'') @ s"

definition format_prune_percentage :: "usize \<Rightarrow> usize \<Rightarrow> string" where
  "format_prune_percentage delete_count denominator =
     (if denominator = 0 then ''0.00''
      else let basis_points = (ucast delete_count :: u128) * 10000 div ucast denominator
           in show_nat (unat (basis_points div 100)) @ ''.'' @
              pad_two (show_nat (unat (basis_points mod 100))))"

definition delete_count :: "resource_diff list \<Rightarrow> nat" where
  "delete_count ds = length (filter (\<lambda>d. rd_action d = Delete) ds)"

definition prune_denominator ::
    "string set option \<Rightarrow> string list \<Rightarrow> bool \<Rightarrow> snapshot list \<Rightarrow> nat" where
  "prune_denominator fence namespaces confirm_api_spec_deletion pairs =
     (case fence of
        Some keys \<Rightarrow>
          card {k \<in> keys. case state_key_namespace k of Some ns \<Rightarrow> ns \<in> set namespaces | None \<Rightarrow> False}
      | None \<Rightarrow>
          sum_list (map (\<lambda>pair. exclusive_prune_denominator (snd (snd pair)) confirm_api_spec_deletion)
            pairs))"

datatype prune_refusal = PruneRefused string string nat nat u8

definition prune_guard ::
    "ownership_config \<Rightarrow> string set option \<Rightarrow> string list \<Rightarrow> bool \<Rightarrow> bool \<Rightarrow> snapshot list \<Rightarrow>
     resource_diff list \<Rightarrow> (prune_refusal, unit) result" where
  "prune_guard own fence namespaces confirm_api_spec_deletion allow_large_prune pairs ds =
     (let deletes = delete_count ds;
          denominator = prune_denominator fence namespaces confirm_api_spec_deletion pairs;
          threshold = oc_large_prune_threshold_percent own
      in if 0 < deletes \<and> 0 < denominator \<and>
            large_prune_exceeds_threshold (of_nat deletes) (of_nat denominator) threshold \<and>
            \<not> allow_large_prune
         then Inl (PruneRefused
                (format_prune_percentage (of_nat deletes) (of_nat denominator))
                (if fence \<noteq> None then ''managed resources'' else ''live resources'')
                deletes denominator threshold)
         else Inr ())"

end
