(* ===== verification/Diff_Facts.thy ===== *)
theory Diff_Facts
  imports Diff
begin

text \<open>
  What the diff does with every row.  \<open>row_diff\<close>, \<open>row_unmanaged\<close> and \<open>row_spec_owned\<close> state, for one
  identity, what the diff may say of it; the loops of the code are shown to produce exactly those
  entries, in an order that the final sort makes independent of how the hash maps are walked.
\<close>

section \<open>The loops as a set of rows\<close>

abbreviation no_diff :: diff_result where
  "no_diff \<equiv> diff_result_default"

definition dr_append :: "diff_result \<Rightarrow> diff_result \<Rightarrow> diff_result" where
  "dr_append a b = \<lparr>dr_diffs = dr_diffs a @ dr_diffs b,
     dr_unmanaged = dr_unmanaged a @ dr_unmanaged b,
     dr_spec_owned = dr_spec_owned a @ dr_spec_owned b\<rparr>"

lemma dr_append_simps [simp]:
  "dr_diffs (dr_append a b) = dr_diffs a @ dr_diffs b"
  "dr_unmanaged (dr_append a b) = dr_unmanaged a @ dr_unmanaged b"
  "dr_spec_owned (dr_append a b) = dr_spec_owned a @ dr_spec_owned b"
  "dr_append a no_diff = a" "dr_append no_diff a = a"
  "dr_append (dr_append a b) c = dr_append a (dr_append b c)"
  by (simp_all add: dr_append_def diff_result_default_def)

lemma no_diff_simps [simp]:
  "dr_diffs no_diff = []" "dr_unmanaged no_diff = []" "dr_spec_owned no_diff = []"
  by (simp_all add: diff_result_default_def)

lemma push_append:
  "push_diff a kd k ds res = dr_append res (push_diff a kd k ds no_diff)"
  "push_spec_owned kd k sp d p res = dr_append res (push_spec_owned kd k sp d p no_diff)"
  "push_unmanaged kd k res = dr_append res (push_unmanaged kd k no_diff)"
  by (simp_all add: push_diff_def push_spec_owned_def push_unmanaged_def dr_append_def)

lemma push_simps [simp]:
  "dr_diffs (push_diff a kd k ds res) = dr_diffs res @
     [\<lparr>rd_action = a, rd_kind = kd, rd_id = snd k, rd_namespace = fst k, rd_details = ds\<rparr>]"
  "dr_unmanaged (push_diff a kd k ds res) = dr_unmanaged res"
  "dr_spec_owned (push_diff a kd k ds res) = dr_spec_owned res"
  "dr_diffs (push_spec_owned kd k sp d p res) = dr_diffs res"
  "dr_unmanaged (push_spec_owned kd k sp d p res) = dr_unmanaged res"
  "dr_spec_owned (push_spec_owned kd k sp d p res) = dr_spec_owned res @
     [\<lparr>so_kind = kd, so_id = snd k, so_namespace = fst k, so_api_spec_id = sp,
       so_declared_in_repo = d, so_pruned = p\<rparr>]"
  "dr_diffs (push_unmanaged kd k res) = dr_diffs res"
  "dr_unmanaged (push_unmanaged kd k res) = dr_unmanaged res @
     [\<lparr>um_kind = kd, um_id = snd k, um_namespace = fst k\<rparr>]"
  "dr_spec_owned (push_unmanaged kd k res) = dr_spec_owned res"
  by (simp_all add: push_diff_def push_spec_owned_def push_unmanaged_def)

lemma diff_result_eqI:
  "dr_diffs (a::diff_result) = dr_diffs b \<Longrightarrow> dr_unmanaged a = dr_unmanaged b \<Longrightarrow>
   dr_spec_owned a = dr_spec_owned b \<Longrightarrow> a = b"
  by simp

lemma desired_step_append:
  "desired_step ops am k r res = dr_append res (desired_step ops am k r no_diff)"
  by (rule diff_result_eqI) (simp_all add: desired_step_def Let_def split: option.splits)

lemma actual_step_append:
  "actual_step ops ctx dm k r res = dr_append res (actual_step ops ctx dm k r no_diff)"
  by (rule diff_result_eqI)
    (simp_all add: actual_step_def Let_def split: option.splits ownership_scope.splits)

definition row_delta ::
    "(row_key \<rightharpoonup> 'r) \<Rightarrow> (row_key \<Rightarrow> 'r \<Rightarrow> diff_result \<Rightarrow> diff_result) \<Rightarrow> row_key \<Rightarrow> diff_result" where
  "row_delta m step k = (case m k of None \<Rightarrow> no_diff | Some r \<Rightarrow> step k r no_diff)"

lemma walk_components:
  assumes "\<And>k r res. step k r res = dr_append res (step k r no_diff)"
  shows "dr_diffs (walk m step ks res) =
      dr_diffs res @ concat (map (\<lambda>k. dr_diffs (row_delta m step k)) ks)"
    and "dr_unmanaged (walk m step ks res) =
      dr_unmanaged res @ concat (map (\<lambda>k. dr_unmanaged (row_delta m step k)) ks)"
    and "dr_spec_owned (walk m step ks res) =
      dr_spec_owned res @ concat (map (\<lambda>k. dr_spec_owned (row_delta m step k)) ks)"
proof -
  define st where
    "st k result = (case m k of None \<Rightarrow> result | Some r \<Rightarrow> step k r result)" for k result
  have e: "st k result = dr_append result (row_delta m step k)" for k result
  proof (cases "m k")
    case (Some r)
    show ?thesis using assms[of k r result] by (simp add: st_def row_delta_def Some)
  qed (simp add: st_def row_delta_def)
  have w: "walk m step ks res = fold st ks res"
    by (simp add: walk_def st_def[abs_def])
  show "dr_diffs (walk m step ks res) =
      dr_diffs res @ concat (map (\<lambda>k. dr_diffs (row_delta m step k)) ks)"
    unfolding w by (induction ks arbitrary: res) (simp_all add: e)
  show "dr_unmanaged (walk m step ks res) =
      dr_unmanaged res @ concat (map (\<lambda>k. dr_unmanaged (row_delta m step k)) ks)"
    unfolding w by (induction ks arbitrary: res) (simp_all add: e)
  show "dr_spec_owned (walk m step ks res) =
      dr_spec_owned res @ concat (map (\<lambda>k. dr_spec_owned (row_delta m step k)) ks)"
    unfolding w by (induction ks arbitrary: res) (simp_all add: e)
qed

lemmas desired_walk = walk_components[where step = "desired_step ops am" for ops am,
    OF desired_step_append]
lemmas actual_walk = walk_components[where step = "actual_step ops ctx dm" for ops ctx dm,
    OF actual_step_append]

section \<open>What the diff may say of one identity\<close>

definition may_delete :: "collection_context \<Rightarrow> string \<Rightarrow> row_key \<Rightarrow> bool \<Rightarrow> bool" where
  "may_delete ctx kind k spec_owned =
     (if spec_owned
      then cx_ownership_scope ctx = Exclusive \<and> do_prune_spec_owned (cx_options ctx)
      else (case cx_ownership_scope ctx of
              Shared previously_managed \<Rightarrow> state_key (fst k) kind (snd k) \<in> previously_managed
            | Exclusive \<Rightarrow> True))"

definition entry :: "diff_action \<Rightarrow> string \<Rightarrow> row_key \<Rightarrow> field_change list \<Rightarrow> resource_diff" where
  "entry a kd k ds =
     \<lparr>rd_action = a, rd_kind = kd, rd_id = snd k, rd_namespace = fst k, rd_details = ds\<rparr>"

definition row_diff ::
    "'r kind_ops \<Rightarrow> collection_context \<Rightarrow> (row_key \<rightharpoonup> 'r) \<Rightarrow> (row_key \<rightharpoonup> 'r) \<Rightarrow> row_key \<Rightarrow>
     resource_diff option" where
  "row_diff ops ctx dm am k =
     (case dm k of
        Some d \<Rightarrow>
          (case am k of
             None \<Rightarrow> Some (entry Add (ko_kind ops) k [])
           | Some a \<Rightarrow>
               if ko_spec ops a = None \<and> ko_details ops d a \<noteq> []
               then Some (entry Modify (ko_kind ops) k (ko_details ops d a)) else None)
      | None \<Rightarrow>
          (case am k of
             None \<Rightarrow> None
           | Some a \<Rightarrow>
               if may_delete ctx (ko_kind ops) k (ko_spec ops a \<noteq> None)
               then Some (entry Delete (ko_kind ops) k []) else None))"

definition row_unmanaged ::
    "'r kind_ops \<Rightarrow> collection_context \<Rightarrow> (row_key \<rightharpoonup> 'r) \<Rightarrow> (row_key \<rightharpoonup> 'r) \<Rightarrow> row_key \<Rightarrow>
     unmanaged_resource option" where
  "row_unmanaged ops ctx dm am k =
     (case (dm k, am k) of
        (None, Some a) \<Rightarrow>
          if ko_spec ops a = None \<and> \<not> may_delete ctx (ko_kind ops) k False
          then Some \<lparr>um_kind = ko_kind ops, um_id = snd k, um_namespace = fst k\<rparr> else None
      | _ \<Rightarrow> None)"

definition row_spec_owned ::
    "'r kind_ops \<Rightarrow> collection_context \<Rightarrow> (row_key \<rightharpoonup> 'r) \<Rightarrow> (row_key \<rightharpoonup> 'r) \<Rightarrow> row_key \<Rightarrow>
     spec_owned_resource option" where
  "row_spec_owned ops ctx dm am k =
     (case am k of
        None \<Rightarrow> None
      | Some a \<Rightarrow>
          (case ko_spec ops a of
             None \<Rightarrow> None
           | Some sp \<Rightarrow>
               Some \<lparr>so_kind = ko_kind ops, so_id = snd k, so_namespace = fst k,
                     so_api_spec_id = sp, so_declared_in_repo = (dm k \<noteq> None),
                     so_pruned = (dm k = None \<and> may_delete ctx (ko_kind ops) k True)\<rparr>))"

definition opt_list :: "'a option \<Rightarrow> 'a list" where
  "opt_list x = (case x of None \<Rightarrow> [] | Some y \<Rightarrow> [y])"

lemma opt_list_simps [simp]: "opt_list None = []" "opt_list (Some x) = [x]"
  by (simp_all add: opt_list_def)

lemma set_opt_list [simp]: "set (opt_list x) = set_option x"
  by (cases x) auto

lemma desired_delta:
  assumes "dm k \<noteq> None"
  shows "dr_diffs (row_delta dm (desired_step ops am) k) = opt_list (row_diff ops ctx dm am k)"
    and "dr_unmanaged (row_delta dm (desired_step ops am) k) =
      opt_list (row_unmanaged ops ctx dm am k)"
    and "dr_spec_owned (row_delta dm (desired_step ops am) k) =
      opt_list (row_spec_owned ops ctx dm am k)"
  using assms
  by (auto simp: row_delta_def desired_step_def Let_def row_diff_def row_unmanaged_def
      row_spec_owned_def entry_def split: option.splits)

lemma actual_delta:
  "dm k \<noteq> None \<Longrightarrow> row_delta am (actual_step ops ctx dm) k = no_diff"
  "dm k = None \<Longrightarrow> am k \<noteq> None \<Longrightarrow>
     dr_diffs (row_delta am (actual_step ops ctx dm) k) = opt_list (row_diff ops ctx dm am k)"
  "dm k = None \<Longrightarrow> am k \<noteq> None \<Longrightarrow>
     dr_unmanaged (row_delta am (actual_step ops ctx dm) k) =
       opt_list (row_unmanaged ops ctx dm am k)"
  "dm k = None \<Longrightarrow> am k \<noteq> None \<Longrightarrow>
     dr_spec_owned (row_delta am (actual_step ops ctx dm) k) =
       opt_list (row_spec_owned ops ctx dm am k)"
  by (auto simp: row_delta_def actual_step_def Let_def row_diff_def row_unmanaged_def
      row_spec_owned_def entry_def may_delete_def split: option.splits ownership_scope.splits)

section \<open>A collection as a bag of rows\<close>

definition good_order :: "iter_order \<Rightarrow> bool" where
  "good_order order = (\<forall>kind side ks. mset (order kind side ks) = mset ks)"

definition all_keys :: "'r kind_ops \<Rightarrow> 'r list \<Rightarrow> 'r list \<Rightarrow> row_key list" where
  "all_keys ops desired actual =
     remdups (map (ko_key ops) desired) @
     filter (\<lambda>k. k \<notin> ko_key ops ` set desired) (remdups (map (ko_key ops) actual))"

definition rows ::
    "('r kind_ops \<Rightarrow> collection_context \<Rightarrow> (row_key \<rightharpoonup> 'r) \<Rightarrow> (row_key \<rightharpoonup> 'r) \<Rightarrow> row_key \<Rightarrow> 'e option) \<Rightarrow>
     'r kind_ops \<Rightarrow> collection_context \<Rightarrow> 'r list \<Rightarrow> 'r list \<Rightarrow> 'e list" where
  "rows row ops ctx desired actual =
     concat (map (\<lambda>k. opt_list
       (row ops ctx (hash_map (ko_key ops) desired) (hash_map (ko_key ops) actual) k))
       (all_keys ops desired actual))"

lemma hash_map_None: "hash_map key rs k = None \<longleftrightarrow> k \<notin> key ` set rs"
  by (simp add: hash_map_def map_of_eq_None_iff image_image)

lemma hash_map_key: "hash_map key rs k = Some r \<Longrightarrow> r \<in> set rs \<and> key r = k"
  by (auto simp: hash_map_def dest!: map_of_SomeD)

lemma hash_map_unique:
  assumes "distinct (map key rs)" and "r \<in> set rs"
  shows "hash_map key rs (key r) = Some r"
proof -
  obtain r' where r': "hash_map key rs (key r) = Some r'"
    using assms(2) hash_map_None[of key rs "key r"] by fastforce
  then show ?thesis using hash_map_key[OF r'] assms by (metis distinct_map inj_on_def)
qed

lemma distinct_all_keys: "distinct (all_keys ops desired actual)"
  by (auto simp: all_keys_def)

lemma set_all_keys: "set (all_keys ops desired actual) = ko_key ops ` (set desired \<union> set actual)"
  by (auto simp: all_keys_def)

lemma mset_concat_map_cong:
  assumes "mset xs = mset ys"
  shows "mset (concat (map f xs)) = mset (concat (map f ys))"
proof -
  have "mset (map (\<lambda>x. mset (f x)) xs) = mset (map (\<lambda>x. mset (f x)) ys)"
    using assms by simp
  then have "(\<Sum>x\<leftarrow>xs. mset (f x)) = (\<Sum>x\<leftarrow>ys. mset (f x))"
    by (metis sum_mset_sum_list)
  then show ?thesis by (simp add: mset_concat comp_def)
qed

lemma concat_map_drop:
  "(\<And>x. x \<in> set xs \<Longrightarrow> \<not> p x \<Longrightarrow> f x = []) \<Longrightarrow>
     concat (map f xs) = concat (map f (filter p xs))"
  by (induction xs) auto

lemma collection_bag:
  assumes "good_order order"
  shows "mset (dr_diffs (diff_collection order ops ctx desired actual res)) =
      mset (dr_diffs res) + mset (rows row_diff ops ctx desired actual)"
    and "mset (dr_unmanaged (diff_collection order ops ctx desired actual res)) =
      mset (dr_unmanaged res) + mset (rows row_unmanaged ops ctx desired actual)"
    and "mset (dr_spec_owned (diff_collection order ops ctx desired actual res)) =
      mset (dr_spec_owned res) + mset (rows row_spec_owned ops ctx desired actual)"
proof -
  let ?dm = "hash_map (ko_key ops) desired" and ?am = "hash_map (ko_key ops) actual"
  let ?dk = "remdups (map (ko_key ops) desired)" and ?ak = "remdups (map (ko_key ops) actual)"
  let ?p = "\<lambda>k. k \<notin> ko_key ops ` set desired"
  have o: "mset (order (ko_kind ops) True ?dk) = mset ?dk"
    "mset (order (ko_kind ops) False ?ak) = mset ?ak"
    using assms by (simp_all add: good_order_def)
  have dn: "?dm k \<noteq> None" if "k \<in> set ?dk" for k using that by (auto simp: hash_map_None)
  have an: "?am k \<noteq> None" if "k \<in> set ?ak" for k using that by (auto simp: hash_map_None)
  have bag: "mset (concat (map f (order (ko_kind ops) True ?dk))) +
      mset (concat (map g (order (ko_kind ops) False ?ak))) =
      mset (concat (map h (all_keys ops desired actual)))"
    if "\<And>k. k \<in> set ?dk \<Longrightarrow> f k = h k"
      and "\<And>k. k \<in> set ?ak \<Longrightarrow> ?dm k = None \<Longrightarrow> g k = h k"
      and "\<And>k. k \<in> set ?ak \<Longrightarrow> ?dm k \<noteq> None \<Longrightarrow> g k = []"
    for f g h :: "row_key \<Rightarrow> 'e list"
  proof -
    have "concat (map f ?dk) = concat (map h ?dk)"
      by (intro arg_cong[where f = concat] map_cong) (simp_all add: that(1))
    moreover have "concat (map g ?ak) = concat (map h (filter ?p ?ak))"
    proof -
      have "concat (map g ?ak) = concat (map g (filter ?p ?ak))"
        by (rule concat_map_drop) (use that(3) in \<open>auto simp: hash_map_None\<close>)
      also have "\<dots> = concat (map h (filter ?p ?ak))"
        by (intro arg_cong[where f = concat] map_cong)
          (use that(2) in \<open>auto simp: hash_map_None\<close>)
      finally show ?thesis .
    qed
    ultimately show ?thesis
      unfolding mset_concat_map_cong[OF o(1)] mset_concat_map_cong[OF o(2)]
      by (simp add: all_keys_def)
  qed
  have act: "row_delta ?am (actual_step ops ctx ?dm) k = no_diff" if "?dm k \<noteq> None" for k
    using that by (rule actual_delta(1))
  show "mset (dr_diffs (diff_collection order ops ctx desired actual res)) =
      mset (dr_diffs res) + mset (rows row_diff ops ctx desired actual)"
    unfolding diff_collection_def Let_def actual_walk(1) desired_walk(1) rows_def
    using bag[of "\<lambda>k. dr_diffs (row_delta ?dm (desired_step ops ?am) k)"
        "\<lambda>k. opt_list (row_diff ops ctx ?dm ?am k)"
        "\<lambda>k. dr_diffs (row_delta ?am (actual_step ops ctx ?dm) k)"]
    by (simp add: desired_delta(1)[OF dn, where ctx = ctx] actual_delta(2)[OF _ an] act
        union_assoc)
  show "mset (dr_unmanaged (diff_collection order ops ctx desired actual res)) =
      mset (dr_unmanaged res) + mset (rows row_unmanaged ops ctx desired actual)"
    unfolding diff_collection_def Let_def actual_walk(2) desired_walk(2) rows_def
    using bag[of "\<lambda>k. dr_unmanaged (row_delta ?dm (desired_step ops ?am) k)"
        "\<lambda>k. opt_list (row_unmanaged ops ctx ?dm ?am k)"
        "\<lambda>k. dr_unmanaged (row_delta ?am (actual_step ops ctx ?dm) k)"]
    by (simp add: desired_delta(2)[OF dn, where ctx = ctx] actual_delta(3)[OF _ an] act
        union_assoc)
  show "mset (dr_spec_owned (diff_collection order ops ctx desired actual res)) =
      mset (dr_spec_owned res) + mset (rows row_spec_owned ops ctx desired actual)"
    unfolding diff_collection_def Let_def actual_walk(3) desired_walk(3) rows_def
    using bag[of "\<lambda>k. dr_spec_owned (row_delta ?dm (desired_step ops ?am) k)"
        "\<lambda>k. opt_list (row_spec_owned ops ctx ?dm ?am k)"
        "\<lambda>k. dr_spec_owned (row_delta ?am (actual_step ops ctx ?dm) k)"]
    by (simp add: desired_delta(3)[OF dn, where ctx = ctx] actual_delta(4)[OF _ an] act
        union_assoc)
qed

lemma row_keys:
  "row_diff ops ctx dm am k = Some d \<Longrightarrow> rd_key d = (fst k, ko_kind ops, snd k)"
  "row_unmanaged ops ctx dm am k = Some u \<Longrightarrow> um_key u = (fst k, ko_kind ops, snd k)"
  "row_spec_owned ops ctx dm am k = Some s \<Longrightarrow> so_key s = (fst k, ko_kind ops, snd k)"
  by (auto simp: row_diff_def row_unmanaged_def row_spec_owned_def entry_def rd_key_def um_key_def
      so_key_def split: option.splits if_splits)

lemma distinct_rows:
  assumes "\<And>k x. row ops ctx dm am k = Some x \<Longrightarrow> key x = (fst k, ko_kind ops, snd k)"
    and "distinct ks"
  shows "distinct (map key (concat (map (\<lambda>k. opt_list (row ops ctx dm am k)) ks)))"
  using assms(2)
proof (induction ks)
  case (Cons k ks)
  have "key x \<noteq> key y" if "row ops ctx dm am k = Some x" "row ops ctx dm am k' = Some y"
    "k' \<in> set ks" for x y k'
    using assms(1)[OF that(1)] assms(1)[OF that(2)] that(3) Cons.prems
    by (cases k; cases k') auto
  then show ?case using Cons by (cases "row ops ctx dm am k") fastforce+
qed simp

section \<open>All four kinds\<close>

definition all_rows ::
    "(proxy kind_ops \<Rightarrow> proxy list \<Rightarrow> proxy list \<Rightarrow> 'e list) \<Rightarrow>
     (consumer kind_ops \<Rightarrow> consumer list \<Rightarrow> consumer list \<Rightarrow> 'e list) \<Rightarrow>
     (upstream kind_ops \<Rightarrow> upstream list \<Rightarrow> upstream list \<Rightarrow> 'e list) \<Rightarrow>
     (plugin_config kind_ops \<Rightarrow> plugin_config list \<Rightarrow> plugin_config list \<Rightarrow> 'e list) \<Rightarrow>
     codec \<Rightarrow> gateway_config \<Rightarrow> gateway_config \<Rightarrow> 'e list" where
  "all_rows fp fc fu fk codec desired actual =
     fp (proxy_ops codec) (gc_proxies desired) (gc_proxies actual) @
     fc (consumer_ops codec) (gc_consumers desired) (gc_consumers actual) @
     fu (upstream_ops codec) (gc_upstreams desired) (gc_upstreams actual) @
     fk (plugin_config_ops codec) (gc_plugin_configs desired) (gc_plugin_configs actual)"

definition diff_rows ::
    "codec \<Rightarrow> collection_context \<Rightarrow> gateway_config \<Rightarrow> gateway_config \<Rightarrow> resource_diff list" where
  "diff_rows codec ctx = all_rows
     (\<lambda>ops. rows row_diff ops ctx) (\<lambda>ops. rows row_diff ops ctx) (\<lambda>ops. rows row_diff ops ctx)
     (\<lambda>ops. rows row_diff ops ctx) codec"

definition unmanaged_rows ::
    "codec \<Rightarrow> collection_context \<Rightarrow> gateway_config \<Rightarrow> gateway_config \<Rightarrow> unmanaged_resource list"
  where
  "unmanaged_rows codec ctx = all_rows
     (\<lambda>ops. rows row_unmanaged ops ctx) (\<lambda>ops. rows row_unmanaged ops ctx)
     (\<lambda>ops. rows row_unmanaged ops ctx) (\<lambda>ops. rows row_unmanaged ops ctx) codec"

definition spec_owned_rows ::
    "codec \<Rightarrow> collection_context \<Rightarrow> gateway_config \<Rightarrow> gateway_config \<Rightarrow> spec_owned_resource list"
  where
  "spec_owned_rows codec ctx = all_rows
     (\<lambda>ops. rows row_spec_owned ops ctx) (\<lambda>ops. rows row_spec_owned ops ctx)
     (\<lambda>ops. rows row_spec_owned ops ctx) (\<lambda>ops. rows row_spec_owned ops ctx) codec"

lemma diff_all_bag:
  assumes "good_order order"
  shows "mset (dr_diffs (diff_all order codec ctx desired actual)) =
      mset (diff_rows codec ctx desired actual)"
    and "mset (dr_unmanaged (diff_all order codec ctx desired actual)) =
      mset (unmanaged_rows codec ctx desired actual)"
    and "mset (dr_spec_owned (diff_all order codec ctx desired actual)) =
      mset (spec_owned_rows codec ctx desired actual)"
  by (simp_all add: diff_all_def collection_bag[OF assms] diff_rows_def unmanaged_rows_def
      spec_owned_rows_def all_rows_def union_ac)

lemma ops_kinds [simp]:
  "ko_kind (proxy_ops codec) = ''Proxy''" "ko_kind (consumer_ops codec) = ''Consumer''"
  "ko_kind (upstream_ops codec) = ''Upstream''"
  "ko_kind (plugin_config_ops codec) = ''PluginConfig''"
  by (simp_all add: proxy_ops_def consumer_ops_def upstream_ops_def plugin_config_ops_def)

lemma distinct_rows_list:
  assumes "\<And>dm am k x. row ops ctx dm am k = Some x \<Longrightarrow> key x = (fst k, ko_kind ops, snd k)"
  shows "distinct (map key (rows row ops ctx desired actual))"
    and "x \<in> set (rows row ops ctx desired actual) \<Longrightarrow> fst (snd (key x)) = ko_kind ops"
proof -
  show "distinct (map key (rows row ops ctx desired actual))"
    unfolding rows_def
    by (rule distinct_rows[where row = row and ops = ops and ctx = ctx, OF _ distinct_all_keys])
      (rule assms)
  assume "x \<in> set (rows row ops ctx desired actual)"
  then obtain dm am k where "row ops ctx dm am k = Some x" by (auto simp: rows_def)
  from assms[OF this] show "fst (snd (key x)) = ko_kind ops" by simp
qed

lemma disjoint_by_kind:
  assumes "\<And>x. x \<in> set a \<Longrightarrow> fst (snd (key x)) = k"
    and "\<And>x. x \<in> set b \<Longrightarrow> fst (snd (key x)) = k'" and "k \<noteq> k'"
  shows "key ` set a \<inter> key ` set b = {}"
  using assms by fastforce

lemma distinct_four_kinds:
  assumes "distinct (map key a)" "distinct (map key b)" "distinct (map key c)" "distinct (map key d)"
    and a: "\<And>x. x \<in> set a \<Longrightarrow> fst (snd (key x)) = ''Proxy''"
    and b: "\<And>x. x \<in> set b \<Longrightarrow> fst (snd (key x)) = ''Consumer''"
    and c: "\<And>x. x \<in> set c \<Longrightarrow> fst (snd (key x)) = ''Upstream''"
    and d: "\<And>x. x \<in> set d \<Longrightarrow> fst (snd (key x)) = ''PluginConfig''"
  shows "distinct (map key (a @ b @ c @ d))"
proof -
  have "key ` set a \<inter> key ` set b = {}" "key ` set a \<inter> key ` set c = {}"
    "key ` set a \<inter> key ` set d = {}" "key ` set b \<inter> key ` set c = {}"
    "key ` set b \<inter> key ` set d = {}" "key ` set c \<inter> key ` set d = {}"
    by (rule disjoint_by_kind[OF a b] disjoint_by_kind[OF a c] disjoint_by_kind[OF a d]
        disjoint_by_kind[OF b c] disjoint_by_kind[OF b d] disjoint_by_kind[OF c d];
        simp)+
  then show ?thesis using assms(1-4) by (simp add: Int_Un_distrib)
qed

lemma rows_distinct_diff:
  "distinct (map rd_key (rows row_diff ops ctx desired actual))"
  "x \<in> set (rows row_diff ops ctx desired actual) \<Longrightarrow> fst (snd (rd_key x)) = ko_kind ops"
  by (rule distinct_rows_list(1), erule row_keys(1))
    (erule distinct_rows_list(2)[rotated], erule row_keys(1))

lemma rows_distinct_unmanaged:
  "distinct (map um_key (rows row_unmanaged ops ctx desired actual))"
  "x \<in> set (rows row_unmanaged ops ctx desired actual) \<Longrightarrow> fst (snd (um_key x)) = ko_kind ops"
  by (rule distinct_rows_list(1), erule row_keys(2))
    (erule distinct_rows_list(2)[rotated], erule row_keys(2))

lemma rows_distinct_spec_owned:
  "distinct (map so_key (rows row_spec_owned ops ctx desired actual))"
  "x \<in> set (rows row_spec_owned ops ctx desired actual) \<Longrightarrow> fst (snd (so_key x)) = ko_kind ops"
  by (rule distinct_rows_list(1), erule row_keys(3))
    (erule distinct_rows_list(2)[rotated], erule row_keys(3))

lemma distinct_diff_rows: "distinct (map rd_key (diff_rows codec ctx desired actual))"
  unfolding diff_rows_def all_rows_def
  by (rule distinct_four_kinds[OF rows_distinct_diff(1) rows_distinct_diff(1)
        rows_distinct_diff(1) rows_distinct_diff(1)])
    (drule rows_distinct_diff(2), simp)+

lemma distinct_unmanaged_rows: "distinct (map um_key (unmanaged_rows codec ctx desired actual))"
  unfolding unmanaged_rows_def all_rows_def
  by (rule distinct_four_kinds[OF rows_distinct_unmanaged(1) rows_distinct_unmanaged(1)
        rows_distinct_unmanaged(1) rows_distinct_unmanaged(1)])
    (drule rows_distinct_unmanaged(2), simp)+

lemma distinct_spec_owned_rows: "distinct (map so_key (spec_owned_rows codec ctx desired actual))"
  unfolding spec_owned_rows_def all_rows_def
  by (rule distinct_four_kinds[OF rows_distinct_spec_owned(1) rows_distinct_spec_owned(1)
        rows_distinct_spec_owned(1) rows_distinct_spec_owned(1)])
    (drule rows_distinct_spec_owned(2), simp)+

lemmas distinct_all_rows = distinct_diff_rows distinct_unmanaged_rows distinct_spec_owned_rows

lemma sort_rows_unique:
  assumes "mset xs = mset ys" and "distinct (map key ys)"
  shows "sort_key key xs = sort_key key ys"
    and "sorted_wrt (<) (map key (sort_key key xs))"
proof -
  have "mset (map key xs) = mset (map key ys)" using assms(1) by simp
  then have d: "distinct (map key xs)" using assms(2) mset_eq_imp_distinct_iff by blast
  then have "inj_on key (set xs)" by (simp add: distinct_map)
  then show "sort_key key xs = sort_key key ys"
    using assms(1) by (intro sort_key_inj_key_eq) simp_all
  show "sorted_wrt (<) (map key (sort_key key xs))"
    using d by (simp add: strict_sorted_iff distinct_map)
qed

text \<open>
  The whole diff as one equation: on an unambiguous live configuration, the three lists are the
  rows' entries sorted by identity.
\<close>

lemma compute_diff_eq:
  assumes "good_order order"
  shows "compute_diff_with_options order codec desired actual scope options =
    bind_result (validate_unique_live_resource_keys actual)
      (\<lambda>_. let ctx = \<lparr>cx_ownership_scope = scope, cx_options = options\<rparr> in
           Inr \<lparr>dr_diffs = sort_key rd_key (diff_rows codec ctx desired actual),
                dr_unmanaged = sort_key um_key (unmanaged_rows codec ctx desired actual),
                dr_spec_owned = sort_key so_key (spec_owned_rows codec ctx desired actual)\<rparr>)"
  unfolding compute_diff_with_options_def Let_def
    sort_rows_unique(1)[OF diff_all_bag(1)[OF assms] distinct_all_rows(1)]
    sort_rows_unique(1)[OF diff_all_bag(2)[OF assms] distinct_all_rows(2)]
    sort_rows_unique(1)[OF diff_all_bag(3)[OF assms] distinct_all_rows(3)]
  by (rule refl)

text \<open>
  C29.  The diff is deterministic: its result does not depend on the order in which the hash maps of
  desired and live rows are walked, for any two such orders, so re-running an unchanged
  configuration yields an unchanged report.
\<close>

theorem compute_diff_order_independent:
  "good_order order \<and> good_order order' \<Longrightarrow>
   compute_diff_with_options order codec desired actual scope options =
     compute_diff_with_options order' codec desired actual scope options"
  by (simp add: compute_diff_eq)

end
