(* ===== verification/Diff_Safety.thy ===== *)
theory Diff_Safety
  imports Diff_Facts
begin

text \<open>
  The guarantees of the diff over all four kinds: exactly which live rows it deletes, adds,
  modifies, reports as unmanaged or as spec-owned, under both ownership scopes; and what the
  field comparison reports.
\<close>

section \<open>One kind\<close>

definition kkey :: "'r kind_ops \<Rightarrow> 'r \<Rightarrow> resource_key" where
  "kkey ops r = (fst (ko_key ops r), ko_kind ops, snd (ko_key ops r))"

lemma kkey_ops [simp]:
  "kkey (proxy_ops codec) = proxy_key" "kkey (consumer_ops codec) = consumer_key"
  "kkey (upstream_ops codec) = upstream_key"
  "kkey (plugin_config_ops codec) = plugin_config_key"
  by (auto simp: kkey_def proxy_ops_def consumer_ops_def upstream_ops_def plugin_config_ops_def
      proxy_key_def consumer_key_def upstream_key_def plugin_config_key_def)

lemma kkey_eq_iff: "kkey ops a = kkey ops b \<longleftrightarrow> ko_key ops a = ko_key ops b"
  by (auto simp: kkey_def prod_eq_iff)

lemma kkey_in_image: "kkey ops a \<in> kkey ops ` S \<longleftrightarrow> ko_key ops a \<in> ko_key ops ` S"
  by (auto simp: image_iff kkey_eq_iff)

lemma distinct_kkey: "distinct (map (kkey ops) rs) \<longleftrightarrow> distinct (map (ko_key ops) rs)"
  by (auto simp: distinct_map inj_on_def kkey_eq_iff)

lemma entry_simps [simp]:
  "rd_action (entry a kd k ds) = a" "rd_key (entry a kd k ds) = (fst k, kd, snd k)"
  "rd_details (entry a kd k ds) = ds"
  by (simp_all add: entry_def rd_key_def)

lemma rows_iff:
  "x \<in> set (rows row ops ctx desired actual) \<longleftrightarrow>
     (\<exists>r \<in> set desired \<union> set actual. row ops ctx (hash_map (ko_key ops) desired)
        (hash_map (ko_key ops) actual) (ko_key ops r) = Some x)"
  by (auto simp: rows_def set_all_keys)

lemma rows_adds:
  "rd_key ` {d \<in> set (rows row_diff ops ctx desired actual). rd_action d = Add} =
     kkey ops ` {r \<in> set desired. ko_key ops r \<notin> ko_key ops ` set actual}"
proof (intro equalityI subsetI)
  fix k assume "k \<in> rd_key ` {d \<in> set (rows row_diff ops ctx desired actual). rd_action d = Add}"
  then obtain d r where d: "k = rd_key d" "rd_action d = Add"
    "row_diff ops ctx (hash_map (ko_key ops) desired) (hash_map (ko_key ops) actual)
       (ko_key ops r) = Some d"
    by (auto simp: rows_iff)
  then obtain r' where "hash_map (ko_key ops) desired (ko_key ops r) = Some r'"
    "hash_map (ko_key ops) actual (ko_key ops r) = None" "k = kkey ops r"
    by (auto simp: row_diff_def kkey_def split: option.splits if_splits)
  then show "k \<in> kkey ops ` {r \<in> set desired. ko_key ops r \<notin> ko_key ops ` set actual}"
    using hash_map_key[of "ko_key ops" desired "ko_key ops r" r']
    by (intro image_eqI[of _ _ r']) (auto simp: hash_map_None kkey_def)
next
  fix k assume "k \<in> kkey ops ` {r \<in> set desired. ko_key ops r \<notin> ko_key ops ` set actual}"
  then obtain r where r: "r \<in> set desired" "ko_key ops r \<notin> ko_key ops ` set actual" "k = kkey ops r"
    by auto
  then have "hash_map (ko_key ops) desired (ko_key ops r) \<noteq> None"
    "hash_map (ko_key ops) actual (ko_key ops r) = None" by (auto simp: hash_map_None)
  then have "row_diff ops ctx (hash_map (ko_key ops) desired) (hash_map (ko_key ops) actual)
      (ko_key ops r) = Some (entry Add (ko_kind ops) (ko_key ops r) [])"
    by (auto simp: row_diff_def split: option.splits)
  then show "k \<in> rd_key ` {d \<in> set (rows row_diff ops ctx desired actual). rd_action d = Add}"
    using r by (intro image_eqI[of _ _ "entry Add (ko_kind ops) (ko_key ops r) []"])
      (auto simp: rows_iff kkey_def)
qed

lemma rows_undeclared:
  assumes d: "distinct (map (ko_key ops) actual)"
    and row: "\<And>k x. row ops ctx dm am k = Some x \<Longrightarrow> key x = (fst k, ko_kind ops, snd k)"
    and sel: "\<And>k a. am k = Some a \<Longrightarrow>
      (\<exists>x. row ops ctx dm am k = Some x \<and> P x) \<longleftrightarrow> Q k a"
    and none: "\<And>k x. am k = None \<Longrightarrow> row ops ctx dm am k = Some x \<Longrightarrow> \<not> P x"
    and dm: "dm = hash_map (ko_key ops) desired" and am: "am = hash_map (ko_key ops) actual"
  shows "key ` {x \<in> set (rows row ops ctx desired actual). P x} =
    kkey ops ` {a \<in> set actual. Q (ko_key ops a) a}"
proof (intro equalityI subsetI)
  fix k assume "k \<in> key ` {x \<in> set (rows row ops ctx desired actual). P x}"
  then obtain x r where x: "k = key x" "P x" "row ops ctx dm am (ko_key ops r) = Some x"
    by (auto simp: rows_iff dm am)
  then obtain a where a: "am (ko_key ops r) = Some a" using none by fastforce
  then have "a \<in> set actual" "ko_key ops a = ko_key ops r" using hash_map_key am by fastforce+
  moreover have "Q (ko_key ops r) a" using sel[OF a] x by blast
  ultimately show "k \<in> kkey ops ` {a \<in> set actual. Q (ko_key ops a) a}"
    using x(1) row[OF x(3)] by (intro image_eqI[of _ _ a]) (auto simp: kkey_def)
next
  fix k assume "k \<in> kkey ops ` {a \<in> set actual. Q (ko_key ops a) a}"
  then obtain a where a: "k = kkey ops a" "a \<in> set actual" "Q (ko_key ops a) a" by auto
  then have "am (ko_key ops a) = Some a" using d am by (simp add: hash_map_unique)
  from sel[OF this] a(3) obtain x where
    "row ops ctx dm am (ko_key ops a) = Some x" "P x" by blast
  then show "k \<in> key ` {x \<in> set (rows row ops ctx desired actual). P x}"
    using a row by (intro image_eqI[of _ _ x]) (auto simp: rows_iff kkey_def dm am)
qed

lemma rows_deletes:
  assumes "distinct (map (ko_key ops) actual)"
  shows "rd_key ` {d \<in> set (rows row_diff ops ctx desired actual). rd_action d = Delete} =
    kkey ops ` {a \<in> set actual. ko_key ops a \<notin> ko_key ops ` set desired \<and>
      may_delete ctx (ko_kind ops) (ko_key ops a) (ko_spec ops a \<noteq> None)}"
  by (rule rows_undeclared[where dm = "hash_map (ko_key ops) desired"
        and am = "hash_map (ko_key ops) actual", OF assms row_keys(1)])
    (auto simp: row_diff_def hash_map_None[symmetric] split: option.splits if_splits)

lemma rows_unmanaged:
  assumes "distinct (map (ko_key ops) actual)"
  shows "um_key ` set (rows row_unmanaged ops ctx desired actual) =
    kkey ops ` {a \<in> set actual. ko_key ops a \<notin> ko_key ops ` set desired \<and>
      ko_spec ops a = None \<and> \<not> may_delete ctx (ko_kind ops) (ko_key ops a) False}"
proof -
  have "um_key ` {x \<in> set (rows row_unmanaged ops ctx desired actual). True} =
      kkey ops ` {a \<in> set actual. ko_key ops a \<notin> ko_key ops ` set desired \<and>
        ko_spec ops a = None \<and> \<not> may_delete ctx (ko_kind ops) (ko_key ops a) False}"
    by (rule rows_undeclared[where dm = "hash_map (ko_key ops) desired"
          and am = "hash_map (ko_key ops) actual", OF assms row_keys(2)])
      (auto simp: row_unmanaged_def hash_map_None[symmetric] split: option.splits if_splits)
  then show ?thesis by simp
qed

lemma rows_spec_owned:
  assumes "distinct (map (ko_key ops) actual)"
  shows "so_key ` set (rows row_spec_owned ops ctx desired actual) =
    kkey ops ` {a \<in> set actual. ko_spec ops a \<noteq> None}"
proof -
  have "so_key ` {x \<in> set (rows row_spec_owned ops ctx desired actual). True} =
      kkey ops ` {a \<in> set actual. ko_spec ops a \<noteq> None}"
    by (rule rows_undeclared[where dm = "hash_map (ko_key ops) desired"
          and am = "hash_map (ko_key ops) actual", OF assms row_keys(3)])
      (auto simp: row_spec_owned_def split: option.splits if_splits)
  then show ?thesis by simp
qed

section \<open>All kinds\<close>

definition tagged_keys :: "gateway_config \<Rightarrow> resource_key list" where
  "tagged_keys config =
     map proxy_key (filter (\<lambda>p. p_api_spec_id p \<noteq> None) (gc_proxies config)) @
     map upstream_key (filter (\<lambda>u. u_api_spec_id u \<noteq> None) (gc_upstreams config)) @
     map plugin_config_key (filter (\<lambda>p. pc_api_spec_id p \<noteq> None) (gc_plugin_configs config))"

definition prunable ::
    "ownership_scope \<Rightarrow> diff_options \<Rightarrow> gateway_config \<Rightarrow> resource_key \<Rightarrow> bool" where
  "prunable scope options actual k =
     (if k \<in> set (tagged_keys actual) then scope = Exclusive \<and> do_prune_spec_owned options
      else (case scope of
              Shared previously_managed \<Rightarrow>
                state_key (fst k) (fst (snd k)) (snd (snd k)) \<in> previously_managed
            | Exclusive \<Rightarrow> True))"

lemma set_config_keys:
  "set (config_keys c) = kkey (proxy_ops codec) ` set (gc_proxies c) \<union>
     kkey (consumer_ops codec) ` set (gc_consumers c) \<union>
     kkey (upstream_ops codec) ` set (gc_upstreams c) \<union>
     kkey (plugin_config_ops codec) ` set (gc_plugin_configs c)"
  by (auto simp: config_keys_def)

lemma kkey_kind: "fst (snd (kkey ops r)) = ko_kind ops"
  by (simp add: kkey_def)

lemma kkey_config_keys:
  "kkey (proxy_ops codec) p \<in> set (config_keys c) \<longleftrightarrow>
     ko_key (proxy_ops codec) p \<in> ko_key (proxy_ops codec) ` set (gc_proxies c)"
  "kkey (consumer_ops codec) co \<in> set (config_keys c) \<longleftrightarrow>
     ko_key (consumer_ops codec) co \<in> ko_key (consumer_ops codec) ` set (gc_consumers c)"
  "kkey (upstream_ops codec) u \<in> set (config_keys c) \<longleftrightarrow>
     ko_key (upstream_ops codec) u \<in> ko_key (upstream_ops codec) ` set (gc_upstreams c)"
  "kkey (plugin_config_ops codec) g \<in> set (config_keys c) \<longleftrightarrow>
     ko_key (plugin_config_ops codec) g \<in> ko_key (plugin_config_ops codec) `
       set (gc_plugin_configs c)"
  unfolding kkey_in_image[symmetric]
  by (auto simp: config_keys_def proxy_key_def consumer_key_def upstream_key_def
      plugin_config_key_def)

lemma distinct_parts:
  assumes "distinct (config_keys c)"
  shows "distinct (map (ko_key (proxy_ops codec)) (gc_proxies c))"
    "distinct (map (ko_key (consumer_ops codec)) (gc_consumers c))"
    "distinct (map (ko_key (upstream_ops codec)) (gc_upstreams c))"
    "distinct (map (ko_key (plugin_config_ops codec)) (gc_plugin_configs c))"
  using assms unfolding distinct_kkey[symmetric] by (simp_all add: config_keys_def)

lemma specs [simp]:
  "ko_spec (proxy_ops codec) = p_api_spec_id" "ko_spec (consumer_ops codec) = (\<lambda>_. None)"
  "ko_spec (upstream_ops codec) = u_api_spec_id"
  "ko_spec (plugin_config_ops codec) = pc_api_spec_id"
  by (simp_all add: proxy_ops_def consumer_ops_def upstream_ops_def plugin_config_ops_def)

text \<open>A live row carries the tag exactly when its key is among the tagged ones.\<close>

lemma tagged_iff:
  assumes "distinct (config_keys c)"
  shows "p \<in> set (gc_proxies c) \<Longrightarrow> proxy_key p \<in> set (tagged_keys c) \<longleftrightarrow> p_api_spec_id p \<noteq> None"
    and "consumer_key co \<notin> set (tagged_keys c)"
    and "u \<in> set (gc_upstreams c) \<Longrightarrow>
      upstream_key u \<in> set (tagged_keys c) \<longleftrightarrow> u_api_spec_id u \<noteq> None"
    and "g \<in> set (gc_plugin_configs c) \<Longrightarrow>
      plugin_config_key g \<in> set (tagged_keys c) \<longleftrightarrow> pc_api_spec_id g \<noteq> None"
proof -
  have d: "distinct (map proxy_key (gc_proxies c))" "distinct (map upstream_key (gc_upstreams c))"
    "distinct (map plugin_config_key (gc_plugin_configs c))"
    using assms by (simp_all add: config_keys_def)
  have n: "proxy_key p' \<noteq> upstream_key u'" "proxy_key p' \<noteq> plugin_config_key g'"
    "upstream_key u' \<noteq> plugin_config_key g'" "consumer_key co \<noteq> proxy_key p'"
    "consumer_key co \<noteq> upstream_key u'" "consumer_key co \<noteq> plugin_config_key g'"
    for p' u' g'
    by (simp_all add: proxy_key_def consumer_key_def upstream_key_def plugin_config_key_def)
  note n' = n n[symmetric]
  show "p \<in> set (gc_proxies c) \<Longrightarrow> proxy_key p \<in> set (tagged_keys c) \<longleftrightarrow> p_api_spec_id p \<noteq> None"
    using d(1) by (auto simp: tagged_keys_def n' distinct_map dest: inj_onD)
  show "consumer_key co \<notin> set (tagged_keys c)"
    by (auto simp: tagged_keys_def n')
  show "u \<in> set (gc_upstreams c) \<Longrightarrow>
      upstream_key u \<in> set (tagged_keys c) \<longleftrightarrow> u_api_spec_id u \<noteq> None"
    using d(2) by (auto simp: tagged_keys_def n' distinct_map dest: inj_onD)
  show "g \<in> set (gc_plugin_configs c) \<Longrightarrow>
      plugin_config_key g \<in> set (tagged_keys c) \<longleftrightarrow> pc_api_spec_id g \<noteq> None"
    using d(3) by (auto simp: tagged_keys_def n' distinct_map dest: inj_onD)
qed

abbreviation ctx_of :: "ownership_scope \<Rightarrow> diff_options \<Rightarrow> collection_context" where
  "ctx_of scope options \<equiv> \<lparr>cx_ownership_scope = scope, cx_options = options\<rparr>"

lemma compute_diff_ok:
  assumes "good_order order"
    and "compute_diff_with_options order codec desired actual scope options = Inr r"
  shows "distinct (config_keys actual)"
    and "r = \<lparr>dr_diffs = sort_key rd_key (diff_rows codec (ctx_of scope options) desired actual),
      dr_unmanaged = sort_key um_key (unmanaged_rows codec (ctx_of scope options) desired actual),
      dr_spec_owned =
        sort_key so_key (spec_owned_rows codec (ctx_of scope options) desired actual)\<rparr>"
  using assms(2) unfolding compute_diff_eq[OF assms(1)]
  by (auto simp: bind_result_Inr_iff validate_unique_live_ok_iff[symmetric] Let_def)

lemma prunable_of_row:
  "(kkey ops a \<in> set (tagged_keys actual) \<longleftrightarrow> ko_spec ops a \<noteq> None) \<Longrightarrow>
   prunable scope options actual (kkey ops a) \<longleftrightarrow>
     may_delete (ctx_of scope options) (ko_kind ops) (ko_key ops a) (ko_spec ops a \<noteq> None)"
  by (auto simp: prunable_def may_delete_def kkey_def split: ownership_scope.splits)

lemma image_filter_cong:
  "(\<And>a. a \<in> S \<Longrightarrow> P a \<longleftrightarrow> Q (f a)) \<Longrightarrow> f ` {a \<in> S. P a} = {k \<in> f ` S. Q k}"
  by auto

lemma filter_Un4:
  "{k \<in> A \<union> B \<union> C \<union> D. Q k} =
     {k \<in> A. Q k} \<union> {k \<in> B. Q k} \<union> {k \<in> C. Q k} \<union> {k \<in> D. Q k}"
  by blast

lemma four_kinds_exact:
  assumes d: "distinct (config_keys actual)"
    and P: "\<And>p. p \<in> set (gc_proxies actual) \<Longrightarrow> Pp p \<longleftrightarrow> Q (kkey (proxy_ops codec) p)"
    and C: "\<And>c. c \<in> set (gc_consumers actual) \<Longrightarrow> Pc c \<longleftrightarrow> Q (kkey (consumer_ops codec) c)"
    and U: "\<And>u. u \<in> set (gc_upstreams actual) \<Longrightarrow> Pu u \<longleftrightarrow> Q (kkey (upstream_ops codec) u)"
    and G: "\<And>g. g \<in> set (gc_plugin_configs actual) \<Longrightarrow>
      Pg g \<longleftrightarrow> Q (kkey (plugin_config_ops codec) g)"
  shows "kkey (proxy_ops codec) ` {p \<in> set (gc_proxies actual). Pp p} \<union>
      kkey (consumer_ops codec) ` {c \<in> set (gc_consumers actual). Pc c} \<union>
      kkey (upstream_ops codec) ` {u \<in> set (gc_upstreams actual). Pu u} \<union>
      kkey (plugin_config_ops codec) ` {g \<in> set (gc_plugin_configs actual). Pg g} =
    {k \<in> set (config_keys actual). Q k}"
proof -
  have "kkey (proxy_ops codec) ` {p \<in> set (gc_proxies actual). Pp p} =
      {k \<in> kkey (proxy_ops codec) ` set (gc_proxies actual). Q k}"
    by (rule image_filter_cong) (rule P)
  moreover have "kkey (consumer_ops codec) ` {c \<in> set (gc_consumers actual). Pc c} =
      {k \<in> kkey (consumer_ops codec) ` set (gc_consumers actual). Q k}"
    by (rule image_filter_cong) (rule C)
  moreover have "kkey (upstream_ops codec) ` {u \<in> set (gc_upstreams actual). Pu u} =
      {k \<in> kkey (upstream_ops codec) ` set (gc_upstreams actual). Q k}"
    by (rule image_filter_cong) (rule U)
  moreover have "kkey (plugin_config_ops codec) ` {g \<in> set (gc_plugin_configs actual). Pg g} =
      {k \<in> kkey (plugin_config_ops codec) ` set (gc_plugin_configs actual). Q k}"
    by (rule image_filter_cong) (rule G)
  ultimately show ?thesis
    by (simp only: set_config_keys[of _ codec] filter_Un4)
qed

lemma diff_rows_deletes:
  assumes d: "distinct (config_keys actual)"
  shows "rd_key ` {x \<in> set (diff_rows codec (ctx_of scope options) desired actual).
      rd_action x = Delete} =
    {k \<in> set (config_keys actual). k \<notin> set (config_keys desired) \<and>
      prunable scope options actual k}"
proof -
  note p = prunable_of_row[where scope = scope and options = options and actual = actual]
  have s: "{x \<in> set (diff_rows codec (ctx_of scope options) desired actual). rd_action x = Delete} =
      {x \<in> set (rows row_diff (proxy_ops codec) (ctx_of scope options)
        (gc_proxies desired) (gc_proxies actual)). rd_action x = Delete} \<union>
      {x \<in> set (rows row_diff (consumer_ops codec) (ctx_of scope options)
        (gc_consumers desired) (gc_consumers actual)). rd_action x = Delete} \<union>
      {x \<in> set (rows row_diff (upstream_ops codec) (ctx_of scope options)
        (gc_upstreams desired) (gc_upstreams actual)). rd_action x = Delete} \<union>
      {x \<in> set (rows row_diff (plugin_config_ops codec) (ctx_of scope options)
        (gc_plugin_configs desired) (gc_plugin_configs actual)). rd_action x = Delete}"
    by (auto simp: diff_rows_def all_rows_def)
  show ?thesis
    unfolding s image_Un rows_deletes[OF distinct_parts(1)[OF d]]
      rows_deletes[OF distinct_parts(2)[OF d]] rows_deletes[OF distinct_parts(3)[OF d]]
      rows_deletes[OF distinct_parts(4)[OF d]]
    by (rule four_kinds_exact[OF d];
        subst p; simp add: kkey_config_keys[of codec, simplified] tagged_iff[OF d])
qed

lemma diff_rows_unmanaged:
  assumes d: "distinct (config_keys actual)"
  shows "um_key ` set (unmanaged_rows codec (ctx_of scope options) desired actual) =
    {k \<in> set (config_keys actual). k \<notin> set (config_keys desired) \<and>
      k \<notin> set (tagged_keys actual) \<and> \<not> prunable scope options actual k}"
proof -
  note p = prunable_of_row[where scope = scope and options = options and actual = actual]
  show ?thesis
    unfolding unmanaged_rows_def all_rows_def set_append image_Un Un_assoc[symmetric]
      rows_unmanaged[OF distinct_parts(1)[OF d]]
      rows_unmanaged[OF distinct_parts(2)[OF d]] rows_unmanaged[OF distinct_parts(3)[OF d]]
      rows_unmanaged[OF distinct_parts(4)[OF d]]
    by (rule four_kinds_exact[OF d];
        subst p; auto simp: kkey_config_keys[of codec, simplified] tagged_iff[OF d])
qed

lemma diff_rows_spec_owned:
  assumes d: "distinct (config_keys actual)"
  shows "so_key ` set (spec_owned_rows codec (ctx_of scope options) desired actual) =
    set (tagged_keys actual)"
proof -
  have "so_key ` set (spec_owned_rows codec (ctx_of scope options) desired actual) =
      {k \<in> set (config_keys actual). k \<in> set (tagged_keys actual)}"
    unfolding spec_owned_rows_def all_rows_def set_append image_Un Un_assoc[symmetric]
      rows_spec_owned[OF distinct_parts(1)[OF d]]
      rows_spec_owned[OF distinct_parts(2)[OF d]] rows_spec_owned[OF distinct_parts(3)[OF d]]
      rows_spec_owned[OF distinct_parts(4)[OF d]]
    by (rule four_kinds_exact[OF d]; simp add: tagged_iff[OF d])
  then show ?thesis by (auto simp: config_keys_def tagged_keys_def)
qed

lemma diff_rows_adds:
  "rd_key ` {x \<in> set (diff_rows codec ctx desired actual). rd_action x = Add} =
     set (config_keys desired) - set (config_keys actual)"
proof -
  have s: "{x \<in> set (diff_rows codec ctx desired actual). rd_action x = Add} =
      {x \<in> set (rows row_diff (proxy_ops codec) ctx
        (gc_proxies desired) (gc_proxies actual)). rd_action x = Add} \<union>
      {x \<in> set (rows row_diff (consumer_ops codec) ctx
        (gc_consumers desired) (gc_consumers actual)). rd_action x = Add} \<union>
      {x \<in> set (rows row_diff (upstream_ops codec) ctx
        (gc_upstreams desired) (gc_upstreams actual)). rd_action x = Add} \<union>
      {x \<in> set (rows row_diff (plugin_config_ops codec) ctx
        (gc_plugin_configs desired) (gc_plugin_configs actual)). rd_action x = Add}"
    by (auto simp: diff_rows_def all_rows_def)
  show ?thesis
    unfolding s image_Un rows_adds
    unfolding set_config_keys[of desired codec] kkey_config_keys[of codec, symmetric]
    by blast
qed

lemma row_modify:
  assumes "row_diff ops ctx (hash_map (ko_key ops) desired) (hash_map (ko_key ops) actual) k = Some x"
    and "rd_action x = Modify"
  shows "\<exists>d a. d \<in> set desired \<and> a \<in> set actual \<and> ko_key ops d = k \<and> ko_key ops a = k \<and>
    ko_spec ops a = None \<and> rd_key x = kkey ops a \<and> rd_details x = ko_details ops d a \<and>
    rd_details x \<noteq> []"
proof -
  obtain d a where da: "hash_map (ko_key ops) desired k = Some d"
    "hash_map (ko_key ops) actual k = Some a" "ko_spec ops a = None" "ko_details ops d a \<noteq> []"
    "x = entry Modify (ko_kind ops) k (ko_details ops d a)"
    using assms by (auto simp: row_diff_def split: option.splits if_splits)
  then show ?thesis
    using hash_map_key[OF da(1)] hash_map_key[OF da(2)]
    by (intro exI[of _ d] exI[of _ a]) (simp add: kkey_def)
qed

lemma rows_modify:
  assumes "x \<in> set (rows row_diff ops ctx desired actual)" and "rd_action x = Modify"
  shows "rd_details x \<noteq> []" "rd_key x \<in> kkey ops ` set desired"
    "\<exists>a \<in> set actual. rd_key x = kkey ops a \<and> ko_spec ops a = None"
proof -
  obtain k where "row_diff ops ctx (hash_map (ko_key ops) desired)
      (hash_map (ko_key ops) actual) k = Some x"
    using assms(1) unfolding rows_iff by blast
  from row_modify[OF this assms(2)] obtain d a where da: "d \<in> set desired" "a \<in> set actual"
    "ko_key ops d = ko_key ops a" "ko_spec ops a = None"
    "rd_key x = kkey ops a" "rd_details x \<noteq> []" by auto
  show "rd_details x \<noteq> []" by (rule da)
  have "rd_key x = kkey ops d" using da(3,5) by (simp add: kkey_def)
  then show "rd_key x \<in> kkey ops ` set desired" using da(1) by (rule image_eqI)
  show "\<exists>a \<in> set actual. rd_key x = kkey ops a \<and> ko_spec ops a = None"
    using da(2,4,5) by blast
qed

lemma diff_rows_modify:
  assumes d: "distinct (config_keys actual)"
    and x: "x \<in> set (diff_rows codec ctx desired actual)" "rd_action x = Modify"
  shows "rd_details x \<noteq> [] \<and> rd_key x \<in> set (config_keys desired) \<and>
    rd_key x \<in> set (config_keys actual) \<and> rd_key x \<notin> set (tagged_keys actual)"
proof -
  consider "x \<in> set (rows row_diff (proxy_ops codec) ctx (gc_proxies desired) (gc_proxies actual))"
    | "x \<in> set (rows row_diff (consumer_ops codec) ctx (gc_consumers desired) (gc_consumers actual))"
    | "x \<in> set (rows row_diff (upstream_ops codec) ctx (gc_upstreams desired) (gc_upstreams actual))"
    | "x \<in> set (rows row_diff (plugin_config_ops codec) ctx
        (gc_plugin_configs desired) (gc_plugin_configs actual))"
    using x(1) by (auto simp: diff_rows_def all_rows_def)
  then show ?thesis
  proof cases
    case 1
    then obtain a where "a \<in> set (gc_proxies actual)" "rd_key x = proxy_key a"
      "rd_key x \<notin> set (tagged_keys actual)"
      using rows_modify(3)[OF 1 x(2)] tagged_iff[OF d] by auto
    then show ?thesis using rows_modify(1,2)[OF 1 x(2)] by (simp add: config_keys_def)
  next
    case 2
    then show ?thesis
      using rows_modify[OF 2 x(2)] by (auto simp: config_keys_def tagged_iff[OF d])
  next
    case 3
    then obtain a where "a \<in> set (gc_upstreams actual)" "rd_key x = upstream_key a"
      "rd_key x \<notin> set (tagged_keys actual)"
      using rows_modify(3)[OF 3 x(2)] tagged_iff[OF d] by auto
    then show ?thesis using rows_modify(1,2)[OF 3 x(2)] by (simp add: config_keys_def)
  next
    case 4
    then obtain a where "a \<in> set (gc_plugin_configs actual)" "rd_key x = plugin_config_key a"
      "rd_key x \<notin> set (tagged_keys actual)"
      using rows_modify(3)[OF 4 x(2)] tagged_iff[OF d] by auto
    then show ?thesis using rows_modify(1,2)[OF 4 x(2)] by (simp add: config_keys_def)
  qed
qed

section \<open>Guarantees of the diff\<close>

theorem compute_diff_order_independent_witness:
  "compute_diff_with_options (\<lambda>_ _ ks. ks) (\<lambda>_. [], \<lambda>_. None) gateway_config_default
     gateway_config_default Exclusive \<lparr>do_prune_spec_owned = True\<rparr> =
   compute_diff_with_options (\<lambda>_ _ ks. rev ks) (\<lambda>_. [], \<lambda>_. None) gateway_config_default
     gateway_config_default Exclusive \<lparr>do_prune_spec_owned = True\<rparr>"
  by (rule compute_diff_order_independent) (simp add: good_order_def)

text \<open>
  C1.  The delete fence is exact.  A successful diff schedules the deletion of precisely those live
  resources that the repository does not declare and that the scope allows to prune: in shared mode
  the ones whose state key the ledger lists as previously managed, in exclusive mode all of them;
  a resource owned by an API-spec import only in exclusive mode with the explicit opt-in.
\<close>

theorem deletes_exact:
  "good_order order \<and>
   compute_diff_with_options order codec desired actual scope options = Inr r \<Longrightarrow>
   rd_key ` {d \<in> set (dr_diffs r). rd_action d = Delete} =
     {k \<in> set (config_keys actual). k \<notin> set (config_keys desired) \<and>
       prunable scope options actual k}"
  using compute_diff_ok[of order codec desired actual scope options r] diff_rows_deletes by auto

text \<open>
  Every live resource the repository does not declare is accounted for: it is deleted, or
  reported as unmanaged, or reported as owned by an API-spec import; no resource is both deleted
  and reported as unmanaged, and the spec-owned report lists exactly the tagged live resources.
\<close>

theorem live_rows_accounted:
  "good_order order \<and>
   compute_diff_with_options order codec desired actual scope options = Inr r \<Longrightarrow>
   let deleted = rd_key ` {d \<in> set (dr_diffs r). rd_action d = Delete};
       unmanaged = um_key ` set (dr_unmanaged r);
       spec_owned = so_key ` set (dr_spec_owned r)
   in set (config_keys actual) - set (config_keys desired) =
        (deleted \<union> unmanaged \<union> spec_owned) - set (config_keys desired) \<and>
      deleted \<inter> unmanaged = {} \<and> unmanaged \<inter> spec_owned = {} \<and>
      spec_owned = set (tagged_keys actual)"
proof -
  assume "good_order order \<and>
    compute_diff_with_options order codec desired actual scope options = Inr r"
  then have ok: "distinct (config_keys actual)"
    "r = \<lparr>dr_diffs = sort_key rd_key (diff_rows codec (ctx_of scope options) desired actual),
      dr_unmanaged = sort_key um_key (unmanaged_rows codec (ctx_of scope options) desired actual),
      dr_spec_owned =
        sort_key so_key (spec_owned_rows codec (ctx_of scope options) desired actual)\<rparr>"
    using compute_diff_ok[of order codec desired actual scope options r] by auto
  have "set (tagged_keys actual) \<subseteq> set (config_keys actual)"
    by (auto simp: tagged_keys_def config_keys_def)
  then show ?thesis
    by (auto simp: ok(2) Let_def diff_rows_deletes[OF ok(1)] diff_rows_unmanaged[OF ok(1)]
        diff_rows_spec_owned[OF ok(1)])
qed

text \<open>
  The three lists of a diff are sorted by \<open>(namespace, kind, id)\<close> and name every identity at
  most once, so no resource is scheduled for two actions.
\<close>

theorem diff_sorted_unique:
  "good_order order \<and>
   compute_diff_with_options order codec desired actual scope options = Inr r \<Longrightarrow>
   sorted_wrt (<) (map rd_key (dr_diffs r)) \<and> sorted_wrt (<) (map um_key (dr_unmanaged r)) \<and>
   sorted_wrt (<) (map so_key (dr_spec_owned r))"
proof -
  assume "good_order order \<and>
    compute_diff_with_options order codec desired actual scope options = Inr r"
  then have "r = \<lparr>dr_diffs = sort_key rd_key (diff_rows codec (ctx_of scope options) desired actual),
      dr_unmanaged = sort_key um_key (unmanaged_rows codec (ctx_of scope options) desired actual),
      dr_spec_owned =
        sort_key so_key (spec_owned_rows codec (ctx_of scope options) desired actual)\<rparr>"
    using compute_diff_ok(2)[of order codec desired actual scope options r] by auto
  then show ?thesis
    using sort_rows_unique(2)[OF refl distinct_diff_rows]
      sort_rows_unique(2)[OF refl distinct_unmanaged_rows]
      sort_rows_unique(2)[OF refl distinct_spec_owned_rows] by simp
qed

section \<open>The guarantees at work\<close>

definition example_consumer :: "string \<Rightarrow> consumer" where
  "example_consumer rid = \<lparr>c_labels = [], c_id = rid, c_username = ''u'', c_namespace = ''team'',
     c_custom_id = None, c_credentials = [], c_acl_groups = [], c_created_at = None,
     c_updated_at = None, c_extra = []\<rparr>"

definition example_config :: "string list \<Rightarrow> gateway_config" where
  "example_config ids = gateway_config_default\<lparr>gc_consumers := map example_consumer ids\<rparr>"

lemma example_config_keys [simp]:
  "config_keys (example_config ids) = map (\<lambda>i. (''team'', ''Consumer'', i)) ids"
  "tagged_keys (example_config ids) = []"
  by (simp_all add: example_config_def config_keys_def tagged_keys_def gateway_config_default_def
      consumer_key_def example_consumer_def)

definition example_order :: iter_order where
  "example_order kind side ks = rev ks"

definition example_codec :: codec where
  "example_codec = ((\<lambda>_. []), (\<lambda>_. None))"

abbreviation example_scope :: ownership_scope where
  "example_scope \<equiv> Shared {state_key ''team'' ''Consumer'' ''old''}"

abbreviation example_run :: "(config_error, diff_result) result" where
  "example_run \<equiv> compute_diff_with_options example_order example_codec
     (example_config [''new'']) (example_config [''admin'', ''old''])
     example_scope \<lparr>do_prune_spec_owned = True\<rparr>"

lemma example_good: "good_order example_order"
  by (simp add: good_order_def example_order_def)

lemma example_run_ok: "\<exists>r. example_run = Inr r"
proof -
  have "validate_unique_live_resource_keys (example_config [''admin'', ''old'']) = Inr ()"
    by (simp add: validate_unique_live_ok_iff)
  then show ?thesis by (simp add: compute_diff_eq[OF example_good] Let_def)
qed

lemma example_prunable:
  "{k \<in> set (config_keys (example_config [''admin'', ''old''])).
      k \<notin> set (config_keys (example_config [''new''])) \<and>
      prunable example_scope \<lparr>do_prune_spec_owned = True\<rparr> (example_config [''admin'', ''old'']) k} =
    {(''team'', ''Consumer'', ''old'')}"
  by (auto simp: prunable_def state_key_eq_iff)

theorem deletes_exact_witness:
  "\<exists>r. example_run = Inr r \<and>
     rd_key ` {d \<in> set (dr_diffs r). rd_action d = Delete} = {(''team'', ''Consumer'', ''old'')}"
proof -
  obtain r where r: "example_run = Inr r" using example_run_ok by blast
  from deletes_exact[OF conjI[OF example_good r]] show ?thesis
    unfolding example_prunable using r by blast
qed

theorem live_rows_accounted_witness:
  "\<exists>r. example_run = Inr r \<and> dr_spec_owned r = []"
proof -
  obtain r where r: "example_run = Inr r" using example_run_ok by blast
  from live_rows_accounted[OF conjI[OF example_good r]] show ?thesis using r by (auto simp: Let_def)
qed

theorem diff_sorted_unique_witness:
  "\<exists>r. example_run = Inr r \<and> distinct (map rd_key (dr_diffs r))"
proof -
  obtain r where r: "example_run = Inr r" using example_run_ok by blast
  from diff_sorted_unique[OF conjI[OF example_good r]] show ?thesis
    using r by (auto simp: strict_sorted_iff)
qed

end
