(* ===== verification/Ledger_Facts.thy ===== *)
theory Ledger_Facts
  imports Ledger Diff_Safety
begin

text \<open>
  The guarantees of the ledger: what each operation does to the managed and to the pending keys,
  the invariant that every operation keeps, and, over runs of operations, where the authority to
  delete can come from.
\<close>

section \<open>The invariant\<close>

abbreviation managed :: "state_file \<Rightarrow> string set" where
  "managed \<equiv> previously_managed_keys"

abbreviation pending :: "state_file \<Rightarrow> string set" where
  "pending st \<equiv> set (st_pending_creates st)"

definition ledger_ok :: "state_file \<Rightarrow> bool" where
  "ledger_ok st =
     (bt_wf (st_resources st) \<and> bs_wf (st_pending_creates st) \<and>
      managed st \<inter> pending st = {} \<and>
      list_all (\<lambda>e. snd e = managed_resource_marker) (st_resources st))"

lemma managed_dom: "managed st = dom (bt_get (st_resources st))"
  by (simp add: previously_managed_keys_def set_bt_keys)

lemma managed_simps:
  "managed (st\<lparr>st_resources := m\<rparr>) = dom (bt_get m)"
  "managed (st\<lparr>st_pending_creates := p\<rparr>) = managed st"
  by (simp_all add: managed_dom)

lemma marker_insert:
  "list_all (\<lambda>e. snd e = v) m \<Longrightarrow> list_all (\<lambda>e. snd e = v) (bt_insert k v m)"
  by (induction k v m rule: bt_insert.induct) auto

lemma marker_retain: "list_all P m \<Longrightarrow> list_all P (bt_retain p m)"
  by (auto simp: bt_retain_def list_all_iff)

section \<open>Insertion loops\<close>

text \<open>The four insertion loops of \<open>record\<close>, as one loop over the keys they insert.\<close>

definition scoped_keys :: "gateway_config \<Rightarrow> string list \<Rightarrow> string list" where
  "scoped_keys config scope =
     map (\<lambda>k. state_key (fst k) (fst (snd k)) (snd (snd k)))
       (filter (\<lambda>k. fst k \<in> set scope) (config_keys config))"

definition put_marker :: "string \<Rightarrow> (string, string) btree_map \<Rightarrow> (string, string) btree_map" where
  "put_marker k m = bt_insert k managed_resource_marker m"

lemma insert_scoped_keys:
  "insert_scoped scope ns kind rid rs m =
     fold put_marker (map (\<lambda>r. state_key (ns r) kind (rid r)) (filter (\<lambda>r. ns r \<in> set scope) rs)) m"
  unfolding insert_scoped_def
  by (induction rs arbitrary: m) (auto simp: put_marker_def)

lemma insert_config_scoped_keys:
  "insert_config_scoped config scope m = fold put_marker (scoped_keys config scope) m"
  by (simp add: insert_config_scoped_def insert_scoped_keys scoped_keys_def config_keys_def
      filter_map comp_def proxy_key_def consumer_key_def upstream_key_def plugin_config_key_def)

lemma insert_filtered_scoped:
  "insert_filtered namespace ns kind rid rs m = insert_scoped [namespace] ns kind rid rs m"
  unfolding insert_filtered_def insert_scoped_def
  by (induction rs arbitrary: m) auto

lemma fold_put_marker:
  assumes "bt_wf m" and "list_all (\<lambda>e. snd e = managed_resource_marker) m"
  shows "bt_wf (fold put_marker ks m)"
    and "dom (bt_get (fold put_marker ks m)) = set ks \<union> dom (bt_get m)"
    and "list_all (\<lambda>e. snd e = managed_resource_marker) (fold put_marker ks m)"
proof -
  show "bt_wf (fold put_marker ks m)"
    unfolding put_marker_def using bt.ok_fold_put[OF assms(1), of "\<lambda>k. k" _ ks] by simp
  show "dom (bt_get (fold put_marker ks m)) = set ks \<union> dom (bt_get m)"
    unfolding put_marker_def using bt.dom_get_fold_put[OF assms(1), of "\<lambda>k. k" _ ks] by simp
  show "list_all (\<lambda>e. snd e = managed_resource_marker) (fold put_marker ks m)"
    using assms(2) by (induction ks arbitrary: m) (auto simp: put_marker_def marker_insert)
qed

lemma set_resource_keys:
  "set (resource_keys_from_config config) =
     (\<lambda>k. state_key (fst k) (fst (snd k)) (snd (snd k))) ` set (config_keys config)"
  by (auto simp: resource_keys_from_config_def config_keys_def proxy_key_def consumer_key_def
      upstream_key_def plugin_config_key_def image_Un image_image)

lemma config_key_kind: "k \<in> set (config_keys config) \<Longrightarrow> is_state_key_kind (fst (snd k))"
  by (auto simp: config_keys_def proxy_key_def consumer_key_def upstream_key_def
      plugin_config_key_def)

lemma scoped_key_outside:
  "k \<in> set (scoped_keys config scope) \<Longrightarrow> \<not> outside_scope scope k"
  using config_key_kind[of _ config]
  by (auto simp: scoped_keys_def outside_scope_def key_simps split: option.splits if_splits)

section \<open>Operations\<close>

lemma dom_retain: "bt_wf m \<Longrightarrow> dom (bt_get (bt_retain p m)) = {k \<in> dom (bt_get m). p k}"
  by (rule bt.dom_get_keep)

lemma record_keys:
  assumes "ledger_ok st"
  shows "managed (record_state now head config scope st) =
      {k \<in> managed st. outside_scope scope k} \<union> set (scoped_keys config scope)"
    and "pending (record_state now head config scope st) =
      {k \<in> pending st. outside_scope scope k}"
    and "ledger_ok (record_state now head config scope st)"
proof -
  let ?m = "bt_retain (outside_scope scope) (st_resources st)"
  have w: "bt_wf ?m" "list_all (\<lambda>e. snd e = managed_resource_marker) ?m"
    using assms by (simp_all add: ledger_ok_def map_simps marker_retain)
  show m: "managed (record_state now head config scope st) =
      {k \<in> managed st. outside_scope scope k} \<union> set (scoped_keys config scope)"
    using assms
    by (auto simp: record_state_def managed_dom insert_config_scoped_keys fold_put_marker(2)[OF w]
        dom_retain ledger_ok_def)
  show p: "pending (record_state now head config scope st) =
      {k \<in> pending st. outside_scope scope k}"
    by (simp add: record_state_def)
  have "managed (record_state now head config scope st) \<inter>
      pending (record_state now head config scope st) = {}"
    unfolding m p using assms scoped_key_outside by (auto simp: ledger_ok_def)
  then show "ledger_ok (record_state now head config scope st)"
    using assms fold_put_marker(1,3)[OF w]
    by (simp add: ledger_ok_def record_state_def insert_config_scoped_keys map_simps)
qed

lemma full_replace_record:
  "record_full_replace namespace desired st =
     (record_state now head desired [namespace] st)
       \<lparr>st_last_applied_at := st_last_applied_at st,
        st_last_applied_commit := st_last_applied_commit st\<rparr>"
proof -
  have "other_namespace namespace = outside_scope [namespace]"
    by (auto simp: other_namespace_def outside_scope_def fun_eq_iff split: option.splits)
  then show ?thesis
    by (simp add: record_full_replace_def record_state_def insert_config_scoped_def
        insert_filtered_scoped)
qed

lemma ledger_ok_stamps [simp]:
  "ledger_ok (st\<lparr>st_last_applied_at := a, st_last_applied_commit := c\<rparr>) = ledger_ok st"
  "managed (st\<lparr>st_last_applied_at := a, st_last_applied_commit := c\<rparr>) = managed st"
  by (simp_all add: ledger_ok_def previously_managed_keys_def)

definition op_key :: "applied_op \<Rightarrow> string" where
  "op_key op = state_key (ao_namespace op) (ao_kind op) (ao_id op)"

lemma record_op_keys:
  assumes "ledger_ok st"
  shows "managed (record_op op desired st) =
      (if ao_action op = Delete then managed st - {op_key op}
       else if op_key op \<in> set desired then insert (op_key op) (managed st) else managed st)"
    and "pending (record_op op desired st) =
      (if ao_action op = Delete \<or> op_key op \<in> set desired then pending st - {op_key op}
       else pending st)"
    and "ledger_ok (record_op op desired st)"
proof -
  have w: "bt_wf (st_resources st)" using assms by (simp add: ledger_ok_def)
  show m: "managed (record_op op desired st) =
      (if ao_action op = Delete then managed st - {op_key op}
       else if op_key op \<in> set desired then insert (op_key op) (managed st) else managed st)"
    using w by (auto simp: record_op_def Let_def op_key_def managed_dom map_simps
        resource_keys_contains_def split: diff_action.splits if_splits)
  show p: "pending (record_op op desired st) =
      (if ao_action op = Delete \<or> op_key op \<in> set desired then pending st - {op_key op}
       else pending st)"
    by (auto simp: record_op_def Let_def op_key_def resource_keys_contains_def
        split: diff_action.splits)
  have d: "managed (record_op op desired st) \<inter> pending (record_op op desired st) = {}"
    unfolding m p using assms by (auto simp: ledger_ok_def)
  have "bt_wf (st_resources (record_op op desired st))"
    "bs_wf (st_pending_creates (record_op op desired st))"
    "list_all (\<lambda>e. snd e = managed_resource_marker) (st_resources (record_op op desired st))"
    using assms by (auto simp: record_op_def Let_def ledger_ok_def map_simps bs_remove_def
        bt_remove_def marker_insert marker_retain split: diff_action.splits)
  with d show "ledger_ok (record_op op desired st)" by (simp add: ledger_ok_def)
qed

section \<open>Announcing creates\<close>

definition add_keys :: "resource_diff list \<Rightarrow> string list" where
  "add_keys ds =
     map (\<lambda>d. state_key (rd_namespace d) (rd_kind d) (rd_id d))
       (filter (\<lambda>d. rd_action d = Add) ds)"

lemma reserve_loop_spec:
  assumes "reserve_loop ds desired st n = (st', r)" and "ledger_ok st"
  shows "st_resources st' = st_resources st \<and> ledger_ok st' \<and>
    pending st \<subseteq> pending st' \<and> pending st' \<subseteq> pending st \<union> (set (add_keys ds) \<inter> set desired) \<and>
    (case r of
       Inr m \<Rightarrow> set (add_keys ds) \<subseteq> set desired \<inter> (managed st \<union> pending st') \<and>
         m + card (pending st) = n + card (pending st')
     | Inl e \<Rightarrow> \<not> set (add_keys ds) \<subseteq> set desired)"
  using assms
proof (induction ds arbitrary: st n)
  case (Cons d ds)
  let ?k = "state_key (rd_namespace d) (rd_kind d) (rd_id d)"
  consider "rd_action d \<noteq> Add" | "rd_action d = Add" "?k \<notin> set desired"
    | "rd_action d = Add" "?k \<in> set desired" "?k \<in> managed st \<or> ?k \<in> pending st"
    | "rd_action d = Add" "?k \<in> set desired" "?k \<notin> managed st" "?k \<notin> pending st"
    by blast
  then show ?case
  proof cases
    case 1
    then have ak: "add_keys (d # ds) = add_keys ds"
      and l: "reserve_loop ds desired st n = (st', r)"
      using Cons.prems by (simp_all add: add_keys_def)
    show ?thesis unfolding ak by (rule Cons.IH[OF l Cons.prems(2)])
  next
    case 2
    then show ?thesis
      using Cons.prems by (auto simp: resource_keys_contains_def add_keys_def Let_def)
  next
    case 3
    then have "reserve_loop ds desired st n = (st', r)"
      using Cons.prems
      by (auto simp: resource_keys_contains_def bt_contains_def bs_contains_def managed_dom
          Let_def split: if_splits)
    from Cons.IH[OF this Cons.prems(2)] show ?thesis
      using 3 by (auto simp: add_keys_def split: sum.splits)
  next
    case 4
    define st1 where "st1 = st\<lparr>st_pending_creates := bs_insert ?k (st_pending_creates st)\<rparr>"
    have "reserve_loop ds desired st1 (n + 1) = (st', r)"
      using Cons.prems(1) 4
      by (auto simp: resource_keys_contains_def bt_contains_def bs_contains_def managed_dom
          Let_def st1_def split: if_splits)
    moreover have ok1: "ledger_ok st1"
      using Cons.prems(2) 4 by (auto simp: ledger_ok_def st1_def map_simps previously_managed_keys_def)
    ultimately have IH: "st_resources st' = st_resources st1 \<and> ledger_ok st' \<and>
        pending st1 \<subseteq> pending st' \<and>
        pending st' \<subseteq> pending st1 \<union> (set (add_keys ds) \<inter> set desired) \<and>
        (case r of
           Inr m \<Rightarrow> set (add_keys ds) \<subseteq> set desired \<inter> (managed st1 \<union> pending st') \<and>
             m + card (pending st1) = n + 1 + card (pending st')
         | Inl e \<Rightarrow> \<not> set (add_keys ds) \<subseteq> set desired)"
      by (rule Cons.IH)
    have p1: "pending st1 = insert ?k (pending st)" "managed st1 = managed st"
      "st_resources st1 = st_resources st"
      by (simp_all add: st1_def previously_managed_keys_def)
    have ak: "set (add_keys (d # ds)) = insert ?k (set (add_keys ds))"
      using 4(1) by (simp add: add_keys_def)
    show ?thesis
      using IH 4(2,4) unfolding p1 ak by (auto split: sum.splits)
  qed
qed (auto simp: add_keys_def)

section \<open>Reconciling\<close>

definition keeps_pending ::
    "string list \<Rightarrow> (string, gateway_config) btree_map \<Rightarrow> pending_create_scope \<Rightarrow> state_file \<Rightarrow>
     string \<Rightarrow> bool" where
  "keeps_pending desired actual_by_namespace scope st key =
     (key \<notin> managed st \<and>
      (case state_key_namespace key of
         None \<Rightarrow> False
       | Some namespace \<Rightarrow>
           bt_get actual_by_namespace namespace = None \<or>
           (scope \<noteq> FullReplaceScope \<and> key \<in> set desired)))"

lemma reconcile_step_cases:
  fixes desired abn scope key st rep
  defines "s' \<equiv> reconcile_pending_step desired abn scope key (st, rep)"
  shows "if keeps_pending desired abn scope st key then s' = (st, rep)
    else fst s' = st\<lparr>st_pending_creates := bs_remove key (st_pending_creates st)\<rparr> \<and>
      pr_forgotten (snd s') = pr_forgotten rep + 1"
  by (auto simp: s'_def reconcile_pending_step_def keeps_pending_def forget_def bt_contains_def
      managed_dom resource_keys_contains_def split: option.splits bool.splits)

lemma keeps_pending_update [simp]:
  "keeps_pending desired abn scope (st\<lparr>st_pending_creates := p\<rparr>) = keeps_pending desired abn scope st"
  by (simp add: keeps_pending_def fun_eq_iff managed_simps)

lemma reconcile_fold:
  assumes "fold (reconcile_pending_step desired abn scope) ks (st, rep) = (st', rep')"
    and "set ks \<subseteq> pending st" and "distinct ks"
  shows "st' = st\<lparr>st_pending_creates :=
      bs_retain (\<lambda>k. k \<notin> set ks \<or> keeps_pending desired abn scope st k) (st_pending_creates st)\<rparr> \<and>
    pr_forgotten rep' = pr_forgotten rep +
      length (filter (\<lambda>k. \<not> keeps_pending desired abn scope st k) ks)"
  using assms
proof (induction ks arbitrary: st rep)
  case Nil
  then show ?case by (simp add: bs_retain_def)
next
  case (Cons k ks)
  obtain st1 rep1 where s1: "reconcile_pending_step desired abn scope k (st, rep) = (st1, rep1)"
    by (cases "reconcile_pending_step desired abn scope k (st, rep)")
  have f: "fold (reconcile_pending_step desired abn scope) ks (st1, rep1) = (st', rep')"
    using Cons.prems(1) s1 by simp
  show ?case
  proof (cases "keeps_pending desired abn scope st k")
    case True
    then have e: "st1 = st" "rep1 = rep"
      using reconcile_step_cases[of desired abn scope st k rep] s1 by auto
    have "(\<lambda>k'. k' \<notin> set (k # ks) \<or> keeps_pending desired abn scope st k') =
        (\<lambda>k'. k' \<notin> set ks \<or> keeps_pending desired abn scope st k')"
      using True by auto
    then show ?thesis using Cons.IH[OF f[unfolded e]] Cons.prems True by simp
  next
    case False
    then have e: "st1 = st\<lparr>st_pending_creates := bs_remove k (st_pending_creates st)\<rparr>"
      "pr_forgotten rep1 = pr_forgotten rep + 1"
      using reconcile_step_cases[of desired abn scope st k rep] s1 by auto
    have sub: "set ks \<subseteq> pending st1" using Cons.prems e by auto
    have p: "bs_retain (\<lambda>k'. k' \<notin> set ks \<or> keeps_pending desired abn scope st k')
          (bs_remove k (st_pending_creates st)) =
        bs_retain (\<lambda>k'. k' \<notin> set (k # ks) \<or> keeps_pending desired abn scope st k')
          (st_pending_creates st)"
      unfolding bs_remove_def bs_retain_def filter_filter
      by (rule filter_cong) (use False Cons.prems(3) in auto)
    show ?thesis
      using Cons.IH[OF f sub] Cons.prems(3) False by (simp add: e p[simplified])
  qed
qed

lemma reconcile_pending_keys:
  assumes "ledger_ok st"
    and "reconcile_pending_creates desired abn scope st = (st', rep)"
  shows "st_resources st' = st_resources st"
    and "pending st' = {k \<in> pending st.
      keeps_pending (resource_keys_from_config desired) abn scope st k}"
    and "ledger_ok st'"
    and "pr_forgotten rep + card (pending st') = card (pending st)"
proof -
  let ?keep = "keeps_pending (resource_keys_from_config desired) abn scope st"
  have d: "distinct (st_pending_creates st)"
    using assms(1) by (simp add: ledger_ok_def bs_wf_distinct)
  have f: "fold (reconcile_pending_step (resource_keys_from_config desired) abn scope)
      (st_pending_creates st) (st, \<lparr>pr_forgotten = 0, pr_warnings = []\<rparr>) = (st', rep)"
    using assms(2) by (simp add: reconcile_pending_creates_def)
  from reconcile_fold[OF f subset_refl d]
  have e: "st' = st\<lparr>st_pending_creates := bs_retain (\<lambda>k. k \<notin> pending st \<or> ?keep k)
      (st_pending_creates st)\<rparr>"
    and n: "pr_forgotten rep = length (filter (\<lambda>k. \<not> ?keep k) (st_pending_creates st))"
    by simp_all
  show "st_resources st' = st_resources st" by (simp add: e)
  show p: "pending st' = {k \<in> pending st. ?keep k}" by (auto simp: e)
  show "ledger_ok st'"
    using assms(1)
    by (auto simp: ledger_ok_def e map_simps previously_managed_keys_def)
  have "card (pending st') = length (filter ?keep (st_pending_creates st))"
    using d by (simp add: p distinct_card[symmetric] set_filter[symmetric] del: set_filter)
  then show "pr_forgotten rep + card (pending st') = card (pending st)"
    using d n sum_length_filter_compl[of ?keep "st_pending_creates st"]
    by (simp add: distinct_card)
qed

lemma reconcile_absent_keys:
  assumes "ledger_ok st"
    and "reconcile_absent_managed_resources desired abn st = (st', n)"
  shows "managed st' = {k \<in> managed st. still_present (resource_keys_from_config desired) abn k}"
    and "st_pending_creates st' = st_pending_creates st" and "ledger_ok st'"
proof -
  have e: "st' = st\<lparr>st_resources := bt_retain
      (still_present (resource_keys_from_config desired) abn) (st_resources st)\<rparr>"
    using assms(2) by (auto simp: reconcile_absent_managed_resources_def Let_def)
  show m: "managed st' = {k \<in> managed st. still_present (resource_keys_from_config desired) abn k}"
    using assms(1) by (auto simp: e managed_dom dom_retain ledger_ok_def)
  show "st_pending_creates st' = st_pending_creates st" by (simp add: e)
  show "ledger_ok st'"
    using assms(1) m by (auto simp: ledger_ok_def e map_simps marker_retain)
qed

section \<open>Runs of the ledger\<close>

datatype ledger_op =
    RecordRun gateway_config "string list"
  | RecordOp applied_op gateway_config
  | ReserveAdds "resource_diff list" gateway_config
  | ReconcilePending gateway_config "(string, gateway_config) btree_map" pending_create_scope
  | ReconcileAbsent gateway_config "(string, gateway_config) btree_map"
  | FullReplace string gateway_config
  | StampIfClean bool
  | RecordCredential string u32 "string option" "string option"
  | RecordAllocation "allocated_slot list" "string option" allocation_binding
  | RecordOverride string string string
  | RecordVerifiedOverride string verified_override
  | RecordMesh string
  | SaveAndLoad

text \<open>
  One operation on the ledger; \<open>now\<close> and \<open>head\<close> are whatever the clock and the checkout say at that
  moment.  A refused reservation leaves the partial reservations behind.  \<open>SaveAndLoad\<close> is the end
  of one run and the start of the next in the same environment.
\<close>

inductive ledger_step :: "state_file \<Rightarrow> ledger_op \<Rightarrow> state_file \<Rightarrow> bool" where
  run: "ledger_step st (RecordRun config scope) (record_state now head config scope st)"
| op: "ledger_step st (RecordOp op desired)
         (record_op op (resource_keys_from_config desired) st)"
| reserve: "reserve_adds ds desired st = (st', r) \<Longrightarrow>
         ledger_step st (ReserveAdds ds desired) st'"
| reconcile_pending: "reconcile_pending_creates desired abn scope st = (st', rep) \<Longrightarrow>
         ledger_step st (ReconcilePending desired abn scope) st'"
| reconcile_absent: "reconcile_absent_managed_resources desired abn st = (st', n) \<Longrightarrow>
         ledger_step st (ReconcileAbsent desired abn) st'"
| full_replace: "ledger_step st (FullReplace namespace desired)
         (record_full_replace namespace desired st)"
| stamp: "ledger_step st (StampIfClean ok) (stamp_last_applied_if_clean now head ok st)"
| credential: "ledger_step st (RecordCredential slot shard dt rid)
         (record_credential now slot shard dt rid st)"
| allocation: "ledger_step st (RecordAllocation slots rid bnd)
         (record_allocation now slots rid bnd st)"
| override: "ledger_step st (RecordOverride rule commit approver)
         (record_override now rule commit approver st)"
| verified: "ledger_step st (RecordVerifiedOverride rule v)
         (record_verified_override now rule v st)"
| mesh: "ledger_step st (RecordMesh path) (record_mesh_publication path st)"
| save_load: "save_state st = Inr disk \<Longrightarrow> load_state (st_environment st) (Some disk) = Inr st' \<Longrightarrow>
         ledger_step st SaveAndLoad st'"

inductive_cases ledger_stepE: "ledger_step st op st'"
inductive_simps ledger_step_run: "ledger_step st (RecordRun config scope) st'"
inductive_simps ledger_step_reserve: "ledger_step st (ReserveAdds ds desired) st'"

inductive ledger_run :: "state_file \<Rightarrow> ledger_op list \<Rightarrow> state_file \<Rightarrow> bool" where
  nil: "ledger_run st [] st"
| step: "ledger_run st ops st1 \<Longrightarrow> ledger_step st1 op st2 \<Longrightarrow> ledger_run st (ops @ [op]) st2"

text \<open>The keys an operation asserts ownership of.\<close>

fun asserted :: "ledger_op \<Rightarrow> string set" where
  "asserted (RecordRun config scope) = set (scoped_keys config scope)"
| "asserted (RecordOp op desired) =
     (if ao_action op \<noteq> Delete \<and> op_key op \<in> set (resource_keys_from_config desired)
      then {op_key op} else {})"
| "asserted (FullReplace namespace desired) = set (scoped_keys desired [namespace])"
| "asserted _ = {}"

lemma ledger_unrelated [simp]:
  "ledger_ok (st\<lparr>st_credentials := c\<rparr>) = ledger_ok st"
  "managed (st\<lparr>st_credentials := c\<rparr>) = managed st"
  "ledger_ok (st\<lparr>st_credential_shard_count := n\<rparr>) = ledger_ok st"
  "managed (st\<lparr>st_credential_shard_count := n\<rparr>) = managed st"
  "ledger_ok (st\<lparr>st_overrides := os\<rparr>) = ledger_ok st"
  "managed (st\<lparr>st_overrides := os\<rparr>) = managed st"
  "ledger_ok (st\<lparr>st_mesh_document_path := m\<rparr>) = ledger_ok st"
  "managed (st\<lparr>st_mesh_document_path := m\<rparr>) = managed st"
  "ledger_ok (st\<lparr>st_environment := e\<rparr>) = ledger_ok st"
  "managed (st\<lparr>st_environment := e\<rparr>) = managed st"
  "ledger_ok (st\<lparr>st_version := v\<rparr>) = ledger_ok st"
  "managed (st\<lparr>st_version := v\<rparr>) = managed st"
  by (simp_all add: ledger_ok_def previously_managed_keys_def)

lemma record_allocation_frame:
  "ledger_ok (record_allocation now slots rid bnd st) = ledger_ok st"
  "managed (record_allocation now slots rid bnd st) = managed st"
  unfolding record_allocation_def
  by (induction slots arbitrary: st) (simp_all add: record_allocated_slot_def Let_def)

lemma reset_markers_id:
  "list_all (\<lambda>e. snd e = managed_resource_marker) m \<Longrightarrow> reset_markers m = m"
  by (induction m) (auto simp: reset_markers_def)

lemma save_load_ok:
  assumes "save_state st = Inr disk" and "load_state (st_environment st) (Some disk) = Inr st'"
    and "list_all (\<lambda>e. snd e = managed_resource_marker) (st_resources st)"
  shows "st' = st\<lparr>st_version := STATE_VERSION\<rparr>"
proof -
  have d: "disk = st\<lparr>st_version := STATE_VERSION\<rparr>"
    using assms(1,3) by (auto simp: save_state_def bind_result_Inr_iff reset_markers_id)
  show ?thesis
    using assms(2,3) by (auto simp: load_state_def bind_result_Inr_iff Let_def d reset_markers_id
        split: if_splits)
qed

lemma ledger_step_ok:
  assumes "ledger_step st op st'" and "ledger_ok st"
  shows "ledger_ok st' \<and> managed st' \<subseteq> managed st \<union> asserted op"
  using assms
proof (cases rule: ledger_step.cases)
  case run
  then show ?thesis using record_keys[OF assms(2)] by auto
next
  case op
  then show ?thesis using record_op_keys[OF assms(2)] by auto
next
  case reserve
  then show ?thesis
    using reserve_loop_spec[OF _ assms(2)] by (auto simp: reserve_adds_def previously_managed_keys_def)
next
  case reconcile_pending
  then show ?thesis
    using reconcile_pending_keys(1,3)[OF assms(2)] by (auto simp: previously_managed_keys_def)
next
  case reconcile_absent
  then show ?thesis using reconcile_absent_keys[OF assms(2)] by auto
next
  case (full_replace namespace desired)
  then show ?thesis
    using record_keys[OF assms(2), of undefined undefined desired "[namespace]"]
    by (auto simp: full_replace_record[where now = undefined and head = undefined])
next
  case save_load
  then have "st' = st\<lparr>st_version := STATE_VERSION\<rparr>"
    using save_load_ok assms(2) by (auto simp: ledger_ok_def)
  then show ?thesis using assms(2) by simp
qed (use assms(2) in \<open>auto simp: stamp_last_applied_if_clean_def stamp_last_applied_def
    record_credential_def record_allocation_frame record_override_def record_verified_override_def
    record_mesh_publication_def\<close>)

lemma ledger_run_ok:
  assumes "ledger_run st ops st'" and "ledger_ok st"
  shows "ledger_ok st' \<and> managed st' \<subseteq> managed st \<union> (\<Union>op \<in> set ops. asserted op)"
  using assms
proof (induction rule: ledger_run.induct)
  case (step st ops st1 op st2)
  then show ?case using ledger_step_ok[OF step.hyps(2)] by auto
qed simp

lemma ledger_ok_default: "ledger_ok (state_file_default\<lparr>st_environment := e\<rparr>)"
  "managed (state_file_default\<lparr>st_environment := e\<rparr>) = {}"
  by (simp_all add: ledger_ok_def state_file_default_def previously_managed_keys_def bt_keys_def)

section \<open>Keys that can be read back\<close>

text \<open>
  An operation records named resources when the configuration it goes by gives each of its resources a namespace
  and an id.  Saving and loading check the keys; between two saves the ledger has what the operations record.
\<close>

definition named_config :: "gateway_config \<Rightarrow> bool" where
  "named_config config = list_all (\<lambda>k. fst k \<noteq> [] \<and> snd (snd k) \<noteq> []) (config_keys config)"

fun records_named :: "ledger_op \<Rightarrow> bool" where
  "records_named (RecordRun config scope) = named_config config"
| "records_named (RecordOp op desired) = named_config desired"
| "records_named (ReserveAdds ds desired) = named_config desired"
| "records_named (FullReplace namespace desired) = named_config desired"
| "records_named _ = True"

definition readable_keys :: "state_file \<Rightarrow> bool" where
  "readable_keys st \<longleftrightarrow> (\<forall>k \<in> managed st \<union> pending st. state_key_namespace k \<noteq> None)"

lemma readable_keysD: "readable_keys st \<Longrightarrow> k \<in> managed st \<or> k \<in> pending st \<Longrightarrow> state_key_namespace k \<noteq> None"
  unfolding readable_keys_def by blast

lemma scoped_keys_subset: "set (scoped_keys config scope) \<subseteq> set (resource_keys_from_config config)"
  by (auto simp: scoped_keys_def set_resource_keys)

lemma named_config_keys:
  assumes "named_config config" and "k \<in> set (resource_keys_from_config config)"
  shows "state_key_namespace k \<noteq> None"
proof -
  obtain c where "c \<in> set (config_keys config)" "k = state_key (fst c) (fst (snd c)) (snd (snd c))"
    using assms(2) unfolding set_resource_keys by blast
  then show ?thesis
    using assms(1) config_key_kind by (auto simp: named_config_def list_all_iff state_key_namespace_of_key)
qed

lemma readable_unrelated [simp]:
  "readable_keys (st\<lparr>st_credentials := c\<rparr>) = readable_keys st"
  "readable_keys (st\<lparr>st_credential_shard_count := n\<rparr>) = readable_keys st"
  "readable_keys (st\<lparr>st_overrides := os\<rparr>) = readable_keys st"
  "readable_keys (st\<lparr>st_mesh_document_path := m\<rparr>) = readable_keys st"
  "readable_keys (st\<lparr>st_last_applied_at := a, st_last_applied_commit := h\<rparr>) = readable_keys st"
  by (simp_all add: readable_keys_def previously_managed_keys_def)

lemma record_allocation_rest:
  "st_version (record_allocation now slots rid bnd st) = st_version st"
  "readable_keys (record_allocation now slots rid bnd st) = readable_keys st"
  unfolding record_allocation_def
  by (induction slots arbitrary: st) (simp_all add: record_allocated_slot_def Let_def)

lemma validated_keys:
  assumes "validate_resource_keys st = Inr ()"
  shows "readable_keys st"
  using assms
  by (auto simp: validate_resource_keys_def readable_keys_def previously_managed_keys_def find_None_iff
      split: option.splits)

lemma recorded_keys:
  assumes "named_config config" and "ledger_ok st" and "readable_keys st"
  shows "readable_keys (record_state now head config scope st)"
  unfolding readable_keys_def record_keys(1,2)[OF assms(2)]
  using readable_keysD[OF assms(3)] named_config_keys[OF assms(1)] scoped_keys_subset by blast

lemma reserve_loop_version:
  "reserve_loop ds desired st n = (st', r) \<Longrightarrow> st_version st' = st_version st"
  by (induction ds desired st n rule: reserve_loop.induct) (auto simp: Let_def split: if_splits)

lemma reconcile_pending_version:
  assumes "reconcile_pending_creates desired abn scope st = (st', rep)"
  shows "st_version st' = st_version st"
proof -
  have "st_version (fst (fold (reconcile_pending_step d abn scope) ks s)) = st_version (fst s)" for d ks s
    by (induction ks arbitrary: s)
      (auto simp: reconcile_pending_step_def forget_def split: option.splits bool.splits)
  then show ?thesis using assms by (metis fst_conv reconcile_pending_creates_def)
qed

lemma default_readable:
  "st_version (state_file_default\<lparr>st_environment := e\<rparr>) = STATE_VERSION"
  "readable_keys (state_file_default\<lparr>st_environment := e\<rparr>)"
  using ledger_ok_default(2)[of e] by (simp_all add: readable_keys_def state_file_default_def)

lemma ledger_step_readable:
  assumes "ledger_step st op st'" and "ledger_ok st" and "st_version st = STATE_VERSION"
  shows "st_version st' = STATE_VERSION \<and>
    (op = SaveAndLoad \<or> records_named op \<and> readable_keys st \<longrightarrow> readable_keys st')"
  using assms(1)
proof (cases rule: ledger_step.cases)
  case run
  then show ?thesis using recorded_keys[OF _ assms(2)] assms(3) by (auto simp: record_state_def)
next
  case (op a desired)
  have "readable_keys st'" if "named_config desired" "readable_keys st"
    unfolding readable_keys_def op(2) record_op_keys(1,2)[OF assms(2)]
    using readable_keysD[OF that(2)] named_config_keys[OF that(1)] by auto
  moreover have "st_version st' = st_version st"
    unfolding op(2) by (simp add: record_op_def Let_def split: diff_action.splits)
  ultimately show ?thesis using op(1) assms(3) by simp
next
  case (reserve ds desired r)
  note r = reserve_loop_spec[OF reserve(2)[unfolded reserve_adds_def] assms(2)]
  have "readable_keys st'" if "named_config desired" "readable_keys st"
    unfolding readable_keys_def
    using r readable_keysD[OF that(2)] named_config_keys[OF that(1)] by (auto simp: previously_managed_keys_def)
  moreover have "st_version st' = st_version st"
    by (rule reserve_loop_version[OF reserve(2)[unfolded reserve_adds_def]])
  ultimately show ?thesis using reserve(1) assms(3) by simp
next
  case (reconcile_pending desired abn scope rep)
  note r = reconcile_pending_keys[OF assms(2) reconcile_pending(2)]
  have "readable_keys st'" if "readable_keys st"
    unfolding readable_keys_def using r(1,2) readable_keysD[OF that] by (auto simp: previously_managed_keys_def)
  moreover have "st_version st' = st_version st" by (rule reconcile_pending_version[OF reconcile_pending(2)])
  ultimately show ?thesis using reconcile_pending(1) assms(3) by simp
next
  case (reconcile_absent desired abn n)
  note r = reconcile_absent_keys[OF assms(2) reconcile_absent(2)]
  have "readable_keys st'" if "readable_keys st"
    unfolding readable_keys_def using r(1,2) readable_keysD[OF that] by auto
  moreover have "st_version st' = st_version st"
    using reconcile_absent(2) by (auto simp: reconcile_absent_managed_resources_def Let_def)
  ultimately show ?thesis using reconcile_absent(1) assms(3) by simp
next
  case (full_replace namespace desired)
  then show ?thesis
    using recorded_keys[OF _ assms(2), of desired undefined undefined "[namespace]"] assms(3)
    by (auto simp: full_replace_record[where now = undefined and head = undefined] record_state_def)
next
  case (save_load disk)
  have "st_version st' = STATE_VERSION \<and> validate_resource_keys st' = Inr ()"
    using save_load(3) by (auto simp: load_state_def bind_result_Inr_iff Let_def split: if_splits)
  then show ?thesis using validated_keys by simp
qed (use assms(3) in \<open>auto simp: stamp_last_applied_if_clean_def stamp_last_applied_def
    record_credential_def record_allocation_rest record_override_def record_verified_override_def
    record_mesh_publication_def\<close>)

lemma ledger_run_readable:
  assumes "ledger_run st ops st'" and "ledger_ok st" and "st_version st = STATE_VERSION" and "readable_keys st"
  shows "st_version st' = STATE_VERSION \<and>
    (list_all records_named (takeWhile (\<lambda>op. op \<noteq> SaveAndLoad) (rev ops)) \<longrightarrow> readable_keys st')"
  using assms
proof (induction rule: ledger_run.induct)
  case (step st ops st1 op st2)
  then show ?case
    using ledger_step_readable[OF step.hyps(2)] ledger_run_ok[OF step.hyps(1)] by auto
qed simp

section \<open>Guarantees\<close>

text \<open>
  C2.  Ownership is never presumed.  In every ledger that any sequence of operations produces from
  an empty one, across saves and reloads, each key in the delete fence was asserted by an earlier
  operation: a recorded run, a successful add or modify of a declared resource, or a full
  replacement; announcing a create, reconciling, and everything else grant no authority to delete.
\<close>

theorem delete_authority_origin:
  "ledger_run (state_file_default\<lparr>st_environment := env\<rparr>) ops st \<Longrightarrow>
   previously_managed_keys st \<subseteq> (\<Union>op \<in> set ops. asserted op)"
  using ledger_run_ok[OF _ ledger_ok_default(1), of env ops st] ledger_ok_default(2)[of env]
  by simp

text \<open>
  C30.  Every ledger reached from an empty one keeps its shape, whatever operations were run and saved and loaded in
  between: its version is the supported one, the managed map and the pending set are sorted, no key is at
  once managed and pending, and every managed entry holds the fixed marker, so no hash of a resource's content
  is ever kept.  And every key, managed or pending, can be read back as one: always right after a load, and later as
  long as the operations since then record resources that have a namespace and an id.
\<close>

theorem ledger_invariant:
  "ledger_run (state_file_default\<lparr>st_environment := env\<rparr>) ops st \<Longrightarrow>
   st_version st = STATE_VERSION \<and>
   sorted_wrt (<) (map fst (st_resources st)) \<and> sorted_wrt (<) (st_pending_creates st) \<and>
   previously_managed_keys st \<inter> set (st_pending_creates st) = {} \<and>
   list_all (\<lambda>e. snd e = ''managed:v1'') (st_resources st) \<and>
   (list_all records_named (takeWhile (\<lambda>op. op \<noteq> SaveAndLoad) (rev ops)) \<longrightarrow>
    (\<forall>k \<in> previously_managed_keys st \<union> set (st_pending_creates st). state_key_namespace k \<noteq> None))"
  using ledger_run_ok[OF _ ledger_ok_default(1), of env ops st]
    ledger_run_readable[OF _ ledger_ok_default(1) default_readable(1,2), of env ops st]
  by (simp add: ledger_ok_def bt_wf_def bs_wf_def managed_resource_marker_def readable_keys_def)

text \<open>
  Recording a run is scoped: managed and pending keys of namespaces outside the scope are
  untouched, and inside it the managed keys become exactly those of the applied configuration,
  whatever they were before.
\<close>

theorem record_scoped_exact:
  "ledger_ok st \<Longrightarrow>
   previously_managed_keys (record_state now head config scope st) =
     {k \<in> previously_managed_keys st. outside_scope scope k} \<union> set (scoped_keys config scope) \<and>
   set (st_pending_creates (record_state now head config scope st)) =
     {k \<in> set (st_pending_creates st). outside_scope scope k}"
  using record_keys(1,2) by simp

text \<open>
  Announcing creates is write-ahead and grants nothing: the managed keys stay as they are; on
  success every add of the diff is managed or announced and the count returned is the number of new
  announcements; it fails exactly when an add is absent from the desired configuration.
\<close>

theorem reserve_adds_exact:
  "ledger_ok st \<and> reserve_adds ds desired st = (st', r) \<Longrightarrow>
   st_resources st' = st_resources st \<and>
   set (st_pending_creates st) \<subseteq> set (st_pending_creates st') \<and>
   (case r of
      Inr n \<Rightarrow>
        set (add_keys ds) \<subseteq> set (resource_keys_from_config desired) \<and>
        set (add_keys ds) \<subseteq> previously_managed_keys st' \<union> set (st_pending_creates st') \<and>
        n + card (set (st_pending_creates st)) = card (set (st_pending_creates st'))
    | Inl e \<Rightarrow> \<not> set (add_keys ds) \<subseteq> set (resource_keys_from_config desired))"
proof -
  assume "ledger_ok st \<and> reserve_adds ds desired st = (st', r)"
  then have spec: "st_resources st' = st_resources st \<and> ledger_ok st' \<and>
      pending st \<subseteq> pending st' \<and>
      pending st' \<subseteq> pending st \<union> (set (add_keys ds) \<inter> set (resource_keys_from_config desired)) \<and>
      (case r of
         Inr m \<Rightarrow> set (add_keys ds) \<subseteq>
             set (resource_keys_from_config desired) \<inter> (managed st \<union> pending st') \<and>
           m + card (pending st) = 0 + card (pending st')
       | Inl e \<Rightarrow> \<not> set (add_keys ds) \<subseteq> set (resource_keys_from_config desired))"
    by (intro reserve_loop_spec) (simp_all add: reserve_adds_def)
  then have "managed st' = managed st" by (simp add: previously_managed_keys_def)
  then show ?thesis using spec by (auto split: sum.splits)
qed

text \<open>
  Reconciling the announced creates against a backup never grants ownership and never blocks:
  managed keys are unchanged, an announcement survives exactly when it is not already managed and
  either its namespace was not read or it is still declared (and no full replacement is running),
  and the number reported as forgotten is the number dropped.
\<close>

theorem reconcile_pending_exact:
  "ledger_ok st \<and> reconcile_pending_creates desired live scope st = (st', report) \<Longrightarrow>
   st_resources st' = st_resources st \<and>
   set (st_pending_creates st') = {k \<in> set (st_pending_creates st).
     keeps_pending (resource_keys_from_config desired) live scope st k} \<and>
   pr_forgotten report + card (set (st_pending_creates st')) = card (set (st_pending_creates st))"
  using reconcile_pending_keys[of st desired live scope st' report] by blast

text \<open>
  Garbage collection of the fence forgets a managed key only on proof: exactly the keys whose
  namespace was read and that are neither declared nor live are dropped.
\<close>

theorem reconcile_absent_exact:
  "ledger_ok st \<and> reconcile_absent_managed_resources desired live st = (st', n) \<Longrightarrow>
   previously_managed_keys st' = {k \<in> previously_managed_keys st.
     still_present (resource_keys_from_config desired) live k} \<and>
   st_pending_creates st' = st_pending_creates st"
  using reconcile_absent_keys[of st desired live st' n] by blast

text \<open>
  Recording a full replacement of a namespace is recording a run scoped to that namespace,
  without touching the time and commit of the last clean apply.
\<close>

theorem full_replace_is_scoped_run:
  "record_full_replace namespace desired st =
     (record_state now head desired [namespace] st)
       \<lparr>st_last_applied_at := st_last_applied_at st,
        st_last_applied_commit := st_last_applied_commit st\<rparr>"
  by (rule full_replace_record)

text \<open>
  What is saved is what the next run loads: a ledger that \<open>save\<close> accepts is read back under the
  same environment with every field equal, up to the current version number and the fixed marker in
  place of whatever value a managed entry held.
\<close>

theorem save_load_roundtrip:
  "save_state st = Inr disk \<Longrightarrow>
   load_state (st_environment st) (Some disk) =
     Inr (st\<lparr>st_version := STATE_VERSION, st_resources := reset_markers (st_resources st)\<rparr>)"
proof -
  assume s: "save_state st = Inr disk"
  have k: "bt_keys (reset_markers m) = bt_keys m" "reset_markers (reset_markers m) = reset_markers m"
    for m by (induction m) (auto simp: reset_markers_def bt_keys_def)
  show ?thesis
    using s by (auto simp: save_state_def load_state_def bind_result_Inr_iff Let_def
        validate_resource_keys_def k STATE_VERSION_def MIN_SUPPORTED_STATE_VERSION_def
        split: option.splits)
qed

section \<open>The guarantees at work\<close>

abbreviation example_ledger :: state_file where
  "example_ledger \<equiv> state_file_default\<lparr>st_environment := ''prod''\<rparr>"

definition key_a :: string where
  "key_a = state_key ''team'' ''Consumer'' ''a''"

lemma example_keys [simp]:
  "scoped_keys (example_config [''a'']) [''team''] = [key_a]"
  "resource_keys_from_config (example_config [''a'']) = [key_a]"
  "state_key_namespace key_a = Some ''team''"
proof -
  show "scoped_keys (example_config [''a'']) [''team''] = [key_a]"
    by (simp add: scoped_keys_def key_a_def)
  show "resource_keys_from_config (example_config [''a'']) = [key_a]"
    by (simp add: key_a_def resource_keys_from_config_def example_config_def
        gateway_config_default_def example_consumer_def)
  show "state_key_namespace key_a = Some ''team''" by (simp add: key_a_def key_simps)
qed

lemma example_ledger_ok: "ledger_ok example_ledger"
  by (rule ledger_ok_default)

definition recorded_ledger :: state_file where
  "recorded_ledger = record_state ''now'' None (example_config [''a'']) [''team''] example_ledger"

lemma recorded_run:
  "ledger_run example_ledger [RecordRun (example_config [''a'']) [''team'']] recorded_ledger"
  using ledger_run.step[OF ledger_run.nil ledger_step.run] by (simp add: recorded_ledger_def)

lemma recorded_ledger_keys:
  "previously_managed_keys recorded_ledger = {key_a}" "ledger_ok recorded_ledger"
  using record_keys(1,3)[OF example_ledger_ok, of "''now''" None "example_config [''a'']" "[''team'']"]
    ledger_ok_default(2)[of "''prod''"]
  by (simp_all add: recorded_ledger_def)

theorem delete_authority_origin_witness: "previously_managed_keys recorded_ledger \<subseteq> {key_a}"
  using delete_authority_origin[OF recorded_run] by simp

theorem ledger_invariant_witness:
  "previously_managed_keys recorded_ledger \<inter> set (st_pending_creates recorded_ledger) = {} \<and>
   st_version recorded_ledger = STATE_VERSION \<and> state_key_namespace key_a \<noteq> None"
proof -
  have "named_config (example_config [''a''])" by (simp add: named_config_def)
  then show ?thesis using ledger_invariant[OF recorded_run] recorded_ledger_keys(1) by simp
qed

theorem record_scoped_exact_witness:
  "previously_managed_keys
     (record_state ''later'' None (example_config []) [''other''] recorded_ledger) = {key_a}"
  using record_scoped_exact[OF recorded_ledger_keys(2), of "''later''" None "example_config []"
      "[''other'']"]
  by (auto simp: recorded_ledger_keys(1) scoped_keys_def outside_scope_def)

definition add_a :: resource_diff where
  "add_a = \<lparr>rd_action = Add, rd_kind = ''Consumer'', rd_id = ''a'', rd_namespace = ''team'',
     rd_details = []\<rparr>"

definition reserved_ledger :: state_file where
  "reserved_ledger = fst (reserve_adds [add_a] (example_config [''a'']) example_ledger)"

lemma reserved_run:
  "reserve_adds [add_a] (example_config [''a'']) example_ledger = (reserved_ledger, Inr 1)"
  "st_pending_creates reserved_ledger = [key_a]"
  by (simp_all add: reserved_ledger_def reserve_adds_def add_a_def key_a_def[symmetric]
      resource_keys_contains_def bt_contains_def bs_contains_def bt_get_def state_file_default_def)

theorem reserve_adds_exact_witness:
  "previously_managed_keys reserved_ledger = {} \<and> set (st_pending_creates reserved_ledger) = {key_a}"
  using reserve_adds_exact[OF conjI[OF example_ledger_ok reserved_run(1)]] ledger_ok_default(2)[of "''prod''"]
  by (simp add: reserved_run(2) previously_managed_keys_def)

lemma reserved_ledger_ok: "ledger_ok reserved_ledger" "managed reserved_ledger = {}"
  using reserve_loop_spec[of "[add_a]" _ example_ledger 0, OF _ example_ledger_ok] reserved_run(1)
    ledger_ok_default(2)[of "''prod''"]
  by (auto simp: reserve_adds_def previously_managed_keys_def)

definition live_a :: "(string, gateway_config) btree_map" where
  "live_a = [(''team'', example_config [''a''])]"

theorem reconcile_pending_exact_witness:
  "set (st_pending_creates (fst (reconcile_pending_creates (example_config []) live_a PendingShared
     reserved_ledger))) = {} \<and>
   previously_managed_keys (fst (reconcile_pending_creates (example_config []) live_a PendingShared
     reserved_ledger)) = {}"
proof -
  obtain st' report where e: "reconcile_pending_creates (example_config []) live_a PendingShared
      reserved_ledger = (st', report)" by fastforce
  have "\<not> keeps_pending (resource_keys_from_config (example_config [])) live_a PendingShared
      reserved_ledger key_a"
    by (simp add: keeps_pending_def live_a_def bt_get_def set_resource_keys)
  then show ?thesis
    using reconcile_pending_exact[OF conjI[OF reserved_ledger_ok(1) e]] reserved_ledger_ok(2)
    unfolding e fst_conv reserved_run(2) by (auto simp: previously_managed_keys_def)
qed

theorem reconcile_absent_exact_witness:
  "previously_managed_keys (fst (reconcile_absent_managed_resources (example_config [])
     [(''team'', example_config [])] recorded_ledger)) = {}"
proof -
  obtain st' n where e: "reconcile_absent_managed_resources (example_config [])
      [(''team'', example_config [])] recorded_ledger = (st', n)" by fastforce
  from reconcile_absent_exact[OF conjI[OF recorded_ledger_keys(2) e]] show ?thesis
    by (simp add: e recorded_ledger_keys(1) still_present_def bt_get_def resource_keys_contains_def
        set_resource_keys)
qed

theorem save_load_roundtrip_witness:
  "load_state ''prod'' (Some (recorded_ledger\<lparr>st_version := 3,
     st_resources := reset_markers (st_resources recorded_ledger)\<rparr>)) =
   Inr (recorded_ledger\<lparr>st_version := 3,
     st_resources := reset_markers (st_resources recorded_ledger)\<rparr>)"
proof -
  have m: "bt_keys (st_resources recorded_ledger) = [key_a]"
    by (simp add: recorded_ledger_def record_state_def insert_config_scoped_keys put_marker_def
        state_file_default_def bt_retain_def bt_keys_def)
  have env: "st_environment recorded_ledger = ''prod''" "st_pending_creates recorded_ledger = []"
    by (simp_all add: recorded_ledger_def record_state_def state_file_default_def bs_retain_def)
  have "validate_env_name ''prod'' = Inr ()" by code_simp
  then have "save_state recorded_ledger = Inr (recorded_ledger\<lparr>st_version := STATE_VERSION,
      st_resources := reset_markers (st_resources recorded_ledger)\<rparr>)"
    by (simp add: save_state_def validate_resource_keys_def m env)
  from save_load_roundtrip[OF this] show ?thesis by (simp add: env STATE_VERSION_def)
qed

end
