(* ===== verification/Reconcile_Facts.thy ===== *)
theory Reconcile_Facts
  imports Reconcile Ledger_Facts
begin

text \<open>
  Guarantees of a run as a whole: which namespaces it visits, that its deletions stay within what
  the ledger or the exclusive scope allows, that the percentage the large-prune guard works with is
  a true fraction computed without overflow, and when the guard refuses.
\<close>

section \<open>Namespaces\<close>

definition state_namespaces :: "state_file \<Rightarrow> string set" where
  "state_namespaces st =
     {ns. \<exists>k \<in> set (bt_keys (st_resources st) @ st_pending_creates st). state_key_namespace k = Some ns}"

lemma fold_insert_namespaces:
  assumes "bs_wf s"
  shows "bs_wf (fold (\<lambda>key s. case state_key_namespace key of Some ns \<Rightarrow> bs_insert ns s | None \<Rightarrow> s) ks s)"
    and "set (fold (\<lambda>key s. case state_key_namespace key of Some ns \<Rightarrow> bs_insert ns s | None \<Rightarrow> s) ks s) =
      set s \<union> {ns. \<exists>k \<in> set ks. state_key_namespace k = Some ns}"
  using assms
  by (induction ks arbitrary: s) (auto simp: bs_wf_insert split: option.splits)

lemma shared_namespaces:
  assumes "oc_mode (re_ownership r) = ownership_mode.Shared" and "re_namespace_filter r = None"
  shows "bs_wf (resolved_namespaces r desired st)"
    and "set (resolved_namespaces r desired st) = set (collect_namespaces desired) \<union> state_namespaces st"
  using assms fold_insert_namespaces[OF bs_wf_of_list]
  by (simp_all add: resolved_namespaces_def state_namespaces_def del: fold_append set_append)

lemma distinct_shared_namespaces:
  "oc_mode (re_ownership r) = ownership_mode.Shared \<Longrightarrow> distinct (resolved_namespaces r desired st)"
  using bs_wf_distinct[OF shared_namespaces(1)]
  by (cases "re_namespace_filter r") (auto simp: resolved_namespaces_def)

lemma resolved_namespaces_eq:
  "resolved_namespaces r desired st =
     (case re_namespace_filter r of
        Some ns \<Rightarrow> [ns]
      | None \<Rightarrow>
          (case oc_mode (re_ownership r) of
             ownership_mode.Exclusive \<Rightarrow>
               (case oc_namespaces (re_ownership r) of Some ns \<Rightarrow> ns | None \<Rightarrow> [])
           | ownership_mode.Shared \<Rightarrow>
               sorted_list_of_set (fst ` set (config_keys desired) \<union> state_namespaces st)))"
proof (cases "oc_mode (re_ownership r)")
  case Exclusive
  then show ?thesis by (cases "re_namespace_filter r") (simp_all add: resolved_namespaces_def)
next
  case Shared
  show ?thesis
  proof (cases "re_namespace_filter r")
    case None
    note ns = shared_namespaces[OF Shared None, of desired st]
    have "sorted_list_of_set (set (resolved_namespaces r desired st)) = resolved_namespaces r desired st"
      using ns(1) by (simp add: bs_wf_def strict_sorted_iff sorted_list_of_set.idem_if_sorted_distinct)
    then show ?thesis using ns(2) None Shared by (simp add: set_collect_namespaces)
  qed (simp add: resolved_namespaces_def Shared)
qed

section \<open>The diff over all pairs\<close>

lemma diff_pair_Inr:
  "diff_pair order codec scope options p acc = Inr s \<longleftrightarrow>
     (\<exists>r. compute_diff_with_options order codec (fst (snd p)) (snd (snd p)) scope options = Inr r \<and>
        s = extend_result acc r)"
  by (auto simp: diff_pair_def bind_result_Inr_iff)

lemma fold_diff_pair:
  assumes "fold_result (diff_pair order codec scope options) pairs acc = Inr res"
  shows "\<exists>rs. list_all2 (\<lambda>pair r. compute_diff_with_options order codec (fst (snd pair)) (snd (snd pair))
      scope options = Inr r) pairs rs \<and> dr_diffs res = dr_diffs acc @ concat (map dr_diffs rs)"
  using assms
proof (induction pairs arbitrary: acc)
  case (Cons p ps)
  from Cons.prems obtain r where
    r: "compute_diff_with_options order codec (fst (snd p)) (snd (snd p)) scope options = Inr r"
    and rest: "fold_result (diff_pair order codec scope options) ps (extend_result acc r) = Inr res"
    by (auto simp: diff_pair_Inr bind_result_Inr_iff)
  obtain rs where "list_all2 (\<lambda>pair r. compute_diff_with_options order codec (fst (snd pair))
      (snd (snd pair)) scope options = Inr r) ps rs"
    "dr_diffs res = dr_diffs (extend_result acc r) @ concat (map dr_diffs rs)"
    using Cons.IH[OF rest] by blast
  then show ?case using r by (intro exI[of _ "r # rs"]) (simp add: extend_result_def)
qed simp

lemma compute_pairs:
  assumes "compute_diffs_for_pairs order codec pairs fence options = Inr res"
  shows "\<exists>rs. list_all2 (\<lambda>pair r. compute_diff_with_options order codec (fst (snd pair)) (snd (snd pair))
      (ownership_scope_of fence) options = Inr r) pairs rs \<and> dr_diffs res = concat (map dr_diffs rs)"
  using fold_diff_pair[OF assms[unfolded compute_diffs_for_pairs_def]]
  by (simp add: diff_result_default_def)

definition delete_keys :: "resource_diff list \<Rightarrow> resource_key set" where
  "delete_keys ds = rd_key ` {d \<in> set ds. rd_action d = Delete}"

lemma diff_delete_keys:
  assumes "good_order order"
    and "compute_diff_with_options order codec desired actual scope options = Inr r"
  shows "delete_keys (dr_diffs r) = {k \<in> set (config_keys actual). k \<notin> set (config_keys desired) \<and>
      prunable scope options actual k}"
    and "delete_count (dr_diffs r) = card (delete_keys (dr_diffs r))"
proof -
  note ok = compute_diff_ok[OF assms]
  show "delete_keys (dr_diffs r) = {k \<in> set (config_keys actual). k \<notin> set (config_keys desired) \<and>
      prunable scope options actual k}"
    using diff_rows_deletes[OF ok(1)] by (simp add: ok(2) delete_keys_def)
  have "distinct (map rd_key (diff_rows codec (ctx_of scope options) desired actual))"
    by (rule distinct_diff_rows)
  then have "distinct (map rd_key (dr_diffs r))"
    unfolding ok(2) by (simp add: distinct_map)
  then have "distinct (map rd_key (filter (\<lambda>d. rd_action d = Delete) (dr_diffs r)))"
    by (rule distinct_map_filter)
  from distinct_card[OF this] show "delete_count (dr_diffs r) = card (delete_keys (dr_diffs r))"
    by (simp add: delete_count_def delete_keys_def)
qed

lemma delete_count_append [simp]: "delete_count (a @ b) = delete_count a + delete_count b"
  by (simp add: delete_count_def)

lemma delete_count_Nil [simp]: "delete_count [] = 0"
  by (simp add: delete_count_def)

lemma delete_keys_append [simp]: "delete_keys (a @ b) = delete_keys a \<union> delete_keys b"
  by (auto simp: delete_keys_def)

lemma pairs_delete_keys:
  assumes "good_order order" and "compute_diffs_for_pairs order codec pairs fence options = Inr res"
    and "k \<in> delete_keys (dr_diffs res)"
  shows "\<exists>(ns, desired, actual) \<in> set pairs. k \<in> set (config_keys actual) \<and>
      k \<notin> set (config_keys desired) \<and> prunable (ownership_scope_of fence) options actual k"
proof -
  obtain rs where l: "list_all2 (\<lambda>pair r. compute_diff_with_options order codec (fst (snd pair))
      (snd (snd pair)) (ownership_scope_of fence) options = Inr r) pairs rs"
    and d: "dr_diffs res = concat (map dr_diffs rs)" using compute_pairs[OF assms(2)] by blast
  have "k \<in> delete_keys (concat (map dr_diffs rs))" using assms(3) d by simp
  with l show ?thesis
  proof (induction rule: list_all2_induct)
    case Nil
    then show ?case by (simp add: delete_keys_def)
  next
    case (Cons p ps r rs)
    then show ?case using diff_delete_keys(1)[OF assms(1) Cons.hyps(1)] by (cases p) auto
  qed
qed

section \<open>Deletions are a fraction of the denominator\<close>

definition snapshot_scoped :: "snapshot \<Rightarrow> bool" where
  "snapshot_scoped pair = list_all (\<lambda>k. fst k = fst pair) (config_keys (snd (snd pair)))"

definition key_of :: "resource_key \<Rightarrow> string" where
  "key_of k = state_key (fst k) (fst (snd k)) (snd (snd k))"

definition keys_in :: "string set \<Rightarrow> string set \<Rightarrow> string set" where
  "keys_in keys nss = {k \<in> keys. case state_key_namespace k of Some ns \<Rightarrow> ns \<in> nss | None \<Rightarrow> False}"

lemma keys_in_insert:
  "keys_in keys (insert ns nss) = keys_in keys {ns} \<union> keys_in keys nss"
  by (auto simp: keys_in_def split: option.splits)

lemma keys_in_disjoint: "ns \<notin> nss \<Longrightarrow> keys_in keys {ns} \<inter> keys_in keys nss = {}"
  by (auto simp: keys_in_def split: option.splits)

lemma finite_keys_in: "finite keys \<Longrightarrow> finite (keys_in keys nss)"
  by (simp add: keys_in_def)

lemma shared_pair_bound:
  assumes "good_order order" and "finite keys" and "\<forall>k \<in> keys. state_key_namespace k \<noteq> None"
    and "compute_diff_with_options order codec desired actual (ownership_scope.Shared keys) options = Inr r"
    and "list_all (\<lambda>k. fst k = ns) (config_keys actual)"
  shows "delete_count (dr_diffs r) \<le> card (keys_in keys {ns})"
proof -
  let ?D = "delete_keys (dr_diffs r)"
  have D: "k \<in> set (config_keys actual) \<and> key_of k \<in> keys" if "k \<in> ?D" for k
    using that diff_delete_keys(1)[OF assms(1,4)] by (auto simp: prunable_def key_of_def split: if_splits)
  have kind: "is_state_key_kind (fst (snd k))" if "k \<in> ?D" for k
    using D[OF that] config_key_kind by blast
  have inj: "inj_on key_of ?D"
    using kind by (auto simp: inj_on_def key_of_def state_key_eq_iff prod_eq_iff)
  have "key_of ` ?D \<subseteq> keys_in keys {ns}"
  proof (rule image_subsetI)
    fix k assume k: "k \<in> ?D"
    then have "fst k = ns" using D assms(5) by (auto simp: list_all_iff)
    then show "key_of k \<in> keys_in keys {ns}"
      using D[OF k] kind[OF k] assms(3)
      by (auto simp: keys_in_def key_of_def state_key_namespace_of_key split: if_splits)
  qed
  then have "card (key_of ` ?D) \<le> card (keys_in keys {ns})"
    by (rule card_mono[OF finite_keys_in[OF assms(2)]])
  then show ?thesis using diff_delete_keys(2)[OF assms(1,4)] card_image[OF inj] by simp
qed

lemma shared_bound:
  assumes "good_order order" and "finite keys" and "\<forall>k \<in> keys. state_key_namespace k \<noteq> None"
    and "list_all2 (\<lambda>pair r. compute_diff_with_options order codec (fst (snd pair)) (snd (snd pair))
      (ownership_scope.Shared keys) options = Inr r) pairs rs"
    and "list_all snapshot_scoped pairs" and "distinct (map fst pairs)"
  shows "delete_count (concat (map dr_diffs rs)) \<le> card (keys_in keys (fst ` set pairs))"
  using assms(4-6)
proof (induction rule: list_all2_induct)
  case Nil
  then show ?case by simp
next
  case (Cons p ps r rs)
  have "delete_count (dr_diffs r) \<le> card (keys_in keys {fst p})"
    using shared_pair_bound[OF assms(1-3) Cons.hyps(1), of "fst p"] Cons.prems
    by (simp add: snapshot_scoped_def)
  moreover have "delete_count (concat (map dr_diffs rs)) \<le> card (keys_in keys (fst ` set ps))"
    using Cons by simp
  moreover have "keys_in keys (fst ` set (p # ps)) =
      keys_in keys {fst p} \<union> keys_in keys (fst ` set ps)"
    using keys_in_insert[of keys "fst p" "fst ` set ps"] by simp
  moreover have "card (keys_in keys {fst p} \<union> keys_in keys (fst ` set ps)) =
      card (keys_in keys {fst p}) + card (keys_in keys (fst ` set ps))"
    using Cons.prems by (intro card_Un_disjoint finite_keys_in assms(2) keys_in_disjoint) simp
  ultimately show ?case by simp
qed

definition eligible_keys :: "gateway_config \<Rightarrow> bool \<Rightarrow> resource_key list" where
  "eligible_keys actual confirm =
     map consumer_key (gc_consumers actual) @
     map proxy_key (filter (\<lambda>r. confirm \<or> p_api_spec_id r = None) (gc_proxies actual)) @
     map upstream_key (filter (\<lambda>r. confirm \<or> u_api_spec_id r = None) (gc_upstreams actual)) @
     map plugin_config_key (filter (\<lambda>r. confirm \<or> pc_api_spec_id r = None) (gc_plugin_configs actual))"

lemma length_eligible: "length (eligible_keys actual confirm) = exclusive_prune_denominator actual confirm"
  by (simp add: eligible_keys_def exclusive_prune_denominator_def)

lemma eligible_iff:
  "k \<in> set (config_keys actual) \<Longrightarrow> k \<notin> set (tagged_keys actual) \<or> confirm \<Longrightarrow>
     k \<in> set (eligible_keys actual confirm)"
  by (auto simp: config_keys_def tagged_keys_def eligible_keys_def)

lemma exclusive_pair_bound:
  assumes "good_order order"
    and "compute_diff_with_options order codec desired actual ownership_scope.Exclusive
      \<lparr>do_prune_spec_owned = confirm\<rparr> = Inr r"
  shows "delete_count (dr_diffs r) \<le> exclusive_prune_denominator actual confirm"
proof -
  have "delete_keys (dr_diffs r) \<subseteq> set (eligible_keys actual confirm)"
    using diff_delete_keys(1)[OF assms] eligible_iff by (auto simp: prunable_def split: if_splits)
  then have "card (delete_keys (dr_diffs r)) \<le> card (set (eligible_keys actual confirm))"
    by (intro card_mono) simp_all
  also have "\<dots> \<le> exclusive_prune_denominator actual confirm"
    using card_length[of "eligible_keys actual confirm"] by (simp add: length_eligible)
  finally show ?thesis using diff_delete_keys(2)[OF assms] by simp
qed

lemma exclusive_bound:
  assumes "good_order order"
    and "list_all2 (\<lambda>pair r. compute_diff_with_options order codec (fst (snd pair)) (snd (snd pair))
      ownership_scope.Exclusive \<lparr>do_prune_spec_owned = confirm\<rparr> = Inr r) pairs rs"
  shows "delete_count (concat (map dr_diffs rs)) \<le>
    sum_list (map (\<lambda>pair. exclusive_prune_denominator (snd (snd pair)) confirm) pairs)"
  using assms(2)
proof (induction rule: list_all2_induct)
  case (Cons p ps r rs)
  then show ?case using exclusive_pair_bound[OF assms(1) Cons.hyps(1)] by simp
qed simp

lemma validate_resource_keys_parse:
  "validate_resource_keys st = Inr () \<Longrightarrow>
     k \<in> set (bt_keys (st_resources st) @ st_pending_creates st) \<Longrightarrow> state_key_namespace k \<noteq> None"
  by (auto simp: validate_resource_keys_def find_None_iff split: option.splits)

lemma deletes_bounded:
  assumes "good_order order" and "validate_resource_keys st = Inr ()"
    and "list_all snapshot_scoped pairs" and "map fst pairs = resolved_namespaces r desired st"
    and "compute_diffs_for_pairs order codec pairs (previously_managed r st)
      \<lparr>do_prune_spec_owned = confirm\<rparr> = Inr res"
  shows "delete_count (dr_diffs res) \<le>
    prune_denominator (previously_managed r st) (resolved_namespaces r desired st) confirm pairs"
proof -
  obtain rs where l: "list_all2 (\<lambda>pair r'. compute_diff_with_options order codec (fst (snd pair))
      (snd (snd pair)) (ownership_scope_of (previously_managed r st))
      \<lparr>do_prune_spec_owned = confirm\<rparr> = Inr r') pairs rs"
    and d: "dr_diffs res = concat (map dr_diffs rs)" using compute_pairs[OF assms(5)] by blast
  show ?thesis
  proof (cases "oc_mode (re_ownership r)")
    case Exclusive
    then show ?thesis using l exclusive_bound[OF assms(1)] d
      by (simp add: previously_managed_def prune_denominator_def ownership_scope_of_def)
  next
    case Shared
    have dist: "distinct (map fst pairs)"
      using distinct_shared_namespaces[OF Shared] assms(4) by simp
    have "\<forall>k \<in> previously_managed_keys st. state_key_namespace k \<noteq> None"
      using validate_resource_keys_parse[OF assms(2)] by (auto simp: previously_managed_keys_def)
    moreover have "finite (previously_managed_keys st)" by (simp add: previously_managed_keys_def)
    moreover have nss: "fst ` set pairs = set (resolved_namespaces r desired st)"
      using assms(4) by (metis set_map)
    ultimately have "delete_count (dr_diffs res) \<le>
        card (keys_in (previously_managed_keys st) (set (resolved_namespaces r desired st)))"
      using l Shared shared_bound[OF assms(1) _ _ _ assms(3) dist] d
      by (simp add: previously_managed_def ownership_scope_of_def)
    then show ?thesis using Shared by (simp add: previously_managed_def prune_denominator_def keys_in_def)
  qed
qed

section \<open>Arithmetic of the guard\<close>

lemma unat_u128:
  assumes "LENGTH('a) \<le> 128"
  shows "unat (ucast (x :: 'a::len word) :: u128) = unat x"
proof -
  have "unat x < 2 ^ LENGTH('a)" by (rule unsigned_less)
  also have "(2::nat) ^ LENGTH('a) \<le> 2 ^ LENGTH(128)"
    using assms by (intro power_increasing) simp_all
  finally have "take_bit LENGTH(128) (unat x) = unat x" by (rule take_bit_nat_eq_self)
  then show ?thesis by (simp only: unsigned_ucast_eq)
qed

lemma unat_usize: "n < 2 ^ 64 \<Longrightarrow> unat (of_nat n :: usize) = n"
  by (simp add: unsigned_of_nat take_bit_nat_eq_self)

lemma unat_mult_small:
  fixes x :: "64 word" and c :: nat
  assumes "c < 2 ^ 64" and "unat (y :: u128) = c"
  shows "unat ((ucast x :: u128) * y) = unat x * c"
proof -
  have "unat x < 2 ^ 64" using unsigned_less[of x, where ?'a = nat] by simp
  then have "unat x * c < 2 ^ 64 * 2 ^ 64" using assms(1) by (intro mult_strict_mono) auto
  moreover have "unat (ucast x :: u128) = unat x" by (simp add: unat_u128)
  ultimately show ?thesis using assms(2) by (simp add: unat_word_ariths)
qed

lemma large_prune_iff:
  "large_prune_exceeds_threshold d n t \<longleftrightarrow> 0 < unat n \<and> unat t * unat n < unat d * 100"
proof -
  have t: "unat (ucast t :: u128) = unat t" by (simp add: unat_u128)
  have "unat t < 2 ^ 8" using unsigned_less[of t, where ?'a = nat] by simp
  then have "unat t < 2 ^ 64" by simp
  then have a: "unat ((ucast t :: u128) * ucast n) = unat t * unat n"
    using unat_mult_small[of "unat t" "ucast t" n] t by (simp add: mult.commute)
  have b: "unat ((ucast d :: u128) * 100) = unat d * 100"
    using unat_mult_small[of 100 100 d] by simp
  have "0 < n \<longleftrightarrow> 0 < unat n" by (simp add: word_less_nat_alt)
  then show ?thesis
    unfolding large_prune_exceeds_threshold_def word_less_nat_alt[of "_ * _"] a b by simp
qed

section \<open>Properties\<close>

text \<open>
  The namespaces of a run are exactly these: the filter alone when there is one; otherwise the
  owned namespaces of an exclusive environment as listed, and in shared mode the sorted union of
  the namespaces the repository declares and those its ledger still names, managed or announced.
\<close>

theorem resolved_namespaces_exact:
  "resolved_namespaces r desired st =
     (case re_namespace_filter r of
        Some ns \<Rightarrow> [ns]
      | None \<Rightarrow>
          (case oc_mode (re_ownership r) of
             ownership_mode.Exclusive \<Rightarrow>
               (case oc_namespaces (re_ownership r) of Some ns \<Rightarrow> ns | None \<Rightarrow> [])
           | ownership_mode.Shared \<Rightarrow>
               sorted_list_of_set (fst ` set (config_keys desired) \<union> state_namespaces st)))"
  by (rule resolved_namespaces_eq)

text \<open>
  The comparison behind the large-prune guard is exact: computed in 128-bit words from counts
  of any machine size, it is the comparison of the fractions over the natural numbers, and nothing
  wraps around or is rounded.
\<close>

theorem large_prune_exact:
  "large_prune_exceeds_threshold deletes denominator threshold =
     (0 < unat denominator \<and> unat threshold * unat denominator < unat deletes * 100)"
  by (rule large_prune_iff)

text \<open>
  C4.  The large-prune guard sees a true fraction and refuses exactly above the threshold.  For the
  diff of a run over namespace snapshots that hold only rows of their namespace, with a ledger
  whose keys parse, the deletions never outnumber the denominator; the guard lets the run pass
  exactly when it is overridden or at most the threshold's percentage would be deleted, so a
  threshold of 100 disables it.
\<close>

theorem prune_guard_exact:
  assumes "good_order order" and "validate_resource_keys st = Inr ()"
    and "list_all snapshot_scoped pairs" and "map fst pairs = resolved_namespaces r desired st"
    and "compute_diffs_for_pairs order codec pairs (previously_managed r st)
      \<lparr>do_prune_spec_owned = confirm\<rparr> = Inr res"
    and "prune_denominator (previously_managed r st) (resolved_namespaces r desired st) confirm pairs
      < 2 ^ 64"
  shows "let deletes = delete_count (dr_diffs res);
             denominator = prune_denominator (previously_managed r st)
               (resolved_namespaces r desired st) confirm pairs;
             threshold = oc_large_prune_threshold_percent (re_ownership r);
             guard = prune_guard (re_ownership r) (previously_managed r st)
               (resolved_namespaces r desired st) confirm allow pairs (dr_diffs res)
         in deletes \<le> denominator \<and>
            (guard = Inr ()) = (allow \<or> 100 * deletes \<le> unat threshold * denominator) \<and>
            (100 \<le> unat threshold \<longrightarrow> guard = Inr ())"
proof -
  define n where "n = prune_denominator (previously_managed r st) (resolved_namespaces r desired st)
      confirm pairs"
  define d where "d = delete_count (dr_diffs res)"
  define t where "t = oc_large_prune_threshold_percent (re_ownership r)"
  have le: "d \<le> n" unfolding n_def d_def by (rule deletes_bounded[OF assms(1-5)])
  have small: "unat (of_nat n :: usize) = n" "unat (of_nat d :: usize) = d"
    using le assms(6) unfolding n_def[symmetric] by (simp_all add: unat_usize)
  have "(prune_guard (re_ownership r) (previously_managed r st) (resolved_namespaces r desired st)
      confirm allow pairs (dr_diffs res) = Inr ()) = (allow \<or> 100 * d \<le> unat t * n)"
    using le by (auto simp: prune_guard_def Let_def large_prune_iff small d_def[symmetric]
        n_def[symmetric] t_def[symmetric] not_less mult.commute)
  moreover have "100 * d \<le> unat t * n" if "100 \<le> unat t" using le that by (intro mult_le_mono) simp_all
  ultimately show ?thesis
    using le unfolding Let_def d_def[symmetric] n_def[symmetric] t_def[symmetric] by blast
qed

text \<open>
  An orphan is never out of sight.  In an unfiltered shared run with a ledger whose keys parse,
  every key the ledger manages or has announced lies in a namespace the run visits, even when the
  repository no longer declares anything there.
\<close>

theorem ledger_namespaces_visited:
  assumes "validate_resource_keys st = Inr ()" and "oc_mode (re_ownership r) = ownership_mode.Shared"
    and "re_namespace_filter r = None"
  shows "previously_managed_keys st \<union> set (st_pending_creates st) \<subseteq>
    (\<Union>ns \<in> set (resolved_namespaces r desired st). {k. state_key_namespace k = Some ns})"
proof
  fix k assume "k \<in> previously_managed_keys st \<union> set (st_pending_creates st)"
  then have k: "k \<in> set (bt_keys (st_resources st) @ st_pending_creates st)"
    by (auto simp: previously_managed_keys_def)
  then obtain ns where ns: "state_key_namespace k = Some ns"
    using validate_resource_keys_parse[OF assms(1)] by blast
  then have "ns \<in> state_namespaces st" using k unfolding state_namespaces_def by blast
  then show "k \<in> (\<Union>ns \<in> set (resolved_namespaces r desired st). {k. state_key_namespace k = Some ns})"
    using ns shared_namespaces(2)[OF assms(2,3), of desired st] by auto
qed

text \<open>
  An exclusive run stays inside its namespaces: once the scope check has accepted the desired
  configuration, everything declared, every namespace visited and every deletion computed from
  snapshots of those namespaces lies in the environment's list.
\<close>

theorem exclusive_run_confined:
  assumes "enforce_exclusive_scope r desired = Inr ()"
    and "oc_mode (re_ownership r) = ownership_mode.Exclusive" and "oc_namespaces (re_ownership r) = Some owned"
    and "good_order order" and "list_all snapshot_scoped pairs"
    and "map fst pairs = resolved_namespaces r desired st"
    and "compute_diffs_for_pairs order codec pairs (previously_managed r st) options = Inr res"
  shows "fst ` set (config_keys desired) \<subseteq> set owned \<and>
    set (resolved_namespaces r desired st) \<subseteq> set owned \<and>
    rd_namespace ` {d \<in> set (dr_diffs res). rd_action d = Delete} \<subseteq> set owned"
proof -
  have declared: "fst ` set (config_keys desired) \<subseteq> set owned"
    using assms(1-3) by (auto simp: enforce_exclusive_scope_def filter_empty_conv Let_def
        split: option.splits if_splits)
  have visited: "set (resolved_namespaces r desired st) \<subseteq> set owned"
    using assms(1-3) by (auto simp: enforce_exclusive_scope_def resolved_namespaces_def Let_def
        split: option.splits if_splits)
  have "rd_namespace x \<in> set owned" if "x \<in> set (dr_diffs res)" "rd_action x = Delete" for x
  proof -
    have "rd_key x \<in> delete_keys (dr_diffs res)" using that by (auto simp: delete_keys_def)
    then obtain ns d a where p: "(ns, d, a) \<in> set pairs" "rd_key x \<in> set (config_keys a)"
      using pairs_delete_keys[OF assms(4,7)] by blast
    then have "rd_namespace x = ns"
      using assms(5) by (fastforce simp: list_all_iff snapshot_scoped_def rd_key_def)
    moreover have "ns \<in> set (map fst pairs)" using p(1) by force
    ultimately show ?thesis using visited assms(6) by auto
  qed
  then show ?thesis using declared visited by blast
qed

section \<open>The guarantees at work\<close>

definition shared_run :: resolved_env where
  "shared_run = synthetic_default \<lparr>ec_namespace_filter = None, ec_apply_strategy = Incremental,
     ec_overlay = None, ec_env_name = None\<rparr> None"

definition shared_pairs :: "snapshot list" where
  "shared_pairs = [(''team'', example_config [], example_config [''a'', ''admin''])]"

lemma shared_run_simps [simp]:
  "re_namespace_filter shared_run = None" "oc_mode (re_ownership shared_run) = ownership_mode.Shared"
  "previously_managed shared_run recorded_ledger = Some {key_a}"
  by (simp_all add: shared_run_def synthetic_default_def previously_managed_def recorded_ledger_keys(1))

lemma recorded_ledger_entries:
  "set (bt_keys (st_resources recorded_ledger) @ st_pending_creates recorded_ledger) = {key_a}"
  using recorded_ledger_keys(1)
    record_keys(2)[OF example_ledger_ok, of "''now''" None "example_config [''a'']" "[''team'']"]
  by (simp add: previously_managed_keys_def recorded_ledger_def state_file_default_def)

lemma recorded_ledger_valid: "validate_resource_keys recorded_ledger = Inr ()"
proof -
  have "find (\<lambda>key. state_key_namespace key = None)
      (bt_keys (st_resources recorded_ledger) @ st_pending_creates recorded_ledger) = None"
    unfolding find_None_iff recorded_ledger_entries by simp
  then show ?thesis by (simp add: validate_resource_keys_def)
qed

lemma shared_run_namespaces:
  "resolved_namespaces shared_run (example_config []) recorded_ledger = [''team'']"
proof -
  have "state_namespaces recorded_ledger = {''team''}"
    unfolding state_namespaces_def recorded_ledger_entries by simp
  then show ?thesis by (simp add: resolved_namespaces_eq)
qed

lemma shared_pairs_ok:
  "list_all snapshot_scoped shared_pairs"
  "map fst shared_pairs = resolved_namespaces shared_run (example_config []) recorded_ledger"
  by (simp_all add: shared_pairs_def snapshot_scoped_def shared_run_namespaces)

lemma shared_pairs_diff:
  "\<exists>res. compute_diffs_for_pairs example_order example_codec shared_pairs
     (previously_managed shared_run recorded_ledger) \<lparr>do_prune_spec_owned = False\<rparr> = Inr res"
proof -
  have "validate_unique_live_resource_keys (example_config [''a'', ''admin'']) = Inr ()"
    by (simp add: validate_unique_live_ok_iff)
  then show ?thesis
    by (simp add: compute_diffs_for_pairs_def shared_pairs_def diff_pair_def
        compute_diff_eq[OF example_good] Let_def)
qed

lemma shared_denominator:
  "prune_denominator (previously_managed shared_run recorded_ledger)
     (resolved_namespaces shared_run (example_config []) recorded_ledger) False shared_pairs = 1"
proof -
  have "{k \<in> {key_a}. case state_key_namespace k of Some ns \<Rightarrow> ns \<in> set [''team''] | None \<Rightarrow> False} = {key_a}"
    by auto
  then show ?thesis by (simp add: prune_denominator_def shared_run_namespaces)
qed

theorem prune_guard_exact_witness:
  "\<exists>res. compute_diffs_for_pairs example_order example_codec shared_pairs
     (previously_managed shared_run recorded_ledger) \<lparr>do_prune_spec_owned = False\<rparr> = Inr res \<and>
     delete_count (dr_diffs res) \<le> 1"
proof -
  obtain res where res: "compute_diffs_for_pairs example_order example_codec shared_pairs
     (previously_managed shared_run recorded_ledger) \<lparr>do_prune_spec_owned = False\<rparr> = Inr res"
    using shared_pairs_diff by blast
  have "prune_denominator (previously_managed shared_run recorded_ledger)
     (resolved_namespaces shared_run (example_config []) recorded_ledger) False shared_pairs < 2 ^ 64"
    by (simp only: shared_denominator) simp
  from prune_guard_exact[OF example_good recorded_ledger_valid shared_pairs_ok res this]
  have "delete_count (dr_diffs res) \<le> 1" unfolding Let_def shared_denominator by blast
  then show ?thesis using res by blast
qed

theorem ledger_namespaces_visited_witness:
  "{key_a} \<subseteq> (\<Union>ns \<in> {''team''}. {k. state_key_namespace k = Some ns})"
  using ledger_namespaces_visited[OF recorded_ledger_valid shared_run_simps(2,1), of "example_config []"]
  by (simp add: shared_run_namespaces recorded_ledger_keys(1))

definition exclusive_run :: resolved_env where
  "exclusive_run = merge_env ''production'' (environment_config_default
     \<lparr>ev_ownership := ownership_config_default
        \<lparr>oc_mode := ownership_mode.Exclusive, oc_namespaces := Some [''team'', ''team'']\<rparr>\<rparr>)
     \<lparr>ec_namespace_filter = Some ''team'', ec_apply_strategy = Incremental, ec_overlay = None,
      ec_env_name = None\<rparr>"

lemma exclusive_run_simps [simp]:
  "oc_mode (re_ownership exclusive_run) = ownership_mode.Exclusive"
  "oc_namespaces (re_ownership exclusive_run) = Some [''team'', ''team'']"
  "re_namespace_filter exclusive_run = Some ''team''"
  by (simp_all add: exclusive_run_def merge_env_def environment_config_default_def)

theorem exclusive_run_confined_witness:
  "\<exists>res. compute_diffs_for_pairs example_order example_codec shared_pairs
     (previously_managed exclusive_run recorded_ledger) \<lparr>do_prune_spec_owned = False\<rparr> = Inr res \<and>
     rd_namespace ` {d \<in> set (dr_diffs res). rd_action d = Delete} \<subseteq> {''team''}"
proof -
  have s: "enforce_exclusive_scope exclusive_run (example_config [''a'']) = Inr ()"
    by (simp add: enforce_exclusive_scope_def)
  have "validate_unique_live_resource_keys (example_config [''a'', ''admin'']) = Inr ()"
    by (simp add: validate_unique_live_ok_iff)
  then obtain res where res: "compute_diffs_for_pairs example_order example_codec shared_pairs
     (previously_managed exclusive_run recorded_ledger) \<lparr>do_prune_spec_owned = False\<rparr> = Inr res"
    by (auto simp: compute_diffs_for_pairs_def shared_pairs_def diff_pair_def
        compute_diff_eq[OF example_good] Let_def)
  have m: "map fst shared_pairs = resolved_namespaces exclusive_run (example_config [''a'']) recorded_ledger"
    by (simp add: shared_pairs_def resolved_namespaces_eq)
  show ?thesis
    using exclusive_run_confined[OF s exclusive_run_simps(1,2) example_good shared_pairs_ok(1) m res] res
    by auto
qed

text \<open>
  An exclusive environment that lists a namespace twice is accepted, its routing data names the
  namespace once, and its runs visit it twice.
\<close>

definition doubled_config :: repo_config where
  "doubled_config = repo_config_default\<lparr>rc_environments := [(''production'', environment_config_default
     \<lparr>ev_ownership := ownership_config_default
        \<lparr>oc_mode := ownership_mode.Exclusive, oc_namespaces := Some [''team'', ''team'']\<rparr>\<rparr>)]\<rparr>"

lemma doubled_namespace_visited_twice:
  "validate_repo_config doubled_config = Inr ()"
  "map es_namespaces (environment_scopes doubled_config) = [Some [''team'']]"
  "map_sum id (\<lambda>r. resolved_namespaces r (example_config []) recorded_ledger)
     (resolve_env (Some doubled_config) \<lparr>ec_namespace_filter = None, ec_apply_strategy = Incremental,
        ec_overlay = None, ec_env_name = None\<rparr> None) = Inr [''team'', ''team'']"
  by code_simp+

end
