(* ===== verification/Catalog.thy ===== *)
theory Catalog
  imports Managed
begin

text \<open>
  The plugin catalog (\<open>src/plugin_catalog.rs\<close>): the built-in plugins and their groups, the effective
  plugins of a proxy after the gateway's scope merge, the protocols a listener serves and the
  authenticators that cover them, and the predicates on untyped plugin configuration.
\<close>

section \<open>Built-in plugins\<close>

datatype plugin_category = Authentication | Authorization | Traffic | Security | Ai | Transform
  | Observability

record builtin_plugin =
  bp_name :: string
  bp_priority :: u16
  bp_category :: plugin_category

definition builtin_entry :: "string \<Rightarrow> u16 \<Rightarrow> plugin_category \<Rightarrow> builtin_plugin" where
  "builtin_entry name priority category =
     \<lparr>bp_name = name, bp_priority = priority, bp_category = category\<rparr>"

definition DEFAULT_PRIORITY :: u16 where
  "DEFAULT_PRIORITY = 5000"

definition MAX_PRIORITY_OVERRIDE :: u16 where
  "MAX_PRIORITY_OVERRIDE = 10000"

definition BUILTIN_PLUGINS :: "builtin_plugin list" where
  "BUILTIN_PLUGINS =
     [builtin_entry ''otel_tracing'' 25 Observability,
      builtin_entry ''correlation_id'' 50 Observability,
      builtin_entry ''cors'' 100 Security,
      builtin_entry ''request_termination'' 125 Traffic,
      builtin_entry ''mesh_outbound_registry'' 130 Security,
      builtin_entry ''ip_restriction'' 150 Security,
      builtin_entry ''geo_restriction'' 175 Security,
      builtin_entry ''bot_detection'' 200 Security,
      builtin_entry ''spec_expose'' 210 Transform,
      builtin_entry ''sse'' 250 Transform,
      builtin_entry ''grpc_web'' 260 Transform,
      builtin_entry ''grpc_method_router'' 275 Transform,
      builtin_entry ''spiffe_identity'' 940 Authentication,
      builtin_entry ''mtls_auth'' 950 Authentication,
      builtin_entry ''jwks_auth'' 1000 Authentication,
      builtin_entry ''oauth2_introspection'' 1050 Authentication,
      builtin_entry ''oidc_relying_party'' 1075 Authentication,
      builtin_entry ''jwt_auth'' 1100 Authentication,
      builtin_entry ''key_auth'' 1200 Authentication,
      builtin_entry ''ldap_auth'' 1250 Authentication,
      builtin_entry ''basic_auth'' 1300 Authentication,
      builtin_entry ''hmac_auth'' 1400 Authentication,
      builtin_entry ''soap_ws_security'' 1500 Authentication,
      builtin_entry ''access_control'' 2000 Authorization,
      builtin_entry ''tcp_connection_throttle'' 2050 Traffic,
      builtin_entry ''mesh_authz'' 2075 Authorization,
      builtin_entry ''opa'' 2080 Authorization,
      builtin_entry ''adaptive_concurrency'' 2090 Traffic,
      builtin_entry ''ai_transcript_audit'' 2740 Ai,
      builtin_entry ''request_size_limiting'' 2800 Traffic,
      builtin_entry ''ws_message_size_limiting'' 2810 Traffic,
      builtin_entry ''graphql'' 2850 Transform,
      builtin_entry ''rate_limiting'' 2900 Traffic,
      builtin_entry ''ws_rate_limiting'' 2910 Traffic,
      builtin_entry ''udp_rate_limiting'' 2915 Traffic,
      builtin_entry ''ai_prompt_shield'' 2925 Ai,
      builtin_entry ''waf'' 2930 Security,
      builtin_entry ''fault_injection'' 2940 Transform,
      builtin_entry ''body_validator'' 2950 Security,
      builtin_entry ''openapi_validator'' 2960 Security,
      builtin_entry ''ai_semantic_firewall'' 2968 Ai,
      builtin_entry ''ai_request_guard'' 2975 Ai,
      builtin_entry ''ai_tool_governor'' 2978 Ai,
      builtin_entry ''ai_stream_router'' 2984 Ai,
      builtin_entry ''mcp_gateway'' 2992 Ai,
      builtin_entry ''a2a_gateway'' 2993 Ai,
      builtin_entry ''mesh_route_dispatch'' 2995 Transform,
      builtin_entry ''request_transformer'' 3000 Transform,
      builtin_entry ''request_deduplication'' 3010 Traffic,
      builtin_entry ''serverless_function'' 3025 Transform,
      builtin_entry ''response_mock'' 3030 Transform,
      builtin_entry ''grpc_deadline'' 3050 Transform,
      builtin_entry ''load_testing'' 3070 Transform,
      builtin_entry ''request_mirror'' 3075 Transform,
      builtin_entry ''response_size_limiting'' 3490 Traffic,
      builtin_entry ''response_caching'' 3500 Transform,
      builtin_entry ''response_transformer'' 4000 Transform,
      builtin_entry ''compression'' 4050 Transform,
      builtin_entry ''ai_prompt_compressor'' 4055 Ai,
      builtin_entry ''ai_semantic_cache'' 4057 Ai,
      builtin_entry ''ai_federation'' 4060 Ai,
      builtin_entry ''ai_token_metrics'' 4070 Ai,
      builtin_entry ''ai_response_guard'' 4075 Ai,
      builtin_entry ''security_headers'' 4080 Security,
      builtin_entry ''ai_rate_limiter'' 4200 Ai,
      builtin_entry ''stdout_logging'' 9000 Observability,
      builtin_entry ''ws_frame_logging'' 9050 Observability,
      builtin_entry ''statsd_logging'' 9075 Observability,
      builtin_entry ''http_logging'' 9100 Observability,
      builtin_entry ''tcp_logging'' 9125 Observability,
      builtin_entry ''kafka_logging'' 9150 Observability,
      builtin_entry ''loki_logging'' 9155 Observability,
      builtin_entry ''udp_logging'' 9160 Observability,
      builtin_entry ''ws_logging'' 9175 Observability,
      builtin_entry ''transaction_debugger'' 9200 Observability,
      builtin_entry ''proxy_alerts'' 9250 Observability,
      builtin_entry ''prometheus_metrics'' 9300 Observability,
      builtin_entry ''api_chargeback'' 9350 Observability,
      builtin_entry ''api_chargeback_sink'' 9351 Observability,
      builtin_entry ''workload_metrics'' 9360 Observability,
      builtin_entry ''__mesh_bpf_metrics'' 9365 Observability,
      builtin_entry ''transaction_log_schema'' 9999 Observability]"

definition RETIRED_PLUGIN_NAMES :: "string list" where
  "RETIRED_PLUGIN_NAMES =
     [''oauth2_auth'', ''semantic_ai_firewall'']"

definition RESERVED_PLUGIN_NAMES :: "string list" where
  "RESERVED_PLUGIN_NAMES =
     [''__mesh_bpf_metrics'']"

definition AUTH_PLUGIN_NAMES :: "string list" where
  "AUTH_PLUGIN_NAMES =
     [''mtls_auth'', ''jwks_auth'', ''oauth2_introspection'', ''oidc_relying_party'',
      ''jwt_auth'', ''key_auth'', ''ldap_auth'', ''basic_auth'', ''hmac_auth'',
      ''soap_ws_security'']"

definition RATE_LIMIT_PLUGIN_NAMES :: "string list" where
  "RATE_LIMIT_PLUGIN_NAMES =
     [''rate_limiting'', ''ws_rate_limiting'', ''udp_rate_limiting'', ''ai_rate_limiter'',
      ''graphql'']"

definition OBSERVABILITY_PLUGIN_NAMES :: "string list" where
  "OBSERVABILITY_PLUGIN_NAMES =
     [''stdout_logging'', ''ws_frame_logging'', ''statsd_logging'', ''http_logging'',
      ''tcp_logging'', ''kafka_logging'', ''loki_logging'', ''udp_logging'', ''ws_logging'',
      ''otel_tracing'', ''prometheus_metrics'', ''transaction_debugger'']"

definition AI_GUARDRAIL_PLUGIN_NAMES :: "string list" where
  "AI_GUARDRAIL_PLUGIN_NAMES =
     [''ai_prompt_shield'', ''ai_semantic_firewall'']"

definition SIZE_LIMIT_PLUGIN_NAMES :: "string list" where
  "SIZE_LIMIT_PLUGIN_NAMES =
     [''request_size_limiting'', ''response_size_limiting'']"

datatype retired_remediation = ReplaceWith "string list" | RenamedTo string | RemoveEntry

definition retired_replacement :: "string \<Rightarrow> retired_remediation" where
  "retired_replacement plugin_name =
     (if plugin_name = ''oauth2_auth''
      then ReplaceWith [''oauth2_introspection'', ''oidc_relying_party'']
      else if plugin_name = ''semantic_ai_firewall'' then RenamedTo ''ai_semantic_firewall''
      else RemoveEntry)"

definition builtin :: "string \<Rightarrow> builtin_plugin option" where
  "builtin plugin_name = find (\<lambda>b. bp_name b = plugin_name) BUILTIN_PLUGINS"

definition is_builtin :: "string \<Rightarrow> bool" where
  "is_builtin plugin_name = (builtin plugin_name \<noteq> None)"

definition is_retired :: "string \<Rightarrow> bool" where
  "is_retired plugin_name = (plugin_name \<in> set RETIRED_PLUGIN_NAMES)"

definition is_reserved :: "string \<Rightarrow> bool" where
  "is_reserved plugin_name = (plugin_name \<in> set RESERVED_PLUGIN_NAMES)"

definition category :: "string \<Rightarrow> plugin_category option" where
  "category plugin_name = map_option bp_category (builtin plugin_name)"

definition is_auth_plugin :: "string \<Rightarrow> bool" where
  "is_auth_plugin plugin_name = (plugin_name \<in> set AUTH_PLUGIN_NAMES)"

definition is_ai_plugin :: "string \<Rightarrow> bool" where
  "is_ai_plugin plugin_name = (category plugin_name = Some Ai)"

definition is_observability_plugin :: "string \<Rightarrow> bool" where
  "is_observability_plugin plugin_name = (plugin_name \<in> set OBSERVABILITY_PLUGIN_NAMES)"

section \<open>Effective plugins of a proxy\<close>

definition effective_priority :: "plugin_config \<Rightarrow> u16" where
  "effective_priority plugin =
     (case pc_priority_override plugin of
        Some p \<Rightarrow> p
      | None \<Rightarrow> (case builtin (pc_plugin_name plugin) of
                   Some b \<Rightarrow> bp_priority b | None \<Rightarrow> DEFAULT_PRIORITY))"

definition is_associated :: "plugin_config \<Rightarrow> proxy \<Rightarrow> bool" where
  "is_associated plugin proxy =
     list_ex (\<lambda>assoc. pa_plugin_config_id assoc = pc_id plugin) (p_plugins proxy)"

definition is_scoped_to :: "plugin_config \<Rightarrow> proxy \<Rightarrow> bool" where
  "is_scoped_to plugin proxy =
     (case pc_scope plugin of
        Global \<Rightarrow> False
      | ProxyScope \<Rightarrow> pc_proxy_id plugin = Some (p_id proxy) \<and> is_associated plugin proxy
      | ProxyGroup \<Rightarrow> is_associated plugin proxy)"

definition enabled_in_ns :: "gateway_config \<Rightarrow> proxy \<Rightarrow> plugin_config list" where
  "enabled_in_ns config proxy =
     filter (\<lambda>plugin. pc_enabled plugin \<and> pc_namespace plugin = p_namespace proxy)
       (gc_plugin_configs config)"

definition effective_plugins :: "gateway_config \<Rightarrow> proxy \<Rightarrow> plugin_config list" where
  "effective_plugins config proxy =
     (let enabled = enabled_in_ns config proxy;
          scoped = filter (\<lambda>plugin. is_scoped_to plugin proxy) enabled;
          replaced = filter (\<lambda>name. name \<notin> set SIZE_LIMIT_PLUGIN_NAMES) (map pc_plugin_name scoped);
          globals = filter (\<lambda>plugin. pc_scope plugin = Global \<and>
                              pc_plugin_name plugin \<notin> set replaced) enabled
      in sort_key effective_priority (globals @ scoped))"

section \<open>Backend scheme\<close>

definition is_stream_proxy :: "proxy \<Rightarrow> bool" where
  "is_stream_proxy proxy = (p_listen_port proxy \<noteq> None)"

definition effective_scheme :: "proxy \<Rightarrow> backend_scheme" where
  "effective_scheme proxy =
     (case p_backend_scheme proxy of
        Some s \<Rightarrow> s
      | None \<Rightarrow> if is_stream_proxy proxy then Tcp else Https)"

definition scheme_is_tls :: "backend_scheme \<Rightarrow> bool" where
  "scheme_is_tls scheme = (scheme = Https \<or> scheme = Tcps \<or> scheme = Dtls)"

definition scheme_is_http_family :: "backend_scheme \<Rightarrow> bool" where
  "scheme_is_http_family scheme = (scheme = Http \<or> scheme = Https)"

section \<open>Protocols\<close>

datatype plugin_protocol = PHttp | PGrpc | PWebSocket | PTcp | PUdp

fun plugin_protocol_as_str :: "plugin_protocol \<Rightarrow> string" where
  "plugin_protocol_as_str PHttp = ''HTTP''"
| "plugin_protocol_as_str PGrpc = ''gRPC''"
| "plugin_protocol_as_str PWebSocket = ''WebSocket''"
| "plugin_protocol_as_str PTcp = ''TCP''"
| "plugin_protocol_as_str PUdp = ''UDP''"

definition HTTP_FAMILY_PROTOCOLS :: "plugin_protocol list" where
  "HTTP_FAMILY_PROTOCOLS = [PHttp, PGrpc, PWebSocket]"

definition HTTP_ONLY_PROTOCOLS :: "plugin_protocol list" where
  "HTTP_ONLY_PROTOCOLS = [PHttp]"

definition ALL_PROTOCOLS :: "plugin_protocol list" where
  "ALL_PROTOCOLS = [PHttp, PGrpc, PWebSocket, PTcp, PUdp]"

definition CUSTOM_PLUGIN_DEFAULT_PROTOCOLS :: "plugin_protocol list" where
  "CUSTOM_PLUGIN_DEFAULT_PROTOCOLS = HTTP_ONLY_PROTOCOLS"

datatype proxy_transport = HttpFamily | TcpTransport | UdpTransport

definition is_stream :: "proxy_transport \<Rightarrow> bool" where
  "is_stream t = (t = TcpTransport \<or> t = UdpTransport)"

fun proxy_transport_as_str :: "proxy_transport \<Rightarrow> string" where
  "proxy_transport_as_str HttpFamily = ''HTTP''"
| "proxy_transport_as_str TcpTransport = ''TCP''"
| "proxy_transport_as_str UdpTransport = ''UDP''"

fun request_protocols :: "proxy_transport \<Rightarrow> plugin_protocol list" where
  "request_protocols HttpFamily = HTTP_FAMILY_PROTOCOLS"
| "request_protocols TcpTransport = [PTcp]"
| "request_protocols UdpTransport = [PUdp]"

definition proxy_transport_of :: "proxy \<Rightarrow> proxy_transport" where
  "proxy_transport_of proxy =
     (case effective_scheme proxy of
        Http \<Rightarrow> HttpFamily | Https \<Rightarrow> HttpFamily
      | Tcp \<Rightarrow> TcpTransport | Tcps \<Rightarrow> TcpTransport
      | Udp \<Rightarrow> UdpTransport | Dtls \<Rightarrow> UdpTransport)"

definition builtin_auth_protocols :: "string \<Rightarrow> plugin_protocol list" where
  "builtin_auth_protocols plugin_name =
     (if plugin_name = ''mtls_auth'' then ALL_PROTOCOLS
      else if plugin_name = ''soap_ws_security'' then HTTP_ONLY_PROTOCOLS
      else if plugin_name \<in> set AUTH_PLUGIN_NAMES then HTTP_FAMILY_PROTOCOLS
      else [])"

definition STREAM_AUTH_PLUGIN_NAMES :: "string list" where
  "STREAM_AUTH_PLUGIN_NAMES = [''mtls_auth'']"

definition http_family_auth_plugin_names :: "string list" where
  "http_family_auth_plugin_names =
     filter (\<lambda>name. list_all (\<lambda>protocol. protocol \<in> set (builtin_auth_protocols name))
                      HTTP_FAMILY_PROTOCOLS) AUTH_PLUGIN_NAMES"

definition protocol_list :: "plugin_protocol list \<Rightarrow> string" where
  "protocol_list protocols = join '', '' (map plugin_protocol_as_str protocols)"

section \<open>The authentication allowlist\<close>

definition normalize_allowlist_name :: "string \<Rightarrow> string" where
  "normalize_allowlist_name name = trim name"

definition miscased_builtin :: "string \<Rightarrow> string option" where
  "miscased_builtin name =
     (if is_builtin name then None
      else map_option bp_name (find (\<lambda>b. eq_ignore_ascii_case (bp_name b) name) BUILTIN_PLUGINS))"

record auth_allowlist =
  al_names :: "string list"
  al_custom_protocols :: "(string, plugin_protocol list) btree_map"

definition declare_protocols ::
    "string \<times> plugin_protocol list \<Rightarrow> (string, plugin_protocol list) btree_map \<Rightarrow>
     (string, plugin_protocol list) btree_map" where
  "declare_protocols entry declared =
     (let name = normalize_allowlist_name (fst entry) in
      if name = [] then declared
      else (case bt_get declared name of
              Some existing \<Rightarrow>
                bt_insert name (filter (\<lambda>protocol. protocol \<in> set (snd entry)) existing) declared
            | None \<Rightarrow> bt_insert name (snd entry) declared))"

definition auth_allowlist_new ::
    "string list \<Rightarrow> (string, plugin_protocol list) btree_map \<Rightarrow> auth_allowlist" where
  "auth_allowlist_new names custom_protocols =
     \<lparr>al_names = filter (\<lambda>name. name \<noteq> []) (map normalize_allowlist_name names),
      al_custom_protocols = fold declare_protocols custom_protocols []\<rparr>"

definition allowlist_contains :: "auth_allowlist \<Rightarrow> string \<Rightarrow> bool" where
  "allowlist_contains auth plugin_name = list_ex (\<lambda>name. name = plugin_name) (al_names auth)"

definition protocols :: "auth_allowlist \<Rightarrow> string \<Rightarrow> plugin_protocol list" where
  "protocols auth plugin_name =
     (if is_builtin plugin_name then builtin_auth_protocols plugin_name
      else (case bt_get (al_custom_protocols auth) plugin_name of
              None \<Rightarrow> CUSTOM_PLUGIN_DEFAULT_PROTOCOLS
            | Some ps \<Rightarrow> ps))"

definition runs_on :: "auth_allowlist \<Rightarrow> string \<Rightarrow> plugin_protocol \<Rightarrow> bool" where
  "runs_on auth plugin_name protocol = (protocol \<in> set (protocols auth plugin_name))"

definition listener_can_establish_identity :: "proxy \<Rightarrow> bool" where
  "listener_can_establish_identity proxy =
     (\<not> p_passthrough proxy \<and> (\<not> is_stream (proxy_transport_of proxy) \<or> p_frontend_tls proxy))"

section \<open>Authentication coverage\<close>

record auth_coverage =
  ac_transport :: proxy_transport
  ac_applicable :: "plugin_config list"
  ac_conditional :: "plugin_config list"
  ac_inapplicable :: "plugin_config list"
  ac_uncovered :: "plugin_protocol list"
  ac_listener_establishes_identity :: bool

definition is_authenticated :: "auth_coverage \<Rightarrow> bool" where
  "is_authenticated c = (ac_uncovered c = [] \<and> ac_listener_establishes_identity c)"

definition running :: "auth_coverage \<Rightarrow> plugin_config list" where
  "running c = sort_key effective_priority (ac_applicable c @ ac_conditional c)"

definition conditional_exemption_gap :: "auth_coverage \<Rightarrow> auth_allowlist \<Rightarrow> string option" where
  "conditional_exemption_gap c auth =
     (if \<not> ac_listener_establishes_identity c
      then Some ''the listener cannot establish identity because it does not terminate TLS/DTLS''
      else (let uncovered = filter (\<lambda>protocol.
                  \<not> list_ex (\<lambda>plugin. runs_on auth (pc_plugin_name plugin) protocol)
                      (ac_conditional c)) (ac_uncovered c)
            in if uncovered = [] then None
               else Some (''conditional authenticators do not run on '' @ protocol_list uncovered)))"

definition runs_on_listener :: "proxy \<Rightarrow> auth_allowlist \<Rightarrow> plugin_config \<Rightarrow> bool" where
  "runs_on_listener proxy auth plugin =
     (let transport = proxy_transport_of proxy;
          http_plugins_are_inert = (\<not> is_stream transport \<and> p_passthrough proxy)
      in \<not> http_plugins_are_inert \<and>
         list_ex (\<lambda>protocol. runs_on auth (pc_plugin_name plugin) protocol)
           (request_protocols transport))"

definition classify_authenticator ::
    "proxy \<Rightarrow> auth_allowlist \<Rightarrow> plugin_config \<Rightarrow>
     plugin_config list \<times> plugin_config list \<times> plugin_config list \<Rightarrow>
     plugin_config list \<times> plugin_config list \<times> plugin_config list" where
  "classify_authenticator proxy auth plugin acc =
     (case acc of (applicable, conditional, inapplicable) \<Rightarrow>
        if \<not> allowlist_contains auth (pc_plugin_name plugin) then acc
        else if \<not> runs_on_listener proxy auth plugin
        then (applicable, conditional, inapplicable @ [plugin])
        else if is_conditional plugin then (applicable, conditional @ [plugin], inapplicable)
        else (applicable @ [plugin], conditional, inapplicable))"

definition auth_coverage_of :: "gateway_config \<Rightarrow> proxy \<Rightarrow> auth_allowlist \<Rightarrow> auth_coverage" where
  "auth_coverage_of config proxy auth =
     (let transport = proxy_transport_of proxy;
          (applicable, conditional, inapplicable) =
            fold (classify_authenticator proxy auth) (effective_plugins config proxy) ([], [], []);
          uncovered = filter (\<lambda>protocol.
            \<not> list_ex (\<lambda>plugin. runs_on auth (pc_plugin_name plugin) protocol) applicable)
            (request_protocols transport)
      in \<lparr>ac_transport = transport, ac_applicable = applicable, ac_conditional = conditional,
          ac_inapplicable = inapplicable, ac_uncovered = uncovered,
          ac_listener_establishes_identity = listener_can_establish_identity proxy\<rparr>)"

definition plugin_instance_list :: "plugin_config list \<Rightarrow> string" where
  "plugin_instance_list plugins =
     join '', '' (map (\<lambda>plugin. pc_plugin_name plugin @ '' ('' @ pc_id plugin @ '')'') plugins)"

definition over_attached_chargeback :: "gateway_config \<Rightarrow> proxy \<Rightarrow> nat" where
  "over_attached_chargeback config proxy =
     length (filter (\<lambda>plugin. pc_plugin_name plugin = ''api_chargeback'')
       (effective_plugins config proxy))"

section \<open>Untyped plugin configuration\<close>

fun cfg_at :: "json \<Rightarrow> string list \<Rightarrow> json option" where
  "cfg_at value [] = Some value"
| "cfg_at value (key # path) =
     (case jget value key of None \<Rightarrow> None | Some v \<Rightarrow> cfg_at v path)"

definition cfg_str :: "json \<Rightarrow> string list \<Rightarrow> string option" where
  "cfg_str value path =
     (case cfg_at value path of
        None \<Rightarrow> None | Some v \<Rightarrow> map_option to_ascii_lowercase (as_str v))"

definition cfg_bool :: "json \<Rightarrow> string list \<Rightarrow> bool option" where
  "cfg_bool value path = (case cfg_at value path of None \<Rightarrow> None | Some v \<Rightarrow> as_bool v)"

definition cfg_u64 :: "json \<Rightarrow> string list \<Rightarrow> nat option" where
  "cfg_u64 value path = (case cfg_at value path of None \<Rightarrow> None | Some v \<Rightarrow> as_u64 v)"

definition cfg_array :: "json \<Rightarrow> string list \<Rightarrow> json list option" where
  "cfg_array value path = (case cfg_at value path of None \<Rightarrow> None | Some v \<Rightarrow> as_array v)"

definition WAF_ENFORCING_ACTIONS :: "string list" where
  "WAF_ENFORCING_ACTIONS = [''enforce'', ''block'', ''reject'']"

definition waf_mode :: "json \<Rightarrow> string" where
  "waf_mode config = (case cfg_str config [''mode''] of Some m \<Rightarrow> m | None \<Rightarrow> ''enforce'')"

definition waf_mode_is_passive :: "string \<Rightarrow> bool" where
  "waf_mode_is_passive mode = (mode = ''monitor'' \<or> mode = ''disabled'')"

definition is_enforcing :: "string option \<Rightarrow> bool" where
  "is_enforcing value = (case value of None \<Rightarrow> False | Some a \<Rightarrow> a \<in> set WAF_ENFORCING_ACTIONS)"

definition or_else :: "'a option \<Rightarrow> 'a option \<Rightarrow> 'a option" where
  "or_else a b = (case a of None \<Rightarrow> b | Some _ \<Rightarrow> a)"

definition unwrap_or :: "'a \<Rightarrow> 'a option \<Rightarrow> 'a" where
  "unwrap_or d x = (case x of None \<Rightarrow> d | Some y \<Rightarrow> y)"

definition and_then :: "'a option \<Rightarrow> ('a \<Rightarrow> 'b option) \<Rightarrow> 'b option" where
  "and_then x f = (case x of None \<Rightarrow> None | Some y \<Rightarrow> f y)"

definition waf_custom_rule_enforces :: "json \<Rightarrow> json \<Rightarrow> bool" where
  "waf_custom_rule_enforces config rule =
     (let rid = and_then (jget rule ''id'') as_str;
          rule_mode = and_then rid (\<lambda>i. cfg_str config [''rule_modes'', i]);
          overrides = and_then rid (\<lambda>i. cfg_at config [''rule_overrides'', i]);
          default_action = (if waf_mode config = ''enforce'' then ''enforce'' else ''monitor'');
          action = unwrap_or default_action
            (or_else (or_else rule_mode (and_then overrides (\<lambda>ov. cfg_str ov [''action''])))
              (cfg_str rule [''action'']))
      in if \<not> is_enforcing (Some action) then False
         else (let paranoia_min = unwrap_or 1
                     (or_else (and_then overrides (\<lambda>ov. cfg_u64 ov [''paranoia_min'']))
                       (cfg_u64 rule [''paranoia_min'']));
                   paranoia_level = unwrap_or 1 (cfg_u64 config [''paranoia_level''])
               in paranoia_min \<le> paranoia_level \<or> is_enforcing rule_mode))"

definition waf_has_enforcing_rule :: "json \<Rightarrow> bool" where
  "waf_has_enforcing_rule config =
     (let modes = and_then (cfg_at config [''rule_modes'']) as_object in
      if is_enforcing (cfg_str config [''default_rule_action'']) then True
      else if (case modes of
                 Some ms \<Rightarrow>
                   list_ex (\<lambda>e. is_enforcing (map_option to_ascii_lowercase (as_str (snd e)))) ms
               | None \<Rightarrow> False) then True
      else if (case and_then (cfg_at config [''rule_overrides'']) as_object of
                 Some ovs \<Rightarrow>
                   list_ex (\<lambda>e. \<not> (case modes of Some ms \<Rightarrow> bt_contains ms (fst e) | None \<Rightarrow> False) \<and>
                                is_enforcing (cfg_str (snd e) [''action''])) ovs
               | None \<Rightarrow> False) then True
      else (case cfg_array config [''custom_rules''] of
              Some custom \<Rightarrow> list_ex (waf_custom_rule_enforces config) custom
            | None \<Rightarrow> False))"

definition waf_skips_oversized_body :: "json \<Rightarrow> bool" where
  "waf_skips_oversized_body config = (cfg_str config [''on_body_too_large''] = Some ''skip'')"

definition has_local_redis_fallback :: "json \<Rightarrow> bool" where
  "has_local_redis_fallback config =
     (cfg_str config [''redis_failure_policy''] = Some ''local_fallback'')"

definition allows_uninspectable_body :: "json \<Rightarrow> bool" where
  "allows_uninspectable_body config =
     (cfg_bool config [''fail_on_uninspectable_body''] = Some False)"

end
