(* ===== verification/PolicyConfig.thy ===== *)
theory PolicyConfig
  imports Catalog
begin

text \<open>
  The policy file \<open>.gitforgeops/policies.yaml\<close> (\<open>policy/config.rs\<close>) and the finding type of
  \<open>policy/mod.rs\<close>: one record per rule configuration with the defaults of the source, and the checks
  made when the file is loaded.
\<close>

section \<open>Findings\<close>

datatype severity = Error | Warning | Info

definition severity_default :: severity where
  "severity_default = Warning"

fun severity_as_str :: "severity \<Rightarrow> string" where
  "severity_as_str Error = ''error''"
| "severity_as_str Warning = ''warning''"
| "severity_as_str Info = ''info''"

definition blocks_apply :: "severity \<Rightarrow> bool" where
  "blocks_apply s = (s = Error)"

record policy_finding =
  pf_rule_id :: string
  pf_severity :: severity
  pf_kind :: string
  pf_id :: string
  pf_namespace :: string
  pf_message :: string
  pf_remediation :: "string option"
  pf_overridden_by :: "string option"

definition is_blocking :: "policy_finding \<Rightarrow> bool" where
  "is_blocking f = (blocks_apply (pf_severity f) \<and> pf_overridden_by f = None)"

definition empty_allowlist_finding :: "string \<Rightarrow> string \<Rightarrow> policy_finding" where
  "empty_allowlist_finding rule key =
     \<lparr>pf_rule_id = rule, pf_severity = Error, pf_kind = ''PolicyConfig'', pf_id = rule,
      pf_namespace = ''global'',
      pf_message = ''enabled policy has no nonblank '' @ key @ '' entries'',
      pf_remediation = Some (''Populate '' @ key @ '' or explicitly disable '' @ rule),
      pf_overridden_by = None\<rparr>"

section \<open>Rule configurations\<close>

record timeout_band =
  tb_min :: "u64 option"
  tb_max :: "u64 option"

record timeout_bands_rule_config =
  tbr_enabled :: bool
  tbr_severity :: severity
  tbr_connect_timeout_ms :: timeout_band
  tbr_read_timeout_ms :: timeout_band
  tbr_write_timeout_ms :: timeout_band

record backend_scheme_rule_config =
  bsr_enabled :: bool
  bsr_severity :: severity
  bsr_allowed_protocols :: "string list"

record require_auth_plugin_rule_config =
  rar_enabled :: bool
  rar_severity :: severity
  rar_auth_plugin_names :: "string list"
  rar_custom_auth_plugin_protocols :: "(string, plugin_protocol list) btree_map"
  rar_conditional_auth_exemptions :: "string list"

record forbid_tls_verify_disabled_rule_config =
  ftr_enabled :: bool
  ftr_severity :: severity

record allowed_proxy_plugins_rule_config =
  apr_enabled :: bool
  apr_severity :: severity
  apr_allowed_plugin_names :: "string list"

record upstream_allowance =
  ua_namespace :: string
  ua_id :: string

record allowed_backend_domains_rule_config =
  abr_enabled :: bool
  abr_severity :: severity
  abr_allowed_domains :: "string list"
  abr_allowed_service_discovery_upstreams :: "upstream_allowance list"
  abr_allowed_service_discovery_control_plane_addresses :: "string list"
  abr_allowed_external_upstreams :: "upstream_allowance list"
  abr_allowed_dns_override_addresses :: "string list"

record waf_enforcement_rule_config =
  wer_enabled :: bool
  wer_severity :: severity
  wer_min_paranoia_level :: "u8 option"

record require_ai_guardrails_rule_config =
  gar_enabled :: bool
  gar_severity :: severity
  gar_guardrail_plugin_names :: "string list"

record rate_limit_completeness_rule_config =
  rlr_enabled :: bool
  rlr_severity :: severity

record plugin_name_is_known_rule_config =
  pnr_enabled :: bool
  pnr_severity :: severity
  pnr_allowed_extra_plugin_names :: "string list"

record priority_override_range_rule_config =
  por_enabled :: bool
  por_severity :: severity

record policy_rules =
  pol_proxy_timeout_bands :: timeout_bands_rule_config
  pol_backend_scheme :: backend_scheme_rule_config
  pol_require_auth_plugin :: require_auth_plugin_rule_config
  pol_forbid_tls_verify_disabled :: forbid_tls_verify_disabled_rule_config
  pol_allowed_proxy_plugins :: allowed_proxy_plugins_rule_config
  pol_allowed_backend_domains :: allowed_backend_domains_rule_config
  pol_waf_enforcement :: waf_enforcement_rule_config
  pol_require_ai_guardrails :: require_ai_guardrails_rule_config
  pol_rate_limit_completeness :: rate_limit_completeness_rule_config
  pol_plugin_name_is_known :: plugin_name_is_known_rule_config
  pol_priority_override_range :: priority_override_range_rule_config

record override_config =
  ov_require_label :: string
  ov_required_permission :: string

record policy_config =
  pol_version :: u32
  pol_policies :: policy_rules
  pol_overrides :: override_config

section \<open>Defaults\<close>

definition POLICY_CONFIG_VERSION :: u32 where
  "POLICY_CONFIG_VERSION = 1"

definition LEGACY_AUTH_PLUGIN_ALIASES :: "string list" where
  "LEGACY_AUTH_PLUGIN_ALIASES =
     [''jwt'', ''oauth2'', ''oidc'', ''basic-auth'', ''basic auth'', ''basicauth'', ''key-auth'',
      ''keyauth'', ''ldap-auth'', ''ldapauth'', ''hmac-auth'', ''hmacauth'', ''mtls-auth'', ''mtlsauth'']"

definition default_auth_plugin_names :: "string list" where
  "default_auth_plugin_names = AUTH_PLUGIN_NAMES @ LEGACY_AUTH_PLUGIN_ALIASES"

definition is_default_auth_plugin_name :: "string \<Rightarrow> bool" where
  "is_default_auth_plugin_name plugin_name =
     (plugin_name \<in> set AUTH_PLUGIN_NAMES \<or> plugin_name \<in> set LEGACY_AUTH_PLUGIN_ALIASES)"

definition default_ai_guardrail_names :: "string list" where
  "default_ai_guardrail_names = AI_GUARDRAIL_PLUGIN_NAMES"

definition require_auth_plugin_rule_config_default :: require_auth_plugin_rule_config where
  "require_auth_plugin_rule_config_default =
     \<lparr>rar_enabled = False, rar_severity = severity_default,
      rar_auth_plugin_names = default_auth_plugin_names,
      rar_custom_auth_plugin_protocols = [], rar_conditional_auth_exemptions = []\<rparr>"

definition require_ai_guardrails_rule_config_default :: require_ai_guardrails_rule_config where
  "require_ai_guardrails_rule_config_default =
     \<lparr>gar_enabled = False, gar_severity = severity_default,
      gar_guardrail_plugin_names = default_ai_guardrail_names\<rparr>"

definition policy_rules_default :: policy_rules where
  "policy_rules_default =
     (let band = \<lparr>tb_min = None, tb_max = None\<rparr>; s = severity_default in
     \<lparr>pol_proxy_timeout_bands =
        \<lparr>tbr_enabled = False, tbr_severity = s, tbr_connect_timeout_ms = band,
         tbr_read_timeout_ms = band, tbr_write_timeout_ms = band\<rparr>,
      pol_backend_scheme =
        \<lparr>bsr_enabled = False, bsr_severity = s, bsr_allowed_protocols = []\<rparr>,
      pol_require_auth_plugin = require_auth_plugin_rule_config_default,
      pol_forbid_tls_verify_disabled = \<lparr>ftr_enabled = False, ftr_severity = s\<rparr>,
      pol_allowed_proxy_plugins =
        \<lparr>apr_enabled = False, apr_severity = s, apr_allowed_plugin_names = []\<rparr>,
      pol_allowed_backend_domains =
        \<lparr>abr_enabled = False, abr_severity = s, abr_allowed_domains = [],
         abr_allowed_service_discovery_upstreams = [],
         abr_allowed_service_discovery_control_plane_addresses = [],
         abr_allowed_external_upstreams = [], abr_allowed_dns_override_addresses = []\<rparr>,
      pol_waf_enforcement =
        \<lparr>wer_enabled = False, wer_severity = s, wer_min_paranoia_level = None\<rparr>,
      pol_require_ai_guardrails = require_ai_guardrails_rule_config_default,
      pol_rate_limit_completeness = \<lparr>rlr_enabled = False, rlr_severity = s\<rparr>,
      pol_plugin_name_is_known =
        \<lparr>pnr_enabled = False, pnr_severity = s, pnr_allowed_extra_plugin_names = []\<rparr>,
      pol_priority_override_range = \<lparr>por_enabled = False, por_severity = s\<rparr>\<rparr>)"

definition override_config_default :: override_config where
  "override_config_default =
     \<lparr>ov_require_label = ''gitforgeops/policy-override'', ov_required_permission = ''write''\<rparr>"

definition policy_config_default :: policy_config where
  "policy_config_default =
     \<lparr>pol_version = POLICY_CONFIG_VERSION, pol_policies = policy_rules_default,
      pol_overrides = override_config_default\<rparr>"

section \<open>The authentication allowlist of a repository\<close>

definition auth_allowlist_of :: "require_auth_plugin_rule_config \<Rightarrow> auth_allowlist" where
  "auth_allowlist_of c =
     auth_allowlist_new (rar_auth_plugin_names c) (rar_custom_auth_plugin_protocols c)"

definition has_conditional_auth_exemption ::
    "require_auth_plugin_rule_config \<Rightarrow> string \<Rightarrow> string \<Rightarrow> bool" where
  "has_conditional_auth_exemption c namespace proxy_id =
     (let identity = namespace @ ''/'' @ proxy_id in
      list_ex (\<lambda>exemption. exemption = identity) (rar_conditional_auth_exemptions c))"

definition effective_auth_allowlist :: "policy_config option \<Rightarrow> auth_allowlist" where
  "effective_auth_allowlist policy =
     auth_allowlist_of
       (case policy of
          Some cfg \<Rightarrow> pol_require_auth_plugin (pol_policies cfg)
        | None \<Rightarrow> require_auth_plugin_rule_config_default)"

section \<open>Checks at load time\<close>

datatype policy_config_error =
    UnsupportedPolicyVersion u32
  | BadPermission string
  | ExemptionWildcard string
  | ExemptionShape string
  | ExemptionDuplicate string
  | NotAnAuthenticator string
  | DeclaredTwice string string string
  | DeclaresBuiltin string
  | DeclaresLegacyAlias string
  | DeclaresUnlisted string
  | MiscasedBuiltin string string string

definition valid_component :: "string \<Rightarrow> bool" where
  "valid_component part =
     (part \<noteq> [] \<and> part \<noteq> ''.'' \<and> part \<noteq> ''..'' \<and>
      list_all (\<lambda>byte. is_ascii_alphanumeric byte \<or> byte \<in> set ''_.-'') part)"

definition check_exemption ::
    "string \<Rightarrow> string list \<Rightarrow> (policy_config_error, string list) result" where
  "check_exemption exemption seen =
     (if CHR ''*'' \<in> set exemption then Inl (ExemptionWildcard exemption)
      else if (case split_on CHR ''/'' exemption of
                 [a, b] \<Rightarrow> \<not> valid_component a \<or> \<not> valid_component b
               | _ \<Rightarrow> True)
      then Inl (ExemptionShape exemption)
      else if bs_contains exemption seen then Inl (ExemptionDuplicate exemption)
      else Inr (bs_insert exemption seen))"

definition check_authenticator_name :: "string \<Rightarrow> unit \<Rightarrow> (policy_config_error, unit) result" where
  "check_authenticator_name name u =
     (let trimmed = normalize_allowlist_name name in
      if is_builtin trimmed \<and> \<not> is_auth_plugin trimmed then Inl (NotAnAuthenticator name) else Inr ())"

definition check_declaration ::
    "auth_allowlist \<Rightarrow> string \<Rightarrow> (string, string) btree_map \<Rightarrow>
     (policy_config_error, (string, string) btree_map) result" where
  "check_declaration allowlist name declared =
     (let trimmed = normalize_allowlist_name name in
      case bt_get declared trimmed of
        Some previous \<Rightarrow> Inl (DeclaredTwice trimmed previous name)
      | None \<Rightarrow>
          if is_builtin trimmed then Inl (DeclaresBuiltin name)
          else if to_ascii_lowercase trimmed \<in> set LEGACY_AUTH_PLUGIN_ALIASES
          then Inl (DeclaresLegacyAlias name)
          else if \<not> allowlist_contains allowlist trimmed then Inl (DeclaresUnlisted name)
          else Inr (bt_insert trimmed name declared))"

definition validate_require_auth_plugin ::
    "require_auth_plugin_rule_config \<Rightarrow> (policy_config_error, unit) result" where
  "validate_require_auth_plugin c =
     bind_result (fold_result check_exemption (rar_conditional_auth_exemptions c) [])
       (\<lambda>_. bind_result (fold_result check_authenticator_name (rar_auth_plugin_names c) ())
         (\<lambda>_. bind_result
           (fold_result (check_declaration (auth_allowlist_of c))
              (bt_keys (rar_custom_auth_plugin_protocols c)) [])
           (\<lambda>_. Inr ())))"

definition check_spelling ::
    "string \<Rightarrow> string list \<Rightarrow> string \<Rightarrow> unit \<Rightarrow> (policy_config_error, unit) result" where
  "check_spelling field declared_custom entry u =
     (let trimmed = normalize_allowlist_name entry in
      if list_ex (\<lambda>declared. normalize_allowlist_name declared = trimmed) declared_custom then Inr ()
      else (case miscased_builtin trimmed of
              Some b \<Rightarrow> Inl (MiscasedBuiltin field entry b)
            | None \<Rightarrow> Inr ()))"

definition refuse_miscased_builtins ::
    "string \<Rightarrow> string list \<Rightarrow> string list \<Rightarrow> (policy_config_error, unit) result" where
  "refuse_miscased_builtins field entries declared_custom =
     fold_result (check_spelling field declared_custom) entries ()"

definition validate_plugin_name_allowlists :: "policy_rules \<Rightarrow> (policy_config_error, unit) result" where
  "validate_plugin_name_allowlists rules =
     (let declared = pnr_allowed_extra_plugin_names (pol_plugin_name_is_known rules);
          auth = pol_require_auth_plugin rules
      in bind_result (refuse_miscased_builtins ''require_auth_plugin.auth_plugin_names''
            (rar_auth_plugin_names auth) declared) (\<lambda>_.
         bind_result (refuse_miscased_builtins ''require_auth_plugin.custom_auth_plugin_protocols''
            (bt_keys (rar_custom_auth_plugin_protocols auth)) declared) (\<lambda>_.
         bind_result (refuse_miscased_builtins ''allowed_proxy_plugins.allowed_plugin_names''
            (apr_allowed_plugin_names (pol_allowed_proxy_plugins rules)) declared) (\<lambda>_.
         refuse_miscased_builtins ''require_ai_guardrails.guardrail_plugin_names''
            (gar_guardrail_plugin_names (pol_require_ai_guardrails rules)) declared))))"

section \<open>Override permissions\<close>

definition VALID_PERMISSIONS :: "string list" where
  "VALID_PERMISSIONS = [''read'', ''triage'', ''write'', ''maintain'', ''admin'']"

fun position :: "'a \<Rightarrow> 'a list \<Rightarrow> nat option" where
  "position x [] = None"
| "position x (y # ys) = (if x = y then Some 0 else map_option Suc (position x ys))"

definition permission_rank :: "string \<Rightarrow> nat option" where
  "permission_rank permission = position permission VALID_PERMISSIONS"

definition is_sufficient :: "override_config \<Rightarrow> string \<Rightarrow> bool" where
  "is_sufficient c actual =
     (case (permission_rank actual, permission_rank (ov_required_permission c)) of
        (Some a, Some r) \<Rightarrow> r \<le> a
      | _ \<Rightarrow> False)"

definition validate_overrides :: "override_config \<Rightarrow> (policy_config_error, unit) result" where
  "validate_overrides c =
     (if permission_rank (ov_required_permission c) = None
      then Inl (BadPermission (ov_required_permission c)) else Inr ())"

text \<open>\<open>load_policies_from_path\<close> once the file is parsed.\<close>

definition check_policies :: "policy_config \<Rightarrow> (policy_config_error, policy_config) result" where
  "check_policies loaded =
     (if pol_version loaded \<noteq> POLICY_CONFIG_VERSION
      then Inl (UnsupportedPolicyVersion (pol_version loaded))
      else bind_result (validate_overrides (pol_overrides loaded)) (\<lambda>_.
           bind_result (validate_plugin_name_allowlists (pol_policies loaded)) (\<lambda>_.
           bind_result (validate_require_auth_plugin (pol_require_auth_plugin (pol_policies loaded))) (\<lambda>_.
             Inr loaded))))"

end
