(* ===== verification/Breaking.thy ===== *)
theory Breaking
  imports Diff PolicyConfig
begin

text \<open>
  \<open>diff/breaking.rs\<close>: which of the changes of a diff strand clients.  Deleted proxies and consumers,
  routing and listener changes of a proxy, authentication plugins that are deleted, disabled or
  renamed, and, whatever its cause, an authenticator that runs on a proxy before the apply and no
  longer runs on it afterwards.
\<close>

record breaking_change =
  bc_kind :: string
  bc_id :: string
  bc_reason :: string

type_synonym reported_plugins = "(string \<times> string) set"

section \<open>The plugin configurations after the apply\<close>

definition diff_action_of :: "resource_diff list \<Rightarrow> string \<Rightarrow> string \<Rightarrow> string \<Rightarrow> diff_action option" where
  "diff_action_of ds kind ns rid =
     map_option rd_action
       (find (\<lambda>d. rd_kind d = kind \<and> rd_namespace d = ns \<and> rd_id d = rid) ds)"

definition plugin_row :: "plugin_config list \<Rightarrow> string \<Rightarrow> string \<Rightarrow> plugin_config option" where
  "plugin_row ps ns rid = find (\<lambda>p. pc_namespace p = ns \<and> pc_id p = rid) ps"

definition project_declared :: "resource_diff list \<Rightarrow> gateway_config \<Rightarrow> plugin_config \<Rightarrow> plugin_config list" where
  "project_declared ds actual plugin =
     (case (diff_action_of ds ''PluginConfig'' (pc_namespace plugin) (pc_id plugin),
            plugin_row (gc_plugin_configs actual) (pc_namespace plugin) (pc_id plugin)) of
        (Some Add, _) \<Rightarrow> [plugin]
      | (Some Modify, _) \<Rightarrow> [plugin]
      | (None, None) \<Rightarrow> [plugin]
      | (None, Some live) \<Rightarrow> [live]
      | (Some Delete, _) \<Rightarrow> [])"

definition survives_undeclared :: "resource_diff list \<Rightarrow> gateway_config \<Rightarrow> plugin_config \<Rightarrow> bool" where
  "survives_undeclared ds desired live \<longleftrightarrow>
     \<not> list_ex (\<lambda>p. pc_namespace p = pc_namespace live \<and> pc_id p = pc_id live) (gc_plugin_configs desired) \<and>
     diff_action_of ds ''PluginConfig'' (pc_namespace live) (pc_id live) \<noteq> Some Delete"

definition projected_plugin_configs ::
    "resource_diff list \<Rightarrow> gateway_config \<Rightarrow> gateway_config \<Rightarrow> plugin_config list" where
  "projected_plugin_configs ds desired actual =
     concat (map (project_declared ds actual) (gc_plugin_configs desired)) @
     filter (survives_undeclared ds desired) (gc_plugin_configs actual)"

section \<open>Authenticators a proxy runs\<close>

fun push_provider :: "plugin_config \<Rightarrow> (string \<times> string list) list \<Rightarrow> (string \<times> string list) list" where
  "push_provider plugin [] = [(pc_plugin_name plugin, [pc_id plugin])]"
| "push_provider plugin (e # es) =
     (if fst e = pc_plugin_name plugin then (fst e, snd e @ [pc_id plugin]) # es
      else e # push_provider plugin es)"

definition running_authenticators :: "auth_coverage \<Rightarrow> (string \<times> string list) list" where
  "running_authenticators coverage =
     (if \<not> ac_listener_establishes_identity coverage then []
      else fold push_provider (running coverage) [])"

definition proxy_row :: "proxy list \<Rightarrow> string \<Rightarrow> string \<Rightarrow> proxy option" where
  "proxy_row ps ns rid = find (\<lambda>p. p_namespace p = ns \<and> p_id p = rid) ps"

definition after_proxy :: "resource_diff list \<Rightarrow> gateway_config \<Rightarrow> proxy \<Rightarrow> proxy option" where
  "after_proxy ds desired live =
     (case diff_action_of ds ''Proxy'' (p_namespace live) (p_id live) of
        Some Delete \<Rightarrow> None
      | Some Modify \<Rightarrow>
          Some (case proxy_row (gc_proxies desired) (p_namespace live) (p_id live) of
                  Some p \<Rightarrow> p | None \<Rightarrow> live)
      | _ \<Rightarrow> Some live)"

definition coverage_consequence :: "auth_coverage \<Rightarrow> auth_coverage \<Rightarrow> string" where
  "coverage_consequence before after =
     (if running_authenticators after = [] then
        (if ac_applicable after \<noteq> [] \<or> ac_conditional after \<noteq> [] \<or> ac_inapplicable after \<noteq> []
         then '', which is left with no running authenticator''
         else '', which is left with no enabled authenticator'')
      else
        let newly_uncovered = filter (\<lambda>protocol. protocol \<notin> set (ac_uncovered before)) (ac_uncovered after) in
        if newly_uncovered = [] then []
        else '', which leaves its '' @ protocol_list newly_uncovered @ '' requests unauthenticated'')"

definition loses_authenticator :: "proxy \<Rightarrow> string \<Rightarrow> string \<Rightarrow> breaking_change" where
  "loses_authenticator live name consequence =
     \<lparr>bc_kind = ''Proxy'', bc_id = p_id live,
      bc_reason = ''proxy '' @ p_namespace live @ ''/'' @ p_id live @ '' loses authenticator '' @ name @
        '' '' @ em_dash @ '' consumer credentials for it no longer apply on this proxy'' @ consequence\<rparr>"

definition lost_authenticators ::
    "auth_allowlist \<Rightarrow> reported_plugins \<Rightarrow> gateway_config \<Rightarrow> gateway_config \<Rightarrow> proxy \<Rightarrow> proxy \<Rightarrow>
     breaking_change list" where
  "lost_authenticators auth reported actual projected live after_apply =
     (let before = auth_coverage_of actual live auth;
          after = auth_coverage_of projected after_apply auth;
          kept = map fst (running_authenticators after) in
      map (\<lambda>e. loses_authenticator live (fst e) (coverage_consequence before after))
        (filter (\<lambda>e. fst e \<notin> set kept \<and> \<not> list_all (\<lambda>i. (p_namespace live, i) \<in> reported) (snd e))
          (running_authenticators before)))"

definition projected_config ::
    "resource_diff list \<Rightarrow> gateway_config \<Rightarrow> gateway_config \<Rightarrow> gateway_config" where
  "projected_config ds desired actual =
     gateway_config_default\<lparr>gc_plugin_configs := projected_plugin_configs ds desired actual\<rparr>"

definition check_proxy_auth_coverage ::
    "resource_diff list \<Rightarrow> gateway_config \<Rightarrow> gateway_config \<Rightarrow> auth_allowlist \<Rightarrow> reported_plugins \<Rightarrow>
     breaking_change list" where
  "check_proxy_auth_coverage ds desired actual auth reported =
     concat (map (\<lambda>live.
       case after_proxy ds desired live of
         None \<Rightarrow> []
       | Some after_apply \<Rightarrow>
           lost_authenticators auth reported actual (projected_config ds desired actual) live after_apply)
       (gc_proxies actual))"

section \<open>Changes of one row\<close>

definition find_plugin_config :: "gateway_config \<Rightarrow> resource_diff \<Rightarrow> plugin_config option" where
  "find_plugin_config config diff =
     find (\<lambda>p. pc_id p = rd_id diff \<and> pc_namespace p = rd_namespace diff) (gc_plugin_configs config)"

definition check_auth_plugin_modify ::
    "resource_diff \<Rightarrow> gateway_config \<Rightarrow> gateway_config \<Rightarrow> auth_allowlist \<Rightarrow> breaking_change list" where
  "check_auth_plugin_modify diff desired actual auth =
     (case (find_plugin_config desired diff, find_plugin_config actual diff) of
        (Some d, Some a) \<Rightarrow>
          if \<not> pc_enabled a \<or> \<not> allowlist_contains auth (pc_plugin_name a) then []
          else
            (if pc_plugin_name d \<noteq> pc_plugin_name a
             then [\<lparr>bc_kind = ''PluginConfig'', bc_id = rd_id diff,
                bc_reason = ''Auth plugin plugin_name changed ('' @ pc_plugin_name a @ '' -> '' @
                  pc_plugin_name d @ '') '' @ em_dash @
                  '' consumer credentials for the previous authenticator no longer apply''\<rparr>] else []) @
            (if \<not> pc_enabled d
             then [\<lparr>bc_kind = ''PluginConfig'', bc_id = rd_id diff,
                bc_reason = ''Auth plugin disabled (enabled: true -> false) '' @ em_dash @
                  '' proxies it guarded stop authenticating with it''\<rparr>] else [])
      | _ \<Rightarrow> [])"

definition proxy_change :: "resource_diff \<Rightarrow> bool \<Rightarrow> string \<Rightarrow> breaking_change list" where
  "proxy_change diff changes reason =
     (if changes then [\<lparr>bc_kind = ''Proxy'', bc_id = rd_id diff, bc_reason = reason\<rparr>] else [])"

definition check_proxy_breaking_fields ::
    "resource_diff \<Rightarrow> gateway_config \<Rightarrow> gateway_config \<Rightarrow> breaking_change list" where
  "check_proxy_breaking_fields diff desired actual =
     (case (proxy_row (gc_proxies desired) (rd_namespace diff) (rd_id diff),
            proxy_row (gc_proxies actual) (rd_namespace diff) (rd_id diff)) of
        (Some d, Some a) \<Rightarrow>
          proxy_change diff (p_listen_path d \<noteq> p_listen_path a) ''listen_path changed'' @
          proxy_change diff (p_hosts d \<noteq> p_hosts a) ''hosts changed'' @
          proxy_change diff (effective_scheme d \<noteq> effective_scheme a) ''backend_scheme changed'' @
          proxy_change diff (p_upstream_subset d \<noteq> p_upstream_subset a)
            (''upstream_subset changed '' @ em_dash @
             '' traffic is rerouted to a different set of upstream targets'') @
          proxy_change diff (p_listen_port d \<noteq> p_listen_port a)
            (''listen_port changed '' @ em_dash @
             '' the old listener is torn down and existing connections are dropped'') @
          proxy_change diff (p_frontend_tls d \<noteq> p_frontend_tls a)
            (''frontend_tls changed ('' @ show_bool (p_frontend_tls a) @ '' -> '' @ show_bool (p_frontend_tls d) @
             '') '' @ em_dash @ '' clients must switch between plaintext and TLS on this listener'') @
          proxy_change diff (p_passthrough d \<noteq> p_passthrough a)
            (''passthrough changed ('' @ show_bool (p_passthrough a) @ '' -> '' @ show_bool (p_passthrough d) @
             '') '' @ em_dash @
             '' TLS termination moves between the gateway and the backend, and plugins stop or start seeing traffic'')
      | _ \<Rightarrow> [])"

section \<open>The report\<close>

definition breaking_step ::
    "gateway_config \<Rightarrow> gateway_config \<Rightarrow> auth_allowlist \<Rightarrow> resource_diff \<Rightarrow>
     breaking_change list \<times> reported_plugins \<Rightarrow> breaking_change list \<times> reported_plugins" where
  "breaking_step desired actual auth diff acc =
     (case rd_action diff of
        Delete \<Rightarrow>
          let deleted = (\<lambda>reason. \<lparr>bc_kind = rd_kind diff, bc_id = rd_id diff, bc_reason = reason\<rparr>) in
          if rd_kind diff = ''Proxy'' then (fst acc @ [deleted ''Proxy deleted''], snd acc)
          else if rd_kind diff = ''Consumer'' then (fst acc @ [deleted ''Consumer deleted''], snd acc)
          else if rd_kind diff = ''PluginConfig'' \<and>
            (case find_plugin_config actual diff of
               Some p \<Rightarrow> allowlist_contains auth (pc_plugin_name p) | None \<Rightarrow> False)
          then (fst acc @ [deleted ''Auth plugin deleted''],
                insert (rd_namespace diff, rd_id diff) (snd acc))
          else acc
      | Modify \<Rightarrow>
          if rd_kind diff = ''Proxy''
          then (fst acc @ check_proxy_breaking_fields diff desired actual, snd acc)
          else if rd_kind diff = ''PluginConfig'' then
            let found = check_auth_plugin_modify diff desired actual auth in
            (fst acc @ found,
             if found \<noteq> [] then insert (rd_namespace diff, rd_id diff) (snd acc) else snd acc)
          else acc
      | Add \<Rightarrow> acc)"

definition detect_breaking_changes_with_policy ::
    "resource_diff list \<Rightarrow> gateway_config \<Rightarrow> gateway_config \<Rightarrow> policy_config option \<Rightarrow>
     breaking_change list" where
  "detect_breaking_changes_with_policy ds desired actual policy =
     (let auth = effective_auth_allowlist policy;
          (breaking, reported) = fold (breaking_step desired actual auth) ds ([], {}) in
      breaking @ check_proxy_auth_coverage ds desired actual auth reported)"

definition detect_breaking_changes ::
    "resource_diff list \<Rightarrow> gateway_config \<Rightarrow> gateway_config \<Rightarrow> breaking_change list" where
  "detect_breaking_changes ds desired actual =
     detect_breaking_changes_with_policy ds desired actual None"

end
