(* ===== verification/NamespaceDiffs.thy ===== *)
theory NamespaceDiffs
  imports Reconcile Breaking
begin

text \<open>
  The diff over all namespaces of a run with its breaking changes (\<open>compute_diffs_for_pairs\<close> in \<open>main.rs\<close>).  The
  guarantees of \<open>Reconcile_Facts\<close> speak of the diff alone; here it is shown to be the first part of the whole answer.
\<close>

section \<open>The code\<close>

definition namespace_diffs_step ::
    "iter_order \<Rightarrow> codec \<Rightarrow> ownership_scope \<Rightarrow> diff_options \<Rightarrow> policy_config option \<Rightarrow> snapshot \<Rightarrow>
     diff_result \<times> breaking_change list \<Rightarrow> (config_error, diff_result \<times> breaking_change list) result" where
  "namespace_diffs_step order codec scope options policy pair acc =
     bind_result
       (compute_diff_with_options order codec (fst (snd pair)) (snd (snd pair)) scope options)
       (\<lambda>r. Inr (extend_result (fst acc) r,
          snd acc @ detect_breaking_changes_with_policy (dr_diffs r) (fst (snd pair)) (snd (snd pair)) policy))"

definition namespace_diffs_for_pairs ::
    "iter_order \<Rightarrow> codec \<Rightarrow> snapshot list \<Rightarrow> string set option \<Rightarrow> diff_options \<Rightarrow> policy_config option \<Rightarrow>
     (config_error, diff_result \<times> breaking_change list) result" where
  "namespace_diffs_for_pairs order codec pairs fence options policy =
     fold_result (namespace_diffs_step order codec (ownership_scope_of fence) options policy) pairs
       (diff_result_default, [])"

section \<open>Its diff\<close>

lemma namespace_diffs_fold:
  "map_sum id fst (fold_result (namespace_diffs_step order codec scope options policy) pairs (acc, breaking)) =
     fold_result (diff_pair order codec scope options) pairs acc"
proof (induction pairs arbitrary: acc breaking)
  case (Cons pair pairs)
  show ?case
  proof (cases "compute_diff_with_options order codec (fst (snd pair)) (snd (snd pair)) scope options")
    case (Inl e)
    then show ?thesis by (simp add: namespace_diffs_step_def diff_pair_def)
  next
    case (Inr r)
    then show ?thesis using Cons.IH by (simp add: namespace_diffs_step_def diff_pair_def)
  qed
qed simp

lemma namespace_diffs_result:
  "map_sum id fst (namespace_diffs_for_pairs order codec pairs fence options policy) =
     compute_diffs_for_pairs order codec pairs fence options"
  by (simp add: namespace_diffs_for_pairs_def compute_diffs_for_pairs_def namespace_diffs_fold)

text \<open>And its breaking changes are those of the namespaces, in order.\<close>

lemma namespace_diffs_breaking:
  assumes "fold_result (namespace_diffs_step order codec scope options policy) pairs (acc, breaking) = Inr (res, changes)"
  shows "changes = breaking @ concat (map (\<lambda>(ns, desired, actual).
    case compute_diff_with_options order codec desired actual scope options of
      Inr r \<Rightarrow> detect_breaking_changes_with_policy (dr_diffs r) desired actual policy | Inl e \<Rightarrow> []) pairs)"
  using assms
proof (induction pairs arbitrary: acc breaking)
  case (Cons pair pairs)
  show ?case
  proof (cases "compute_diff_with_options order codec (fst (snd pair)) (snd (snd pair)) scope options")
    case (Inl e)
    then show ?thesis using Cons.prems by (simp add: namespace_diffs_step_def)
  next
    case (Inr r)
    then show ?thesis
      using Cons.prems Cons.IH[of "extend_result acc r" "breaking @
          detect_breaking_changes_with_policy (dr_diffs r) (fst (snd pair)) (snd (snd pair)) policy"]
      by (simp add: namespace_diffs_step_def split_beta)
  qed
qed simp

end
