(* ===== verification/Compare.thy ===== *)
theory Compare
  imports Diff
begin

text \<open>
  What the field comparison of two resources reports.  The facts are proved in the interface
  \<open>managed_kind\<close>, so they hold for each of the four kinds through its interpretation.
\<close>

lemma jget_object_iff: "v = JObject m \<Longrightarrow> jget v k = bt_get m k"
  by simp

lemma set_bt_get: "bt_wf m \<Longrightarrow> (k, v) \<in> set m \<longleftrightarrow> bt_get m k = Some v"
  by (auto simp: bt_get_def bt_wf_def strict_sorted_iff)

lemma normalize_object:
  assumes "bt_wf m"
  shows "\<exists>n. normalize_associations_for_comparison kind (JObject m) = JObject n \<and> bt_wf n \<and>
    dom (bt_get n) = dom (bt_get m)"
  using assms
  by (auto simp: normalize_associations_for_comparison_def map_simps insert_absorb dom_def
      split: option.splits json.splits)

lemma fields_concat:
  assumes "\<And>k v. (k, v) \<in> set es \<Longrightarrow> fc_field ` set (f k v) = (if P k v then {k} else {})"
  shows "fc_field ` set (concat (map (\<lambda>(k, v). f k v) es)) = {k. \<exists>v. (k, v) \<in> set es \<and> P k v}"
proof -
  have "fc_field ` set (concat (map (\<lambda>(k, v). f k v) es)) =
      (\<Union>(k, v) \<in> set es. fc_field ` set (f k v))"
    by (simp add: image_UN case_prod_beta)
  also have "\<dots> = (\<Union>(k, v) \<in> set es. if P k v then {k} else {})"
    by (intro SUP_cong refl) (use assms in auto)
  also have "\<dots> = {k. \<exists>v. (k, v) \<in> set es \<and> P k v}"
    by (auto split: if_splits)
  finally show ?thesis .
qed

lemma fields_declared:
  assumes "bt_wf d_map"
  shows "fc_field ` set (declared_changes to_str kind d0 a0 d_map a_map) =
    {k. \<not> is_timestamp k \<and> bt_get d_map k \<noteq> None \<and>
      bt_get d_map k \<noteq> Some (jget_or_null (JObject a_map) k)}"
proof -
  have "fc_field ` set (declared_changes to_str kind d0 a0 d_map a_map) =
      {k. \<exists>v. (k, v) \<in> set d_map \<and> \<not> is_timestamp k \<and> v \<noteq> jget_or_null (JObject a_map) k}"
    unfolding declared_changes_def by (rule fields_concat) (simp add: Let_def)
  also have "\<dots> = {k. \<not> is_timestamp k \<and> bt_get d_map k \<noteq> None \<and>
      bt_get d_map k \<noteq> Some (jget_or_null (JObject a_map) k)}"
    by (auto simp: set_bt_get[OF assms])
  finally show ?thesis .
qed

lemma fields_live_only:
  assumes "bt_wf a_map"
  shows "fc_field ` set (live_only_changes to_str d_extra a_extra d_map a_map) =
    {k. \<not> is_timestamp k \<and> bt_get a_map k \<noteq> None \<and> bt_get d_map k = None \<and>
      \<not> (bt_contains a_extra k \<and> \<not> bt_contains d_extra k)}"
proof -
  have "fc_field ` set (live_only_changes to_str d_extra a_extra d_map a_map) =
      {k. \<exists>v. (k, v) \<in> set a_map \<and> \<not> is_timestamp k \<and> \<not> bt_contains d_map k \<and>
        \<not> (bt_contains a_extra k \<and> \<not> bt_contains d_extra k)}"
    unfolding live_only_changes_def by (rule fields_concat) simp
  also have "\<dots> = {k. \<not> is_timestamp k \<and> bt_get a_map k \<noteq> None \<and> bt_get d_map k = None \<and>
      \<not> (bt_contains a_extra k \<and> \<not> bt_contains d_extra k)}"
    by (auto simp: set_bt_get[OF assms] bt_contains_def)
  finally show ?thesis .
qed

definition compared :: "string \<Rightarrow> json \<Rightarrow> string \<Rightarrow> json option" where
  "compared kind v k = jget (normalize_associations_for_comparison kind v) k"

lemma compared_None: "compared kind (proxy_to_value r) k = None \<longleftrightarrow> jget (proxy_to_value r) k = None"
proof -
  obtain m where m: "proxy_to_value r = JObject m" "bt_wf m" by (rule proxy_kind.to_value_cases)
  obtain n where n: "normalize_associations_for_comparison kind (JObject m) = JObject n"
    "dom (bt_get n) = dom (bt_get m)"
    using normalize_object[OF m(2), of kind] by blast
  then have "bt_get n k = None \<longleftrightarrow> bt_get m k = None" by (metis domIff)
  then show ?thesis by (simp add: compared_def m n)
qed

definition reported ::
    "(string \<Rightarrow> json option) \<Rightarrow> (string \<Rightarrow> json option) \<Rightarrow> (string, json) btree_map \<Rightarrow> string \<Rightarrow> bool"
  where
  "reported dv av a_extra k =
     (\<not> is_timestamp k \<and>
      (case dv k of
         Some v \<Rightarrow> v \<noteq> (case av k of None \<Rightarrow> JNull | Some w \<Rightarrow> w)
       | None \<Rightarrow> av k \<noteq> None \<and> \<not> bt_contains a_extra k))"

context managed_kind
begin

lemma fields_reported:
  assumes "bt_wf (passthrough d)"
  shows "fc_field ` set (compare_fields to_str to_value passthrough kind d a) =
    {k. reported (compared kind (to_value d)) (compared kind (to_value a)) (passthrough a) k}"
proof -
  obtain dm am where m: "to_value d = JObject dm" "bt_wf dm" "to_value a = JObject am" "bt_wf am"
    by (metis to_value_cases)
  obtain dn an where n:
    "normalize_associations_for_comparison kind (JObject dm) = JObject dn" "bt_wf dn"
    "dom (bt_get dn) = dom (bt_get dm)"
    "normalize_associations_for_comparison kind (JObject am) = JObject an" "bt_wf an"
    using normalize_object[OF m(2), of kind] normalize_object[OF m(4), of kind] by auto
  have c: "compared kind (to_value d) = bt_get dn" "compared kind (to_value a) = bt_get an"
    by (auto simp: compared_def m n)
  have e: "\<not> bt_contains (passthrough d) k" if "bt_get dn k = None" for k
  proof -
    have "bt_get dm k = None" using that n(3) by (metis domIff)
    then show ?thesis using passthrough_key[OF assms, of k] m(1) by auto
  qed
  show ?thesis
  proof (cases "dn = an")
    case True
    then show ?thesis
      unfolding c by (auto simp: compare_fields_def Let_def m n reported_def split: option.splits)
  next
    case False
    have "compare_fields to_str to_value passthrough kind d a =
        declared_changes to_str kind (JObject dm) (JObject am) dn an @
        live_only_changes to_str (passthrough d) (passthrough a) dn an"
      using False by (simp add: compare_fields_def Let_def m n)
    then show ?thesis
      unfolding c using e
      by (auto simp: image_Un fields_declared[OF n(2)] fields_live_only[OF n(5)] reported_def
          jget_or_null_def split: option.splits)
  qed
qed

lemma no_change_self: "compare_fields to_str to_value passthrough kind r r = []"
  by (simp add: compare_fields_def)

end

section \<open>Association order\<close>

lemma association_id_value: "association_id (plugin_association_to_value a) = Some (pa_plugin_config_id a)"
  by (simp add: association_id_def plugin_association_to_value_def jget_jstruct fld_def)

lemma association_value_inject:
  "association_id (plugin_association_to_value a) = association_id (plugin_association_to_value b) \<Longrightarrow>
     plugin_association_to_value a = plugin_association_to_value b"
  unfolding association_id_value by (simp add: plugin_association_to_value_def)

lemma sorted_associations:
  assumes "mset ps = mset qs"
  shows "sort_key association_id (map plugin_association_to_value ps) =
    sort_key association_id (map plugin_association_to_value qs)"
proof (rule sort_key_inj_key_eq)
  show "mset (map plugin_association_to_value ps) =
      mset (sort_key association_id (map plugin_association_to_value qs))"
    using assms by simp
  show "inj_on association_id (set (map plugin_association_to_value ps))"
    by (rule inj_onI) (use association_value_inject in auto)
qed simp

lemma not_in_field:
  "k \<noteq> n \<Longrightarrow> k \<notin> fst ` set (fld n v)"
  "k \<noteq> n \<Longrightarrow> k \<notin> fst ` set (opt_fld n f x)"
  by (auto simp: fld_def opt_fld_def split: option.splits)

lemma proxy_struct_split:
  assumes "\<not> bt_contains (p_extra p) ''plugins''"
  obtains A B where "''plugins'' \<notin> fst ` set B"
    and "\<And>ps. proxy_to_value (p\<lparr>p_plugins := ps\<rparr>) =
      jstruct (A @ (''plugins'', JArray (map plugin_association_to_value ps)) # B)"
proof
  let ?B = "opt_fld ''pool_idle_timeout_seconds'' jword (p_pool_idle_timeout_seconds p) @
      opt_fld ''pool_enable_http_keep_alive'' JBool (p_pool_enable_http_keep_alive p) @
      opt_fld ''pool_enable_http2'' JBool (p_pool_enable_http2 p) @
      opt_fld ''pool_tcp_keepalive_seconds'' jword (p_pool_tcp_keepalive_seconds p) @
      opt_fld ''pool_http2_keep_alive_interval_seconds''
        jword (p_pool_http2_keep_alive_interval_seconds p) @
      opt_fld ''pool_http2_keep_alive_timeout_seconds''
        jword (p_pool_http2_keep_alive_timeout_seconds p) @
      opt_fld ''pool_http2_initial_stream_window_size''
        jword (p_pool_http2_initial_stream_window_size p) @
      opt_fld ''pool_http2_initial_connection_window_size''
        jword (p_pool_http2_initial_connection_window_size p) @
      opt_fld ''pool_http2_adaptive_window'' JBool (p_pool_http2_adaptive_window p) @
      opt_fld ''pool_http2_max_frame_size'' jword (p_pool_http2_max_frame_size p) @
      opt_fld ''pool_http2_max_concurrent_streams'' jword (p_pool_http2_max_concurrent_streams p) @
      opt_fld ''pool_http3_connections_per_backend''
        jword (p_pool_http3_connections_per_backend p) @
      opt_fld ''pool_max_requests_per_connection'' jword (p_pool_max_requests_per_connection p) @
      opt_fld ''upstream_id'' JString (p_upstream_id p) @
      opt_fld ''upstream_subset'' JString (p_upstream_subset p) @
      opt_fld ''api_spec_id'' JString (p_api_spec_id p) @
      opt_fld ''circuit_breaker'' circuit_breaker_config_to_value (p_circuit_breaker p) @
      opt_fld ''retry'' retry_config_to_value (p_retry p) @
      fld ''response_body_mode'' (JString (response_body_mode_str (p_response_body_mode p))) @
      opt_fld ''listen_port'' jword (p_listen_port p) @
      fld ''frontend_tls'' (JBool (p_frontend_tls p)) @
      fld ''passthrough'' (JBool (p_passthrough p)) @
      fld ''udp_idle_timeout_seconds'' (jword (p_udp_idle_timeout_seconds p)) @
      opt_fld ''udp_max_response_amplification_factor''
        jf32 (p_udp_max_response_amplification_factor p) @
      opt_fld ''tcp_idle_timeout_seconds'' jword (p_tcp_idle_timeout_seconds p) @
      opt_fld ''websocket_idle_timeout_seconds'' jword (p_websocket_idle_timeout_seconds p) @
      opt_fld ''stream_proxy_protocol'' JBool (p_stream_proxy_protocol p) @
      opt_fld ''backend_proxy_protocol''
        (JString \<circ> backend_proxy_protocol_str) (p_backend_proxy_protocol p) @
      opt_fld ''stream_match'' stream_match_criteria_to_value (p_stream_match p) @
      opt_fld ''allowed_methods'' jstrs (p_allowed_methods p) @
      fld ''allowed_ws_origins'' (jstrs (p_allowed_ws_origins p)) @
      opt_fld ''created_at'' JString (p_created_at p) @
      opt_fld ''updated_at'' JString (p_updated_at p) @ p_extra p"
  show "''plugins'' \<notin> fst ` set ?B"
    using assms by (simp add: image_Un not_in_field bt_contains_def bt_get_def map_of_eq_None_iff
        del: keys_fields)
  let ?A = "map_fld ''labels'' (p_labels p) @
      fld ''id'' (JString (p_id p)) @
      opt_fld ''name'' JString (p_name p) @
      fld ''namespace'' (JString (p_namespace p)) @
      fld ''hosts'' (jstrs (p_hosts p)) @
      opt_fld ''listen_path'' JString (p_listen_path p) @
      opt_fld ''backend_scheme'' (JString \<circ> backend_scheme_str) (p_backend_scheme p) @
      fld ''backend_host'' (JString (p_backend_host p)) @
      fld ''backend_port'' (jword (p_backend_port p)) @
      opt_fld ''backend_path'' JString (p_backend_path p) @
      fld ''strip_listen_path'' (JBool (p_strip_listen_path p)) @
      fld ''preserve_host_header'' (JBool (p_preserve_host_header p)) @
      fld ''allow_path_parameters'' (JBool (p_allow_path_parameters p)) @
      fld ''backend_connect_timeout_ms'' (jword (p_backend_connect_timeout_ms p)) @
      fld ''backend_read_timeout_ms'' (jword (p_backend_read_timeout_ms p)) @
      fld ''backend_write_timeout_ms'' (jword (p_backend_write_timeout_ms p)) @
      opt_fld ''backend_tls_client_cert_path'' JString (p_backend_tls_client_cert_path p) @
      opt_fld ''backend_tls_client_key_path'' JString (p_backend_tls_client_key_path p) @
      fld ''backend_tls_verify_server_cert'' (JBool (p_backend_tls_verify_server_cert p)) @
      opt_fld ''backend_tls_server_ca_cert_path'' JString (p_backend_tls_server_ca_cert_path p) @
      opt_fld ''dns_override'' JString (p_dns_override p) @
      opt_fld ''dns_cache_ttl_seconds'' jword (p_dns_cache_ttl_seconds p) @
      fld ''auth_mode'' (JString (auth_mode_str (p_auth_mode p)))"
  show "proxy_to_value (p\<lparr>p_plugins := ps\<rparr>) =
      jstruct (?A @ (''plugins'', JArray (map plugin_association_to_value ps)) # ?B)" for ps
    by (simp add: proxy_to_value_def fld_def[of "''plugins''"])
qed

lemma normalized_proxy:
  assumes "\<not> bt_contains (p_extra p) ''plugins''" and "mset ps = mset qs"
  shows "normalize_associations_for_comparison ''Proxy'' (proxy_to_value (p\<lparr>p_plugins := ps\<rparr>)) =
    normalize_associations_for_comparison ''Proxy'' (proxy_to_value (p\<lparr>p_plugins := qs\<rparr>))"
proof -
  obtain A B where ab: "''plugins'' \<notin> fst ` set B"
    "\<And>ps. proxy_to_value (p\<lparr>p_plugins := ps\<rparr>) =
      jstruct (A @ (''plugins'', JArray (map plugin_association_to_value ps)) # B)"
    by (rule proxy_struct_split[OF assms(1)]) (rule that, assumption+)
  have n: "normalize_associations_for_comparison ''Proxy'' (proxy_to_value (p\<lparr>p_plugins := ps\<rparr>)) =
      jstruct (A @ (''plugins'', JArray (sort_key association_id
        (map plugin_association_to_value ps))) # B)" for ps
    unfolding ab(2)
    by (simp add: normalize_associations_for_comparison_def jstruct_def jget_jstruct_here[OF ab(1)]
        jstruct_insert[OF ab(1), unfolded jstruct_def, simplified])
  show ?thesis by (simp add: n sorted_associations[OF assms(2)])
qed

section \<open>Guarantees\<close>

text \<open>
  The comparison of two proxies reports exactly the right fields.  After the plugin
  associations are put in a canonical order, a field is reported when it is no timestamp and either
  the repository declares it with a value other than the live one (an absent live field counting
  as \<open>null\<close>), or only the live proxy has it and it is a modelled field; an unknown field that
  only the live proxy carries is never drift.
\<close>

theorem proxy_fields_exact:
  "bt_wf (p_extra desired) \<Longrightarrow>
   fc_field ` set (compare_fields to_str proxy_to_value p_extra ''Proxy'' desired actual) =
     {k. reported (compared ''Proxy'' (proxy_to_value desired))
        (compared ''Proxy'' (proxy_to_value actual)) (p_extra actual) k}"
  by (rule proxy_kind.fields_reported)

text \<open>
  The order of a proxy's plugin associations is not drift: a live proxy that differs from the
  declared one only in that order is reported unchanged.
\<close>

theorem association_order_no_drift:
  "\<not> bt_contains (p_extra p) ''plugins'' \<and> mset ps = mset (p_plugins p) \<Longrightarrow>
   compare_fields to_str proxy_to_value p_extra ''Proxy'' p (p\<lparr>p_plugins := ps\<rparr>) = []"
proof -
  assume "\<not> bt_contains (p_extra p) ''plugins'' \<and> mset ps = mset (p_plugins p)"
  then have "normalize_associations_for_comparison ''Proxy'' (proxy_to_value (p\<lparr>p_plugins := ps\<rparr>)) =
      normalize_associations_for_comparison ''Proxy''
        (proxy_to_value (p\<lparr>p_plugins := p_plugins p\<rparr>))"
    by (intro normalized_proxy) simp_all
  then show ?thesis by (simp add: compare_fields_def Let_def)
qed

text \<open>A live proxy with an unknown field of its own, and one whose associations are reordered.\<close>

theorem proxy_fields_exact_witness:
  "''new_gateway_field'' \<notin> fc_field ` set (compare_fields (\<lambda>_. []) proxy_to_value p_extra ''Proxy''
     (bare_proxy ''ns'' ''a'') (bare_proxy ''ns'' ''a''
        \<lparr>p_preserve_host_header := True, p_extra := [(''new_gateway_field'', JBool True)]\<rparr>))"
proof -
  have "bt_wf (p_extra (bare_proxy ''ns'' ''a''))" by (simp add: bare_proxy_def)
  moreover have "compared ''Proxy'' (proxy_to_value (bare_proxy ''ns'' ''a'')) ''new_gateway_field'' = None"
    unfolding compared_None unfolding proxy_to_value_def
    by (simp add: jget_jstruct map_of_eq_None_iff image_Un not_in_field bare_proxy_def fld_def
        opt_fld_def map_fld_def)
  ultimately show ?thesis
    by (simp add: proxy_fields_exact reported_def bt_contains_def bt_get_def)
qed

theorem association_order_no_drift_witness:
  "compare_fields (\<lambda>_. []) proxy_to_value p_extra ''Proxy''
     (bare_proxy ''ns'' ''a''\<lparr>p_plugins := [\<lparr>pa_plugin_config_id = ''x''\<rparr>, \<lparr>pa_plugin_config_id = ''y''\<rparr>]\<rparr>)
     (bare_proxy ''ns'' ''a''\<lparr>p_plugins := [\<lparr>pa_plugin_config_id = ''y''\<rparr>, \<lparr>pa_plugin_config_id = ''x''\<rparr>]\<rparr>) = []"
  using association_order_no_drift[of "bare_proxy ''ns'' ''a''\<lparr>p_plugins :=
      [\<lparr>pa_plugin_config_id = ''x''\<rparr>, \<lparr>pa_plugin_config_id = ''y''\<rparr>]\<rparr>"
      "[\<lparr>pa_plugin_config_id = ''y''\<rparr>, \<lparr>pa_plugin_config_id = ''x''\<rparr>]" "\<lambda>_. []"]
  by (simp add: bare_proxy_def bt_contains_def bt_get_def)

end
