(* ===== verification/Diff_Modify.thy ===== *)
theory Diff_Modify
  imports Diff_Safety Compare
begin

text \<open>
  What a diff modifies, in terms of the serialized rows alone: \<open>config_drift\<close> gives every declared row that
  differs from its live row, with the fields in which it differs, and the diff is shown to modify exactly
  those rows and to name exactly those fields.
\<close>

section \<open>Drift\<close>

text \<open>
  A declaration repeated in the document counts with its last row.  Fields are compared after the plugin
  associations are put in order; \<open>reported\<close> leaves out timestamps and unknown fields of the live row.
\<close>

definition last_with :: "('r \<Rightarrow> 'k) \<Rightarrow> 'r list \<Rightarrow> 'r \<Rightarrow> bool" where
  "last_with key rs r \<longleftrightarrow> (\<exists>pre post. rs = pre @ r # post \<and> key r \<notin> key ` set post)"

definition drifting_fields ::
    "('r \<Rightarrow> json) \<Rightarrow> ('r \<Rightarrow> (string, json) btree_map) \<Rightarrow> string \<Rightarrow> 'r \<Rightarrow> 'r \<Rightarrow> string set" where
  "drifting_fields to_value passthrough kind d a =
     {f. reported (compared kind (to_value d)) (compared kind (to_value a)) (passthrough a) f}"

definition drift_of ::
    "('r \<Rightarrow> json) \<Rightarrow> ('r \<Rightarrow> (string, json) btree_map) \<Rightarrow> string \<Rightarrow> ('r \<Rightarrow> resource_key) \<Rightarrow> ('r \<Rightarrow> string option) \<Rightarrow>
     'r list \<Rightarrow> 'r list \<Rightarrow> (resource_key \<times> string set) set" where
  "drift_of to_value passthrough kind key tag ds as =
     {(k, F). \<exists>d a. last_with key ds d \<and> a \<in> set as \<and> key d = k \<and> key a = k \<and> tag a = None \<and>
        F = drifting_fields to_value passthrough kind d a \<and> F \<noteq> {}}"

definition config_drift :: "gateway_config \<Rightarrow> gateway_config \<Rightarrow> (resource_key \<times> string set) set" where
  "config_drift desired actual =
     drift_of proxy_to_value p_extra ''Proxy'' proxy_key p_api_spec_id (gc_proxies desired) (gc_proxies actual) \<union>
     drift_of consumer_to_value c_extra ''Consumer'' consumer_key (\<lambda>_. None)
       (gc_consumers desired) (gc_consumers actual) \<union>
     drift_of upstream_to_value u_extra ''Upstream'' upstream_key u_api_spec_id
       (gc_upstreams desired) (gc_upstreams actual) \<union>
     drift_of plugin_config_to_value pc_extra ''PluginConfig'' plugin_config_key pc_api_spec_id
       (gc_plugin_configs desired) (gc_plugin_configs actual)"

text \<open>The maps of unknown fields are maps: sorted by key, each key once.\<close>

definition maps_wf :: "gateway_config \<Rightarrow> bool" where
  "maps_wf config \<longleftrightarrow> list_all (bt_wf \<circ> p_extra) (gc_proxies config) \<and>
     list_all (bt_wf \<circ> c_extra) (gc_consumers config) \<and> list_all (bt_wf \<circ> u_extra) (gc_upstreams config) \<and>
     list_all (bt_wf \<circ> pc_extra) (gc_plugin_configs config)"

section \<open>One kind\<close>

lemma last_with_Nil: "\<not> last_with key [] r"
  by (simp add: last_with_def)

lemma last_with_Cons:
  "last_with key (x # rs) r \<longleftrightarrow> last_with key rs r \<or> r = x \<and> key r \<notin> key ` set rs"
  by (auto simp: last_with_def Cons_eq_append_conv)

lemma drift_of_Nil: "drift_of to_value passthrough kind key tag [] as = {}"
  by (simp add: drift_of_def last_with_Nil)

lemma drift_ofI:
  assumes "last_with key ds d" and "a \<in> set as" and "key a = key d" and "tag a = None"
    and "drifting_fields to_value passthrough kind d a = F" and "F \<noteq> {}"
  shows "(key d, F) \<in> drift_of to_value passthrough kind key tag ds as"
  using assms unfolding drift_of_def by blast

lemma hash_map_last: "hash_map key rs k = Some r \<longleftrightarrow> last_with key rs r \<and> key r = k"
proof (induction rs)
  case Nil
  then show ?case by (simp add: hash_map_def last_with_def)
next
  case (Cons x rs)
  have step: "hash_map key (x # rs) k =
      (case hash_map key rs k of None \<Rightarrow> if key x = k then Some x else None | Some y \<Rightarrow> Some y)"
    by (auto simp: hash_map_def map_add_def split: option.splits)
  show ?case
  proof (cases "hash_map key rs k")
    case None
    then have "k \<notin> key ` set rs" by (simp add: hash_map_None)
    then show ?thesis using None Cons.IH by (auto simp: step last_with_Cons)
  next
    case (Some y)
    then have "k \<in> key ` set rs" using hash_map_key[OF Some] by auto
    then show ?thesis using Some Cons.IH by (auto simp: step last_with_Cons)
  qed
qed

lemma last_with_member: "last_with key rs r \<Longrightarrow> r \<in> set rs"
  by (auto simp: last_with_def)

lemma redact_fields: "map fc_field (redact_sensitive_leaves to_str from_str kind cs) = map fc_field cs"
  by (simp add: redact_sensitive_leaves_def comp_def)

lemma redacted_fields:
  "fc_field ` set (redact_sensitive_leaves to_str from_str kind cs) = fc_field ` set cs"
  using arg_cong[OF redact_fields, of set] by simp

lemma details_fields:
  assumes "fc_field ` set (compare_fields (fst codec) to_value passthrough kind d a) =
    drifting_fields to_value passthrough kind d a"
  shows "fc_field ` set (details_of codec to_value passthrough kind d a) = drifting_fields to_value passthrough kind d a"
    and "details_of codec to_value passthrough kind d a = [] \<longleftrightarrow> drifting_fields to_value passthrough kind d a = {}"
proof -
  show e: "fc_field ` set (details_of codec to_value passthrough kind d a) = drifting_fields to_value passthrough kind d a"
    by (simp add: details_of_def redacted_fields assms)
  show "details_of codec to_value passthrough kind d a = [] \<longleftrightarrow> drifting_fields to_value passthrough kind d a = {}"
    unfolding e[symmetric] by simp
qed

definition named :: "resource_diff \<Rightarrow> resource_key \<times> string set" where
  "named x = (rd_key x, fc_field ` set (rd_details x))"

lemma row_modify_iff:
  "row_diff ops ctx dm am k = Some x \<and> rd_action x = Modify \<longleftrightarrow>
     (\<exists>d a. dm k = Some d \<and> am k = Some a \<and> ko_spec ops a = None \<and> ko_details ops d a \<noteq> [] \<and>
        x = entry Modify (ko_kind ops) k (ko_details ops d a))"
  by (auto simp: row_diff_def entry_def split: option.splits if_splits)

lemma rows_drift:
  assumes key: "\<And>r. kkey ops r = key r"
    and details: "\<And>d a. d \<in> set desired \<Longrightarrow> a \<in> set actual \<Longrightarrow>
      fc_field ` set (ko_details ops d a) = drifting_fields to_value passthrough kind d a"
    and distinct: "distinct (map (ko_key ops) actual)"
  shows "named ` {x \<in> set (rows row_diff ops ctx desired actual). rd_action x = Modify} =
    drift_of to_value passthrough kind key (ko_spec ops) desired actual"
proof -
  have same: "key r = key r' \<longleftrightarrow> ko_key ops r = ko_key ops r'" for r r'
    by (simp add: key[symmetric] kkey_def prod_eq_iff)
  have last: "last_with key desired d \<longleftrightarrow> last_with (ko_key ops) desired d" for d
    by (simp add: last_with_def image_iff same)
  have kept: "hash_map (ko_key ops) actual k = Some a \<longleftrightarrow> a \<in> set actual \<and> ko_key ops a = k" for k a
    using hash_map_key[of "ko_key ops" actual k a] hash_map_unique[OF distinct, of a] by auto
  have one: "named (entry Modify (ko_kind ops) (ko_key ops d) (ko_details ops d a)) =
      (key d, drifting_fields to_value passthrough kind d a)"
    if "d \<in> set desired" "a \<in> set actual" for d a
    using details[OF that] by (simp add: named_def entry_def rd_key_def key[symmetric] kkey_def)
  have none: "ko_details ops d a \<noteq> [] \<longleftrightarrow> drifting_fields to_value passthrough kind d a \<noteq> {}"
    if "d \<in> set desired" "a \<in> set actual" for d a
    unfolding details[OF that, symmetric] by simp
  show ?thesis
  proof (intro equalityI subsetI)
    fix y assume "y \<in> named ` {x \<in> set (rows row_diff ops ctx desired actual). rd_action x = Modify}"
    then obtain x where x: "y = named x" "x \<in> set (rows row_diff ops ctx desired actual)" "rd_action x = Modify"
      by blast
    then obtain k where "row_diff ops ctx (hash_map (ko_key ops) desired) (hash_map (ko_key ops) actual) k = Some x \<and>
        rd_action x = Modify" unfolding rows_iff by blast
    then obtain d a where da: "hash_map (ko_key ops) desired k = Some d" "hash_map (ko_key ops) actual k = Some a"
      "ko_spec ops a = None" "ko_details ops d a \<noteq> []" "x = entry Modify (ko_kind ops) k (ko_details ops d a)"
      unfolding row_modify_iff by blast
    have d: "last_with key desired d" "ko_key ops d = k" "d \<in> set desired"
      using da(1) last_with_member by (auto simp: hash_map_last last)
    have a: "a \<in> set actual" "ko_key ops a = k" using da(2) by (auto simp: kept)
    have "key a = key d" using d(2) a(2) by (simp add: same)
    moreover have "y = (key d, drifting_fields to_value passthrough kind d a)"
      using one[OF d(3) a(1)] da(5) d(2) x(1) by simp
    ultimately show "y \<in> drift_of to_value passthrough kind key (ko_spec ops) desired actual"
      using d(1) a(1) da(3,4) none[OF d(3) a(1)] unfolding drift_of_def by blast
  next
    fix y assume "y \<in> drift_of to_value passthrough kind key (ko_spec ops) desired actual"
    then obtain d a where da: "last_with key desired d" "a \<in> set actual" "key a = key d" "ko_spec ops a = None"
      "drifting_fields to_value passthrough kind d a \<noteq> {}" "y = (key d, drifting_fields to_value passthrough kind d a)"
      unfolding drift_of_def by blast
    have d: "d \<in> set desired" by (rule last_with_member[OF da(1)])
    let ?x = "entry Modify (ko_kind ops) (ko_key ops d) (ko_details ops d a)"
    have "hash_map (ko_key ops) desired (ko_key ops d) = Some d"
      using da(1) by (simp add: hash_map_last last)
    moreover have "hash_map (ko_key ops) actual (ko_key ops d) = Some a"
      using da(2,3) by (simp add: kept same)
    moreover have "ko_details ops d a \<noteq> []" using none[OF d da(2)] da(5) by simp
    ultimately have "row_diff ops ctx (hash_map (ko_key ops) desired) (hash_map (ko_key ops) actual)
        (ko_key ops d) = Some ?x \<and> rd_action ?x = Modify"
      unfolding row_modify_iff using da(4) by blast
    then have "?x \<in> set (rows row_diff ops ctx desired actual)" "rd_action ?x = Modify"
      using d unfolding rows_iff by blast+
    moreover have "y = named ?x" using one[OF d da(2)] da(6) by simp
    ultimately show "y \<in> named ` {x \<in> set (rows row_diff ops ctx desired actual). rd_action x = Modify}"
      by blast
  qed
qed

section \<open>The four kinds\<close>

lemma details_exact:
  "bt_wf (p_extra p) \<Longrightarrow> fc_field ` set (ko_details (proxy_ops codec) p p') =
     drifting_fields proxy_to_value p_extra ''Proxy'' p p'"
  "bt_wf (c_extra c) \<Longrightarrow> fc_field ` set (ko_details (consumer_ops codec) c c') =
     drifting_fields consumer_to_value c_extra ''Consumer'' c c'"
  "bt_wf (u_extra u) \<Longrightarrow> fc_field ` set (ko_details (upstream_ops codec) u u') =
     drifting_fields upstream_to_value u_extra ''Upstream'' u u'"
  "bt_wf (pc_extra g) \<Longrightarrow> fc_field ` set (ko_details (plugin_config_ops codec) g g') =
     drifting_fields plugin_config_to_value pc_extra ''PluginConfig'' g g'"
  by (simp_all add: proxy_ops_def consumer_ops_def upstream_ops_def plugin_config_ops_def details_of_def
      redacted_fields proxy_kind.fields_reported consumer_kind.fields_reported upstream_kind.fields_reported
      plugin_config_kind.fields_reported drifting_fields_def)

lemma diff_rows_modifies:
  assumes d: "distinct (config_keys actual)" and wf: "maps_wf desired"
  shows "named ` {x \<in> set (diff_rows codec ctx desired actual). rd_action x = Modify} =
    config_drift desired actual"
proof -
  have s: "{x \<in> set (diff_rows codec ctx desired actual). rd_action x = Modify} =
      {x \<in> set (rows row_diff (proxy_ops codec) ctx
        (gc_proxies desired) (gc_proxies actual)). rd_action x = Modify} \<union>
      {x \<in> set (rows row_diff (consumer_ops codec) ctx
        (gc_consumers desired) (gc_consumers actual)). rd_action x = Modify} \<union>
      {x \<in> set (rows row_diff (upstream_ops codec) ctx
        (gc_upstreams desired) (gc_upstreams actual)). rd_action x = Modify} \<union>
      {x \<in> set (rows row_diff (plugin_config_ops codec) ctx
        (gc_plugin_configs desired) (gc_plugin_configs actual)). rd_action x = Modify}"
    by (auto simp: diff_rows_def all_rows_def)
  have wf': "p \<in> set (gc_proxies desired) \<Longrightarrow> bt_wf (p_extra p)"
    "c \<in> set (gc_consumers desired) \<Longrightarrow> bt_wf (c_extra c)"
    "u \<in> set (gc_upstreams desired) \<Longrightarrow> bt_wf (u_extra u)"
    "g \<in> set (gc_plugin_configs desired) \<Longrightarrow> bt_wf (pc_extra g)" for p c u g
    using wf by (simp_all add: maps_wf_def list_all_iff)
  note p = rows_drift[where ops = "proxy_ops codec" and key = proxy_key,
      OF _ details_exact(1)[OF wf'(1)] distinct_parts(1)[OF d]]
  note c = rows_drift[where ops = "consumer_ops codec" and key = consumer_key,
      OF _ details_exact(2)[OF wf'(2)] distinct_parts(2)[OF d]]
  note u = rows_drift[where ops = "upstream_ops codec" and key = upstream_key,
      OF _ details_exact(3)[OF wf'(3)] distinct_parts(3)[OF d]]
  note g = rows_drift[where ops = "plugin_config_ops codec" and key = plugin_config_key,
      OF _ details_exact(4)[OF wf'(4)] distinct_parts(4)[OF d]]
  show ?thesis
    unfolding s image_Un config_drift_def
    by (simp add: p c u g)
qed

section \<open>The guarantee\<close>

text \<open>
  C15.  Additions and modifications are exact.  A successful diff adds precisely the declared resources
  that are not live, and modifies precisely the declared resources whose live row differs and is not
  owned by an API-spec import; each modification names precisely the fields that differ.  A field differs when its
  declared value is not the live one (an absent live field counts as null), or when only the live row has it
  and it is not one of that row's unknown fields; timestamps and the order of plugin associations do not
  count, and of a declaration repeated under one key the last counts.
\<close>

theorem adds_and_modifies_exact:
  "good_order order \<and> maps_wf desired \<and>
   compute_diff_with_options order codec desired actual scope options = Inr r \<Longrightarrow>
   rd_key ` {d \<in> set (dr_diffs r). rd_action d = Add} =
     set (config_keys desired) - set (config_keys actual) \<and>
   (\<lambda>d. (rd_key d, fc_field ` set (rd_details d))) ` {d \<in> set (dr_diffs r). rd_action d = Modify} =
     config_drift desired actual"
  using compute_diff_ok[of order codec desired actual scope options r] diff_rows_adds
    diff_rows_modifies[of actual desired codec "ctx_of scope options"]
  by (auto simp: named_def[abs_def])

text \<open>A consumer whose username changed and one that is new.\<close>

definition renamed_consumer :: consumer where
  "renamed_consumer = (example_consumer ''old'')\<lparr>c_username := ''v''\<rparr>"

definition renamed_config :: gateway_config where
  "renamed_config = gateway_config_default\<lparr>gc_consumers := [renamed_consumer, example_consumer ''new'']\<rparr>"

abbreviation renamed_run :: "(config_error, diff_result) result" where
  "renamed_run \<equiv> compute_diff_with_options example_order example_codec renamed_config
     (example_config [''admin'', ''old'']) example_scope \<lparr>do_prune_spec_owned = True\<rparr>"

lemma renamed_drift:
  "drifting_fields consumer_to_value c_extra ''Consumer'' renamed_consumer (example_consumer ''old'') = {''username''}"
proof -
  have "fc_field ` set (compare_fields (\<lambda>_. []) consumer_to_value c_extra ''Consumer'' renamed_consumer
      (example_consumer ''old'')) = {''username''}"
    by code_simp
  moreover have "bt_wf (c_extra renamed_consumer)" by code_simp
  ultimately show ?thesis
    using consumer_kind.fields_reported[where to_str = "\<lambda>_. []" and d = renamed_consumer and
        a = "example_consumer ''old''"]
    by (simp add: drifting_fields_def)
qed

lemma renamed_changes:
  "config_drift renamed_config (example_config [''admin'', ''old'']) =
     {((''team'', ''Consumer'', ''old''), {''username''})}"
proof -
  have keys: "consumer_key renamed_consumer = (''team'', ''Consumer'', ''old'')"
    "consumer_key (example_consumer i) = (''team'', ''Consumer'', i)" for i
    by (simp_all add: renamed_consumer_def example_consumer_def consumer_key_def)
  have last: "last_with consumer_key [renamed_consumer, example_consumer ''new''] d \<longleftrightarrow>
      d = renamed_consumer \<or> d = example_consumer ''new''" for d
    by (auto simp: last_with_Cons last_with_Nil keys)
  have "drift_of consumer_to_value c_extra ''Consumer'' consumer_key (\<lambda>_. None)
      [renamed_consumer, example_consumer ''new''] [example_consumer ''admin'', example_consumer ''old''] =
      {((''team'', ''Consumer'', ''old''), {''username''})}"
  proof (rule equalityI)
    show "drift_of consumer_to_value c_extra ''Consumer'' consumer_key (\<lambda>_. None)
        [renamed_consumer, example_consumer ''new''] [example_consumer ''admin'', example_consumer ''old''] \<subseteq>
      {((''team'', ''Consumer'', ''old''), {''username''})}"
      unfolding drift_of_def by (auto simp: last keys renamed_drift)
  next
    show "{((''team'', ''Consumer'', ''old''), {''username''})} \<subseteq>
      drift_of consumer_to_value c_extra ''Consumer'' consumer_key (\<lambda>_. None)
        [renamed_consumer, example_consumer ''new''] [example_consumer ''admin'', example_consumer ''old'']"
      using drift_ofI[where key = consumer_key and d = renamed_consumer and a = "example_consumer ''old''", OF _ _ _ _
          renamed_drift] last keys by simp
  qed
  then show ?thesis
    by (simp add: drift_of_Nil config_drift_def renamed_config_def example_config_def gateway_config_default_def)
qed

theorem adds_and_modifies_exact_witness:
  "\<exists>r. renamed_run = Inr r \<and>
     rd_key ` {d \<in> set (dr_diffs r). rd_action d = Add} = {(''team'', ''Consumer'', ''new'')} \<and>
     (\<lambda>d. (rd_key d, fc_field ` set (rd_details d))) ` {d \<in> set (dr_diffs r). rd_action d = Modify} =
       {((''team'', ''Consumer'', ''old''), {''username''})}"
proof -
  have "validate_unique_live_resource_keys (example_config [''admin'', ''old'']) = Inr ()"
    by (simp add: validate_unique_live_ok_iff)
  then obtain r where r: "renamed_run = Inr r"
    by (auto simp: compute_diff_eq[OF example_good] Let_def)
  have wf: "maps_wf renamed_config" by code_simp
  have "config_keys renamed_config = [(''team'', ''Consumer'', ''old''), (''team'', ''Consumer'', ''new'')]"
    by (simp add: renamed_config_def renamed_consumer_def config_keys_def gateway_config_default_def
        consumer_key_def example_consumer_def)
  then have sets: "set (config_keys renamed_config) - set (config_keys (example_config [''admin'', ''old''])) =
      {(''team'', ''Consumer'', ''new'')}"
    by auto
  show ?thesis
    using adds_and_modifies_exact[OF conjI[OF example_good conjI[OF wf r]], unfolded sets renamed_changes] r
    by (intro exI[of _ r] conjI) (rule r, erule conjunct1, erule conjunct2)
qed

end
