(* ===== verification/PolicyRules.thy ===== *)
theory PolicyRules
  imports PolicyConfig Config
begin

text \<open>
  The policy rules of \<open>policy/rules/\<close>, one evaluation function per rule, with the texts of their
  findings.  The rule on backend domains has a theory of its own.

  The Unicode \<open>str::to_lowercase\<close>, used on the entries of one allowlist, is the parameter \<open>lower\<close>.
\<close>

definition mk_finding ::
    "string \<Rightarrow> severity \<Rightarrow> string \<Rightarrow> string \<Rightarrow> string \<Rightarrow> string \<Rightarrow> string \<Rightarrow> policy_finding" where
  "mk_finding rule s kind rid ns message remediation =
     \<lparr>pf_rule_id = rule, pf_severity = s, pf_kind = kind, pf_id = rid, pf_namespace = ns,
      pf_message = message, pf_remediation = Some remediation, pf_overridden_by = None\<rparr>"

definition blank_entry :: "string \<Rightarrow> bool" where
  "blank_entry s = (trim s = [])"

definition usable_names :: "string list \<Rightarrow> string list" where
  "usable_names entries = filter (\<lambda>s. s \<noteq> []) (map normalize_allowlist_name entries)"

section \<open>Timeout bands\<close>

definition check_field ::
    "string \<Rightarrow> string \<Rightarrow> u64 \<Rightarrow> timeout_band \<Rightarrow> severity \<Rightarrow> string \<Rightarrow> string \<Rightarrow> policy_finding list" where
  "check_field rule field v band s proxy_id proxy_namespace =
     (let above = (case tb_max band of
            Some mx \<Rightarrow>
              if mx < v
              then [mk_finding rule s ''Proxy'' proxy_id proxy_namespace
                      (field @ ''='' @ show_nat (unat v) @ '' exceeds the maximum allowed ('' @
                       show_nat (unat mx) @ '')'')
                      (''Set '' @ field @ '' to at most '' @ show_nat (unat mx))]
              else []
          | None \<Rightarrow> [])
      in case tb_min band of
           Some mn \<Rightarrow>
             if v < mn
             then [mk_finding rule s ''Proxy'' proxy_id proxy_namespace
                     (field @ ''='' @ show_nat (unat v) @ '' is below the minimum allowed ('' @
                      show_nat (unat mn) @ '')'')
                     (''Set '' @ field @ '' to at least '' @ show_nat (unat mn))]
             else above
         | None \<Rightarrow> above)"

definition timeout_bands_evaluate ::
    "timeout_bands_rule_config \<Rightarrow> gateway_config \<Rightarrow> policy_finding list" where
  "timeout_bands_evaluate c cfg =
     (if \<not> tbr_enabled c then []
      else concat (map (\<lambda>p.
        check_field ''proxy_timeout_bands.connect_timeout_ms'' ''backend_connect_timeout_ms''
          (p_backend_connect_timeout_ms p) (tbr_connect_timeout_ms c) (tbr_severity c)
          (p_id p) (p_namespace p) @
        check_field ''proxy_timeout_bands.read_timeout_ms'' ''backend_read_timeout_ms''
          (p_backend_read_timeout_ms p) (tbr_read_timeout_ms c) (tbr_severity c)
          (p_id p) (p_namespace p) @
        check_field ''proxy_timeout_bands.write_timeout_ms'' ''backend_write_timeout_ms''
          (p_backend_write_timeout_ms p) (tbr_write_timeout_ms c) (tbr_severity c)
          (p_id p) (p_namespace p)) (gc_proxies cfg)))"

section \<open>Backend scheme\<close>

definition add_allowed_scheme :: "(string \<Rightarrow> string) \<Rightarrow> string \<Rightarrow> string list \<Rightarrow> string list" where
  "add_allowed_scheme lower entry allowed =
     (let lowered = lower (trim entry) in
      if lowered = [] then allowed
      else (let canonical = (case backend_scheme_from_wire lowered of
                  Some scheme \<Rightarrow> backend_scheme_str scheme | None \<Rightarrow> lowered)
            in if canonical \<in> set allowed then allowed else allowed @ [canonical]))"

definition allowed_schemes :: "(string \<Rightarrow> string) \<Rightarrow> string list \<Rightarrow> string list" where
  "allowed_schemes lower entries = fold (add_allowed_scheme lower) entries []"

definition backend_scheme_evaluate ::
    "(string \<Rightarrow> string) \<Rightarrow> backend_scheme_rule_config \<Rightarrow> gateway_config \<Rightarrow> policy_finding list" where
  "backend_scheme_evaluate lower c cfg =
     (if \<not> bsr_enabled c then []
      else if list_all blank_entry (bsr_allowed_protocols c)
      then [empty_allowlist_finding ''backend_scheme'' ''allowed_protocols'']
      else let allowed = allowed_schemes lower (bsr_allowed_protocols c);
               listing = join '', '' allowed
           in map (\<lambda>p.
                mk_finding ''backend_scheme'' (bsr_severity c) ''Proxy'' (p_id p) (p_namespace p)
                  (''backend_scheme='' @ backend_scheme_str (effective_scheme p) @
                   '' is not in the allowed list ('' @ listing @ '')'')
                  (''Change backend_scheme to one of: '' @ listing))
              (filter (\<lambda>p. backend_scheme_str (effective_scheme p) \<notin> set allowed) (gc_proxies cfg)))"

section \<open>TLS verification, plugin names, priorities\<close>

definition tls_remediation :: string where
  "tls_remediation = ''Remove backend_tls_verify_server_cert: false; trust the backend certificate via a CA bundle instead''"

definition forbid_tls_verify_disabled_evaluate ::
    "forbid_tls_verify_disabled_rule_config \<Rightarrow> gateway_config \<Rightarrow> policy_finding list" where
  "forbid_tls_verify_disabled_evaluate c cfg =
     (if \<not> ftr_enabled c then []
      else map (\<lambda>p. mk_finding ''forbid_tls_verify_disabled'' (ftr_severity c) ''Proxy''
                    (p_id p) (p_namespace p) ''backend_tls_verify_server_cert is disabled''
                    tls_remediation)
             (filter (\<lambda>p. \<not> p_backend_tls_verify_server_cert p) (gc_proxies cfg)) @
           map (\<lambda>u. mk_finding ''forbid_tls_verify_disabled'' (ftr_severity c) ''Upstream''
                    (u_id u) (u_namespace u) ''backend_tls_verify_server_cert is disabled''
                    tls_remediation)
             (filter (\<lambda>u. \<not> u_backend_tls_verify_server_cert u) (gc_upstreams cfg)))"

definition plugin_name_is_known_evaluate ::
    "plugin_name_is_known_rule_config \<Rightarrow> gateway_config \<Rightarrow> policy_finding list" where
  "plugin_name_is_known_evaluate c cfg =
     (if \<not> pnr_enabled c then []
      else let extra = usable_names (pnr_allowed_extra_plugin_names c)
           in map (\<lambda>p.
                mk_finding ''plugin_name_is_known'' (pnr_severity c) ''PluginConfig'' (pc_id p)
                  (pc_namespace p)
                  (''plugin '' @ pc_id p @ '' in namespace '' @ pc_namespace p @
                   '' uses plugin_name: '' @ pc_plugin_name p @
                   '', which is not one of the gateway'' @ [CHR 0x27] @ ''s built-in plugins'')
                  ''Fix the spelling, or list the name under allowed_extra_plugin_names if it is a custom plugin compiled into your gateway build'')
              (filter (\<lambda>p. \<not> (is_retired (pc_plugin_name p) \<or> is_reserved (pc_plugin_name p)) \<and>
                           \<not> (is_builtin (pc_plugin_name p) \<or> pc_plugin_name p \<in> set extra))
                (gc_plugin_configs cfg)))"

definition priority_override_finding ::
    "severity \<Rightarrow> plugin_config \<Rightarrow> policy_finding list" where
  "priority_override_finding s p =
     (case pc_priority_override p of
        None \<Rightarrow> []
      | Some priority \<Rightarrow>
          if priority \<le> MAX_PRIORITY_OVERRIDE then []
          else [mk_finding ''priority_override_range'' s ''PluginConfig'' (pc_id p) (pc_namespace p)
                 (''plugin '' @ pc_id p @ '' in namespace '' @ pc_namespace p @
                  '' has priority_override '' @ show_nat (unat priority) @
                  '', above the gateway'' @ [CHR 0x27] @ ''s maximum of '' @
                  show_nat (unat MAX_PRIORITY_OVERRIDE))
                 (''Set priority_override to a value in 0..='' @
                  show_nat (unat MAX_PRIORITY_OVERRIDE) @ '' (logging band starts at 9000)'')])"

definition priority_override_range_evaluate ::
    "priority_override_range_rule_config \<Rightarrow> gateway_config \<Rightarrow> policy_finding list" where
  "priority_override_range_evaluate c cfg =
     (if \<not> por_enabled c then []
      else concat (map (priority_override_finding (por_severity c)) (gc_plugin_configs cfg)))"

section \<open>Allowed plugins\<close>

definition unresolved_association ::
    "severity \<Rightarrow> string \<Rightarrow> gateway_config \<Rightarrow> proxy \<Rightarrow> plugin_association \<Rightarrow> policy_finding list" where
  "unresolved_association s listing cfg p a =
     (if (p_namespace p, pa_plugin_config_id a) \<in> set (map (\<lambda>q. (pc_namespace q, pc_id q)) (gc_plugin_configs cfg))
      then []
      else [mk_finding ''allowed_proxy_plugins'' s ''Proxy'' (p_id p) (p_namespace p)
             (''plugin '' @ pa_plugin_config_id a @ '' could not be resolved in namespace '' @ p_namespace p)
             (''Reference an existing plugin config in namespace '' @ p_namespace p @
              '' whose plugin_name is one of: '' @ listing)])"

definition allowed_proxy_plugins_evaluate ::
    "allowed_proxy_plugins_rule_config \<Rightarrow> gateway_config \<Rightarrow> policy_finding list" where
  "allowed_proxy_plugins_evaluate c cfg =
     (if \<not> apr_enabled c then []
      else if list_all blank_entry (apr_allowed_plugin_names c)
      then [empty_allowlist_finding ''allowed_proxy_plugins'' ''allowed_plugin_names'']
      else let allowed = usable_names (apr_allowed_plugin_names c);
               listing = join '', '' allowed
           in concat (map (\<lambda>p.
                concat (map (unresolved_association (apr_severity c) listing cfg p) (p_plugins p)) @
                map (\<lambda>q. mk_finding ''allowed_proxy_plugins'' (apr_severity c) ''Proxy'' (p_id p) (p_namespace p)
                       (''plugin '' @ pc_id q @ '' uses plugin_name='' @ pc_plugin_name q @
                        '', which is not in the allowed list ('' @ listing @ '')'')
                       (''Use only effective plugins with plugin_name set to one of: '' @ listing))
                  (filter (\<lambda>q. pc_plugin_name q \<notin> set allowed) (effective_plugins cfg p)))
              (gc_proxies cfg)))"

section \<open>Web application firewall\<close>

definition waf_finding :: "severity \<Rightarrow> plugin_config \<Rightarrow> string \<Rightarrow> string \<Rightarrow> policy_finding" where
  "waf_finding s p message remediation =
     mk_finding ''waf_enforcement'' s ''PluginConfig'' (pc_id p) (pc_namespace p) message remediation"

definition waf_label :: "plugin_config \<Rightarrow> string" where
  "waf_label p = ''waf plugin '' @ pc_id p @ '' in namespace '' @ pc_namespace p"

definition waf_mode_findings :: "severity \<Rightarrow> plugin_config \<Rightarrow> policy_finding list" where
  "waf_mode_findings s p =
     (let mode = waf_mode (pc_config p) in
      if waf_mode_is_passive mode
      then [waf_finding s p
             (waf_label p @ '' has mode: '' @ mode @ '' '' @ em_dash @
              '' matched requests are recorded but never rejected'')
             ''Set config.mode: enforce once the monitor-mode findings have been triaged'']
      else if \<not> waf_has_enforcing_rule (pc_config p)
      then [waf_finding s p
             (waf_label p @ '' has mode: enforce but no rule enforces '' @ em_dash @
              '' the built-in rules are monitor-only and no rule_modes, rule_overrides, default_rule_action or enabled enforcing custom_rules entry promotes one to enforcement'')
             ''Set config.default_rule_action: enforce, or promote individual rules via config.rule_modes'']
      else [])"

definition waf_paranoia_findings ::
    "severity \<Rightarrow> u8 option \<Rightarrow> plugin_config \<Rightarrow> policy_finding list" where
  "waf_paranoia_findings s min_level p =
     (case min_level of
        None \<Rightarrow> []
      | Some mn \<Rightarrow>
          (let actual = (case cfg_u64 (pc_config p) [''paranoia_level''] of Some n \<Rightarrow> n | None \<Rightarrow> 1)
           in if actual < unat mn
              then [waf_finding s p
                     (waf_label p @ '' has paranoia_level '' @ show_nat actual @
                      '', below the required minimum of '' @ show_nat (unat mn))
                     (''Set config.paranoia_level to at least '' @ show_nat (unat mn) @
                      '' (the gateway accepts 1-4)'')]
              else []))"

definition waf_body_findings :: "severity \<Rightarrow> plugin_config \<Rightarrow> policy_finding list" where
  "waf_body_findings s p =
     (if waf_skips_oversized_body (pc_config p)
      then [waf_finding s p
             (waf_label p @ '' has on_body_too_large: skip '' @ em_dash @
              '' oversized bodies bypass inspection entirely'')
             ''Remove config.on_body_too_large (defaults to fail_closed) or raise config.max_scan_bytes'']
      else [])"

definition waf_check_instance ::
    "waf_enforcement_rule_config \<Rightarrow> plugin_config \<Rightarrow> policy_finding list" where
  "waf_check_instance c p =
     waf_mode_findings (wer_severity c) p @
     waf_paranoia_findings (wer_severity c) (wer_min_paranoia_level c) p @
     waf_body_findings (wer_severity c) p"

definition waf_enforcement_evaluate ::
    "waf_enforcement_rule_config \<Rightarrow> gateway_config \<Rightarrow> policy_finding list" where
  "waf_enforcement_evaluate c cfg =
     (if \<not> wer_enabled c then []
      else concat (map (waf_check_instance c)
             (filter (\<lambda>p. pc_plugin_name p = ''waf'' \<and> pc_enabled p) (gc_plugin_configs cfg))))"

section \<open>AI guardrails\<close>

text \<open>The checks of \<open>neutered_reason\<close> in order; the first that applies gives the reason.\<close>

fun first_some :: "'a option list \<Rightarrow> 'a option" where
  "first_some [] = None"
| "first_some (r # rs) = (case r of Some x \<Rightarrow> Some x | None \<Rightarrow> first_some rs)"

definition one_of_reason :: "json \<Rightarrow> string list \<Rightarrow> string \<Rightarrow> string list \<Rightarrow> string option" where
  "one_of_reason cfg path label bad =
     (case cfg_str cfg path of
        Some v \<Rightarrow> if v \<in> set bad then Some (label @ '': '' @ v) else None
      | None \<Rightarrow> None)"

definition neutered_reason :: "plugin_config \<Rightarrow> string option" where
  "neutered_reason p =
     (let cfg = pc_config p in
      if is_conditional p then Some ''a trigger''
      else first_some
        [one_of_reason cfg [''mode''] ''mode'' [''dry_run''],
         one_of_reason cfg [''on_error''] ''on_error'' [''warn'', ''allow''],
         one_of_reason cfg [''streaming_response''] ''streaming_response'' [''skip''],
         (if allows_uninspectable_body cfg then Some ''fail_on_uninspectable_body: false'' else None),
         (if cfg_bool cfg [''privacy'', ''log_raw_text''] = Some True
          then Some ''privacy.log_raw_text: true'' else None),
         one_of_reason cfg [''action''] ''action'' [''warn''],
         one_of_reason cfg [''default_action''] ''default_action'' [''allow''],
         one_of_reason cfg [''approval'', ''fail_on_error''] ''approval.fail_on_error''
           [''warn'', ''allow'']])"

definition unguarded_finding :: "severity \<Rightarrow> string \<Rightarrow> proxy \<Rightarrow> policy_finding" where
  "unguarded_finding s listing p =
     mk_finding ''require_ai_guardrails'' s ''Proxy'' (p_id p) (p_namespace p)
       (''proxy '' @ p_id p @ '' in namespace '' @ p_namespace p @
        '' carries AI plugins but no content guardrail (none of: '' @ listing @ '')'')
       (''Attach one of '' @ listing @ '' to proxy '' @ p_id p @
        '' (or a global instance in namespace '' @ p_namespace p @ '')'')"

definition plural_s :: "bool \<Rightarrow> string" where
  "plural_s b = (if b then ''s'' else [])"

definition observing_finding ::
    "severity \<Rightarrow> proxy \<Rightarrow> (plugin_config \<times> string) list \<Rightarrow> policy_finding" where
  "observing_finding s p ineffective =
     (let plural = 1 < length ineffective;
          descriptions = map (\<lambda>(q, reason). pc_plugin_name q @ '' plugin '' @ pc_id q @ '' has '' @ reason)
            ineffective
      in mk_finding ''require_ai_guardrails'' s ''Proxy'' (p_id p) (p_namespace p)
           (''proxy '' @ p_id p @ '' in namespace '' @ p_namespace p @ '' is guarded by '' @
            join ''; '' descriptions @ '' '' @ em_dash @ '' the guardrail'' @ plural_s plural @
            '' observe'' @ plural_s (\<not> plural) @ '' instead of refusing'')
           (''Remove the escape hatch from plugin'' @ plural_s plural @ '' '' @
            join '', '' (map (\<lambda>(q, _). pc_id q) ineffective) @ '' so '' @
            (if plural then ''they'' else ''it'') @ '' keep'' @ plural_s (\<not> plural) @
            '' the gateway'' @ [CHR 0x27] @ ''s fail-closed default''))"

definition ai_route_findings ::
    "severity \<Rightarrow> string list \<Rightarrow> gateway_config \<Rightarrow> proxy \<Rightarrow> policy_finding list" where
  "ai_route_findings s guardrails cfg p =
     (let effective = effective_plugins cfg p in
      if \<not> list_ex (\<lambda>q. is_ai_plugin (pc_plugin_name q)) effective then []
      else let attached = filter (\<lambda>q. pc_plugin_name q \<in> set guardrails) effective in
      if attached = [] then [unguarded_finding s (join '', '' guardrails) p]
      else let ineffective = concat (map (\<lambda>q. case neutered_reason q of
                  Some reason \<Rightarrow> [(q, reason)] | None \<Rightarrow> []) attached)
           in if length ineffective < length attached then []
              else [observing_finding s p ineffective])"

definition require_ai_guardrails_evaluate ::
    "require_ai_guardrails_rule_config \<Rightarrow> gateway_config \<Rightarrow> policy_finding list" where
  "require_ai_guardrails_evaluate c cfg =
     (if \<not> gar_enabled c then []
      else if list_all blank_entry (gar_guardrail_plugin_names c)
      then [empty_allowlist_finding ''require_ai_guardrails'' ''guardrail_plugin_names'']
      else concat (map (ai_route_findings (gar_severity c) (usable_names (gar_guardrail_plugin_names c)) cfg)
             (gc_proxies cfg)))"

section \<open>Rate limits\<close>

definition LEGACY_TOP_LEVEL_FIELDS :: "string list" where
  "LEGACY_TOP_LEVEL_FIELDS =
     [''requests_per_second'', ''requests_per_minute'', ''requests_per_hour'', ''window_seconds'',
      ''max_requests'', ''consumer_limits'']"

definition RULE_BUDGET_FIELDS :: "string list" where
  "RULE_BUDGET_FIELDS = [''requests_per_second'', ''requests_per_minute'', ''requests_per_hour'']"

definition rate_finding :: "severity \<Rightarrow> plugin_config \<Rightarrow> string \<Rightarrow> string \<Rightarrow> policy_finding" where
  "rate_finding s p message remediation =
     mk_finding ''rate_limit_completeness'' s ''PluginConfig'' (pc_id p) (pc_namespace p) message remediation"

definition rate_label :: "plugin_config \<Rightarrow> string" where
  "rate_label p = ''rate_limiting plugin '' @ pc_id p @ '' in namespace '' @ pc_namespace p"

definition has_budget :: "json \<Rightarrow> bool" where
  "has_budget rule =
     (cfg_at rule [''window_seconds''] \<noteq> None \<and> cfg_at rule [''max_requests''] \<noteq> None \<or>
      list_ex (\<lambda>field. cfg_at rule [field] \<noteq> None) RULE_BUDGET_FIELDS)"

definition budget_findings :: "severity \<Rightarrow> plugin_config \<Rightarrow> json list \<Rightarrow> policy_finding list" where
  "budget_findings s p limits =
     concat (map (\<lambda>(idx, rule).
       if has_budget rule then []
       else [rate_finding s p
              (rate_label p @ '' has limits['' @ show_nat idx @
               ''] with no budget '' @ em_dash @
               '' neither window_seconds+max_requests nor requests_per_second/minute/hour'')
              (''Give limits['' @ show_nat idx @
               ''] a window_seconds + max_requests pair, or a requests_per_* value'')])
       (enumerate 0 limits))"

definition check_rate_limiting :: "severity \<Rightarrow> plugin_config \<Rightarrow> policy_finding list" where
  "check_rate_limiting s p =
     (let legacy = filter (\<lambda>field. cfg_at (pc_config p) [field] \<noteq> None) LEGACY_TOP_LEVEL_FIELDS in
      if legacy \<noteq> []
      then [rate_finding s p
             (rate_label p @ '' sets '' @ join '', '' legacy @
              '' at the top level of its config; the gateway now rejects unknown top-level keys'')
             ''Move the budget into a limits[] entry with scope: default (top-level budget fields were removed)'']
      else (case cfg_array (pc_config p) [''limits''] of
              None \<Rightarrow>
                [rate_finding s p
                  (rate_label p @ '' has no limits[] array '' @ em_dash @
                   '' the plugin loads but enforces nothing'')
                  ''Add a limits[] entry with scope: default and either window_seconds+max_requests or requests_per_second/minute/hour'']
            | Some limits \<Rightarrow>
                if limits = []
                then [rate_finding s p (rate_label p @ '' has an empty limits[] array'')
                       ''Add a limits[] entry with scope: default'']
                else (if \<not> list_ex (\<lambda>rule. cfg_str rule [''scope''] = Some ''default'') limits
                      then [rate_finding s p
                             (rate_label p @ '' has no limits[] entry with scope: default '' @ em_dash @
                              '' unlisted consumers are unlimited'')
                             ''Add a limits[] entry with scope: default as the catch-all budget'']
                      else []) @ budget_findings s p limits))"

definition check_ai_rate_limiter :: "severity \<Rightarrow> plugin_config \<Rightarrow> policy_finding list" where
  "check_ai_rate_limiter s p =
     (let label = ''ai_rate_limiter plugin '' @ pc_id p @ '' in namespace '' @ pc_namespace p in
      (if cfg_at (pc_config p) [''token_limit''] = None
       then [rate_finding s p
              (label @ '' has no token_limit '' @ em_dash @
               '' the plugin'' @ [CHR 0x27] @ ''s only budget is unset'')
              ''Set config.token_limit to the per-window token budget'']
       else []) @
      (if cfg_str (pc_config p) [''on_unmetered_response''] = Some ''charge_estimate''
       then [rate_finding s p
              (label @ '' has on_unmetered_response: charge_estimate '' @ em_dash @
               '' responses without usage metadata are billed against a guess, not measured usage'')
              ''Use a metered provider or set config.on_unmetered_response to a fail-closed value'']
       else []))"

definition redis_fallback_findings :: "severity \<Rightarrow> plugin_config \<Rightarrow> policy_finding list" where
  "redis_fallback_findings s p =
     (if has_local_redis_fallback (pc_config p)
      then [rate_finding s p
             (pc_plugin_name p @ '' plugin '' @ pc_id p @ '' in namespace '' @ pc_namespace p @
              '' has redis_failure_policy: local_fallback '' @ em_dash @
              '' a Redis outage degrades the shared budget to a per-replica one'')
             ''Set config.redis_failure_policy to the fail-closed value so the budget stays shared'']
      else [])"

definition rate_limiter_findings :: "severity \<Rightarrow> plugin_config \<Rightarrow> policy_finding list" where
  "rate_limiter_findings s p =
     (if \<not> pc_enabled p then []
      else if pc_plugin_name p = ''rate_limiting''
      then check_rate_limiting s p @ redis_fallback_findings s p
      else if pc_plugin_name p = ''ai_rate_limiter''
      then check_ai_rate_limiter s p @ redis_fallback_findings s p
      else [])"

definition rate_limit_completeness_evaluate ::
    "rate_limit_completeness_rule_config \<Rightarrow> gateway_config \<Rightarrow> policy_finding list" where
  "rate_limit_completeness_evaluate c cfg =
     (if \<not> rlr_enabled c then []
      else concat (map (rate_limiter_findings (rlr_severity c)) (gc_plugin_configs cfg)))"

end
