(* ===== verification/PolicyAuth.thy ===== *)
theory PolicyAuth
  imports PolicyRules
begin

text \<open>
  The rule \<open>require_auth_plugin\<close> (\<open>policy/rules/require_auth_plugin.rs\<close>): every proxy must be
  authenticated on every request protocol of its listener, or be an exact, code-owned exemption
  whose conditional authenticators cover the gap.
\<close>

section \<open>Texts\<close>

definition ignored_suffix :: "auth_coverage \<Rightarrow> string \<Rightarrow> string" where
  "ignored_suffix c traffic =
     (if ac_inapplicable c = [] then []
      else ''; authenticators that do not authenticate '' @ traffic @ '' were ignored: '' @
           plugin_instance_list (ac_inapplicable c))"

definition conditional_suffix :: "auth_coverage \<Rightarrow> string" where
  "conditional_suffix c =
     (if ac_conditional c = [] then []
      else ''; conditional authenticators carrying a trigger were not counted, because requests their trigger does not match reach the backend unauthenticated: '' @
           plugin_instance_list (ac_conditional c))"

definition conditional_remedy :: "auth_coverage \<Rightarrow> string" where
  "conditional_remedy c =
     (if ac_conditional c = [] then []
      else ''. Remove the trigger from the authenticator; an intentionally public route needs an exact code-owned conditional-auth exemption'')"

definition custom_hint :: string where
  "custom_hint = ''or declare a custom authenticator'' @ [CHR 0x27] @
     ''s protocols under require_auth_plugin.custom_auth_plugin_protocols''"

definition terminate_hint :: string where
  "terminate_hint = ''terminate TLS/DTLS on its listener (frontend_tls: true, passthrough: false)''"

definition in_ns :: "proxy \<Rightarrow> string" where
  "in_ns p = ''proxy '' @ p_id p @ '' in namespace '' @ p_namespace p"

definition http_family_names :: string where
  "http_family_names = join '', '' http_family_auth_plugin_names"

definition describe_passthrough :: "proxy \<Rightarrow> auth_coverage \<Rightarrow> string \<times> string" where
  "describe_passthrough p c =
     (let (inert, attach) =
            (if ac_inapplicable c = [] then (''none attached'', '', then attach an authenticator'')
             else (plugin_instance_list (ac_inapplicable c), []))
      in (in_ns p @ '' sets passthrough: true, which Ferrum Edge rejects on non-stream proxies; GitForgeOps fails closed and does not count its HTTP authenticators ('' @ inert @ '')'',
          ''Set passthrough: false on proxy '' @ p_id p @ '' and terminate TLS at the gateway'' @ attach))"

definition describe_http :: "proxy \<Rightarrow> auth_coverage \<Rightarrow> string \<times> string" where
  "describe_http p c =
     (if p_passthrough p then describe_passthrough p c
      else if ac_applicable c = [] \<and> ac_conditional c = []
      then (in_ns p @ '' has no enabled authentication plugin in its effective plugin list'' @
              ignored_suffix c ''its requests'',
            ''Attach an auth plugin ('' @ http_family_names @ '') to proxy '' @ p_id p @
              '', or add a global one in namespace '' @ p_namespace p)
      else if ac_applicable c = []
      then (in_ns p @ '' has no enabled authentication plugin that runs on every request'' @
              conditional_suffix c @ ignored_suffix c ''its requests'',
            ''Attach an authenticator without a trigger ('' @ http_family_names @ '') to proxy '' @
              p_id p @ conditional_remedy c)
      else (in_ns p @ '' has no enabled authentication plugin that runs on its '' @
              protocol_list (ac_uncovered c) @
              '' requests; the gateway skips its authenticators ('' @
              plugin_instance_list (ac_applicable c) @
              '') for them, so they reach the backend unauthenticated'' @ conditional_suffix c,
            ''Attach an authenticator that runs on HTTP, gRPC and WebSocket requests ('' @
              http_family_names @ '') to proxy '' @ p_id p @ '', '' @ custom_hint @ conditional_remedy c))"

definition describe_stream :: "proxy \<Rightarrow> auth_coverage \<Rightarrow> string \<times> string" where
  "describe_stream p c =
     (let transport = proxy_transport_as_str (ac_transport c) in
      if ac_applicable c = []
      then (transport @ '' stream '' @ in_ns p @
              '' has no enabled authentication plugin that runs on every connection to its listener'' @
              conditional_suffix c @ ignored_suffix c (transport @ '' connections''),
            ''Attach a stream authenticator ('' @ join '', '' STREAM_AUTH_PLUGIN_NAMES @ '') to proxy '' @
              p_id p @ '' and '' @ terminate_hint @ '', '' @ custom_hint @ conditional_remedy c)
      else (transport @ '' stream '' @ in_ns p @ '' carries stream authenticators ('' @
              plugin_instance_list (ac_applicable c) @
              ''), but its listener does not terminate TLS/DTLS, so no client certificate reaches them and no identity is established'',
            ''Configure proxy '' @ p_id p @ '' to '' @ terminate_hint))"

definition describe :: "proxy \<Rightarrow> auth_coverage \<Rightarrow> string \<times> string" where
  "describe p c = (if \<not> is_stream (ac_transport c) then describe_http p c else describe_stream p c)"

section \<open>Evaluation\<close>

definition rule_coverage ::
    "require_auth_plugin_rule_config \<Rightarrow> gateway_config \<Rightarrow> proxy \<Rightarrow> auth_coverage" where
  "rule_coverage c cfg p = auth_coverage_of cfg p (auth_allowlist_of c)"

definition split_exemption :: "string \<Rightarrow> string \<times> string" where
  "split_exemption exemption =
     (case split_once CHR ''/'' exemption of Some parts \<Rightarrow> parts | None \<Rightarrow> ([], []))"

definition stale_exemption ::
    "require_auth_plugin_rule_config \<Rightarrow> gateway_config \<Rightarrow> string \<Rightarrow> string \<Rightarrow> bool" where
  "stale_exemption c cfg namespace proxy_id =
     (case find (\<lambda>p. p_namespace p = namespace \<and> p_id p = proxy_id) (gc_proxies cfg) of
        None \<Rightarrow> True
      | Some p \<Rightarrow>
          (let coverage = rule_coverage c cfg p in
           is_authenticated coverage \<or> ac_conditional coverage = [] \<or>
           conditional_exemption_gap coverage (auth_allowlist_of c) \<noteq> None))"

definition exemption_findings ::
    "require_auth_plugin_rule_config \<Rightarrow> gateway_config \<Rightarrow> string \<Rightarrow> policy_finding list" where
  "exemption_findings c cfg exemption =
     (let (namespace, proxy_id) = split_exemption exemption in
      if namespace \<notin> set (collect_namespaces cfg) then []
      else if stale_exemption c cfg namespace proxy_id
      then [mk_finding ''require_auth_plugin'' Info ''PolicyConfig'' exemption namespace
             (''stale conditional-auth exemption '' @ [CHR 0x27] @ exemption @ [CHR 0x27] @
              '': the proxy is missing, no longer needs it, or has an authentication gap it does not cover'')
             (''Remove '' @ [CHR 0x27] @ exemption @ [CHR 0x27] @
              '' from require_auth_plugin.conditional_auth_exemptions'')]
      else [])"

definition is_exempt :: "require_auth_plugin_rule_config \<Rightarrow> proxy \<Rightarrow> auth_coverage \<Rightarrow> bool" where
  "is_exempt c p coverage =
     (has_conditional_auth_exemption c (p_namespace p) (p_id p) \<and> ac_conditional coverage \<noteq> [] \<and>
      conditional_exemption_gap coverage (auth_allowlist_of c) = None)"

definition exemption_name :: "proxy \<Rightarrow> string" where
  "exemption_name p = [CHR 0x27] @ p_namespace p @ ''/'' @ p_id p @ [CHR 0x27]"

definition auth_message ::
    "require_auth_plugin_rule_config \<Rightarrow> proxy \<Rightarrow> auth_coverage \<Rightarrow> string \<times> string" where
  "auth_message c p coverage =
     (let (message, remediation) = describe p coverage;
          gap = conditional_exemption_gap coverage (auth_allowlist_of c);
          listed = has_conditional_auth_exemption c (p_namespace p) (p_id p);
          exempt = is_exempt c p coverage
      in (if exempt
          then message @ ''; permitted by conditional-auth exemption '' @ exemption_name p
          else if listed
          then message @ ''; conditional-auth exemption '' @ exemption_name p @
               '' does not cover this gap: '' @
               (case gap of Some g \<Rightarrow> g | None \<Rightarrow> ''no conditional authenticator applies'')
          else message,
          if exempt
          then ''Keep this exact proxy identity in the code-owned conditional-auth exemption list; requests outside its trigger remain unauthenticated''
          else remediation))"

definition auth_findings ::
    "require_auth_plugin_rule_config \<Rightarrow> gateway_config \<Rightarrow> proxy \<Rightarrow> policy_finding list" where
  "auth_findings c cfg p =
     (let coverage = rule_coverage c cfg p in
      if is_authenticated coverage then []
      else [mk_finding ''require_auth_plugin''
             (if is_exempt c p coverage then Info else rar_severity c)
             ''Proxy'' (p_id p) (p_namespace p)
             (fst (auth_message c p coverage)) (snd (auth_message c p coverage))])"

definition require_auth_plugin_evaluate ::
    "require_auth_plugin_rule_config \<Rightarrow> gateway_config \<Rightarrow> policy_finding list" where
  "require_auth_plugin_evaluate c cfg =
     concat (map (exemption_findings c cfg) (rar_conditional_auth_exemptions c)) @
     (if \<not> rar_enabled c then [] else concat (map (auth_findings c cfg) (gc_proxies cfg)))"

end
