(* ===== verification/IpAddr.thy ===== *)
theory IpAddr
  imports Json
begin

text \<open>
  \<open>str::parse::<IpAddr>()\<close> of the standard library, as a recursive-descent parser over the bytes:
  strict dotted-decimal IPv4 (one to three digits, no leading zero, at most 255) and IPv6 groups
  with one \<open>::\<close> and an optional trailing IPv4.  A parser returns the value and the rest of the input.
\<close>

datatype ip_addr = V4 "nat list" | V6 "nat list"

type_synonym 'a parser = "string \<Rightarrow> ('a \<times> string) option"

definition digit_value :: "nat \<Rightarrow> char \<Rightarrow> nat option" where
  "digit_value radix c =
     (let n = (of_char c :: nat);
          v = (if 48 \<le> n \<and> n \<le> 57 then Some (n - 48)
               else if 97 \<le> n \<and> n \<le> 102 then Some (n - 87)
               else if 65 \<le> n \<and> n \<le> 70 then Some (n - 55) else None)
      in case v of Some d \<Rightarrow> if d < radix then Some d else None | None \<Rightarrow> None)"

definition is_digit :: "nat \<Rightarrow> char \<Rightarrow> bool" where
  "is_digit radix c = (digit_value radix c \<noteq> None)"

definition digits_value :: "nat \<Rightarrow> string \<Rightarrow> nat" where
  "digits_value radix ds =
     fold (\<lambda>c acc. acc * radix + (case digit_value radix c of Some d \<Rightarrow> d | None \<Rightarrow> 0)) ds 0"

text \<open>\<open>read_number\<close>: too many digits, an overflow and a forbidden leading zero all fail.\<close>

definition read_number :: "nat \<Rightarrow> nat \<Rightarrow> nat \<Rightarrow> bool \<Rightarrow> nat parser" where
  "read_number radix max_digits bound allow_zero_prefix s =
     (let ds = takeWhile (is_digit radix) s in
      if ds = [] \<or> max_digits < length ds \<or> bound < digits_value radix ds \<or>
         (\<not> allow_zero_prefix \<and> hd ds = CHR ''0'' \<and> 1 < length ds)
      then None
      else Some (digits_value radix ds, drop (length ds) s))"

definition read_separator :: "char \<Rightarrow> bool \<Rightarrow> 'a parser \<Rightarrow> 'a parser" where
  "read_separator sep first inner s =
     (if first then inner s
      else (case s of [] \<Rightarrow> None | c # cs \<Rightarrow> if c = sep then inner cs else None))"

fun read_octets :: "nat \<Rightarrow> bool \<Rightarrow> nat list parser" where
  "read_octets 0 first s = Some ([], s)"
| "read_octets (Suc n) first s =
     (case read_separator CHR ''.'' first (read_number 10 3 255 False) s of
        None \<Rightarrow> None
      | Some (v, rest) \<Rightarrow>
          (case read_octets n False rest of
             None \<Rightarrow> None
           | Some (vs, rest') \<Rightarrow> Some (v # vs, rest')))"

definition read_ipv4 :: "nat list parser" where
  "read_ipv4 s = read_octets 4 True s"

text \<open>\<open>read_groups\<close>: at most \<open>limit\<close> groups; the flag says that an IPv4 address ended them.\<close>

fun read_groups :: "nat \<Rightarrow> bool \<Rightarrow> string \<Rightarrow> nat list \<times> bool \<times> string" where
  "read_groups 0 first s = ([], False, s)"
| "read_groups (Suc limit) first s =
     (case (if 0 < limit then read_separator CHR '':'' first read_ipv4 s else None) of
        Some (octets, rest) \<Rightarrow>
          ([octets ! 0 * 256 + octets ! 1, octets ! 2 * 256 + octets ! 3], True, rest)
      | None \<Rightarrow>
          (case read_separator CHR '':'' first (read_number 16 4 0xFFFF True) s of
             None \<Rightarrow> ([], False, s)
           | Some (g, rest) \<Rightarrow>
               (case read_groups limit False rest of (gs, v4, rest') \<Rightarrow> (g # gs, v4, rest'))))"

definition read_ipv6 :: "nat list parser" where
  "read_ipv6 s =
     (case read_groups 8 True s of (head, head_ipv4, rest) \<Rightarrow>
        if length head = 8 then Some (head, rest)
        else if head_ipv4 then None
        else (case rest of
                c1 # c2 # rest1 \<Rightarrow>
                  if c1 = CHR '':'' \<and> c2 = CHR '':''
                  then (case read_groups (8 - (length head + 1)) True rest1 of (tl_groups, _, rest2) \<Rightarrow>
                          Some (head @ replicate (8 - length head - length tl_groups) 0 @ tl_groups, rest2))
                  else None
              | _ \<Rightarrow> None))"

definition parse_ip :: "string \<Rightarrow> ip_addr option" where
  "parse_ip s =
     (case read_ipv4 s of
        Some (octets, rest) \<Rightarrow> if rest = [] then Some (V4 octets) else None
      | None \<Rightarrow>
          (case read_ipv6 s of
             Some (groups, rest) \<Rightarrow> if rest = [] then Some (V6 groups) else None
           | None \<Rightarrow> None))"

lemma read_counts:
  "read_octets 4 = read_octets (Suc (Suc (Suc (Suc 0))))"
  "read_groups 8 = read_groups (Suc (Suc (Suc (Suc (Suc (Suc (Suc (Suc 0))))))))"
  "read_groups 7 = read_groups (Suc (Suc (Suc (Suc (Suc (Suc (Suc 0)))))))"
  "read_groups 6 = read_groups (Suc (Suc (Suc (Suc (Suc (Suc 0))))))"
  "read_groups 5 = read_groups (Suc (Suc (Suc (Suc (Suc 0)))))"
  by (simp_all add: eval_nat_numeral)

lemmas parse_ip_eval = parse_ip_def read_ipv4_def read_ipv6_def read_number_def read_separator_def
  is_digit_def digit_value_def digits_value_def Let_def read_counts

lemma parse_ip_examples:
  "parse_ip ''10.0.0.255'' = Some (V4 [10, 0, 0, 255])"
  "parse_ip ''10.0.0.256'' = None" "parse_ip ''010.0.0.1'' = None" "parse_ip ''1.2.3'' = None"
  "parse_ip ''::1'' = Some (V6 (replicate 7 0 @ [1]))"
  "parse_ip ''2001:DB8::a:0'' = Some (V6 ([0x2001, 0xDB8] @ replicate 4 0 @ [10, 0]))"
  "parse_ip ''::ffff:1.2.3.4'' = Some (V6 (replicate 5 0 @ [0xFFFF, 0x102, 0x304]))"
  "parse_ip ''1::2::3'' = None" "parse_ip ''1:2:3:4:5:6:7:8:9'' = None"
  "parse_ip ''api.example.com'' = None"
  by (simp_all add: parse_ip_eval)

end
