(* ===== verification/PolicyDomains.thy ===== *)
theory PolicyDomains
  imports PolicyRules IpAddr
begin

text \<open>
  The rule \<open>allowed_backend_domains\<close> (\<open>policy/rules/allowed_backend_domains.rs\<close>): every destination a
  proxy can dial that is visible in the repository must match an allowlist.

  Two things come from outside the repository and are fields of the parameter \<open>text_env\<close>: the URL
  parser of the \<open>url\<close> crate, and \<open>char::is_alphanumeric\<close> on non-ASCII characters.
\<close>

section \<open>Hosts and patterns\<close>

record parsed_url =
  url_scheme :: string
  url_username :: string
  url_password :: "string option"
  url_host_str :: "string option"
  url_port :: "nat option"
  url_path :: string
  url_query :: "string option"
  url_fragment :: "string option"

record text_env =
  te_alphanumeric :: "string \<Rightarrow> bool"
  te_url :: "string \<Rightarrow> parsed_url option"

definition trim_end_dots :: "string \<Rightarrow> string" where
  "trim_end_dots s = rev (dropWhile (\<lambda>c. c = CHR ''.'') (rev s))"

definition unwrap_str :: "string \<Rightarrow> string option \<Rightarrow> string" where
  "unwrap_str d v = (case v of Some x \<Rightarrow> x | None \<Rightarrow> d)"

fun contains_dots :: "string \<Rightarrow> bool" where
  "contains_dots (a # b # s) = (a = CHR ''.'' \<and> b = CHR ''.'' \<or> contains_dots (b # s))"
| "contains_dots _ = False"

definition normalize_domain :: "string \<Rightarrow> string" where
  "normalize_domain v = to_ascii_lowercase (trim_end_dots (trim v))"

definition parse_ip_literal :: "string \<Rightarrow> ip_addr option" where
  "parse_ip_literal v =
     parse_ip (unwrap_str v (case strip_prefix ''['' v of
                               Some inner \<Rightarrow> strip_suffix '']'' inner | None \<Rightarrow> None))"

definition host_char :: "text_env \<Rightarrow> string \<Rightarrow> bool" where
  "host_char env c =
     ((case c of
         [b] \<Rightarrow> if is_ascii b then is_ascii_alphanumeric b else te_alphanumeric env c
       | _ \<Rightarrow> te_alphanumeric env c) \<or> c \<in> {''.'', ''-'', ''_''})"

definition bare_url_host :: "parsed_url \<Rightarrow> string option" where
  "bare_url_host u =
     (if url_username u \<noteq> [] \<or> url_password u \<noteq> None \<or> url_port u \<noteq> None \<or> url_path u \<noteq> ''/'' \<or>
         url_query u \<noteq> None \<or> url_fragment u \<noteq> None
      then None else url_host_str u)"

definition normalize_destination :: "text_env \<Rightarrow> string \<Rightarrow> string option" where
  "normalize_destination env v =
     (let normalized = normalize_domain v in
      if parse_ip_literal normalized \<noteq> None then Some normalized
      else if normalized = [] \<or> hd normalized = CHR ''.'' \<or> contains_dots normalized \<or>
              \<not> list_all (host_char env) (utf8_chars normalized)
      then None
      else if list_all is_ascii normalized then Some normalized
      else (case te_url env (''https://'' @ normalized @ ''/'') of
              None \<Rightarrow> None | Some u \<Rightarrow> bare_url_host u))"

definition domain_matches :: "string \<Rightarrow> string \<Rightarrow> bool" where
  "domain_matches host pattern =
     (if host = [] \<or> pattern = [] then False
      else if pattern = ''*'' then True
      else (case strip_prefix ''*.'' pattern of
              Some suffix \<Rightarrow>
                if parse_ip_literal host \<noteq> None then False
                else (case strip_suffix suffix host of
                        Some prefix \<Rightarrow> prefix \<noteq> [] \<and> last prefix = CHR ''.'' | None \<Rightarrow> False)
            | None \<Rightarrow>
                (case (parse_ip_literal host, parse_ip_literal pattern) of
                   (Some h, Some p) \<Rightarrow> h = p
                 | _ \<Rightarrow> host = pattern)))"

definition is_allowed :: "text_env \<Rightarrow> string \<Rightarrow> string list \<Rightarrow> bool" where
  "is_allowed env host allowed =
     (case normalize_destination env host of
        None \<Rightarrow> False
      | Some h \<Rightarrow> list_ex (domain_matches h) allowed)"

definition classify_entry ::
    "text_env \<Rightarrow> string \<Rightarrow> string list \<times> string list \<Rightarrow> string list \<times> string list" where
  "classify_entry env entry acc =
     (let trimmed = trim entry;
          suffix = strip_prefix ''*.'' trimmed;
          candidate = unwrap_str trimmed suffix;
          normalized_candidate = normalize_destination env candidate;
          normalized = map_option (\<lambda>d. if suffix \<noteq> None then ''*.'' @ d else d) normalized_candidate;
          is_valid = (trimmed = ''*'' \<or>
            normalized_candidate \<noteq> None \<and> \<not> (suffix \<noteq> None \<and> parse_ip_literal candidate \<noteq> None))
      in if is_valid then (fst acc @ [unwrap_str ''*'' normalized], snd acc)
         else (fst acc, snd acc @ [entry]))"

definition classify_domain_allowlist :: "text_env \<Rightarrow> string list \<Rightarrow> string list \<times> string list" where
  "classify_domain_allowlist env entries = fold (classify_entry env) entries ([], [])"

definition dns_override_pins :: "string option \<Rightarrow> string list option" where
  "dns_override_pins v =
     (case v of
        None \<Rightarrow> None
      | Some s \<Rightarrow>
          (let pins = filter (\<lambda>d. d \<noteq> []) (map trim (split_on CHR '','' s))
           in if pins = [] then None else Some pins))"

definition quoted :: "string list \<Rightarrow> string" where
  "quoted ds = join '', '' (map (\<lambda>d. [CHR 0x27] @ d @ [CHR 0x27]) ds)"

definition url_destination_host :: "text_env \<Rightarrow> string \<Rightarrow> string option" where
  "url_destination_host env address =
     (case te_url env address of
        None \<Rightarrow> None
      | Some u \<Rightarrow> if url_scheme u \<in> {''http'', ''https''} then url_host_str u else None)"

section \<open>Findings on the policy itself\<close>

abbreviation "domains_rule \<equiv> ''allowed_backend_domains''"

definition domain_config_finding :: "severity \<Rightarrow> string \<Rightarrow> string \<Rightarrow> policy_finding" where
  "domain_config_finding s message remediation =
     mk_finding domains_rule s ''PolicyConfig'' domains_rule ''global'' message remediation"

definition invalid_entries_finding :: "string \<Rightarrow> string \<Rightarrow> string list \<Rightarrow> policy_finding list" where
  "invalid_entries_finding message remediation invalid =
     (if invalid = [] then []
      else [domain_config_finding Error (message @ quoted invalid) remediation])"

definition dns_address_ok :: "string \<Rightarrow> bool" where
  "dns_address_ok address = (trim address = address \<and> parse_ip_literal (trim address) \<noteq> None)"

definition declares_dns_pin :: "gateway_config \<Rightarrow> bool" where
  "declares_dns_pin cfg = list_ex (\<lambda>p. dns_override_pins (p_dns_override p) \<noteq> None) (gc_proxies cfg)"

definition dns_allowlist ::
    "allowed_backend_domains_rule_config \<Rightarrow> string list \<Rightarrow> string list" where
  "dns_allowlist c allowed_domains =
     (if abr_allowed_dns_override_addresses c = []
      then filter (\<lambda>entry. entry = ''*'' \<or> parse_ip_literal entry \<noteq> None) allowed_domains
      else map (\<lambda>address. normalize_domain (trim address))
             (filter dns_address_ok (abr_allowed_dns_override_addresses c)))"

definition control_plane_allowlist ::
    "text_env \<Rightarrow> allowed_backend_domains_rule_config \<Rightarrow> string list \<Rightarrow> string list" where
  "control_plane_allowlist env c allowed_domains =
     (if abr_allowed_service_discovery_control_plane_addresses c = [] then allowed_domains
      else fst (classify_domain_allowlist env (abr_allowed_service_discovery_control_plane_addresses c)))"

definition upstream_key_counts :: "gateway_config \<Rightarrow> (string \<times> string, nat) btree_map" where
  "upstream_key_counts cfg =
     fold (\<lambda>u m. let k = (u_namespace u, u_id u) in
             bt_insert k (Suc (case bt_get m k of Some n \<Rightarrow> n | None \<Rightarrow> 0)) m)
       (gc_upstreams cfg) []"

definition duplicate_upstream_findings :: "gateway_config \<Rightarrow> policy_finding list" where
  "duplicate_upstream_findings cfg =
     map (\<lambda>((ns, rid), _). domain_config_finding Error
            (''duplicate upstream identity '' @ [CHR 0x27] @ ns @ '':Upstream:'' @ rid @ [CHR 0x27] @
             '' prevents unambiguous allowlist resolution'')
            ''Keep exactly one upstream for each (namespace, id) identity'')
       (filter (\<lambda>(_, n). 1 < n) (upstream_key_counts cfg))"

definition declared_upstreams :: "gateway_config \<Rightarrow> (string \<times> string, upstream) btree_map" where
  "declared_upstreams cfg =
     bt_of_list (map (\<lambda>u. ((u_namespace u, u_id u), u))
       (filter (\<lambda>u. bt_get (upstream_key_counts cfg) (u_namespace u, u_id u) = Some 1)
         (gc_upstreams cfg)))"

definition allowance_ok :: "upstream_allowance \<Rightarrow> bool" where
  "allowance_ok a =
     (trim (ua_namespace a) = ua_namespace a \<and> trim (ua_id a) = ua_id a \<and>
      ua_namespace a \<noteq> [] \<and> ua_id a \<noteq> [])"

definition identity_text :: "string \<Rightarrow> string \<Rightarrow> string" where
  "identity_text ns rid =
     ''{ namespace: '' @ [CHR 0x27] @ ns @ [CHR 0x27] @ '', id: '' @ [CHR 0x27] @ rid @ [CHR 0x27] @ '' }''"

definition allowance_findings :: "string \<Rightarrow> upstream_allowance list \<Rightarrow> policy_finding list" where
  "allowance_findings field allowances =
     map (\<lambda>a. domain_config_finding Error
            (''invalid '' @ field @ '' identity '' @ identity_text (ua_namespace a) (ua_id a))
            ''Use exact, nonblank, unpadded namespace and upstream id values'')
       (filter (\<lambda>a. \<not> allowance_ok a) allowances)"

definition allowance_set :: "upstream_allowance list \<Rightarrow> (string \<times> string) list" where
  "allowance_set allowances =
     bs_of_list (map (\<lambda>a. (ua_namespace a, ua_id a)) (filter allowance_ok allowances))"

definition stale_discovery_findings ::
    "gateway_config \<Rightarrow> (string \<times> string) list \<Rightarrow> policy_finding list" where
  "stale_discovery_findings cfg identities =
     map (\<lambda>(ns, rid). domain_config_finding Info
            (''stale allowed_service_discovery_upstreams identity '' @ identity_text ns rid @
             '' matches no discovery-backed upstream'')
            ''Remove the stale acknowledgment or correct it to an exact discovery-backed upstream identity'')
       (filter (\<lambda>(ns, rid). \<not> list_ex (\<lambda>u. u_namespace u = ns \<and> u_id u = rid \<and>
                  u_service_discovery u \<noteq> None) (gc_upstreams cfg)) identities)"

definition stale_external_findings ::
    "gateway_config \<Rightarrow> (string \<times> string) list \<Rightarrow> policy_finding list" where
  "stale_external_findings cfg identities =
     map (\<lambda>(ns, rid). domain_config_finding Info
            (''stale allowed_external_upstreams identity '' @ identity_text ns rid @
             '' matches no unresolved proxy upstream reference'')
            ''Remove the stale acknowledgment or correct it to an exact unresolved upstream reference'')
       (filter (\<lambda>(ns, rid). \<not> list_ex (\<lambda>p. p_namespace p = ns \<and> p_upstream_id p = Some rid \<and>
                  \<not> bt_contains (declared_upstreams cfg) (ns, rid)) (gc_proxies cfg)) identities)"

section \<open>Findings on proxies and upstreams\<close>

record domain_context =
  dc_allowed_domains :: "string list"
  dc_dns_addresses :: "string list"
  dc_control_planes :: "string list"
  dc_discovery :: "(string \<times> string) list"
  dc_external :: "(string \<times> string) list"
  dc_declared :: "(string \<times> string, upstream) btree_map"

definition resolved_upstream :: "domain_context \<Rightarrow> proxy \<Rightarrow> upstream option" where
  "resolved_upstream ctx p =
     (case p_upstream_id p of
        None \<Rightarrow> None
      | Some rid \<Rightarrow> if trim rid = [] then None else bt_get (dc_declared ctx) (p_namespace p, rid))"

definition uses_routable_upstream :: "domain_context \<Rightarrow> proxy \<Rightarrow> bool" where
  "uses_routable_upstream ctx p =
     (case resolved_upstream ctx p of
        None \<Rightarrow> False | Some u \<Rightarrow> u_targets u \<noteq> [] \<or> u_service_discovery u \<noteq> None)"

definition uses_allowed_external_upstream :: "domain_context \<Rightarrow> proxy \<Rightarrow> bool" where
  "uses_allowed_external_upstream ctx p =
     (case p_upstream_id p of
        None \<Rightarrow> False
      | Some rid \<Rightarrow> trim rid \<noteq> [] \<and> resolved_upstream ctx p = None \<and>
          (p_namespace p, rid) \<in> set (dc_external ctx))"

definition backend_host_exempt :: "domain_context \<Rightarrow> proxy \<Rightarrow> bool" where
  "backend_host_exempt ctx p =
     (uses_allowed_external_upstream ctx p \<and> trim (p_backend_host p) = [] \<or>
      uses_routable_upstream ctx p \<and> trim (p_backend_host p) = [])"

definition squote :: "string \<Rightarrow> string" where
  "squote s = [CHR 0x27] @ s @ [CHR 0x27]"

definition backend_host_text :: "domain_context \<Rightarrow> proxy \<Rightarrow> string \<times> string" where
  "backend_host_text ctx p =
     (let allowed = join '', '' (dc_allowed_domains ctx);
          host = p_backend_host p; ns = p_namespace p
      in case p_upstream_id p of
           None \<Rightarrow>
             (''backend_host='' @ squote host @ '' is not in the allowed domain list ('' @ allowed @ '')'',
              ''Use a backend_host matching one of these domains: '' @ allowed)
         | Some rid \<Rightarrow>
             if uses_allowed_external_upstream ctx p
             then (''allowed external upstream_id '' @ squote rid @ '' in namespace '' @ squote ns @
                     '' has fallback backend_host='' @ squote host @ '' outside the allowed domain list ('' @ allowed @ '')'',
                   ''Leave backend_host empty for acknowledged external upstream_id '' @ squote rid @
                     '', or use a fallback matching one of these domains: '' @ allowed)
             else if uses_routable_upstream ctx p
             then (''upstream_id '' @ squote rid @ '' in namespace '' @ squote ns @ '' has fallback backend_host='' @
                     squote host @ '' outside the allowed domain list ('' @ allowed @ '')'',
                   ''Leave backend_host empty when upstream_id '' @ squote rid @
                     '' is authoritative, or use a fallback matching one of these domains: '' @ allowed)
             else if resolved_upstream ctx p \<noteq> None
             then (''upstream_id '' @ squote rid @ '' in namespace '' @ squote ns @
                     '' has no static targets or service_discovery; fallback backend_host='' @ squote host @
                     '' is not in the allowed domain list ('' @ allowed @ '')'',
                   ''Add an allowed static target or service_discovery to upstream_id '' @ squote rid @
                     '', or use a backend_host matching one of these domains: '' @ allowed)
             else (''upstream_id '' @ squote rid @ '' is not declared in namespace '' @ squote ns @
                     ''; fallback backend_host='' @ squote host @ '' is not in the allowed domain list ('' @ allowed @ '')'',
                   ''Declare upstream_id '' @ squote rid @ '' in namespace '' @ squote ns @
                     '' or use a backend_host matching one of these domains: '' @ allowed))"

definition backend_host_findings ::
    "text_env \<Rightarrow> severity \<Rightarrow> domain_context \<Rightarrow> proxy \<Rightarrow> policy_finding list" where
  "backend_host_findings env s ctx p =
     (if \<not> backend_host_exempt ctx p \<and> \<not> is_allowed env (p_backend_host p) (dc_allowed_domains ctx)
      then [mk_finding domains_rule s ''Proxy'' (p_id p) (p_namespace p)
              (fst (backend_host_text ctx p)) (snd (backend_host_text ctx p))]
      else [])"

definition dns_pin_findings ::
    "text_env \<Rightarrow> severity \<Rightarrow> domain_context \<Rightarrow> proxy \<Rightarrow> policy_finding list" where
  "dns_pin_findings env s ctx p =
     (case dns_override_pins (p_dns_override p) of
        None \<Rightarrow> []
      | Some pins \<Rightarrow>
          (let literal = (\<lambda>d. parse_ip_literal (normalize_domain d) \<noteq> None);
               not_ip_literals = filter (\<lambda>d. \<not> literal d) pins;
               disallowed = filter (\<lambda>d. literal d \<and> \<not> is_allowed env d (dc_dns_addresses ctx)) pins
           in (if not_ip_literals = [] then []
               else [mk_finding domains_rule s ''Proxy'' (p_id p) (p_namespace p)
                      (''dns_override contains dial destination(s) that are not IP literals: '' @
                       quoted not_ip_literals)
                      ''Pin dns_override to exact IPv4 or IPv6 literals; a name still resolves at runtime and cannot be checked here'']) @
              (if disallowed = [] then []
               else [mk_finding domains_rule s ''Proxy'' (p_id p) (p_namespace p)
                      (''dns_override contains effective dial destination(s) outside the configured DNS override list: '' @
                       quoted disallowed)
                      ''Remove the disallowed dns_override destinations or add each exact IP to allowed_dns_override_addresses''])))"

definition consul_findings ::
    "text_env \<Rightarrow> severity \<Rightarrow> domain_context \<Rightarrow> upstream \<Rightarrow> policy_finding list" where
  "consul_findings env s ctx u =
     (case (case u_service_discovery u of None \<Rightarrow> None | Some d \<Rightarrow> sd_consul d) of
        None \<Rightarrow> []
      | Some consul \<Rightarrow>
          (let host = url_destination_host env (consul_address consul);
               planes = join '', '' (dc_control_planes ctx)
           in if (case host of None \<Rightarrow> True | Some h \<Rightarrow> \<not> is_allowed env h (dc_control_planes ctx))
              then [mk_finding domains_rule s ''Upstream'' (u_id u) (u_namespace u)
                     (''Consul discovery address host='' @ squote (unwrap_str ''<unparseable>'' host) @
                      '' is an invalid or disallowed control-plane destination ('' @ planes @ '')'')
                     (''Use an http(s) Consul address whose host matches one of these control-plane addresses: '' @
                      planes)]
              else []))"

definition discovery_findings :: "severity \<Rightarrow> domain_context \<Rightarrow> upstream \<Rightarrow> policy_finding list" where
  "discovery_findings s ctx u =
     (if u_service_discovery u \<noteq> None \<and> ''*'' \<notin> set (dc_allowed_domains ctx) \<and>
         (u_namespace u, u_id u) \<notin> set (dc_discovery ctx)
      then [mk_finding domains_rule s ''Upstream'' (u_id u) (u_namespace u)
             (''service_discovery can publish runtime targets that cannot be verified against the allowed domain list ('' @
              join '', '' (dc_allowed_domains ctx) @ '')'')
             (''Remove service_discovery and declare allowed targets statically, or add '' @
              identity_text (u_namespace u) (u_id u) @
              '' to allowed_service_discovery_upstreams after enforcing equivalent runtime egress controls'')]
      else [])"

definition target_findings ::
    "text_env \<Rightarrow> severity \<Rightarrow> domain_context \<Rightarrow> upstream \<Rightarrow> policy_finding list" where
  "target_findings env s ctx u =
     (let allowed = join '', '' (dc_allowed_domains ctx) in
      map (\<lambda>t. mk_finding domains_rule s ''Upstream'' (u_id u) (u_namespace u)
             (''target host='' @ squote (ut_host t) @ '' is not in the allowed domain list ('' @ allowed @ '')'')
             (''Use upstream target hosts matching one of these domains: '' @ allowed))
        (filter (\<lambda>t. \<not> is_allowed env (ut_host t) (dc_allowed_domains ctx)) (u_targets u)))"

definition domain_context_of ::
    "text_env \<Rightarrow> allowed_backend_domains_rule_config \<Rightarrow> gateway_config \<Rightarrow> domain_context" where
  "domain_context_of env c cfg =
     (let allowed = fst (classify_domain_allowlist env (abr_allowed_domains c)) in
      \<lparr>dc_allowed_domains = allowed,
       dc_dns_addresses = dns_allowlist c allowed,
       dc_control_planes = control_plane_allowlist env c allowed,
       dc_discovery = allowance_set (abr_allowed_service_discovery_upstreams c),
       dc_external = allowance_set (abr_allowed_external_upstreams c),
       dc_declared = declared_upstreams cfg\<rparr>)"


definition domain_list_findings ::
    "text_env \<Rightarrow> allowed_backend_domains_rule_config \<Rightarrow> policy_finding list" where
  "domain_list_findings env c =
     invalid_entries_finding ''invalid allowed_domains entries were ignored: ''
       (''Remove malformed entries or replace them with exact hosts, nonempty '' @ squote ''*.suffix'' @
        '' entries, or the literal '' @ squote ''*'' @ '' catch-all'')
       (snd (classify_domain_allowlist env (abr_allowed_domains c)))"

definition no_domains_finding :: policy_finding where
  "no_domains_finding =
     domain_config_finding Error ''enabled policy has no valid allowed_domains entries''
       (''Add at least one exact host, a nonempty '' @ squote ''*.suffix'' @ '' entry, or the literal '' @
        squote ''*'' @ '' catch-all'')"

definition control_plane_list_findings ::
    "text_env \<Rightarrow> allowed_backend_domains_rule_config \<Rightarrow> policy_finding list" where
  "control_plane_list_findings env c =
     invalid_entries_finding ''invalid allowed_service_discovery_control_plane_addresses entries: ''
       (''Use exact control-plane hosts, IP literals, nonempty '' @ squote ''*.suffix'' @
        '' entries, or the literal '' @ squote ''*'' @ '' catch-all'')
       (snd (classify_domain_allowlist env (abr_allowed_service_discovery_control_plane_addresses c)))"

definition dns_list_findings ::
    "allowed_backend_domains_rule_config \<Rightarrow> gateway_config \<Rightarrow> string list \<Rightarrow> policy_finding list" where
  "dns_list_findings c cfg allowed_domains =
     invalid_entries_finding ''invalid allowed_dns_override_addresses entries: ''
       ''Use exact IPv4 or IPv6 literals without ports, padding, or wildcards''
       (filter (\<lambda>address. \<not> dns_address_ok address) (abr_allowed_dns_override_addresses c)) @
     (if declares_dns_pin cfg \<and> abr_allowed_dns_override_addresses c = [] \<and>
         dns_allowlist c allowed_domains = []
      then [domain_config_finding Error
             ''dns_override pins are declared but allowed_dns_override_addresses is empty and allowed_domains has no IP literal entry, so every pin is rejected''
             ''Add each exact DNS-pin IP to allowed_dns_override_addresses'']
      else [])"

definition allowed_backend_domains_evaluate ::
    "text_env \<Rightarrow> allowed_backend_domains_rule_config \<Rightarrow> gateway_config \<Rightarrow> policy_finding list" where
  "allowed_backend_domains_evaluate env c cfg =
     (if \<not> abr_enabled c then []
      else let ctx = domain_context_of env c cfg; s = abr_severity c in
      if dc_allowed_domains ctx = [] then domain_list_findings env c @ [no_domains_finding]
      else domain_list_findings env c @ control_plane_list_findings env c @
           dns_list_findings c cfg (dc_allowed_domains ctx) @
           duplicate_upstream_findings cfg @
           allowance_findings ''allowed_service_discovery_upstreams''
             (abr_allowed_service_discovery_upstreams c) @
           allowance_findings ''allowed_external_upstreams'' (abr_allowed_external_upstreams c) @
           stale_discovery_findings cfg (dc_discovery ctx) @
           stale_external_findings cfg (dc_external ctx) @
           concat (map (\<lambda>p. backend_host_findings env s ctx p @ dns_pin_findings env s ctx p)
             (gc_proxies cfg)) @
           concat (map (\<lambda>u. consul_findings env s ctx u @ discovery_findings s ctx u @
               target_findings env s ctx u) (gc_upstreams cfg)))"

end
