(* ===== verification/Diagnostics.thy ===== *)
theory Diagnostics
  imports Prelude
begin

text \<open>
  Sanitization of untrusted text on its way to a CI log (\<open>src/diagnostics.rs\<close>).  All of it works on
  characters, so a \<open>String\<close> is here the list of its characters, each the list of its UTF-8 bytes.
\<close>

type_synonym chars = "string list"

section \<open>The code\<close>

definition REPLACEMENT :: string where
  "REPLACEMENT = [CHR 0xEF, CHR 0xBF, CHR 0xBD]"

definition TRUNCATION_MARKER :: chars where
  "TRUNCATION_MARKER = map (\<lambda>b. [b]) ''[truncated]''"

definition MAX_INLINE_CHARS :: nat where "MAX_INLINE_CHARS = 512"
definition MAX_BLOCK_CHARS :: nat where "MAX_BLOCK_CHARS = 64 * 1024"

text \<open>\<open>char::is_control\<close>: C0, DEL and C1.\<close>

fun is_control :: "string \<Rightarrow> bool" where
  "is_control [b] = ((of_char b :: nat) < 32 \<or> (of_char b :: nat) = 127)"
| "is_control [b, c] =
     ((of_char b :: nat) = 194 \<and> 128 \<le> (of_char c :: nat) \<and> (of_char c :: nat) < 160)"
| "is_control _ = False"

definition is_unsafe_log_char :: "string \<Rightarrow> bool" where
  "is_unsafe_log_char c =
     (is_control c \<or> c = [CHR 0xE2, CHR 0x80, CHR 0xA8] \<or> c = [CHR 0xE2, CHR 0x80, CHR 0xA9])"

definition safe_char :: "string \<Rightarrow> string" where
  "safe_char c = (if is_unsafe_log_char c then REPLACEMENT else c)"

definition replace_unsafe :: "chars \<Rightarrow> nat \<Rightarrow> chars \<times> bool" where
  "replace_unsafe value max_chars =
     (map safe_char (take max_chars value), drop max_chars value \<noteq> [])"

text \<open>\<open>str::replace("##[", "##\u{fffd}[")\<close>.\<close>

fun break_legacy :: "chars \<Rightarrow> chars" where
  "break_legacy (a # b # c # rest) =
     (if a = ''#'' \<and> b = ''#'' \<and> c = ''['' then ''#'' # ''#'' # REPLACEMENT # ''['' # break_legacy rest
      else a # break_legacy (b # c # rest))"
| "break_legacy cs = cs"

definition starts_command :: "chars \<Rightarrow> bool" where
  "starts_command line = (take 2 (trim_start_chars line) = ['':'', '':''])"

definition neutralize_workflow_commands :: "chars \<Rightarrow> chars" where
  "neutralize_workflow_commands line =
     (let line = break_legacy line in
      if starts_command line then REPLACEMENT # line else line)"

definition sanitized_spelling :: "chars \<Rightarrow> chars" where
  "sanitized_spelling value = break_legacy (map safe_char value)"

definition sanitize_single_line :: "chars \<Rightarrow> nat \<Rightarrow> chars" where
  "sanitize_single_line value max_chars =
     (let (sanitized, truncated) = replace_unsafe value max_chars
      in neutralize_workflow_commands
           (if truncated then sanitized @ TRUNCATION_MARKER else sanitized))"

definition sanitize :: "chars \<Rightarrow> chars" where
  "sanitize value = sanitize_single_line value MAX_INLINE_CHARS"

definition sanitize_line :: "chars \<Rightarrow> chars" where
  "sanitize_line value = sanitize_single_line value MAX_BLOCK_CHARS"

text \<open>\<open>split('\n')\<close> on characters; there is always a last line.\<close>

fun split_lines :: "chars \<Rightarrow> chars list" where
  "split_lines [] = [[]]"
| "split_lines (c # cs) =
     (if c = [CHR 0x0A] then [] # split_lines cs
      else (case split_lines cs of [] \<Rightarrow> [[c]] | l # ls \<Rightarrow> (c # l) # ls))"

definition strip_cr :: "chars \<Rightarrow> chars" where
  "strip_cr line = (if line \<noteq> [] \<and> last line = [CHR 0x0D] then butlast line else line)"

definition sanitize_block_line :: "chars \<Rightarrow> chars" where
  "sanitize_block_line line =
     neutralize_workflow_commands (fst (replace_unsafe (strip_cr line) MAX_BLOCK_CHARS))"

fun push_lines :: "bool \<Rightarrow> chars list \<Rightarrow> chars \<Rightarrow> chars" where
  "push_lines first [] output = output"
| "push_lines first (l # ls) output =
     push_lines False ls
       ((if first then output else output @ [[CHR 0x0A]]) @ sanitize_block_line l)"

definition sanitize_block :: "chars \<Rightarrow> chars" where
  "sanitize_block value =
     (let bounded = take MAX_BLOCK_CHARS value;
          truncated = (drop MAX_BLOCK_CHARS value \<noteq> []);
          output = push_lines True (split_lines bounded) []
      in if truncated then output @ TRUNCATION_MARKER else output)"

section \<open>The two guarantees\<close>

fun has_legacy :: "chars \<Rightarrow> bool" where
  "has_legacy (a # b # c # rest) =
     ((a = ''#'' \<and> b = ''#'' \<and> c = ''['') \<or> has_legacy (b # c # rest))"
| "has_legacy cs = False"

definition inert_line :: "chars \<Rightarrow> bool" where
  "inert_line line =
     (list_all (\<lambda>c. \<not> is_unsafe_log_char c) line \<and> \<not> has_legacy line \<and> \<not> starts_command line)"

lemma replacement_safe [simp]: "\<not> is_unsafe_log_char REPLACEMENT"
  by (simp add: REPLACEMENT_def is_unsafe_log_char_def)

lemma replacement_neq [simp]:
  "REPLACEMENT \<noteq> ''#''" "REPLACEMENT \<noteq> ''[''" "REPLACEMENT \<noteq> '':''"
  "''#'' \<noteq> REPLACEMENT" "''['' \<noteq> REPLACEMENT" "\<not> is_whitespace REPLACEMENT"
  by (simp_all add: REPLACEMENT_def is_whitespace_def whitespace_chars_def)

lemma safe_char_safe [simp]: "\<not> is_unsafe_log_char (safe_char c)"
  by (simp add: safe_char_def)

lemma marker_safe: "list_all (\<lambda>c. \<not> is_unsafe_log_char c) TRUNCATION_MARKER"
  by (simp add: TRUNCATION_MARKER_def is_unsafe_log_char_def)

lemma break_legacy_set: "set (break_legacy cs) \<subseteq> insert REPLACEMENT (set cs)"
  by (induction cs rule: break_legacy.induct) auto

lemma break_legacy_two:
  "\<exists>y. break_legacy (b # c # rest) = b # c # y"
  by (cases rest; cases "tl rest") auto

lemma break_legacy_safe: "\<not> has_legacy (break_legacy cs)"
proof (induction cs rule: break_legacy.induct)
  case (1 a b c rest)
  show ?case
  proof (cases "a = ''#'' \<and> b = ''#'' \<and> c = ''[''")
    case True
    have "\<not> has_legacy (''['' # s)" if "\<not> has_legacy s" for s
      using that by (cases s; cases "tl s") auto
    then show ?thesis
      using 1(1)[OF True] True by (cases "break_legacy rest") (auto simp: REPLACEMENT_def)
  next
    case False
    obtain y where y: "break_legacy (b # c # rest) = b # c # y" using break_legacy_two by blast
    then show ?thesis using 1(2)[OF False] False by auto
  qed
qed auto

lemma neutralized_inert:
  assumes "list_all (\<lambda>c. \<not> is_unsafe_log_char c) line"
  shows "inert_line (neutralize_workflow_commands line)"
proof -
  have s: "list_all (\<lambda>c. \<not> is_unsafe_log_char c) (break_legacy line)"
    using assms break_legacy_set[of line] by (auto simp: list_all_iff)
  have "\<not> has_legacy (REPLACEMENT # break_legacy line)"
    using break_legacy_safe[of line]
    by (cases "break_legacy line"; cases "tl (break_legacy line)") auto
  then show ?thesis
    using s break_legacy_safe[of line]
    by (auto simp: inert_line_def neutralize_workflow_commands_def Let_def starts_command_def
        trim_start_chars_def)
qed

lemma sanitize_single_line_inert: "inert_line (sanitize_single_line value max_chars)"
  unfolding sanitize_single_line_def replace_unsafe_def Let_def prod.case
  by (rule neutralized_inert) (simp add: marker_safe list_all_iff[of _ "map _ _"])

text \<open>
  C31.  What \<open>sanitize\<close> and \<open>sanitize_line\<close> return is inert for a CI log: it holds no control
  character and no line or paragraph separator, it does not begin with \<open>::\<close> after leading white
  space, and it contains no \<open>##[\<close>, whatever the input and also when it was truncated.
\<close>

theorem sanitize_inert:
  "inert_line (sanitize value) \<and> inert_line (sanitize_line value)"
  by (simp add: sanitize_def sanitize_line_def sanitize_single_line_inert)

section \<open>Blocks\<close>

lemma split_lines_nonempty: "split_lines cs \<noteq> []"
  by (induction cs) (auto split: list.splits)

lemma split_lines_single: "[CHR 0x0A] \<notin> set l \<Longrightarrow> split_lines l = [l]"
  by (induction l) auto

lemma split_lines_append:
  "split_lines (xs @ [CHR 0x0A] # ys) = split_lines xs @ split_lines ys"
proof (induction xs)
  case (Cons x xs)
  then show ?case
    using split_lines_nonempty[of xs] by (cases "split_lines xs") auto
qed simp

lemma newline_unsafe: "is_unsafe_log_char [CHR 0x0A]"
  by (simp add: is_unsafe_log_char_def)

lemma inert_no_newline: "inert_line l \<Longrightarrow> [CHR 0x0A] \<notin> set l"
  using newline_unsafe by (auto simp: inert_line_def list_all_iff)

lemma block_line_inert: "inert_line (sanitize_block_line l)"
  unfolding sanitize_block_line_def replace_unsafe_def fst_conv
  by (rule neutralized_inert) (simp add: list_all_iff)

lemma split_push_lines:
  "split_lines (push_lines False ls out) = split_lines out @ map sanitize_block_line ls"
  using split_lines_single[OF inert_no_newline[OF block_line_inert]]
  by (induction ls arbitrary: out) (simp_all add: split_lines_append)

lemma split_push_first:
  "ls \<noteq> [] \<Longrightarrow> split_lines (push_lines True ls []) = map sanitize_block_line ls"
  using split_lines_single[OF inert_no_newline[OF block_line_inert]]
  by (cases ls) (simp_all add: split_push_lines)

lemma marker_no_newline: "[CHR 0x0A] \<notin> set TRUNCATION_MARKER"
  by (simp add: TRUNCATION_MARKER_def)

lemma split_lines_append_last:
  "[CHR 0x0A] \<notin> set m \<Longrightarrow>
     split_lines (xs @ m) = butlast (split_lines xs) @ [last (split_lines xs) @ m]"
proof (induction xs)
  case Nil
  then show ?case by (simp add: split_lines_single)
next
  case (Cons x xs)
  then show ?case
    using split_lines_nonempty[of xs] by (cases "split_lines xs") auto
qed

lemma split_sanitize_block:
  "split_lines (sanitize_block value) =
     (let ls = map sanitize_block_line (split_lines (take MAX_BLOCK_CHARS value)) in
      if length value \<le> MAX_BLOCK_CHARS then ls
      else butlast ls @ [last ls @ TRUNCATION_MARKER])"
  using split_push_first[OF split_lines_nonempty, of "take MAX_BLOCK_CHARS value"]
    split_lines_append_last[OF marker_no_newline]
  by (auto simp: sanitize_block_def Let_def)

text \<open>
  A sanitized block keeps its line structure (cut at the bound) and every line of it is inert,
  provided the text was not truncated; when it was, this holds for every line but the last.
\<close>

theorem sanitize_block_inert:
  "let ls = split_lines (sanitize_block value) in
     length ls = length (split_lines (take MAX_BLOCK_CHARS value)) \<and>
     list_all inert_line (butlast ls) \<and>
     (length value \<le> MAX_BLOCK_CHARS \<longrightarrow> list_all inert_line ls)"
  using split_lines_nonempty[of "take MAX_BLOCK_CHARS value"] block_line_inert
  by (auto simp: split_sanitize_block Let_def list_all_iff dest!: in_set_butlastD)

theorem sanitize_block_inert_witness:
  "list_all inert_line (split_lines (sanitize_block (map (\<lambda>b. [b]) ''a ##[error]x'')))"
  using sanitize_block_inert[of "map (\<lambda>b. [b]) ''a ##[error]x''"]
  by (simp add: Let_def MAX_BLOCK_CHARS_def)

section \<open>Where the guarantee stops\<close>

definition long_hash_text :: chars where
  "long_hash_text = replicate (MAX_BLOCK_CHARS - 2) ''a'' @ [''#'', ''#'', ''x'']"

lemma break_legacy_hashes:
  "break_legacy (replicate n ''a'' @ [''#'', ''#'']) = replicate n ''a'' @ [''#'', ''#'']"
proof (induction n)
  case (Suc n)
  show ?case
  proof (cases n)
    case (Suc m)
    then show ?thesis using Suc.IH by (cases m) auto
  qed simp
qed simp

lemma has_legacy_prefix: "has_legacy ys \<Longrightarrow> has_legacy (xs @ ys)"
proof (induction xs)
  case (Cons x xs)
  then show ?case
    by (cases "xs @ ys"; cases "tl (xs @ ys)") auto
qed simp

text \<open>
  The module promises that no returned line contains \<open>##[\<close>; \<open>sanitize_block\<close> breaks that promise.
  It appends \<open>[truncated]\<close> after the lines were neutralized, so a text whose cut ends in \<open>##\<close> comes
  out with \<open>##[truncated]\<close> in its last line.
\<close>

theorem sanitize_block_truncation_gap:
  "has_legacy (last (split_lines (sanitize_block long_hash_text)))"
proof -
  have "MAX_BLOCK_CHARS = Suc 65533 + 2" by (simp add: MAX_BLOCK_CHARS_def)
  then obtain k where k: "MAX_BLOCK_CHARS = Suc k + 2" by blast
  define body where "body = replicate (Suc k) ''a'' @ [''#'', ''#'']"
  have len: "length body = MAX_BLOCK_CHARS" by (simp add: body_def k)
  have v: "long_hash_text = body @ [''x'']" by (simp add: long_hash_text_def body_def k)
  have t: "take MAX_BLOCK_CHARS long_hash_text = body" "\<not> length long_hash_text \<le> MAX_BLOCK_CHARS"
    by (simp_all add: v len[symmetric])
  have sl: "split_lines body = [body]" by (rule split_lines_single) (auto simp: body_def)
  have cr: "strip_cr body = body" by (simp add: strip_cr_def body_def)
  have safe: "map safe_char body = body"
    by (simp add: safe_char_def is_unsafe_log_char_def body_def)
  have "\<not> is_whitespace ''a''" by (simp add: is_whitespace_def whitespace_chars_def)
  then have ns: "\<not> starts_command body"
    by (simp add: starts_command_def trim_start_chars_def body_def numeral_2_eq_2)
  have bl: "break_legacy body = body" unfolding body_def by (rule break_legacy_hashes)
  have "sanitize_block_line body = body"
    unfolding sanitize_block_line_def cr replace_unsafe_def fst_conv take_all[OF eq_refl[OF len]] safe
    by (simp add: neutralize_workflow_commands_def Let_def bl ns)
  then have "last (split_lines (sanitize_block long_hash_text)) = body @ TRUNCATION_MARKER"
    using t(2) by (simp add: split_sanitize_block Let_def t(1) sl)
  moreover have "has_legacy ([''#'', ''#''] @ TRUNCATION_MARKER)"
    by (simp add: TRUNCATION_MARKER_def)
  ultimately show ?thesis
    using has_legacy_prefix[of "[''#'', ''#''] @ TRUNCATION_MARKER" "replicate (Suc k) ''a''"]
    by (simp add: body_def)
qed

end
