(* ===== verification/Policy.thy ===== *)
theory Policy
  imports PolicyAuth PolicyDomains Diagnostics
begin

text \<open>
  The policy registry (\<open>policy/registry.rs\<close>): which rules a policy file activates, how their findings
  are collected, and how each finding's text is made safe to print.  The locale \<open>policy_rule\<close> is the
  contract of the trait \<open>PolicyCheck\<close>, and every rule of the registry is an instance of it.
\<close>

section \<open>The registry\<close>

text \<open>The implementors of \<open>PolicyCheck\<close>.\<close>

datatype policy_check =
    TimeoutBandsRule timeout_bands_rule_config
  | BackendSchemeRule backend_scheme_rule_config
  | RequireAuthPluginRule require_auth_plugin_rule_config
  | ForbidTlsVerifyDisabledRule forbid_tls_verify_disabled_rule_config
  | AllowedProxyPluginsRule allowed_proxy_plugins_rule_config
  | AllowedBackendDomainsRule allowed_backend_domains_rule_config
  | WafEnforcementRule waf_enforcement_rule_config
  | RequireAiGuardrailsRule require_ai_guardrails_rule_config
  | RateLimitCompletenessRule rate_limit_completeness_rule_config
  | PluginNameIsKnownRule plugin_name_is_known_rule_config
  | PriorityOverrideRangeRule priority_override_range_rule_config

fun rule_id :: "policy_check \<Rightarrow> string" where
  "rule_id (TimeoutBandsRule c) = ''proxy_timeout_bands''"
| "rule_id (BackendSchemeRule c) = ''backend_scheme''"
| "rule_id (RequireAuthPluginRule c) = ''require_auth_plugin''"
| "rule_id (ForbidTlsVerifyDisabledRule c) = ''forbid_tls_verify_disabled''"
| "rule_id (AllowedProxyPluginsRule c) = ''allowed_proxy_plugins''"
| "rule_id (AllowedBackendDomainsRule c) = ''allowed_backend_domains''"
| "rule_id (WafEnforcementRule c) = ''waf_enforcement''"
| "rule_id (RequireAiGuardrailsRule c) = ''require_ai_guardrails''"
| "rule_id (RateLimitCompletenessRule c) = ''rate_limit_completeness''"
| "rule_id (PluginNameIsKnownRule c) = ''plugin_name_is_known''"
| "rule_id (PriorityOverrideRangeRule c) = ''priority_override_range''"

text \<open>
  What the rules take from outside the repository: \<open>str::to_lowercase\<close> of the standard library on
  non-ASCII text, and the text functions of the domain rule.
\<close>

record rule_env =
  re_lower :: "string \<Rightarrow> string"
  re_text :: text_env

fun evaluate :: "rule_env \<Rightarrow> policy_check \<Rightarrow> gateway_config \<Rightarrow> policy_finding list" where
  "evaluate env (TimeoutBandsRule c) cfg = timeout_bands_evaluate c cfg"
| "evaluate env (BackendSchemeRule c) cfg = backend_scheme_evaluate (re_lower env) c cfg"
| "evaluate env (RequireAuthPluginRule c) cfg = require_auth_plugin_evaluate c cfg"
| "evaluate env (ForbidTlsVerifyDisabledRule c) cfg = forbid_tls_verify_disabled_evaluate c cfg"
| "evaluate env (AllowedProxyPluginsRule c) cfg = allowed_proxy_plugins_evaluate c cfg"
| "evaluate env (AllowedBackendDomainsRule c) cfg = allowed_backend_domains_evaluate (re_text env) c cfg"
| "evaluate env (WafEnforcementRule c) cfg = waf_enforcement_evaluate c cfg"
| "evaluate env (RequireAiGuardrailsRule c) cfg = require_ai_guardrails_evaluate c cfg"
| "evaluate env (RateLimitCompletenessRule c) cfg = rate_limit_completeness_evaluate c cfg"
| "evaluate env (PluginNameIsKnownRule c) cfg = plugin_name_is_known_evaluate c cfg"
| "evaluate env (PriorityOverrideRangeRule c) cfg = priority_override_range_evaluate c cfg"

definition push_rule :: "bool \<Rightarrow> policy_check \<Rightarrow> policy_check list" where
  "push_rule active rule = (if active then [rule] else [])"

definition build_registry :: "policy_config \<Rightarrow> policy_check list" where
  "build_registry pc =
     (let p = pol_policies pc in
      push_rule (tbr_enabled (pol_proxy_timeout_bands p))
        (TimeoutBandsRule (pol_proxy_timeout_bands p)) @
      push_rule (bsr_enabled (pol_backend_scheme p)) (BackendSchemeRule (pol_backend_scheme p)) @
      push_rule (rar_enabled (pol_require_auth_plugin p) \<or>
                 rar_conditional_auth_exemptions (pol_require_auth_plugin p) \<noteq> [])
        (RequireAuthPluginRule (pol_require_auth_plugin p)) @
      push_rule (ftr_enabled (pol_forbid_tls_verify_disabled p))
        (ForbidTlsVerifyDisabledRule (pol_forbid_tls_verify_disabled p)) @
      push_rule (apr_enabled (pol_allowed_proxy_plugins p))
        (AllowedProxyPluginsRule (pol_allowed_proxy_plugins p)) @
      push_rule (abr_enabled (pol_allowed_backend_domains p))
        (AllowedBackendDomainsRule (pol_allowed_backend_domains p)) @
      push_rule (wer_enabled (pol_waf_enforcement p)) (WafEnforcementRule (pol_waf_enforcement p)) @
      push_rule (gar_enabled (pol_require_ai_guardrails p))
        (RequireAiGuardrailsRule (pol_require_ai_guardrails p)) @
      push_rule (rlr_enabled (pol_rate_limit_completeness p))
        (RateLimitCompletenessRule (pol_rate_limit_completeness p)) @
      push_rule (pnr_enabled (pol_plugin_name_is_known p))
        (PluginNameIsKnownRule (pol_plugin_name_is_known p)) @
      push_rule (por_enabled (pol_priority_override_range p))
        (PriorityOverrideRangeRule (pol_priority_override_range p)))"

section \<open>Evaluation\<close>

text \<open>\<open>sanitize\<close> and \<open>sanitize_line\<close> on a string.\<close>

definition sanitize_str :: "string \<Rightarrow> string" where
  "sanitize_str s = concat (sanitize (utf8_chars s))"

definition sanitize_line_str :: "string \<Rightarrow> string" where
  "sanitize_line_str s = concat (sanitize_line (utf8_chars s))"

definition sanitize_finding :: "policy_finding \<Rightarrow> policy_finding" where
  "sanitize_finding f =
     f\<lparr>pf_kind := sanitize_str (pf_kind f), pf_id := sanitize_str (pf_id f),
       pf_namespace := sanitize_str (pf_namespace f),
       pf_message := sanitize_line_str (pf_message f),
       pf_remediation := map_option sanitize_line_str (pf_remediation f)\<rparr>"

definition evaluate_policies :: "rule_env \<Rightarrow> gateway_config \<Rightarrow> policy_config \<Rightarrow> policy_finding list" where
  "evaluate_policies env cfg pc =
     concat (map (\<lambda>rule. map sanitize_finding (evaluate env rule cfg)) (build_registry pc))"

section \<open>The contract of a rule\<close>

text \<open>
  A finding is about something: a resource kind names a resource of the configuration, and the kind
  \<open>PolicyConfig\<close> the policy file itself.
\<close>

definition about_resource :: "gateway_config \<Rightarrow> policy_finding \<Rightarrow> bool" where
  "about_resource cfg f =
     (let key = (pf_namespace f, pf_id f) in
      pf_kind f = ''PolicyConfig'' \<or>
      pf_kind f = ''Proxy'' \<and> key \<in> set (map (\<lambda>p. (p_namespace p, p_id p)) (gc_proxies cfg)) \<or>
      pf_kind f = ''Upstream'' \<and> key \<in> set (map (\<lambda>u. (u_namespace u, u_id u)) (gc_upstreams cfg)) \<or>
      pf_kind f = ''PluginConfig'' \<and>
        key \<in> set (map (\<lambda>q. (pc_namespace q, pc_id q)) (gc_plugin_configs cfg)))"

text \<open>
  The severity of a finding: the configured one for a resource; a fault of the policy file itself
  always blocks, and a stale acknowledgment or an accepted exemption is only information.
\<close>

definition severity_ok :: "severity \<Rightarrow> policy_finding \<Rightarrow> bool" where
  "severity_ok configured f =
     (if pf_kind f = ''PolicyConfig'' then pf_severity f \<in> {Error, Info}
      else pf_severity f \<in> {configured, Info})"

definition finding_ok :: "gateway_config \<Rightarrow> severity \<Rightarrow> policy_finding \<Rightarrow> bool" where
  "finding_ok cfg configured f =
     (pf_overridden_by f = None \<and> pf_remediation f \<noteq> None \<and> severity_ok configured f \<and>
      about_resource cfg f)"

locale policy_rule =
  fixes active :: bool
    and configured :: severity
    and findings :: "gateway_config \<Rightarrow> policy_finding list"
  assumes inactive: "\<not> active \<Longrightarrow> findings cfg = []"
    and well_formed: "f \<in> set (findings cfg) \<Longrightarrow> finding_ok cfg configured f"
begin

lemma gate: "(if active then findings cfg else []) = findings cfg"
  by (simp add: inactive)

lemma blocks_by_severity: "f \<in> set (findings cfg) \<Longrightarrow> is_blocking f \<longleftrightarrow> pf_severity f = Error"
  using well_formed by (auto simp: is_blocking_def blocks_apply_def finding_ok_def)

lemma quiet_unless_error:
  assumes "configured \<noteq> Error" "f \<in> set (findings cfg)" "is_blocking f"
  shows "pf_kind f = ''PolicyConfig''"
  using assms well_formed[OF assms(2)]
  by (auto simp: is_blocking_def blocks_apply_def finding_ok_def severity_ok_def split: if_splits)

end

lemma mk_finding_ok:
  "finding_ok cfg s (mk_finding rule t kind rid ns message remediation) \<longleftrightarrow>
     severity_ok s (mk_finding rule t kind rid ns message remediation) \<and>
     about_resource cfg (mk_finding rule t kind rid ns message remediation)"
  by (simp add: finding_ok_def mk_finding_def)

lemma mk_finding_severity:
  "severity_ok s (mk_finding rule t kind rid ns message remediation) \<longleftrightarrow>
     (if kind = ''PolicyConfig'' then t \<in> {Error, Info} else t \<in> {s, Info})"
  by (simp add: severity_ok_def mk_finding_def)

lemma mk_finding_about:
  "about_resource cfg (mk_finding rule t kind rid ns message remediation) \<longleftrightarrow>
     kind = ''PolicyConfig'' \<or>
     kind = ''Proxy'' \<and> (\<exists>p\<in>set (gc_proxies cfg). ns = p_namespace p \<and> rid = p_id p) \<or>
     kind = ''Upstream'' \<and> (\<exists>u\<in>set (gc_upstreams cfg). ns = u_namespace u \<and> rid = u_id u) \<or>
     kind = ''PluginConfig'' \<and>
       (\<exists>q\<in>set (gc_plugin_configs cfg). ns = pc_namespace q \<and> rid = pc_id q)"
  by (auto simp: about_resource_def mk_finding_def image_iff)

lemma empty_allowlist_ok: "finding_ok cfg s (empty_allowlist_finding rule key)"
  by (simp add: finding_ok_def empty_allowlist_finding_def severity_ok_def about_resource_def)

lemmas finding_ok_simps = mk_finding_ok mk_finding_severity mk_finding_about empty_allowlist_ok

section \<open>Every rule meets the contract\<close>

lemma check_field_ok:
  "p \<in> set (gc_proxies cfg) \<Longrightarrow> f \<in> set (check_field rule field v band s (p_id p) (p_namespace p)) \<Longrightarrow>
   finding_ok cfg s f"
  by (auto simp: check_field_def Let_def finding_ok_simps split: option.splits if_splits)

interpretation timeout_bands: policy_rule
    "tbr_enabled c" "tbr_severity c" "timeout_bands_evaluate c"
  by unfold_locales (auto simp: timeout_bands_evaluate_def intro: check_field_ok split: if_splits)

interpretation backend_scheme: policy_rule
    "bsr_enabled c" "bsr_severity c" "backend_scheme_evaluate lower c"
  by unfold_locales
    (auto simp: backend_scheme_evaluate_def Let_def finding_ok_simps split: if_splits)

interpretation forbid_tls: policy_rule
    "ftr_enabled c" "ftr_severity c" "forbid_tls_verify_disabled_evaluate c"
  by unfold_locales
    (auto simp: forbid_tls_verify_disabled_evaluate_def finding_ok_simps split: if_splits)

interpretation plugin_names: policy_rule
    "pnr_enabled c" "pnr_severity c" "plugin_name_is_known_evaluate c"
  by unfold_locales
    (auto simp: plugin_name_is_known_evaluate_def Let_def finding_ok_simps split: if_splits)

interpretation priority_range: policy_rule
    "por_enabled c" "por_severity c" "priority_override_range_evaluate c"
  by unfold_locales
    (auto simp: priority_override_range_evaluate_def priority_override_finding_def finding_ok_simps
      split: if_splits option.splits)

lemma unresolved_association_ok:
  "p \<in> set (gc_proxies cfg) \<Longrightarrow> f \<in> set (unresolved_association s listing cfg p a) \<Longrightarrow> finding_ok cfg s f"
  by (auto simp: unresolved_association_def finding_ok_simps split: if_splits)

interpretation proxy_plugins: policy_rule
    "apr_enabled c" "apr_severity c" "allowed_proxy_plugins_evaluate c"
  by unfold_locales
    (auto simp: allowed_proxy_plugins_evaluate_def Let_def finding_ok_simps
      intro: unresolved_association_ok split: if_splits)

lemma waf_check_instance_ok:
  "p \<in> set (gc_plugin_configs cfg) \<Longrightarrow> f \<in> set (waf_check_instance c p) \<Longrightarrow>
   finding_ok cfg (wer_severity c) f"
  by (auto simp: waf_check_instance_def waf_mode_findings_def waf_paranoia_findings_def
      waf_body_findings_def waf_finding_def Let_def finding_ok_simps split: if_splits option.splits)

interpretation waf: policy_rule
    "wer_enabled c" "wer_severity c" "waf_enforcement_evaluate c"
  by unfold_locales
    (auto simp: waf_enforcement_evaluate_def intro: waf_check_instance_ok split: if_splits)

lemma ai_route_ok:
  "p \<in> set (gc_proxies cfg) \<Longrightarrow> f \<in> set (ai_route_findings s guardrails cfg p) \<Longrightarrow> finding_ok cfg s f"
  by (auto simp: ai_route_findings_def unguarded_finding_def observing_finding_def Let_def
      finding_ok_simps split: if_splits)

interpretation ai_guardrails: policy_rule
    "gar_enabled c" "gar_severity c" "require_ai_guardrails_evaluate c"
  by unfold_locales
    (auto simp: require_ai_guardrails_evaluate_def finding_ok_simps intro: ai_route_ok
      split: if_splits)

lemma rate_limiter_ok:
  "p \<in> set (gc_plugin_configs cfg) \<Longrightarrow> f \<in> set (rate_limiter_findings s p) \<Longrightarrow> finding_ok cfg s f"
  by (auto simp: rate_limiter_findings_def check_rate_limiting_def check_ai_rate_limiter_def
      redis_fallback_findings_def budget_findings_def rate_finding_def Let_def finding_ok_simps
      split: if_splits option.splits prod.splits)

interpretation rate_limits: policy_rule
    "rlr_enabled c" "rlr_severity c" "rate_limit_completeness_evaluate c"
  by unfold_locales
    (auto simp: rate_limit_completeness_evaluate_def intro: rate_limiter_ok split: if_splits)

lemma auth_findings_ok:
  "p \<in> set (gc_proxies cfg) \<Longrightarrow> f \<in> set (auth_findings c cfg p) \<Longrightarrow> finding_ok cfg (rar_severity c) f"
  by (auto simp: auth_findings_def Let_def finding_ok_simps split: if_splits)

lemma exemption_findings_ok:
  "f \<in> set (exemption_findings c cfg e) \<Longrightarrow> finding_ok cfg s f"
  by (auto simp: exemption_findings_def Let_def finding_ok_simps split: if_splits prod.splits)

interpretation require_auth: policy_rule
    "rar_enabled c \<or> rar_conditional_auth_exemptions c \<noteq> []" "rar_severity c"
    "require_auth_plugin_evaluate c"
  by unfold_locales
    (auto simp: require_auth_plugin_evaluate_def intro: auth_findings_ok exemption_findings_ok
      split: if_splits)

lemma domain_config_ok: "t \<in> {Error, Info} \<Longrightarrow> finding_ok cfg s (domain_config_finding t message remediation)"
  by (simp add: domain_config_finding_def finding_ok_simps)

lemma policy_file_findings_ok:
  "f \<in> set (invalid_entries_finding message remediation invalid) \<Longrightarrow> finding_ok cfg s f"
  "f \<in> set (duplicate_upstream_findings g) \<Longrightarrow> finding_ok cfg s f"
  "f \<in> set (allowance_findings field allowances) \<Longrightarrow> finding_ok cfg s f"
  "f \<in> set (stale_discovery_findings g ids) \<Longrightarrow> finding_ok cfg s f"
  "f \<in> set (stale_external_findings g ids) \<Longrightarrow> finding_ok cfg s f"
  by (auto simp: invalid_entries_finding_def duplicate_upstream_findings_def allowance_findings_def
      stale_discovery_findings_def stale_external_findings_def
      intro: domain_config_ok split: if_splits)

lemma no_domains_ok: "finding_ok cfg s no_domains_finding"
  by (simp add: no_domains_finding_def domain_config_ok)

lemma list_findings_ok:
  "f \<in> set (domain_list_findings env c) \<Longrightarrow> finding_ok cfg s f"
  "f \<in> set (control_plane_list_findings env c) \<Longrightarrow> finding_ok cfg s f"
  "f \<in> set (dns_list_findings c g allowed) \<Longrightarrow> finding_ok cfg s f"
  by (auto simp: domain_list_findings_def control_plane_list_findings_def dns_list_findings_def
      intro: policy_file_findings_ok domain_config_ok split: if_splits)

lemma proxy_destination_ok:
  assumes "p \<in> set (gc_proxies cfg)"
  shows "f \<in> set (backend_host_findings env s ctx p) \<Longrightarrow> finding_ok cfg s f"
    and "f \<in> set (dns_pin_findings env s ctx p) \<Longrightarrow> finding_ok cfg s f"
  using assms
  by (auto simp: backend_host_findings_def dns_pin_findings_def Let_def finding_ok_simps
      split: if_splits option.splits)

lemma upstream_destination_ok:
  assumes "u \<in> set (gc_upstreams cfg)"
  shows "f \<in> set (consul_findings env s ctx u) \<Longrightarrow> finding_ok cfg s f"
    and "f \<in> set (discovery_findings s ctx u) \<Longrightarrow> finding_ok cfg s f"
    and "f \<in> set (target_findings env s ctx u) \<Longrightarrow> finding_ok cfg s f"
  using assms
  by (auto simp: consul_findings_def discovery_findings_def target_findings_def Let_def
      finding_ok_simps split: if_splits option.splits)

interpretation backend_domains: policy_rule
    "abr_enabled c" "abr_severity c" "allowed_backend_domains_evaluate env c"
  by unfold_locales
    (auto simp: allowed_backend_domains_evaluate_def Let_def no_domains_ok
      dest: list_findings_ok policy_file_findings_ok proxy_destination_ok upstream_destination_ok
      split: if_splits)

section \<open>The registry as a whole\<close>

fun rule_severity :: "policy_check \<Rightarrow> severity" where
  "rule_severity (TimeoutBandsRule c) = tbr_severity c"
| "rule_severity (BackendSchemeRule c) = bsr_severity c"
| "rule_severity (RequireAuthPluginRule c) = rar_severity c"
| "rule_severity (ForbidTlsVerifyDisabledRule c) = ftr_severity c"
| "rule_severity (AllowedProxyPluginsRule c) = apr_severity c"
| "rule_severity (AllowedBackendDomainsRule c) = abr_severity c"
| "rule_severity (WafEnforcementRule c) = wer_severity c"
| "rule_severity (RequireAiGuardrailsRule c) = gar_severity c"
| "rule_severity (RateLimitCompletenessRule c) = rlr_severity c"
| "rule_severity (PluginNameIsKnownRule c) = pnr_severity c"
| "rule_severity (PriorityOverrideRangeRule c) = por_severity c"

fun rule_active :: "policy_check \<Rightarrow> bool" where
  "rule_active (TimeoutBandsRule c) = tbr_enabled c"
| "rule_active (BackendSchemeRule c) = bsr_enabled c"
| "rule_active (RequireAuthPluginRule c) =
     (rar_enabled c \<or> rar_conditional_auth_exemptions c \<noteq> [])"
| "rule_active (ForbidTlsVerifyDisabledRule c) = ftr_enabled c"
| "rule_active (AllowedProxyPluginsRule c) = apr_enabled c"
| "rule_active (AllowedBackendDomainsRule c) = abr_enabled c"
| "rule_active (WafEnforcementRule c) = wer_enabled c"
| "rule_active (RequireAiGuardrailsRule c) = gar_enabled c"
| "rule_active (RateLimitCompletenessRule c) = rlr_enabled c"
| "rule_active (PluginNameIsKnownRule c) = pnr_enabled c"
| "rule_active (PriorityOverrideRangeRule c) = por_enabled c"

text \<open>All rules of a policy file, in registry order.\<close>

definition all_rules :: "policy_config \<Rightarrow> policy_check list" where
  "all_rules pc =
     (let p = pol_policies pc in
      [TimeoutBandsRule (pol_proxy_timeout_bands p), BackendSchemeRule (pol_backend_scheme p),
       RequireAuthPluginRule (pol_require_auth_plugin p),
       ForbidTlsVerifyDisabledRule (pol_forbid_tls_verify_disabled p),
       AllowedProxyPluginsRule (pol_allowed_proxy_plugins p),
       AllowedBackendDomainsRule (pol_allowed_backend_domains p),
       WafEnforcementRule (pol_waf_enforcement p),
       RequireAiGuardrailsRule (pol_require_ai_guardrails p),
       RateLimitCompletenessRule (pol_rate_limit_completeness p),
       PluginNameIsKnownRule (pol_plugin_name_is_known p),
       PriorityOverrideRangeRule (pol_priority_override_range p)])"

lemma build_registry_filter: "build_registry pc = filter rule_active (all_rules pc)"
  by (simp add: build_registry_def all_rules_def push_rule_def Let_def)

lemmas rules_inactive = timeout_bands.inactive backend_scheme.inactive forbid_tls.inactive
  plugin_names.inactive priority_range.inactive proxy_plugins.inactive waf.inactive
  ai_guardrails.inactive rate_limits.inactive require_auth.inactive backend_domains.inactive

lemmas rules_well_formed = timeout_bands.well_formed backend_scheme.well_formed
  forbid_tls.well_formed plugin_names.well_formed priority_range.well_formed
  proxy_plugins.well_formed waf.well_formed ai_guardrails.well_formed rate_limits.well_formed
  require_auth.well_formed backend_domains.well_formed

lemma rule_contract: "policy_rule (rule_active r) (rule_severity r) (evaluate env r)"
proof (rule policy_rule.intro)
  show "evaluate env r cfg = []" if "\<not> rule_active r" for cfg
    using that by (cases r) (simp_all add: rules_inactive)
  show "finding_ok cfg (rule_severity r) f" if "f \<in> set (evaluate env r cfg)" for f cfg
    using that by (cases r) (simp_all add: rules_well_formed)
qed

interpretation rule: policy_rule "rule_active r" "rule_severity r" "evaluate env r"
  by (rule rule_contract)

lemma set_registry: "r \<in> set (build_registry pc) \<longleftrightarrow> r \<in> set (all_rules pc) \<and> rule_active r"
  by (auto simp: build_registry_filter)

lemma evaluate_policies_all:
  "evaluate_policies env cfg pc =
     map sanitize_finding (concat (map (\<lambda>r. evaluate env r cfg) (all_rules pc)))"
proof -
  have "concat (map (\<lambda>r. map sanitize_finding (evaluate env r cfg)) (filter rule_active rs)) =
      map sanitize_finding (concat (map (\<lambda>r. evaluate env r cfg) rs))" for rs
    by (induction rs) (simp_all add: rule.inactive)
  then show ?thesis by (simp add: evaluate_policies_def build_registry_filter)
qed

end
