(* ===== verification/Catalog_Facts.thy ===== *)
theory Catalog_Facts
  imports Catalog "HOL-Library.Multiset"
begin

text \<open>
  What the plugin catalog promises to the audits and the policy rules: which plugins are effective
  on a proxy, and what a coverage report says about the requests that reach its backend.
\<close>

section \<open>Effective plugins\<close>

definition displaced :: "gateway_config \<Rightarrow> proxy \<Rightarrow> string \<Rightarrow> bool" where
  "displaced config proxy name =
     (name \<notin> set SIZE_LIMIT_PLUGIN_NAMES \<and>
      list_ex (\<lambda>q. is_scoped_to q proxy \<and> pc_plugin_name q = name) (enabled_in_ns config proxy))"

definition is_effective :: "gateway_config \<Rightarrow> proxy \<Rightarrow> plugin_config \<Rightarrow> bool" where
  "is_effective config proxy plugin =
     (plugin \<in> set (gc_plugin_configs config) \<and> pc_enabled plugin \<and>
      pc_namespace plugin = p_namespace proxy \<and>
      (is_scoped_to plugin proxy \<or>
       (pc_scope plugin = Global \<and> \<not> displaced config proxy (pc_plugin_name plugin))))"

lemma set_effective_plugins:
  "plugin \<in> set (effective_plugins config proxy) \<longleftrightarrow> is_effective config proxy plugin"
  by (auto simp: effective_plugins_def Let_def is_effective_def displaced_def enabled_in_ns_def
      list_ex_iff image_iff)

lemma scoped_not_global: "is_scoped_to plugin proxy \<Longrightarrow> pc_scope plugin \<noteq> Global"
  by (auto simp: is_scoped_to_def)

text \<open>
  The effective plugins of a proxy are exactly the enabled instances of its namespace that are
  attached to it, and the global ones whose name no attached enabled instance takes over; a global
  size-limit plugin is never displaced.  They come in execution order and each instance as often as
  the configuration holds it.
\<close>

theorem effective_plugins_exact:
  "set (effective_plugins config proxy) = {plugin. is_effective config proxy plugin} \<and>
   sorted (map effective_priority (effective_plugins config proxy)) \<and>
   mset (effective_plugins config proxy) =
     filter_mset (is_effective config proxy) (mset (gc_plugin_configs config))"
proof (intro conjI)
  show "set (effective_plugins config proxy) = {plugin. is_effective config proxy plugin}"
    by (auto simp: set_effective_plugins)
  show "sorted (map effective_priority (effective_plugins config proxy))"
    by (simp add: effective_plugins_def Let_def)
  define en where "en = enabled_in_ns config proxy"
  define rep where "rep = filter (\<lambda>name. name \<notin> set SIZE_LIMIT_PLUGIN_NAMES)
    (map pc_plugin_name (filter (\<lambda>plugin. is_scoped_to plugin proxy) en))"
  let ?g = "\<lambda>plugin. pc_scope plugin = Global \<and> pc_plugin_name plugin \<notin> set rep"
  let ?s = "\<lambda>plugin. is_scoped_to plugin proxy"
  have "mset (effective_plugins config proxy) = mset (filter ?g en) + mset (filter ?s en)"
    by (simp add: effective_plugins_def Let_def en_def rep_def)
  also have "\<dots> = mset (filter (\<lambda>p. ?s p \<or> ?g p) en)"
    by (induction en) (auto dest: scoped_not_global)
  also have "filter (\<lambda>p. ?s p \<or> ?g p) en = filter (is_effective config proxy) (gc_plugin_configs config)"
    unfolding en_def enabled_in_ns_def filter_filter
    by (rule filter_cong)
      (auto simp: is_effective_def displaced_def rep_def en_def enabled_in_ns_def list_ex_iff
        image_iff)
  finally show "mset (effective_plugins config proxy) =
      filter_mset (is_effective config proxy) (mset (gc_plugin_configs config))"
    by simp
qed

section \<open>Coverage\<close>

lemma fold_classify:
  "fold (classify_authenticator proxy auth) ps (a, c, i) =
     (a @ filter (\<lambda>p. allowlist_contains auth (pc_plugin_name p) \<and>
        runs_on_listener proxy auth p \<and> \<not> is_conditional p) ps,
      c @ filter (\<lambda>p. allowlist_contains auth (pc_plugin_name p) \<and>
        runs_on_listener proxy auth p \<and> is_conditional p) ps,
      i @ filter (\<lambda>p. allowlist_contains auth (pc_plugin_name p) \<and>
        \<not> runs_on_listener proxy auth p) ps)"
  by (induction ps arbitrary: a c i) (auto simp: classify_authenticator_def)

lemma coverage_fields:
  "ac_applicable (auth_coverage_of config proxy auth) =
     filter (\<lambda>p. allowlist_contains auth (pc_plugin_name p) \<and> runs_on_listener proxy auth p \<and>
       \<not> is_conditional p) (effective_plugins config proxy)"
  "ac_conditional (auth_coverage_of config proxy auth) =
     filter (\<lambda>p. allowlist_contains auth (pc_plugin_name p) \<and> runs_on_listener proxy auth p \<and>
       is_conditional p) (effective_plugins config proxy)"
  "ac_inapplicable (auth_coverage_of config proxy auth) =
     filter (\<lambda>p. allowlist_contains auth (pc_plugin_name p) \<and> \<not> runs_on_listener proxy auth p)
       (effective_plugins config proxy)"
  "ac_listener_establishes_identity (auth_coverage_of config proxy auth) =
     listener_can_establish_identity proxy"
  "ac_transport (auth_coverage_of config proxy auth) = proxy_transport_of proxy"
  by (simp_all add: auth_coverage_of_def Let_def fold_classify split: prod.splits)

lemma coverage_uncovered:
  "ac_uncovered (auth_coverage_of config proxy auth) =
     filter (\<lambda>protocol. \<not> list_ex (\<lambda>p. runs_on auth (pc_plugin_name p) protocol)
       (ac_applicable (auth_coverage_of config proxy auth)))
       (request_protocols (proxy_transport_of proxy))"
  by (simp add: auth_coverage_of_def Let_def fold_classify split: prod.splits)

definition guards :: "gateway_config \<Rightarrow> proxy \<Rightarrow> auth_allowlist \<Rightarrow> plugin_protocol \<Rightarrow> plugin_config \<Rightarrow> bool"
  where
  "guards config proxy auth protocol plugin =
     (is_effective config proxy plugin \<and> allowlist_contains auth (pc_plugin_name plugin) \<and>
      \<not> is_conditional plugin \<and> runs_on auth (pc_plugin_name plugin) protocol)"

lemma runs_on_listenerI:
  "listener_can_establish_identity proxy \<Longrightarrow>
   protocol \<in> set (request_protocols (proxy_transport_of proxy)) \<Longrightarrow>
   runs_on auth (pc_plugin_name p) protocol \<Longrightarrow> runs_on_listener proxy auth p"
  by (auto simp: runs_on_listener_def Let_def listener_can_establish_identity_def list_ex_iff)

lemma covered_iff:
  assumes "listener_can_establish_identity proxy"
    and "protocol \<in> set (request_protocols (proxy_transport_of proxy))"
  shows "protocol \<notin> set (ac_uncovered (auth_coverage_of config proxy auth)) \<longleftrightarrow>
      (\<exists>plugin. guards config proxy auth protocol plugin)"
  using assms
  by (auto simp: coverage_uncovered coverage_fields list_ex_iff guards_def set_effective_plugins
      intro: runs_on_listenerI)

lemma authenticated_guarded:
  "is_authenticated (auth_coverage_of config proxy auth) \<longleftrightarrow>
     listener_can_establish_identity proxy \<and>
     (\<forall>protocol \<in> set (request_protocols (proxy_transport_of proxy)).
       \<exists>plugin. guards config proxy auth protocol plugin)"
proof (cases "listener_can_establish_identity proxy")
  case True
  have "ac_uncovered (auth_coverage_of config proxy auth) = [] \<longleftrightarrow>
      (\<forall>protocol \<in> set (request_protocols (proxy_transport_of proxy)).
        protocol \<notin> set (ac_uncovered (auth_coverage_of config proxy auth)))"
    by (auto simp: coverage_uncovered filter_empty_conv)
  then show ?thesis using True by (simp add: is_authenticated_def coverage_fields covered_iff)
qed (simp add: is_authenticated_def coverage_fields)

text \<open>
  C16.  A proxy counts as authenticated exactly when its listener can establish an identity and every
  protocol the listener serves has an effective, allowlisted authenticator without a trigger that
  the gateway runs on that protocol; nothing conditional, disabled, displaced or of another
  namespace can contribute.
\<close>

theorem authenticated_iff_guarded:
  "is_authenticated (auth_coverage_of config proxy auth) \<longleftrightarrow>
     listener_can_establish_identity proxy \<and>
     set (request_protocols (proxy_transport_of proxy)) \<subseteq>
       {protocol. \<exists>plugin. guards config proxy auth protocol plugin}"
  by (auto simp: authenticated_guarded)

text \<open>
  A coverage report partitions the allowlisted effective authenticators: each is listed once,
  as applicable, conditional or inapplicable, and \<open>running\<close> returns the first two groups in execution
  order.
\<close>

theorem coverage_partition:
  "let c = auth_coverage_of config proxy auth in
     mset (ac_applicable c @ ac_conditional c @ ac_inapplicable c) =
       mset (filter (\<lambda>p. allowlist_contains auth (pc_plugin_name p)) (effective_plugins config proxy)) \<and>
     mset (running c) = mset (ac_applicable c @ ac_conditional c) \<and>
     sorted (map effective_priority (running c))"
proof -
  have "mset (filter (\<lambda>p. a p \<and> b p \<and> \<not> d p) xs @ filter (\<lambda>p. a p \<and> b p \<and> d p) xs @
      filter (\<lambda>p. a p \<and> \<not> b p) xs) = mset (filter a xs)" for a b d and xs :: "plugin_config list"
    by (induction xs) auto
  then show ?thesis by (simp only: Let_def coverage_fields running_def mset_sort) simp
qed

section \<open>Declared protocols\<close>

lemma declare_fold_wf: "bt_wf d \<Longrightarrow> bt_wf (fold declare_protocols es d)"
  by (induction es arbitrary: d)
    (auto simp: declare_protocols_def Let_def map_simps split: option.splits)

lemma declare_fold_narrow:
  assumes "bt_wf d" and "bt_get (fold declare_protocols es d) name = Some ps"
    and nonempty: "name \<noteq> []"
  shows "(\<forall>e \<in> set es. trim (fst e) = name \<longrightarrow> set ps \<subseteq> set (snd e)) \<and>
    (\<forall>qs. bt_get d name = Some qs \<longrightarrow> set ps \<subseteq> set qs)"
  using assms
proof (induction es arbitrary: d)
  case (Cons e es)
  have w: "bt_wf (declare_protocols e d)"
    using Cons.prems(1) by (auto simp: declare_protocols_def Let_def map_simps split: option.splits)
  note nonempty = Cons.prems(3)
  have IH: "(\<forall>e \<in> set es. trim (fst e) = name \<longrightarrow> set ps \<subseteq> set (snd e)) \<and>
      (\<forall>qs. bt_get (declare_protocols e d) name = Some qs \<longrightarrow> set ps \<subseteq> set qs)"
    using Cons.IH[OF w] Cons.prems(2,3) by simp
  have "set ps \<subseteq> set (snd e)" if "trim (fst e) = name"
    using IH that Cons.prems(1) nonempty
    by (auto simp: declare_protocols_def Let_def normalize_allowlist_name_def map_simps
        split: option.splits if_splits)
  moreover have "set ps \<subseteq> set qs" if "bt_get d name = Some qs" for qs
    using IH that Cons.prems(1)
    by (auto simp: declare_protocols_def Let_def normalize_allowlist_name_def map_simps
        split: option.splits if_splits)
  ultimately show ?case using IH by auto
qed simp

text \<open>
  A repository cannot broaden what a custom authenticator covers by declaring it twice: the
  protocols used for a name are among the protocols of every declaration whose key trims to that
  name, so of two padded spellings the narrower one counts.
\<close>

theorem declared_protocols_narrow:
  "name \<noteq> [] \<and> bt_get (al_custom_protocols (auth_allowlist_new names declarations)) name = Some ps \<Longrightarrow>
   list_all (\<lambda>e. trim (fst e) = name \<longrightarrow> set ps \<subseteq> set (snd e)) declarations"
  using declare_fold_narrow[of "[]" declarations name ps]
  by (auto simp: auth_allowlist_new_def list_all_iff)

theorem declared_protocols_narrow_witness:
  "bt_get (al_custom_protocols (auth_allowlist_new []
     [('' sso'', [PHttp]), (''sso'', [PHttp, PGrpc])])) ''sso'' = Some [PHttp] \<and>
   set [PHttp] \<subseteq> set [PHttp, PGrpc]"
proof -
  have a: "bt_get (al_custom_protocols (auth_allowlist_new []
     [('' sso'', [PHttp]), (''sso'', [PHttp, PGrpc])])) ''sso'' = Some [PHttp]"
    by code_simp
  then show ?thesis
    using declared_protocols_narrow[of "''sso''" "[]"
        "[('' sso'', [PHttp]), (''sso'', [PHttp, PGrpc])]" "[PHttp]"] by simp
qed

end
