(* ===== verification/Policy_Facts.thy ===== *)
theory Policy_Facts
  imports Policy Catalog_Facts
begin

text \<open>
  What a policy evaluation without a blocking finding guarantees about the configuration: proxies
  are authenticated, every visible destination is allowlisted, and every finding is well formed.
\<close>

section \<open>Findings of the registry\<close>

lemma sanitize_finding_fields [simp]:
  "pf_rule_id (sanitize_finding f) = pf_rule_id f"
  "pf_severity (sanitize_finding f) = pf_severity f"
  "pf_overridden_by (sanitize_finding f) = pf_overridden_by f"
  "is_blocking (sanitize_finding f) = is_blocking f"
  by (simp_all add: sanitize_finding_def is_blocking_def)

lemma evaluate_policies_set:
  "set (evaluate_policies env cfg pc) =
     sanitize_finding ` (\<Union>r \<in> set (all_rules pc). set (evaluate env r cfg))"
  by (simp add: evaluate_policies_all)

lemma quiet_rule:
  "list_all (\<lambda>f. \<not> is_blocking f) (evaluate_policies env cfg pc) \<Longrightarrow> r \<in> set (all_rules pc) \<Longrightarrow>
   f \<in> set (evaluate env r cfg) \<Longrightarrow> \<not> is_blocking f"
  by (auto simp: list_all_iff evaluate_policies_set)

lemma rules_listed:
  "RequireAuthPluginRule (pol_require_auth_plugin (pol_policies pc)) \<in> set (all_rules pc)"
  "AllowedBackendDomainsRule (pol_allowed_backend_domains (pol_policies pc)) \<in> set (all_rules pc)"
  by (simp_all add: all_rules_def Let_def)

lemma inert_concat: "\<exists>cs. inert_line cs \<and> sanitize_str s = concat cs"
  "\<exists>cs. inert_line cs \<and> sanitize_line_str s = concat cs"
  by (auto simp: sanitize_str_def sanitize_line_str_def sanitize_def sanitize_line_def
      intro: exI[of _ "sanitize_single_line (utf8_chars s) _"] sanitize_single_line_inert)

section \<open>Authentication\<close>

definition covers :: "gateway_config \<Rightarrow> auth_allowlist \<Rightarrow> proxy \<Rightarrow> plugin_protocol \<Rightarrow> plugin_config \<Rightarrow> bool"
  where
  "covers cfg auth p protocol q =
     (is_effective cfg p q \<and> allowlist_contains auth (pc_plugin_name q) \<and>
      runs_on auth (pc_plugin_name q) protocol)"

text \<open>
  The requirement the rule stands for: the listener can establish an identity and every protocol it
  serves has an effective authenticator, which may carry a trigger only on a listed proxy.
\<close>

definition secured :: "require_auth_plugin_rule_config \<Rightarrow> gateway_config \<Rightarrow> proxy \<Rightarrow> bool" where
  "secured c cfg p =
     (listener_can_establish_identity p \<and>
      (\<forall>protocol \<in> set (request_protocols (proxy_transport_of p)).
        \<exists>q. covers cfg (auth_allowlist_of c) p protocol q \<and>
          (is_conditional q \<longrightarrow>
           p_namespace p @ ''/'' @ p_id p \<in> set (rar_conditional_auth_exemptions c))))"

lemma guards_covers:
  "guards cfg p auth protocol q \<longleftrightarrow> covers cfg auth p protocol q \<and> \<not> is_conditional q"
  by (auto simp: guards_def covers_def)

lemma conditional_cover:
  assumes "listener_can_establish_identity p"
    and "protocol \<in> set (request_protocols (proxy_transport_of p))"
  shows "list_ex (\<lambda>q. runs_on auth (pc_plugin_name q) protocol)
      (ac_conditional (auth_coverage_of cfg p auth)) \<longleftrightarrow>
    (\<exists>q. covers cfg auth p protocol q \<and> is_conditional q)"
  using assms
  by (auto simp: coverage_fields list_ex_iff covers_def set_effective_plugins
      intro: runs_on_listenerI)

lemma uncovered_subset:
  "protocol \<in> set (ac_uncovered (auth_coverage_of cfg p auth)) \<Longrightarrow>
   protocol \<in> set (request_protocols (proxy_transport_of p))"
  by (auto simp: coverage_uncovered)

lemma gap_none_iff:
  "conditional_exemption_gap (auth_coverage_of cfg p auth) auth = None \<longleftrightarrow>
     listener_can_establish_identity p \<and>
     (\<forall>protocol \<in> set (ac_uncovered (auth_coverage_of cfg p auth)).
        \<exists>q. covers cfg auth p protocol q \<and> is_conditional q)"
proof (cases "listener_can_establish_identity p")
  case True
  have "(\<forall>protocol \<in> set (ac_uncovered (auth_coverage_of cfg p auth)).
        list_ex (\<lambda>q. runs_on auth (pc_plugin_name q) protocol)
          (ac_conditional (auth_coverage_of cfg p auth))) \<longleftrightarrow>
      (\<forall>protocol \<in> set (ac_uncovered (auth_coverage_of cfg p auth)).
        \<exists>q. covers cfg auth p protocol q \<and> is_conditional q)"
    using conditional_cover[OF True] uncovered_subset by (intro ball_cong) auto
  then show ?thesis
    using True by (simp add: conditional_exemption_gap_def coverage_fields Let_def filter_empty_conv)
qed (simp add: conditional_exemption_gap_def coverage_fields)

lemma secured_iff:
  "secured c cfg p \<longleftrightarrow>
     is_authenticated (rule_coverage c cfg p) \<or> is_exempt c p (rule_coverage c cfg p)"
proof (cases "listener_can_establish_identity p")
  case False
  then show ?thesis
    by (simp add: secured_def is_exempt_def rule_coverage_def gap_none_iff authenticated_guarded)
next
  case True
  let ?auth = "auth_allowlist_of c" and ?ps = "set (request_protocols (proxy_transport_of p))"
  let ?u = "set (ac_uncovered (auth_coverage_of cfg p ?auth))"
  have un: "protocol \<in> ?u \<longleftrightarrow> \<not> (\<exists>q. covers cfg ?auth p protocol q \<and> \<not> is_conditional q)"
    if "protocol \<in> ?ps" for protocol
    using covered_iff[OF True that, of cfg ?auth] by (auto simp: guards_covers)
  have auth: "is_authenticated (rule_coverage c cfg p) \<longleftrightarrow> ?u = {}"
    using True by (simp add: rule_coverage_def is_authenticated_def coverage_fields)
  have ex: "is_exempt c p (rule_coverage c cfg p) \<longleftrightarrow>
      p_namespace p @ ''/'' @ p_id p \<in> set (rar_conditional_auth_exemptions c) \<and>
      (\<forall>protocol \<in> ?u. \<exists>q. covers cfg ?auth p protocol q \<and> is_conditional q)" if "?u \<noteq> {}"
  proof -
    have "ac_conditional (auth_coverage_of cfg p ?auth) \<noteq> []"
      if g: "\<forall>protocol \<in> ?u. \<exists>q. covers cfg ?auth p protocol q \<and> is_conditional q"
    proof -
      obtain protocol where u: "protocol \<in> ?u" using \<open>?u \<noteq> {}\<close> by (metis equals0I)
      have "list_ex (\<lambda>q. runs_on ?auth (pc_plugin_name q) protocol)
          (ac_conditional (auth_coverage_of cfg p ?auth))"
        using g u conditional_cover[OF True uncovered_subset[OF u]] by simp
      then show ?thesis by auto
    qed
    then show ?thesis
      using True by (auto simp: is_exempt_def has_conditional_auth_exemption_def Let_def list_ex_iff
          rule_coverage_def gap_none_iff)
  qed
  show ?thesis
  proof (cases "?u = {}")
    case True
    then show ?thesis using auth un \<open>listener_can_establish_identity p\<close>
      by (auto simp: secured_def)
  next
    case False
    let ?L = "p_namespace p @ ''/'' @ p_id p \<in> set (rar_conditional_auth_exemptions c)"
    let ?C = "\<lambda>protocol. \<exists>q. covers cfg ?auth p protocol q \<and> is_conditional q"
    have cond: "?C protocol \<and> ?L" if "secured c cfg p" "protocol \<in> ?u" for protocol
      using that un[OF uncovered_subset[OF that(2)]] uncovered_subset[OF that(2)]
      by (fastforce simp: secured_def)
    obtain u where "u \<in> ?u" using False by (metis equals0I)
    then have "secured c cfg p \<Longrightarrow> ?L \<and> (\<forall>protocol \<in> ?u. ?C protocol)"
      using cond by blast
    moreover have "secured c cfg p" if "?L" "\<forall>protocol \<in> ?u. ?C protocol"
      using that un \<open>listener_can_establish_identity p\<close> unfolding secured_def by metis
    ultimately show ?thesis using auth False ex[OF False] by blast
  qed
qed

text \<open>
  C9.  Under an enabled \<open>require_auth_plugin\<close> rule of severity \<open>error\<close> the rule blocks exactly when
  some proxy is not secured.  So when a policy evaluation has no blocking finding, every proxy's
  listener can establish an identity and each protocol it serves has an effective allowlisted
  authenticator that runs on it, without a trigger unless that exact proxy is a listed exemption.
\<close>

theorem auth_gate_exact:
  assumes "c = pol_require_auth_plugin (pol_policies pc)" and "rar_enabled c" and "rar_severity c = Error"
  shows "((\<exists>f \<in> set (require_auth_plugin_evaluate c cfg). is_blocking f) \<longleftrightarrow>
           (\<exists>p \<in> set (gc_proxies cfg). \<not> secured c cfg p)) \<and>
         (list_all (\<lambda>f. \<not> is_blocking f) (evaluate_policies env cfg pc) \<longrightarrow>
           list_all (secured c cfg) (gc_proxies cfg))"
proof -
  have ex: "\<not> is_blocking f" if "f \<in> set (exemption_findings c cfg e)" for f e
    using that
    by (auto simp: exemption_findings_def mk_finding_def is_blocking_def blocks_apply_def
        split: prod.splits if_splits)
  have au: "(\<exists>f \<in> set (auth_findings c cfg p). is_blocking f) \<longleftrightarrow> \<not> secured c cfg p" for p
    using assms(3)
    by (auto simp: auth_findings_def Let_def mk_finding_def is_blocking_def blocks_apply_def secured_iff)
  have iff: "(\<exists>f \<in> set (require_auth_plugin_evaluate c cfg). is_blocking f) \<longleftrightarrow>
      (\<exists>p \<in> set (gc_proxies cfg). \<not> secured c cfg p)"
  proof -
    have "(\<exists>f \<in> set (require_auth_plugin_evaluate c cfg). is_blocking f) \<longleftrightarrow>
        (\<exists>e \<in> set (rar_conditional_auth_exemptions c). \<exists>f \<in> set (exemption_findings c cfg e). is_blocking f) \<or>
        (\<exists>p \<in> set (gc_proxies cfg). \<exists>f \<in> set (auth_findings c cfg p). is_blocking f)"
      using assms(2) by (simp add: require_auth_plugin_evaluate_def bex_Un)
    then show ?thesis using ex by (simp add: au)
  qed
  have "list_all (secured c cfg) (gc_proxies cfg)"
    if "list_all (\<lambda>f. \<not> is_blocking f) (evaluate_policies env cfg pc)"
    using quiet_rule[OF that rules_listed(1)] iff assms(1) by (auto simp: list_all_iff)
  then show ?thesis using iff by blast
qed

definition sample_env :: rule_env where
  "sample_env = \<lparr>re_lower = id, re_text = \<lparr>te_alphanumeric = (\<lambda>_. False), te_url = (\<lambda>_. None)\<rparr>\<rparr>"

definition auth_policy :: policy_config where
  "auth_policy = policy_config_default\<lparr>pol_policies := policy_rules_default\<lparr>pol_require_auth_plugin :=
     require_auth_plugin_rule_config_default\<lparr>rar_enabled := True, rar_severity := Error\<rparr>\<rparr>\<rparr>"

definition guarded_config :: "bool \<Rightarrow> gateway_config" where
  "guarded_config b = gateway_config_default\<lparr>gc_proxies := [bare_proxy ''shop'' ''a''],
     gc_plugin_configs := [(bare_plugin_config ''shop'' ''k'' ''key_auth'')\<lparr>pc_enabled := b\<rparr>]\<rparr>"

lemma auth_policy_eval:
  "list_all (\<lambda>f. \<not> is_blocking f) (evaluate_policies sample_env (guarded_config True) auth_policy)"
  "list_ex is_blocking
     (require_auth_plugin_evaluate (pol_require_auth_plugin (pol_policies auth_policy)) (guarded_config False))"
  by code_simp+

theorem auth_gate_exact_witness:
  "let c = pol_require_auth_plugin (pol_policies auth_policy) in
     secured c (guarded_config True) (bare_proxy ''shop'' ''a'') \<and>
     \<not> secured c (guarded_config False) (bare_proxy ''shop'' ''a'')"
proof -
  let ?c = "pol_require_auth_plugin (pol_policies auth_policy)"
  have c: "rar_enabled ?c" "rar_severity ?c = Error"
    by (simp_all add: auth_policy_def)
  note g = auth_gate_exact[OF refl c]
  show ?thesis
    using g[of "guarded_config True" sample_env] g[of "guarded_config False" sample_env]
      auth_policy_eval
    by (auto simp: guarded_config_def list_ex_iff)
qed

section \<open>The shape of every finding\<close>

abbreviation finding_kinds :: "string set" where
  "finding_kinds \<equiv> {''PolicyConfig'', ''Proxy'', ''Upstream'', ''PluginConfig''}"

lemma sanitized_kind: "k \<in> finding_kinds \<Longrightarrow> sanitize_str k = k"
proof -
  have "sanitize_str ''PolicyConfig'' = ''PolicyConfig''" "sanitize_str ''Proxy'' = ''Proxy''"
    "sanitize_str ''Upstream'' = ''Upstream''" "sanitize_str ''PluginConfig'' = ''PluginConfig''"
    by code_simp+
  then show "k \<in> finding_kinds \<Longrightarrow> sanitize_str k = k" by blast
qed

lemma about_resource_kind: "about_resource cfg f \<Longrightarrow> pf_kind f \<in> finding_kinds"
  unfolding about_resource_def Let_def by blast

text \<open>
  C13.  Every finding of a policy evaluation comes from an active rule and is well formed: it carries a
  remediation and no override, its kind is one of four, it names a resource of the configuration or
  the policy file itself (up to the sanitizing of its texts), and its severity is the configured
  one of its rule, except that a fault of the policy file always blocks and a notice is \<open>info\<close>.
\<close>

theorem policy_findings_typed:
  assumes "f \<in> set (evaluate_policies env cfg pc)"
  shows "\<exists>r \<in> set (build_registry pc). \<exists>raw \<in> set (evaluate env r cfg).
    f = sanitize_finding raw \<and> about_resource cfg raw \<and> pf_kind f = pf_kind raw \<and> pf_kind f \<in> finding_kinds \<and>
    pf_overridden_by f = None \<and> pf_remediation f \<noteq> None \<and>
    pf_severity f \<in> (if pf_kind f = ''PolicyConfig'' then {Error, Info} else {rule_severity r, Info})"
proof -
  obtain r raw where r: "r \<in> set (build_registry pc)" "raw \<in> set (evaluate env r cfg)"
      and f: "f = sanitize_finding raw"
    using assms by (auto simp: evaluate_policies_def)
  have ok: "finding_ok cfg (rule_severity r) raw" by (rule rule.well_formed[OF r(2)])
  then have ab: "about_resource cfg raw" by (simp only: finding_ok_def)
  then have kind: "pf_kind raw \<in> finding_kinds" by (rule about_resource_kind)
  have same: "pf_kind f = pf_kind raw" "pf_severity f = pf_severity raw"
      "pf_overridden_by f = pf_overridden_by raw" "pf_remediation f = None \<longleftrightarrow> pf_remediation raw = None"
    using sanitized_kind[OF kind] by (simp_all add: f sanitize_finding_def)
  have "pf_severity f \<in> (if pf_kind f = ''PolicyConfig'' then {Error, Info} else {rule_severity r, Info})"
    using ok unfolding finding_ok_def severity_ok_def same by presburger
  moreover have "pf_overridden_by f = None" "pf_remediation f \<noteq> None"
    using ok unfolding finding_ok_def same by blast+
  moreover have "pf_kind f \<in> finding_kinds" using kind unfolding same .
  ultimately show ?thesis
    by (intro bexI[OF _ r(1)] bexI[OF _ r(2)] conjI f ab same(1))
qed

theorem policy_findings_typed_witness:
  "\<exists>f \<in> set (evaluate_policies sample_env (guarded_config False) auth_policy).
     pf_remediation f \<noteq> None \<and> pf_overridden_by f = None"
proof -
  let ?fs = "evaluate_policies sample_env (guarded_config False) auth_policy"
  have "?fs \<noteq> []"
    using auth_policy_eval(2) by (auto simp: evaluate_policies_all all_rules_def Let_def list_ex_iff)
  then obtain f where f: "f \<in> set ?fs" by (cases ?fs) auto
  show ?thesis
    by (rule bexI[OF _ f], use policy_findings_typed[OF f] in \<open>elim bexE conjE, intro conjI\<close>)
qed

end
