(* ===== verification/PolicyDomains_Facts.thy ===== *)
theory PolicyDomains_Facts
  imports Policy_Facts
begin

text \<open>
  What an evaluation without a blocking \<open>allowed_backend_domains\<close> finding says about every
  destination the repository makes a gateway dial.
\<close>

section \<open>Patterns\<close>

lemma domain_matches_cases:
  "domain_matches host pattern \<longleftrightarrow>
     host \<noteq> [] \<and> pattern \<noteq> [] \<and>
     (pattern = ''*'' \<or>
      (\<exists>d x. pattern = ''*.'' @ d \<and> host = x @ ''.'' @ d \<and> parse_ip_literal host = None) \<or>
      (\<nexists>d. pattern = ''*.'' @ d) \<and>
        (host = pattern \<or>
         parse_ip_literal host \<noteq> None \<and> parse_ip_literal host = parse_ip_literal pattern))"
proof (cases "strip_prefix ''*.'' pattern")
  case None
  then have no: "\<nexists>d. pattern = ''*.'' @ d" by (metis strip_prefix_Some option.distinct(1))
  have nq: "\<not> (\<exists>d x. pattern = ''*.'' @ d \<and> host = x @ ''.'' @ d \<and> parse_ip_literal host = None)"
    using no by blast
  have "domain_matches host pattern \<longleftrightarrow> host \<noteq> [] \<and> pattern \<noteq> [] \<and>
      (pattern = ''*'' \<or> (host = pattern \<or>
         parse_ip_literal host \<noteq> None \<and> parse_ip_literal host = parse_ip_literal pattern))"
    unfolding domain_matches_def None option.case
    by (cases "parse_ip_literal host"; cases "parse_ip_literal pattern") auto
  then show ?thesis using no nq by blast
next
  case (Some d)
  then have pat: "pattern = ''*.'' @ d" by (simp only: strip_prefix_Some)
  have "(case strip_suffix d host of Some prefix \<Rightarrow> prefix \<noteq> [] \<and> last prefix = CHR ''.'' | None \<Rightarrow> False)
      \<longleftrightarrow> (\<exists>x. host = x @ ''.'' @ d)"
  proof (cases "strip_suffix d host")
    case None
    then have "\<nexists>t. host = t @ d" by (metis strip_suffix_Some option.distinct(1))
    then show ?thesis using None by (auto simp: append_assoc[symmetric] simp del: append_assoc)
  next
    case (Some t)
    then have h: "host = t @ d" by (simp only: strip_suffix_Some)
    have "t \<noteq> [] \<and> last t = CHR ''.'' \<longleftrightarrow> (\<exists>x. t = x @ ''.'')"
      by (metis append_butlast_last_id append_is_Nil_conv last_snoc list.discI)
    then show ?thesis using Some by (simp add: h append_assoc[symmetric] del: append_assoc)
  qed
  then show ?thesis using Some pat by (auto simp: domain_matches_def)
qed

section \<open>Allowlists\<close>

definition entry_valid :: "text_env \<Rightarrow> string \<Rightarrow> bool" where
  "entry_valid env e = (snd (classify_entry env e ([], [])) = [])"

definition entry_pattern :: "text_env \<Rightarrow> string \<Rightarrow> string" where
  "entry_pattern env e = hd (fst (classify_entry env e ([], [])))"

lemma classify_entry_step:
  "classify_entry env e acc =
     (if entry_valid env e then (fst acc @ [entry_pattern env e], snd acc)
      else (fst acc, snd acc @ [e]))"
  by (simp add: entry_valid_def entry_pattern_def classify_entry_def Let_def)

lemma classify_allowlist:
  "classify_domain_allowlist env es =
     (map (entry_pattern env) (filter (entry_valid env) es), filter (\<lambda>e. \<not> entry_valid env e) es)"
proof -
  have "fold (classify_entry env) es acc =
      (fst acc @ map (entry_pattern env) (filter (entry_valid env) es),
       snd acc @ filter (\<lambda>e. \<not> entry_valid env e) es)" for acc
    by (induction es arbitrary: acc) (auto simp: classify_entry_step)
  then show ?thesis by (simp add: classify_domain_allowlist_def)
qed

definition admits :: "text_env \<Rightarrow> string list \<Rightarrow> string \<Rightarrow> bool" where
  "admits env entries host =
     (\<exists>h. normalize_destination env host = Some h \<and>
        list_ex (\<lambda>e. entry_valid env e \<and> domain_matches h (entry_pattern env e)) entries)"

lemma is_allowed_admits:
  "is_allowed env host (fst (classify_domain_allowlist env entries)) \<longleftrightarrow> admits env entries host"
  by (auto simp: is_allowed_def admits_def classify_allowlist list_ex_iff split: option.splits)

lemma fold_insert_mem:
  "e \<in> set (bt_of_list es) \<Longrightarrow> e \<in> set es"
proof -
  have "set (bt_insert k v m) \<subseteq> insert (k, v) (set m)" for k :: "'a::linorder" and v :: 'b and m
    by (induction k v m rule: bt_insert.induct) auto
  then have "set (fold (\<lambda>e. bt_insert (fst e) (snd e)) es m) \<subseteq> set es \<union> set m"
    for es :: "('a \<times> 'b) list" and m
    by (induction es arbitrary: m) fastforce+
  then show "e \<in> set (bt_of_list es) \<Longrightarrow> e \<in> set es" for e :: "'a \<times> 'b" and es
    by (fastforce simp: bt_of_list_def)
qed

lemma declared_upstream:
  assumes "bt_get (declared_upstreams cfg) (ns, rid) = Some u"
  shows "u \<in> set (gc_upstreams cfg) \<and> u_namespace u = ns \<and> u_id u = rid"
proof -
  have "((ns, rid), u) \<in> set (declared_upstreams cfg)"
    using assms by (auto simp: bt_get_def dest: map_of_SomeD)
  then show ?thesis unfolding declared_upstreams_def by (auto dest!: fold_insert_mem)
qed

lemma allowance_member:
  "(ns, rid) \<in> set (allowance_set as) \<longleftrightarrow>
     \<lparr>ua_namespace = ns, ua_id = rid\<rparr> \<in> set as \<and> allowance_ok \<lparr>ua_namespace = ns, ua_id = rid\<rparr>"
proof -
  have "(ns, rid) = (ua_namespace a, ua_id a) \<longleftrightarrow> a = \<lparr>ua_namespace = ns, ua_id = rid\<rparr>" for a
    by (cases a) auto
  then show ?thesis by (auto simp: allowance_set_def image_iff simp del: prod.inject)
qed

section \<open>Destinations\<close>

definition proxy_destinations_ok ::
    "text_env \<Rightarrow> allowed_backend_domains_rule_config \<Rightarrow> gateway_config \<Rightarrow> proxy \<Rightarrow> bool" where
  "proxy_destinations_ok env c cfg p =
     ((admits env (abr_allowed_domains c) (p_backend_host p) \<or>
       trim (p_backend_host p) = [] \<and>
       (\<exists>rid. p_upstream_id p = Some rid \<and>
          ((\<exists>u \<in> set (gc_upstreams cfg). u_namespace u = p_namespace p \<and> u_id u = rid \<and>
              (u_targets u \<noteq> [] \<or> u_service_discovery u \<noteq> None)) \<or>
           \<lparr>ua_namespace = p_namespace p, ua_id = rid\<rparr> \<in> set (abr_allowed_external_upstreams c)))) \<and>
      list_all (\<lambda>pin. parse_ip_literal (normalize_domain pin) \<noteq> None \<and>
          is_allowed env pin (dns_allowlist c (fst (classify_domain_allowlist env (abr_allowed_domains c)))))
        (case dns_override_pins (p_dns_override p) of None \<Rightarrow> [] | Some pins \<Rightarrow> pins))"

definition upstream_destinations_ok ::
    "text_env \<Rightarrow> allowed_backend_domains_rule_config \<Rightarrow> upstream \<Rightarrow> bool" where
  "upstream_destinations_ok env c u =
     (list_all (\<lambda>t. admits env (abr_allowed_domains c) (ut_host t)) (u_targets u) \<and>
      (case u_service_discovery u of
         None \<Rightarrow> True
       | Some d \<Rightarrow>
           (list_ex (\<lambda>e. entry_valid env e \<and> entry_pattern env e = ''*'') (abr_allowed_domains c) \<or>
            \<lparr>ua_namespace = u_namespace u, ua_id = u_id u\<rparr> \<in>
              set (abr_allowed_service_discovery_upstreams c)) \<and>
           (case sd_consul d of
              None \<Rightarrow> True
            | Some consul \<Rightarrow>
                (\<exists>host. url_destination_host env (consul_address consul) = Some host \<and>
                   admits env
                     (if abr_allowed_service_discovery_control_plane_addresses c = []
                      then abr_allowed_domains c
                      else abr_allowed_service_discovery_control_plane_addresses c) host))))"

lemma blocking_mk_finding [simp]: "is_blocking (mk_finding rule Error kind rid ns message remediation)"
  by (simp add: mk_finding_def is_blocking_def blocks_apply_def)

lemma quiet_map:
  "(\<And>f. f \<in> set (map g (filter P xs)) \<Longrightarrow> \<not> is_blocking f) \<Longrightarrow> (\<And>x. is_blocking (g x)) \<Longrightarrow>
   x \<in> set xs \<Longrightarrow> \<not> P x"
  by auto

lemma quiet_two:
  "(\<And>f. f \<in> set ((if A then [] else [x]) @ (if B then [] else [y])) \<Longrightarrow> \<not> is_blocking f) \<Longrightarrow>
   is_blocking x \<Longrightarrow> is_blocking y \<Longrightarrow> A \<and> B"
  by (cases A; cases B) auto

lemma context_fields [simp]:
  "dc_allowed_domains (domain_context_of env c cfg) =
     fst (classify_domain_allowlist env (abr_allowed_domains c))"
  "dc_dns_addresses (domain_context_of env c cfg) =
     dns_allowlist c (fst (classify_domain_allowlist env (abr_allowed_domains c)))"
  "dc_control_planes (domain_context_of env c cfg) =
     control_plane_allowlist env c (fst (classify_domain_allowlist env (abr_allowed_domains c)))"
  "dc_discovery (domain_context_of env c cfg) =
     allowance_set (abr_allowed_service_discovery_upstreams c)"
  "dc_external (domain_context_of env c cfg) = allowance_set (abr_allowed_external_upstreams c)"
  "dc_declared (domain_context_of env c cfg) = declared_upstreams cfg"
  by (simp_all add: domain_context_of_def Let_def)

lemma control_plane_admits:
  "is_allowed env host (control_plane_allowlist env c (fst (classify_domain_allowlist env (abr_allowed_domains c)))) =
     admits env (if abr_allowed_service_discovery_control_plane_addresses c = [] then abr_allowed_domains c
       else abr_allowed_service_discovery_control_plane_addresses c) host"
  by (simp add: control_plane_allowlist_def is_allowed_admits)

lemma resolved_upstream_Some:
  "resolved_upstream (domain_context_of env c cfg) p = Some u \<Longrightarrow>
     u \<in> set (gc_upstreams cfg) \<and> u_namespace u = p_namespace p \<and> p_upstream_id p = Some (u_id u)"
  by (auto simp: resolved_upstream_def dest: declared_upstream split: option.splits if_splits)

lemma backend_host_quiet:
  assumes "\<And>f. f \<in> set (backend_host_findings env Error (domain_context_of env c cfg) p) \<Longrightarrow> \<not> is_blocking f"
    and "\<And>f. f \<in> set (dns_pin_findings env Error (domain_context_of env c cfg) p) \<Longrightarrow> \<not> is_blocking f"
  shows "proxy_destinations_ok env c cfg p"
proof -
  let ?ctx = "domain_context_of env c cfg"
  have host: "is_allowed env (p_backend_host p) (dc_allowed_domains ?ctx) \<or> backend_host_exempt ?ctx p"
    using assms(1) by (auto simp: backend_host_findings_def split: if_splits)
  have ex: "\<exists>rid. p_upstream_id p = Some rid \<and>
      ((\<exists>u \<in> set (gc_upstreams cfg). u_namespace u = p_namespace p \<and> u_id u = rid \<and>
          (u_targets u \<noteq> [] \<or> u_service_discovery u \<noteq> None)) \<or>
       \<lparr>ua_namespace = p_namespace p, ua_id = rid\<rparr> \<in> set (abr_allowed_external_upstreams c))"
    if "backend_host_exempt ?ctx p"
  proof (cases "resolved_upstream ?ctx p")
    case None
    then show ?thesis
      using that by (auto simp: backend_host_exempt_def uses_routable_upstream_def
          uses_allowed_external_upstream_def allowance_member split: option.splits)
  next
    case (Some u)
    then have "u_targets u \<noteq> [] \<or> u_service_discovery u \<noteq> None"
      using that by (auto simp: backend_host_exempt_def uses_routable_upstream_def
          uses_allowed_external_upstream_def split: option.splits)
    then show ?thesis using resolved_upstream_Some[OF Some] by metis
  qed
  have blank: "backend_host_exempt ?ctx p \<Longrightarrow> trim (p_backend_host p) = []"
    by (auto simp: backend_host_exempt_def)
  have pins: "parse_ip_literal (normalize_domain pin) \<noteq> None \<and> is_allowed env pin (dc_dns_addresses ?ctx)"
    if "dns_override_pins (p_dns_override p) = Some pins" "pin \<in> set pins" for pin pins
  proof -
    let ?lit = "\<lambda>d. parse_ip_literal (normalize_domain d) \<noteq> None"
    have "filter (\<lambda>d. \<not> ?lit d) pins = [] \<and>
        filter (\<lambda>d. ?lit d \<and> \<not> is_allowed env d (dc_dns_addresses ?ctx)) pins = []"
      by (rule quiet_two, rule assms(2)[unfolded dns_pin_findings_def that(1) Let_def option.case],
          assumption, simp_all)
    then have "(\<forall>d \<in> set pins. ?lit d) \<and>
        (\<forall>d \<in> set pins. \<not> (?lit d \<and> \<not> is_allowed env d (dc_dns_addresses ?ctx)))"
      by (simp only: filter_empty_conv not_not)
    then show ?thesis using that(2) by blast
  qed
  have "list_all (\<lambda>pin. parse_ip_literal (normalize_domain pin) \<noteq> None \<and>
      is_allowed env pin (dc_dns_addresses ?ctx))
    (case dns_override_pins (p_dns_override p) of None \<Rightarrow> [] | Some pins \<Rightarrow> pins)"
  proof (cases "dns_override_pins (p_dns_override p)")
    case (Some ps)
    then show ?thesis using pins[OF Some] by (simp add: list_all_iff)
  qed simp
  moreover have "admits env (abr_allowed_domains c) (p_backend_host p) \<or> backend_host_exempt ?ctx p"
    using host by (simp add: is_allowed_admits)
  ultimately show ?thesis
    using ex blank unfolding proxy_destinations_ok_def context_fields by blast
qed

lemma upstream_quiet:
  assumes "\<And>f. f \<in> set (consul_findings env Error (domain_context_of env c cfg) u) \<Longrightarrow> \<not> is_blocking f"
    and "\<And>f. f \<in> set (discovery_findings Error (domain_context_of env c cfg) u) \<Longrightarrow> \<not> is_blocking f"
    and "\<And>f. f \<in> set (target_findings env Error (domain_context_of env c cfg) u) \<Longrightarrow> \<not> is_blocking f"
  shows "upstream_destinations_ok env c u"
proof -
  have "\<not> \<not> is_allowed env (ut_host t) (dc_allowed_domains (domain_context_of env c cfg))"
    if "t \<in> set (u_targets u)" for t
    by (rule quiet_map[where P = "\<lambda>t. \<not> is_allowed env (ut_host t) _",
          OF assms(3)[unfolded target_findings_def Let_def] _ that]) (assumption, rule blocking_mk_finding)
  then have t: "list_all (\<lambda>t. admits env (abr_allowed_domains c) (ut_host t)) (u_targets u)"
    by (auto simp: is_allowed_admits list_all_iff)
  have d: "list_ex (\<lambda>e. entry_valid env e \<and> entry_pattern env e = ''*'') (abr_allowed_domains c) \<or>
      \<lparr>ua_namespace = u_namespace u, ua_id = u_id u\<rparr> \<in> set (abr_allowed_service_discovery_upstreams c)"
    if "u_service_discovery u \<noteq> None"
  proof -
    have "''*'' \<in> entry_pattern env ` {e \<in> set (abr_allowed_domains c). entry_valid env e} \<or>
        (u_namespace u, u_id u) \<in> set (allowance_set (abr_allowed_service_discovery_upstreams c))"
      using assms(2) that by (auto simp: discovery_findings_def classify_allowlist split: if_splits)
    then show ?thesis by (auto simp: allowance_member list_ex_iff image_iff eq_commute)
  qed
  have h: "\<exists>host. url_destination_host env (consul_address consul) = Some host \<and>
      is_allowed env host (dc_control_planes (domain_context_of env c cfg))"
    if "u_service_discovery u = Some sd" "sd_consul sd = Some consul" for sd consul
    using assms(1) that
    by (cases "url_destination_host env (consul_address consul)")
      (auto simp: consul_findings_def Let_def split: if_splits)
  show ?thesis
    using t d h
    by (auto simp: upstream_destinations_ok_def control_plane_admits split: option.splits)
qed

lemma invalid_entries_quiet:
  "(\<And>f. f \<in> set (invalid_entries_finding message remediation invalid) \<Longrightarrow> \<not> is_blocking f) \<Longrightarrow> invalid = []"
  by (cases "invalid = []") (auto simp: invalid_entries_finding_def domain_config_finding_def)

lemma key_counts_get:
  assumes "bt_wf m"
  shows "bt_wf (fold (\<lambda>u m. let k = (u_namespace u, u_id u) in
      bt_insert k (Suc (case bt_get m k of Some n \<Rightarrow> n | None \<Rightarrow> 0)) m) us m) \<and>
    (case bt_get (fold (\<lambda>u m. let k = (u_namespace u, u_id u) in
      bt_insert k (Suc (case bt_get m k of Some n \<Rightarrow> n | None \<Rightarrow> 0)) m) us m) k of Some n \<Rightarrow> n | None \<Rightarrow> 0) =
    count_list (map (\<lambda>u. (u_namespace u, u_id u)) us) k + (case bt_get m k of Some n \<Rightarrow> n | None \<Rightarrow> 0)"
  using assms
proof (induction us arbitrary: m)
  case (Cons u us)
  show ?case
    using Cons.IH[of "bt_insert (u_namespace u, u_id u)
        (Suc (case bt_get m (u_namespace u, u_id u) of Some n \<Rightarrow> n | None \<Rightarrow> 0)) m"] Cons.prems
    by (simp add: Let_def map_simps)
qed simp

lemma distinct_count_list: "(\<And>x. count_list xs x \<le> 1) \<Longrightarrow> distinct xs"
proof (induction xs)
  case (Cons a xs)
  have "count_list xs x \<le> 1" for x using Cons.prems[of x] by (simp split: if_splits)
  moreover have "a \<notin> set xs" using Cons.prems[of a] by (simp add: count_list_0_iff)
  ultimately show ?case using Cons.IH by simp
qed simp

lemma duplicates_quiet:
  assumes "\<And>f. f \<in> set (duplicate_upstream_findings cfg) \<Longrightarrow> \<not> is_blocking f"
  shows "distinct (map (\<lambda>u. (u_namespace u, u_id u)) (gc_upstreams cfg))"
proof -
  let ?ks = "map (\<lambda>u. (u_namespace u, u_id u)) (gc_upstreams cfg)"
  have c: "(case bt_get (upstream_key_counts cfg) k of Some n \<Rightarrow> n | None \<Rightarrow> 0) = count_list ?ks k" for k
    using key_counts_get[of "[]" "gc_upstreams cfg" k] by (simp add: upstream_key_counts_def bt_get_def)
  have "\<not> (case kn of (_, n) \<Rightarrow> 1 < n)" if "kn \<in> set (upstream_key_counts cfg)" for kn
    by (rule quiet_map[where P = "\<lambda>(_, n). 1 < n", OF assms[unfolded duplicate_upstream_findings_def] _ that])
      (assumption, simp add: domain_config_finding_def split: prod.splits)
  then have "n \<le> 1" if "(k, n) \<in> set (upstream_key_counts cfg)" for k n
    using that by fastforce
  then have "count_list ?ks k \<le> 1" for k
    using c[of k] by (cases k) (auto simp: bt_get_def dest!: map_of_SomeD split: option.splits)
  then show ?thesis by (rule distinct_count_list)
qed

text \<open>
  C10.  When the rule \<open>allowed_backend_domains\<close> is enabled with severity \<open>error\<close> and a policy
  evaluation has no blocking finding, every destination visible in the repository is covered by the
  lists of the policy file: all entries of \<open>allowed_domains\<close> are valid, upstream identities are unique,
  every nonblank \<open>backend_host\<close> and every static target matches an entry, a blank \<open>backend_host\<close> is
  backed by a routable declared upstream or an acknowledged external one, every DNS pin is an
  allowed IP literal, and discovery and its Consul control plane are acknowledged.
\<close>

theorem destinations_allowlisted:
  assumes "c = pol_allowed_backend_domains (pol_policies pc)" and "abr_enabled c" and "abr_severity c = Error"
    and "list_all (\<lambda>f. \<not> is_blocking f) (evaluate_policies env cfg pc)"
  shows "abr_allowed_domains c \<noteq> [] \<and> list_all (entry_valid (re_text env)) (abr_allowed_domains c) \<and>
    distinct (map (\<lambda>u. (u_namespace u, u_id u)) (gc_upstreams cfg)) \<and>
    list_all (proxy_destinations_ok (re_text env) c cfg) (gc_proxies cfg) \<and>
    list_all (upstream_destinations_ok (re_text env) c) (gc_upstreams cfg)"
proof -
  let ?env = "re_text env" and ?ctx = "domain_context_of (re_text env) c cfg"
  have quiet: "\<not> is_blocking f" if "f \<in> set (allowed_backend_domains_evaluate ?env c cfg)" for f
    using quiet_rule[OF assms(4) rules_listed(2), of f] that assms(1) by simp
  have lists: "set (domain_list_findings ?env c) \<subseteq> set (allowed_backend_domains_evaluate ?env c cfg)"
    using assms(2) by (auto simp: allowed_backend_domains_evaluate_def Let_def)
  have "filter (\<lambda>e. \<not> entry_valid ?env e) (abr_allowed_domains c) = []"
    by (rule invalid_entries_quiet, rule quiet, rule subsetD[OF lists])
      (simp add: domain_list_findings_def classify_allowlist)
  then have valid: "list_all (entry_valid ?env) (abr_allowed_domains c)"
    by (simp add: filter_empty_conv list_all_iff)
  have some: "dc_allowed_domains ?ctx \<noteq> []"
  proof
    assume "dc_allowed_domains ?ctx = []"
    then have "no_domains_finding \<in> set (allowed_backend_domains_evaluate ?env c cfg)"
      using assms(2) by (simp add: allowed_backend_domains_evaluate_def Let_def)
    then show False using quiet[of no_domains_finding]
      by (simp add: no_domains_finding_def domain_config_finding_def)
  qed
  have parts: "set (duplicate_upstream_findings cfg) \<union>
      (\<Union>p \<in> set (gc_proxies cfg). set (backend_host_findings ?env Error ?ctx p) \<union>
        set (dns_pin_findings ?env Error ?ctx p)) \<union>
      (\<Union>u \<in> set (gc_upstreams cfg). set (consul_findings ?env Error ?ctx u) \<union>
        set (discovery_findings Error ?ctx u) \<union> set (target_findings ?env Error ?ctx u))
      \<subseteq> set (allowed_backend_domains_evaluate ?env c cfg)"
    using assms(2,3) some unfolding allowed_backend_domains_evaluate_def Let_def by fastforce
  have "list_all (proxy_destinations_ok ?env c cfg) (gc_proxies cfg)"
    unfolding list_all_iff by (intro ballI backend_host_quiet quiet subsetD[OF parts]) auto
  moreover have "list_all (upstream_destinations_ok ?env c) (gc_upstreams cfg)"
    unfolding list_all_iff
    by (intro ballI upstream_quiet[of ?env c cfg] quiet subsetD[OF parts]) auto
  moreover have "distinct (map (\<lambda>u. (u_namespace u, u_id u)) (gc_upstreams cfg))"
    by (intro duplicates_quiet quiet subsetD[OF parts]) auto
  ultimately show ?thesis using valid some by (auto simp: classify_allowlist)
qed

definition sample_target :: "string \<Rightarrow> upstream_target" where
  "sample_target host = \<lparr>ut_host = host, ut_port = 80, ut_weight = 1, ut_tags = [],
     ut_locality = None, ut_path = None\<rparr>"

definition sample_upstream :: "string \<Rightarrow> string \<Rightarrow> upstream_target list \<Rightarrow> upstream" where
  "sample_upstream ns rid targets =
     \<lparr>u_labels = [], u_id = rid, u_name = None, u_namespace = ns, u_targets = targets,
      u_algorithm = RoundRobin, u_hash_on = None, u_hash_on_cookie_config = None,
      u_health_checks = None, u_service_discovery = None, u_subsets = None,
      u_backend_tls_client_cert_path = None, u_backend_tls_client_key_path = None,
      u_backend_tls_verify_server_cert = True, u_backend_tls_server_ca_cert_path = None,
      u_backend_tls_sni = None, u_backend_tls_san_allow_list = [], u_api_spec_id = None,
      u_created_at = None, u_updated_at = None, u_extra = []\<rparr>"

definition domain_policy :: policy_config where
  "domain_policy = policy_config_default\<lparr>pol_policies := policy_rules_default\<lparr>pol_allowed_backend_domains :=
     \<lparr>abr_enabled = True, abr_severity = Error, abr_allowed_domains = [''10.0.0.1''],
      abr_allowed_service_discovery_upstreams = [],
      abr_allowed_service_discovery_control_plane_addresses = [],
      abr_allowed_external_upstreams = [], abr_allowed_dns_override_addresses = []\<rparr>\<rparr>\<rparr>"

definition domain_config :: gateway_config where
  "domain_config = gateway_config_default\<lparr>
     gc_proxies := [(bare_proxy ''n'' ''a'')\<lparr>p_backend_host := '' 10.0.0.1.'', p_dns_override := Some ''10.0.0.1''\<rparr>,
       (bare_proxy ''n'' ''b'')\<lparr>p_backend_host := [], p_upstream_id := Some ''u''\<rparr>],
     gc_upstreams := [sample_upstream ''n'' ''u'' [sample_target ''10.0.0.1'']]\<rparr>"

lemma domain_policy_quiet:
  "list_all (\<lambda>f. \<not> is_blocking f) (evaluate_policies sample_env domain_config domain_policy)"
  by code_simp

theorem destinations_allowlisted_witness:
  "let c = pol_allowed_backend_domains (pol_policies domain_policy) in
     list_all (proxy_destinations_ok (re_text sample_env) c domain_config) (gc_proxies domain_config) \<and>
     list_all (upstream_destinations_ok (re_text sample_env) c) (gc_upstreams domain_config) \<and>
     length (gc_proxies domain_config) = 2 \<and> length (gc_upstreams domain_config) = 1"
proof -
  have "abr_enabled (pol_allowed_backend_domains (pol_policies domain_policy))"
    "abr_severity (pol_allowed_backend_domains (pol_policies domain_policy)) = Error"
    by (simp_all add: domain_policy_def)
  from destinations_allowlisted[OF refl this domain_policy_quiet] show ?thesis
    by (simp add: domain_config_def Let_def)
qed

end
