(* ===== verification/Override.thy ===== *)
theory Override
  imports Policy Ledger
begin

text \<open>
  Policy overrides (\<open>policy/github_override.rs\<close>): what GitHub must answer for an override to be active,
  and which findings an active override clears.

  The GitHub API is the parameter \<open>github_api\<close>: one function per endpoint, each taking the number of
  requests sent before, so that two reads of one endpoint may disagree.  The request counter is the
  state every call threads through.  The reasons an override is inactive are constructors of
  \<open>inactive_reason\<close>; the source renders each as a sentence.
\<close>

section \<open>Data\<close>

record label = lb_name :: string

record actor = ac_login :: string

record issue_event =
  ev_event :: string
  ev_label :: "label option"
  ev_actor :: "actor option"

record revision = rv_sha :: string

record pull_request =
  pr_labels :: "label list"
  pr_head :: revision
  pr_merged :: bool
  pr_merge_commit_sha :: "string option"

record review_author = ra_login :: string

record override_review =
  or_id :: u64
  or_commit_id :: "string option"
  or_state :: string
  or_body :: "string option"
  or_user :: "review_author option"

record permission_response =
  pm_permission :: string
  pm_role_name :: "string option"

datatype fetch_error =
    Transport string
  | Malformed string
  | HistoryTooLong

datatype inactive_reason =
    TokenNotSet
  | RepositoryNotSet
  | MalformedPr string
  | FetchPrFailed fetch_error
  | LabelNotPresent string
  | NoLabelingEvent
  | FetchEventsFailed fetch_error
  | PermissionUnknown string fetch_error
  | PermissionTooLow string string string
  | ReviewsUnknown
  | NoFreshReview
  | TreeUnknown
  | InputRejected string
  | PrChanged
  | EvidenceChanged

datatype override_decision =
    Inactive inactive_reason
  | Active verified_override

definition verified :: "override_decision \<Rightarrow> verified_override option" where
  "verified d = (case d of Active v \<Rightarrow> Some v | Inactive _ \<Rightarrow> None)"

record github_api =
  api_pr :: "nat \<Rightarrow> (fetch_error, pull_request) result"
  api_events :: "nat \<Rightarrow> nat \<Rightarrow> (fetch_error, issue_event list) result"
  api_permission :: "nat \<Rightarrow> string \<Rightarrow> (fetch_error, permission_response) result"
  api_reviews :: "nat \<Rightarrow> nat \<Rightarrow> (fetch_error, override_review list) result"
  api_tree :: "nat \<Rightarrow> string \<Rightarrow> (fetch_error, json) result"

section \<open>The pull request number\<close>

datatype pr_number_error = MalformedPrNumber

definition parse_pr_number :: "string option \<Rightarrow> (pr_number_error, u64 option) result" where
  "parse_pr_number v =
     (case (case v of None \<Rightarrow> None | Some s \<Rightarrow> if trim s \<noteq> [] then Some s else None) of
        None \<Rightarrow> Inr None
      | Some s \<Rightarrow>
          (case parse_u64 s of
             Some number \<Rightarrow>
               if 0 < number \<and> list_all is_ascii_digit s then Inr (Some number) else Inl MalformedPrNumber
           | None \<Rightarrow> Inl MalformedPrNumber))"

section \<open>Reviews and permissions\<close>

definition is_revision :: "string \<Rightarrow> bool" where
  "is_revision v = (length v = 40 \<and> list_all is_ascii_hexdigit v)"

definition review_by :: "string \<Rightarrow> override_review \<Rightarrow> bool" where
  "review_by labeler r =
     (or_state r \<noteq> ''PENDING'' \<and>
      (case or_user r of None \<Rightarrow> False | Some u \<Rightarrow> ra_login u = labeler))"

definition review_authorizes :: "string \<Rightarrow> string \<Rightarrow> override_review \<Rightarrow> bool" where
  "review_authorizes label head r =
     ((or_state r = ''APPROVED'' \<or> or_state r = ''COMMENTED'') \<and> or_commit_id r = Some head \<and>
      (case or_body r of None \<Rightarrow> False | Some b \<Rightarrow> trim b = ''gitforgeops-override '' @ label))"

definition authorized_review ::
    "override_review list \<Rightarrow> string \<Rightarrow> string \<Rightarrow> string \<Rightarrow> override_review option" where
  "authorized_review reviews labeler label head =
     (if \<not> is_revision head then None
      else (case find (review_by labeler) (rev reviews) of
              None \<Rightarrow> None
            | Some r \<Rightarrow> if review_authorizes label head r then Some r else None))"

definition effective_permission :: "permission_response \<Rightarrow> string" where
  "effective_permission r =
     (case pm_role_name r of
        Some role \<Rightarrow> if permission_rank role \<noteq> None then role else pm_permission r
      | None \<Rightarrow> pm_permission r)"

section \<open>Paged listings\<close>

definition MAX_ISSUE_EVENT_PAGES :: nat where
  "MAX_ISSUE_EVENT_PAGES = 20"

definition label_event :: "string \<Rightarrow> issue_event \<Rightarrow> string option \<Rightarrow> string option" where
  "label_event label_name event latest =
     (if (case ev_label event of None \<Rightarrow> False | Some l \<Rightarrow> lb_name l = label_name)
      then (if ev_event event = ''labeled'' then map_option ac_login (ev_actor event)
            else if ev_event event = ''unlabeled'' then None else latest)
      else latest)"

text \<open>The loops over numbered pages; the first argument counts the pages the cap still allows.\<close>

fun labeler_pages ::
    "github_api \<Rightarrow> string \<Rightarrow> nat \<Rightarrow> nat \<Rightarrow> string option \<Rightarrow> nat \<Rightarrow> (fetch_error, string option) result \<times> nat"
  where
  "labeler_pages api label_name 0 page latest t = (Inl HistoryTooLong, t)"
| "labeler_pages api label_name (Suc n) page latest t =
     (case api_events api t page of
        Inl e \<Rightarrow> (Inl e, Suc t)
      | Inr events \<Rightarrow>
          (let latest' = fold (label_event label_name) events latest in
           if events = [] then (Inr latest', Suc t)
           else labeler_pages api label_name n (Suc page) latest' (Suc t)))"

definition find_override_labeler_at ::
    "github_api \<Rightarrow> string \<Rightarrow> nat \<Rightarrow> (fetch_error, string option) result \<times> nat" where
  "find_override_labeler_at api label_name t =
     labeler_pages api label_name MAX_ISSUE_EVENT_PAGES 1 None t"

fun review_pages ::
    "github_api \<Rightarrow> nat \<Rightarrow> nat \<Rightarrow> override_review list \<Rightarrow> nat \<Rightarrow>
     (fetch_error, override_review list) result \<times> nat" where
  "review_pages api 0 page reviews t = (Inl HistoryTooLong, t)"
| "review_pages api (Suc n) page reviews t =
     (case api_reviews api t page of
        Inl e \<Rightarrow> (Inl e, Suc t)
      | Inr batch \<Rightarrow>
          if batch = [] then (Inr reviews, Suc t)
          else review_pages api n (Suc page) (reviews @ batch) (Suc t))"

definition fetch_reviews_at ::
    "github_api \<Rightarrow> nat \<Rightarrow> (fetch_error, override_review list) result \<times> nat" where
  "fetch_reviews_at api t = review_pages api MAX_ISSUE_EVENT_PAGES 1 [] t"

definition fetch_permission_at ::
    "github_api \<Rightarrow> string \<Rightarrow> nat \<Rightarrow> (fetch_error, string) result \<times> nat" where
  "fetch_permission_at api login t =
     (map_sum id effective_permission (api_permission api t login), Suc t)"

definition fetch_pr :: "github_api \<Rightarrow> nat \<Rightarrow> (fetch_error, pull_request) result \<times> nat" where
  "fetch_pr api t = (api_pr api t, Suc t)"

definition fetch_tree :: "github_api \<Rightarrow> string \<Rightarrow> nat \<Rightarrow> (fetch_error, json) result \<times> nat" where
  "fetch_tree api head t = (api_tree api t head, Suc t)"

section \<open>The decision\<close>

text \<open>A call whose failure, or whose unwelcome answer, ends the check.\<close>

definition ok_opt :: "('e, 'a) result \<Rightarrow> 'a option" where
  "ok_opt r = (case r of Inl _ \<Rightarrow> None | Inr x \<Rightarrow> Some x)"

definition pr_failed :: "fetch_error \<Rightarrow> inactive_reason" where
  "pr_failed e = (case e of Malformed m \<Rightarrow> MalformedPr m | _ \<Rightarrow> FetchPrFailed e)"

definition recheck ::
    "github_api \<Rightarrow> override_config \<Rightarrow> pull_request \<Rightarrow> string \<Rightarrow> override_review \<Rightarrow> nat \<Rightarrow>
     inactive_reason option \<times> nat" where
  "recheck api cfg pr approver review t =
     (let (current, t) = fetch_pr api t in
      if ok_opt current \<noteq> Some pr then (Some PrChanged, t)
      else
        let (labeler, t) = find_override_labeler_at api (ov_require_label cfg) t;
            (permission, t) = fetch_permission_at api approver t;
            (reviews, t) = fetch_reviews_at api t;
            still_sufficient = (case ok_opt permission of None \<Rightarrow> False | Some p \<Rightarrow> is_sufficient cfg p);
            current_review = (case ok_opt reviews of None \<Rightarrow> None
              | Some rs \<Rightarrow> authorized_review rs approver (ov_require_label cfg) (rv_sha (pr_head pr)))
        in if ok_opt labeler \<noteq> Some (Some approver) \<or> \<not> still_sufficient \<or> current_review \<noteq> Some review
           then (Some EvidenceChanged, t) else (None, t))"

definition check_override_at ::
    "github_api \<Rightarrow> (json \<Rightarrow> bool \<Rightarrow> string option \<Rightarrow> (string, string) result) \<Rightarrow> override_config \<Rightarrow> u64 \<Rightarrow> nat \<Rightarrow>
     override_decision \<times> nat" where
  "check_override_at api verify_input cfg pr_number t =
     (let required = ov_require_label cfg; (fetched, t) = fetch_pr api t in
      case fetched of
        Inl e \<Rightarrow> (Inactive (pr_failed e), t)
      | Inr pr \<Rightarrow>
      if \<not> list_ex (\<lambda>l. lb_name l = required) (pr_labels pr) then (Inactive (LabelNotPresent required), t)
      else let (labeler, t) = find_override_labeler_at api required t in
      case labeler of
        Inl e \<Rightarrow> (Inactive (FetchEventsFailed e), t)
      | Inr None \<Rightarrow> (Inactive NoLabelingEvent, t)
      | Inr (Some approver) \<Rightarrow>
      let (fetched_permission, t) = fetch_permission_at api approver t in
      case fetched_permission of
        Inl e \<Rightarrow> (Inactive (PermissionUnknown approver e), t)
      | Inr permission \<Rightarrow>
      if \<not> is_sufficient cfg permission
      then (Inactive (PermissionTooLow approver permission (ov_required_permission cfg)), t)
      else let (fetched_reviews, t) = fetch_reviews_at api t in
      case fetched_reviews of
        Inl _ \<Rightarrow> (Inactive ReviewsUnknown, t)
      | Inr reviews \<Rightarrow>
      case authorized_review reviews approver required (rv_sha (pr_head pr)) of
        None \<Rightarrow> (Inactive NoFreshReview, t)
      | Some review \<Rightarrow>
      let (fetched_tree, t) = fetch_tree api (rv_sha (pr_head pr)) t in
      case fetched_tree of
        Inl _ \<Rightarrow> (Inactive TreeUnknown, t)
      | Inr tree \<Rightarrow>
      case verify_input tree (pr_merged pr) (pr_merge_commit_sha pr) of
        Inl reason \<Rightarrow> (Inactive (InputRejected reason), t)
      | Inr applied_revision \<Rightarrow>
      case recheck api cfg pr approver review t of
        (Some reason, t) \<Rightarrow> (Inactive reason, t)
      | (None, t) \<Rightarrow>
          (Active \<lparr>vo_approver = approver, vo_permission = permission, vo_pr_number = pr_number,
             vo_authorized_head = rv_sha (pr_head pr), vo_review_id = or_id review,
             vo_applied_revision = applied_revision\<rparr>, t))"

text \<open>\<open>check_override_context\<close>: the token and the repository come from the environment.\<close>

definition check_override_context ::
    "github_api \<Rightarrow> (json \<Rightarrow> bool \<Rightarrow> string option \<Rightarrow> (string, string) result) \<Rightarrow>
     string option \<Rightarrow> string option \<Rightarrow> override_config \<Rightarrow> u64 \<Rightarrow> override_decision" where
  "check_override_context api verify_input token repo cfg pr_number =
     (case token of None \<Rightarrow> Inactive TokenNotSet
      | Some _ \<Rightarrow>
          (case repo of None \<Rightarrow> Inactive RepositoryNotSet
           | Some _ \<Rightarrow> fst (check_override_at api verify_input cfg pr_number 0)))"

section \<open>Applying a decision\<close>

definition override_finding :: "string \<Rightarrow> policy_finding \<Rightarrow> policy_finding" where
  "override_finding approver f =
     (if blocks_apply (pf_severity f) then f\<lparr>pf_overridden_by := Some approver\<rparr> else f)"

definition apply_override :: "policy_finding list \<Rightarrow> override_decision \<Rightarrow> policy_finding list" where
  "apply_override findings decision =
     (case decision of
        Inactive _ \<Rightarrow> findings
      | Active v \<Rightarrow> map (override_finding (vo_approver v)) findings)"

type_synonym finding_identity = "string \<times> severity \<times> string \<times> string \<times> string \<times> string"

definition reviewed_identity :: "policy_finding \<Rightarrow> finding_identity" where
  "reviewed_identity f =
     (pf_rule_id f, pf_severity f, pf_kind f, pf_namespace f, pf_id f, pf_message f)"

text \<open>The counters are a hash map from identities to numbers.\<close>

type_synonym identity_map = "finding_identity \<rightharpoonup> nat"

definition count_identity :: "policy_finding \<Rightarrow> identity_map \<Rightarrow> identity_map" where
  "count_identity f counts =
     counts(reviewed_identity f \<mapsto>
       (case counts (reviewed_identity f) of None \<Rightarrow> 0 | Some n \<Rightarrow> n) + 1)"

definition identity_counts :: "policy_finding list \<Rightarrow> identity_map" where
  "identity_counts findings = fold count_identity findings Map.empty"

definition take_identity :: "identity_map \<Rightarrow> policy_finding \<Rightarrow> bool \<times> identity_map" where
  "take_identity counts f =
     (case counts (reviewed_identity f) of
        Some n \<Rightarrow>
          if 0 < n then (True, counts(reviewed_identity f \<mapsto> n - 1)) else (False, counts)
      | None \<Rightarrow> (False, counts))"

fun cover_loop ::
    "string \<Rightarrow> policy_finding list \<Rightarrow> identity_map \<Rightarrow> nat \<Rightarrow> policy_finding list \<times> nat" where
  "cover_loop approver [] reviewed uncovered = ([], uncovered)"
| "cover_loop approver (f # fs) reviewed uncovered =
     (if \<not> blocks_apply (pf_severity f)
      then (let (gs, n) = cover_loop approver fs reviewed uncovered in (f # gs, n))
      else (case take_identity reviewed f of
              (True, reviewed') \<Rightarrow>
                (let (gs, n) = cover_loop approver fs reviewed' uncovered
                 in (f\<lparr>pf_overridden_by := Some approver\<rparr> # gs, n))
            | (False, reviewed') \<Rightarrow>
                (let (gs, n) = cover_loop approver fs reviewed' (uncovered + 1) in (f # gs, n))))"

definition apply_override_to_reviewed ::
    "policy_finding list \<Rightarrow> override_decision \<Rightarrow> policy_finding list \<Rightarrow> policy_finding list \<times> nat" where
  "apply_override_to_reviewed findings decision reviewed =
     (case decision of
        Inactive _ \<Rightarrow> (findings, 0)
      | Active v \<Rightarrow>
          cover_loop (vo_approver v) findings
            (identity_counts (filter (\<lambda>f. blocks_apply (pf_severity f)) reviewed)) 0)"

definition RESOLUTION_ONLY_REMEDIATION :: string where
  "RESOLUTION_ONLY_REMEDIATION = ''appeared only after credential resolution; a policy override covers only findings in the committed (unresolved) configuration, so fix the resource or the credential value''"

fun without_twins :: "identity_map \<Rightarrow> policy_finding list \<Rightarrow> policy_finding list" where
  "without_twins twins [] = []"
| "without_twins twins (f # fs) =
     (case take_identity twins f of
        (True, twins') \<Rightarrow> without_twins twins' fs
      | (False, twins') \<Rightarrow> f # without_twins twins' fs)"

definition note_resolution_only :: "bool \<Rightarrow> policy_finding \<Rightarrow> policy_finding" where
  "note_resolution_only active f =
     (if active \<and> is_blocking f then f\<lparr>pf_remediation := Some RESOLUTION_ONLY_REMEDIATION\<rparr> else f)"

definition is_active :: "override_decision option \<Rightarrow> bool" where
  "is_active d = (case d of Some (Active _) \<Rightarrow> True | _ \<Rightarrow> False)"

definition preview_policy_findings ::
    "policy_finding list \<Rightarrow> policy_finding list option \<Rightarrow> override_decision option \<Rightarrow>
     policy_finding list \<times> nat" where
  "preview_policy_findings unresolved resolved decision =
     (let preview = (case decision of None \<Rightarrow> unresolved | Some d \<Rightarrow> apply_override unresolved d) in
      case resolved of
        None \<Rightarrow> (preview, 0)
      | Some rs \<Rightarrow>
          (let (rs, uncovered) =
                 (case decision of None \<Rightarrow> (rs, 0)
                  | Some d \<Rightarrow> apply_override_to_reviewed rs d unresolved)
           in (preview @ map (note_resolution_only (is_active decision))
                 (without_twins (identity_counts unresolved) rs), uncovered)))"

end
