(* ===== verification/Override_Facts.thy ===== *)
theory Override_Facts
  imports Override "HOL-Library.Multiset"
begin

text \<open>
  An override clears exactly what was reviewed: the counters of the source implement a multiset of
  finding identities, and what \<open>plan\<close> and \<open>review\<close> preview is what \<open>apply\<close> refuses.
\<close>

section \<open>The counters are a multiset\<close>

definition tally :: "identity_map \<Rightarrow> finding_identity \<Rightarrow> nat" where
  "tally m k = (case m k of None \<Rightarrow> 0 | Some n \<Rightarrow> n)"

definition represents :: "identity_map \<Rightarrow> finding_identity multiset \<Rightarrow> bool" where
  "represents m M = (tally m = count M)"

lemma tally_update: "tally (m(k \<mapsto> n)) = (tally m)(k := n)"
  by (auto simp: tally_def)

lemma represents_empty: "represents Map.empty {#}"
  by (auto simp: represents_def tally_def)

lemma represents_count:
  "represents m M \<Longrightarrow> represents (count_identity f m) (add_mset (reviewed_identity f) M)"
  by (auto simp: represents_def count_identity_def tally_update tally_def[symmetric] simp del: fun_upd_apply)
    auto

lemma represents_fold:
  "represents m M \<Longrightarrow>
   represents (fold count_identity fs m) (image_mset reviewed_identity (mset fs) + M)"
proof (induction fs arbitrary: m M)
  case (Cons f fs)
  from Cons.IH[OF represents_count[OF Cons.prems, of f]] show ?case by simp
qed simp

lemma represents_counts: "represents (identity_counts fs) (image_mset reviewed_identity (mset fs))"
  using represents_fold[OF represents_empty, of fs] by (simp add: identity_counts_def)

lemma take_identity_tally:
  "take_identity m f =
     (if 0 < tally m (reviewed_identity f)
      then (True, m(reviewed_identity f \<mapsto> tally m (reviewed_identity f) - 1)) else (False, m))"
  by (auto simp: take_identity_def tally_def split: option.splits)

lemma take_identity_cases:
  assumes "represents m M"
  obtains (taken) m' where "reviewed_identity f \<in># M" and "take_identity m f = (True, m')"
      and "represents m' (M - {#reviewed_identity f#})"
    | (exhausted) "reviewed_identity f \<notin># M" and "take_identity m f = (False, m)"
proof (cases "reviewed_identity f \<in># M")
  case True
  then show thesis
    using assms
    by (intro taken) (auto simp: take_identity_tally represents_def tally_update)
next
  case False
  then show thesis
    using assms by (intro exhausted) (auto simp: take_identity_tally represents_def not_in_iff)
qed

section \<open>Covering\<close>

abbreviation error_findings :: "policy_finding list \<Rightarrow> policy_finding list" where
  "error_findings fs \<equiv> filter (\<lambda>f. blocks_apply (pf_severity f)) fs"

abbreviation identities :: "policy_finding list \<Rightarrow> finding_identity multiset" where
  "identities fs \<equiv> image_mset reviewed_identity (mset fs)"

definition fresh :: "policy_finding \<Rightarrow> bool" where
  "fresh f = (pf_overridden_by f = None)"

lemma identity_overridden [simp]:
  "reviewed_identity (f\<lparr>pf_overridden_by := x\<rparr>) = reviewed_identity f"
  by (simp add: reviewed_identity_def)

lemma cover_loop_exact:
  assumes "represents m M" and "list_all fresh fs"
  shows "snd (cover_loop a fs m n) = n + size (identities (error_findings fs) - M) \<and>
    identities (filter (\<lambda>f. \<not> fresh f) (fst (cover_loop a fs m n))) = identities (error_findings fs) \<inter># M \<and>
    identities (filter is_blocking (fst (cover_loop a fs m n))) = identities (error_findings fs) - M \<and>
    map (pf_overridden_by_update (\<lambda>_. None)) (fst (cover_loop a fs m n)) = fs"
  using assms
proof (induction fs arbitrary: m M n)
  case (Cons f fs)
  have "fresh f" and fs: "list_all fresh fs" using Cons.prems(2) by simp_all
  then have fr: "pf_overridden_by f = None" "list_all fresh fs" by (simp_all add: fresh_def[of f])
  have same: "f\<lparr>pf_overridden_by := None\<rparr> = f" using fr by (cases f) simp
  show ?case
  proof (cases "blocks_apply (pf_severity f)")
    case False
    then show ?thesis
      using Cons.IH[OF Cons.prems(1) fr(2), of n] same fr(1)
      by (simp add: split_beta fresh_def is_blocking_def)
  next
    case True
    from Cons.prems(1) show ?thesis
    proof (cases rule: take_identity_cases[of m M f])
      case (taken m')
      obtain N where M: "M = add_mset (reviewed_identity f) N"
        using taken(1) by (metis multi_member_split)
      then have "represents m' N" using taken(3) by simp
      from Cons.IH[OF this fr(2), of n] show ?thesis
        using taken(2) True same fr(1) by (simp add: M split_beta fresh_def is_blocking_def)
    next
      case exhausted
      show ?thesis
        using Cons.IH[OF Cons.prems(1) fr(2), of "n + 1"] exhausted True same fr(1)
        by (simp add: split_beta fresh_def is_blocking_def inter_add_left1)
    qed
  qed
qed simp

text \<open>
  C12.  An active override covers a blocking finding of the resolved document only against a reviewed
  one: with \<open>B\<close> the identities of the blocking findings and \<open>M\<close> those of the reviewed blocking
  findings, as multisets, the findings marked as overridden are \<open>B \<inter># M\<close>, those left blocking are
  \<open>B - M\<close> and their number is returned; apart from the mark the list is unchanged.
\<close>

theorem override_covers_reviewed:
  assumes "list_all fresh findings"
  shows "let (out, uncovered) = apply_override_to_reviewed findings (Active v) reviewed;
             B = identities (error_findings findings); M = identities (error_findings reviewed)
         in uncovered = size (B - M) \<and>
            identities (filter (\<lambda>f. \<not> fresh f) out) = B \<inter># M \<and>
            identities (filter is_blocking out) = B - M \<and>
            map (pf_overridden_by_update (\<lambda>_. None)) out = findings"
  using cover_loop_exact[OF represents_counts assms, of "vo_approver v" _ 0]
  by (simp add: apply_override_to_reviewed_def split_beta Let_def)

definition sample_finding :: "severity \<Rightarrow> string \<Rightarrow> policy_finding" where
  "sample_finding s message = mk_finding ''backend_scheme'' s ''Proxy'' ''a'' ''shop'' message ''fix''"

definition sample_verified :: verified_override where
  "sample_verified = \<lparr>vo_approver = ''ann'', vo_permission = ''admin'', vo_pr_number = 7,
     vo_authorized_head = replicate 40 (CHR ''a''), vo_review_id = 1,
     vo_applied_revision = replicate 40 (CHR ''b'')\<rparr>"

theorem override_covers_reviewed_witness:
  "let r = apply_override_to_reviewed
         [sample_finding Error ''x'', sample_finding Error ''x'', sample_finding Info ''y'']
         (Active sample_verified) [sample_finding Error ''x'']
   in snd r = 1 \<and> size (identities (filter is_blocking (fst r))) = 1"
proof -
  let ?fs = "[sample_finding Error ''x'', sample_finding Error ''x'', sample_finding Info ''y'']"
  have fr: "list_all fresh ?fs" by (simp add: fresh_def sample_finding_def mk_finding_def)
  have "identities (error_findings ?fs) - identities (error_findings [sample_finding Error ''x'']) =
      {#reviewed_identity (sample_finding Error ''x'')#}"
    by (simp add: sample_finding_def mk_finding_def blocks_apply_def)
  then show ?thesis
    using override_covers_reviewed[OF fr, of sample_verified "[sample_finding Error ''x'']"]
    by (simp only: Let_def split_beta size_single)
qed

section \<open>The preview\<close>

lemma cover_without_twins:
  assumes "list_all fresh fs" and "\<And>k. blocks_apply (fst (snd k)) \<Longrightarrow> tally m k = tally m' k"
  shows "filter is_blocking (without_twins m' (fst (cover_loop a fs m n))) =
         filter is_blocking (fst (cover_loop a fs m n))"
  using assms
proof (induction fs arbitrary: m m' n)
  case (Cons f fs)
  let ?k = "reviewed_identity f"
  have fr: "pf_overridden_by f = None" and fs: "list_all fresh fs"
    using Cons.prems(1) by (simp_all add: fresh_def[of f])
  have sev: "fst (snd ?k) = pf_severity f" by (simp add: reviewed_identity_def)
  show ?case
  proof (cases "blocks_apply (pf_severity f)")
    case False
    have "tally m k = tally (snd (take_identity m' f)) k" if "blocks_apply (fst (snd k))" for k
      using Cons.prems(2)[OF that] that False sev
      by (auto simp: take_identity_tally tally_update)
    note IH = Cons.IH[OF fs this, of n]
    show ?thesis
      using IH False by (auto simp: split_beta is_blocking_def split: prod.splits bool.splits)
  next
    case True
    then have eq: "tally m ?k = tally m' ?k" using Cons.prems(2) sev by simp
    have "tally (snd (take_identity m f)) k = tally (snd (take_identity m' f)) k"
      if "blocks_apply (fst (snd k))" for k
      using Cons.prems(2)[OF that] eq by (auto simp: take_identity_tally tally_update)
    note IH = Cons.IH[OF fs this]
    have i: "take_identity m' (f\<lparr>pf_overridden_by := x\<rparr>) = take_identity m' f" for x
      by (simp add: take_identity_tally)
    show ?thesis
      using IH[of n] IH[of "n + 1"] True eq i fr
      by (auto simp: split_beta is_blocking_def take_identity_tally)
  qed
qed simp

lemma counts_blocking:
  assumes "blocks_apply (fst (snd k))"
  shows "tally (identity_counts (error_findings fs)) k = tally (identity_counts fs) k"
proof -
  have "count (identities (error_findings fs)) k = count (identities fs) k"
    using assms by (induction fs) (auto simp: reviewed_identity_def)
  then show ?thesis using represents_counts[of fs] represents_counts[of "error_findings fs"]
    by (simp add: represents_def)
qed

lemma twins_keep_blocking:
  assumes "\<And>k. blocks_apply (fst (snd k)) \<Longrightarrow> tally m k = 0"
  shows "filter is_blocking (without_twins m fs) = filter is_blocking fs"
  using assms
proof (induction fs arbitrary: m)
  case (Cons f fs)
  have "tally (snd (take_identity m f)) k = 0" if "blocks_apply (fst (snd k))" for k
    using Cons.prems[OF that]
    by (cases "k = reviewed_identity f") (simp_all add: take_identity_tally tally_update)
  note IH = Cons.IH[OF this]
  have "is_blocking f \<Longrightarrow> \<not> 0 < tally m (reviewed_identity f)"
    using Cons.prems by (simp add: is_blocking_def reviewed_identity_def)
  then show ?case
    using IH by (auto simp: take_identity_tally)
qed simp

lemma no_error_no_tally:
  assumes "\<not> list_ex is_blocking fs" and "list_all fresh fs" and "blocks_apply (fst (snd k))"
  shows "tally (identity_counts fs) k = 0"
proof -
  have "k \<notin># identities fs"
    using assms
    by (auto simp: list_ex_iff list_all_iff is_blocking_def reviewed_identity_def fresh_def)
  then have "count (identities fs) k = 0" by (simp only: not_in_iff)
  then show ?thesis using represents_counts[of fs] by (simp only: represents_def)
qed

lemma note_blocking [simp]: "is_blocking (note_resolution_only b f) = is_blocking f"
  by (simp add: note_resolution_only_def is_blocking_def)

lemma list_ex_note: "list_ex is_blocking (map (note_resolution_only b) fs) = list_ex is_blocking fs"
  by (induction fs) simp_all

lemma list_ex_filter: "list_ex P xs \<longleftrightarrow> filter P xs \<noteq> []"
  by (auto simp: list_ex_iff filter_empty_conv)

lemma apply_override_blocking:
  "list_ex is_blocking (apply_override fs (Active v)) \<longleftrightarrow> False"
  by (auto simp: apply_override_def list_ex_iff override_finding_def is_blocking_def)

text \<open>The two gates of an api-mode \<open>apply\<close>: before and after credential resolution.\<close>

definition first_gate :: "policy_finding list \<Rightarrow> override_decision option \<Rightarrow> policy_finding list" where
  "first_gate unresolved decision =
     (case decision of None \<Rightarrow> unresolved | Some d \<Rightarrow> apply_override unresolved d)"

definition second_gate ::
    "policy_finding list \<Rightarrow> policy_finding list \<Rightarrow> override_decision option \<Rightarrow> policy_finding list" where
  "second_gate unresolved resolved decision =
     (case decision of None \<Rightarrow> resolved
      | Some d \<Rightarrow> fst (apply_override_to_reviewed resolved d unresolved))"

text \<open>
  C11.  The preview that \<open>plan\<close> and \<open>review\<close> gate on blocks exactly when an api-mode \<open>apply\<close> would
  refuse: on the unresolved document with the whole override, or on the resolved document with the
  override limited to reviewed findings.
\<close>

theorem preview_matches_apply:
  assumes "list_all fresh unresolved" and "list_all fresh resolved"
  shows "list_ex is_blocking (fst (preview_policy_findings unresolved (Some resolved) decision)) \<longleftrightarrow>
    list_ex is_blocking (first_gate unresolved decision) \<or>
    list_ex is_blocking (second_gate unresolved resolved decision)"
proof -
  let ?rs = "second_gate unresolved resolved decision"
  let ?twins = "without_twins (identity_counts unresolved) ?rs"
  have pre: "list_ex is_blocking (fst (preview_policy_findings unresolved (Some resolved) decision)) \<longleftrightarrow>
      list_ex is_blocking (first_gate unresolved decision) \<or> list_ex is_blocking ?twins"
    by (simp add: preview_policy_findings_def first_gate_def second_gate_def split_beta list_ex_note
        split: option.splits)
  consider (active) v where "decision = Some (Active v)"
    | (off) "?rs = resolved" "first_gate unresolved decision = unresolved"
    by (cases decision; cases "the decision")
      (auto simp: second_gate_def first_gate_def apply_override_to_reviewed_def apply_override_def)
  then show ?thesis
  proof cases
    case (active v)
    have "filter is_blocking ?twins = filter is_blocking ?rs"
      unfolding active second_gate_def apply_override_to_reviewed_def option.case override_decision.case
      by (rule cover_without_twins[OF assms(2) counts_blocking])
    then show ?thesis unfolding pre by (simp only: list_ex_filter)
  next
    case off
    show ?thesis
    proof (cases "list_ex is_blocking unresolved")
      case False
      have "filter is_blocking ?twins = filter is_blocking ?rs"
        by (rule twins_keep_blocking, rule no_error_no_tally[OF False assms(1)])
      then show ?thesis unfolding pre by (simp only: list_ex_filter)
    qed (simp add: pre off)
  qed
qed

theorem preview_matches_apply_witness:
  "\<not> list_ex is_blocking (first_gate [sample_finding Error ''x''] (Some (Active sample_verified))) \<and>
   list_ex is_blocking (fst (preview_policy_findings [sample_finding Error ''x'']
     (Some [sample_finding Error ''x'', sample_finding Error ''z'']) (Some (Active sample_verified))))"
proof -
  have f: "list_all fresh [sample_finding Error ''x'']"
    "list_all fresh [sample_finding Error ''x'', sample_finding Error ''z'']"
    by (simp_all add: fresh_def sample_finding_def mk_finding_def)
  have "list_ex is_blocking (second_gate [sample_finding Error ''x'']
      [sample_finding Error ''x'', sample_finding Error ''z''] (Some (Active sample_verified)))"
    by code_simp
  then show ?thesis
    using preview_matches_apply[OF f, of "Some (Active sample_verified)"]
    by (simp add: first_gate_def apply_override_blocking)
qed

end
