(* ===== verification/Override_Evidence.thy ===== *)
theory Override_Evidence
  imports Override
begin

text \<open>
  When an override is active: the evidence GitHub gave, each piece of it read before and again after
  the reviewed tree, and the converse, that evidence which stays in place makes the check succeed.
\<close>

section \<open>Listings\<close>

text \<open>The events of one label: the last \<open>labeled\<close> or \<open>unlabeled\<close> event decides.\<close>

definition of_label :: "string \<Rightarrow> issue_event \<Rightarrow> bool" where
  "of_label name e =
     ((case ev_label e of None \<Rightarrow> False | Some l \<Rightarrow> lb_name l = name) \<and>
      (ev_event e = ''labeled'' \<or> ev_event e = ''unlabeled''))"

lemma label_event_skip: "\<not> of_label name e \<Longrightarrow> label_event name e latest = latest"
  by (auto simp: label_event_def of_label_def)

lemma fold_label_skip: "list_all (\<lambda>e. \<not> of_label name e) es \<Longrightarrow> fold (label_event name) es latest = latest"
  by (induction es arbitrary: latest) (auto simp: label_event_skip)

lemma fold_label_last:
  assumes "fold (label_event name) es None = Some login"
  obtains pre e post a where "es = pre @ e # post" and "of_label name e" and "ev_event e = ''labeled''"
    and "ev_actor e = Some a" and "ac_login a = login" and "list_all (\<lambda>e. \<not> of_label name e) post"
proof -
  have "\<exists>e \<in> set es. of_label name e"
    using assms fold_label_skip[of name es None] by (fastforce simp: list_all_iff)
  then obtain pre e post where es: "es = pre @ e # post" "of_label name e"
    "\<forall>e \<in> set post. \<not> of_label name e"
    by (metis split_list_last_prop)
  then have "label_event name e (fold (label_event name) pre None) = Some login"
    using assms by (simp add: fold_label_skip list_all_iff)
  then have "ev_event e = ''labeled'' \<and> map_option ac_login (ev_actor e) = Some login"
    using es(2) by (auto simp: label_event_def of_label_def split: if_splits option.splits)
  then show thesis using es that by (auto simp: list_all_iff)
qed

text \<open>Both loops read numbered pages until one is empty; they differ in what they fold.\<close>

fun read_pages ::
    "(nat \<Rightarrow> nat \<Rightarrow> (fetch_error, 'a list) result) \<Rightarrow> ('a list \<Rightarrow> 's \<Rightarrow> 's) \<Rightarrow> nat \<Rightarrow> nat \<Rightarrow> 's \<Rightarrow> nat \<Rightarrow>
     (fetch_error, 's) result \<times> nat" where
  "read_pages fetch absorb 0 page acc t = (Inl HistoryTooLong, t)"
| "read_pages fetch absorb (Suc n) page acc t =
     (case fetch t page of
        Inl e \<Rightarrow> (Inl e, Suc t)
      | Inr batch \<Rightarrow>
          if batch = [] then (Inr acc, Suc t)
          else read_pages fetch absorb n (Suc page) (absorb batch acc) (Suc t))"

lemma labeler_pages_read:
  "labeler_pages api name n page latest t =
     read_pages (api_events api) (fold (label_event name)) n page latest t"
  by (induction api name n page latest t rule: labeler_pages.induct)
    (auto simp: Let_def split: sum.splits)

lemma review_pages_read:
  "review_pages api n page reviews t =
     read_pages (api_reviews api) (\<lambda>batch acc. acc @ batch) n page reviews t"
  by (induction api n page reviews t rule: review_pages.induct) (auto split: sum.splits)

lemma read_pages_time:
  "t \<le> snd (read_pages fetch absorb n page acc t) \<and> (0 < n \<longrightarrow> t < snd (read_pages fetch absorb n page acc t))"
  by (induction fetch absorb n page acc t rule: read_pages.induct) (force split: sum.splits)+

lemma read_pages_done:
  "fst (read_pages fetch absorb n page acc t) = Inr r \<Longrightarrow>
   \<exists>k < n. \<exists>batch. (\<forall>i < k. fetch (t + i) (page + i) = Inr (batch i) \<and> batch i \<noteq> []) \<and>
     fetch (t + k) (page + k) = Inr [] \<and> r = fold absorb (map batch [0..<k]) acc"
proof (induction fetch absorb n page acc t rule: read_pages.induct)
  case (2 fetch absorb n page acc t)
  obtain events where ev: "fetch t page = Inr events"
    using "2.prems" by (auto split: sum.splits)
  show ?case
  proof (cases "events = []")
    case True
    then show ?thesis using "2.prems" ev by (intro exI[of _ 0]) auto
  next
    case False
    then have "fst (read_pages fetch absorb n (Suc page) (absorb events acc) (Suc t)) = Inr r"
      using "2.prems" ev by simp
    from "2.IH"[OF ev False this] obtain k batch where
      k: "k < n" "\<forall>i < k. fetch (Suc t + i) (Suc page + i) = Inr (batch i) \<and> batch i \<noteq> []"
      "fetch (Suc t + k) (Suc page + k) = Inr []"
      "r = fold absorb (map batch [0..<k]) (absorb events acc)"
      by blast
    let ?b = "\<lambda>i. case i of 0 \<Rightarrow> events | Suc j \<Rightarrow> batch j"
    have "map ?b [0..<Suc k] = events # map batch [0..<k]"
      by (simp add: map_upt_Suc del: upt_Suc)
    then have "r = fold absorb (map ?b [0..<Suc k]) acc"
      using k(4) by (simp del: upt_Suc)
    moreover have "\<forall>i < Suc k. fetch (t + i) (page + i) = Inr (?b i) \<and> ?b i \<noteq> []"
      using k(2) ev False by (auto simp: less_Suc_eq_0_disj)
    ultimately show ?thesis using k(1,3) by (intro exI[of _ "Suc k"] conjI exI[of _ ?b]) auto
  qed
qed simp

section \<open>Evidence\<close>

definition listed :: "(nat \<Rightarrow> nat \<Rightarrow> (fetch_error, 'a list) result) \<Rightarrow> nat \<Rightarrow> 'a list \<Rightarrow> bool" where
  "listed fetch t xs =
     (\<exists>k < MAX_ISSUE_EVENT_PAGES. \<exists>batch.
        (\<forall>i < k. fetch (t + i) (1 + i) = Inr (batch i) \<and> batch i \<noteq> []) \<and>
        fetch (t + k) (1 + k) = Inr [] \<and> xs = concat (map batch [0..<k]))"

definition labeled_by :: "github_api \<Rightarrow> string \<Rightarrow> string \<Rightarrow> nat \<Rightarrow> bool" where
  "labeled_by api name login t =
     (\<exists>pre e post. listed (api_events api) t (pre @ e # post) \<and> of_label name e \<and>
        ev_event e = ''labeled'' \<and> map_option ac_login (ev_actor e) = Some login \<and>
        list_all (\<lambda>e. \<not> of_label name e) post)"

definition permitted :: "github_api \<Rightarrow> override_config \<Rightarrow> string \<Rightarrow> nat \<Rightarrow> bool" where
  "permitted api cfg login t =
     (\<exists>r. api_permission api t login = Inr r \<and> is_sufficient cfg (effective_permission r))"

definition authorized_by ::
    "github_api \<Rightarrow> string \<Rightarrow> string \<Rightarrow> string \<Rightarrow> override_review \<Rightarrow> nat \<Rightarrow> bool" where
  "authorized_by api name login head review t =
     (\<exists>pre post. listed (api_reviews api) t (pre @ review # post) \<and> review_by login review \<and>
        list_all (\<lambda>r. \<not> review_by login r) post \<and> review_authorizes name head review)"

definition read_twice :: "(nat \<Rightarrow> bool) \<Rightarrow> nat \<Rightarrow> bool" where
  "read_twice P t = (\<exists>a < t. \<exists>b > t. P a \<and> P b)"

lemma fold_concat_label:
  "fold (\<lambda>batch. fold (label_event name) batch) bs latest = fold (label_event name) (concat bs) latest"
  by (induction bs arbitrary: latest) auto

lemma fold_append_all: "fold (\<lambda>batch acc. acc @ batch) bs acc = acc @ concat bs"
  by (induction bs arbitrary: acc) auto

lemma labeler_read:
  "fst (find_override_labeler_at api name t) = Inr (Some login) \<Longrightarrow> labeled_by api name login t"
proof -
  assume "fst (find_override_labeler_at api name t) = Inr (Some login)"
  then have "fst (read_pages (api_events api) (fold (label_event name)) MAX_ISSUE_EVENT_PAGES 1 None t) =
      Inr (Some login)"
    by (simp add: find_override_labeler_at_def labeler_pages_read)
  from read_pages_done[OF this] obtain k batch where
    k: "k < MAX_ISSUE_EVENT_PAGES"
      "\<forall>i < k. api_events api (t + i) (1 + i) = Inr (batch i) \<and> batch i \<noteq> []"
      "api_events api (t + k) (1 + k) = Inr []"
      "Some login = fold (label_event name) (concat (map batch [0..<k])) None"
    unfolding fold_concat_label by blast
  then have "listed (api_events api) t (concat (map batch [0..<k]))"
    by (auto simp: listed_def)
  moreover obtain pre e post a where "concat (map batch [0..<k]) = pre @ e # post" "of_label name e"
      "ev_event e = ''labeled''" "ev_actor e = Some a" "ac_login a = login"
      "list_all (\<lambda>e. \<not> of_label name e) post"
    using fold_label_last[OF k(4)[symmetric]] by metis
  ultimately show ?thesis
    unfolding labeled_by_def by (intro exI[of _ pre] exI[of _ e] exI[of _ post]) simp
qed

lemma find_rev_last:
  "find P (rev xs) = Some x \<Longrightarrow> \<exists>pre post. xs = pre @ x # post \<and> P x \<and> list_all (\<lambda>y. \<not> P y) post"
proof (induction xs rule: rev_induct)
  case (snoc y ys)
  show ?case
  proof (cases "P y")
    case True
    then show ?thesis using snoc.prems by (intro exI[of _ ys] exI[of _ "[]"]) simp
  next
    case False
    then obtain pre post where "ys = pre @ x # post" "P x" "list_all (\<lambda>y. \<not> P y) post"
      using snoc by auto
    then show ?thesis using False by (intro exI[of _ pre] exI[of _ "post @ [y]"]) simp
  qed
qed simp

lemma reviews_read:
  assumes "fst (fetch_reviews_at api t) = Inr rs" and "authorized_review rs login name head = Some review"
  shows "authorized_by api name login head review t \<and> is_revision head"
proof -
  have "fst (read_pages (api_reviews api) (\<lambda>batch acc. acc @ batch) MAX_ISSUE_EVENT_PAGES 1 [] t) = Inr rs"
    using assms(1) by (simp add: fetch_reviews_at_def review_pages_read)
  from read_pages_done[OF this] have "listed (api_reviews api) t rs"
    by (auto simp: listed_def fold_append_all)
  moreover have r: "find (review_by login) (rev rs) = Some review" "review_authorizes name head review"
      "is_revision head"
    using assms(2) by (auto simp: authorized_review_def split: if_splits option.splits)
  ultimately show ?thesis
    using find_rev_last[OF r(1)] by (auto simp: authorized_by_def)
qed

lemma permission_read:
  "fst (fetch_permission_at api login t) = Inr p \<Longrightarrow> is_sufficient cfg p \<Longrightarrow> permitted api cfg login t"
  by (cases "api_permission api t login") (auto simp: fetch_permission_at_def permitted_def)

lemma read_pages_later: "t < snd (read_pages fetch absorb MAX_ISSUE_EVENT_PAGES page acc t)"
  using read_pages_time[of t fetch absorb MAX_ISSUE_EVENT_PAGES page acc]
  by (simp add: MAX_ISSUE_EVENT_PAGES_def)

lemma call_times:
  "snd (fetch_pr api t) = Suc t" "t < snd (find_override_labeler_at api name t)"
  "snd (fetch_permission_at api login t) = Suc t" "t < snd (fetch_reviews_at api t)"
  "snd (fetch_tree api head t) = Suc t"
  by (simp_all add: fetch_pr_def find_override_labeler_at_def fetch_permission_at_def
      fetch_reviews_at_def fetch_tree_def labeler_pages_read review_pages_read read_pages_later)

lemma ok_opt_Some: "ok_opt r = Some x \<longleftrightarrow> r = Inr x"
  by (cases r) (auto simp: ok_opt_def)

lemma recheck_evidence:
  assumes "fst (recheck api cfg pr approver review t) = None"
  shows "\<exists>a \<ge> t. api_pr api a = Inr pr" and "\<exists>a \<ge> t. labeled_by api (ov_require_label cfg) approver a"
    and "\<exists>a \<ge> t. permitted api cfg approver a"
    and "\<exists>a \<ge> t. authorized_by api (ov_require_label cfg) approver (rv_sha (pr_head pr)) review a"
proof -
  define t1 where "t1 = snd (fetch_pr api t)"
  define t2 where "t2 = snd (find_override_labeler_at api (ov_require_label cfg) t1)"
  define t3 where "t3 = snd (fetch_permission_at api approver t2)"
  have ts: "t < t1" "t1 < t2" "t2 < t3"
    by (simp_all add: t1_def t2_def t3_def call_times)
  have pr: "fst (fetch_pr api t) = Inr pr"
    and lab: "fst (find_override_labeler_at api (ov_require_label cfg) t1) = Inr (Some approver)"
    and per: "\<exists>p. fst (fetch_permission_at api approver t2) = Inr p \<and> is_sufficient cfg p"
    and rev: "\<exists>rs. fst (fetch_reviews_at api t3) = Inr rs \<and>
        authorized_review rs approver (ov_require_label cfg) (rv_sha (pr_head pr)) = Some review"
    using assms
    by (auto simp: recheck_def Let_def split_beta ok_opt_Some t1_def t2_def t3_def
        split: if_splits option.splits)
  show "\<exists>a \<ge> t. api_pr api a = Inr pr" using pr by (auto simp: fetch_pr_def)
  show "\<exists>a \<ge> t. labeled_by api (ov_require_label cfg) approver a"
    using labeler_read[OF lab] ts by (intro exI[of _ t1]) simp
  show "\<exists>a \<ge> t. permitted api cfg approver a"
    using per permission_read ts by (intro exI[of _ t2]) auto
  show "\<exists>a \<ge> t. authorized_by api (ov_require_label cfg) approver (rv_sha (pr_head pr)) review a"
    using rev reviews_read ts by (intro exI[of _ t3]) auto
qed

lemma active_evidence:
  assumes "fst (check_override_at api verify_input cfg number t) = Active v"
  shows "\<exists>pr review tree tt.
    list_ex (\<lambda>l. lb_name l = ov_require_label cfg) (pr_labels pr) \<and>
    rv_sha (pr_head pr) = vo_authorized_head v \<and> is_revision (vo_authorized_head v) \<and>
    vo_pr_number v = number \<and> or_id review = vo_review_id v \<and>
    api_tree api tt (vo_authorized_head v) = Inr tree \<and>
    verify_input tree (pr_merged pr) (pr_merge_commit_sha pr) = Inr (vo_applied_revision v) \<and>
    read_twice (\<lambda>a. api_pr api a = Inr pr) tt \<and>
    read_twice (labeled_by api (ov_require_label cfg) (vo_approver v)) tt \<and>
    read_twice (permitted api cfg (vo_approver v)) tt \<and>
    read_twice (authorized_by api (ov_require_label cfg) (vo_approver v) (vo_authorized_head v) review) tt"
proof -
  let ?label = "ov_require_label cfg"
  define t1 where "t1 = snd (fetch_pr api t)"
  define t2 where "t2 = snd (find_override_labeler_at api ?label t1)"
  obtain pr where pr: "fst (fetch_pr api t) = Inr pr" "list_ex (\<lambda>l. lb_name l = ?label) (pr_labels pr)"
    using assms
    by (auto simp: check_override_at_def Let_def split_beta split: sum.splits if_splits)
  let ?head = "rv_sha (pr_head pr)"
  obtain approver where ap: "fst (find_override_labeler_at api ?label t1) = Inr (Some approver)"
    using assms pr
    by (auto simp: check_override_at_def Let_def split_beta t1_def split: sum.splits option.splits)
  define t3 where "t3 = snd (fetch_permission_at api approver t2)"
  define t4 where "t4 = snd (fetch_reviews_at api t3)"
  define t5 where "t5 = snd (fetch_tree api ?head t4)"
  obtain permission where pe: "fst (fetch_permission_at api approver t2) = Inr permission"
      "is_sufficient cfg permission"
    using assms pr ap
    by (auto simp: check_override_at_def Let_def split_beta t1_def t2_def split: sum.splits if_splits)
  obtain reviews review where re: "fst (fetch_reviews_at api t3) = Inr reviews"
      "authorized_review reviews approver ?label ?head = Some review"
    using assms pr ap pe
    by (auto simp: check_override_at_def Let_def split_beta t1_def t2_def t3_def
        split: sum.splits option.splits)
  obtain tree applied where tr: "fst (fetch_tree api ?head t4) = Inr tree"
      "verify_input tree (pr_merged pr) (pr_merge_commit_sha pr) = Inr applied"
    using assms pr ap pe re
    by (auto simp: check_override_at_def Let_def split_beta t1_def t2_def t3_def t4_def
        split: sum.splits)
  have rc: "fst (recheck api cfg pr approver review t5) = None"
    and v: "v = \<lparr>vo_approver = approver, vo_permission = permission, vo_pr_number = number,
        vo_authorized_head = ?head, vo_review_id = or_id review, vo_applied_revision = applied\<rparr>"
    using assms pr ap pe re tr
    by (auto simp: check_override_at_def Let_def split_beta t1_def t2_def t3_def t4_def t5_def
        split: option.splits prod.splits)
  have ts: "t < t1" "t1 < t2" "t2 < t3" "t3 < t4" "t5 = Suc t4"
    by (simp_all add: t1_def t2_def t3_def t4_def t5_def call_times)
  have tw: "read_twice P t4" if "P a" "a < t4" "\<exists>b \<ge> t5. P b" for P a
    using that ts(5) unfolding read_twice_def by (metis Suc_le_eq)
  have "read_twice (\<lambda>a. api_pr api a = Inr pr) t4"
    by (rule tw[of _ t]) (use pr recheck_evidence(1)[OF rc] ts in \<open>auto simp: fetch_pr_def\<close>)
  moreover have "read_twice (labeled_by api ?label approver) t4"
    by (rule tw[of _ t1]) (use labeler_read[OF ap] recheck_evidence(2)[OF rc] ts in auto)
  moreover have "read_twice (permitted api cfg approver) t4"
    by (rule tw[of _ t2]) (use permission_read[OF pe] recheck_evidence(3)[OF rc] ts in auto)
  moreover have "read_twice (authorized_by api ?label approver ?head review) t4"
    by (rule tw[of _ t3]) (use reviews_read[OF re] recheck_evidence(4)[OF rc] ts in auto)
  moreover have "api_tree api t4 ?head = Inr tree" using tr(1) by (simp add: fetch_tree_def)
  ultimately show ?thesis
    using pr(2) tr(2) reviews_read[OF re]
    by (intro exI[of _ pr] exI[of _ review] exI[of _ tree] exI[of _ t4]) (simp add: v)
qed

text \<open>
  C7.  An override is active only on complete evidence, and each piece of it held before and again
  after the reviewed tree was read: the pull request, unchanged, carries the label; the approver is
  who last added it; the approver's permission is sufficient; the approver's last submitted review
  of the exact head authorizes the label; and the bytes this run applies were checked against the
  tree of that head.
\<close>

theorem active_override_evidence:
  assumes "fst (check_override_at api verify_input cfg number t) = Active v"
  shows "\<exists>pr review tree tt.
    list_ex (\<lambda>l. lb_name l = ov_require_label cfg) (pr_labels pr) \<and>
    rv_sha (pr_head pr) = vo_authorized_head v \<and> is_revision (vo_authorized_head v) \<and>
    vo_pr_number v = number \<and> or_id review = vo_review_id v \<and>
    api_tree api tt (vo_authorized_head v) = Inr tree \<and>
    verify_input tree (pr_merged pr) (pr_merge_commit_sha pr) = Inr (vo_applied_revision v) \<and>
    read_twice (\<lambda>a. api_pr api a = Inr pr) tt \<and>
    read_twice (labeled_by api (ov_require_label cfg) (vo_approver v)) tt \<and>
    read_twice (permitted api cfg (vo_approver v)) tt \<and>
    read_twice (authorized_by api (ov_require_label cfg) (vo_approver v) (vo_authorized_head v) review) tt"
  using assms by (rule active_evidence)

section \<open>Evidence that stays in place\<close>

definition stable :: "github_api \<Rightarrow> bool" where
  "stable api =
     (\<forall>t. api_pr api t = api_pr api 0 \<and> api_events api t = api_events api 0 \<and>
        api_permission api t = api_permission api 0 \<and> api_reviews api t = api_reviews api 0 \<and>
        api_tree api t = api_tree api 0)"

lemma read_pages_complete:
  assumes "\<forall>i < k. fetch (t + i) (page + i) = Inr (batch i) \<and> batch i \<noteq> []"
    and "fetch (t + k) (page + k) = Inr []" and "k < n"
  shows "fst (read_pages fetch absorb n page acc t) = Inr (fold absorb (map batch [0..<k]) acc)"
  using assms
proof (induction k arbitrary: n page t acc batch)
  case 0
  then show ?case by (cases n) auto
next
  case (Suc k)
  obtain m where n: "n = Suc m" using Suc.prems(3) by (cases n) auto
  have b: "fetch t page = Inr (batch 0)" "batch 0 \<noteq> []" using Suc.prems(1) by (auto dest: spec[of _ 0])
  have "fst (read_pages fetch absorb m (Suc page) (absorb (batch 0) acc) (Suc t)) =
      Inr (fold absorb (map (batch \<circ> Suc) [0..<k]) (absorb (batch 0) acc))"
    by (rule Suc.IH) (use Suc.prems n in \<open>auto dest: spec[of _ "Suc _"]\<close>)
  moreover have "map batch [0..<Suc k] = batch 0 # map (batch \<circ> Suc) [0..<k]"
    by (simp add: map_upt_Suc comp_def del: upt_Suc)
  ultimately show ?case using b n by (simp del: upt_Suc)
qed

lemma stable_listed:
  assumes "\<And>t. fetch t = fetch 0" and "listed fetch 0 xs"
  shows "listed fetch t xs"
proof -
  obtain k batch where k: "k < MAX_ISSUE_EVENT_PAGES"
    "\<And>i. i < k \<Longrightarrow> fetch (0 + i) (1 + i) = Inr (batch i) \<and> batch i \<noteq> []"
    "fetch (0 + k) (1 + k) = Inr []" "xs = concat (map batch [0..<k])"
    using assms(2) unfolding listed_def by blast
  have "fetch (t + i) = fetch (0 + i)" for i using assms(1)[of "t + i"] assms(1)[of "0 + i"] by (rule trans[OF _ sym])
  then show ?thesis using k unfolding listed_def by (intro exI[of _ k] exI[of _ batch] conjI) auto
qed

lemma stableD:
  assumes "stable api"
  shows "api_pr api t = api_pr api 0" "api_events api t = api_events api 0"
    "api_permission api t = api_permission api 0" "api_reviews api t = api_reviews api 0"
    "api_tree api t = api_tree api 0"
  using assms unfolding stable_def by blast+

lemma stable_labeler:
  assumes "stable api" and "labeled_by api name login 0"
  shows "fst (find_override_labeler_at api name t) = Inr (Some login)"
proof -
  obtain pre e post where e: "listed (api_events api) 0 (pre @ e # post)" "of_label name e"
    "ev_event e = ''labeled''" "map_option ac_login (ev_actor e) = Some login"
    "list_all (\<lambda>e. \<not> of_label name e) post"
    using assms(2) by (auto simp: labeled_by_def)
  have "listed (api_events api) t (pre @ e # post)"
    by (rule stable_listed[OF stableD(2)[OF assms(1)] e(1)])
  then obtain k batch where k: "k < MAX_ISSUE_EVENT_PAGES"
    "\<forall>i < k. api_events api (t + i) (1 + i) = Inr (batch i) \<and> batch i \<noteq> []"
    "api_events api (t + k) (1 + k) = Inr []" "pre @ e # post = concat (map batch [0..<k])"
    unfolding listed_def by blast
  have "fold (label_event name) (pre @ e # post) None = Some login"
    using e by (auto simp: fold_label_skip label_event_def of_label_def)
  then show ?thesis
    using read_pages_complete[where fetch = "api_events api" and t = t and page = 1 and k = k and
        batch = batch and absorb = "fold (label_event name)" and acc = None, OF k(2,3,1)] k(4)
    by (simp add: find_override_labeler_at_def labeler_pages_read fold_concat_label)
qed

lemma find_skip: "list_all (\<lambda>x. \<not> P x) xs \<Longrightarrow> P y \<Longrightarrow> find P (xs @ y # ys) = Some y"
  by (induction xs) auto

lemma stable_reviews:
  assumes "stable api" and "authorized_by api name login head review 0" and "is_revision head"
  shows "\<exists>rs. fst (fetch_reviews_at api t) = Inr rs \<and> authorized_review rs login name head = Some review"
proof -
  obtain pre post where e: "listed (api_reviews api) 0 (pre @ review # post)" "review_by login review"
    "list_all (\<lambda>r. \<not> review_by login r) post" "review_authorizes name head review"
    using assms(2) by (auto simp: authorized_by_def)
  have "listed (api_reviews api) t (pre @ review # post)"
    by (rule stable_listed[OF stableD(4)[OF assms(1)] e(1)])
  then obtain k batch where k: "k < MAX_ISSUE_EVENT_PAGES"
    "\<forall>i < k. api_reviews api (t + i) (1 + i) = Inr (batch i) \<and> batch i \<noteq> []"
    "api_reviews api (t + k) (1 + k) = Inr []" "pre @ review # post = concat (map batch [0..<k])"
    unfolding listed_def by blast
  have "find (review_by login) (rev (pre @ review # post)) = Some review"
    using find_skip[of "review_by login" "rev post" review "rev pre"] e(2,3) by (simp add: list_all_iff)
  then have "authorized_review (pre @ review # post) login name head = Some review"
    using e(4) assms(3) by (simp add: authorized_review_def)
  then show ?thesis
    using read_pages_complete[where fetch = "api_reviews api" and t = t and page = 1 and k = k and
        batch = batch and absorb = "\<lambda>batch acc. acc @ batch" and acc = "[]", OF k(2,3,1)] k(4)
    by (simp add: fetch_reviews_at_def review_pages_read fold_append_all)
qed

lemma stable_permission:
  assumes "stable api" and "permitted api cfg login 0"
  shows "\<exists>p. fst (fetch_permission_at api login t) = Inr p \<and> is_sufficient cfg p"
  using assms(2) stableD(3)[OF assms(1), of t] by (auto simp: permitted_def fetch_permission_at_def)

lemma stable_single:
  assumes "stable api"
  shows "fst (fetch_pr api t) = api_pr api 0" and "fst (fetch_tree api head t) = api_tree api 0 head"
  using stableD(1,5)[OF assms, of t] by (simp_all add: fetch_pr_def fetch_tree_def)

text \<open>
  C14.  An override that is honestly given is honoured: when GitHub's answers do not change, the label
  is on the pull request, its last labeler is sufficiently permitted, that account's last submitted
  review of the head authorizes the label, and the inputs verify, the check ends with an active
  decision that carries this evidence, however many requests were sent before.
\<close>

theorem steady_evidence_activates:
  assumes "stable api" and "api_pr api 0 = Inr pr"
    and "list_ex (\<lambda>l. lb_name l = ov_require_label cfg) (pr_labels pr)"
    and "head = rv_sha (pr_head pr)" and "is_revision head"
    and "labeled_by api (ov_require_label cfg) approver 0" and "permitted api cfg approver 0"
    and "authorized_by api (ov_require_label cfg) approver head review 0"
    and "api_tree api 0 head = Inr tree"
    and "verify_input tree (pr_merged pr) (pr_merge_commit_sha pr) = Inr applied"
  shows "\<exists>v. fst (check_override_at api verify_input cfg number t) = Active v \<and>
    vo_approver v = approver \<and> vo_pr_number v = number \<and> vo_authorized_head v = head \<and>
    vo_review_id v = or_id review \<and> vo_applied_revision v = applied"
proof -
  note lab = stable_labeler[OF assms(1,6)]
    and per = stable_permission[OF assms(1,7)] and rev = stable_reviews[OF assms(1,8,5)]
  have re: "fst (recheck api cfg pr approver review u) = None" for u
  proof -
    obtain p where p: "fst (fetch_permission_at api approver
        (snd (find_override_labeler_at api (ov_require_label cfg) (snd (fetch_pr api u))))) = Inr p"
      "is_sufficient cfg p" using per by blast
    obtain rs where "fst (fetch_reviews_at api (snd (fetch_permission_at api approver
        (snd (find_override_labeler_at api (ov_require_label cfg) (snd (fetch_pr api u))))))) = Inr rs"
      "authorized_review rs approver (ov_require_label cfg) head = Some review" using rev by blast
    then show ?thesis
      using p lab assms(2,4) stable_single[OF assms(1)]
      by (simp add: recheck_def Let_def split_beta ok_opt_def)
  qed
  obtain p where p: "fst (fetch_permission_at api approver
      (snd (find_override_labeler_at api (ov_require_label cfg) (snd (fetch_pr api t))))) = Inr p"
    "is_sufficient cfg p" using per by blast
  obtain rs where "fst (fetch_reviews_at api (snd (fetch_permission_at api approver
      (snd (find_override_labeler_at api (ov_require_label cfg) (snd (fetch_pr api t))))))) = Inr rs"
    "authorized_review rs approver (ov_require_label cfg) head = Some review" using rev by blast
  then show ?thesis
    using p lab assms(2,3,4,9,10) stable_single[OF assms(1)] re
    by (simp add: check_override_at_def Let_def split_beta split: prod.splits option.splits)
qed

section \<open>A pull request with an override\<close>

definition sample_head :: string where
  "sample_head = replicate 40 (CHR ''a'')"

definition sample_review :: override_review where
  "sample_review = \<lparr>or_id = 9, or_commit_id = Some sample_head, or_state = ''APPROVED'',
     or_body = Some ''gitforgeops-override gitforgeops/policy-override'',
     or_user = Some \<lparr>ra_login = ''ann''\<rparr>\<rparr>"

definition sample_event :: issue_event where
  "sample_event = \<lparr>ev_event = ''labeled'', ev_label = Some \<lparr>lb_name = ''gitforgeops/policy-override''\<rparr>,
     ev_actor = Some \<lparr>ac_login = ''ann''\<rparr>\<rparr>"

definition sample_pr :: pull_request where
  "sample_pr = \<lparr>pr_labels = [\<lparr>lb_name = ''gitforgeops/policy-override''\<rparr>],
     pr_head = \<lparr>rv_sha = sample_head\<rparr>, pr_merged = False, pr_merge_commit_sha = None\<rparr>"

definition sample_api :: github_api where
  "sample_api = \<lparr>api_pr = (\<lambda>t. Inr sample_pr),
     api_events = (\<lambda>t page. Inr (if page = 1 then [sample_event] else [])),
     api_permission = (\<lambda>t login. Inr \<lparr>pm_permission = ''write'', pm_role_name = Some ''maintain''\<rparr>),
     api_reviews = (\<lambda>t page. Inr (if page = 1 then [sample_review] else [])),
     api_tree = (\<lambda>t head. Inr JNull)\<rparr>"

lemma sample_listed:
  "listed (api_events sample_api) 0 [sample_event]" "listed (api_reviews sample_api) 0 [sample_review]"
  unfolding listed_def
  by (rule exI[of _ 1], simp add: sample_api_def MAX_ISSUE_EVENT_PAGES_def, rule exI[of _ "\<lambda>_. [sample_event]"], simp)
    (rule exI[of _ 1], simp add: sample_api_def MAX_ISSUE_EVENT_PAGES_def, rule exI[of _ "\<lambda>_. [sample_review]"], simp)

lemma sample_revision: "is_revision sample_head"
  by code_simp

lemma sample_label: "ov_require_label override_config_default = ''gitforgeops/policy-override''"
  by (simp add: override_config_default_def)

lemma sample_evidence:
  "labeled_by sample_api (ov_require_label override_config_default) ''ann'' 0"
  "permitted sample_api override_config_default ''ann'' 0"
  "authorized_by sample_api (ov_require_label override_config_default) ''ann'' sample_head sample_review 0"
proof -
  show "labeled_by sample_api (ov_require_label override_config_default) ''ann'' 0"
    unfolding labeled_by_def sample_label
    by (rule exI[of _ "[]"], rule exI[of _ sample_event], rule exI[of _ "[]"])
      (simp add: sample_listed, simp add: sample_event_def of_label_def)
  show "permitted sample_api override_config_default ''ann'' 0"
    by (simp add: permitted_def sample_api_def) code_simp
  have "review_authorizes ''gitforgeops/policy-override'' sample_head sample_review" by code_simp
  then show "authorized_by sample_api (ov_require_label override_config_default) ''ann'' sample_head sample_review 0"
    unfolding authorized_by_def sample_label
    by (intro exI[of _ "[]"]) (simp add: sample_listed review_by_def, simp add: sample_review_def)
qed

theorem steady_evidence_activates_witness:
  "\<exists>v. fst (check_override_at sample_api (\<lambda>_ _ _. Inr sample_head) override_config_default 7 0) = Active v \<and>
     vo_approver v = ''ann'' \<and> vo_review_id v = 9"
proof -
  have st: "stable sample_api" by (simp add: stable_def sample_api_def)
  have pr: "api_pr sample_api 0 = Inr sample_pr" "api_tree sample_api 0 sample_head = Inr JNull"
    "sample_head = rv_sha (pr_head sample_pr)"
    "list_ex (\<lambda>l. lb_name l = ov_require_label override_config_default) (pr_labels sample_pr)"
    by (simp_all add: sample_api_def sample_pr_def override_config_default_def)
  show ?thesis
    using steady_evidence_activates[OF st pr(1,4,3) sample_revision sample_evidence pr(2),
        of "\<lambda>_ _ _. Inr sample_head" sample_head 7 0]
    by (auto simp: sample_review_def)
qed

lemma sample_active:
  "fst (check_override_at sample_api (\<lambda>_ _ _. Inr sample_head) override_config_default 7 0) =
     Active \<lparr>vo_approver = ''ann'', vo_permission = ''maintain'', vo_pr_number = 7,
       vo_authorized_head = sample_head, vo_review_id = 9, vo_applied_revision = sample_head\<rparr>"
  by code_simp

theorem active_override_evidence_witness:
  "\<exists>tt. read_twice (permitted sample_api override_config_default ''ann'') tt \<and>
     read_twice (labeled_by sample_api (ov_require_label override_config_default) ''ann'') tt"
  using active_override_evidence[OF sample_active] by auto

end
