(* ===== verification/OverrideInput.thy ===== *)
theory OverrideInput
  imports Override_Evidence
begin

text \<open>
  \<open>policy/override_input.rs\<close>: binding an override to the bytes this process reads.  Git, the file system
  and the directory walk are the parameter \<open>checkout\<close>: git answers an argument list, a path has a file
  type, and a walk lists its entries.  Everything the function decides from these answers is modelled.
\<close>

section \<open>The reviewed tree\<close>

record tree_entry =
  te_path :: string
  te_mode :: string
  te_sha :: string
  te_kind :: string

record reviewed_tree =
  rt_truncated :: bool
  rt_tree :: "tree_entry list"

text \<open>
  Deserialization of the API's answer: an object with the fields, others ignored, or, as the derived
  implementation also accepts, an array of exactly the fields in order.
\<close>

definition struct_fields :: "string list \<Rightarrow> json \<Rightarrow> json list option" where
  "struct_fields names v =
     (case v of
        JObject m \<Rightarrow> those (map (bt_get m) names)
      | JArray xs \<Rightarrow> if length xs = length names then Some xs else None
      | _ \<Rightarrow> None)"

definition tree_entry_of :: "json \<Rightarrow> tree_entry option" where
  "tree_entry_of v =
     (case struct_fields [''path'', ''mode'', ''sha'', ''type''] v of
        Some [JString p, JString m, JString s, JString k] \<Rightarrow>
          Some \<lparr>te_path = p, te_mode = m, te_sha = s, te_kind = k\<rparr>
      | _ \<Rightarrow> None)"

definition reviewed_tree_of :: "json \<Rightarrow> reviewed_tree option" where
  "reviewed_tree_of v =
     (case struct_fields [''truncated'', ''tree''] v of
        Some [JBool t, JArray es] \<Rightarrow>
          map_option (\<lambda>entries. \<lparr>rt_truncated = t, rt_tree = entries\<rparr>) (those (map tree_entry_of es))
      | _ \<Rightarrow> None)"

definition generated :: "string \<Rightarrow> bool" where
  "generated path = (starts_with path ''.state/'' \<or> starts_with path ''assembled/'')"

definition input :: "string \<Rightarrow> bool" where
  "input path =
     ((starts_with path ''resources/'' \<or> starts_with path ''overlays/'') \<and>
      (ends_with path ''.yaml'' \<or> ends_with path ''.yml'') \<or>
      path = ''.gitforgeops/config.yaml'' \<or> path = ''.gitforgeops/policies.yaml'')"

section \<open>The checkout\<close>

datatype file_meta =
    RegularFile bool
  | Directory
  | Symlink "string option"
  | OtherFile

datatype meta_answer = Present file_meta | NotFound | Unreadable

datatype entry_type = EntryFile | EntryDir | EntrySymlink | EntryOther

text \<open>
  \<open>ck_git\<close> answers an argument list in the source checkout: it cannot be started, fails, or prints;
  \<open>ck_hash_stdin\<close> is \<open>git hash-object --stdin\<close>.  \<open>RegularFile x\<close> has an executable bit \<open>x\<close>, \<open>Symlink t\<close> a target
  unless it cannot be read.  A walk lists each entry with its full path, or an error.
\<close>

datatype git_answer = GitUnavailable | GitFailure | GitOutput string

record checkout =
  ck_canonical :: "string \<Rightarrow> string option"
  ck_git :: "string list \<Rightarrow> git_answer"
  ck_hash_stdin :: "string \<Rightarrow> string option"
  ck_meta :: "string \<Rightarrow> meta_answer"
  ck_walk :: "string \<Rightarrow> (unit, entry_type \<times> string) result list"

datatype input_error =
    NoWorkingDirectory | MissingSource | MissingDesired | MissingTree | IncompleteTree
  | CannotInspect | GitFailed | NonUtf8Output | NotRepositoryRoot | NoSourceRevision
  | NoMergeRevision | InvalidObjectIdentity | InputNotRegular | InvalidSourceTree | InvalidSourceEntry
  | SourceDiffers | MissingExecutable | UnreadableSymlink | NonUtf8Symlink | SymlinkHashFailed
  | InvalidSourceHash | UnsupportedType | ModeDiffers | NonUtf8Executable | Uncommitted
  | CannotEnumerate | RootNotDirectory | SymlinkInDesired | DesiredEscapes | NonUtf8Desired
  | NonRegularDesired | ConfigurationDiffers | DesiredDiffers | ShaMismatch

fun input_error_message :: "input_error \<Rightarrow> string" where
  "input_error_message NoWorkingDirectory = ''cannot locate desired input''"
| "input_error_message MissingSource = ''missing source checkout''"
| "input_error_message MissingDesired = ''missing desired input''"
| "input_error_message MissingTree = ''missing authorized tree evidence''"
| "input_error_message IncompleteTree = ''incomplete authorized tree evidence''"
| "input_error_message CannotInspect = ''cannot inspect override source checkout''"
| "input_error_message GitFailed = ''cannot prove override source revision or clean input''"
| "input_error_message NonUtf8Output = ''non-UTF-8 override source paths''"
| "input_error_message NotRepositoryRoot = ''override source must be a repository root''"
| "input_error_message NoSourceRevision = ''missing actual source revision''"
| "input_error_message NoMergeRevision = ''missing merged PR revision''"
| "input_error_message InvalidObjectIdentity = ''invalid authorized object identity''"
| "input_error_message InputNotRegular = ''authorized desired input is not a regular file''"
| "input_error_message InvalidSourceTree = ''invalid source tree''"
| "input_error_message InvalidSourceEntry = ''invalid source tree entry''"
| "input_error_message SourceDiffers = ''executable or repository inputs differ from the reviewed revision''"
| "input_error_message MissingExecutable = ''missing executable input''"
| "input_error_message UnreadableSymlink = ''cannot read source symlink''"
| "input_error_message NonUtf8Symlink = ''non-UTF-8 source symlink''"
| "input_error_message SymlinkHashFailed = ''cannot hash source symlink''"
| "input_error_message InvalidSourceHash = ''invalid source hash''"
| "input_error_message UnsupportedType = ''unsupported or changed executable input type''"
| "input_error_message ModeDiffers = ''executable input mode differs from reviewed revision''"
| "input_error_message NonUtf8Executable = ''non-UTF-8 executable path''"
| "input_error_message Uncommitted = ''uncommitted executable or repository input''"
| "input_error_message CannotEnumerate = ''cannot enumerate desired input''"
| "input_error_message RootNotDirectory = ''desired input root is not a directory''"
| "input_error_message SymlinkInDesired = ''symlink in desired input''"
| "input_error_message DesiredEscapes = ''desired input escapes its root''"
| "input_error_message NonUtf8Desired = ''non-UTF-8 desired path''"
| "input_error_message NonRegularDesired = ''non-regular desired input''"
| "input_error_message ConfigurationDiffers = ''repository configuration under .gitforgeops differs from the reviewed revision''"
| "input_error_message DesiredDiffers = ''actual desired or policy input differs from the reviewed revision''"
| "input_error_message ShaMismatch = ''GITHUB_SHA does not match the actual source checkout''"

definition ok_or :: "'e \<Rightarrow> 'a option \<Rightarrow> ('e, 'a) result" where
  "ok_or e v = (case v of None \<Rightarrow> Inl e | Some x \<Rightarrow> Inr x)"

lemma ok_or_Inr [simp]: "ok_or e v = Inr x \<longleftrightarrow> v = Some x"
  by (auto simp: ok_or_def split: option.splits)

definition ensure :: "'e \<Rightarrow> bool \<Rightarrow> ('e, unit) result" where
  "ensure e b = (if b then Inr () else Inl e)"

lemma ensure_Inr [simp]: "ensure e b = Inr x \<longleftrightarrow> b"
  by (auto simp: ensure_def)

definition git :: "checkout \<Rightarrow> string list \<Rightarrow> (input_error, string) result" where
  "git ck args =
     (case ck_git ck args of
        GitUnavailable \<Rightarrow> Inl CannotInspect
      | GitFailure \<Rightarrow> Inl GitFailed
      | GitOutput out \<Rightarrow> if utf8_valid out then Inr out else Inl NonUtf8Output)"

definition source_blob :: "checkout \<Rightarrow> string \<Rightarrow> string \<Rightarrow> string \<Rightarrow> (input_error, string) result" where
  "source_blob ck source path mode =
     (let file = path_join source path in
      case ck_meta ck file of
        Present (Symlink target) \<Rightarrow>
          if mode = ''120000''
          then bind_result (ok_or UnreadableSymlink target) (\<lambda>t.
               bind_result (ensure NonUtf8Symlink (utf8_valid t)) (\<lambda>_.
               bind_result (ok_or SymlinkHashFailed (ck_hash_stdin ck t)) (\<lambda>out.
               bind_result (ensure InvalidSourceHash (utf8_valid out)) (\<lambda>_. Inr out))))
          else Inl UnsupportedType
      | Present (RegularFile executable) \<Rightarrow>
          if mode \<noteq> ''100644'' \<and> mode \<noteq> ''100755'' then Inl UnsupportedType
          else if executable \<noteq> (mode = ''100755'') then Inl ModeDiffers
          else bind_result (ensure NonUtf8Executable (utf8_valid file)) (\<lambda>_.
               git ck [''hash-object'', ''--no-filters'', ''--'', file])
      | Present _ \<Rightarrow> Inl UnsupportedType
      | _ \<Rightarrow> Inl MissingExecutable)"

section \<open>Expected and actual content\<close>

type_synonym source_map = "(string, string \<times> string \<times> string) btree_map"
type_synonym input_map = "(string, string) btree_map"

definition expect_entry ::
    "tree_entry \<Rightarrow> source_map \<times> input_map \<Rightarrow> (input_error, source_map \<times> input_map) result" where
  "expect_entry e acc =
     (case acc of (src, inp) \<Rightarrow>
        if te_kind e = ''tree'' \<or> generated (te_path e) then Inr (src, inp)
        else if \<not> is_revision (te_sha e) then Inl InvalidObjectIdentity
        else if input (te_path e)
        then (if te_kind e \<noteq> ''blob'' \<or> te_mode e \<noteq> ''100644'' \<and> te_mode e \<noteq> ''100755''
              then Inl InputNotRegular
              else Inr (src, bt_insert (te_path e) (te_sha e) inp))
        else Inr (bt_insert (te_path e) (te_mode e, te_kind e, te_sha e) src, inp))"

definition source_row :: "string \<Rightarrow> source_map \<Rightarrow> (input_error, source_map) result" where
  "source_row row src =
     (case split_once (CHR 0x09) row of
        None \<Rightarrow> Inl InvalidSourceTree
      | Some (metadata, path) \<Rightarrow>
          if generated path \<or> input path then Inr src
          else (case split_whitespace metadata of
                  [a, b, c] \<Rightarrow> Inr (bt_insert path (a, b, c) src)
                | _ \<Rightarrow> Inl InvalidSourceEntry))"

definition nul_rows :: "string \<Rightarrow> string list" where
  "nul_rows s = filter (\<lambda>row. row \<noteq> []) (split_on (CHR 0x00) s)"

definition check_blob ::
    "checkout \<Rightarrow> string \<Rightarrow> string \<times> string \<times> string \<times> string \<Rightarrow> unit \<Rightarrow> (input_error, unit) result" where
  "check_blob ck source entry u =
     (case entry of (path, mode, kind, expected) \<Rightarrow>
        if kind \<noteq> ''blob'' then Inl Uncommitted
        else bind_result (source_blob ck source path mode) (\<lambda>out.
             ensure Uncommitted (trim out = expected)))"

definition strange :: "source_map \<Rightarrow> string \<Rightarrow> bool" where
  "strange expected path =
     (path \<noteq> [] \<and> \<not> generated path \<and> \<not> input path \<and> \<not> bt_contains expected path)"

text \<open>One entry of a walk below the desired roots.\<close>

definition walk_entry ::
    "checkout \<Rightarrow> string \<Rightarrow> source_map \<Rightarrow> (unit, entry_type \<times> string) result \<Rightarrow> input_map \<Rightarrow>
     (input_error, input_map) result" where
  "walk_entry ck data expected entry actual =
     (case entry of
        Inl _ \<Rightarrow> Inl CannotEnumerate
      | Inr (EntrySymlink, _) \<Rightarrow> Inl SymlinkInDesired
      | Inr (EntryDir, _) \<Rightarrow> Inr actual
      | Inr (type, path) \<Rightarrow>
          bind_result (ok_or DesiredEscapes (strip_prefix (path_join data []) path)) (\<lambda>relative.
          bind_result (ensure NonUtf8Desired (utf8_valid relative)) (\<lambda>_.
          if \<not> input relative \<and> \<not> starts_with relative ''.gitforgeops/'' then Inr actual
          else if type \<noteq> EntryFile then Inl NonRegularDesired
          else
            bind_result (ensure NonUtf8Desired (utf8_valid path)) (\<lambda>_.
            bind_result (git ck [''hash-object'', ''--no-filters'', ''--'', path]) (\<lambda>out.
              let hash = trim out in
              if input relative then Inr (bt_insert relative hash actual)
              else (case bt_get expected relative of
                      Some (mode, kind, sha) \<Rightarrow>
                        if kind = ''blob'' \<and> (mode = ''100644'' \<or> mode = ''100755'') \<and> sha = hash
                        then Inr actual else Inl ConfigurationDiffers
                    | None \<Rightarrow> Inl ConfigurationDiffers))))))"

definition walk_root ::
    "checkout \<Rightarrow> string \<Rightarrow> source_map \<Rightarrow> string \<Rightarrow> input_map \<Rightarrow> (input_error, input_map) result" where
  "walk_root ck data expected directory actual =
     (let start = path_join data directory in
      case ck_meta ck start of
        NotFound \<Rightarrow> Inr actual
      | Unreadable \<Rightarrow> Inl CannotEnumerate
      | Present Directory \<Rightarrow> fold_result (walk_entry ck data expected) (ck_walk ck start) actual
      | Present _ \<Rightarrow> Inl RootNotDirectory)"

definition desired_roots :: "string list" where
  "desired_roots = [''resources'', ''overlays'', ''.gitforgeops'']"

definition verify_input ::
    "checkout \<Rightarrow> json \<Rightarrow> string \<Rightarrow> string \<Rightarrow> bool \<Rightarrow> string option \<Rightarrow> (input_error, string) result" where
  "verify_input ck tree source data merged merge_revision =
     bind_result (ok_or MissingSource (ck_canonical ck source)) (\<lambda>source.
     bind_result (ok_or MissingDesired (ck_canonical ck data)) (\<lambda>data.
     bind_result (ok_or MissingTree (reviewed_tree_of tree)) (\<lambda>reviewed.
     bind_result (ensure IncompleteTree (\<not> rt_truncated reviewed \<and> rt_tree reviewed \<noteq> [])) (\<lambda>_.
     bind_result (git ck [''rev-parse'', ''--show-toplevel'']) (\<lambda>root.
     bind_result (ensure NotRepositoryRoot
         (ck_canonical ck source = ck_canonical ck (trim root))) (\<lambda>_.
     bind_result (git ck [''rev-parse'', ''HEAD'']) (\<lambda>head.
     let revision = trim head in
     bind_result (ensure NoSourceRevision (is_revision revision)) (\<lambda>_.
     bind_result
       (if merged
        then (case merge_revision of
                Some sha \<Rightarrow>
                  if is_revision sha
                  then bind_result (git ck [''merge-base'', ''--is-ancestor'', sha, revision]) (\<lambda>_. Inr ())
                  else Inl NoMergeRevision
              | None \<Rightarrow> Inl NoMergeRevision)
        else Inr ()) (\<lambda>_.
     bind_result (fold_result expect_entry (rt_tree reviewed) ([], [])) (\<lambda>(expected_source, expected_input).
     bind_result (git ck [''ls-tree'', ''-rz'', ''--full-tree'', ''HEAD'']) (\<lambda>listing.
     bind_result (fold_result source_row (nul_rows listing) []) (\<lambda>actual_source.
     bind_result (ensure SourceDiffers (actual_source = expected_source)) (\<lambda>_.
     bind_result (fold_result (check_blob ck source) expected_source ()) (\<lambda>_.
     bind_result (git ck [''ls-files'', ''--others'', ''--exclude-standard'', ''-z'']) (\<lambda>unknown.
     bind_result (git ck [''ls-files'', ''--cached'', ''-z'']) (\<lambda>indexed.
     bind_result (ensure Uncommitted
         (\<not> list_ex (strange expected_source)
            (split_on (CHR 0x00) unknown @ split_on (CHR 0x00) indexed))) (\<lambda>_.
     bind_result (fold_result (walk_root ck data expected_source) desired_roots []) (\<lambda>actual_input.
     bind_result (ensure DesiredDiffers (actual_input = expected_input)) (\<lambda>_.
     Inr revision)))))))))))))))))))"

text \<open>
  \<open>verify_current_input\<close>: a review may name its trusted source checkout; any other run inspects the
  working directory, and the commit the workflow names must be the one inspected.
\<close>

definition verify_current_input ::
    "checkout \<Rightarrow> string option \<Rightarrow> string option \<Rightarrow> string option \<Rightarrow> json \<Rightarrow> bool \<Rightarrow> string option \<Rightarrow> bool \<Rightarrow>
     (input_error, string) result" where
  "verify_current_input ck cwd override_source github_sha tree merged merge_revision review_context =
     bind_result (ok_or NoWorkingDirectory cwd) (\<lambda>data.
     let source = (case if review_context then override_source else None of
                     Some s \<Rightarrow> s | None \<Rightarrow> data) in
     bind_result (verify_input ck tree source data merged merge_revision) (\<lambda>revision.
     if \<not> review_context \<and> (case github_sha of Some sha \<Rightarrow> sha \<noteq> revision | None \<Rightarrow> False)
     then Inl ShaMismatch else Inr revision))"

text \<open>The verifier \<open>check_override_context\<close> passes on, its errors rendered as the source's messages.\<close>

definition current_input_verifier ::
    "checkout \<Rightarrow> string option \<Rightarrow> string option \<Rightarrow> string option \<Rightarrow> bool \<Rightarrow>
     json \<Rightarrow> bool \<Rightarrow> string option \<Rightarrow> (string, string) result" where
  "current_input_verifier ck cwd override_source github_sha review_context tree merged merge_revision =
     map_sum input_error_message id
       (verify_current_input ck cwd override_source github_sha tree merged merge_revision review_context)"

end
