(* ===== verification/OverrideInput_Facts.thy ===== *)
theory OverrideInput_Facts
  imports OverrideInput
begin

text \<open>
  What an accepted checkout means: the files the program reads are, byte for byte, those of the
  reviewed tree.  The loops of \<open>verify_input\<close> are treated by \<open>fold_result_invariant\<close> and \<open>fold_result_step\<close>.
\<close>

section \<open>Vocabulary\<close>

definition hashed_as :: "checkout \<Rightarrow> string \<Rightarrow> string \<Rightarrow> bool" where
  "hashed_as ck path sha =
     (case git ck [''hash-object'', ''--no-filters'', ''--'', path] of
        Inl _ \<Rightarrow> False | Inr out \<Rightarrow> trim out = sha)"

definition regular_mode :: "string \<Rightarrow> bool" where
  "regular_mode mode = (mode = ''100644'' \<or> mode = ''100755'')"

text \<open>The reviewed tree holds a regular file of that path and object id.\<close>

definition reviewed_blob :: "tree_entry list \<Rightarrow> string \<Rightarrow> string \<Rightarrow> bool" where
  "reviewed_blob entries path sha =
     list_ex (\<lambda>e. te_path e = path \<and> te_kind e = ''blob'' \<and> regular_mode (te_mode e) \<and> te_sha e = sha) entries"

definition walked :: "checkout \<Rightarrow> string \<Rightarrow> (unit, entry_type \<times> string) result \<Rightarrow> bool" where
  "walked ck data entry =
     list_ex (\<lambda>d. ck_meta ck (path_join data d) = Present Directory \<and>
                   entry \<in> set (ck_walk ck (path_join data d))) desired_roots"

definition is_bound :: "string \<Rightarrow> bool" where
  "is_bound relative = (input relative \<or> starts_with relative ''.gitforgeops/'')"

definition relevant :: "tree_entry \<Rightarrow> bool" where
  "relevant e = (te_kind e \<noteq> ''tree'' \<and> \<not> generated (te_path e))"

definition data_path :: "string \<Rightarrow> string \<Rightarrow> string" where
  "data_path data relative = path_join data [] @ relative"

section \<open>The expected maps\<close>

definition expected_ok :: "tree_entry list \<Rightarrow> source_map \<times> input_map \<Rightarrow> bool" where
  "expected_ok es acc =
     (bt_wf (fst acc) \<and> bt_wf (snd acc) \<and>
      (\<forall>p m k s. bt_get (fst acc) p = Some (m, k, s) \<longrightarrow>
         (\<exists>e \<in> set es. te_path e = p \<and> te_mode e = m \<and> te_kind e = k \<and> te_sha e = s)) \<and>
      (\<forall>p s. bt_get (snd acc) p = Some s \<longrightarrow> reviewed_blob es p s))"

lemma expect_entry_cases:
  assumes "expect_entry e acc = Inr acc'"
  obtains "\<not> relevant e" "acc' = acc"
  | "relevant e" "input (te_path e)" "te_kind e = ''blob''" "regular_mode (te_mode e)"
    "acc' = (fst acc, bt_insert (te_path e) (te_sha e) (snd acc))"
  | "relevant e" "\<not> input (te_path e)"
    "acc' = (bt_insert (te_path e) (te_mode e, te_kind e, te_sha e) (fst acc), snd acc)"
  using assms by (cases acc) (auto simp: expect_entry_def relevant_def regular_mode_def split: if_splits)

lemma expect_entry_ok:
  assumes "e \<in> set es" "expected_ok es acc" "expect_entry e acc = Inr acc'"
  shows "expected_ok es acc'"
  using assms(3)
proof (cases rule: expect_entry_cases)
  case 2
  then have "reviewed_blob es (te_path e) (te_sha e)"
    using assms(1) unfolding reviewed_blob_def list_ex_iff by blast
  then show ?thesis using assms(2) 2(5) by (simp add: expected_ok_def map_simps)
next
  case 3
  then show ?thesis using assms(1,2) by (auto simp: expected_ok_def map_simps)
qed (simp add: assms(2))

lemma expected_ok_empty: "expected_ok es ([], [])"
  by (simp add: expected_ok_def bt_get_def)

lemma expected_ok_final: "fold_result expect_entry es ([], []) = Inr acc \<Longrightarrow> expected_ok es acc"
  by (rule fold_result_invariant[where I = "expected_ok es", OF _ expected_ok_empty])
    (auto intro: expect_entry_ok)

lemma bt_get_iff_key: "bt_get m p \<noteq> None \<longleftrightarrow> p \<in> fst ` set m"
  by (simp add: bt_get_def map_of_eq_None_iff)

definition grows :: "('a \<times> 'b) list \<Rightarrow> ('a \<times> 'b) list \<Rightarrow> bool" where
  "grows m n = (fst ` set m \<subseteq> fst ` set n)"

lemma grows_simps [simp]: "grows m m" "grows m (bt_insert k v m)"
  by (auto simp: grows_def set_bt_insert_keys)

lemma grows_trans: "grows l m \<Longrightarrow> grows m n \<Longrightarrow> grows l n"
  by (auto simp: grows_def)

lemma grows_insert: "grows (bt_insert k v m) n \<Longrightarrow> bt_get n k \<noteq> None"
  unfolding bt_get_iff_key by (auto simp: grows_def set_bt_insert_keys)

lemma expected_complete:
  assumes "fold_result expect_entry es ([], []) = Inr acc" and "e \<in> set es" and "relevant e"
  shows "if input (te_path e) then bt_get (snd acc) (te_path e) \<noteq> None else bt_get (fst acc) (te_path e) \<noteq> None"
proof (rule fold_result_step[where I = "\<lambda>_. True"
      and R = "\<lambda>s t. grows (fst s) (fst t) \<and> grows (snd s) (snd t)", OF assms(1) TrueI assms(2)])
  show "grows (fst s) (fst t) \<and> grows (snd s) (snd t)" if "expect_entry x s = Inr t" for x s t
    using that by (cases rule: expect_entry_cases) simp_all
  show ?thesis if "expect_entry e u = Inr v" "grows (fst v) (fst acc) \<and> grows (snd v) (snd acc)" for u v
    using that(1)
  proof (cases rule: expect_entry_cases)
    case 2
    then show ?thesis using that(2) by (auto dest!: grows_insert)
  next
    case 3
    then show ?thesis using that(2) by (auto dest!: grows_insert)
  qed (use assms(3) in simp)
qed (auto intro: grows_trans)

section \<open>The desired files\<close>

lemma walk_entry_cases:
  assumes "walk_entry ck data ex (Inr (ty, path)) a = Inr b" and "ty \<noteq> EntryDir"
  shows "ty \<noteq> EntrySymlink \<and> (\<exists>rel. path = data_path data rel \<and>
    (\<not> is_bound rel \<and> b = a \<or>
     ty = EntryFile \<and> (\<exists>sha. hashed_as ck path sha \<and>
       (input rel \<and> b = bt_insert rel sha a \<or>
        \<not> input rel \<and> b = a \<and> (\<exists>mode. regular_mode mode \<and> bt_get ex rel = Some (mode, ''blob'', sha))))))"
proof -
  have ns: "ty \<noteq> EntrySymlink" using assms by (auto simp: walk_entry_def)
  then obtain rel where rel: "strip_prefix (path_join data []) path = Some rel"
    using assms by (cases ty) (auto simp: walk_entry_def bind_result_Inr_iff)
  then have path: "path = data_path data rel" by (simp add: strip_prefix_Some data_path_def)
  show ?thesis
  proof (cases "is_bound rel")
    case False
    then have "b = a"
      using assms ns rel by (cases ty) (auto simp: walk_entry_def bind_result_Inr_iff is_bound_def)
    then show ?thesis using ns path False by blast
  next
    case True
    then have f: "ty = EntryFile"
      using assms ns rel by (cases ty) (auto simp: walk_entry_def bind_result_Inr_iff is_bound_def)
    then obtain out where out: "git ck [''hash-object'', ''--no-filters'', ''--'', path] = Inr out"
        and b: "(if input rel then Inr (bt_insert rel (trim out) a)
          else (case bt_get ex rel of
                  Some (mode, kind, sha) \<Rightarrow>
                    if kind = ''blob'' \<and> (mode = ''100644'' \<or> mode = ''100755'') \<and> sha = trim out
                    then Inr a else Inl ConfigurationDiffers
                | None \<Rightarrow> Inl ConfigurationDiffers)) = Inr b"
      using assms rel True by (auto simp: walk_entry_def bind_result_Inr_iff is_bound_def Let_def)
    have "hashed_as ck path (trim out)" by (simp add: hashed_as_def out)
    moreover have "input rel \<and> b = bt_insert rel (trim out) a \<or>
        \<not> input rel \<and> b = a \<and> (\<exists>mode. regular_mode mode \<and> bt_get ex rel = Some (mode, ''blob'', trim out))"
      using b unfolding regular_mode_def by (force split: if_splits option.splits prod.splits)
    ultimately show ?thesis using ns path f by blast
  qed
qed

definition actual_ok :: "checkout \<Rightarrow> string \<Rightarrow> input_map \<Rightarrow> bool" where
  "actual_ok ck data acc =
     (bt_wf acc \<and>
      (\<forall>p s. bt_get acc p = Some s \<longrightarrow>
         hashed_as ck (data_path data p) s \<and> walked ck data (Inr (EntryFile, data_path data p))))"

lemma walk_entry_dir: "walk_entry ck data ex (Inr (EntryDir, path)) a = Inr a"
  by (simp add: walk_entry_def)

lemma walk_entry_grows: "walk_entry ck data ex entry a = Inr b \<Longrightarrow> grows a b"
proof -
  assume a: "walk_entry ck data ex entry a = Inr b"
  then obtain ty path where e: "entry = Inr (ty, path)" by (cases entry) (auto simp: walk_entry_def)
  show ?thesis
  proof (cases "ty = EntryDir")
    case False
    show ?thesis using walk_entry_cases[OF a[unfolded e] False] by auto
  qed (use a e in \<open>simp add: walk_entry_dir\<close>)
qed

lemma walk_entry_ok:
  assumes "walked ck data entry" "actual_ok ck data a" "walk_entry ck data ex entry a = Inr b"
  shows "actual_ok ck data b"
proof -
  obtain ty path where e: "entry = Inr (ty, path)" using assms(3) by (cases entry) (auto simp: walk_entry_def)
  show ?thesis
  proof (cases "ty = EntryDir")
    case False
    from walk_entry_cases[OF assms(3)[unfolded e] False] obtain rel where
      path: "path = data_path data rel" and
      c: "b = a \<or> ty = EntryFile \<and> (\<exists>sha. hashed_as ck path sha \<and> b = bt_insert rel sha a)"
      by blast
    from c show ?thesis
      using assms(1,2) e path by (auto simp: actual_ok_def map_simps split: if_splits)
  qed (use assms e in \<open>simp add: walk_entry_dir\<close>)
qed

lemma walk_root_fold:
  assumes "walk_root ck data ex d a = Inr b"
  shows "b = a \<or> ck_meta ck (path_join data d) = Present Directory \<and>
    fold_result (walk_entry ck data ex) (ck_walk ck (path_join data d)) a = Inr b"
  using assms by (auto simp: walk_root_def Let_def split: meta_answer.splits file_meta.splits)

lemma walk_root_grows: "walk_root ck data ex d a = Inr b \<Longrightarrow> grows a b"
  using walk_root_fold[of ck data ex d a b]
    fold_result_invariant[of "walk_entry ck data ex" "ck_walk ck (path_join data d)" a b "grows a"]
  by (auto intro: grows_trans walk_entry_grows)

lemma walk_root_ok:
  assumes "d \<in> set desired_roots" "actual_ok ck data a" "walk_root ck data ex d a = Inr b"
  shows "actual_ok ck data b"
  using walk_root_fold[OF assms(3)]
proof (elim disjE conjE)
  assume dir: "ck_meta ck (path_join data d) = Present Directory"
    and f: "fold_result (walk_entry ck data ex) (ck_walk ck (path_join data d)) a = Inr b"
  have "walked ck data entry" if "entry \<in> set (ck_walk ck (path_join data d))" for entry
    using that dir assms(1) by (auto simp: walked_def list_ex_iff)
  then show ?thesis
    by (intro fold_result_invariant[where I = "actual_ok ck data", OF f assms(2)]) (auto intro: walk_entry_ok)
qed (simp add: assms(2))

text \<open>Every walked entry went through \<open>walk_entry\<close>, and what it inserted is still there at the end.\<close>

lemma walked_step:
  assumes "fold_result (walk_root ck data ex) desired_roots [] = Inr actual" and "walked ck data entry"
  obtains a b where "walk_entry ck data ex entry a = Inr b" "grows b actual"
proof -
  obtain d where d: "d \<in> set desired_roots" "ck_meta ck (path_join data d) = Present Directory"
      "entry \<in> set (ck_walk ck (path_join data d))"
    using assms(2) by (auto simp: walked_def list_ex_iff)
  obtain u v where uv: "walk_root ck data ex d u = Inr v" "grows v actual"
    by (rule fold_result_step[where I = "\<lambda>_. True" and R = grows, OF assms(1) TrueI d(1)])
      (auto intro: walk_root_grows grows_trans)
  then have f: "fold_result (walk_entry ck data ex) (ck_walk ck (path_join data d)) u = Inr v"
    using d(2) by (simp add: walk_root_def Let_def)
  show thesis
    by (rule fold_result_step[where I = "\<lambda>_. True" and R = grows, OF f TrueI d(3)])
      (use that uv(2) in \<open>auto intro: walk_entry_grows grows_trans\<close>)
qed

lemma actual_ok_empty: "actual_ok ck data []"
  by (simp add: actual_ok_def bt_get_def)

lemma actual_ok_final:
  "fold_result (walk_root ck data ex) desired_roots [] = Inr actual \<Longrightarrow> actual_ok ck data actual"
  by (rule fold_result_invariant[where I = "actual_ok ck data", OF _ actual_ok_empty])
    (auto intro: walk_root_ok)

lemma hashed_as_unique: "hashed_as ck path a \<Longrightarrow> hashed_as ck path b \<Longrightarrow> a = b"
  by (auto simp: hashed_as_def split: sum.splits)

section \<open>The meaning of acceptance\<close>

text \<open>
  Desired input: whatever a walk of the desired roots finds is no symbolic link, and a file the
  program reads (a YAML file of the resource roots, or anything in the configuration directory) is
  the reviewed regular file of that path; and every reviewed desired file is found.
\<close>

definition desired_bound :: "checkout \<Rightarrow> string \<Rightarrow> tree_entry list \<Rightarrow> bool" where
  "desired_bound ck data entries =
     ((\<forall>ty rel. walked ck data (Inr (ty, data_path data rel)) \<and> ty \<noteq> EntryDir \<and> is_bound rel \<longrightarrow>
         ty = EntryFile \<and> (\<exists>sha. hashed_as ck (data_path data rel) sha \<and> reviewed_blob entries rel sha)) \<and>
      (\<forall>path. \<not> walked ck data (Inr (EntrySymlink, path))) \<and>
      (\<forall>e \<in> set entries. relevant e \<and> input (te_path e) \<longrightarrow>
         walked ck data (Inr (EntryFile, data_path data (te_path e)))))"

text \<open>
  Everything else of the repository: each reviewed entry is a blob whose working bytes have the
  reviewed hash, and git knows no path besides.
\<close>

definition git_paths :: "checkout \<Rightarrow> string list" where
  "git_paths ck =
     concat (map (\<lambda>args. case git ck args of Inl _ \<Rightarrow> [] | Inr out \<Rightarrow> nul_rows out)
       [[''ls-files'', ''--others'', ''--exclude-standard'', ''-z''], [''ls-files'', ''--cached'', ''-z'']])"

definition source_bound :: "checkout \<Rightarrow> string \<Rightarrow> tree_entry list \<Rightarrow> bool" where
  "source_bound ck source entries =
     ((\<forall>e \<in> set entries. relevant e \<and> \<not> input (te_path e) \<longrightarrow>
         (\<exists>r \<in> set entries. te_path r = te_path e \<and> te_kind r = ''blob'' \<and>
            (\<exists>out. source_blob ck source (te_path r) (te_mode r) = Inr out \<and> trim out = te_sha r))) \<and>
      (\<forall>path \<in> set (git_paths ck). \<not> generated path \<and> \<not> input path \<longrightarrow>
         (\<exists>e \<in> set entries. te_path e = path)))"

lemma desired_bound_intro:
  assumes ex: "fold_result expect_entry entries ([], []) = Inr (src, inp)"
    and ac: "fold_result (walk_root ck data src) desired_roots [] = Inr inp"
  shows "desired_bound ck data entries"
proof -
  have ok: "expected_ok entries (src, inp)" by (rule expected_ok_final[OF ex])
  have act: "actual_ok ck data inp" by (rule actual_ok_final[OF ac])
  have each: "ty = EntryFile \<and> (\<exists>sha. hashed_as ck (data_path data rel) sha \<and> reviewed_blob entries rel sha)"
    if w: "walked ck data (Inr (ty, data_path data rel))" and d: "ty \<noteq> EntryDir" and b: "is_bound rel"
    for ty rel
  proof -
    obtain a c where s: "walk_entry ck data src (Inr (ty, data_path data rel)) a = Inr c" "grows c inp"
      by (rule walked_step[OF ac w])
    from walk_entry_cases[OF s(1) d] b obtain sha where
      f: "ty = EntryFile" "hashed_as ck (data_path data rel) sha" and
      c: "input rel \<and> c = bt_insert rel sha a \<or>
          \<not> input rel \<and> (\<exists>mode. regular_mode mode \<and> bt_get src rel = Some (mode, ''blob'', sha))"
      by (auto simp: data_path_def)
    have "\<exists>sha. hashed_as ck (data_path data rel) sha \<and> reviewed_blob entries rel sha"
      using c
    proof (elim disjE conjE exE)
      assume "c = bt_insert rel sha a"
      then obtain s' where "bt_get inp rel = Some s'" using s(2) by (auto dest: grows_insert)
      then have "reviewed_blob entries rel s'" "hashed_as ck (data_path data rel) s'"
        using ok act by (simp_all add: expected_ok_def actual_ok_def)
      then show ?thesis by blast
    next
      fix mode
      assume "regular_mode mode" "bt_get src rel = Some (mode, ''blob'', sha)"
      then have "reviewed_blob entries rel sha"
        using ok unfolding expected_ok_def reviewed_blob_def list_ex_iff by (metis fst_conv)
      then show ?thesis using f(2) by blast
    qed
    then show ?thesis using f(1) by blast
  qed
  have link: "\<not> walked ck data (Inr (EntrySymlink, path))" for path
  proof
    assume w: "walked ck data (Inr (EntrySymlink, path))"
    show False by (rule walked_step[OF ac w]) (simp add: walk_entry_def)
  qed
  have found: "walked ck data (Inr (EntryFile, data_path data (te_path e)))"
    if "e \<in> set entries" "relevant e" "input (te_path e)" for e
    using expected_complete[OF ex that(1,2)] that(3) act by (auto simp: actual_ok_def)
  show ?thesis unfolding desired_bound_def using each link found by blast
qed

lemma source_bound_intro:
  assumes ex: "fold_result expect_entry entries ([], []) = Inr (src, inp)"
    and blobs: "fold_result (check_blob ck source) src () = Inr ()"
    and git: "git ck [''ls-files'', ''--others'', ''--exclude-standard'', ''-z''] = Inr unknown"
      "git ck [''ls-files'', ''--cached'', ''-z''] = Inr indexed"
    and none: "\<not> list_ex (strange src) (split_on (CHR 0x00) unknown @ split_on (CHR 0x00) indexed)"
  shows "source_bound ck source entries"
proof -
  have ok: "\<exists>e \<in> set entries. te_path e = p \<and> te_mode e = m \<and> te_kind e = k \<and> te_sha e = s"
    if "bt_get src p = Some (m, k, s)" for p m k s
    using expected_ok_final[OF ex] that by (simp add: expected_ok_def)
  have blob: "\<exists>r \<in> set entries. te_path r = te_path e \<and> te_kind r = ''blob'' \<and>
      (\<exists>out. source_blob ck source (te_path r) (te_mode r) = Inr out \<and> trim out = te_sha r)"
    if e: "e \<in> set entries" "relevant e" "\<not> input (te_path e)" for e
  proof -
    obtain m k s where g: "bt_get src (te_path e) = Some (m, k, s)"
      using expected_complete[OF ex e(1,2)] e(3) by auto
    then have "(te_path e, m, k, s) \<in> set src" by (simp add: bt_get_def map_of_SomeD)
    then obtain u v where "check_blob ck source (te_path e, m, k, s) u = Inr v"
      by (rule fold_result_step[where I = "\<lambda>_. True" and R = "\<lambda>_ _. True", OF blobs TrueI]) auto
    then obtain out where "k = ''blob''" "source_blob ck source (te_path e) m = Inr out" "trim out = s"
      by (auto simp: check_blob_def bind_result_Inr_iff split: if_splits)
    moreover obtain r where "r \<in> set entries" "te_path r = te_path e" "te_mode r = m" "te_kind r = k"
        "te_sha r = s"
      using ok[OF g] by (elim bexE conjE)
    ultimately show ?thesis by (intro bexI[of _ r] conjI exI[of _ out]) simp_all
  qed
  have known: "\<exists>e \<in> set entries. te_path e = path"
    if p: "path \<in> set (nul_rows out)" "out = unknown \<or> out = indexed" "\<not> generated path" "\<not> input path"
    for path out
  proof -
    have "\<not> strange src path" using none p(1,2) by (auto simp: nul_rows_def list_ex_iff)
    then obtain m k s where "bt_get src path = Some (m, k, s)"
      using p by (auto simp: strange_def nul_rows_def bt_contains_def)
    then show ?thesis using ok by blast
  qed
  have paths: "git_paths ck = nul_rows unknown @ nul_rows indexed" by (simp add: git_paths_def git)
  show ?thesis
    unfolding source_bound_def paths
  proof (intro conjI ballI impI; (elim conjE)?)
    fix path
    assume "path \<in> set (nul_rows unknown @ nul_rows indexed)" "\<not> generated path" "\<not> input path"
    then show "\<exists>e \<in> set entries. te_path e = path"
      using known[of path unknown] known[of path indexed] by (simp only: set_append Un_iff) blast
  qed (rule blob)
qed

section \<open>The property\<close>

lemma verify_input_bound:
  assumes "verify_input ck tree source data merged merge_revision = Inr revision"
  shows "\<exists>source' data' reviewed head.
    ck_canonical ck source = Some source' \<and> ck_canonical ck data = Some data' \<and>
    reviewed_tree_of tree = Some reviewed \<and> \<not> rt_truncated reviewed \<and>
    git ck [''rev-parse'', ''HEAD''] = Inr head \<and> revision = trim head \<and> is_revision revision \<and>
    desired_bound ck data' (rt_tree reviewed) \<and> source_bound ck source' (rt_tree reviewed)"
proof -
  from assms obtain source' data' reviewed head src inp unknown indexed where
    c: "ck_canonical ck source = Some source'" "ck_canonical ck data = Some data'"
      "reviewed_tree_of tree = Some reviewed" "\<not> rt_truncated reviewed"
      "git ck [''rev-parse'', ''HEAD''] = Inr head" "revision = trim head" "is_revision revision" and
    e: "fold_result expect_entry (rt_tree reviewed) ([], []) = Inr (src, inp)"
      "fold_result (check_blob ck source') src () = Inr ()"
      "git ck [''ls-files'', ''--others'', ''--exclude-standard'', ''-z''] = Inr unknown"
      "git ck [''ls-files'', ''--cached'', ''-z''] = Inr indexed"
      "\<not> list_ex (strange src) (split_on (CHR 0x00) unknown @ split_on (CHR 0x00) indexed)"
      "fold_result (walk_root ck data' src) desired_roots [] = Inr inp"
    unfolding verify_input_def Let_def
    by (simp only: bind_result_Inr_iff ok_or_Inr ensure_Inr split_paired_all split_beta Inr_inject) auto
  show ?thesis
    by (intro exI conjI, rule c(1), rule c(2), rule c(3), rule c(4), rule c(5), rule c(6), rule c(7),
        rule desired_bound_intro[OF e(1,6)], rule source_bound_intro[OF e(1,2,3,4,5)])
qed

text \<open>
  C8.  An active override is bound to bytes.  When the check answers that the override is active with
  the verifier \<open>check_override_context\<close> passes, then for the reviewed tree the API gave for the
  authorized head: the files the program reads from the resource roots and the configuration
  directory are, by git's hash of their bytes, exactly reviewed regular files of the same paths and
  none is a symbolic link; every reviewed desired file is present; every other file of the
  repository has its reviewed bytes and there is no unreviewed one; and the recorded applied
  revision is the commit that is checked out.
\<close>

theorem override_binds_input:
  assumes "fst (check_override_at api (current_input_verifier ck cwd override_source github_sha review_context)
      cfg number t) = Active v"
  shows "\<exists>tree tt reviewed source data head.
    api_tree api tt (vo_authorized_head v) = Inr tree \<and>
    reviewed_tree_of tree = Some reviewed \<and> \<not> rt_truncated reviewed \<and>
    Some data = Option.bind cwd (ck_canonical ck) \<and>
    Some source = Option.bind (if review_context \<and> override_source \<noteq> None then override_source else cwd)
      (ck_canonical ck) \<and>
    desired_bound ck data (rt_tree reviewed) \<and> source_bound ck source (rt_tree reviewed) \<and>
    git ck [''rev-parse'', ''HEAD''] = Inr head \<and> vo_applied_revision v = trim head \<and>
    (\<not> review_context \<and> github_sha \<noteq> None \<longrightarrow> github_sha = Some (vo_applied_revision v))"
proof -
  from active_evidence[OF assms] obtain pr :: pull_request and tree tt where
    tree: "api_tree api tt (vo_authorized_head v) = Inr tree" and
    ok: "current_input_verifier ck cwd override_source github_sha review_context tree (pr_merged pr)
       (pr_merge_commit_sha pr) = Inr (vo_applied_revision v)"
    by (elim exE conjE) (rule that, assumption+)
  let ?source = "\<lambda>data. case if review_context then override_source else None of Some s \<Rightarrow> s | None \<Rightarrow> data"
  have "verify_current_input ck cwd override_source github_sha tree (pr_merged pr)
      (pr_merge_commit_sha pr) review_context = Inr (vo_applied_revision v)"
    using ok unfolding current_input_verifier_def by (auto simp: map_sum_def split: sum.splits)
  then obtain data where data: "cwd = Some data"
      "verify_input ck tree (?source data) data (pr_merged pr) (pr_merge_commit_sha pr) = Inr (vo_applied_revision v)"
      "\<not> review_context \<and> github_sha \<noteq> None \<longrightarrow> github_sha = Some (vo_applied_revision v)"
    by (auto simp: verify_current_input_def bind_result_Inr_iff Let_def split: if_splits option.splits)
  from verify_input_bound[OF data(2)] obtain source' data' reviewed head where
    b: "ck_canonical ck (?source data) = Some source'" "ck_canonical ck data = Some data'"
      "reviewed_tree_of tree = Some reviewed" "\<not> rt_truncated reviewed"
      "git ck [''rev-parse'', ''HEAD''] = Inr head" "vo_applied_revision v = trim head"
      "desired_bound ck data' (rt_tree reviewed)" "source_bound ck source' (rt_tree reviewed)"
    by (elim exE conjE)
  have env: "Some source' = Option.bind (if review_context \<and> override_source \<noteq> None then override_source else cwd)
      (ck_canonical ck)" "Some data' = Option.bind cwd (ck_canonical ck)"
    using b(1,2) data(1) by (auto split: option.splits)
  show ?thesis
    by (intro exI conjI, rule tree, rule b(3), rule b(4), rule env(2), rule env(1), rule b(7), rule b(8),
        rule b(5), rule b(6), rule data(3))
qed

section \<open>A bound checkout\<close>

definition sample_sha :: "char \<Rightarrow> string" where
  "sample_sha c = replicate 40 c"

definition sample_tree :: json where
  "sample_tree = JObject [(''tree'', JArray
     [JArray [JString ''README'', JString ''100644'', JString (sample_sha CHR ''1''), JString ''blob''],
      JArray [JString ''resources/a.yaml'', JString ''100644'', JString (sample_sha CHR ''2''), JString ''blob'']]),
     (''truncated'', JBool False)]"

definition sample_checkout :: checkout where
  "sample_checkout = \<lparr>ck_canonical = Some,
     ck_git = (\<lambda>args.
       if last args = ''--show-toplevel'' then GitOutput ''/w''
       else if args = [''rev-parse'', ''HEAD''] then GitOutput sample_head
       else if hd args = ''ls-tree''
       then GitOutput (''100644 blob '' @ sample_sha CHR ''1'' @ [CHR 0x09] @ ''README'' @ [CHR 0x00])
       else if last args = ''/w/README'' then GitOutput (sample_sha CHR ''1'')
       else if last args = ''/w/resources/a.yaml'' then GitOutput (sample_sha CHR ''2'')
       else GitOutput []),
     ck_hash_stdin = (\<lambda>_. None),
     ck_meta = (\<lambda>p. if p = ''/w/README'' then Present (RegularFile False)
       else if p = ''/w/resources'' then Present Directory else NotFound),
     ck_walk = (\<lambda>_. [Inr (EntryDir, ''/w/resources''), Inr (EntryFile, ''/w/resources/a.yaml'')])\<rparr>"

lemma sample_bound_active:
  "fst (check_override_at (sample_api\<lparr>api_tree := \<lambda>t head. Inr sample_tree\<rparr>)
     (current_input_verifier sample_checkout (Some ''/w'') None None False) override_config_default 7 0) =
   Active \<lparr>vo_approver = ''ann'', vo_permission = ''maintain'', vo_pr_number = 7,
       vo_authorized_head = sample_head, vo_review_id = 9, vo_applied_revision = sample_head\<rparr>"
  by code_simp

theorem override_binds_input_witness:
  "\<exists>reviewed. reviewed_tree_of sample_tree = Some reviewed \<and>
     desired_bound sample_checkout ''/w'' (rt_tree reviewed) \<and>
     source_bound sample_checkout ''/w'' (rt_tree reviewed)"
proof -
  have "ck_canonical sample_checkout = Some" by (simp add: sample_checkout_def)
  then show ?thesis using override_binds_input[OF sample_bound_active] by auto
qed

end
