(* ===== verification/LinkHeader.thy ===== *)
theory LinkHeader
  imports Text
begin

text \<open>
  The \<open>Link\<close> header parser of \<open>policy/github_override.rs\<close> (\<open>link_values\<close>, \<open>next_link\<close>).  The source keeps an
  index into the bytes; here a function takes the remaining bytes and returns what it leaves.
  \<open>url_ok\<close> is the parameter \<open>reqwest::Url::parse(..).is_ok()\<close>.
\<close>

section \<open>Characters\<close>

definition is_uri_char :: "char \<Rightarrow> bool" where
  "is_uri_char b =
     (is_ascii_alphanumeric b \<or> b \<in> set ''-._~'' \<or>
      b \<in> set '':/?#[]@!$&()*+,;='' \<or> b = CHR 0x27)"

text \<open>The second argument counts the \<open>#\<close> seen so far.\<close>

fun uri_text_from :: "string \<Rightarrow> nat \<Rightarrow> string \<Rightarrow> bool" where
  "uri_text_from forbidden fragments [] = True"
| "uri_text_from forbidden fragments (b # s) =
     (if b = CHR ''%''
      then (case s of
              h1 # h2 # r \<Rightarrow> is_ascii_hexdigit h1 \<and> is_ascii_hexdigit h2 \<and> uri_text_from forbidden fragments r
            | _ \<Rightarrow> False)
      else (let fragments = (if b = CHR ''#'' then fragments + 1 else fragments) in
            is_uri_char b \<and> b \<notin> set forbidden \<and> fragments \<le> 1 \<and> uri_text_from forbidden fragments s))"

definition is_uri_text :: "string \<Rightarrow> string \<Rightarrow> bool" where
  "is_uri_text bytes forbidden = uri_text_from forbidden 0 bytes"

definition is_relation_type :: "(string \<Rightarrow> bool) \<Rightarrow> string \<Rightarrow> bool" where
  "is_relation_type url_ok relation =
     (case relation of
        [] \<Rightarrow> False
      | first # rest \<Rightarrow>
          is_ascii_alphabetic first \<and>
          (list_all (\<lambda>b. is_ascii_alphanumeric b \<or> b = CHR ''.'' \<or> b = CHR ''-'') rest \<or>
           (case split_once CHR '':'' relation of
              None \<Rightarrow> False
            | Some (scheme, text) \<Rightarrow>
                list_all (\<lambda>b. is_ascii_alphanumeric b \<or> b = CHR ''+'' \<or> b = CHR ''-'' \<or> b = CHR ''.'')
                  (tl scheme) \<and>
                text \<noteq> [] \<and> is_uri_text text '',;'' \<and> url_ok relation)))"

section \<open>Tokens\<close>

definition is_tchar :: "char \<Rightarrow> bool" where
  "is_tchar b = (is_ascii_alphanumeric b \<or> b \<in> set ''!#$%&*+-.^_`|~'' \<or> b = CHR 0x27)"

definition skip_ows :: "string \<Rightarrow> string" where
  "skip_ows s = dropWhile (\<lambda>b. b = CHR '' '' \<or> b = CHR 0x09) s"

definition token :: "string \<Rightarrow> (string \<times> string) option" where
  "token s =
     (let t = takeWhile is_tchar s in if t = [] then None else Some (t, dropWhile is_tchar s))"

text \<open>The bytes after an opening quote; the first argument is the value read so far.\<close>

fun quoted_from :: "string \<Rightarrow> string \<Rightarrow> (string \<times> string) option" where
  "quoted_from value [] = None"
| "quoted_from value (b # s) =
     (if b = CHR 0x22 then (if utf8_valid value then Some (value, s) else None)
      else if b = CHR 0x5C
      then (case s of [] \<Rightarrow> None | e # r \<Rightarrow> quoted_from (value @ [e]) r)
      else quoted_from (value @ [b]) s)"

text \<open>The value of a parameter: none, a quoted string or a token; the inner option is its presence.\<close>

definition param_value :: "string \<Rightarrow> (string option \<times> string) option" where
  "param_value s =
     (case s of
        b # r \<Rightarrow>
          if b = CHR ''=''
          then (case skip_ows r of
                  c # q \<Rightarrow>
                    map_option (apfst Some) (if c = CHR 0x22 then quoted_from [] q else token (c # q))
                | [] \<Rightarrow> None)
          else Some (None, s)
      | [] \<Rightarrow> Some (None, s))"

text \<open>What one parameter adds to the relations of its link; an ambiguous one fails.\<close>

definition param_relations :: "(string \<Rightarrow> bool) \<Rightarrow> string \<Rightarrow> string option \<Rightarrow> string list option" where
  "param_relations url_ok name value =
     (let name = to_ascii_lowercase name in
      if name = ''rel''
      then (case value of
              None \<Rightarrow> None
            | Some v \<Rightarrow>
                if v = [] \<or> hd v = CHR '' '' \<or> last v = CHR '' '' then None
                else (let relations = filter (\<lambda>r. r \<noteq> []) (split_on CHR '' '' v) in
                      if list_all (is_relation_type url_ok) relations then Some relations else None))
      else if name = ''rel*'' then None else Some [])"

definition param :: "(string \<Rightarrow> bool) \<Rightarrow> string \<Rightarrow> (string list \<times> string) option" where
  "param url_ok s =
     Option.bind (token (skip_ows s)) (\<lambda>(name, s).
     Option.bind (param_value (skip_ows s)) (\<lambda>(value, s).
     map_option (\<lambda>relations. (relations, s)) (param_relations url_ok name value)))"

section \<open>Every step consumes input\<close>

lemma skip_ows_le: "length (skip_ows s) \<le> length s"
  by (simp add: skip_ows_def length_dropWhile_le)

lemma token_less: "token s = Some (t, r) \<Longrightarrow> length r < length s"
proof -
  assume a: "token s = Some (t, r)"
  then have "t @ r = s" "t \<noteq> []" by (auto simp: token_def Let_def split: if_splits)
  then show ?thesis by (metis length_append less_add_same_cancel2 length_greater_0_conv)
qed

lemma quoted_le: "quoted_from v s = Some (t, r) \<Longrightarrow> length r \<le> length s"
  by (induction v s rule: quoted_from.induct) (auto split: if_splits list.splits)

lemma param_value_le: "param_value s = Some (v, r) \<Longrightarrow> length r \<le> length s"
proof (cases s)
  case (Cons b q)
  assume a: "param_value s = Some (v, r)"
  show ?thesis
  proof (cases "b = CHR ''='' \<and> skip_ows q \<noteq> []")
    case True
    then obtain c p where c: "skip_ows q = c # p" by (cases "skip_ows q") auto
    have "length r \<le> length (skip_ows q)"
      using a Cons True c by (auto simp: param_value_def split: if_splits dest: quoted_le token_less)
    then show ?thesis using skip_ows_le[of q] Cons by simp
  qed (use a Cons in \<open>auto simp: param_value_def split: if_splits\<close>)
qed (auto simp: param_value_def)

lemma param_less: "param url_ok s = Some (rs, r) \<Longrightarrow> length r < length s"
proof -
  assume "param url_ok s = Some (rs, r)"
  then obtain name s1 v where "token (skip_ows s) = Some (name, s1)" "param_value (skip_ows s1) = Some (v, r)"
    by (auto simp: param_def bind_eq_Some_conv)
  then show ?thesis
    using token_less[of "skip_ows s" name s1] param_value_le[of "skip_ows s1" v r]
      skip_ows_le[of s] skip_ows_le[of s1] by linarith
qed

section \<open>Link values\<close>

text \<open>
  The parameters of one link: the relations, the rest, and whether the header ended (the flag
  \<open>last\<close> of the source).
\<close>

function link_params :: "(string \<Rightarrow> bool) \<Rightarrow> string list \<Rightarrow> string \<Rightarrow> (string list \<times> bool \<times> string) option" where
  "link_params url_ok relations s =
     (case skip_ows s of
        [] \<Rightarrow> Some (relations, True, [])
      | b # r \<Rightarrow>
          if b = CHR '','' then Some (relations, False, r)
          else if b = CHR '';''
          then (case param url_ok r of
                  None \<Rightarrow> None
                | Some (rs, q) \<Rightarrow> link_params url_ok (relations @ rs) q)
          else None)"
  by pat_completeness auto
termination
proof (relation "measure (\<lambda>(_, _, s). length s)")
  fix url_ok relations s b r p rs q
  assume "skip_ows s = b # r" "param url_ok r = Some p" "(rs, q) = p"
  then show "((url_ok, relations @ rs, q), url_ok, relations, s) \<in> measure (\<lambda>(_, _, s). length s)"
    using skip_ows_le[of s] param_less[of url_ok r rs q] by simp
qed simp

declare link_params.simps [simp del]

definition is_angle :: "char \<Rightarrow> bool" where
  "is_angle b = (b = CHR ''<'' \<or> b = CHR ''>'')"

text \<open>The bytes after an opening angle bracket: the target and what follows the closing one.\<close>

definition link_target :: "string \<Rightarrow> (string \<times> string) option" where
  "link_target s =
     (let target = takeWhile (\<lambda>b. \<not> is_angle b) s in
      case dropWhile (\<lambda>b. \<not> is_angle b) s of
        [] \<Rightarrow> None
      | b # r \<Rightarrow>
          if b \<noteq> CHR ''>'' \<or> target = [] \<or> \<not> is_uri_text target [] \<or> \<not> utf8_valid target then None
          else Some (target, r))"

lemma link_target_le: "link_target s = Some (t, r) \<Longrightarrow> length r < length s"
proof -
  assume "link_target s = Some (t, r)"
  then have "dropWhile (\<lambda>b. \<not> is_angle b) s = CHR ''>'' # r"
    by (auto simp: link_target_def Let_def split: list.splits if_splits)
  then show ?thesis using length_dropWhile_le[of "\<lambda>b. \<not> is_angle b" s] by simp
qed

lemma link_params_le: "link_params url_ok rs s = Some (rs', l, r) \<Longrightarrow> length r \<le> length s"
proof (induction url_ok rs s rule: link_params.induct)
  case (1 url_ok relations s)
  show ?case
  proof (cases "skip_ows s")
    case (Cons b r0)
    then show ?thesis
      using 1 skip_ows_le[of s] by (fastforce simp: link_params.simps[of url_ok relations s]
          split: if_splits option.splits dest: param_less)
  qed (use 1 in \<open>simp add: link_params.simps\<close>)
qed

function link_values_from ::
    "(string \<Rightarrow> bool) \<Rightarrow> (string \<times> string list) list \<Rightarrow> string \<Rightarrow> (string \<times> string list) list option" where
  "link_values_from url_ok values s =
     (case skip_ows s of
        [] \<Rightarrow> Some values
      | b # r \<Rightarrow>
          if b = CHR '','' then link_values_from url_ok values r
          else if b = CHR ''<''
          then (case link_target r of
                  None \<Rightarrow> None
                | Some (target, q) \<Rightarrow>
                    (case link_params url_ok [] q of
                       None \<Rightarrow> None
                     | Some (relations, fin, p) \<Rightarrow>
                         if fin then Some (values @ [(target, relations)])
                         else link_values_from url_ok (values @ [(target, relations)]) p))
          else None)"
  by pat_completeness auto
termination
proof (relation "measure (\<lambda>(_, _, s). length s)")
  fix url_ok found s b r
  assume "skip_ows s = b # r"
  then show "((url_ok, found, r), url_ok, found, s) \<in> measure (\<lambda>(_, _, s). length s)"
    using skip_ows_le[of s] by simp
next
  fix url_ok found s b r tq target q x relations y fin p
  assume "skip_ows s = b # r" "link_target r = Some tq" "(target, q) = tq"
    "link_params url_ok [] q = Some x" "(relations, y) = x" "(fin, p) = y"
  then show "((url_ok, found @ [(target, relations)], p), url_ok, found, s) \<in> measure (\<lambda>(_, _, s). length s)"
    using skip_ows_le[of s] link_target_le[of r target q] link_params_le[of url_ok "[]" q relations fin p] by simp
qed simp

declare link_values_from.simps [simp del]

definition link_values :: "(string \<Rightarrow> bool) \<Rightarrow> string \<Rightarrow> (string \<times> string list) list option" where
  "link_values url_ok header = link_values_from url_ok [] header"

section \<open>The next page\<close>

datatype next_link = Absent | Next string | Ambiguous

definition names_next :: "string \<times> string list \<Rightarrow> bool" where
  "names_next value = list_ex (\<lambda>relation. eq_ignore_ascii_case relation ''next'') (snd value)"

fun next_target :: "(string \<times> string list) list \<Rightarrow> string option \<Rightarrow> next_link" where
  "next_target [] found = (case found of None \<Rightarrow> Absent | Some t \<Rightarrow> Next t)"
| "next_target (v # vs) found =
     (if \<not> names_next v then next_target vs found
      else (case found of
              Some existing \<Rightarrow>
                if existing \<noteq> fst v then Ambiguous else next_target vs (Some (fst v))
            | None \<Rightarrow> next_target vs (Some (fst v))))"

definition next_link :: "(string \<Rightarrow> bool) \<Rightarrow> string \<Rightarrow> next_link" where
  "next_link url_ok header =
     (case link_values url_ok header of None \<Rightarrow> Ambiguous | Some values \<Rightarrow> next_target values None)"

definition parse_next_link :: "(string \<Rightarrow> bool) \<Rightarrow> string \<Rightarrow> string option" where
  "parse_next_link url_ok header =
     (case next_link url_ok header of Next t \<Rightarrow> Some t | _ \<Rightarrow> None)"

end
