(* ===== verification/LinkHeader_Facts.thy ===== *)
theory LinkHeader_Facts
  imports LinkHeader
begin

text \<open>
  The parser of \<open>Link\<close> headers reads back what a well-formed header says, and what it accepts as a
  target is URI text.
\<close>

section \<open>Plain text\<close>

definition plain :: "char \<Rightarrow> bool" where
  "plain b = (is_ascii b \<and> \<not> is_angle b \<and> b \<noteq> CHR 0x22 \<and> b \<noteq> CHR 0x5C \<and> b \<noteq> CHR '' '')"

lemma plain_alphanumeric: "is_ascii_alphanumeric b \<Longrightarrow> plain b"
  by (auto simp: plain_def is_ascii_alphanumeric_def is_ascii_digit_def is_ascii_alphabetic_def
      is_ascii_def is_angle_def)

lemma plain_hexdigit: "is_ascii_hexdigit b \<Longrightarrow> plain b"
  by (auto simp: plain_def is_ascii_hexdigit_def is_ascii_digit_def is_ascii_def is_angle_def)

lemma plain_punctuation: "b \<in> set ''-._~:/?#[]@!$&()*+,;=%'' \<or> b = CHR 0x27 \<Longrightarrow> plain b"
  by (auto simp: plain_def is_ascii_def is_angle_def)

lemma plain_marks: "plain CHR ''.''" "plain CHR ''-''" "plain CHR ''+''" "plain CHR '':''"
  by (simp_all add: plain_def is_ascii_def is_angle_def)

lemma plain_uri_char: "is_uri_char b \<Longrightarrow> plain b"
  by (auto simp: is_uri_char_def intro: plain_alphanumeric plain_punctuation)

lemma plain_uri_text_from: "uri_text_from forbidden n s \<Longrightarrow> list_all plain s"
proof (induction forbidden n s rule: uri_text_from.induct)
  case (2 forbidden n b s)
  show ?case
  proof (cases "b = CHR ''%''")
    case True
    then obtain h1 h2 r where s: "s = h1 # h2 # r" "is_ascii_hexdigit h1" "is_ascii_hexdigit h2"
        "uri_text_from forbidden n r"
      using 2(3) by (auto split: list.splits)
    then show ?thesis
      using 2(1)[OF True s(1) refl] True by (auto simp: plain_hexdigit intro: plain_punctuation)
  next
    case False
    then show ?thesis using 2(2)[OF False refl] 2(3) by (auto simp: Let_def plain_uri_char)
  qed
qed simp

lemma plain_uri_text: "is_uri_text s forbidden \<Longrightarrow> list_all plain s"
  by (auto simp: is_uri_text_def intro: plain_uri_text_from)

lemma split_once_Some: "split_once c s = Some (a, b) \<Longrightarrow> s = a @ c # b"
proof -
  assume "split_once c s = Some (a, b)"
  then have c: "c \<in> set s" "a = takeWhile (\<lambda>x. x \<noteq> c) s" "b = tl (dropWhile (\<lambda>x. x \<noteq> c) s)"
    by (auto simp: split_once_def split: if_splits)
  then show ?thesis by (induction s arbitrary: a) auto
qed

lemma plain_relation: "is_relation_type url_ok r \<Longrightarrow> r \<noteq> [] \<and> list_all plain r"
proof -
  assume r: "is_relation_type url_ok r"
  then obtain c cs where rc: "r = c # cs" by (cases r) (auto simp: is_relation_type_def)
  have c: "plain c" using r rc by (auto simp: is_relation_type_def is_ascii_alphanumeric_def intro: plain_alphanumeric)
  consider (reg) "list_all (\<lambda>b. is_ascii_alphanumeric b \<or> b = CHR ''.'' \<or> b = CHR ''-'') cs"
    | (ext) scheme body where "split_once CHR '':'' r = Some (scheme, body)"
        "list_all (\<lambda>b. is_ascii_alphanumeric b \<or> b = CHR ''+'' \<or> b = CHR ''-'' \<or> b = CHR ''.'') (tl scheme)"
        "is_uri_text body '',;''"
    using r rc by (auto simp: is_relation_type_def split: option.splits)
  then show ?thesis
  proof cases
    case reg
    then have "list_all plain cs"
      by (elim list.pred_mono_strong) (metis plain_alphanumeric plain_marks)
    then show ?thesis using c rc by simp
  next
    case ext
    have s: "r = scheme @ CHR '':'' # body" by (rule split_once_Some[OF ext(1)])
    have p: "list_all plain (tl scheme)"
      using ext(2) by (elim list.pred_mono_strong) (metis plain_alphanumeric plain_marks)
    have "list_all plain scheme" using p c s rc by (cases scheme) auto
    moreover have "list_all plain body" using ext(3) by (rule plain_uri_text)
    ultimately show ?thesis using s plain_marks by simp
  qed
qed

section \<open>Reading back\<close>

lemma quoted_value:
  "list_all (\<lambda>b. plain b \<or> b = CHR '' '') s \<Longrightarrow> quoted_from v (s @ CHR 0x22 # t) =
     (if utf8_valid (v @ s) then Some (v @ s, t) else None)"
  by (induction s arbitrary: v) (auto simp: plain_def)

lemma join_chars: "list_all (list_all plain) rs \<Longrightarrow> list_all (\<lambda>b. plain b \<or> b = CHR '' '') (join '' '' rs)"
  by (induction "'' ''" rs rule: join.induct) (auto simp: list_all_iff)

lemma plain_ascii: "list_all (\<lambda>b. plain b \<or> b = CHR '' '') s \<Longrightarrow> utf8_valid s"
proof (rule utf8_valid_ascii)
  have "is_ascii CHR '' ''" by (simp add: is_ascii_def)
  then show "list_all (\<lambda>b. plain b \<or> b = CHR '' '') s \<Longrightarrow> list_all is_ascii s"
    by (elim list.pred_mono_strong) (auto simp only: plain_def)
qed

lemma split_join:
  "rs \<noteq> [] \<Longrightarrow> list_all (list_all plain) rs \<Longrightarrow> split_on CHR '' '' (join '' '' rs) = rs"
  by (rule split_on_join) (auto simp: list_all_iff plain_def)

lemma join_ends:
  assumes "rs \<noteq> []" "list_all (\<lambda>r. r \<noteq> [] \<and> list_all plain r) rs"
  shows "join '' '' rs \<noteq> [] \<and> hd (join '' '' rs) \<noteq> CHR '' '' \<and> last (join '' '' rs) \<noteq> CHR '' ''"
  using assms
proof (induction "'' ''" rs rule: join.induct)
  case (2 x)
  then have "hd x \<in> set x" "last x \<in> set x" by simp_all
  then show ?case using 2 by (auto simp: list_all_iff plain_def)
next
  case (3 x y ys)
  then have "hd x \<in> set x" by simp
  then show ?case using 3 by (auto simp: list_all_iff plain_def)
qed simp

text \<open>A header as a server writes it.\<close>

definition render_link :: "string \<times> string list \<Rightarrow> string" where
  "render_link l = ''<'' @ fst l @ ''>; rel='' @ [CHR 0x22] @ join '' '' (snd l) @ [CHR 0x22]"

definition render_links :: "(string \<times> string list) list \<Rightarrow> string" where
  "render_links ls = join '', '' (map render_link ls)"

definition link_ok :: "(string \<Rightarrow> bool) \<Rightarrow> string \<times> string list \<Rightarrow> bool" where
  "link_ok url_ok l =
     (fst l \<noteq> [] \<and> is_uri_text (fst l) [] \<and> snd l \<noteq> [] \<and> list_all (is_relation_type url_ok) (snd l))"

lemma link_target_plain:
  assumes "t \<noteq> []" "is_uri_text t []"
  shows "link_target (t @ CHR ''>'' # r) = Some (t, r)"
proof -
  have p: "list_all plain t" by (rule plain_uri_text[OF assms(2)])
  then have "\<forall>b \<in> set t. \<not> is_angle b" by (auto simp: list_all_iff plain_def)
  moreover have "is_angle CHR ''>''" by (simp add: is_angle_def)
  moreover have "utf8_valid t" by (rule plain_ascii) (use p in \<open>auto simp: list_all_iff\<close>)
  ultimately show ?thesis
    using assms by (simp add: link_target_def takeWhile_append2 dropWhile_append2)
qed

lemma token_rel: "token (''rel='' @ s) = Some (''rel'', CHR ''='' # s)"
proof -
  have "is_tchar CHR ''r''" "is_tchar CHR ''e''" "is_tchar CHR ''l''" "\<not> is_tchar CHR ''=''"
    by code_simp+
  then show ?thesis by (simp add: token_def)
qed

lemma param_rel:
  assumes "rs \<noteq> []" "list_all (is_relation_type url_ok) rs"
  shows "param url_ok ('' rel='' @ CHR 0x22 # join '' '' rs @ CHR 0x22 # s) = Some (rs, s)"
proof -
  have pl: "list_all (\<lambda>r. r \<noteq> [] \<and> list_all plain r) rs"
    using assms(2) plain_relation unfolding list_all_iff by blast
  then have ch: "list_all (list_all plain) rs" by (simp add: list_all_iff)
  have v: "param_value (CHR ''='' # CHR 0x22 # join '' '' rs @ CHR 0x22 # s) = Some (Some (join '' '' rs), s)"
    using quoted_value[OF join_chars[OF ch], of "[]" s] plain_ascii[OF join_chars[OF ch]]
    by (simp add: param_value_def skip_ows_def)
  have lower: "to_ascii_lowercase ''rel'' = ''rel''" by code_simp
  have "param_relations url_ok ''rel'' (Some (join '' '' rs)) = Some rs"
    using join_ends[OF assms(1) pl] assms(2) pl split_join[OF assms(1) ch]
    by (auto simp: param_relations_def lower Let_def list_all_iff)
  moreover have "skip_ows ('' rel='' @ t) = ''rel='' @ t" "skip_ows (CHR ''='' # t) = CHR ''='' # t" for t
    by (simp_all add: skip_ows_def)
  ultimately show ?thesis
    using token_rel[of "CHR 0x22 # join '' '' rs @ CHR 0x22 # s"] v by (simp add: param_def)
qed

lemma link_params_rendered:
  assumes "rs \<noteq> []" "list_all (is_relation_type url_ok) rs"
  shows "link_params url_ok [] (''; rel='' @ CHR 0x22 # join '' '' rs @ CHR 0x22 # s) =
    link_params url_ok rs s"
  using param_rel[OF assms, of s]
  by (subst link_params.simps) (simp add: skip_ows_def)

lemma link_params_end: "link_params url_ok rs [] = Some (rs, True, [])"
  "link_params url_ok rs (CHR '','' # s) = Some (rs, False, s)"
  by (subst link_params.simps, simp add: skip_ows_def)+

lemma link_values_rendered:
  assumes "list_all (link_ok url_ok) ls"
  shows "link_values_from url_ok vs (render_links ls) = Some (vs @ ls) \<and>
     link_values_from url_ok vs (CHR '' '' # render_links ls) = Some (vs @ ls)"
  using assms
proof (induction ls arbitrary: vs)
  case Nil
  show ?case by (simp add: link_values_from.simps skip_ows_def render_links_def)
next
  case (Cons l ls)
  obtain t rs where l: "l = (t, rs)" by (cases l)
  have ok: "t \<noteq> []" "is_uri_text t []" "rs \<noteq> []" "list_all (is_relation_type url_ok) rs"
    using Cons.prems l by (auto simp: link_ok_def)
  have *: "link_values_from url_ok vs s = Some (vs @ l # ls)"
    if s: "skip_ows s = CHR ''<'' # t @ CHR ''>'' # ''; rel='' @ CHR 0x22 # join '' '' rs @ CHR 0x22 # rest"
      and rest: "rest = (if ls = [] then [] else CHR '','' # CHR '' '' # render_links ls)" for s rest
  proof -
    have "link_params url_ok [] (''; rel='' @ CHR 0x22 # join '' '' rs @ CHR 0x22 # rest) =
        (if ls = [] then Some (rs, True, []) else Some (rs, False, CHR '' '' # render_links ls))"
      unfolding link_params_rendered[OF ok(3,4)] by (simp add: rest link_params_end)
    then show ?thesis
      using Cons.IH[of "vs @ [(t, rs)]"] Cons.prems l
      by (subst link_values_from.simps) (simp add: s link_target_plain[OF ok(1,2)])
  qed
  have "render_links (l # ls) =
      CHR ''<'' # t @ CHR ''>'' # ''; rel='' @ CHR 0x22 # join '' '' rs @ CHR 0x22 #
        (if ls = [] then [] else CHR '','' # CHR '' '' # render_links ls)"
    by (cases ls) (simp_all add: render_links_def render_link_def l)
  then show ?case using *[OF _ refl] by (simp add: skip_ows_def)
qed

text \<open>
  The header parser reads back every well-formed \<open>Link\<close> header: rendering links with non-empty
  URI-text targets and valid relation types, separated by commas, and parsing the result gives the
  same targets and relations, so the next page is the one the header names.
\<close>

theorem link_header_roundtrip:
  assumes "list_all (link_ok url_ok) ls"
  shows "link_values url_ok (render_links ls) = Some ls \<and>
    next_link url_ok (render_links ls) = next_target ls None"
  using link_values_rendered[OF assms, of "[]"] by (simp add: link_values_def next_link_def)

theorem link_header_roundtrip_witness:
  "next_link (\<lambda>_. True) (render_links [(''/keys?page=1'', [''prev'', ''first'']), (''/keys?page=3'', [''Next''])]) =
     Next ''/keys?page=3''"
proof -
  have "list_all (link_ok (\<lambda>_. True)) [(''/keys?page=1'', [''prev'', ''first'']), (''/keys?page=3'', [''Next''])]"
    "next_target [(''/keys?page=1'', [''prev'', ''first'']), (''/keys?page=3'', [''Next''])] None = Next ''/keys?page=3''"
    by code_simp+
  then show ?thesis by (simp only: link_header_roundtrip)
qed

end
