(* ===== verification/Placeholder.thy ===== *)
theory Placeholder
  imports Json
begin

text \<open>
  \<open>secrets/placeholder.rs\<close>: the grammar of \<open>${gh-env-secret:alloc=...|len=...}\<close>.  \<open>parse_placeholder\<close> answers
  \<open>None\<close> for a string that is no placeholder, and otherwise the parsed placeholder or an error.
\<close>

datatype placeholder_alloc = Generate | Require | Rotate

datatype placeholder_error =
    UnknownAlloc
  | MalformedPiece
  | LenOutOfRange
  | LenNotInteger
  | UnknownKey

definition alloc_parse :: "string \<Rightarrow> (placeholder_error, placeholder_alloc) result" where
  "alloc_parse s =
     (if s = ''generate'' then Inr Generate
      else if s = ''require'' then Inr Require
      else if s = ''rotate'' then Inr Rotate
      else Inl UnknownAlloc)"

record secret_placeholder =
  sp_alloc :: placeholder_alloc
  sp_length_bytes :: usize

definition placeholder_piece ::
    "string \<Rightarrow> secret_placeholder \<Rightarrow> (placeholder_error, secret_placeholder) result" where
  "placeholder_piece raw sp =
     (let piece = trim raw in
      if piece = [] then Inr sp
      else (case split_once CHR ''='' piece of
              None \<Rightarrow> Inl MalformedPiece
            | Some (key, v) \<Rightarrow>
                if trim key = ''alloc''
                then map_sum id (\<lambda>a. sp\<lparr>sp_alloc := a\<rparr>) (alloc_parse (trim v))
                else if trim key = ''len''
                then (case parse_u64 (trim v) of
                        Some n \<Rightarrow> if 16 \<le> n \<and> n \<le> 256 then Inr (sp\<lparr>sp_length_bytes := n\<rparr>) else Inl LenOutOfRange
                      | None \<Rightarrow> Inl LenNotInteger)
                else Inl UnknownKey))"

definition PLACEHOLDER_PREFIX :: string where
  "PLACEHOLDER_PREFIX = ''${gh-env-secret:''"

definition parse_placeholder :: "string \<Rightarrow> (placeholder_error, secret_placeholder) result option" where
  "parse_placeholder raw =
     (case strip_prefix PLACEHOLDER_PREFIX raw of
        None \<Rightarrow> None
      | Some rest \<Rightarrow>
          (case strip_suffix ''}'' rest of
             None \<Rightarrow> None
           | Some inner \<Rightarrow>
               (let sp = \<lparr>sp_alloc = Require, sp_length_bytes = 32\<rparr> in
                Some (if inner \<noteq> [] then fold_result placeholder_piece (split_on CHR ''|'' inner) sp
                      else Inr sp))))"

definition is_placeholder :: "string \<Rightarrow> bool" where
  "is_placeholder s = (case parse_placeholder s of Some (Inr _) \<Rightarrow> True | _ \<Rightarrow> False)"

text \<open>A parsed placeholder asks for between 16 and 256 bytes, whatever its text.\<close>

lemma placeholder_piece_length:
  "16 \<le> sp_length_bytes sp \<and> sp_length_bytes sp \<le> 256 \<Longrightarrow> placeholder_piece raw sp = Inr sp' \<Longrightarrow>
   16 \<le> sp_length_bytes sp' \<and> sp_length_bytes sp' \<le> 256"
  by (auto simp: placeholder_piece_def Let_def map_sum_def split: if_splits option.splits sum.splits)

lemma placeholder_length:
  "parse_placeholder raw = Some (Inr sp) \<Longrightarrow> 16 \<le> sp_length_bytes sp \<and> sp_length_bytes sp \<le> 256"
proof -
  assume "parse_placeholder raw = Some (Inr sp)"
  then obtain pieces where p: "fold_result placeholder_piece pieces \<lparr>sp_alloc = Require, sp_length_bytes = 32\<rparr> = Inr sp"
    by (auto simp: parse_placeholder_def Let_def split: option.splits if_splits intro: that[of "[]"])
  show ?thesis
    by (rule fold_result_invariant[where I = "\<lambda>sp. 16 \<le> sp_length_bytes sp \<and> sp_length_bytes sp \<le> 256", OF p],
        simp, rule placeholder_piece_length)
qed

text \<open>No placeholder text reaches as far as an empty string, and the shortest form is the default.\<close>

lemma placeholder_default: "parse_placeholder ''${gh-env-secret:}'' = Some (Inr \<lparr>sp_alloc = Require, sp_length_bytes = 32\<rparr>)"
  by code_simp

end
