(* ===== verification/PluginSecrets.thy ===== *)
theory PluginSecrets
  imports Placeholder Catalog
begin

text \<open>
  \<open>secrets/plugin_config.rs\<close>: which strings of an opaque plugin configuration are sensitive.  A location is a
  path of object keys and array indices; the collectors return the paths in the order the source
  inserts them, and a set of paths is a sorted list, as a \<open>BTreeSet\<close> is.
\<close>

section \<open>Paths\<close>

datatype config_path_component = Key string | Index nat

text \<open>The derived order: every key before every index.\<close>

fun component_rank :: "config_path_component \<Rightarrow> nat \<times> string \<times> nat" where
  "component_rank (Key k) = (0, k, 0)"
| "component_rank (Index i) = (1, [], i)"

lemma component_rank_inject: "component_rank a = component_rank b \<longleftrightarrow> a = b"
  by (cases a; cases b) auto

instantiation config_path_component :: linorder
begin

definition "a \<le> b \<longleftrightarrow> component_rank a \<le> component_rank b"
definition "a < b \<longleftrightarrow> component_rank a < component_rank b"

instance
proof
  fix a b c :: config_path_component
  show "a < b \<longleftrightarrow> a \<le> b \<and> \<not> b \<le> a" "a \<le> a" "a \<le> b \<Longrightarrow> b \<le> c \<Longrightarrow> a \<le> c" "a \<le> b \<or> b \<le> a"
    unfolding less_eq_config_path_component_def less_config_path_component_def
    by (simp_all only: less_le_not_le order.refl linear order.trans)
  show "a \<le> b \<Longrightarrow> b \<le> a \<Longrightarrow> a = b"
    unfolding less_eq_config_path_component_def
    using component_rank_inject by (metis order.antisym)
qed

end

type_synonym config_path = "config_path_component list"

fun value_at :: "json \<Rightarrow> config_path \<Rightarrow> json option" where
  "value_at v [] = Some v"
| "value_at v (Key k # path) =
     (case as_object v of
        None \<Rightarrow> None
      | Some m \<Rightarrow> (case bt_get m k of None \<Rightarrow> None | Some c \<Rightarrow> value_at c path))"
| "value_at v (Index i # path) =
     (case as_array v of
        None \<Rightarrow> None
      | Some xs \<Rightarrow> if i < length xs then value_at (xs ! i) path else None)"

definition render_config_path :: "config_path \<Rightarrow> string" where
  "render_config_path path =
     (if path = [] then ''<root>''
      else join ''.'' (map (\<lambda>part. case part of Key k \<Rightarrow> k | Index i \<Rightarrow> ''['' @ show_nat i @ '']'') path))"

definition path_set_extend :: "config_path list \<Rightarrow> config_path list \<Rightarrow> config_path list" where
  "path_set_extend found paths = fold bs_insert paths found"

lemma set_path_set_extend [simp]: "set (path_set_extend found paths) = set found \<union> set paths"
  unfolding path_set_extend_def by (induction paths arbitrary: found) auto

lemma bs_wf_path_set_extend: "bs_wf found \<Longrightarrow> bs_wf (path_set_extend found paths)"
  unfolding path_set_extend_def by (induction paths arbitrary: found) (auto simp: bs_wf_insert)

section \<open>Rules\<close>

datatype rule_kind = Secret | Endpoint | OperatorValue | KafkaProperties

record rule =
  rl_path :: "string list"
  rl_kind :: rule_kind

definition secret :: "string list \<Rightarrow> rule" where
  "secret path = \<lparr>rl_path = path, rl_kind = Secret\<rparr>"

definition endpoint :: "string list \<Rightarrow> rule" where
  "endpoint path = \<lparr>rl_path = path, rl_kind = Endpoint\<rparr>"

definition operator_value :: "string list \<Rightarrow> rule" where
  "operator_value path = \<lparr>rl_path = path, rl_kind = OperatorValue\<rparr>"

definition kafka_properties :: "string list \<Rightarrow> rule" where
  "kafka_properties path = \<lparr>rl_path = path, rl_kind = KafkaProperties\<rparr>"

definition KAFKA_SAFE_PROPERTIES :: "string list" where
  "KAFKA_SAFE_PROPERTIES =
    [''acks'', ''batch.num.messages'', ''batch.size'', ''client.id'', ''compression.codec'',
     ''compression.level'', ''compression.type'', ''delivery.timeout.ms'', ''enable.idempotence'',
     ''linger.ms'', ''max.in.flight'', ''max.in.flight.requests.per.connection'',
     ''message.max.bytes'', ''message.send.max.retries'', ''message.timeout.ms'',
     ''metadata.max.age.ms'', ''partitioner'', ''queue.buffering.max.kbytes'',
     ''queue.buffering.max.messages'', ''queue.buffering.max.ms'', ''reconnect.backoff.max.ms'',
     ''reconnect.backoff.ms'', ''request.required.acks'', ''request.timeout.ms'', ''retries'',
     ''retry.backoff.max.ms'', ''retry.backoff.ms'', ''socket.keepalive.enable'',
     ''socket.nagle.disable'', ''socket.timeout.ms'', ''sticky.partitioning.linger.ms'',
     ''topic.metadata.refresh.interval.ms'']"

text \<open>The arms of \<open>rules_for\<close>, with the plugin names each matches.\<close>

definition RULE_ARMS :: "(string list \<times> rule list) list" where
  "RULE_ARMS =
    [([''otel_tracing''],
      [endpoint [''endpoint''],
       secret [''authorization''],
       secret [''headers'', ''*'']]),
     ([''spec_expose''],
      [endpoint [''spec_url'']]),
     ([''grpc_method_router'', ''request_deduplication'', ''graphql'',
       ''rate_limiting'', ''ws_rate_limiting'', ''udp_rate_limiting'', ''ai_rate_limiter''],
      [endpoint [''redis_url'']]),
     ([''jwks_auth''],
      [endpoint [''providers'', ''*'', ''discovery_url''],
       endpoint [''providers'', ''*'', ''jwks_uri''],
       endpoint [''discovery_url''],
       endpoint [''jwks_uri'']]),
     ([''oauth2_introspection''],
      [secret [''providers'', ''*'', ''client_auth'', ''client_secret''],
       secret [''providers'', ''*'', ''client_auth'', ''private_key_pem''],
       endpoint [''providers'', ''*'', ''discovery_url''],
       endpoint [''providers'', ''*'', ''introspection_endpoint''],
       endpoint [''discovery_url''],
       endpoint [''introspection_endpoint'']]),
     ([''oidc_relying_party''],
      [secret [''providers'', ''*'', ''client_auth'', ''client_secret''],
       secret [''providers'', ''*'', ''client_auth'', ''private_key_pem''],
       secret [''session'', ''encryption_secret''],
       secret [''session'', ''encryption_secret_previous''],
       endpoint [''providers'', ''*'', ''discovery_url''],
       endpoint [''providers'', ''*'', ''jwks_uri''],
       endpoint [''providers'', ''*'', ''token_endpoint''],
       endpoint [''providers'', ''*'', ''authorization_endpoint''],
       endpoint [''providers'', ''*'', ''userinfo_endpoint''],
       endpoint [''providers'', ''*'', ''end_session_endpoint''],
       endpoint [''discovery_url''],
       endpoint [''jwks_uri''],
       endpoint [''token_endpoint''],
       endpoint [''authorization_endpoint''],
       endpoint [''userinfo_endpoint''],
       endpoint [''end_session_endpoint'']]),
     ([''ldap_auth''],
      [endpoint [''ldap_url''],
       endpoint [''failover_ldap_urls''],
       secret [''service_account_password'']]),
     ([''soap_ws_security''],
      [endpoint [''redis_url''],
       secret [''redis_password''],
       secret [''username_token'', ''credentials'', ''*'', ''password'']]),
     ([''opa''],
      [secret [''headers'', ''*'']]),
     ([''ai_transcript_audit''],
      [endpoint [''sink'', ''endpoint_url''],
       secret [''sink'', ''custom_headers'', ''*''],
       endpoint [''endpoint_url''],
       secret [''headers'', ''*''],
       secret [''custom_headers'', ''*'']]),
     ([''ai_semantic_firewall''],
      [endpoint [''provider'', ''endpoint'']]),
     ([''ai_tool_governor''],
      [endpoint [''endpoint_url''],
       endpoint [''approval'', ''endpoint_url'']]),
     ([''ai_stream_router''],
      [endpoint [''providers'', ''*'', ''endpoint'']]),
     ([''mcp_gateway''],
      [endpoint [''servers'', ''*'', ''upstream_url''],
       endpoint [''upstream_url'']]),
     ([''ai_semantic_cache''],
      [endpoint [''redis_url''],
       endpoint [''semantic_embedding_endpoint''],
       secret [''semantic_embedding_auth_header'']]),
     ([''serverless_function''],
      [endpoint [''function_url''],
       endpoint [''aws_endpoint_url''],
       secret [''azure_function_key'']]),
     ([''ai_federation''],
      [endpoint [''base_url''],
       endpoint [''providers'', ''*'', ''base_url'']]),
     ([''http_logging''],
      [endpoint [''endpoint_url''],
       secret [''custom_headers'', ''*'']]),
     ([''kafka_logging''],
      [kafka_properties [''producer_config'']]),
     ([''loki_logging''],
      [endpoint [''endpoint_url''],
       secret [''authorization_header''],
       secret [''custom_headers'', ''*'']]),
     ([''ws_logging''],
      [endpoint [''endpoint_url''],
       operator_value [''custom_headers'', ''*'']]),
     ([''waf''],
      [secret [''global_exemptions'', ''header_present'', ''*'']]),
     ([''request_transformer''],
      [operator_value [''rules'', ''*'', ''value'']]),
     ([''mesh_route_dispatch''],
      [operator_value [''rules'', ''*'', ''request_transform'', ''*'', ''value'']]),
     ([''fault_injection''],
      [operator_value [''match'', ''headers'', ''*'']]),
     ([''response_mock''],
      [operator_value [''rules'', ''*'', ''match'', ''headers'', ''*''],
       operator_value [''rules'', ''*'', ''match'', ''query_params'', ''*'']]),
     ([''proxy_alerts''],
      [endpoint [''channels'', ''*'', ''webhook_url''],
       endpoint [''channels'', ''*'', ''url''],
       secret [''channels'', ''*'', ''headers'', ''*''],
       secret [''channels'', ''*'', ''body_template'']]),
     ([''api_chargeback_sink''],
      [endpoint [''clickhouse'', ''url''],
       secret [''clickhouse'', ''insert_query_params'', ''*'']]),
     ([''workload_metrics''],
      [endpoint [''tracing_provider'', ''config'', ''url''],
       endpoint [''tracing_provider'', ''config'', ''agent_url''],
       endpoint [''tracing_provider'', ''config'', ''collector_url''],
       endpoint [''tracing_provider'', ''config'', ''endpoint''],
       endpoint [''tracing_providers'', ''*'', ''config'', ''url''],
       endpoint [''tracing_providers'', ''*'', ''config'', ''agent_url''],
       endpoint [''tracing_providers'', ''*'', ''config'', ''collector_url''],
       endpoint [''tracing_providers'', ''*'', ''config'', ''endpoint'']])]"

definition rules_for :: "string \<Rightarrow> rule list" where
  "rules_for plugin_name =
     (case find (\<lambda>arm. plugin_name \<in> set (fst arm)) RULE_ARMS of
        Some (_, rules) \<Rightarrow> rules | None \<Rightarrow> [])"

section \<open>Keys and URLs\<close>

definition normalize_key :: "string \<Rightarrow> string" where
  "normalize_key key =
     to_ascii_lowercase (filter (\<lambda>c. c \<noteq> CHR ''-'' \<and> c \<noteq> CHR ''.'' \<and> c \<noteq> CHR ''_'') key)"

definition sensitive_fragments :: "string list" where
  "sensitive_fragments =
     [''authorization'', ''cookie'', ''bearer'', ''password'', ''passphrase'', ''passwd'', ''secret'',
      ''credential'', ''privatekey'', ''serviceaccountjson'', ''integritykey'', ''apikey'', ''accesskey'',
      ''functionkey'', ''webhook'']"

definition is_sensitive_key :: "string \<Rightarrow> bool" where
  "is_sensitive_key key =
     (let normalized = normalize_key key in
      normalized = ''key'' \<or> ends_with normalized ''token'' \<or>
      list_ex (contains_str normalized) sensitive_fragments)"

definition is_header_container :: "string \<Rightarrow> bool" where
  "is_header_container key =
     (normalize_key key \<in> set [''headers'', ''customheaders'', ''staticheaders'', ''requestheaders''])"

definition builtin_match :: "string \<Rightarrow> bool" where
  "builtin_match key =
     (ends_with (normalize_key key) ''key'' \<or>
      normalize_key key \<in> set [''extraheaders'', ''outboundheaders'', ''additionalheaders''])"

definition url_has_userinfo :: "string \<Rightarrow> bool" where
  "url_has_userinfo v =
     (case split_once_str ''://'' v of
        None \<Rightarrow> False
      | Some (_, remainder) \<Rightarrow>
          CHR ''@'' \<in> set (takeWhile (\<lambda>c. c \<noteq> CHR ''/'' \<and> c \<noteq> CHR ''?'' \<and> c \<noteq> CHR ''#'') remainder))"

section \<open>Collectors\<close>

lemma enumerate_snd: "p \<in> set (List.enumerate k xs) \<Longrightarrow> snd p \<in> set xs"
  using imageI[of p "set (List.enumerate k xs)" snd]
  by (simp only: set_map[symmetric] map_snd_enumerate)

lemma enumerate_size [termination_simp]:
  "p \<in> set (List.enumerate k xs) \<Longrightarrow> size (snd p) < Suc (size_list size xs)"
  by (drule enumerate_snd, induction xs) auto

fun collect_string_paths :: "json \<Rightarrow> config_path \<Rightarrow> config_path list" where
  "collect_string_paths (JString _) current = [current]"
| "collect_string_paths (JObject m) current =
     concat (map (\<lambda>e. collect_string_paths (snd e) (current @ [Key (fst e)])) m)"
| "collect_string_paths (JArray xs) current =
     concat (map (\<lambda>e. collect_string_paths (snd e) (current @ [Index (fst e)])) (List.enumerate 0 xs))"
| "collect_string_paths _ current = []"

definition is_safe_property :: "string \<Rightarrow> bool" where
  "is_safe_property key = list_ex (eq_ignore_ascii_case (trim key)) KAFKA_SAFE_PROPERTIES"

definition collect_kafka_properties :: "json \<Rightarrow> config_path \<Rightarrow> config_path list" where
  "collect_kafka_properties v current =
     (case as_object v of
        None \<Rightarrow> collect_string_paths v current
      | Some properties \<Rightarrow>
          concat (map (\<lambda>e. if is_safe_property (fst e) then []
                           else collect_string_paths (snd e) (current @ [Key (fst e)])) properties))"

text \<open>
  The visits of \<open>walk_rule\<close>: each node reached, its path and whether the whole rule path matched.
\<close>

fun walk_rule :: "json \<Rightarrow> string list \<Rightarrow> config_path \<Rightarrow> (json \<times> config_path \<times> bool) list" where
  "walk_rule v [] current = [(v, current, True)]"
| "walk_rule (JObject m) (head # rest) current =
     concat (map (\<lambda>e. if head = ''*'' \<or> normalize_key (fst e) = normalize_key head
                      then walk_rule (snd e) rest (current @ [Key (fst e)]) else []) m)"
| "walk_rule (JArray xs) (head # rest) current =
     concat (map (\<lambda>e. walk_rule (snd e) (if head = ''*'' then rest else head # rest)
                        (current @ [Index (fst e)])) (List.enumerate 0 xs))"
| "walk_rule v (head # rest) current = [(v, current, False)]"

definition apply_rule :: "json \<Rightarrow> rule \<Rightarrow> config_path list" where
  "apply_rule v rule =
     concat (map (\<lambda>(node, here, complete).
         if rl_kind rule = KafkaProperties \<and> complete then collect_kafka_properties node here
         else collect_string_paths node here)
       (walk_rule v (rl_path rule) []))"

fun collect_heuristic_paths :: "bool \<Rightarrow> json \<Rightarrow> config_path \<Rightarrow> config_path list" where
  "collect_heuristic_paths b (JObject m) current =
     concat (map (\<lambda>e.
         if is_sensitive_key (fst e) \<or> is_header_container (fst e) \<or> b \<and> builtin_match (fst e)
         then collect_string_paths (snd e) (current @ [Key (fst e)])
         else collect_heuristic_paths b (snd e) (current @ [Key (fst e)])) m)"
| "collect_heuristic_paths b (JArray xs) current =
     concat (map (\<lambda>e. collect_heuristic_paths b (snd e) (current @ [Index (fst e)])) (List.enumerate 0 xs))"
| "collect_heuristic_paths b (JString text) current = (if url_has_userinfo text then [current] else [])"
| "collect_heuristic_paths b _ current = []"

section \<open>Classification\<close>

definition MIN_SCRUB_LENGTH :: nat where
  "MIN_SCRUB_LENGTH = 8"

record plugin_config_classification =
  pcc_sensitive :: "config_path list"
  pcc_unbrokered :: "config_path list"

definition is_short_string :: "json \<Rightarrow> config_path \<Rightarrow> bool" where
  "is_short_string config path =
     (case value_at config path of Some (JString t) \<Rightarrow> length t < MIN_SCRUB_LENGTH | _ \<Rightarrow> False)"

text \<open>One rule of a built-in plugin; the state is the pair of the sensitive and the ordinary paths.\<close>

definition classify_rule ::
    "json \<Rightarrow> rule \<Rightarrow> config_path list \<times> config_path list \<Rightarrow> config_path list \<times> config_path list" where
  "classify_rule config rule acc =
     (case acc of (sensitive, ordinary) \<Rightarrow>
        if rl_kind rule = OperatorValue
        then (let found = path_set_extend [] (apply_rule config rule) in
              (path_set_extend sensitive (filter (\<lambda>p. \<not> is_short_string config p) found),
               path_set_extend ordinary (filter (is_short_string config) found)))
        else (path_set_extend sensitive (apply_rule config rule), ordinary))"

definition is_object_or_null :: "json \<Rightarrow> bool" where
  "is_object_or_null v = (v = JNull \<or> as_object v \<noteq> None)"

definition classify_plugin_config :: "string \<Rightarrow> json \<Rightarrow> plugin_config_classification" where
  "classify_plugin_config plugin_name config =
     (if \<not> is_object_or_null config
      then \<lparr>pcc_sensitive = path_set_extend [] (collect_string_paths config []), pcc_unbrokered = []\<rparr>
      else if \<not> is_builtin plugin_name
      then (let sensitive = path_set_extend [] (collect_heuristic_paths False config []);
                all = path_set_extend [] (collect_string_paths config []) in
            \<lparr>pcc_sensitive = sensitive, pcc_unbrokered = filter (\<lambda>p. p \<notin> set sensitive) all\<rparr>)
      else (let (sensitive, ordinary) = fold (classify_rule config) (rules_for plugin_name) ([], []);
                heuristic = path_set_extend [] (collect_heuristic_paths True config []) in
            \<lparr>pcc_sensitive = sensitive,
             pcc_unbrokered = filter (\<lambda>p. p \<notin> set sensitive \<and> p \<notin> set ordinary) heuristic\<rparr>))"

definition sensitive_string_paths :: "string \<Rightarrow> json \<Rightarrow> config_path list" where
  "sensitive_string_paths plugin_name config =
     (let c = classify_plugin_config plugin_name config in
      if is_builtin plugin_name then path_set_extend (pcc_sensitive c) (pcc_unbrokered c)
      else pcc_sensitive c)"

definition export_redacted_paths :: "string \<Rightarrow> json \<Rightarrow> config_path list" where
  "export_redacted_paths plugin_name config =
     (let found = sensitive_string_paths plugin_name config in
      if as_object config = None \<or> \<not> is_builtin plugin_name then found
      else fold (\<lambda>rule found.
             if rl_kind rule = KafkaProperties then found
             else path_set_extend found
               (map (\<lambda>(_, path, _). path)
                 (filter (\<lambda>(node, _, complete). complete \<and> node \<noteq> JNull)
                   (walk_rule config (rl_path rule) []))))
             (rules_for plugin_name) found)"

definition endpoint_paths :: "string \<Rightarrow> json \<Rightarrow> config_path list" where
  "endpoint_paths plugin_name config =
     (if as_object config = None then []
      else fold (\<lambda>rule found.
             if rl_kind rule = Endpoint then path_set_extend found (apply_rule config rule) else found)
             (rules_for plugin_name) [])"

definition ends_sensitive :: "config_path \<Rightarrow> bool" where
  "ends_sensitive path =
     (path \<noteq> [] \<and> (case last path of Key k \<Rightarrow> is_sensitive_key k | Index _ \<Rightarrow> False))"

definition rule_declared_paths :: "string \<Rightarrow> json \<Rightarrow> config_path list" where
  "rule_declared_paths plugin_name config =
     (if as_object config = None \<or> \<not> is_builtin plugin_name then []
      else fold (\<lambda>rule found.
             case rl_kind rule of
               Secret \<Rightarrow> path_set_extend found (apply_rule config rule)
             | Endpoint \<Rightarrow> path_set_extend found (apply_rule config rule)
             | OperatorValue \<Rightarrow> found
             | KafkaProperties \<Rightarrow>
                 path_set_extend found (filter ends_sensitive (path_set_extend [] (apply_rule config rule))))
             (rules_for plugin_name) [])"

section \<open>Endpoints\<close>

definition is_primary :: "config_path \<Rightarrow> bool" where
  "is_primary path =
     (case path of Key k # _ \<Rightarrow> normalize_key k = ''ldapurl'' | _ \<Rightarrow> False)"

definition ldap_scheme_at :: "json \<Rightarrow> config_path \<Rightarrow> string option" where
  "ldap_scheme_at config path =
     (case Option.bind (value_at config path) as_str of
        None \<Rightarrow> None
      | Some s \<Rightarrow>
          (let text = to_ascii_lowercase (trim s) in
           if starts_with text ''ldaps://'' then Some ''ldaps''
           else if starts_with text ''ldap://'' then Some ''ldap'' else None))"

fun find_map :: "('a \<Rightarrow> 'b option) \<Rightarrow> 'a list \<Rightarrow> 'b option" where
  "find_map f [] = None"
| "find_map f (x # xs) = (case f x of None \<Rightarrow> find_map f xs | Some y \<Rightarrow> Some y)"

definition declared_ldap_scheme :: "string \<Rightarrow> json \<Rightarrow> string option" where
  "declared_ldap_scheme plugin_name config =
     (if plugin_name \<noteq> ''ldap_auth'' then None
      else (let endpoints = endpoint_paths plugin_name config in
            find_map (ldap_scheme_at config)
              (filter is_primary endpoints @ filter (\<lambda>p. \<not> is_primary p) endpoints)))"

definition leaf_key :: "config_path \<Rightarrow> string" where
  "leaf_key path =
     (case find_map (\<lambda>part. case part of Key k \<Rightarrow> Some (normalize_key k) | Index _ \<Rightarrow> None) (rev path) of
        Some k \<Rightarrow> k | None \<Rightarrow> [])"

definition endpoint_scheme :: "string \<Rightarrow> config_path \<Rightarrow> string" where
  "endpoint_scheme plugin_name path =
     (let leaf = leaf_key path; plugin = normalize_key plugin_name;
          says = (\<lambda>needle. contains_str leaf needle \<or> contains_str plugin needle) in
      if says ''ldap'' then ''ldaps''
      else if says ''redis'' then ''redis''
      else if says ''kafka'' \<or> contains_str leaf ''broker'' then ''kafka''
      else ''https'')"

end
