(* ===== verification/Security.thy ===== *)
theory Security
  imports Policy PluginSecrets Diff
begin

text \<open>
  The security audit of \<open>diff/security.rs\<close>.  Each check returns the findings it appends, in order; texts
  are rendered as the source renders them and pass through the log sanitizer where a finding is made.
\<close>

section \<open>Findings\<close>

record security_finding =
  sec_severity :: string
  sec_kind :: string
  sec_id :: string
  sec_namespace :: string
  sec_message :: string

definition BLOCKING_SEVERITY :: string where
  "BLOCKING_SEVERITY = ''error''"

definition security_finding_new ::
    "string \<Rightarrow> string \<Rightarrow> string \<Rightarrow> string \<Rightarrow> string \<Rightarrow> security_finding" where
  "security_finding_new severity kind rid ns message =
     \<lparr>sec_severity = severity, sec_kind = sanitize_str kind, sec_id = sanitize_str rid,
      sec_namespace = sanitize_str ns, sec_message = sanitize_line_str message\<rparr>"

definition sec_error :: "string \<Rightarrow> string \<Rightarrow> string \<Rightarrow> string \<Rightarrow> security_finding" where
  "sec_error kind rid ns message = security_finding_new BLOCKING_SEVERITY kind rid ns message"

definition sec_warning :: "string \<Rightarrow> string \<Rightarrow> string \<Rightarrow> string \<Rightarrow> security_finding" where
  "sec_warning kind rid ns message = security_finding_new ''warning'' kind rid ns message"

definition sec_info :: "string \<Rightarrow> string \<Rightarrow> string \<Rightarrow> string \<Rightarrow> security_finding" where
  "sec_info kind rid ns message = security_finding_new ''info'' kind rid ns message"

definition security_blockers :: "security_finding list \<Rightarrow> security_finding list" where
  "security_blockers findings = filter (\<lambda>f. sec_severity f = BLOCKING_SEVERITY) findings"

definition in_namespace :: "string \<Rightarrow> string \<Rightarrow> string" where
  "in_namespace rid ns = rid @ '' in namespace '' @ ns"

definition quote :: "string \<Rightarrow> string" where
  "quote s = [CHR 0x27] @ s @ [CHR 0x27]"

definition dash :: string where
  "dash = '' '' @ em_dash @ '' ''"

section \<open>Literal credentials\<close>

definition is_identity_credential_leaf :: "string \<Rightarrow> string option \<Rightarrow> bool" where
  "is_identity_credential_leaf credential_type leaf =
     (credential_type = ''basicauth'' \<and> leaf = Some ''username'' \<or>
      credential_type = ''mtls_auth'' \<and> leaf = Some ''identity'')"

definition literal_credential_finding :: "string \<Rightarrow> string \<Rightarrow> string \<Rightarrow> security_finding" where
  "literal_credential_finding consumer_id ns path =
     sec_error ''Consumer'' consumer_id ns
       (''Literal credential in '' @ quote path @ '' on consumer '' @ in_namespace consumer_id ns @
        '' (use ${gh-env-secret:...} for secrets)'')"

fun check_literal_credentials ::
    "string \<Rightarrow> string \<Rightarrow> string \<Rightarrow> string \<Rightarrow> string option \<Rightarrow> json \<Rightarrow> security_finding list" where
  "check_literal_credentials cid ns ctype path leaf (JString s) =
     (if is_placeholder s \<or> is_identity_credential_leaf ctype leaf then []
      else [literal_credential_finding cid ns path])"
| "check_literal_credentials cid ns ctype path leaf (JNumber _) =
     (if is_identity_credential_leaf ctype leaf then [] else [literal_credential_finding cid ns path])"
| "check_literal_credentials cid ns ctype path leaf (JBool _) =
     (if is_identity_credential_leaf ctype leaf then [] else [literal_credential_finding cid ns path])"
| "check_literal_credentials cid ns ctype path leaf (JObject m) =
     concat (map (\<lambda>e. check_literal_credentials cid ns ctype (path @ ''.'' @ fst e) (Some (fst e)) (snd e)) m)"
| "check_literal_credentials cid ns ctype path leaf (JArray xs) =
     concat (map (\<lambda>e. check_literal_credentials cid ns ctype (path @ ''['' @ show_nat (fst e) @ '']'') leaf (snd e))
       (List.enumerate 0 xs))"
| "check_literal_credentials cid ns ctype path leaf JNull = []"

definition check_credential :: "consumer \<Rightarrow> string \<times> json \<Rightarrow> security_finding list" where
  "check_credential c entry =
     (case entry of (cred_type, cred_value) \<Rightarrow>
        if \<not> is_known_credential_type cred_type
        then [sec_error ''Consumer'' (c_id c) (c_namespace c)
                (unknown_credential_type_message cred_type (c_id c) (c_namespace c))]
        else check_literal_credentials (c_id c) (c_namespace c) cred_type cred_type None cred_value)"

section \<open>Literal discovery and plugin secrets\<close>

definition secret_leaf :: "service_discovery_config \<Rightarrow> string list \<Rightarrow> string option" where
  "secret_leaf discovery path =
     (if path = [''consul'', ''token''] then Option.bind (sd_consul discovery) consul_token else None)"

definition consul_address_userinfo :: "service_discovery_config \<Rightarrow> string option" where
  "consul_address_userinfo discovery =
     Option.bind (sd_consul discovery) (\<lambda>c. map_option ui_userinfo (split_url_userinfo (consul_address c)))"

definition consul_address_has_userinfo :: "service_discovery_config \<Rightarrow> bool" where
  "consul_address_has_userinfo discovery = (consul_address_userinfo discovery \<noteq> None)"

definition present_secrets :: "upstream \<Rightarrow> (sd_secret_field \<times> string) list" where
  "present_secrets u =
     (case u_service_discovery u of
        None \<Rightarrow> []
      | Some discovery \<Rightarrow>
          List.map_filter (\<lambda>field. map_option (Pair field) (secret_leaf discovery (sf_path field)))
            SD_SECRET_FIELDS)"

definition render_path :: "string list \<Rightarrow> string" where
  "render_path path = join ''.'' path"

definition check_literal_service_discovery_secrets :: "upstream \<Rightarrow> security_finding list" where
  "check_literal_service_discovery_secrets u =
     (if (case u_service_discovery u of None \<Rightarrow> False | Some d \<Rightarrow> consul_address_has_userinfo d)
      then [sec_error ''Upstream'' (u_id u) (u_namespace u)
              (''URL credentials in '' @ quote ''service_discovery.consul.address'' @ '' on upstream '' @
               in_namespace (u_id u) (u_namespace u) @
               '' (remove the userinfo from the address; put a Consul ACL token in '' @
               quote ''service_discovery.consul.token'' @ '' as ${gh-env-secret:alloc=require})'')]
      else []) @
     map (\<lambda>(field, _). sec_error ''Upstream'' (u_id u) (u_namespace u)
            (''Literal service-discovery secret in '' @
             quote (''service_discovery.'' @ render_path (sf_path field)) @ '' on upstream '' @
             in_namespace (u_id u) (u_namespace u) @
             '' (use ${gh-env-secret:alloc=require} and seed the derived broker slot)''))
       (filter (\<lambda>(_, v). \<not> is_placeholder v) (present_secrets u))"

definition is_literal_at :: "json \<Rightarrow> config_path \<Rightarrow> bool" where
  "is_literal_at config path =
     (case value_at config path of Some (JString v) \<Rightarrow> \<not> is_placeholder v | _ \<Rightarrow> False)"

definition check_literal_plugin_config_secrets :: "plugin_config \<Rightarrow> security_finding list" where
  "check_literal_plugin_config_secrets p =
     map (\<lambda>path. sec_error ''PluginConfig'' (pc_id p) (pc_namespace p)
            (''Literal plugin-config secret in '' @ quote (''config.'' @ render_config_path path) @
             '' on plugin '' @ pc_id p @ '' ('' @ pc_plugin_name p @ '') in namespace '' @ pc_namespace p @
             '' (use ${gh-env-secret:alloc=require} and seed the derived broker slot)''))
       (filter (is_literal_at (pc_config p)) (sensitive_string_paths (pc_plugin_name p) (pc_config p)))"

section \<open>Proxies\<close>

definition missing_auth_message :: "proxy \<Rightarrow> auth_coverage \<Rightarrow> auth_allowlist \<Rightarrow> string" where
  "missing_auth_message p coverage auth =
     (let where_is = in_namespace (p_id p) (p_namespace p);
          transport = proxy_transport_as_str (ac_transport coverage);
          conditional =
            (if ac_conditional coverage = [] then []
             else ''; conditional authenticators carrying a trigger were not counted: '' @
                  plugin_instance_list (ac_conditional coverage))
      in if \<not> is_stream (ac_transport coverage)
         then (if p_passthrough p
               then (let (inert, attach) =
                           (if ac_inapplicable coverage = []
                            then (''none attached'', '', then attach an authenticator'')
                            else (plugin_instance_list (ac_inapplicable coverage), []))
                     in ''No auth plugin counts on HTTP proxy '' @ where_is @
                        '': passthrough: true is rejected by Ferrum Edge on non-stream proxies, so GitForgeOps fails closed; inert authenticators: '' @
                        inert @ ''. Set passthrough: false and terminate TLS at the gateway'' @ attach)
               else if ac_applicable coverage = [] \<and> ac_conditional coverage = []
               then ''No auth plugin attached to proxy '' @ where_is @ dash @
                    ''its effective plugin list contains no enabled authenticator; attach one of: '' @
                    join '', '' (al_names auth)
               else if ac_applicable coverage = []
               then ''No auth plugin runs on every request to proxy '' @ where_is @ conditional @ dash @
                    ''requests a trigger does not match reach the backend unauthenticated; attach an authenticator without a trigger, one of: '' @
                    join '', '' (al_names auth)
               else ''No auth plugin runs on '' @ protocol_list (ac_uncovered coverage) @
                    '' requests to proxy '' @ where_is @ dash @ ''the gateway skips its authenticators ('' @
                    plugin_instance_list (ac_applicable coverage) @
                    '') for them, so they reach the backend unauthenticated'' @ conditional @
                    ''; attach an authenticator that runs on HTTP, gRPC and WebSocket requests, or declare a custom authenticator'' @
                    [CHR 0x27] @ ''s protocols under require_auth_plugin.custom_auth_plugin_protocols'')
         else if ac_applicable coverage = []
         then (let ignored =
                     (if ac_inapplicable coverage = [] then []
                      else ''; authenticators that do not authenticate '' @ transport @
                           '' connections were ignored: '' @ plugin_instance_list (ac_inapplicable coverage))
               in ''No auth plugin runs on '' @ transport @ '' stream proxy '' @ where_is @ conditional @ ignored @
                  dash @ ''attach one of: '' @ join '', '' STREAM_AUTH_PLUGIN_NAMES @
                  '' without a trigger and terminate TLS/DTLS on the listener (frontend_tls: true)'')
         else ''No auth plugin can establish an identity on '' @ transport @ '' stream proxy '' @ where_is @ dash @
              ''its stream authenticators ('' @ plugin_instance_list (ac_applicable coverage) @
              '') read the client certificate, but the listener does not terminate TLS/DTLS (frontend_tls: '' @
              show_bool (p_frontend_tls p) @ '', passthrough: '' @ show_bool (p_passthrough p) @
              ''); set frontend_tls: true without passthrough'')"

definition proxy_exempt :: "auth_coverage \<Rightarrow> auth_allowlist \<Rightarrow> bool \<Rightarrow> bool" where
  "proxy_exempt coverage auth has_exemption =
     (has_exemption \<and> \<not> is_authenticated coverage \<and> ac_conditional coverage \<noteq> [] \<and>
      conditional_exemption_gap coverage auth = None)"

definition exemption_note :: "proxy \<Rightarrow> string" where
  "exemption_note p =
     ''; permitted by conditional-auth exemption '' @ quote (p_namespace p @ ''/'' @ p_id p)"

definition uncovered_exemption_note :: "proxy \<Rightarrow> string option \<Rightarrow> string" where
  "uncovered_exemption_note p gap =
     ''; conditional-auth exemption '' @ quote (p_namespace p @ ''/'' @ p_id p) @
     '' does not cover this gap: '' @
     (case gap of Some g \<Rightarrow> g | None \<Rightarrow> ''no conditional authenticator applies'')"

definition auth_gap_findings ::
    "proxy \<Rightarrow> auth_coverage \<Rightarrow> auth_allowlist \<Rightarrow> bool \<Rightarrow> security_finding list" where
  "auth_gap_findings p coverage auth has_exemption =
     (if is_authenticated coverage then []
      else
        let gap = conditional_exemption_gap coverage auth;
            exempt = proxy_exempt coverage auth has_exemption;
            message = missing_auth_message p coverage auth @
              (if has_exemption \<and> \<not> exempt then uncovered_exemption_note p gap else [])
        in [if exempt then sec_info ''Proxy'' (p_id p) (p_namespace p) (message @ exemption_note p)
            else sec_warning ''Proxy'' (p_id p) (p_namespace p) message])"

definition conditional_findings ::
    "proxy \<Rightarrow> auth_coverage \<Rightarrow> auth_allowlist \<Rightarrow> bool \<Rightarrow> security_finding list" where
  "conditional_findings p coverage auth has_exemption =
     (let gap = conditional_exemption_gap coverage auth;
          exempt = proxy_exempt coverage auth has_exemption in
      map (\<lambda>plugin.
        let message =
              ''proxy '' @ in_namespace (p_id p) (p_namespace p) @ '' has a conditional '' @
              pc_plugin_name plugin @ '' plugin '' @ pc_id plugin @ '', which carries a trigger'' @ dash @
              ''requests the trigger does not match are served unauthenticated'' @
              (if exempt then exemption_note p
               else if has_exemption then uncovered_exemption_note p gap else [])
        in if exempt then sec_info ''Proxy'' (p_id p) (p_namespace p) message
           else sec_warning ''Proxy'' (p_id p) (p_namespace p)
                  (message @ ''; drop the trigger to authenticate every request''))
        (ac_conditional coverage))"

definition transport_findings :: "proxy \<Rightarrow> security_finding list" where
  "transport_findings p =
     (let scheme = effective_scheme p; here = ''proxy '' @ in_namespace (p_id p) (p_namespace p) in
      (if scheme_is_tls scheme \<and> \<not> p_backend_tls_verify_server_cert p
       then [sec_warning ''Proxy'' (p_id p) (p_namespace p)
               (here @ '' dials '' @ backend_scheme_str scheme @
                '' with backend_tls_verify_server_cert: false'' @ dash @
                ''backend certificates are accepted unvalidated; trust the backend CA via backend_tls_server_ca_cert_path instead'')]
       else []) @
      (if p_stream_proxy_protocol p = Some True
       then [sec_warning ''Proxy'' (p_id p) (p_namespace p)
               (here @ '' sets stream_proxy_protocol: true'' @ dash @
                ''the client IP is taken from an inbound PROXY header, which any direct connection can forge; keep it only behind a trusted L4 hop listed in FERRUM_TRUSTED_PROXIES'')]
       else []) @
      (if p_passthrough p
       then [sec_warning ''Proxy'' (p_id p) (p_namespace p)
               (if is_stream (proxy_transport_of p)
                then here @ '' sets passthrough: true'' @ dash @
                     ''TLS is forwarded untouched, so no request is inspected and every attached plugin (auth included) is inert; unset passthrough to terminate TLS at the gateway''
                else here @ '' sets passthrough: true, which Ferrum Edge rejects on non-stream proxies; GitForgeOps fails closed and does not count HTTP authenticators; set passthrough: false and terminate TLS at the gateway'')]
       else []))"

definition check_proxy ::
    "gateway_config \<Rightarrow> proxy \<Rightarrow> auth_allowlist \<Rightarrow> bool \<Rightarrow> security_finding list" where
  "check_proxy config p auth has_exemption =
     (let coverage = auth_coverage_of config p auth in
      auth_gap_findings p coverage auth has_exemption @
      conditional_findings p coverage auth has_exemption @ transport_findings p)"

definition association_target :: "gateway_config \<Rightarrow> proxy \<Rightarrow> string \<Rightarrow> plugin_config option" where
  "association_target config p plugin_id =
     find (\<lambda>q. pc_namespace q = p_namespace p \<and> pc_id q = plugin_id) (gc_plugin_configs config)"

definition association_fault :: "proxy \<Rightarrow> plugin_config option \<Rightarrow> string option" where
  "association_fault p plugin =
     (case plugin of
        None \<Rightarrow> Some ''no PluginConfig with that ID is declared in this repository namespace''
      | Some q \<Rightarrow>
          (case pc_scope q of
             plugin_scope.Global \<Rightarrow> Some ''scope: global cannot be explicitly associated''
           | ProxyScope \<Rightarrow>
               if pc_proxy_id q \<noteq> Some (p_id p)
               then Some ''scope: proxy requires proxy_id to match this proxy'' else None
           | ProxyGroup \<Rightarrow> None))"

definition is_shared_scope :: "ownership_scope \<Rightarrow> bool" where
  "is_shared_scope scope = (case scope of ownership_scope.Shared _ \<Rightarrow> True | ownership_scope.Exclusive \<Rightarrow> False)"

definition check_association ::
    "gateway_config \<Rightarrow> proxy \<Rightarrow> ownership_scope \<Rightarrow> plugin_association \<Rightarrow> security_finding list" where
  "check_association config p scope association =
     (let plugin_id = pa_plugin_config_id association;
          plugin = association_target config p plugin_id in
      case association_fault p plugin of
        None \<Rightarrow> []
      | Some reason \<Rightarrow>
          (let severity = (if plugin = None \<and> is_shared_scope scope then ''warning'' else BLOCKING_SEVERITY);
               remedy = (if plugin = None
                 then ''declare the config in this repository or confirm it is owned elsewhere''
                 else ''correct the declared PluginConfig scope/proxy_id to match the intended association'')
           in [security_finding_new severity ''Proxy'' (p_id p) (p_namespace p)
                 (''proxy '' @ in_namespace (p_id p) (p_namespace p) @ '' has invalid plugin association '' @
                  plugin_id @ '': '' @ reason @ ''; '' @ remedy)]))"

definition check_proxy_plugin_associations ::
    "gateway_config \<Rightarrow> proxy \<Rightarrow> ownership_scope \<Rightarrow> security_finding list" where
  "check_proxy_plugin_associations config p scope =
     concat (map (check_association config p scope) (p_plugins p))"

section \<open>Plugins\<close>

definition is_wildcard_origin :: "json \<Rightarrow> bool" where
  "is_wildcard_origin entry =
     (as_str entry = Some ''*'' \<or>
      (case jget entry ''exact'' of
         Some (JString s) \<Rightarrow> s = ''*''
       | Some (JArray xs) \<Rightarrow> list_ex (\<lambda>v. as_str v = Some ''*'') xs
       | _ \<Rightarrow> False))"

definition plugin_error :: "plugin_config \<Rightarrow> string \<Rightarrow> security_finding" where
  "plugin_error p message = sec_error ''PluginConfig'' (pc_id p) (pc_namespace p) message"

definition plugin_warning :: "plugin_config \<Rightarrow> string \<Rightarrow> security_finding" where
  "plugin_warning p message = sec_warning ''PluginConfig'' (pc_id p) (pc_namespace p) message"

definition plugin_here :: "plugin_config \<Rightarrow> string" where
  "plugin_here p = '' plugin '' @ in_namespace (pc_id p) (pc_namespace p)"

definition check_waf :: "plugin_config \<Rightarrow> security_finding list" where
  "check_waf p =
     (let cfg = pc_config p; mode = waf_mode cfg in
      (if waf_mode_is_passive mode
       then [plugin_error p (''waf'' @ plugin_here p @ '' has mode: '' @ mode @ dash @
               ''matched requests are recorded but never rejected; set config.mode: enforce'')]
       else if \<not> waf_has_enforcing_rule cfg
       then [plugin_error p (''waf'' @ plugin_here p @ '' has mode: enforce but no rule enforces'' @ dash @
               ''the built-in rules are monitor-only and no default_rule_action, rule_modes, rule_overrides or enabled enforcing custom_rules entry promotes a rule to enforcement; set config.default_rule_action: enforce'')]
       else []) @
      (if waf_skips_oversized_body cfg
       then [plugin_warning p (''waf'' @ plugin_here p @ '' has on_body_too_large: skip'' @ dash @
               ''bodies over max_scan_bytes bypass inspection; remove the key to keep the fail_closed default'')]
       else []))"

definition check_openapi_validator :: "plugin_config \<Rightarrow> security_finding list" where
  "check_openapi_validator p =
     (case cfg_str (pc_config p) [''enforcement_mode''] of
        None \<Rightarrow> []
      | Some mode \<Rightarrow>
          if mode = ''log_only'' \<or> mode = ''disabled''
          then [plugin_error p (''openapi_validator'' @ plugin_here p @ '' has enforcement_mode: '' @ mode @ dash @
                  ''schema violations are logged and forwarded to the backend; set config.enforcement_mode: block (the default)'')]
          else [])"

definition check_cors :: "plugin_config \<Rightarrow> security_finding list" where
  "check_cors p =
     (let cfg = pc_config p;
          wildcard = (case cfg_array cfg [''allowed_origins''] of
                        None \<Rightarrow> False | Some origins \<Rightarrow> list_ex is_wildcard_origin origins);
          star = [CHR 0x22] @ ''*'' @ [CHR 0x22] in
      if \<not> wildcard then []
      else plugin_error p (''cors'' @ plugin_here p @ '' has allowed_origins containing '' @ star @ dash @
             ''any site may read responses from this proxy; list the origins that need access'') #
           (if cfg_bool cfg [''allow_credentials''] = Some True
            then [plugin_warning p (''cors'' @ plugin_here p @ '' combines allow_credentials: true with a '' @ star @
                    '' origin'' @ dash @
                    ''the gateway silently drops the credentials grant rather than echoing it, so browsers will not send cookies; replace the wildcard with explicit origins'')]
            else []))"

text \<open>The arms of the match on the plugin name; each guard is a condition of its arm.\<close>

definition check_named_plugin :: "plugin_config \<Rightarrow> security_finding list" where
  "check_named_plugin p =
     (let name = pc_plugin_name p; cfg = pc_config p in
      if name = ''waf'' then check_waf p
      else if name = ''openapi_validator'' then check_openapi_validator p
      else if (name = ''ai_semantic_firewall'' \<or> name = ''ai_tool_governor'') \<and> cfg_str cfg [''mode''] = Some ''dry_run''
      then [plugin_error p (name @ plugin_here p @ '' has mode: dry_run'' @ dash @
              ''violations are recorded but the request proceeds; set config.mode: enforce (the default)'')]
      else if name = ''cors'' then check_cors p
      else if name = ''ldap_auth'' \<and> cfg_bool cfg [''allow_plaintext''] = Some True
      then [plugin_error p (''ldap_auth'' @ plugin_here p @ '' has allow_plaintext: true'' @ dash @
              ''bind credentials cross the network unencrypted; use ldaps:// or enable starttls'')]
      else if name = ''oidc_relying_party'' \<and> cfg_bool cfg [''session'', ''secure''] = Some False
      then [plugin_error p (''oidc_relying_party'' @ plugin_here p @ '' has session.secure: false'' @ dash @
              ''the session cookie is sent over plaintext HTTP; remove the key to keep the secure default'')]
      else if name = ''hmac_auth'' \<and> cfg_bool cfg [''allow_unsafe_replayable_v1''] = Some True
      then [plugin_error p (''hmac_auth'' @ plugin_here p @ '' has allow_unsafe_replayable_v1: true'' @ dash @
              ''signatures from the v1 profile can be captured and replayed; migrate clients and remove the key'')]
      else [])"

definition check_fail_open :: "plugin_config \<Rightarrow> security_finding list" where
  "check_fail_open p =
     (let name = pc_plugin_name p; cfg = pc_config p in
      (if has_local_redis_fallback cfg
       then [plugin_warning p (name @ plugin_here p @ '' has redis_failure_policy: local_fallback'' @ dash @
               ''a Redis outage silently degrades the shared budget into a per-replica one; use the fail-closed policy instead'')]
       else []) @
      (if allows_uninspectable_body cfg
       then [plugin_warning p (name @ plugin_here p @ '' has fail_on_uninspectable_body: false'' @ dash @
               ''a body the plugin cannot parse is forwarded unchecked; remove the key to keep the fail-closed default'')]
       else []) @
      (if is_auth_plugin name \<and> is_conditional p
       then [plugin_warning p (name @ plugin_here p @ '' carries a trigger'' @ dash @
               ''authentication only runs when the predicate matches, leaving the remaining requests public; drop the trigger unless the exemption is intended'')]
       else []))"

definition retired_remedy :: "string \<Rightarrow> string" where
  "retired_remedy name =
     (case retired_replacement name of
        ReplaceWith successors \<Rightarrow> ''replace it with '' @ join '' or '' successors
      | RenamedTo successor \<Rightarrow> ''rename it to '' @ successor
      | RemoveEntry \<Rightarrow> ''remove this plugin config'')"

definition check_plugin :: "plugin_config \<Rightarrow> security_finding list" where
  "check_plugin p =
     (let name = pc_plugin_name p; here = ''plugin '' @ in_namespace (pc_id p) (pc_namespace p) in
      (if pc_scope p = ProxyGroup \<and> pc_proxy_id p \<noteq> None
       then [plugin_error p (''plugin config '' @ in_namespace (pc_id p) (pc_namespace p) @
               '' has scope: proxy_group with a proxy_id; scope: proxy_group requires proxy_id to be omitted, with targets declared through Proxy.plugins'')]
       else []) @
      (if is_retired name
       then [plugin_error p (here @ '' uses the retired plugin_name: '' @ name @ dash @
               ''the gateway refuses to load any config mentioning '' @ join '' or '' RETIRED_PLUGIN_NAMES @
               ''; '' @ retired_remedy name)]
       else if is_reserved name
       then [plugin_error p (here @ '' uses the reserved plugin_name: '' @ name @
               ''; remove this hand-configured instance because the mesh data plane injects it when required'')]
       else if \<not> is_builtin name
       then [plugin_warning p (here @ '' uses plugin_name: '' @ name @ '', which is not a built-in plugin'' @ dash @
               ''the gateway logs it as unknown and applies no policy from it; fix the spelling or confirm the custom plugin is compiled into your gateway build'')]
       else if \<not> pc_enabled p then []
       else check_named_plugin p @ check_fail_open p))"

section \<open>The audit\<close>

definition has_exemption :: "policy_config option \<Rightarrow> proxy \<Rightarrow> bool" where
  "has_exemption policy p =
     (case policy of
        None \<Rightarrow> False
      | Some cfg \<Rightarrow>
          has_conditional_auth_exemption (pol_require_auth_plugin (pol_policies cfg)) (p_namespace p) (p_id p))"

definition check_consumer :: "consumer \<Rightarrow> security_finding list" where
  "check_consumer c = concat (map (check_credential c) (c_credentials c))"

definition check_upstream :: "upstream \<Rightarrow> security_finding list" where
  "check_upstream u =
     check_literal_service_discovery_secrets u @
     (if \<not> u_backend_tls_verify_server_cert u
      then [sec_warning ''Upstream'' (u_id u) (u_namespace u)
              (''upstream '' @ in_namespace (u_id u) (u_namespace u) @
               '' sets backend_tls_verify_server_cert: false'' @ dash @
               ''backend certificates are accepted unvalidated; trust the backend CA via backend_tls_server_ca_cert_path instead'')]
      else [])"

definition audit_security_with_scope ::
    "gateway_config \<Rightarrow> policy_config option \<Rightarrow> ownership_scope \<Rightarrow> security_finding list" where
  "audit_security_with_scope config policy scope =
     (let auth = effective_auth_allowlist policy in
      concat (map check_consumer (gc_consumers config)) @
      concat (map (\<lambda>p. check_proxy config p auth (has_exemption policy p) @
                       check_proxy_plugin_associations config p scope) (gc_proxies config)) @
      concat (map check_upstream (gc_upstreams config)) @
      concat (map (\<lambda>p. check_literal_plugin_config_secrets p @ check_plugin p) (gc_plugin_configs config)))"

definition audit_security_with_policy :: "gateway_config \<Rightarrow> policy_config option \<Rightarrow> security_finding list" where
  "audit_security_with_policy config policy = audit_security_with_scope config policy ownership_scope.Exclusive"

definition audit_security :: "gateway_config \<Rightarrow> security_finding list" where
  "audit_security config = audit_security_with_policy config None"

definition consumer_security_blockers :: "gateway_config \<Rightarrow> string \<Rightarrow> string \<Rightarrow> security_finding list" where
  "consumer_security_blockers config ns consumer_id =
     security_blockers (audit_security (gateway_config_default
       \<lparr>gc_consumers := filter (\<lambda>c. c_namespace c = ns \<and> c_id c = consumer_id) (gc_consumers config)\<rparr>))"

end
