(* ===== verification/PluginSecrets_Facts.thy ===== *)
theory PluginSecrets_Facts
  imports PluginSecrets
begin

text \<open>
  The collectors are characterised by \<open>value_at\<close>: a collected path is a path to a string.  From this the
  two guarantees of the classification follow: nothing of a custom plugin is dropped, and a string
  under a sensitive key is always treated as sensitive.
\<close>

section \<open>Paths to strings\<close>

lemma path_cases: obtains "p = []" | k q where "p = Key k # q" | i q where "p = Index i # q"
  by (cases p; cases "hd p") auto

lemma value_at_Key:
  "value_at v (Key k # q) = Some w \<longleftrightarrow> (\<exists>m c. v = JObject m \<and> bt_get m k = Some c \<and> value_at c q = Some w)"
  by (cases v) (auto split: option.splits)

lemma value_at_Index:
  "value_at v (Index i # q) = Some w \<longleftrightarrow> (\<exists>xs. v = JArray xs \<and> i < length xs \<and> value_at (xs ! i) q = Some w)"
  by (cases v) (auto split: option.splits)

lemma value_at_atom:
  "value_at (JString t) p = Some w \<longleftrightarrow> p = [] \<and> w = JString t"
  "value_at JNull p = Some w \<longleftrightarrow> p = [] \<and> w = JNull"
  "value_at (JBool b) p = Some w \<longleftrightarrow> p = [] \<and> w = JBool b"
  "value_at (JNumber n) p = Some w \<longleftrightarrow> p = [] \<and> w = JNumber n"
  by (cases p rule: path_cases; auto)+

lemma value_at_object:
  assumes "bt_wf m"
  shows "value_at (JObject m) p = Some w \<longleftrightarrow>
    p = [] \<and> w = JObject m \<or> (\<exists>e \<in> set m. \<exists>q. p = Key (fst e) # q \<and> value_at (snd e) q = Some w)"
proof -
  have "distinct (map fst m)" using assms by (simp add: bt_wf_def strict_sorted_iff)
  then have "bt_get m k = Some c \<longleftrightarrow> (k, c) \<in> set m" for k c by (simp add: bt_get_def)
  then show ?thesis
    by (cases p rule: path_cases) (force simp: value_at_Key value_at_Index simp del: value_at.simps(2,3))+
qed

lemma value_at_array:
  "value_at (JArray xs) p = Some w \<longleftrightarrow>
    p = [] \<and> w = JArray xs \<or>
    (\<exists>e \<in> set (List.enumerate 0 xs). \<exists>q. p = Index (fst e) # q \<and> value_at (snd e) q = Some w)"
  by (cases p rule: path_cases)
    (auto simp: value_at_Key value_at_Index in_set_enumerate_eq simp del: value_at.simps(2,3)
      intro!: bexI[of _ "(_, _)"])

definition string_at :: "json \<Rightarrow> config_path \<Rightarrow> bool" where
  "string_at v p = (case value_at v p of Some (JString _) \<Rightarrow> True | _ \<Rightarrow> False)"

lemma string_at_iff: "string_at v p \<longleftrightarrow> (\<exists>t. value_at v p = Some (JString t))"
  by (auto simp: string_at_def split: option.splits json.splits)

lemma string_at_atom [simp]:
  "string_at (JString t) p \<longleftrightarrow> p = []" "\<not> string_at JNull p" "\<not> string_at (JBool b) p"
  "\<not> string_at (JNumber n) p"
  by (auto simp: string_at_iff value_at_atom)

lemma string_at_object:
  "bt_wf m \<Longrightarrow> string_at (JObject m) p \<longleftrightarrow> (\<exists>e \<in> set m. \<exists>q. p = Key (fst e) # q \<and> string_at (snd e) q)"
  by (auto simp: string_at_iff value_at_object)

lemma string_at_array:
  "string_at (JArray xs) p \<longleftrightarrow> (\<exists>e \<in> set (List.enumerate 0 xs). \<exists>q. p = Index (fst e) # q \<and> string_at (snd e) q)"
  by (auto simp: string_at_iff value_at_array)

lemma json_wf_object: "json_wf (JObject m) \<Longrightarrow> bt_wf m"
  and json_wf_field: "json_wf (JObject m) \<Longrightarrow> f \<in> set m \<Longrightarrow> json_wf (snd f)"
  by (auto simp: list_all_iff)

lemma json_wf_item: "json_wf (JArray xs) \<Longrightarrow> e \<in> set (List.enumerate k xs) \<Longrightarrow> json_wf (snd e)"
  by (auto simp: list_all_iff dest: enumerate_snd)

lemma collect_string_paths_iff:
  "json_wf v \<Longrightarrow> q \<in> set (collect_string_paths v current) \<longleftrightarrow> (\<exists>p. q = current @ p \<and> string_at v p)"
proof (induction v current arbitrary: q rule: collect_string_paths.induct)
  case (2 m current)
  have "q \<in> set (collect_string_paths (snd e) (current @ [Key (fst e)])) \<longleftrightarrow>
      (\<exists>p. q = current @ Key (fst e) # p \<and> string_at (snd e) p)" if "e \<in> set m" for e
    using 2(1)[OF that json_wf_field[OF 2(2) that]] by simp
  then show ?case by (simp add: string_at_object[OF json_wf_object[OF 2(2)]]) blast
next
  case (3 xs current)
  have "q \<in> set (collect_string_paths (snd e) (current @ [Index (fst e)])) \<longleftrightarrow>
      (\<exists>p. q = current @ Index (fst e) # p \<and> string_at (snd e) p)" if "e \<in> set (List.enumerate 0 xs)" for e
    using 3(1)[OF that json_wf_item[OF 3(2) that]] by simp
  then show ?case by (simp add: string_at_array) blast
qed auto

lemma collect_heuristic_paths_sub:
  "set (collect_heuristic_paths b v current) \<subseteq> set (collect_string_paths v current)"
proof (induction b v current rule: collect_heuristic_paths.induct)
  case (1 b m current)
  then show ?case by (simp add: UN_subset_iff) fast
next
  case (2 b xs current)
  then show ?case by (simp add: UN_mono)
qed auto

text \<open>A string below a key the heuristics flag is found.\<close>

definition flagged :: "bool \<Rightarrow> string \<Rightarrow> bool" where
  "flagged b k = (is_sensitive_key k \<or> is_header_container k \<or> b \<and> builtin_match k)"

lemma collect_heuristic_paths_finds:
  "json_wf v \<Longrightarrow> string_at v p \<Longrightarrow> Key k \<in> set p \<Longrightarrow> flagged b k \<Longrightarrow>
   current @ p \<in> set (collect_heuristic_paths b v current)"
proof (induction b v current arbitrary: p rule: collect_heuristic_paths.induct)
  case (1 b m current)
  from 1(3) obtain e q where e: "e \<in> set m" "p = Key (fst e) # q" "string_at (snd e) q"
    by (auto simp: string_at_object[OF json_wf_object[OF 1(2)]])
  have wf: "json_wf (snd e)" by (rule json_wf_field[OF 1(2) e(1)])
  show ?case
  proof (cases "flagged b (fst e)")
    case True
    then have "current @ p \<in> set (collect_string_paths (snd e) (current @ [Key (fst e)]))"
      using e by (simp add: collect_string_paths_iff[OF wf])
    then show ?thesis using True e(1) by (auto simp: flagged_def intro!: bexI[of _ e])
  next
    case False
    then have k: "Key k \<in> set q" using 1(4,5) e(2) by auto
    have "\<not> (is_sensitive_key (fst e) \<or> is_header_container (fst e) \<or> b \<and> builtin_match (fst e))"
      using False by (simp add: flagged_def)
    from 1(1)[OF e(1) this wf e(3) k 1(5)] show ?thesis
      using False e by (auto simp: flagged_def intro!: bexI[of _ e])
  qed
next
  case (2 b xs current)
  from 2(3) obtain e q where e: "e \<in> set (List.enumerate 0 xs)" "p = Index (fst e) # q" "string_at (snd e) q"
    by (auto simp: string_at_array)
  have k: "Key k \<in> set q" using 2(4) e(2) by simp
  from 2(1)[OF e(1) json_wf_item[OF 2(2) e(1)] e(3) k 2(5)] show ?case
    using e by (auto intro!: bexI[of _ e])
qed auto

section \<open>The classification\<close>

lemma string_paths: "json_wf v \<Longrightarrow> set (path_set_extend [] (collect_string_paths v [])) = {p. string_at v p}"
  by (auto simp: collect_string_paths_iff)

lemma classify_rules_ordinary:
  "(\<forall>p \<in> set (snd acc). is_short_string config p) \<Longrightarrow>
   \<forall>p \<in> set (snd (fold (classify_rule config) rules acc)). is_short_string config p"
proof (induction rules arbitrary: acc)
  case (Cons r rules)
  have "\<forall>p \<in> set (snd (classify_rule config r acc)). is_short_string config p"
    using Cons.prems by (auto simp: classify_rule_def Let_def split: prod.splits)
  then show ?case by (simp add: Cons.IH)
qed simp

text \<open>
  A custom plugin (one that is no built-in) loses no string to the import: for a configuration
  that is an object, the strings moved into the broker and those reported for review are disjoint
  and together are exactly the strings of the document.
\<close>

theorem custom_strings_accounted:
  assumes "json_wf config" and "as_object config \<noteq> None" and "\<not> is_builtin plugin_name"
  shows "set (pcc_sensitive (classify_plugin_config plugin_name config)) \<union>
      set (pcc_unbrokered (classify_plugin_config plugin_name config)) = {p. string_at config p} \<and>
    set (pcc_sensitive (classify_plugin_config plugin_name config)) \<inter>
      set (pcc_unbrokered (classify_plugin_config plugin_name config)) = {}"
proof -
  have sub: "set (collect_heuristic_paths False config []) \<subseteq> {p. string_at config p}"
    using collect_heuristic_paths_sub[of False config "[]"] by (auto simp: collect_string_paths_iff[OF assms(1)])
  show ?thesis
    using assms sub string_paths[OF assms(1)]
    by (auto simp: classify_plugin_config_def is_object_or_null_def Let_def)
qed

theorem custom_strings_accounted_witness:
  "let c = classify_plugin_config ''acme''
       (JObject [(''api_key'', JString ''live''), (''mode'', JString ''strict'')]) in
     {p. string_at (JObject [(''api_key'', JString ''live''), (''mode'', JString ''strict'')]) p} =
       set (pcc_sensitive c) \<union> set (pcc_unbrokered c) \<and>
     pcc_sensitive c = [[Key ''api_key'']] \<and> pcc_unbrokered c = [[Key ''mode'']]"
proof -
  let ?v = "JObject [(''api_key'', JString ''live''), (''mode'', JString ''strict'')]"
  have h: "json_wf ?v" "as_object ?v \<noteq> None" "\<not> is_builtin ''acme''" by code_simp+
  have e: "pcc_sensitive (classify_plugin_config ''acme'' ?v) = [[Key ''api_key'']]"
    "pcc_unbrokered (classify_plugin_config ''acme'' ?v) = [[Key ''mode'']]"
    by code_simp+
  show ?thesis unfolding Let_def using custom_strings_accounted[OF h] e by (simp only: e simp_thms)
qed

text \<open>
  The strings that every consumer of the classification (redaction, the security audit, the
  scrubber) treats as sensitive.
\<close>

lemma sensitive_key_covered:
  assumes "json_wf config" and "string_at config p" and "Key k \<in> set p" and "is_sensitive_key k"
    and "\<not> is_short_string config p"
  shows "p \<in> set (sensitive_string_paths plugin_name config)"
proof -
  have found: "p \<in> set (collect_heuristic_paths b config [])" for b
    using collect_heuristic_paths_finds[OF assms(1-3), of b "[]"] assms(4) by (simp add: flagged_def)
  show ?thesis
  proof (cases "is_object_or_null config")
    case False
    then show ?thesis
      using assms(1,2)
      by (simp add: sensitive_string_paths_def classify_plugin_config_def Let_def collect_string_paths_iff)
  next
    case True
    show ?thesis
    proof (cases "is_builtin plugin_name")
      case False
      then show ?thesis
        using True found by (simp add: sensitive_string_paths_def classify_plugin_config_def Let_def)
    next
      case b: True
      obtain sensitive ordinary where
        f: "fold (classify_rule config) (rules_for plugin_name) ([], []) = (sensitive, ordinary)"
        by (cases "fold (classify_rule config) (rules_for plugin_name) ([], [])")
      have "p \<notin> set ordinary"
        using classify_rules_ordinary[of "([], [])" config "rules_for plugin_name"] assms(5) by (auto simp: f)
      then show ?thesis
        using True b found
        by (simp add: sensitive_string_paths_def classify_plugin_config_def Let_def f)
    qed
  qed
qed

end
