(* ===== verification/Security_Facts.thy ===== *)
theory Security_Facts
  imports Security PluginSecrets_Facts
begin

text \<open>
  What a security audit without a blocking finding guarantees: no secret that the program can
  recognise is committed in the configuration.
\<close>

section \<open>Blocking findings\<close>

lemma sec_severity_simps [simp]:
  "sec_severity (security_finding_new s k i n m) = s" "sec_severity (sec_error k i n m) = BLOCKING_SEVERITY"
  by (simp_all add: security_finding_new_def sec_error_def)

definition no_blocker :: "security_finding list \<Rightarrow> bool" where
  "no_blocker findings = (security_blockers findings = [])"

lemma no_blocker_simps [simp]:
  "no_blocker []" "no_blocker (xs @ ys) \<longleftrightarrow> no_blocker xs \<and> no_blocker ys"
  "no_blocker (concat xss) \<longleftrightarrow> (\<forall>xs \<in> set xss. no_blocker xs)"
  "no_blocker (sec_error k i n m # xs) \<longleftrightarrow> False"
  by (auto simp: no_blocker_def security_blockers_def filter_concat)

lemma no_blocker_map_error: "no_blocker (map (\<lambda>x. sec_error (k x) (i x) (n x) (m x)) xs) \<longleftrightarrow> xs = []"
  by (cases xs) simp_all

section \<open>Credentials\<close>

text \<open>The key a location is classified by: the last object key on the way, array indices aside.\<close>

fun last_key :: "string option \<Rightarrow> config_path \<Rightarrow> string option" where
  "last_key leaf [] = leaf"
| "last_key leaf (Key k # p) = last_key (Some k) p"
| "last_key leaf (Index i # p) = last_key leaf p"

fun is_scalar :: "json \<Rightarrow> bool" where
  "is_scalar (JString _) = True"
| "is_scalar (JNumber _) = True"
| "is_scalar (JBool _) = True"
| "is_scalar _ = False"

text \<open>Every scalar that is not an identity is a placeholder.\<close>

definition scalar_ok :: "string \<Rightarrow> string option \<Rightarrow> json \<Rightarrow> bool" where
  "scalar_ok ctype leaf w =
     (is_scalar w \<and> \<not> is_identity_credential_leaf ctype leaf \<longrightarrow> (\<exists>s. w = JString s \<and> is_placeholder s))"

definition brokered :: "string \<Rightarrow> string option \<Rightarrow> json \<Rightarrow> bool" where
  "brokered ctype leaf v = (\<forall>p w. value_at v p = Some w \<longrightarrow> scalar_ok ctype (last_key leaf p) w)"

lemma scalar_ok_container: "scalar_ok ctype leaf (JObject m)" "scalar_ok ctype leaf (JArray xs)"
  by (simp_all add: scalar_ok_def)

lemma brokered_object:
  assumes "bt_wf m"
  shows "brokered ctype leaf (JObject m) \<longleftrightarrow> (\<forall>e \<in> set m. brokered ctype (Some (fst e)) (snd e))"
  unfolding brokered_def value_at_object[OF assms]
  by (rule iffI; metis last_key.simps(2) scalar_ok_container(1))

lemma brokered_array:
  "brokered ctype leaf (JArray xs) \<longleftrightarrow> (\<forall>e \<in> set (List.enumerate 0 xs). brokered ctype leaf (snd e))"
  unfolding brokered_def value_at_array
  by (rule iffI; metis last_key.simps(3) scalar_ok_container(2))

lemma check_literal_credentials_iff:
  "json_wf v \<Longrightarrow> no_blocker (check_literal_credentials cid ns ctype path leaf v) \<longleftrightarrow> brokered ctype leaf v"
proof (induction cid ns ctype path leaf v rule: check_literal_credentials.induct)
  case (4 cid ns ctype path leaf m)
  then show ?case by (simp add: brokered_object[OF json_wf_object[OF 4(2)]] json_wf_field[OF 4(2)])
next
  case (5 cid ns ctype path leaf xs)
  then show ?case by (simp add: brokered_array json_wf_item[OF 5(2)])
qed (auto simp: brokered_def value_at_atom scalar_ok_def literal_credential_finding_def)

section \<open>Discovery\<close>

definition discovery_clean :: "upstream \<Rightarrow> bool" where
  "discovery_clean u =
     (case u_service_discovery u of
        None \<Rightarrow> True
      | Some d \<Rightarrow>
          (case sd_consul d of
             None \<Rightarrow> True
           | Some c \<Rightarrow> split_url_userinfo (consul_address c) = None \<and>
               (case consul_token c of None \<Rightarrow> True | Some t \<Rightarrow> is_placeholder t)))"

lemma discovery_clean_iff: "no_blocker (check_literal_service_discovery_secrets u) \<longleftrightarrow> discovery_clean u"
proof -
  have "present_secrets u = (case u_service_discovery u of None \<Rightarrow> []
      | Some d \<Rightarrow> (case Option.bind (sd_consul d) consul_token of None \<Rightarrow> []
          | Some t \<Rightarrow> [(hd SD_SECRET_FIELDS, t)]))"
    by (auto simp: present_secrets_def SD_SECRET_FIELDS_def secret_leaf_def List.map_filter_simps split: option.splits)
  then show ?thesis
    by (auto simp: check_literal_service_discovery_secrets_def discovery_clean_def split_beta
        no_blocker_map_error consul_address_has_userinfo_def consul_address_userinfo_def filter_empty_conv
        split: option.splits)
qed

section \<open>Plugins\<close>

definition plugin_strings_clean :: "plugin_config \<Rightarrow> bool" where
  "plugin_strings_clean q =
     (\<forall>p \<in> set (sensitive_string_paths (pc_plugin_name q) (pc_config q)). \<not> is_literal_at (pc_config q) p)"

lemma plugin_strings_clean_iff: "no_blocker (check_literal_plugin_config_secrets q) \<longleftrightarrow> plugin_strings_clean q"
  by (simp add: check_literal_plugin_config_secrets_def no_blocker_map_error filter_empty_conv plugin_strings_clean_def)

text \<open>
  In particular a string of at least eight bytes under a key that names a secret is a placeholder,
  at any depth, in a built-in or a custom plugin, enabled or not.
\<close>

definition named_secrets_brokered :: "json \<Rightarrow> bool" where
  "named_secrets_brokered config =
     (\<forall>p k t. value_at config p = Some (JString t) \<and> Key k \<in> set p \<and> is_sensitive_key k \<and>
        MIN_SCRUB_LENGTH \<le> length t \<longrightarrow> is_placeholder t)"

lemma clean_named_secrets:
  assumes "json_wf (pc_config q)" and "plugin_strings_clean q"
  shows "named_secrets_brokered (pc_config q)"
  unfolding named_secrets_brokered_def
proof (intro allI impI, elim conjE)
  fix p k t
  assume t: "value_at (pc_config q) p = Some (JString t)" and k: "Key k \<in> set p" "is_sensitive_key k"
    and len: "MIN_SCRUB_LENGTH \<le> length t"
  have "p \<in> set (sensitive_string_paths (pc_plugin_name q) (pc_config q))"
    by (rule sensitive_key_covered[OF assms(1) _ k]) (use t len in \<open>simp_all add: string_at_iff is_short_string_def\<close>)
  then show "is_placeholder t"
    using assms(2) t by (auto simp: plugin_strings_clean_def is_literal_at_def)
qed

section \<open>The audit\<close>

lemma audit_members:
  assumes "no_blocker (audit_security_with_scope config policy scope)"
  shows "c \<in> set (gc_consumers config) \<Longrightarrow> e \<in> set (c_credentials c) \<Longrightarrow> no_blocker (check_credential c e)"
    and "u \<in> set (gc_upstreams config) \<Longrightarrow> no_blocker (check_upstream u)"
    and "q \<in> set (gc_plugin_configs config) \<Longrightarrow> no_blocker (check_literal_plugin_config_secrets q)"
  using assms by (auto simp: audit_security_with_scope_def Let_def check_consumer_def)

text \<open>
  C32.  An audit without a blocking finding means that no recognisable secret is committed: every
  credential type is one the gateway knows, every scalar of a credential that is not an identity
  (a basic-auth user name, a certificate identity) is a broker placeholder, no Consul address
  carries URL credentials and a Consul token is a placeholder, every string the plugin
  classification calls sensitive is a placeholder, and so is any string of eight bytes or more
  below a key that names a secret, in any plugin.
\<close>

theorem clean_audit_no_committed_secret:
  assumes "security_blockers (audit_security_with_scope config policy scope) = []"
    and "\<And>c e. c \<in> set (gc_consumers config) \<Longrightarrow> e \<in> set (c_credentials c) \<Longrightarrow> json_wf (snd e)"
    and "\<And>q. q \<in> set (gc_plugin_configs config) \<Longrightarrow> json_wf (pc_config q)"
  shows "(\<forall>c \<in> set (gc_consumers config). \<forall>e \<in> set (c_credentials c).
       is_known_credential_type (fst e) \<and> brokered (fst e) None (snd e)) \<and>
    (\<forall>u \<in> set (gc_upstreams config). discovery_clean u) \<and>
    (\<forall>q \<in> set (gc_plugin_configs config). plugin_strings_clean q \<and> named_secrets_brokered (pc_config q))"
proof -
  have nb: "no_blocker (audit_security_with_scope config policy scope)"
    using assms(1) by (simp add: no_blocker_def)
  have "is_known_credential_type (fst e) \<and> brokered (fst e) None (snd e)"
    if "c \<in> set (gc_consumers config)" "e \<in> set (c_credentials c)" for c e
    using audit_members(1)[OF nb that] check_literal_credentials_iff[OF assms(2)[OF that]]
    by (auto simp: check_credential_def split: prod.splits if_splits)
  moreover have "discovery_clean u" if "u \<in> set (gc_upstreams config)" for u
    using audit_members(2)[OF nb that] by (simp add: check_upstream_def discovery_clean_iff)
  moreover have "plugin_strings_clean q \<and> named_secrets_brokered (pc_config q)"
    if "q \<in> set (gc_plugin_configs config)" for q
    using audit_members(3)[OF nb that] clean_named_secrets[OF assms(3)[OF that]]
    by (simp add: plugin_strings_clean_iff)
  ultimately show ?thesis by blast
qed

definition sample_consumer :: consumer where
  "sample_consumer = \<lparr>c_labels = [], c_id = ''app'', c_username = ''app'', c_namespace = ''shop'',
     c_custom_id = None,
     c_credentials =
       [(''basicauth'', JArray [JObject [(''password'', JString ''${gh-env-secret:alloc=generate}''),
                                        (''username'', JString ''app'')]])],
     c_acl_groups = [], c_created_at = None, c_updated_at = None, c_extra = []\<rparr>"

definition sample_plugin :: plugin_config where
  "sample_plugin = (bare_plugin_config ''shop'' ''trace'' ''otel_tracing'')\<lparr>pc_config :=
     JObject [(''headers'', JObject [(''x-team'', JString ''${gh-env-secret:}'')])]\<rparr>"

definition brokered_config :: gateway_config where
  "brokered_config = gateway_config_default\<lparr>
     gc_consumers := [sample_consumer],
     gc_plugin_configs := [sample_plugin]\<rparr>"

lemma brokered_config_audit:
  "security_blockers (audit_security_with_scope brokered_config None ownership_scope.Exclusive) = []"
proof -
  have "check_consumer sample_consumer = []" by code_simp
  moreover have "check_literal_plugin_config_secrets sample_plugin = []" by code_simp
  moreover have "check_plugin sample_plugin = []" by code_simp
  ultimately show ?thesis
    by (simp add: audit_security_with_scope_def brokered_config_def gateway_config_default_def
        security_blockers_def Let_def)
qed

theorem clean_audit_no_committed_secret_witness:
  "brokered ''basicauth'' None (snd (hd (c_credentials sample_consumer)))"
proof -
  have wf: "list_all (\<lambda>c. list_all (\<lambda>e. json_wf (snd e)) (c_credentials c)) (gc_consumers brokered_config)"
    "list_all (\<lambda>q. json_wf (pc_config q)) (gc_plugin_configs brokered_config)"
    by code_simp+
  have "\<forall>c \<in> set (gc_consumers brokered_config). \<forall>e \<in> set (c_credentials c). brokered (fst e) None (snd e)"
    using clean_audit_no_committed_secret[OF brokered_config_audit] wf by (auto simp: list_all_iff)
  then show ?thesis
    by (simp add: brokered_config_def sample_consumer_def)
qed

end
