(* ===== verification/Slot.thy ===== *)
theory Slot
  imports PluginSecrets
begin

text \<open>
  Names of broker slots (\<open>secrets/resolver.rs\<close>, \<open>secrets/service_discovery.rs\<close>).  A slot is the
  \<open>/\<close>-joined path of a secret leaf: namespace, resource id, kind and the location of the leaf.  The
  canonical spelling drops array index 0; the older spellings are only read.
\<close>

section \<open>Components\<close>

datatype slot_component = Literal string | ArrayIndex nat

definition escape_byte :: "char \<Rightarrow> string" where
  "escape_byte c =
     (if c = CHR ''~'' then ''~0'' else if c = CHR ''/'' then ''~1'' else if c = CHR ''['' then ''~2'' else [c])"

definition escape_slot_component :: "string \<Rightarrow> string" where
  "escape_slot_component s = concat (map escape_byte s)"

fun unescape_slot_component :: "string \<Rightarrow> string" where
  "unescape_slot_component [] = []"
| "unescape_slot_component (c # s) =
     (if c \<noteq> CHR ''~'' then c # unescape_slot_component s
      else (case s of
          [] \<Rightarrow> ''~''
        | d # r \<Rightarrow>
            (if d = CHR ''0'' then ''~'' else if d = CHR ''1'' then ''/''
             else if d = CHR ''2'' then ''['' else [CHR ''~'', d]) @ unescape_slot_component r))"

definition credential_type_from_slot :: "string \<Rightarrow> string option" where
  "credential_type_from_slot slot =
     (case drop 2 (split_on CHR ''/'' slot) of [] \<Rightarrow> None | t # _ \<Rightarrow> Some (unescape_slot_component t))"

definition index_segment :: "nat \<Rightarrow> string" where
  "index_segment n = ''['' @ show_nat n @ '']''"

fun encode_component :: "slot_component \<Rightarrow> string" where
  "encode_component (Literal s) = escape_slot_component s"
| "encode_component (ArrayIndex n) = index_segment n"

definition is_elided :: "slot_component \<Rightarrow> bool" where
  "is_elided c = (c = ArrayIndex 0)"

definition join_slot_components :: "slot_component list \<Rightarrow> string" where
  "join_slot_components cs = join ''/'' (map encode_component (filter (\<lambda>c. \<not> is_elided c) cs))"

definition join_slot_components_verbatim :: "slot_component list \<Rightarrow> string" where
  "join_slot_components_verbatim cs = join ''/'' (map encode_component cs)"

section \<open>Older spellings\<close>

definition legacy_identity_is_unambiguous :: "string \<Rightarrow> bool" where
  "legacy_identity_is_unambiguous s = (CHR ''/'' \<notin> set s \<and> CHR ''~'' \<notin> set s)"

definition legacy_path_key_is_unambiguous :: "string \<Rightarrow> bool" where
  "legacy_path_key_is_unambiguous s =
     (legacy_identity_is_unambiguous s \<and> CHR ''.'' \<notin> set s \<and> CHR ''['' \<notin> set s \<and> CHR '']'' \<notin> set s)"

definition legacy_path_step :: "bool \<Rightarrow> slot_component \<Rightarrow> string \<Rightarrow> (unit, string) result" where
  "legacy_path_step keep_index_zero c path =
     (case c of
        Literal s \<Rightarrow> if legacy_path_key_is_unambiguous s then Inr (path @ ''.'' @ s) else Inl ()
      | ArrayIndex i \<Rightarrow> if i = 0 \<and> \<not> keep_index_zero then Inr path else Inr (path @ index_segment i))"

fun legacy_slot_from_components :: "slot_component list \<Rightarrow> bool \<Rightarrow> string option" where
  "legacy_slot_from_components (Literal ns # Literal cid # Literal kind # c # cs) keep_index_zero =
     (if legacy_identity_is_unambiguous ns \<and> legacy_identity_is_unambiguous cid \<and>
         legacy_path_key_is_unambiguous kind
      then (case fold_result (legacy_path_step keep_index_zero) (c # cs) kind of
              Inr path \<Rightarrow> Some (ns @ ''/'' @ cid @ ''/'' @ path)
            | Inl _ \<Rightarrow> None)
      else None)"
| "legacy_slot_from_components _ _ = None"

definition push_new :: "'a option \<Rightarrow> 'a list \<Rightarrow> 'a list" where
  "push_new x xs = (case x of None \<Rightarrow> xs | Some y \<Rightarrow> if y \<in> set xs then xs else xs @ [y])"

definition slot_lookup_candidates :: "slot_component list \<Rightarrow> string list" where
  "slot_lookup_candidates cs =
     push_new (legacy_slot_from_components cs True)
       (push_new (legacy_slot_from_components cs False)
         (push_new (Some (join_slot_components_verbatim cs)) [join_slot_components cs]))"

section \<open>Building slots\<close>

text \<open>\<open>parse::<usize>\<close> refuses a number that does not fit 64 bits.\<close>

definition parse_index_segment :: "string \<Rightarrow> nat option" where
  "parse_index_segment piece =
     (case Option.bind (strip_prefix ''['' piece) (strip_suffix '']'') of
        None \<Rightarrow> None
      | Some digits \<Rightarrow>
          if digits \<noteq> [] \<and> list_all is_ascii_digit digits then map_option unat (parse_u64 digits) else None)"

definition slot_path :: "string \<Rightarrow> string \<Rightarrow> string \<Rightarrow> string" where
  "slot_path ns consumer_id cred_key =
     join_slot_components (Literal ns # Literal consumer_id #
       map (\<lambda>piece. case parse_index_segment piece of Some i \<Rightarrow> ArrayIndex i | None \<Rightarrow> Literal piece)
         (split_on CHR ''/'' cred_key))"

fun config_slot_component :: "config_path_component \<Rightarrow> slot_component" where
  "config_slot_component (Key k) = Literal k"
| "config_slot_component (Index i) = ArrayIndex i"

definition consumer_slot_components ::
    "string \<Rightarrow> string \<Rightarrow> string \<Rightarrow> config_path \<Rightarrow> slot_component list" where
  "consumer_slot_components ns consumer_id credential_type path =
     Literal ns # Literal consumer_id # Literal credential_type # map config_slot_component path"

definition consumer_credential_slot :: "string \<Rightarrow> string \<Rightarrow> string \<Rightarrow> config_path \<Rightarrow> string" where
  "consumer_credential_slot ns consumer_id credential_type path =
     join_slot_components (consumer_slot_components ns consumer_id credential_type path)"

definition PLUGIN_CONFIG_SLOT_KIND :: string where
  "PLUGIN_CONFIG_SLOT_KIND = ''@plugin''"

definition RETIRED_TYPELESS_PLUGIN_CONFIG_SLOT_KIND :: string where
  "RETIRED_TYPELESS_PLUGIN_CONFIG_SLOT_KIND = ''@plugin-config''"

definition SERVICE_DISCOVERY_SLOT_KIND :: string where
  "SERVICE_DISCOVERY_SLOT_KIND = ''@service-discovery''"

definition plugin_config_cred_key :: "string \<Rightarrow> config_path \<Rightarrow> string" where
  "plugin_config_cred_key plugin_name path =
     join ''/'' (PLUGIN_CONFIG_SLOT_KIND # escape_slot_component plugin_name # ''config'' #
       map (\<lambda>c. encode_component (config_slot_component c)) path)"

definition plugin_config_slot :: "string \<Rightarrow> string \<Rightarrow> string \<Rightarrow> config_path \<Rightarrow> string" where
  "plugin_config_slot ns plugin_id plugin_name path =
     escape_slot_component ns @ ''/'' @ escape_slot_component plugin_id @ ''/'' @
       plugin_config_cred_key plugin_name path"

definition discovery_slot :: "string \<Rightarrow> string \<Rightarrow> string list \<Rightarrow> string" where
  "discovery_slot ns upstream_id path =
     join ''/'' (escape_slot_component ns # escape_slot_component upstream_id #
       escape_slot_component SERVICE_DISCOVERY_SLOT_KIND # map escape_slot_component path)"

definition discovery_cred_key :: "string list \<Rightarrow> string" where
  "discovery_cred_key path = join ''/'' (SERVICE_DISCOVERY_SLOT_KIND # map escape_slot_component path)"

section \<open>Reading a stored slot back\<close>

definition is_slot_under :: "string \<Rightarrow> string \<Rightarrow> bool" where
  "is_slot_under slot prefix =
     (case strip_prefix prefix slot of None \<Rightarrow> False | Some rest \<Rightarrow> rest = [] \<or> starts_with rest ''/'')"

text \<open>\<open>legacy_entry_index\<close>: \<open><prefix>.<leaf>\<close> is entry 0, \<open><prefix>[N]\<close> followed by nothing, \<open>.\<close> or \<open>[\<close> is entry N.\<close>

definition legacy_entry_index :: "string \<Rightarrow> string \<Rightarrow> nat option" where
  "legacy_entry_index slot prefix =
     (case strip_prefix prefix slot of
        None \<Rightarrow> None
      | Some rest \<Rightarrow>
          (case strip_prefix ''.'' rest of
             Some leaf \<Rightarrow> if leaf \<noteq> [] then Some 0 else None
           | None \<Rightarrow>
               if CHR '']'' \<in> set rest
               then (let upto = takeWhile (\<lambda>b. b \<noteq> CHR '']'') rest @ '']'';
                         after = tl (dropWhile (\<lambda>b. b \<noteq> CHR '']'') rest) in
                     case parse_index_segment upto of
                       None \<Rightarrow> None
                     | Some index \<Rightarrow>
                         if after = [] \<or> starts_with after ''.'' \<or> starts_with after ''[''
                         then Some index else None)
               else None))"

definition entry_index_of_suffix :: "string \<Rightarrow> nat" where
  "entry_index_of_suffix rest =
     (case parse_index_segment (hd (split_on CHR ''/'' rest)) of Some i \<Rightarrow> i | None \<Rightarrow> 0)"

definition legacy_array_prefixes :: "slot_component list \<Rightarrow> string list" where
  "legacy_array_prefixes cs =
     (case cs of
        Literal ns # Literal cid # Literal kind # rest \<Rightarrow>
          if starts_with kind ''@'' then []
          else if rest = []
          then (if legacy_identity_is_unambiguous ns \<and> legacy_identity_is_unambiguous cid \<and>
                   legacy_path_key_is_unambiguous kind
                then [ns @ ''/'' @ cid @ ''/'' @ kind] else [])
          else push_new (legacy_slot_from_components cs True)
                 (push_new (legacy_slot_from_components cs False) [])
      | _ \<Rightarrow> [])"

end
