(* ===== verification/SlotReport.thy ===== *)
theory SlotReport
  imports Slot Security Ledger
begin

text \<open>
  What a resolution of broker slots reports (\<open>secrets/resolver.rs\<close>): the status of each slot, the
  advisories, and the slot remaps - stored values that a change of the documents would hand to
  another credential.  The bundle is the merged map from slots to values.
\<close>

section \<open>Reports\<close>

type_synonym credential_bundle = "(string, string) btree_map"

datatype gateway_mode = ApiMode | FileMode

datatype slot_status = SlotResolved | NeedsAllocation | MissingRequired

datatype resolve_error = ConfigError string | CredentialSlotRemap string

record resolve_result =
  rs_consumer_id :: string
  rs_namespace :: string
  rs_cred_key :: string
  rs_slot :: string
  rs_placeholder :: secret_placeholder
  rs_status :: slot_status

record resolve_report =
  rr_results :: "resolve_result list"
  rr_warnings :: "string list"
  rr_slot_remaps :: "string list"
  rr_slot_credential_types :: "(string, string) btree_map"
  rr_endpoint_slots :: "string list"

definition empty_report :: resolve_report where
  "empty_report = \<lparr>rr_results = [], rr_warnings = [], rr_slot_remaps = [],
     rr_slot_credential_types = [], rr_endpoint_slots = []\<rparr>"

definition with_status :: "slot_status \<Rightarrow> resolve_report \<Rightarrow> resolve_result list" where
  "with_status st report = filter (\<lambda>r. rs_status r = st) (rr_results report)"

definition needs_allocation :: "resolve_report \<Rightarrow> resolve_result list" where
  "needs_allocation report = with_status NeedsAllocation report"

definition missing_required :: "resolve_report \<Rightarrow> resolve_result list" where
  "missing_required report = with_status MissingRequired report"

definition unresolved :: "resolve_report \<Rightarrow> resolve_result list" where
  "unresolved report = filter (\<lambda>r. rs_status r \<noteq> SlotResolved) (rr_results report)"

definition without_namespaces :: "string list \<Rightarrow> resolve_report \<Rightarrow> resolve_report" where
  "without_namespaces nss report =
     report\<lparr>rr_results := filter (\<lambda>r. rs_namespace r \<notin> set nss) (rr_results report)\<rparr>"

definition credential_type_for :: "resolve_report \<Rightarrow> string \<Rightarrow> string option" where
  "credential_type_for report slot = bt_get (rr_slot_credential_types report) slot"

definition unresolved_comparison_note :: "resolve_report \<Rightarrow> string option" where
  "unresolved_comparison_note report =
     (let count = length (unresolved report) in
      if count = 0 then None
      else Some (show_nat count @
        '' broker-controlled leaf/leaves remain unresolved. Authoritative live comparisons exclude only unresolved leaves in Consumer credentials, plugin config and service-discovery secrets; resolved values, literal siblings, extra entries, shape changes and nonsecret fields are still compared.''))"

definition push_warning :: "resolve_report \<Rightarrow> string \<Rightarrow> resolve_report" where
  "push_warning report message =
     (if message \<in> set (rr_warnings report) then report
      else report\<lparr>rr_warnings := rr_warnings report @ [message]\<rparr>)"

definition push_slot_remap :: "resolve_report \<Rightarrow> string \<Rightarrow> resolve_report" where
  "push_slot_remap report message =
     (if message \<in> set (rr_slot_remaps report) then report
      else report\<lparr>rr_slot_remaps := rr_slot_remaps report @ [message]\<rparr>)"

definition classify_status :: "secret_placeholder \<Rightarrow> string option \<Rightarrow> slot_status" where
  "classify_status placeholder existing =
     (case existing of
        Some _ \<Rightarrow> SlotResolved
      | None \<Rightarrow> (case sp_alloc placeholder of Require \<Rightarrow> MissingRequired | _ \<Rightarrow> NeedsAllocation))"

definition ellipsis :: string where
  "ellipsis = [CHR 0xE2, CHR 0x80, CHR 0xA6]"

definition entries_word :: "nat \<Rightarrow> string" where
  "entries_word n = show_nat n @ '' entr'' @ (if n = 1 then ''y'' else ''ies'')"

section \<open>The slots of an array\<close>

fun contains_placeholder :: "json \<Rightarrow> bool" where
  "contains_placeholder (JString s) = (parse_placeholder s \<noteq> None)"
| "contains_placeholder (JObject m) = list_ex (\<lambda>e. contains_placeholder (snd e)) m"
| "contains_placeholder (JArray items) = list_ex contains_placeholder items"
| "contains_placeholder _ = False"

definition array_order_message :: "string \<Rightarrow> nat \<Rightarrow> string" where
  "array_order_message prefix n =
     ''credential array '' @ quote prefix @ '' has '' @ show_nat n @
     '' entries and entry ORDER is the slot identity (entry 0 uses the unindexed slot, later entries use '' @
     quote ''[1]'' @ '', '' @ quote ''[2]'' @ '', '' @ ellipsis @
     ''). Removing or reordering an entry reassigns the retired slot'' @ [CHR 0x27] @
     ''s value to whichever entry shifts into its index. Before changing the array, rotate affected Consumer slots and update the private bundle to move surviving values to their new canonical slots and remove vacated keys.''"

definition orphaned_entry_message :: "string \<Rightarrow> string \<Rightarrow> nat \<Rightarrow> nat \<Rightarrow> string" where
  "orphaned_entry_message slot prefix n index =
     ''credential slot '' @ quote slot @
     '' is orphaned: the credential bundle still holds a value for it, but array '' @ quote prefix @
     '' now has '' @ entries_word n @ '' (entry index '' @ show_nat index @
     '' no longer exists). Slot identity is positional, so the entry that shifted into a vacated index has inherited a retired credential, and re-growing the array would resurrect this value for a new entry. Rotation replaces the value and sends it to the gateway but does not remove the bundle key. Before shrinking or shifting the array, update the private bundle to move surviving rotated values to their new canonical slots and remove vacated keys, preserving unrelated entries '' @
     em_dash @ '' or pass --allow-credential-slot-remap to accept the reassignment.''"

text \<open>The array entry a stored slot belongs to, in any spelling the lookup still reads.\<close>

definition array_entry_index :: "slot_component list \<Rightarrow> string \<Rightarrow> nat option" where
  "array_entry_index cs slot =
     (case strip_prefix (join_slot_components cs @ ''/'') slot of
        Some rest \<Rightarrow> Some (entry_index_of_suffix rest)
      | None \<Rightarrow>
          (case strip_prefix (join_slot_components_verbatim cs @ ''/'') slot of
             Some rest \<Rightarrow> Some (entry_index_of_suffix rest)
           | None \<Rightarrow> find_map (legacy_entry_index slot) (legacy_array_prefixes cs)))"

definition check_array_slot_identity ::
    "slot_component list \<Rightarrow> json list \<Rightarrow> credential_bundle \<Rightarrow> resolve_report \<Rightarrow> resolve_report" where
  "check_array_slot_identity cs items bundle report =
     (let prefix = join_slot_components cs;
          n = length items;
          report = (if list_ex contains_placeholder items \<and> 1 < n
                    then push_warning report (array_order_message prefix n) else report) in
      fold (\<lambda>slot report.
          (case array_entry_index cs slot of
             None \<Rightarrow> report
           | Some index \<Rightarrow>
               if n \<le> index then push_slot_remap report (orphaned_entry_message slot prefix n index)
               else report))
        (bt_keys bundle) report)"

section \<open>Omitted credential types\<close>

text \<open>\<open>BTreeMap::range(prefix..)\<close> up to the first key that does not start with the prefix.\<close>

definition keys_under :: "string \<Rightarrow> credential_bundle \<Rightarrow> string list" where
  "keys_under prefix bundle = takeWhile (\<lambda>s. starts_with s prefix) (filter (\<lambda>s. prefix \<le> s) (bt_keys bundle))"

definition omitted_type_message :: "string \<Rightarrow> consumer \<Rightarrow> string \<Rightarrow> string" where
  "omitted_type_message slot c credential_type =
     ''credential slot '' @ quote slot @
     '' is orphaned: the credential bundle still holds a value for it, but consumer '' @
     quote (c_namespace c @ ''/'' @ c_id c) @ '' no longer declares '' @ quote credential_type @
     ''. Re-adding '' @ quote credential_type @
     '' would resurrect this retired value through the same slot, even with alloc=generate. Retire the slot from the credential bundle '' @
     em_dash @ '' or pass --allow-credential-slot-remap to accept it.''"

definition is_type_slot :: "string \<Rightarrow> string \<Rightarrow> bool" where
  "is_type_slot prefix slot = (is_slot_under slot prefix \<or> legacy_entry_index slot prefix \<noteq> None)"

definition omitted_type_orphans :: "consumer \<Rightarrow> string \<Rightarrow> credential_bundle \<Rightarrow> string list" where
  "omitted_type_orphans c credential_type bundle =
     (let prefix = join_slot_components [Literal (c_namespace c), Literal (c_id c), Literal credential_type] in
      filter (is_type_slot prefix) (keys_under prefix bundle))"

definition check_omitted_credential_types ::
    "consumer \<Rightarrow> credential_bundle \<Rightarrow> resolve_report \<Rightarrow> resolve_report" where
  "check_omitted_credential_types c bundle report =
     fold (\<lambda>credential_type report.
         if bt_contains (c_credentials c) credential_type then report
         else fold (\<lambda>slot report. push_slot_remap report (omitted_type_message slot c credential_type))
                (omitted_type_orphans c credential_type bundle) report)
       KNOWN_CREDENTIAL_TYPES report"

section \<open>The state ledger\<close>

datatype consumer_coverage = Partial | Complete | CoveredNamespace string

fun covers :: "consumer_coverage \<Rightarrow> string \<Rightarrow> bool" where
  "covers Partial ns = False"
| "covers Complete ns = True"
| "covers (CoveredNamespace covered) ns = (covered = ns)"

record consumer_ledger =
  cl_managed :: "string list"
  cl_pending_allocations :: "string list"
  cl_unbound_allocations :: "string list"
  cl_coverage :: consumer_coverage

definition consumer_state_key :: "string \<Rightarrow> string \<Rightarrow> string" where
  "consumer_state_key ns consumer_id = state_key ns ''Consumer'' consumer_id"

definition manages :: "consumer_ledger \<Rightarrow> string \<Rightarrow> string \<Rightarrow> bool" where
  "manages ledger ns consumer_id = (consumer_state_key ns consumer_id \<in> set (cl_managed ledger))"

definition consumer_ledger_new ::
    "(string \<times> string) list \<Rightarrow> string list \<Rightarrow> consumer_coverage \<Rightarrow> consumer_ledger" where
  "consumer_ledger_new managed_consumers pending coverage =
     \<lparr>cl_managed = bs_of_list (map (\<lambda>(ns, i). consumer_state_key ns i) managed_consumers),
      cl_pending_allocations = bs_of_list pending, cl_unbound_allocations = [],
      cl_coverage = coverage\<rparr>"

text \<open>
  \<open>ConsumerLedger::from_state\<close>.  The parameter \<open>instant\<close> is chrono's \<open>parse_from_rfc3339\<close>, an instant on
  a common scale or \<open>None\<close> for text that is no timestamp.
\<close>

definition since_clean_apply :: "(string \<Rightarrow> int option) \<Rightarrow> state_file \<Rightarrow> credential_metadata \<Rightarrow> bool" where
  "since_clean_apply instant st metadata =
     (case (Option.bind (st_last_applied_at st) instant, instant (cm_last_rotated metadata)) of
        (None, _) \<Rightarrow> True
      | (Some clean, Some allocated) \<Rightarrow> clean < allocated
      | (Some _, None) \<Rightarrow> False)"

definition consumer_ledger_from_state ::
    "(string \<Rightarrow> int option) \<Rightarrow> state_file \<Rightarrow> consumer_coverage \<Rightarrow> allocation_binding \<Rightarrow> consumer_ledger" where
  "consumer_ledger_from_state instant st coverage binding =
     (let recent = filter (\<lambda>e. since_clean_apply instant st (snd e)) (st_credentials st) in
      \<lparr>cl_managed = bs_of_list (bt_keys (st_resources st) @ st_pending_creates st),
       cl_pending_allocations = bs_of_list (map fst (filter (\<lambda>e. recorded binding (snd e)) recent)),
       cl_unbound_allocations = bs_of_list (map fst (filter (\<lambda>e. \<not> recorded binding (snd e)) recent)),
       cl_coverage = coverage\<rparr>)"

fun alloc_label :: "placeholder_alloc \<Rightarrow> string" where
  "alloc_label Generate = ''generate''"
| "alloc_label Require = ''require''"
| "alloc_label Rotate = ''rotate''"

definition UNBOUND_ALLOCATION_HINT :: string where
  "UNBOUND_ALLOCATION_HINT =
     '' The state ledger records an allocation of this slot since the last clean apply, but not by this apply: it names a different triggering revision or recipient, or none (an entry recorded before allocations were bound to them, or by an apply with no recipient). If this is the retry of that apply, re-run the same workflow run, which keeps its triggering merge commit; otherwise retire the slot.''"

definition revives :: "consumer_ledger \<Rightarrow> resolve_result \<Rightarrow> bool" where
  "revives ledger r =
     (rs_status r = SlotResolved \<and> sp_alloc (rs_placeholder r) \<noteq> Require \<and>
      \<not> manages ledger (rs_namespace r) (rs_consumer_id r) \<and>
      rs_slot r \<notin> set (cl_pending_allocations ledger))"

definition revived_slot_message :: "consumer_ledger \<Rightarrow> resolve_result \<Rightarrow> string" where
  "revived_slot_message ledger r =
     ''credential slot '' @ quote (rs_slot r) @ '' would revive a stored value: consumer '' @
     quote (rs_namespace r @ ''/'' @ rs_consumer_id r) @ '' is not in this environment'' @ [CHR 0x27] @
     ''s state ledger, yet the credential bundle already holds a value for its alloc='' @
     alloc_label (sp_alloc (rs_placeholder r)) @ '' slot. It may be a retired consumer'' @ [CHR 0x27] @
     ''s credential behind a reused id, and it would not be delivered to the new holder. Retire the slot from the credential bundle so a fresh value is generated, write alloc=require if the stored value is the intended seed, or pass --allow-credential-slot-remap to accept it.'' @
     (if rs_slot r \<in> set (cl_unbound_allocations ledger) then UNBOUND_ALLOCATION_HINT else [])"

text \<open>The consumer credential a stored slot spells: namespace, consumer id and known type.\<close>

definition stored_credential_type :: "string \<Rightarrow> string option" where
  "stored_credential_type raw =
     (let t = unescape_slot_component raw;
          t = (if is_known_credential_type t then t
               else takeWhile (\<lambda>b. b \<noteq> CHR ''.'' \<and> b \<noteq> CHR ''['') t) in
      if is_known_credential_type t then Some t else None)"

definition stored_consumer :: "string \<Rightarrow> (string \<times> string) option" where
  "stored_consumer slot =
     (case splitn 4 CHR ''/'' slot of
        ns # cid # raw # _ \<Rightarrow>
          (case stored_credential_type raw of
             Some _ \<Rightarrow> Some (unescape_slot_component ns, unescape_slot_component cid)
           | None \<Rightarrow> None)
      | _ \<Rightarrow> None)"

definition retired_consumer :: "consumer list \<Rightarrow> consumer_ledger \<Rightarrow> string \<times> string \<Rightarrow> bool" where
  "retired_consumer consumers ledger holder =
     (covers (cl_coverage ledger) (fst holder) \<and>
      holder \<notin> set (map (\<lambda>c. (c_namespace c, c_id c)) consumers) \<and>
      manages ledger (fst holder) (snd holder))"

definition retired_consumer_message :: "string \<Rightarrow> string \<times> string \<Rightarrow> string" where
  "retired_consumer_message slot holder =
     ''credential slot '' @ quote slot @
     '' is orphaned: the credential bundle still holds a value for it, but consumer '' @
     quote (fst holder @ ''/'' @ snd holder) @ '' is recorded in this environment'' @ [CHR 0x27] @
     ''s state ledger and is no longer declared. Re-adding a consumer with this id would resurrect the retired value through the same slot, even with alloc=generate. Retire the slot from the credential bundle '' @
     em_dash @ '' or pass --allow-credential-slot-remap to accept it.''"

definition check_consumer_ledger ::
    "consumer list \<Rightarrow> credential_bundle \<Rightarrow> consumer_ledger \<Rightarrow> resolve_report \<Rightarrow> resolve_report" where
  "check_consumer_ledger consumers bundle ledger report =
     (let revived = map (revived_slot_message ledger) (filter (revives ledger) (rr_results report));
          report = fold (\<lambda>message report. push_slot_remap report message) revived report in
      fold (\<lambda>slot report.
          (case stored_consumer slot of
             None \<Rightarrow> report
           | Some holder \<Rightarrow>
               if retired_consumer consumers ledger holder
               then push_slot_remap report (retired_consumer_message slot holder) else report))
        (bt_keys bundle) report)"

end
