(* ===== verification/SlotPolicy.thy ===== *)
theory SlotPolicy
  imports SlotReport
begin

text \<open>
  What resolution refuses (\<open>secrets/resolver.rs\<close>): stored values that cannot be a secret, and
  placeholders that ask the broker for a value it cannot generate.
\<close>

section \<open>Stored values\<close>

definition REDACTED_SENTINEL :: string where
  "REDACTED_SENTINEL = ''[REDACTED]''"

definition MIN32_CREDENTIAL_TYPES :: "string list" where
  "MIN32_CREDENTIAL_TYPES = [''jwt'', ''hmac_auth'']"

definition MIN32_PLUGIN_CONFIG_SECRETS :: "(string \<times> string list) list" where
  "MIN32_PLUGIN_CONFIG_SECRETS =
     [(''ai_transcript_audit'', [''redaction'', ''hash_secret'']),
      (''load_testing'', [''key'']),
      (''ai_semantic_cache'', [''redis_integrity_key'']),
      (''oidc_relying_party'', [''session'', ''encryption_secret'']),
      (''oidc_relying_party'', [''session'', ''encryption_secret_previous''])]"

definition MIN_ENTROPY_BYTES_FOR_32_CHARS :: nat where
  "MIN_ENTROPY_BYTES_FOR_32_CHARS = 24"

definition MAX_CREDENTIAL_VALUE_CHARS :: nat where
  "MAX_CREDENTIAL_VALUE_CHARS = 4096"

definition IMPORT_REQUIRED_PLACEHOLDER :: string where
  "IMPORT_REQUIRED_PLACEHOLDER = ''${gh-env-secret:alloc=require}''"

definition placeholder_text_reason :: "string \<Rightarrow> string \<Rightarrow> string option" where
  "placeholder_text_reason committed v =
     (let trimmed = trim v;
          n = length PLACEHOLDER_PREFIX;
          has_prefix = (n \<le> length trimmed \<and> eq_ignore_ascii_case (take n trimmed) PLACEHOLDER_PREFIX) in
      if trimmed = committed then Some ''equals the placeholder text committed for this slot''
      else if parse_placeholder trimmed \<noteq> None \<or> has_prefix
      then Some ''matches the gh-env-secret placeholder grammar''
      else None)"

definition check_consumer_secret_not_placeholder_text ::
    "string \<Rightarrow> string \<Rightarrow> string \<Rightarrow> (resolve_error, unit) result" where
  "check_consumer_secret_not_placeholder_text slot committed v =
     (case placeholder_text_reason committed v of
        None \<Rightarrow> Inr ()
      | Some reason \<Rightarrow> Inl (ConfigError (''credential slot '' @ quote slot @ '' holds a bundle value that '' @ reason @
          '', not a secret. Placeholder text is repository-known and cannot be a live Consumer credential; re-seed the slot with the real secret or rotate it with '' @
          quote ''gitforgeops rotate'' @ ''.'')))"

definition check_min_secret_length :: "string \<Rightarrow> string \<Rightarrow> (resolve_error, unit) result" where
  "check_min_secret_length slot v =
     (if MIN_SCRUB_LENGTH \<le> length v then Inr ()
      else Inl (ConfigError (''secret slot '' @ quote slot @ '' holds a bundle value shorter than '' @
        show_nat MIN_SCRUB_LENGTH @ '' bytes. Brokered secrets must be at least '' @ show_nat MIN_SCRUB_LENGTH @
        '' bytes so they can be removed from this tool'' @ [CHR 0x27] @
        ''s output; re-seed the slot with a longer value or rotate it with '' @ quote ''gitforgeops rotate'' @
        ''. If the value is an ordinary short setting (a plugin transform or match value), write it literally in place of the placeholder.'')))"

definition lookup_slot_value ::
    "slot_component list \<Rightarrow> string \<Rightarrow> string \<Rightarrow> credential_bundle \<Rightarrow> (resolve_error, string option) result" where
  "lookup_slot_value cs slot committed bundle =
     (case find_map (bt_get bundle) (slot_lookup_candidates cs) of
        None \<Rightarrow> Inr None
      | Some v \<Rightarrow>
          if v = REDACTED_SENTINEL
          then Inl (ConfigError (''credential slot '' @ quote slot @ '' holds the reserved sentinel '' @
            quote REDACTED_SENTINEL @
            ''. ferrum-edge redacts keyauth/jwt/hmac_auth secrets on normal GETs; re-seed the bundle from '' @
            quote ''GET /backup'' @ '' or rotate the slot with '' @ quote ''gitforgeops rotate'' @ ''.''))
          else bind_result (check_consumer_secret_not_placeholder_text slot committed v) (\<lambda>_.
            bind_result (check_min_secret_length slot v) (\<lambda>_. Inr (Some v))))"

definition lookup_exact_slot_value :: "string \<Rightarrow> credential_bundle \<Rightarrow> (resolve_error, string option) result" where
  "lookup_exact_slot_value slot bundle =
     (case bt_get bundle slot of
        None \<Rightarrow> Inr None
      | Some v \<Rightarrow>
          if v = REDACTED_SENTINEL
          then Inl (ConfigError (''secret slot '' @ quote slot @ '' holds the reserved sentinel '' @
            quote REDACTED_SENTINEL @ ''; re-seed the bundle from an unredacted GET /backup source''))
          else bind_result (check_min_secret_length slot v) (\<lambda>_. Inr (Some v)))"

definition lookup_consumer_credential ::
    "string \<Rightarrow> string \<Rightarrow> string \<Rightarrow> config_path \<Rightarrow> string \<Rightarrow> credential_bundle \<Rightarrow>
     (resolve_error, string option) result" where
  "lookup_consumer_credential ns consumer_id credential_type path committed bundle =
     (let cs = consumer_slot_components ns consumer_id credential_type path in
      lookup_slot_value cs (join_slot_components cs) committed bundle)"

section \<open>The generation policy\<close>

text \<open>Characters of \<open>n\<close> bytes in base64url without padding.\<close>

definition base64_chars :: "nat \<Rightarrow> nat" where
  "base64_chars n = (n + 2) div 3 * 4 - (3 - n mod 3) mod 3"

definition slot_tail :: "string \<Rightarrow> string list" where
  "slot_tail slot = map unescape_slot_component (drop 3 (split_on CHR ''/'' slot))"

definition is_min32_plugin_config_secret :: "string \<Rightarrow> bool" where
  "is_min32_plugin_config_secret slot =
     (case slot_tail slot of
        plugin_name # config # field \<Rightarrow>
          config = ''config'' \<and> (plugin_name, field) \<in> set MIN32_PLUGIN_CONFIG_SECRETS
      | _ \<Rightarrow> False)"

definition check_min_entropy :: "string \<Rightarrow> string \<Rightarrow> nat \<Rightarrow> (resolve_error, unit) result" where
  "check_min_entropy slot cred_type length_bytes =
     (case (if cred_type \<in> set MIN32_CREDENTIAL_TYPES then Some (cred_type @ '' secrets'')
            else if cred_type = PLUGIN_CONFIG_SLOT_KIND \<and> is_min32_plugin_config_secret slot
            then Some ''this plugin-config secret'' else None) of
        None \<Rightarrow> Inr ()
      | Some subject \<Rightarrow>
          if length_bytes < MIN_ENTROPY_BYTES_FOR_32_CHARS
          then Inl (ConfigError (''credential slot '' @ quote slot @ '': '' @ subject @
            '' must be at least 32 characters, but '' @ quote (''len='' @ show_nat length_bytes) @
            '' generates only '' @ show_nat (base64_chars length_bytes) @ '' base64url characters. Use '' @
            quote (''len='' @ show_nat MIN_ENTROPY_BYTES_FOR_32_CHARS) @
            '' or higher (the default len=32 yields 43 characters).''))
          else Inr ())"

definition check_endpoint_generation :: "string \<Rightarrow> bool \<Rightarrow> (resolve_error, unit) result" where
  "check_endpoint_generation slot is_endpoint =
     (if \<not> is_endpoint then Inr ()
      else Inl (ConfigError (''plugin config slot '' @ quote slot @ '': the broker cannot generate an endpoint URL '' @
        em_dash @ '' generated values are random tokens with no scheme or host. Use '' @
        quote IMPORT_REQUIRED_PLACEHOLDER @ '' and seed the slot with the real endpoint.'')))"

definition check_discovery_generation :: "string \<Rightarrow> string list \<Rightarrow> (resolve_error, unit) result" where
  "check_discovery_generation slot path =
     (case find (\<lambda>field. sf_path field = path) SD_SECRET_FIELDS of
        None \<Rightarrow> Inl (ConfigError (''secret slot '' @ quote slot @
          '': unknown service-discovery secret; generation is refused''))
      | Some field \<Rightarrow>
          if sf_generatable field then Inr ()
          else Inl (ConfigError (''secret slot '' @ quote slot @ '': the broker cannot generate '' @
            render_path (sf_path field) @ '' '' @ em_dash @ '' '' @ sf_ungeneratable_reason field @ ''. Use '' @
            quote IMPORT_REQUIRED_PLACEHOLDER @
            '' and seed the slot with the real value. If a previous rotation replaced it, reissue it at the provider and reseed; the previous GitHub secret cannot be recovered.'')))"

definition check_basicauth_generation ::
    "string \<Rightarrow> string \<Rightarrow> gateway_mode \<Rightarrow> (resolve_error, unit) result" where
  "check_basicauth_generation slot leaf mode =
     (if leaf = ''password_hash''
      then Inl (ConfigError (''credential slot '' @ quote slot @
        '': the broker cannot generate a basicauth password_hash. ferrum-edge expects '' @
        quote ''hmac_sha256:<64 lowercase hex>'' @ '' computed with the gateway'' @ [CHR 0x27] @
        ''s FERRUM_BASIC_AUTH_HMAC_SECRET, which gitforgeops does not have. Set the hash manually, or use a plaintext '' @
        quote ''password'' @ '' against an api-mode gateway and let the gateway hash it.''))
      else if mode = FileMode
      then Inl (ConfigError (''credential slot '' @ quote slot @
        '': file-mode gateways require password_hash; the broker cannot compute hmac_sha256 hashes without the gateway'' @
        [CHR 0x27] @ ''s FERRUM_BASIC_AUTH_HMAC_SECRET '' @ em_dash @
        '' set the hash manually or use api mode (FERRUM_GATEWAY_MODE=api), where the admin API hashes a plaintext password on write.''))
      else Inr ())"

definition check_generation_allowed ::
    "string \<Rightarrow> string option \<Rightarrow> nat \<Rightarrow> gateway_mode \<Rightarrow> (resolve_error, unit) result" where
  "check_generation_allowed slot cred_type length_bytes mode =
     (case credential_type_from_slot slot of
        None \<Rightarrow> Inl (ConfigError (''credential slot '' @ quote slot @
          '' has no credential-type component; build it with secrets::slot_path''))
      | Some encoded_type \<Rightarrow>
          if cred_type \<noteq> None \<and> cred_type \<noteq> Some encoded_type
          then Inl (ConfigError (''credential slot '' @ quote slot @
            '': supplied credential type disagrees with the slot''))
          else
            let path = slot_tail slot;
                leaf = (if path = [] then [] else last path) in
            if is_identity_credential_leaf encoded_type (Some leaf)
            then Inl (ConfigError (''credential slot '' @ quote slot @
              '': identity fields must be supplied literally, never generated''))
            else
              bind_result
                (if encoded_type = SERVICE_DISCOVERY_SLOT_KIND then check_discovery_generation slot path
                 else Inr ()) (\<lambda>_.
              bind_result
                (if encoded_type = ''basicauth'' then check_basicauth_generation slot leaf mode
                 else Inr ()) (\<lambda>_.
              bind_result (check_min_entropy slot encoded_type length_bytes) (\<lambda>_.
                if length_bytes < 16 \<or> 256 < length_bytes
                then Inl (ConfigError (''credential slot '' @ quote slot @
                  '': generation length must be 16..=256 entropy bytes''))
                else Inr ()))))"

definition check_generation_allowed_for ::
    "resolve_report \<Rightarrow> resolve_result \<Rightarrow> gateway_mode \<Rightarrow> (resolve_error, unit) result" where
  "check_generation_allowed_for report r mode =
     bind_result
       (check_generation_allowed (rs_slot r) (credential_type_for report (rs_slot r))
          (unat (sp_length_bytes (rs_placeholder r))) mode)
       (\<lambda>_. check_endpoint_generation (rs_slot r) (bs_contains (rs_slot r) (rr_endpoint_slots report)))"

end
