(* ===== verification/Resolver.thy ===== *)
theory Resolver
  imports SlotPolicy
begin

text \<open>
  Resolution of broker placeholders (\<open>secrets/resolver.rs\<close>): the read-only and the replacing walk
  over credentials, plugin configurations and discovery blocks, and their entry points.  The
  gateway mode, which the source reads from the environment, is an argument.
\<close>

section \<open>Refusals before any lookup\<close>

definition validate_known_credential_types :: "gateway_config \<Rightarrow> (resolve_error, unit) result" where
  "validate_known_credential_types cfg =
     fold_result (\<lambda>c _. fold_result (\<lambda>t _.
         if is_known_credential_type t then Inr ()
         else Inl (ConfigError (unknown_credential_type_message t (c_id c) (c_namespace c))))
       (bt_keys (c_credentials c)) ()) (gc_consumers cfg) ()"

definition identity_placeholder_error :: "string \<Rightarrow> resolve_error" where
  "identity_placeholder_error slot =
     ConfigError (''credential slot '' @ quote slot @
       '': identity fields must be supplied literally; broker placeholders are forbidden. Author the public username or mTLS identity in the resource YAML and retire its old bundle slot.'')"

fun check_identity_placeholders ::
    "json \<Rightarrow> slot_component list \<Rightarrow> string \<Rightarrow> string option \<Rightarrow> (resolve_error, unit) result" where
  "check_identity_placeholders (JString s) cs ctype leaf =
     (if is_identity_credential_leaf ctype leaf \<and> contains_str s PLACEHOLDER_PREFIX
      then Inl (identity_placeholder_error (join_slot_components cs)) else Inr ())"
| "check_identity_placeholders (JObject m) cs ctype leaf =
     fold_result (\<lambda>e _. check_identity_placeholders (snd e) (cs @ [Literal (fst e)]) ctype (Some (fst e))) m ()"
| "check_identity_placeholders (JArray items) cs ctype leaf =
     fold_result (\<lambda>e _. check_identity_placeholders (snd e) (cs @ [ArrayIndex (fst e)]) ctype leaf)
       (List.enumerate 0 items) ()"
| "check_identity_placeholders _ cs ctype leaf = Inr ()"

definition validate_identity_placeholders :: "gateway_config \<Rightarrow> (resolve_error, unit) result" where
  "validate_identity_placeholders cfg =
     fold_result (\<lambda>c _. fold_result (\<lambda>e _.
         check_identity_placeholders (snd e)
           [Literal (c_namespace c), Literal (c_id c), Literal (fst e)] (fst e) None)
       (c_credentials c) ()) (gc_consumers cfg) ()"

section \<open>One leaf\<close>

datatype constraint_mode = Enforce | ReportOnly

definition placeholder_error_message :: "placeholder_error \<Rightarrow> string" where
  "placeholder_error_message e =
     (case e of
        UnknownAlloc \<Rightarrow> ''unknown secret alloc mode (expected: generate | require | rotate)''
      | MalformedPiece \<Rightarrow> ''malformed secret placeholder piece (expected key=value)''
      | LenOutOfRange \<Rightarrow> ''secret placeholder len out of range (16..=256)''
      | LenNotInteger \<Rightarrow> ''secret placeholder len is not an integer''
      | UnknownKey \<Rightarrow> ''unknown secret placeholder key (expected: alloc | len)'')"

definition check_generation_constraints ::
    "slot_component list \<Rightarrow> secret_placeholder \<Rightarrow> slot_status \<Rightarrow> gateway_mode \<Rightarrow> constraint_mode \<Rightarrow>
     (resolve_error, unit) result" where
  "check_generation_constraints cs placeholder status mode constraints =
     (if constraints = ReportOnly \<or> status \<noteq> NeedsAllocation then Inr ()
      else case drop 2 cs of
          Literal t # _ \<Rightarrow>
            check_generation_allowed (join_slot_components cs) (Some t)
              (unat (sp_length_bytes placeholder)) mode
        | _ \<Rightarrow> Inr ())"

definition literal_or_empty :: "slot_component list \<Rightarrow> string" where
  "literal_or_empty cs = (case cs of Literal s # _ \<Rightarrow> s | _ \<Rightarrow> [])"

definition decompose_components :: "slot_component list \<Rightarrow> string \<times> string \<times> string" where
  "decompose_components cs =
     (literal_or_empty cs, literal_or_empty (drop 1 cs), join_slot_components (drop 2 cs))"

definition record_credential_type ::
    "string \<Rightarrow> slot_component list \<Rightarrow> resolve_report \<Rightarrow> resolve_report" where
  "record_credential_type slot cs report =
     (case drop 2 cs of
        Literal t # _ \<Rightarrow>
          report\<lparr>rr_slot_credential_types := bt_insert slot t (rr_slot_credential_types report)\<rparr>
      | _ \<Rightarrow> report)"

definition push_result :: "resolve_result \<Rightarrow> resolve_report \<Rightarrow> resolve_report" where
  "push_result r report = report\<lparr>rr_results := rr_results report @ [r]\<rparr>"

text \<open>
  A leaf function answers the stored value, if the leaf is a placeholder that has one, and the
  report.  \<open>on_placeholder\<close> is the common head of the three leaf functions.
\<close>

type_synonym leaf_answer = "(resolve_error, string option \<times> resolve_report) result"

definition on_placeholder ::
    "string \<Rightarrow> resolve_report \<Rightarrow> (secret_placeholder \<Rightarrow> leaf_answer) \<Rightarrow> leaf_answer" where
  "on_placeholder text_value report f =
     (case parse_placeholder text_value of
        None \<Rightarrow> Inr (None, report)
      | Some (Inl e) \<Rightarrow> Inl (ConfigError (placeholder_error_message e))
      | Some (Inr placeholder) \<Rightarrow> f placeholder)"

definition report_credential_leaf ::
    "string \<Rightarrow> slot_component list \<Rightarrow> credential_bundle \<Rightarrow> gateway_mode \<Rightarrow> constraint_mode \<Rightarrow> resolve_report \<Rightarrow> leaf_answer" where
  "report_credential_leaf text_value cs bundle mode constraints report =
     on_placeholder text_value report (\<lambda>placeholder.
       let slot = join_slot_components cs in
       bind_result (lookup_slot_value cs slot text_value bundle) (\<lambda>existing.
         let status = classify_status placeholder existing in
         bind_result (check_generation_constraints cs placeholder status mode constraints) (\<lambda>_.
           case decompose_components cs of (ns, consumer_id, cred_key) \<Rightarrow>
             Inr (existing, push_result
               \<lparr>rs_consumer_id = consumer_id, rs_namespace = ns, rs_cred_key = cred_key, rs_slot = slot,
                rs_placeholder = placeholder, rs_status = status\<rparr>
               (record_credential_type slot cs report)))))"

definition resolve_service_discovery_leaf ::
    "string \<Rightarrow> string \<Rightarrow> string \<Rightarrow> sd_secret_field \<Rightarrow> credential_bundle \<Rightarrow> constraint_mode \<Rightarrow> resolve_report \<Rightarrow> leaf_answer" where
  "resolve_service_discovery_leaf text_value ns upstream_id field bundle constraints report =
     on_placeholder text_value report (\<lambda>placeholder.
       let slot = discovery_slot ns upstream_id (sf_path field) in
       bind_result (lookup_exact_slot_value slot bundle) (\<lambda>existing.
         let status = classify_status placeholder existing in
         bind_result
           (if constraints = Enforce \<and> status = NeedsAllocation
            then check_generation_allowed slot (Some SERVICE_DISCOVERY_SLOT_KIND)
                   (unat (sp_length_bytes placeholder)) ApiMode
            else Inr ()) (\<lambda>_.
           Inr (existing, push_result
             \<lparr>rs_consumer_id = upstream_id, rs_namespace = ns,
              rs_cred_key = discovery_cred_key (sf_path field), rs_slot = slot,
              rs_placeholder = placeholder, rs_status = status\<rparr>
             (report\<lparr>rr_slot_credential_types :=
                bt_insert slot SERVICE_DISCOVERY_SLOT_KIND (rr_slot_credential_types report)\<rparr>)))))"

section \<open>Plugin configurations\<close>

record plugin_walk =
  pw_namespace :: string
  pw_plugin_id :: string
  pw_plugin_name :: string
  pw_endpoints :: "config_path list"
  pw_bundle :: credential_bundle
  pw_mode :: gateway_mode
  pw_constraints :: constraint_mode

definition plugin_walk_new ::
    "plugin_config \<Rightarrow> credential_bundle \<Rightarrow> gateway_mode \<Rightarrow> constraint_mode \<Rightarrow> plugin_walk" where
  "plugin_walk_new p bundle mode constraints =
     \<lparr>pw_namespace = pc_namespace p, pw_plugin_id = pc_id p, pw_plugin_name = pc_plugin_name p,
      pw_endpoints = endpoint_paths (pc_plugin_name p) (pc_config p),
      pw_bundle = bundle, pw_mode = mode, pw_constraints = constraints\<rparr>"

definition walk_slot :: "plugin_walk \<Rightarrow> config_path \<Rightarrow> string" where
  "walk_slot pw path = plugin_config_slot (pw_namespace pw) (pw_plugin_id pw) (pw_plugin_name pw) path"

definition foreign_slot_message :: "plugin_walk \<Rightarrow> string \<Rightarrow> string \<Rightarrow> string \<Rightarrow> string" where
  "foreign_slot_message pw slot kind owned =
     (let plugin = quote (pw_namespace pw @ ''/'' @ pw_plugin_id pw);
          name = quote (pw_plugin_name pw) in
      if kind = RETIRED_TYPELESS_PLUGIN_CONFIG_SLOT_KIND
      then ''plugin config slot '' @ quote slot @
        '' uses the retired type-less encoding, which does not record the plugin type its value was stored for, so it is never resolved. If the value was issued for plugin '' @
        plugin @ '' of type '' @ name @ '', reseed it under that plugin'' @ [CHR 0x27] @
        ''s typed slot (prefix '' @ quote (owned @ ''/'') @
        ''); then retire this slot from the credential bundle '' @ em_dash @
        '' or pass --allow-credential-slot-remap to accept it.''
      else ''plugin config slot '' @ quote slot @
        '' is orphaned: the credential bundle still holds a value for plugin '' @ plugin @
        '' under a different plugin type than the declared '' @ name @
        ''. Slot identity includes the plugin type, so the value is never resolved into the new plugin, and changing the type back would resurrect it. Seed any value '' @
        name @ '' needs under its own slot (prefix '' @ quote (owned @ ''/'') @
        '') and retire this slot from the credential bundle '' @ em_dash @
        '' or pass --allow-credential-slot-remap to accept it.'')"

definition foreign_slots :: "plugin_walk \<Rightarrow> string \<Rightarrow> string list" where
  "foreign_slots pw kind =
     (let prefix = escape_slot_component (pw_namespace pw) @ ''/'' @
                   escape_slot_component (pw_plugin_id pw) @ ''/'' @ kind in
      filter (\<lambda>slot. is_slot_under slot prefix \<and> \<not> is_slot_under slot (walk_slot pw []))
        (keys_under prefix (pw_bundle pw)))"

definition check_type_slot_identity :: "plugin_walk \<Rightarrow> resolve_report \<Rightarrow> resolve_report" where
  "check_type_slot_identity pw report =
     fold (\<lambda>kind report.
         fold (\<lambda>slot report. push_slot_remap report (foreign_slot_message pw slot kind (walk_slot pw [])))
           (foreign_slots pw kind) report)
       [PLUGIN_CONFIG_SLOT_KIND, RETIRED_TYPELESS_PLUGIN_CONFIG_SLOT_KIND] report"

definition plugin_array_order_message :: "string \<Rightarrow> nat \<Rightarrow> string" where
  "plugin_array_order_message prefix n =
     ''plugin config array '' @ quote prefix @ '' has '' @ show_nat n @
     '' entries and entry ORDER is the slot identity (entry N uses '' @ quote ''[N]'' @
     ''). Removing or reordering an entry reassigns the retired slot'' @ [CHR 0x27] @
     ''s value to whichever entry shifts into its index. Reseed the affected slots in the credential bundle instead of deleting or reordering entries.''"

definition plugin_orphaned_entry_message :: "string \<Rightarrow> string \<Rightarrow> nat \<Rightarrow> nat \<Rightarrow> string" where
  "plugin_orphaned_entry_message slot prefix n index =
     ''plugin config slot '' @ quote slot @
     '' is orphaned: the credential bundle still holds a value for it, but array '' @ quote prefix @
     '' now has '' @ entries_word n @ '' (entry index '' @ show_nat index @
     '' no longer exists). Slot identity is positional, so the entry that shifted into a vacated index has inherited a retired secret, and re-growing the array would resurrect this value for a new entry. Reseed the shifted entries'' @
     [CHR 0x27] @
     '' slots with their intended values and retire this slot from the credential bundle '' @ em_dash @
     '' or pass --allow-credential-slot-remap to accept the reassignment.''"

definition plugin_entry_index :: "string \<Rightarrow> string \<Rightarrow> nat option" where
  "plugin_entry_index prefix slot =
     Option.bind (strip_prefix (prefix @ ''/'') slot) (\<lambda>rest. parse_index_segment (hd (split_on CHR ''/'' rest)))"

definition check_plugin_array_slot_identity ::
    "plugin_walk \<Rightarrow> config_path \<Rightarrow> json list \<Rightarrow> resolve_report \<Rightarrow> resolve_report" where
  "check_plugin_array_slot_identity pw path items report =
     (let prefix = walk_slot pw path;
          n = length items;
          report = (if list_ex contains_placeholder items \<and> 1 < n
                    then push_warning report (plugin_array_order_message prefix n) else report) in
      fold (\<lambda>slot report.
          (case plugin_entry_index prefix slot of
             None \<Rightarrow> report
           | Some index \<Rightarrow>
               if n \<le> index then push_slot_remap report (plugin_orphaned_entry_message slot prefix n index)
               else report))
        (bt_keys (pw_bundle pw)) report)"

definition report_leaf :: "plugin_walk \<Rightarrow> string \<Rightarrow> config_path \<Rightarrow> resolve_report \<Rightarrow> leaf_answer" where
  "report_leaf pw text_value path report =
     on_placeholder text_value report (\<lambda>placeholder.
       let slot = walk_slot pw path in
       bind_result (lookup_exact_slot_value slot (pw_bundle pw)) (\<lambda>existing.
         let status = classify_status placeholder existing;
             is_endpoint = path \<in> set (pw_endpoints pw) in
         bind_result
           (if pw_constraints pw = Enforce \<and> status = NeedsAllocation
            then bind_result (check_generation_allowed slot (Some PLUGIN_CONFIG_SLOT_KIND)
                   (unat (sp_length_bytes placeholder)) (pw_mode pw))
                   (\<lambda>_. check_endpoint_generation slot is_endpoint)
            else Inr ()) (\<lambda>_.
           Inr (existing, push_result
             \<lparr>rs_consumer_id = pw_plugin_id pw, rs_namespace = pw_namespace pw,
              rs_cred_key = plugin_config_cred_key (pw_plugin_name pw) path, rs_slot = slot,
              rs_placeholder = placeholder, rs_status = status\<rparr>
             (report\<lparr>rr_endpoint_slots :=
                 (if is_endpoint then bs_insert slot (rr_endpoint_slots report) else rr_endpoint_slots report),
               rr_slot_credential_types :=
                 bt_insert slot PLUGIN_CONFIG_SLOT_KIND (rr_slot_credential_types report)\<rparr>)))))"

section \<open>The walks\<close>

fun walk_and_report ::
    "json \<Rightarrow> slot_component list \<Rightarrow> credential_bundle \<Rightarrow> gateway_mode \<Rightarrow> constraint_mode \<Rightarrow> resolve_report \<Rightarrow>
     (resolve_error, resolve_report) result" where
  "walk_and_report (JString s) cs bundle mode constraints report =
     map_sum id snd (report_credential_leaf s cs bundle mode constraints report)"
| "walk_and_report (JObject m) cs bundle mode constraints report =
     fold_result (\<lambda>e. walk_and_report (snd e) (cs @ [Literal (fst e)]) bundle mode constraints) m report"
| "walk_and_report (JArray items) cs bundle mode constraints report =
     fold_result (\<lambda>e. walk_and_report (snd e) (cs @ [ArrayIndex (fst e)]) bundle mode constraints)
       (List.enumerate 0 items) (check_array_slot_identity cs items bundle report)"
| "walk_and_report v cs bundle mode constraints report = Inr report"

definition replace_text :: "string \<Rightarrow> string option \<times> resolve_report \<Rightarrow> json \<times> resolve_report" where
  "replace_text s answer = (JString (case fst answer of Some v \<Rightarrow> v | None \<Rightarrow> s), snd answer)"

fun walk_report_and_replace ::
    "json \<Rightarrow> slot_component list \<Rightarrow> credential_bundle \<Rightarrow> gateway_mode \<Rightarrow> resolve_report \<Rightarrow>
     (resolve_error, json \<times> resolve_report) result" where
  "walk_report_and_replace (JString s) cs bundle mode report =
     map_sum id (replace_text s) (report_credential_leaf s cs bundle mode Enforce report)"
| "walk_report_and_replace (JObject m) cs bundle mode report =
     map_sum id (apfst JObject) (map_result (\<lambda>e r. map_sum id (apfst (Pair (fst e)))
       (walk_report_and_replace (snd e) (cs @ [Literal (fst e)]) bundle mode r)) m report)"
| "walk_report_and_replace (JArray items) cs bundle mode report =
     map_sum id (apfst JArray) (map_result (\<lambda>e.
       walk_report_and_replace (snd e) (cs @ [ArrayIndex (fst e)]) bundle mode)
       (List.enumerate 0 items) (check_array_slot_identity cs items bundle report))"
| "walk_report_and_replace v cs bundle mode report = Inr (v, report)"

fun walk_plugin_and_report ::
    "json \<Rightarrow> plugin_walk \<Rightarrow> config_path \<Rightarrow> resolve_report \<Rightarrow> (resolve_error, resolve_report) result" where
  "walk_plugin_and_report (JString s) pw path report = map_sum id snd (report_leaf pw s path report)"
| "walk_plugin_and_report (JObject m) pw path report =
     fold_result (\<lambda>e. walk_plugin_and_report (snd e) pw (path @ [Key (fst e)])) m report"
| "walk_plugin_and_report (JArray items) pw path report =
     fold_result (\<lambda>e. walk_plugin_and_report (snd e) pw (path @ [Index (fst e)]))
       (List.enumerate 0 items) (check_plugin_array_slot_identity pw path items report)"
| "walk_plugin_and_report v pw path report = Inr report"

fun walk_plugin_report_and_replace ::
    "json \<Rightarrow> plugin_walk \<Rightarrow> config_path \<Rightarrow> resolve_report \<Rightarrow> (resolve_error, json \<times> resolve_report) result" where
  "walk_plugin_report_and_replace (JString s) pw path report =
     map_sum id (replace_text s) (report_leaf pw s path report)"
| "walk_plugin_report_and_replace (JObject m) pw path report =
     map_sum id (apfst JObject) (map_result (\<lambda>e r. map_sum id (apfst (Pair (fst e)))
       (walk_plugin_report_and_replace (snd e) pw (path @ [Key (fst e)]) r)) m report)"
| "walk_plugin_report_and_replace (JArray items) pw path report =
     map_sum id (apfst JArray) (map_result (\<lambda>e.
       walk_plugin_report_and_replace (snd e) pw (path @ [Index (fst e)]))
       (List.enumerate 0 items) (check_plugin_array_slot_identity pw path items report))"
| "walk_plugin_report_and_replace v pw path report = Inr (v, report)"

section \<open>The verdict\<close>

definition slot_sources :: "resolve_report \<Rightarrow> string \<Rightarrow> resolve_result list" where
  "slot_sources report slot = filter (\<lambda>r. rs_slot r = slot) (rr_results report)"

definition slot_collision_error :: "string \<Rightarrow> resolve_result list \<Rightarrow> resolve_error" where
  "slot_collision_error slot sources =
     ConfigError (''credential slot '' @ quote slot @ '' is produced by '' @ show_nat (length sources) @
       '' distinct credential paths ('' @
       join ''; '' (map (\<lambda>r. rs_namespace r @ ''/'' @ rs_consumer_id r @ '': '' @ rs_cred_key r) sources) @
       ''); two credentials would share one GitHub Env Secret entry'')"

definition detect_slot_collisions :: "resolve_report \<Rightarrow> (resolve_error, unit) result" where
  "detect_slot_collisions report =
     fold_result (\<lambda>slot _.
         if 1 < length (slot_sources report slot) then Inl (slot_collision_error slot (slot_sources report slot))
         else Inr ())
       (bs_of_list (map rs_slot (rr_results report))) ()"

datatype slot_remap_policy = Refuse | Allow

record resolve_options =
  ro_slot_remap :: slot_remap_policy
  ro_consumer_ledger :: "consumer_ledger option"

definition default_options :: resolve_options where
  "default_options = \<lparr>ro_slot_remap = Refuse, ro_consumer_ledger = None\<rparr>"

definition allowing_slot_remap :: "bool \<Rightarrow> resolve_options" where
  "allowing_slot_remap allow =
     \<lparr>ro_slot_remap = (if allow then Allow else Refuse), ro_consumer_ledger = None\<rparr>"

definition with_consumer_ledger :: "resolve_options \<Rightarrow> consumer_ledger \<Rightarrow> resolve_options" where
  "with_consumer_ledger options ledger =
     \<lparr>ro_slot_remap = ro_slot_remap options, ro_consumer_ledger = Some ledger\<rparr>"

definition enforce_slot_remap_policy :: "resolve_report \<Rightarrow> resolve_options \<Rightarrow> (resolve_error, unit) result" where
  "enforce_slot_remap_policy report options =
     (if rr_slot_remaps report = [] \<or> ro_slot_remap options = Allow then Inr ()
      else Inl (CredentialSlotRemap (''Refusing to resolve credentials: '' @
        show_nat (length (rr_slot_remaps report)) @
        '' credential slot(s) would be reassigned or revived by a credential shape change, a retired Consumer, or a PluginConfig that changed `plugin_name` (or still has retired type-less `@plugin-config` keys):'' @
        [CHR 0x0A] @ ''  '' @ join ([CHR 0x0A] @ ''  '') (rr_slot_remaps report))))"

definition verdict :: "resolve_options \<Rightarrow> resolve_report \<Rightarrow> (resolve_error, unit) result" where
  "verdict options report =
     bind_result (detect_slot_collisions report) (\<lambda>_. enforce_slot_remap_policy report options)"

section \<open>Reporting\<close>

definition report_consumer ::
    "credential_bundle \<Rightarrow> gateway_mode \<Rightarrow> constraint_mode \<Rightarrow> consumer \<Rightarrow> resolve_report \<Rightarrow>
     (resolve_error, resolve_report) result" where
  "report_consumer bundle mode constraints c report =
     map_sum id (check_omitted_credential_types c bundle)
       (fold_result (\<lambda>e. walk_and_report (snd e)
           [Literal (c_namespace c), Literal (c_id c), Literal (fst e)] bundle mode constraints)
         (c_credentials c) report)"

definition report_plugin ::
    "credential_bundle \<Rightarrow> gateway_mode \<Rightarrow> constraint_mode \<Rightarrow> plugin_config \<Rightarrow> resolve_report \<Rightarrow>
     (resolve_error, resolve_report) result" where
  "report_plugin bundle mode constraints p report =
     (let pw = plugin_walk_new p bundle mode constraints in
      walk_plugin_and_report (pc_config p) pw [] (check_type_slot_identity pw report))"

definition report_upstream ::
    "credential_bundle \<Rightarrow> constraint_mode \<Rightarrow> upstream \<Rightarrow> resolve_report \<Rightarrow> (resolve_error, resolve_report) result" where
  "report_upstream bundle constraints u report =
     (case u_service_discovery u of
        None \<Rightarrow> Inr report
      | Some discovery \<Rightarrow>
          fold_result (\<lambda>field report.
              (case secret_leaf discovery (sf_path field) of
                 None \<Rightarrow> Inr report
               | Some s \<Rightarrow> map_sum id snd
                   (resolve_service_discovery_leaf s (u_namespace u) (u_id u) field bundle constraints report)))
            SD_SECRET_FIELDS report)"

definition apply_consumer_ledger ::
    "resolve_options \<Rightarrow> consumer list \<Rightarrow> credential_bundle \<Rightarrow> resolve_report \<Rightarrow> resolve_report" where
  "apply_consumer_ledger options consumers bundle report =
     (case ro_consumer_ledger options of
        None \<Rightarrow> report
      | Some ledger \<Rightarrow> check_consumer_ledger consumers bundle ledger report)"

definition report_secrets_with_mode_inner ::
    "gateway_config \<Rightarrow> credential_bundle \<Rightarrow> gateway_mode \<Rightarrow> constraint_mode \<Rightarrow> resolve_options \<Rightarrow>
     (resolve_error, resolve_report) result" where
  "report_secrets_with_mode_inner cfg bundle mode constraints options =
     bind_result (validate_known_credential_types cfg) (\<lambda>_.
     bind_result (validate_identity_placeholders cfg) (\<lambda>_.
     bind_result (fold_result (report_consumer bundle mode constraints) (gc_consumers cfg) empty_report) (\<lambda>r1.
     bind_result (fold_result (report_plugin bundle mode constraints) (gc_plugin_configs cfg)
       (apply_consumer_ledger options (gc_consumers cfg) bundle r1)) (\<lambda>r2.
     bind_result (fold_result (report_upstream bundle constraints) (gc_upstreams cfg) r2) (\<lambda>r3.
     bind_result (verdict options r3) (\<lambda>_. Inr r3))))))"

definition report_secrets_with_options ::
    "gateway_config \<Rightarrow> credential_bundle \<Rightarrow> gateway_mode \<Rightarrow> resolve_options \<Rightarrow> (resolve_error, resolve_report) result" where
  "report_secrets_with_options cfg bundle mode options =
     report_secrets_with_mode_inner cfg bundle mode Enforce options"

definition report_secrets ::
    "gateway_config \<Rightarrow> credential_bundle \<Rightarrow> gateway_mode \<Rightarrow> (resolve_error, resolve_report) result" where
  "report_secrets cfg bundle mode = report_secrets_with_options cfg bundle mode default_options"

definition report_secrets_lenient ::
    "gateway_config \<Rightarrow> credential_bundle \<Rightarrow> gateway_mode \<Rightarrow> (resolve_error, resolve_report) result" where
  "report_secrets_lenient cfg bundle mode =
     report_secrets_with_mode_inner cfg bundle mode ReportOnly default_options"

definition unresolved_placeholder_slots :: "gateway_config \<Rightarrow> (resolve_error, string list) result" where
  "unresolved_placeholder_slots cfg =
     map_sum id (\<lambda>report. map rs_slot (rr_results report))
       (report_secrets_with_mode_inner cfg [] ApiMode ReportOnly default_options)"

section \<open>Resolving\<close>

definition resolve_consumer ::
    "credential_bundle \<Rightarrow> gateway_mode \<Rightarrow> consumer \<Rightarrow> resolve_report \<Rightarrow> (resolve_error, consumer \<times> resolve_report) result" where
  "resolve_consumer bundle mode c report =
     bind_result (map_result (\<lambda>e r. map_sum id (apfst (Pair (fst e)))
         (walk_report_and_replace (snd e)
           [Literal (c_namespace c), Literal (c_id c), Literal (fst e)] bundle mode r))
         (c_credentials c) report) (\<lambda>(creds, report).
       let c' = c\<lparr>c_credentials := creds\<rparr> in
       Inr (c', check_omitted_credential_types c' bundle report))"

definition resolve_plugin ::
    "credential_bundle \<Rightarrow> gateway_mode \<Rightarrow> plugin_config \<Rightarrow> resolve_report \<Rightarrow>
     (resolve_error, plugin_config \<times> resolve_report) result" where
  "resolve_plugin bundle mode p report =
     (let pw = plugin_walk_new p bundle mode Enforce in
      map_sum id (apfst (\<lambda>config. p\<lparr>pc_config := config\<rparr>))
        (walk_plugin_report_and_replace (pc_config p) pw [] (check_type_slot_identity pw report)))"

text \<open>\<open>secret_leaf_mut\<close>, used to store a value: only the provider block that is present is changed.\<close>

definition set_secret_leaf ::
    "string list \<Rightarrow> string \<Rightarrow> service_discovery_config \<Rightarrow> service_discovery_config" where
  "set_secret_leaf path v discovery =
     (if path = [''consul'', ''token'']
      then discovery\<lparr>sd_consul := map_option (\<lambda>c. c\<lparr>consul_token := Some v\<rparr>) (sd_consul discovery)\<rparr>
      else discovery)"

definition resolve_upstream ::
    "credential_bundle \<Rightarrow> upstream \<Rightarrow> resolve_report \<Rightarrow> (resolve_error, upstream \<times> resolve_report) result" where
  "resolve_upstream bundle u report =
     (case u_service_discovery u of
        None \<Rightarrow> Inr (u, report)
      | Some discovery \<Rightarrow>
          map_sum id (apfst (\<lambda>d. u\<lparr>u_service_discovery := Some d\<rparr>))
            (fold_result (\<lambda>field (discovery, report).
                (case secret_leaf discovery (sf_path field) of
                   None \<Rightarrow> Inr (discovery, report)
                 | Some s \<Rightarrow> map_sum id
                     (apfst (\<lambda>answer. case answer of None \<Rightarrow> discovery | Some v \<Rightarrow> set_secret_leaf (sf_path field) v discovery))
                     (resolve_service_discovery_leaf s (u_namespace u) (u_id u) field bundle Enforce report)))
              SD_SECRET_FIELDS (discovery, report)))"

definition resolve_secrets_in_place ::
    "gateway_config \<Rightarrow> credential_bundle \<Rightarrow> gateway_mode \<Rightarrow> resolve_options \<Rightarrow>
     (resolve_error, gateway_config \<times> resolve_report) result" where
  "resolve_secrets_in_place cfg bundle mode options =
     bind_result (map_result (resolve_consumer bundle mode) (gc_consumers cfg) empty_report) (\<lambda>(consumers, r1).
     bind_result (map_result (resolve_plugin bundle mode) (gc_plugin_configs cfg)
       (apply_consumer_ledger options consumers bundle r1)) (\<lambda>(plugins, r2).
     bind_result (map_result (resolve_upstream bundle) (gc_upstreams cfg) r2) (\<lambda>(upstreams, r3).
     bind_result (verdict options r3) (\<lambda>_.
       Inr (cfg\<lparr>gc_consumers := consumers, gc_plugin_configs := plugins, gc_upstreams := upstreams\<rparr>, r3)))))"

text \<open>
  \<open>resolve_secrets_with_mode_and_options\<close>.  The argument \<open>register\<close> is what the output filter of
  the process answers when it is given the resolved values; an error keeps the input.
\<close>

definition resolve_secrets_with_options ::
    "(gateway_config \<Rightarrow> resolve_report \<Rightarrow> (resolve_error, unit) result) \<Rightarrow>
     gateway_config \<Rightarrow> credential_bundle \<Rightarrow> gateway_mode \<Rightarrow> resolve_options \<Rightarrow>
     (resolve_error, gateway_config \<times> resolve_report) result" where
  "resolve_secrets_with_options register cfg bundle mode options =
     bind_result (validate_known_credential_types cfg) (\<lambda>_.
     bind_result (validate_identity_placeholders cfg) (\<lambda>_.
     bind_result (resolve_secrets_in_place cfg bundle mode options) (\<lambda>(candidate, report).
     bind_result (register candidate report) (\<lambda>_. Inr (candidate, report)))))"

end
