(* ===== verification/Slot_Facts.thy ===== *)
theory Slot_Facts
  imports Slot
begin

text \<open>
  Slot names: escaping is invertible, so a slot splits into the encodings of its components and
  names one location - up to array index 0, which the spelling drops.
\<close>

section \<open>Components\<close>

lemma unescape_escape [simp]: "unescape_slot_component (escape_slot_component s) = s"
proof (induction s)
  case (Cons c s)
  then show ?case
    by (auto simp: escape_slot_component_def escape_byte_def)
qed (simp add: escape_slot_component_def)

lemma escape_inject [simp]: "escape_slot_component s = escape_slot_component t \<longleftrightarrow> s = t"
  by (metis unescape_escape)

lemma escape_no_separator [simp]:
  "CHR ''/'' \<notin> set (escape_slot_component s)" "CHR ''['' \<notin> set (escape_slot_component s)"
  by (auto simp: escape_slot_component_def escape_byte_def split: if_splits)

lemma escape_plain: "list_all (\<lambda>c. c \<notin> {CHR ''~'', CHR ''/'', CHR ''[''}) s \<Longrightarrow> escape_slot_component s = s"
  by (induction s) (auto simp: escape_slot_component_def escape_byte_def)

lemma index_segment_inject [simp]: "index_segment m = index_segment n \<longleftrightarrow> m = n"
  by (simp add: index_segment_def)

lemma encode_component_no_separator: "CHR ''/'' \<notin> set (encode_component c)"
  using show_nat_not_member[of "CHR ''/''"] by (cases c) (auto simp: index_segment_def is_ascii_digit_def)

lemma escape_neq_index [simp]:
  "escape_slot_component s \<noteq> index_segment n" "index_segment n \<noteq> escape_slot_component s"
proof -
  have "CHR ''['' \<in> set (index_segment n)" by (simp add: index_segment_def)
  then show "escape_slot_component s \<noteq> index_segment n" "index_segment n \<noteq> escape_slot_component s"
    by (metis escape_no_separator(2))+
qed

lemma encode_component_inject [simp]: "encode_component c = encode_component d \<longleftrightarrow> c = d"
  by (cases c; cases d) auto

lemma map_encode_inject [simp]: "map encode_component cs = map encode_component ds \<longleftrightarrow> cs = ds"
  by (simp add: list.inj_map_strong inj_map_eq_map inj_def)

lemma config_slot_component_inject [simp]: "config_slot_component c = config_slot_component d \<longleftrightarrow> c = d"
  by (cases c; cases d) auto

lemma map_config_inject [simp]:
  "map config_slot_component p = map config_slot_component q \<longleftrightarrow> p = q"
  by (simp add: inj_map_eq_map inj_def)

lemma is_elided_simps [simp]: "\<not> is_elided (Literal s)" "is_elided (ArrayIndex n) \<longleftrightarrow> n = 0"
  by (simp_all add: is_elided_def)

section \<open>A slot splits into its pieces\<close>

definition significant :: "config_path \<Rightarrow> config_path" where
  "significant p = filter (\<lambda>c. c \<noteq> Index 0) p"

lemma significant_simps [simp]:
  "significant [] = []"
  "significant (Key k # p) = Key k # significant p"
  "significant (Index i # p) = (if i = 0 then significant p else Index i # significant p)"
  by (simp_all add: significant_def)

lemma elide_config:
  "filter (\<lambda>c. \<not> is_elided c) (map config_slot_component p) = map config_slot_component (significant p)"
proof (induction p)
  case (Cons c p)
  then show ?case by (cases c) auto
qed simp

lemma split_pieces:
  "cs \<noteq> [] \<Longrightarrow> split_on CHR ''/'' (join ''/'' (map encode_component cs)) = map encode_component cs"
  by (rule split_on_join) (simp_all add: list_all_iff encode_component_no_separator)

lemma consumer_slot_join:
  "consumer_credential_slot ns cid t p =
     join ''/'' (map encode_component (Literal ns # Literal cid # Literal t # map config_slot_component (significant p)))"
  by (simp add: consumer_credential_slot_def consumer_slot_components_def join_slot_components_def elide_config)

lemma consumer_slot_pieces:
  "split_on CHR ''/'' (consumer_credential_slot ns cid t p) =
     map encode_component (Literal ns # Literal cid # Literal t # map config_slot_component (significant p))"
  by (simp only: consumer_slot_join split_pieces list.distinct not_False_eq_True)

lemma plain_kinds:
  "escape_slot_component PLUGIN_CONFIG_SLOT_KIND = PLUGIN_CONFIG_SLOT_KIND"
  "escape_slot_component SERVICE_DISCOVERY_SLOT_KIND = SERVICE_DISCOVERY_SLOT_KIND"
  "escape_slot_component ''config'' = ''config''"
  by (rule escape_plain, simp add: PLUGIN_CONFIG_SLOT_KIND_def SERVICE_DISCOVERY_SLOT_KIND_def)+

lemma plugin_slot_join:
  "plugin_config_slot ns pid name p =
     join ''/'' (map encode_component (Literal ns # Literal pid # Literal PLUGIN_CONFIG_SLOT_KIND # Literal name #
       Literal ''config'' # map config_slot_component p))"
  by (simp add: plugin_config_slot_def plugin_config_cred_key_def plain_kinds comp_def)

lemma plugin_slot_pieces:
  "split_on CHR ''/'' (plugin_config_slot ns pid name p) =
     map encode_component (Literal ns # Literal pid # Literal PLUGIN_CONFIG_SLOT_KIND # Literal name #
       Literal ''config'' # map config_slot_component p)"
  by (simp only: plugin_slot_join split_pieces list.distinct not_False_eq_True)

lemma discovery_slot_pieces:
  "split_on CHR ''/'' (discovery_slot ns uid path) =
     map encode_component (Literal ns # Literal uid # Literal SERVICE_DISCOVERY_SLOT_KIND # map Literal path)"
proof -
  have "discovery_slot ns uid path =
      join ''/'' (map encode_component (Literal ns # Literal uid # Literal SERVICE_DISCOVERY_SLOT_KIND # map Literal path))"
    by (simp add: discovery_slot_def comp_def)
  then show ?thesis by (simp only: split_pieces list.distinct not_False_eq_True)
qed

lemmas slot_pieces = consumer_slot_pieces plugin_slot_pieces discovery_slot_pieces

lemma slot_type: "credential_type_from_slot (consumer_credential_slot ns cid t p) = Some t"
  by (simp add: credential_type_from_slot_def consumer_slot_pieces)

section \<open>One slot, one location\<close>

lemma consumer_slot_eq_iff:
  "consumer_credential_slot ns cid t p = consumer_credential_slot ns' cid' t' p' \<longleftrightarrow>
     ns = ns' \<and> cid = cid' \<and> t = t' \<and> significant p = significant p'"
proof
  assume "consumer_credential_slot ns cid t p = consumer_credential_slot ns' cid' t' p'"
  then have "split_on CHR ''/'' (consumer_credential_slot ns cid t p) =
      split_on CHR ''/'' (consumer_credential_slot ns' cid' t' p')" by simp
  then show "ns = ns' \<and> cid = cid' \<and> t = t' \<and> significant p = significant p'"
    by (simp only: consumer_slot_pieces map_encode_inject) simp
next
  assume "ns = ns' \<and> cid = cid' \<and> t = t' \<and> significant p = significant p'"
  then show "consumer_credential_slot ns cid t p = consumer_credential_slot ns' cid' t' p'"
    by (simp add: consumer_slot_join)
qed

lemma plugin_slot_eq_iff:
  "plugin_config_slot ns pid name p = plugin_config_slot ns' pid' name' p' \<longleftrightarrow>
     ns = ns' \<and> pid = pid' \<and> name = name' \<and> p = p'"
proof
  assume "plugin_config_slot ns pid name p = plugin_config_slot ns' pid' name' p'"
  then have "split_on CHR ''/'' (plugin_config_slot ns pid name p) =
      split_on CHR ''/'' (plugin_config_slot ns' pid' name' p')" by simp
  then show "ns = ns' \<and> pid = pid' \<and> name = name' \<and> p = p'"
    by (simp only: plugin_slot_pieces map_encode_inject) simp
qed simp

lemma discovery_slot_eq_iff:
  "discovery_slot ns uid p = discovery_slot ns' uid' p' \<longleftrightarrow> ns = ns' \<and> uid = uid' \<and> p = p'"
proof
  assume "discovery_slot ns uid p = discovery_slot ns' uid' p'"
  then have "split_on CHR ''/'' (discovery_slot ns uid p) = split_on CHR ''/'' (discovery_slot ns' uid' p')" by simp
  moreover have "map Literal p = map Literal p' \<longleftrightarrow> p = p'" by (simp add: inj_map_eq_map inj_def)
  ultimately show "ns = ns' \<and> uid = uid' \<and> p = p'"
    by (simp only: discovery_slot_pieces map_encode_inject) simp
qed simp

lemma slot_third:
  "split_on CHR ''/'' (consumer_credential_slot ns cid t p) ! 2 = escape_slot_component t"
  "split_on CHR ''/'' (plugin_config_slot ns pid name p) ! 2 = escape_slot_component PLUGIN_CONFIG_SLOT_KIND"
  "split_on CHR ''/'' (discovery_slot ns uid path) ! 2 = escape_slot_component SERVICE_DISCOVERY_SLOT_KIND"
  by (simp_all add: slot_pieces)

lemma slot_kinds_disjoint:
  assumes "is_known_credential_type t"
  shows "consumer_credential_slot ns cid t p \<noteq> plugin_config_slot ns' pid name q"
    and "consumer_credential_slot ns cid t p \<noteq> discovery_slot ns' uid r"
    and "plugin_config_slot ns' pid name q \<noteq> discovery_slot ns'' uid r"
proof -
  have t: "t \<noteq> PLUGIN_CONFIG_SLOT_KIND" "t \<noteq> SERVICE_DISCOVERY_SLOT_KIND"
    "PLUGIN_CONFIG_SLOT_KIND \<noteq> SERVICE_DISCOVERY_SLOT_KIND"
    using assms by (auto simp: is_known_credential_type_def KNOWN_CREDENTIAL_TYPES_def
        PLUGIN_CONFIG_SLOT_KIND_def SERVICE_DISCOVERY_SLOT_KIND_def)
  then have kinds: "escape_slot_component t \<noteq> escape_slot_component PLUGIN_CONFIG_SLOT_KIND"
    "escape_slot_component t \<noteq> escape_slot_component SERVICE_DISCOVERY_SLOT_KIND"
    "escape_slot_component PLUGIN_CONFIG_SLOT_KIND \<noteq> escape_slot_component SERVICE_DISCOVERY_SLOT_KIND"
    by simp_all
  have separate: "u \<noteq> v" if "a \<noteq> b" "split_on CHR ''/'' u ! 2 = a" "split_on CHR ''/'' v ! 2 = b"
    for u v a b :: string using that by blast
  show "consumer_credential_slot ns cid t p \<noteq> plugin_config_slot ns' pid name q"
    by (rule separate[OF kinds(1) slot_third(1)[of ns cid t p] slot_third(2)[of ns' pid name q]])
  show "consumer_credential_slot ns cid t p \<noteq> discovery_slot ns' uid r"
    by (rule separate[OF kinds(2) slot_third(1)[of ns cid t p] slot_third(3)[of ns' uid r]])
  show "plugin_config_slot ns' pid name q \<noteq> discovery_slot ns'' uid r"
    by (rule separate[OF kinds(3) slot_third(2)[of ns' pid name q] slot_third(3)[of ns'' uid r]])
qed

text \<open>In a value whose arrays hold no arrays, the significant part of a path determines the leaf.\<close>

fun is_array :: "json \<Rightarrow> bool" where
  "is_array (JArray xs) = True"
| "is_array _ = False"

fun flat_arrays :: "json \<Rightarrow> bool" where
  "flat_arrays (JArray xs) = list_all (\<lambda>x. \<not> is_array x \<and> flat_arrays x) xs"
| "flat_arrays (JObject m) = list_all (\<lambda>e. flat_arrays (snd e)) m"
| "flat_arrays _ = True"

lemma significant_determines:
  assumes "value_at v p = Some (JString s)" and "value_at v q = Some (JString t)" and "flat_arrays v"
    and "significant p = significant q"
  shows "p = q"
  using assms
proof (induction p arbitrary: v q)
  case Nil
  then show ?case by (cases q rule: list.exhaust) (auto elim!: value_at.elims)
next
  case (Cons c p)
  note vp = Cons.prems(1) and vq = Cons.prems(2)
  show ?case
  proof (cases v)
    case (JObject m)
    then obtain k w where c: "c = Key k" "bt_get m k = Some w" "value_at w p = Some (JString s)"
      using vp by (cases c) (auto split: option.splits)
    obtain d q' where q: "q = d # q'" using vq JObject by (cases q) auto
    obtain l x where d: "d = Key l" "bt_get m l = Some x" "value_at x q' = Some (JString t)"
      using vq JObject q by (cases d) (auto split: option.splits)
    have "l = k" "significant p = significant q'" using Cons.prems(4) c d q by auto
    moreover have "flat_arrays w"
      using Cons.prems(3) JObject c(2) by (force simp: list_all_iff bt_get_def dest: map_of_SomeD)
    ultimately show ?thesis using Cons.IH[of w q'] c d q by auto
  next
    case (JArray xs)
    then obtain i where c: "c = Index i" "i < length xs" "value_at (xs ! i) p = Some (JString s)"
      using vp by (cases c) (auto split: if_splits)
    obtain d q' where q: "q = d # q'" using vq JArray by (cases q) auto
    obtain j where d: "d = Index j" "j < length xs" "value_at (xs ! j) q' = Some (JString t)"
      using vq JArray q by (cases d) (auto split: if_splits)
    have flat: "\<not> is_array (xs ! n) \<and> flat_arrays (xs ! n)" if "n < length xs" for n
      using Cons.prems(3) JArray that by (auto simp: list_all_iff)
    have head: "significant r \<noteq> Index n # rest"
      if "value_at (xs ! m) r = Some (JString u)" "m < length xs" for r n rest m u
    proof (cases r)
      case (Cons e r')
      then show ?thesis using that flat[of m] by (cases e; cases "xs ! m") auto
    qed simp
    show ?thesis
    proof (cases "i = j")
      case True
      then show ?thesis using Cons.IH[of "xs ! i" q'] c d q flat[OF c(2)] Cons.prems(4) by (auto split: if_splits)
    next
      case False
      then have False
        using Cons.prems(4) c d q head[OF c(3,2)] head[OF d(3,2)] by (auto split: if_splits) metis+
      then show ?thesis ..
    qed
  qed (use vp in \<open>cases c; auto\<close>)+
qed

end
