(* ===== verification/Walks.thy ===== *)
theory Walks
  imports PluginSecrets
begin

text \<open>
  Walks over a JSON value that report every string leaf.  The interface \<open>read_walk\<close> is a walk that
  threads a report through the leaves and array nodes in document order; \<open>rewrite_walk\<close> adds the
  walk that also replaces leaves.  What a finished walk says of the leaves and the arrays of the
  value is proved once here, for every walk of the resolver.
\<close>

section \<open>Leaves, arrays and substitution\<close>

fun leaves :: "(string \<Rightarrow> 'p) \<Rightarrow> (nat \<Rightarrow> 'p) \<Rightarrow> json \<Rightarrow> 'p list \<Rightarrow> ('p list \<times> string) list" where
  "leaves k i (JString s) p = [(p, s)]"
| "leaves k i (JObject m) p = concat (map (\<lambda>e. leaves k i (snd e) (p @ [k (fst e)])) m)"
| "leaves k i (JArray xs) p = concat (map (\<lambda>e. leaves k i (snd e) (p @ [i (fst e)])) (List.enumerate 0 xs))"
| "leaves k i _ p = []"

fun arrays :: "(string \<Rightarrow> 'p) \<Rightarrow> (nat \<Rightarrow> 'p) \<Rightarrow> json \<Rightarrow> 'p list \<Rightarrow> ('p list \<times> json list) list" where
  "arrays k i (JObject m) p = concat (map (\<lambda>e. arrays k i (snd e) (p @ [k (fst e)])) m)"
| "arrays k i (JArray xs) p =
     (p, xs) # concat (map (\<lambda>e. arrays k i (snd e) (p @ [i (fst e)])) (List.enumerate 0 xs))"
| "arrays k i _ p = []"

fun fill :: "(string \<Rightarrow> 'p) \<Rightarrow> (nat \<Rightarrow> 'p) \<Rightarrow> (string \<Rightarrow> 'p list \<Rightarrow> string option) \<Rightarrow> json \<Rightarrow> 'p list \<Rightarrow> json" where
  "fill k i f (JString s) p = JString (case f s p of Some v \<Rightarrow> v | None \<Rightarrow> s)"
| "fill k i f (JObject m) p = JObject (map (\<lambda>e. (fst e, fill k i f (snd e) (p @ [k (fst e)]))) m)"
| "fill k i f (JArray xs) p = JArray (map (\<lambda>e. fill k i f (snd e) (p @ [i (fst e)])) (List.enumerate 0 xs))"
| "fill k i f v p = v"

lemma json_walk_induct [case_names string object array other]:
  assumes "\<And>s. P (JString s)"
    and "\<And>m. (\<And>e. e \<in> set m \<Longrightarrow> P (snd e)) \<Longrightarrow> P (JObject m)"
    and "\<And>xs. (\<And>e. e \<in> set (List.enumerate 0 xs) \<Longrightarrow> P (snd e)) \<Longrightarrow> P (JArray xs)"
    and "\<And>v. \<forall>s m xs. v \<noteq> JString s \<and> v \<noteq> JObject m \<and> v \<noteq> JArray xs \<Longrightarrow> P v"
  shows "P v"
proof (induction v)
  case (JObject m)
  have "P (snd e)" if "e \<in> set m" for e
    by (rule JObject.IH[OF that]) (cases e, simp)
  then show ?case by (rule assms(2))
next
  case (JArray xs)
  have "P (snd e)" if "e \<in> set (List.enumerate 0 xs)" for e
    by (rule JArray.IH[OF enumerate_snd[OF that]])
  then show ?case by (rule assms(3))
qed (auto intro: assms)

section \<open>A walk that reads\<close>

locale read_walk =
  fixes read :: "json \<Rightarrow> 'p list \<Rightarrow> 'r \<Rightarrow> ('e, 'r) result"
    and leaf :: "string \<Rightarrow> 'p list \<Rightarrow> 'r \<Rightarrow> ('e, string option \<times> 'r) result"
    and on_array :: "'p list \<Rightarrow> json list \<Rightarrow> 'r \<Rightarrow> 'r"
    and key :: "string \<Rightarrow> 'p"
    and index :: "nat \<Rightarrow> 'p"
    and entries :: "'r \<Rightarrow> 'x list"
    and entry :: "string \<Rightarrow> 'p list \<Rightarrow> 'x list"
    and clean :: "'r \<Rightarrow> bool"
    and sound :: "'p list \<Rightarrow> json list \<Rightarrow> bool"
    and accepted :: "string \<Rightarrow> 'p list \<Rightarrow> bool"
  assumes read_string: "read (JString s) p r = map_sum id snd (leaf s p r)"
    and read_object: "read (JObject m) p r = fold_result (\<lambda>e. read (snd e) (p @ [key (fst e)])) m r"
    and read_array: "read (JArray xs) p r =
      fold_result (\<lambda>e. read (snd e) (p @ [index (fst e)])) (List.enumerate 0 xs) (on_array p xs r)"
    and read_other: "\<forall>s m xs. v \<noteq> JString s \<and> v \<noteq> JObject m \<and> v \<noteq> JArray xs \<Longrightarrow> read v p r = Inr r"
    and leaf_entries: "leaf s p r = Inr (a, r') \<Longrightarrow> entries r' = entries r @ entry s p"
    and leaf_clean: "leaf s p r = Inr (a, r') \<Longrightarrow> clean r' \<longleftrightarrow> clean r"
    and leaf_accepted: "leaf s p r = Inr (a, r') \<Longrightarrow> accepted s p"
    and array_entries: "entries (on_array p xs r) = entries r"
    and array_clean: "clean (on_array p xs r) \<longleftrightarrow> clean r \<and> sound p xs"
begin

lemma loop_entries:
  assumes "fold_result (\<lambda>e. read (snd e) (f e)) es r = Inr r'"
    and "\<And>e p r r'. e \<in> set es \<Longrightarrow> read (snd e) p r = Inr r' \<Longrightarrow>
      entries r' = entries r @ concat (map (\<lambda>(p, s). entry s p) (leaves key index (snd e) p))"
  shows "entries r' = entries r @ concat (map (\<lambda>(p, s). entry s p) (concat (map (\<lambda>e. leaves key index (snd e) (f e)) es)))"
  using assms
proof (induction es arbitrary: r)
  case (Cons e es)
  then obtain u where u: "read (snd e) (f e) r = Inr u" "fold_result (\<lambda>e. read (snd e) (f e)) es u = Inr r'"
    by (auto simp: bind_result_Inr_iff)
  have "entries u = entries r @ concat (map (\<lambda>(p, s). entry s p) (leaves key index (snd e) (f e)))"
    by (rule Cons.prems(2)[OF _ u(1)]) simp
  moreover have "entries r' = entries u @ concat (map (\<lambda>(p, s). entry s p) (concat (map (\<lambda>e. leaves key index (snd e) (f e)) es)))"
    by (rule Cons.IH[OF u(2)], rule Cons.prems(2)) simp_all
  ultimately show ?case by simp
qed simp

lemma read_entries:
  "read v p r = Inr r' \<Longrightarrow>
     entries r' = entries r @ concat (map (\<lambda>(p, s). entry s p) (leaves key index v p))"
proof (induction v arbitrary: p r r' rule: json_walk_induct)
  case (string s)
  then show ?case by (cases "leaf s p r") (auto simp: read_string leaf_entries)
next
  case (object m)
  then show ?case using loop_entries[where f = "\<lambda>e. p @ [key (fst e)]"] by (auto simp: read_object)
next
  case (array xs)
  then show ?case
    using loop_entries[where f = "\<lambda>e. p @ [index (fst e)]"] by (auto simp: read_array array_entries)
next
  case (other v)
  then show ?case by (cases v) (auto simp: read_other)
qed

lemma loop_members:
  assumes "fold_result (\<lambda>e. read (snd e) (f e)) es r = Inr r'"
    and "\<And>e p r r'. e \<in> set es \<Longrightarrow> read (snd e) p r = Inr r' \<Longrightarrow> (clean r' \<longrightarrow> clean r \<and> Q (snd e) p) \<and> A (snd e) p"
  shows "(clean r' \<longrightarrow> clean r \<and> list_all (\<lambda>e. Q (snd e) (f e)) es) \<and> list_all (\<lambda>e. A (snd e) (f e)) es"
  using assms
proof (induction es arbitrary: r)
  case (Cons e es)
  then obtain u where u: "read (snd e) (f e) r = Inr u" "fold_result (\<lambda>e. read (snd e) (f e)) es u = Inr r'"
    by (auto simp: bind_result_Inr_iff)
  have "(clean u \<longrightarrow> clean r \<and> Q (snd e) (f e)) \<and> A (snd e) (f e)"
    by (rule Cons.prems(2)[OF _ u(1)]) simp
  moreover have "(clean r' \<longrightarrow> clean u \<and> list_all (\<lambda>e. Q (snd e) (f e)) es) \<and> list_all (\<lambda>e. A (snd e) (f e)) es"
    by (rule Cons.IH[OF u(2)], rule Cons.prems(2)) simp_all
  ultimately show ?case by simp
qed simp

lemma read_members:
  "read v p r = Inr r' \<Longrightarrow>
     (clean r' \<longrightarrow> clean r \<and> list_all (\<lambda>(p, xs). sound p xs) (arrays key index v p)) \<and>
     list_all (\<lambda>(p, s). accepted s p) (leaves key index v p)"
proof (induction v arbitrary: p r r' rule: json_walk_induct)
  case (string s)
  then show ?case by (cases "leaf s p r") (auto simp: read_string leaf_clean leaf_accepted)
next
  case (object m)
  have "fold_result (\<lambda>e. read (snd e) (p @ [key (fst e)])) m r = Inr r'"
    using object.prems by (simp add: read_object)
  from loop_members[where f = "\<lambda>e. p @ [key (fst e)]" and
      Q = "\<lambda>v p. list_all (\<lambda>(p, xs). sound p xs) (arrays key index v p)" and
      A = "\<lambda>v p. list_all (\<lambda>(p, s). accepted s p) (leaves key index v p)", OF this object.IH]
  show ?case by (fastforce simp: list_all_iff)
next
  case (array xs)
  have "fold_result (\<lambda>e. read (snd e) (p @ [index (fst e)])) (List.enumerate 0 xs) (on_array p xs r) = Inr r'"
    using array.prems by (simp add: read_array)
  from loop_members[where f = "\<lambda>e. p @ [index (fst e)]" and
      Q = "\<lambda>v p. list_all (\<lambda>(p, xs). sound p xs) (arrays key index v p)" and
      A = "\<lambda>v p. list_all (\<lambda>(p, s). accepted s p) (leaves key index v p)", OF this array.IH]
  show ?case by (fastforce simp: list_all_iff array_clean)
next
  case (other v)
  then show ?case by (cases v) (auto simp: read_other)
qed

end

section \<open>A walk that replaces\<close>

locale rewrite_walk = read_walk +
  fixes rewrite :: "json \<Rightarrow> 'a list \<Rightarrow> 'b \<Rightarrow> ('c, json \<times> 'b) result"
    and answer :: "string \<Rightarrow> 'a list \<Rightarrow> string option"
  assumes rewrite_string: "rewrite (JString s) p r =
      map_sum id (\<lambda>a. (JString (case fst a of Some v \<Rightarrow> v | None \<Rightarrow> s), snd a)) (leaf s p r)"
    and rewrite_object: "rewrite (JObject m) p r =
      map_sum id (apfst JObject) (map_result (\<lambda>e r. map_sum id (apfst (Pair (fst e)))
        (rewrite (snd e) (p @ [key (fst e)]) r)) m r)"
    and rewrite_array: "rewrite (JArray xs) p r =
      map_sum id (apfst JArray) (map_result (\<lambda>e. rewrite (snd e) (p @ [index (fst e)]))
        (List.enumerate 0 xs) (on_array p xs r))"
    and rewrite_other: "\<forall>s m xs. v \<noteq> JString s \<and> v \<noteq> JObject m \<and> v \<noteq> JArray xs \<Longrightarrow>
      rewrite v p r = Inr (v, r)"
    and leaf_answer: "leaf s p r = Inr (a, r') \<Longrightarrow> a = answer s p"
begin

text \<open>Both walks fail alike and leave the same report.\<close>

lemma read_rewrite: "read v p r = map_sum id snd (rewrite v p r)"
proof (induction v arbitrary: p r rule: json_walk_induct)
  case (string s)
  then show ?case by (cases "leaf s p r") (auto simp: read_string rewrite_string)
next
  case (object m)
  have "fold_result (\<lambda>e. read (snd e) (p @ [key (fst e)])) m r =
      map_sum id snd (map_result (\<lambda>e r. map_sum id (apfst (Pair (fst e))) (rewrite (snd e) (p @ [key (fst e)]) r)) m r)"
    by (rule fold_map_result) (simp add: object sum.map_comp comp_def)
  then show ?case by (simp add: read_object rewrite_object sum.map_comp comp_def id_def)
next
  case (array xs)
  have "fold_result (\<lambda>e. read (snd e) (p @ [index (fst e)])) (List.enumerate 0 xs) (on_array p xs r) =
      map_sum id snd (map_result (\<lambda>e. rewrite (snd e) (p @ [index (fst e)])) (List.enumerate 0 xs) (on_array p xs r))"
    by (rule fold_map_result) (rule array)
  then show ?case by (simp add: read_array rewrite_array sum.map_comp comp_def id_def)
next
  case (other v)
  then show ?case by (simp add: read_other rewrite_other)
qed

lemma rewrite_fill: "rewrite v p r = Inr (v', r') \<Longrightarrow> v' = fill key index answer v p"
proof (induction v arbitrary: p r v' r' rule: json_walk_induct)
  case (string s)
  then show ?case by (cases "leaf s p r") (auto simp: rewrite_string dest!: leaf_answer)
next
  case (object m)
  then obtain es where es: "v' = JObject es"
    "map_result (\<lambda>e r. map_sum id (apfst (Pair (fst e))) (rewrite (snd e) (p @ [key (fst e)]) r)) m r = Inr (es, r')"
    by (auto simp: rewrite_object map_sum_def split: sum.splits)
  have "True \<and> list_all2 (\<lambda>e d. d = (fst e, fill key index answer (snd e) (p @ [key (fst e)]))) m es"
    by (rule map_result_rel[where I = "\<lambda>_. True", OF es(2)])
       (use object.IH in \<open>fastforce simp: map_sum_def split: sum.splits\<close>)+
  then show ?case using es(1) by (auto simp: list_all2_conv_all_nth intro: nth_equalityI)
next
  case (array xs)
  then obtain ys where ys: "v' = JArray ys"
    "map_result (\<lambda>e. rewrite (snd e) (p @ [index (fst e)])) (List.enumerate 0 xs) (on_array p xs r) = Inr (ys, r')"
    by (auto simp: rewrite_array map_sum_def split: sum.splits)
  have "True \<and> list_all2 (\<lambda>e y. y = fill key index answer (snd e) (p @ [index (fst e)])) (List.enumerate 0 xs) ys"
    by (rule map_result_rel[where I = "\<lambda>_. True", OF ys(2)]) (use array.IH in auto)
  then show ?case using ys(1) by (auto simp: list_all2_conv_all_nth intro: nth_equalityI)
next
  case (other v)
  then show ?case by (cases v) (auto simp: rewrite_other)
qed

lemma rewrite_facts:
  assumes "rewrite v p r = Inr (v', r')"
  shows "v' = fill key index answer v p"
    and "entries r' = entries r @ concat (map (\<lambda>(p, s). entry s p) (leaves key index v p))"
    and "clean r' \<longrightarrow> clean r \<and> list_all (\<lambda>(p, xs). sound p xs) (arrays key index v p)"
    and "list_all (\<lambda>(p, s). accepted s p) (leaves key index v p)"
proof -
  have "read v p r = Inr r'" using assms by (simp add: read_rewrite)
  then show "entries r' = entries r @ concat (map (\<lambda>(p, s). entry s p) (leaves key index v p))"
    "clean r' \<longrightarrow> clean r \<and> list_all (\<lambda>(p, xs). sound p xs) (arrays key index v p)"
    "list_all (\<lambda>(p, s). accepted s p) (leaves key index v p)"
    using read_entries read_members by blast+
qed (rule rewrite_fill[OF assms])

end

end
