(* ===== verification/Resolver_Facts.thy ===== *)
theory Resolver_Facts
  imports Resolver Slot_Facts Walks
begin

text \<open>
  What resolution answers.  Both consumer walks and both plugin walks are instances of the walk
  interfaces, so the read-only walk of a preview and the replacing walk of an apply agree; the
  resolved configuration is a substitution of stored values for placeholders; no stored value is
  handed to another credential unnoticed.
\<close>

section \<open>Reports grow\<close>

definition clean :: "resolve_report \<Rightarrow> bool" where
  "clean report = (rr_slot_remaps report = [])"

lemma report_push_simps [simp]:
  "rr_results (push_warning r m) = rr_results r" "rr_results (push_slot_remap r m) = rr_results r"
  "clean (push_warning r m) = clean r" "\<not> clean (push_slot_remap r m)"
  "rr_results (push_result x r) = rr_results r @ [x]" "clean (push_result x r) = clean r"
  "rr_results (record_credential_type slot cs r) = rr_results r"
  "clean (record_credential_type slot cs r) = clean r"
  by (auto simp: push_warning_def push_slot_remap_def push_result_def record_credential_type_def clean_def
      split: list.splits slot_component.splits)

lemma fold_results:
  "(\<And>x r. rr_results (f x r) = rr_results r) \<Longrightarrow> rr_results (fold f xs r) = rr_results r"
  by (induction xs arbitrary: r) auto

lemma fold_clean:
  "(\<And>x r. clean (f x r) \<longleftrightarrow> clean r \<and> ok x) \<Longrightarrow> clean (fold f xs r) \<longleftrightarrow> clean r \<and> list_all ok xs"
  by (induction xs arbitrary: r) auto

lemma fold_push [simp]:
  "rr_results (fold (\<lambda>x r. push_slot_remap r (f x)) xs r) = rr_results r"
  "clean (fold (\<lambda>x r. push_slot_remap r (f x)) xs r) \<longleftrightarrow> clean r \<and> xs = []"
proof -
  show "rr_results (fold (\<lambda>x r. push_slot_remap r (f x)) xs r) = rr_results r"
    by (rule fold_results) simp
  have "clean (fold (\<lambda>x r. push_slot_remap r (f x)) xs r) \<longleftrightarrow> clean r \<and> list_all (\<lambda>_. False) xs"
    by (rule fold_clean) simp
  then show "clean (fold (\<lambda>x r. push_slot_remap r (f x)) xs r) \<longleftrightarrow> clean r \<and> xs = []"
    by (cases xs) auto
qed

text \<open>No stored slot belongs to an entry the array does not have.\<close>

definition array_sound :: "credential_bundle \<Rightarrow> slot_component list \<Rightarrow> json list \<Rightarrow> bool" where
  "array_sound bundle cs items =
     list_all (\<lambda>slot. case array_entry_index cs slot of None \<Rightarrow> True | Some i \<Rightarrow> i < length items) (bt_keys bundle)"

definition plugin_array_sound :: "plugin_walk \<Rightarrow> config_path \<Rightarrow> json list \<Rightarrow> bool" where
  "plugin_array_sound pw path items =
     list_all (\<lambda>slot. case plugin_entry_index (walk_slot pw path) slot of None \<Rightarrow> True | Some i \<Rightarrow> i < length items)
       (bt_keys (pw_bundle pw))"

lemma fold_index:
  fixes g :: "string \<Rightarrow> nat option"
  defines "step \<equiv> \<lambda>n msg slot r. case g slot of None \<Rightarrow> r
     | Some i \<Rightarrow> if n \<le> i then push_slot_remap r (msg slot i) else r"
  shows "rr_results (fold (step n msg) xs r) = rr_results r"
    and "clean (fold (step n msg) xs r) \<longleftrightarrow>
      clean r \<and> list_all (\<lambda>slot. case g slot of None \<Rightarrow> True | Some i \<Rightarrow> i < n) xs"
  by (rule fold_results, simp add: step_def split: option.splits)
     (rule fold_clean, auto simp: step_def split: option.splits)

lemma check_array:
  "rr_results (check_array_slot_identity cs items bundle r) = rr_results r"
  "clean (check_array_slot_identity cs items bundle r) \<longleftrightarrow> clean r \<and> array_sound bundle cs items"
  by (simp_all add: check_array_slot_identity_def Let_def array_sound_def fold_index)

lemma check_plugin_array:
  "rr_results (check_plugin_array_slot_identity pw path items r) = rr_results r"
  "clean (check_plugin_array_slot_identity pw path items r) \<longleftrightarrow> clean r \<and> plugin_array_sound pw path items"
  by (simp_all add: check_plugin_array_slot_identity_def Let_def plugin_array_sound_def fold_index)

section \<open>One leaf\<close>

text \<open>The value a leaf takes, the entry it adds to the report and what it must satisfy.\<close>

definition usable_value :: "string \<Rightarrow> bool" where
  "usable_value v = (v \<noteq> REDACTED_SENTINEL \<and> MIN_SCRUB_LENGTH \<le> length v)"

definition credential_answer :: "credential_bundle \<Rightarrow> string \<Rightarrow> slot_component list \<Rightarrow> string option" where
  "credential_answer bundle s cs =
     (if is_placeholder s then find_map (bt_get bundle) (slot_lookup_candidates cs) else None)"

definition credential_entry :: "credential_bundle \<Rightarrow> string \<Rightarrow> slot_component list \<Rightarrow> resolve_result list" where
  "credential_entry bundle s cs =
     (case parse_placeholder s of
        Some (Inr ph) \<Rightarrow>
          [\<lparr>rs_consumer_id = literal_or_empty (drop 1 cs), rs_namespace = literal_or_empty cs,
            rs_cred_key = join_slot_components (drop 2 cs), rs_slot = join_slot_components cs,
            rs_placeholder = ph, rs_status = classify_status ph (credential_answer bundle s cs)\<rparr>]
      | _ \<Rightarrow> [])"

definition credential_accepted :: "credential_bundle \<Rightarrow> string \<Rightarrow> slot_component list \<Rightarrow> bool" where
  "credential_accepted bundle s cs =
     ((\<forall>e. parse_placeholder s \<noteq> Some (Inl e)) \<and>
      (\<forall>v. credential_answer bundle s cs = Some v \<longrightarrow> usable_value v \<and> placeholder_text_reason s v = None))"

lemma lookup_slot_value_ok:
  "lookup_slot_value cs slot s bundle = Inr a \<Longrightarrow>
     a = find_map (bt_get bundle) (slot_lookup_candidates cs) \<and>
     (\<forall>v. a = Some v \<longrightarrow> usable_value v \<and> placeholder_text_reason s v = None)"
  by (auto simp: lookup_slot_value_def check_consumer_secret_not_placeholder_text_def check_min_secret_length_def
      usable_value_def bind_result_Inr_iff split: option.splits if_splits)

lemma lookup_exact_slot_value_ok:
  "lookup_exact_slot_value slot bundle = Inr a \<Longrightarrow>
     a = bt_get bundle slot \<and> (\<forall>v. a = Some v \<longrightarrow> usable_value v)"
  by (auto simp: lookup_exact_slot_value_def check_min_secret_length_def usable_value_def bind_result_Inr_iff
      split: option.splits if_splits)

lemma on_placeholder_ok:
  "on_placeholder s r f = Inr (a, r') \<longleftrightarrow>
     (parse_placeholder s = None \<and> a = None \<and> r' = r) \<or>
     (\<exists>ph. parse_placeholder s = Some (Inr ph) \<and> f ph = Inr (a, r'))"
  by (auto simp: on_placeholder_def split: option.splits sum.splits)

lemma credential_leaf:
  assumes "report_credential_leaf s cs bundle mode constraints r = Inr (a, r')"
  shows "a = credential_answer bundle s cs" and "rr_results r' = rr_results r @ credential_entry bundle s cs"
    and "clean r' = clean r" and "credential_accepted bundle s cs"
  using assms
  by (auto simp: report_credential_leaf_def on_placeholder_ok bind_result_Inr_iff Let_def credential_answer_def
      credential_entry_def credential_accepted_def is_placeholder_def decompose_components_def
      dest!: lookup_slot_value_ok)

definition plugin_answer :: "plugin_walk \<Rightarrow> string \<Rightarrow> config_path \<Rightarrow> string option" where
  "plugin_answer pw s path = (if is_placeholder s then bt_get (pw_bundle pw) (walk_slot pw path) else None)"

definition plugin_entry :: "plugin_walk \<Rightarrow> string \<Rightarrow> config_path \<Rightarrow> resolve_result list" where
  "plugin_entry pw s path =
     (case parse_placeholder s of
        Some (Inr ph) \<Rightarrow>
          [\<lparr>rs_consumer_id = pw_plugin_id pw, rs_namespace = pw_namespace pw,
            rs_cred_key = plugin_config_cred_key (pw_plugin_name pw) path, rs_slot = walk_slot pw path,
            rs_placeholder = ph, rs_status = classify_status ph (plugin_answer pw s path)\<rparr>]
      | _ \<Rightarrow> [])"

definition plugin_accepted :: "plugin_walk \<Rightarrow> string \<Rightarrow> config_path \<Rightarrow> bool" where
  "plugin_accepted pw s path =
     ((\<forall>e. parse_placeholder s \<noteq> Some (Inl e)) \<and> (\<forall>v. plugin_answer pw s path = Some v \<longrightarrow> usable_value v))"

lemma plugin_leaf:
  assumes "report_leaf pw s path r = Inr (a, r')"
  shows "a = plugin_answer pw s path" and "rr_results r' = rr_results r @ plugin_entry pw s path"
    and "clean r' = clean r" and "plugin_accepted pw s path"
  using assms
  by (auto simp: report_leaf_def on_placeholder_ok bind_result_Inr_iff Let_def plugin_answer_def
      plugin_entry_def plugin_accepted_def is_placeholder_def clean_def push_result_def
      dest!: lookup_exact_slot_value_ok)

definition discovery_answer :: "credential_bundle \<Rightarrow> upstream \<Rightarrow> sd_secret_field \<Rightarrow> string \<Rightarrow> string option" where
  "discovery_answer bundle u field s =
     (if is_placeholder s then bt_get bundle (discovery_slot (u_namespace u) (u_id u) (sf_path field)) else None)"

definition discovery_entry :: "credential_bundle \<Rightarrow> upstream \<Rightarrow> sd_secret_field \<Rightarrow> string \<Rightarrow> resolve_result list" where
  "discovery_entry bundle u field s =
     (case parse_placeholder s of
        Some (Inr ph) \<Rightarrow>
          [\<lparr>rs_consumer_id = u_id u, rs_namespace = u_namespace u, rs_cred_key = discovery_cred_key (sf_path field),
            rs_slot = discovery_slot (u_namespace u) (u_id u) (sf_path field),
            rs_placeholder = ph, rs_status = classify_status ph (discovery_answer bundle u field s)\<rparr>]
      | _ \<Rightarrow> [])"

lemma discovery_leaf:
  assumes "resolve_service_discovery_leaf s (u_namespace u) (u_id u) field bundle constraints r = Inr (a, r')"
  shows "a = discovery_answer bundle u field s" and "rr_results r' = rr_results r @ discovery_entry bundle u field s"
    and "clean r' = clean r" and "(\<forall>e. parse_placeholder s \<noteq> Some (Inl e)) \<and> (\<forall>v. a = Some v \<longrightarrow> usable_value v)"
  using assms
  by (auto simp: resolve_service_discovery_leaf_def on_placeholder_ok bind_result_Inr_iff Let_def
      discovery_answer_def discovery_entry_def is_placeholder_def clean_def push_result_def
      dest!: lookup_exact_slot_value_ok)

section \<open>The walks\<close>

interpretation credential_read: read_walk
  "\<lambda>v cs. walk_and_report v cs b mode constraints"
  "\<lambda>s cs. report_credential_leaf s cs b mode constraints"
  "\<lambda>cs items. check_array_slot_identity cs items b"
  Literal ArrayIndex rr_results "credential_entry b" clean "array_sound b"
  "credential_accepted b"
  for b mode constraints
proof (unfold_locales, goal_cases)
  case (4 v p r)
  then show ?case by (cases v) auto
qed (auto simp: check_array credential_leaf)

interpretation credential_walk: rewrite_walk
  "\<lambda>v cs. walk_and_report v cs b mode Enforce"
  "\<lambda>s cs. report_credential_leaf s cs b mode Enforce"
  "\<lambda>cs items. check_array_slot_identity cs items b"
  Literal ArrayIndex rr_results "credential_entry b" clean "array_sound b"
  "credential_accepted b"
  "\<lambda>v cs. walk_report_and_replace v cs b mode" "credential_answer b"
  for b mode
proof (unfold_locales, goal_cases)
  case (4 v p r)
  then show ?case by (cases v) auto
qed (auto simp: replace_text_def[abs_def] credential_leaf)

interpretation plugin_walk: rewrite_walk
  "\<lambda>v path. walk_plugin_and_report v pw path"
  "\<lambda>s path. report_leaf pw s path"
  "\<lambda>path items. check_plugin_array_slot_identity pw path items"
  Key Index rr_results "plugin_entry pw" clean "plugin_array_sound pw" "plugin_accepted pw"
  "\<lambda>v path. walk_plugin_report_and_replace v pw path" "plugin_answer pw"
  for pw
proof (unfold_locales, goal_cases)
  case (4 v p r)
  then show ?case by (cases v) auto
next
  case (13 v p r)
  then show ?case by (cases v) auto
qed (auto simp: replace_text_def[abs_def] check_plugin_array plugin_leaf)

section \<open>A preview reports what an apply resolves\<close>

lemma report_consumer_resolve:
  "report_consumer bundle mode Enforce c r = map_sum id snd (resolve_consumer bundle mode c r)"
proof -
  have "fold_result (\<lambda>e. walk_and_report (snd e)
        [Literal (c_namespace c), Literal (c_id c), Literal (fst e)] bundle mode Enforce) (c_credentials c) r =
      map_sum id snd (map_result (\<lambda>e r. map_sum id (apfst (Pair (fst e)))
        (walk_report_and_replace (snd e)
          [Literal (c_namespace c), Literal (c_id c), Literal (fst e)] bundle mode r)) (c_credentials c) r)"
    by (rule fold_map_result) (simp add: credential_walk.read_rewrite sum.map_comp comp_def id_def)
  moreover have "check_omitted_credential_types (c\<lparr>c_credentials := creds\<rparr>) bundle s =
      check_omitted_credential_types c bundle s" if "map fst creds = map fst (c_credentials c)" for creds s
    using arg_cong[OF that, of set]
    by (simp add: check_omitted_credential_types_def omitted_type_orphans_def omitted_type_message_def
        bt_contains_def bt_get_def map_of_eq_None_iff cong del: if_weak_cong)
  moreover have "map fst creds = map fst (c_credentials c)"
    if "map_result (\<lambda>e r. map_sum id (apfst (Pair (fst e)))
        (walk_report_and_replace (snd e)
          [Literal (c_namespace c), Literal (c_id c), Literal (fst e)] bundle mode r)) (c_credentials c) r = Inr (creds, s)"
    for creds s
  proof -
    have "True \<and> list_all2 (\<lambda>e d. fst d = fst e) (c_credentials c) creds"
      by (rule map_result_rel[where I = "\<lambda>_. True", OF that]) (auto simp: map_sum_def split: sum.splits)
    then show ?thesis by (auto simp: list_all2_conv_all_nth intro: nth_equalityI)
  qed
  ultimately show ?thesis
    by (auto simp: report_consumer_def resolve_consumer_def map_sum_def bind_result_def Let_def split: sum.splits)
qed

lemma report_plugin_resolve:
  "report_plugin bundle mode Enforce p r = map_sum id snd (resolve_plugin bundle mode p r)"
  by (simp add: report_plugin_def resolve_plugin_def Let_def plugin_walk.read_rewrite sum.map_comp comp_def id_def)

lemma report_upstream_resolve:
  "report_upstream bundle Enforce u r = map_sum id snd (resolve_upstream bundle u r)"
  by (simp add: report_upstream_def resolve_upstream_def SD_SECRET_FIELDS_def sum.map_comp comp_def id_def
      bind_result_def split: option.splits sum.splits)
     (auto simp: map_sum_def split: option.splits sum.splits)

text \<open>What a resolved consumer keeps: everything the ledger check reads.\<close>

lemma resolve_consumer_keeps:
  "resolve_consumer bundle mode c r = Inr (c', r') \<Longrightarrow> c_namespace c' = c_namespace c \<and> c_id c' = c_id c"
  by (auto simp: resolve_consumer_def bind_result_Inr_iff Let_def)

lemma apply_consumer_ledger_keeps:
  assumes "map_result (resolve_consumer bundle mode) cs r = Inr (cs', r')"
  shows "apply_consumer_ledger options cs' b s = apply_consumer_ledger options cs b s"
proof -
  have "True \<and> list_all2 (\<lambda>c c'. c_namespace c' = c_namespace c \<and> c_id c' = c_id c) cs cs'"
    by (rule map_result_rel[where I = "\<lambda>_. True", OF assms]) (auto dest: resolve_consumer_keeps)
  then have "map (\<lambda>c. (c_namespace c, c_id c)) cs' = map (\<lambda>c. (c_namespace c, c_id c)) cs"
    by (auto simp: list_all2_conv_all_nth intro: nth_equalityI)
  then have "retired_consumer cs' = retired_consumer cs"
    by (simp add: retired_consumer_def fun_eq_iff del: set_map)
  then show ?thesis
    unfolding apply_consumer_ledger_def check_consumer_ledger_def by (rule ssubst) (rule refl)
qed

lemma map_sum_bind:
  "map_sum id f (bind_result r g) = bind_result r (\<lambda>x. map_sum id f (g x))"
  "bind_result (map_sum id h q) k = bind_result q (\<lambda>x. k (h x))"
  by (cases r; simp) (cases q; simp)

lemma bind_assoc: "bind_result (bind_result r f) g = bind_result r (\<lambda>x. bind_result (f x) g)"
  by (cases r) auto

lemma bind_result_cong:
  "r = r' \<Longrightarrow> (\<And>x. r' = Inr x \<Longrightarrow> f x = g x) \<Longrightarrow> bind_result r f = bind_result r' g"
  by (cases r') auto

text \<open>
  C33.  The preview commands walk the documents without changing them and \<open>apply\<close> replaces the
  placeholders; both accept the same documents, fail with the same error, and report the same
  slots, statuses, advisories and remaps.
\<close>

theorem plan_resolves_as_apply:
  "report_secrets_with_options cfg bundle mode options =
     map_sum id snd (resolve_secrets_with_options (\<lambda>_ _. Inr ()) cfg bundle mode options)"
proof -
  have 1: "fold_result (report_consumer bundle mode Enforce) xs r =
      map_sum id snd (map_result (resolve_consumer bundle mode) xs r)" for xs r
    by (rule fold_map_result, rule report_consumer_resolve)
  have 2: "fold_result (report_plugin bundle mode Enforce) xs r =
      map_sum id snd (map_result (resolve_plugin bundle mode) xs r)" for xs r
    by (rule fold_map_result, rule report_plugin_resolve)
  have 3: "fold_result (report_upstream bundle Enforce) xs r =
      map_sum id snd (map_result (resolve_upstream bundle) xs r)" for xs r
    by (rule fold_map_result, rule report_upstream_resolve)
  show ?thesis
    unfolding report_secrets_with_options_def report_secrets_with_mode_inner_def
      resolve_secrets_with_options_def resolve_secrets_in_place_def 1 2 3 map_sum_bind bind_assoc split_beta
    by (intro bind_result_cong refl) (auto simp: apply_consumer_ledger_keeps intro!: bind_result_cong)
qed

section \<open>The resolved configuration\<close>

text \<open>The leaves and arrays of one credential, under the components the walk starts with.\<close>

definition credential_root :: "consumer \<Rightarrow> string \<Rightarrow> slot_component list" where
  "credential_root c t = [Literal (c_namespace c), Literal (c_id c), Literal t]"

definition credential_leaves :: "consumer \<Rightarrow> (slot_component list \<times> string) list" where
  "credential_leaves c =
     concat (map (\<lambda>e. leaves Literal ArrayIndex (snd e) (credential_root c (fst e))) (c_credentials c))"

definition credential_arrays :: "consumer \<Rightarrow> (slot_component list \<times> json list) list" where
  "credential_arrays c =
     concat (map (\<lambda>e. arrays Literal ArrayIndex (snd e) (credential_root c (fst e))) (c_credentials c))"

definition substituted_consumer :: "credential_bundle \<Rightarrow> consumer \<Rightarrow> consumer" where
  "substituted_consumer bundle c =
     c\<lparr>c_credentials := map (\<lambda>e. (fst e,
         fill Literal ArrayIndex (credential_answer bundle) (snd e) (credential_root c (fst e)))) (c_credentials c)\<rparr>"

definition consumer_results :: "credential_bundle \<Rightarrow> consumer \<Rightarrow> resolve_result list" where
  "consumer_results bundle c = concat (map (\<lambda>(cs, s). credential_entry bundle s cs) (credential_leaves c))"

definition plugin_context :: "credential_bundle \<Rightarrow> gateway_mode \<Rightarrow> plugin_config \<Rightarrow> plugin_walk" where
  "plugin_context bundle mode p = plugin_walk_new p bundle mode Enforce"

definition plugin_leaves :: "plugin_config \<Rightarrow> (config_path \<times> string) list" where
  "plugin_leaves p = leaves Key Index (pc_config p) []"

definition substituted_plugin :: "credential_bundle \<Rightarrow> gateway_mode \<Rightarrow> plugin_config \<Rightarrow> plugin_config" where
  "substituted_plugin bundle mode p =
     p\<lparr>pc_config := fill Key Index (plugin_answer (plugin_context bundle mode p)) (pc_config p) []\<rparr>"

definition plugin_results :: "credential_bundle \<Rightarrow> gateway_mode \<Rightarrow> plugin_config \<Rightarrow> resolve_result list" where
  "plugin_results bundle mode p =
     concat (map (\<lambda>(path, s). plugin_entry (plugin_context bundle mode p) s path) (plugin_leaves p))"

definition consul_field :: sd_secret_field where
  "consul_field = hd SD_SECRET_FIELDS"

definition discovery_token :: "upstream \<Rightarrow> string option" where
  "discovery_token u = Option.bind (u_service_discovery u) (\<lambda>d. secret_leaf d [''consul'', ''token''])"

definition substituted_upstream :: "credential_bundle \<Rightarrow> upstream \<Rightarrow> upstream" where
  "substituted_upstream bundle u =
     (case Option.bind (discovery_token u) (discovery_answer bundle u consul_field) of
        None \<Rightarrow> u
      | Some v \<Rightarrow> u\<lparr>u_service_discovery :=
          map_option (set_secret_leaf [''consul'', ''token''] v) (u_service_discovery u)\<rparr>)"

definition upstream_results :: "credential_bundle \<Rightarrow> upstream \<Rightarrow> resolve_result list" where
  "upstream_results bundle u =
     (case discovery_token u of None \<Rightarrow> [] | Some s \<Rightarrow> discovery_entry bundle u consul_field s)"

text \<open>What must hold of one resource for a resolution to succeed, and to succeed without a remap.\<close>

definition consumer_accepted :: "credential_bundle \<Rightarrow> consumer \<Rightarrow> bool" where
  "consumer_accepted bundle c = list_all (\<lambda>(cs, s). credential_accepted bundle s cs) (credential_leaves c)"

definition plugin_config_accepted :: "credential_bundle \<Rightarrow> gateway_mode \<Rightarrow> plugin_config \<Rightarrow> bool" where
  "plugin_config_accepted bundle mode p =
     list_all (\<lambda>(path, s). plugin_accepted (plugin_context bundle mode p) s path) (plugin_leaves p)"

definition upstream_accepted :: "credential_bundle \<Rightarrow> upstream \<Rightarrow> bool" where
  "upstream_accepted bundle u =
     (case discovery_token u of
        None \<Rightarrow> True
      | Some s \<Rightarrow> (\<forall>e. parse_placeholder s \<noteq> Some (Inl e)) \<and>
          (case discovery_answer bundle u consul_field s of None \<Rightarrow> True | Some v \<Rightarrow> usable_value v))"

definition consumer_sound :: "credential_bundle \<Rightarrow> consumer \<Rightarrow> bool" where
  "consumer_sound bundle c =
     (list_all (\<lambda>(cs, items). array_sound bundle cs items) (credential_arrays c) \<and>
      list_all (\<lambda>t. bt_contains (c_credentials c) t \<or> omitted_type_orphans c t bundle = []) KNOWN_CREDENTIAL_TYPES)"

definition plugin_sound :: "credential_bundle \<Rightarrow> gateway_mode \<Rightarrow> plugin_config \<Rightarrow> bool" where
  "plugin_sound bundle mode p =
     (let pw = plugin_context bundle mode p in
      list_all (\<lambda>(path, items). plugin_array_sound pw path items) (arrays Key Index (pc_config p) []) \<and>
      foreign_slots pw PLUGIN_CONFIG_SLOT_KIND = [] \<and>
      foreign_slots pw RETIRED_TYPELESS_PLUGIN_CONFIG_SLOT_KIND = [])"

definition ledger_sound ::
    "resolve_options \<Rightarrow> consumer list \<Rightarrow> credential_bundle \<Rightarrow> resolve_result list \<Rightarrow> bool" where
  "ledger_sound options consumers bundle results =
     (case ro_consumer_ledger options of
        None \<Rightarrow> True
      | Some ledger \<Rightarrow>
          list_all (\<lambda>r. \<not> revives ledger r) results \<and>
          list_all (\<lambda>slot. case stored_consumer slot of
              None \<Rightarrow> True | Some holder \<Rightarrow> \<not> retired_consumer consumers ledger holder) (bt_keys bundle))"

lemma resolve_loop:
  assumes "map_result f xs r = Inr (ys, t)"
    and "\<And>x r y t. x \<in> set xs \<Longrightarrow> f x r = Inr (y, t) \<Longrightarrow>
      y = g x \<and> rr_results t = rr_results r @ h x \<and> Q x \<and> (clean t \<longrightarrow> clean r \<and> S x)"
  shows "ys = map g xs" and "rr_results t = rr_results r @ concat (map h xs)" and "list_all Q xs"
    and "clean t \<longrightarrow> clean r \<and> list_all S xs"
proof -
  have "ys = map g xs \<and> rr_results t = rr_results r @ concat (map h xs) \<and> list_all Q xs \<and>
      (clean t \<longrightarrow> clean r \<and> list_all S xs)"
    using assms
  proof (induction xs arbitrary: r ys)
    case (Cons x xs)
    then obtain y u zs where u: "f x r = Inr (y, u)" "map_result f xs u = Inr (zs, t)" "ys = y # zs"
      by (auto simp: bind_result_Inr_iff)
    have 1: "y = g x \<and> rr_results u = rr_results r @ h x \<and> Q x \<and> (clean u \<longrightarrow> clean r \<and> S x)"
      by (rule Cons.prems(2)[OF _ u(1)]) simp
    have "zs = map g xs \<and> rr_results t = rr_results u @ concat (map h xs) \<and> list_all Q xs \<and>
        (clean t \<longrightarrow> clean u \<and> list_all S xs)"
      by (rule Cons.IH[OF u(2)], rule Cons.prems(2)) simp_all
    then show ?case using 1 u(3) by simp
  qed simp
  then show "ys = map g xs" "rr_results t = rr_results r @ concat (map h xs)" "list_all Q xs"
    "clean t \<longrightarrow> clean r \<and> list_all S xs" by simp_all
qed

lemma check_omitted:
  "rr_results (check_omitted_credential_types c bundle r) = rr_results r"
  "clean (check_omitted_credential_types c bundle r) \<longleftrightarrow> clean r \<and>
     list_all (\<lambda>t. bt_contains (c_credentials c) t \<or> omitted_type_orphans c t bundle = []) KNOWN_CREDENTIAL_TYPES"
  unfolding check_omitted_credential_types_def by (rule fold_results, simp) (rule fold_clean, simp)

lemma check_type:
  "rr_results (check_type_slot_identity pw r) = rr_results r"
  "clean (check_type_slot_identity pw r) \<longleftrightarrow> clean r \<and> foreign_slots pw PLUGIN_CONFIG_SLOT_KIND = [] \<and>
     foreign_slots pw RETIRED_TYPELESS_PLUGIN_CONFIG_SLOT_KIND = []"
  by (auto simp: check_type_slot_identity_def)

lemma check_ledger:
  "rr_results (apply_consumer_ledger options consumers bundle r) = rr_results r"
  "clean (apply_consumer_ledger options consumers bundle r) \<longleftrightarrow>
     clean r \<and> ledger_sound options consumers bundle (rr_results r)"
proof -
  define step where "step ledger = (\<lambda>slot report. case stored_consumer slot of None \<Rightarrow> report
    | Some holder \<Rightarrow> if retired_consumer consumers ledger holder
        then push_slot_remap report (retired_consumer_message slot holder) else report)" for ledger
  have 1: "rr_results (fold (step l) xs r) = rr_results r" for l xs r
    by (rule fold_results) (simp add: step_def split: option.splits)
  have 2: "clean (fold (step l) xs r) \<longleftrightarrow> clean r \<and> list_all (\<lambda>slot. case stored_consumer slot of
      None \<Rightarrow> True | Some holder \<Rightarrow> \<not> retired_consumer consumers l holder) xs" for l xs r
    by (rule fold_clean) (auto simp: step_def split: option.splits)
  have eq: "check_consumer_ledger consumers bundle l r =
      fold (step l) (bt_keys bundle)
        (fold (\<lambda>message report. push_slot_remap report message)
          (map (revived_slot_message l) (filter (revives l) (rr_results r))) r)" for l
    by (simp add: check_consumer_ledger_def step_def)
  show "rr_results (apply_consumer_ledger options consumers bundle r) = rr_results r"
    by (simp add: apply_consumer_ledger_def eq 1 split: option.splits)
  show "clean (apply_consumer_ledger options consumers bundle r) \<longleftrightarrow>
     clean r \<and> ledger_sound options consumers bundle (rr_results r)"
    by (auto simp: apply_consumer_ledger_def eq 2 ledger_sound_def filter_empty_conv list_all_iff split: option.splits)
qed

lemma resolve_consumer_facts:
  assumes "resolve_consumer bundle mode c r = Inr (c', t)"
  shows "c' = substituted_consumer bundle c \<and> rr_results t = rr_results r @ consumer_results bundle c \<and>
    consumer_accepted bundle c \<and> (clean t \<longrightarrow> clean r \<and> consumer_sound bundle c)"
proof -
  obtain creds u where u: "map_result (\<lambda>e r. map_sum id (apfst (Pair (fst e)))
      (walk_report_and_replace (snd e) (credential_root c (fst e)) bundle mode r)) (c_credentials c) r = Inr (creds, u)"
    and c': "c' = c\<lparr>c_credentials := creds\<rparr>" and t: "t = check_omitted_credential_types c' bundle u"
    using assms by (auto simp: resolve_consumer_def bind_result_Inr_iff Let_def credential_root_def)
  let ?G = "\<lambda>e. (fst e, fill Literal ArrayIndex (credential_answer bundle) (snd e) (credential_root c (fst e)))"
  let ?H = "\<lambda>e. concat (map (\<lambda>(cs, s). credential_entry bundle s cs)
    (leaves Literal ArrayIndex (snd e) (credential_root c (fst e))))"
  let ?Q = "\<lambda>e. list_all (\<lambda>(cs, s). credential_accepted bundle s cs)
    (leaves Literal ArrayIndex (snd e) (credential_root c (fst e)))"
  let ?S = "\<lambda>e. list_all (\<lambda>(cs, items). array_sound bundle cs items)
    (arrays Literal ArrayIndex (snd e) (credential_root c (fst e)))"
  have step: "y = ?G e \<and> rr_results t = rr_results r @ ?H e \<and> ?Q e \<and> (clean t \<longrightarrow> clean r \<and> ?S e)"
    if "e \<in> set (c_credentials c)" "map_sum id (apfst (Pair (fst e)))
      (walk_report_and_replace (snd e) (credential_root c (fst e)) bundle mode r) = Inr (y, t)" for e r y t
  proof -
    note h = that(2)
    obtain v where v: "walk_report_and_replace (snd e) (credential_root c (fst e)) bundle mode r = Inr (v, t)"
      "y = (fst e, v)"
      using h by (auto simp: map_sum_def split: sum.splits)
    show ?thesis using credential_walk.rewrite_facts[OF v(1)] v(2) by simp
  qed
  note loop = resolve_loop[where g = ?G and h = ?H and Q = ?Q and S = ?S, OF u step]
  have "map fst creds = map fst (c_credentials c)" by (simp add: loop(1))
  then have "fst ` set creds = fst ` set (c_credentials c)" by (metis set_map)
  then have same: "bt_contains creds k = bt_contains (c_credentials c) k" for k
    by (simp add: bt_contains_def bt_get_def map_of_eq_None_iff)
  have orphans: "omitted_type_orphans (c\<lparr>c_credentials := creds\<rparr>) k bundle = omitted_type_orphans c k bundle" for k
    by (simp add: omitted_type_orphans_def)
  have conc: "list_all P (concat xss) \<longleftrightarrow> list_all (list_all P) xss"
    "concat (map F (concat xss)) = concat (map (\<lambda>xs. concat (map F xs)) xss)"
    for P :: "'x \<Rightarrow> bool" and F :: "'x \<Rightarrow> 'y list" and xss
    by (induction xss) auto
  have checked: "rr_results t = rr_results u" "clean t \<longleftrightarrow> clean u \<and>
      list_all (\<lambda>k. bt_contains (c_credentials c) k \<or> omitted_type_orphans c k bundle = []) KNOWN_CREDENTIAL_TYPES"
    unfolding t c' check_omitted by (simp_all add: same orphans)
  show ?thesis
    using loop(2-4) unfolding checked c'
    by (simp add: substituted_consumer_def loop(1) consumer_results_def credential_leaves_def conc comp_def
        consumer_accepted_def consumer_sound_def credential_arrays_def list.pred_map)
qed

lemma resolve_plugin_facts:
  assumes "resolve_plugin bundle mode p r = Inr (p', t)"
  shows "p' = substituted_plugin bundle mode p \<and> rr_results t = rr_results r @ plugin_results bundle mode p \<and>
    plugin_config_accepted bundle mode p \<and> (clean t \<longrightarrow> clean r \<and> plugin_sound bundle mode p)"
proof -
  define pw where "pw = plugin_context bundle mode p"
  obtain v where v: "walk_plugin_report_and_replace (pc_config p) pw [] (check_type_slot_identity pw r) = Inr (v, t)"
    "p' = p\<lparr>pc_config := v\<rparr>"
    using assms by (auto simp: resolve_plugin_def Let_def map_sum_def pw_def plugin_context_def split: sum.splits)
  show ?thesis
    using plugin_walk.rewrite_facts[OF v(1)] v(2)
    by (simp add: substituted_plugin_def plugin_results_def plugin_config_accepted_def plugin_sound_def
        plugin_leaves_def check_type pw_def Let_def)
qed

lemma resolve_upstream_facts:
  assumes "resolve_upstream bundle u r = Inr (u', t)"
  shows "u' = substituted_upstream bundle u \<and> rr_results t = rr_results r @ upstream_results bundle u \<and>
    upstream_accepted bundle u \<and> (clean t \<longrightarrow> clean r)"
proof (cases "u_service_discovery u")
  case None
  then show ?thesis
    using assms by (simp add: resolve_upstream_def substituted_upstream_def upstream_results_def upstream_accepted_def
        discovery_token_def)
next
  case (Some d)
  have f: "sf_path consul_field = [''consul'', ''token'']" "SD_SECRET_FIELDS = [consul_field]"
    by (simp_all add: consul_field_def SD_SECRET_FIELDS_def)
  show ?thesis
  proof (cases "secret_leaf d [''consul'', ''token'']")
    case None
    have "u' = u\<lparr>u_service_discovery := Some d\<rparr> \<and> t = r"
      using assms Some None by (auto simp: resolve_upstream_def f)
    moreover have "u\<lparr>u_service_discovery := Some d\<rparr> = u" using Some by (cases u) simp
    ultimately show ?thesis
      using Some None
      by (simp add: substituted_upstream_def upstream_results_def upstream_accepted_def discovery_token_def)
  next
    case (Some s)
    obtain a where a: "resolve_service_discovery_leaf s (u_namespace u) (u_id u) consul_field bundle Enforce r = Inr (a, t)"
      and u': "u' = u\<lparr>u_service_discovery :=
        Some (case a of None \<Rightarrow> d | Some v \<Rightarrow> set_secret_leaf [''consul'', ''token''] v d)\<rparr>"
      using assms \<open>u_service_discovery u = Some d\<close> Some
      by (auto simp: resolve_upstream_def f map_sum_def split: sum.splits)
    have "u\<lparr>u_service_discovery := Some d\<rparr> = u" using \<open>u_service_discovery u = Some d\<close> by (cases u) simp
    then show ?thesis
      using discovery_leaf[OF a] u' \<open>u_service_discovery u = Some d\<close> Some
      by (auto simp: substituted_upstream_def upstream_results_def upstream_accepted_def discovery_token_def
          split: option.splits)
  qed
qed

definition substituted_config :: "credential_bundle \<Rightarrow> gateway_mode \<Rightarrow> gateway_config \<Rightarrow> gateway_config" where
  "substituted_config bundle mode cfg =
     cfg\<lparr>gc_consumers := map (substituted_consumer bundle) (gc_consumers cfg),
         gc_plugin_configs := map (substituted_plugin bundle mode) (gc_plugin_configs cfg),
         gc_upstreams := map (substituted_upstream bundle) (gc_upstreams cfg)\<rparr>"

definition expected_results :: "credential_bundle \<Rightarrow> gateway_mode \<Rightarrow> gateway_config \<Rightarrow> resolve_result list" where
  "expected_results bundle mode cfg =
     concat (map (consumer_results bundle) (gc_consumers cfg)) @
     concat (map (plugin_results bundle mode) (gc_plugin_configs cfg)) @
     concat (map (upstream_results bundle) (gc_upstreams cfg))"

definition config_accepted :: "credential_bundle \<Rightarrow> gateway_mode \<Rightarrow> gateway_config \<Rightarrow> bool" where
  "config_accepted bundle mode cfg =
     (list_all (consumer_accepted bundle) (gc_consumers cfg) \<and>
      list_all (plugin_config_accepted bundle mode) (gc_plugin_configs cfg) \<and>
      list_all (upstream_accepted bundle) (gc_upstreams cfg))"

definition config_sound ::
    "resolve_options \<Rightarrow> credential_bundle \<Rightarrow> gateway_mode \<Rightarrow> gateway_config \<Rightarrow> bool" where
  "config_sound options bundle mode cfg =
     (list_all (consumer_sound bundle) (gc_consumers cfg) \<and>
      list_all (plugin_sound bundle mode) (gc_plugin_configs cfg) \<and>
      ledger_sound options (gc_consumers cfg) bundle (concat (map (consumer_results bundle) (gc_consumers cfg))))"

lemma ledger_sound_consumers:
  "ledger_sound options (map (substituted_consumer bundle) cs) b results = ledger_sound options cs b results"
proof -
  have "retired_consumer (map (substituted_consumer bundle) cs) = retired_consumer cs"
    by (simp add: retired_consumer_def fun_eq_iff substituted_consumer_def comp_def del: set_map)
  then show ?thesis unfolding ledger_sound_def by (rule ssubst) (rule refl)
qed

lemma in_place_facts:
  assumes "resolve_secrets_in_place cfg bundle mode options = Inr (cfg', report)"
  shows "cfg' = substituted_config bundle mode cfg" and "rr_results report = expected_results bundle mode cfg"
    and "config_accepted bundle mode cfg" and "clean report \<longrightarrow> config_sound options bundle mode cfg"
    and "verdict options report = Inr ()"
proof -
  obtain cs r1 ps r2 us where
    1: "map_result (resolve_consumer bundle mode) (gc_consumers cfg) empty_report = Inr (cs, r1)" and
    2: "map_result (resolve_plugin bundle mode) (gc_plugin_configs cfg)
      (apply_consumer_ledger options cs bundle r1) = Inr (ps, r2)" and
    3: "map_result (resolve_upstream bundle) (gc_upstreams cfg) r2 = Inr (us, report)" and
    v: "verdict options report = Inr ()" and
    cfg': "cfg' = cfg\<lparr>gc_consumers := cs, gc_plugin_configs := ps, gc_upstreams := us\<rparr>"
    using assms by (auto simp: resolve_secrets_in_place_def bind_result_Inr_iff)
  note c = resolve_loop[OF 1 resolve_consumer_facts]
  note p = resolve_loop[OF 2 resolve_plugin_facts]
  have step: "u' = substituted_upstream bundle u \<and> rr_results t = rr_results r @ upstream_results bundle u \<and>
      upstream_accepted bundle u \<and> (clean t \<longrightarrow> clean r \<and> True)"
    if "resolve_upstream bundle u r = Inr (u', t)" for u r u' t
    using resolve_upstream_facts[OF that] by simp
  note u = resolve_loop[OF 3 step]
  have 0: "rr_results empty_report = []" by (simp add: empty_report_def)
  show "cfg' = substituted_config bundle mode cfg"
    using cfg' c(1) p(1) u(1) by (simp add: substituted_config_def)
  show "rr_results report = expected_results bundle mode cfg"
    using c(2) p(2) u(2) by (simp add: expected_results_def check_ledger 0)
  show "config_accepted bundle mode cfg"
    using c(3) p(3) u(3) by (simp add: config_accepted_def)
  show "clean report \<longrightarrow> config_sound options bundle mode cfg"
    using c p u by (simp add: config_sound_def check_ledger 0 ledger_sound_consumers)
  show "verdict options report = Inr ()" by (rule v)
qed

end
