(* ===== verification/Resolution.thy ===== *)
theory Resolution
  imports Resolver_Facts
begin

text \<open>
  The guarantees of a successful resolution: the resolved configuration is the substitution of the
  stored values, every value taken is usable as a secret, no stored value belongs to a location
  the documents no longer have, and no two leaves share a slot.
\<close>

section \<open>Substitution\<close>

lemma resolve_options_ok:
  assumes "resolve_secrets_with_options register cfg bundle mode options = Inr (cfg', report)"
  shows "resolve_secrets_in_place cfg bundle mode options = Inr (cfg', report)"
    and "validate_known_credential_types cfg = Inr ()"
    and "validate_identity_placeholders cfg = Inr ()"
  using assms by (auto simp: resolve_secrets_with_options_def bind_result_Inr_iff)

text \<open>
  C35.  A successful resolution changes the configuration only by replacing placeholder texts - in
  credentials, plugin configurations and the Consul token - by the stored values of their slots;
  the report lists the placeholders in document order, each with its slot and the status its
  allocation mode and the bundle give it.
\<close>

theorem resolution_exact:
  assumes "resolve_secrets_with_options register cfg bundle mode options = Inr (cfg', report)"
  shows "cfg' = substituted_config bundle mode cfg \<and> rr_results report = expected_results bundle mode cfg"
  using in_place_facts(1,2)[OF resolve_options_ok(1)[OF assms]] by simp

text \<open>
  Every stored value that a resolution takes is fit to be a secret: it is not the redaction
  sentinel, has at least eight bytes (so it can be removed from output), and for a consumer
  credential it is neither the committed placeholder nor any text of the placeholder grammar.
\<close>

theorem resolved_secrets_usable:
  assumes "resolve_secrets_with_options register cfg bundle mode options = Inr (cfg', report)"
  shows "(\<forall>c \<in> set (gc_consumers cfg). \<forall>(cs, s) \<in> set (credential_leaves c).
      \<forall>v. credential_answer bundle s cs = Some v \<longrightarrow> usable_value v \<and> placeholder_text_reason s v = None) \<and>
    (\<forall>p \<in> set (gc_plugin_configs cfg). \<forall>(path, s) \<in> set (plugin_leaves p).
      \<forall>v. plugin_answer (plugin_context bundle mode p) s path = Some v \<longrightarrow> usable_value v) \<and>
    (\<forall>u \<in> set (gc_upstreams cfg). \<forall>s v.
      discovery_token u = Some s \<and> discovery_answer bundle u consul_field s = Some v \<longrightarrow> usable_value v)"
  using in_place_facts(3)[OF resolve_options_ok(1)[OF assms]]
  by (fastforce simp: config_accepted_def list_all_iff consumer_accepted_def credential_accepted_def
      plugin_config_accepted_def plugin_accepted_def upstream_accepted_def split: option.splits)

section \<open>Stored slots and the documents\<close>

lemma join_append:
  "xs \<noteq> [] \<Longrightarrow> ys \<noteq> [] \<Longrightarrow> join s (xs @ ys) = join s xs @ s @ join s ys"
proof (induction s xs rule: join.induct)
  case (2 s x)
  then show ?case by (cases ys) auto
qed auto

lemma split_on_append: "split_on c (a @ c # b) = split_on c a @ split_on c b"
proof (induction a)
  case (Cons x a)
  have "split_on c a \<noteq> []" by (induction a) (auto split: list.splits)
  then show ?case using Cons by (cases "split_on c a") auto
qed auto

lemma slot_under_pieces:
  assumes "is_slot_under slot prefix"
  shows "take (length (split_on CHR ''/'' prefix)) (split_on CHR ''/'' slot) = split_on CHR ''/'' prefix"
proof -
  obtain rest where "slot = prefix @ rest" "rest = [] \<or> (\<exists>r. rest = CHR ''/'' # r)"
    using assms by (auto simp: is_slot_under_def strip_prefix_Some starts_with_iff split: option.splits)
  then show ?thesis by (auto simp: split_on_append)
qed

text \<open>The keys \<open>range(prefix..)\<close> yields before the first one without the prefix are all that have it.\<close>

lemma starts_with_le: "starts_with s p \<Longrightarrow> (p :: string) \<le> s"
proof -
  have "(p :: string) \<le> p @ t" for t by (induction p) auto
  then show "starts_with s p \<Longrightarrow> p \<le> s" by (auto simp: starts_with_iff)
qed

lemma starts_with_between:
  "p \<le> s \<Longrightarrow> s \<le> t \<Longrightarrow> starts_with t p \<Longrightarrow> starts_with (s :: string) p"
proof (induction p arbitrary: s t)
  case (Cons c p)
  then obtain d s' where s: "s = d # s'" by (cases s) auto
  obtain t' where t: "t = c # t'" "starts_with t' p" using Cons.prems(3) by (auto simp: starts_with_iff)
  have "d = c" "p \<le> s'" "s' \<le> t'" using Cons.prems(1,2) s t by auto
  then show ?case using Cons.IH[of s' t'] s t by (auto simp: starts_with_iff)
qed (simp add: starts_with_iff)

lemma takeWhile_sorted:
  assumes "sorted_wrt (<) (ks :: string list)"
  shows "set (takeWhile (\<lambda>s. starts_with s p) (filter (\<lambda>s. p \<le> s) ks)) = {k \<in> set ks. starts_with k p}"
  using assms
proof (induction ks)
  case (Cons k ks)
  show ?case
  proof (cases "p \<le> k \<and> \<not> starts_with k p")
    case True
    then have "\<not> starts_with l p" if "l \<in> set ks" for l
      using starts_with_between[of p k l] that Cons.prems True by (auto dest: less_imp_le)
    then show ?thesis using True by auto
  next
    case False
    then show ?thesis using Cons starts_with_le[of k p] by auto
  qed
qed simp

lemma set_keys_under: "bt_wf bundle \<Longrightarrow> set (keys_under p bundle) = {k \<in> set (bt_keys bundle). starts_with k p}"
  unfolding keys_under_def by (rule takeWhile_sorted) (simp add: bt_wf_def bt_keys_def)

lemma consumer_slot_append:
  "consumer_credential_slot ns cid t (q @ r) = consumer_credential_slot ns cid t q @
     (if significant r = [] then [] else ''/'' @ join ''/'' (map encode_component (map config_slot_component (significant r))))"
proof -
  have "significant (q @ r) = significant q @ significant r" by (simp add: significant_def)
  moreover have "join ''/'' (map encode_component ((Literal ns # Literal cid # Literal t # map config_slot_component (significant q)) @
      map config_slot_component (significant r))) =
    join ''/'' (map encode_component (Literal ns # Literal cid # Literal t # map config_slot_component (significant q))) @
      ''/'' @ join ''/'' (map encode_component (map config_slot_component (significant r)))" if "significant r \<noteq> []"
    unfolding map_append[of encode_component] by (rule join_append) (use that in simp_all)
  ultimately show ?thesis by (simp add: consumer_slot_join)
qed

lemma plugin_slot_append:
  "r \<noteq> [] \<Longrightarrow> plugin_config_slot ns pid name (q @ r) = plugin_config_slot ns pid name q @ ''/'' @
     join ''/'' (map encode_component (map config_slot_component r))"
proof -
  assume r: "r \<noteq> []"
  have "join ''/'' (map encode_component ((Literal ns # Literal pid # Literal PLUGIN_CONFIG_SLOT_KIND # Literal name #
      Literal ''config'' # map config_slot_component q) @ map config_slot_component r)) =
    join ''/'' (map encode_component (Literal ns # Literal pid # Literal PLUGIN_CONFIG_SLOT_KIND # Literal name #
      Literal ''config'' # map config_slot_component q)) @ ''/'' @
      join ''/'' (map encode_component (map config_slot_component r))"
    unfolding map_append[of encode_component] by (rule join_append) (use r in simp_all)
  then show ?thesis by (simp add: plugin_slot_join)
qed

text \<open>An index segment below two to the 64 reads back.\<close>

lemma parse_index_segment_index:
  assumes "n < 2 ^ 64"
  shows "parse_index_segment (index_segment n) = Some n"
proof -
  have strip: "Option.bind (strip_prefix ''['' (index_segment n)) (strip_suffix '']'') = Some (show_nat n)"
    by (simp add: index_segment_def strip_prefix_def strip_suffix_def)
  obtain c ds where ds: "show_nat n = c # ds" using show_nat_digits[of n] by (cases "show_nat n") auto
  then have "c \<noteq> CHR ''+''" "list_all is_ascii_digit (c # ds)" "decimal_value (c # ds) = n"
    using show_nat_digits[of n] decimal_value_show_nat[of n] by (auto simp: is_ascii_digit_def)
  then have "parse_u64 (show_nat n) = Some (of_nat n)"
    unfolding ds using assms by (simp add: parse_u64_def Let_def)
  moreover have "unat (of_nat n :: 64 word) = n" using assms by (simp add: unat_of_nat)
  ultimately show ?thesis
    using show_nat_digits[of n] by (simp add: parse_index_segment_def strip)
qed

lemma first_piece:
  "hd (split_on CHR ''/'' (join ''/'' (map encode_component (c # cs)))) = encode_component c"
  using split_pieces[of "c # cs"] by (metis list.distinct(1) list.sel(1) list.simps(9))

section \<open>Locations of a value\<close>

lemma arrays_complete:
  "value_at v q = Some (JArray xs) \<Longrightarrow>
     (p @ map f q, xs) \<in> set (arrays (\<lambda>k. f (Key k)) (\<lambda>i. f (Index i)) v p)"
proof (induction q arbitrary: v p)
  case (Cons c q)
  show ?case
  proof (cases c)
    case (Key k)
    then obtain m w where "v = JObject m" "bt_get m k = Some w" "value_at w q = Some (JArray xs)"
      using Cons.prems by (cases v) (auto split: option.splits)
    then show ?thesis
      using Cons.IH[of w "p @ [f (Key k)]"] Key by (force simp: bt_get_def dest: map_of_SomeD)
  next
    case (Index i)
    then obtain ys where "v = JArray ys" "i < length ys" "value_at (ys ! i) q = Some (JArray xs)"
      using Cons.prems by (cases v) (auto split: if_splits)
    moreover from this have "(i, ys ! i) \<in> set (List.enumerate 0 ys)" by (simp add: in_set_enumerate_eq)
    ultimately show ?thesis
      using Cons.IH[of "ys ! i" "p @ [f (Index i)]"] Index by (auto intro!: bexI[of _ "(i, ys ! i)"])
  qed
qed simp

lemma leaves_map:
  "leaves (\<lambda>k. f (Key k)) (\<lambda>i. f (Index i)) v (pre @ map f p) =
     map (\<lambda>(q, s). (pre @ map f q, s)) (leaves Key Index v p)"
proof (induction v arbitrary: p rule: json_walk_induct)
  case (object m)
  have "leaves (\<lambda>k. f (Key k)) (\<lambda>i. f (Index i)) (snd e) (pre @ map f p @ [f (Key (fst e))]) =
      map (\<lambda>(q, s). (pre @ map f q, s)) (leaves Key Index (snd e) (p @ [Key (fst e)]))" if "e \<in> set m" for e
    using object[OF that, of "p @ [Key (fst e)]"] by simp
  then show ?case by (simp add: map_concat comp_def cong: map_cong)
next
  case (array xs)
  have "leaves (\<lambda>k. f (Key k)) (\<lambda>i. f (Index i)) (snd e) (pre @ map f p @ [f (Index (fst e))]) =
      map (\<lambda>(q, s). (pre @ map f q, s)) (leaves Key Index (snd e) (p @ [Index (fst e)]))"
    if "e \<in> set (List.enumerate 0 xs)" for e
    using array[OF that, of "p @ [Index (fst e)]"] by simp
  then show ?case by (simp add: map_concat comp_def cong: map_cong)
next
  case (other v)
  then show ?case by (cases v) auto
qed simp

lemma leaves_sound:
  "json_wf v \<Longrightarrow> (q, s) \<in> set (leaves Key Index v p) \<Longrightarrow> \<exists>r. q = p @ r \<and> value_at v r = Some (JString s)"
proof (induction v arbitrary: p rule: json_walk_induct)
  case (object m)
  then obtain e where e: "e \<in> set m" "(q, s) \<in> set (leaves Key Index (snd e) (p @ [Key (fst e)]))" by auto
  moreover have "json_wf (snd e)" "bt_get m (fst e) = Some (snd e)"
    using object.prems(1) e(1) by (auto simp: list_all_iff bt_get_def bt_wf_def strict_sorted_iff)
  ultimately obtain r where "q = (p @ [Key (fst e)]) @ r" "value_at (snd e) r = Some (JString s)"
    using object.IH by blast
  then show ?case using \<open>bt_get m (fst e) = Some (snd e)\<close> by (intro exI[of _ "Key (fst e) # r"]) simp
next
  case (array xs)
  then obtain e where e: "e \<in> set (List.enumerate 0 xs)" "(q, s) \<in> set (leaves Key Index (snd e) (p @ [Index (fst e)]))"
    by auto
  moreover have "json_wf (snd e)" "fst e < length xs" "xs ! fst e = snd e"
    using array.prems(1) e(1) enumerate_snd[OF e(1)] by (auto simp: list_all_iff in_set_enumerate_eq)
  ultimately obtain r where "q = (p @ [Index (fst e)]) @ r" "value_at (snd e) r = Some (JString s)"
    using array.IH by blast
  then show ?case using \<open>fst e < length xs\<close> \<open>xs ! fst e = snd e\<close> by (intro exI[of _ "Index (fst e) # r"]) simp
next
  case (other v)
  then show ?case by (cases v) auto
qed auto

lemma leaves_prefix: "(q, s) \<in> set (leaves Key Index v p) \<Longrightarrow> \<exists>r. q = p @ r"
proof (induction v arbitrary: p rule: json_walk_induct)
  case (object m)
  then obtain e where "e \<in> set m" "(q, s) \<in> set (leaves Key Index (snd e) (p @ [Key (fst e)]))" by auto
  then show ?case using object.IH by fastforce
next
  case (array xs)
  then obtain e where "e \<in> set (List.enumerate 0 xs)" "(q, s) \<in> set (leaves Key Index (snd e) (p @ [Index (fst e)]))"
    by auto
  then show ?case using array.IH by fastforce
next
  case (other v)
  then show ?case by (cases v) auto
qed simp

lemma distinct_concat_key:
  assumes "distinct (map k xs)" and "\<And>x. x \<in> set xs \<Longrightarrow> distinct (F x)"
    and "\<And>x y a. x \<in> set xs \<Longrightarrow> y \<in> set xs \<Longrightarrow> a \<in> set (F x) \<Longrightarrow> a \<in> set (F y) \<Longrightarrow> k x = k y"
  shows "distinct (concat (map F xs))"
  using assms
proof (induction xs)
  case (Cons x xs)
  have "set (F x) \<inter> set (concat (map F xs)) = {}"
  proof (rule ccontr)
    assume "set (F x) \<inter> set (concat (map F xs)) \<noteq> {}"
    then obtain a y where "a \<in> set (F x)" "y \<in> set xs" "a \<in> set (F y)" by auto
    then have "k x = k y" using Cons.prems(3) by (metis list.set_intros)
    then show False using Cons.prems(1) \<open>y \<in> set xs\<close> by auto
  qed
  moreover have "distinct (concat (map F xs))" by (rule Cons.IH) (use Cons.prems in auto)
  ultimately show ?case using Cons.prems(2) by simp
qed simp

lemma leaves_distinct: "json_wf v \<Longrightarrow> distinct (map fst (leaves Key Index v p))"
proof (induction v arbitrary: p rule: json_walk_induct)
  case (object m)
  have "distinct (concat (map (\<lambda>e. map fst (leaves Key Index (snd e) (p @ [Key (fst e)]))) m))"
  proof (rule distinct_concat_key[where k = fst])
    show "distinct (map fst m)" using object.prems by (simp add: bt_wf_def strict_sorted_iff)
  next
    fix e
    assume "e \<in> set m"
    then show "distinct (map fst (leaves Key Index (snd e) (p @ [Key (fst e)])))"
      using object by (simp add: list_all_iff)
  next
    fix d e a
    assume "a \<in> set (map fst (leaves Key Index (snd d) (p @ [Key (fst d)])))"
      "a \<in> set (map fst (leaves Key Index (snd e) (p @ [Key (fst e)])))"
    then show "fst d = fst e" by (auto dest!: leaves_prefix)
  qed
  then show ?case by (simp add: map_concat comp_def)
next
  case (array xs)
  have "distinct (concat (map (\<lambda>e. map fst (leaves Key Index (snd e) (p @ [Index (fst e)]))) (List.enumerate 0 xs)))"
  proof (rule distinct_concat_key[where k = fst])
    show "distinct (map fst (List.enumerate 0 xs))" by simp
  next
    fix e
    assume e: "e \<in> set (List.enumerate 0 xs)"
    have "json_wf (snd e)" using array.prems enumerate_snd[OF e] by (simp add: list_all_iff)
    then show "distinct (map fst (leaves Key Index (snd e) (p @ [Index (fst e)])))" by (rule array.IH[OF e])
  next
    fix d e a
    assume "a \<in> set (map fst (leaves Key Index (snd d) (p @ [Index (fst d)])))"
      "a \<in> set (map fst (leaves Key Index (snd e) (p @ [Index (fst e)])))"
    then show "fst d = fst e" by (auto dest!: leaves_prefix)
  qed
  then show ?case by (simp add: map_concat comp_def)
next
  case (other v)
  then show ?case by (cases v) auto
qed simp

section \<open>An application\<close>

definition sample_slot_consumer :: consumer where
  "sample_slot_consumer = \<lparr>c_labels = [], c_id = ''app'', c_username = ''app'', c_namespace = ''shop'',
     c_custom_id = None,
     c_credentials = [(''keyauth'', JArray [JObject [(''key'', JString ''${gh-env-secret:alloc=generate}'')]])],
     c_acl_groups = [], c_created_at = None, c_updated_at = None, c_extra = []\<rparr>"

definition sample_slot_config :: gateway_config where
  "sample_slot_config = gateway_config_default\<lparr>gc_consumers := [sample_slot_consumer]\<rparr>"

definition sample_bundle :: credential_bundle where
  "sample_bundle = [(''shop/app/keyauth/key'', ''stored-value-1'')]"

lemma sample_resolution:
  "is_ok (resolve_secrets_with_options (\<lambda>_ _. Inr ()) sample_slot_config sample_bundle ApiMode default_options)"
  by code_simp

lemma sample_expected:
  "map rs_slot (expected_results sample_bundle ApiMode sample_slot_config) = [''shop/app/keyauth/key'']"
  by code_simp

theorem resolution_exact_witness:
  "\<exists>cfg' report. resolve_secrets_with_options (\<lambda>_ _. Inr ()) sample_slot_config sample_bundle ApiMode default_options =
       Inr (cfg', report) \<and> cfg' = substituted_config sample_bundle ApiMode sample_slot_config \<and>
     map rs_slot (rr_results report) = [''shop/app/keyauth/key'']"
proof -
  obtain cfg' report where r: "resolve_secrets_with_options (\<lambda>_ _. Inr ()) sample_slot_config sample_bundle ApiMode
      default_options = Inr (cfg', report)"
    using sample_resolution by (auto simp: is_ok_def split: sum.splits)
  show ?thesis using r resolution_exact[OF r] sample_expected by auto
qed

theorem resolved_secrets_usable_witness:
  "usable_value ''stored-value-1''"
proof -
  obtain cfg' report where r: "resolve_secrets_with_options (\<lambda>_ _. Inr ()) sample_slot_config sample_bundle ApiMode
      default_options = Inr (cfg', report)"
    using sample_resolution by (auto simp: is_ok_def split: sum.splits)
  have "sample_slot_consumer \<in> set (gc_consumers sample_slot_config)"
    by (simp add: sample_slot_config_def)
  moreover have "list_ex (\<lambda>(cs, s). credential_answer sample_bundle s cs = Some ''stored-value-1'')
      (credential_leaves sample_slot_consumer)"
    by code_simp
  then obtain cs s where "(cs, s) \<in> set (credential_leaves sample_slot_consumer)"
    "credential_answer sample_bundle s cs = Some ''stored-value-1''"
    unfolding list_ex_iff by blast
  ultimately show ?thesis
    using conjunct1[OF resolved_secrets_usable[OF r]] by blast
qed

end
