(* ===== verification/SlotSpellings.thy ===== *)
theory SlotSpellings
  imports Resolution PluginSecrets_Facts
begin

text \<open>
  The older spellings of a credential slot, which are read but no longer written: with an explicit \<open>[0]\<close>, and dotted.
  The scans for orphaned values are shown to recognise a stored value under every spelling its lookup would try.
\<close>

section \<open>Dotted spellings\<close>

fun dotted_step :: "bool \<Rightarrow> config_path_component \<Rightarrow> string" where
  "dotted_step keep (Key k) = ''.'' @ k"
| "dotted_step keep (Index i) = (if i = 0 \<and> \<not> keep then [] else index_segment i)"

definition dotted :: "bool \<Rightarrow> config_path \<Rightarrow> string" where
  "dotted keep p = concat (map (dotted_step keep) p)"

fun plain_key :: "config_path_component \<Rightarrow> bool" where
  "plain_key (Key k) = legacy_path_key_is_unambiguous k"
| "plain_key (Index i) = True"

lemma dotted_simps [simp]:
  "dotted keep [] = []" "dotted keep (c # p) = dotted_step keep c @ dotted keep p"
  "dotted keep (p @ q) = dotted keep p @ dotted keep q"
  by (simp_all add: dotted_def)

lemma legacy_steps:
  "fold_result (legacy_path_step keep) (map config_slot_component p) path =
     (if list_all plain_key p then Inr (path @ dotted keep p) else Inl ())"
proof (induction p arbitrary: path)
  case (Cons c p)
  then show ?case by (cases c) (simp_all add: legacy_path_step_def)
qed simp

definition dotted_root :: "string \<Rightarrow> string \<Rightarrow> string \<Rightarrow> string" where
  "dotted_root ns cid t = ns @ ''/'' @ cid @ ''/'' @ t"

definition dotted_holder :: "string \<Rightarrow> string \<Rightarrow> string \<Rightarrow> bool" where
  "dotted_holder ns cid t \<longleftrightarrow>
     legacy_identity_is_unambiguous ns \<and> legacy_identity_is_unambiguous cid \<and> legacy_path_key_is_unambiguous t"

lemma legacy_slot:
  "legacy_slot_from_components (consumer_slot_components ns cid t p) keep =
     (if p \<noteq> [] \<and> dotted_holder ns cid t \<and> list_all plain_key p
      then Some (dotted_root ns cid t @ dotted keep p) else None)"
proof (cases p)
  case (Cons c q)
  have "fold_result (legacy_path_step keep) (config_slot_component c # map config_slot_component q) t =
      (if list_all plain_key p then Inr (t @ dotted keep p) else Inl ())"
    using legacy_steps[of keep p t] Cons by simp
  then show ?thesis
    by (simp add: consumer_slot_components_def Cons dotted_holder_def dotted_root_def)
qed (simp add: consumer_slot_components_def)

lemma set_push_new: "set (push_new x xs) = (case x of None \<Rightarrow> set xs | Some y \<Rightarrow> insert y (set xs))"
  by (auto simp: push_new_def split: option.splits)

lemma spelling_cases:
  assumes "s \<in> set (slot_lookup_candidates (consumer_slot_components ns cid t p))"
  obtains "s = consumer_credential_slot ns cid t p"
  | "s = join_slot_components_verbatim (consumer_slot_components ns cid t p)"
  | keep where "s = dotted_root ns cid t @ dotted keep p" "p \<noteq> []" "dotted_holder ns cid t" "list_all plain_key p"
  using assms unfolding slot_lookup_candidates_def set_push_new legacy_slot
  by (auto simp: consumer_credential_slot_def split: option.splits if_splits)

lemma legacy_prefixes:
  assumes "\<not> starts_with t ''@''" and "dotted_holder ns cid t" and "list_all plain_key q"
  shows "legacy_array_prefixes (consumer_slot_components ns cid t q) =
    (if dotted True q = dotted False q then [dotted_root ns cid t @ dotted False q]
     else [dotted_root ns cid t @ dotted False q, dotted_root ns cid t @ dotted True q])"
proof (cases "q = []")
  case True
  then show ?thesis
    using assms by (simp add: legacy_array_prefixes_def consumer_slot_components_def dotted_holder_def dotted_root_def)
next
  case False
  have "legacy_array_prefixes (consumer_slot_components ns cid t q) =
      push_new (legacy_slot_from_components (consumer_slot_components ns cid t q) True)
        (push_new (legacy_slot_from_components (consumer_slot_components ns cid t q) False) [])"
    using False assms(1) by (simp add: legacy_array_prefixes_def consumer_slot_components_def)
  then show ?thesis unfolding legacy_slot using assms False by (simp add: push_new_def)
qed

section \<open>Reading the entry of a dotted slot\<close>

text \<open>Keys are not empty and indices fit a machine word.\<close>

fun proper_component :: "config_path_component \<Rightarrow> bool" where
  "proper_component (Key k) = (k \<noteq> [])"
| "proper_component (Index i) = (i < 2 ^ 64)"

lemma dotted_head: "dotted keep p = [] \<or> starts_with (dotted keep p) ''.'' \<or> starts_with (dotted keep p) ''[''"
proof (induction p)
  case (Cons c p)
  then show ?case by (cases c) (auto simp: starts_with_def index_segment_def)
qed simp

lemma digits_no_bracket: "CHR '']'' \<notin> set (show_nat n)"
  using show_nat_not_member[of "CHR '']''" n] by (simp add: is_ascii_digit_def)

lemma legacy_index_segment:
  assumes "i < 2 ^ 64" and "after = [] \<or> starts_with after ''.'' \<or> starts_with after ''[''"
  shows "legacy_entry_index (prefix @ index_segment i @ after) prefix = Some i"
proof -
  have "strip_prefix prefix (prefix @ index_segment i @ after) = Some (index_segment i @ after)"
    by (simp add: strip_prefix_Some)
  moreover have "strip_prefix ''.'' (index_segment i @ after) = None"
    by (simp add: strip_prefix_def index_segment_def)
  moreover have seg: "index_segment i @ after = (''['' @ show_nat i) @ CHR '']'' # after" by (simp add: index_segment_def)
  have no: "CHR '']'' \<notin> set (''['' @ show_nat i)" using digits_no_bracket by simp
  then have "takeWhile (\<lambda>b. b \<noteq> CHR '']'') (index_segment i @ after) = ''['' @ show_nat i"
    "dropWhile (\<lambda>b. b \<noteq> CHR '']'') (index_segment i @ after) = CHR '']'' # after"
    unfolding seg by (simp_all add: takeWhile_append2 dropWhile_append2 takeWhile_no_sep dropWhile_eq_Cons_conv)
  moreover have "CHR '']'' \<in> set (index_segment i @ after)" by (simp add: index_segment_def)
  moreover have "(''['' @ show_nat i) @ '']'' = index_segment i" by (simp add: index_segment_def)
  ultimately show ?thesis
    using parse_index_segment_index[OF assms(1)] assms(2)
    by (simp only: legacy_entry_index_def option.simps if_True Let_def list.sel)
qed

lemma legacy_index_dotted:
  assumes "list_all proper_component p" and "dotted keep p \<noteq> []"
  shows "\<exists>n. legacy_entry_index (prefix @ dotted keep p) prefix = Some n"
  using assms
proof (induction p)
  case (Cons c p)
  show ?case
  proof (cases c)
    case (Key k)
    then have "strip_prefix ''.'' (dotted keep (c # p)) = Some (k @ dotted keep p)" by (simp add: strip_prefix_def)
    moreover have "k @ dotted keep p \<noteq> []" using Cons.prems(1) Key by simp
    moreover have "strip_prefix prefix (prefix @ dotted keep (c # p)) = Some (dotted keep (c # p))"
      by (simp add: strip_prefix_Some)
    ultimately show ?thesis by (simp add: legacy_entry_index_def)
  next
    case (Index i)
    show ?thesis
    proof (cases "i = 0 \<and> \<not> keep")
      case True
      then show ?thesis using Cons Index by auto
    next
      case False
      then show ?thesis
        using legacy_index_segment[OF _ dotted_head, of i prefix keep p] Cons.prems(1) Index by auto
    qed
  qed
qed simp

section \<open>The entry of a stored slot\<close>

text \<open>A path to an array whose parents hold no array directly.\<close>

fun flat_path :: "config_path \<Rightarrow> bool" where
  "flat_path (Key k # p) = flat_path p"
| "flat_path (Index i # Key k # p) = flat_path p"
| "flat_path [] = True"
| "flat_path [Index i] = False"
| "flat_path (Index i # Index j # p) = False"

lemma flat_array_path:
  assumes "value_at v q = Some w" and "is_array w" and "flat_arrays v"
  shows "flat_path q"
  using assms
proof (induction q arbitrary: v rule: flat_path.induct)
  case (1 k p)
  then obtain m c where c: "v = JObject m" "bt_get m k = Some c" "value_at c p = Some w"
    using 1(2) unfolding value_at_Key by blast
  then have "flat_arrays c" using 1(4) by (force simp: list_all_iff bt_get_def dest: map_of_SomeD)
  then show ?case using 1(1)[OF c(3) 1(3)] by simp
next
  case (2 i k p)
  then obtain xs m c where c: "v = JArray xs" "i < length xs" "xs ! i = JObject m" "bt_get m k = Some c" "value_at c p = Some w"
    using 2(2) unfolding value_at_Index value_at_Key by blast
  have "flat_arrays (xs ! i)" using 2(4) c(1,2) by (simp add: list_all_length)
  then have "flat_arrays (JObject m)" by (simp only: c(3))
  then have "flat_arrays c" using c(4) by (force simp: list_all_iff bt_get_def dest: map_of_SomeD)
  then show ?case using 2(1)[OF c(5) 2(3)] by simp
next
  case (4 i)
  then obtain xs where "v = JArray xs" "i < length xs" "xs ! i = w"
    using 4(1) unfolding value_at_Index value_at.simps(1) by blast
  then show ?case using 4(2,3) by (auto simp: list_all_length)
next
  case (5 i j p)
  then obtain xs ys where "v = JArray xs" "i < length xs" "xs ! i = JArray ys"
    using 5(1) unfolding value_at_Index by blast
  then show ?case using 5(3) by (auto simp: list_all_length)
qed simp

lemma flat_significant:
  "flat_path q \<Longrightarrow> significant q = take (length (significant q)) (q @ r) \<Longrightarrow> significant q = q"
  by (induction q rule: flat_path.induct) (auto split: if_splits)

lemma flat_dotted:
  "flat_path q \<Longrightarrow> dotted True q @ x = dotted False q @ y \<Longrightarrow> dotted True q = dotted False q"
  by (induction q rule: flat_path.induct) (auto simp: index_segment_def split: if_splits)

lemma consumer_verbatim_split:
  "split_on CHR ''/'' (join_slot_components_verbatim (consumer_slot_components ns cid t p)) =
     map encode_component (consumer_slot_components ns cid t p)"
  unfolding join_slot_components_verbatim_def by (rule split_pieces) (simp add: consumer_slot_components_def)

lemma verbatim_append:
  "join_slot_components_verbatim (consumer_slot_components ns cid t (q @ c # r)) =
     join_slot_components_verbatim (consumer_slot_components ns cid t q) @ ''/'' @
       join ''/'' (map encode_component (map config_slot_component (c # r)))"
proof -
  have "join ''/'' (xs @ ys) = join ''/'' xs @ ''/'' @ join ''/'' ys" if "xs \<noteq> []" "ys \<noteq> []" for xs ys :: "string list"
    using that by (induction "''/''" xs rule: join.induct) (auto simp: neq_Nil_conv)
  note parts = this
  have "consumer_slot_components ns cid t (q @ c # r) =
      consumer_slot_components ns cid t q @ map config_slot_component (c # r)"
    by (simp add: consumer_slot_components_def)
  then show ?thesis
    unfolding join_slot_components_verbatim_def
    by (simp only: map_append) (rule parts, simp_all add: consumer_slot_components_def)
qed

lemma dotted_plain:
  assumes "list_all plain_key p"
  shows "CHR ''/'' \<notin> set (dotted keep p)" and "CHR ''~'' \<notin> set (dotted keep p)"
  using assms
proof (induction p)
  case (Cons c p)
  { case 1
    then show ?case using show_nat_not_member[of "CHR ''/''"] Cons.IH(1)
      by (cases c) (auto simp: legacy_path_key_is_unambiguous_def legacy_identity_is_unambiguous_def index_segment_def
          is_ascii_digit_def) }
  { case 2
    then show ?case using show_nat_not_member[of "CHR ''~''"] Cons.IH(2)
      by (cases c) (auto simp: legacy_path_key_is_unambiguous_def legacy_identity_is_unambiguous_def index_segment_def
          is_ascii_digit_def) }
qed simp_all

lemma dotted_slot_split:
  assumes "dotted_holder ns cid t" and "list_all plain_key p"
  shows "split_on CHR ''/'' (dotted_root ns cid t @ dotted keep p) = [ns, cid, t @ dotted keep p]"
proof -
  note dotted_plain(1)[OF assms(2), of keep]
  moreover have "CHR ''/'' \<notin> set ns" "CHR ''/'' \<notin> set cid" "CHR ''/'' \<notin> set t"
    using assms(1)
    by (auto simp: dotted_holder_def legacy_path_key_is_unambiguous_def legacy_identity_is_unambiguous_def)
  ultimately show ?thesis by (simp add: dotted_root_def split_on_sep split_on_plain)
qed

text \<open>A dotted slot lies below no escaped one: it has one separator too few.\<close>

lemma dotted_not_below:
  assumes "dotted_holder ns cid t" and "list_all plain_key p" and "3 \<le> length (split_on CHR ''/'' a)"
  shows "strip_prefix (a @ ''/'') (dotted_root ns cid t @ dotted keep p) = None"
proof (rule ccontr)
  assume "strip_prefix (a @ ''/'') (dotted_root ns cid t @ dotted keep p) \<noteq> None"
  then obtain r where "dotted_root ns cid t @ dotted keep p = a @ CHR ''/'' # r" by (auto simp: strip_prefix_Some)
  then have "[ns, cid, t @ dotted keep p] = split_on CHR ''/'' a @ split_on CHR ''/'' r"
    using dotted_slot_split[OF assms(1,2), of keep] split_on_append[of "CHR ''/''" a r] by simp
  then have "3 = length (split_on CHR ''/'' a) + length (split_on CHR ''/'' r)" by (metis length_append length_Cons
      list.size(3) numeral_3_eq_3)
  moreover have "split_on CHR ''/'' r \<noteq> []" by (cases r) (auto split: list.splits)
  then have "0 < length (split_on CHR ''/'' r)" by simp
  ultimately show False using assms(3) by linarith
qed

section \<open>Every spelling is scanned\<close>

lemma components_split:
  "split_on CHR ''/'' (join_slot_components (consumer_slot_components ns cid t p)) =
     map encode_component (consumer_slot_components ns cid t (significant p))"
  using consumer_slot_pieces[of ns cid t p] unfolding consumer_credential_slot_def consumer_slot_components_def .

text \<open>An entry the array no longer has: whatever the spelling, the scan of that array reads its index.\<close>

lemma escaped_entry:
  assumes "i < 2 ^ 64" and "n \<le> i" and "s = prefix @ ''/'' @ join ''/'' (map encode_component (map config_slot_component (Index i # rest)))"
  shows "\<exists>tail. strip_prefix (prefix @ ''/'') s = Some tail \<and> n \<le> entry_index_of_suffix tail"
proof -
  let ?tail = "join ''/'' (map encode_component (map config_slot_component (Index i # rest)))"
  have strip: "strip_prefix (prefix @ ''/'') s = Some ?tail" unfolding strip_prefix_Some assms(3) by simp
  have "hd (split_on CHR ''/'' ?tail) = index_segment i"
    using first_piece[of "ArrayIndex i" "map config_slot_component rest"]
    unfolding list.map config_slot_component.simps encode_component.simps .
  then have entry: "entry_index_of_suffix ?tail = i"
    unfolding entry_index_of_suffix_def by (simp only: parse_index_segment_index[OF assms(1)] option.case)
  show ?thesis
    by (intro exI[of _ ?tail] conjI) (rule strip, simp only: entry assms(2))
qed

lemma array_canonical:
  assumes "i < 2 ^ 64" and "n \<le> i" and "i = 0 \<longrightarrow> significant rest \<noteq> []"
  shows "\<exists>m. array_entry_index (consumer_slot_components ns cid t q) (consumer_credential_slot ns cid t (q @ Index i # rest)) = Some m \<and>
    n \<le> m"
proof -
  have split: "consumer_credential_slot ns cid t (q @ Index i # rest) =
      join_slot_components (consumer_slot_components ns cid t q) @ ''/'' @
        join ''/'' (map encode_component (map config_slot_component (significant (Index i # rest))))"
    using consumer_slot_append[of ns cid t q "Index i # rest"] assms(3) by (simp add: consumer_credential_slot_def)
  show ?thesis
  proof (cases "i = 0")
    case True
    then have "n = 0" using assms(2) by simp
    moreover have "strip_prefix (join_slot_components (consumer_slot_components ns cid t q) @ ''/'')
        (consumer_credential_slot ns cid t (q @ Index i # rest)) \<noteq> None"
      unfolding split by (simp add: strip_prefix_Some)
    ultimately show ?thesis by (auto simp: array_entry_index_def)
  next
    case False
    then have sig: "significant (Index i # rest) = Index i # significant rest" by simp
    obtain tail where "strip_prefix (join_slot_components (consumer_slot_components ns cid t q) @ ''/'')
        (consumer_credential_slot ns cid t (q @ Index i # rest)) = Some tail" "n \<le> entry_index_of_suffix tail"
      using escaped_entry[OF assms(1,2) split[unfolded sig]] by blast
    then show ?thesis by (simp add: array_entry_index_def)
  qed
qed

lemma array_verbatim:
  assumes "i < 2 ^ 64" and "n \<le> i" and "flat_path q"
  shows "\<exists>m. array_entry_index (consumer_slot_components ns cid t q)
      (join_slot_components_verbatim (consumer_slot_components ns cid t (q @ Index i # rest))) = Some m \<and> n \<le> m"
proof -
  let ?s = "join_slot_components_verbatim (consumer_slot_components ns cid t (q @ Index i # rest))"
  obtain tail where tail: "strip_prefix (join_slot_components_verbatim (consumer_slot_components ns cid t q) @ ''/'') ?s = Some tail"
      "n \<le> entry_index_of_suffix tail"
    using escaped_entry[OF assms(1,2) verbatim_append] by blast
  show ?thesis
  proof (cases "strip_prefix (join_slot_components (consumer_slot_components ns cid t q) @ ''/'') ?s")
    case None
    then show ?thesis using tail by (simp add: array_entry_index_def)
  next
    case (Some r)
    then have "?s = join_slot_components (consumer_slot_components ns cid t q) @ CHR ''/'' # r" by (simp add: strip_prefix_Some)
    then have "split_on CHR ''/'' ?s =
        split_on CHR ''/'' (join_slot_components (consumer_slot_components ns cid t q)) @ split_on CHR ''/'' r"
      by (simp only: split_on_append)
    then have "map encode_component (consumer_slot_components ns cid t (q @ Index i # rest)) =
        map encode_component (consumer_slot_components ns cid t (significant q)) @ split_on CHR ''/'' r"
      unfolding consumer_verbatim_split components_split .
    then have "take (length (consumer_slot_components ns cid t (significant q)))
        (map encode_component (consumer_slot_components ns cid t (q @ Index i # rest))) =
        map encode_component (consumer_slot_components ns cid t (significant q))" by simp
    then have "take (length (consumer_slot_components ns cid t (significant q))) (consumer_slot_components ns cid t (q @ Index i # rest)) =
        consumer_slot_components ns cid t (significant q)"
      by (simp only: take_map map_encode_inject)
    then have "take (length (significant q)) (map config_slot_component (q @ Index i # rest)) =
        map config_slot_component (significant q)"
      by (simp add: consumer_slot_components_def)
    then have "significant q = take (length (significant q)) (q @ Index i # rest)"
      by (simp only: take_map map_config_inject)
    then have "significant q = q" by (rule flat_significant[OF assms(3)])
    then have "join_slot_components (consumer_slot_components ns cid t q) =
        join_slot_components_verbatim (consumer_slot_components ns cid t q)"
      using elide_config[of q]
      by (simp add: join_slot_components_def join_slot_components_verbatim_def consumer_slot_components_def)
    then show ?thesis using tail by (simp add: array_entry_index_def)
  qed
qed

lemma dotted_entry:
  assumes "i < 2 ^ 64" and "n \<le> i" and "list_all proper_component rest" and "i = 0 \<longrightarrow> significant rest \<noteq> []"
  shows "\<exists>m. legacy_entry_index (prefix @ dotted keep (Index i # rest)) prefix = Some m \<and> n \<le> m"
proof (cases "i = 0")
  case False
  then show ?thesis
    using legacy_index_segment[OF assms(1) dotted_head, of prefix keep rest] assms(2) by simp
next
  case True
  have "dotted keep rest \<noteq> []"
    using assms(3,4) True
  proof (induction rest)
    case (Cons c p)
    then show ?case by (cases c) (auto simp: index_segment_def)
  qed simp
  then have "dotted keep (Index i # rest) \<noteq> []" by simp
  moreover have "list_all proper_component (Index i # rest)" using assms(1,3) by simp
  ultimately show ?thesis using legacy_index_dotted assms(2) True by blast
qed

lemma array_dotted:
  assumes "i < 2 ^ 64" and "n \<le> i" and "flat_path q" and "list_all proper_component rest"
    and "i = 0 \<longrightarrow> significant rest \<noteq> []" and "dotted_holder ns cid t" and "\<not> starts_with t ''@''"
    and "list_all plain_key (q @ Index i # rest)"
  shows "\<exists>m. array_entry_index (consumer_slot_components ns cid t q)
      (dotted_root ns cid t @ dotted keep (q @ Index i # rest)) = Some m \<and> n \<le> m"
proof -
  let ?cs = "consumer_slot_components ns cid t q" and ?s = "dotted_root ns cid t @ dotted keep (q @ Index i # rest)"
  have long: "3 \<le> length (split_on CHR ''/'' (join_slot_components ?cs))"
    "3 \<le> length (split_on CHR ''/'' (join_slot_components_verbatim ?cs))"
    unfolding components_split consumer_verbatim_split by (simp_all add: consumer_slot_components_def)
  note none = dotted_not_below[OF assms(6,8) long(1), of keep] dotted_not_below[OF assms(6,8) long(2), of keep]
  have read: "array_entry_index ?cs ?s = find_map (legacy_entry_index ?s) (legacy_array_prefixes ?cs)"
    unfolding array_entry_index_def none by simp
  have plain: "list_all plain_key q" using assms(8) by simp
  note prefixes = legacy_prefixes[OF assms(7,6) plain]
  obtain m where m: "legacy_entry_index ?s (dotted_root ns cid t @ dotted keep q) = Some m" "n \<le> m"
    using dotted_entry[OF assms(1,2,4,5), of "dotted_root ns cid t @ dotted keep q" keep] by auto
  show ?thesis
  proof (cases "dotted True q = dotted False q")
    case True
    then have "dotted keep q = dotted False q" by (cases keep) simp_all
    then show ?thesis using m True unfolding read prefixes by simp
  next
    case False
    show ?thesis
    proof (cases keep)
      case False
      then show ?thesis using m \<open>dotted True q \<noteq> dotted False q\<close> unfolding read prefixes by simp
    next
      case True
      have "strip_prefix (dotted_root ns cid t @ dotted False q) ?s = None"
      proof (rule ccontr)
        assume "strip_prefix (dotted_root ns cid t @ dotted False q) ?s \<noteq> None"
        then obtain r where "dotted True q @ dotted True (Index i # rest) = dotted False q @ r"
          using True by (auto simp: strip_prefix_Some simp del: dotted_simps(2))
        then show False using flat_dotted[OF assms(3)] False by blast
      qed
      then have "legacy_entry_index ?s (dotted_root ns cid t @ dotted False q) = None" by (simp add: legacy_entry_index_def)
      then show ?thesis using m False True unfolding read prefixes by simp
    qed
  qed
qed

lemma array_spellings:
  assumes "s \<in> set (slot_lookup_candidates (consumer_slot_components ns cid t (q @ Index i # rest)))"
    and "i < 2 ^ 64" and "n \<le> i" and "flat_path q" and "list_all proper_component rest"
    and "i = 0 \<longrightarrow> significant rest \<noteq> []" and "\<not> starts_with t ''@''"
  shows "\<exists>m. array_entry_index (consumer_slot_components ns cid t q) s = Some m \<and> n \<le> m"
  using assms(1)
proof (cases rule: spelling_cases)
  case 1
  then show ?thesis using array_canonical[OF assms(2,3,6)] by simp
next
  case 2
  then show ?thesis using array_verbatim[OF assms(2,3,4)] by simp
next
  case (3 keep)
  then show ?thesis using array_dotted[OF assms(2-6) 3(3) assms(7) 3(4)] by simp
qed

text \<open>
  A slot of a credential type: whatever the spelling, the scan for omitted types sees it.  That scan goes by the
  escaped prefix, so a dotted spelling is seen when the escapes of namespace and id are trivial.
\<close>

definition unbracketed :: "string \<Rightarrow> bool" where
  "unbracketed s \<longleftrightarrow> CHR ''['' \<notin> set s"

lemma known_type_plain: "is_known_credential_type t \<Longrightarrow> escape_slot_component t = t"
  by (rule escape_plain) (auto simp: is_known_credential_type_def KNOWN_CREDENTIAL_TYPES_def)

lemma known_type_dottable:
  "is_known_credential_type t \<Longrightarrow> legacy_path_key_is_unambiguous t" "is_known_credential_type t \<Longrightarrow> \<not> starts_with t ''@''"
  by (auto simp: is_known_credential_type_def KNOWN_CREDENTIAL_TYPES_def legacy_path_key_is_unambiguous_def
      legacy_identity_is_unambiguous_def starts_with_def)

lemma plain_identity: "legacy_identity_is_unambiguous s \<Longrightarrow> unbracketed s \<Longrightarrow> escape_slot_component s = s"
  by (rule escape_plain) (auto simp: legacy_identity_is_unambiguous_def unbracketed_def list_all_iff)

lemma below_type:
  assumes "s = prefix @ r" and "r = [] \<or> starts_with r ''/''"
  shows "is_type_slot prefix s \<and> starts_with s prefix"
proof -
  have "strip_prefix prefix s = Some r" using assms(1) by (simp add: strip_prefix_Some)
  then show ?thesis using assms by (auto simp: is_type_slot_def is_slot_under_def starts_with_iff)
qed

lemma type_spellings:
  assumes "s \<in> set (slot_lookup_candidates (consumer_slot_components ns cid t p))"
    and "is_known_credential_type t" and "unbracketed ns" and "unbracketed cid" and "list_all proper_component p"
  defines "prefix \<equiv> join_slot_components [Literal ns, Literal cid, Literal t]"
  shows "is_type_slot prefix s \<and> starts_with s prefix"
  using assms(1)
proof (cases rule: spelling_cases)
  case 1
  have "prefix = consumer_credential_slot ns cid t []"
    by (simp add: prefix_def consumer_credential_slot_def consumer_slot_components_def)
  then obtain r where "s = prefix @ r" "r = [] \<or> starts_with r ''/''"
    using 1 consumer_slot_append[of ns cid t "[]" p] by (auto simp: starts_with_def split: if_splits)
  then show ?thesis by (rule below_type)
next
  case 2
  have prefix: "prefix = join_slot_components_verbatim (consumer_slot_components ns cid t [])"
    by (simp add: prefix_def join_slot_components_def join_slot_components_verbatim_def consumer_slot_components_def)
  show ?thesis
  proof (cases p)
    case Nil
    then show ?thesis using 2 prefix below_type[of s prefix "[]"] by simp
  next
    case (Cons c r)
    have "s = prefix @ (''/'' @ join ''/'' (map encode_component (map config_slot_component (c # r))))"
      using verbatim_append[of ns cid t "[]" c r] 2 prefix Cons by simp
    then show ?thesis by (rule below_type) (simp add: starts_with_def)
  qed
next
  case (3 keep)
  then have "legacy_identity_is_unambiguous ns" "legacy_identity_is_unambiguous cid" by (simp_all add: dotted_holder_def)
  then have prefix: "prefix = dotted_root ns cid t"
    using plain_identity assms(3,4) known_type_plain[OF assms(2)]
    by (simp add: prefix_def join_slot_components_def dotted_root_def)
  show ?thesis
  proof (cases "dotted keep p = []")
    case True
    then show ?thesis using 3(1) prefix below_type[of s prefix "[]"] by simp
  next
    case False
    then obtain n where "legacy_entry_index s prefix = Some n"
      using legacy_index_dotted[OF assms(5) False] 3(1) prefix by blast
    then show ?thesis using 3(1) prefix by (auto simp: is_type_slot_def starts_with_iff)
  qed
qed

text \<open>The holder of a credential slot is read back from every spelling.\<close>

lemma stored_holder:
  assumes "CHR ''/'' \<notin> set n" and "CHR ''/'' \<notin> set i" and "CHR ''/'' \<notin> set raw"
    and "stored_credential_type raw = Some t" and "s = n @ ''/'' @ i @ ''/'' @ raw @ r" and "r = [] \<or> (\<exists>u. r = CHR ''/'' # u)"
  shows "stored_consumer s = Some (unescape_slot_component n, unescape_slot_component i)"
proof -
  have tail: "\<exists>z. splitn 2 CHR ''/'' (raw @ r) = raw # z"
    using assms(3,6) splitn_Cons_sep[of "CHR ''/''" raw 0] by (auto simp: numeral_2_eq_2 splitn.simps(3))
  have "splitn 4 CHR ''/'' s = n # i # splitn 2 CHR ''/'' (raw @ r)"
    unfolding assms(5)
    using splitn_Cons_sep[OF assms(1), of 2] splitn_Cons_sep[OF assms(2), of 1]
    by (simp add: eval_nat_numeral)
  then show ?thesis using tail assms(4) by (auto simp: stored_consumer_def)
qed

lemma unescape_plain: "CHR ''~'' \<notin> set s \<Longrightarrow> unescape_slot_component s = s"
  by (induction s) auto

lemma known_type_stored: "is_known_credential_type t \<Longrightarrow> stored_credential_type t = Some t"
  using unescape_escape[of t] by (simp add: stored_credential_type_def known_type_plain)

lemma dotted_type_stored:
  assumes "is_known_credential_type t" and "list_all plain_key p"
  shows "\<exists>u. stored_credential_type (t @ dotted keep p) = Some u"
proof -
  have key: "CHR ''~'' \<notin> set t" "list_all (\<lambda>b. b \<noteq> CHR ''.'' \<and> b \<noteq> CHR ''['') t"
    using known_type_dottable(1)[OF assms(1)]
    by (auto simp: legacy_path_key_is_unambiguous_def legacy_identity_is_unambiguous_def list_all_iff)
  have same: "unescape_slot_component (t @ dotted keep p) = t @ dotted keep p"
    using key dotted_plain(2)[OF assms(2)] by (simp add: unescape_plain)
  have "takeWhile (\<lambda>b. b \<noteq> CHR ''.'' \<and> b \<noteq> CHR ''['') (dotted keep p) = []"
    using dotted_head[of keep p] by (cases "dotted keep p") (auto simp: starts_with_def)
  then have "takeWhile (\<lambda>b. b \<noteq> CHR ''.'' \<and> b \<noteq> CHR ''['') (t @ dotted keep p) = t"
    using key(2) by (subst takeWhile_append2) (simp_all add: list_all_iff)
  then show ?thesis using assms(1) by (simp add: stored_credential_type_def same Let_def)
qed

lemma holder_spellings:
  assumes "s \<in> set (slot_lookup_candidates (consumer_slot_components ns cid t p))" and "is_known_credential_type t"
  shows "stored_consumer s = Some (ns, cid)"
proof -
  have no: "CHR ''/'' \<notin> set t"
    using known_type_dottable(1)[OF assms(2)]
    by (auto simp: legacy_path_key_is_unambiguous_def legacy_identity_is_unambiguous_def)
  have escaped: "stored_consumer (join ''/'' (map encode_component (consumer_slot_components ns cid t q))) = Some (ns, cid)" for q
  proof -
    have "\<exists>r. join ''/'' (map encode_component (consumer_slot_components ns cid t q)) =
        escape_slot_component ns @ ''/'' @ escape_slot_component cid @ ''/'' @ t @ r \<and> (r = [] \<or> (\<exists>u. r = CHR ''/'' # u))"
      by (cases q) (simp_all add: consumer_slot_components_def known_type_plain[OF assms(2)])
    then obtain r where r: "join ''/'' (map encode_component (consumer_slot_components ns cid t q)) =
        escape_slot_component ns @ ''/'' @ escape_slot_component cid @ ''/'' @ t @ r \<and> (r = [] \<or> (\<exists>u. r = CHR ''/'' # u))"
      by (rule exE)
    from stored_holder[OF escape_no_separator(1) escape_no_separator(1) no known_type_stored[OF assms(2)] conjunct1[OF r]
        conjunct2[OF r]]
    show ?thesis by (simp only: unescape_escape)
  qed
  show ?thesis
    using assms(1)
  proof (cases rule: spelling_cases)
    case 1
    then show ?thesis using escaped[of "significant p"] consumer_slot_join[of ns cid t p]
      by (simp add: consumer_slot_components_def)
  next
    case 2
    then show ?thesis using escaped[of p] by (simp add: join_slot_components_verbatim_def)
  next
    case (3 keep)
    have pieces: "split_on CHR ''/'' s = [ns, cid, t @ dotted keep p]"
      unfolding 3(1) by (rule dotted_slot_split[OF 3(3,4)])
    obtain u where "stored_credential_type (t @ dotted keep p) = Some u" using dotted_type_stored[OF assms(2) 3(4)] by blast
    moreover have "CHR ''/'' \<notin> set ns" "CHR ''~'' \<notin> set ns" "CHR ''/'' \<notin> set cid" "CHR ''~'' \<notin> set cid"
      using 3(3) by (auto simp: dotted_holder_def legacy_identity_is_unambiguous_def)
    moreover have "CHR ''/'' \<notin> set (t @ dotted keep p)" using no dotted_plain(1)[OF 3(4)] by simp
    ultimately show ?thesis
      using stored_holder[of ns cid "t @ dotted keep p" u s "[]"] 3(1) by (simp add: dotted_root_def unescape_plain)
  qed
qed

end
