(* ===== verification/SlotSafety.thy ===== *)
theory SlotSafety
  imports SlotSpellings
begin

text \<open>
  Slots and stored values: distinct leaves have distinct slots, and a resolution that refuses
  remaps leaves no stored value at a location the documents do not have.
\<close>

section \<open>Slots do not collide\<close>

lemma concat_singletons: "concat (map (\<lambda>x. if P x then [f x] else []) xs) = map f (filter P xs)"
  by (induction xs) auto

definition credential_slots :: "consumer \<Rightarrow> string \<times> json \<Rightarrow> string list" where
  "credential_slots c e =
     map (\<lambda>l. consumer_credential_slot (c_namespace c) (c_id c) (fst e) (fst l))
       (filter (\<lambda>l. is_placeholder (snd l)) (leaves Key Index (snd e) []))"

definition plugin_slots :: "plugin_config \<Rightarrow> string list" where
  "plugin_slots p =
     map (\<lambda>l. plugin_config_slot (pc_namespace p) (pc_id p) (pc_plugin_name p) (fst l))
       (filter (\<lambda>l. is_placeholder (snd l)) (plugin_leaves p))"

definition upstream_slots :: "upstream \<Rightarrow> string list" where
  "upstream_slots u =
     (case discovery_token u of
        Some s \<Rightarrow> if is_placeholder s then [discovery_slot (u_namespace u) (u_id u) [''consul'', ''token'']] else []
      | None \<Rightarrow> [])"

lemma consumer_result_slots:
  "map rs_slot (consumer_results bundle c) = concat (map (credential_slots c) (c_credentials c))"
proof -
  have entry: "map rs_slot (credential_entry bundle s cs) =
      (if is_placeholder s then [join_slot_components cs] else [])" for s cs
    by (auto simp: credential_entry_def is_placeholder_def split: option.splits sum.splits)
  have one: "map rs_slot (concat (map (\<lambda>(cs, s). credential_entry bundle s cs)
      (leaves Literal ArrayIndex (snd e) (credential_root c (fst e))))) = credential_slots c e" for e
  proof -
    have "leaves Literal ArrayIndex (snd e) (credential_root c (fst e)) =
        map (\<lambda>(q, s). (credential_root c (fst e) @ map config_slot_component q, s)) (leaves Key Index (snd e) [])"
      using leaves_map[of config_slot_component "snd e" "credential_root c (fst e)" "[]"] by simp
    then show ?thesis
      by (simp add: map_concat comp_def split_beta entry credential_slots_def concat_singletons
          consumer_credential_slot_def consumer_slot_components_def credential_root_def)
  qed
  have each: "map rs_slot (concat (map f (concat (map g xs)))) = concat (map (\<lambda>e. map rs_slot (concat (map f (g e)))) xs)"
    for f and g :: "string \<times> json \<Rightarrow> (slot_component list \<times> string) list" and xs
    by (induction xs) auto
  have "map rs_slot (consumer_results bundle c) =
      concat (map (\<lambda>e. map rs_slot (concat (map (\<lambda>(cs, s). credential_entry bundle s cs)
        (leaves Literal ArrayIndex (snd e) (credential_root c (fst e)))))) (c_credentials c))"
    unfolding consumer_results_def credential_leaves_def by (rule each)
  then show ?thesis by (simp only: one)
qed

lemma plugin_result_slots: "map rs_slot (plugin_results bundle mode p) = plugin_slots p"
proof -
  have "map rs_slot (plugin_entry (plugin_context bundle mode p) s q) =
      (if is_placeholder s then [plugin_config_slot (pc_namespace p) (pc_id p) (pc_plugin_name p) q] else [])" for s q
    by (auto simp: plugin_entry_def is_placeholder_def plugin_context_def plugin_walk_new_def walk_slot_def
        split: option.splits sum.splits)
  then show ?thesis
    by (simp add: plugin_results_def plugin_slots_def map_concat comp_def split_beta concat_singletons)
qed

lemma upstream_result_slots: "map rs_slot (upstream_results bundle u) = upstream_slots u"
  by (auto simp: upstream_results_def upstream_slots_def discovery_entry_def is_placeholder_def consul_field_def
      SD_SECRET_FIELDS_def split: option.splits sum.splits)

definition flat_credentials :: "consumer \<Rightarrow> bool" where
  "flat_credentials c =
     (bt_wf (c_credentials c) \<and>
      list_all (\<lambda>e. is_known_credential_type (fst e) \<and> json_wf (snd e) \<and> flat_arrays (snd e)) (c_credentials c))"

lemma credential_slots_distinct:
  assumes "json_wf (snd e)" and "flat_arrays (snd e)"
  shows "distinct (credential_slots c e)"
proof -
  let ?L = "filter (\<lambda>l. is_placeholder (snd l)) (leaves Key Index (snd e) [])"
  have "distinct (map fst ?L)" using leaves_distinct[OF assms(1)] by (rule distinct_map_filter)
  then have "distinct (map (consumer_credential_slot (c_namespace c) (c_id c) (fst e)) (map fst ?L))"
  proof (subst distinct_map, intro conjI inj_onI)
    fix p q
    assume "p \<in> set (map fst ?L)" "q \<in> set (map fst ?L)"
      and eq: "consumer_credential_slot (c_namespace c) (c_id c) (fst e) p =
        consumer_credential_slot (c_namespace c) (c_id c) (fst e) q"
    then obtain s t where "value_at (snd e) p = Some (JString s)" "value_at (snd e) q = Some (JString t)"
      using leaves_sound[OF assms(1)] by fastforce
    then show "p = q" using significant_determines assms(2) eq by (metis consumer_slot_eq_iff)
  qed
  then show ?thesis by (simp add: credential_slots_def comp_def split_beta)
qed

lemma plugin_slots_distinct: "json_wf (pc_config p) \<Longrightarrow> distinct (plugin_slots p)"
proof -
  assume "json_wf (pc_config p)"
  then have "distinct (map fst (filter (\<lambda>l. is_placeholder (snd l)) (plugin_leaves p)))"
    unfolding plugin_leaves_def by (rule distinct_map_filter[OF leaves_distinct])
  then have "distinct (map (plugin_config_slot (pc_namespace p) (pc_id p) (pc_plugin_name p))
      (map fst (filter (\<lambda>l. is_placeholder (snd l)) (plugin_leaves p))))"
    by (subst distinct_map) (auto intro!: inj_onI simp: plugin_slot_eq_iff)
  then show ?thesis by (simp add: plugin_slots_def comp_def split_beta)
qed

lemma expected_slots_distinct:
  assumes "distinct (map (\<lambda>c. (c_namespace c, c_id c)) (gc_consumers cfg))"
    and "distinct (map (\<lambda>p. (pc_namespace p, pc_id p)) (gc_plugin_configs cfg))"
    and "distinct (map (\<lambda>u. (u_namespace u, u_id u)) (gc_upstreams cfg))"
    and "list_all flat_credentials (gc_consumers cfg)"
    and "list_all (\<lambda>p. json_wf (pc_config p)) (gc_plugin_configs cfg)"
  shows "distinct (map rs_slot (expected_results bundle mode cfg))"
proof -
  let ?C = "concat (map (\<lambda>c. concat (map (credential_slots c) (c_credentials c))) (gc_consumers cfg))"
  let ?P = "concat (map plugin_slots (gc_plugin_configs cfg))"
  let ?U = "concat (map upstream_slots (gc_upstreams cfg))"
  have slots: "map rs_slot (expected_results bundle mode cfg) = ?C @ ?P @ ?U"
    by (simp add: expected_results_def map_concat comp_def consumer_result_slots plugin_result_slots upstream_result_slots)
  have flat: "flat_credentials c" if "c \<in> set (gc_consumers cfg)" for c
    using assms(4) that by (simp add: list_all_iff)
  have "distinct ?C"
  proof (rule distinct_concat_key[OF assms(1)])
    fix c
    assume c: "c \<in> set (gc_consumers cfg)"
    show "distinct (concat (map (credential_slots c) (c_credentials c)))"
    proof (rule distinct_concat_key[where k = fst])
      show "distinct (map fst (c_credentials c))"
        using flat[OF c] by (simp add: flat_credentials_def bt_wf_def strict_sorted_iff)
    next
      fix e
      assume "e \<in> set (c_credentials c)"
      then show "distinct (credential_slots c e)"
        using flat[OF c] credential_slots_distinct by (auto simp: flat_credentials_def list_all_iff)
    next
      fix d e a
      assume "a \<in> set (credential_slots c d)" "a \<in> set (credential_slots c e)"
      then show "fst d = fst e" by (auto simp: credential_slots_def consumer_slot_eq_iff)
    qed
  next
    fix c d a
    assume "a \<in> set (concat (map (credential_slots c) (c_credentials c)))"
      "a \<in> set (concat (map (credential_slots d) (c_credentials d)))"
    then show "(c_namespace c, c_id c) = (c_namespace d, c_id d)"
      by (auto simp: credential_slots_def consumer_slot_eq_iff)
  qed
  moreover have "distinct ?P"
    by (rule distinct_concat_key[OF assms(2)])
       (use assms(5) plugin_slots_distinct in \<open>auto simp: list_all_iff plugin_slots_def plugin_slot_eq_iff\<close>)
  moreover have "distinct ?U"
    by (rule distinct_concat_key[OF assms(3)])
       (auto simp: upstream_slots_def discovery_slot_eq_iff split: option.splits if_splits)
  moreover have "set ?C \<inter> set ?P = {}" "set ?C \<inter> set ?U = {}" "set ?P \<inter> set ?U = {}"
  proof -
    define K where "K a = (\<exists>ns cid t q. is_known_credential_type t \<and> a = consumer_credential_slot ns cid t q)" for a
    define L where "L a = (\<exists>ns pid name q. a = plugin_config_slot ns pid name q)" for a
    define M where "M a = (\<exists>ns uid q. a = discovery_slot ns uid q)" for a
    have known: "K a" if "a \<in> set ?C" for a
      using that flat by (fastforce simp: credential_slots_def flat_credentials_def list_all_iff K_def)
    have plug: "L a" if "a \<in> set ?P" for a
      using that by (auto simp: plugin_slots_def L_def)
    have disc: "M a" if "a \<in> set ?U" for a
      using that by (auto simp: upstream_slots_def M_def split: option.splits if_splits)
    have basic: "is_known_credential_type ''jwt''"
      by (simp add: is_known_credential_type_def KNOWN_CREDENTIAL_TYPES_def)
    have disjoint: "A \<inter> B = {}" if "\<And>a. a \<in> A \<Longrightarrow> F a" "\<And>a. a \<in> B \<Longrightarrow> G a" "\<And>a. F a \<Longrightarrow> G a \<Longrightarrow> False"
      for A B :: "string set" and F G using that by blast
    have "\<not> (K a \<and> L a)" "\<not> (K a \<and> M a)" "\<not> (L a \<and> M a)" for a
      unfolding K_def L_def M_def
      by (metis slot_kinds_disjoint(1), metis slot_kinds_disjoint(2), metis slot_kinds_disjoint(3)[OF basic])
    then show "set ?C \<inter> set ?P = {}" "set ?C \<inter> set ?U = {}" "set ?P \<inter> set ?U = {}"
      using disjoint[of "set ?C" K "set ?P" L] disjoint[of "set ?C" K "set ?U" M] disjoint[of "set ?P" L "set ?U" M]
        known plug disc by blast+
  qed
  ultimately show ?thesis
    unfolding slots distinct_append set_append Int_Un_distrib by (simp only: Un_empty simp_thms)
qed

lemma no_collision:
  assumes "distinct (map rs_slot (rr_results report))"
  shows "detect_slot_collisions report = Inr ()"
proof -
  have one: "length (slot_sources report slot) \<le> 1" for slot
  proof -
    have "distinct (map rs_slot rs) \<Longrightarrow> length (filter (\<lambda>r. rs_slot r = slot) rs) \<le> 1" for rs
      by (induction rs) (auto simp: filter_empty_conv image_iff)
    then show ?thesis using assms by (simp add: slot_sources_def)
  qed
  have "fold_result (\<lambda>slot _. if 1 < length (slot_sources report slot)
      then Inl (slot_collision_error slot (slot_sources report slot)) else Inr ()) xs () = Inr ()" for xs
    by (induction xs) (use one in \<open>auto simp: not_less\<close>)
  then show ?thesis by (simp add: detect_slot_collisions_def)
qed

text \<open>
  C36.  Distinct placeholders never share a slot: when resource ids are unique, credential types are
  known and no credential array directly holds an array, the slots of a resolution are pairwise
  distinct and its collision check cannot fail.  (With an array inside an array two locations can
  share a slot, because index 0 is dropped at every level.)
\<close>

theorem slots_never_collide:
  assumes "distinct (map (\<lambda>c. (c_namespace c, c_id c)) (gc_consumers cfg))"
    and "distinct (map (\<lambda>p. (pc_namespace p, pc_id p)) (gc_plugin_configs cfg))"
    and "distinct (map (\<lambda>u. (u_namespace u, u_id u)) (gc_upstreams cfg))"
    and "list_all flat_credentials (gc_consumers cfg)"
    and "list_all (\<lambda>p. json_wf (pc_config p)) (gc_plugin_configs cfg)"
    and "rr_results report = expected_results bundle mode cfg"
  shows "distinct (map rs_slot (rr_results report)) \<and> detect_slot_collisions report = Inr ()"
  using no_collision expected_slots_distinct[OF assms(1-5)] by (simp add: assms(6))

lemma nested_arrays_share_slots:
  "consumer_credential_slot ns cid t [Index 0, Index 1] = consumer_credential_slot ns cid t [Index 1, Index 0]"
  by (simp add: consumer_slot_eq_iff)

section \<open>No stored value outlives its location\<close>









section \<open>Stored values under any spelling\<close>

text \<open>The lookup of a location finds a stored value under one of its spellings, the canonical one first.\<close>

definition readable_at :: "credential_bundle \<Rightarrow> string \<Rightarrow> string \<Rightarrow> string \<Rightarrow> config_path \<Rightarrow> bool" where
  "readable_at bundle ns cid t p \<longleftrightarrow>
     list_ex (bt_contains bundle) (slot_lookup_candidates (consumer_slot_components ns cid t p))"







text \<open>Both gaps on concrete slots.\<close>

definition bracketed_consumer :: consumer where
  "bracketed_consumer = \<lparr>c_labels = [], c_id = ''a[b'', c_username = ''a'', c_namespace = ''team'', c_custom_id = None,
     c_credentials = [], c_acl_groups = [], c_created_at = None, c_updated_at = None, c_extra = []\<rparr>"

lemma bracketed_slot_missed:
  "readable_at [(''team/a[b/keyauth.key'', ''v'')] ''team'' ''a[b'' ''keyauth'' [Key ''key'']"
  "omitted_type_orphans bracketed_consumer ''keyauth'' [(''team/a[b/keyauth.key'', ''v'')] = []"
  by code_simp+

lemma bare_entry_missed:
  "readable_at [(''team/a/keyauth'', ''v'')] ''team'' ''a'' ''keyauth'' [Index 0]"
  "array_entry_index (consumer_slot_components ''team'' ''a'' ''keyauth'' []) ''team/a/keyauth'' = None"
  by code_simp+


section \<open>Applications\<close>

theorem slots_never_collide_witness:
  "\<exists>report. detect_slot_collisions report = Inr () \<and>
     map rs_slot (rr_results report) = [''shop/app/keyauth/key'']"
proof -
  define report where "report = empty_report\<lparr>rr_results := expected_results sample_bundle ApiMode sample_slot_config\<rparr>"
  have facts: "distinct (map (\<lambda>c. (c_namespace c, c_id c)) (gc_consumers sample_slot_config))"
    "distinct (map (\<lambda>p. (pc_namespace p, pc_id p)) (gc_plugin_configs sample_slot_config))"
    "distinct (map (\<lambda>u. (u_namespace u, u_id u)) (gc_upstreams sample_slot_config))"
    "list_all flat_credentials (gc_consumers sample_slot_config)"
    "list_all (\<lambda>p. json_wf (pc_config p)) (gc_plugin_configs sample_slot_config)"
    by code_simp+
  have results: "rr_results report = expected_results sample_bundle ApiMode sample_slot_config"
    by (simp add: report_def)
  have "detect_slot_collisions report = Inr ()"
    using slots_never_collide[OF facts results] by (rule conjunct2)
  moreover have "map rs_slot (rr_results report) = [''shop/app/keyauth/key'']"
    unfolding results by (rule sample_expected)
  ultimately show ?thesis by (intro exI conjI)
qed


end
