(* ===== verification/Verdict.thy ===== *)
theory Verdict
  imports Resolver RepoConfig
begin

text \<open>
  The verdicts the preview commands report through their exit codes (\<open>verdict.rs\<close>): the gates an
  \<open>apply\<close> refuses on that are decidable without a gateway, and how a drift check ends.
\<close>

section \<open>Blockers\<close>

datatype blocker_kind =
    Validation
  | SecurityAudit
  | PolicyRules
  | RequiredCredentials
  | SlotRemap
  | ProvisionerToken
  | ProvisioningRepository
  | NarrowedFilePublication
  | PublicationPathCollision
  | InvalidSmokeChecks
  | ProbeConsumerAllowlist

text \<open>The derived \<open>Ord\<close> is the order of declaration.\<close>

fun blocker_rank :: "blocker_kind \<Rightarrow> nat" where
  "blocker_rank Validation = 0"
| "blocker_rank SecurityAudit = 1"
| "blocker_rank PolicyRules = 2"
| "blocker_rank RequiredCredentials = 3"
| "blocker_rank SlotRemap = 4"
| "blocker_rank ProvisionerToken = 5"
| "blocker_rank ProvisioningRepository = 6"
| "blocker_rank NarrowedFilePublication = 7"
| "blocker_rank PublicationPathCollision = 8"
| "blocker_rank InvalidSmokeChecks = 9"
| "blocker_rank ProbeConsumerAllowlist = 10"

lemma blocker_rank_inject [simp]: "blocker_rank a = blocker_rank b \<longleftrightarrow> a = b"
  by (cases a; cases b) simp_all

instantiation blocker_kind :: linorder
begin

definition "a \<le> b \<longleftrightarrow> blocker_rank a \<le> blocker_rank b"
definition "a < b \<longleftrightarrow> blocker_rank a < blocker_rank b"

instance
  by standard (auto simp: less_eq_blocker_kind_def less_blocker_kind_def)

end

fun label :: "blocker_kind \<Rightarrow> string" where
  "label Validation = ''validation''"
| "label SecurityAudit = ''security''"
| "label PolicyRules = ''policy''"
| "label RequiredCredentials = ''required-credentials''"
| "label SlotRemap = ''credential-slot-remap''"
| "label ProvisionerToken = ''provisioner-token''"
| "label ProvisioningRepository = ''provisioning-repository''"
| "label NarrowedFilePublication = ''narrowed-file-publication''"
| "label PublicationPathCollision = ''publication-path-collision''"
| "label InvalidSmokeChecks = ''invalid-smoke-checks''"
| "label ProbeConsumerAllowlist = ''probe-consumer-allowlist''"

fun remedy :: "blocker_kind \<Rightarrow> string" where
  "remedy ProvisionerToken = ''FERRUM_GH_PROVISIONER_TOKEN not set; cannot allocate credential slots''"
| "remedy ProvisioningRepository = ''GITHUB_REPOSITORY not set; cannot write to GitHub Environment Secrets''"
| "remedy Validation = ''validation did not pass; resolve the reported schema or validator compatibility errors''"
| "remedy SecurityAudit =
     ''error-severity security finding(s); move committed secrets into the broker as ${gh-env-secret:...} placeholders, or override on the PR''"
| "remedy PolicyRules =
     ''error-severity policy violation(s); fix the resource or override on the PR (an override does not cover a finding that appears only after credential resolution)''"
| "remedy RequiredCredentials =
     ''alloc=require slot(s) with no bundle value; seed the credential bundle, or switch the placeholder to alloc=generate''"
| "remedy SlotRemap =
     ''credential-slot reassignment(s) or revival(s); rotate (Consumer) or reseed (plugin config) the affected slot and retire the orphaned or retired slot from the bundle, or re-run with --allow-credential-slot-remap''"
| "remedy NarrowedFilePublication =
     ''FERRUM_NAMESPACE narrows a file-mode environment, whose published document replaces the whole gateway file; unset FERRUM_NAMESPACE, or declare namespace_filter on the environment in .gitforgeops/config.yaml''"
| "remedy PublicationPathCollision =
     ''FERRUM_FILE_OUTPUT_PATH and FERRUM_MESH_FILE_OUTPUT_PATH resolve to the same file; point the gateway and mesh documents at distinct paths''"
| "remedy InvalidSmokeChecks =
     ''.gitforgeops/smoke.yaml does not load or names a credential verify would refuse; fix the reported check (closed schema, per-check and per-environment time budgets, Consumer credential slots on GET/HEAD checks only, of a probe Consumer labelled gitforgeops/verify-probe and listed by the operator in FERRUM_VERIFY_PROBE_CONSUMERS), or remove the file if the environment declares no traffic checks''"
| "remedy ProbeConsumerAllowlist =
     ''FERRUM_VERIFY_PROBE_CONSUMERS is unset, empty or malformed for this environment while a traffic check sends a credential slot; a repository administrator must set that GitHub Environment variable to the comma-separated <namespace>/<consumer-id> of its dedicated probe Consumers (the pull request cannot fix this)''"

record apply_blocker =
  ab_kind :: blocker_kind
  ab_count :: nat

definition apply_blocker_new :: "blocker_kind \<Rightarrow> nat \<Rightarrow> apply_blocker" where
  "apply_blocker_new kind n = \<lparr>ab_kind = kind, ab_count = n\<rparr>"

definition blocker_line :: "apply_blocker \<Rightarrow> string" where
  "blocker_line b = label (ab_kind b) @ '' ('' @ show_nat (ab_count b) @ ''): '' @ remedy (ab_kind b)"

record apply_gate_inputs =
  ag_validation_ok :: bool
  ag_security_findings :: "security_finding list"
  ag_security_overridden :: bool
  ag_policy_findings :: "policy_finding list"
  ag_secret_report :: resolve_report
  ag_allow_credential_slot_remap :: bool
  ag_provisioner_token_present :: bool
  ag_github_repository_present :: bool
  ag_file_publication_narrowed :: bool
  ag_publication_paths_collide :: bool
  ag_smoke_checks_invalid :: bool
  ag_probe_allowlist_invalid :: bool

text \<open>\<open>bool::then\<close> on a gate that passes or fails, and the gates that count findings.\<close>

definition gate :: "bool \<Rightarrow> blocker_kind \<Rightarrow> apply_blocker option" where
  "gate fails kind = (if fails then Some (apply_blocker_new kind 1) else None)"

definition counted_gate :: "nat \<Rightarrow> blocker_kind \<Rightarrow> apply_blocker option" where
  "counted_gate n kind = (if 0 < n then Some (apply_blocker_new kind n) else None)"

definition narrowed_file_publication_blocker :: "bool \<Rightarrow> apply_blocker option" where
  "narrowed_file_publication_blocker narrowed = gate narrowed NarrowedFilePublication"

definition publication_path_collision_blocker :: "bool \<Rightarrow> apply_blocker option" where
  "publication_path_collision_blocker collide = gate collide PublicationPathCollision"

definition invalid_smoke_checks_blocker :: "bool \<Rightarrow> apply_blocker option" where
  "invalid_smoke_checks_blocker invalid = gate invalid InvalidSmokeChecks"

definition probe_consumer_allowlist_blocker :: "bool \<Rightarrow> apply_blocker option" where
  "probe_consumer_allowlist_blocker invalid = gate invalid ProbeConsumerAllowlist"

definition validation_blocker :: "bool \<Rightarrow> apply_blocker option" where
  "validation_blocker validation_ok = gate (\<not> validation_ok) Validation"

definition security_blocker :: "security_finding list \<Rightarrow> bool \<Rightarrow> apply_blocker option" where
  "security_blocker findings overridden =
     (if overridden then None else counted_gate (length (security_blockers findings)) SecurityAudit)"

definition policy_blocker :: "policy_finding list \<Rightarrow> apply_blocker option" where
  "policy_blocker findings = counted_gate (length (filter is_blocking findings)) PolicyRules"

definition required_credentials_blocker :: "resolve_report \<Rightarrow> apply_blocker option" where
  "required_credentials_blocker report = counted_gate (length (missing_required report)) RequiredCredentials"

definition flatten :: "'a option list \<Rightarrow> 'a list" where
  "flatten xs = List.map_filter (\<lambda>x. x) xs"

definition credential_provisioning_blockers :: "resolve_report \<Rightarrow> bool \<Rightarrow> bool \<Rightarrow> apply_blocker list" where
  "credential_provisioning_blockers report provisioner_token_present github_repository_present =
     (if needs_allocation report = [] then []
      else flatten [gate (\<not> provisioner_token_present) ProvisionerToken,
                    gate (\<not> github_repository_present) ProvisioningRepository])"

definition slot_remap_blocker :: "resolve_report \<Rightarrow> bool \<Rightarrow> apply_blocker option" where
  "slot_remap_blocker report allowed =
     (if allowed then None else counted_gate (length (rr_slot_remaps report)) SlotRemap)"

definition apply_blockers :: "apply_gate_inputs \<Rightarrow> apply_blocker list" where
  "apply_blockers inputs =
     flatten
       [narrowed_file_publication_blocker (ag_file_publication_narrowed inputs),
        publication_path_collision_blocker (ag_publication_paths_collide inputs),
        invalid_smoke_checks_blocker (ag_smoke_checks_invalid inputs),
        probe_consumer_allowlist_blocker (ag_probe_allowlist_invalid inputs),
        security_blocker (ag_security_findings inputs) (ag_security_overridden inputs),
        slot_remap_blocker (ag_secret_report inputs) (ag_allow_credential_slot_remap inputs),
        required_credentials_blocker (ag_secret_report inputs),
        validation_blocker (ag_validation_ok inputs),
        policy_blocker (ag_policy_findings inputs)] @
     credential_provisioning_blockers (ag_secret_report inputs)
       (ag_provisioner_token_present inputs) (ag_github_repository_present inputs)"

definition blocker_summary :: "apply_blocker list \<Rightarrow> string option" where
  "blocker_summary blockers =
     (if blockers = [] then None
      else Some (''apply is blocked by '' @ show_nat (length blockers) @ '' class(es): '' @
        join '', '' (map (\<lambda>b. label (ab_kind b)) blockers)))"

section \<open>Drift\<close>

definition DRIFT_EXIT_CODE :: int where "DRIFT_EXIT_CODE = 2"
definition SECRETS_UNVERIFIED_EXIT_CODE :: int where "SECRETS_UNVERIFIED_EXIT_CODE = 6"

record drift_verdict =
  dv_managed_modified :: bool
  dv_managed_deleted :: bool
  dv_unmanaged_added :: bool
  dv_spec_conflicts :: bool
  dv_secrets_changed :: bool

definition drift_evaluate ::
    "drift_alert_on \<Rightarrow> resource_diff list \<Rightarrow> unmanaged_resource list \<Rightarrow> spec_owned_resource list \<Rightarrow> drift_verdict" where
  "drift_evaluate alert ds unmanaged spec_owned =
     (let modify_or_add = list_ex (\<lambda>d. rd_action d = Modify \<or> rd_action d = Add) ds;
          delete = list_ex (\<lambda>d. rd_action d = Delete) ds in
      \<lparr>dv_managed_modified = (da_managed_modified alert \<and> modify_or_add),
       dv_managed_deleted = (da_managed_deleted alert \<and> delete),
       dv_unmanaged_added = (da_unmanaged_added alert \<and> unmanaged \<noteq> []),
       dv_spec_conflicts = list_ex is_conflict spec_owned,
       dv_secrets_changed = False\<rparr>)"

definition with_secret_changes :: "drift_verdict \<Rightarrow> drift_alert_on \<Rightarrow> nat \<Rightarrow> drift_verdict" where
  "with_secret_changes v alert changes = v\<lparr>dv_secrets_changed := (da_managed_modified alert \<and> 0 < changes)\<rparr>"

definition has_drift :: "drift_verdict \<Rightarrow> bool" where
  "has_drift v =
     (dv_managed_modified v \<or> dv_managed_deleted v \<or> dv_unmanaged_added v \<or> dv_spec_conflicts v \<or>
      dv_secrets_changed v)"

definition drift_exit_code :: "drift_verdict \<Rightarrow> int" where
  "drift_exit_code v = (if has_drift v then DRIFT_EXIT_CODE else 0)"

definition drift_reasons :: "drift_verdict \<Rightarrow> string list" where
  "drift_reasons v =
     (if dv_managed_modified v then [''managed resources added or modified''] else []) @
     (if dv_managed_deleted v then [''managed resources deleted''] else []) @
     (if dv_unmanaged_added v then [''unmanaged resources on the gateway''] else []) @
     (if dv_spec_conflicts v then [''API-spec ownership conflicts''] else []) @
     (if dv_secrets_changed v then [''managed secrets changed since the fingerprint baseline''] else [])"

datatype diff_exit = InSync | Drift | SecretsUnverified | BaselineInvalidated | MaskedSecretAncestors

definition diff_exit_evaluate :: "drift_verdict \<Rightarrow> bool \<Rightarrow> bool \<Rightarrow> bool \<Rightarrow> bool \<Rightarrow> diff_exit" where
  "diff_exit_evaluate drift fields_authoritative baseline_invalidated secrets_verified accept_unverified_secrets =
     (if has_drift drift then Drift
      else if \<not> fields_authoritative then MaskedSecretAncestors
      else if secrets_verified \<or> accept_unverified_secrets then InSync
      else if baseline_invalidated then BaselineInvalidated
      else SecretsUnverified)"

fun diff_exit_code :: "diff_exit \<Rightarrow> int" where
  "diff_exit_code InSync = 0"
| "diff_exit_code Drift = DRIFT_EXIT_CODE"
| "diff_exit_code SecretsUnverified = SECRETS_UNVERIFIED_EXIT_CODE"
| "diff_exit_code BaselineInvalidated = 1"
| "diff_exit_code MaskedSecretAncestors = 1"

end
