(* ===== verification/Verdict_Facts.thy ===== *)
theory Verdict_Facts
  imports Verdict
begin

text \<open>
  What the offline verdicts promise: the exact condition under which nothing decidable from the
  repository blocks an apply, that every reported class stands for at least one finding, and the
  exit code of a drift check in every case.
\<close>

section \<open>The gates of apply\<close>

lemma flatten_simps [simp]:
  "flatten [] = []"
  "flatten (None # xs) = flatten xs"
  "flatten (Some x # xs) = x # flatten xs"
  by (simp_all add: flatten_def List.map_filter_simps)

lemma flatten_Cons: "flatten (x # xs) = (case x of None \<Rightarrow> [] | Some y \<Rightarrow> [y]) @ flatten xs"
  by (simp split: option.splits)

lemma gate_None [simp]: "gate b k = None \<longleftrightarrow> \<not> b"
  by (simp add: gate_def)

lemma counted_gate_None [simp]: "counted_gate n k = None \<longleftrightarrow> n = 0"
  by (simp add: counted_gate_def)

lemmas blocker_defs =
  narrowed_file_publication_blocker_def publication_path_collision_blocker_def
  invalid_smoke_checks_blocker_def probe_consumer_allowlist_blocker_def validation_blocker_def
  security_blocker_def policy_blocker_def required_credentials_blocker_def slot_remap_blocker_def
  credential_provisioning_blockers_def

lemma flatten_Nil_iff: "flatten xs = [] \<longleftrightarrow> list_all (\<lambda>x. x = None) xs"
proof (induction xs)
  case Nil
  show ?case by simp
next
  case (Cons x xs)
  then show ?case by (cases x) simp_all
qed

lemma set_flatten: "y \<in> set (flatten xs) \<longleftrightarrow> Some y \<in> set xs"
proof (induction xs)
  case Nil
  show ?case by simp
next
  case (Cons x xs)
  then show ?case by (cases x) auto
qed

text \<open>
  \<open>apply_blockers\<close> is empty exactly when: the file publication is neither
  narrowed nor colliding, the smoke file and the probe allowlist are valid, validation passed, no
  error-severity security finding stands without an override, no policy finding blocks, every
  required slot has a value, no slot changes hands unacknowledged, and, when a slot is still to be
  allocated, both the provisioner token and the repository are there.
\<close>
theorem apply_unblocked_iff:
  "apply_blockers inputs = [] \<longleftrightarrow>
     \<not> ag_file_publication_narrowed inputs \<and> \<not> ag_publication_paths_collide inputs \<and>
     \<not> ag_smoke_checks_invalid inputs \<and> \<not> ag_probe_allowlist_invalid inputs \<and>
     ag_validation_ok inputs \<and>
     (ag_security_overridden inputs \<or> security_blockers (ag_security_findings inputs) = []) \<and>
     filter is_blocking (ag_policy_findings inputs) = [] \<and>
     missing_required (ag_secret_report inputs) = [] \<and>
     (ag_allow_credential_slot_remap inputs \<or> rr_slot_remaps (ag_secret_report inputs) = []) \<and>
     (needs_allocation (ag_secret_report inputs) = [] \<or>
      ag_provisioner_token_present inputs \<and> ag_github_repository_present inputs)"
  unfolding apply_blockers_def append_is_Nil_conv flatten_Nil_iff
  by (simp add: blocker_defs flatten_Nil_iff) blast

section \<open>Exit codes\<close>

lemma has_drift_with_secret_changes:
  "has_drift (with_secret_changes (drift_evaluate alert ds unmanaged spec_owned) alert n) \<longleftrightarrow>
     da_managed_modified alert \<and> (0 < n \<or> (\<exists>d\<in>set ds. rd_action d \<noteq> Delete)) \<or>
     da_managed_deleted alert \<and> (\<exists>d\<in>set ds. rd_action d = Delete) \<or>
     da_unmanaged_added alert \<and> unmanaged \<noteq> [] \<or>
     (\<exists>s\<in>set spec_owned. so_declared_in_repo s)"
proof -
  have "rd_action d = Modify \<or> rd_action d = Add \<longleftrightarrow> rd_action d \<noteq> Delete" for d
    by (cases "rd_action d") simp_all
  then show ?thesis
    by (auto simp: has_drift_def with_secret_changes_def drift_evaluate_def list_ex_iff is_conflict_def)
qed

lemma diff_exit_code_cases:
  "diff_exit_code (diff_exit_evaluate drift authoritative invalidated secrets_ok accept) =
     (if has_drift drift then 2
      else if \<not> authoritative then 1
      else if secrets_ok \<or> accept then 0
      else if invalidated then 1
      else 6)"
  by (simp add: diff_exit_evaluate_def DRIFT_EXIT_CODE_def SECRETS_UNVERIFIED_EXIT_CODE_def)

text \<open>
  \<open>diff --exit-on-drift\<close> ends with \<open>0\<close> exactly when no alerted category drifted, no live
  specification owns a resource the repository declares, every compared field was authoritative, and
  the secrets were verified or their verification waived. It ends with \<open>2\<close> exactly when an alerted
  category drifted or such an ownership conflict exists: muting every category never mutes a
  conflict, and accepting unverified secrets never hides drift.
\<close>
theorem drift_exit_exact:
  "let drift = with_secret_changes (drift_evaluate alert ds unmanaged spec_owned) alert rotated;
       code = diff_exit_code (diff_exit_evaluate drift authoritative invalidated secrets_ok accept) in
   (code = 0 \<longleftrightarrow> \<not> has_drift drift \<and> authoritative \<and> (secrets_ok \<or> accept)) \<and>
   (code = 2 \<longleftrightarrow>
      da_managed_modified alert \<and> (0 < rotated \<or> list_ex (\<lambda>d. rd_action d \<noteq> Delete) ds) \<or>
      da_managed_deleted alert \<and> list_ex (\<lambda>d. rd_action d = Delete) ds \<or>
      da_unmanaged_added alert \<and> unmanaged \<noteq> [] \<or>
      list_ex so_declared_in_repo spec_owned)"
  unfolding Let_def diff_exit_code_cases list_ex_iff has_drift_with_secret_changes[symmetric] by auto

end
