(* ===== verification/Bundle.thy ===== *)
theory Bundle
  imports SlotReport
begin

text \<open>
  The credential bundle (\<open>secrets/bundle.rs\<close>): reading \<open>FERRUM_CREDS_JSON\<close> into shards, the names of
  the shards, merging and writing them back, and the choice of a shard for a new slot.  The JSON
  reader and printer of the serialization library and the digest are parameters.  Reading and
  writing the handoff file itself is not modelled.
\<close>

section \<open>Reading JSON without duplicate members\<close>

text \<open>
  What the deserializer hands to the visitor: the members of an object in the order of the text,
  repeated ones included, and the error at which reading stopped, if it stopped.
\<close>

datatype document =
    DNull
  | DBool bool
  | DNumber jnum
  | DString string
  | DArray "document list" "string option"
  | DObject "(string \<times> document) list" "string option"
  | DStop string

text \<open>\<open>sj_read\<close> gives the document of a text and the error for characters after it.\<close>

record serde_json =
  sj_print :: "json \<Rightarrow> (string, string) result"
  sj_read :: "string \<Rightarrow> document \<times> string option"

datatype parse_error =
    SyntaxError string
  | DuplicateMember string
  | DuplicateWithheld

definition BUNDLE_SECRET_PREFIX :: string where
  "BUNDLE_SECRET_PREFIX = ''FERRUM_CREDS_BUNDLE''"

record no_duplicate_members =
  nd_named_levels :: nat
  nd_wrapper_root :: bool

definition WRAPPER :: no_duplicate_members where
  "WRAPPER = \<lparr>nd_named_levels = 2, nd_wrapper_root = True\<rparr>"

definition SHARD :: no_duplicate_members where
  "SHARD = \<lparr>nd_named_levels = 1, nd_wrapper_root = False\<rparr>"

definition nested :: "no_duplicate_members \<Rightarrow> string option \<Rightarrow> no_duplicate_members" where
  "nested nd key =
     (let shard = (case key of None \<Rightarrow> False | Some k \<Rightarrow> starts_with k BUNDLE_SECRET_PREFIX) in
      \<lparr>nd_named_levels = (if nd_wrapper_root nd \<and> \<not> shard then 0 else nd_named_levels nd - 1),
       nd_wrapper_root = False\<rparr>)"

definition stop_at :: "string option \<Rightarrow> 'a \<Rightarrow> (parse_error, 'a) result" where
  "stop_at stop v = (case stop of None \<Rightarrow> Inr v | Some e \<Rightarrow> Inl (SyntaxError e))"

fun visit :: "no_duplicate_members \<Rightarrow> document \<Rightarrow> (parse_error, json) result" where
  "visit nd DNull = Inr JNull"
| "visit nd (DBool b) = Inr (JBool b)"
| "visit nd (DNumber n) = Inr (JNumber n)"
| "visit nd (DString s) = Inr (JString s)"
| "visit nd (DArray ds stop) =
     bind_result (fold_result (\<lambda>d xs. map_sum id (\<lambda>x. xs @ [x]) (visit (nested nd None) d)) ds [])
       (\<lambda>xs. stop_at stop (JArray xs))"
| "visit nd (DObject ms stop) =
     bind_result (fold_result (\<lambda>e m.
         if bt_contains m (fst e)
         then Inl (if 0 < nd_named_levels nd then DuplicateMember (fst e) else DuplicateWithheld)
         else map_sum id (\<lambda>v. bt_insert (fst e) v m) (visit (nested nd (Some (fst e))) (snd e))) ms [])
       (\<lambda>m. stop_at stop (JObject m))"
| "visit nd (DStop e) = Inl (SyntaxError e)"

definition parse_document :: "serde_json \<Rightarrow> no_duplicate_members \<Rightarrow> string \<Rightarrow> (parse_error, json) result" where
  "parse_document sj nd raw =
     bind_result (visit nd (fst (sj_read sj raw))) (stop_at (snd (sj_read sj raw)))"

section \<open>Shards\<close>

definition BUNDLE_SOFT_LIMIT_BYTES :: nat where
  "BUNDLE_SOFT_LIMIT_BYTES = 40 * 1024"

definition MAX_BUNDLE_SHARDS :: u32 where
  "MAX_BUNDLE_SHARDS = 16"

type_synonym shards = "(u32, credential_bundle) btree_map"

datatype bundle_error =
    WrapperMalformed parse_error
  | WrapperNotObject
  | ShardAliased string u32
  | ShardMalformed string parse_error
  | ShardType string
  | ShardNotSlotMap string string
  | SlotNotString string string string
  | SlotInTwoShards string u32 u32
  | NoShards string
  | NonCanonicalKey string
  | ShardsFull string string
  | NotSerialized string
  | HandoffIsInput

definition shard_secret_name :: "u32 \<Rightarrow> string" where
  "shard_secret_name shard =
     (if shard = 0 then BUNDLE_SECRET_PREFIX
      else BUNDLE_SECRET_PREFIX @ ''_'' @ show_nat (unat shard))"

text \<open>\<open>str::parse::<u32>\<close>: an optional \<open>+\<close>, then digits, below two to the 32.\<close>

definition parse_u32 :: "string \<Rightarrow> u32 option" where
  "parse_u32 s =
     (let ds = (case s of [] \<Rightarrow> [] | c # cs \<Rightarrow> if c = CHR ''+'' then cs else s) in
      if ds \<noteq> [] \<and> list_all is_ascii_digit ds \<and> decimal_value ds < 2 ^ 32
      then Some (of_nat (decimal_value ds)) else None)"

definition parse_shard_index :: "string \<Rightarrow> (bundle_error, u32 option) result" where
  "parse_shard_index secret_name =
     (if \<not> starts_with secret_name BUNDLE_SECRET_PREFIX then Inr None
      else
        let index = (if secret_name = BUNDLE_SECRET_PREFIX then Some 0
                     else Option.bind (strip_prefix (BUNDLE_SECRET_PREFIX @ ''_'') secret_name) parse_u32) in
        case index of
          Some shard \<Rightarrow>
            if shard_secret_name shard = secret_name then Inr (Some shard) else Inl (NonCanonicalKey secret_name)
        | None \<Rightarrow> Inl (NonCanonicalKey secret_name))"

fun json_type_name :: "json \<Rightarrow> string" where
  "json_type_name JNull = ''null''"
| "json_type_name (JBool _) = ''boolean''"
| "json_type_name (JNumber _) = ''number''"
| "json_type_name (JString _) = ''string''"
| "json_type_name (JArray _) = ''array''"
| "json_type_name (JObject _) = ''object''"

definition slot_entry ::
    "string \<Rightarrow> string \<times> json \<Rightarrow> credential_bundle \<Rightarrow> (bundle_error, credential_bundle) result" where
  "slot_entry secret_name e b =
     (case as_str (snd e) of
        None \<Rightarrow> Inl (SlotNotString secret_name (fst e) (json_type_name (snd e)))
      | Some t \<Rightarrow> Inr (bt_insert (fst e) t b))"

definition slot_map :: "string \<Rightarrow> json \<Rightarrow> (bundle_error, credential_bundle) result" where
  "slot_map secret_name shard =
     (case as_object shard of
        None \<Rightarrow> Inl (ShardNotSlotMap secret_name (json_type_name shard))
      | Some slots \<Rightarrow> fold_result (slot_entry secret_name) slots [])"

record loaded_bundles =
  lb_merged :: credential_bundle
  lb_per_shard :: shards
  lb_unrecognized_keys :: "string list"

record bundle_scan =
  bs_loaded :: loaded_bundles
  bs_slot_sources :: "(string, u32) btree_map"

definition shard_value :: "serde_json \<Rightarrow> string \<Rightarrow> json \<Rightarrow> (bundle_error, credential_bundle) result" where
  "shard_value sj secret_name v =
     (case v of
        JString s \<Rightarrow>
          if s = [] then Inr []
          else (case parse_document sj SHARD s of
                  Inl e \<Rightarrow> Inl (ShardMalformed secret_name e)
                | Inr checked \<Rightarrow> slot_map secret_name checked)
      | JObject _ \<Rightarrow> slot_map secret_name v
      | _ \<Rightarrow> Inl (ShardType secret_name))"

text \<open>One slot of a shard: \<open>slot_sources.insert\<close> answers the shard that supplied the slot before.\<close>

definition take_slot ::
    "u32 \<Rightarrow> string \<times> string \<Rightarrow> (string, u32) btree_map \<times> credential_bundle \<Rightarrow>
     (bundle_error, (string, u32) btree_map \<times> credential_bundle) result" where
  "take_slot idx e acc =
     (case bt_get (fst acc) (fst e) of
        Some previous \<Rightarrow> Inl (SlotInTwoShards (fst e) previous idx)
      | None \<Rightarrow> Inr (bt_insert (fst e) idx (fst acc), bt_insert (fst e) (snd e) (snd acc)))"

definition take_shard ::
    "serde_json \<Rightarrow> string \<times> json \<Rightarrow> bundle_scan \<Rightarrow> (bundle_error, bundle_scan) result" where
  "take_shard sj e scan =
     (let l = bs_loaded scan in
      bind_result (parse_shard_index (fst e)) (\<lambda>index.
      case index of
        None \<Rightarrow>
          Inr (scan\<lparr>bs_loaded := l\<lparr>lb_unrecognized_keys := lb_unrecognized_keys l @ [fst e]\<rparr>\<rparr>)
      | Some idx \<Rightarrow>
          if bt_contains (lb_per_shard l) idx then Inl (ShardAliased (fst e) idx)
          else
            bind_result (shard_value sj (fst e) (snd e)) (\<lambda>inner.
            bind_result (fold_result (take_slot idx) inner (bs_slot_sources scan, lb_merged l)) (\<lambda>acc.
            Inr \<lparr>bs_loaded = l\<lparr>lb_merged := snd acc, lb_per_shard := bt_insert idx inner (lb_per_shard l)\<rparr>,
                 bs_slot_sources = fst acc\<rparr>))))"

definition empty_scan :: bundle_scan where
  "empty_scan = \<lparr>bs_loaded = \<lparr>lb_merged = [], lb_per_shard = [], lb_unrecognized_keys = []\<rparr>, bs_slot_sources = []\<rparr>"

definition parse_bundles_from_json :: "serde_json \<Rightarrow> string \<Rightarrow> (bundle_error, loaded_bundles) result" where
  "parse_bundles_from_json sj raw =
     (case parse_document sj WRAPPER raw of
        Inl e \<Rightarrow> Inl (WrapperMalformed e)
      | Inr outer \<Rightarrow>
          (case as_object outer of
             None \<Rightarrow> Inl WrapperNotObject
           | Some obj \<Rightarrow>
               bind_result (fold_result (take_shard sj) obj empty_scan) (\<lambda>scan.
               let l = bs_loaded scan;
                   unrecognized = sort (lb_unrecognized_keys l) in
               if obj \<noteq> [] \<and> lb_per_shard l = []
               then Inl (NoShards (case unrecognized of [] \<Rightarrow> ''<none>'' | k # _ \<Rightarrow> k))
               else Inr (l\<lparr>lb_unrecognized_keys := unrecognized\<rparr>))))"

definition unrecognized_bundle_keys_warning :: "string list \<Rightarrow> string" where
  "unrecognized_bundle_keys_warning keys =
     ''FERRUM_CREDS_JSON ignored unrecognized top-level key(s); expected FERRUM_CREDS_BUNDLE / FERRUM_CREDS_BUNDLE_N, found: '' @
     join '', '' keys"

text \<open>The warning \<open>load_bundles_from_env\<close> prints is the last component.\<close>

definition load_bundles_from_env ::
    "serde_json \<Rightarrow> string \<Rightarrow> (bundle_error, credential_bundle \<times> shards \<times> string option) result" where
  "load_bundles_from_env sj raw =
     bind_result (parse_bundles_from_json sj raw) (\<lambda>l.
       Inr (lb_merged l, lb_per_shard l,
            if lb_unrecognized_keys l = [] then None
            else Some (unrecognized_bundle_keys_warning (lb_unrecognized_keys l))))"

section \<open>Writing\<close>

definition merge_bundles :: "shards \<Rightarrow> credential_bundle" where
  "merge_bundles shards =
     fold (\<lambda>s merged. fold (\<lambda>e. bt_insert (fst e) (snd e)) (snd s) merged) shards []"

definition serialize_bundle :: "serde_json \<Rightarrow> credential_bundle \<Rightarrow> (bundle_error, string) result" where
  "serialize_bundle sj bundle = map_sum NotSerialized id (sj_print sj (jstr_map bundle))"

definition shard_entry :: "u32 \<times> credential_bundle \<Rightarrow> string \<times> json" where
  "shard_entry s = (shard_secret_name (fst s), jstr_map (snd s))"

definition bundle_document :: "shards \<Rightarrow> json" where
  "bundle_document shards = JObject (bt_of_list (map shard_entry shards))"

definition serialize_bundle_document :: "serde_json \<Rightarrow> shards \<Rightarrow> (bundle_error, string) result" where
  "serialize_bundle_document sj shards = map_sum NotSerialized id (sj_print sj (bundle_document shards))"

text \<open>
  \<open>Path\<close> equality compares components: repeated and trailing separators and interior \<open>.\<close> do not
  count, a leading \<open>.\<close> and the root do.
\<close>

definition path_components :: "string \<Rightarrow> string list" where
  "path_components p =
     (if starts_with p ''/'' then [''/''] else if p = ''.'' \<or> starts_with p ''./'' then [''.''] else []) @
     filter (\<lambda>c. c \<noteq> [] \<and> c \<noteq> ''.'') (split_on CHR ''/'' p)"

definition nonempty_path :: "string option \<Rightarrow> string option" where
  "nonempty_path v = Option.bind v (\<lambda>s. if trim s = [] then None else Some (trim s))"

definition credential_handoff_destination ::
    "(string \<Rightarrow> string option) \<Rightarrow> string option \<Rightarrow> string option \<Rightarrow> (bundle_error, string option) result" where
  "credential_handoff_destination canonicalize destination input =
     (case nonempty_path destination of
        None \<Rightarrow> Inr None
      | Some out \<Rightarrow>
          (case nonempty_path input of
             None \<Rightarrow> Inr (Some out)
           | Some inp \<Rightarrow>
               let same_file = (case (canonicalize out, canonicalize inp) of
                     (Some a, Some b) \<Rightarrow> path_components a = path_components b
                   | _ \<Rightarrow> False) in
               if path_components out = path_components inp \<or> same_file
               then Inl HandoffIsInput else Inr (Some out)))"

section \<open>Choosing a shard\<close>

definition projected_shard_size :: "serde_json \<Rightarrow> string \<Rightarrow> nat \<Rightarrow> shards \<Rightarrow> u32 \<Rightarrow> nat" where
  "projected_shard_size sj slot value_len shards target =
     (case bt_get shards target of
        None \<Rightarrow> 2
      | Some b \<Rightarrow> (case sj_print sj (jstr_map b) of Inr s \<Rightarrow> length s | Inl _ \<Rightarrow> 0)) +
     length slot + value_len + 8"

definition fits :: "serde_json \<Rightarrow> string \<Rightarrow> nat \<Rightarrow> shards \<Rightarrow> u32 \<Rightarrow> bool" where
  "fits sj slot value_len shards s \<longleftrightarrow>
     projected_shard_size sj slot value_len shards s \<le> BUNDLE_SOFT_LIMIT_BYTES"

text \<open>The first eight bytes of the SHA-256 digest, big-endian, modulo the number of shards.\<close>

definition hash_target :: "(string \<Rightarrow> u8 list) \<Rightarrow> string \<Rightarrow> u32 \<Rightarrow> u32" where
  "hash_target sha256 slot addressable =
     (let first_8 = (word_rcat (take 8 (sha256 slot)) :: u64) in
      ucast (first_8 mod (ucast addressable :: u64)))"

definition pick_shard ::
    "serde_json \<Rightarrow> (string \<Rightarrow> u8 list) \<Rightarrow> string \<Rightarrow> nat \<Rightarrow> shards \<Rightarrow> u32 \<Rightarrow> u32 option" where
  "pick_shard sj sha256 slot value_len shards shard_count =
     (if shard_count = 0 then Some 0
      else
        let addressable = min shard_count MAX_BUNDLE_SHARDS;
            target = hash_target sha256 slot addressable in
        if fits sj slot value_len shards target then Some target
        else find (\<lambda>s. s \<noteq> target \<and> fits sj slot value_len shards s)
               (map of_nat [0..<unat addressable]))"

text \<open>The loop of \<open>reserve_shard\<close>: the answer and the shard count it leaves.\<close>

function shard_loop :: "(u32 \<Rightarrow> u32 option) \<Rightarrow> bundle_error \<Rightarrow> u32 \<Rightarrow> (bundle_error, u32) result \<times> u32" where
  "shard_loop pick full shard_count =
     (let n = (if shard_count = 0 then 1 else shard_count) in
      case pick n of
        Some index \<Rightarrow> (Inr index, n)
      | None \<Rightarrow> if MAX_BUNDLE_SHARDS \<le> n then (Inl full, n) else shard_loop pick full (n + 1))"
  by pat_completeness auto

termination
proof (relation "measure (\<lambda>(pick, full, shard_count). 17 - unat shard_count)", goal_cases)
  case (2 pick full shard_count n)
  have n: "unat n < 16" using 2(3) by (simp add: MAX_BUNDLE_SHARDS_def word_le_nat_alt)
  then have "unat (n + 1) = Suc (unat n)" by (simp add: unat_word_ariths)
  moreover have "unat shard_count \<le> unat n" using 2(1) by (auto split: if_splits)
  ultimately show ?case using n by auto
qed simp

definition reserve_shard ::
    "serde_json \<Rightarrow> (string \<Rightarrow> u8 list) \<Rightarrow> string \<Rightarrow> nat \<Rightarrow> shards \<Rightarrow> u32 \<Rightarrow> string \<Rightarrow>
     (bundle_error, u32) result \<times> u32" where
  "reserve_shard sj sha256 slot value_len shards shard_count operation =
     (case find (\<lambda>s. bt_contains (snd s) slot) shards of
        Some s \<Rightarrow> (Inr (fst s), shard_count)
      | None \<Rightarrow>
          shard_loop (pick_shard sj sha256 slot value_len shards) (ShardsFull operation slot) shard_count)"

end
