(* ===== verification/Delivery.thy ===== *)
theory Delivery
  imports Bundle Ledger LinkHeader
begin

text \<open>
  The two GitHub endpoints the credential broker talks to: the search for a recipient's public SSH
  key (\<open>secrets/delivery.rs\<close>) and the Environment secrets (\<open>secrets/github_api.rs\<close>).  HTTP, URLs, age,
  the sealed box and base64 belong to crates and are fields of two records of parameters.
\<close>

datatype github_error =
    HttpFailed string
  | ApiStatus nat string
  | TokenMissing
  | PublicKeyNotBase64 string
  | PublicKeyLength nat
  | SealFailed string
  | RecipientNotALogin string
  | KeysEndpoint
  | KeysUnreadable string
  | PageHeaderRefused
  | PageUrlRefused
  | PageElsewhere
  | PageCapReached
  | DiscoveryIncomplete
  | EncryptionFailed string

definition success_status :: "nat \<Rightarrow> bool" where
  "success_status status \<longleftrightarrow> 200 \<le> status \<and> status < 300"

section \<open>Key discovery\<close>

record url =
  url_text :: string
  url_origin :: string
  url_path :: string
  url_username :: string
  url_password :: "string option"

text \<open>A header value is \<open>None\<close> when it is not visible ASCII (\<open>to_str\<close> fails).\<close>

record key_response =
  kr_status :: nat
  kr_error_body :: string
  kr_links :: "string option list"
  kr_keys :: "(string, string list) result"

record ssh_env =
  se_parse_url :: "string \<Rightarrow> url option"
  se_per_page :: "url \<Rightarrow> url"
  se_get :: "nat \<Rightarrow> url \<Rightarrow> (string, key_response) result"
  se_relation_ok :: "string \<Rightarrow> bool"
  se_compatible :: "string \<Rightarrow> bool"
  se_fingerprint :: "string \<Rightarrow> string option"
  se_encrypt :: "string \<Rightarrow> string \<Rightarrow> (string, string) result"

definition MAX_SSH_KEY_PAGES :: nat where
  "MAX_SSH_KEY_PAGES = 20"

definition next_key_header ::
    "ssh_env \<Rightarrow> string option \<Rightarrow> string option \<Rightarrow> (github_error, string option) result" where
  "next_key_header env header found =
     (case header of
        None \<Rightarrow> Inl PageHeaderRefused
      | Some text_value \<Rightarrow>
          (case next_link (se_relation_ok env) text_value of
             Absent \<Rightarrow> Inr found
           | Ambiguous \<Rightarrow> Inl PageHeaderRefused
           | Next target \<Rightarrow>
               (case found of
                  Some existing \<Rightarrow> if existing \<noteq> target then Inl PageHeaderRefused else Inr (Some target)
                | None \<Rightarrow> Inr (Some target))))"

definition next_key_page :: "ssh_env \<Rightarrow> string option list \<Rightarrow> (github_error, string option) result" where
  "next_key_page env headers = fold_result (next_key_header env) headers None"

text \<open>The first compatible key of a page with its fingerprint.\<close>

definition first_recipient :: "ssh_env \<Rightarrow> string list \<Rightarrow> (string \<times> string) option" where
  "first_recipient env keys =
     map_option (\<lambda>k. (k, case se_fingerprint env k of Some f \<Rightarrow> f | None \<Rightarrow> ''unknown''))
       (find (se_compatible env) (map trim keys))"

definition same_endpoint :: "url \<Rightarrow> url \<Rightarrow> bool" where
  "same_endpoint u first \<longleftrightarrow>
     url_origin u = url_origin first \<and> url_path u = url_path first \<and>
     url_username u = [] \<and> url_password u = None"

fun key_pages :: "ssh_env \<Rightarrow> url \<Rightarrow> nat \<Rightarrow> nat \<Rightarrow> url \<Rightarrow> (github_error, (string \<times> string) option) result" where
  "key_pages env first page 0 u = Inl DiscoveryIncomplete"
| "key_pages env first page (Suc left) u =
     bind_result (map_sum HttpFailed id (se_get env page u)) (\<lambda>resp.
     if \<not> success_status (kr_status resp) then Inl (ApiStatus (kr_status resp) (kr_error_body resp))
     else
       bind_result (map_sum KeysUnreadable id (kr_keys resp)) (\<lambda>keys.
       case first_recipient env keys of
         Some found \<Rightarrow> Inr (Some found)
       | None \<Rightarrow>
           bind_result (next_key_page env (kr_links resp)) (\<lambda>target.
           case target of
             None \<Rightarrow> Inr None
           | Some t \<Rightarrow>
               if left = 0 then Inl PageCapReached
               else (case se_parse_url env t of
                       None \<Rightarrow> Inl PageUrlRefused
                     | Some v \<Rightarrow>
                         if \<not> same_endpoint v first then Inl PageElsewhere
                         else key_pages env first (Suc page) left v))))"

definition fetch_ssh_recipient :: "ssh_env \<Rightarrow> string \<Rightarrow> (github_error, (string \<times> string) option) result" where
  "fetch_ssh_recipient env keys_url =
     (case se_parse_url env keys_url of
        None \<Rightarrow> Inl KeysEndpoint
      | Some u \<Rightarrow> key_pages env (se_per_page env u) 0 MAX_SSH_KEY_PAGES (se_per_page env u))"

definition trim_end_slashes :: "string \<Rightarrow> string" where
  "trim_end_slashes s = rev (dropWhile (\<lambda>c. c = CHR ''/'') (rev s))"

definition trim_start_slashes :: "string \<Rightarrow> string" where
  "trim_start_slashes s = dropWhile (\<lambda>c. c = CHR ''/'') s"

record delivery_recipient =
  dp_login :: string
  dp_key_fingerprint :: string
  dp_recipient :: string

record delivery_result =
  de_login :: string
  de_key_fingerprint :: string
  de_encrypted :: string

definition discover_recipient_at ::
    "ssh_env \<Rightarrow> string \<Rightarrow> string \<Rightarrow> (github_error, delivery_recipient option) result" where
  "discover_recipient_at env api_base login =
     (if \<not> is_valid_github_login login then Inl (RecipientNotALogin login)
      else
        bind_result (fetch_ssh_recipient env (trim_end_slashes api_base @ ''/users/'' @ login @ ''/keys''))
          (\<lambda>found. Inr (map_option
             (\<lambda>k. \<lparr>dp_login = login, dp_key_fingerprint = snd k, dp_recipient = fst k\<rparr>) found)))"

definition encrypt :: "ssh_env \<Rightarrow> delivery_recipient \<Rightarrow> string \<Rightarrow> (github_error, delivery_result) result" where
  "encrypt env r v =
     map_sum EncryptionFailed
       (\<lambda>c. \<lparr>de_login = dp_login r, de_key_fingerprint = dp_key_fingerprint r, de_encrypted = c\<rparr>)
       (se_encrypt env (dp_recipient r) v)"

section \<open>Environment secrets\<close>

record env_secret_public_key =
  pk_key_id :: string
  pk_key :: string

record api_response =
  ar_status :: nat
  ar_error_body :: string
  ar_public_key :: "(string, env_secret_public_key) result"

record github_http =
  gh_get :: "string \<Rightarrow> (string, api_response) result"
  gh_put :: "string \<Rightarrow> json \<Rightarrow> (string, api_response) result"
  gh_decode :: "string \<Rightarrow> (string, string) result"
  gh_encode :: "string \<Rightarrow> string"
  gh_seal :: "string \<Rightarrow> string \<Rightarrow> (string, string) result"

record secret_target =
  tg_api_base :: string
  tg_repo :: string
  tg_environment :: string
  tg_token :: string

definition github_api_url :: "string \<Rightarrow> string \<Rightarrow> string" where
  "github_api_url api_base path = trim_end_slashes api_base @ ''/'' @ trim_start_slashes path"

definition require_provisioner_token :: "string \<Rightarrow> (github_error, unit) result" where
  "require_provisioner_token t = (if trim t = [] then Inl TokenMissing else Inr ())"

definition secrets_url :: "secret_target \<Rightarrow> string \<Rightarrow> string" where
  "secrets_url tg name =
     github_api_url (tg_api_base tg)
       (''repos/'' @ tg_repo tg @ ''/environments/'' @ tg_environment tg @ ''/secrets/'' @ name)"

definition fetch_public_key_at ::
    "github_http \<Rightarrow> secret_target \<Rightarrow> (github_error, env_secret_public_key) result" where
  "fetch_public_key_at gh tg =
     bind_result (require_provisioner_token (tg_token tg)) (\<lambda>_.
     bind_result (map_sum HttpFailed id (gh_get gh (secrets_url tg ''public-key''))) (\<lambda>resp.
     if \<not> success_status (ar_status resp) then Inl (ApiStatus (ar_status resp) (ar_error_body resp))
     else map_sum HttpFailed id (ar_public_key resp)))"

definition seal_secret :: "github_http \<Rightarrow> string \<Rightarrow> string \<Rightarrow> (github_error, string) result" where
  "seal_secret gh pubkey_b64 plaintext =
     bind_result (map_sum PublicKeyNotBase64 id (gh_decode gh pubkey_b64)) (\<lambda>pk.
     if length pk \<noteq> 32 then Inl (PublicKeyLength (length pk))
     else map_sum SealFailed (gh_encode gh) (gh_seal gh pk plaintext))"

definition put_environment_secret_at ::
    "github_http \<Rightarrow> secret_target \<Rightarrow> string \<Rightarrow> string \<Rightarrow> env_secret_public_key \<Rightarrow> (github_error, unit) result" where
  "put_environment_secret_at gh tg secret_name plaintext pubkey =
     bind_result (require_provisioner_token (tg_token tg)) (\<lambda>_.
     bind_result (seal_secret gh (pk_key pubkey) plaintext) (\<lambda>encrypted.
     bind_result (map_sum HttpFailed id (gh_put gh (secrets_url tg secret_name)
         (jstruct [(''encrypted_value'', JString encrypted), (''key_id'', JString (pk_key_id pubkey))])))
       (\<lambda>resp.
         if \<not> success_status (ar_status resp) then Inl (ApiStatus (ar_status resp) (ar_error_body resp))
         else Inr ())))"

end
