(* ===== verification/Allocator.thy ===== *)
theory Allocator
  imports Delivery SlotPolicy
begin

text \<open>
  \<open>secrets/allocator.rs\<close>: generating values for the slots a resolution reports as pending, placing
  them on shards, encrypting them for the recipient and writing the shards to GitHub, in two phases;
  and the rotation of a single slot.  Besides the answers of GitHub, the random values are a
  parameter.  A run gives its result, the shards and the shard count it leaves behind the two
  mutable references, and the secrets GitHub accepted, in order.
\<close>

datatype allocation_error =
    ModeUnreadable string
  | PolicyRefused resolve_error
  | BundleRefused bundle_error
  | GithubRefused github_error
  | BelowMinimum string string nat
  | AboveMaximum string nat
  | GeneratedSentinel string
  | NoKeyForAllocation nat string
  | NoKeyForRotation string string
  | RotationNeedsApi
  | NotRotatable string

record broker_slot =
  al_slot :: string
  al_shard :: u32
  al_value :: string
  al_alloc :: placeholder_alloc
  al_delivered :: "delivery_result option"

record allocate_outcome =
  ao_allocated :: "broker_slot list"
  ao_shard_count :: u32

definition outcome_default :: allocate_outcome where
  "outcome_default = \<lparr>ao_allocated = [], ao_shard_count = 0\<rparr>"

record allocation_failure =
  af_source :: allocation_error
  af_partial :: allocate_outcome

definition with_partial :: "allocation_error \<Rightarrow> allocate_outcome \<Rightarrow> allocation_failure" where
  "with_partial source partial = \<lparr>af_source = source, af_partial = partial\<rparr>"

text \<open>\<open>be_random k n\<close> is the base64url text of the \<open>k\<close>-th draw of \<open>n\<close> random bytes.\<close>

record broker_env =
  be_ssh :: ssh_env
  be_http :: github_http
  be_json :: serde_json
  be_sha256 :: "string \<Rightarrow> u8 list"
  be_random :: "nat \<Rightarrow> nat \<Rightarrow> string"
  be_mode :: "(string, gateway_mode) result"

record 'a broker_run =
  br_result :: "(allocation_failure, 'a) result"
  br_shards :: shards
  br_shard_count :: u32
  br_puts :: "(string \<times> string) list"

section \<open>Generating a value\<close>

definition generate_credential_value_with_mode ::
    "string \<Rightarrow> nat \<Rightarrow> string option \<Rightarrow> gateway_mode \<Rightarrow> string \<Rightarrow> (allocation_error, string) result" where
  "generate_credential_value_with_mode slot length_bytes cred_type mode random =
     bind_result (map_sum PolicyRefused id (check_generation_allowed slot cred_type length_bytes mode)) (\<lambda>_.
       let cred_type = (case credential_type_from_slot slot of Some t \<Rightarrow> t | None \<Rightarrow> []);
           chars = length (utf8_chars random) in
       if cred_type \<in> set MIN32_CREDENTIAL_TYPES \<and> chars < 32 then Inl (BelowMinimum cred_type slot chars)
       else if MAX_CREDENTIAL_VALUE_CHARS < chars then Inl (AboveMaximum slot chars)
       else if random = REDACTED_SENTINEL then Inl (GeneratedSentinel slot)
       else Inr random)"

section \<open>Planning\<close>

record planned =
  pl_slot :: string
  pl_value :: string
  pl_shard :: u32
  pl_alloc :: placeholder_alloc
  pl_delivered :: "delivery_result option"

record plan_state =
  ps_staged :: shards
  ps_shard_count :: u32
  ps_planned :: "planned list"

text \<open>\<open>BTreeMap::entry(shard).or_default().insert(slot, value)\<close>.\<close>

definition put_slot :: "u32 \<Rightarrow> string \<Rightarrow> string \<Rightarrow> shards \<Rightarrow> shards" where
  "put_slot shard slot v shards =
     bt_insert shard (bt_insert slot v (case bt_get shards shard of Some b \<Rightarrow> b | None \<Rightarrow> [])) shards"

definition plan_candidate ::
    "broker_env \<Rightarrow> resolve_report \<Rightarrow> gateway_mode \<Rightarrow> resolve_result \<Rightarrow> plan_state \<Rightarrow>
     (allocation_error \<times> u32, plan_state) result" where
  "plan_candidate env report mode candidate st =
     (let slot = rs_slot candidate;
          length_bytes = unat (sp_length_bytes (rs_placeholder candidate));
          random = be_random env (length (ps_planned st)) length_bytes in
      case generate_credential_value_with_mode slot length_bytes (credential_type_for report slot) mode random of
        Inl e \<Rightarrow> Inl (e, ps_shard_count st)
      | Inr v \<Rightarrow>
          (case reserve_shard (be_json env) (be_sha256 env) slot (length v) (ps_staged st)
                  (ps_shard_count st) ''allocating'' of
             (Inl e, grown) \<Rightarrow> Inl (BundleRefused e, grown)
           | (Inr shard, grown) \<Rightarrow>
               Inr \<lparr>ps_staged = put_slot shard slot v (ps_staged st), ps_shard_count = grown,
                    ps_planned = ps_planned st @
                      [\<lparr>pl_slot = slot, pl_value = v, pl_shard = shard,
                        pl_alloc = sp_alloc (rs_placeholder candidate), pl_delivered = None\<rparr>]\<rparr>))"

definition encrypt_planned ::
    "broker_env \<Rightarrow> delivery_recipient \<Rightarrow> planned \<Rightarrow> planned list \<Rightarrow> (allocation_error, planned list) result" where
  "encrypt_planned env recipient p done_so_far =
     map_sum GithubRefused (\<lambda>d. done_so_far @ [p\<lparr>pl_delivered := Some d\<rparr>])
       (encrypt (be_ssh env) recipient (pl_value p))"

definition deliver_planned ::
    "broker_env \<Rightarrow> string \<Rightarrow> string option \<Rightarrow> planned list \<Rightarrow> (allocation_error, planned list) result" where
  "deliver_planned env api_base pr_author ps =
     (case pr_author of
        None \<Rightarrow> Inr ps
      | Some login \<Rightarrow>
          bind_result (map_sum GithubRefused id (discover_recipient_at (be_ssh env) api_base login)) (\<lambda>found.
          case found of
            None \<Rightarrow> Inl (NoKeyForAllocation (length ps) login)
          | Some recipient \<Rightarrow> fold_result (encrypt_planned env recipient) ps []))"

definition add_to_shard :: "planned \<Rightarrow> (u32, planned list) btree_map \<Rightarrow> (u32, planned list) btree_map" where
  "add_to_shard p m =
     bt_insert (pl_shard p) ((case bt_get m (pl_shard p) of Some ps \<Rightarrow> ps | None \<Rightarrow> []) @ [p]) m"

definition group_by_shard :: "planned list \<Rightarrow> (u32, planned list) btree_map" where
  "group_by_shard ps = fold add_to_shard ps []"

section \<open>Committing\<close>

record commit_state =
  cs_shards :: shards
  cs_allocated :: "broker_slot list"
  cs_puts :: "(string \<times> string) list"

definition allocated_of :: "u32 \<Rightarrow> planned \<Rightarrow> broker_slot" where
  "allocated_of shard p =
     \<lparr>al_slot = pl_slot p, al_shard = shard, al_value = pl_value p, al_alloc = pl_alloc p,
      al_delivered = pl_delivered p\<rparr>"

definition shard_bundle :: "shards \<Rightarrow> u32 \<Rightarrow> planned list \<Rightarrow> credential_bundle" where
  "shard_bundle shards shard batch =
     fold (\<lambda>p. bt_insert (pl_slot p) (pl_value p)) batch
       (case bt_get shards shard of Some b \<Rightarrow> b | None \<Rightarrow> [])"

definition commit_shard ::
    "broker_env \<Rightarrow> secret_target \<Rightarrow> env_secret_public_key \<Rightarrow> u32 \<times> planned list \<Rightarrow> commit_state \<Rightarrow>
     (allocation_error \<times> commit_state, commit_state) result" where
  "commit_shard env tg pubkey e st =
     (let bundle = shard_bundle (cs_shards st) (fst e) (snd e) in
      case serialize_bundle (be_json env) bundle of
        Inl err \<Rightarrow> Inl (BundleRefused err, st)
      | Inr serialized \<Rightarrow>
          (case put_environment_secret_at (be_http env) tg (shard_secret_name (fst e)) serialized pubkey of
             Inl err \<Rightarrow> Inl (GithubRefused err, st)
           | Inr _ \<Rightarrow>
               Inr \<lparr>cs_shards = bt_insert (fst e) bundle (cs_shards st),
                    cs_allocated = cs_allocated st @ map (allocated_of (fst e)) (snd e),
                    cs_puts = cs_puts st @ [(shard_secret_name (fst e), serialized)]\<rparr>))"

definition commit_all ::
    "broker_env \<Rightarrow> secret_target \<Rightarrow> env_secret_public_key \<Rightarrow> (u32, planned list) btree_map \<Rightarrow> shards \<Rightarrow> u32 \<Rightarrow>
     allocate_outcome broker_run" where
  "commit_all env tg pubkey by_shard shards shard_count =
     (case fold_result (commit_shard env tg pubkey) by_shard
             \<lparr>cs_shards = shards, cs_allocated = [], cs_puts = []\<rparr> of
        Inl (err, st) \<Rightarrow>
          \<lparr>br_result = Inl (with_partial err
             \<lparr>ao_allocated = cs_allocated st, ao_shard_count = shard_count\<rparr>),
           br_shards = cs_shards st, br_shard_count = shard_count, br_puts = cs_puts st\<rparr>
      | Inr st \<Rightarrow>
          \<lparr>br_result = Inr \<lparr>ao_allocated = cs_allocated st, ao_shard_count = shard_count\<rparr>,
           br_shards = cs_shards st, br_shard_count = shard_count, br_puts = cs_puts st\<rparr>)"

text \<open>A run that stops before the first write.\<close>

definition stopped :: "(allocation_failure, 'a) result \<Rightarrow> shards \<Rightarrow> u32 \<Rightarrow> 'a broker_run" where
  "stopped r shards shard_count =
     \<lparr>br_result = r, br_shards = shards, br_shard_count = shard_count, br_puts = []\<rparr>"

definition refused :: "allocation_error \<Rightarrow> shards \<Rightarrow> u32 \<Rightarrow> 'a broker_run" where
  "refused e shards shard_count = stopped (Inl (with_partial e outcome_default)) shards shard_count"

definition check_batch :: "resolve_report \<Rightarrow> gateway_mode \<Rightarrow> (allocation_error, unit) result" where
  "check_batch report mode =
     fold_result (\<lambda>candidate _. map_sum PolicyRefused id (check_generation_allowed_for report candidate mode))
       (needs_allocation report) ()"

definition allocate_and_deliver_at ::
    "broker_env \<Rightarrow> secret_target \<Rightarrow> string option \<Rightarrow> resolve_report \<Rightarrow> shards \<Rightarrow> u32 \<Rightarrow>
     allocate_outcome broker_run" where
  "allocate_and_deliver_at env tg pr_author report shards shard_count =
     (if needs_allocation report = []
      then stopped (Inr \<lparr>ao_allocated = [], ao_shard_count = shard_count\<rparr>) shards shard_count
      else
        case be_mode env of
          Inl e \<Rightarrow> refused (ModeUnreadable e) shards shard_count
        | Inr mode \<Rightarrow>
            (case check_batch report mode of
               Inl e \<Rightarrow> refused e shards shard_count
             | Inr _ \<Rightarrow>
                 (case fold_result (plan_candidate env report mode) (needs_allocation report)
                         \<lparr>ps_staged = shards, ps_shard_count = shard_count, ps_planned = []\<rparr> of
                    Inl (e, grown) \<Rightarrow> refused e shards grown
                  | Inr st \<Rightarrow>
                      (case deliver_planned env (tg_api_base tg) pr_author (ps_planned st) of
                         Inl e \<Rightarrow> refused e shards (ps_shard_count st)
                       | Inr ps \<Rightarrow>
                           (case fetch_public_key_at (be_http env) tg of
                              Inl e \<Rightarrow> refused (GithubRefused e) shards (ps_shard_count st)
                            | Inr pubkey \<Rightarrow>
                                commit_all env tg pubkey (group_by_shard ps) shards (ps_shard_count st))))))"

section \<open>Rotation\<close>

definition rotation_field :: "string list \<Rightarrow> string option" where
  "rotation_field parts =
     (case drop 3 parts of
        [field] \<Rightarrow> Some field
      | [index, field] \<Rightarrow>
          (case Option.bind (Option.bind (strip_prefix ''['' index) (strip_suffix '']'')) parse_u64 of
             Some n \<Rightarrow> if 0 < n then Some field else None
           | None \<Rightarrow> None)
      | _ \<Rightarrow> None)"

definition rotatable_leaves :: "(string \<times> string) list" where
  "rotatable_leaves =
     [(''keyauth'', ''key''), (''jwt'', ''secret''), (''hmac_auth'', ''secret''), (''basicauth'', ''password'')]"

definition check_rotation_allowed :: "string \<Rightarrow> nat \<Rightarrow> gateway_mode \<Rightarrow> (allocation_error, unit) result" where
  "check_rotation_allowed slot length_bytes mode =
     bind_result (map_sum PolicyRefused id (check_generation_allowed slot None length_bytes mode)) (\<lambda>_.
     if mode \<noteq> ApiMode then Inl RotationNeedsApi
     else
       let parts = split_on CHR ''/'' slot in
       case rotation_field parts of
         Some field \<Rightarrow>
           if 2 < length parts \<and> (parts ! 2, field) \<in> set rotatable_leaves then Inr () else Inl (NotRotatable slot)
       | None \<Rightarrow> Inl (NotRotatable slot))"

definition rotation_delivery ::
    "broker_env \<Rightarrow> string \<Rightarrow> string option \<Rightarrow> string \<Rightarrow> string \<Rightarrow> (allocation_error, delivery_result option) result" where
  "rotation_delivery env api_base recipient_login slot v =
     (case recipient_login of
        None \<Rightarrow> Inr None
      | Some login \<Rightarrow>
          bind_result (map_sum GithubRefused id (discover_recipient_at (be_ssh env) api_base login)) (\<lambda>found.
          case found of
            None \<Rightarrow> Inl (NoKeyForRotation slot login)
          | Some recipient \<Rightarrow> map_sum GithubRefused Some (encrypt (be_ssh env) recipient v)))"

definition rotate_and_deliver_at ::
    "broker_env \<Rightarrow> secret_target \<Rightarrow> string option \<Rightarrow> string \<Rightarrow> nat \<Rightarrow> shards \<Rightarrow> u32 \<Rightarrow> broker_slot broker_run" where
  "rotate_and_deliver_at env tg recipient_login slot length_bytes shards shard_count =
     (case be_mode env of
        Inl e \<Rightarrow> refused (ModeUnreadable e) shards shard_count
      | Inr mode \<Rightarrow>
          (case bind_result (check_rotation_allowed slot length_bytes mode) (\<lambda>_.
                  generate_credential_value_with_mode slot length_bytes None mode (be_random env 0 length_bytes)) of
             Inl e \<Rightarrow> refused e shards shard_count
           | Inr v \<Rightarrow>
               (case reserve_shard (be_json env) (be_sha256 env) slot (length v) shards shard_count ''rotating'' of
                  (Inl e, grown) \<Rightarrow> refused (BundleRefused e) shards grown
                | (Inr shard, grown) \<Rightarrow>
                    let staged = bt_insert slot v (case bt_get shards shard of Some b \<Rightarrow> b | None \<Rightarrow> []) in
                    (case bind_result (map_sum BundleRefused id (serialize_bundle (be_json env) staged)) (\<lambda>serialized.
                          bind_result (map_sum GithubRefused id (fetch_public_key_at (be_http env) tg)) (\<lambda>pubkey.
                          bind_result (rotation_delivery env (tg_api_base tg) recipient_login slot v) (\<lambda>delivered.
                          map_sum GithubRefused (\<lambda>_. (serialized, delivered))
                            (put_environment_secret_at (be_http env) tg (shard_secret_name shard) serialized pubkey)))) of
                       Inl e \<Rightarrow> refused e shards grown
                     | Inr (serialized, delivered) \<Rightarrow>
                         \<lparr>br_result = Inr \<lparr>al_slot = slot, al_shard = shard, al_value = v, al_alloc = Rotate,
                                         al_delivered = delivered\<rparr>,
                          br_shards = bt_insert shard staged shards, br_shard_count = grown,
                          br_puts = [(shard_secret_name shard, serialized)]\<rparr>))))"

end
