(* ===== verification/Bundle_Facts.thy ===== *)
theory Bundle_Facts
  imports Bundle
begin

text \<open>
  What the bundle promises: a document it accepts loses no credential and no two keys of it name one
  shard; what is written is read back; and a new slot is placed on a named shard with room, the
  refusal coming exactly when every named shard is full.
\<close>

section \<open>Shards as maps\<close>

definition shards_ok :: "shards \<Rightarrow> bool" where
  "shards_ok shards \<longleftrightarrow>
     bt_wf shards \<and> list_all (\<lambda>s. bt_wf (snd s)) shards \<and>
     distinct (concat (map (\<lambda>s. bt_keys (snd s)) shards))"

lemma bt_get_iff: "bt_wf m \<Longrightarrow> bt_get m k = Some v \<longleftrightarrow> (k, v) \<in> set m"
  by (simp add: bt_get_def bt_wf_def map_of_eq_Some_iff strict_sorted_iff)

lemma bt_wf_distinct: "bt_wf m \<Longrightarrow> distinct (bt_keys m)"
  by (simp add: bt_wf_def bt_keys_def strict_sorted_iff)

lemma bt_contains_iff: "bt_contains m k \<longleftrightarrow> k \<in> set (bt_keys m)"
  by (simp add: bt_contains_def set_bt_keys domIff)

lemma set_bt_insert_new:
  assumes "bt_wf m" and "bt_get m k = None"
  shows "set (bt_insert k v m) = insert (k, v) (set m)"
proof -
  have "e \<in> set (bt_insert k v m) \<longleftrightarrow> e \<in> insert (k, v) (set m)" for e
    using bt_get_iff[OF bt_wf_insert[OF assms(1)], of k v "fst e" "snd e"]
      bt_get_iff[OF assms(1), of "fst e" "snd e"] assms
    by (cases e) (auto simp: bt_get_insert split: if_splits)
  then show ?thesis by blast
qed

lemma key_not_listed: "k \<notin> fst ` set xs \<Longrightarrow> t \<in> set xs \<Longrightarrow> fst t \<noteq> k"
  by blast

lemma distinct_shard_keys:
  assumes "distinct (map fst shards)" and "\<And>s. s \<in> set shards \<Longrightarrow> bt_wf (snd s)"
    and "\<And>s t k. s \<in> set shards \<Longrightarrow> t \<in> set shards \<Longrightarrow> k \<in> set (bt_keys (snd s)) \<Longrightarrow>
           k \<in> set (bt_keys (snd t)) \<Longrightarrow> fst s = fst t"
  shows "distinct (concat (map (\<lambda>s. bt_keys (snd s)) shards))"
  using assms
proof (induction shards)
  case Nil
  then show ?case by simp
next
  case (Cons s shards)
  have later: "fst t \<noteq> fst s" if "t \<in> set shards" for t
    using key_not_listed[of "fst s" shards t] Cons.prems(1) that by simp
  have "distinct (map fst shards)" using Cons.prems(1) by simp
  moreover have "distinct (bt_keys (snd s))" using bt_wf_distinct Cons.prems(2)[of s] by simp
  moreover have "set (bt_keys (snd s)) \<inter> set (bt_keys (snd t)) = {}" if "t \<in> set shards" for t
    using Cons.prems(3)[of s t] later[OF that] that by auto
  ultimately show ?case using Cons.IH Cons.prems(2,3) by auto
qed

lemma shard_keys_unique:
  "distinct (concat (map (\<lambda>s. bt_keys (snd s)) shards)) \<Longrightarrow> s \<in> set shards \<Longrightarrow> t \<in> set shards \<Longrightarrow>
   k \<in> set (bt_keys (snd s)) \<Longrightarrow> k \<in> set (bt_keys (snd t)) \<Longrightarrow> s = t"
  by (induction shards) auto

lemma shards_ok_unique:
  "shards_ok shards \<Longrightarrow> s \<in> set shards \<Longrightarrow> t \<in> set shards \<Longrightarrow>
   k \<in> set (bt_keys (snd s)) \<Longrightarrow> k \<in> set (bt_keys (snd t)) \<Longrightarrow> s = t"
  using shard_keys_unique[of shards s t k] by (simp add: shards_ok_def)

lemma shards_okI:
  assumes "bt_wf shards" and "\<And>s. s \<in> set shards \<Longrightarrow> bt_wf (snd s)"
    and "\<And>s t k. s \<in> set shards \<Longrightarrow> t \<in> set shards \<Longrightarrow> k \<in> set (bt_keys (snd s)) \<Longrightarrow>
           k \<in> set (bt_keys (snd t)) \<Longrightarrow> fst s = fst t"
  shows "shards_ok shards"
  using distinct_shard_keys[OF _ assms(2,3)] bt_wf_distinct[OF assms(1)] assms(1,2)
  by (simp add: shards_ok_def list_all_iff bt_keys_def)

lemma shards_okD:
  assumes "shards_ok shards"
  shows "bt_wf shards" and "s \<in> set shards \<Longrightarrow> bt_wf (snd s)"
  using assms by (auto simp: shards_ok_def list_all_iff)

section \<open>Insertion loops\<close>

lemma bt_wf_fold_entries: "bt_wf m \<Longrightarrow> bt_wf (fold (\<lambda>e. bt_insert (fst e) (snd e)) es m)"
  by (induction es arbitrary: m) (auto simp: bt_wf_insert)

lemma bt_get_fold_entries:
  "bt_wf m \<Longrightarrow> bt_get (fold (\<lambda>e. bt_insert (fst e) (snd e)) es m) = bt_get m ++ map_of (rev es)"
  by (induction es arbitrary: m) (auto simp: bt_get_insert bt_wf_insert fun_eq_iff map_add_def split: option.splits)

lemma bt_get_fold_bundle:
  "bt_wf m \<Longrightarrow> bt_wf b \<Longrightarrow> bt_get (fold (\<lambda>e. bt_insert (fst e) (snd e)) b m) = bt_get m ++ bt_get b"
  using map_of_rev_wf[of b]
  by (simp add: bt_get_fold_entries) (simp add: bt_get_def[abs_def])

lemma bt_wf_merge:
  "bt_wf m \<Longrightarrow> bt_wf (fold (\<lambda>s merged. fold (\<lambda>e. bt_insert (fst e) (snd e)) (snd s) merged) ss m)"
  by (induction ss arbitrary: m) (auto simp: bt_wf_fold_entries)

lemma bt_get_merge:
  assumes "bt_wf m" and "\<And>s. s \<in> set ss \<Longrightarrow> bt_wf (snd s)"
    and "distinct (concat (map (\<lambda>s. bt_keys (snd s)) ss))"
  shows "bt_get (fold (\<lambda>s merged. fold (\<lambda>e. bt_insert (fst e) (snd e)) (snd s) merged) ss m) k = Some v \<longleftrightarrow>
     (\<exists>s \<in> set ss. bt_get (snd s) k = Some v) \<or>
     bt_get m k = Some v \<and> (\<forall>s \<in> set ss. k \<notin> set (bt_keys (snd s)))"
  using assms
proof (induction ss arbitrary: m)
  case Nil
  then show ?case by simp
next
  case (Cons s ss)
  have wf: "bt_wf (snd s)" using Cons.prems(2) by simp
  have apart: "k \<in> set (bt_keys (snd s)) \<Longrightarrow> \<forall>t \<in> set ss. k \<notin> set (bt_keys (snd t))"
    using Cons.prems(3) by auto
  have "bt_get (fold (\<lambda>e. bt_insert (fst e) (snd e)) (snd s) m) k = Some v \<longleftrightarrow>
        bt_get (snd s) k = Some v \<or> bt_get m k = Some v \<and> k \<notin> set (bt_keys (snd s))"
    using bt_get_fold_bundle[OF Cons.prems(1) wf]
    by (auto simp: map_add_Some_iff set_bt_keys domIff)
  then show ?case
    using Cons.IH[of "fold (\<lambda>e. bt_insert (fst e) (snd e)) (snd s) m"] Cons.prems apart
    by (auto simp: bt_wf_fold_entries set_bt_keys)
qed

lemma merge_bundles_get:
  assumes "shards_ok shards"
  shows "bt_get (merge_bundles shards) k = Some v \<longleftrightarrow> (\<exists>s \<in> set shards. bt_get (snd s) k = Some v)"
  using bt_get_merge[of "[]" shards k v] assms
  by (auto simp: merge_bundles_def shards_ok_def list_all_iff bt_get_def)

lemma bt_wf_merge_bundles: "bt_wf (merge_bundles shards)"
  by (simp add: merge_bundles_def bt_wf_merge)

section \<open>Shard names\<close>

lemma parse_u32_show_nat: "parse_u32 (show_nat (unat (n :: u32))) = Some n"
proof -
  obtain d ds where d: "show_nat (unat n) = d # ds" using show_nat_digits[of "unat n"] by (cases "show_nat (unat n)") auto
  then have "is_ascii_digit d" using show_nat_digits[of "unat n"] by auto
  then have "d \<noteq> CHR ''+''" by (auto simp: is_ascii_digit_def)
  then have "parse_u32 (show_nat (unat n)) =
      (if decimal_value (show_nat (unat n)) < 2 ^ 32 then Some (of_nat (decimal_value (show_nat (unat n)))) else None)"
    using show_nat_digits[of "unat n"] d by (simp add: parse_u32_def)
  then show ?thesis using unsigned_less[of n] by (simp add: decimal_value_show_nat)
qed

lemma shard_secret_name_prefix: "starts_with (shard_secret_name n) BUNDLE_SECRET_PREFIX"
  by (auto simp: shard_secret_name_def starts_with_iff)

lemma shard_secret_name_inject [simp]: "shard_secret_name m = shard_secret_name n \<longleftrightarrow> m = n"
  by (auto simp: shard_secret_name_def word_unat_eq_iff)

lemma parse_shard_index_iff: "parse_shard_index name = Inr (Some n) \<longleftrightarrow> name = shard_secret_name n"
proof
  assume "parse_shard_index name = Inr (Some n)"
  then show "name = shard_secret_name n"
    by (auto simp: parse_shard_index_def Let_def split: if_splits option.splits)
next
  assume name: "name = shard_secret_name n"
  have "strip_prefix (BUNDLE_SECRET_PREFIX @ ''_'') (BUNDLE_SECRET_PREFIX @ ''_'' @ t) = Some t" for t
    by (simp add: strip_prefix_Some)
  then show "parse_shard_index name = Inr (Some n)"
    unfolding parse_shard_index_def Let_def name
    using shard_secret_name_prefix[of n] parse_u32_show_nat[of n]
    by (simp add: shard_secret_name_def)
qed

section \<open>What an accepted document holds\<close>

lemma take_slots_result:
  "fold_result (take_slot idx) inner acc = Inr acc' \<Longrightarrow>
   acc' = (fold (\<lambda>e. bt_insert (fst e) idx) inner (fst acc),
           fold (\<lambda>e. bt_insert (fst e) (snd e)) inner (snd acc))"
  by (induction inner arbitrary: acc) (auto simp: take_slot_def split: option.splits)

lemma take_slots_ok:
  assumes "bt_wf (fst acc)" and "distinct (map fst inner)"
  shows "is_ok (fold_result (take_slot idx) inner acc) \<longleftrightarrow> fst ` set inner \<inter> dom (bt_get (fst acc)) = {}"
  using assms
proof (induction inner arbitrary: acc)
  case Nil
  then show ?case by simp
next
  case (Cons e inner)
  show ?case
  proof (cases "bt_get (fst acc) (fst e)")
    case None
    have "dom (bt_get (bt_insert (fst e) idx (fst acc))) = insert (fst e) (dom (bt_get (fst acc)))"
      using Cons.prems(1) by (simp add: bt_get_insert)
    then show ?thesis
      using None Cons.IH[of "(bt_insert (fst e) idx (fst acc), bt_insert (fst e) (snd e) (snd acc))"] Cons.prems
      by (auto simp: take_slot_def bt_wf_insert)
  next
    case (Some previous)
    then show ?thesis by (auto simp: take_slot_def)
  qed
qed

lemma take_slots:
  assumes "fold_result (take_slot idx) inner (src, m) = Inr (src', m')"
    and "bt_wf src" and "bt_wf m" and "bt_wf inner"
  shows "bt_wf src' \<and> bt_wf m' \<and> set (bt_keys inner) \<inter> dom (bt_get src) = {} \<and>
     bt_get src' = (\<lambda>k. if k \<in> set (bt_keys inner) then Some idx else bt_get src k) \<and>
     bt_get m' = bt_get m ++ bt_get inner"
proof -
  have eq: "src' = fold (\<lambda>e. bt_insert (fst e) idx) inner src"
    "m' = fold (\<lambda>e. bt_insert (fst e) (snd e)) inner m"
    using take_slots_result[OF assms(1)] by simp_all
  have "distinct (map fst inner)" using bt_wf_distinct[OF assms(4)] by (simp add: bt_keys_def)
  then have "fst ` set inner \<inter> dom (bt_get src) = {}"
    using take_slots_ok[of "(src, m)" inner idx] assms by simp
  then show ?thesis
    using assms(2-4) unfolding eq
    by (auto simp: bt.ok_fold_put bt.get_fold_put bt_wf_fold_entries bt_get_fold_bundle bt_keys_def fun_eq_iff)
qed

lemma slot_map_wf:
  assumes "slot_map name v = Inr b"
  shows "bt_wf b"
proof -
  obtain slots where "fold_result (slot_entry name) slots [] = Inr b"
    using assms by (auto simp: slot_map_def split: option.splits)
  then show ?thesis
    by (rule fold_result_invariant[where I = bt_wf])
      (auto simp: slot_entry_def bt_wf_insert split: option.splits)
qed

lemma shard_value_wf: "shard_value sj name v = Inr b \<Longrightarrow> bt_wf b"
  by (auto simp: shard_value_def slot_map_wf split: json.splits if_splits sum.splits)

text \<open>
  The invariant of the loop over the top-level keys: the shards are maps with disjoint slots, the
  sources name the shard of every slot, and the merged bundle is their union.
\<close>

definition scan_ok :: "bundle_scan \<Rightarrow> bool" where
  "scan_ok scan \<longleftrightarrow>
     (let l = bs_loaded scan in
      shards_ok (lb_per_shard l) \<and> bt_wf (lb_merged l) \<and> bt_wf (bs_slot_sources scan) \<and>
      (\<forall>k i. bt_get (bs_slot_sources scan) k = Some i \<longleftrightarrow>
             (\<exists>s \<in> set (lb_per_shard l). fst s = i \<and> k \<in> set (bt_keys (snd s)))) \<and>
      (\<forall>k v. bt_get (lb_merged l) k = Some v \<longleftrightarrow>
             (\<exists>s \<in> set (lb_per_shard l). bt_get (snd s) k = Some v)))"

lemma scan_ok_empty: "scan_ok empty_scan"
  by (simp add: scan_ok_def empty_scan_def shards_ok_def bt_get_def)

lemma take_shard_cases:
  assumes "take_shard sj e scan = Inr scan'"
  obtains (unrecognized) "parse_shard_index (fst e) = Inr None"
    "lb_per_shard (bs_loaded scan') = lb_per_shard (bs_loaded scan)"
    "lb_merged (bs_loaded scan') = lb_merged (bs_loaded scan)"
    "bs_slot_sources scan' = bs_slot_sources scan"
  | (shard) idx inner where "fst e = shard_secret_name idx" "shard_value sj (fst e) (snd e) = Inr inner"
    "bt_get (lb_per_shard (bs_loaded scan)) idx = None"
    "lb_per_shard (bs_loaded scan') = bt_insert idx inner (lb_per_shard (bs_loaded scan))"
    "fold_result (take_slot idx) inner (bs_slot_sources scan, lb_merged (bs_loaded scan)) =
       Inr (bs_slot_sources scan', lb_merged (bs_loaded scan'))"
proof (cases "parse_shard_index (fst e)")
  case (Inr index)
  show ?thesis
  proof (cases index)
    case None
    then show ?thesis using assms Inr by (intro unrecognized) (auto simp: take_shard_def Let_def)
  next
    case (Some idx)
    have name: "fst e = shard_secret_name idx" using Inr Some by (simp add: parse_shard_index_iff)
    show ?thesis
      using assms Inr Some
      by (auto simp: take_shard_def Let_def bind_result_Inr_iff bt_contains_def name
          split: if_splits intro!: shard[of idx])
  qed
qed (use assms in \<open>simp add: take_shard_def Let_def\<close>)

lemma insert_shard_ok:
  assumes "shards_ok shards" and "bt_get shards idx = None" and "bt_wf inner"
    and "\<And>s k. s \<in> set shards \<Longrightarrow> k \<in> set (bt_keys inner) \<Longrightarrow> k \<notin> set (bt_keys (snd s))"
  shows "shards_ok (bt_insert idx inner shards) \<and> set (bt_insert idx inner shards) = insert (idx, inner) (set shards)"
proof -
  have new: "set (bt_insert idx inner shards) = insert (idx, inner) (set shards)"
    by (rule set_bt_insert_new[OF shards_okD(1)[OF assms(1)] assms(2)])
  have "shards_ok (bt_insert idx inner shards)"
    by (rule shards_okI)
      (use assms new shards_okD[OF assms(1)] shards_ok_unique[OF assms(1)] in \<open>auto simp: bt_wf_insert\<close>)
  then show ?thesis using new by blast
qed

lemma take_shard_ok:
  assumes "scan_ok scan" and "take_shard sj e scan = Inr scan'"
  shows "scan_ok scan'"
  using assms(2)
proof (cases rule: take_shard_cases)
  case unrecognized
  then show ?thesis using assms(1) by (simp add: scan_ok_def Let_def)
next
  case (shard idx inner)
  have wf: "bt_wf inner" using shard(2) by (rule shard_value_wf)
  note old = assms(1)[unfolded scan_ok_def Let_def]
  have t: "bt_wf (bs_slot_sources scan') \<and> bt_wf (lb_merged (bs_loaded scan')) \<and>
      set (bt_keys inner) \<inter> dom (bt_get (bs_slot_sources scan)) = {} \<and>
      bt_get (bs_slot_sources scan') =
        (\<lambda>k. if k \<in> set (bt_keys inner) then Some idx else bt_get (bs_slot_sources scan) k) \<and>
      bt_get (lb_merged (bs_loaded scan')) = bt_get (lb_merged (bs_loaded scan)) ++ bt_get inner"
    using take_slots[OF shard(5)] old wf by blast
  have apart: "k \<notin> set (bt_keys (snd s))" if "s \<in> set (lb_per_shard (bs_loaded scan))" "k \<in> set (bt_keys inner)" for s k
    using t old that by blast
  have "shards_ok (bt_insert idx inner (lb_per_shard (bs_loaded scan))) \<and>
      set (bt_insert idx inner (lb_per_shard (bs_loaded scan))) = insert (idx, inner) (set (lb_per_shard (bs_loaded scan)))"
    using insert_shard_ok[OF _ shard(3) wf] apart old by blast
  moreover have "bt_get (bs_slot_sources scan') k = Some i \<longleftrightarrow>
      (\<exists>s \<in> insert (idx, inner) (set (lb_per_shard (bs_loaded scan))). fst s = i \<and> k \<in> set (bt_keys (snd s)))" for k i
    using t old apart by (auto split: if_splits)
  moreover have "bt_get (lb_merged (bs_loaded scan')) k = Some v \<longleftrightarrow>
      (\<exists>s \<in> insert (idx, inner) (set (lb_per_shard (bs_loaded scan))). bt_get (snd s) k = Some v)" for k v
    using t old apart by (auto simp: map_add_Some_iff set_bt_keys domIff)
  ultimately show ?thesis using t shard(4) unfolding scan_ok_def Let_def by simp
qed


lemma option_eq_by_Some: "(\<And>v. x = Some v \<longleftrightarrow> y = Some v) \<Longrightarrow> x = y"
  by (cases x; cases y) auto

lemma scan_merged:
  assumes "scan_ok scan"
  shows "lb_merged (bs_loaded scan) = merge_bundles (lb_per_shard (bs_loaded scan))"
proof (rule bt_wf_unique)
  show "bt_get (lb_merged (bs_loaded scan)) = bt_get (merge_bundles (lb_per_shard (bs_loaded scan)))"
  proof
    fix k
    have "bt_get (lb_merged (bs_loaded scan)) k = Some v \<longleftrightarrow>
        bt_get (merge_bundles (lb_per_shard (bs_loaded scan))) k = Some v" for v
      using assms merge_bundles_get[of "lb_per_shard (bs_loaded scan)" k v] by (auto simp: scan_ok_def Let_def)
    then show "bt_get (lb_merged (bs_loaded scan)) k = bt_get (merge_bundles (lb_per_shard (bs_loaded scan))) k"
      by (rule option_eq_by_Some)
  qed
qed (use assms bt_wf_merge_bundles in \<open>simp_all add: scan_ok_def Let_def\<close>)

lemma bt_wf_set_unique:
  assumes "bt_wf m" and "bt_wf n" and "set m = set n"
  shows "m = n"
proof (rule bt_wf_unique[OF assms(1,2)])
  have "bt_get m k = bt_get n k" for k
    by (rule option_eq_by_Some) (simp add: bt_get_iff assms)
  then show "bt_get m = bt_get n" by (rule ext)
qed

lemma fold_shards:
  assumes "fold_result (take_shard sj) es scan = Inr scan'" and "scan_ok scan"
  shows "s \<in> set (lb_per_shard (bs_loaded scan')) \<longleftrightarrow>
     s \<in> set (lb_per_shard (bs_loaded scan)) \<or>
     (\<exists>v. (shard_secret_name (fst s), v) \<in> set es \<and> shard_value sj (shard_secret_name (fst s)) v = Inr (snd s))"
  using assms
proof (induction es arbitrary: scan)
  case Nil
  then show ?case by simp
next
  case (Cons e es)
  obtain mid where mid: "take_shard sj e scan = Inr mid" "fold_result (take_shard sj) es mid = Inr scan'"
    using Cons.prems(1) by (auto simp: bind_result_Inr_iff)
  have IH: "s \<in> set (lb_per_shard (bs_loaded scan')) \<longleftrightarrow> s \<in> set (lb_per_shard (bs_loaded mid)) \<or>
     (\<exists>v. (shard_secret_name (fst s), v) \<in> set es \<and> shard_value sj (shard_secret_name (fst s)) v = Inr (snd s))"
    using Cons.IH[OF mid(2) take_shard_ok[OF Cons.prems(2) mid(1)]] .
  from mid(1) show ?case
  proof (cases rule: take_shard_cases)
    case unrecognized
    have "fst e \<noteq> shard_secret_name i" for i
      using unrecognized(1) parse_shard_index_iff[of "fst e" i] by auto
    then have "(shard_secret_name i, v) \<noteq> e" for i v by (metis fst_conv)
    then show ?thesis using IH unrecognized(2) by auto
  next
    case (shard idx inner)
    have "bt_wf (lb_per_shard (bs_loaded scan))" using Cons.prems(2) by (auto simp: scan_ok_def Let_def shards_ok_def)
    then have "set (lb_per_shard (bs_loaded mid)) = insert (idx, inner) (set (lb_per_shard (bs_loaded scan)))"
      using set_bt_insert_new[OF _ shard(3)] shard(4) by simp
    moreover have "s = (idx, inner) \<longleftrightarrow>
        (\<exists>v. (shard_secret_name (fst s), v) = e \<and> shard_value sj (shard_secret_name (fst s)) v = Inr (snd s))"
      using shard(1,2) by (cases e; cases s) auto
    ultimately show ?thesis using IH by auto
  qed
qed

lemma reserved_key_read:
  assumes "fold_result (take_shard sj) es scan = Inr scan'" and "e \<in> set es"
    and "starts_with (fst e) BUNDLE_SECRET_PREFIX"
  shows "\<exists>idx inner. fst e = shard_secret_name idx \<and> shard_value sj (fst e) (snd e) = Inr inner"
  using assms(1,2)
proof (induction es arbitrary: scan)
  case Nil
  then show ?case by simp
next
  case (Cons f es)
  obtain mid where mid: "take_shard sj f scan = Inr mid" "fold_result (take_shard sj) es mid = Inr scan'"
    using Cons.prems(1) by (auto simp: bind_result_Inr_iff)
  show ?case
  proof (cases "e = f")
    case True
    from mid(1) show ?thesis
    proof (cases rule: take_shard_cases)
      case unrecognized
      then show ?thesis
        using assms(3) True by (auto simp: parse_shard_index_def Let_def split: option.splits if_splits)
    next
      case (shard idx inner)
      then show ?thesis using True by blast
    qed
  next
    case False
    then show ?thesis using Cons.IH[OF mid(2)] Cons.prems(2) by simp
  qed
qed

text \<open>
  A document that is accepted loses no credential.  Its shards have disjoint slots, and the merged
  bundle is their union.  A shard is there exactly when the document holds its value under the one
  spelling of its name, and every key with the reserved prefix is such a name: none is ignored and no
  two of them name one shard.
\<close>
theorem parse_bundles_exact:
  assumes "parse_bundles_from_json sj raw = Inr loaded"
  shows "shards_ok (lb_per_shard loaded) \<and>
    lb_merged loaded = merge_bundles (lb_per_shard loaded) \<and>
    (\<exists>obj. parse_document sj WRAPPER raw = Inr (JObject obj) \<and>
       (\<forall>s. s \<in> set (lb_per_shard loaded) \<longleftrightarrow>
          (\<exists>v. (shard_secret_name (fst s), v) \<in> set obj \<and>
               shard_value sj (shard_secret_name (fst s)) v = Inr (snd s))) \<and>
       (\<forall>e \<in> set obj. starts_with (fst e) BUNDLE_SECRET_PREFIX \<longrightarrow>
          (\<exists>s \<in> set (lb_per_shard loaded). fst e = shard_secret_name (fst s))))"
proof -
  obtain outer obj scan where p: "parse_document sj WRAPPER raw = Inr outer" "as_object outer = Some obj"
      "fold_result (take_shard sj) obj empty_scan = Inr scan"
      "lb_per_shard loaded = lb_per_shard (bs_loaded scan)" "lb_merged loaded = lb_merged (bs_loaded scan)"
    using assms
    by (auto simp: parse_bundles_from_json_def Let_def bind_result_Inr_iff split: sum.splits option.splits if_splits)
  have "outer = JObject obj" using p(2) by (cases outer) simp_all
  have ok: "scan_ok scan"
    by (rule fold_result_invariant[where I = scan_ok, OF p(3) scan_ok_empty]) (rule take_shard_ok)
  have shards: "\<forall>s. s \<in> set (lb_per_shard (bs_loaded scan)) \<longleftrightarrow>
      (\<exists>v. (shard_secret_name (fst s), v) \<in> set obj \<and> shard_value sj (shard_secret_name (fst s)) v = Inr (snd s))"
    using fold_shards[OF p(3) scan_ok_empty] by (auto simp: empty_scan_def)
  have reserved: "\<exists>s \<in> set (lb_per_shard (bs_loaded scan)). fst e = shard_secret_name (fst s)"
    if e: "e \<in> set obj" "starts_with (fst e) BUNDLE_SECRET_PREFIX" for e
  proof -
    obtain idx inner where "fst e = shard_secret_name idx" "shard_value sj (fst e) (snd e) = Inr inner"
      using reserved_key_read[OF p(3) e] by blast
    then have "(idx, inner) \<in> set (lb_per_shard (bs_loaded scan))"
      using shards e(1) by (metis fst_conv prod.collapse snd_conv)
    then show ?thesis using \<open>fst e = shard_secret_name idx\<close> by (intro bexI[of _ "(idx, inner)"]) simp_all
  qed
  have "shards_ok (lb_per_shard (bs_loaded scan))" using ok by (simp add: scan_ok_def Let_def)
  moreover have "lb_merged (bs_loaded scan) = merge_bundles (lb_per_shard (bs_loaded scan))"
    using ok by (rule scan_merged)
  ultimately show ?thesis
    unfolding p(4,5) using p(1) shards reserved \<open>outer = JObject obj\<close> by blast
qed


section \<open>Reading back what was written\<close>

text \<open>The document the printer writes for a value: nothing repeated, nothing cut off.\<close>

fun document_of :: "json \<Rightarrow> document" where
  "document_of JNull = DNull"
| "document_of (JBool b) = DBool b"
| "document_of (JNumber n) = DNumber n"
| "document_of (JString s) = DString s"
| "document_of (JArray xs) = DArray (map document_of xs) None"
| "document_of (JObject m) = DObject (map (\<lambda>e. (fst e, document_of (snd e))) m) None"

definition prints_and_reads :: "serde_json \<Rightarrow> json \<Rightarrow> bool" where
  "prints_and_reads sj v \<longleftrightarrow>
     (case sj_print sj v of Inl _ \<Rightarrow> False | Inr t \<Rightarrow> sj_read sj t = (document_of v, None))"

lemma bt_insert_last: "bt_wf (m @ [(k, v)]) \<Longrightarrow> bt_insert k v m = m @ [(k, v)]"
  by (induction m) (auto simp: bt_wf_def)

lemma bt_wf_append: "bt_wf (a @ b) \<Longrightarrow> bt_wf a"
  by (simp add: bt_wf_def sorted_wrt_append)

lemma visit_members:
  assumes "\<And>e nd. e \<in> set m \<Longrightarrow> visit nd (f (snd e)) = Inr (snd e)" and "bt_wf (p @ m)"
  shows "fold_result (\<lambda>e m. if bt_contains m (fst e)
           then Inl (if 0 < nd_named_levels nd then DuplicateMember (fst e) else DuplicateWithheld)
           else map_sum id (\<lambda>v. bt_insert (fst e) v m) (visit (nested nd (Some (fst e))) (snd e)))
         (map (\<lambda>e. (fst e, f (snd e))) m) p = Inr (p @ m)"
  using assms
proof (induction m arbitrary: p)
  case Nil
  then show ?case by simp
next
  case (Cons e m)
  have wf: "bt_wf (p @ [e])" using Cons.prems(2) bt_wf_append[of "p @ [e]" m] by simp
  then have "\<not> bt_contains p (fst e)"
    by (auto simp: bt_wf_def sorted_wrt_append bt_contains_iff bt_keys_def)
  moreover have "bt_insert (fst e) (snd e) p = p @ [e]" using bt_insert_last[of p "fst e" "snd e"] wf by simp
  moreover have "visit (nested nd (Some (fst e))) (f (snd e)) = Inr (snd e)" using Cons.prems(1) by simp
  ultimately show ?case using Cons.IH[of "p @ [e]"] Cons.prems by simp
qed

lemma visit_items:
  assumes "\<And>x nd. x \<in> set xs \<Longrightarrow> visit nd (f x) = Inr x"
  shows "fold_result (\<lambda>d xs. map_sum id (\<lambda>x. xs @ [x]) (visit nd d)) (map f xs) p = Inr (p @ xs)"
  using assms by (induction xs arbitrary: p) auto

lemma visit_document_of: "json_wf v \<Longrightarrow> visit nd (document_of v) = Inr v"
proof (induction v arbitrary: nd rule: document_of.induct)
  case (5 xs)
  have "visit nd (document_of x) = Inr x" if "x \<in> set xs" for x nd
    using 5 that by (auto simp: list_all_iff)
  then show ?case using visit_items[of xs document_of "nested nd None" "[]"] by (simp add: stop_at_def)
next
  case (6 m)
  have "visit nd (document_of (snd e)) = Inr (snd e)" if "e \<in> set m" for e nd
    using 6 that by (auto simp: list_all_iff)
  then show ?case using visit_members[of m document_of "[]" nd] 6 by (simp add: stop_at_def)
qed simp_all

lemma slot_map_strings: "bt_wf b \<Longrightarrow> slot_map name (jstr_map b) = Inr b"
proof -
  have "fold_result (slot_entry name) (map (apsnd JString) m) p = Inr (p @ m)" if "bt_wf (p @ m)" for p m
    using that
  proof (induction m arbitrary: p)
    case (Cons e m)
    have "bt_wf (p @ [e])" using Cons.prems bt_wf_append[of "p @ [e]" m] by simp
    then have "bt_insert (fst e) (snd e) p = p @ [e]" using bt_insert_last[of p "fst e" "snd e"] by simp
    then show ?case using Cons.IH[of "p @ [e]"] Cons.prems by (simp add: slot_entry_def)
  qed simp
  from this[of "[]" b] show "bt_wf b \<Longrightarrow> slot_map name (jstr_map b) = Inr b"
    by (simp add: slot_map_def jstr_map_def)
qed

lemma shard_value_strings: "bt_wf b \<Longrightarrow> shard_value sj name (jstr_map b) = Inr b"
  using slot_map_strings[of b name] by (simp add: shard_value_def jstr_map_def)

lemma json_wf_jstr_map: "bt_wf b \<Longrightarrow> json_wf (jstr_map b)"
  by (simp add: jstr_map_def bt_wf_def comp_def list_all_iff)

text \<open>Every shard of a well-formed list is taken, whatever the order of the names.\<close>

lemma take_shards:
  assumes "scan_ok scan" and "distinct (map fst ss)" and "distinct (concat (map (\<lambda>s. bt_keys (snd s)) ss))"
    and "\<And>s. s \<in> set ss \<Longrightarrow> bt_wf (snd s) \<and> bt_get (lb_per_shard (bs_loaded scan)) (fst s) = None"
    and "\<And>s k. s \<in> set ss \<Longrightarrow> k \<in> set (bt_keys (snd s)) \<Longrightarrow> bt_get (bs_slot_sources scan) k = None"
  shows "\<exists>scan'. fold_result (take_shard sj) (map shard_entry ss) scan = Inr scan' \<and>
     lb_unrecognized_keys (bs_loaded scan') = lb_unrecognized_keys (bs_loaded scan)"
  using assms
proof (induction ss arbitrary: scan)
  case Nil
  then show ?case by simp
next
  case (Cons s ss)
  obtain idx b where s: "s = (idx, b)" by (cases s)
  have b: "bt_wf b" "bt_get (lb_per_shard (bs_loaded scan)) idx = None" using Cons.prems(4)[of s] s by auto
  have src: "bt_wf (bs_slot_sources scan)" "bt_wf (lb_merged (bs_loaded scan))" "bt_wf (lb_per_shard (bs_loaded scan))"
    using Cons.prems(1) by (simp_all add: scan_ok_def Let_def shards_ok_def)
  have "fst ` set b \<inter> dom (bt_get (bs_slot_sources scan)) = {}"
    using Cons.prems(5)[of s] s by (fastforce simp: bt_keys_def)
  then have "is_ok (fold_result (take_slot idx) b (bs_slot_sources scan, lb_merged (bs_loaded scan)))"
    using take_slots_ok[of "(bs_slot_sources scan, lb_merged (bs_loaded scan))" b idx] src bt_wf_distinct[OF b(1)]
    by (simp add: bt_keys_def)
  then obtain src' m' where slots:
      "fold_result (take_slot idx) b (bs_slot_sources scan, lb_merged (bs_loaded scan)) = Inr (src', m')"
    by (cases "fold_result (take_slot idx) b (bs_slot_sources scan, lb_merged (bs_loaded scan))") auto
  define mid where "mid = \<lparr>bs_loaded = (bs_loaded scan)\<lparr>lb_merged := m',
      lb_per_shard := bt_insert idx b (lb_per_shard (bs_loaded scan))\<rparr>, bs_slot_sources = src'\<rparr>"
  have step: "take_shard sj (shard_entry s) scan = Inr mid"
    using b slots parse_shard_index_iff[of "shard_secret_name idx" idx]
    by (simp add: take_shard_def Let_def shard_entry_def s shard_value_strings bt_contains_def mid_def)
  have "scan_ok mid" using take_shard_ok[OF Cons.prems(1) step] .
  moreover have "bt_get (lb_per_shard (bs_loaded mid)) (fst t) = None" if "t \<in> set ss" for t
    using Cons.prems(2) Cons.prems(4)[of t] that s src by (auto simp: mid_def bt_get_insert)
  moreover have "bt_get (bs_slot_sources mid) k = None" if "t \<in> set ss" "k \<in> set (bt_keys (snd t))" for t k
    using Cons.prems(3) Cons.prems(5)[of t k] that s take_slots[OF slots] src b by (auto simp: mid_def)
  ultimately obtain scan' where "fold_result (take_shard sj) (map shard_entry ss) mid = Inr scan'"
      "lb_unrecognized_keys (bs_loaded scan') = lb_unrecognized_keys (bs_loaded mid)"
    using Cons.IH[of mid] Cons.prems(2-4) by auto
  then show ?case using step by (simp add: mid_def)
qed

lemma set_bt_of_list_distinct:
  assumes "distinct (map fst es)"
  shows "set (bt_of_list es) = set es"
proof -
  have "set (fold (\<lambda>e. bt_insert (fst e) (snd e)) es m) = set m \<union> set es"
    if "bt_wf m" "distinct (map fst es)" "\<And>e. e \<in> set es \<Longrightarrow> bt_get m (fst e) = None" for m es
    using that
  proof (induction es arbitrary: m)
    case (Cons e es)
    have "set (bt_insert (fst e) (snd e) m) = insert e (set m)"
      using set_bt_insert_new[OF Cons.prems(1) Cons.prems(3)[of e]] by simp
    moreover have "bt_get (bt_insert (fst e) (snd e) m) (fst t) = None" if "t \<in> set es" for t
      using Cons.prems(1,2) Cons.prems(3)[of t] key_not_listed[of "fst e" es t] that by (simp add: bt_get_insert)
    ultimately show ?case using Cons.IH[of "bt_insert (fst e) (snd e) m"] Cons.prems by (simp add: bt_wf_insert)
  qed simp
  from this[of "[]" es] assms show ?thesis by (simp add: bt_of_list_def bt_get_def)
qed

lemma list_in_image: "set ys \<subseteq> f ` A \<Longrightarrow> \<exists>xs. ys = map f xs \<and> set xs \<subseteq> A"
proof (induction ys)
  case (Cons y ys)
  then obtain x xs where "y = f x" "x \<in> A" "ys = map f xs" "set xs \<subseteq> A" by auto
  then show ?case by (intro exI[of _ "x # xs"]) simp
qed simp

text \<open>The document lists the shards in the order of their names.\<close>

lemma document_order:
  assumes "shards_ok shards"
  obtains obj ss where "bundle_document shards = JObject obj" "bt_wf obj" "set obj = shard_entry ` set shards"
    "obj = map shard_entry ss" "set ss = set shards" "distinct (map fst ss)"
proof -
  define obj where "obj = bt_of_list (map shard_entry shards)"
  have doc: "bundle_document shards = JObject obj" by (simp add: bundle_document_def obj_def)
  have unique: "s = t" if "s \<in> set shards" "t \<in> set shards" "fst s = fst t" for s t
    using that bt_get_iff[OF shards_okD(1)[OF assms]] by (metis option.inject prod.collapse)
  have "distinct (map fst (map shard_entry shards))"
    using bt_wf_distinct[OF shards_okD(1)[OF assms]]
    by (simp add: comp_def shard_entry_def bt_keys_def distinct_map inj_on_def)
  then have members: "set obj = shard_entry ` set shards" by (simp add: obj_def set_bt_of_list_distinct)
  then obtain ss where ss: "obj = map shard_entry ss" "set ss \<subseteq> set shards"
    using list_in_image[of obj shard_entry "set shards"] by blast
  have "set shards \<subseteq> set ss"
  proof
    fix s assume s: "s \<in> set shards"
    have "shard_entry s \<in> shard_entry ` set ss" using imageI[OF s, of shard_entry] members ss(1) by simp
    then obtain t where t: "t \<in> set ss" "shard_entry t = shard_entry s" by (auto simp: image_iff)
    then have "fst t = fst s" by (simp add: shard_entry_def)
    then show "s \<in> set ss" using unique[of t s] t s ss(2) by auto
  qed
  then have same: "set ss = set shards" using ss(2) by blast
  have wf: "bt_wf obj" by (simp add: obj_def bt_wf_of_list)
  then have fsts: "distinct (map fst ss)"
    using bt_wf_distinct[OF wf] by (auto simp: ss(1) bt_keys_def shard_entry_def comp_def distinct_map inj_on_def)
  show thesis by (rule that[OF doc wf members ss(1) same fsts])
qed

lemma roundtrip_core:
  assumes "shards_ok shards" and "prints_and_reads sj (bundle_document shards)"
    and "serialize_bundle_document sj shards = Inr text_written"
  shows "parse_bundles_from_json sj text_written =
    Inr \<lparr>lb_merged = merge_bundles shards, lb_per_shard = shards, lb_unrecognized_keys = []\<rparr>"
proof -
  obtain obj ss where doc: "bundle_document shards = JObject obj" and wf: "bt_wf obj"
    and members: "set obj = shard_entry ` set shards" and ss: "obj = map shard_entry ss"
    and same: "set ss = set shards" and fsts: "distinct (map fst ss)"
    by (rule document_order[OF assms(1)])
  have "json_wf (bundle_document shards)"
    using wf members json_wf_jstr_map shards_okD(2)[OF assms(1)]
    by (auto simp: doc list_all_iff shard_entry_def)
  then have parsed: "parse_document sj WRAPPER text_written = Inr (JObject obj)"
    using assms(2,3) visit_document_of[of "bundle_document shards" WRAPPER]
    by (auto simp: parse_document_def prints_and_reads_def serialize_bundle_document_def stop_at_def doc
        split: sum.splits)
  have "distinct (concat (map (\<lambda>s. bt_keys (snd s)) ss))"
    by (rule distinct_shard_keys[OF fsts])
      (use same shards_okD(2)[OF assms(1)] shards_ok_unique[OF assms(1)] in auto)
  then obtain scan where scan: "fold_result (take_shard sj) obj empty_scan = Inr scan"
      "lb_unrecognized_keys (bs_loaded scan) = []"
    using take_shards[OF scan_ok_empty fsts, of sj] same shards_okD(2)[OF assms(1)]
    by (auto simp: ss empty_scan_def bt_get_def)
  have ok: "scan_ok scan"
    by (rule fold_result_invariant[where I = scan_ok, OF scan(1) scan_ok_empty]) (rule take_shard_ok)
  have "s \<in> set (lb_per_shard (bs_loaded scan)) \<longleftrightarrow> s \<in> set shards" for s
  proof
    assume "s \<in> set (lb_per_shard (bs_loaded scan))"
    then obtain v where v: "(shard_secret_name (fst s), v) \<in> shard_entry ` set shards"
        "shard_value sj (shard_secret_name (fst s)) v = Inr (snd s)"
      unfolding fold_shards[OF scan(1) scan_ok_empty, of s] members by (auto simp: empty_scan_def)
    from v(1) obtain t where t: "t \<in> set shards" "(shard_secret_name (fst s), v) = shard_entry t" by (rule imageE)
    then have "fst t = fst s" "v = jstr_map (snd t)" by (simp_all add: shard_entry_def)
    then have "t = s" using v(2) shard_value_strings[OF shards_okD(2)[OF assms(1) t(1)]] by (simp add: prod_eq_iff)
    then show "s \<in> set shards" using t(1) by simp
  next
    assume s: "s \<in> set shards"
    then have "(shard_secret_name (fst s), jstr_map (snd s)) \<in> set obj"
      using imageI[OF s, of shard_entry] members by (simp add: shard_entry_def)
    then show "s \<in> set (lb_per_shard (bs_loaded scan))"
      unfolding fold_shards[OF scan(1) scan_ok_empty, of s]
      using shard_value_strings[OF shards_okD(2)[OF assms(1) s]] by blast
  qed
  then have shards: "lb_per_shard (bs_loaded scan) = shards"
    using ok assms(1) by (intro bt_wf_set_unique) (auto simp: scan_ok_def Let_def shards_ok_def)
  moreover have "obj = [] \<or> shards \<noteq> []" using members by auto
  ultimately show ?thesis
    using parsed scan scan_merged[OF ok] by (auto simp: parse_bundles_from_json_def)
qed

text \<open>
  C39.  The finalized bundle that \<open>apply\<close> hands on is read back as it was: writing shards with disjoint
  slots and reading the document gives the same shards, their merged bundle and no unrecognized key,
  whatever the order in which the document lists the shard names.
\<close>
theorem bundle_document_roundtrip:
  assumes "shards_ok shards" and "prints_and_reads sj (bundle_document shards)"
    and "serialize_bundle_document sj shards = Inr text_written"
  shows "parse_bundles_from_json sj text_written =
    Inr \<lparr>lb_merged = merge_bundles shards, lb_per_shard = shards, lb_unrecognized_keys = []\<rparr>"
  using assms by (rule roundtrip_core)

section \<open>Placing a slot\<close>

lemma hash_target_less:
  assumes "0 < n" and "n \<le> MAX_BUNDLE_SHARDS"
  shows "hash_target sha256 slot n < n"
proof -
  have n: "0 < unat n" "unat n \<le> 16" using assms by (auto simp: MAX_BUNDLE_SHARDS_def word_less_nat_alt word_le_nat_alt)
  then have "unat (ucast n :: u64) = unat n" by (simp add: unsigned_ucast_eq take_bit_nat_eq_self)
  then have "unat ((word_rcat (take 8 (sha256 slot)) :: u64) mod ucast n) < unat n"
    using n by (simp add: unat_mod)
  then have "unat (hash_target sha256 slot n) < unat n"
    using n by (simp add: hash_target_def Let_def unsigned_ucast_eq take_bit_nat_eq_self)
  then show ?thesis by (simp add: word_less_nat_alt)
qed

text \<open>The named shards: those the workflows bind.\<close>

definition named_shards :: "u32 \<Rightarrow> u32 list" where
  "named_shards n = map of_nat [0..<unat (min n MAX_BUNDLE_SHARDS)]"

lemma set_named_shards: "i \<in> set (named_shards n) \<longleftrightarrow> i < min n MAX_BUNDLE_SHARDS"
proof
  assume "i \<in> set (named_shards n)"
  then obtain k where k: "i = of_nat k" "k < unat (min n MAX_BUNDLE_SHARDS)" by (auto simp: named_shards_def)
  have "min n MAX_BUNDLE_SHARDS \<le> 16" by (simp add: MAX_BUNDLE_SHARDS_def)
  then have "unat (min n MAX_BUNDLE_SHARDS) \<le> 16" by (simp add: word_le_nat_alt)
  then have "unat i = k" using k by (simp add: unat_of_nat take_bit_nat_eq_self)
  then show "i < min n MAX_BUNDLE_SHARDS" using k by (simp add: word_less_nat_alt)
next
  assume "i < min n MAX_BUNDLE_SHARDS"
  then have "unat i \<in> set [0..<unat (min n MAX_BUNDLE_SHARDS)]" by (simp add: word_less_nat_alt)
  then show "i \<in> set (named_shards n)" unfolding named_shards_def set_map by (rule image_eqI[rotated]) simp
qed

lemma pick_shard_cases:
  assumes "0 < n"
  shows "pick_shard sj sha256 slot len shards n = None \<longleftrightarrow>
           list_all (\<lambda>i. \<not> fits sj slot len shards i) (named_shards n)"
    and "pick_shard sj sha256 slot len shards n = Some i \<Longrightarrow>
           fits sj slot len shards i \<and> i < min n MAX_BUNDLE_SHARDS"
proof -
  have "0 < min n MAX_BUNDLE_SHARDS" using assms by (simp add: MAX_BUNDLE_SHARDS_def min_def)
  then have target: "hash_target sha256 slot (min n MAX_BUNDLE_SHARDS) < min n MAX_BUNDLE_SHARDS"
    by (rule hash_target_less) simp
  have "n \<noteq> 0" using assms by auto
  then show "pick_shard sj sha256 slot len shards n = None \<longleftrightarrow>
      list_all (\<lambda>i. \<not> fits sj slot len shards i) (named_shards n)"
    using target by (auto simp: pick_shard_def Let_def find_None_iff list_all_iff set_named_shards
        simp flip: named_shards_def)
  show "pick_shard sj sha256 slot len shards n = Some i \<Longrightarrow>
      fits sj slot len shards i \<and> i < min n MAX_BUNDLE_SHARDS"
    using target \<open>n \<noteq> 0\<close> set_named_shards[of i n]
    by (auto simp: pick_shard_def Let_def find_Some_iff simp flip: named_shards_def
        split: if_splits dest: nth_mem)
qed

declare shard_loop.simps [simp del]

lemma shard_loop_cases:
  "case shard_loop pick full n of
     (Inr i, m) \<Rightarrow> pick m = Some i \<and> max n 1 \<le> m \<and>
       (m = max n 1 \<or> m \<le> MAX_BUNDLE_SHARDS \<and> pick (m - 1) = None)
   | (Inl e, m) \<Rightarrow> e = full \<and> m = max n MAX_BUNDLE_SHARDS \<and> pick m = None"
proof (induction pick full n rule: shard_loop.induct)
  case (1 pick full n)
  have n: "(if n = 0 then 1 else n) = max n 1"
  proof (cases "n = 0")
    case False
    then have "0 < unat n" by (simp add: unat_gt_0)
    then have "1 \<le> n" by (simp add: word_le_nat_alt)
    then show ?thesis using False by (simp add: max_absorb1)
  qed simp
  show ?case
  proof (cases "pick (max n 1)")
    case (Some i)
    then show ?thesis by (subst shard_loop.simps) (simp add: Let_def n)
  next
    case None
    show ?thesis
    proof (cases "MAX_BUNDLE_SHARDS \<le> max n 1")
      case True
      then have big: "16 \<le> unat n"
        by (auto simp: MAX_BUNDLE_SHARDS_def max_def word_le_nat_alt split: if_splits)
      then have "max n 1 = n" "max n MAX_BUNDLE_SHARDS = n"
        by (simp_all add: MAX_BUNDLE_SHARDS_def max_absorb1 word_le_nat_alt)
      then have "max n 1 = max n MAX_BUNDLE_SHARDS" by simp
      then show ?thesis using None True by (subst shard_loop.simps) (simp add: Let_def n)
    next
      case False
      have IH: "case shard_loop pick full (max n 1 + 1) of
          (Inr i, m) \<Rightarrow> pick m = Some i \<and> max (max n 1 + 1) 1 \<le> m \<and>
            (m = max (max n 1 + 1) 1 \<or> m \<le> MAX_BUNDLE_SHARDS \<and> pick (m - 1) = None)
        | (Inl e, m) \<Rightarrow> e = full \<and> m = max (max n 1 + 1) MAX_BUNDLE_SHARDS \<and> pick m = None"
        using 1[of "max n 1"] None False n by simp
      have "unat (max n 1) < 16" using False by (simp add: MAX_BUNDLE_SHARDS_def word_le_nat_alt)
      then have next_unat: "unat (max n 1 + 1) = Suc (unat (max n 1))" by (simp add: unat_word_ariths)
      then have next_max: "max (max n 1 + 1) 1 = max n 1 + 1" "max n 1 \<le> max n 1 + 1"
          "max n 1 + 1 \<le> MAX_BUNDLE_SHARDS"
        using \<open>unat (max n 1) < 16\<close> by (auto simp: max_def word_le_nat_alt MAX_BUNDLE_SHARDS_def)
      have "n \<le> MAX_BUNDLE_SHARDS" using False by (simp add: not_le max_less_iff_conj less_imp_le)
      then have "max (max n 1 + 1) MAX_BUNDLE_SHARDS = max n MAX_BUNDLE_SHARDS" using next_max by (simp add: max_def)
      moreover have "shard_loop pick full n = shard_loop pick full (max n 1 + 1)"
        using None False by (subst shard_loop.simps) (simp add: Let_def n)
      ultimately show ?thesis
        using IH next_max(2,3) None unfolding next_max(1)
        by (auto split: prod.splits sum.splits simp del: max.bounded_iff intro: order_trans)
    qed
  qed
qed

text \<open>
  C40.  Placing a slot always ends.  A slot that is stored stays on its shard.  Any other is refused
  exactly when none of the sixteen shards the workflows bind has room, and otherwise goes to one that
  has room, below the count, which grows no further than needed: never beyond sixteen, and only when
  no shard below the count before the last step had room.
\<close>
theorem reserve_shard_exact:
  "case (find (\<lambda>s. bt_contains (snd s) slot) shards, reserve_shard sj sha256 slot len shards n operation) of
     (Some s, answer) \<Rightarrow> answer = (Inr (fst s), n)
   | (None, Inl e, m) \<Rightarrow>
       e = ShardsFull operation slot \<and> m = max n MAX_BUNDLE_SHARDS \<and>
       list_all (\<lambda>i. \<not> fits sj slot len shards i) (named_shards MAX_BUNDLE_SHARDS)
   | (None, Inr i, m) \<Rightarrow>
       fits sj slot len shards i \<and> i < m \<and> i < MAX_BUNDLE_SHARDS \<and>
       (m = max n 1 \<or>
        n < m \<and> m \<le> MAX_BUNDLE_SHARDS \<and>
        list_all (\<lambda>i. \<not> fits sj slot len shards i) (named_shards (m - 1)))"
proof (cases "find (\<lambda>s. bt_contains (snd s) slot) shards")
  case (Some s)
  then show ?thesis by (simp add: reserve_shard_def)
next
  case None
  define pick where "pick = pick_shard sj sha256 slot len shards"
  have run: "reserve_shard sj sha256 slot len shards n operation = shard_loop pick (ShardsFull operation slot) n"
    using None by (simp add: reserve_shard_def pick_def)
  obtain r m where rm: "shard_loop pick (ShardsFull operation slot) n = (r, m)" by fastforce
  note loop = shard_loop_cases[where pick = pick and full = "ShardsFull operation slot" and n = n, unfolded rm prod.case]
  show ?thesis
  proof (cases r)
    case (Inl e)
    have "e = ShardsFull operation slot \<and> m = max n MAX_BUNDLE_SHARDS \<and> pick m = None"
      using loop[unfolded Inl sum.case] .
    then have m: "e = ShardsFull operation slot" "m = max n MAX_BUNDLE_SHARDS" "pick m = None" by blast+
    have "named_shards m = named_shards MAX_BUNDLE_SHARDS" by (simp add: named_shards_def m(2) min_def max_def)
    moreover have "0 < m" by (simp add: m(2) MAX_BUNDLE_SHARDS_def less_max_iff_disj)
    ultimately show ?thesis using m pick_shard_cases(1)[of m sj sha256 slot len shards] None Inl run rm by (simp add: pick_def)
  next
    case (Inr i)
    have m: "pick m = Some i" "max n 1 \<le> m"
        "m = max n 1 \<or> m \<le> MAX_BUNDLE_SHARDS \<and> pick (m - 1) = None" using loop Inr by simp_all
    have "(1 :: u32) \<le> m" using m(2) by simp
    then have pos: "0 < m" by (simp add: word_le_nat_alt word_less_nat_alt)
    have i: "fits sj slot len shards i \<and> i < m \<and> i < MAX_BUNDLE_SHARDS"
      using pick_shard_cases(2)[OF pos, of sj sha256 slot len shards i] m(1) by (simp add: pick_def)
    have grown: "n < m \<and> m \<le> MAX_BUNDLE_SHARDS \<and>
        list_all (\<lambda>i. \<not> fits sj slot len shards i) (named_shards (m - 1))"
      if "m \<noteq> max n 1" "m \<le> MAX_BUNDLE_SHARDS" "pick (m - 1) = None"
    proof -
      have "max n 1 < m" using that(1) m(2) by (metis order_le_imp_less_or_eq)
      then have "n < m" "1 < m" by simp_all
      then have "0 < m - 1" by (simp add: word_less_nat_alt unat_sub word_le_nat_alt)
      then show ?thesis using that \<open>n < m\<close> pick_shard_cases(1)[of "m - 1" sj sha256 slot len shards] by (simp add: pick_def)
    qed
    then show ?thesis using i m(3) None Inr run rm by auto
  qed
qed

section \<open>A sample bundle\<close>

definition sample_shards :: shards where
  "sample_shards = [(0, [(''ns/app/keyauth/key'', ''0123456789abcdef'')]), (2, [(''ns/app/jwt/secret'', ''fedcba9876543210'')])]"

definition sample_json :: serde_json where
  "sample_json = \<lparr>sj_print = (\<lambda>v. if v = bundle_document sample_shards then Inr ''doc'' else Inr ''{}''),
     sj_read = (\<lambda>t. if t = ''doc'' then (document_of (bundle_document sample_shards), None)
                   else (DStop ''unknown text'', None))\<rparr>"

lemma sample_shards_ok: "shards_ok sample_shards"
  by (simp add: shards_ok_def sample_shards_def bt_wf_def bt_keys_def)

lemma sample_prints: "prints_and_reads sample_json (bundle_document sample_shards)"
  by (simp add: prints_and_reads_def sample_json_def)

lemma sample_written: "serialize_bundle_document sample_json sample_shards = Inr ''doc''"
  by (simp add: serialize_bundle_document_def sample_json_def)

theorem parse_bundles_exact_witness:
  "shards_ok (lb_per_shard \<lparr>lb_merged = merge_bundles sample_shards, lb_per_shard = sample_shards,
     lb_unrecognized_keys = []\<rparr>)"
proof -
  have "parse_bundles_from_json sample_json ''doc'' =
     Inr \<lparr>lb_merged = merge_bundles sample_shards, lb_per_shard = sample_shards, lb_unrecognized_keys = []\<rparr>"
    by (rule roundtrip_core[OF sample_shards_ok sample_prints sample_written])
  from parse_bundles_exact[OF this] show ?thesis by blast
qed

theorem bundle_document_roundtrip_witness:
  "parse_bundles_from_json sample_json ''doc'' =
     Inr \<lparr>lb_merged = merge_bundles sample_shards, lb_per_shard = sample_shards, lb_unrecognized_keys = []\<rparr>"
  by (rule bundle_document_roundtrip[OF sample_shards_ok sample_prints sample_written])

end
