(* ===== verification/Allocator_Facts.thy ===== *)
theory Allocator_Facts
  imports Allocator Bundle_Facts
begin

text \<open>
  What allocation promises: the shards a run leaves behind, the slots it reports and the secrets it
  wrote to GitHub always agree, whether it succeeds or fails half way; nothing is written unless the
  whole batch was planned and encrypted; and every value it generates is one the next resolution
  accepts.
\<close>

section \<open>Putting a slot\<close>

lemma bt_get_shard: "shards_ok shards \<Longrightarrow> bt_get shards i = Some b \<longleftrightarrow> (i, b) \<in> set shards"
  by (simp add: bt_get_iff shards_okD(1))

definition stored_at :: "shards \<Rightarrow> u32 \<Rightarrow> credential_bundle" where
  "stored_at shards i = (case bt_get shards i of Some b \<Rightarrow> b | None \<Rightarrow> [])"

lemma put_slot_eq: "put_slot i slot v shards = bt_insert i (bt_insert slot v (stored_at shards i)) shards"
  by (simp add: put_slot_def stored_at_def)

lemma bt_wf_stored: "shards_ok shards \<Longrightarrow> bt_wf (stored_at shards i)"
  by (auto simp: stored_at_def bt_get_shard dest: shards_okD(2) split: option.splits)

lemma stored_at_get:
  assumes "shards_ok shards"
  shows "bt_get (stored_at shards i) k = Some u \<longleftrightarrow> (\<exists>b. (i, b) \<in> set shards \<and> bt_get b k = Some u)"
proof (cases "bt_get shards i")
  case None
  then have "(i, b) \<notin> set shards" for b using bt_get_shard[OF assms, of i b] by simp
  then show ?thesis using None by (simp add: stored_at_def bt_get_def)
next
  case (Some c)
  then have "(i, b) \<in> set shards \<longleftrightarrow> b = c" for b using bt_get_shard[OF assms, of i b] by auto
  then show ?thesis using Some by (simp add: stored_at_def)
qed

lemma stored_at_keys:
  assumes "shards_ok shards"
  shows "k \<in> set (bt_keys (stored_at shards i)) \<longleftrightarrow> (\<exists>b. (i, b) \<in> set shards \<and> k \<in> set (bt_keys b))"
  using stored_at_get[OF assms, of i k] unfolding set_bt_keys dom_def mem_Collect_eq by (metis not_None_eq)

text \<open>A slot may be put on shard \<open>i\<close> when no other shard holds it.\<close>

definition free_for :: "shards \<Rightarrow> string \<Rightarrow> u32 \<Rightarrow> bool" where
  "free_for shards slot i \<longleftrightarrow> (\<forall>j b. (j, b) \<in> set shards \<and> slot \<in> set (bt_keys b) \<longrightarrow> j = i)"

lemma shards_member_insert:
  assumes "bt_wf shards"
  shows "(j, c) \<in> set (bt_insert i b shards) \<longleftrightarrow> (if j = i then c = b else (j, c) \<in> set shards)"
  using bt_get_iff[OF bt_wf_insert[OF assms], of i b j c] bt_get_iff[OF assms, of j c]
  by (auto simp: bt_get_insert assms)

lemma keys_insert: "set (bt_keys (bt_insert k v m)) = insert k (set (bt_keys m))"
  by (simp add: bt_keys_def set_bt_insert_keys)

lemma put_slot_member:
  assumes "shards_ok shards"
  shows "(j, c) \<in> set (put_slot i slot v shards) \<longleftrightarrow>
    (if j = i then c = bt_insert slot v (stored_at shards i) else (j, c) \<in> set shards)"
  unfolding put_slot_eq by (rule shards_member_insert[OF shards_okD(1)[OF assms]])

lemma put_slot_ok:
  assumes "shards_ok shards" and "free_for shards slot i"
  shows "shards_ok (put_slot i slot v shards)"
proof (rule shards_okI)
  show "bt_wf (put_slot i slot v shards)" by (simp add: put_slot_eq shards_okD(1)[OF assms(1)] bt_wf_insert)
  have "bt_wf c" if "(j, c) \<in> set (put_slot i slot v shards)" for j c
    using that shards_okD(2)[OF assms(1), of "(j, c)"] bt_wf_insert[OF bt_wf_stored[OF assms(1), of i], of slot v]
    by (simp add: put_slot_member[OF assms(1)] split: if_splits)
  then show "s \<in> set (put_slot i slot v shards) \<Longrightarrow> bt_wf (snd s)" for s by (metis prod.collapse)
  have holder: "(\<exists>b. (j, b) \<in> set shards \<and> k \<in> set (bt_keys b)) \<or> k = slot \<and> j = i"
    if "(j, c) \<in> set (put_slot i slot v shards)" "k \<in> set (bt_keys c)" for j c k
  proof (cases "j = i")
    case True
    then show ?thesis
      using that stored_at_keys[OF assms(1), of k i] by (auto simp: put_slot_member[OF assms(1)] keys_insert)
  next
    case False
    then show ?thesis using that by (auto simp: put_slot_member[OF assms(1)])
  qed
  have one: "j = l" if "(j, b) \<in> set shards" "(l, d) \<in> set shards" "k \<in> set (bt_keys b)" "k \<in> set (bt_keys d)"
    for j b l d k
    using shards_ok_unique[OF assms(1) that(1,2)] that(3,4) by simp
  show "fst s = fst t"
    if s: "s \<in> set (put_slot i slot v shards)" "t \<in> set (put_slot i slot v shards)"
      "k \<in> set (bt_keys (snd s))" "k \<in> set (bt_keys (snd t))" for s t k
  proof -
    have "(\<exists>b. (fst s, b) \<in> set shards \<and> k \<in> set (bt_keys b)) \<or> k = slot \<and> fst s = i"
      "(\<exists>b. (fst t, b) \<in> set shards \<and> k \<in> set (bt_keys b)) \<or> k = slot \<and> fst t = i"
      using holder[of "fst s" "snd s" k] holder[of "fst t" "snd t" k] s by simp_all
    then show ?thesis using assms(2) one unfolding free_for_def by metis
  qed
qed

lemma merged_get:
  "shards_ok shards \<Longrightarrow>
     bt_get (merge_bundles shards) k = Some v \<longleftrightarrow> (\<exists>j b. (j, b) \<in> set shards \<and> bt_get b k = Some v)"
  by (simp add: merge_bundles_get Bex_def)

lemma put_slot_merged:
  assumes "shards_ok shards" and "free_for shards slot i"
  shows "bt_get (merge_bundles (put_slot i slot v shards)) = (bt_get (merge_bundles shards))(slot \<mapsto> v)"
proof
  fix k
  have shard_i: "(\<exists>j c. (j, c) \<in> set (put_slot i slot v shards) \<and> bt_get c k = Some u) \<longleftrightarrow>
      bt_get (bt_insert slot v (stored_at shards i)) k = Some u \<or>
      (\<exists>j c. j \<noteq> i \<and> (j, c) \<in> set shards \<and> bt_get c k = Some u)" for u
    unfolding put_slot_member[OF assms(1)] by metis
  have "bt_get (merge_bundles (put_slot i slot v shards)) k = Some u \<longleftrightarrow>
      ((bt_get (merge_bundles shards))(slot \<mapsto> v)) k = Some u" for u
  proof (cases "k = slot")
    case True
    have "(j, c) \<in> set shards \<Longrightarrow> j \<noteq> i \<Longrightarrow> bt_get c slot \<noteq> Some u" for j c
      using assms(2) unfolding free_for_def set_bt_keys by (metis domI)
    then show ?thesis
      unfolding merged_get[OF put_slot_ok[OF assms]] shard_i
      using True by (auto simp: bt_get_insert[OF bt_wf_stored[OF assms(1)]])
  next
    case False
    then show ?thesis
      unfolding merged_get[OF put_slot_ok[OF assms]] shard_i
      by (simp add: bt_get_insert[OF bt_wf_stored[OF assms(1)]] stored_at_get[OF assms(1)]
          merged_get[OF assms(1)]) metis
  qed
  then show "bt_get (merge_bundles (put_slot i slot v shards)) k = ((bt_get (merge_bundles shards))(slot \<mapsto> v)) k"
    by (rule option_eq_by_Some)
qed

lemma reserve_free:
  assumes "shards_ok shards" and "reserve_shard sj sha256 slot len shards n operation = (Inr i, m)"
  shows "free_for shards slot i"
proof (cases "find (\<lambda>s. bt_contains (snd s) slot) shards")
  case None
  then show ?thesis unfolding find_None_iff bt_contains_iff free_for_def by fastforce
next
  case (Some s)
  then have "s \<in> set shards" "slot \<in> set (bt_keys (snd s))" by (auto simp: find_Some_iff bt_contains_iff)
  moreover have "fst s = i" using assms(2) Some by (simp add: reserve_shard_def)
  moreover have "s = (j, b)" if "(j, b) \<in> set shards" "slot \<in> set (bt_keys b)" for j b
    using shards_ok_unique[OF assms(1) \<open>s \<in> set shards\<close> that(1), of slot] that(2) \<open>slot \<in> set (bt_keys (snd s))\<close> by simp
  ultimately show ?thesis unfolding free_for_def by (metis fst_conv)
qed

section \<open>Planning\<close>

text \<open>
  Everything the plan of a batch established: the staged shards are the given ones with the planned
  slots put in order, each on a shard that alone may hold it, and every value passed the generator.
\<close>

fun placed :: "shards \<Rightarrow> planned list \<Rightarrow> bool" where
  "placed shards [] = True"
| "placed shards (p # ps) =
     (free_for shards (pl_slot p) (pl_shard p) \<and> placed (put_slot (pl_shard p) (pl_slot p) (pl_value p) shards) ps)"

definition put_all :: "planned list \<Rightarrow> shards \<Rightarrow> shards" where
  "put_all ps shards = fold (\<lambda>p. put_slot (pl_shard p) (pl_slot p) (pl_value p)) ps shards"

lemma put_all_simps [simp]:
  "put_all [] shards = shards"
  "put_all (p # ps) shards = put_all ps (put_slot (pl_shard p) (pl_slot p) (pl_value p) shards)"
  "put_all (ps @ qs) shards = put_all qs (put_all ps shards)"
  by (simp_all add: put_all_def)

lemma placed_append: "placed shards (ps @ qs) \<longleftrightarrow> placed shards ps \<and> placed (put_all ps shards) qs"
  by (induction ps arbitrary: shards) auto

lemma put_all_ok: "shards_ok shards \<Longrightarrow> placed shards ps \<Longrightarrow> shards_ok (put_all ps shards)"
  by (induction ps arbitrary: shards) (auto simp: put_slot_ok)

lemma put_all_merged:
  "shards_ok shards \<Longrightarrow> placed shards ps \<Longrightarrow>
     bt_get (merge_bundles (put_all ps shards)) =
     fold (\<lambda>p m. m(pl_slot p \<mapsto> pl_value p)) ps (bt_get (merge_bundles shards))"
  by (induction ps arbitrary: shards) (auto simp: put_slot_ok put_slot_merged)

definition planned_for :: "broker_env \<Rightarrow> resolve_report \<Rightarrow> gateway_mode \<Rightarrow> nat \<Rightarrow> resolve_result \<Rightarrow> planned \<Rightarrow> bool" where
  "planned_for env report mode k r p \<longleftrightarrow>
     pl_slot p = rs_slot r \<and> pl_alloc p = sp_alloc (rs_placeholder r) \<and> pl_delivered p = None \<and>
     generate_credential_value_with_mode (rs_slot r) (unat (sp_length_bytes (rs_placeholder r)))
       (credential_type_for report (rs_slot r)) mode
       (be_random env k (unat (sp_length_bytes (rs_placeholder r)))) = Inr (pl_value p)"

lemma plan_candidate_cases:
  assumes "plan_candidate env report mode r st = Inr st'" and "shards_ok (ps_staged st)"
  obtains p where "ps_planned st' = ps_planned st @ [p]" "ps_staged st' = put_slot (pl_shard p) (pl_slot p) (pl_value p) (ps_staged st)"
    "free_for (ps_staged st) (pl_slot p) (pl_shard p)" "planned_for env report mode (length (ps_planned st)) r p"
proof -
  let ?len = "unat (sp_length_bytes (rs_placeholder r))"
  obtain v where v: "generate_credential_value_with_mode (rs_slot r) ?len
      (credential_type_for report (rs_slot r)) mode (be_random env (length (ps_planned st)) ?len) = Inr v"
    using assms(1) by (auto simp: plan_candidate_def Let_def split: sum.splits)
  obtain shard n where s: "reserve_shard (be_json env) (be_sha256 env) (rs_slot r) (length v) (ps_staged st)
      (ps_shard_count st) ''allocating'' = (Inr shard, n)"
    using assms(1) v by (auto simp: plan_candidate_def Let_def split: sum.splits prod.splits)
  let ?p = "\<lparr>pl_slot = rs_slot r, pl_value = v, pl_shard = shard,
    pl_alloc = sp_alloc (rs_placeholder r), pl_delivered = None\<rparr>"
  have "st' = \<lparr>ps_staged = put_slot shard (rs_slot r) v (ps_staged st), ps_shard_count = n,
      ps_planned = ps_planned st @ [?p]\<rparr>"
    using assms(1) v s by (simp add: plan_candidate_def Let_def)
  then show thesis
    using that[of ?p] v reserve_free[OF assms(2) s] by (simp add: planned_for_def)
qed

text \<open>The values of a batch in the order of the draws.\<close>

definition plan_ok :: "broker_env \<Rightarrow> resolve_report \<Rightarrow> gateway_mode \<Rightarrow> shards \<Rightarrow> resolve_result list \<Rightarrow> planned list \<Rightarrow> bool" where
  "plan_ok env report mode shards rs ps \<longleftrightarrow>
     placed shards ps \<and> map pl_slot ps = map rs_slot rs \<and>
     (\<forall>p \<in> set ps. pl_delivered p = None \<and> (\<exists>r \<in> set rs. \<exists>k. planned_for env report mode k r p))"

lemma plan_batch:
  assumes "fold_result (plan_candidate env report mode) rs st = Inr st'"
    and "shards_ok shards" and "ps_staged st = put_all (ps_planned st) shards"
    and "plan_ok env report mode shards done_rs (ps_planned st)"
  shows "ps_staged st' = put_all (ps_planned st') shards \<and> plan_ok env report mode shards (done_rs @ rs) (ps_planned st')"
  using assms(1,3,4)
proof (induction rs arbitrary: st done_rs)
  case Nil
  then show ?case by simp
next
  case (Cons r rs)
  obtain mid where mid: "plan_candidate env report mode r st = Inr mid"
      "fold_result (plan_candidate env report mode) rs mid = Inr st'"
    using Cons.prems(1) by (auto simp: bind_result_Inr_iff)
  have ok: "shards_ok (ps_staged st)"
    using Cons.prems(2,3) put_all_ok[OF assms(2)] by (simp add: plan_ok_def)
  obtain p where p: "ps_planned mid = ps_planned st @ [p]"
      "ps_staged mid = put_slot (pl_shard p) (pl_slot p) (pl_value p) (ps_staged st)"
      "free_for (ps_staged st) (pl_slot p) (pl_shard p)" "planned_for env report mode (length (ps_planned st)) r p"
    by (rule plan_candidate_cases[OF mid(1) ok])
  have "ps_staged mid = put_all (ps_planned mid) shards" using p(1,2) Cons.prems(2) by simp
  moreover have "plan_ok env report mode shards (done_rs @ [r]) (ps_planned mid)"
    using Cons.prems(2,3) p(1,3,4) unfolding plan_ok_def p(1)
    by (auto simp: placed_append planned_for_def)
  ultimately show ?case using Cons.IH[OF mid(2), of "done_rs @ [r]"] by simp
qed


section \<open>Committing\<close>

lemma bt_insert_twice: "bt_insert k v (bt_insert k u m) = bt_insert k v m"
  by (induction m) auto

lemma bt_wf_put_all: "bt_wf shards \<Longrightarrow> bt_wf (put_all ps shards)"
  by (induction ps arbitrary: shards) (auto simp: put_slot_eq bt_wf_insert)

lemma stored_at_insert: "bt_wf shards \<Longrightarrow> stored_at (bt_insert i b shards) j = (if j = i then b else stored_at shards j)"
  by (simp add: stored_at_def bt_get_insert)

lemma stored_at_put_all_other:
  "bt_wf shards \<Longrightarrow> i \<notin> pl_shard ` set ps \<Longrightarrow> stored_at (put_all ps shards) i = stored_at shards i"
  by (induction ps arbitrary: shards) (auto simp: put_slot_eq bt_wf_insert stored_at_insert)

text \<open>Writing the bundle of one shard is putting its batch.\<close>

lemma shard_bundle_append:
  "shard_bundle shards i (batch @ [p]) = bt_insert (pl_slot p) (pl_value p) (shard_bundle shards i batch)"
  by (simp add: shard_bundle_def)

lemma insert_shard_bundle:
  assumes "bt_wf shards" and "batch \<noteq> []" and "\<And>p. p \<in> set batch \<Longrightarrow> pl_shard p = i"
  shows "bt_insert i (shard_bundle shards i batch) shards = put_all batch shards"
  using assms(2,3)
proof (induction batch rule: rev_nonempty_induct)
  case (single p)
  then show ?case by (simp add: put_slot_eq shard_bundle_def stored_at_def)
next
  case (snoc p batch)
  have IH: "bt_insert i (shard_bundle shards i batch) shards = put_all batch shards" using snoc by simp
  have "put_all (batch @ [p]) shards = put_slot i (pl_slot p) (pl_value p) (put_all batch shards)"
    using snoc.prems by simp
  also have "\<dots> = put_slot i (pl_slot p) (pl_value p) (bt_insert i (shard_bundle shards i batch) shards)"
    by (simp only: IH)
  also have "\<dots> = bt_insert i (shard_bundle shards i (batch @ [p])) shards"
    unfolding put_slot_eq stored_at_insert[OF assms(1)] bt_insert_twice shard_bundle_append by simp
  finally show ?case by (rule sym)
qed

lemma free_for_put:
  assumes "shards_ok shards" and "slot \<noteq> slot'"
  shows "free_for (put_slot j slot' v shards) slot i \<longleftrightarrow> free_for shards slot i"
proof -
  have "slot \<in> set (bt_keys (bt_insert slot' v (stored_at shards j))) \<longleftrightarrow>
      (\<exists>b. (j, b) \<in> set shards \<and> slot \<in> set (bt_keys b))"
    using assms(2) by (simp add: keys_insert stored_at_keys[OF assms(1)])
  then have "(\<exists>c. (l, c) \<in> set (put_slot j slot' v shards) \<and> slot \<in> set (bt_keys c)) \<longleftrightarrow>
      (\<exists>b. (l, b) \<in> set shards \<and> slot \<in> set (bt_keys b))" for l
    by (cases "l = j") (simp_all add: put_slot_member[OF assms(1)])
  then show ?thesis unfolding free_for_def by metis
qed

lemma placed_distinct:
  "shards_ok shards \<Longrightarrow> distinct (map pl_slot ps) \<Longrightarrow>
     placed shards ps \<longleftrightarrow> (\<forall>p \<in> set ps. free_for shards (pl_slot p) (pl_shard p))"
proof (induction ps arbitrary: shards)
  case Nil
  then show ?case by simp
next
  case (Cons p ps)
  show ?case
  proof (cases "free_for shards (pl_slot p) (pl_shard p)")
    case True
    have "free_for (put_slot (pl_shard p) (pl_slot p) (pl_value p) shards) (pl_slot q) (pl_shard q) \<longleftrightarrow>
        free_for shards (pl_slot q) (pl_shard q)" if "q \<in> set ps" for q
    proof -
      have "pl_slot p \<notin> pl_slot ` set ps" using Cons.prems(2) by simp
      then have "pl_slot q \<noteq> pl_slot p" using imageI[OF that, of pl_slot] by metis
      then show ?thesis by (rule free_for_put[OF Cons.prems(1)])
    qed
    then show ?thesis using True Cons.IH[OF put_slot_ok[OF Cons.prems(1) True]] Cons.prems(2) by simp
  qed simp
qed

definition grouped :: "(u32 \<times> planned list) list \<Rightarrow> bool" where
  "grouped gs \<longleftrightarrow> distinct (map fst gs) \<and>
     (\<forall>g \<in> set gs. snd g \<noteq> [] \<and> (\<forall>p \<in> set (snd g). pl_shard p = fst g))"

definition written :: "broker_env \<Rightarrow> shards \<Rightarrow> u32 \<times> planned list \<Rightarrow> string \<times> string \<Rightarrow> bool" where
  "written env shards g put \<longleftrightarrow>
     fst put = shard_secret_name (fst g) \<and> serialize_bundle (be_json env) (stored_at shards (fst g)) = Inr (snd put)"

definition state_after :: "broker_env \<Rightarrow> shards \<Rightarrow> (u32 \<times> planned list) list \<Rightarrow> commit_state \<Rightarrow> bool" where
  "state_after env shards gs st \<longleftrightarrow>
     cs_shards st = put_all (concat (map snd gs)) shards \<and>
     cs_allocated st = map (\<lambda>p. allocated_of (pl_shard p) p) (concat (map snd gs)) \<and>
     list_all2 (written env (cs_shards st)) gs (cs_puts st)"

lemma list_all2_with_member: "list_all2 P xs ys \<Longrightarrow> list_all2 (\<lambda>x y. x \<in> set xs \<and> P x y) xs ys"
  by (simp add: list_all2_conv_all_nth)

lemma commit_shard_step:
  assumes "state_after env shards gs st" and "commit_shard env tg pubkey g st = Inr st'"
    and "bt_wf shards" and "grouped (gs @ [g])"
  shows "state_after env shards (gs @ [g]) st'"
proof -
  have c: "cs_shards st = put_all (concat (map snd gs)) shards" "list_all2 (written env (cs_shards st)) gs (cs_puts st)"
      "cs_allocated st = map (\<lambda>p. allocated_of (pl_shard p) p) (concat (map snd gs))"
    using assms(1) unfolding state_after_def by blast+
  have g: "snd g \<noteq> []" "\<And>p. p \<in> set (snd g) \<Longrightarrow> pl_shard p = fst g" "fst g \<notin> fst ` set gs"
    using assms(4) by (auto simp: grouped_def)
  define b where "b = shard_bundle (cs_shards st) (fst g) (snd g)"
  obtain body where body: "serialize_bundle (be_json env) b = Inr body"
      "st' = \<lparr>cs_shards = bt_insert (fst g) b (cs_shards st),
        cs_allocated = cs_allocated st @ map (allocated_of (fst g)) (snd g),
        cs_puts = cs_puts st @ [(shard_secret_name (fst g), body)]\<rparr>"
    using assms(2) by (auto simp: commit_shard_def Let_def b_def split: sum.splits)
  have wf: "bt_wf (cs_shards st)" by (simp add: c(1) bt_wf_put_all assms(3))
  have shards': "bt_insert (fst g) b (cs_shards st) = put_all (snd g) (cs_shards st)"
    unfolding b_def by (rule insert_shard_bundle[OF wf g(1,2)])
  have "map (allocated_of (fst g)) (snd g) = map (\<lambda>p. allocated_of (pl_shard p) p) (snd g)"
    using g(2) by simp
  moreover have "list_all2 (written env (bt_insert (fst g) b (cs_shards st))) gs (cs_puts st)"
  proof (rule list_all2_mono[OF list_all2_with_member[OF c(2)]])
    fix h put assume h: "h \<in> set gs \<and> written env (cs_shards st) h put"
    then have "fst h \<noteq> fst g" using key_not_listed[OF g(3)] by blast
    then show "written env (bt_insert (fst g) b (cs_shards st)) h put"
      using h by (simp add: written_def stored_at_insert[OF wf])
  qed
  moreover have "written env (bt_insert (fst g) b (cs_shards st)) g (shard_secret_name (fst g), body)"
    using body(1) by (simp add: written_def stored_at_insert[OF wf])
  ultimately show ?thesis
    using c(1,3) shards' body(2) by (simp add: state_after_def list_all2_appendI)
qed


lemma commit_groups:
  assumes "case fold_result (commit_shard env tg pubkey) hs st of Inl (e, x) \<Rightarrow> x = st' | Inr x \<Rightarrow> x = st'"
    and "state_after env shards gs st" and "bt_wf shards" and "grouped (gs @ hs)"
  shows "\<exists>pre post. hs = pre @ post \<and> state_after env shards (gs @ pre) st' \<and>
     (is_ok (fold_result (commit_shard env tg pubkey) hs st) \<longrightarrow> post = [])"
  using assms(1,2,4)
proof (induction hs arbitrary: st gs)
  case Nil
  then show ?case by simp
next
  case (Cons h hs)
  show ?case
  proof (cases "commit_shard env tg pubkey h st")
    case (Inl f)
    obtain e x where f: "f = (e, x)" by (cases f)
    have "x = st" using Inl f by (auto simp: commit_shard_def Let_def split: sum.splits)
    then have "state_after env shards gs st'" using Cons.prems Inl f by simp
    then show ?thesis using Inl by (intro exI[of _ "[]"] exI[of _ "h # hs"]) simp
  next
    case (Inr mid)
    have "grouped (gs @ [h])" using Cons.prems(3) by (auto simp: grouped_def)
    then have "state_after env shards (gs @ [h]) mid"
      by (rule commit_shard_step[OF Cons.prems(2) Inr assms(3)])
    then obtain pre post where "hs = pre @ post" "state_after env shards ((gs @ [h]) @ pre) st'"
        "is_ok (fold_result (commit_shard env tg pubkey) hs mid) \<longrightarrow> post = []"
      using Cons.IH[of mid "gs @ [h]"] Cons.prems Inr by auto
    then show ?thesis using Inr by (intro exI[of _ "h # pre"] exI[of _ post]) simp
  qed
qed

lemma group_get:
  "bt_wf m \<Longrightarrow> bt_get (fold add_to_shard ps m) i =
     (case (bt_get m i, filter (\<lambda>p. pl_shard p = i) ps) of
        (None, []) \<Rightarrow> None
      | (None, qs) \<Rightarrow> Some qs
      | (Some q, qs) \<Rightarrow> Some (q @ qs))"
  by (induction ps arbitrary: m)
    (auto simp: add_to_shard_def bt_wf_insert bt_get_insert split: option.splits list.splits)

lemma group_wf: "bt_wf m \<Longrightarrow> bt_wf (fold add_to_shard ps m)"
  by (induction ps arbitrary: m) (auto simp: add_to_shard_def bt_wf_insert)

lemma group_by_shard_member:
  "g \<in> set (group_by_shard ps) \<longleftrightarrow> snd g = filter (\<lambda>p. pl_shard p = fst g) ps \<and> snd g \<noteq> []"
  using group_get[of "[]" ps "fst g"] bt_get_iff[OF group_wf[of "[]" ps], of "fst g" "snd g"]
  by (auto simp: group_by_shard_def bt_get_def split: list.splits)

lemma grouped_by_shard: "grouped (group_by_shard ps)"
  using bt_wf_distinct[OF group_wf[of "[]" ps]] group_by_shard_member[of _ ps]
  by (auto simp: grouped_def group_by_shard_def bt_keys_def)

lemma set_grouped: "set (concat (map snd (group_by_shard ps))) = set ps"
proof -
  have "p \<in> set (concat (map snd (group_by_shard ps))) \<longleftrightarrow> p \<in> set ps" for p
  proof
    assume "p \<in> set ps"
    then have "(pl_shard p, filter (\<lambda>q. pl_shard q = pl_shard p) ps) \<in> set (group_by_shard ps)"
      by (auto simp: group_by_shard_member filter_empty_conv)
    then show "p \<in> set (concat (map snd (group_by_shard ps)))" using \<open>p \<in> set ps\<close> by force
  qed (auto simp: group_by_shard_member)
  then show ?thesis by blast
qed


section \<open>A whole run\<close>

definition delivered_to :: "string option \<Rightarrow> delivery_result option \<Rightarrow> bool" where
  "delivered_to author d = (case author of
     None \<Rightarrow> d = None
   | Some login \<Rightarrow> (case d of None \<Rightarrow> False | Some r \<Rightarrow> de_login r = login))"

lemma encrypt_all:
  assumes "fold_result (encrypt_planned env recipient) ps acc = Inr qs"
  shows "\<exists>rs. qs = acc @ rs \<and>
     list_all2 (\<lambda>p q. \<exists>d. q = p\<lparr>pl_delivered := Some d\<rparr> \<and> de_login d = dp_login recipient) ps rs"
  using assms
proof (induction ps arbitrary: acc)
  case Nil
  then show ?case by simp
next
  case (Cons p ps)
  obtain mid where mid: "encrypt_planned env recipient p acc = Inr mid"
      "fold_result (encrypt_planned env recipient) ps mid = Inr qs"
    using Cons.prems by (auto simp: bind_result_Inr_iff)
  then obtain d where enc: "encrypt (be_ssh env) recipient (pl_value p) = Inr d"
      and "mid = acc @ [p\<lparr>pl_delivered := Some d\<rparr>]"
    by (cases "encrypt (be_ssh env) recipient (pl_value p)") (auto simp: encrypt_planned_def)
  then have d: "encrypt (be_ssh env) recipient (pl_value p) = Inr d"
      "fold_result (encrypt_planned env recipient) ps (acc @ [p\<lparr>pl_delivered := Some d\<rparr>]) = Inr qs"
    using mid(2) by simp_all
  then have "de_login d = dp_login recipient"
    by (cases "se_encrypt (be_ssh env) (dp_recipient recipient) (pl_value p)") (auto simp: encrypt_def)
  then show ?case using Cons.IH[OF d(2)] by (auto simp: list_all2_Cons1)
qed

lemma deliver_planned_cases:
  assumes "deliver_planned env api_base author ps = Inr qs" and "\<forall>p \<in> set ps. pl_delivered p = None"
  shows "list_all2 (\<lambda>p q. \<exists>d. q = p\<lparr>pl_delivered := d\<rparr> \<and> delivered_to author d) ps qs"
proof (cases author)
  case None
  have "p\<lparr>pl_delivered := None\<rparr> = p" if "pl_delivered p = None" for p :: planned using that by simp
  then show ?thesis
    using assms None by (auto simp: deliver_planned_def delivered_to_def list_all2_same intro!: exI[of _ None])
next
  case (Some login)
  obtain recipient where r: "discover_recipient_at (be_ssh env) api_base login = Inr (Some recipient)"
      "fold_result (encrypt_planned env recipient) ps [] = Inr qs"
    using assms(1) Some
    by (cases "discover_recipient_at (be_ssh env) api_base login")
      (auto simp: deliver_planned_def split: option.splits)
  have "dp_login recipient = login"
    using r(1) by (auto simp: discover_recipient_at_def bind_result_Inr_iff split: if_splits)
  then show ?thesis
    using encrypt_all[OF r(2)] Some by (auto simp: delivered_to_def elim!: list_all2_mono)
qed

definition outcome_of :: "allocate_outcome broker_run \<Rightarrow> allocate_outcome" where
  "outcome_of run = (case br_result run of Inr done \<Rightarrow> done | Inl failure \<Rightarrow> af_partial failure)"

definition generated :: "broker_env \<Rightarrow> planned \<Rightarrow> bool" where
  "generated env p \<longleftrightarrow> (\<exists>k len cred_type mode.
     generate_credential_value_with_mode (pl_slot p) len cred_type mode (be_random env k len) = Inr (pl_value p))"

text \<open>What a run did: it put the slots \<open>ps\<close>, wrote the shards \<open>gs\<close> and reported the slots.\<close>

definition run_did ::
    "broker_env \<Rightarrow> string option \<Rightarrow> resolve_result list \<Rightarrow> shards \<Rightarrow> allocate_outcome broker_run \<Rightarrow>
     (u32 \<times> planned list) list \<Rightarrow> planned list \<Rightarrow> bool" where
  "run_did env author rs shards run gs ps \<longleftrightarrow>
     ps = concat (map snd gs) \<and> grouped gs \<and> distinct (map pl_slot ps) \<and>
     br_shards run = put_all ps shards \<and>
     ao_allocated (outcome_of run) = map (\<lambda>p. allocated_of (pl_shard p) p) ps \<and>
     list_all2 (written env (br_shards run)) gs (br_puts run) \<and>
     (\<forall>p \<in> set ps. free_for shards (pl_slot p) (pl_shard p) \<and> pl_slot p \<in> rs_slot ` set rs \<and>
                    delivered_to author (pl_delivered p) \<and> generated env p) \<and>
     (is_ok (br_result run) \<longrightarrow> pl_slot ` set ps = rs_slot ` set rs)"

lemma stopped_did: "\<not> is_ok r \<or> rs = [] \<Longrightarrow> ao_allocated (outcome_of (stopped r shards n)) = [] \<Longrightarrow>
    run_did env author rs shards (stopped r shards n) [] []"
  by (auto simp: run_did_def stopped_def grouped_def)

lemma refused_did: "run_did env author rs shards (refused e shards n) [] []"
  unfolding refused_def
  by (rule stopped_did) (simp_all add: stopped_def outcome_of_def with_partial_def outcome_default_def)

lemma distinct_groups:
  assumes "distinct (map pl_slot ps)"
  shows "distinct (map pl_slot (concat (map snd (group_by_shard ps))))"
proof -
  have "distinct (concat (map snd gs))" if "grouped gs" "\<forall>g \<in> set gs. distinct (snd g)" for gs
    using that
  proof (induction gs)
    case (Cons g gs)
    have "set (snd g) \<inter> set (concat (map snd gs)) = {}"
    proof (rule equals0I)
      fix p assume "p \<in> set (snd g) \<inter> set (concat (map snd gs))"
      then obtain h where h: "p \<in> set (snd g)" "h \<in> set gs" "p \<in> set (snd h)" by auto
      have "fst g \<notin> fst ` set gs" using Cons.prems(1) by (simp add: grouped_def)
      then have "fst h \<noteq> fst g" by (rule key_not_listed[OF _ h(2)])
      moreover have "pl_shard p = fst g" "pl_shard p = fst h"
        using Cons.prems(1) h unfolding grouped_def by (meson list.set_intros)+
      ultimately show False by simp
    qed
    moreover have "grouped gs" using Cons.prems(1) by (simp add: grouped_def)
    ultimately show ?case using Cons.IH Cons.prems(2) by simp
  qed simp
  moreover have "distinct (snd g)" if "g \<in> set (group_by_shard ps)" for g
    using that assms by (auto simp: group_by_shard_member distinct_map)
  ultimately have "distinct (concat (map snd (group_by_shard ps)))" using grouped_by_shard by blast
  moreover have "inj_on pl_slot (set (concat (map snd (group_by_shard ps))))"
    unfolding set_grouped using assms by (simp add: distinct_map)
  ultimately show ?thesis by (simp only: distinct_map)
qed

lemma commit_did:
  assumes "shards_ok shards" and "distinct (map pl_slot ps)" and "pl_slot ` set ps = rs_slot ` set rs"
    and "\<forall>p \<in> set ps. free_for shards (pl_slot p) (pl_shard p) \<and> delivered_to author (pl_delivered p) \<and>
           generated env p"
  shows "\<exists>gs qs. run_did env author rs shards (commit_all env tg pubkey (group_by_shard ps) shards n) gs qs"
proof -
  let ?st = "\<lparr>cs_shards = shards, cs_allocated = [], cs_puts = []\<rparr>"
  let ?r = "fold_result (commit_shard env tg pubkey) (group_by_shard ps) ?st"
  define st' where "st' = (case ?r of Inl (e, x) \<Rightarrow> x | Inr x \<Rightarrow> x)"
  have stop: "case ?r of Inl (e, x) \<Rightarrow> x = st' | Inr x \<Rightarrow> x = st'" by (auto simp: st'_def split: sum.splits prod.splits)
  have start: "state_after env shards [] ?st" by (simp add: state_after_def)
  have "grouped ([] @ group_by_shard ps)" using grouped_by_shard by simp
  from commit_groups[OF stop start shards_okD(1)[OF assms(1)] this]
  obtain pre post where cut: "group_by_shard ps = pre @ post" "state_after env shards ([] @ pre) st'"
      "is_ok ?r \<longrightarrow> post = []"
    by blast
  let ?run = "commit_all env tg pubkey (group_by_shard ps) shards n"
  have run: "br_shards ?run = cs_shards st'" "br_puts ?run = cs_puts st'"
      "ao_allocated (outcome_of ?run) = cs_allocated st'" "is_ok (br_result ?run) = is_ok ?r"
    by (auto simp: commit_all_def st'_def outcome_of_def with_partial_def split: sum.splits prod.splits)
  have sub: "set (concat (map snd pre)) \<subseteq> set ps" using set_grouped[of ps] unfolding cut(1) by auto
  have "distinct (map pl_slot (concat (map snd (pre @ post))))" using distinct_groups[OF assms(2)] cut(1) by simp
  then have "distinct (map pl_slot (concat (map snd pre)))" by simp
  moreover have "grouped pre" using grouped_by_shard[of ps] unfolding cut(1) by (auto simp: grouped_def)
  moreover have "pl_slot ` set (concat (map snd pre)) = rs_slot ` set rs" if "is_ok ?r"
    using that cut set_grouped[of ps] assms(3) by simp
  moreover have "free_for shards (pl_slot p) (pl_shard p) \<and> pl_slot p \<in> rs_slot ` set rs \<and>
      delivered_to author (pl_delivered p) \<and> generated env p" if "p \<in> set (concat (map snd pre))" for p
    using assms(3,4) imageI[OF subsetD[OF sub that], of pl_slot] subsetD[OF sub that] by simp
  moreover note cut(2)[unfolded state_after_def append_Nil]
  ultimately have "run_did env author rs shards ?run pre (concat (map snd pre))"
    unfolding run_did_def run by blast
  then show ?thesis by blast
qed

lemma list_all2_mono_member: "list_all2 P xs ys \<Longrightarrow> y \<in> set ys \<Longrightarrow> \<exists>x \<in> set xs. P x y"
  by (induction rule: list_all2_induct) auto

lemma allocate_did:
  assumes "shards_ok shards" and "distinct (map rs_slot (needs_allocation report))"
  shows "\<exists>gs ps. run_did env author (needs_allocation report) shards
    (allocate_and_deliver_at env tg author report shards n) gs ps"
proof (cases "needs_allocation report = []")
  case True
  then show ?thesis
    using stopped_did[of "Inr \<lparr>ao_allocated = [], ao_shard_count = n\<rparr>" "[]" shards n env author]
    by (auto simp: allocate_and_deliver_at_def stopped_def outcome_of_def)
next
  case False
  note refused = refused_did[of env author "needs_allocation report" shards]
  show ?thesis
  proof (cases "\<exists>mode st qs pubkey. be_mode env = Inr mode \<and> is_ok (check_batch report mode) \<and>
      fold_result (plan_candidate env report mode) (needs_allocation report)
        \<lparr>ps_staged = shards, ps_shard_count = n, ps_planned = []\<rparr> = Inr st \<and>
      deliver_planned env (tg_api_base tg) author (ps_planned st) = Inr qs \<and>
      fetch_public_key_at (be_http env) tg = Inr pubkey")
    case True
    then obtain mode st qs pubkey where run: "be_mode env = Inr mode" "is_ok (check_batch report mode)"
        "fold_result (plan_candidate env report mode) (needs_allocation report)
          \<lparr>ps_staged = shards, ps_shard_count = n, ps_planned = []\<rparr> = Inr st"
        "deliver_planned env (tg_api_base tg) author (ps_planned st) = Inr qs"
        "fetch_public_key_at (be_http env) tg = Inr pubkey" by blast
    have plan: "plan_ok env report mode shards ([] @ needs_allocation report) (ps_planned st)"
      using plan_batch[OF run(3) assms(1), of "[]"] by (simp add: plan_ok_def)
    then have slots: "map pl_slot (ps_planned st) = map rs_slot (needs_allocation report)"
        "placed shards (ps_planned st)" "\<forall>p \<in> set (ps_planned st). pl_delivered p = None"
      by (auto simp: plan_ok_def)
    note sent = deliver_planned_cases[OF run(4) slots(3)]
    have same: "map pl_slot qs = map pl_slot (ps_planned st)" using sent
      by (induction rule: list_all2_induct) auto
    have free: "\<forall>p \<in> set (ps_planned st). free_for shards (pl_slot p) (pl_shard p)"
      using placed_distinct[OF assms(1), of "ps_planned st"] slots assms(2) by simp
    have made: "\<forall>p \<in> set (ps_planned st). generated env p"
      using plan unfolding plan_ok_def planned_for_def generated_def by metis
    have "free_for shards (pl_slot q) (pl_shard q) \<and> delivered_to author (pl_delivered q) \<and> generated env q"
      if "q \<in> set qs" for q
    proof -
      obtain p d where p: "p \<in> set (ps_planned st)" "q = p\<lparr>pl_delivered := d\<rparr>" "delivered_to author d"
        using list_all2_mono_member[OF sent \<open>q \<in> set qs\<close>] by blast
      then show ?thesis using bspec[OF free p(1)] bspec[OF made p(1)] by (simp add: generated_def)
    qed
    moreover have "pl_slot ` set qs = rs_slot ` set (needs_allocation report)"
      using same slots(1) by (metis list.set_map)
    moreover have "distinct (map pl_slot qs)" using same slots(1) assms(2) by simp
    ultimately have "\<exists>gs ps. run_did env author (needs_allocation report) shards
        (commit_all env tg pubkey (group_by_shard qs) shards (ps_shard_count st)) gs ps"
      by (intro commit_did[OF assms(1)]) blast+
    moreover have "allocate_and_deliver_at env tg author report shards n =
        commit_all env tg pubkey (group_by_shard qs) shards (ps_shard_count st)"
      using run \<open>needs_allocation report \<noteq> []\<close>
      by (cases "check_batch report mode") (simp_all add: allocate_and_deliver_at_def)
    ultimately show ?thesis by simp
  next
    case False
    then have "\<exists>e m. allocate_and_deliver_at env tg author report shards n = refused e shards m"
      using \<open>needs_allocation report \<noteq> []\<close>
      by (auto simp: allocate_and_deliver_at_def is_ok_def split: sum.splits prod.splits)
    then show ?thesis using refused by metis
  qed
qed

lemma fold_updates:
  "distinct (map f ps) \<Longrightarrow>
     fold (\<lambda>p m. m(f p \<mapsto> g p)) ps m k = (case find (\<lambda>p. f p = k) ps of Some p \<Rightarrow> Some (g p) | None \<Rightarrow> m k)"
proof (induction ps arbitrary: m)
  case (Cons p ps)
  have "find (\<lambda>q. f q = f p) ps = None" 
    unfolding find_None_iff by (metis Cons.prems distinct.simps(2) imageI list.map(2) list.set_map)
  then show ?case using Cons by auto
qed simp

lemma find_distinct: "distinct (map f ps) \<Longrightarrow> p \<in> set ps \<Longrightarrow> find (\<lambda>q. f q = f p) ps = Some p"
  by (induction ps) (auto simp: inj_on_def distinct_map)

lemma find_map: "find P (map f xs) = map_option f (find (P \<circ> f) xs)"
  by (induction xs) auto

lemma list_all2_image:
  assumes "list_all2 P xs ys" and "\<And>x y. P x y \<Longrightarrow> f y = g x"
  shows "f ` set ys = g ` set xs"
  using assms(1) by (induction rule: list_all2_induct) (use assms(2) in auto)

lemma grouped_shards:
  assumes "grouped gs"
  shows "fst ` set gs = pl_shard ` set (concat (map snd gs))"
proof (rule set_eqI)
  fix i
  have member: "snd g \<noteq> [] \<and> (\<forall>p \<in> set (snd g). pl_shard p = fst g)" if "g \<in> set gs" for g
    using assms that by (simp add: grouped_def)
  show "i \<in> fst ` set gs \<longleftrightarrow> i \<in> pl_shard ` set (concat (map snd gs))"
  proof
    assume "i \<in> fst ` set gs"
    then obtain g where g: "g \<in> set gs" "i = fst g" by auto
    then obtain p where "p \<in> set (snd g)" using member by (metis hd_in_set)
    then show "i \<in> pl_shard ` set (concat (map snd gs))" using g member[OF g(1)] by force
  next
    assume "i \<in> pl_shard ` set (concat (map snd gs))"
    then obtain g p where g: "g \<in> set gs" "p \<in> set (snd g)" "i = pl_shard p" by auto
    then have "i = fst g" using member by simp
    then show "i \<in> fst ` set gs" using g(1) by simp
  qed
qed

lemma put_slot_stored:
  "shards_ok shards \<Longrightarrow> stored_at (put_slot i slot v shards) j =
     (if j = i then bt_insert slot v (stored_at shards i) else stored_at shards j)"
  by (simp add: put_slot_eq stored_at_insert shards_okD(1))

lemma put_all_keeps:
  "shards_ok shards \<Longrightarrow> placed shards ps \<Longrightarrow> slot \<notin> pl_slot ` set ps \<Longrightarrow>
     bt_get (stored_at (put_all ps shards) i) slot = bt_get (stored_at shards i) slot"
proof (induction ps arbitrary: shards)
  case (Cons p ps)
  let ?next = "put_slot (pl_shard p) (pl_slot p) (pl_value p) shards"
  have "bt_get (stored_at ?next i) slot = bt_get (stored_at shards i) slot"
    using Cons.prems by (simp add: put_slot_stored bt_get_insert bt_wf_stored)
  then show ?case using Cons.IH[of ?next] Cons.prems put_slot_ok by simp
qed simp

lemma put_all_stored:
  "shards_ok shards \<Longrightarrow> placed shards ps \<Longrightarrow> distinct (map pl_slot ps) \<Longrightarrow> p \<in> set ps \<Longrightarrow>
     bt_get (stored_at (put_all ps shards) (pl_shard p)) (pl_slot p) = Some (pl_value p)"
proof (induction ps arbitrary: shards)
  case (Cons q ps)
  let ?next = "put_slot (pl_shard q) (pl_slot q) (pl_value q) shards"
  have next_ok: "shards_ok ?next" using Cons.prems(1,2) put_slot_ok by simp
  show ?case
  proof (cases "p = q")
    case True
    have "pl_slot q \<notin> pl_slot ` set ps" using Cons.prems(3) by simp
    then show ?thesis
      using put_all_keeps[OF next_ok, of ps "pl_slot q" "pl_shard q"] Cons.prems True
      by (simp add: put_slot_stored bt_get_insert bt_wf_stored)
  next
    case False
    then show ?thesis using Cons.IH[OF next_ok] Cons.prems by simp
  qed
qed simp

text \<open>
  C37.  Whatever happens during an allocation, the shards it leaves behind, the slots it reports and the
  secrets GitHub accepted agree.  The reported slots are distinct pending slots; each is stored on its
  shard under the reported value, which was encrypted for the recipient when there is one, and no
  other slot changed its value.  A secret was written exactly for the shards of reported slots, and
  its text is the shard as it is left.  The shards stay disjoint, so no stale copy of a slot survives
  on another shard.  A run that succeeds reports every pending slot.
\<close>
theorem allocation_consistent:
  assumes "shards_ok shards" and "distinct (map rs_slot (needs_allocation report))"
    and "run = allocate_and_deliver_at env tg author report shards n"
    and "reported = ao_allocated (outcome_of run)"
  shows "shards_ok (br_shards run) \<and>
    distinct (map al_slot reported) \<and> al_slot ` set reported \<subseteq> rs_slot ` set (needs_allocation report) \<and>
    (\<forall>a \<in> set reported. bt_get (stored_at (br_shards run) (al_shard a)) (al_slot a) = Some (al_value a) \<and>
       delivered_to author (al_delivered a)) \<and>
    (\<forall>k. bt_get (merge_bundles (br_shards run)) k =
       (case find (\<lambda>a. al_slot a = k) reported of
          Some a \<Rightarrow> Some (al_value a) | None \<Rightarrow> bt_get (merge_bundles shards) k)) \<and>
    fst ` set (br_puts run) = shard_secret_name ` al_shard ` set reported \<and>
    (\<forall>put \<in> set (br_puts run). \<exists>i. fst put = shard_secret_name i \<and>
       serialize_bundle (be_json env) (stored_at (br_shards run) i) = Inr (snd put)) \<and>
    (is_ok (br_result run) \<longrightarrow> al_slot ` set reported = rs_slot ` set (needs_allocation report))"
proof -
  obtain gs ps where did: "run_did env author (needs_allocation report) shards run gs ps"
    using allocate_did[OF assms(1,2)] unfolding assms(3) by blast
  note d = did[unfolded run_did_def, THEN conjunct2] and groups = did[unfolded run_did_def, THEN conjunct1]
  have reported: "reported = map (\<lambda>p. allocated_of (pl_shard p) p) ps" using d assms(4) by simp
  have slots: "map al_slot reported = map pl_slot ps" by (simp add: reported allocated_of_def comp_def)
  have placed: "placed shards ps" using placed_distinct[OF assms(1), of ps] d by simp
  have ok: "shards_ok (br_shards run)" using put_all_ok[OF assms(1) placed] d by simp
  have get: "bt_get (merge_bundles (br_shards run)) k =
      (case find (\<lambda>a. al_slot a = k) reported of
         Some a \<Rightarrow> Some (al_value a) | None \<Rightarrow> bt_get (merge_bundles shards) k)" for k
  proof -
    have "bt_get (merge_bundles (br_shards run)) k =
        (case find (\<lambda>p. pl_slot p = k) ps of Some p \<Rightarrow> Some (pl_value p) | None \<Rightarrow> bt_get (merge_bundles shards) k)"
      using put_all_merged[OF assms(1) placed] fold_updates[of pl_slot ps pl_value "bt_get (merge_bundles shards)" k] d
      by simp
    then show ?thesis
      by (simp add: reported find_map comp_def allocated_of_def split: option.splits)
  qed
  have stored: "bt_get (stored_at (br_shards run) (pl_shard p)) (pl_slot p) = Some (pl_value p)" if "p \<in> set ps" for p
    using put_all_stored[OF assms(1) placed _ that] d by simp
  have w: "list_all2 (written env (br_shards run)) gs (br_puts run)" using d by blast
  have "fst ` set (br_puts run) = shard_secret_name ` fst ` set gs"
    using list_all2_image[OF w, of fst "\<lambda>g. shard_secret_name (fst g)"] by (simp add: written_def image_image)
  moreover have "fst ` set gs = pl_shard ` set ps"
    using grouped_shards[of gs] d groups by simp
  moreover have "al_shard ` set reported = pl_shard ` set ps" by (simp add: reported image_image allocated_of_def)
  ultimately have names: "fst ` set (br_puts run) = shard_secret_name ` al_shard ` set reported" by simp
  have bodies: "\<exists>i. fst put = shard_secret_name i \<and>
      serialize_bundle (be_json env) (stored_at (br_shards run) i) = Inr (snd put)" if "put \<in> set (br_puts run)" for put
    using list_all2_mono_member[OF w that] by (auto simp: written_def)
  have images: "al_slot ` set reported = pl_slot ` set ps" by (simp add: reported image_image allocated_of_def)
  have members: "\<forall>a \<in> set reported. bt_get (stored_at (br_shards run) (al_shard a)) (al_slot a) = Some (al_value a) \<and>
       delivered_to author (al_delivered a)"
    using stored d by (simp add: reported allocated_of_def)
  have distinct: "distinct (map pl_slot ps)" using d by blast
  have sub: "pl_slot ` set ps \<subseteq> rs_slot ` set (needs_allocation report)" using d by blast
  have complete: "is_ok (br_result run) \<longrightarrow> pl_slot ` set ps = rs_slot ` set (needs_allocation report)" using d by blast
  have merged: "\<forall>k. bt_get (merge_bundles (br_shards run)) k =
      (case find (\<lambda>a. al_slot a = k) reported of
         Some a \<Rightarrow> Some (al_value a) | None \<Rightarrow> bt_get (merge_bundles shards) k)"
    using get by (rule allI)
  have texts: "\<forall>put \<in> set (br_puts run). \<exists>i. fst put = shard_secret_name i \<and>
      serialize_bundle (be_json env) (stored_at (br_shards run) i) = Inr (snd put)"
    using bodies by (rule ballI)
  show ?thesis
    unfolding slots images by (intro conjI) (fact ok distinct sub members merged names texts complete)+
qed

section \<open>The values\<close>

text \<open>The documented form of a draw: unpadded base64url of that many bytes.\<close>

definition is_base64url_char :: "char \<Rightarrow> bool" where
  "is_base64url_char c \<longleftrightarrow> is_ascii_alphanumeric c \<or> c = CHR ''-'' \<or> c = CHR ''_''"

definition draws_base64url :: "(nat \<Rightarrow> nat \<Rightarrow> string) \<Rightarrow> bool" where
  "draws_base64url random \<longleftrightarrow>
     (\<forall>k n. length (random k n) = base64_chars n \<and> list_all is_base64url_char (random k n))"

lemma base64url_ascii: "is_base64url_char c \<Longrightarrow> is_ascii c"
  by (auto simp: is_base64url_char_def is_ascii_def is_ascii_alphanumeric_def is_ascii_digit_def is_ascii_alphabetic_def)

lemma base64_chars_eq: "base64_chars (3 * q + r) = (if r = 0 then 4 * q else 4 * q + r + 1)" if "r < 3" for r :: nat
proof -
  have "r = 0 \<or> r = 1 \<or> r = 2" using that by linarith
  moreover have "(3 * q + 1) mod 3 = 1" "(3 * q + 2) mod 3 = 2" by presburger+
  ultimately show ?thesis by (elim disjE) (simp_all add: base64_chars_def)
qed

lemma base64_chars_bounds:
  "16 \<le> n \<Longrightarrow> n \<le> 256 \<Longrightarrow> 22 \<le> base64_chars n \<and> base64_chars n \<le> 342"
  "24 \<le> n \<Longrightarrow> 32 \<le> base64_chars n"
proof -
  obtain q r where n: "n = 3 * q + r" "r < 3" by (metis mult_div_mod_eq mod_less_divisor zero_less_numeral)
  show "16 \<le> n \<Longrightarrow> n \<le> 256 \<Longrightarrow> 22 \<le> base64_chars n \<and> base64_chars n \<le> 342"
    and "24 \<le> n \<Longrightarrow> 32 \<le> base64_chars n"
    unfolding n(1) base64_chars_eq[OF n(2)] using n(2) by (auto split: if_splits)
qed

lemma set_trim: "set (trim v) \<subseteq> set v"
proof -
  have "set (trim_end_chars (trim_start_chars (utf8_chars v))) \<subseteq> set (utf8_chars v)"
    unfolding trim_end_chars_def trim_start_chars_def
    by (auto dest!: set_dropWhileD)
  then have "set (trim v) \<subseteq> set (concat (utf8_chars v))" unfolding trim_def set_concat by blast
  then show ?thesis by simp
qed

lemma placeholder_dollar: "parse_placeholder t \<noteq> None \<Longrightarrow> CHR ''$'' \<in> set t"
proof -
  assume "parse_placeholder t \<noteq> None"
  then obtain rest where "strip_prefix PLACEHOLDER_PREFIX t = Some rest"
    by (auto simp: parse_placeholder_def split: option.splits)
  then have "t = PLACEHOLDER_PREFIX @ rest" by (simp add: strip_prefix_Some)
  then show ?thesis by (simp add: PLACEHOLDER_PREFIX_def)
qed

lemma lower_dollar: "ascii_lower_char c = CHR ''$'' \<Longrightarrow> c = CHR ''$''"
  by (auto simp: ascii_lower_char_def split: if_splits dest: arg_cong[where f = "of_char :: char \<Rightarrow> nat"])

lemma fixed_member: "c \<in> set xs \<Longrightarrow> f c = c \<Longrightarrow> map f ys = map f xs \<Longrightarrow> c \<in> set (map f ys)"
  by (drule imageI[where f = f]) simp

lemma prefix_dollar:
  assumes "eq_ignore_ascii_case (take n t) PLACEHOLDER_PREFIX"
  shows "CHR ''$'' \<in> set t"
proof -
  have "CHR ''$'' \<in> set PLACEHOLDER_PREFIX" by (simp add: PLACEHOLDER_PREFIX_def)
  moreover have "ascii_lower_char CHR ''$'' = CHR ''$''" by (simp add: ascii_lower_char_def)
  moreover have "map ascii_lower_char (take n t) = map ascii_lower_char PLACEHOLDER_PREFIX"
    using assms by (simp only: eq_ignore_ascii_case_def to_ascii_lowercase_def)
  ultimately have "CHR ''$'' \<in> set (map ascii_lower_char (take n t))" by (rule fixed_member[where f = ascii_lower_char and xs = PLACEHOLDER_PREFIX])
  then obtain c where c: "c \<in> set (take n t)" "ascii_lower_char c = CHR ''$''" by auto
  show ?thesis using in_set_takeD[OF c(1)] lower_dollar[OF c(2)] by simp
qed

lemma base64url_not_placeholder:
  assumes "list_all is_base64url_char v" and "parse_placeholder committed \<noteq> None"
  shows "placeholder_text_reason committed v = None"
proof -
  have "\<not> is_base64url_char CHR ''$''"
    by (simp add: is_base64url_char_def is_ascii_alphanumeric_def is_ascii_digit_def is_ascii_alphabetic_def)
  then have "CHR ''$'' \<notin> set v" using assms(1) by (auto simp: list_all_iff)
  then have none: "CHR ''$'' \<notin> set (trim v)" using set_trim[of v] by blast
  have "trim v \<noteq> committed" using none placeholder_dollar[OF assms(2)] by metis
  moreover have "parse_placeholder (trim v) = None" using none placeholder_dollar[of "trim v"] by metis
  moreover have "\<not> eq_ignore_ascii_case (take (length PLACEHOLDER_PREFIX) (trim v)) PLACEHOLDER_PREFIX"
    using none prefix_dollar by metis
  ultimately show ?thesis by (simp add: placeholder_text_reason_def Let_def)
qed

lemma generation_allowed_length:
  "check_generation_allowed slot cred_type n mode = Inr () \<Longrightarrow> 16 \<le> n \<and> n \<le> 256"
  by (auto simp: check_generation_allowed_def Let_def bind_result_Inr_iff split: option.splits if_splits)

lemma generated_value:
  assumes "generate_credential_value_with_mode slot len cred_type mode (random k len) = Inr v"
    and "draws_base64url random"
  shows "16 \<le> len \<and> len \<le> 256 \<and> length v = base64_chars len \<and> list_all is_base64url_char v"
proof -
  have "check_generation_allowed slot cred_type len mode = Inr ()" "v = random k len"
    using assms(1)
    by (cases "check_generation_allowed slot cred_type len mode";
        auto simp: generate_credential_value_with_mode_def Let_def split: if_splits)+
  then show ?thesis using generation_allowed_length assms(2) unfolding draws_base64url_def by metis
qed

lemma generated_usable:
  assumes "generate_credential_value_with_mode slot len cred_type mode (random k len) = Inr v"
    and "draws_base64url random"
  shows "v \<noteq> REDACTED_SENTINEL \<and> check_min_secret_length slot' v = Inr () \<and>
    (parse_placeholder committed \<noteq> None \<longrightarrow> check_consumer_secret_not_placeholder_text slot' committed v = Inr ())"
proof -
  note v = generated_value[OF assms]
  have "\<not> is_base64url_char CHR ''[''"
    by (simp add: is_base64url_char_def is_ascii_alphanumeric_def is_ascii_digit_def is_ascii_alphabetic_def)
  then have "v \<noteq> REDACTED_SENTINEL" using v by (auto simp: REDACTED_SENTINEL_def)
  moreover have "22 \<le> length v" using v base64_chars_bounds(1) by simp
  ultimately show ?thesis
    using v base64url_not_placeholder[of v committed]
    by (auto simp: check_min_secret_length_def MIN_SCRUB_LENGTH_def check_consumer_secret_not_placeholder_text_def)
qed

text \<open>
  What an allocation stores is fit to be resolved.  With draws in the documented form, every slot a
  run reports is found by the next resolution in the merged bundle with the reported value, whose
  length is the base64url length of between 16 and 256 bytes; the value is never the sentinel, never
  too short to be removed from output, and never placeholder text.
\<close>
theorem allocated_values_usable:
  assumes "shards_ok shards" and "distinct (map rs_slot (needs_allocation report))"
    and "draws_base64url (be_random env)"
    and "run = allocate_and_deliver_at env tg author report shards n"
    and "a \<in> set (ao_allocated (outcome_of run))" and "parse_placeholder committed \<noteq> None"
  shows "lookup_exact_slot_value (al_slot a) (merge_bundles (br_shards run)) = Inr (Some (al_value a)) \<and>
    check_consumer_secret_not_placeholder_text (al_slot a) committed (al_value a) = Inr () \<and>
    22 \<le> length (al_value a) \<and> length (al_value a) \<le> 342"
proof -
  obtain gs ps where did: "run_did env author (needs_allocation report) shards run gs ps"
    using allocate_did[OF assms(1,2)] unfolding assms(4) by blast
  note d = did[unfolded run_did_def, THEN conjunct2]
  obtain p where p: "p \<in> set ps" "a = allocated_of (pl_shard p) p" using d assms(5) by auto
  have "generated env p" using d p(1) by blast
  then obtain k len cred_type mode where
    v: "generate_credential_value_with_mode (pl_slot p) len cred_type mode (be_random env k len) = Inr (pl_value p)"
    unfolding generated_def by blast
  have placed: "placed shards ps" using placed_distinct[OF assms(1), of ps] d by simp
  have "find (\<lambda>q. pl_slot q = pl_slot p) ps = Some p"
    using find_distinct[of pl_slot ps p] d p(1) by simp
  then have "bt_get (merge_bundles (br_shards run)) (pl_slot p) = Some (pl_value p)"
    using put_all_merged[OF assms(1) placed] fold_updates[of pl_slot ps pl_value _ "pl_slot p"] d by simp
  then show ?thesis
    using generated_usable[OF v assms(3)] generated_value[OF v assms(3)] base64_chars_bounds(1)[of len] assms(6)
    by (simp add: lookup_exact_slot_value_def p(2) allocated_of_def)
qed

section \<open>Rotation\<close>

lemma map_sum_Inr_iff: "map_sum f g r = Inr y \<longleftrightarrow> (\<exists>x. r = Inr x \<and> y = g x)"
  by (cases r) auto

text \<open>
  C38.  A rotation either refuses and leaves the shards and GitHub alone, or it replaces exactly one
  value: the slot is one that may be rotated, its new value is generated within the policy and was
  encrypted for the recipient before the only write, the secret written is the shard it lives on,
  every other slot keeps its value, and no stale copy remains on another shard.
\<close>
theorem rotation_atomic:
  assumes "shards_ok shards"
  shows "let run = rotate_and_deliver_at env tg login slot len shards n in
    case br_result run of
      Inl failure \<Rightarrow> br_shards run = shards \<and> br_puts run = [] \<and> ao_allocated (af_partial failure) = []
    | Inr a \<Rightarrow>
        check_rotation_allowed slot len ApiMode = Inr () \<and> al_slot a = slot \<and>
        al_value a = be_random env 0 len \<and> delivered_to login (al_delivered a) \<and>
        shards_ok (br_shards run) \<and> br_shards run = put_slot (al_shard a) slot (al_value a) shards \<and>
        bt_get (merge_bundles (br_shards run)) = (bt_get (merge_bundles shards))(slot \<mapsto> al_value a) \<and>
        map fst (br_puts run) = [shard_secret_name (al_shard a)] \<and>
        map (\<lambda>put. Inr (snd put)) (br_puts run) =
          [serialize_bundle (be_json env) (stored_at (br_shards run) (al_shard a))]"
proof (cases "br_result (rotate_and_deliver_at env tg login slot len shards n)")
  case (Inl failure)
  then show ?thesis
    by (auto simp: rotate_and_deliver_at_def Let_def refused_def stopped_def with_partial_def outcome_default_def
        split: sum.splits prod.splits)
next
  case (Inr a)
  let ?run = "rotate_and_deliver_at env tg login slot len shards n"
  obtain mode v where mode: "be_mode env = Inr mode" "check_rotation_allowed slot len mode = Inr ()"
      "generate_credential_value_with_mode slot len None mode (be_random env 0 len) = Inr v"
    using Inr by (auto simp: rotate_and_deliver_at_def Let_def refused_def stopped_def bind_result_Inr_iff
        split: sum.splits prod.splits)
  obtain shard m where shard: "reserve_shard (be_json env) (be_sha256 env) slot (length v) shards n ''rotating'' = (Inr shard, m)"
    using Inr mode by (auto simp: rotate_and_deliver_at_def Let_def refused_def stopped_def
        split: sum.splits prod.splits)
  define staged where "staged = bt_insert slot v (stored_at shards shard)"
  obtain serialized pubkey delivered where writes:
      "serialize_bundle (be_json env) staged = Inr serialized"
      "rotation_delivery env (tg_api_base tg) login slot v = Inr delivered"
      "put_environment_secret_at (be_http env) tg (shard_secret_name shard) serialized pubkey = Inr ()"
      "fetch_public_key_at (be_http env) tg = Inr pubkey"
    using Inr mode shard unfolding staged_def stored_at_def
    by (auto simp: rotate_and_deliver_at_def Let_def refused_def stopped_def bind_result_Inr_iff map_sum_Inr_iff
        split: sum.splits prod.splits)
  have run: "?run = \<lparr>br_result = Inr \<lparr>al_slot = slot, al_shard = shard, al_value = v, al_alloc = Rotate,
        al_delivered = delivered\<rparr>,
      br_shards = put_slot shard slot v shards, br_shard_count = m,
      br_puts = [(shard_secret_name shard, serialized)]\<rparr>"
    using mode shard writes unfolding staged_def stored_at_def
    by (simp add: rotate_and_deliver_at_def Let_def put_slot_def)
  have "mode = ApiMode" using mode(2) by (auto simp: check_rotation_allowed_def bind_result_Inr_iff split: if_splits)
  moreover have "v = be_random env 0 len"
    using mode(3) by (auto simp: generate_credential_value_with_mode_def bind_result_Inr_iff Let_def split: if_splits)
  moreover have "delivered_to login delivered"
    using writes(2)
    by (auto simp: rotation_delivery_def delivered_to_def bind_result_Inr_iff map_sum_Inr_iff encrypt_def discover_recipient_at_def
        split: option.splits if_splits)
  moreover have "stored_at (put_slot shard slot v shards) shard = staged"
    by (simp add: staged_def put_slot_stored[OF assms])
  ultimately show ?thesis
    using run mode(2) writes(1) reserve_free[OF assms shard] put_slot_ok[OF assms] put_slot_merged[OF assms]
    by (simp add: Let_def)
qed

section \<open>A sample run\<close>

definition sample_broker :: broker_env where
  "sample_broker = \<lparr>
     be_ssh = \<lparr>se_parse_url = (\<lambda>_. None), se_per_page = id, se_get = (\<lambda>_ _. Inl ''offline''),
       se_relation_ok = (\<lambda>_. False), se_compatible = (\<lambda>_. False), se_fingerprint = (\<lambda>_. None),
       se_encrypt = (\<lambda>_ v. Inr v)\<rparr>,
     be_http = \<lparr>
       gh_get = (\<lambda>_. Inr \<lparr>ar_status = 200, ar_error_body = [],
         ar_public_key = Inr \<lparr>pk_key_id = ''1'', pk_key = ''k''\<rparr>\<rparr>),
       gh_put = (\<lambda>_ _. Inr \<lparr>ar_status = 204, ar_error_body = [], ar_public_key = Inl ''no body''\<rparr>),
       gh_decode = (\<lambda>_. Inr (replicate 32 (CHR ''k''))), gh_encode = id, gh_seal = (\<lambda>_ v. Inr v)\<rparr>,
     be_json = sample_json, be_sha256 = (\<lambda>_. replicate 32 0),
     be_random = (\<lambda>_ n. replicate (base64_chars n) (CHR ''A'')), be_mode = Inr ApiMode\<rparr>"

definition sample_target :: secret_target where
  "sample_target = \<lparr>tg_api_base = ''https://api.github.com'', tg_repo = ''o/r'', tg_environment = ''prod'',
     tg_token = ''token''\<rparr>"

definition sample_pending :: resolve_report where
  "sample_pending = empty_report\<lparr>rr_results :=
     [\<lparr>rs_consumer_id = ''web'', rs_namespace = ''ns'', rs_cred_key = ''keyauth/key'', rs_slot = ''ns/web/keyauth/key'',
       rs_placeholder = \<lparr>sp_alloc = Generate, sp_length_bytes = 32\<rparr>, rs_status = NeedsAllocation\<rparr>]\<rparr>"

definition sample_run :: "allocate_outcome broker_run" where
  "sample_run = allocate_and_deliver_at sample_broker sample_target None sample_pending sample_shards 1"

lemma sample_reported: "map al_slot (ao_allocated (outcome_of sample_run)) = [''ns/web/keyauth/key'']"
  by code_simp

lemma sample_distinct: "distinct (map rs_slot (needs_allocation sample_pending))"
  by code_simp

lemma sample_draws: "draws_base64url (be_random sample_broker)"
  by (auto simp: draws_base64url_def sample_broker_def is_base64url_char_def is_ascii_alphanumeric_def
      is_ascii_alphabetic_def list_all_iff)

theorem allocation_consistent_witness:
  "shards_ok (br_shards sample_run) \<and>
   map al_slot (ao_allocated (outcome_of sample_run)) = [''ns/web/keyauth/key''] \<and>
   fst ` set (br_puts sample_run) = shard_secret_name ` al_shard ` set (ao_allocated (outcome_of sample_run))"
  using allocation_consistent[OF sample_shards_ok sample_distinct sample_run_def refl] sample_reported by blast

theorem allocated_values_usable_witness:
  "lookup_exact_slot_value (al_slot (hd (ao_allocated (outcome_of sample_run)))) (merge_bundles (br_shards sample_run)) =
     Inr (Some (al_value (hd (ao_allocated (outcome_of sample_run)))))"
proof -
  have "hd (ao_allocated (outcome_of sample_run)) \<in> set (ao_allocated (outcome_of sample_run))"
    using sample_reported by (intro hd_in_set) auto
  moreover have "parse_placeholder ''${gh-env-secret:}'' \<noteq> None" by code_simp
  ultimately show ?thesis
    using allocated_values_usable[OF sample_shards_ok sample_distinct sample_draws sample_run_def] by blast
qed

theorem rotation_atomic_witness:
  "let run = rotate_and_deliver_at sample_broker sample_target None ''ns/app/keyauth/key'' 32 sample_shards 1 in
    case br_result run of
      Inl failure \<Rightarrow> False
    | Inr a \<Rightarrow> br_shards run = put_slot (al_shard a) ''ns/app/keyauth/key'' (al_value a) sample_shards"
proof -
  let ?run = "rotate_and_deliver_at sample_broker sample_target None ''ns/app/keyauth/key'' 32 sample_shards 1"
  have "is_ok (br_result ?run)" by code_simp
  then obtain a where a: "br_result ?run = Inr a" by (cases "br_result ?run") simp_all
  show ?thesis
    using rotation_atomic[OF sample_shards_ok, of sample_broker sample_target None "''ns/app/keyauth/key''" 32 1]
    unfolding Let_def a by simp
qed

end
