(* ===== verification/Breaking_Facts.thy ===== *)
theory Breaking_Facts
  imports Breaking Catalog_Facts
begin

text \<open>
  What the breaking-change report guarantees: no authenticator leaves a surviving proxy without a
  finding, and every finding of lost authentication is real.  The state after the apply is first
  pinned down row by row.
\<close>

section \<open>The projection\<close>

abbreviation plugin_key :: "plugin_config \<Rightarrow> string \<times> string" where
  "plugin_key p \<equiv> (pc_namespace p, pc_id p)"

lemma plugin_row_SomeD:
  "plugin_row ps ns rid = Some p \<Longrightarrow> p \<in> set ps \<and> plugin_key p = (ns, rid)"
  by (auto simp: plugin_row_def find_Some_iff)

lemma plugin_row_None_iff: "plugin_row ps ns rid = None \<longleftrightarrow> (ns, rid) \<notin> plugin_key ` set ps"
  by (auto simp: plugin_row_def find_None_iff)

lemma plugin_row_member:
  assumes "distinct (map plugin_key ps)" and "p \<in> set ps"
  shows "plugin_row ps (pc_namespace p) (pc_id p) = Some p"
proof -
  obtain q where q: "plugin_row ps (pc_namespace p) (pc_id p) = Some q"
    using assms(2) plugin_row_None_iff[of ps "pc_namespace p" "pc_id p"]
    by (cases "plugin_row ps (pc_namespace p) (pc_id p)") auto
  then have "q \<in> set ps" "plugin_key q = plugin_key p" by (auto dest: plugin_row_SomeD)
  then have "q = p" using assms by (auto simp: distinct_map dest: inj_onD)
  then show ?thesis using q by simp
qed

lemma plugin_row_append:
  "plugin_row (ps @ qs) ns rid = (case plugin_row ps ns rid of Some p \<Rightarrow> Some p | None \<Rightarrow> plugin_row qs ns rid)"
  unfolding plugin_row_def by (induction ps) auto

definition projected_row ::
    "resource_diff list \<Rightarrow> gateway_config \<Rightarrow> gateway_config \<Rightarrow> string \<Rightarrow> string \<Rightarrow> plugin_config option" where
  "projected_row ds desired actual ns rid =
     (case diff_action_of ds ''PluginConfig'' ns rid of
        Some Delete \<Rightarrow> None
      | Some _ \<Rightarrow> (case plugin_row (gc_plugin_configs desired) ns rid of
                    Some p \<Rightarrow> Some p | None \<Rightarrow> plugin_row (gc_plugin_configs actual) ns rid)
      | None \<Rightarrow> (case plugin_row (gc_plugin_configs actual) ns rid of
                    Some p \<Rightarrow> Some p | None \<Rightarrow> plugin_row (gc_plugin_configs desired) ns rid))"

lemma project_declared_key: "q \<in> set (project_declared ds actual p) \<Longrightarrow> plugin_key q = plugin_key p"
  by (auto simp: project_declared_def split: option.splits diff_action.splits dest: plugin_row_SomeD)

lemma project_declared_row:
  assumes "plugin_row (gc_plugin_configs desired) (pc_namespace p) (pc_id p) = Some p"
  shows "project_declared ds actual p =
    (case projected_row ds desired actual (pc_namespace p) (pc_id p) of Some q \<Rightarrow> [q] | None \<Rightarrow> [])"
  using assms
  by (auto simp: project_declared_def projected_row_def split: option.splits diff_action.splits)

lemma row_of_declared:
  assumes "\<And>p. p \<in> set ps \<Longrightarrow> plugin_row (gc_plugin_configs desired) (pc_namespace p) (pc_id p) = Some p"
  shows "plugin_row (concat (map (project_declared ds actual) ps)) ns rid =
    (if (ns, rid) \<in> plugin_key ` set ps then projected_row ds desired actual ns rid else None)"
  using assms
proof (induction ps)
  case Nil
  then show ?case by (simp add: plugin_row_def)
next
  case (Cons p ps)
  have IH: "plugin_row (concat (map (project_declared ds actual) ps)) ns rid =
      (if (ns, rid) \<in> plugin_key ` set ps then projected_row ds desired actual ns rid else None)"
    by (rule Cons.IH) (simp add: Cons.prems)
  have row: "project_declared ds actual p =
      (case projected_row ds desired actual (pc_namespace p) (pc_id p) of Some q \<Rightarrow> [q] | None \<Rightarrow> [])"
    by (rule project_declared_row) (simp add: Cons.prems)
  show ?case
  proof (cases "projected_row ds desired actual (pc_namespace p) (pc_id p)")
    case None
    then show ?thesis using IH row by (auto simp: plugin_row_append)
  next
    case (Some q)
    then have "plugin_key q = plugin_key p" using project_declared_key[of q ds actual p] row by simp
    then show ?thesis using IH row Some by (auto simp: plugin_row_append plugin_row_def)
  qed
qed

lemma filtered_row:
  assumes "\<And>p q. plugin_key p = plugin_key q \<Longrightarrow> P p = P q"
  shows "plugin_row (filter P ps) ns rid =
    (case plugin_row ps ns rid of Some p \<Rightarrow> if P p then Some p else None | None \<Rightarrow> None)"
proof (induction ps)
  case (Cons p ps)
  show ?case
  proof (cases "plugin_key p = (ns, rid)")
    case True
    have "P q = P p" if "plugin_row ps ns rid = Some q" for q
      by (rule assms) (use plugin_row_SomeD[OF that] True in simp)
    then show ?thesis using True Cons.IH unfolding plugin_row_def by (cases "P p") (auto split: option.splits)
  next
    case False
    then show ?thesis using Cons.IH unfolding plugin_row_def by (cases "P p") auto
  qed
qed (simp add: plugin_row_def)

text \<open>
  The configurations the report takes for the gateway's state after the apply are that state:
  a row the diff deletes is gone, a row it adds or modifies has the declared contents, and every
  other live row, declared or not, is unchanged.
\<close>

theorem projection_exact:
  assumes "distinct (map plugin_key (gc_plugin_configs desired))"
  shows "plugin_row (projected_plugin_configs ds desired actual) ns rid =
    (case diff_action_of ds ''PluginConfig'' ns rid of
       Some Delete \<Rightarrow> None
     | Some _ \<Rightarrow> (case plugin_row (gc_plugin_configs desired) ns rid of
                   Some p \<Rightarrow> Some p | None \<Rightarrow> plugin_row (gc_plugin_configs actual) ns rid)
     | None \<Rightarrow> (case plugin_row (gc_plugin_configs actual) ns rid of
                   Some p \<Rightarrow> Some p | None \<Rightarrow> plugin_row (gc_plugin_configs desired) ns rid))"
proof -
  have declared: "plugin_row (concat (map (project_declared ds actual) (gc_plugin_configs desired))) ns rid =
      (if (ns, rid) \<in> plugin_key ` set (gc_plugin_configs desired) then projected_row ds desired actual ns rid
       else None)"
    by (rule row_of_declared) (rule plugin_row_member[OF assms])
  have undeclared: "plugin_row (filter (survives_undeclared ds desired) (gc_plugin_configs actual)) ns rid =
      (case plugin_row (gc_plugin_configs actual) ns rid of
         Some p \<Rightarrow> if survives_undeclared ds desired p then Some p else None | None \<Rightarrow> None)"
    by (rule filtered_row) (simp add: survives_undeclared_def)
  have survives: "survives_undeclared ds desired p \<longleftrightarrow>
      (ns, rid) \<notin> plugin_key ` set (gc_plugin_configs desired) \<and>
      diff_action_of ds ''PluginConfig'' ns rid \<noteq> Some Delete"
    if "plugin_row (gc_plugin_configs actual) ns rid = Some p" for p
    using plugin_row_SomeD[OF that] by (auto simp: survives_undeclared_def list_ex_iff image_iff)
  have "plugin_row (projected_plugin_configs ds desired actual) ns rid = projected_row ds desired actual ns rid"
  proof (cases "(ns, rid) \<in> plugin_key ` set (gc_plugin_configs desired)")
    case True
    then show ?thesis using survives
      by (auto simp: projected_plugin_configs_def plugin_row_append declared undeclared split: option.splits)
  next
    case False
    then have "plugin_row (gc_plugin_configs desired) ns rid = None" by (simp add: plugin_row_None_iff)
    then show ?thesis using survives False
      by (auto simp: projected_plugin_configs_def plugin_row_append declared undeclared projected_row_def
          split: option.splits diff_action.splits)
  qed
  then show ?thesis by (simp add: projected_row_def)
qed

section \<open>Authenticators\<close>

definition authenticates :: "gateway_config \<Rightarrow> proxy \<Rightarrow> auth_allowlist \<Rightarrow> plugin_config \<Rightarrow> bool" where
  "authenticates config proxy auth plugin \<longleftrightarrow>
     listener_can_establish_identity proxy \<and> is_effective config proxy plugin \<and>
     allowlist_contains auth (pc_plugin_name plugin) \<and> runs_on_listener proxy auth plugin"

lemma set_running:
  "plugin \<in> set (running (auth_coverage_of config proxy auth)) \<longleftrightarrow>
     is_effective config proxy plugin \<and> allowlist_contains auth (pc_plugin_name plugin) \<and>
     runs_on_listener proxy auth plugin"
  by (auto simp: running_def coverage_fields set_effective_plugins)

lemma push_provider_names: "fst ` set (push_provider p es) = insert (pc_plugin_name p) (fst ` set es)"
  by (induction es) auto

lemma fold_push_names:
  "fst ` set (fold push_provider ps es) = pc_plugin_name ` set ps \<union> fst ` set es"
  by (induction ps arbitrary: es) (auto simp: push_provider_names)

lemma push_provider_ids:
  assumes "e \<in> set (push_provider p es)" and "i \<in> set (snd e)"
  shows "(fst e = pc_plugin_name p \<and> i = pc_id p) \<or> (\<exists>ids. (fst e, ids) \<in> set es \<and> i \<in> set ids)"
  using assms
proof (induction es)
  case (Cons a es)
  show ?case
  proof (cases "fst a = pc_plugin_name p")
    case True
    then have "e = (fst a, snd a @ [pc_id p]) \<or> e \<in> set es" using Cons.prems(1) by simp
    then show ?thesis using True Cons.prems(2) by (cases a, cases e) auto
  next
    case False
    then have "e = a \<or> e \<in> set (push_provider p es)" using Cons.prems(1) by simp
    then show ?thesis using Cons.IH Cons.prems(2) by (cases a, cases e) auto
  qed
qed simp

lemma push_provider_keeps:
  assumes "(n, ids) \<in> set es" and "i \<in> set ids" and "distinct (map fst es)"
  shows "\<exists>ids'. (n, ids') \<in> set (push_provider p es) \<and> i \<in> set ids'"
  using assms by (induction es) force+

lemma push_provider_distinct: "distinct (map fst es) \<Longrightarrow> distinct (map fst (push_provider p es))"
proof (induction es)
  case (Cons a es)
  show ?case
  proof (cases "fst a = pc_plugin_name p")
    case True
    then show ?thesis using Cons.prems by simp
  next
    case False
    have "fst a \<notin> fst ` set (push_provider p es)" using Cons.prems False unfolding push_provider_names by auto
    then show ?thesis using Cons False by simp
  qed
qed simp

lemma push_provider_adds: "\<exists>ids. (pc_plugin_name p, ids) \<in> set (push_provider p es) \<and> pc_id p \<in> set ids"
  by (induction es) auto

lemma fold_push_keeps:
  assumes "(n, ids) \<in> set es" and "i \<in> set ids" and "distinct (map fst es)"
  shows "\<exists>ids'. (n, ids') \<in> set (fold push_provider ps es) \<and> i \<in> set ids'"
  using assms
proof (induction ps arbitrary: es ids)
  case (Cons p ps)
  obtain ids' where "(n, ids') \<in> set (push_provider p es)" "i \<in> set ids'"
    using push_provider_keeps[OF Cons.prems] by blast
  then show ?case using Cons.IH[OF _ _ push_provider_distinct[OF Cons.prems(3)]] by simp
qed auto

lemma fold_push_provider:
  assumes "p \<in> set ps" and "distinct (map fst es)"
  shows "\<exists>ids. (pc_plugin_name p, ids) \<in> set (fold push_provider ps es) \<and> pc_id p \<in> set ids"
  using assms
proof (induction ps arbitrary: es)
  case (Cons q ps)
  show ?case
  proof (cases "p = q")
    case True
    obtain ids where "(pc_plugin_name q, ids) \<in> set (push_provider q es)" "pc_id q \<in> set ids"
      using push_provider_adds by blast
    then show ?thesis using fold_push_keeps[OF _ _ push_provider_distinct[OF Cons.prems(2)]] True by simp
  next
    case False
    then show ?thesis using Cons.IH[OF _ push_provider_distinct[OF Cons.prems(2)]] Cons.prems(1) by simp
  qed
qed simp

lemma running_names:
  "fst ` set (running_authenticators (auth_coverage_of config proxy auth)) =
     pc_plugin_name ` {plugin. authenticates config proxy auth plugin}"
  by (auto simp: running_authenticators_def coverage_fields fold_push_names authenticates_def set_running)

lemma running_entry:
  assumes "authenticates config proxy auth plugin"
  obtains ids where "(pc_plugin_name plugin, ids) \<in> set (running_authenticators (auth_coverage_of config proxy auth))"
    and "pc_id plugin \<in> set ids"
proof -
  have "plugin \<in> set (running (auth_coverage_of config proxy auth))" "listener_can_establish_identity proxy"
    using assms by (auto simp: authenticates_def set_running)
  then show thesis using that fold_push_provider[of plugin _ "[]"]
    unfolding running_authenticators_def coverage_fields by fastforce
qed

section \<open>Findings of the changed rows\<close>

lemma breaking_step_keeps:
  "set (fst acc) \<subseteq> set (fst (breaking_step desired actual auth d acc))"
  by (auto simp: breaking_step_def Let_def split: diff_action.splits)

lemma breaking_step_reported:
  assumes "k \<in> snd (breaking_step desired actual auth d acc)"
  shows "k \<in> snd acc \<or> rd_kind d = ''PluginConfig'' \<and> k = (rd_namespace d, rd_id d) \<and>
    (\<exists>b \<in> set (fst (breaking_step desired actual auth d acc)). bc_kind b = ''PluginConfig'' \<and> bc_id b = rd_id d)"
proof -
  have modify: "\<exists>b \<in> set found. bc_kind b = ''PluginConfig'' \<and> bc_id b = rd_id d"
    if "found = check_auth_plugin_modify d desired actual auth" "found \<noteq> []" for found
    using that by (auto simp: check_auth_plugin_modify_def split: option.splits if_splits)
  show ?thesis
    using assms modify[OF refl] unfolding breaking_step_def Let_def
    by (cases "rd_action d") (auto split: if_splits)
qed

definition reports_plugin :: "resource_diff list \<Rightarrow> breaking_change list \<Rightarrow> string \<Rightarrow> string \<Rightarrow> bool" where
  "reports_plugin ds found ns rid \<longleftrightarrow>
     (\<exists>d \<in> set ds. rd_kind d = ''PluginConfig'' \<and> rd_namespace d = ns \<and> rd_id d = rid) \<and>
     (\<exists>b \<in> set found. bc_kind b = ''PluginConfig'' \<and> bc_id b = rid)"

lemma fold_reported:
  assumes "(ns, rid) \<in> snd (fold (breaking_step desired actual auth) ds acc)"
  shows "(ns, rid) \<in> snd acc \<or> reports_plugin ds (fst (fold (breaking_step desired actual auth) ds acc)) ns rid"
  using assms
proof (induction ds arbitrary: acc)
  case (Cons d ds)
  let ?acc = "breaking_step desired actual auth d acc"
  have keeps: "set (fst acc) \<subseteq> set (fst (fold (breaking_step desired actual auth) es acc))" for es acc
  proof (induction es arbitrary: acc)
    case (Cons e es)
    then show ?case using breaking_step_keeps[of acc desired actual auth e] by (simp add: subset_trans)
  qed simp
  have "(ns, rid) \<in> snd ?acc \<or> reports_plugin ds (fst (fold (breaking_step desired actual auth) ds ?acc)) ns rid"
    by (rule Cons.IH) (use Cons.prems in simp)
  then show ?case
  proof
    assume "(ns, rid) \<in> snd ?acc"
    from breaking_step_reported[OF this] show ?thesis
      using keeps[of ?acc ds] by (auto simp: reports_plugin_def)
  next
    assume "reports_plugin ds (fst (fold (breaking_step desired actual auth) ds ?acc)) ns rid"
    then show ?thesis by (auto simp: reports_plugin_def)
  qed
qed simp

text \<open>
  C22.  No loss of authentication goes unreported.  Take a live proxy the diff does not delete and a
  plugin that authenticates its requests today.  Either the state after the apply still runs an
  authenticator of that name on the proxy, or the report names the proxy and the lost authenticator,
  or it names that plugin configuration, which the diff deletes or modifies.  Conversely, every
  finding of the coverage check is about a surviving proxy that runs the authenticator before the
  apply and none of that name afterwards.
\<close>

theorem authenticator_loss_reported:
  assumes "auth = effective_auth_allowlist policy"
    and "report = detect_breaking_changes_with_policy ds desired actual policy"
    and "after_state = projected_config ds desired actual"
  shows "(\<forall>live \<in> set (gc_proxies actual). \<forall>plugin later.
      after_proxy ds desired live = Some later \<and> authenticates actual live auth plugin \<longrightarrow>
        (\<exists>q. authenticates after_state later auth q \<and> pc_plugin_name q = pc_plugin_name plugin) \<or>
        (\<exists>consequence. loses_authenticator live (pc_plugin_name plugin) consequence \<in> set report) \<or>
        reports_plugin ds report (p_namespace live) (pc_id plugin)) \<and>
    (\<forall>b \<in> set (check_proxy_auth_coverage ds desired actual auth reported).
      \<exists>live \<in> set (gc_proxies actual). \<exists>later plugin consequence.
        after_proxy ds desired live = Some later \<and> authenticates actual live auth plugin \<and>
        b = loses_authenticator live (pc_plugin_name plugin) consequence \<and>
        (\<nexists>q. authenticates after_state later auth q \<and> pc_plugin_name q = pc_plugin_name plugin))"
proof (intro conjI ballI allI impI)
  fix live plugin later
  assume live: "live \<in> set (gc_proxies actual)"
    and "after_proxy ds desired live = Some later \<and> authenticates actual live auth plugin"
  then have later: "after_proxy ds desired live = Some later" and runs: "authenticates actual live auth plugin"
    by auto
  obtain found reported where folded: "fold (breaking_step desired actual auth) ds ([], {}) = (found, reported)"
    by fastforce
  have report: "report = found @ check_proxy_auth_coverage ds desired actual auth reported"
    using assms(1,2) folded by (simp add: detect_breaking_changes_with_policy_def)
  obtain ids where ids: "(pc_plugin_name plugin, ids) \<in>
      set (running_authenticators (auth_coverage_of actual live auth))" "pc_id plugin \<in> set ids"
    using running_entry[OF runs] .
  let ?after = "auth_coverage_of after_state later auth"
  let ?lost = "loses_authenticator live (pc_plugin_name plugin)
      (coverage_consequence (auth_coverage_of actual live auth) ?after)"
  show "(\<exists>q. authenticates after_state later auth q \<and> pc_plugin_name q = pc_plugin_name plugin) \<or>
      (\<exists>consequence. loses_authenticator live (pc_plugin_name plugin) consequence \<in> set report) \<or>
      reports_plugin ds report (p_namespace live) (pc_id plugin)"
  proof (cases "pc_plugin_name plugin \<in> fst ` set (running_authenticators ?after)")
    case True
    then show ?thesis unfolding running_names by auto
  next
    case gone: False
    show ?thesis
    proof (cases "list_all (\<lambda>i. (p_namespace live, i) \<in> reported) ids")
      case True
      then have "(p_namespace live, pc_id plugin) \<in> reported" using ids(2) by (simp add: list_all_iff)
      then have "reports_plugin ds found (p_namespace live) (pc_id plugin)"
        using fold_reported[of "p_namespace live" "pc_id plugin" desired actual auth ds "([], {})"] folded by simp
      then show ?thesis using report by (auto simp: reports_plugin_def)
    next
      case False
      then have "?lost \<in> set (lost_authenticators auth reported actual after_state live later)"
        using ids(1) gone unfolding lost_authenticators_def Let_def set_map set_filter by force
      then have "?lost \<in> set report"
        using live later unfolding report check_proxy_auth_coverage_def assms(3) by force
      then show ?thesis by blast
    qed
  qed
next
  fix b assume "b \<in> set (check_proxy_auth_coverage ds desired actual auth reported)"
  then obtain live where l: "live \<in> set (gc_proxies actual)"
      "b \<in> set (case after_proxy ds desired live of None \<Rightarrow> []
        | Some later \<Rightarrow> lost_authenticators auth reported actual after_state live later)"
    unfolding check_proxy_auth_coverage_def assms(3) by auto
  then obtain later where live: "live \<in> set (gc_proxies actual)" "after_proxy ds desired live = Some later"
      "b \<in> set (lost_authenticators auth reported actual after_state live later)"
    by (cases "after_proxy ds desired live") auto
  then obtain n ids where n: "(n, ids) \<in> set (running_authenticators (auth_coverage_of actual live auth))"
      "n \<notin> fst ` set (running_authenticators (auth_coverage_of after_state later auth))"
      "b = loses_authenticator live n
        (coverage_consequence (auth_coverage_of actual live auth) (auth_coverage_of after_state later auth))"
    unfolding lost_authenticators_def Let_def by auto
  have "n \<in> fst ` set (running_authenticators (auth_coverage_of actual live auth))"
    using n(1) by (rule rev_image_eqI) simp
  then obtain plugin where plugin: "authenticates actual live auth plugin" "n = pc_plugin_name plugin"
    unfolding running_names by auto
  have "\<nexists>q. authenticates after_state later auth q \<and> pc_plugin_name q = pc_plugin_name plugin"
    using n(2) unfolding running_names plugin(2) by (metis imageI mem_Collect_eq)
  then show "\<exists>live \<in> set (gc_proxies actual). \<exists>later plugin consequence.
      after_proxy ds desired live = Some later \<and> authenticates actual live auth plugin \<and>
      b = loses_authenticator live (pc_plugin_name plugin) consequence \<and>
      (\<nexists>q. authenticates after_state later auth q \<and> pc_plugin_name q = pc_plugin_name plugin)"
    unfolding n(3) plugin(2) using live(1,2) plugin(1)
    by (intro bexI[of _ live] exI conjI) (assumption | rule refl)+
qed

section \<open>A proxy that drops its association\<close>

definition guarded_proxy :: proxy where
  "guarded_proxy = (bare_proxy ''shop'' ''web'')\<lparr>p_plugins := [\<lparr>pa_plugin_config_id = ''auth''\<rparr>]\<rparr>"

definition guard_plugin :: plugin_config where
  "guard_plugin = (bare_plugin_config ''shop'' ''auth'' ''key_auth'')\<lparr>pc_scope := ProxyGroup\<rparr>"

definition guarded_live :: gateway_config where
  "guarded_live = gateway_config_default\<lparr>gc_proxies := [guarded_proxy], gc_plugin_configs := [guard_plugin]\<rparr>"

definition unguarded_desired :: gateway_config where
  "unguarded_desired = gateway_config_default\<lparr>gc_proxies := [bare_proxy ''shop'' ''web''],
     gc_plugin_configs := [guard_plugin]\<rparr>"

definition drop_association :: "resource_diff list" where
  "drop_association = [\<lparr>rd_action = Modify, rd_kind = ''Proxy'', rd_id = ''web'', rd_namespace = ''shop'',
     rd_details = []\<rparr>]"

lemma association_dropped:
  "authenticates guarded_live guarded_proxy (effective_auth_allowlist None) guard_plugin"
  "after_proxy drop_association unguarded_desired guarded_proxy = Some (bare_proxy ''shop'' ''web'')"
  "running_authenticators (auth_coverage_of (projected_config drop_association unguarded_desired guarded_live)
     (bare_proxy ''shop'' ''web'') (effective_auth_allowlist None)) = []"
  by code_simp+

theorem projection_exact_witness:
  "plugin_row (projected_plugin_configs drop_association unguarded_desired guarded_live) ''shop'' ''auth'' =
     Some guard_plugin"
proof -
  have "distinct (map plugin_key (gc_plugin_configs unguarded_desired))" by code_simp
  from projection_exact[OF this, of drop_association guarded_live "''shop''" "''auth''"] show ?thesis
    by (simp add: diff_action_of_def drop_association_def plugin_row_def guarded_live_def guard_plugin_def
        bare_plugin_config_def)
qed

theorem authenticator_loss_reported_witness:
  "\<exists>consequence. loses_authenticator guarded_proxy ''key_auth'' consequence \<in>
     set (detect_breaking_changes_with_policy drop_association unguarded_desired guarded_live None)"
proof -
  have later: "authenticates guarded_live guarded_proxy (effective_auth_allowlist None) guard_plugin"
    "after_proxy drop_association unguarded_desired guarded_proxy = Some (bare_proxy ''shop'' ''web'')"
    by (rule association_dropped)+
  have name: "pc_plugin_name guard_plugin = ''key_auth''" by (simp add: guard_plugin_def bare_plugin_config_def)
  have "\<not> authenticates (projected_config drop_association unguarded_desired guarded_live)
      (bare_proxy ''shop'' ''web'') (effective_auth_allowlist None) q" for q
    using running_names[of "projected_config drop_association unguarded_desired guarded_live"
        "bare_proxy ''shop'' ''web''" "effective_auth_allowlist None"]
    unfolding association_dropped(3) by auto
  moreover have "\<not> reports_plugin drop_association report ns rid" for report ns rid
    by (simp add: reports_plugin_def drop_association_def)
  moreover have "guarded_proxy \<in> set (gc_proxies guarded_live)" by (simp add: guarded_live_def)
  ultimately show ?thesis
    using authenticator_loss_reported[OF refl refl refl, of guarded_live drop_association unguarded_desired None]
      later name by metis
qed

end
