(* ===== verification/ResourceTree.thy ===== *)
theory ResourceTree
  imports Managed Text
begin

text \<open>
  Reading the resource tree: \<open>config/repo_file.rs\<close> (bounded reads of regular files),
  \<open>config/strict.rs\<close> (which files are configuration, and the strict reading of one document) and
  \<open>config/loader.rs\<close> (the walk over \<open>resources/<namespace>/<kind>/\<close>).  The file system is the parameter
  \<open>file_system\<close>: what inspecting, opening, listing and walking a path answer.  A path is the list of its
  components; a name is its bytes, which need not be UTF-8.  The YAML composer and the derived
  deserializers are the parameter \<open>readers\<close>.
\<close>

section \<open>The file system\<close>

type_synonym tree_path = "string list"

datatype file_kind = IsFile | IsDir | IsSymlink | IsSpecial

record inspection =
  in_kind :: file_kind
  in_len :: nat
  in_device :: nat
  in_inode :: nat

datatype io_error = IoNotFound | IoError string

text \<open>\<open>fs_open\<close> answers with the metadata of the opened file and its bytes, either of which may fail.\<close>

record file_system =
  fs_inspect :: "tree_path \<Rightarrow> (io_error, inspection) result"
  fs_open :: "tree_path \<Rightarrow> (io_error, (io_error, inspection) result \<times> (io_error, string) result) result"
  fs_list :: "tree_path \<Rightarrow> (io_error, (io_error, string \<times> (io_error, file_kind) result) result list) result"
  fs_walk :: "tree_path \<Rightarrow> (tree_path option, tree_path \<times> file_kind) result list"

datatype tree_error =
    TreeMissing tree_path
  | FileRead tree_path io_error
  | LinkedFile tree_path
  | NotRegular tree_path
  | Oversized tree_path nat
  | ReplacedFile tree_path
  | InvalidUtf8 tree_path
  | ConfigSymlink tree_path
  | ConfigNotDirectory tree_path
  | WalkFailed tree_path
  | SpecialEntry string tree_path
  | NameNotUtf8 string tree_path
  | NamespaceNotUtf8 tree_path
  | UnsupportedFile string tree_path
  | OutsideNamespace string tree_path
  | UnexpectedDirectory string tree_path
  | OutsideKindDirectory string tree_path
  | YamlTooLarge tree_path nat
  | YamlParse tree_path string
  | NotAnObject tree_path
  | MissingKind tree_path
  | MissingSpec tree_path
  | UnknownKind string tree_path
  | UnknownFields tree_path "string list"
  | MeshIdNotString tree_path
  | InvalidSpec tree_path string
  | KindMismatch tree_path string string string
  | MeshIdWhitespace tree_path
  | DuplicateFragment string string tree_path tree_path

section \<open>Bounded reads\<close>

definition MAX_REPO_CONFIG_FILE_BYTES :: nat where
  "MAX_REPO_CONFIG_FILE_BYTES = 1024 * 1024"

definition same_file :: "inspection \<Rightarrow> inspection \<Rightarrow> bool" where
  "same_file inspected opened \<longleftrightarrow> in_device inspected = in_device opened \<and> in_inode inspected = in_inode opened"

definition read_bounded_repo_file :: "file_system \<Rightarrow> tree_path \<Rightarrow> nat \<Rightarrow> (tree_error, string option) result" where
  "read_bounded_repo_file fs path max_bytes =
     (case fs_inspect fs path of
        Inl IoNotFound \<Rightarrow> Inr None
      | Inl e \<Rightarrow> Inl (FileRead path e)
      | Inr metadata \<Rightarrow>
          if in_kind metadata = IsSymlink then Inl (LinkedFile path)
          else if in_kind metadata \<noteq> IsFile then Inl (NotRegular path)
          else if max_bytes < in_len metadata then Inl (Oversized path max_bytes)
          else
            (case fs_open fs path of
               Inl e \<Rightarrow> Inl (FileRead path e)
             | Inr (Inl e, _) \<Rightarrow> Inl (FileRead path e)
             | Inr (Inr opened, content) \<Rightarrow>
                 if in_kind opened \<noteq> IsFile \<or> \<not> same_file metadata opened then Inl (ReplacedFile path)
                 else
                   (case map_sum id (take (max_bytes + 1)) content of
                      Inl e \<Rightarrow> Inl (FileRead path e)
                    | Inr bytes \<Rightarrow>
                        if max_bytes < length bytes then Inl (Oversized path max_bytes)
                        else if utf8_valid bytes then Inr (Some bytes) else Inl (InvalidUtf8 path))))"

definition read_tree_file :: "file_system \<Rightarrow> tree_path \<Rightarrow> (tree_error, string) result" where
  "read_tree_file fs path =
     bind_result (read_bounded_repo_file fs path MAX_REPO_CONFIG_FILE_BYTES) (\<lambda>content.
       case content of Some s \<Rightarrow> Inr s | None \<Rightarrow> Inl (FileRead path IoNotFound))"

section \<open>Which files are configuration\<close>

definition RESOURCE_SUBDIRECTORIES :: "(string \<times> string) list" where
  "RESOURCE_SUBDIRECTORIES =
     [(''proxies'', ''Proxy''), (''consumers'', ''Consumer''), (''upstreams'', ''Upstream''),
      (''plugins'', ''PluginConfig''), (''mesh'', ''MeshConfig'')]"

definition IMPORT_MANIFEST_FILENAME :: string where
  "IMPORT_MANIFEST_FILENAME = ''.gitforgeops-import.json''"

definition NON_CONFIG_FILES :: "string list" where
  "NON_CONFIG_FILES = [''README'', ''README.md'', ''.gitkeep'', IMPORT_MANIFEST_FILENAME]"

definition OS_ARTIFACT_FILES :: "string list" where
  "OS_ARTIFACT_FILES = [''.DS_Store'', ''Thumbs.db'', ''desktop.ini'']"

text \<open>\<open>Path::extension\<close> and \<open>Path::file_stem\<close>: a name is split at its last dot unless nothing precedes it.\<close>

definition split_name :: "string \<Rightarrow> string \<times> string option" where
  "split_name name =
     (case rsplit_once CHR ''.'' name of
        Some (stem, extension) \<Rightarrow>
          if name = ''..'' \<or> stem = [] then (name, None) else (stem, Some extension)
      | None \<Rightarrow> (name, None))"

definition exempt_file :: "string \<Rightarrow> bool" where
  "exempt_file name \<longleftrightarrow>
     starts_with name ''_'' \<or> name \<in> set NON_CONFIG_FILES \<or> name \<in> set OS_ARTIFACT_FILES"

definition enabled_yaml_file :: "string \<Rightarrow> tree_path \<Rightarrow> (tree_error, bool) result" where
  "enabled_yaml_file tree path =
     (let name = last path in
      if path = [] \<or> \<not> utf8_valid name then Inl (NameNotUtf8 tree path)
      else if exempt_file name then Inr False
      else if snd (split_name name) \<in> {Some ''yaml'', Some ''yml''} then Inr True
      else Inl (UnsupportedFile tree path))"

definition read_dir_sorted ::
    "file_system \<Rightarrow> tree_path \<Rightarrow> (tree_error, (string \<times> (io_error, file_kind) result) list) result" where
  "read_dir_sorted fs dir =
     (case fs_list fs dir of
        Inl e \<Rightarrow> Inl (FileRead dir e)
      | Inr entries \<Rightarrow>
          map_sum id (sort_key fst)
            (fold_result (\<lambda>entry acc. case entry of Inl e \<Rightarrow> Inl (FileRead dir e) | Inr x \<Rightarrow> Inr (acc @ [x]))
               entries []))"

definition check_namespace_entry ::
    "string \<Rightarrow> tree_path \<Rightarrow> string \<times> (io_error, file_kind) result \<Rightarrow> (tree_error, unit) result" where
  "check_namespace_entry tree namespace_dir entry =
     (let name = fst entry; path = namespace_dir @ [name]; allowed = name \<in> fst ` set RESOURCE_SUBDIRECTORIES in
      case snd entry of
        Inl e \<Rightarrow> Inl (FileRead path e)
      | Inr kind \<Rightarrow>
          if kind = IsSymlink then Inl (ConfigSymlink path)
          else if \<not> utf8_valid name then Inl (NameNotUtf8 tree path)
          else if kind = IsDir \<and> \<not> allowed then Inl (UnexpectedDirectory tree path)
          else if kind = IsFile \<and> allowed then Inl (ConfigNotDirectory path)
          else if kind = IsFile then
            bind_result (enabled_yaml_file tree path) (\<lambda>enabled.
              if enabled then Inl (OutsideKindDirectory tree path) else Inr ())
          else if kind \<noteq> IsDir then Inl (SpecialEntry tree path)
          else Inr ())"

definition validate_namespace_tree :: "file_system \<Rightarrow> tree_path \<Rightarrow> string \<Rightarrow> (tree_error, unit) result" where
  "validate_namespace_tree fs namespace_dir tree =
     bind_result (read_dir_sorted fs namespace_dir) (\<lambda>entries.
       fold_result (\<lambda>entry _. check_namespace_entry tree namespace_dir entry) entries ())"

section \<open>Reading one document\<close>

text \<open>
  A derived deserializer answers with the value and the paths of the fields it ignored, in the
  notation of \<open>serde_ignored\<close>.
\<close>

record readers =
  yr_yaml :: "string \<Rightarrow> (string, json) result"
  yr_proxy :: "json \<Rightarrow> (string, proxy \<times> string list) result"
  yr_consumer :: "json \<Rightarrow> (string, consumer \<times> string list) result"
  yr_upstream :: "json \<Rightarrow> (string, upstream \<times> string list) result"
  yr_plugin_config :: "json \<Rightarrow> (string, plugin_config \<times> string list) result"
  yr_mesh :: "json \<Rightarrow> (string, mesh_config_spec \<times> string list) result"

definition MAX_YAML_INPUT_BYTES :: nat where
  "MAX_YAML_INPUT_BYTES = 16 * 1024 * 1024"

definition yaml_file_value :: "readers \<Rightarrow> string \<Rightarrow> tree_path \<Rightarrow> (tree_error, json) result" where
  "yaml_file_value rd contents path =
     (if MAX_YAML_INPUT_BYTES < length contents then Inl (YamlTooLarge path (length contents))
      else map_sum (YamlParse path) id (yr_yaml rd contents))"

fun resource_kind :: "resource \<Rightarrow> string" where
  "resource_kind (ProxyRes _) = ''Proxy''"
| "resource_kind (ConsumerRes _) = ''Consumer''"
| "resource_kind (UpstreamRes _) = ''Upstream''"
| "resource_kind (PluginConfigRes _) = ''PluginConfig''"
| "resource_kind (MeshConfigRes _ _) = ''MeshConfig''"

definition reject_ignored :: "tree_path \<Rightarrow> string list \<Rightarrow> (tree_error, unit) result" where
  "reject_ignored path ignored =
     (if ignored = [] then Inr () else Inl (UnknownFields path (remdups_adj (sort ignored))))"

definition normalize_segment :: "string \<Rightarrow> string" where
  "normalize_segment segment =
     (if segment = [] then []
      else if list_all is_ascii_digit segment then ''['' @ segment @ '']''
      else if starts_with segment ''['' then segment
      else ''.'' @ segment)"

definition normalize_path :: "string \<Rightarrow> string" where
  "normalize_path path =
     concat (map normalize_segment (split_on CHR ''.'' (dropWhile (\<lambda>c. c = CHR ''.'')
       (replace_str ''.?'' [] (replace_str ''.?.'' ''.'' path)))))"

definition deserialize_spec ::
    "(json \<Rightarrow> (string, 'a \<times> string list) result) \<Rightarrow> json \<Rightarrow> tree_path \<Rightarrow> (tree_error, 'a) result" where
  "deserialize_spec reader v path =
     (case reader v of
        Inl e \<Rightarrow> Inl (InvalidSpec path e)
      | Inr (parsed, ignored) \<Rightarrow>
          bind_result (reject_ignored path (map (\<lambda>f. ''.spec'' @ normalize_path f) ignored)) (\<lambda>_. Inr parsed))"

text \<open>With the permission to keep unknown fields the code also prints a warning that names them.\<close>

definition check_passthrough_fields ::
    "(string, json) btree_map \<Rightarrow> tree_path \<Rightarrow> bool \<Rightarrow> (tree_error, unit) result" where
  "check_passthrough_fields extra path allow_unknown_fields =
     (if extra = [] \<or> allow_unknown_fields then Inr ()
      else reject_ignored path (map (\<lambda>key. ''.spec.'' @ key) (bt_keys extra)))"

definition deserialize_gateway_spec ::
    "(json \<Rightarrow> (string, 'a \<times> string list) result) \<Rightarrow> ('a \<Rightarrow> (string, json) btree_map) \<Rightarrow> json \<Rightarrow> tree_path \<Rightarrow>
     bool \<Rightarrow> (tree_error, 'a) result" where
  "deserialize_gateway_spec reader passthrough v path allow =
     bind_result (deserialize_spec reader v path) (\<lambda>parsed.
     bind_result (check_passthrough_fields (passthrough parsed) path allow) (\<lambda>_. Inr parsed))"

definition wrapper_keys :: "string \<Rightarrow> string list" where
  "wrapper_keys kind = (if kind = ''MeshConfig'' then [''kind'', ''id'', ''spec''] else [''kind'', ''spec''])"

definition mesh_wrapper_id :: "(string, json) btree_map \<Rightarrow> tree_path \<Rightarrow> (tree_error, string option) result" where
  "mesh_wrapper_id obj path =
     (case bt_get obj ''id'' of
        None \<Rightarrow> Inr None
      | Some JNull \<Rightarrow> Inr None
      | Some (JString i) \<Rightarrow> Inr (Some i)
      | Some _ \<Rightarrow> Inl (MeshIdNotString path))"

definition typed_resource ::
    "readers \<Rightarrow> bool \<Rightarrow> (string, json) btree_map \<Rightarrow> string \<Rightarrow> json \<Rightarrow> tree_path \<Rightarrow> (tree_error, resource) result"
  where
  "typed_resource rd allow obj kind spec path =
     (if kind = ''Proxy'' then
        map_sum id ProxyRes (deserialize_gateway_spec (yr_proxy rd) p_extra spec path allow)
      else if kind = ''Consumer'' then
        map_sum id ConsumerRes (deserialize_gateway_spec (yr_consumer rd) c_extra spec path allow)
      else if kind = ''Upstream'' then
        map_sum id UpstreamRes (deserialize_gateway_spec (yr_upstream rd) u_extra spec path allow)
      else if kind = ''PluginConfig'' then
        map_sum id PluginConfigRes (deserialize_gateway_spec (yr_plugin_config rd) pc_extra spec path allow)
      else if kind = ''MeshConfig'' then
        bind_result (mesh_wrapper_id obj path) (\<lambda>mesh_id.
          map_sum id (MeshConfigRes mesh_id) (deserialize_spec (yr_mesh rd) spec path))
      else Inl (UnknownKind kind path))"

definition resource_from_json_value ::
    "readers \<Rightarrow> bool \<Rightarrow> json \<Rightarrow> tree_path \<Rightarrow> (tree_error, resource) result" where
  "resource_from_json_value rd allow v path =
     (case as_object v of
        None \<Rightarrow> Inl (NotAnObject path)
      | Some obj \<Rightarrow>
          (case Option.bind (bt_get obj ''kind'') as_str of
             None \<Rightarrow> Inl (MissingKind path)
           | Some kind \<Rightarrow>
               (case bt_get obj ''spec'' of
                  None \<Rightarrow> Inl (MissingSpec path)
                | Some spec \<Rightarrow>
                    bind_result (reject_ignored path (map (\<lambda>key. ''.'' @ key)
                      (filter (\<lambda>key. key \<notin> set (wrapper_keys kind)) (bt_keys obj)))) (\<lambda>_.
                      typed_resource rd allow obj kind spec path))))"

definition resource_from_yaml ::
    "readers \<Rightarrow> bool \<Rightarrow> string \<Rightarrow> tree_path \<Rightarrow> (tree_error, resource) result" where
  "resource_from_yaml rd allow contents path =
     bind_result (yaml_file_value rd contents path) (\<lambda>v. resource_from_json_value rd allow v path)"

section \<open>The walk\<close>

definition collect_path ::
    "string \<Rightarrow> tree_path \<Rightarrow> (tree_path option, tree_path \<times> file_kind) result \<Rightarrow> tree_path list \<Rightarrow>
     (tree_error, tree_path list) result" where
  "collect_path tree subdir_path entry paths =
     (case entry of
        Inl failed \<Rightarrow> Inl (WalkFailed (case failed of Some p \<Rightarrow> p | None \<Rightarrow> subdir_path))
      | Inr (path, kind) \<Rightarrow>
          if kind = IsSymlink then Inl (ConfigSymlink path)
          else if kind \<noteq> IsFile then (if kind \<noteq> IsDir then Inl (SpecialEntry tree path) else Inr paths)
          else bind_result (enabled_yaml_file tree path) (\<lambda>enabled.
            Inr (if enabled then paths @ [path] else paths)))"

definition kind_paths :: "file_system \<Rightarrow> string \<Rightarrow> tree_path \<Rightarrow> (tree_error, tree_path list) result" where
  "kind_paths fs tree subdir_path =
     (case fs_inspect fs subdir_path of
        Inl IoNotFound \<Rightarrow> Inr []
      | Inl e \<Rightarrow> Inl (FileRead subdir_path e)
      | Inr metadata \<Rightarrow>
          if in_kind metadata = IsSymlink then Inl (ConfigSymlink subdir_path)
          else if in_kind metadata \<noteq> IsDir then Inl (ConfigNotDirectory subdir_path)
          else map_sum id sort (fold_result (collect_path tree subdir_path) (fs_walk fs subdir_path) []))"

text \<open>
  The name of a namespace entry: \<open>None\<close> when the entry is an exempt file.  \<open>tree\<close> is the tree's name in
  messages, \<open>resource tree\<close> or \<open>overlay tree\<close>.
\<close>

definition namespace_entry ::
    "string \<Rightarrow> tree_path \<Rightarrow> string \<times> (io_error, file_kind) result \<Rightarrow> (tree_error, string option) result" where
  "namespace_entry tree base entry =
     (let ns_path = base @ [fst entry] in
      case snd entry of
        Inl e \<Rightarrow> Inl (FileRead ns_path e)
      | Inr kind \<Rightarrow>
          if kind = IsSymlink then Inl (ConfigSymlink ns_path)
          else if kind \<noteq> IsDir then
            (if kind = IsFile then
               bind_result (enabled_yaml_file tree ns_path) (\<lambda>enabled.
                 if enabled then Inl (OutsideNamespace tree ns_path) else Inr None)
             else Inl (SpecialEntry tree ns_path))
          else if \<not> utf8_valid (fst entry) \<or> fst entry = [] then Inl (NamespaceNotUtf8 ns_path)
          else Inr (Some (fst entry)))"

section \<open>Loading\<close>

definition file_stem :: "tree_path \<Rightarrow> string option" where
  "file_stem path =
     (if path = [] then None
      else let stem = fst (split_name (last path)) in if utf8_valid stem then Some stem else None)"

record namespace_load =
  nl_results :: "(string \<times> resource) list"
  nl_fragments :: "string \<rightharpoonup> tree_path"

text \<open>The fragment name of a mesh file, and the check that no earlier file of the namespace has it.\<close>

definition named_fragment :: "tree_path \<Rightarrow> resource \<Rightarrow> (tree_error, resource) result" where
  "named_fragment path resource =
     (case resource of
        MeshConfigRes mesh_id spec \<Rightarrow>
          if (case mesh_id of Some raw \<Rightarrow> trim raw \<noteq> raw | None \<Rightarrow> False) then Inl (MeshIdWhitespace path)
          else if (case mesh_id of Some raw \<Rightarrow> trim raw | None \<Rightarrow> []) = []
          then Inr (MeshConfigRes (file_stem path) spec)
          else Inr resource
      | _ \<Rightarrow> Inr resource)"

definition record_fragment ::
    "string \<Rightarrow> tree_path \<Rightarrow> resource \<Rightarrow> (string \<rightharpoonup> tree_path) \<Rightarrow> (tree_error, string \<rightharpoonup> tree_path) result" where
  "record_fragment ns path resource fragments =
     (case resource of
        MeshConfigRes (Some fragment_id) _ \<Rightarrow>
          (case fragments fragment_id of
             Some previous \<Rightarrow> Inl (DuplicateFragment ns fragment_id previous path)
           | None \<Rightarrow> Inr (fragments(fragment_id \<mapsto> path)))
      | _ \<Rightarrow> Inr fragments)"

definition load_file ::
    "file_system \<Rightarrow> readers \<Rightarrow> bool \<Rightarrow> string \<Rightarrow> string \<times> string \<Rightarrow> tree_path \<Rightarrow> namespace_load \<Rightarrow>
     (tree_error, namespace_load) result" where
  "load_file fs rd allow ns subdir path acc =
     bind_result (read_tree_file fs path) (\<lambda>contents.
     bind_result (resource_from_yaml rd allow contents path) (\<lambda>resource.
     if resource_kind resource \<noteq> snd subdir
     then Inl (KindMismatch path (resource_kind resource) (fst subdir) (snd subdir))
     else
       bind_result (named_fragment path resource) (\<lambda>resource.
       bind_result (record_fragment ns path resource (nl_fragments acc)) (\<lambda>fragments.
       Inr \<lparr>nl_results = nl_results acc @ [(ns, resource)], nl_fragments = fragments\<rparr>))))"

definition load_kind ::
    "file_system \<Rightarrow> readers \<Rightarrow> bool \<Rightarrow> tree_path \<Rightarrow> string \<Rightarrow> string \<times> string \<Rightarrow> namespace_load \<Rightarrow>
     (tree_error, namespace_load) result" where
  "load_kind fs rd allow base ns subdir acc =
     bind_result (kind_paths fs ''resource tree'' (base @ [ns, fst subdir])) (\<lambda>paths.
       fold_result (load_file fs rd allow ns subdir) paths acc)"

definition load_namespace ::
    "file_system \<Rightarrow> readers \<Rightarrow> bool \<Rightarrow> tree_path \<Rightarrow> string \<times> (io_error, file_kind) result \<Rightarrow>
     (string \<times> resource) list \<Rightarrow> (tree_error, (string \<times> resource) list) result" where
  "load_namespace fs rd allow base entry results =
     bind_result (namespace_entry ''resource tree'' base entry) (\<lambda>name.
     case name of
       None \<Rightarrow> Inr results
     | Some ns \<Rightarrow>
         bind_result (validate_namespace_tree fs (base @ [ns]) ''resource tree'') (\<lambda>_.
           map_sum id nl_results (fold_result (load_kind fs rd allow base ns) RESOURCE_SUBDIRECTORIES
             \<lparr>nl_results = results, nl_fragments = Map.empty\<rparr>)))"

definition load_resources_with_options ::
    "file_system \<Rightarrow> readers \<Rightarrow> bool \<Rightarrow> tree_path \<Rightarrow> (tree_error, (string \<times> resource) list) result" where
  "load_resources_with_options fs rd allow base =
     (case fs_inspect fs base of
        Inl IoNotFound \<Rightarrow> Inl (TreeMissing base)
      | Inl e \<Rightarrow> Inl (FileRead base e)
      | Inr metadata \<Rightarrow>
          if in_kind metadata = IsSymlink then Inl (ConfigSymlink base)
          else if in_kind metadata \<noteq> IsDir then Inl (TreeMissing base)
          else bind_result (read_dir_sorted fs base) (\<lambda>entries.
            fold_result (load_namespace fs rd allow base) entries []))"

definition load_resources ::
    "file_system \<Rightarrow> readers \<Rightarrow> tree_path \<Rightarrow> (tree_error, (string \<times> resource) list) result" where
  "load_resources fs rd base = load_resources_with_options fs rd False base"

end
