(* ===== verification/ResourceTree_Facts.thy ===== *)
theory ResourceTree_Facts
  imports ResourceTree
begin

text \<open>
  What loading a tree guarantees: every resource comes from one enabled file under the directory of
  its kind, in order, and no entry of the tree is passed over silently.
\<close>

section \<open>The enabled files of a tree\<close>

definition listed :: "file_system \<Rightarrow> tree_path \<Rightarrow> (string \<times> (io_error, file_kind) result) list" where
  "listed fs dir =
     (case fs_list fs dir of Inl _ \<Rightarrow> [] | Inr es \<Rightarrow> sort_key fst (concat (map (case_sum (\<lambda>_. []) (\<lambda>x. [x])) es)))"

definition enabled_path :: "(tree_path option, tree_path \<times> file_kind) result \<Rightarrow> tree_path list" where
  "enabled_path entry =
     (case entry of
        Inl _ \<Rightarrow> []
      | Inr (path, kind) \<Rightarrow> if kind = IsFile \<and> \<not> exempt_file (last path) then [path] else [])"

definition kind_files :: "file_system \<Rightarrow> tree_path \<Rightarrow> tree_path list" where
  "kind_files fs dir =
     (case fs_inspect fs dir of
        Inl _ \<Rightarrow> []
      | Inr _ \<Rightarrow> sort (concat (map enabled_path (fs_walk fs dir))))"

definition namespaces_of :: "file_system \<Rightarrow> tree_path \<Rightarrow> string list" where
  "namespaces_of fs base = map fst (filter (\<lambda>e. snd e = Inr IsDir) (listed fs base))"

type_synonym tree_file = "string \<times> (string \<times> string) \<times> tree_path"

definition namespace_files :: "file_system \<Rightarrow> tree_path \<Rightarrow> string \<Rightarrow> tree_file list" where
  "namespace_files fs base ns =
     concat (map (\<lambda>subdir. map (\<lambda>path. (ns, subdir, path)) (kind_files fs (base @ [ns, fst subdir])))
       RESOURCE_SUBDIRECTORIES)"

definition tree_files :: "file_system \<Rightarrow> tree_path \<Rightarrow> tree_file list" where
  "tree_files fs base = concat (map (namespace_files fs base) (namespaces_of fs base))"

definition loaded_from :: "file_system \<Rightarrow> readers \<Rightarrow> bool \<Rightarrow> tree_file \<Rightarrow> string \<times> resource \<Rightarrow> bool" where
  "loaded_from fs rd allow file r \<longleftrightarrow>
     fst r = fst file \<and> resource_kind (snd r) = snd (fst (snd file)) \<and>
     (\<exists>contents written. read_tree_file fs (snd (snd file)) = Inr contents \<and>
        resource_from_yaml rd allow contents (snd (snd file)) = Inr written \<and>
        named_fragment (snd (snd file)) written = Inr (snd r))"

section \<open>What may stand in a tree\<close>

definition passive_file :: "string \<times> (io_error, file_kind) result \<Rightarrow> bool" where
  "passive_file e \<longleftrightarrow> snd e = Inr IsFile \<and> exempt_file (fst e)"

definition walk_accounted :: "(tree_path option, tree_path \<times> file_kind) result \<Rightarrow> bool" where
  "walk_accounted e \<longleftrightarrow>
     (\<exists>path kind. e = Inr (path, kind) \<and>
        (kind = IsDir \<or> kind = IsFile \<and> (exempt_file (last path) \<or>
           snd (split_name (last path)) \<in> {Some ''yaml'', Some ''yml''})))"

definition nothing_hidden :: "file_system \<Rightarrow> tree_path \<Rightarrow> bool" where
  "nothing_hidden fs base \<longleftrightarrow>
     list_all (\<lambda>e. snd e = Inr IsDir \<or> passive_file e) (listed fs base) \<and>
     list_all (\<lambda>ns.
       list_all (\<lambda>e. snd e = Inr IsDir \<and> fst e \<in> fst ` set RESOURCE_SUBDIRECTORIES \<or> passive_file e)
         (listed fs (base @ [ns])) \<and>
       list_all (\<lambda>subdir. is_ok (fs_inspect fs (base @ [ns, fst subdir])) \<longrightarrow>
         list_all walk_accounted (fs_walk fs (base @ [ns, fst subdir]))) RESOURCE_SUBDIRECTORIES)
       (namespaces_of fs base)"

lemma enabled_yaml_cases:
  assumes "enabled_yaml_file tree path = Inr b"
  shows "b \<longleftrightarrow> \<not> exempt_file (last path)"
    and "b \<Longrightarrow> snd (split_name (last path)) \<in> {Some ''yaml'', Some ''yml''}"
  using assms by (auto simp: enabled_yaml_file_def Let_def split: if_splits)

lemma read_dir_entries:
  assumes "read_dir_sorted fs dir = Inr entries"
  shows "entries = listed fs dir"
proof -
  have fold: "entries' = acc @ concat (map (case_sum (\<lambda>_. []) (\<lambda>x. [x])) es)"
    if "fold_result (\<lambda>entry acc. case entry of Inl e \<Rightarrow> Inl (FileRead dir e) | Inr x \<Rightarrow> Inr (acc @ [x])) es acc =
      Inr entries'" for es acc entries'
    using that
  proof (induction es arbitrary: acc)
    case (Cons e es)
    then show ?case using Cons.IH[of "acc @ [projr e]"] by (cases e) simp_all
  qed simp
  obtain es where es: "fs_list fs dir = Inr es" using assms by (auto simp: read_dir_sorted_def split: sum.splits)
  then obtain xs where xs: "fold_result (\<lambda>entry acc. case entry of Inl e \<Rightarrow> Inl (FileRead dir e) | Inr x \<Rightarrow> Inr (acc @ [x]))
      es [] = Inr xs" "entries = sort_key fst xs"
    using assms unfolding read_dir_sorted_def by (cases "fold_result (\<lambda>entry acc. case entry of
      Inl e \<Rightarrow> Inl (FileRead dir e) | Inr x \<Rightarrow> Inr (acc @ [x])) es []") auto
  show ?thesis using fold[OF xs(1)] xs(2) es by (simp add: listed_def)
qed

lemma fold_unit_ok:
  "fold_result (\<lambda>x _. f x) xs () = Inr () \<longleftrightarrow> list_all (\<lambda>x. f x = Inr ()) xs"
  by (induction xs) (auto simp: bind_result_Inr_iff)

lemma namespace_entries_ok:
  assumes "validate_namespace_tree fs dir tree = Inr u"
  shows "list_all (\<lambda>e. snd e = Inr IsDir \<and> fst e \<in> fst ` set RESOURCE_SUBDIRECTORIES \<or> passive_file e) (listed fs dir)"
proof -
  obtain entries where "read_dir_sorted fs dir = Inr entries"
      "fold_result (\<lambda>entry _. check_namespace_entry tree dir entry) entries () = Inr ()"
    using assms by (auto simp: validate_namespace_tree_def bind_result_Inr_iff)
  then have "list_all (\<lambda>e. check_namespace_entry tree dir e = Inr ()) (listed fs dir)"
    using read_dir_entries fold_unit_ok by metis
  moreover have "snd e = Inr IsDir \<and> fst e \<in> fst ` set RESOURCE_SUBDIRECTORIES \<or> passive_file e"
    if e: "check_namespace_entry tree dir e = Inr ()" for e
  proof (cases "snd e")
    case (Inr kind)
    then show ?thesis using e enabled_yaml_cases(1)[of tree "dir @ [fst e]"]
      by (cases kind) (auto simp: check_namespace_entry_def Let_def passive_file_def bind_result_Inr_iff split: if_splits)
  qed (use e in \<open>simp add: check_namespace_entry_def Let_def\<close>)
  ultimately show ?thesis by (auto simp: list_all_iff)
qed

lemma collect_paths:
  assumes "fold_result (collect_path tree dir) es ps = Inr qs"
  shows "qs = ps @ concat (map enabled_path es) \<and> list_all walk_accounted es"
  using assms
proof (induction es arbitrary: ps)
  case (Cons e es)
  then obtain rs where step: "collect_path tree dir e ps = Inr rs" and rest: "fold_result (collect_path tree dir) es rs = Inr qs"
    by (auto simp: bind_result_Inr_iff)
  obtain path kind where e: "e = Inr (path, kind)" using step by (cases e) (auto simp: collect_path_def)
  have "rs = ps @ enabled_path e \<and> walk_accounted e"
    using step enabled_yaml_cases[of tree path] unfolding e
    by (cases kind) (auto simp: collect_path_def enabled_path_def walk_accounted_def bind_result_Inr_iff split: if_splits)
  then show ?case using Cons.IH[OF rest] by simp
qed simp

lemma kind_paths_ok:
  assumes "kind_paths fs tree dir = Inr paths"
  shows "paths = kind_files fs dir \<and> (is_ok (fs_inspect fs dir) \<longrightarrow> list_all walk_accounted (fs_walk fs dir))"
proof (cases "fs_inspect fs dir")
  case (Inl e)
  then show ?thesis using assms by (cases e) (auto simp: kind_paths_def kind_files_def)
next
  case (Inr m)
  then obtain qs where "fold_result (collect_path tree dir) (fs_walk fs dir) [] = Inr qs" "paths = sort qs"
    using assms by (cases "fold_result (collect_path tree dir) (fs_walk fs dir) []")
      (auto simp: kind_paths_def split: if_splits)
  then show ?thesis using collect_paths Inr by (fastforce simp: kind_files_def)
qed

section \<open>Loading\<close>

lemma load_file_ok:
  assumes "load_file fs rd allow ns subdir path acc = Inr acc'"
  shows "\<exists>r. nl_results acc' = nl_results acc @ [r] \<and> loaded_from fs rd allow (ns, subdir, path) r"
proof -
  obtain contents written resource fragments where r:
      "read_tree_file fs path = Inr contents" "resource_from_yaml rd allow contents path = Inr written"
      "resource_kind written = snd subdir" "named_fragment path written = Inr resource"
      "acc' = \<lparr>nl_results = nl_results acc @ [(ns, resource)], nl_fragments = fragments\<rparr>"
    using assms by (auto simp: load_file_def bind_result_Inr_iff split: if_splits)
  have "resource_kind resource = resource_kind written"
    using r(4) by (auto simp: named_fragment_def split: resource.splits if_splits)
  then have "loaded_from fs rd allow (ns, subdir, path) (ns, resource)"
    unfolding loaded_from_def fst_conv snd_conv using r(1-4) by metis
  then show ?thesis using r(5) by auto
qed

text \<open>A loop that appends, to the results, one loaded part for each element it visits.\<close>

lemma fold_appends:
  assumes "fold_result step xs acc = Inr acc'"
    and "\<And>x acc acc'. x \<in> set xs \<Longrightarrow> step x acc = Inr acc' \<Longrightarrow>
      \<exists>rs. results acc' = results acc @ rs \<and> list_all2 P (files x) rs"
  shows "\<exists>rs. results acc' = results acc @ rs \<and> list_all2 P (concat (map files xs)) rs"
  using assms
proof (induction xs arbitrary: acc)
  case (Cons x xs)
  then obtain mid where mid: "step x acc = Inr mid" "fold_result step xs mid = Inr acc'"
    by (auto simp: bind_result_Inr_iff)
  obtain rs where rs: "results mid = results acc @ rs" "list_all2 P (files x) rs"
    using Cons.prems(2)[OF _ mid(1)] by auto
  have "\<exists>rs. results acc' = results mid @ rs \<and> list_all2 P (concat (map files xs)) rs"
    by (rule Cons.IH[OF mid(2)]) (simp add: Cons.prems(2))
  then obtain rs' where "results acc' = results mid @ rs'" "list_all2 P (concat (map files xs)) rs'" by blast
  then have "results acc' = results acc @ (rs @ rs') \<and> list_all2 P (concat (map files (x # xs))) (rs @ rs')"
    using rs by (simp add: list_all2_appendI)
  then show ?case by blast
qed simp

lemma load_kind_ok:
  assumes "load_kind fs rd allow base ns subdir acc = Inr acc'"
  shows "\<exists>rs. nl_results acc' = nl_results acc @ rs \<and>
      list_all2 (loaded_from fs rd allow) (map (\<lambda>path. (ns, subdir, path)) (kind_files fs (base @ [ns, fst subdir]))) rs"
    and "is_ok (fs_inspect fs (base @ [ns, fst subdir])) \<Longrightarrow>
      list_all walk_accounted (fs_walk fs (base @ [ns, fst subdir]))"
proof -
  obtain paths where paths: "kind_paths fs ''resource tree'' (base @ [ns, fst subdir]) = Inr paths"
      "fold_result (load_file fs rd allow ns subdir) paths acc = Inr acc'"
    using assms by (auto simp: load_kind_def bind_result_Inr_iff)
  note k = kind_paths_ok[OF paths(1)]
  have "\<exists>rs. nl_results acc' = nl_results acc @ rs \<and>
      list_all2 (loaded_from fs rd allow) (concat (map (\<lambda>path. [(ns, subdir, path)]) paths)) rs"
    by (rule fold_appends[OF paths(2)]) (auto dest: load_file_ok)
  moreover have "concat (map (\<lambda>path. [(ns, subdir, path)]) paths) = map (\<lambda>path. (ns, subdir, path)) paths"
    by (induction paths) simp_all
  ultimately show "\<exists>rs. nl_results acc' = nl_results acc @ rs \<and>
      list_all2 (loaded_from fs rd allow) (map (\<lambda>path. (ns, subdir, path)) (kind_files fs (base @ [ns, fst subdir]))) rs"
    using k by simp
  show "list_all walk_accounted (fs_walk fs (base @ [ns, fst subdir]))"
    if "is_ok (fs_inspect fs (base @ [ns, fst subdir]))" using k that by simp
qed

lemma load_kinds_accounted:
  assumes "fold_result (load_kind fs rd allow base ns) subdirs acc = Inr acc'"
  shows "list_all (\<lambda>subdir. is_ok (fs_inspect fs (base @ [ns, fst subdir])) \<longrightarrow>
      list_all walk_accounted (fs_walk fs (base @ [ns, fst subdir]))) subdirs"
  using assms
proof (induction subdirs arbitrary: acc)
  case (Cons d ds)
  then obtain mid where "load_kind fs rd allow base ns d acc = Inr mid"
      "fold_result (load_kind fs rd allow base ns) ds mid = Inr acc'"
    by (auto simp: bind_result_Inr_iff)
  then show ?case using Cons.IH load_kind_ok(2) by simp
qed simp

definition entry_files :: "file_system \<Rightarrow> tree_path \<Rightarrow> string \<times> (io_error, file_kind) result \<Rightarrow> tree_file list" where
  "entry_files fs base e = (if snd e = Inr IsDir then namespace_files fs base (fst e) else [])"

lemma concat_entry_files:
  "concat (map (entry_files fs base) es) =
     concat (map (namespace_files fs base) (map fst (filter (\<lambda>e. snd e = Inr IsDir) es)))"
  by (induction es) (auto simp: entry_files_def)

definition entry_hides_nothing :: "file_system \<Rightarrow> tree_path \<Rightarrow> string \<times> (io_error, file_kind) result \<Rightarrow> bool" where
  "entry_hides_nothing fs base e \<longleftrightarrow>
     snd e = Inr IsDir \<and>
       list_all (\<lambda>e. snd e = Inr IsDir \<and> fst e \<in> fst ` set RESOURCE_SUBDIRECTORIES \<or> passive_file e)
         (listed fs (base @ [fst e])) \<and>
       list_all (\<lambda>subdir. is_ok (fs_inspect fs (base @ [fst e, fst subdir])) \<longrightarrow>
         list_all walk_accounted (fs_walk fs (base @ [fst e, fst subdir]))) RESOURCE_SUBDIRECTORIES
     \<or> passive_file e"

lemma namespace_entry_cases:
  assumes "namespace_entry tree base e = Inr name"
  shows "name = Some (fst e) \<and> snd e = Inr IsDir \<or> name = None \<and> passive_file e"
proof (cases "snd e")
  case (Inr kind)
  then show ?thesis using assms enabled_yaml_cases(1)[of tree "base @ [fst e]"]
    by (cases kind) (auto simp: namespace_entry_def Let_def passive_file_def bind_result_Inr_iff split: if_splits)
qed (use assms in \<open>simp add: namespace_entry_def Let_def\<close>)

lemma load_namespace_ok:
  assumes "load_namespace fs rd allow base e results = Inr results'"
  shows "(\<exists>rs. results' = results @ rs \<and> list_all2 (loaded_from fs rd allow) (entry_files fs base e) rs) \<and>
    entry_hides_nothing fs base e"
proof -
  obtain name where name: "namespace_entry ''resource tree'' base e = Inr name"
    using assms by (auto simp: load_namespace_def bind_result_Inr_iff)
  show ?thesis
  proof (cases name)
    case None
    then show ?thesis using assms name namespace_entry_cases[OF name]
      by (auto simp: load_namespace_def entry_files_def entry_hides_nothing_def passive_file_def)
  next
    case (Some ns)
    then have e: "ns = fst e" "snd e = Inr IsDir" using namespace_entry_cases[OF name] by auto
    obtain acc' where ok: "validate_namespace_tree fs (base @ [ns]) ''resource tree'' = Inr ()"
        "fold_result (load_kind fs rd allow base ns) RESOURCE_SUBDIRECTORIES
          \<lparr>nl_results = results, nl_fragments = Map.empty\<rparr> = Inr acc'" "results' = nl_results acc'"
      using assms name Some
      by (cases "fold_result (load_kind fs rd allow base ns) RESOURCE_SUBDIRECTORIES
          \<lparr>nl_results = results, nl_fragments = Map.empty\<rparr>")
        (auto simp: load_namespace_def bind_result_Inr_iff)
    have "\<exists>rs. nl_results acc' = nl_results \<lparr>nl_results = results, nl_fragments = Map.empty\<rparr> @ rs \<and>
        list_all2 (loaded_from fs rd allow) (namespace_files fs base ns) rs"
      unfolding namespace_files_def by (rule fold_appends[OF ok(2)]) (rule load_kind_ok(1))
    then show ?thesis
      using e ok(3) namespace_entries_ok[OF ok(1)] load_kinds_accounted[OF ok(2)]
      by (auto simp: entry_files_def entry_hides_nothing_def)
  qed
qed

lemma load_entries_hide_nothing:
  assumes "fold_result (load_namespace fs rd allow base) es results = Inr results'"
  shows "list_all (entry_hides_nothing fs base) es"
  using assms
proof (induction es arbitrary: results)
  case (Cons e es)
  then obtain mid where "load_namespace fs rd allow base e results = Inr mid"
      "fold_result (load_namespace fs rd allow base) es mid = Inr results'"
    by (auto simp: bind_result_Inr_iff)
  then show ?case using Cons.IH load_namespace_ok by simp
qed simp

text \<open>
  C23.  Loading is complete and hides nothing.  A successful load returns exactly one resource for each
  enabled file of the tree, in the order of the namespaces, kinds and paths: read from that file, of the
  kind its directory holds, under the namespace of its directory.  Everything else in the tree is a
  directory on the expected path or a file of the documented exemptions (a leading underscore, the
  non-configuration names, the artifacts of an operating system); a misnamed file, an unexpected
  directory, a symbolic link or a special file makes the load fail instead of leaving a resource out.
\<close>

theorem load_complete:
  assumes "load_resources_with_options fs rd allow base = Inr rs"
  shows "list_all2 (loaded_from fs rd allow) (tree_files fs base) rs \<and> nothing_hidden fs base"
proof -
  obtain entries where entries: "read_dir_sorted fs base = Inr entries"
      "fold_result (load_namespace fs rd allow base) entries [] = Inr rs"
    using assms
    by (auto simp: load_resources_with_options_def bind_result_Inr_iff split: sum.splits io_error.splits if_splits)
  note l = read_dir_entries[OF entries(1)]
  have "\<exists>out. id rs = id [] @ out \<and>
      list_all2 (loaded_from fs rd allow) (concat (map (entry_files fs base) entries)) out"
    by (rule fold_appends[OF entries(2)]) (use load_namespace_ok in auto)
  then have "list_all2 (loaded_from fs rd allow) (tree_files fs base) rs"
    unfolding concat_entry_files l tree_files_def namespaces_of_def by simp
  moreover have "nothing_hidden fs base"
  proof -
    have hides: "entry_hides_nothing fs base e" if "e \<in> set (listed fs base)" for e
      using load_entries_hide_nothing[OF entries(2)] that unfolding l list_all_iff by blast
    have first: "list_all (\<lambda>e. snd e = Inr IsDir \<or> passive_file e) (listed fs base)"
      using hides unfolding list_all_iff entry_hides_nothing_def by blast
    have "list_all (\<lambda>e. snd e = Inr IsDir \<and> fst e \<in> fst ` set RESOURCE_SUBDIRECTORIES \<or> passive_file e)
          (listed fs (base @ [ns])) \<and>
        list_all (\<lambda>subdir. is_ok (fs_inspect fs (base @ [ns, fst subdir])) \<longrightarrow>
          list_all walk_accounted (fs_walk fs (base @ [ns, fst subdir]))) RESOURCE_SUBDIRECTORIES"
      if member: "ns \<in> set (namespaces_of fs base)" for ns
    proof -
      obtain e where e: "e \<in> set (listed fs base)" "snd e = Inr IsDir" "ns = fst e"
        using member by (auto simp: namespaces_of_def)
      then have "\<not> passive_file e" by (simp add: passive_file_def)
      then show ?thesis using hides[OF e(1)] e(3) unfolding entry_hides_nothing_def by blast
    qed
    then show ?thesis using first unfolding nothing_hidden_def list_all_iff by blast
  qed
  ultimately show ?thesis by blast
qed

section \<open>A small tree\<close>

definition regular :: inspection where
  "regular = \<lparr>in_kind = IsFile, in_len = 3, in_device = 1, in_inode = 7\<rparr>"

definition small_tree :: file_system where
  "small_tree = \<lparr>
     fs_inspect = (\<lambda>p. if p = [''r''] \<or> p = [''r'', ''a'', ''mesh''] then Inr (regular\<lparr>in_kind := IsDir\<rparr>)
       else if p = [''r'', ''a'', ''mesh'', ''m.yml''] then Inr regular else Inl IoNotFound),
     fs_open = (\<lambda>p. Inr (Inr regular, Inr ''doc'')),
     fs_list = (\<lambda>p. if p = [''r''] then Inr [Inr (''a'', Inr IsDir), Inr (''README'', Inr IsFile)]
       else Inr [Inr (''mesh'', Inr IsDir)]),
     fs_walk = (\<lambda>p. [Inr (p, IsDir), Inr (p @ [''_m.yml''], IsFile), Inr (p @ [''m.yml''], IsFile)])\<rparr>"

definition mesh_reader :: readers where
  "mesh_reader = \<lparr>
     yr_yaml = (\<lambda>_. Inr (JObject [(''kind'', JString ''MeshConfig''), (''spec'', JObject [])])),
     yr_proxy = (\<lambda>_. Inl []), yr_consumer = (\<lambda>_. Inl []), yr_upstream = (\<lambda>_. Inl []),
     yr_plugin_config = (\<lambda>_. Inl []), yr_mesh = (\<lambda>_. Inr (mesh_config_spec_default, []))\<rparr>"

lemma small_tree_read: "read_tree_file small_tree [''r'', ''a'', ''mesh'', ''m.yml''] = Inr ''doc''"
proof -
  have "utf8_valid ''doc''" by code_simp
  then show ?thesis
    by (simp add: read_tree_file_def read_bounded_repo_file_def small_tree_def regular_def same_file_def
        MAX_REPO_CONFIG_FILE_BYTES_def)
qed

lemma small_tree_document:
  "resource_from_yaml mesh_reader False ''doc'' path = Inr (MeshConfigRes None mesh_config_spec_default)"
  by (simp add: resource_from_yaml_def yaml_file_value_def MAX_YAML_INPUT_BYTES_def mesh_reader_def
      resource_from_json_value_def bt_get_def reject_ignored_def wrapper_keys_def bt_keys_def typed_resource_def
      mesh_wrapper_id_def deserialize_spec_def)

lemma small_tree_walk:
  "read_dir_sorted small_tree [''r''] = Inr [(''README'', Inr IsFile), (''a'', Inr IsDir)]"
  "namespace_entry ''resource tree'' [''r''] (''README'', Inr IsFile) = Inr None"
  "namespace_entry ''resource tree'' [''r''] (''a'', Inr IsDir) = Inr (Some ''a'')"
  "validate_namespace_tree small_tree [''r'', ''a''] ''resource tree'' = Inr ()"
  "kind_paths small_tree ''resource tree'' [''r'', ''a'', ''mesh''] = Inr [[''r'', ''a'', ''mesh'', ''m.yml'']]"
  "in_kind (projr (fs_inspect small_tree [''r''])) = IsDir"
  by code_simp+

lemma small_tree_other_kinds:
  "k \<noteq> ''mesh'' \<Longrightarrow> kind_paths small_tree ''resource tree'' [''r'', ''a'', k] = Inr []"
  by (simp add: kind_paths_def small_tree_def)

lemma small_tree_fragment:
  "named_fragment [''r'', ''a'', ''mesh'', ''m.yml''] (MeshConfigRes None mesh_config_spec_default) =
     Inr (MeshConfigRes (Some ''m'') mesh_config_spec_default)"
proof -
  have "file_stem [''r'', ''a'', ''mesh'', ''m.yml''] = Some ''m''" by code_simp
  then show ?thesis by (simp add: named_fragment_def)
qed

lemma small_tree_loads:
  "load_resources_with_options small_tree mesh_reader False [''r''] =
     Inr [(''a'', MeshConfigRes (Some ''m'') mesh_config_spec_default)]"
proof -
  have "fs_inspect small_tree [''r''] = Inr (regular\<lparr>in_kind := IsDir\<rparr>)" by (simp add: small_tree_def)
  then show ?thesis
    by (simp add: load_resources_with_options_def small_tree_walk load_namespace_def RESOURCE_SUBDIRECTORIES_def
        load_kind_def small_tree_other_kinds load_file_def small_tree_read small_tree_document small_tree_fragment
        record_fragment_def)
qed

theorem load_complete_witness:
  "map (snd \<circ> snd) (tree_files small_tree [''r'']) = [[''r'', ''a'', ''mesh'', ''m.yml'']] \<and>
   nothing_hidden small_tree [''r'']"
proof
  show "map (snd \<circ> snd) (tree_files small_tree [''r'']) = [[''r'', ''a'', ''mesh'', ''m.yml'']]"
    by code_simp
  show "nothing_hidden small_tree [''r'']" using load_complete[OF small_tree_loads] by blast
qed

end
