(* ===== verification/Overlay.thy ===== *)
theory Overlay
  imports ResourceTree
begin

text \<open>
  The overlay half of \<open>config/assembler.rs\<close>: merging partial documents of \<open>overlays/<env>/\<close> into the
  loaded resources.  \<open>to_str\<close> prints a JSON value as \<open>serde_json\<close> does; the file system and the readers are
  those of \<open>ResourceTree\<close>.
\<close>

section \<open>Merging two values\<close>

datatype array_identity = Generic | MeshWorkloadSpiffeId | MeshServiceNameNamespace

definition array_merge_identity :: "string list \<Rightarrow> string \<Rightarrow> array_identity option" where
  "array_merge_identity path kind =
     (case path of
        [spec, field] \<Rightarrow>
          if spec \<noteq> ''spec'' then None
          else if kind = ''MeshConfig'' \<and> field = ''workloads'' then Some MeshWorkloadSpiffeId
          else if kind = ''MeshConfig'' \<and> field = ''services'' then Some MeshServiceNameNamespace
          else if kind = ''MeshConfig'' then None
          else if kind = ''Proxy'' \<and> field = ''plugins'' \<or> kind = ''Upstream'' \<and> field = ''targets'' then Some Generic
          else None
      | _ \<Rightarrow> None)"

definition str_member :: "(string, json) btree_map \<Rightarrow> string \<Rightarrow> string option" where
  "str_member m key = Option.bind (bt_get m key) as_str"

definition named_identity :: "(string, json) btree_map \<Rightarrow> string \<Rightarrow> string option" where
  "named_identity m key = map_option (\<lambda>v. key @ '':'' @ v) (str_member m key)"

definition target_identity :: "(json \<Rightarrow> string) \<Rightarrow> (string, json) btree_map \<Rightarrow> string option" where
  "target_identity to_str m =
     (case (str_member m ''host'', bt_get m ''port'') of
        (Some host, Some port) \<Rightarrow>
          Some (''target:'' @ host @ '':'' @ to_str port @ '':'' @
            (case str_member m ''path'' of Some p \<Rightarrow> p | None \<Rightarrow> []))
      | _ \<Rightarrow> None)"

definition array_item_identity :: "(json \<Rightarrow> string) \<Rightarrow> json \<Rightarrow> array_identity \<Rightarrow> string option" where
  "array_item_identity to_str v identity =
     (case as_object v of
        None \<Rightarrow> None
      | Some m \<Rightarrow>
          (case identity of
             MeshWorkloadSpiffeId \<Rightarrow> named_identity m ''spiffe_id''
           | MeshServiceNameNamespace \<Rightarrow>
               (case (str_member m ''name'', str_member m ''namespace'') of
                  (Some name, Some namespace) \<Rightarrow> Some (''service:'' @ namespace @ ''/'' @ name)
                | _ \<Rightarrow> None)
           | Generic \<Rightarrow>
               (case map_option the (find (\<lambda>i. i \<noteq> None)
                       (map (named_identity m) [''id'', ''plugin_config_id'', ''name''])) of
                  Some i \<Rightarrow> Some i
                | None \<Rightarrow> target_identity to_str m)))"

text \<open>\<open>Iterator::position_of\<close>.\<close>

fun position_of :: "('a \<Rightarrow> bool) \<Rightarrow> 'a list \<Rightarrow> nat option" where
  "position_of p [] = None"
| "position_of p (x # xs) = (if p x then Some 0 else map_option Suc (position_of p xs))"

definition merge_object ::
    "(string \<Rightarrow> json \<Rightarrow> json \<Rightarrow> json) \<Rightarrow> (string, json) btree_map \<Rightarrow> (string, json) btree_map \<Rightarrow>
     (string, json) btree_map" where
  "merge_object merge overlay_map base_map =
     fold (\<lambda>e m. bt_insert (fst e)
       (case bt_get m (fst e) of Some base_val \<Rightarrow> merge (fst e) base_val (snd e) | None \<Rightarrow> snd e) m)
       overlay_map base_map"

definition merge_item ::
    "(json \<Rightarrow> string option) \<Rightarrow> (json \<Rightarrow> json \<Rightarrow> json) \<Rightarrow> json list \<Rightarrow> json \<Rightarrow> json list" where
  "merge_item identity_of merge base_items overlay_item =
     (case identity_of overlay_item of
        Some overlay_identity \<Rightarrow>
          (case position_of (\<lambda>item. identity_of item = Some overlay_identity) base_items of
             Some p \<Rightarrow> base_items[p := merge (base_items ! p) overlay_item]
           | None \<Rightarrow> base_items @ [overlay_item])
      | None \<Rightarrow> if overlay_item \<in> set base_items then base_items else base_items @ [overlay_item])"

lemma merge_object_cong [fundef_cong]:
  assumes "o1 = o2" and "b1 = b2" and "\<And>k b v. (k, v) \<in> set o2 \<Longrightarrow> f k b v = g k b v"
  shows "merge_object f o1 b1 = merge_object g o2 b2"
  unfolding merge_object_def assms(1,2)
  by (rule fold_cong) (auto simp: assms(3) fun_eq_iff split: option.splits)

lemma merge_item_cong [fundef_cong]:
  assumes "v1 = v2" and "b1 = b2" and "\<And>b v. v = v2 \<Longrightarrow> f b v = g b v"
  shows "merge_item i f b1 v1 = merge_item i g b2 v2"
  unfolding merge_item_def assms(1,2) assms(3)[OF refl] ..

lemma size_member: "(k, v) \<in> set m \<Longrightarrow> size v \<le> size_list (size_prod (\<lambda>_. 0) size) m"
  by (erule size_list_estimation') simp

function deep_merge_values :: "(json \<Rightarrow> string) \<Rightarrow> string \<Rightarrow> string list \<Rightarrow> json \<Rightarrow> json \<Rightarrow> json" where
  "deep_merge_values to_str kind path base overlay =
     (case (base, overlay) of
        (JObject base_map, JObject overlay_map) \<Rightarrow>
          JObject (merge_object (\<lambda>key. deep_merge_values to_str kind (path @ [key])) overlay_map base_map)
      | (JArray base_items, JArray overlay_items) \<Rightarrow>
          (case array_merge_identity path kind of
             Some identity \<Rightarrow>
               JArray (fold (\<lambda>item items. merge_item (\<lambda>v. array_item_identity to_str v identity)
                 (\<lambda>b v. deep_merge_values to_str kind [] b v) items item) overlay_items base_items)
           | None \<Rightarrow> overlay)
      | _ \<Rightarrow> overlay)"
  by pat_completeness auto
termination
proof (relation "measure (\<lambda>(_, _, _, _, overlay). size overlay)", goal_cases)
  case 1
  show ?case by simp
qed (auto simp: less_Suc_eq_le dest: size_list_estimation'[OF _ order_refl] size_member)

declare deep_merge_values.simps [simp del]

section \<open>Keys\<close>

record resource_key =
  rk_kind :: string
  rk_namespace :: string
  rk_id :: string

definition effective_namespace :: "string \<Rightarrow> string \<Rightarrow> string" where
  "effective_namespace directory_namespace spec_namespace =
     (if spec_namespace = ''ferrum'' then directory_namespace else spec_namespace)"

fun resource_key_of :: "string \<Rightarrow> resource \<Rightarrow> resource_key" where
  "resource_key_of dir (ProxyRes p) =
     \<lparr>rk_kind = ''Proxy'', rk_namespace = effective_namespace dir (p_namespace p), rk_id = p_id p\<rparr>"
| "resource_key_of dir (ConsumerRes c) =
     \<lparr>rk_kind = ''Consumer'', rk_namespace = effective_namespace dir (c_namespace c), rk_id = c_id c\<rparr>"
| "resource_key_of dir (UpstreamRes u) =
     \<lparr>rk_kind = ''Upstream'', rk_namespace = effective_namespace dir (u_namespace u), rk_id = u_id u\<rparr>"
| "resource_key_of dir (PluginConfigRes p) =
     \<lparr>rk_kind = ''PluginConfig'', rk_namespace = effective_namespace dir (pc_namespace p), rk_id = pc_id p\<rparr>"
| "resource_key_of dir (MeshConfigRes i _) =
     \<lparr>rk_kind = ''MeshConfig'', rk_namespace = dir, rk_id = (case i of Some s \<Rightarrow> s | None \<Rightarrow> [])\<rparr>"

section \<open>Overlay files\<close>

record overlay_fragment =
  of_namespace :: string
  of_kind :: string
  of_stem :: string
  of_path :: tree_path
  of_value :: json

datatype overlay_error =
    TreeRefused tree_error
  | OverlayMissing tree_path
  | DuplicateBase resource_key nat nat
  | OverlayNotObject tree_path
  | OverlayKindMissing tree_path string
  | OverlayKindMismatch tree_path string string string
  | OverlaySpecMissing tree_path
  | OverlayIdWhitespace tree_path
  | OverlayIdEmpty tree_path
  | DuplicateTarget resource_key tree_path tree_path
  | AliasConflict tree_path
  | OrphanOverlay resource_key tree_path

definition tree_result :: "(tree_error, 'a) result \<Rightarrow> (overlay_error, 'a) result" where
  "tree_result = map_sum TreeRefused id"

definition check_overlay_document ::
    "tree_path \<Rightarrow> string \<times> string \<Rightarrow> json \<Rightarrow> (overlay_error, unit) result" where
  "check_overlay_document path subdir v =
     (case as_object v of
        None \<Rightarrow> Inl (OverlayNotObject path)
      | Some obj \<Rightarrow>
          (case str_member obj ''kind'' of
             None \<Rightarrow> Inl (OverlayKindMissing path (snd subdir))
           | Some declared \<Rightarrow>
               if declared \<noteq> snd subdir then Inl (OverlayKindMismatch path declared (fst subdir) (snd subdir))
               else if Option.bind (bt_get obj ''spec'') as_object = None then Inl (OverlaySpecMissing path)
               else tree_result (reject_ignored path (map (\<lambda>key. ''.'' @ key)
                 (filter (\<lambda>key. key \<notin> set (wrapper_keys (snd subdir))) (bt_keys obj))))))"

definition load_fragment ::
    "file_system \<Rightarrow> readers \<Rightarrow> string \<Rightarrow> string \<times> string \<Rightarrow> tree_path \<Rightarrow> overlay_fragment list \<Rightarrow>
     (overlay_error, overlay_fragment list) result" where
  "load_fragment fs rd ns subdir path results =
     bind_result (tree_result (read_tree_file fs path)) (\<lambda>contents.
     bind_result (tree_result (yaml_file_value rd contents path)) (\<lambda>v.
     bind_result (check_overlay_document path subdir v) (\<lambda>_.
       Inr (results @
         [\<lparr>of_namespace = ns, of_kind = snd subdir,
           of_stem = (case file_stem path of Some s \<Rightarrow> s | None \<Rightarrow> []), of_path = path, of_value = v\<rparr>]))))"

definition load_fragment_kind ::
    "file_system \<Rightarrow> readers \<Rightarrow> tree_path \<Rightarrow> string \<Rightarrow> string \<times> string \<Rightarrow> overlay_fragment list \<Rightarrow>
     (overlay_error, overlay_fragment list) result" where
  "load_fragment_kind fs rd base ns subdir results =
     bind_result (tree_result (kind_paths fs ''overlay tree'' (base @ [ns, fst subdir]))) (\<lambda>paths.
       fold_result (load_fragment fs rd ns subdir) paths results)"

definition load_fragment_namespace ::
    "file_system \<Rightarrow> readers \<Rightarrow> tree_path \<Rightarrow> string \<times> (io_error, file_kind) result \<Rightarrow> overlay_fragment list \<Rightarrow>
     (overlay_error, overlay_fragment list) result" where
  "load_fragment_namespace fs rd base entry results =
     bind_result (tree_result (namespace_entry ''overlay tree'' base entry)) (\<lambda>name.
     case name of
       None \<Rightarrow> Inr results
     | Some ns \<Rightarrow>
         bind_result (tree_result (validate_namespace_tree fs (base @ [ns]) ''overlay tree'')) (\<lambda>_.
           fold_result (load_fragment_kind fs rd base ns) RESOURCE_SUBDIRECTORIES results))"

definition load_overlay_fragments ::
    "file_system \<Rightarrow> readers \<Rightarrow> tree_path \<Rightarrow> (overlay_error, overlay_fragment list) result" where
  "load_overlay_fragments fs rd base =
     bind_result (tree_result (read_dir_sorted fs base)) (\<lambda>entries.
       fold_result (load_fragment_namespace fs rd base) entries [])"

section \<open>Applying an overlay\<close>

definition spec_member :: "json \<Rightarrow> string \<Rightarrow> json option" where
  "spec_member v key = Option.bind (jget v ''spec'') (\<lambda>s. jget s key)"

definition overlay_effective_namespace :: "json \<Rightarrow> string \<Rightarrow> string" where
  "overlay_effective_namespace v directory_namespace =
     (case Option.bind (spec_member v ''namespace'') as_str of
        Some ns \<Rightarrow> effective_namespace directory_namespace ns
      | None \<Rightarrow> directory_namespace)"

definition overlay_fragment_id :: "overlay_fragment \<Rightarrow> (overlay_error, string) result" where
  "overlay_fragment_id f =
     (if of_kind f = ''MeshConfig'' then
        (case Option.bind (jget (of_value f) ''id'') as_str of
           Some raw \<Rightarrow>
             if trim raw \<noteq> raw then Inl (OverlayIdWhitespace (of_path f))
             else Inr (if raw \<noteq> [] then raw else of_stem f)
         | None \<Rightarrow> Inr (of_stem f))
      else Inr (case Option.bind (spec_member (of_value f) ''id'') as_str of Some i \<Rightarrow> i | None \<Rightarrow> []))"

definition overlay_key_of :: "overlay_fragment \<Rightarrow> (overlay_error, resource_key) result" where
  "overlay_key_of f =
     bind_result (overlay_fragment_id f) (\<lambda>overlay_id.
     if overlay_id = [] then Inl (OverlayIdEmpty (of_path f))
     else Inr \<lparr>rk_kind = of_kind f,
            rk_namespace =
              (if of_kind f = ''MeshConfig'' then of_namespace f
               else overlay_effective_namespace (of_value f) (of_namespace f)),
            rk_id = overlay_id\<rparr>)"

definition canonicalize_backend_protocol_alias :: "json \<Rightarrow> tree_path \<Rightarrow> (overlay_error, json) result" where
  "canonicalize_backend_protocol_alias v path =
     (case (as_object v, Option.bind (jget v ''spec'') as_object) of
        (Some obj, Some spec) \<Rightarrow>
          (case bt_get spec ''backend_protocol'' of
             None \<Rightarrow> Inr v
           | Some alias \<Rightarrow>
               let spec = bt_remove ''backend_protocol'' spec in
               (case bt_get spec ''backend_scheme'' of
                  None \<Rightarrow> Inr (JObject (bt_insert ''spec'' (JObject (bt_insert ''backend_scheme'' alias spec)) obj))
                | Some canonical \<Rightarrow>
                    if canonical = alias then Inr (JObject (bt_insert ''spec'' (JObject spec) obj))
                    else Inl (AliasConflict path)))
      | _ \<Rightarrow> Inr v)"

definition mesh_config_spec_to_value :: "mesh_config_spec \<Rightarrow> json" where
  "mesh_config_spec_to_value m = jstruct
     (opt_fld ''istio_root_namespace'' JString (m_istio_root_namespace m) @
      list_fld ''workloads'' id (m_workloads m) @ list_fld ''services'' id (m_services m) @
      list_fld ''mesh_policies'' id (m_mesh_policies m) @
      list_fld ''ext_authz_providers'' id (m_ext_authz_providers m) @
      list_fld ''peer_authentications'' id (m_peer_authentications m) @
      list_fld ''service_entries'' id (m_service_entries m) @
      list_fld ''request_authentications'' id (m_request_authentications m) @
      list_fld ''telemetry_resources'' id (m_telemetry_resources m) @
      list_fld ''destination_rules'' id (m_destination_rules m) @
      list_fld ''virtual_service_cors_policies'' id (m_virtual_service_cors_policies m) @
      list_fld ''proxy_configs'' id (m_proxy_configs m) @ list_fld ''sidecars'' id (m_sidecars m) @
      list_fld ''waypoint_bindings'' id (m_waypoint_bindings m) @
      opt_fld ''trust_bundles'' id (m_trust_bundles m) @ opt_fld ''multi_cluster'' id (m_multi_cluster m) @
      opt_fld ''outbound_traffic_policy'' id (m_outbound_traffic_policy m) @
      list_fld ''extension_configs'' id (m_extension_configs m))"

fun resource_to_value :: "resource \<Rightarrow> json" where
  "resource_to_value (ProxyRes p) = jstruct (fld ''kind'' (JString ''Proxy'') @ fld ''spec'' (proxy_to_value p))"
| "resource_to_value (ConsumerRes c) =
     jstruct (fld ''kind'' (JString ''Consumer'') @ fld ''spec'' (consumer_to_value c))"
| "resource_to_value (UpstreamRes u) =
     jstruct (fld ''kind'' (JString ''Upstream'') @ fld ''spec'' (upstream_to_value u))"
| "resource_to_value (PluginConfigRes p) =
     jstruct (fld ''kind'' (JString ''PluginConfig'') @ fld ''spec'' (plugin_config_to_value p))"
| "resource_to_value (MeshConfigRes i m) =
     jstruct (fld ''kind'' (JString ''MeshConfig'') @ opt_fld ''id'' JString i @
       fld ''spec'' (mesh_config_spec_to_value m))"

definition index_row ::
    "nat \<times> string \<times> resource \<Rightarrow> (resource_key \<rightharpoonup> nat) \<Rightarrow> (overlay_error, resource_key \<rightharpoonup> nat) result" where
  "index_row e index =
     (let key = resource_key_of (fst (snd e)) (snd (snd e)) in
      case index key of
        Some previous \<Rightarrow> Inl (DuplicateBase key previous (fst e))
      | None \<Rightarrow> Inr (index(key \<mapsto> fst e)))"

definition base_index ::
    "(string \<times> resource) list \<Rightarrow> (overlay_error, resource_key \<rightharpoonup> nat) result" where
  "base_index base = fold_result index_row (List.enumerate 0 base) Map.empty"

definition merge_fragment ::
    "(json \<Rightarrow> string) \<Rightarrow> readers \<Rightarrow> bool \<Rightarrow> overlay_fragment \<Rightarrow> resource \<Rightarrow> (overlay_error, resource) result"
  where
  "merge_fragment to_str rd allow f resource =
     bind_result (if of_kind f = ''Proxy'' then canonicalize_backend_protocol_alias (of_value f) (of_path f)
       else Inr (of_value f)) (\<lambda>v.
       tree_result (resource_from_json_value rd allow
         (deep_merge_values to_str (of_kind f) [] (resource_to_value resource) v) (of_path f)))"

definition apply_fragment ::
    "(json \<Rightarrow> string) \<Rightarrow> readers \<Rightarrow> bool \<Rightarrow> (resource_key \<rightharpoonup> nat) \<Rightarrow> overlay_fragment \<Rightarrow>
     (resource_key \<rightharpoonup> tree_path) \<times> (string \<times> resource) list \<Rightarrow>
     (overlay_error, (resource_key \<rightharpoonup> tree_path) \<times> (string \<times> resource) list) result" where
  "apply_fragment to_str rd allow index f acc =
     bind_result (overlay_key_of f) (\<lambda>key.
     case fst acc key of
       Some previous \<Rightarrow> Inl (DuplicateTarget key previous (of_path f))
     | None \<Rightarrow>
         (case index key of
            None \<Rightarrow> Inl (OrphanOverlay key (of_path f))
          | Some i \<Rightarrow>
              bind_result (merge_fragment to_str rd allow f (snd (snd acc ! i))) (\<lambda>resource.
                Inr ((fst acc)(key \<mapsto> of_path f), (snd acc)[i := (rk_namespace key, resource)]))))"

definition apply_overlay_with_options ::
    "(json \<Rightarrow> string) \<Rightarrow> file_system \<Rightarrow> readers \<Rightarrow> bool \<Rightarrow> (string \<times> resource) list \<Rightarrow> tree_path \<Rightarrow>
     (overlay_error, (string \<times> resource) list) result" where
  "apply_overlay_with_options to_str fs rd allow base overlay_dir =
     (case fs_inspect fs overlay_dir of
        Inl IoNotFound \<Rightarrow> Inl (OverlayMissing overlay_dir)
      | Inl e \<Rightarrow> Inl (TreeRefused (FileRead overlay_dir e))
      | Inr metadata \<Rightarrow>
          if in_kind metadata = IsSymlink then Inl (TreeRefused (ConfigSymlink overlay_dir))
          else if in_kind metadata \<noteq> IsDir then Inl (OverlayMissing overlay_dir)
          else
            bind_result (base_index base) (\<lambda>index.
            bind_result (load_overlay_fragments fs rd overlay_dir) (\<lambda>fragments.
              map_sum id snd (fold_result (apply_fragment to_str rd allow index) fragments (Map.empty, base)))))"

definition apply_overlay ::
    "(json \<Rightarrow> string) \<Rightarrow> file_system \<Rightarrow> readers \<Rightarrow> (string \<times> resource) list \<Rightarrow> tree_path \<Rightarrow>
     (overlay_error, (string \<times> resource) list) result" where
  "apply_overlay to_str fs rd base overlay_dir = apply_overlay_with_options to_str fs rd False base overlay_dir"

end
