(* ===== verification/NamespaceGuard.thy ===== *)
theory NamespaceGuard
  imports Policy
begin

text \<open>
  \<open>config/namespace_guard.rs\<close>: the diagnosis of a namespace filter that selects nothing.  \<open>peer_text\<close>
  prepares text the gateway sent for display, and \<open>sj_from\<close>, \<open>sj_to\<close> read and pretty-print a JSON
  document.
\<close>

definition EMPTY_NAMESPACE_EXIT_CODE :: int where
  "EMPTY_NAMESPACE_EXIT_CODE = 1"

record namespace_scope =
  nsc_filter :: "string option"
  nsc_on_disk_namespaces :: "string list"
  nsc_on_disk_count :: nat
  nsc_desired_count :: nat
  nsc_live_count :: "nat option"
  nsc_live_namespaces :: "string list"

definition namespace_scope_default :: namespace_scope where
  "namespace_scope_default =
     \<lparr>nsc_filter = None, nsc_on_disk_namespaces = [], nsc_on_disk_count = 0, nsc_desired_count = 0,
      nsc_live_count = None, nsc_live_namespaces = []\<rparr>"

definition inventory_from_resources :: "(string \<times> resource) list \<Rightarrow> nat \<times> string list" where
  "inventory_from_resources resources =
     (length resources,
      fold (\<lambda>r namespaces. if fst r \<noteq> [] then bs_insert (fst r) namespaces else namespaces) resources [])"

definition gateway_resource_count :: "gateway_config \<Rightarrow> nat" where
  "gateway_resource_count config =
     length (gc_proxies config) + length (gc_consumers config) + length (gc_upstreams config) +
     length (gc_plugin_configs config)"

definition with_desired :: "string option \<Rightarrow> string list \<Rightarrow> nat \<Rightarrow> gateway_config \<Rightarrow> nat \<Rightarrow> namespace_scope" where
  "with_desired filter_ns on_disk_namespaces on_disk_count desired desired_mesh_count =
     \<lparr>nsc_filter = filter_ns, nsc_on_disk_namespaces = on_disk_namespaces, nsc_on_disk_count = on_disk_count,
      nsc_desired_count = gateway_resource_count desired + desired_mesh_count, nsc_live_count = None,
      nsc_live_namespaces = []\<rparr>"

definition from_loaded ::
    "string option \<Rightarrow> (string \<times> resource) list \<Rightarrow> gateway_config \<Rightarrow> nat \<Rightarrow> namespace_scope" where
  "from_loaded filter_ns resources desired desired_mesh_count =
     (let (on_disk_count, on_disk_namespaces) = inventory_from_resources resources in
      with_desired filter_ns on_disk_namespaces on_disk_count desired desired_mesh_count)"

definition set_live_count :: "nat \<Rightarrow> namespace_scope \<Rightarrow> namespace_scope" where
  "set_live_count n s = s\<lparr>nsc_live_count := Some n\<rparr>"

definition set_live_namespaces :: "string list \<Rightarrow> namespace_scope \<Rightarrow> namespace_scope" where
  "set_live_namespaces namespaces s = s\<lparr>nsc_live_namespaces := namespaces\<rparr>"

definition empty_desired_mismatch :: "namespace_scope \<Rightarrow> bool" where
  "empty_desired_mismatch s \<longleftrightarrow> nsc_filter s \<noteq> None \<and> nsc_desired_count s = 0 \<and> 0 < nsc_on_disk_count s"

definition live_filter_matched_nothing :: "namespace_scope \<Rightarrow> bool" where
  "live_filter_matched_nothing s =
     (case nsc_filter s of
        None \<Rightarrow> False
      | Some filter_ns \<Rightarrow>
          if nsc_live_count s \<noteq> Some 0 then False
          else if nsc_live_namespaces s = [] then False
          else \<not> list_ex (\<lambda>ns. ns = filter_ns) (nsc_live_namespaces s) \<and>
               list_ex (\<lambda>ns. ns \<noteq> filter_ns) (nsc_live_namespaces s))"

definition format_namespace_list :: "string list \<Rightarrow> string" where
  "format_namespace_list namespaces =
     (if namespaces = [] then ''<none>'' else join '', '' (map sanitize_str namespaces))"

definition filter_or :: "string \<Rightarrow> namespace_scope \<Rightarrow> string" where
  "filter_or otherwise s = sanitize_str (case nsc_filter s of Some f \<Rightarrow> f | None \<Rightarrow> otherwise)"

definition desired_mismatch_message :: "namespace_scope \<Rightarrow> string" where
  "desired_mismatch_message s = sanitize_line_str
     (''namespace filter '' @ [CHR 0x27] @ filter_or ''<unset>'' s @ [CHR 0x27] @
      '' selected 0 desired resources (desired='' @ show_nat (nsc_desired_count s) @ '', on_disk='' @
      show_nat (nsc_on_disk_count s) @ ''), but the resource tree contains resources in namespace(s): '' @
      format_namespace_list (nsc_on_disk_namespaces s) @
      ''. This usually means FERRUM_NAMESPACE or the environment namespace_filter is mistyped. Re-run with a matching namespace, omit the filter to process all namespaces, or pass --allow-empty-namespace to continue.'')"

definition live_mismatch_message :: "(string \<Rightarrow> string) \<Rightarrow> namespace_scope \<Rightarrow> string" where
  "live_mismatch_message peer_text s = sanitize_line_str
     (''namespace filter '' @ [CHR 0x27] @ filter_or ''<unset>'' s @ [CHR 0x27] @
      '' matched 0 live resources (live='' @
      show_nat (case nsc_live_count s of Some n \<Rightarrow> n | None \<Rightarrow> 0) @
      ''), but unfiltered live inventory lists namespace(s): '' @
      format_namespace_list (map peer_text (nsc_live_namespaces s)) @
      ''. Comparison is against an empty live set because the filter matched nothing.'')"

record namespace_filter_finding =
  nff_severity :: severity
  nff_message :: string

definition desired_finding :: "bool \<Rightarrow> namespace_scope \<Rightarrow> namespace_filter_finding option" where
  "desired_finding allow_empty_namespace s =
     (if \<not> empty_desired_mismatch s then None
      else Some \<lparr>nff_severity = (if allow_empty_namespace then Warning else Error),
                 nff_message = desired_mismatch_message s\<rparr>)"

definition nff_is_error :: "namespace_filter_finding \<Rightarrow> bool" where
  "nff_is_error f = blocks_apply (nff_severity f)"

definition nff_severity_label :: "namespace_filter_finding \<Rightarrow> string" where
  "nff_severity_label f = severity_as_str (nff_severity f)"

definition live_warning :: "(string \<Rightarrow> string) \<Rightarrow> namespace_scope \<Rightarrow> string option" where
  "live_warning peer_text s =
     (if \<not> live_filter_matched_nothing s then None else Some (live_mismatch_message peer_text s))"

definition text_line :: "namespace_scope \<Rightarrow> string" where
  "text_line s =
     ''namespace='' @ filter_or ''<all>'' s @ ''  desired='' @ show_nat (nsc_desired_count s) @ ''  on_disk='' @
     show_nat (nsc_on_disk_count s) @ '' ('' @ format_namespace_list (nsc_on_disk_namespaces s) @ '')'' @
     (case nsc_live_count s of Some n \<Rightarrow> ''  live='' @ show_nat n | None \<Rightarrow> [])"

definition json_fields :: "(string \<Rightarrow> string) \<Rightarrow> namespace_scope \<Rightarrow> (string, json) btree_map" where
  "json_fields peer_text s = bt_of_list
     [(''namespace'', case nsc_filter s of Some f \<Rightarrow> JString (sanitize_str f) | None \<Rightarrow> JNull),
      (''desired_count'', JNumber (PosInt (nsc_desired_count s))),
      (''live_count'', case nsc_live_count s of Some n \<Rightarrow> JNumber (PosInt n) | None \<Rightarrow> JNull),
      (''on_disk_count'', JNumber (PosInt (nsc_on_disk_count s))),
      (''on_disk_namespaces'', jstrs (map sanitize_str (nsc_on_disk_namespaces s))),
      (''live_namespaces'', jstrs (map (\<lambda>ns. sanitize_str (peer_text ns)) (nsc_live_namespaces s))),
      (''live_filter_matched_nothing'', JBool (live_filter_matched_nothing s))]"

definition merge_scope_json ::
    "(string \<Rightarrow> json option) \<Rightarrow> (json \<Rightarrow> string option) \<Rightarrow> (string \<Rightarrow> string) \<Rightarrow> string \<Rightarrow> namespace_scope \<Rightarrow>
     namespace_filter_finding option \<Rightarrow> string" where
  "merge_scope_json sj_from sj_to peer_text formatted s finding =
     (case sj_from formatted of
        Some (JObject m) \<Rightarrow>
          let m = fold (\<lambda>e. bt_insert (fst e) (snd e)) (json_fields peer_text s) m;
              m = (case finding of
                Some f \<Rightarrow>
                  bt_insert ''empty_namespace_filter_message'' (JString (nff_message f))
                    (bt_insert ''empty_namespace_filter'' (JString (nff_severity_label f)) m)
              | None \<Rightarrow> bt_insert ''empty_namespace_filter'' JNull m) in
          (case sj_to (JObject m) of Some out \<Rightarrow> out | None \<Rightarrow> formatted)
      | _ \<Rightarrow> formatted)"

end
