(* ===== verification/Assemble.thy ===== *)
theory Assemble
  imports Overlay NamespaceGuard
begin

text \<open>
  The assembling half of \<open>config/assembler.rs\<close>: from loaded resources to the desired configuration and
  the merged mesh document.
\<close>

section \<open>Mesh fragments\<close>

text \<open>The error of a conflicting singleton carries the two values as JSON.\<close>

datatype assemble_error =
    DuplicateMeshFragment string string
  | MeshEntryConflict string string string string array_identity
  | MeshSingletonConflict string string json string json
  | MeshScopeViolation string "string list" "string list"

type_synonym identity_index = "string \<rightharpoonup> nat \<times> string"

definition identity_key_description :: "array_identity \<Rightarrow> string" where
  "identity_key_description identity =
     (case identity of
        MeshWorkloadSpiffeId \<Rightarrow> ''spiffe_id''
      | MeshServiceNameNamespace \<Rightarrow> ''(name, namespace)''
      | Generic \<Rightarrow> ''id / name'')"

definition merge_identified_item ::
    "(json \<Rightarrow> string) \<Rightarrow> string \<Rightarrow> array_identity \<Rightarrow> string \<Rightarrow> json \<Rightarrow> json list \<times> identity_index \<Rightarrow>
     (assemble_error, json list \<times> identity_index) result" where
  "merge_identified_item to_str field identity origin item acc =
     (case array_item_identity to_str item identity of
        None \<Rightarrow> Inr (fst acc @ [item], snd acc)
      | Some item_identity \<Rightarrow>
          (case snd acc item_identity of
             Some (pos, previous) \<Rightarrow>
               if pos < length (fst acc) \<and> fst acc ! pos = item then Inr acc
               else Inl (MeshEntryConflict field item_identity previous origin identity)
           | None \<Rightarrow>
               Inr (fst acc @ [item], (snd acc)(item_identity \<mapsto> (length (fst acc), origin)))))"

definition merge_mesh_identified_collection ::
    "(json \<Rightarrow> string) \<Rightarrow> string \<Rightarrow> json list \<Rightarrow> array_identity \<Rightarrow> string \<Rightarrow> json list \<times> identity_index \<Rightarrow>
     (assemble_error, json list \<times> identity_index) result" where
  "merge_mesh_identified_collection to_str field incoming identity origin acc =
     fold_result (merge_identified_item to_str field identity origin) incoming acc"

definition merge_mesh_singleton ::
    "string \<Rightarrow> ('a \<Rightarrow> json) \<Rightarrow> 'a option \<Rightarrow> 'a option \<Rightarrow> string \<Rightarrow> (string \<rightharpoonup> string) \<Rightarrow>
     (assemble_error, 'a option \<times> (string \<rightharpoonup> string)) result" where
  "merge_mesh_singleton field shown slot incoming origin origins =
     (case incoming of
        None \<Rightarrow> Inr (slot, origins)
      | Some new \<Rightarrow>
          (case slot of
             Some existing \<Rightarrow>
               if existing \<noteq> new
               then Inl (MeshSingletonConflict field
                 (case origins field of Some previous \<Rightarrow> previous | None \<Rightarrow> ''<unknown>'') (shown existing)
                 origin (shown new))
               else Inr (slot, origins)
           | None \<Rightarrow> Inr (Some new, origins(field \<mapsto> origin))))"

record mesh_merge =
  mm_merged :: mesh_config_spec
  mm_origins :: "string \<rightharpoonup> string"
  mm_workloads :: identity_index
  mm_services :: identity_index

definition extend_collections :: "mesh_config_spec \<Rightarrow> mesh_config_spec \<Rightarrow> mesh_config_spec" where
  "extend_collections fragment merged = merged\<lparr>
     m_mesh_policies := m_mesh_policies merged @ m_mesh_policies fragment,
     m_ext_authz_providers := m_ext_authz_providers merged @ m_ext_authz_providers fragment,
     m_peer_authentications := m_peer_authentications merged @ m_peer_authentications fragment,
     m_service_entries := m_service_entries merged @ m_service_entries fragment,
     m_request_authentications := m_request_authentications merged @ m_request_authentications fragment,
     m_telemetry_resources := m_telemetry_resources merged @ m_telemetry_resources fragment,
     m_destination_rules := m_destination_rules merged @ m_destination_rules fragment,
     m_virtual_service_cors_policies :=
       m_virtual_service_cors_policies merged @ m_virtual_service_cors_policies fragment,
     m_proxy_configs := m_proxy_configs merged @ m_proxy_configs fragment,
     m_sidecars := m_sidecars merged @ m_sidecars fragment,
     m_waypoint_bindings := m_waypoint_bindings merged @ m_waypoint_bindings fragment,
     m_extension_configs := m_extension_configs merged @ m_extension_configs fragment\<rparr>"

definition merge_mesh_fragment ::
    "(json \<Rightarrow> string) \<Rightarrow> string \<times> mesh_config_spec \<Rightarrow> mesh_merge \<Rightarrow> (assemble_error, mesh_merge) result" where
  "merge_mesh_fragment to_str e st =
     (let origin = fst e; fragment = snd e; merged = mm_merged st in
      bind_result (merge_mesh_identified_collection to_str ''workloads'' (m_workloads fragment)
        MeshWorkloadSpiffeId origin (m_workloads merged, mm_workloads st)) (\<lambda>(workloads, workload_index).
      bind_result (merge_mesh_identified_collection to_str ''services'' (m_services fragment)
        MeshServiceNameNamespace origin (m_services merged, mm_services st)) (\<lambda>(services, service_index).
      bind_result (merge_mesh_singleton ''istio_root_namespace'' JString (m_istio_root_namespace merged)
        (m_istio_root_namespace fragment) origin (mm_origins st)) (\<lambda>(istio_root, origins).
      bind_result (merge_mesh_singleton ''trust_bundles'' id (m_trust_bundles merged)
        (m_trust_bundles fragment) origin origins) (\<lambda>(trust_bundles, origins).
      bind_result (merge_mesh_singleton ''multi_cluster'' id (m_multi_cluster merged)
        (m_multi_cluster fragment) origin origins) (\<lambda>(multi_cluster, origins).
      bind_result (merge_mesh_singleton ''outbound_traffic_policy'' id (m_outbound_traffic_policy merged)
        (m_outbound_traffic_policy fragment) origin origins) (\<lambda>(outbound, origins).
      Inr \<lparr>mm_merged = (extend_collections fragment merged)\<lparr>
              m_workloads := workloads, m_services := services, m_istio_root_namespace := istio_root,
              m_trust_bundles := trust_bundles, m_multi_cluster := multi_cluster,
              m_outbound_traffic_policy := outbound\<rparr>,
           mm_origins = origins, mm_workloads = workload_index, mm_services = service_index\<rparr>)))))))"

definition empty_merge :: mesh_merge where
  "empty_merge = \<lparr>mm_merged = mesh_config_spec_default, mm_origins = Map.empty, mm_workloads = Map.empty,
     mm_services = Map.empty\<rparr>"

definition merge_mesh_fragments ::
    "(json \<Rightarrow> string) \<Rightarrow> (string \<times> mesh_config_spec) list \<Rightarrow> (assemble_error, mesh_config_spec option) result"
  where
  "merge_mesh_fragments to_str fragments =
     (if fragments = [] then Inr None
      else map_sum id (Some \<circ> mm_merged) (fold_result (merge_mesh_fragment to_str) fragments empty_merge))"

section \<open>Normalization\<close>

definition normalize_consumer_credentials :: "gateway_config \<Rightarrow> gateway_config" where
  "normalize_consumer_credentials config = config\<lparr>gc_consumers :=
     map (\<lambda>consumer. consumer\<lparr>c_credentials :=
       map (\<lambda>e. (fst e, if as_object (snd e) \<noteq> None then JArray [snd e] else snd e)) (c_credentials consumer)\<rparr>)
       (gc_consumers config)\<rparr>"

definition normalize_proxy_backend_schemes :: "gateway_config \<Rightarrow> gateway_config" where
  "normalize_proxy_backend_schemes config = config\<lparr>gc_proxies :=
     map (\<lambda>proxy. if p_backend_scheme proxy = None \<and> \<not> is_stream_proxy proxy
                  then proxy\<lparr>p_backend_scheme := Some Https\<rparr> else proxy) (gc_proxies config)\<rparr>"

definition scoped_step ::
    "plugin_config \<Rightarrow> (string \<times> string, string list) btree_map \<Rightarrow> (string \<times> string, string list) btree_map" where
  "scoped_step plugin scoped =
     (case (pc_scope plugin, pc_proxy_id plugin) of
        (ProxyScope, Some proxy_id) \<Rightarrow>
          let key = (pc_namespace plugin, proxy_id) in
          bt_insert key (bs_insert (pc_id plugin) (case bt_get scoped key of Some ids \<Rightarrow> ids | None \<Rightarrow> [])) scoped
      | _ \<Rightarrow> scoped)"

definition retain_first :: "plugin_association \<Rightarrow> plugin_association list \<times> string set \<Rightarrow>
    plugin_association list \<times> string set" where
  "retain_first association acc =
     (if pa_plugin_config_id association \<in> snd acc then acc
      else (fst acc @ [association], insert (pa_plugin_config_id association) (snd acc)))"

definition add_derived :: "string \<Rightarrow> plugin_association list \<times> string set \<Rightarrow> plugin_association list \<times> string set" where
  "add_derived plugin_id acc =
     (if plugin_id \<in> snd acc then acc
      else (fst acc @ [\<lparr>pa_plugin_config_id = plugin_id\<rparr>], insert plugin_id (snd acc)))"

definition normalize_proxy_plugin_associations :: "gateway_config \<Rightarrow> gateway_config" where
  "normalize_proxy_plugin_associations config =
     (let scoped = fold scoped_step (gc_plugin_configs config) [] in
      config\<lparr>gc_proxies := map (\<lambda>proxy.
        let kept = fold retain_first (p_plugins proxy) ([], {});
            all = (case bt_get scoped (p_namespace proxy, p_id proxy) of
                     Some plugin_ids \<Rightarrow> fold add_derived plugin_ids kept
                   | None \<Rightarrow> kept) in
        proxy\<lparr>p_plugins := fst all\<rparr>) (gc_proxies config)\<rparr>)"

section \<open>Assembling\<close>

record assembled_output =
  ass_gateway :: gateway_config
  ass_mesh :: "mesh_config_spec option"
  ass_mesh_sources :: "(string \<times> string) list"
  ass_namespace_scope :: namespace_scope

definition validate_mesh_scope :: "assembled_output \<Rightarrow> string \<Rightarrow> string list \<Rightarrow> (assemble_error, unit) result" where
  "validate_mesh_scope output env owned =
     (let violations = map (\<lambda>e. ''MeshConfig '' @ snd e @ '' in namespace '' @ [CHR 0x27] @ fst e @ [CHR 0x27])
            (filter (\<lambda>e. fst e \<notin> set owned) (ass_mesh_sources output)) in
      if violations \<noteq> [] then Inl (MeshScopeViolation env owned violations) else Inr ())"

definition stamp_labels :: "(string, string) btree_map \<Rightarrow> (string, string) btree_map" where
  "stamp_labels labels =
     (if bt_contains labels ''provisioned-by'' then labels
      else bt_insert ''provisioned-by'' ''ferrum-edge-git-forge-ops'' labels)"

record assembling =
  asm_config :: gateway_config
  asm_fragments :: "(string \<times> mesh_config_spec) list"
  asm_sources :: "(string \<times> string) list"
  asm_fragment_ids :: "(string \<times> string) set"

definition add_mesh_fragment ::
    "string \<Rightarrow> string option \<Rightarrow> mesh_config_spec \<Rightarrow> assembling \<Rightarrow> (assemble_error, assembling) result" where
  "add_mesh_fragment ns mesh_id spec st =
     (let push = (\<lambda>label ids. st\<lparr>asm_sources := asm_sources st @ [(ns, label)],
            asm_fragments := asm_fragments st @ [(label, spec)], asm_fragment_ids := ids\<rparr>) in
      case mesh_id of
        Some i \<Rightarrow>
          if trim i = [] then Inr (push (ns @ ''/mesh'') (asm_fragment_ids st))
          else if (ns, i) \<in> asm_fragment_ids st then Inl (DuplicateMeshFragment ns i)
          else Inr (push (ns @ ''/mesh/'' @ i) (insert (ns, i) (asm_fragment_ids st)))
      | None \<Rightarrow> Inr (push (ns @ ''/mesh'') (asm_fragment_ids st)))"

definition assemble_resource ::
    "string option \<Rightarrow> string \<times> resource \<Rightarrow> assembling \<Rightarrow> (assemble_error, assembling) result" where
  "assemble_resource filter_ns e st =
     (let ns = fst e; config = asm_config st in
      case snd e of
        ProxyRes spec \<Rightarrow>
          Inr (st\<lparr>asm_config := config\<lparr>gc_proxies := gc_proxies config @
            [spec\<lparr>p_namespace := effective_namespace ns (p_namespace spec),
                  p_labels := stamp_labels (p_labels spec)\<rparr>]\<rparr>\<rparr>)
      | ConsumerRes spec \<Rightarrow>
          Inr (st\<lparr>asm_config := config\<lparr>gc_consumers := gc_consumers config @
            [spec\<lparr>c_namespace := effective_namespace ns (c_namespace spec),
                  c_labels := stamp_labels (c_labels spec)\<rparr>]\<rparr>\<rparr>)
      | UpstreamRes spec \<Rightarrow>
          Inr (st\<lparr>asm_config := config\<lparr>gc_upstreams := gc_upstreams config @
            [spec\<lparr>u_namespace := effective_namespace ns (u_namespace spec),
                  u_labels := stamp_labels (u_labels spec)\<rparr>]\<rparr>\<rparr>)
      | PluginConfigRes spec \<Rightarrow>
          Inr (st\<lparr>asm_config := config\<lparr>gc_plugin_configs := gc_plugin_configs config @
            [spec\<lparr>pc_namespace := effective_namespace ns (pc_namespace spec),
                  pc_labels := stamp_labels (pc_labels spec)\<rparr>]\<rparr>\<rparr>)
      | MeshConfigRes mesh_id spec \<Rightarrow>
          if (case filter_ns of Some f \<Rightarrow> ns \<noteq> f | None \<Rightarrow> False) then Inr st
          else add_mesh_fragment ns mesh_id spec st)"

definition assemble_with_namespace_filter ::
    "(json \<Rightarrow> string) \<Rightarrow> (string \<times> resource) list \<Rightarrow> string option \<Rightarrow> (assemble_error, assembled_output) result"
  where
  "assemble_with_namespace_filter to_str resources filter_ns =
     bind_result (fold_result (assemble_resource filter_ns) resources
       \<lparr>asm_config = gateway_config_default, asm_fragments = [], asm_sources = [], asm_fragment_ids = {}\<rparr>) (\<lambda>st.
     bind_result (merge_mesh_fragments to_str (asm_fragments st)) (\<lambda>mesh.
       Inr \<lparr>ass_gateway = normalize_proxy_plugin_associations (normalize_proxy_backend_schemes
              (normalize_consumer_credentials (asm_config st))),
            ass_mesh = mesh, ass_mesh_sources = asm_sources st, ass_namespace_scope = namespace_scope_default\<rparr>))"

definition assemble ::
    "(json \<Rightarrow> string) \<Rightarrow> (string \<times> resource) list \<Rightarrow> (assemble_error, assembled_output) result" where
  "assemble to_str resources = assemble_with_namespace_filter to_str resources None"

end
