(* ===== verification/Overlay_Arrays.thy ===== *)
theory Overlay_Arrays
  imports Overlay
begin

text \<open>
  The additive arrays of an overlay.  \<open>additive_merge\<close> says what such a merge leaves without following the
  loop: every item of the base keeps its place and takes in the overlay items of its identity, and the other
  overlay items follow, one for each identity.  The loop of \<open>deep_merge_values\<close> is shown to compute it.
\<close>

section \<open>What an additive merge leaves\<close>

text \<open>Two items stand for the same thing when they share an identity, or have none and are equal.\<close>

definition item_class :: "(json \<Rightarrow> string option) \<Rightarrow> json \<Rightarrow> string + json" where
  "item_class identity_of v = (case identity_of v of Some i \<Rightarrow> Inl i | None \<Rightarrow> Inr v)"

definition absorb :: "(json \<Rightarrow> string option) \<Rightarrow> (json \<Rightarrow> json \<Rightarrow> json) \<Rightarrow> json \<Rightarrow> json list \<Rightarrow> json" where
  "absorb identity_of merge item overlay_items =
     (case identity_of item of
        None \<Rightarrow> item
      | Some i \<Rightarrow> foldl merge item (filter (\<lambda>v. identity_of v = Some i) overlay_items))"

definition additive_merge ::
    "(json \<Rightarrow> string option) \<Rightarrow> (json \<Rightarrow> json \<Rightarrow> json) \<Rightarrow> json list \<Rightarrow> json list \<Rightarrow> json list" where
  "additive_merge identity_of merge bs vs =
     map (\<lambda>n. if item_class identity_of (bs ! n) \<in> item_class identity_of ` set (take n bs) then bs ! n
              else absorb identity_of merge (bs ! n) vs) [0..<length bs] @
     map (\<lambda>n. absorb identity_of merge (vs ! n) (drop (Suc n) vs))
       (filter (\<lambda>n. item_class identity_of (vs ! n) \<notin> item_class identity_of ` (set bs \<union> set (take n vs)))
          [0..<length vs])"

section \<open>The loop\<close>

lemma position_of_Some:
  "position_of p xs = Some n \<longleftrightarrow> n < length xs \<and> p (xs ! n) \<and> (\<forall>x \<in> set (take n xs). \<not> p x)"
proof (induction xs arbitrary: n)
  case (Cons x xs)
  then show ?case by (cases n) auto
qed simp

lemma position_of_None: "position_of p xs = None \<longleftrightarrow> (\<forall>x \<in> set xs. \<not> p x)"
  by (induction xs) auto

locale item_merge =
  fixes identity_of :: "json \<Rightarrow> string option" and merge :: "json \<Rightarrow> json \<Rightarrow> json" and good :: "json \<Rightarrow> bool"
  assumes merge_good: "good b \<Longrightarrow> good v \<Longrightarrow> good (merge b v)"
    and merge_identity: "good b \<Longrightarrow> good v \<Longrightarrow> identity_of b = Some i \<Longrightarrow> identity_of v = Some i \<Longrightarrow>
      identity_of (merge b v) = Some i"
begin

abbreviation cls :: "json \<Rightarrow> string + json" where
  "cls \<equiv> item_class identity_of"

lemma cls_Some: "cls w = Inl i \<longleftrightarrow> identity_of w = Some i"
  by (auto simp: item_class_def split: option.splits)

lemma cls_eq_iff:
  "cls w = cls v \<longleftrightarrow> (case identity_of v of Some i \<Rightarrow> identity_of w = Some i | None \<Rightarrow> w = v)"
  by (auto simp: item_class_def split: option.splits)

lemma absorb_step:
  "absorb identity_of merge b (v # vs) =
     (if identity_of b \<noteq> None \<and> identity_of v = identity_of b
      then foldl merge (merge b v) (filter (\<lambda>w. identity_of w = identity_of b) vs)
      else absorb identity_of merge b vs)"
  by (auto simp: absorb_def split: option.splits)

text \<open>Both halves as recursions that carry the classes seen.\<close>

fun base_part :: "(string + json) set \<Rightarrow> json list \<Rightarrow> json list \<Rightarrow> json list" where
  "base_part seen [] vs = []"
| "base_part seen (b # bs) vs =
     (if cls b \<in> seen then b else absorb identity_of merge b vs) # base_part (insert (cls b) seen) bs vs"

fun fresh_part :: "(string + json) set \<Rightarrow> json list \<Rightarrow> json list" where
  "fresh_part seen [] = []"
| "fresh_part seen (v # vs) =
     (if cls v \<in> seen then [] else [absorb identity_of merge v vs]) @ fresh_part (insert (cls v) seen) vs"

lemma upt_step: "[0..<Suc k] = 0 # map Suc [0..<k]"
  by (simp add: upt_conv_Cons map_Suc_upt)

lemma base_part_eq:
  "map (\<lambda>n. if cls (bs ! n) \<in> seen \<union> cls ` set (take n bs) then bs ! n
            else absorb identity_of merge (bs ! n) vs) [0..<length bs] = base_part seen bs vs"
proof (induction bs arbitrary: seen)
  case (Cons b bs)
  show ?case
    unfolding length_Cons upt_step base_part.simps Cons.IH[of "insert (cls b) seen", symmetric]
    by (simp add: comp_def)
qed simp

lemma fresh_part_eq:
  "map (\<lambda>n. absorb identity_of merge (vs ! n) (drop (Suc n) vs))
     (filter (\<lambda>n. cls (vs ! n) \<notin> seen \<union> cls ` set (take n vs)) [0..<length vs]) = fresh_part seen vs"
proof (induction vs arbitrary: seen)
  case (Cons v vs)
  show ?case
    unfolding length_Cons upt_step fresh_part.simps Cons.IH[of "insert (cls v) seen", symmetric]
    by (simp add: comp_def filter_map conj_left_commute)
qed simp

lemma additive_parts:
  "additive_merge identity_of merge bs vs = base_part {} bs vs @ fresh_part (cls ` set bs) vs"
  unfolding additive_merge_def base_part_eq[symmetric] fresh_part_eq[symmetric] by (simp add: image_Un)

lemma base_part_other:
  "cls v \<in> seen \<or> cls v \<notin> cls ` set bs \<Longrightarrow> base_part seen bs (v # vs) = base_part seen bs vs"
proof (induction bs arbitrary: seen)
  case (Cons b bs)
  have "absorb identity_of merge b (v # vs) = absorb identity_of merge b vs" if "cls b \<notin> seen"
    using that Cons.prems by (auto simp: absorb_step item_class_def split: option.splits)
  then show ?case using Cons by auto
qed simp

lemma base_part_meets:
  assumes "good v" and "list_all good bs" and "identity_of v = Some i" and "cls v \<notin> seen"
    and "position_of (\<lambda>w. identity_of w = Some i) bs = Some n"
  shows "base_part seen bs (v # vs) = base_part seen (bs[n := merge (bs ! n) v]) vs \<and>
    cls ` set (bs[n := merge (bs ! n) v]) = cls ` set bs"
  using assms(2-5)
proof (induction bs arbitrary: seen n)
  case (Cons b bs)
  have v: "cls v = Inl i" using assms(3) by (simp add: cls_Some)
  show ?case
  proof (cases "identity_of b = Some i")
    case True
    then have b: "cls b = Inl i" by (simp add: cls_Some)
    have m: "identity_of (merge b v) = Some i"
      using Cons.prems(1) assms(1,3) True merge_identity by simp
    have "base_part (insert (cls b) seen) bs (v # vs) = base_part (insert (cls b) seen) bs vs"
      by (rule base_part_other) (simp add: b v)
    moreover have "absorb identity_of merge b (v # vs) = absorb identity_of merge (merge b v) vs"
      using True m assms(3) by (simp add: absorb_def)
    moreover have "n = 0" using Cons.prems(4) True by simp
    moreover have "cls (merge b v) = Inl i" using m by (simp add: cls_Some)
    ultimately show ?thesis using Cons.prems(3) b v by simp
  next
    case False
    then obtain n' where n: "n = Suc n'" "position_of (\<lambda>w. identity_of w = Some i) bs = Some n'"
      using Cons.prems(4) by auto
    have "cls b \<noteq> cls v" unfolding v cls_Some by (rule False)
    moreover have "absorb identity_of merge b (v # vs) = absorb identity_of merge b vs"
      using False assms(3) by (auto simp: absorb_step)
    ultimately show ?thesis using Cons.IH[of "insert (cls b) seen" n'] Cons.prems n assms(3) by auto
  qed
qed simp

lemma base_part_append:
  "base_part seen (bs @ cs) vs = base_part seen bs vs @ base_part (seen \<union> cls ` set bs) cs vs"
  by (induction bs arbitrary: seen) (auto simp: insert_commute Un_commute)

lemma additive_step:
  assumes "good v" and "list_all good bs"
  shows "additive_merge identity_of merge bs (v # vs) =
    additive_merge identity_of merge (merge_item identity_of merge bs v) vs"
proof (cases "cls v \<in> cls ` set bs")
  case fresh: False
  have "merge_item identity_of merge bs v = bs @ [v]"
  proof (cases "identity_of v")
    case None
    then show ?thesis using fresh by (auto simp: merge_item_def)
  next
    case (Some i)
    then have "position_of (\<lambda>w. identity_of w = Some i) bs = None"
      using fresh cls_Some[of v i] cls_Some[of _ i] by (auto simp: position_of_None) (metis imageI)
    then show ?thesis using Some by (simp add: merge_item_def)
  qed
  then show ?thesis
    using fresh by (simp add: additive_parts base_part_append base_part_other)
next
  case met: True
  show ?thesis
  proof (cases "identity_of v")
    case None
    then have "v \<in> set bs" using met by (auto simp: item_class_def split: option.splits)
    moreover have "absorb identity_of merge b (v # vs) = absorb identity_of merge b vs" for b
      using None by (auto simp: absorb_step)
    then have "base_part seen cs (v # vs) = base_part seen cs vs" for seen cs
      by (induction cs arbitrary: seen) auto
    ultimately show ?thesis using None met by (simp add: merge_item_def additive_parts insert_absorb)
  next
    case (Some i)
    then obtain n where n: "position_of (\<lambda>w. identity_of w = Some i) bs = Some n"
      using met position_of_None[of "\<lambda>w. identity_of w = Some i" bs]
      by (cases "position_of (\<lambda>w. identity_of w = Some i) bs") (auto simp: item_class_def split: option.splits)
    then have "merge_item identity_of merge bs v = bs[n := merge (bs ! n) v]"
      using Some by (simp add: merge_item_def)
    then show ?thesis
      using base_part_meets[OF assms Some _ n, of "{}" vs] met by (simp add: additive_parts insert_absorb)
  qed
qed

lemma merge_item_good:
  assumes "good v" and "list_all good bs"
  shows "list_all good (merge_item identity_of merge bs v)"
proof -
  have "list_all good (bs[n := merge (bs ! n) v])" if "n < length bs" for n
    using assms that by (auto simp: list_all_length nth_list_update merge_good)
  then show ?thesis
    using assms by (auto simp: merge_item_def position_of_Some split: option.splits)
qed

lemma additive_merge_fold:
  assumes "list_all good bs" and "list_all good vs"
  shows "fold (\<lambda>v items. merge_item identity_of merge items v) vs bs = additive_merge identity_of merge bs vs"
  using assms
proof (induction vs arbitrary: bs)
  case Nil
  have "absorb identity_of merge w [] = w" for w by (simp add: absorb_def split: option.splits)
  then have "base_part seen cs [] = cs" for seen cs
    by (induction cs arbitrary: seen) auto
  then show ?case by (simp add: additive_parts)
next
  case (Cons v vs)
  then show ?case by (simp add: additive_step merge_item_good)
qed

end

end
