(* ===== verification/Overlay_Facts.thy ===== *)
theory Overlay_Facts
  imports Overlay_Arrays ResourceTree_Facts
begin

text \<open>
  What an overlay does to the loaded resources: the exact value a merge leaves at every path, the exact
  rows it touches, and that no row changes its identity.
\<close>

section \<open>Values by path\<close>

fun at_path :: "json \<Rightarrow> string list \<Rightarrow> json option" where
  "at_path v [] = Some v"
| "at_path v (k # ks) = Option.bind (jget v k) (\<lambda>w. at_path w ks)"

text \<open>An overlay declares a path when it has a value there, or a value that is no object above it.\<close>

fun declared_path :: "json \<Rightarrow> string list \<Rightarrow> bool" where
  "declared_path v [] = True"
| "declared_path v (k # ks) =
     (case as_object v of
        None \<Rightarrow> True
      | Some m \<Rightarrow> (case bt_get m k of None \<Rightarrow> False | Some w \<Rightarrow> declared_path w ks))"

lemma jget_object: "as_object v = Some m \<Longrightarrow> jget v k = bt_get m k"
  by (cases v) auto

lemma jget_no_object: "as_object v = None \<Longrightarrow> jget v k = None"
  by (cases v) auto

lemma undeclared_absent: "\<not> declared_path v p \<Longrightarrow> at_path v p = None"
  by (induction v p rule: declared_path.induct) (auto simp: jget_object split: option.splits)

lemma bt_get_merge_object:
  assumes "bt_wf b" and "distinct (map fst m)"
  shows "bt_get (merge_object f m b) k =
      (case map_of m k of
         None \<Rightarrow> bt_get b k
       | Some ov \<Rightarrow> Some (case bt_get b k of Some bv \<Rightarrow> f k bv ov | None \<Rightarrow> ov))"
    and "bt_wf (merge_object f m b)"
proof -
  have "bt_get (merge_object f m b) k =
      (case map_of m k of
         None \<Rightarrow> bt_get b k
       | Some ov \<Rightarrow> Some (case bt_get b k of Some bv \<Rightarrow> f k bv ov | None \<Rightarrow> ov)) \<and> bt_wf (merge_object f m b)"
    using assms
  proof (induction m arbitrary: b)
    case (Cons e m)
    let ?b = "bt_insert (fst e) (case bt_get b (fst e) of Some bv \<Rightarrow> f (fst e) bv (snd e) | None \<Rightarrow> snd e) b"
    have "bt_wf ?b" using Cons.prems(1) by (rule bt_wf_insert)
    moreover have "merge_object f (e # m) b = merge_object f m ?b" by (simp add: merge_object_def)
    moreover have "map_of m (fst e) = None" using Cons.prems(2) by (simp add: map_of_eq_None_iff)
    ultimately show ?case
      using Cons.IH[of ?b] Cons.prems by (auto simp: bt_get_insert split: option.splits)
  qed (simp add: merge_object_def)
  then show "bt_get (merge_object f m b) k =
      (case map_of m k of
         None \<Rightarrow> bt_get b k
       | Some ov \<Rightarrow> Some (case bt_get b k of Some bv \<Rightarrow> f k bv ov | None \<Rightarrow> ov))"
    "bt_wf (merge_object f m b)" by blast+
qed

lemma bt_wf_distinct_keys: "bt_wf m \<Longrightarrow> distinct (map fst m)"
  by (auto simp: bt_wf_def strict_sorted_iff)

lemma deep_merge_objects:
  "deep_merge_values to_str kind path (JObject b) (JObject m) =
     JObject (merge_object (\<lambda>key. deep_merge_values to_str kind (path @ [key])) m b)"
  by (simp add: deep_merge_values.simps)

lemma deep_merge_replaces:
  "as_object base = None \<or> as_object overlay = None \<Longrightarrow>
   as_array base = None \<or> as_array overlay = None \<or> array_merge_identity path kind = None \<Longrightarrow>
   deep_merge_values to_str kind path base overlay = overlay"
  by (cases base; cases overlay) (simp_all add: deep_merge_values.simps)

lemma deep_merge_object_iff:
  "as_object (deep_merge_values to_str kind path base overlay) = None \<longleftrightarrow> as_object overlay = None"
  by (cases base; cases overlay) (auto simp: deep_merge_values.simps split: option.splits)

section \<open>Items of the additive arrays\<close>

text \<open>
  The identity of an upstream target joins host, port and path with colons, so two different targets could
  share it when a path ends in a colon; and a port that is an object would itself be merged.  Real targets
  have neither.
\<close>

definition plain_item :: "json \<Rightarrow> bool" where
  "plain_item v =
     (case as_object v of
        None \<Rightarrow> True
      | Some m \<Rightarrow> bt_wf m \<and>
          (case bt_get m ''port'' of None \<Rightarrow> True | Some port \<Rightarrow> as_object port = None) \<and>
          (case str_member m ''path'' of None \<Rightarrow> True | Some s \<Rightarrow> s = [] \<or> last s \<noteq> CHR '':''))"

abbreviation merge_items :: "(json \<Rightarrow> string) \<Rightarrow> string \<Rightarrow> json \<Rightarrow> json \<Rightarrow> json" where
  "merge_items to_str kind \<equiv> deep_merge_values to_str kind []"

lemma as_str_merged: "as_str (deep_merge_values to_str kind path b v) = as_str v"
  by (cases b; cases v) (auto simp: deep_merge_values.simps split: option.splits)

lemma merged_members:
  fixes to_str :: "json \<Rightarrow> string" and kind :: string and path :: "string list"
  assumes "bt_wf b" and "bt_wf m"
  defines "r \<equiv> merge_object (\<lambda>key. deep_merge_values to_str kind (path @ [key])) m b"
  shows "str_member r k = (if bt_get m k = None then str_member b k else str_member m k)"
    and "bt_get m k = Some v \<Longrightarrow> as_object v = None \<Longrightarrow> array_merge_identity (path @ [k]) kind = None \<Longrightarrow>
      bt_get r k = Some v"
    and "bt_get m k = None \<Longrightarrow> bt_get r k = bt_get b k"
    and "bt_wf r"
proof -
  note get = bt_get_merge_object(1)[OF assms(1) bt_wf_distinct_keys[OF assms(2)],
      of "\<lambda>key. deep_merge_values to_str kind (path @ [key])", folded bt_get_def r_def]
  show "str_member r k = (if bt_get m k = None then str_member b k else str_member m k)"
    by (auto simp: str_member_def get as_str_merged split: option.splits)
  show "bt_get r k = Some v"
    if "bt_get m k = Some v" "as_object v = None" "array_merge_identity (path @ [k]) kind = None"
    using that by (auto simp: get deep_merge_replaces split: option.splits)
  show "bt_get r k = bt_get b k" if "bt_get m k = None" using that by (simp add: get)
  show "bt_wf r" unfolding r_def
    by (rule bt_get_merge_object(2)[OF assms(1) bt_wf_distinct_keys[OF assms(2)]])
qed

lemma top_level_not_additive: "array_merge_identity [k] kind = None"
  by (simp add: array_merge_identity_def)

lemma plain_merged:
  assumes "plain_item b" and "plain_item v"
  shows "plain_item (merge_items to_str kind b v)"
proof (cases "as_object b = None \<or> as_object v = None")
  case True
  then have "merge_items to_str kind b v = v"
    by (cases b; cases v) (auto simp: deep_merge_values.simps array_merge_identity_def)
  then show ?thesis using assms(2) by simp
next
  case False
  then obtain bm m where o: "b = JObject bm" "v = JObject m" by (cases b; cases v) auto
  have wf: "bt_wf bm" "bt_wf m" using assms o by (simp_all add: plain_item_def)
  note r = merged_members[OF wf, where to_str = to_str and kind = kind and path = "[]"]
  show ?thesis
    using assms r(1)[of "''path''"] r(2)[of "''port''"] r(3)[of "''port''"] r(4) top_level_not_additive
    by (cases "bt_get m ''port''") (auto simp: plain_item_def o deep_merge_objects)
qed

lemma target_identity_merged:
  assumes "bt_wf bm" and "bt_wf m" and "target_identity to_str bm = Some i" and "target_identity to_str m = Some i"
    and "plain_item (JObject bm)" and "plain_item (JObject m)"
  shows "target_identity to_str (merge_object (\<lambda>key. deep_merge_values to_str kind [key]) m bm) = Some i"
proof -
  note r = merged_members[OF assms(1,2), where to_str = to_str and kind = kind and path = "[]", unfolded append_Nil]
  obtain host port where m: "str_member m ''host'' = Some host" "bt_get m ''port'' = Some port"
    using assms(4) by (auto simp: target_identity_def split: option.splits)
  have "as_object port = None" using assms(6) m(2) by (simp add: plain_item_def)
  then have port: "bt_get (merge_object (\<lambda>key. deep_merge_values to_str kind [key]) m bm) ''port'' = Some port"
    using r(2)[OF m(2)] top_level_not_additive by simp
  obtain hv where "bt_get m ''host'' = Some hv" using m(1) by (cases "bt_get m ''host''") (simp_all add: str_member_def)
  then have host: "str_member (merge_object (\<lambda>key. deep_merge_values to_str kind [key]) m bm) ''host'' = Some host"
    using r(1)[of "''host''"] m(1) by simp
  show ?thesis
  proof (cases "bt_get m ''path'' = None")
    case False
    then obtain pv where "bt_get m ''path'' = Some pv" by blast
    then show ?thesis using r(1)[of "''path''"] host port m assms(4) by (simp add: target_identity_def)
  next
    case True
    then have none: "str_member m ''path'' = None" by (simp add: str_member_def)
    have base: "str_member bm ''path'' = None \<or> str_member bm ''path'' = Some []"
    proof (rule ccontr)
      assume "\<not> ?thesis"
      then obtain s where s: "str_member bm ''path'' = Some s" "s \<noteq> []" by auto
      then have "last s \<noteq> CHR '':''" using assms(5) by (simp add: plain_item_def)
      moreover have "last i = last s" using assms(3) s by (auto simp: target_identity_def split: option.splits)
      moreover have "last i = CHR '':''" using assms(4) m none by (auto simp: target_identity_def)
      ultimately show False by simp
    qed
    then have "str_member (merge_object (\<lambda>key. deep_merge_values to_str kind [key]) m bm) ''path'' \<in> {None, Some []}"
      using r(1)[of "''path''"] True by auto
    then show ?thesis using host port m none assms(4) by (auto simp: target_identity_def)
  qed
qed

definition generic_identity :: "(json \<Rightarrow> string) \<Rightarrow> (string, json) btree_map \<Rightarrow> string option" where
  "generic_identity to_str m = array_item_identity to_str (JObject m) Generic"

lemma generic_identity_cases:
  "generic_identity to_str m =
     (case str_member m ''id'' of Some s \<Rightarrow> Some (''id:'' @ s) | None \<Rightarrow>
     (case str_member m ''plugin_config_id'' of Some s \<Rightarrow> Some (''plugin_config_id:'' @ s) | None \<Rightarrow>
     (case str_member m ''name'' of Some s \<Rightarrow> Some (''name:'' @ s) | None \<Rightarrow> target_identity to_str m)))"
  by (simp add: generic_identity_def array_item_identity_def named_identity_def split: option.splits)

lemma target_identity_tag: "target_identity to_str m = Some i \<Longrightarrow> \<exists>t. i = ''target:'' @ t"
  by (auto simp: target_identity_def split: option.splits)

lemma generic_identity_merged:
  assumes "generic_identity to_str bm = Some i" and "generic_identity to_str m = Some i"
    and kept: "\<And>k. str_member m k \<noteq> None \<or> str_member bm k = None \<Longrightarrow> str_member r k = str_member m k"
    and target: "target_identity to_str bm = Some i \<Longrightarrow> target_identity to_str m = Some i \<Longrightarrow>
      target_identity to_str r = Some i"
  shows "generic_identity to_str r = Some i"
proof -
  have same: "str_member bm ''id'' = str_member m ''id''"
    "str_member m ''id'' = None \<Longrightarrow> str_member bm ''plugin_config_id'' = str_member m ''plugin_config_id''"
    "str_member m ''id'' = None \<Longrightarrow> str_member m ''plugin_config_id'' = None \<Longrightarrow>
      str_member bm ''name'' = str_member m ''name''"
    using assms(1,2) target_identity_tag[of to_str bm i] target_identity_tag[of to_str m i]
    by (auto simp: generic_identity_cases split: option.splits)
  then show ?thesis
    using assms(1,2) target kept[of "''id''"] kept[of "''plugin_config_id''"] kept[of "''name''"]
    by (auto simp: generic_identity_cases split: option.splits)
qed

lemma item_identity_merged:
  assumes "plain_item b" and "plain_item v"
    and "array_item_identity to_str b identity = Some i" and "array_item_identity to_str v identity = Some i"
  shows "array_item_identity to_str (merge_items to_str kind b v) identity = Some i"
proof -
  obtain bm m where o: "b = JObject bm" "v = JObject m"
    using assms(3,4) by (cases b; cases v) (auto simp: array_item_identity_def)
  have wf: "bt_wf bm" "bt_wf m" using assms(1,2) o by (simp_all add: plain_item_def)
  note r = merged_members(1)[OF wf, where to_str = to_str and kind = kind and path = "[]", unfolded append_Nil]
  have absent: "bt_get m k = None \<Longrightarrow> str_member m k = None" for k by (simp add: str_member_def)
  show ?thesis
  proof (cases identity)
    case Generic
    have both: "generic_identity to_str bm = Some i" "generic_identity to_str m = Some i"
      using assms(3,4) by (simp_all add: o Generic generic_identity_def)
    have kept: "str_member (merge_object (\<lambda>key. deep_merge_values to_str kind [key]) m bm) k = str_member m k"
      if "str_member m k \<noteq> None \<or> str_member bm k = None" for k
      using that r[of k] absent[of k] by auto
    have "generic_identity to_str (merge_object (\<lambda>key. deep_merge_values to_str kind [key]) m bm) = Some i"
      using generic_identity_merged[OF both kept] target_identity_merged[OF wf _ _ assms(1,2)[unfolded o]] by blast
    then show ?thesis by (simp add: o Generic generic_identity_def deep_merge_objects)
  next
    case MeshWorkloadSpiffeId
    then show ?thesis using assms(3,4) r[of "''spiffe_id''"] absent[of "''spiffe_id''"]
      by (auto simp: array_item_identity_def o deep_merge_objects named_identity_def)
  next
    case MeshServiceNameNamespace
    then show ?thesis using assms(4) r[of "''name''"] r[of "''namespace''"] absent[of "''name''"] absent[of "''namespace''"]
      by (auto simp: array_item_identity_def o deep_merge_objects split: option.splits)
  qed
qed

interpretation additive: item_merge "\<lambda>v. array_item_identity to_str v identity" "merge_items to_str kind" plain_item
  for to_str identity kind
  by unfold_locales (auto intro: plain_merged item_identity_merged)

lemma additive_arrays:
  assumes "array_merge_identity path kind = Some identity" and "list_all plain_item bs" and "list_all plain_item vs"
  shows "deep_merge_values to_str kind path (JArray bs) (JArray vs) =
    JArray (additive_merge (\<lambda>v. array_item_identity to_str v identity) (merge_items to_str kind) bs vs)"
  using additive.additive_merge_fold[OF assms(2,3)] by (simp add: deep_merge_values.simps assms(1))

section \<open>Merging at every path\<close>

lemma json_wf_member: "json_wf v \<Longrightarrow> jget v k = Some w \<Longrightarrow> json_wf w"
  by (cases v) (auto simp: list_all_iff bt_get_def dest!: map_of_SomeD)

lemma json_wf_lookups:
  "json_wf (JObject m) \<longleftrightarrow> bt_wf m \<and> (\<forall>k v. bt_get m k = Some v \<longrightarrow> json_wf v)"
proof (cases "bt_wf m")
  case True
  have "(k, v) \<in> set m \<longleftrightarrow> bt_get m k = Some v" for k v
    unfolding bt_get_def by (rule map_of_eq_Some_iff[OF bt_wf_distinct_keys[OF True], symmetric])
  then have "list_all (\<lambda>e. json_wf (snd e)) m \<longleftrightarrow> (\<forall>k v. bt_get m k = Some v \<longrightarrow> json_wf v)"
    unfolding list_all_iff by (metis prod.collapse snd_conv)
  then show ?thesis using True by simp
qed simp

lemma json_wf_bt:
  assumes "json_wf (JObject m)"
  shows "bt_wf m" and "bt_get m k = Some v \<Longrightarrow> json_wf v"
    and "json_wf w \<Longrightarrow> json_wf (JObject (bt_insert k w m))" and "json_wf (JObject (bt_remove k m))"
  using assms unfolding json_wf_lookups
  by (auto simp: bt_wf_insert bt_get_insert bt_wf_remove bt_get_remove split: if_splits)

lemma merged_path:
  assumes "json_wf base" and "json_wf overlay"
  shows "at_path (deep_merge_values to_str kind pre base overlay) p =
    (if declared_path overlay p
     then map_option (\<lambda>ov. case at_path base p of
            Some bv \<Rightarrow> deep_merge_values to_str kind (pre @ p) bv ov | None \<Rightarrow> ov) (at_path overlay p)
     else at_path base p)"
  using assms
proof (induction p arbitrary: base overlay pre)
  case (Cons k ks)
  show ?case
  proof (cases "as_object overlay")
    case None
    then have "jget (deep_merge_values to_str kind pre base overlay) k = None"
      by (simp add: jget_no_object deep_merge_object_iff)
    then show ?thesis using None by (simp add: jget_no_object)
  next
    case (Some m)
    then have overlay: "overlay = JObject m" by (cases overlay) auto
    show ?thesis
    proof (cases "as_object base")
      case None
      then have "deep_merge_values to_str kind pre base overlay = overlay"
        by (cases base) (simp_all add: overlay deep_merge_values.simps)
      then show ?thesis
        using None undeclared_absent[of overlay "k # ks"]
        by (auto simp: jget_no_object option.map_ident simp del: at_path.simps(2) declared_path.simps)
          (simp_all add: jget_no_object option.map_ident)
    next
      case (Some b)
      then have base: "base = JObject b" by (cases base) auto
      have wf: "bt_wf b" "bt_wf m" using Cons.prems base overlay by auto
      have get: "bt_get (merge_object (\<lambda>key. deep_merge_values to_str kind (pre @ [key])) m b) k =
          (case bt_get m k of
             None \<Rightarrow> bt_get b k
           | Some ov \<Rightarrow> Some (case bt_get b k of
               Some bv \<Rightarrow> deep_merge_values to_str kind (pre @ [k]) bv ov | None \<Rightarrow> ov))"
        using bt_get_merge_object(1)[OF wf(1) bt_wf_distinct_keys[OF wf(2)]] by (simp add: bt_get_def)
      show ?thesis
      proof (cases "bt_get m k")
        case None
        then show ?thesis by (simp add: base overlay deep_merge_objects get)
      next
        case ov: (Some ov)
        show ?thesis
        proof (cases "bt_get b k")
          case None
          have "at_path ov ks = None" if "\<not> declared_path ov ks" using undeclared_absent[OF that] .
          then show ?thesis using ov None
            by (simp add: base overlay deep_merge_objects get option.map_ident)
        next
          case (Some bv)
          have "json_wf bv" "json_wf ov"
            using Cons.prems json_wf_member[of base k bv] json_wf_member[of overlay k ov] ov Some base overlay by auto
          then show ?thesis using Cons.IH[of bv ov "pre @ [k]", unfolded append_assoc append.simps] ov Some
            by (simp add: base overlay deep_merge_objects get)
        qed
      qed
    qed
  qed
qed simp

text \<open>
  C24.  Merging is exact at every path.  A path the overlay does not declare keeps the value of the base,
  so an overlay never drops a field it does not mention.  A path it declares gets the overlay's value: merged
  with the base's, member by member, when both are objects; for the short list of additive arrays, every
  item of the base in its place, merged in order with the overlay items of its identity (of several base items with
  one identity, only the first), followed by the overlay's other items, one for each identity, in order; and in every
  other case the overlay's value alone, so a list an overlay narrows really is narrowed.
\<close>

theorem overlay_merge_exact:
  assumes "json_wf base" and "json_wf overlay"
  shows "at_path (deep_merge_values to_str kind pre base overlay) p =
      (if declared_path overlay p
       then map_option (\<lambda>ov. case at_path base p of
              Some bv \<Rightarrow> deep_merge_values to_str kind (pre @ p) bv ov | None \<Rightarrow> ov) (at_path overlay p)
       else at_path base p) \<and>
    (\<forall>bv ov. (as_object bv = None \<or> as_object ov = None) \<and>
        (as_array bv = None \<or> as_array ov = None \<or> array_merge_identity (pre @ p) kind = None) \<longrightarrow>
        deep_merge_values to_str kind (pre @ p) bv ov = ov) \<and>
    (\<forall>identity bs vs. array_merge_identity (pre @ p) kind = Some identity \<and>
        list_all plain_item bs \<and> list_all plain_item vs \<longrightarrow>
        deep_merge_values to_str kind (pre @ p) (JArray bs) (JArray vs) =
          JArray (additive_merge (\<lambda>v. array_item_identity to_str v identity)
            (deep_merge_values to_str kind []) bs vs))"
  using merged_path[OF assms] deep_merge_replaces additive_arrays by blast

section \<open>Which rows an overlay touches\<close>

abbreviation row_key_of :: "string \<times> resource \<Rightarrow> resource_key" where
  "row_key_of r \<equiv> resource_key_of (fst r) (snd r)"

lemma base_index_fold:
  assumes "fold_result index_row (List.enumerate n rs) index = Inr index'"
  shows "distinct (map row_key_of rs) \<and> (\<forall>r \<in> set rs. index (row_key_of r) = None) \<and>
    (\<forall>k i. index' k = Some i \<longleftrightarrow>
       index k = Some i \<or> n \<le> i \<and> i - n < length rs \<and> row_key_of (rs ! (i - n)) = k)"
  using assms
proof (induction rs arbitrary: n index)
  case (Cons r rs)
  obtain mid where mid: "index_row (n, r) index = Inr mid"
      "fold_result index_row (List.enumerate (Suc n) rs) mid = Inr index'"
    using Cons.prems by (auto simp: bind_result_Inr_iff)
  have free: "index (row_key_of r) = None" "mid = index(row_key_of r \<mapsto> n)"
    using mid(1) by (auto simp: index_row_def Let_def split: option.splits)
  note rest = mid(2)[unfolded free(2)]
  have ih: "distinct (map row_key_of rs) \<and> (\<forall>r' \<in> set rs. (index(row_key_of r \<mapsto> n)) (row_key_of r') = None) \<and>
      (\<forall>k i. index' k = Some i \<longleftrightarrow>
         (index(row_key_of r \<mapsto> n)) k = Some i \<or>
         Suc n \<le> i \<and> i - Suc n < length rs \<and> row_key_of (rs ! (i - Suc n)) = k)"
    by (rule Cons.IH[OF rest])
  have "index' k = Some i \<longleftrightarrow>
      index k = Some i \<or> n \<le> i \<and> i - n < length (r # rs) \<and> row_key_of ((r # rs) ! (i - n)) = k" for k i
  proof (cases "i \<le> n")
    case True
    then show ?thesis using ih free by (cases "i = n") (auto split: if_splits)
  next
    case False
    then have "i - n = Suc (i - Suc n)" by simp
    then show ?thesis using ih free False by (auto split: if_splits)
  qed
  moreover have "distinct (map row_key_of (r # rs))" "\<forall>r' \<in> set (r # rs). index (row_key_of r') = None"
    using ih free by (auto split: if_splits)
  ultimately show ?case by blast
qed simp

lemma base_index_ok:
  assumes "base_index base = Inr index"
  shows "distinct (map row_key_of base)"
    and "index k = Some i \<longleftrightarrow> i < length base \<and> row_key_of (base ! i) = k"
  using base_index_fold[OF assms[unfolded base_index_def]] by auto

definition targets :: "overlay_fragment list \<Rightarrow> resource_key \<Rightarrow> overlay_fragment option" where
  "targets fragments key = find (\<lambda>f. overlay_key_of f = Inr key) fragments"

definition patched_row ::
    "(json \<Rightarrow> string) \<Rightarrow> readers \<Rightarrow> bool \<Rightarrow> overlay_fragment list \<Rightarrow> string \<times> resource \<Rightarrow> string \<times> resource \<Rightarrow> bool"
  where
  "patched_row to_str rd allow fragments row row' \<longleftrightarrow>
     (case targets fragments (row_key_of row) of
        None \<Rightarrow> row' = row
      | Some f \<Rightarrow> merge_fragment to_str rd allow f (snd row) = Inr (snd row') \<and>
          fst row' = rk_namespace (row_key_of row))"

lemma targets_append:
  "targets (fs @ [f]) key =
    (case targets fs key of Some g \<Rightarrow> Some g | None \<Rightarrow> if overlay_key_of f = Inr key then Some f else None)"
  unfolding targets_def by (induction fs) auto

lemma targets_None_iff: "targets fs key = None \<longleftrightarrow> Inr key \<notin> overlay_key_of ` set fs"
  by (auto simp: targets_def find_None_iff image_iff)

lemma apply_fragments:
  assumes "fold_result (apply_fragment to_str rd allow index) fs (Map.empty, base) = Inr (seen, rows)"
    and "base_index base = Inr index"
  shows "list_all2 (patched_row to_str rd allow fs) base rows \<and>
    (\<forall>key. seen key = map_option of_path (targets fs key)) \<and>
    (\<forall>f \<in> set fs. \<exists>i < length base. overlay_key_of f = Inr (row_key_of (base ! i))) \<and>
    distinct (map overlay_key_of fs)"
  using assms(1)
proof (induction fs arbitrary: seen rows rule: rev_induct)
  case Nil
  then show ?case by (auto simp: list_all2_same patched_row_def targets_def)
next
  case (snoc f fs)
  then obtain seen0 rows0 where before: "fold_result (apply_fragment to_str rd allow index) fs (Map.empty, base) =
      Inr (seen0, rows0)" and step: "apply_fragment to_str rd allow index f (seen0, rows0) = Inr (seen, rows)"
    by (auto simp: fold_result_append bind_result_Inr_iff)
  note ih = snoc.IH[OF before]
  obtain key i resource where key: "overlay_key_of f = Inr key" "seen0 key = None" "index key = Some i"
      and merged: "merge_fragment to_str rd allow f (snd (rows0 ! i)) = Inr resource"
      and result: "seen = seen0(key \<mapsto> of_path f)" "rows = rows0[i := (rk_namespace key, resource)]"
    using step by (auto simp: apply_fragment_def bind_result_Inr_iff split: option.splits)
  have i: "i < length base" "row_key_of (base ! i) = key" using key(3) base_index_ok(2)[OF assms(2)] by auto
  have fresh: "targets fs key = None" using ih key(2) by simp
  have len: "length rows0 = length base" using ih by (auto dest: list_all2_lengthD)
  have row: "rows0 ! i = base ! i"
    using ih i fresh by (auto simp: list_all2_conv_all_nth patched_row_def)
  have "patched_row to_str rd allow (fs @ [f]) (base ! j) (rows ! j)" if j: "j < length base" for j
  proof (cases "j = i")
    case True
    then show ?thesis using i len fresh key(1) merged row result(2)
      by (simp add: patched_row_def targets_append)
  next
    case False
    have "index (row_key_of (base ! j)) = Some j" using base_index_ok(2)[OF assms(2)] j by simp
    then have "row_key_of (base ! j) \<noteq> key" using key(3) False by auto
    then have "targets (fs @ [f]) (row_key_of (base ! j)) = targets fs (row_key_of (base ! j))"
      using key(1) by (cases "targets fs (row_key_of (base ! j))") (simp_all add: targets_append)
    moreover have "patched_row to_str rd allow fs (base ! j) (rows0 ! j)"
      using ih j by (simp add: list_all2_conv_all_nth)
    ultimately show ?thesis using False result(2) by (simp add: patched_row_def)
  qed
  then have "list_all2 (patched_row to_str rd allow (fs @ [f])) base rows"
    using len result(2) by (simp add: list_all2_conv_all_nth)
  moreover have "\<forall>k. seen k = map_option of_path (targets (fs @ [f]) k)"
  proof
    fix k
    show "seen k = map_option of_path (targets (fs @ [f]) k)"
      using ih result(1) key(1) fresh by (cases "k = key"; cases "targets fs k") (simp_all add: targets_append)
  qed
  moreover have "\<forall>g \<in> set (fs @ [f]). \<exists>i < length base. overlay_key_of g = Inr (row_key_of (base ! i))"
    using ih i key(1) by auto
  moreover have "distinct (map overlay_key_of (fs @ [f]))"
    using ih fresh key(1) by (auto simp: targets_None_iff image_iff)
  ultimately show ?case by blast
qed

lemma overlay_exact_rows:
  assumes "apply_overlay_with_options to_str fs rd allow base overlay_dir = Inr rows"
  shows "\<exists>fragments. load_overlay_fragments fs rd overlay_dir = Inr fragments \<and>
    list_all2 (patched_row to_str rd allow fragments) base rows \<and>
    overlay_key_of ` set fragments \<subseteq> Inr ` row_key_of ` set base \<and>
    distinct (map overlay_key_of fragments) \<and> distinct (map row_key_of base)"
proof -
  obtain index fragments seen where ok: "base_index base = Inr index"
      "load_overlay_fragments fs rd overlay_dir = Inr fragments"
      "fold_result (apply_fragment to_str rd allow index) fragments (Map.empty, base) = Inr (seen, rows)"
  proof -
    obtain index fragments where ok: "base_index base = Inr index"
        "load_overlay_fragments fs rd overlay_dir = Inr fragments"
        "map_sum id snd (fold_result (apply_fragment to_str rd allow index) fragments (Map.empty, base)) = Inr rows"
      using assms
      by (auto simp: apply_overlay_with_options_def bind_result_Inr_iff split: sum.splits io_error.splits if_splits)
    then show thesis
      using that by (cases "fold_result (apply_fragment to_str rd allow index) fragments (Map.empty, base)") auto
  qed
  note applied = apply_fragments[OF ok(3,1)]
  have "overlay_key_of ` set fragments \<subseteq> Inr ` row_key_of ` set base"
    using applied by (auto simp: image_iff) (metis nth_mem)
  then show ?thesis using ok(2) applied base_index_ok(1)[OF ok(1)] by blast
qed

text \<open>
  C25.  An overlay changes exactly the rows it names.  When it applies, every one of its files names
  exactly one row of the base and no two files the same row; each named row becomes the strictly
  re-read merge of its serialized form with that file, under its effective namespace, and every other
  row is as it was; no row is added, removed or moved.
\<close>

theorem overlay_exact:
  assumes "apply_overlay_with_options to_str fs rd allow base overlay_dir = Inr rows"
  shows "\<exists>fragments. load_overlay_fragments fs rd overlay_dir = Inr fragments \<and>
    list_all2 (patched_row to_str rd allow fragments) base rows \<and>
    overlay_key_of ` set fragments \<subseteq> Inr ` row_key_of ` set base \<and>
    distinct (map overlay_key_of fragments) \<and> distinct (map row_key_of base)"
  using assms by (rule overlay_exact_rows)

section \<open>Rows keep their identity\<close>

text \<open>
  What the derived deserializers do with the two fields a key is made of: \<open>id\<close> defaults to the empty
  string and \<open>namespace\<close> to \<open>ferrum\<close>, and a present field is a string and is taken as it is.
\<close>

definition reads_identity ::
    "(json \<Rightarrow> (string, 'a \<times> string list) result) \<Rightarrow> ('a \<Rightarrow> string) \<Rightarrow> ('a \<Rightarrow> string) \<Rightarrow> bool" where
  "reads_identity reader rid ns \<longleftrightarrow>
     (\<forall>v x ignored. reader v = Inr (x, ignored) \<longrightarrow>
        (case jget v ''id'' of None \<Rightarrow> rid x = [] | Some w \<Rightarrow> w = JString (rid x)) \<and>
        (case jget v ''namespace'' of None \<Rightarrow> ns x = ''ferrum'' | Some w \<Rightarrow> w = JString (ns x)))"

definition faithful_readers :: "readers \<Rightarrow> bool" where
  "faithful_readers rd \<longleftrightarrow>
     reads_identity (yr_proxy rd) p_id p_namespace \<and> reads_identity (yr_consumer rd) c_id c_namespace \<and>
     reads_identity (yr_upstream rd) u_id u_namespace \<and>
     reads_identity (yr_plugin_config rd) pc_id pc_namespace \<and>
     (\<forall>contents v. yr_yaml rd contents = Inr v \<longrightarrow> json_wf v)"

fun declared_namespace :: "resource \<Rightarrow> string option" where
  "declared_namespace (ProxyRes p) = Some (p_namespace p)"
| "declared_namespace (ConsumerRes c) = Some (c_namespace c)"
| "declared_namespace (UpstreamRes u) = Some (u_namespace u)"
| "declared_namespace (PluginConfigRes p) = Some (pc_namespace p)"
| "declared_namespace (MeshConfigRes _ _) = None"

text \<open>The serialized row carries its namespace; a passed-through field of that name would shadow it.\<close>

definition serializes_identity :: "resource \<Rightarrow> bool" where
  "serializes_identity r \<longleftrightarrow>
     json_wf (resource_to_value r) \<and>
     (case declared_namespace r of
        Some ns \<Rightarrow> spec_member (resource_to_value r) ''namespace'' = Some (JString ns) | None \<Rightarrow> True)"

definition names_fragment :: "json \<Rightarrow> bool" where
  "names_fragment v \<longleftrightarrow> jget v ''id'' \<noteq> Some JNull \<and> jget v ''id'' \<noteq> Some (JString [])"

lemma declared_present: "at_path v p = Some w \<Longrightarrow> declared_path v p"
  using undeclared_absent by fastforce

lemma merged_leaf:
  assumes "json_wf base" and "json_wf overlay" and "at_path overlay p = Some v"
    and "as_object v = None" and "as_array v = None"
  shows "at_path (deep_merge_values to_str kind pre base overlay) p = Some v"
  using merged_path[OF assms(1,2), of to_str kind pre p] assms(3-5) declared_present[OF assms(3)]
  by (auto simp: deep_merge_replaces split: option.splits)

lemma merged_undeclared:
  assumes "json_wf base" and "json_wf overlay" and "\<not> declared_path overlay p"
  shows "at_path (deep_merge_values to_str kind pre base overlay) p = at_path base p"
  using merged_path[OF assms(1,2)] assms(3) by simp

lemma check_document_fields:
  assumes "check_overlay_document path subdir v = Inr ()"
  shows "jget v ''kind'' = Some (JString (snd subdir)) \<and> (\<exists>spec. jget v ''spec'' = Some (JObject spec)) \<and>
    (snd subdir \<noteq> ''MeshConfig'' \<longrightarrow> jget v ''id'' = None)"
proof -
  obtain obj where obj: "as_object v = Some obj" using assms
    by (auto simp: check_overlay_document_def split: option.splits)
  then have v: "v = JObject obj" by (cases v) auto
  have kind: "str_member obj ''kind'' = Some (snd subdir)" and spec: "Option.bind (bt_get obj ''spec'') as_object \<noteq> None"
    and keys: "filter (\<lambda>key. key \<notin> set (wrapper_keys (snd subdir))) (bt_keys obj) = []"
    using assms obj by (auto simp: check_overlay_document_def tree_result_def reject_ignored_def split: option.splits if_splits)
  obtain w where "bt_get obj ''kind'' = Some w" "as_str w = Some (snd subdir)"
    using kind by (auto simp: str_member_def bind_eq_Some_conv)
  moreover obtain x m where "bt_get obj ''spec'' = Some x" "as_object x = Some m"
    using spec by (auto simp: bind_eq_Some_conv)
  moreover have "bt_get obj ''id'' = None" if "snd subdir \<noteq> ''MeshConfig''"
  proof -
    have "''id'' \<notin> set (wrapper_keys (snd subdir))" using that by (simp add: wrapper_keys_def)
    then have "''id'' \<notin> set (bt_keys obj)" using keys by (auto simp: filter_empty_conv)
    then show ?thesis by (auto simp: bt_get_def bt_keys_def map_of_eq_None_iff)
  qed
  ultimately show ?thesis unfolding v by (cases w; cases x) auto
qed

definition read_fragment :: "readers \<Rightarrow> overlay_fragment \<Rightarrow> bool" where
  "read_fragment rd f \<longleftrightarrow>
     (\<exists>contents subdir. yr_yaml rd contents = Inr (of_value f) \<and>
        check_overlay_document (of_path f) (subdir, of_kind f) (of_value f) = Inr ())"

lemma tree_result_Inr [simp]: "tree_result r = Inr x \<longleftrightarrow> r = Inr x"
  by (cases r) (simp_all add: tree_result_def)

lemma load_fragment_read:
  assumes "load_fragment fs rd ns subdir path fs0 = Inr fs1" and "list_all (read_fragment rd) fs0"
  shows "list_all (read_fragment rd) fs1"
proof -
  obtain contents v where v: "yaml_file_value rd contents path = Inr v" "check_overlay_document path subdir v = Inr ()"
      "fs1 = fs0 @ [\<lparr>of_namespace = ns, of_kind = snd subdir,
        of_stem = (case file_stem path of Some s \<Rightarrow> s | None \<Rightarrow> []), of_path = path, of_value = v\<rparr>]"
    using assms(1) by (auto simp: load_fragment_def bind_result_Inr_iff)
  have "yr_yaml rd contents = Inr v"
    using v(1) by (cases "yr_yaml rd contents") (auto simp: yaml_file_value_def split: if_splits)
  then have "read_fragment rd \<lparr>of_namespace = ns, of_kind = snd subdir,
      of_stem = (case file_stem path of Some s \<Rightarrow> s | None \<Rightarrow> []), of_path = path, of_value = v\<rparr>"
    unfolding read_fragment_def using v(2)
    by (intro exI[of _ contents] exI[of _ "fst subdir"]) simp
  then show ?thesis using v(3) assms(2) by simp
qed

lemma load_fragments_read:
  assumes "load_overlay_fragments fs rd base = Inr fragments"
  shows "list_all (read_fragment rd) fragments"
proof -
  have kind: "list_all (read_fragment rd) fs1"
    if "load_fragment_kind fs rd base ns subdir fs0 = Inr fs1" "list_all (read_fragment rd) fs0" for ns subdir fs0 fs1
    using that fold_result_invariant[where I = "list_all (read_fragment rd)" and f = "load_fragment fs rd ns subdir"]
      load_fragment_read by (auto simp: load_fragment_kind_def bind_result_Inr_iff)
  have namespace: "list_all (read_fragment rd) fs1"
    if "load_fragment_namespace fs rd base e fs0 = Inr fs1" "list_all (read_fragment rd) fs0" for e fs0 fs1
    using that fold_result_invariant[where I = "list_all (read_fragment rd)" and f = "load_fragment_kind fs rd base _"] kind
    by (auto simp: load_fragment_namespace_def bind_result_Inr_iff split: option.splits)
  obtain entries where "fold_result (load_fragment_namespace fs rd base) entries [] = Inr fragments"
    using assms by (auto simp: load_overlay_fragments_def bind_result_Inr_iff)
  then show ?thesis
    by (rule fold_result_invariant[where I = "list_all (read_fragment rd)"]) (auto intro: namespace)
qed

lemma canonicalize_fields:
  assumes "canonicalize_backend_protocol_alias v path = Inr w" and "json_wf v"
  shows "json_wf w \<and> jget w ''kind'' = jget v ''kind'' \<and> jget w ''id'' = jget v ''id'' \<and>
    spec_member w ''id'' = spec_member v ''id'' \<and> spec_member w ''namespace'' = spec_member v ''namespace'' \<and>
    (\<forall>spec. jget v ''spec'' = Some (JObject spec) \<longrightarrow> (\<exists>spec'. jget w ''spec'' = Some (JObject spec')))"
proof (cases "(as_object v, Option.bind (jget v ''spec'') as_object)")
  case (Pair a b)
  show ?thesis
  proof (cases "\<exists>obj spec legacy. a = Some obj \<and> b = Some spec \<and> bt_get spec ''backend_protocol'' = Some legacy")
    case False
    then have "w = v" using assms(1) Pair
      by (auto simp: canonicalize_backend_protocol_alias_def split: option.splits)
    then show ?thesis using assms(2) by simp
  next
    case True
    then obtain obj spec legacy where parts: "as_object v = Some obj" "Option.bind (jget v ''spec'') as_object = Some spec"
        "bt_get spec ''backend_protocol'' = Some legacy"
      using Pair by auto
    have v: "v = JObject obj" using parts(1) by (cases v) auto
    then have spec: "jget v ''spec'' = Some (JObject spec)"
      using parts(2) by (auto simp: bind_eq_Some_conv elim: as_object.elims)
    define rest where "rest = bt_remove ''backend_protocol'' spec"
    have wf: "json_wf (JObject obj)" "json_wf (JObject spec)" using assms(2) v json_wf_member[OF assms(2) spec] by auto
    have legacy: "json_wf legacy" by (rule json_wf_bt(2)[OF wf(2) parts(3)])
    have rest: "json_wf (JObject rest)" unfolding rest_def by (rule json_wf_bt(4)[OF wf(2)])
    have kept: "bt_get rest k = (if k = ''backend_protocol'' then None else bt_get spec k)" for k
      using json_wf_bt(1)[OF wf(2)] by (simp add: rest_def bt_get_remove)
    obtain new where new: "w = JObject (bt_insert ''spec'' (JObject new) obj)"
        "new = rest \<or> new = bt_insert ''backend_scheme'' legacy rest"
      using assms(1) parts
      by (auto simp: canonicalize_backend_protocol_alias_def Let_def rest_def[symmetric] split: option.splits if_splits)
    have wf_new: "json_wf (JObject new)" using new(2) rest json_wf_bt(3)[OF rest legacy] by blast
    have member: "bt_get new k = bt_get spec k" if "k \<noteq> ''backend_protocol''" "k \<noteq> ''backend_scheme''" for k
      using new(2) kept[of k] that bt_get_insert[OF json_wf_bt(1)[OF rest]] by auto
    have get: "jget w k = (if k = ''spec'' then Some (JObject new) else jget v k)" for k
      using bt_get_insert[OF json_wf_bt(1)[OF wf(1)]] by (simp add: new(1) v)
    have "json_wf w" unfolding new(1) by (rule json_wf_bt(3)[OF wf(1) wf_new])
    then show ?thesis by (simp add: get spec_member_def spec member)
  qed
qed

text \<open>What strict reading makes of the fields of a key.\<close>

lemma read_gateway:
  assumes "deserialize_gateway_spec reader passthrough spec path allow = Inr x"
  shows "\<exists>ignored. reader spec = Inr (x, ignored)"
  using assms
  by (auto simp: deserialize_gateway_spec_def deserialize_spec_def bind_result_Inr_iff split: sum.splits)

lemma map_sum_Inr: "map_sum f g r = Inr x \<longleftrightarrow> (\<exists>y. r = Inr y \<and> x = g y)"
  by (cases r) auto

definition identity_text :: "json option \<Rightarrow> string \<Rightarrow> string" where
  "identity_text v otherwise = (case v of Some (JString s) \<Rightarrow> s | _ \<Rightarrow> otherwise)"

lemma read_identity_key:
  assumes "resource_from_json_value rd allow v path = Inr r" and "faithful_readers rd"
    and "jget v ''kind'' = Some (JString kind)"
  shows "kind \<noteq> ''MeshConfig'' \<Longrightarrow>
      resource_key_of dir r = \<lparr>rk_kind = kind,
        rk_namespace = effective_namespace dir (identity_text (spec_member v ''namespace'') ''ferrum''),
        rk_id = identity_text (spec_member v ''id'') []\<rparr>"
    and "kind = ''MeshConfig'' \<Longrightarrow>
      resource_key_of dir r = \<lparr>rk_kind = kind, rk_namespace = dir, rk_id = identity_text (jget v ''id'') []\<rparr> \<and>
      (jget v ''id'' = None \<or> jget v ''id'' = Some JNull \<or> (\<exists>i. jget v ''id'' = Some (JString i)))"
proof -
  obtain obj spec where obj: "v = JObject obj" "jget v ''spec'' = Some spec"
      "typed_resource rd allow obj kind spec path = Inr r"
    using assms(1,3) by (auto simp: resource_from_json_value_def bind_result_Inr_iff split: option.splits elim: as_object.elims)
  have member: "spec_member v key = jget spec key" for key by (simp add: spec_member_def obj(2))
  have fields: "identity_text (jget spec ''namespace'') ''ferrum'' = ns x \<and> identity_text (jget spec ''id'') [] = rid x"
    if "reads_identity reader rid ns" "reader spec = Inr (x, ignored)" for reader rid ns and x :: 'z and ignored
    using that unfolding reads_identity_def identity_text_def
    by (cases "jget spec ''id''"; cases "jget spec ''namespace''") force+
  show "resource_key_of dir r = \<lparr>rk_kind = kind,
        rk_namespace = effective_namespace dir (identity_text (spec_member v ''namespace'') ''ferrum''),
        rk_id = identity_text (spec_member v ''id'') []\<rparr>" if "kind \<noteq> ''MeshConfig''"
    using obj(3) that assms(2) unfolding typed_resource_def faithful_readers_def member
    by (auto simp: map_sum_Inr split: if_splits dest!: read_gateway dest: fields)
  show "resource_key_of dir r = \<lparr>rk_kind = kind, rk_namespace = dir, rk_id = identity_text (jget v ''id'') []\<rparr> \<and>
      (jget v ''id'' = None \<or> jget v ''id'' = Some JNull \<or> (\<exists>i. jget v ''id'' = Some (JString i)))"
    if "kind = ''MeshConfig''"
    using obj(3) that unfolding typed_resource_def
    by (auto simp: map_sum_Inr bind_result_Inr_iff mesh_wrapper_id_def identity_text_def obj(1) split: option.splits json.splits)
qed

lemma deep_merge_atom:
  assumes "deep_merge_values to_str kind path base overlay = JNull \<or>
    (\<exists>s. deep_merge_values to_str kind path base overlay = JString s)"
  shows "deep_merge_values to_str kind path base overlay = overlay"
  using assms by (cases base; cases overlay) (auto simp: deep_merge_values.simps split: option.splits)

lemma merged_text:
  assumes "json_wf base" and "json_wf overlay" and "at_path overlay p = Some v"
  shows "at_path (deep_merge_values to_str kind pre base overlay) p = Some (JString s) \<longleftrightarrow> v = JString s"
    and "at_path (deep_merge_values to_str kind pre base overlay) p = Some JNull \<longleftrightarrow> v = JNull"
    and "at_path (deep_merge_values to_str kind pre base overlay) p \<noteq> None"
proof -
  obtain w where w: "at_path (deep_merge_values to_str kind pre base overlay) p = Some w"
      "w = v \<or> (\<exists>bv. w = deep_merge_values to_str kind (pre @ p) bv v)"
    using merged_path[OF assms(1,2), of to_str kind pre p] declared_present[OF assms(3)] assms(3)
    by (auto split: option.splits)
  have atom: "w = v" if "w = JNull \<or> (\<exists>s. w = JString s)" using w(2) that deep_merge_atom by metis
  have leaf: "w = v" if "as_object v = None" "as_array v = None"
    using merged_leaf[OF assms that, of to_str kind pre] w(1) by simp
  have same: "w = u \<longleftrightarrow> v = u" if "u = JNull \<or> u = JString s" for u
  proof
    assume "w = u"
    then show "v = u" using atom that by metis
  next
    assume v: "v = u"
    then have "w = v" using that by (intro leaf) auto
    then show "w = u" using v by simp
  qed
  show "at_path (deep_merge_values to_str kind pre base overlay) p = Some (JString s) \<longleftrightarrow> v = JString s"
    "at_path (deep_merge_values to_str kind pre base overlay) p = Some JNull \<longleftrightarrow> v = JNull"
    using w(1) same[of "JString s"] same[of JNull] by simp_all
  show "at_path (deep_merge_values to_str kind pre base overlay) p \<noteq> None" using w(1) by simp
qed

lemma identity_text_cases:
  "identity_text v d = (if \<exists>s. v = Some (JString s) then (THE s. v = Some (JString s)) else d)"
  by (auto simp: identity_text_def split: option.splits json.splits)

lemma identity_text_merged:
  assumes "json_wf base" and "json_wf overlay" and "at_path overlay p = Some v"
  shows "identity_text (at_path (deep_merge_values to_str kind pre base overlay) p) d = identity_text (Some v) d"
  using merged_text(1)[OF assms, of to_str kind pre] by (simp add: identity_text_cases)

lemma two_steps: "at_path v [''spec'', key] = spec_member v key"
  by (simp add: spec_member_def)

lemma one_step: "at_path v [key] = jget v key"
  by (cases "jget v key") simp_all

lemma spec_undeclared:
  assumes "jget v ''spec'' = Some (JObject spec)" and "spec_member v key = None"
  shows "\<not> declared_path v [''spec'', key]"
  using assms by (cases v) (auto simp: spec_member_def split: option.splits)

lemma key_kind: "rk_kind (resource_key_of dir r) = resource_kind r"
  by (cases r) simp_all

lemma gateway_namespace:
  assumes "resource_kind r \<noteq> ''MeshConfig''"
  obtains ns where "declared_namespace r = Some ns"
    and "rk_namespace (resource_key_of dir r) = effective_namespace dir ns"
  using assms by (cases r) auto

lemma merge_keeps_key:
  assumes rd: "faithful_readers rd" and f: "read_fragment rd f"
    and r: "serializes_identity r" and key: "overlay_key_of f = Inr (resource_key_of dir r)"
    and merged: "merge_fragment to_str rd allow f r = Inr r'"
  shows "rk_kind (resource_key_of (rk_namespace (resource_key_of dir r)) r') = rk_kind (resource_key_of dir r)"
    and "of_kind f \<noteq> ''MeshConfig'' \<or> names_fragment (of_value f) \<Longrightarrow>
      resource_key_of (rk_namespace (resource_key_of dir r)) r' = resource_key_of dir r"
proof -
  let ?key = "resource_key_of dir r"
  obtain contents subdir where read: "yr_yaml rd contents = Inr (of_value f)"
      "check_overlay_document (of_path f) (subdir, of_kind f) (of_value f) = Inr ()"
    using f by (auto simp: read_fragment_def)
  have wf0: "json_wf (of_value f)" using rd read(1) by (simp add: faithful_readers_def)
  note doc = check_document_fields[OF read(2), simplified]
  obtain v where v: "canonicalize_backend_protocol_alias (of_value f) (of_path f) = Inr v \<or> v = of_value f"
      and reread: "resource_from_json_value rd allow
        (deep_merge_values to_str (of_kind f) [] (resource_to_value r) v) (of_path f) = Inr r'"
    using merged by (auto simp: merge_fragment_def bind_result_Inr_iff split: if_splits)
  have same: "json_wf v" "jget v ''kind'' = Some (JString (of_kind f))" "jget v ''id'' = jget (of_value f) ''id''"
      "spec_member v ''id'' = spec_member (of_value f) ''id''"
      "spec_member v ''namespace'' = spec_member (of_value f) ''namespace''"
    using v doc canonicalize_fields[OF _ wf0] wf0 by auto
  obtain spec where spec: "jget v ''spec'' = Some (JObject spec)"
    using v doc canonicalize_fields[OF _ wf0] by metis
  have wf: "json_wf (resource_to_value r)" using r by (simp add: serializes_identity_def)
  let ?m = "deep_merge_values to_str (of_kind f) [] (resource_to_value r) v"
  have kind: "jget ?m ''kind'' = Some (JString (of_kind f))"
    using merged_leaf[OF wf same(1), of "[''kind'']"] same(2) by (simp add: one_step del: at_path.simps)
  note reread = read_identity_key[OF reread rd kind, of "rk_namespace ?key"]
  obtain i where i: "overlay_fragment_id f = Inr i" "i \<noteq> []" "rk_id ?key = i" "rk_kind ?key = of_kind f"
      "rk_namespace ?key = (if of_kind f = ''MeshConfig'' then of_namespace f
         else overlay_effective_namespace (of_value f) (of_namespace f))"
    using key by (cases ?key) (auto simp: overlay_key_of_def bind_result_Inr_iff split: if_splits)
  show "rk_kind (resource_key_of (rk_namespace ?key) r') = rk_kind ?key"
    using reread i(4) by (cases "of_kind f = ''MeshConfig''") auto
  assume named: "of_kind f \<noteq> ''MeshConfig'' \<or> names_fragment (of_value f)"
  show "resource_key_of (rk_namespace ?key) r' = ?key"
  proof (cases "of_kind f = ''MeshConfig''")
    case mesh: True
    then obtain mid spec0 where res: "r = MeshConfigRes mid spec0" using i(4) by (cases r) auto
    have key_id: "rk_id ?key = (case mid of Some s \<Rightarrow> s | None \<Rightarrow> [])" "rk_namespace ?key = dir" by (simp_all add: res)
    have base_id: "jget (resource_to_value r) ''id'' = map_option JString mid"
      by (cases mid) (simp_all add: res jget_jstruct fld_def opt_fld_def)
    have "identity_text (jget ?m ''id'') [] = rk_id ?key"
    proof (cases "jget v ''id''")
      case None
      then have "\<not> declared_path v [''id'']" using spec by (cases v) auto
      then have "jget ?m ''id'' = map_option JString mid"
        using merged_undeclared[OF wf same(1), of "[''id'']"] base_id by (simp add: one_step del: at_path.simps)
      then show ?thesis using key_id(1) by (cases mid) (simp_all add: identity_text_def)
    next
      case (Some w)
      note strings = merged_text[OF wf same(1), of "[''id'']" w to_str "of_kind f" "[]", unfolded one_step, OF Some]
      have "w \<noteq> JNull" "w \<noteq> JString []" using named mesh Some same(3) by (auto simp: names_fragment_def)
      then obtain s where s: "w = JString s" "s \<noteq> []" using reread(2)[OF mesh] strings by auto
      then have "i = s" using i(1) mesh Some same(3) by (auto simp: overlay_fragment_id_def split: if_splits)
      then show ?thesis using strings(1)[of s] s i(3) by (simp add: identity_text_def)
    qed
    then show ?thesis using reread(2)[OF mesh] i(4) mesh by (cases ?key) simp
  next
    case gateway: False
    have id_text: "spec_member v ''id'' = Some (JString i)"
      using i(1,2) gateway same(4) by (auto simp: overlay_fragment_id_def bind_eq_Some_conv split: option.splits elim: as_str.elims)
    have "identity_text (spec_member ?m ''id'') [] = i"
      using identity_text_merged[OF wf same(1), of "[''spec'', ''id'']"] id_text
      by (simp add: two_steps identity_text_def del: at_path.simps)
    moreover have "effective_namespace (rk_namespace ?key) (identity_text (spec_member ?m ''namespace'') ''ferrum'') =
        rk_namespace ?key"
    proof (cases "spec_member v ''namespace''")
      case None
      have "resource_kind r \<noteq> ''MeshConfig''" using gateway i(4) by (simp add: key_kind)
      then obtain ns where ns: "declared_namespace r = Some ns" "rk_namespace ?key = effective_namespace dir ns"
        by (rule gateway_namespace)
      have "spec_member ?m ''namespace'' = Some (JString ns)"
        using merged_undeclared[OF wf same(1) spec_undeclared[OF spec None], of to_str "of_kind f" "[]"] r ns(1)
        by (simp add: two_steps serializes_identity_def del: at_path.simps)
      then show ?thesis using ns(2) by (simp add: identity_text_def effective_namespace_def)
    next
      case (Some w)
      have "identity_text (spec_member ?m ''namespace'') ''ferrum'' = identity_text (Some w) ''ferrum''"
        using identity_text_merged[OF wf same(1), of "[''spec'', ''namespace'']" w] Some
        by (simp add: two_steps del: at_path.simps)
      then show ?thesis using i(5) gateway Some same(5)
        by (cases w) (auto simp: identity_text_def effective_namespace_def overlay_effective_namespace_def)
    qed
    ultimately show ?thesis using reread(1)[OF gateway] i(3,4) by (cases ?key) simp
  qed
qed

text \<open>Overlaid rows keep their kind, and gateway rows their key.\<close>

definition same_gateway_row :: "string \<times> resource \<Rightarrow> string \<times> resource \<Rightarrow> bool" where
  "same_gateway_row row row' \<longleftrightarrow>
     rk_kind (row_key_of row') = rk_kind (row_key_of row) \<and>
     (rk_kind (row_key_of row) \<noteq> ''MeshConfig'' \<longrightarrow> row_key_of row' = row_key_of row)"

lemma overlay_row_keys:
  assumes "apply_overlay_with_options to_str fs rd allow base overlay_dir = Inr rows"
    and "faithful_readers rd" and "\<forall>r \<in> set base. serializes_identity (snd r)"
  shows "list_all2 same_gateway_row base rows"
proof -
  obtain fragments where f: "load_overlay_fragments fs rd overlay_dir = Inr fragments"
      "list_all2 (patched_row to_str rd allow fragments) base rows"
    using overlay_exact_rows[OF assms(1)] by blast
  have read: "list_all (read_fragment rd) fragments" by (rule load_fragments_read[OF f(1)])
  have "same_gateway_row row row'" if "row \<in> set base" "patched_row to_str rd allow fragments row row'" for row row'
  proof (cases "targets fragments (row_key_of row)")
    case None
    then show ?thesis using that(2) by (simp add: patched_row_def same_gateway_row_def)
  next
    case (Some g)
    then have g: "g \<in> set fragments" "overlay_key_of g = Inr (row_key_of row)"
      by (auto simp: targets_def find_Some_iff)
    then have rg: "read_fragment rd g" using read by (simp add: list_all_iff)
    have kind: "rk_kind (row_key_of row) = of_kind g"
      using g(2) by (auto simp: overlay_key_of_def bind_result_Inr_iff split: if_splits dest!: arg_cong[where f = rk_kind])
    have merged: "merge_fragment to_str rd allow g (snd row) = Inr (snd row')" "fst row' = rk_namespace (row_key_of row)"
      using that(2) Some by (simp_all add: patched_row_def)
    have "serializes_identity (snd row)" using assms(3) that(1) by blast
    note kept = merge_keeps_key[OF assms(2) rg this g(2) merged(1), folded merged(2)]
    show ?thesis using kept unfolding same_gateway_row_def kind by simp
  qed
  then show ?thesis using f(2) by (auto simp: list_all2_conv_all_nth)
qed

section \<open>A small overlay\<close>

definition fragment_base :: "(string \<times> resource) list" where
  "fragment_base = [(''a'', MeshConfigRes (Some ''m'') mesh_config_spec_default)]"

definition small_fragment :: overlay_fragment where
  "small_fragment = \<lparr>of_namespace = ''a'', of_kind = ''MeshConfig'', of_stem = ''m'',
     of_path = [''r'', ''a'', ''mesh'', ''m.yml''],
     of_value = JObject [(''kind'', JString ''MeshConfig''), (''spec'', JObject [])]\<rparr>"

lemma small_overlay_walk:
  "namespace_entry ''overlay tree'' [''r''] (''README'', Inr IsFile) = Inr None"
  "namespace_entry ''overlay tree'' [''r''] (''a'', Inr IsDir) = Inr (Some ''a'')"
  "validate_namespace_tree small_tree [''r'', ''a''] ''overlay tree'' = Inr ()"
  "kind_paths small_tree ''overlay tree'' [''r'', ''a'', ''mesh''] = Inr [[''r'', ''a'', ''mesh'', ''m.yml'']]"
  "file_stem [''r'', ''a'', ''mesh'', ''m.yml''] = Some ''m''"
  by code_simp+

lemma small_overlay_other_kinds:
  "k \<noteq> ''mesh'' \<Longrightarrow> kind_paths small_tree ''overlay tree'' [''r'', ''a'', k] = Inr []"
  by (simp add: kind_paths_def small_tree_def)

lemma small_fragment_loads: "load_overlay_fragments small_tree mesh_reader [''r''] = Inr [small_fragment]"
proof -
  have "yaml_file_value mesh_reader ''doc'' path = Inr (of_value small_fragment)" for path
    by (simp add: yaml_file_value_def MAX_YAML_INPUT_BYTES_def mesh_reader_def small_fragment_def)
  moreover have "check_overlay_document path (''mesh'', ''MeshConfig'') (of_value small_fragment) = Inr ()" for path
    by (simp add: check_overlay_document_def small_fragment_def str_member_def bt_get_def reject_ignored_def
        wrapper_keys_def bt_keys_def tree_result_def)
  ultimately show ?thesis
    by (simp add: load_overlay_fragments_def small_tree_walk(1) tree_result_def load_fragment_namespace_def
        small_overlay_walk RESOURCE_SUBDIRECTORIES_def load_fragment_kind_def small_overlay_other_kinds
        load_fragment_def small_tree_read small_fragment_def)
qed

lemma small_merge:
  "merge_fragment to_str mesh_reader False small_fragment (MeshConfigRes (Some ''m'') mesh_config_spec_default) =
     Inr (MeshConfigRes (Some ''m'') mesh_config_spec_default)"
proof -
  have "deep_merge_values to_str ''MeshConfig'' [] (resource_to_value (MeshConfigRes (Some ''m'') mesh_config_spec_default))
      (of_value small_fragment) =
    JObject [(''id'', JString ''m''), (''kind'', JString ''MeshConfig''), (''spec'', JObject [])]"
    by code_simp
  then show ?thesis
    by (simp add: merge_fragment_def small_fragment_def resource_from_json_value_def bt_get_def reject_ignored_def
        wrapper_keys_def bt_keys_def typed_resource_def mesh_wrapper_id_def deserialize_spec_def mesh_reader_def
        tree_result_def)
qed

lemma small_overlay_applies:
  "apply_overlay_with_options to_str small_tree mesh_reader False fragment_base [''r''] = Inr fragment_base"
proof -
  have dir: "fs_inspect small_tree [''r''] = Inr (regular\<lparr>in_kind := IsDir\<rparr>)" by (simp add: small_tree_def)
  have key: "overlay_key_of small_fragment = Inr \<lparr>rk_kind = ''MeshConfig'', rk_namespace = ''a'', rk_id = ''m''\<rparr>"
    by (simp add: overlay_key_of_def overlay_fragment_id_def small_fragment_def bt_get_def)
  show ?thesis
    by (simp add: apply_overlay_with_options_def dir base_index_def index_row_def fragment_base_def
        small_fragment_loads apply_fragment_def key small_merge)
qed

text \<open>An overlay that changes the weight of one upstream target and adds another; the second target stays.\<close>

definition weighted :: "string \<Rightarrow> string \<Rightarrow> json" where
  "weighted host weight = JObject [(''host'', JString host), (''port'', JNull), (''weight'', JString weight)]"

definition with_targets :: "json list \<Rightarrow> json" where
  "with_targets items = JObject [(''spec'', JObject [(''targets'', JArray items)])]"

lemma weighted_identity:
  "array_item_identity (\<lambda>_. []) (weighted host weight) Generic = Some (''target:'' @ host @ ''::'')"
  by (simp add: weighted_def array_item_identity_def named_identity_def str_member_def bt_get_def target_identity_def)

lemma weighted_merge:
  "deep_merge_values (\<lambda>_. []) ''Upstream'' [] (weighted ''a'' ''1'') (weighted ''a'' ''2'') = weighted ''a'' ''2''"
  by code_simp

theorem overlay_merge_exact_witness:
  "at_path (deep_merge_values (\<lambda>_. []) ''Upstream'' [] (with_targets [weighted ''a'' ''1'', weighted ''b'' ''1''])
     (with_targets [weighted ''c'' ''3'', weighted ''a'' ''2''])) [''spec'', ''targets''] =
   Some (JArray [weighted ''a'' ''2'', weighted ''b'' ''1'', weighted ''c'' ''3''])"
proof -
  let ?base = "[weighted ''a'' ''1'', weighted ''b'' ''1'']" and ?overlay = "[weighted ''c'' ''3'', weighted ''a'' ''2'']"
  have wf: "json_wf (with_targets ?base)" "json_wf (with_targets ?overlay)" by code_simp+
  note exact = overlay_merge_exact[OF wf, of "\<lambda>_. []" "''Upstream''" "[]" "[''spec'', ''targets'']"]
  have paths: "declared_path (with_targets ?overlay) [''spec'', ''targets'']"
    "at_path (with_targets ?base) [''spec'', ''targets''] = Some (JArray ?base)"
    "at_path (with_targets ?overlay) [''spec'', ''targets''] = Some (JArray ?overlay)" by code_simp+
  have additive: "array_merge_identity ([] @ [''spec'', ''targets'']) ''Upstream'' = Some Generic"
    and plain: "list_all plain_item ?base" "list_all plain_item ?overlay" by code_simp+
  have "additive_merge (\<lambda>v. array_item_identity (\<lambda>_. []) v Generic) (deep_merge_values (\<lambda>_. []) ''Upstream'' [])
      ?base ?overlay = [weighted ''a'' ''2'', weighted ''b'' ''1'', weighted ''c'' ''3'']"
    by (simp add: additive_merge_def item_class_def absorb_def upt_Suc weighted_identity weighted_merge)
  then have "deep_merge_values (\<lambda>_. []) ''Upstream'' ([] @ [''spec'', ''targets'']) (JArray ?base) (JArray ?overlay) =
      JArray [weighted ''a'' ''2'', weighted ''b'' ''1'', weighted ''c'' ''3'']"
    by (simp only: conjunct2[OF conjunct2[OF exact], rule_format, OF conjI[OF additive conjI[OF plain]]])
  then show ?thesis using conjunct1[OF exact] by (simp only: paths if_True option.simps)
qed

theorem overlay_exact_witness:
  "\<exists>fragments. load_overlay_fragments small_tree mesh_reader [''r''] = Inr fragments \<and>
     list_all2 (patched_row (\<lambda>_. []) mesh_reader False fragments) fragment_base fragment_base"
  using overlay_exact[OF small_overlay_applies] by blast

end
