(* ===== verification/Assemble_Facts.thy ===== *)
theory Assemble_Facts
  imports Assemble Overlay_Facts
begin

text \<open>
  What assembling guarantees: the exact condition under which mesh fragments merge and the exact
  document they merge into, the exact associations of every proxy, and that normalizing twice is
  normalizing once.
\<close>

section \<open>First occurrences\<close>

text \<open>The elements in order, leaving out any whose key an earlier element has; no key, no check.\<close>

definition keep_step :: "('a \<Rightarrow> 'k option) \<Rightarrow> 'a \<Rightarrow> 'a list \<Rightarrow> 'a list" where
  "keep_step f x acc = (if f x \<noteq> None \<and> f x \<in> f ` set acc then acc else acc @ [x])"

definition keep_first :: "('a \<Rightarrow> 'k option) \<Rightarrow> 'a list \<Rightarrow> 'a list" where
  "keep_first f xs = fold (keep_step f) xs []"

lemma keep_first_snoc: "keep_first f (xs @ [x]) = keep_step f x (keep_first f xs)"
  by (simp add: keep_first_def)

lemma keep_first_Nil [simp]: "keep_first f [] = []"
  by (simp add: keep_first_def)

lemma set_keep_first: "set (keep_first f xs) \<subseteq> set xs"
proof (induction xs rule: rev_induct)
  case (snoc x xs)
  then show ?case by (auto simp: keep_first_snoc keep_step_def split: if_splits)
qed simp

lemma keys_keep_first: "f ` set (keep_first f xs) = f ` set xs"
proof (induction xs rule: rev_induct)
  case (snoc x xs)
  then show ?case by (auto simp: keep_first_snoc keep_step_def)
qed simp

lemma keep_first_Some_distinct: "distinct (keep_first Some xs) \<and> set (keep_first Some xs) = set xs"
proof (induction xs rule: rev_induct)
  case (snoc x xs)
  then show ?case by (auto simp: keep_first_snoc keep_step_def)
qed simp

lemma keep_first_distinct_id: "distinct xs \<Longrightarrow> keep_first Some xs = xs"
proof (induction xs rule: rev_induct)
  case (snoc x xs)
  then show ?case by (auto simp: keep_first_snoc keep_step_def)
qed simp

text \<open>Elements with the same key are the same element.\<close>

definition agree :: "('a \<Rightarrow> 'k option) \<Rightarrow> 'a list \<Rightarrow> bool" where
  "agree f xs \<longleftrightarrow> (\<forall>x \<in> set xs. \<forall>y \<in> set xs. f x \<noteq> None \<and> f x = f y \<longrightarrow> x = y)"

lemma agree_append: "agree f (xs @ ys) \<Longrightarrow> agree f xs"
  unfolding agree_def set_append by blast

lemma agree_snoc:
  "agree f (xs @ [x]) \<longleftrightarrow> agree f xs \<and> (f x \<noteq> None \<longrightarrow> (\<forall>y \<in> set xs. f y = f x \<longrightarrow> y = x))"
proof
  assume h: "agree f (xs @ [x])"
  have "y = x" if "f x \<noteq> None" "y \<in> set xs" "f y = f x" for y
  proof -
    have members: "y \<in> set (xs @ [x])" "x \<in> set (xs @ [x])" using that(2) by simp_all
    have given: "f y \<noteq> None \<and> f y = f x" using that by simp
    show ?thesis by (rule h[unfolded agree_def, THEN bspec, OF members(1), THEN bspec, OF members(2), rule_format, OF given])
  qed
  then show "agree f xs \<and> (f x \<noteq> None \<longrightarrow> (\<forall>y \<in> set xs. f y = f x \<longrightarrow> y = x))"
    using agree_append[OF h] by blast
next
  assume a: "agree f xs \<and> (f x \<noteq> None \<longrightarrow> (\<forall>y \<in> set xs. f y = f x \<longrightarrow> y = x))"
  show "agree f (xs @ [x])"
    unfolding agree_def
  proof (intro ballI impI)
    fix u v assume m: "u \<in> set (xs @ [x])" "v \<in> set (xs @ [x])" and f: "f u \<noteq> None \<and> f u = f v"
    consider "u = x" "v = x" | "u = x" "v \<in> set xs" | "u \<in> set xs" "v = x" | "u \<in> set xs" "v \<in> set xs"
      using m by auto
    then show "u = v"
    proof cases
      case 4
      then show ?thesis using a f unfolding agree_def by blast
    qed (use a f in auto)
  qed
qed

section \<open>Identified collections\<close>

definition collection_inv :: "(json \<Rightarrow> string option) \<Rightarrow> json list \<Rightarrow> json list \<times> identity_index \<Rightarrow> bool" where
  "collection_inv f xs acc \<longleftrightarrow>
     fst acc = keep_first f xs \<and> agree f xs \<and>
     (\<forall>i. case snd acc i of
            None \<Rightarrow> Some i \<notin> f ` set xs
          | Some (p, _) \<Rightarrow> p < length (fst acc) \<and> f (fst acc ! p) = Some i)"

lemma collection_invI:
  assumes "items = keep_first f xs" and "agree f xs"
    and "\<And>i. case idx i of None \<Rightarrow> Some i \<notin> f ` set xs | Some (p, _) \<Rightarrow> p < length items \<and> f (items ! p) = Some i"
  shows "collection_inv f xs (items, idx)"
  using assms unfolding collection_inv_def fst_conv snd_conv by blast

lemma merge_item_inv:
  fixes to_str identity
  defines "f \<equiv> \<lambda>v. array_item_identity to_str v identity"
  assumes "collection_inv f xs acc"
  shows "case merge_identified_item to_str field identity origin x acc of
      Inr acc' \<Rightarrow> collection_inv f (xs @ [x]) acc' | Inl _ \<Rightarrow> \<not> agree f (xs @ [x])"
proof -
  have item: "merge_identified_item to_str field identity origin x acc =
      (case f x of
         None \<Rightarrow> Inr (fst acc @ [x], snd acc)
       | Some i \<Rightarrow>
           (case snd acc i of
              Some (pos, previous) \<Rightarrow>
                if pos < length (fst acc) \<and> fst acc ! pos = x then Inr acc
                else Inl (MeshEntryConflict field i previous origin identity)
            | None \<Rightarrow> Inr (fst acc @ [x], (snd acc)(i \<mapsto> (length (fst acc), origin)))))"
    by (simp add: merge_identified_item_def f_def)
  show ?thesis
  proof (cases "f x")
  case None
  have "case (snd acc) i of None \<Rightarrow> Some i \<notin> f ` set (xs @ [x])
      | Some (p, _) \<Rightarrow> p < length (fst acc @ [x]) \<and> f ((fst acc @ [x]) ! p) = Some i" for i
    using assms(2) None by (auto simp: collection_inv_def nth_append split: option.splits dest!: spec[of _ i])
  moreover have "agree f (xs @ [x])" using assms(2) None by (simp add: collection_inv_def agree_snoc)
  ultimately have "collection_inv f (xs @ [x]) (fst acc @ [x], snd acc)"
    using assms(2) None by (intro collection_invI) (auto simp: collection_inv_def keep_first_snoc keep_step_def)
  then show ?thesis using None by (simp add: item)
next
  case (Some i)
  note i = this
  show ?thesis
  proof (cases "snd acc i")
    case None
    then have fresh: "Some i \<notin> f ` set xs" using assms(2) by (auto simp: collection_inv_def dest!: spec[of _ i])
    then have "Some i \<notin> f ` set (fst acc)" using assms(2) keys_keep_first[of f xs] by (auto simp: collection_inv_def)
    then have "keep_first f (xs @ [x]) = fst acc @ [x]"
      using i assms(2) by (auto simp: keep_first_snoc keep_step_def collection_inv_def)
    moreover have "agree f (xs @ [x])"
      using assms(2) i fresh by (auto simp: collection_inv_def agree_snoc image_iff)
    moreover have "case ((snd acc)(i \<mapsto> (length (fst acc), origin))) j of None \<Rightarrow> Some j \<notin> f ` set (xs @ [x])
      | Some (p, _) \<Rightarrow> p < length (fst acc @ [x]) \<and> f ((fst acc @ [x]) ! p) = Some j" for j
      using assms(2) i by (auto simp: collection_inv_def nth_append split: option.splits dest!: spec[of _ j])
    ultimately have "collection_inv f (xs @ [x]) (fst acc @ [x], (snd acc)(i \<mapsto> (length (fst acc), origin)))"
      by (intro collection_invI) simp_all
    then show ?thesis using None i by (simp add: item)
  next
    case (Some e)
    obtain p previous where e: "e = (p, previous)" by (cases e)
    have p: "p < length (fst acc)" "f (fst acc ! p) = Some i"
      using assms(2) Some e by (auto simp: collection_inv_def dest!: spec[of _ i])
    have member: "fst acc ! p \<in> set xs"
      using p(1) assms(2) set_keep_first[of f xs] by (auto simp: collection_inv_def)
    show ?thesis
    proof (cases "fst acc ! p = x")
      case True
      then have "x \<in> set xs" using member by simp
      moreover from this have "agree f (xs @ [x])" using assms(2) p(2) True i
        by (auto simp: collection_inv_def agree_snoc) (auto simp: agree_def)
      moreover from \<open>x \<in> set xs\<close> have same: "set (xs @ [x]) = set xs" by auto
      moreover have "Some i \<in> f ` set (fst acc)" using p by (metis image_eqI nth_mem)
      then have "keep_first f (xs @ [x]) = fst acc"
        using assms(2) i by (simp add: keep_first_snoc keep_step_def collection_inv_def)
      ultimately have "collection_inv f (xs @ [x]) (fst acc, snd acc)"
        using assms(2) unfolding collection_inv_def fst_conv snd_conv same by (elim conjE) (intro conjI; assumption?; simp only:)
      then show ?thesis using i Some e p(1) True by (simp add: item)
    next
      case False
      then have "\<not> agree f (xs @ [x])" using member p(2) i by (auto simp: agree_snoc)
      then show ?thesis using False Some e i p(1) by (simp add: item)
    qed
  qed
qed
qed

lemma merge_collection_inv:
  fixes to_str identity
  defines "f \<equiv> \<lambda>v. array_item_identity to_str v identity"
  assumes "collection_inv f xs acc"
  shows "case merge_mesh_identified_collection to_str field incoming identity origin acc of
      Inr acc' \<Rightarrow> collection_inv f (xs @ incoming) acc' | Inl _ \<Rightarrow> \<not> agree f (xs @ incoming)"
  using assms(2)
proof (induction incoming arbitrary: xs acc)
  case (Cons x incoming)
  note step = merge_item_inv[OF Cons.prems[unfolded f_def], where field = field and origin = origin and x = x, folded f_def]
  show ?case
  proof (cases "merge_identified_item to_str field identity origin x acc")
    case (Inl e)
    then show ?thesis using step agree_append[of f "xs @ [x]" incoming]
      by (auto simp: merge_mesh_identified_collection_def)
  next
    case (Inr acc')
    then show ?thesis using Cons.IH[of "xs @ [x]" acc', unfolded append_assoc append.simps] step by (simp add: merge_mesh_identified_collection_def)
  qed
qed (simp add: merge_mesh_identified_collection_def)

section \<open>Singletons\<close>

definition first_given :: "'a option list \<Rightarrow> 'a option" where
  "first_given vs = (case filter (\<lambda>v. v \<noteq> None) vs of [] \<Rightarrow> None | v # _ \<Rightarrow> v)"

definition agree_single :: "'a option list \<Rightarrow> bool" where
  "agree_single vs \<longleftrightarrow> (\<forall>a b. Some a \<in> set vs \<and> Some b \<in> set vs \<longrightarrow> a = b)"

lemma first_given_snoc:
  "first_given (vs @ [v]) = (case first_given vs of Some a \<Rightarrow> Some a | None \<Rightarrow> v)"
  unfolding first_given_def by (induction vs) (auto split: list.splits)

lemma first_given_member: "first_given vs = Some a \<Longrightarrow> Some a \<in> set vs"
  by (auto simp: first_given_def filter_eq_Cons_iff split: list.splits)

lemma first_given_None: "first_given vs = None \<longleftrightarrow> (\<forall>a. Some a \<notin> set vs)"
  by (induction vs) (auto simp: first_given_def split: list.splits option.splits)

lemma merge_singleton_inv:
  assumes "agree_single vs" and "slot = first_given vs"
  shows "case merge_mesh_singleton field shown slot incoming origin origins of
      Inr (slot', _) \<Rightarrow> agree_single (vs @ [incoming]) \<and> slot' = first_given (vs @ [incoming])
    | Inl _ \<Rightarrow> \<not> agree_single (vs @ [incoming])"
proof (cases incoming)
  case None
  then show ?thesis using assms
    by (auto simp: merge_mesh_singleton_def agree_single_def first_given_snoc split: option.splits)
next
  case (Some new)
  show ?thesis
  proof (cases slot)
    case None
    then show ?thesis using assms Some first_given_None[of vs]
      by (auto simp: merge_mesh_singleton_def agree_single_def first_given_snoc)
  next
    case (Some existing)
    then have first: "first_given vs = Some existing" using assms(2) by simp
    have member: "Some existing \<in> set vs" by (rule first_given_member[OF first])
    show ?thesis
    proof (cases "existing = new")
      case True
      then have "set (vs @ [incoming]) = set vs" using member \<open>incoming = Some new\<close> by auto
      then have "agree_single (vs @ [incoming])" using assms(1) unfolding agree_single_def by simp
      then show ?thesis using True Some first \<open>incoming = Some new\<close>
        by (simp add: merge_mesh_singleton_def first_given_snoc)
    next
      case False
      then have "\<not> agree_single (vs @ [incoming])" using member \<open>incoming = Some new\<close>
        unfolding agree_single_def by auto
      then show ?thesis using False Some \<open>incoming = Some new\<close> by (simp add: merge_mesh_singleton_def)
    qed
  qed
qed

section \<open>Merging the fragments\<close>

abbreviation workload_key :: "(json \<Rightarrow> string) \<Rightarrow> json \<Rightarrow> string option" where
  "workload_key to_str v \<equiv> array_item_identity to_str v MeshWorkloadSpiffeId"

abbreviation service_key :: "(json \<Rightarrow> string) \<Rightarrow> json \<Rightarrow> string option" where
  "service_key to_str v \<equiv> array_item_identity to_str v MeshServiceNameNamespace"

abbreviation gathered :: "(mesh_config_spec \<Rightarrow> 'a list) \<Rightarrow> mesh_config_spec list \<Rightarrow> 'a list" where
  "gathered field specs \<equiv> concat (map field specs)"

text \<open>No two fragments give one workload, service or setting two values.\<close>

definition specs_agree :: "(json \<Rightarrow> string) \<Rightarrow> mesh_config_spec list \<Rightarrow> bool" where
  "specs_agree to_str specs \<longleftrightarrow>
     agree (workload_key to_str) (gathered m_workloads specs) \<and>
     agree (service_key to_str) (gathered m_services specs) \<and>
     agree_single (map m_istio_root_namespace specs) \<and> agree_single (map m_trust_bundles specs) \<and>
     agree_single (map m_multi_cluster specs) \<and> agree_single (map m_outbound_traffic_policy specs)"

definition merged_document :: "(json \<Rightarrow> string) \<Rightarrow> mesh_config_spec list \<Rightarrow> mesh_config_spec" where
  "merged_document to_str specs =
     \<lparr>m_istio_root_namespace = first_given (map m_istio_root_namespace specs),
      m_workloads = keep_first (workload_key to_str) (gathered m_workloads specs),
      m_services = keep_first (service_key to_str) (gathered m_services specs),
      m_mesh_policies = gathered m_mesh_policies specs,
      m_ext_authz_providers = gathered m_ext_authz_providers specs,
      m_peer_authentications = gathered m_peer_authentications specs,
      m_service_entries = gathered m_service_entries specs,
      m_request_authentications = gathered m_request_authentications specs,
      m_telemetry_resources = gathered m_telemetry_resources specs,
      m_destination_rules = gathered m_destination_rules specs,
      m_virtual_service_cors_policies = gathered m_virtual_service_cors_policies specs,
      m_proxy_configs = gathered m_proxy_configs specs,
      m_sidecars = gathered m_sidecars specs,
      m_waypoint_bindings = gathered m_waypoint_bindings specs,
      m_trust_bundles = first_given (map m_trust_bundles specs),
      m_multi_cluster = first_given (map m_multi_cluster specs),
      m_outbound_traffic_policy = first_given (map m_outbound_traffic_policy specs),
      m_extension_configs = gathered m_extension_configs specs\<rparr>"

definition merge_inv :: "(json \<Rightarrow> string) \<Rightarrow> mesh_config_spec list \<Rightarrow> mesh_merge \<Rightarrow> bool" where
  "merge_inv to_str specs st \<longleftrightarrow>
     mm_merged st = merged_document to_str specs \<and> specs_agree to_str specs \<and>
     collection_inv (workload_key to_str) (gathered m_workloads specs) (m_workloads (mm_merged st), mm_workloads st) \<and>
     collection_inv (service_key to_str) (gathered m_services specs) (m_services (mm_merged st), mm_services st)"

lemma merge_inv_empty: "merge_inv to_str [] empty_merge"
  by (simp add: merge_inv_def empty_merge_def merged_document_def mesh_config_spec_default_def specs_agree_def
      agree_def agree_single_def collection_inv_def first_given_def)

lemma specs_agree_append: "specs_agree to_str (specs @ others) \<Longrightarrow> specs_agree to_str specs"
  unfolding specs_agree_def map_append concat_append agree_single_def set_append
  by (blast dest: agree_append)

lemma merge_fragment_inv:
  assumes inv: "merge_inv to_str specs st"
  shows "case merge_mesh_fragment to_str e st of
      Inr st' \<Rightarrow> merge_inv to_str (specs @ [snd e]) st' | Inl _ \<Rightarrow> \<not> specs_agree to_str (specs @ [snd e])"
proof -
  obtain origin fragment where e: "e = (origin, fragment)" by (cases e)
  let ?m = "mm_merged st"
  let ?w = "merge_mesh_identified_collection to_str ''workloads'' (m_workloads fragment) MeshWorkloadSpiffeId origin
    (m_workloads ?m, mm_workloads st)"
  let ?s = "merge_mesh_identified_collection to_str ''services'' (m_services fragment) MeshServiceNameNamespace origin
    (m_services ?m, mm_services st)"
  note merged = inv[unfolded merge_inv_def, THEN conjunct1]
  note agrees = inv[unfolded merge_inv_def specs_agree_def]
  have snoc: "map f (specs @ [fragment]) = map f specs @ [f fragment]" for f by simp
  have gather: "gathered f (specs @ [fragment]) = gathered f specs @ f fragment" for f by simp
  have w: "case ?w of Inr acc \<Rightarrow> collection_inv (workload_key to_str) (gathered m_workloads (specs @ [fragment])) acc
      | Inl _ \<Rightarrow> \<not> agree (workload_key to_str) (gathered m_workloads (specs @ [fragment]))"
    unfolding gather by (rule merge_collection_inv) (rule inv[unfolded merge_inv_def, THEN conjunct2, THEN conjunct2, THEN conjunct1])
  have s: "case ?s of Inr acc \<Rightarrow> collection_inv (service_key to_str) (gathered m_services (specs @ [fragment])) acc
      | Inl _ \<Rightarrow> \<not> agree (service_key to_str) (gathered m_services (specs @ [fragment]))"
    unfolding gather by (rule merge_collection_inv) (rule inv[unfolded merge_inv_def, THEN conjunct2, THEN conjunct2, THEN conjunct2])
  have r: "case merge_mesh_singleton name shown (m_istio_root_namespace ?m) (m_istio_root_namespace fragment) origin origins of
      Inr (slot, _) \<Rightarrow> agree_single (map m_istio_root_namespace (specs @ [fragment])) \<and>
        slot = first_given (map m_istio_root_namespace (specs @ [fragment]))
    | Inl _ \<Rightarrow> \<not> agree_single (map m_istio_root_namespace (specs @ [fragment]))" for name shown origins
    unfolding snoc by (rule merge_singleton_inv) (use agrees in \<open>simp_all add: merged_document_def\<close>)
  have t: "case merge_mesh_singleton name shown (m_trust_bundles ?m) (m_trust_bundles fragment) origin origins of
      Inr (slot, _) \<Rightarrow> agree_single (map m_trust_bundles (specs @ [fragment])) \<and>
        slot = first_given (map m_trust_bundles (specs @ [fragment]))
    | Inl _ \<Rightarrow> \<not> agree_single (map m_trust_bundles (specs @ [fragment]))" for name shown origins
    unfolding snoc by (rule merge_singleton_inv) (use agrees in \<open>simp_all add: merged_document_def\<close>)
  have c: "case merge_mesh_singleton name shown (m_multi_cluster ?m) (m_multi_cluster fragment) origin origins of
      Inr (slot, _) \<Rightarrow> agree_single (map m_multi_cluster (specs @ [fragment])) \<and>
        slot = first_given (map m_multi_cluster (specs @ [fragment]))
    | Inl _ \<Rightarrow> \<not> agree_single (map m_multi_cluster (specs @ [fragment]))" for name shown origins
    unfolding snoc by (rule merge_singleton_inv) (use agrees in \<open>simp_all add: merged_document_def\<close>)
  have p: "case merge_mesh_singleton name shown (m_outbound_traffic_policy ?m) (m_outbound_traffic_policy fragment) origin origins of
      Inr (slot, _) \<Rightarrow> agree_single (map m_outbound_traffic_policy (specs @ [fragment])) \<and>
        slot = first_given (map m_outbound_traffic_policy (specs @ [fragment]))
    | Inl _ \<Rightarrow> \<not> agree_single (map m_outbound_traffic_policy (specs @ [fragment]))" for name shown origins
    unfolding snoc by (rule merge_singleton_inv) (use agrees in \<open>simp_all add: merged_document_def\<close>)
  show ?thesis
  proof (cases "specs_agree to_str (specs @ [fragment])")
    case True
    note a = True[unfolded specs_agree_def]
    obtain ws wi where ws: "?w = Inr (ws, wi)"
        "collection_inv (workload_key to_str) (gathered m_workloads (specs @ [fragment])) (ws, wi)"
      using w a by (cases ?w) auto
    obtain ss si where ss: "?s = Inr (ss, si)"
        "collection_inv (service_key to_str) (gathered m_services (specs @ [fragment])) (ss, si)"
      using s a by (cases ?s) auto
    obtain rv o1 where rv: "merge_mesh_singleton ''istio_root_namespace'' JString (m_istio_root_namespace ?m) (m_istio_root_namespace fragment) origin (mm_origins st) = Inr (rv, o1)"
        "rv = first_given (map m_istio_root_namespace (specs @ [fragment]))"
      using r[of "''istio_root_namespace''" JString "(mm_origins st)"] a
      by (cases "merge_mesh_singleton ''istio_root_namespace'' JString (m_istio_root_namespace ?m) (m_istio_root_namespace fragment) origin (mm_origins st)") auto
    obtain tv o2 where tv: "merge_mesh_singleton ''trust_bundles'' id (m_trust_bundles ?m) (m_trust_bundles fragment) origin o1 = Inr (tv, o2)"
        "tv = first_given (map m_trust_bundles (specs @ [fragment]))"
      using t[of "''trust_bundles''" id "o1"] a
      by (cases "merge_mesh_singleton ''trust_bundles'' id (m_trust_bundles ?m) (m_trust_bundles fragment) origin o1") auto
    obtain cv o3 where cv: "merge_mesh_singleton ''multi_cluster'' id (m_multi_cluster ?m) (m_multi_cluster fragment) origin o2 = Inr (cv, o3)"
        "cv = first_given (map m_multi_cluster (specs @ [fragment]))"
      using c[of "''multi_cluster''" id "o2"] a
      by (cases "merge_mesh_singleton ''multi_cluster'' id (m_multi_cluster ?m) (m_multi_cluster fragment) origin o2") auto
    obtain pv o4 where pv: "merge_mesh_singleton ''outbound_traffic_policy'' id (m_outbound_traffic_policy ?m) (m_outbound_traffic_policy fragment) origin o3 = Inr (pv, o4)"
        "pv = first_given (map m_outbound_traffic_policy (specs @ [fragment]))"
      using p[of "''outbound_traffic_policy''" id "o3"] a
      by (cases "merge_mesh_singleton ''outbound_traffic_policy'' id (m_outbound_traffic_policy ?m) (m_outbound_traffic_policy fragment) origin o3") auto
    have wk: "ws = keep_first (workload_key to_str) (gathered m_workloads (specs @ [fragment]))"
      and sk: "ss = keep_first (service_key to_str) (gathered m_services (specs @ [fragment]))"
      using ws(2) ss(2) unfolding collection_inv_def by simp_all
    let ?d = "merged_document to_str (specs @ [fragment])"
    have "merge_mesh_fragment to_str e st = Inr \<lparr>mm_merged = ?d, mm_origins = o4, mm_workloads = wi, mm_services = si\<rparr>"
      unfolding merge_mesh_fragment_def Let_def e fst_conv snd_conv ws(1) ss(1) rv(1) tv(1) cv(1) pv(1)
        bind_result_simps prod.case wk sk rv(2) tv(2) cv(2) pv(2)
      by (simp add: merged extend_collections_def merged_document_def)
    moreover have "merge_inv to_str (specs @ [fragment])
        \<lparr>mm_merged = ?d, mm_origins = o4, mm_workloads = wi, mm_services = si\<rparr>"
      using True ws(2) ss(2) unfolding merge_inv_def wk sk by (simp add: merged_document_def)
    ultimately show ?thesis by (simp add: e)
  next
    case False
    have "merge_mesh_fragment to_str e st \<noteq> Inr st'" for st'
    proof
      assume "merge_mesh_fragment to_str e st = Inr st'"
      then obtain wi si r' o1 t' o2 c' o3 p' o4 where ok: "?w = Inr wi" "?s = Inr si"
          "merge_mesh_singleton ''istio_root_namespace'' JString (m_istio_root_namespace ?m) (m_istio_root_namespace fragment)
             origin (mm_origins st) = Inr (r', o1)"
          "merge_mesh_singleton ''trust_bundles'' id (m_trust_bundles ?m) (m_trust_bundles fragment) origin o1 = Inr (t', o2)"
          "merge_mesh_singleton ''multi_cluster'' id (m_multi_cluster ?m) (m_multi_cluster fragment) origin o2 = Inr (c', o3)"
          "merge_mesh_singleton ''outbound_traffic_policy'' id (m_outbound_traffic_policy ?m)
             (m_outbound_traffic_policy fragment) origin o3 = Inr (p', o4)"
        unfolding merge_mesh_fragment_def Let_def e fst_conv snd_conv bind_result_Inr_iff split_paired_Ex prod.case
        by blast
      have "specs_agree to_str (specs @ [fragment])"
        using w[unfolded ok(1)] s[unfolded ok(2)] r[of "''istio_root_namespace''" JString "mm_origins st", unfolded ok(3)]
          t[of "''trust_bundles''" id o1, unfolded ok(4)] c[of "''multi_cluster''" id o2, unfolded ok(5)]
          p[of "''outbound_traffic_policy''" id o3, unfolded ok(6)]
        unfolding specs_agree_def sum.case prod.case collection_inv_def by blast
      then show False using False by simp
    qed
    then show ?thesis using False by (cases "merge_mesh_fragment to_str e st") (simp_all add: e)
  qed
qed

lemma merge_fragments_inv:
  assumes "merge_inv to_str specs st"
  shows "case fold_result (merge_mesh_fragment to_str) fragments st of
      Inr st' \<Rightarrow> merge_inv to_str (specs @ map snd fragments) st'
    | Inl _ \<Rightarrow> \<not> specs_agree to_str (specs @ map snd fragments)"
  using assms
proof (induction fragments arbitrary: specs st)
  case (Cons e fragments)
  note step = merge_fragment_inv[OF Cons.prems, of e]
  show ?case
  proof (cases "merge_mesh_fragment to_str e st")
    case (Inl err)
    then show ?thesis using step specs_agree_append[of to_str "specs @ [snd e]" "map snd fragments"] by auto
  next
    case (Inr st')
    then show ?thesis using Cons.IH[of "specs @ [snd e]" st', unfolded append_assoc append.simps] step
      unfolding list.map by simp
  qed
qed simp

text \<open>
  C27. Mesh fragments merge exactly when no two of them disagree: about a workload or service of the same identity,
  or about a setting that only one value can have. The document they merge into has every fragment's entries in
  fragment order, an identified entry once, at its first occurrence, and the first value given for each setting.
\<close>

theorem mesh_merge_exact:
  "merge_mesh_fragments to_str fragments = Inr document \<longleftrightarrow>
     specs_agree to_str (map snd fragments) \<and>
     document = (if fragments = [] then None else Some (merged_document to_str (map snd fragments)))"
proof (cases "fragments = []")
  case True
  then show ?thesis by (auto simp: merge_mesh_fragments_def specs_agree_def agree_def agree_single_def)
next
  case False
  then show ?thesis
    using merge_fragments_inv[OF merge_inv_empty, of to_str fragments]
    by (cases "fold_result (merge_mesh_fragment to_str) fragments empty_merge")
      (auto simp: merge_mesh_fragments_def merge_inv_def)
qed

section \<open>Plugin associations\<close>

abbreviation association :: "string \<Rightarrow> plugin_association" where
  "association i \<equiv> \<lparr>pa_plugin_config_id = i\<rparr>"

definition attached :: "string \<Rightarrow> string \<Rightarrow> plugin_config \<Rightarrow> bool" where
  "attached ns proxy_id plugin \<longleftrightarrow>
     pc_scope plugin = ProxyScope \<and> pc_proxy_id plugin = Some proxy_id \<and> pc_namespace plugin = ns"

text \<open>The plugin configurations scoped to a proxy of their own namespace, in id order.\<close>

definition derived_ids :: "gateway_config \<Rightarrow> proxy \<Rightarrow> string list" where
  "derived_ids config proxy =
     bs_of_list (map pc_id (filter (attached (p_namespace proxy) (p_id proxy)) (gc_plugin_configs config)))"

abbreviation authored_ids :: "proxy \<Rightarrow> string list" where
  "authored_ids proxy \<equiv> map pa_plugin_config_id (p_plugins proxy)"

definition associated_ids :: "gateway_config \<Rightarrow> proxy \<Rightarrow> string list" where
  "associated_ids config proxy =
     keep_first Some (authored_ids proxy) @ filter (\<lambda>i. i \<notin> set (authored_ids proxy)) (derived_ids config proxy)"

abbreviation known :: "(string \<times> string, string list) btree_map \<Rightarrow> string \<times> string \<Rightarrow> string list" where
  "known m k \<equiv> (case bt_get m k of Some ids \<Rightarrow> ids | None \<Rightarrow> [])"

lemma scoped_fold:
  assumes "bt_wf m"
  shows "known (fold scoped_step plugins m) (ns, i) =
    fold bs_insert (map pc_id (filter (attached ns i) plugins)) (known m (ns, i))"
  using assms
proof (induction plugins arbitrary: m)
  case (Cons plugin plugins)
  have wf: "bt_wf (scoped_step plugin m)"
    using Cons.prems by (auto simp: scoped_step_def Let_def bt_wf_insert split: plugin_scope.split option.split)
  have "known (scoped_step plugin m) (ns, i) =
      (if attached ns i plugin then bs_insert (pc_id plugin) (known m (ns, i)) else known m (ns, i))"
    using Cons.prems
    by (auto simp: scoped_step_def Let_def attached_def bt_get_insert split: plugin_scope.split option.split)
  then show ?case using Cons.IH[OF wf] by simp
qed simp

lemma retain_fold:
  "fold retain_first xs ([], {}) =
     (map association (keep_first Some (map pa_plugin_config_id xs)), set (map pa_plugin_config_id xs))"
proof (induction xs rule: rev_induct)
  case (snoc x xs)
  have "x = association (pa_plugin_config_id x)" by simp
  then show ?case
    using snoc keep_first_Some_distinct[of "map pa_plugin_config_id xs"]
    by (auto simp: retain_first_def keep_first_snoc keep_step_def)
qed simp

lemma add_derived_fold:
  "distinct ids \<Longrightarrow> fold add_derived ids (acc, S) = (acc @ map association (filter (\<lambda>i. i \<notin> S) ids), S \<union> set ids)"
proof (induction ids arbitrary: acc S)
  case (Cons i ids)
  have "filter (\<lambda>j. j \<notin> insert i S) ids = filter (\<lambda>j. j \<notin> S) ids"
    using Cons.prems by (intro filter_cong) auto
  then show ?case using Cons by (auto simp: add_derived_def)
qed simp

lemma normalized_associations:
  "normalize_proxy_plugin_associations config = config\<lparr>gc_proxies :=
     map (\<lambda>proxy. proxy\<lparr>p_plugins := map association (associated_ids config proxy)\<rparr>) (gc_proxies config)\<rparr>"
proof -
  let ?scoped = "fold scoped_step (gc_plugin_configs config) []"
  have known: "known ?scoped (p_namespace proxy, p_id proxy) = derived_ids config proxy" for proxy
    unfolding scoped_fold[OF bt_wf_Nil] derived_ids_def bs_of_list_def by (simp add: bt_get_def)
  have "distinct (derived_ids config proxy)" for proxy
    unfolding derived_ids_def by (rule bs_wf_distinct[OF bs_wf_of_list])
  then have "fst (case bt_get ?scoped (p_namespace proxy, p_id proxy) of
        Some plugin_ids \<Rightarrow> fold add_derived plugin_ids (fold retain_first (p_plugins proxy) ([], {}))
      | None \<Rightarrow> fold retain_first (p_plugins proxy) ([], {})) = map association (associated_ids config proxy)" for proxy
    using known[of proxy] by (auto simp: retain_fold associated_ids_def add_derived_fold split: option.splits)
  then show ?thesis by (simp add: normalize_proxy_plugin_associations_def Let_def)
qed

lemma associated_distinct: "distinct (associated_ids config proxy)"
proof -
  have "distinct (derived_ids config proxy)" unfolding derived_ids_def by (rule bs_wf_distinct[OF bs_wf_of_list])
  then show ?thesis
    using keep_first_Some_distinct[of "authored_ids proxy"] by (auto simp: associated_ids_def)
qed

lemma associated_set: "set (associated_ids config proxy) = set (authored_ids proxy) \<union> set (derived_ids config proxy)"
  using keep_first_Some_distinct[of "authored_ids proxy"] by (auto simp: associated_ids_def)

text \<open>
  C28. Each proxy ends up associated with exactly the plugin configurations its own list names, each once at its
  first mention, followed by the configurations scoped to it in its namespace that it does not name, in id order.
  No association is listed twice, and normalizing again changes nothing.
\<close>

theorem associations_exact:
  "map (\<lambda>proxy. map pa_plugin_config_id (p_plugins proxy)) (gc_proxies (normalize_proxy_plugin_associations config)) =
     map (associated_ids config) (gc_proxies config) \<and>
   list_all (distinct \<circ> associated_ids config) (gc_proxies config) \<and>
   normalize_proxy_plugin_associations (normalize_proxy_plugin_associations config) =
     normalize_proxy_plugin_associations config"
proof -
  let ?n = "normalize_proxy_plugin_associations config"
  have "associated_ids ?n (proxy\<lparr>p_plugins := map association (associated_ids config proxy)\<rparr>) =
      associated_ids config proxy" for proxy
  proof -
    let ?p = "proxy\<lparr>p_plugins := map association (associated_ids config proxy)\<rparr>"
    have same: "derived_ids ?n ?p = derived_ids config proxy"
      by (simp add: derived_ids_def normalized_associations)
    have ids: "authored_ids ?p = associated_ids config proxy" by (simp add: comp_def)
    have "filter (\<lambda>i. i \<notin> set (associated_ids config proxy)) (derived_ids config proxy) = []"
      by (simp add: filter_empty_conv associated_set)
    then show ?thesis
      unfolding associated_ids_def[of ?n ?p] same ids by (simp add: keep_first_distinct_id associated_distinct)
  qed
  then have "normalize_proxy_plugin_associations ?n = ?n"
    by (simp add: normalized_associations[of ?n]) (simp add: normalized_associations)
  then show ?thesis by (simp add: normalized_associations comp_def associated_distinct list_all_iff)
qed

section \<open>From the loaded files to the assembled configuration\<close>

definition gateway_keys :: "gateway_config \<Rightarrow> string \<Rightarrow> Overlay.resource_key list" where
  "gateway_keys config kind =
     (if kind = ''Proxy'' then map (\<lambda>p. \<lparr>rk_kind = kind, rk_namespace = p_namespace p, rk_id = p_id p\<rparr>) (gc_proxies config)
      else if kind = ''Consumer''
        then map (\<lambda>c. \<lparr>rk_kind = kind, rk_namespace = c_namespace c, rk_id = c_id c\<rparr>) (gc_consumers config)
      else if kind = ''Upstream''
        then map (\<lambda>u. \<lparr>rk_kind = kind, rk_namespace = u_namespace u, rk_id = u_id u\<rparr>) (gc_upstreams config)
      else if kind = ''PluginConfig''
        then map (\<lambda>p. \<lparr>rk_kind = kind, rk_namespace = pc_namespace p, rk_id = pc_id p\<rparr>) (gc_plugin_configs config)
      else [])"

abbreviation keys_of_kind :: "string \<Rightarrow> (string \<times> resource) list \<Rightarrow> Overlay.resource_key list" where
  "keys_of_kind kind rows \<equiv> filter (\<lambda>k. rk_kind k = kind) (map row_key_of rows)"

lemma gateway_keys_default: "gateway_keys gateway_config_default kind = []"
  by (simp add: gateway_keys_def gateway_config_default_def)

lemma proxy_keys_append:
  "gateway_keys (config\<lparr>gc_proxies := gc_proxies config @ [proxy]\<rparr>) kind = gateway_keys config kind @
     (if kind = ''Proxy'' then [\<lparr>rk_kind = kind, rk_namespace = p_namespace proxy, rk_id = p_id proxy\<rparr>] else [])"
  by (cases "kind = ''Proxy''") (simp_all add: gateway_keys_def)

lemma consumer_keys_append:
  "gateway_keys (config\<lparr>gc_consumers := gc_consumers config @ [consumer]\<rparr>) kind = gateway_keys config kind @
     (if kind = ''Consumer'' then [\<lparr>rk_kind = kind, rk_namespace = c_namespace consumer, rk_id = c_id consumer\<rparr>] else [])"
  by (cases "kind = ''Consumer''") (simp_all add: gateway_keys_def)

lemma upstream_keys_append:
  "gateway_keys (config\<lparr>gc_upstreams := gc_upstreams config @ [upstream]\<rparr>) kind = gateway_keys config kind @
     (if kind = ''Upstream'' then [\<lparr>rk_kind = kind, rk_namespace = u_namespace upstream, rk_id = u_id upstream\<rparr>] else [])"
  by (cases "kind = ''Upstream''") (simp_all add: gateway_keys_def)

lemma plugin_keys_append:
  "gateway_keys (config\<lparr>gc_plugin_configs := gc_plugin_configs config @ [plugin]\<rparr>) kind = gateway_keys config kind @
     (if kind = ''PluginConfig'' then [\<lparr>rk_kind = kind, rk_namespace = pc_namespace plugin, rk_id = pc_id plugin\<rparr>] else [])"
  by (cases "kind = ''PluginConfig''") (simp_all add: gateway_keys_def)

lemma mesh_fragment_config:
  assumes "add_mesh_fragment ns mesh_id spec st = Inr st'"
  shows "asm_config st' = asm_config st"
proof (cases mesh_id)
  case None
  then show ?thesis using assms[symmetric] by (simp add: add_mesh_fragment_def)
next
  case (Some i)
  show ?thesis
  proof (cases "trim i = []")
    case True
    then show ?thesis using assms[symmetric] Some by (simp add: add_mesh_fragment_def)
  next
    case False
    then show ?thesis
      using assms[symmetric] Some by (cases "(ns, i) \<in> asm_fragment_ids st") (simp_all add: add_mesh_fragment_def)
  qed
qed

lemma assemble_resource_keys:
  assumes "assemble_resource filter_ns row st = Inr st'" and "kind \<noteq> ''MeshConfig''"
  shows "gateway_keys (asm_config st') kind = gateway_keys (asm_config st) kind @ keys_of_kind kind [row]"
proof (cases "snd row")
  case (ProxyRes spec)
  show ?thesis using assms(1)[symmetric] ProxyRes by (auto simp: assemble_resource_def Let_def proxy_keys_append)
next
  case (ConsumerRes spec)
  show ?thesis using assms(1)[symmetric] ConsumerRes by (auto simp: assemble_resource_def Let_def consumer_keys_append)
next
  case (UpstreamRes spec)
  show ?thesis using assms(1)[symmetric] UpstreamRes by (auto simp: assemble_resource_def Let_def upstream_keys_append)
next
  case (PluginConfigRes spec)
  show ?thesis using assms(1)[symmetric] PluginConfigRes by (auto simp: assemble_resource_def Let_def plugin_keys_append)
next
  case (MeshConfigRes mesh_id spec)
  then have "st' = st \<or> add_mesh_fragment (fst row) mesh_id spec st = Inr st'"
    using assms(1) by (simp add: assemble_resource_def Let_def split: if_splits option.splits)
  then have "asm_config st' = asm_config st" using mesh_fragment_config by blast
  moreover have "rk_kind (row_key_of row) = ''MeshConfig''" using MeshConfigRes by (cases mesh_id) simp_all
  ultimately show ?thesis using assms(2) by simp
qed

lemma assemble_resources_keys:
  assumes "fold_result (assemble_resource filter_ns) rows st = Inr st'" and "kind \<noteq> ''MeshConfig''"
  shows "gateway_keys (asm_config st') kind = gateway_keys (asm_config st) kind @ keys_of_kind kind rows"
  using assms
proof (induction rows arbitrary: st)
  case (Cons row rows)
  then obtain u where u: "assemble_resource filter_ns row st = Inr u"
      "fold_result (assemble_resource filter_ns) rows u = Inr st'" by (auto simp: bind_result_Inr_iff)
  show ?case using Cons.IH[OF u(2) assms(2)] assemble_resource_keys[OF u(1) assms(2)] by simp
qed simp

lemma normalize_keys:
  "gateway_keys (normalize_proxy_plugin_associations (normalize_proxy_backend_schemes
     (normalize_consumer_credentials config))) kind = gateway_keys config kind"
  by (simp add: normalized_associations normalize_proxy_backend_schemes_def normalize_consumer_credentials_def
      gateway_keys_def comp_def if_distrib[of p_namespace] if_distrib[of p_id] cong: if_cong)

lemma assembled_keys:
  assumes "assemble_with_namespace_filter to_str rows filter_ns = Inr assembled" and "kind \<noteq> ''MeshConfig''"
  shows "gateway_keys (ass_gateway assembled) kind = keys_of_kind kind rows"
proof -
  obtain st where st: "fold_result (assemble_resource filter_ns) rows
      \<lparr>asm_config = gateway_config_default, asm_fragments = [], asm_sources = [], asm_fragment_ids = {}\<rparr> = Inr st"
      "ass_gateway assembled = normalize_proxy_plugin_associations (normalize_proxy_backend_schemes
              (normalize_consumer_credentials (asm_config st)))"
    using assms(1) by (auto simp: assemble_with_namespace_filter_def bind_result_Inr_iff)
  show ?thesis using assemble_resources_keys[OF st(1) assms(2)] by (simp add: st(2) normalize_keys gateway_keys_default)
qed

lemma same_gateway_keys:
  assumes "list_all2 same_gateway_row base rows" and "kind \<noteq> ''MeshConfig''"
  shows "keys_of_kind kind rows = keys_of_kind kind base"
  using assms(1) by (induction rule: list_all2_induct) (use assms(2) in \<open>auto simp: same_gateway_row_def\<close>)

text \<open>
  C26. Overlaying and assembling together neither lose, invent, move nor reorder a gateway resource: for every
  gateway kind, the keys (effective namespace, id) of the assembled configuration are those of the loaded files, in
  their order.  The readers are only taken to keep a declared \<open>id\<close> and \<open>namespace\<close>, and the loaded rows to serialize
  their own namespace.
\<close>

theorem overlaid_assembly_keys:
  assumes "apply_overlay_with_options to_str fs rd allow base overlay_dir = Inr rows"
    and "faithful_readers rd" and "\<forall>r \<in> set base. serializes_identity (snd r)"
    and "assemble_with_namespace_filter to_str rows filter_ns = Inr assembled" and "kind \<noteq> ''MeshConfig''"
  shows "gateway_keys (ass_gateway assembled) kind = keys_of_kind kind base"
  using assembled_keys[OF assms(4,5)] same_gateway_keys[OF overlay_row_keys[OF assms(1-3)] assms(5)] by simp

text \<open>An overlay file that renames the user of a consumer; the reader of consumers reads its three text fields.\<close>

definition base_consumer :: consumer where
  "base_consumer = \<lparr>c_labels = [], c_id = ''app'', c_username = ''app'', c_namespace = ''ferrum'', c_custom_id = None,
     c_credentials = [], c_acl_groups = [], c_created_at = None, c_updated_at = None, c_extra = []\<rparr>"

definition read_consumer :: "json \<Rightarrow> (string, consumer \<times> string list) result" where
  "read_consumer v =
     (case (jget v ''id'', jget v ''namespace'', jget v ''username'') of
        (Some (JString i), Some (JString n), Some (JString u)) \<Rightarrow>
          Inr (base_consumer\<lparr>c_id := i, c_namespace := n, c_username := u\<rparr>, [])
      | _ \<Rightarrow> Inl ''missing field'')"

definition renaming_document :: json where
  "renaming_document = JObject [(''kind'', JString ''Consumer''),
     (''spec'', JObject [(''id'', JString ''app''), (''username'', JString ''renamed'')])]"

definition consumer_reader :: readers where
  "consumer_reader = mesh_reader\<lparr>yr_yaml := (\<lambda>_. Inr renaming_document), yr_consumer := read_consumer\<rparr>"

definition consumer_tree :: file_system where
  "consumer_tree = \<lparr>
     fs_inspect = (\<lambda>p. if p = [''r''] \<or> p = [''r'', ''a'', ''consumers''] then Inr (regular\<lparr>in_kind := IsDir\<rparr>)
       else if p = [''r'', ''a'', ''consumers'', ''app.yml''] then Inr regular else Inl IoNotFound),
     fs_open = (\<lambda>p. Inr (Inr regular, Inr ''doc'')),
     fs_list = (\<lambda>p. if p = [''r''] then Inr [Inr (''a'', Inr IsDir)] else Inr [Inr (''consumers'', Inr IsDir)]),
     fs_walk = (\<lambda>p. [Inr (p, IsDir), Inr (p @ [''app.yml''], IsFile)])\<rparr>"

definition renaming_fragment :: overlay_fragment where
  "renaming_fragment = \<lparr>of_namespace = ''a'', of_kind = ''Consumer'', of_stem = ''app'',
     of_path = [''r'', ''a'', ''consumers'', ''app.yml''], of_value = renaming_document\<rparr>"

definition sample_base :: "(string \<times> resource) list" where
  "sample_base = fragment_base @ [(''a'', ConsumerRes base_consumer)]"

definition sample_overlaid :: "(string \<times> resource) list" where
  "sample_overlaid = fragment_base @ [(''a'', ConsumerRes (base_consumer\<lparr>c_username := ''renamed''\<rparr>))]"

lemma consumer_tree_walk:
  "read_dir_sorted consumer_tree [''r''] = Inr [(''a'', Inr IsDir)]"
  "namespace_entry ''overlay tree'' [''r''] (''a'', Inr IsDir) = Inr (Some ''a'')"
  "validate_namespace_tree consumer_tree [''r'', ''a''] ''overlay tree'' = Inr ()"
  "kind_paths consumer_tree ''overlay tree'' [''r'', ''a'', ''consumers''] = Inr [[''r'', ''a'', ''consumers'', ''app.yml'']]"
  "file_stem [''r'', ''a'', ''consumers'', ''app.yml''] = Some ''app''"
  by code_simp+

lemma consumer_tree_other_kinds:
  "k \<noteq> ''consumers'' \<Longrightarrow> kind_paths consumer_tree ''overlay tree'' [''r'', ''a'', k] = Inr []"
  by (simp add: kind_paths_def consumer_tree_def)

lemma consumer_tree_read: "read_tree_file consumer_tree [''r'', ''a'', ''consumers'', ''app.yml''] = Inr ''doc''"
proof -
  have "utf8_valid ''doc''" by code_simp
  then show ?thesis
    by (simp add: read_tree_file_def read_bounded_repo_file_def consumer_tree_def regular_def same_file_def
        MAX_REPO_CONFIG_FILE_BYTES_def)
qed

lemma renaming_fragment_loads:
  "load_overlay_fragments consumer_tree consumer_reader [''r''] = Inr [renaming_fragment]"
proof -
  have "yaml_file_value consumer_reader ''doc'' path = Inr renaming_document" for path
    by (simp add: yaml_file_value_def MAX_YAML_INPUT_BYTES_def consumer_reader_def)
  moreover have "check_overlay_document path (''consumers'', ''Consumer'') renaming_document = Inr ()" for path
    by (simp add: check_overlay_document_def renaming_document_def str_member_def bt_get_def reject_ignored_def
        wrapper_keys_def bt_keys_def tree_result_def)
  ultimately show ?thesis
    by (simp add: load_overlay_fragments_def consumer_tree_walk tree_result_def load_fragment_namespace_def
        RESOURCE_SUBDIRECTORIES_def load_fragment_kind_def consumer_tree_other_kinds
        load_fragment_def consumer_tree_read renaming_fragment_def)
qed

lemma renaming_merge:
  "merge_fragment (\<lambda>_. []) consumer_reader False renaming_fragment (ConsumerRes base_consumer) =
     Inr (ConsumerRes (base_consumer\<lparr>c_username := ''renamed''\<rparr>))"
proof -
  have merged: "deep_merge_values (\<lambda>_. []) ''Consumer'' [] (resource_to_value (ConsumerRes base_consumer)) renaming_document =
      resource_to_value (ConsumerRes (base_consumer\<lparr>c_username := ''renamed''\<rparr>))"
    by code_simp
  have row: "resource_to_value (ConsumerRes (base_consumer\<lparr>c_username := ''renamed''\<rparr>)) =
      JObject [(''kind'', JString ''Consumer''), (''spec'', consumer_to_value (base_consumer\<lparr>c_username := ''renamed''\<rparr>))]"
    by code_simp
  have read: "read_consumer (consumer_to_value (base_consumer\<lparr>c_username := ''renamed''\<rparr>)) =
      Inr (base_consumer\<lparr>c_username := ''renamed''\<rparr>, [])"
    by code_simp
  have extra: "c_extra (base_consumer\<lparr>c_username := ''renamed''\<rparr>) = []" by (simp add: base_consumer_def)
  have "resource_from_json_value consumer_reader False
      (resource_to_value (ConsumerRes (base_consumer\<lparr>c_username := ''renamed''\<rparr>))) path =
      Inr (ConsumerRes (base_consumer\<lparr>c_username := ''renamed''\<rparr>))" for path
    unfolding row by (simp add: resource_from_json_value_def bt_get_def reject_ignored_def wrapper_keys_def bt_keys_def
        typed_resource_def deserialize_gateway_spec_def deserialize_spec_def consumer_reader_def read
        check_passthrough_fields_def extra)
  then show ?thesis
    by (simp add: merge_fragment_def renaming_fragment_def merged tree_result_def del: resource_to_value.simps)
qed

lemma sample_overlay:
  "apply_overlay_with_options (\<lambda>_. []) consumer_tree consumer_reader False sample_base [''r''] = Inr sample_overlaid"
proof -
  have dir: "fs_inspect consumer_tree [''r''] = Inr (regular\<lparr>in_kind := IsDir\<rparr>)" by (simp add: consumer_tree_def)
  have key: "overlay_key_of renaming_fragment = Inr \<lparr>rk_kind = ''Consumer'', rk_namespace = ''a'', rk_id = ''app''\<rparr>"
    by (simp add: overlay_key_of_def overlay_fragment_id_def renaming_fragment_def renaming_document_def spec_member_def
        bt_get_def overlay_effective_namespace_def)
  have "c_id base_consumer = ''app''" "c_namespace base_consumer = ''ferrum''" by (simp_all add: base_consumer_def)
  then show ?thesis
    by (simp add: apply_overlay_with_options_def dir base_index_def index_row_def sample_base_def sample_overlaid_def
        fragment_base_def effective_namespace_def renaming_fragment_loads apply_fragment_def key renaming_merge)
qed

lemma empty_fragment_merges: "\<exists>document. merge_mesh_fragments to_str [(origin, mesh_config_spec_default)] = Inr document"
  by (simp add: merge_mesh_fragments_def merge_mesh_fragment_def empty_merge_def mesh_config_spec_default_def
      merge_mesh_identified_collection_def merge_mesh_singleton_def Let_def)

lemma sample_assembly: "\<exists>assembled. assemble_with_namespace_filter to_str sample_overlaid None = Inr assembled"
proof -
  have "trim ''m'' \<noteq> []" by code_simp
  then have "\<exists>st. fold_result (assemble_resource None) sample_overlaid
      \<lparr>asm_config = gateway_config_default, asm_fragments = [], asm_sources = [], asm_fragment_ids = {}\<rparr> = Inr st \<and>
      asm_fragments st = [(''a/mesh/m'', mesh_config_spec_default)]"
    by (simp add: sample_overlaid_def fragment_base_def assemble_resource_def Let_def add_mesh_fragment_def)
  then show ?thesis
    using empty_fragment_merges[of to_str "''a/mesh/m''"] by (auto simp: assemble_with_namespace_filter_def)
qed

lemma consumer_reader_faithful: "faithful_readers consumer_reader"
proof -
  have "json_wf renaming_document" by code_simp
  moreover have "reads_identity read_consumer c_id c_namespace"
    by (auto simp: reads_identity_def read_consumer_def split: option.splits json.splits)
  ultimately show ?thesis
    by (simp add: faithful_readers_def consumer_reader_def mesh_reader_def) (simp add: reads_identity_def)
qed

theorem overlaid_assembly_keys_witness:
  "\<exists>assembled. apply_overlay_with_options (\<lambda>_. []) consumer_tree consumer_reader False sample_base [''r''] =
       Inr sample_overlaid \<and> sample_overlaid \<noteq> sample_base \<and>
     assemble_with_namespace_filter (\<lambda>_. []) sample_overlaid None = Inr assembled \<and>
     gateway_keys (ass_gateway assembled) ''Consumer'' = [\<lparr>rk_kind = ''Consumer'', rk_namespace = ''a'', rk_id = ''app''\<rparr>]"
proof -
  obtain assembled where a: "assemble_with_namespace_filter (\<lambda>_. []) sample_overlaid None = Inr assembled"
    using sample_assembly by blast
  have "serializes_identity (MeshConfigRes (Some ''m'') mesh_config_spec_default)"
      "serializes_identity (ConsumerRes base_consumer)" by code_simp+
  then have ser: "\<forall>r \<in> set sample_base. serializes_identity (snd r)" by (simp add: sample_base_def fragment_base_def)
  have "gateway_keys (ass_gateway assembled) ''Consumer'' = keys_of_kind ''Consumer'' sample_base"
    by (rule overlaid_assembly_keys[OF sample_overlay consumer_reader_faithful ser a]) simp
  also have "\<dots> = [\<lparr>rk_kind = ''Consumer'', rk_namespace = ''a'', rk_id = ''app''\<rparr>]"
    by (simp add: sample_base_def fragment_base_def base_consumer_def effective_namespace_def)
  finally show ?thesis
    using a sample_overlay by (auto simp: sample_base_def sample_overlaid_def base_consumer_def)
qed

end
