(* ===== verification/SpecGraph.thy ===== *)
theory SpecGraph
  imports Diff
begin

text \<open>
  The ownership of API specs in \<open>apply/api_target.rs\<close>: the graph of rows a spec import owns, which a
  full replacement of a namespace must carry along unchanged, and the refusals that protect it.
\<close>

text \<open>A field below the top level of a live row that this build does not model.\<close>

record unmodeled_nested_field =
  un_kind :: string
  un_namespace :: string
  un_id :: string
  un_path :: string

text \<open>
  The sections of a backup beside its four lists.  The snapshot token and the consumer evidence of the
  code's record only travel with conditional writes and are left out.
\<close>

record backup_extras =
  be_api_specs :: "json option"
  be_gateway_trust_bundles :: "json option"
  be_unsupported_sections :: "string list"
  be_unmodeled_nested_fields :: "unmodeled_nested_field list"

definition api_spec_count :: "backup_extras \<Rightarrow> nat" where
  "api_spec_count extras =
     (case Option.bind (be_api_specs extras) (\<lambda>v. jget v ''items'') of
        Some (JArray items) \<Rightarrow> length items
      | _ \<Rightarrow> 0)"

definition trust_bundle_count :: "backup_extras \<Rightarrow> nat" where
  "trust_bundle_count extras =
     (case be_gateway_trust_bundles extras of
        Some (JArray items) \<Rightarrow> length items
      | Some _ \<Rightarrow> 1
      | None \<Rightarrow> 0)"

definition extras_is_empty :: "backup_extras \<Rightarrow> bool" where
  "extras_is_empty extras \<longleftrightarrow> be_api_specs extras = None \<and> be_gateway_trust_bundles extras = None \<and>
     be_unsupported_sections extras = [] \<and> be_unmodeled_nested_fields extras = []"

datatype restore_error =
    LiveKeys config_error
  | HandAuthoredTag string string string
  | SpecsNotItems
  | SpecWithoutId
  | SpecWithoutProxy string
  | SpecNamespaceMismatch string string string
  | DuplicateSpecId string
  | PreservedNamespace string string string string
  | PreservedSpecAbsent string string string string
  | RepositoryConflict string string string string
  | SpecsUnreferenced string "string list"
  | OwningProxyMissing string string string
  | TooManyUpstreams string string nat
  | ForeignReference string string string string
  | PluginNotAssociated string string string string
  | UnsupportedSections string "string list"

section \<open>Tags the repository must not declare\<close>

definition refuse_tags ::
    "string \<Rightarrow> ('a \<Rightarrow> string option) \<Rightarrow> ('a \<Rightarrow> string) \<Rightarrow> ('a \<Rightarrow> string) \<Rightarrow> 'a list \<Rightarrow> (restore_error, unit) result" where
  "refuse_tags kind tag rid ns rows =
     (case find (\<lambda>r. tag r \<noteq> None) rows of
        Some r \<Rightarrow> Inl (HandAuthoredTag kind (rid r) (ns r))
      | None \<Rightarrow> Inr ())"

definition validate_no_desired_spec_tags :: "gateway_config \<Rightarrow> (restore_error, unit) result" where
  "validate_no_desired_spec_tags desired =
     bind_result (refuse_tags ''Proxy'' p_api_spec_id p_id p_namespace (gc_proxies desired)) (\<lambda>_.
     bind_result (refuse_tags ''Upstream'' u_api_spec_id u_id u_namespace (gc_upstreams desired)) (\<lambda>_.
       refuse_tags ''PluginConfig'' pc_api_spec_id pc_id pc_namespace (gc_plugin_configs desired)))"

section \<open>The spec documents of the backup\<close>

definition nonempty_member :: "json \<Rightarrow> string \<Rightarrow> string option" where
  "nonempty_member item key =
     (case Option.bind (jget item key) as_str of
        Some s \<Rightarrow> if s = [] then None else Some s
      | None \<Rightarrow> None)"

definition add_spec_owner ::
    "string \<Rightarrow> json \<Rightarrow> (string, string) btree_map \<Rightarrow> (restore_error, (string, string) btree_map) result" where
  "add_spec_owner ns item specs =
     (case nonempty_member item ''id'' of
        None \<Rightarrow> Inl SpecWithoutId
      | Some i \<Rightarrow>
          (case nonempty_member item ''proxy_id'' of
             None \<Rightarrow> Inl (SpecWithoutProxy i)
           | Some proxy_id \<Rightarrow>
               let item_namespace = (case Option.bind (jget item ''namespace'') as_str of
                 Some n \<Rightarrow> n | None \<Rightarrow> ''ferrum'') in
               if item_namespace \<noteq> ns then Inl (SpecNamespaceMismatch ns i item_namespace)
               else if bt_contains specs i then Inl (DuplicateSpecId i)
               else Inr (bt_insert i proxy_id specs)))"

definition parse_api_spec_owners ::
    "backup_extras \<Rightarrow> string \<Rightarrow> (restore_error, (string, string) btree_map) result" where
  "parse_api_spec_owners extras ns =
     (case be_api_specs extras of
        None \<Rightarrow> Inr []
      | Some specs \<Rightarrow>
          (case Option.bind (jget specs ''items'') as_array of
             None \<Rightarrow> Inl SpecsNotItems
           | Some items \<Rightarrow> fold_result (add_spec_owner ns) items []))"

section \<open>Preserving the graph\<close>

definition validate_preserved_owner ::
    "string list \<Rightarrow> string \<Rightarrow> string \<Rightarrow> string \<Rightarrow> string \<Rightarrow> string \<Rightarrow> string list \<Rightarrow> (restore_error, string list) result"
  where
  "validate_preserved_owner api_spec_ids spec_id kind rid resource_namespace ns referenced =
     (if resource_namespace \<noteq> ns then Inl (PreservedNamespace ns kind rid resource_namespace)
      else if spec_id = [] \<or> \<not> bs_contains spec_id api_spec_ids
      then Inl (PreservedSpecAbsent ns kind rid spec_id)
      else Inr (bs_insert spec_id referenced))"

text \<open>One live row: an untagged row is left out, a tagged one is validated and carried along.\<close>

definition preserve_row ::
    "string \<Rightarrow> ('a \<Rightarrow> string option) \<Rightarrow> ('a \<Rightarrow> string) \<Rightarrow> ('a \<Rightarrow> string) \<Rightarrow> string list \<Rightarrow> 'a list \<Rightarrow> string \<Rightarrow>
     'a \<Rightarrow> 'a list \<times> string list \<Rightarrow> (restore_error, 'a list \<times> string list) result" where
  "preserve_row kind tag rid row_ns api_spec_ids desired_rows ns row acc =
     (case tag row of
        None \<Rightarrow> Inr acc
      | Some spec_id \<Rightarrow>
          bind_result (validate_preserved_owner api_spec_ids spec_id kind (rid row) (row_ns row) ns (snd acc))
            (\<lambda>referenced.
              if list_ex (\<lambda>c. row_ns c = row_ns row \<and> rid c = rid row) desired_rows
              then Inl (RepositoryConflict kind (rid row) spec_id ns)
              else Inr (fst acc @ [row], referenced)))"

definition preserve_rows ::
    "string \<Rightarrow> ('a \<Rightarrow> string option) \<Rightarrow> ('a \<Rightarrow> string) \<Rightarrow> ('a \<Rightarrow> string) \<Rightarrow> string list \<Rightarrow> 'a list \<Rightarrow> string \<Rightarrow>
     'a list \<Rightarrow> string list \<Rightarrow> (restore_error, 'a list \<times> string list) result" where
  "preserve_rows kind tag rid row_ns api_spec_ids desired_rows ns live_rows referenced =
     fold_result (preserve_row kind tag rid row_ns api_spec_ids desired_rows ns) live_rows (desired_rows, referenced)"

definition check_spec_upstream ::
    "gateway_config \<Rightarrow> string \<Rightarrow> string \<Rightarrow> string \<Rightarrow> upstream \<Rightarrow> (restore_error, unit) result" where
  "check_spec_upstream config ns spec_id owning_proxy_id upstream =
     (case find (\<lambda>proxy. p_id proxy \<noteq> owning_proxy_id \<and> p_upstream_id proxy = Some (u_id upstream))
             (gc_proxies config) of
        Some foreign \<Rightarrow> Inl (ForeignReference ns (u_id upstream) spec_id (p_id foreign))
      | None \<Rightarrow> Inr ())"

definition spec_plugin_valid :: "string \<Rightarrow> proxy \<Rightarrow> plugin_config \<Rightarrow> bool" where
  "spec_plugin_valid owning_proxy_id owning_proxy plugin \<longleftrightarrow>
     (case pc_scope plugin of
        Global \<Rightarrow> False
      | ProxyScope \<Rightarrow> pc_proxy_id plugin = Some owning_proxy_id
      | ProxyGroup \<Rightarrow> pc_proxy_id plugin = None) \<and>
     list_ex (\<lambda>a. pa_plugin_config_id a = pc_id plugin) (p_plugins owning_proxy)"

definition check_spec_graph ::
    "gateway_config \<Rightarrow> string \<Rightarrow> string \<times> string \<Rightarrow> (restore_error, unit) result" where
  "check_spec_graph config ns spec =
     (let spec_id = fst spec; owning_proxy_id = snd spec in
      case filter (\<lambda>p. p_api_spec_id p = Some spec_id) (gc_proxies config) of
        [owning_proxy] \<Rightarrow>
          if p_id owning_proxy \<noteq> owning_proxy_id then Inl (OwningProxyMissing ns spec_id owning_proxy_id)
          else
            let owned_upstreams = filter (\<lambda>u. u_api_spec_id u = Some spec_id) (gc_upstreams config) in
            if 1 < length owned_upstreams then Inl (TooManyUpstreams ns spec_id (length owned_upstreams))
            else
              bind_result (fold_result (\<lambda>u _. check_spec_upstream config ns spec_id owning_proxy_id u)
                owned_upstreams ()) (\<lambda>_.
              case find (\<lambda>plugin. \<not> spec_plugin_valid owning_proxy_id owning_proxy plugin)
                     (filter (\<lambda>plugin. pc_api_spec_id plugin = Some spec_id) (gc_plugin_configs config)) of
                Some plugin \<Rightarrow> Inl (PluginNotAssociated ns (pc_id plugin) spec_id owning_proxy_id)
              | None \<Rightarrow> Inr ())
      | _ \<Rightarrow> Inl (OwningProxyMissing ns spec_id owning_proxy_id))"

definition validate_complete_spec_owned_graph ::
    "(string, string) btree_map \<Rightarrow> gateway_config \<Rightarrow> string \<Rightarrow> (restore_error, unit) result" where
  "validate_complete_spec_owned_graph api_specs config ns =
     fold_result (\<lambda>spec _. check_spec_graph config ns spec) api_specs ()"

definition preserve_spec_owned_graph ::
    "gateway_config \<Rightarrow> gateway_config \<Rightarrow> backup_extras \<Rightarrow> string \<Rightarrow> (restore_error, gateway_config) result" where
  "preserve_spec_owned_graph desired actual extras ns =
     bind_result (validate_no_desired_spec_tags desired) (\<lambda>_.
     bind_result (map_sum LiveKeys id (validate_unique_live_resource_keys actual)) (\<lambda>_.
     bind_result (parse_api_spec_owners extras ns) (\<lambda>api_specs.
     let ids = bt_keys api_specs in
     bind_result (preserve_rows ''Proxy'' p_api_spec_id p_id p_namespace ids (gc_proxies desired) ns
       (gc_proxies actual) []) (\<lambda>(proxies, referenced).
     bind_result (preserve_rows ''Upstream'' u_api_spec_id u_id u_namespace ids (gc_upstreams desired) ns
       (gc_upstreams actual) referenced) (\<lambda>(upstreams, referenced).
     bind_result (preserve_rows ''PluginConfig'' pc_api_spec_id pc_id pc_namespace ids
       (gc_plugin_configs desired) ns (gc_plugin_configs actual) referenced) (\<lambda>(plugins, referenced).
     if ids \<noteq> referenced
     then Inl (SpecsUnreferenced ns (filter (\<lambda>i. \<not> bs_contains i referenced) ids))
     else
       let merged = desired\<lparr>gc_proxies := proxies, gc_upstreams := upstreams, gc_plugin_configs := plugins\<rparr> in
       bind_result (validate_complete_spec_owned_graph api_specs merged ns) (\<lambda>_. Inr merged)))))))"

section \<open>Refusals for a whole namespace\<close>

definition ensure_restore_sections_supported :: "string \<Rightarrow> backup_extras \<Rightarrow> (restore_error, unit) result" where
  "ensure_restore_sections_supported ns extras =
     (if be_unsupported_sections extras = [] then Inr ()
      else Inl (UnsupportedSections ns (be_unsupported_sections extras)))"

definition describe_spec_owned :: "spec_owned_resource \<Rightarrow> string" where
  "describe_spec_owned r =
     so_kind r @ '' `'' @ so_id r @ ''` (API spec `'' @ so_api_spec_id r @ ''`)''"

definition spec_owned_conflict_block :: "diff_result \<Rightarrow> string \<Rightarrow> string option" where
  "spec_owned_conflict_block result ns =
     (let conflicts = map describe_spec_owned (spec_conflicts result) in
      if conflicts = [] then None
      else Some (''refusing apply for namespace `'' @ ns @
        ''`: repository declarations conflict with live API-spec-owned resources: '' @ join '', '' conflicts @
        ''. Remove the repository declaration or manage the row through the API spec importer. No resource in this namespace was written; other namespaces were reconciled normally''))"

definition spec_owned_skip_message :: "spec_owned_resource \<Rightarrow> string" where
  "spec_owned_skip_message s =
     (if so_declared_in_repo s then
        ''conflict: '' @ so_kind s @ '' `'' @ so_id s @ ''` is owned by API spec `'' @ so_api_spec_id s @
        ''` but this repo also declares it. Skipping '' @ em_dash @ '' the next spec import would revert the change. Remove the resource file, or stop managing the spec through /api-specs.''
      else if so_pruned s then
        ''deleting '' @ so_kind s @ '' `'' @ so_id s @ ''` owned by API spec `'' @ so_api_spec_id s @
        ''` (--confirm-api-spec-deletion)''
      else
        ''skipping '' @ so_kind s @ '' `'' @ so_id s @ ''`: owned by API spec `'' @ so_api_spec_id s @
        ''`. Re-run with --confirm-api-spec-deletion to prune spec-owned resources.'')"

definition spec_owned_skip_messages :: "spec_owned_resource list \<Rightarrow> string list" where
  "spec_owned_skip_messages spec_owned = map spec_owned_skip_message spec_owned"

end
