(* ===== verification/SpecGraph_Facts.thy ===== *)
theory SpecGraph_Facts
  imports SpecGraph
begin

text \<open>
  What a full replacement carries: exactly the repository's rows and the live rows an API spec owns, and
  only when the ownership graph is complete and disjoint from the repository's declarations.
\<close>

lemma refuse_first_ok:
  "(case find P xs of Some x \<Rightarrow> Inl (refusal x) | None \<Rightarrow> Inr ()) = Inr () \<longleftrightarrow> (\<forall>x \<in> set xs. \<not> P x)"
proof (cases "find P xs")
  case (Some x)
  then have "x \<in> set xs" "P x" by (auto simp: find_Some_iff)
  then show ?thesis using Some by auto
next
  case None
  then have "\<forall>x \<in> set xs. \<not> P x" by (simp add: find_None_iff)
  then show ?thesis using None by simp
qed

section \<open>The rows of one kind\<close>

definition preservable ::
    "('a \<Rightarrow> string option) \<Rightarrow> ('a \<Rightarrow> string) \<Rightarrow> ('a \<Rightarrow> string) \<Rightarrow> string set \<Rightarrow> 'a list \<Rightarrow> string \<Rightarrow> 'a list \<Rightarrow> bool"
  where
  "preservable tag rid row_ns ids desired_rows ns live_rows \<longleftrightarrow>
     (\<forall>r \<in> set live_rows. \<forall>s. tag r = Some s \<longrightarrow>
        row_ns r = ns \<and> s \<noteq> [] \<and> s \<in> ids \<and> (row_ns r, rid r) \<notin> (\<lambda>d. (row_ns d, rid d)) ` set desired_rows)"

abbreviation tagged :: "('a \<Rightarrow> string option) \<Rightarrow> 'a list \<Rightarrow> 'a list" where
  "tagged tag rows \<equiv> filter (\<lambda>r. tag r \<noteq> None) rows"

abbreviation tags :: "('a \<Rightarrow> string option) \<Rightarrow> 'a list \<Rightarrow> string list" where
  "tags tag rows \<equiv> map (the \<circ> tag) (tagged tag rows)"

lemma preserve_row_ok:
  "preserve_row kind tag rid row_ns ids desired_rows ns r acc = Inr acc' \<longleftrightarrow>
     preservable tag rid row_ns (set ids) desired_rows ns [r] \<and>
     acc' = (fst acc @ tagged tag [r], fold bs_insert (tags tag [r]) (snd acc))"
proof (cases "tag r")
  case None
  then show ?thesis by (auto simp: preserve_row_def preservable_def)
next
  case (Some s)
  have "list_ex (\<lambda>c. row_ns c = row_ns r \<and> rid c = rid r) desired_rows \<longleftrightarrow>
      (row_ns r, rid r) \<in> (\<lambda>d. (row_ns d, rid d)) ` set desired_rows"
    unfolding list_ex_iff image_iff by (metis prod.inject)
  then show ?thesis
    using Some by (auto simp: preserve_row_def preservable_def validate_preserved_owner_def bs_contains_def
        bind_result_Inr_iff split: if_splits)
qed

lemma preserve_rows_fold:
  "fold_result (preserve_row kind tag rid row_ns ids desired_rows ns) live_rows acc = Inr acc' \<longleftrightarrow>
     preservable tag rid row_ns (set ids) desired_rows ns live_rows \<and>
     acc' = (fst acc @ tagged tag live_rows, fold bs_insert (tags tag live_rows) (snd acc))"
proof (induction live_rows arbitrary: acc)
  case Nil
  then show ?case by (auto simp: preservable_def)
next
  case (Cons r rows)
  have "preservable tag rid row_ns (set ids) desired_rows ns (r # rows) \<longleftrightarrow>
      preservable tag rid row_ns (set ids) desired_rows ns [r] \<and>
      preservable tag rid row_ns (set ids) desired_rows ns rows"
    by (auto simp: preservable_def)
  then show ?case by (auto simp: bind_result_Inr_iff preserve_row_ok Cons.IH)
qed

lemma preserve_rows_ok:
  "preserve_rows kind tag rid row_ns ids desired_rows ns live_rows referenced = Inr (rows, referenced') \<longleftrightarrow>
     preservable tag rid row_ns (set ids) desired_rows ns live_rows \<and>
     rows = desired_rows @ tagged tag live_rows \<and> referenced' = fold bs_insert (tags tag live_rows) referenced"
  by (auto simp: preserve_rows_def preserve_rows_fold)

section \<open>The spec documents\<close>

lemma add_spec_owner_wf: "bt_wf specs \<Longrightarrow> add_spec_owner ns item specs = Inr specs' \<Longrightarrow> bt_wf specs'"
  by (auto simp: add_spec_owner_def Let_def bt_wf_insert split: option.splits if_splits)

lemma parse_owners_wf:
  assumes "parse_api_spec_owners extras ns = Inr specs"
  shows "bt_wf specs"
proof (cases "be_api_specs extras")
  case None
  then show ?thesis using assms by (simp add: parse_api_spec_owners_def)
next
  case (Some v)
  then obtain items where "fold_result (add_spec_owner ns) items [] = Inr specs"
    using assms by (auto simp: parse_api_spec_owners_def split: option.splits)
  then show ?thesis by (rule fold_result_invariant[where I = bt_wf]) (auto intro: add_spec_owner_wf)
qed

lemma bs_wf_keys: "bt_wf m \<Longrightarrow> bs_wf (bt_keys m)"
  by (simp add: bs_wf_def bt_wf_def bt_keys_def)

lemma bs_wf_fold_insert: "bs_wf s \<Longrightarrow> bs_wf (fold bs_insert xs s)"
  by (induction xs arbitrary: s) (simp_all add: bs_wf_insert)

lemma set_fold_insert: "set (fold bs_insert xs s) = set xs \<union> set s"
  by (induction xs arbitrary: s) auto

lemma keys_eq_fold: "bt_wf m \<Longrightarrow> bt_keys m = fold bs_insert xs [] \<longleftrightarrow> set (bt_keys m) = set xs"
  using bs_wf_unique[OF bs_wf_keys[of m] bs_wf_fold_insert[OF bs_wf_Nil, of xs]] by (auto simp: set_fold_insert)

section \<open>A complete graph\<close>

definition spec_complete :: "gateway_config \<Rightarrow> string \<times> string \<Rightarrow> bool" where
  "spec_complete config spec \<longleftrightarrow>
     (\<exists>owner. filter (\<lambda>p. p_api_spec_id p = Some (fst spec)) (gc_proxies config) = [owner] \<and>
        p_id owner = snd spec \<and>
        (\<forall>plugin \<in> set (gc_plugin_configs config). pc_api_spec_id plugin = Some (fst spec) \<longrightarrow>
           pc_id plugin \<in> pa_plugin_config_id ` set (p_plugins owner) \<and>
           (pc_scope plugin = ProxyScope \<and> pc_proxy_id plugin = Some (p_id owner) \<or>
            pc_scope plugin = ProxyGroup \<and> pc_proxy_id plugin = None))) \<and>
     length (filter (\<lambda>u. u_api_spec_id u = Some (fst spec)) (gc_upstreams config)) \<le> 1 \<and>
     (\<forall>u \<in> set (gc_upstreams config). u_api_spec_id u = Some (fst spec) \<longrightarrow>
        (\<forall>p \<in> set (gc_proxies config). p_upstream_id p = Some (u_id u) \<longrightarrow> p_id p = snd spec))"

lemma plugin_valid_iff:
  "spec_plugin_valid pid owner plugin \<longleftrightarrow>
     pc_id plugin \<in> pa_plugin_config_id ` set (p_plugins owner) \<and>
     (pc_scope plugin = ProxyScope \<and> pc_proxy_id plugin = Some pid \<or>
      pc_scope plugin = ProxyGroup \<and> pc_proxy_id plugin = None)"
proof -
  have "list_ex (\<lambda>a. pa_plugin_config_id a = pc_id plugin) (p_plugins owner) \<longleftrightarrow>
      pc_id plugin \<in> pa_plugin_config_id ` set (p_plugins owner)"
    unfolding list_ex_iff image_iff by metis
  then show ?thesis by (auto simp: spec_plugin_valid_def split: plugin_scope.splits)
qed

lemma check_upstreams_ok:
  "fold_result (\<lambda>u _. check_spec_upstream config ns sid pid u) us () = Inr () \<longleftrightarrow>
     (\<forall>u \<in> set us. \<forall>p \<in> set (gc_proxies config). p_upstream_id p = Some (u_id u) \<longrightarrow> p_id p = pid)"
proof (induction us)
  case (Cons u us)
  have "check_spec_upstream config ns sid pid u = Inr () \<longleftrightarrow>
      (\<forall>p \<in> set (gc_proxies config). p_upstream_id p = Some (u_id u) \<longrightarrow> p_id p = pid)"
    unfolding check_spec_upstream_def refuse_first_ok by blast
  then show ?case using Cons by (simp add: bind_result_Inr_iff)
qed simp

lemma check_spec_graph_ok: "check_spec_graph config ns spec = Inr () \<longleftrightarrow> spec_complete config spec"
proof (cases "\<exists>owner. filter (\<lambda>p. p_api_spec_id p = Some (fst spec)) (gc_proxies config) = [owner] \<and>
    p_id owner = snd spec")
  case False
  then show ?thesis by (auto simp: check_spec_graph_def spec_complete_def Let_def split: list.splits)
next
  case True
  then obtain owner where owner: "filter (\<lambda>p. p_api_spec_id p = Some (fst spec)) (gc_proxies config) = [owner]"
      "p_id owner = snd spec" by blast
  show ?thesis
    unfolding check_spec_graph_def spec_complete_def Let_def owner(1) list.case
    using owner(2)
    by (auto simp: bind_result_Inr_iff check_upstreams_ok refuse_first_ok plugin_valid_iff)
qed

lemma complete_graph_ok:
  "validate_complete_spec_owned_graph specs config ns = Inr () \<longleftrightarrow> list_all (spec_complete config) specs"
  unfolding validate_complete_spec_owned_graph_def
proof (induction specs)
  case (Cons spec specs)
  then show ?case using check_spec_graph_ok[of config ns spec] by (simp add: bind_result_Inr_iff)
qed simp

section \<open>The payload\<close>

definition untagged :: "gateway_config \<Rightarrow> bool" where
  "untagged config \<longleftrightarrow>
     list_all (\<lambda>p. p_api_spec_id p = None) (gc_proxies config) \<and>
     list_all (\<lambda>u. u_api_spec_id u = None) (gc_upstreams config) \<and>
     list_all (\<lambda>p. pc_api_spec_id p = None) (gc_plugin_configs config)"

lemma refuse_tags_ok: "refuse_tags kind tag rid ns rows = Inr () \<longleftrightarrow> list_all (\<lambda>r. tag r = None) rows"
  unfolding refuse_tags_def refuse_first_ok list_all_iff by simp

lemma no_tags_ok: "validate_no_desired_spec_tags desired = Inr () \<longleftrightarrow> untagged desired"
  by (simp add: validate_no_desired_spec_tags_def bind_result_Inr_iff refuse_tags_ok untagged_def)

text \<open>The repository's rows followed by the live rows that carry a spec's tag.\<close>

definition with_spec_rows :: "gateway_config \<Rightarrow> gateway_config \<Rightarrow> gateway_config" where
  "with_spec_rows desired actual = desired\<lparr>
     gc_proxies := gc_proxies desired @ tagged p_api_spec_id (gc_proxies actual),
     gc_upstreams := gc_upstreams desired @ tagged u_api_spec_id (gc_upstreams actual),
     gc_plugin_configs := gc_plugin_configs desired @ tagged pc_api_spec_id (gc_plugin_configs actual)\<rparr>"

definition spec_tags :: "gateway_config \<Rightarrow> string set" where
  "spec_tags actual = set (tags p_api_spec_id (gc_proxies actual)) \<union> set (tags u_api_spec_id (gc_upstreams actual)) \<union>
     set (tags pc_api_spec_id (gc_plugin_configs actual))"

definition all_preservable :: "string set \<Rightarrow> gateway_config \<Rightarrow> gateway_config \<Rightarrow> string \<Rightarrow> bool" where
  "all_preservable ids desired actual ns \<longleftrightarrow>
     preservable p_api_spec_id p_id p_namespace ids (gc_proxies desired) ns (gc_proxies actual) \<and>
     preservable u_api_spec_id u_id u_namespace ids (gc_upstreams desired) ns (gc_upstreams actual) \<and>
     preservable pc_api_spec_id pc_id pc_namespace ids (gc_plugin_configs desired) ns (gc_plugin_configs actual)"

lemma preserve_graph_ok:
  "preserve_spec_owned_graph desired actual extras ns = Inr merged \<longleftrightarrow>
     untagged desired \<and> distinct (config_keys actual) \<and>
     (\<exists>specs. parse_api_spec_owners extras ns = Inr specs \<and>
        all_preservable (set (bt_keys specs)) desired actual ns \<and> set (bt_keys specs) = spec_tags actual \<and>
        list_all (spec_complete merged) specs) \<and>
     merged = with_spec_rows desired actual"
proof -
  have folded: "fold bs_insert (tags pc_api_spec_id (gc_plugin_configs actual))
      (fold bs_insert (tags u_api_spec_id (gc_upstreams actual)) (fold bs_insert (tags p_api_spec_id (gc_proxies actual)) [])) =
    fold bs_insert (tags p_api_spec_id (gc_proxies actual) @ tags u_api_spec_id (gc_upstreams actual) @
      tags pc_api_spec_id (gc_plugin_configs actual)) []"
    by simp
  have ids: "bt_keys specs = fold bs_insert (tags pc_api_spec_id (gc_plugin_configs actual))
      (fold bs_insert (tags u_api_spec_id (gc_upstreams actual)) (fold bs_insert (tags p_api_spec_id (gc_proxies actual)) [])) \<longleftrightarrow>
    set (bt_keys specs) = spec_tags actual" if "parse_api_spec_owners extras ns = Inr specs" for specs
    unfolding folded keys_eq_fold[OF parse_owners_wf[OF that]] spec_tags_def by (simp add: Un_assoc)
  have live: "map_sum LiveKeys id (validate_unique_live_resource_keys actual) = Inr () \<longleftrightarrow> distinct (config_keys actual)"
    by (cases "validate_unique_live_resource_keys actual") (auto simp: validate_unique_live_ok_iff[symmetric])
  let ?d = "with_spec_rows desired actual"
  show ?thesis
  proof
    assume "preserve_spec_owned_graph desired actual extras ns = Inr merged"
    then obtain specs proxies ref1 upstreams ref2 plugins ref3 where run:
        "validate_no_desired_spec_tags desired = Inr ()"
        "map_sum LiveKeys id (validate_unique_live_resource_keys actual) = Inr ()"
        "parse_api_spec_owners extras ns = Inr specs"
        "preserve_rows ''Proxy'' p_api_spec_id p_id p_namespace (bt_keys specs) (gc_proxies desired) ns
           (gc_proxies actual) [] = Inr (proxies, ref1)"
        "preserve_rows ''Upstream'' u_api_spec_id u_id u_namespace (bt_keys specs) (gc_upstreams desired) ns
           (gc_upstreams actual) ref1 = Inr (upstreams, ref2)"
        "preserve_rows ''PluginConfig'' pc_api_spec_id pc_id pc_namespace (bt_keys specs)
           (gc_plugin_configs desired) ns (gc_plugin_configs actual) ref2 = Inr (plugins, ref3)"
        "bt_keys specs = ref3"
        "validate_complete_spec_owned_graph specs (desired\<lparr>gc_proxies := proxies, gc_upstreams := upstreams,
           gc_plugin_configs := plugins\<rparr>) ns = Inr ()"
        "merged = desired\<lparr>gc_proxies := proxies, gc_upstreams := upstreams, gc_plugin_configs := plugins\<rparr>"
      unfolding preserve_spec_owned_graph_def bind_result_Inr_iff Let_def split_paired_Ex prod.case
      by (auto simp: bind_result_Inr_iff split: if_splits)
    note rows = run(4)[unfolded preserve_rows_ok] run(5)[unfolded preserve_rows_ok] run(6)[unfolded preserve_rows_ok]
    have merged: "merged = ?d" using run(9) rows by (simp add: with_spec_rows_def)
    have "bt_keys specs = fold bs_insert (tags pc_api_spec_id (gc_plugin_configs actual))
      (fold bs_insert (tags u_api_spec_id (gc_upstreams actual)) (fold bs_insert (tags p_api_spec_id (gc_proxies actual)) []))"
      using run(7) rows by simp
    then have "set (bt_keys specs) = spec_tags actual" unfolding ids[OF run(3)] .
    moreover have "all_preservable (set (bt_keys specs)) desired actual ns" using rows by (simp add: all_preservable_def)
    moreover have "list_all (spec_complete merged) specs" using run(8,9) by (simp add: complete_graph_ok)
    ultimately show "untagged desired \<and> distinct (config_keys actual) \<and>
       (\<exists>specs. parse_api_spec_owners extras ns = Inr specs \<and>
          all_preservable (set (bt_keys specs)) desired actual ns \<and> set (bt_keys specs) = spec_tags actual \<and>
          list_all (spec_complete merged) specs) \<and> merged = ?d"
      using run(1-3) merged unfolding no_tags_ok live by blast
  next
    assume rhs: "untagged desired \<and> distinct (config_keys actual) \<and>
       (\<exists>specs. parse_api_spec_owners extras ns = Inr specs \<and>
          all_preservable (set (bt_keys specs)) desired actual ns \<and> set (bt_keys specs) = spec_tags actual \<and>
          list_all (spec_complete merged) specs) \<and> merged = ?d"
    then obtain specs where specs: "parse_api_spec_owners extras ns = Inr specs"
        "all_preservable (set (bt_keys specs)) desired actual ns" "set (bt_keys specs) = spec_tags actual"
        "list_all (spec_complete merged) specs" and merged: "merged = ?d" by blast
    note keys = specs(3)[folded ids[OF specs(1)]]
    have u: "validate_no_desired_spec_tags desired = Inr ()"
      "map_sum LiveKeys id (validate_unique_live_resource_keys actual) = Inr ()"
      using rhs unfolding no_tags_ok live by blast+
    note p = preserve_rows_ok[THEN iffD2, OF conjI, OF _ conjI[OF refl refl]]
    note pres = specs(2)[unfolded all_preservable_def]
    have complete: "validate_complete_spec_owned_graph specs ?d ns = Inr ()"
      using specs(4) merged by (simp add: complete_graph_ok)
    show "preserve_spec_owned_graph desired actual extras ns = Inr merged"
      unfolding preserve_spec_owned_graph_def u specs(1) bind_result_simps Let_def
        p[OF pres[THEN conjunct1]] p[OF pres[THEN conjunct2, THEN conjunct1]] p[OF pres[THEN conjunct2, THEN conjunct2]]
        prod.case
      using keys complete by (simp add: merged with_spec_rows_def)
  qed
qed

text \<open>
  C17.  A full replacement is prepared exactly when nothing an API spec owns can be lost or taken over: the
  repository declares no spec tag, the live keys are unique, every live row with a tag is of this namespace,
  belongs to a spec document of the same backup and collides with no declaration, every document has a row, and
  in the payload every document has its one owning proxy, at most one upstream that no foreign proxy uses, and
  only plugin configurations associated with that proxy.  The payload is then the repository's rows followed by
  exactly the live rows that carry a tag.
\<close>

theorem spec_graph_preserved:
  "preserve_spec_owned_graph desired actual extras ns = Inr merged \<longleftrightarrow>
     untagged desired \<and> distinct (config_keys actual) \<and>
     (\<exists>specs. parse_api_spec_owners extras ns = Inr specs \<and>
        all_preservable (set (bt_keys specs)) desired actual ns \<and> set (bt_keys specs) = spec_tags actual \<and>
        list_all (spec_complete merged) specs) \<and>
     merged = with_spec_rows desired actual"
  by (rule preserve_graph_ok)

end
