(* ===== verification/BatchPlan.thy ===== *)
theory BatchPlan
  imports Managed
begin

text \<open>
  The planning of \<open>POST /batch\<close> in \<open>http_client.rs\<close>: the connected groups of new proxies and plugin
  configurations that must be created in one transaction, found with a union-find forest, and their
  packing into request bodies.  An index out of the forest, where the code would panic, and a search
  that does not end are \<open>None\<close>.  \<open>size_of\<close> is the length of a serialized group, which may fail.
\<close>

definition BATCH_MAX_BODY_BYTES :: nat where
  "BATCH_MAX_BODY_BYTES = 1024 * 1024"

definition BATCH_ENVELOPE_OVERHEAD :: nat where
  "BATCH_ENVELOPE_OVERHEAD = 512"

record batch_create =
  bc_upstreams :: "upstream list"
  bc_consumers :: "consumer list"
  bc_proxies :: "proxy list"
  bc_plugin_configs :: "plugin_config list"

definition batch_create_default :: batch_create where
  "batch_create_default = \<lparr>bc_upstreams = [], bc_consumers = [], bc_proxies = [], bc_plugin_configs = []\<rparr>"

record batch_created =
  bd_proxies :: nat
  bd_consumers :: nat
  bd_plugin_configs :: nat
  bd_upstreams :: nat

definition batch_created_total :: "batch_created \<Rightarrow> nat" where
  "batch_created_total c = bd_proxies c + bd_consumers c + bd_plugin_configs c + bd_upstreams c"

definition batch_len :: "batch_create \<Rightarrow> nat" where
  "batch_len b = length (bc_upstreams b) + length (bc_consumers b) + length (bc_proxies b) +
     length (bc_plugin_configs b)"

definition batch_is_empty :: "batch_create \<Rightarrow> bool" where
  "batch_is_empty b \<longleftrightarrow> batch_len b = 0"

definition batch_counts :: "batch_create \<Rightarrow> batch_created" where
  "batch_counts b = \<lparr>bd_proxies = length (bc_proxies b), bd_consumers = length (bc_consumers b),
     bd_plugin_configs = length (bc_plugin_configs b), bd_upstreams = length (bc_upstreams b)\<rparr>"

section \<open>Dependency groups\<close>

primrec fold_option :: "('a \<Rightarrow> 's \<Rightarrow> 's option) \<Rightarrow> 'a list \<Rightarrow> 's \<Rightarrow> 's option" where
  "fold_option f [] s = Some s"
| "fold_option f (x # xs) s = Option.bind (f x s) (fold_option f xs)"

text \<open>The search for a root halves the path it walks.\<close>

partial_function (option) union_root :: "nat list \<Rightarrow> nat \<Rightarrow> (nat list \<times> nat) option" where
  "union_root parents index =
     (if \<not> index < length parents \<or> \<not> parents ! index < length parents then None
      else if parents ! index = index then Some (parents, index)
      else
        let parents = parents[index := parents ! (parents ! index)] in
        union_root parents (parents ! index))"

declare union_root.simps [code]

definition union_join :: "nat \<times> nat \<Rightarrow> nat list \<Rightarrow> nat list option" where
  "union_join e parents =
     Option.bind (union_root parents (fst e)) (\<lambda>(parents, a).
     Option.bind (union_root parents (snd e)) (\<lambda>(parents, b).
       Some (parents[b := a])))"

definition row_positions :: "('a \<Rightarrow> string \<times> string) \<Rightarrow> nat \<Rightarrow> 'a list \<Rightarrow> (string \<times> string, nat) btree_map" where
  "row_positions key n rows = bt_of_list (map (\<lambda>e. (key (snd e), fst e)) (List.enumerate n rows))"

abbreviation upstream_id_key :: "upstream \<Rightarrow> string \<times> string" where
  "upstream_id_key u \<equiv> (u_namespace u, u_id u)"

abbreviation consumer_id_key :: "consumer \<Rightarrow> string \<times> string" where
  "consumer_id_key c \<equiv> (c_namespace c, c_id c)"

abbreviation proxy_id_key :: "proxy \<Rightarrow> string \<times> string" where
  "proxy_id_key p \<equiv> (p_namespace p, p_id p)"

abbreviation plugin_id_key :: "plugin_config \<Rightarrow> string \<times> string" where
  "plugin_id_key p \<equiv> (pc_namespace p, pc_id p)"

text \<open>The pairs joined for one proxy, by its associations, and for one plugin configuration, by its scope.\<close>

definition association_joins :: "(string \<times> string, nat) btree_map \<Rightarrow> nat \<times> proxy \<Rightarrow> (nat \<times> nat) list" where
  "association_joins plugins e =
     List.map_filter (\<lambda>a. map_option (\<lambda>plugin. (plugin, fst e))
       (bt_get plugins (p_namespace (snd e), pa_plugin_config_id a))) (p_plugins (snd e))"

definition scope_joins :: "(string \<times> string, nat) btree_map \<Rightarrow> nat \<times> plugin_config \<Rightarrow> (nat \<times> nat) list" where
  "scope_joins proxies e =
     (if pc_scope (snd e) \<noteq> ProxyScope then []
      else
        (case Option.bind (pc_proxy_id (snd e)) (\<lambda>i. bt_get proxies (pc_namespace (snd e), i)) of
           Some proxy \<Rightarrow> [(fst e, proxy)]
         | None \<Rightarrow> []))"

definition batch_joins :: "plugin_config list \<Rightarrow> proxy list \<Rightarrow> (nat \<times> nat) list" where
  "batch_joins plugin_configs proxies =
     (let plugin_count = length plugin_configs in
      concat (map (association_joins (row_positions plugin_id_key 0 plugin_configs))
        (List.enumerate plugin_count proxies)) @
      concat (map (scope_joins (row_positions proxy_id_key plugin_count proxies))
        (List.enumerate 0 plugin_configs)))"

type_synonym grouping = "nat list \<times> (nat, batch_create) btree_map"

definition place_row :: "nat \<times> (batch_create \<Rightarrow> batch_create) \<Rightarrow> grouping \<Rightarrow> grouping option" where
  "place_row e acc =
     Option.bind (union_root (fst acc) (fst e)) (\<lambda>(parents, r).
       Some (parents, bt_insert r (snd e (case bt_get (snd acc) r of Some b \<Rightarrow> b | None \<Rightarrow> batch_create_default))
         (snd acc)))"

definition push_plugin :: "plugin_config \<Rightarrow> batch_create \<Rightarrow> batch_create" where
  "push_plugin p b = b\<lparr>bc_plugin_configs := bc_plugin_configs b @ [p]\<rparr>"

definition push_proxy :: "proxy \<Rightarrow> batch_create \<Rightarrow> batch_create" where
  "push_proxy p b = b\<lparr>bc_proxies := bc_proxies b @ [p]\<rparr>"

definition connected_groups :: "plugin_config list \<Rightarrow> proxy list \<Rightarrow> batch_create list option" where
  "connected_groups plugin_configs proxies =
     (let plugin_count = length plugin_configs in
      Option.bind (fold_option union_join (batch_joins plugin_configs proxies)
        [0..<plugin_count + length proxies]) (\<lambda>parents.
      Option.bind (fold_option place_row
        (map (\<lambda>e. (fst e, push_plugin (snd e))) (List.enumerate 0 plugin_configs) @
         map (\<lambda>e. (fst e, push_proxy (snd e))) (List.enumerate plugin_count proxies)) (parents, []))
        (\<lambda>(parents, connected). Some (map snd connected))))"

definition batch_dependency_groups :: "batch_create \<Rightarrow> batch_create list option" where
  "batch_dependency_groups batch =
     map_option (\<lambda>connected.
       map (\<lambda>u. batch_create_default\<lparr>bc_upstreams := [u]\<rparr>) (sort_key upstream_id_key (bc_upstreams batch)) @
       map (\<lambda>c. batch_create_default\<lparr>bc_consumers := [c]\<rparr>) (sort_key consumer_id_key (bc_consumers batch)) @
       connected)
     (connected_groups (sort_key plugin_id_key (bc_plugin_configs batch)) (sort_key proxy_id_key (bc_proxies batch)))"

section \<open>Request bodies\<close>

record packing =
  pk_chunks :: "batch_create list"
  pk_current :: batch_create
  pk_bytes :: nat

definition extend_batch :: "batch_create \<Rightarrow> batch_create \<Rightarrow> batch_create" where
  "extend_batch current g = current\<lparr>
     bc_upstreams := bc_upstreams current @ bc_upstreams g,
     bc_consumers := bc_consumers current @ bc_consumers g,
     bc_plugin_configs := bc_plugin_configs current @ bc_plugin_configs g,
     bc_proxies := bc_proxies current @ bc_proxies g\<rparr>"

definition pack_group ::
    "(batch_create \<Rightarrow> (string, nat) result) \<Rightarrow> nat \<Rightarrow> batch_create \<Rightarrow> packing \<Rightarrow> (string, packing) result" where
  "pack_group size_of budget g st =
     bind_result (size_of g) (\<lambda>size.
       let st = (if \<not> batch_is_empty (pk_current st) \<and> budget < pk_bytes st + size
                 then st\<lparr>pk_chunks := pk_chunks st @ [pk_current st], pk_current := batch_create_default,
                         pk_bytes := 0\<rparr>
                 else st) in
       Inr (st\<lparr>pk_current := extend_batch (pk_current st) g, pk_bytes := pk_bytes st + size\<rparr>))"

definition batch_budget :: "nat \<Rightarrow> nat" where
  "batch_budget max_bytes = max (max_bytes - BATCH_ENVELOPE_OVERHEAD) 1"

definition pack_groups ::
    "(batch_create \<Rightarrow> (string, nat) result) \<Rightarrow> nat \<Rightarrow> batch_create list \<Rightarrow> (string, batch_create list) result" where
  "pack_groups size_of max_bytes groups =
     bind_result (fold_result (pack_group size_of (batch_budget max_bytes)) groups
       \<lparr>pk_chunks = [], pk_current = batch_create_default, pk_bytes = 0\<rparr>) (\<lambda>st.
       Inr (if batch_is_empty (pk_current st) then pk_chunks st else pk_chunks st @ [pk_current st]))"

definition split_batch ::
    "(batch_create \<Rightarrow> (string, nat) result) \<Rightarrow> batch_create \<Rightarrow> nat \<Rightarrow> (string, batch_create list) result option"
  where
  "split_batch size_of batch max_bytes = map_option (pack_groups size_of max_bytes) (batch_dependency_groups batch)"

end
