(* ===== verification/ApplyPlan.thy ===== *)
theory ApplyPlan
  imports SpecGraph BatchPlan RepoConfig
begin

text \<open>
  The planning half of \<open>apply/api_target.rs\<close>: the order in which the operations of a diff are sent, the
  create groups that need a transaction, the rows a run may adopt or must assert, the rows it must not
  rewrite, and the comparison of a row with what the gateway stores.  \<open>sj_from\<close> reads a JSON text, as
  \<open>serde_json::from_str\<close> does, and \<open>shown\<close> prepares gateway text for display.
\<close>

section \<open>Documents by key\<close>

text \<open>\<open>ResourceIndex\<close>: the first row with a key wins.\<close>

definition row_at :: "('a \<Rightarrow> string \<times> string) \<Rightarrow> 'a list \<Rightarrow> string \<times> string \<Rightarrow> 'a option" where
  "row_at key rows k = find (\<lambda>r. key r = k) rows"

definition referencing_proxy_ids :: "gateway_config \<Rightarrow> string \<Rightarrow> string \<Rightarrow> string list" where
  "referencing_proxy_ids config ns plugin_id =
     bs_of_list (map p_id (filter (\<lambda>p. row_at proxy_id_key (gc_proxies config) (proxy_id_key p) = Some p \<and>
       p_namespace p = ns \<and> list_ex (\<lambda>a. pa_plugin_config_id a = plugin_id) (p_plugins p)) (gc_proxies config)))"

definition is_spec_owned :: "gateway_config \<Rightarrow> string \<Rightarrow> string \<Rightarrow> string \<Rightarrow> bool" where
  "is_spec_owned live kind ns rid =
     (let tagged = (\<lambda>tag. case tag of Some t \<Rightarrow> t \<noteq> None | None \<Rightarrow> False); key = (ns, rid) in
      if kind = ''Proxy'' then tagged (map_option p_api_spec_id (row_at proxy_id_key (gc_proxies live) key))
      else if kind = ''Upstream'' then tagged (map_option u_api_spec_id (row_at upstream_id_key (gc_upstreams live) key))
      else if kind = ''PluginConfig''
        then tagged (map_option pc_api_spec_id (row_at plugin_id_key (gc_plugin_configs live) key))
      else False)"

abbreviation diff_key :: "resource_diff \<Rightarrow> string" where
  "diff_key d \<equiv> state_key (rd_namespace d) (rd_kind d) (rd_id d)"

section \<open>The order of operations\<close>

definition operation_rank :: "diff_action \<Rightarrow> string \<Rightarrow> nat" where
  "operation_rank action kind =
     (case action of
        Delete \<Rightarrow>
          if kind = ''Proxy'' then 3 else if kind = ''PluginConfig'' then 4
          else if kind = ''Upstream'' \<or> kind = ''Consumer'' then 5 else 3
      | _ \<Rightarrow>
          if kind = ''Upstream'' \<or> kind = ''Consumer'' then 0
          else if kind = ''PluginConfig'' then 1 else if kind = ''Proxy'' then 2 else 2)"

definition order_diffs :: "resource_diff list \<Rightarrow> resource_diff list" where
  "order_diffs ds = sort_key (\<lambda>d. operation_rank (rd_action d) (rd_kind d)) ds"

text \<open>The keys of new scoped plugin configurations whose target proxy is new as well, and of those proxies.\<close>

definition new_proxies_of :: "resource_diff list \<Rightarrow> (string \<times> string) list" where
  "new_proxies_of ds = map (\<lambda>d. (rd_namespace d, rd_id d)) (filter (\<lambda>d. rd_action d = Add \<and> rd_kind d = ''Proxy'') ds)"

definition cycle_pair :: "gateway_config \<Rightarrow> (string \<times> string) list \<Rightarrow> resource_diff \<Rightarrow> string list" where
  "cycle_pair desired new_proxies d =
     (case row_at plugin_id_key (gc_plugin_configs desired) (rd_namespace d, rd_id d) of
        None \<Rightarrow> []
      | Some plugin \<Rightarrow>
          if pc_scope plugin \<noteq> ProxyScope then []
          else
            (case pc_proxy_id plugin of
               None \<Rightarrow> []
             | Some proxy_id \<Rightarrow>
                 if (rd_namespace d, proxy_id) \<in> set new_proxies
                 then [state_key (rd_namespace d) ''PluginConfig'' (rd_id d),
                       state_key (rd_namespace d) ''Proxy'' proxy_id]
                 else []))"

definition cycle_keys :: "gateway_config \<Rightarrow> resource_diff list \<Rightarrow> string list" where
  "cycle_keys desired ds =
     concat (map (cycle_pair desired (new_proxies_of ds)) (filter (\<lambda>d. rd_action d = Add \<and> rd_kind d = ''PluginConfig'') ds))"

definition cyclic_create_diffs :: "gateway_config \<Rightarrow> resource_diff list \<Rightarrow> resource_diff list" where
  "cyclic_create_diffs desired ds = filter (\<lambda>d. diff_key d \<in> set (cycle_keys desired ds)) ds"

definition ACCESS_CONTROL_PLUGIN :: string where
  "ACCESS_CONTROL_PLUGIN = ''access_control''"

definition access_control_names :: "json \<Rightarrow> string \<Rightarrow> bool" where
  "access_control_names config username =
     list_ex (\<lambda>key.
       case Option.bind (jget config key) as_array of
         Some entries \<Rightarrow> list_ex (\<lambda>entry. as_str entry = Some username) entries
       | None \<Rightarrow> False) [''allowed_consumers'', ''disallowed_consumers'']"

definition live_field :: "(string \<Rightarrow> json option) \<Rightarrow> resource_diff \<Rightarrow> string \<Rightarrow> json option" where
  "live_field sj_from diff field =
     Option.bind (find (\<lambda>change. fc_field change = field) (rd_details diff)) (\<lambda>change. sj_from (fc_old_value change))"

definition consumer_renames :: "(string \<Rightarrow> json option) \<Rightarrow> resource_diff list \<Rightarrow> (string \<times> string) list" where
  "consumer_renames sj_from ds =
     bs_of_list (List.map_filter (\<lambda>d. map_option (\<lambda>old. (rd_namespace d, old))
       (Option.bind (live_field sj_from d ''username'') as_str))
       (filter (\<lambda>d. rd_action d = Modify \<and> rd_kind d = ''Consumer'') ds))"

definition unblocks_rename ::
    "(string \<Rightarrow> json option) \<Rightarrow> gateway_config \<Rightarrow> (string \<times> string) list \<Rightarrow> resource_diff \<Rightarrow> bool" where
  "unblocks_rename sj_from desired renames d =
     (\<not> list_ex (\<lambda>change. fc_field change = ''plugin_name'') (rd_details d) \<and>
      (case row_at plugin_id_key (gc_plugin_configs desired) (rd_namespace d, rd_id d) of
         None \<Rightarrow> False
       | Some plugin \<Rightarrow>
           if pc_plugin_name plugin \<noteq> ACCESS_CONTROL_PLUGIN then False
           else
             (case live_field sj_from d ''config'' of
                None \<Rightarrow> False
              | Some live \<Rightarrow>
                  list_ex (\<lambda>e. fst e = rd_namespace d \<and> access_control_names live (snd e) \<and>
                    \<not> access_control_names (pc_config plugin) (snd e)) renames)))"

definition rename_unblocking_keys ::
    "(string \<Rightarrow> json option) \<Rightarrow> gateway_config \<Rightarrow> resource_diff list \<Rightarrow> string list" where
  "rename_unblocking_keys sj_from desired ds =
     (let renames = consumer_renames sj_from ds in
      if renames = [] then []
      else map diff_key (filter (\<lambda>d. rd_action d = Modify \<and> rd_kind d = ''PluginConfig'' \<and>
        unblocks_rename sj_from desired renames d) ds))"

definition incremental_key ::
    "string list \<Rightarrow> string list \<Rightarrow> resource_diff \<Rightarrow> string \<times> nat \<times> bool" where
  "incremental_key cyclic_keys unblocking d =
     (let cyclic = diff_key d \<in> set cyclic_keys; unblocks = diff_key d \<in> set unblocking in
      (rd_namespace d,
       if cyclic then 2 else if unblocks then 0 else operation_rank (rd_action d) (rd_kind d),
       \<not> (cyclic \<or> unblocks)))"

definition order_incremental_diffs ::
    "(string \<Rightarrow> json option) \<Rightarrow> resource_diff list \<Rightarrow> gateway_config \<Rightarrow> resource_diff list" where
  "order_incremental_diffs sj_from ds desired =
     (let ds = order_diffs ds;
          cyclic_keys = map diff_key (cyclic_create_diffs desired ds);
          unblocking = rename_unblocking_keys sj_from desired ds
      in sort_key (incremental_key cyclic_keys unblocking) ds)"

definition has_rename_notice :: "(string \<Rightarrow> json option) \<Rightarrow> apply_strategy \<Rightarrow> resource_diff list \<Rightarrow> bool" where
  "has_rename_notice sj_from strategy ds \<longleftrightarrow> strategy = Incremental \<and> consumer_renames sj_from ds \<noteq> []"

definition has_attach_notice :: "apply_strategy \<Rightarrow> resource_diff list \<Rightarrow> gateway_config \<Rightarrow> bool" where
  "has_attach_notice strategy ds desired \<longleftrightarrow> strategy = Incremental \<and> cyclic_create_diffs desired ds \<noteq> []"

definition incremental_prune_notice :: "apply_strategy \<Rightarrow> resource_diff list \<Rightarrow> string option" where
  "incremental_prune_notice strategy ds =
     (if strategy = Incremental \<and> list_ex (\<lambda>d. rd_action d = Delete) ds
      then Some ''Incremental deletes are conditional: any failed Add/Modify defers all deletes in that namespace; a failed proxy deletion also retains its referenced plugins. A same-route rename requires resolving the routing conflict; an unchanged retry cannot complete it.''
      else None)"

section \<open>Batches\<close>

definition collect_row :: "gateway_config \<Rightarrow> resource_diff \<Rightarrow> batch_create \<Rightarrow> batch_create" where
  "collect_row desired d batch =
     (let key = (rd_namespace d, rd_id d) in
      if rd_kind d = ''Upstream''
      then batch\<lparr>bc_upstreams := bc_upstreams batch @
        (case row_at upstream_id_key (gc_upstreams desired) key of Some r \<Rightarrow> [r] | None \<Rightarrow> [])\<rparr>
      else if rd_kind d = ''Consumer''
      then batch\<lparr>bc_consumers := bc_consumers batch @
        (case row_at consumer_id_key (gc_consumers desired) key of Some r \<Rightarrow> [r] | None \<Rightarrow> [])\<rparr>
      else if rd_kind d = ''Proxy''
      then batch\<lparr>bc_proxies := bc_proxies batch @
        (case row_at proxy_id_key (gc_proxies desired) key of Some r \<Rightarrow> [r] | None \<Rightarrow> [])\<rparr>
      else if rd_kind d = ''PluginConfig''
      then batch\<lparr>bc_plugin_configs := bc_plugin_configs batch @
        (case row_at plugin_id_key (gc_plugin_configs desired) key of Some r \<Rightarrow> [r] | None \<Rightarrow> [])\<rparr>
      else batch)"

definition collect_batch :: "gateway_config \<Rightarrow> resource_diff list \<Rightarrow> batch_create" where
  "collect_batch desired ds = fold (collect_row desired) ds batch_create_default"

definition batch_cycle_proxy_ids :: "batch_create \<Rightarrow> string list" where
  "batch_cycle_proxy_ids batch =
     bs_of_list (filter (\<lambda>i. i \<in> p_id ` set (bc_proxies batch))
       (List.map_filter pc_proxy_id (filter (\<lambda>p. pc_scope p = ProxyScope) (bc_plugin_configs batch))))"

definition chunk_ops :: "batch_create \<Rightarrow> string \<Rightarrow> applied_op list" where
  "chunk_ops chunk ns =
     (let operation = (\<lambda>kind rid. \<lparr>ao_kind = kind, ao_namespace = ns, ao_id = rid, ao_action = Add\<rparr>) in
      map (\<lambda>u. operation ''Upstream'' (u_id u)) (bc_upstreams chunk) @
      map (\<lambda>c. operation ''Consumer'' (c_id c)) (bc_consumers chunk) @
      map (\<lambda>p. operation ''Proxy'' (p_id p)) (bc_proxies chunk) @
      map (\<lambda>p. operation ''PluginConfig'' (pc_id p)) (bc_plugin_configs chunk))"

definition proxy_has_failed_plugin :: "proxy \<Rightarrow> string list \<Rightarrow> bool" where
  "proxy_has_failed_plugin proxy failed_plugins =
     list_ex (\<lambda>a. pa_plugin_config_id a \<in> set failed_plugins) (p_plugins proxy)"

definition failed_plugin_references :: "string list \<Rightarrow> proxy \<Rightarrow> string list" where
  "failed_plugin_references failed_plugins proxy =
     bs_of_list (filter (\<lambda>i. i \<in> set failed_plugins) (map pa_plugin_config_id (p_plugins proxy)))"

record blocked_create_group =
  bg_message :: string
  bg_withheld_plugins :: "string list"

definition group_failures :: "string list \<Rightarrow> batch_create \<Rightarrow> string list" where
  "group_failures failed_plugins g = bs_of_list (concat (map (failed_plugin_references failed_plugins) (bc_proxies g)))"

definition blocked_group :: "string list \<Rightarrow> batch_create \<Rightarrow> blocked_create_group" where
  "blocked_group failed_plugins g = \<lparr>
     bg_message = ''Proxy '' @ join '', '' (map p_id (bc_proxies g)) @
       '' create: not attempted because referenced PluginConfig '' @ join '', '' (group_failures failed_plugins g) @
       '' failed to write; its new scoped PluginConfig '' @ join '', '' (map pc_id (bc_plugin_configs g)) @
       '' was withheld from the same POST /batch transaction and not created'',
     bg_withheld_plugins = map pc_id (bc_plugin_configs g)\<rparr>"

definition group_keys :: "batch_create \<Rightarrow> string list" where
  "group_keys g = map (\<lambda>p. state_key (p_namespace p) ''Proxy'' (p_id p)) (bc_proxies g) @
     map (\<lambda>p. state_key (pc_namespace p) ''PluginConfig'' (pc_id p)) (bc_plugin_configs g)"

definition partition_cyclic_creates ::
    "gateway_config \<Rightarrow> resource_diff list \<Rightarrow> string list \<Rightarrow> (blocked_create_group list \<times> resource_diff list) option"
  where
  "partition_cyclic_creates desired cyclic_creates failed_plugins =
     (if failed_plugins = [] then Some ([], cyclic_creates)
      else
        map_option (\<lambda>groups.
          let failing = filter (\<lambda>g. group_failures failed_plugins g \<noteq> []) groups in
          (map (blocked_group failed_plugins) failing,
           filter (\<lambda>d. diff_key d \<notin> set (concat (map group_keys failing))) cyclic_creates))
          (batch_dependency_groups (collect_batch desired cyclic_creates)))"

section \<open>Comparing a row with the gateway\<close>

definition comparison_value :: "string \<Rightarrow> json \<Rightarrow> json" where
  "comparison_value kind v =
     normalize_associations_for_comparison kind
       (case v of JObject m \<Rightarrow> JObject (bt_remove ''updated_at'' (bt_remove ''created_at'' m)) | _ \<Rightarrow> v)"

text \<open>\<open>live\<close> carries every key and value of \<open>desired\<close>, recursively.\<close>

fun json_contains :: "json \<Rightarrow> json \<Rightarrow> bool" where
  "json_contains (JObject desired) live =
     (case live of
        JObject m \<Rightarrow>
          list_all (\<lambda>e. case bt_get m (fst e) of Some found \<Rightarrow> json_contains (snd e) found | None \<Rightarrow> False) desired
      | _ \<Rightarrow> False)"
| "json_contains desired live = (desired = live)"

definition resource_values_match :: "string \<Rightarrow> json \<Rightarrow> json \<Rightarrow> bool" where
  "resource_values_match kind desired live = json_contains (comparison_value kind desired) (comparison_value kind live)"

definition resource_values_equal :: "string \<Rightarrow> json \<Rightarrow> json \<Rightarrow> bool" where
  "resource_values_equal kind desired live \<longleftrightarrow> comparison_value kind desired = comparison_value kind live"

definition absent_or_null :: "json \<Rightarrow> string \<Rightarrow> bool" where
  "absent_or_null v key \<longleftrightarrow> jget v key = None \<or> jget v key = Some JNull"

text \<open>\<open>None\<close> is the panic of an index assignment on a value that is neither an object nor null.\<close>

definition recovery_comparison_value :: "string \<Rightarrow> json \<Rightarrow> json option" where
  "recovery_comparison_value kind v =
     (if kind = ''Proxy'' \<and> absent_or_null v ''listen_port'' \<and> absent_or_null v ''backend_scheme''
      then
        (case v of
           JObject m \<Rightarrow> Some (JObject (bt_insert ''backend_scheme'' (JString ''https'') m))
         | JNull \<Rightarrow> Some (JObject (bt_insert ''backend_scheme'' (JString ''https'') []))
         | _ \<Rightarrow> None)
      else Some v)"

datatype create_resource =
    CreateProxy proxy
  | CreateConsumer consumer
  | CreateUpstream upstream
  | CreatePluginConfig plugin_config

fun cr_kind :: "create_resource \<Rightarrow> string" where
  "cr_kind (CreateProxy _) = ''Proxy''"
| "cr_kind (CreateConsumer _) = ''Consumer''"
| "cr_kind (CreateUpstream _) = ''Upstream''"
| "cr_kind (CreatePluginConfig _) = ''PluginConfig''"

fun cr_key :: "create_resource \<Rightarrow> string \<times> string" where
  "cr_key (CreateProxy p) = proxy_id_key p"
| "cr_key (CreateConsumer c) = consumer_id_key c"
| "cr_key (CreateUpstream u) = upstream_id_key u"
| "cr_key (CreatePluginConfig p) = plugin_id_key p"

fun cr_value :: "create_resource \<Rightarrow> json" where
  "cr_value (CreateProxy p) = proxy_to_value p"
| "cr_value (CreateConsumer c) = consumer_to_value c"
| "cr_value (CreateUpstream u) = upstream_to_value u"
| "cr_value (CreatePluginConfig p) = plugin_config_to_value p"

text \<open>The serialized live row of the same kind and key.\<close>

fun live_value :: "gateway_config \<Rightarrow> create_resource \<Rightarrow> json option" where
  "live_value live (CreateProxy p) = map_option proxy_to_value (row_at proxy_id_key (gc_proxies live) (proxy_id_key p))"
| "live_value live (CreateConsumer c) =
     map_option consumer_to_value (row_at consumer_id_key (gc_consumers live) (consumer_id_key c))"
| "live_value live (CreateUpstream u) =
     map_option upstream_to_value (row_at upstream_id_key (gc_upstreams live) (upstream_id_key u))"
| "live_value live (CreatePluginConfig p) =
     map_option plugin_config_to_value (row_at plugin_id_key (gc_plugin_configs live) (plugin_id_key p))"

datatype live_match = Absent | Different | Exact

definition live_match_of :: "gateway_config \<Rightarrow> create_resource \<Rightarrow> live_match" where
  "live_match_of live r =
     (if is_spec_owned live (cr_kind r) (fst (cr_key r)) (snd (cr_key r)) then Different
      else
        (case live_value live r of
           None \<Rightarrow> Absent
         | Some v \<Rightarrow> if resource_values_match (cr_kind r) (cr_value r) v then Exact else Different))"

definition exact_desired_is_live :: "gateway_config \<Rightarrow> create_resource \<Rightarrow> bool" where
  "exact_desired_is_live live r \<longleftrightarrow> live_match_of live r = Exact"

definition safe_to_overwrite :: "gateway_config \<Rightarrow> create_resource \<Rightarrow> bool" where
  "safe_to_overwrite live r =
     (case live_value live r of Some v \<Rightarrow> resource_values_equal (cr_kind r) (cr_value r) v | None \<Rightarrow> False)"

definition batch_rows :: "batch_create \<Rightarrow> create_resource list" where
  "batch_rows batch = map CreateProxy (bc_proxies batch) @ map CreateConsumer (bc_consumers batch) @
     map CreateUpstream (bc_upstreams batch) @ map CreatePluginConfig (bc_plugin_configs batch)"

definition batch_live_match :: "batch_create \<Rightarrow> gateway_config \<Rightarrow> live_match" where
  "batch_live_match batch actual =
     (let outcomes = map (live_match_of actual) (batch_rows batch) in
      case (Exact \<in> set outcomes, Absent \<in> set outcomes, Different \<in> set outcomes) of
        (True, False, False) \<Rightarrow> Exact
      | (False, True, False) \<Rightarrow> Absent
      | _ \<Rightarrow> Different)"

section \<open>Adoption and assertion\<close>

definition declared_rows :: "gateway_config \<Rightarrow> create_resource list" where
  "declared_rows desired = map CreateUpstream (gc_upstreams desired) @ map CreateConsumer (gc_consumers desired) @
     map CreateProxy (gc_proxies desired) @ map CreatePluginConfig (gc_plugin_configs desired)"

abbreviation cr_state_key :: "create_resource \<Rightarrow> string" where
  "cr_state_key r \<equiv> state_key (fst (cr_key r)) (cr_kind r) (snd (cr_key r))"

record adoption_candidate =
  ac_kind :: string
  ac_namespace :: string
  ac_id :: string

definition adoptable :: "gateway_config \<Rightarrow> string set \<Rightarrow> string set \<Rightarrow> create_resource \<Rightarrow> bool" where
  "adoptable actual managed_ledger handled r \<longleftrightarrow>
     cr_state_key r \<notin> managed_ledger \<and> cr_state_key r \<notin> handled \<and>
     \<not> is_spec_owned actual (cr_kind r) (fst (cr_key r)) (snd (cr_key r)) \<and> safe_to_overwrite actual r"

definition adoption_candidates ::
    "gateway_config \<Rightarrow> gateway_config \<Rightarrow> string set \<Rightarrow> string set \<Rightarrow> (config_error, adoption_candidate list) result"
  where
  "adoption_candidates desired actual managed_ledger handled =
     bind_result (validate_unique_live_resource_keys actual) (\<lambda>_.
       Inr (map (\<lambda>r. \<lparr>ac_kind = cr_kind r, ac_namespace = fst (cr_key r), ac_id = snd (cr_key r)\<rparr>)
         (filter (adoptable actual managed_ledger handled) (declared_rows desired))))"

definition adoption_summary_line :: "nat \<Rightarrow> string option" where
  "adoption_summary_line adopted =
     (if 0 < adopted then Some (''Adopted '' @ show_nat adopted @ '' already-matching resource(s) into the ledger'')
      else None)"

definition pending_create_assertion_diffs ::
    "gateway_config \<Rightarrow> gateway_config \<Rightarrow> string set \<Rightarrow> string \<Rightarrow> (config_error, resource_diff list) result" where
  "pending_create_assertion_diffs desired actual pending ns =
     bind_result (validate_unique_live_resource_keys actual) (\<lambda>_.
       Inr (map (\<lambda>r. \<lparr>rd_action = Modify, rd_kind = cr_kind r, rd_id = snd (cr_key r), rd_namespace = ns,
                     rd_details = []\<rparr>)
         (filter (\<lambda>r. cr_state_key r \<in> pending \<and> exact_desired_is_live actual r) (declared_rows desired))))"

definition dedupe_pending_assertions :: "resource_diff list \<Rightarrow> resource_diff list \<Rightarrow> resource_diff list" where
  "dedupe_pending_assertions ds assertions = filter (\<lambda>d. diff_key d \<notin> diff_key ` set ds) assertions"

section \<open>Fields this build does not model\<close>

definition undeclared_fields ::
    "string \<Rightarrow> ('a \<Rightarrow> string \<times> string) \<Rightarrow> ('a \<Rightarrow> (string, json) btree_map) \<Rightarrow> 'a list \<Rightarrow> 'a \<Rightarrow>
     unmodeled_nested_field list" where
  "undeclared_fields kind key passthrough live_rows declared =
     (case row_at key live_rows (key declared) of
        None \<Rightarrow> []
      | Some live \<Rightarrow>
          map (\<lambda>field. \<lparr>un_kind = kind, un_namespace = fst (key declared), un_id = snd (key declared),
                        un_path = ''.spec.'' @ field\<rparr>)
            (filter (\<lambda>field. \<not> bt_contains (passthrough declared) field) (bt_keys (passthrough live))))"

definition undeclared_live_top_level_fields ::
    "gateway_config \<Rightarrow> gateway_config \<Rightarrow> unmodeled_nested_field list" where
  "undeclared_live_top_level_fields desired actual =
     concat (map (undeclared_fields ''Proxy'' proxy_id_key p_extra (gc_proxies actual)) (gc_proxies desired)) @
     concat (map (undeclared_fields ''Consumer'' consumer_id_key c_extra (gc_consumers actual)) (gc_consumers desired)) @
     concat (map (undeclared_fields ''Upstream'' upstream_id_key u_extra (gc_upstreams actual)) (gc_upstreams desired)) @
     concat (map (undeclared_fields ''PluginConfig'' plugin_id_key pc_extra (gc_plugin_configs actual))
       (gc_plugin_configs desired))"

definition MAX_LISTED_UNMODELED_NESTED_FIELDS :: nat where
  "MAX_LISTED_UNMODELED_NESTED_FIELDS = 20"

definition describe_unmodeled_nested_fields ::
    "(string \<Rightarrow> string) \<Rightarrow> unmodeled_nested_field list \<Rightarrow> string list" where
  "describe_unmodeled_nested_fields shown found =
     (let offenders = bs_of_list (map (\<lambda>f. (un_kind f, un_namespace f, un_id f, un_path f)) found) in
      map (\<lambda>(kind, ns, rid, path). shown kind @ '' '' @ [CHR 0x27] @ shown rid @ [CHR 0x27] @ '' (namespace '' @
        [CHR 0x27] @ shown ns @ [CHR 0x27] @ ''): '' @ shown path)
        (take MAX_LISTED_UNMODELED_NESTED_FIELDS offenders) @
      (if MAX_LISTED_UNMODELED_NESTED_FIELDS < length offenders
       then [[CHR 0xE2, CHR 0x80, CHR 0xA6] @ ''and '' @
             show_nat (length offenders - MAX_LISTED_UNMODELED_NESTED_FIELDS) @ '' more'']
       else []))"

definition unmodeled_offenders ::
    "unmodeled_nested_field list \<Rightarrow> unmodeled_nested_field list \<Rightarrow> string set \<Rightarrow> unmodeled_nested_field list" where
  "unmodeled_offenders nested top_level rewritten =
     filter (\<lambda>f. if un_kind f \<in> {''Proxy'', ''Consumer'', ''Upstream'', ''PluginConfig''}
                 then state_key (un_namespace f) (un_kind f) (un_id f) \<in> rewritten else True) (nested @ top_level)"

definition unmodeled_field_block ::
    "(string \<Rightarrow> string) \<Rightarrow> unmodeled_nested_field list \<Rightarrow> unmodeled_nested_field list \<Rightarrow> string set \<Rightarrow> string \<Rightarrow>
     string option" where
  "unmodeled_field_block shown nested top_level rewritten ns =
     (let offenders = unmodeled_offenders nested top_level rewritten in
      if offenders = [] then None
      else Some (''refusing apply for namespace `'' @ ns @
        ''`: live row(s) this run would rewrite carry field(s) this build of gitforgeops does not model and the repository does not declare, and the write would reset them to their gateway defaults: '' @
        join ''; '' (describe_unmodeled_nested_fields shown offenders) @
        ''. Upgrade gitforgeops to a version that models them (the intended fix), or remove them on the gateway; a top-level field can also be declared on the resource with FERRUM_ALLOW_UNKNOWN_FIELDS=true. No resource in this namespace was written; other namespaces were reconciled normally''))"

record apply_options =
  ap_strategy :: apply_strategy
  ap_pending_create_assertions :: "string set"
  ap_managed_ledger :: "string set"
  ap_confirm_api_spec_deletion :: bool
  ap_allow_nontransactional_plugin_attach :: bool
  ap_refused_namespaces :: "(string, string) btree_map"

definition diff_keys :: "diff_result \<Rightarrow> string set" where
  "diff_keys diff = diff_key ` set (dr_diffs diff)"

definition incremental_rewrite_keys ::
    "gateway_config \<Rightarrow> gateway_config \<Rightarrow> diff_result \<Rightarrow> ownership_scope \<Rightarrow> apply_options \<Rightarrow>
     (config_error, string set) result" where
  "incremental_rewrite_keys desired actual diff scope options =
     (let rewritten = diff_key ` set (filter (\<lambda>d. rd_action d = Modify) (dr_diffs diff)) \<union>
            (cr_state_key ` set (declared_rows desired) \<inter> ap_pending_create_assertions options) in
      case scope of
        ownership_scope.Exclusive \<Rightarrow> Inr rewritten
      | ownership_scope.Shared _ \<Rightarrow>
          bind_result (adoption_candidates desired actual (ap_managed_ledger options)
            (diff_keys diff \<union> ap_pending_create_assertions options)) (\<lambda>candidates.
            Inr (rewritten \<union> (\<lambda>row. state_key (ac_namespace row) (ac_kind row) (ac_id row)) ` set candidates)))"

definition consumer_evidence_targets ::
    "iter_order \<Rightarrow> codec \<Rightarrow> gateway_config \<Rightarrow> gateway_config \<Rightarrow> string \<Rightarrow> ownership_scope \<Rightarrow> apply_options \<Rightarrow>
     (config_error, string list) result" where
  "consumer_evidence_targets order codec desired actual ns scope options =
     (let desired = filter_config_by_namespace desired ns in
      bind_result (compute_diff_with_options order codec desired actual scope
        \<lparr>do_prune_spec_owned = ap_confirm_api_spec_deletion options\<rparr>) (\<lambda>diff.
      bind_result (incremental_rewrite_keys desired actual diff scope options) (\<lambda>rewritten.
        Inr (bs_of_list (map c_id (filter (\<lambda>row.
          state_key ns ''Consumer'' (c_id row) \<in> rewritten \<or>
          list_ex (\<lambda>d. rd_kind d = ''Consumer'' \<and> rd_id d = c_id row \<and> rd_action d = Delete) (dr_diffs diff))
          (gc_consumers actual)))))))"

section \<open>Messages\<close>

definition all_deletes_missing_warning :: "string \<Rightarrow> nat \<Rightarrow> nat \<Rightarrow> string option" where
  "all_deletes_missing_warning ns deleted deletes_missing =
     (if deleted = 0 \<or> deletes_missing < deleted then None
      else Some (''['' @ ns @ ''] all '' @ show_nat deleted @ '' delete(s) returned 404 '' @ em_dash @
        '' the resources were already absent. Verify FERRUM_GATEWAY_URL and the namespace routing for this environment; state entries were still removed.''))"

definition stale_view_message :: string where
  "stale_view_message = ''Refusing to apply: the gateway served GET /backup from its in-memory cache (X-Data-Source: cached). Cached backups omit authoritative API-spec ownership metadata, so no POST, PUT, DELETE, batch, or restore can be proven safe. Wait for the gateway'' @ [CHR 0x27] @ ''s configuration database to recover and retry. `--allow-large-prune` does not bypass this ownership-safety gate.''"

definition stale_view_block :: "bool \<Rightarrow> string option" where
  "stale_view_block served_from_cache = (if served_from_cache then Some stale_view_message else None)"

end
