(* ===== verification/ApplyPlan_Facts.thy ===== *)
theory ApplyPlan_Facts
  imports ApplyPlan
begin

text \<open>
  The operation order keeps the gateway's referential integrity, and adoption claims only rows the gateway
  already stores as declared.
\<close>

section \<open>The order of operations\<close>

text \<open>The Consumer renames of a diff do not depend on its order.\<close>

definition releases_name :: "(string \<Rightarrow> json option) \<Rightarrow> resource_diff list \<Rightarrow> gateway_config \<Rightarrow> resource_diff \<Rightarrow> bool" where
  "releases_name sj_from ds desired d \<longleftrightarrow>
     rd_action d = Modify \<and> rd_kind d = ''PluginConfig'' \<and>
     unblocks_rename sj_from desired (consumer_renames sj_from ds) d"

definition in_cycle :: "resource_diff list \<Rightarrow> gateway_config \<Rightarrow> resource_diff \<Rightarrow> bool" where
  "in_cycle ds desired d \<longleftrightarrow> d \<in> set (cyclic_create_diffs desired ds)"

text \<open>
  What the gateway's referential integrity asks of two operations of one namespace: a row is written
  before the rows that refer to it and deleted after them, no delete comes before a write, and a plugin
  configuration that releases a username is written before the consumers.
\<close>

definition must_precede ::
    "(string \<Rightarrow> json option) \<Rightarrow> resource_diff list \<Rightarrow> gateway_config \<Rightarrow> resource_diff \<Rightarrow> resource_diff \<Rightarrow> bool" where
  "must_precede sj_from ds desired a b \<longleftrightarrow>
     rd_namespace a = rd_namespace b \<and>
     (if rd_action a \<noteq> Delete \<and> rd_action b = Delete then True
      else if rd_action a \<noteq> Delete \<and> rd_action b \<noteq> Delete
      then rd_kind a \<in> {''Upstream'', ''Consumer''} \<and> rd_kind b = ''Proxy'' \<or>
           rd_kind a \<in> {''Upstream'', ''Consumer''} \<and> rd_kind b = ''PluginConfig'' \<and>
             \<not> releases_name sj_from ds desired b \<or>
           rd_kind a = ''PluginConfig'' \<and> rd_kind b = ''Proxy'' \<and>
             \<not> (in_cycle ds desired a \<and> in_cycle ds desired b) \<or>
           releases_name sj_from ds desired a \<and> rd_kind b = ''Consumer''
      else rd_action a = Delete \<and> rd_action b = Delete \<and>
           (rd_kind a = ''Proxy'' \<and> rd_kind b \<in> {''PluginConfig'', ''Upstream'', ''Consumer''} \<or>
            rd_kind a = ''PluginConfig'' \<and> rd_kind b \<in> {''Upstream'', ''Consumer''}))"

lemma set_order_diffs [simp]: "set (order_diffs ds) = set ds"
  by (simp add: order_diffs_def)

lemma mset_order_diffs [simp]: "mset (order_diffs ds) = mset ds"
  by (simp add: order_diffs_def)

lemma set_consumer_renames_cong:
  assumes "set ds = set es"
  shows "set (consumer_renames sj_from ds) = set (consumer_renames sj_from es)"
  unfolding consumer_renames_def List.map_filter_def by (simp add: assms)

lemma list_ex_cong_set: "set xs = set ys \<Longrightarrow> list_ex P xs = list_ex P ys"
  by (simp add: list_ex_iff)

lemma unblocks_rename_cong:
  assumes "set renames = set renames'"
  shows "unblocks_rename sj_from desired renames d = unblocks_rename sj_from desired renames' d"
  unfolding unblocks_rename_def by (simp add: list_ex_cong_set[OF assms] cong: option.case_cong)

lemma cycle_pair_cong:
  assumes "set ps = set qs"
  shows "cycle_pair desired ps d = cycle_pair desired qs d"
  unfolding cycle_pair_def assms ..

lemma cycle_pair_cases:
  assumes "k \<in> set (cycle_pair desired ps d)"
  shows "k = state_key (rd_namespace d) ''PluginConfig'' (rd_id d) \<or>
    (\<exists>proxy_id. (rd_namespace d, proxy_id) \<in> set ps \<and> k = state_key (rd_namespace d) ''Proxy'' proxy_id)"
  using assms by (auto simp: cycle_pair_def split: option.splits if_splits)

lemma set_cycle_keys_cong:
  assumes "set ds = set es"
  shows "set (cycle_keys desired ds) = set (cycle_keys desired es)"
proof -
  have "cycle_pair desired (new_proxies_of ds) d = cycle_pair desired (new_proxies_of es) d" for d
    by (rule cycle_pair_cong) (simp add: new_proxies_of_def assms)
  then show ?thesis by (simp add: cycle_keys_def assms)
qed

lemma set_cyclic_create_diffs:
  "set (cyclic_create_diffs desired ds) = {d \<in> set ds. diff_key d \<in> set (cycle_keys desired ds)}"
  by (simp add: cyclic_create_diffs_def)

text \<open>The keys of a create cycle are keys of new plugin configurations and new proxies of the diff.\<close>

lemma cycle_key_of_add:
  assumes "k \<in> set (cycle_keys desired ds)"
  shows "\<exists>e \<in> set ds. rd_action e = Add \<and> (rd_kind e = ''PluginConfig'' \<or> rd_kind e = ''Proxy'') \<and> diff_key e = k"
proof -
  obtain d where d: "d \<in> set ds" "rd_action d = Add" "rd_kind d = ''PluginConfig''"
    and pair: "k \<in> set (cycle_pair desired (new_proxies_of ds) d)"
    using assms by (auto simp: cycle_keys_def)
  from cycle_pair_cases[OF pair] show ?thesis
  proof
    assume "k = state_key (rd_namespace d) ''PluginConfig'' (rd_id d)"
    then show ?thesis using d by (intro bexI[of _ d]) simp_all
  next
    assume "\<exists>proxy_id. (rd_namespace d, proxy_id) \<in> set (new_proxies_of ds) \<and>
      k = state_key (rd_namespace d) ''Proxy'' proxy_id"
    then obtain proxy_id where new: "(rd_namespace d, proxy_id) \<in> set (new_proxies_of ds)"
      and k2: "k = state_key (rd_namespace d) ''Proxy'' proxy_id" by blast
    from new obtain e where "e \<in> set ds" "rd_action e = Add" "rd_kind e = ''Proxy''"
      "rd_namespace e = rd_namespace d" "rd_id e = proxy_id" by (auto simp: new_proxies_of_def)
    then show ?thesis using k2 by (intro bexI[of _ e]) simp_all
  qed
qed

lemma distinct_key_eq: "distinct (map f xs) \<Longrightarrow> x \<in> set xs \<Longrightarrow> y \<in> set xs \<Longrightarrow> f x = f y \<Longrightarrow> x = y"
  by (simp add: distinct_map inj_on_def)

lemma in_cycle_add:
  assumes "distinct (map diff_key ds)" and "in_cycle ds desired d"
  shows "rd_action d = Add \<and> (rd_kind d = ''PluginConfig'' \<or> rd_kind d = ''Proxy'')"
proof -
  have d: "d \<in> set ds" "diff_key d \<in> set (cycle_keys desired ds)"
    using assms(2) by (auto simp: in_cycle_def set_cyclic_create_diffs)
  obtain e where "e \<in> set ds" "diff_key e = diff_key d" "rd_action e = Add"
    "rd_kind e = ''PluginConfig'' \<or> rd_kind e = ''Proxy''"
    using cycle_key_of_add[OF d(2)] by blast
  then show ?thesis using distinct_key_eq[OF assms(1), of e d] d(1) by blast
qed

text \<open>The two key sets of the sort, on the entries of the diff.\<close>

definition cyc_keys :: "resource_diff list \<Rightarrow> gateway_config \<Rightarrow> string list" where
  "cyc_keys ds desired = map diff_key (cyclic_create_diffs desired (order_diffs ds))"

definition unb_keys :: "(string \<Rightarrow> json option) \<Rightarrow> resource_diff list \<Rightarrow> gateway_config \<Rightarrow> string list" where
  "unb_keys sj_from ds desired = rename_unblocking_keys sj_from desired (order_diffs ds)"

lemma cyc_keys_iff:
  assumes "distinct (map diff_key ds)" and "d \<in> set ds"
  shows "diff_key d \<in> set (cyc_keys ds desired) \<longleftrightarrow> in_cycle ds desired d"
proof -
  have same: "set (cycle_keys desired (order_diffs ds)) = set (cycle_keys desired ds)"
    by (rule set_cycle_keys_cong) simp
  have "set (cyclic_create_diffs desired (order_diffs ds)) = set (cyclic_create_diffs desired ds)"
    by (simp add: set_cyclic_create_diffs same)
  then have "set (cyc_keys ds desired) = diff_key ` set (cyclic_create_diffs desired ds)"
    by (simp add: cyc_keys_def)
  then show ?thesis
    using distinct_key_eq[OF assms(1) assms(2)] by (auto simp: in_cycle_def set_cyclic_create_diffs assms(2))
qed

lemma unblocks_empty: "\<not> unblocks_rename sj_from desired [] d"
  by (simp add: unblocks_rename_def split: option.splits)

lemma unb_keys_iff:
  assumes "distinct (map diff_key ds)" and "d \<in> set ds"
  shows "diff_key d \<in> set (unb_keys sj_from ds desired) \<longleftrightarrow> releases_name sj_from ds desired d"
proof -
  let ?rs = "consumer_renames sj_from (order_diffs ds)"
  have cong: "unblocks_rename sj_from desired ?rs e = unblocks_rename sj_from desired (consumer_renames sj_from ds) e" for e
    by (rule unblocks_rename_cong[OF set_consumer_renames_cong]) simp
  have "set (unb_keys sj_from ds desired) = diff_key ` {e \<in> set ds. releases_name sj_from ds desired e}"
  proof (cases "?rs = []")
    case True
    then have "\<not> releases_name sj_from ds desired e" for e
      using cong[of e] unblocks_empty by (simp add: releases_name_def)
    then show ?thesis using True by (simp add: unb_keys_def rename_unblocking_keys_def)
  next
    case False
    then show ?thesis
      by (auto simp: unb_keys_def rename_unblocking_keys_def releases_name_def cong)
  qed
  then show ?thesis using distinct_key_eq[OF assms(1) assms(2)] assms(2) by auto
qed

lemma order_incremental_diffs_sort:
  "order_incremental_diffs sj_from ds desired =
     sort_key (incremental_key (cyc_keys ds desired) (unb_keys sj_from ds desired)) (order_diffs ds)"
  by (simp add: order_incremental_diffs_def cyc_keys_def unb_keys_def Let_def)

lemma sorted_wrt_incremental:
  "sorted_wrt (\<lambda>a b. incremental_key ck uk a \<le> incremental_key ck uk b) (sort_key (incremental_key ck uk) ds)"
  using sorted_sort_key[of "incremental_key ck uk" ds] by (simp only: sorted_map)

lemma sorted_wrt_on:
  "sorted_wrt P xs \<Longrightarrow> (\<And>a b. a \<in> set xs \<Longrightarrow> b \<in> set xs \<Longrightarrow> P a b \<Longrightarrow> Q a b) \<Longrightarrow> sorted_wrt Q xs"
  by (induction xs) auto

lemma in_cycle_member: "in_cycle ds desired d \<Longrightarrow> d \<in> set ds"
  by (simp add: in_cycle_def set_cyclic_create_diffs)

definition effective_rank ::
    "(string \<Rightarrow> json option) \<Rightarrow> resource_diff list \<Rightarrow> gateway_config \<Rightarrow> resource_diff \<Rightarrow> nat \<times> bool" where
  "effective_rank sj_from ds desired d =
     (let cyclic = in_cycle ds desired d; unblocks = releases_name sj_from ds desired d in
      (if cyclic then 2 else if unblocks then 0 else operation_rank (rd_action d) (rd_kind d), \<not> (cyclic \<or> unblocks)))"

lemma incremental_key_rank:
  assumes "distinct (map diff_key ds)" and "d \<in> set ds"
  shows "incremental_key (cyc_keys ds desired) (unb_keys sj_from ds desired) d =
    (rd_namespace d, effective_rank sj_from ds desired d)"
  by (simp add: incremental_key_def effective_rank_def Let_def cyc_keys_iff[OF assms] unb_keys_iff[OF assms])

lemma rank_write:
  assumes "rd_action d \<noteq> Delete"
  shows "operation_rank (rd_action d) (rd_kind d) =
    (if rd_kind d = ''Upstream'' \<or> rd_kind d = ''Consumer'' then 0 else if rd_kind d = ''PluginConfig'' then 1 else 2)"
  using assms by (cases "rd_action d") (simp_all add: operation_rank_def)

lemma rank_delete:
  assumes "rd_action d = Delete"
  shows "operation_rank (rd_action d) (rd_kind d) =
    (if rd_kind d = ''Proxy'' then 3 else if rd_kind d = ''PluginConfig'' then 4
     else if rd_kind d = ''Upstream'' \<or> rd_kind d = ''Consumer'' then 5 else 3)"
  by (simp add: assms operation_rank_def)

lemma effective_delete:
  assumes "distinct (map diff_key ds)" and "rd_action d = Delete"
  shows "effective_rank sj_from ds desired d = (operation_rank Delete (rd_kind d), True)"
proof -
  have "\<not> in_cycle ds desired d" using in_cycle_add[OF assms(1)] assms(2) by auto
  then show ?thesis by (simp add: effective_rank_def releases_name_def assms(2))
qed

lemma effective_write:
  assumes "distinct (map diff_key ds)" and "rd_action d \<noteq> Delete"
  shows "effective_rank sj_from ds desired d =
    (if in_cycle ds desired d then (2, False) else if releases_name sj_from ds desired d then (0, False)
     else (if rd_kind d = ''Upstream'' \<or> rd_kind d = ''Consumer'' then 0 else if rd_kind d = ''PluginConfig'' then 1 else 2, True))"
  by (simp add: effective_rank_def rank_write[OF assms(2)])

lemma precede_rank:
  assumes "distinct (map diff_key ds)" and "must_precede sj_from ds desired a b"
  shows "effective_rank sj_from ds desired a < effective_rank sj_from ds desired b"
proof -
  have cyc: "rd_kind d = ''PluginConfig'' \<or> rd_kind d = ''Proxy''" "rd_action d = Add"
    if "in_cycle ds desired d" for d
    using in_cycle_add[OF assms(1) that] by auto
  have rel: "rd_kind d = ''PluginConfig''" "rd_action d = Modify" "\<not> in_cycle ds desired d"
    if "releases_name sj_from ds desired d" for d
    using that cyc(2)[of d] by (auto simp: releases_name_def)
  have "\<not> (rd_action a = Delete \<and> rd_action b \<noteq> Delete)"
    using assms(2) unfolding must_precede_def by argo
  then consider (wd) "rd_action a \<noteq> Delete" "rd_action b = Delete"
    | (ww) "rd_action a \<noteq> Delete" "rd_action b \<noteq> Delete"
    | (dd) "rd_action a = Delete" "rd_action b = Delete"
    by blast
  then show ?thesis
  proof cases
    case wd
    show ?thesis
      by (simp add: effective_write[OF assms(1) wd(1)] effective_delete[OF assms(1) wd(2)] operation_rank_def)
  next
    case ww
    have base: "effective_rank sj_from ds desired d = (0, True)"
      if "rd_action d \<noteq> Delete" "rd_kind d \<in> {''Upstream'', ''Consumer''}" for d
    proof -
      have "\<not> in_cycle ds desired d" "\<not> releases_name sj_from ds desired d"
        using that(2) cyc(1)[of d] rel(1)[of d] by auto
      then show ?thesis using that by (auto simp: effective_write[OF assms(1) that(1)])
    qed
    have proxy: "effective_rank sj_from ds desired d = (2, \<not> in_cycle ds desired d)"
      if "rd_action d \<noteq> Delete" "rd_kind d = ''Proxy''" for d
    proof -
      have "\<not> releases_name sj_from ds desired d" using that(2) rel(1)[of d] by auto
      then show ?thesis using that by (simp add: effective_write[OF assms(1) that(1)])
    qed
    have released: "effective_rank sj_from ds desired d = (0, False)" if "releases_name sj_from ds desired d" for d
      using rel[OF that] that by (simp add: effective_write[OF assms(1)])
    have plugin: "effective_rank sj_from ds desired d = (if in_cycle ds desired d then (2, False) else (1, True))"
      if "rd_action d \<noteq> Delete" "rd_kind d = ''PluginConfig''" "\<not> releases_name sj_from ds desired d" for d
      using that by (simp add: effective_write[OF assms(1) that(1)])
    consider (up) "rd_kind a \<in> {''Upstream'', ''Consumer''}" "rd_kind b = ''Proxy''"
      | (plug) "rd_kind a \<in> {''Upstream'', ''Consumer''}" "rd_kind b = ''PluginConfig''"
          "\<not> releases_name sj_from ds desired b"
      | (proxied) "rd_kind a = ''PluginConfig''" "rd_kind b = ''Proxy''"
          "\<not> (in_cycle ds desired a \<and> in_cycle ds desired b)"
      | (rename) "releases_name sj_from ds desired a" "rd_kind b = ''Consumer''"
      using assms(2) ww unfolding must_precede_def by argo
    then show ?thesis
    proof cases
      case up
      show ?thesis by (simp add: base[OF ww(1) up(1)] proxy[OF ww(2) up(2)])
    next
      case plug
      show ?thesis by (simp add: base[OF ww(1) plug(1)] plugin[OF ww(2) plug(2,3)])
    next
      case proxied
      show ?thesis
      proof (cases "releases_name sj_from ds desired a")
        case True
        show ?thesis by (simp add: released[OF True] proxy[OF ww(2) proxied(2)])
      next
        case False
        show ?thesis using proxied(3) by (simp add: plugin[OF ww(1) proxied(1) False] proxy[OF ww(2) proxied(2)])
      qed
    next
      case rename
      have "rd_kind b \<in> {''Upstream'', ''Consumer''}" using rename(2) by simp
      then show ?thesis by (simp add: released[OF rename(1)] base[OF ww(2)])
    qed
  next
    case dd
    then show ?thesis using assms(2)
      by (auto simp: must_precede_def effective_delete[OF assms(1)] operation_rank_def)
  qed
qed

text \<open>
  C19. Incremental apply sends exactly the operations of the diff, namespace by namespace, in an order in
  which no operation comes before one it depends on: writes before deletes, referenced rows before the
  rows that refer to them, deletes in reverse, and an \<open>access_control\<close> write that releases a username
  before the consumers, so that the rename is accepted.
\<close>

theorem incremental_order_respects_dependencies:
  assumes "distinct (map diff_key ds)"
  shows "mset (order_incremental_diffs sj_from ds desired) = mset ds \<and>
    sorted (map rd_namespace (order_incremental_diffs sj_from ds desired)) \<and>
    sorted_wrt (\<lambda>earlier later. \<not> must_precede sj_from ds desired later earlier)
      (order_incremental_diffs sj_from ds desired)"
proof -
  let ?k = "incremental_key (cyc_keys ds desired) (unb_keys sj_from ds desired)"
  let ?out = "order_incremental_diffs sj_from ds desired"
  have set_out: "set ?out = set ds" by (simp add: order_incremental_diffs_sort)
  have sorted_out: "sorted_wrt (\<lambda>a b. ?k a \<le> ?k b) ?out"
    unfolding order_incremental_diffs_sort by (rule sorted_wrt_incremental)
  have "sorted_wrt (\<lambda>a b. rd_namespace a \<le> rd_namespace b) ?out"
    by (rule sorted_wrt_on[OF sorted_out]) (auto simp: incremental_key_def Let_def less_eq_prod_def)
  then have "sorted (map rd_namespace ?out)" by (simp only: sorted_map)
  moreover have "sorted_wrt (\<lambda>a b. \<not> must_precede sj_from ds desired b a) ?out"
  proof (rule sorted_wrt_on[OF sorted_out])
    fix a b assume m: "a \<in> set ?out" "b \<in> set ?out" and le: "?k a \<le> ?k b"
    show "\<not> must_precede sj_from ds desired b a"
    proof
      assume p: "must_precede sj_from ds desired b a"
      have "rd_namespace a = rd_namespace b" using p by (simp add: must_precede_def)
      then have "?k b < ?k a"
        using precede_rank[OF assms p] m
        by (simp add: set_out incremental_key_rank[OF assms] less_prod_def)
      then show False using le by simp
    qed
  qed
  ultimately show ?thesis by (simp add: order_incremental_diffs_sort)
qed

definition sample_operations :: "resource_diff list" where
  "sample_operations =
     [\<lparr>rd_action = Delete, rd_kind = ''Upstream'', rd_id = ''old'', rd_namespace = ''shop'', rd_details = []\<rparr>,
      \<lparr>rd_action = Delete, rd_kind = ''Proxy'', rd_id = ''web'', rd_namespace = ''shop'', rd_details = []\<rparr>,
      \<lparr>rd_action = Modify, rd_kind = ''Proxy'', rd_id = ''api'', rd_namespace = ''shop'', rd_details = []\<rparr>,
      \<lparr>rd_action = Add, rd_kind = ''Upstream'', rd_id = ''new'', rd_namespace = ''shop'', rd_details = []\<rparr>]"

theorem incremental_order_respects_dependencies_witness:
  "mset (order_incremental_diffs (\<lambda>_. None) sample_operations gateway_config_default) = mset sample_operations \<and>
   sorted_wrt (\<lambda>earlier later. \<not> must_precede (\<lambda>_. None) sample_operations gateway_config_default later earlier)
     (order_incremental_diffs (\<lambda>_. None) sample_operations gateway_config_default)"
proof -
  have "distinct (map diff_key sample_operations)" by code_simp
  then show ?thesis
    using incremental_order_respects_dependencies[of sample_operations "\<lambda>_. None" gateway_config_default] by blast
qed

section \<open>Adoption\<close>

text \<open>With distinct keys the index holds every row, so the first row with a key is the only one.\<close>

lemma row_at_iff:
  assumes "distinct (map key rows)"
  shows "row_at key rows k = Some r \<longleftrightarrow> r \<in> set rows \<and> key r = k"
proof
  assume "row_at key rows k = Some r"
  then show "r \<in> set rows \<and> key r = k" by (auto simp: row_at_def find_Some_iff)
next
  assume r: "r \<in> set rows \<and> key r = k"
  then have "row_at key rows k \<noteq> None" by (auto simp: row_at_def find_None_iff)
  then obtain r' where r': "row_at key rows k = Some r'" by blast
  then have "r' \<in> set rows" "key r' = k" by (auto simp: row_at_def find_Some_iff)
  then have "r' = r" using r distinct_key_eq[OF assms, of r' r] by simp
  then show "row_at key rows k = Some r" using r' by simp
qed

fun cr_tag :: "create_resource \<Rightarrow> string option" where
  "cr_tag (CreateProxy p) = p_api_spec_id p"
| "cr_tag (CreateConsumer c) = None"
| "cr_tag (CreateUpstream u) = u_api_spec_id u"
| "cr_tag (CreatePluginConfig p) = pc_api_spec_id p"

text \<open>The live row with the identity of a declared one, of whatever kind it is.\<close>

definition stands_for :: "gateway_config \<Rightarrow> create_resource \<Rightarrow> create_resource \<Rightarrow> bool" where
  "stands_for actual r l \<longleftrightarrow> l \<in> set (declared_rows actual) \<and> cr_kind l = cr_kind r \<and> cr_key l = cr_key r"

lemma distinct_config_keys:
  assumes "distinct (config_keys actual)"
  shows "distinct (map proxy_id_key (gc_proxies actual))" and "distinct (map consumer_id_key (gc_consumers actual))"
    and "distinct (map upstream_id_key (gc_upstreams actual))"
    and "distinct (map plugin_id_key (gc_plugin_configs actual))"
proof -
  have keys: "map proxy_key ps = map (\<lambda>(ns, rid). (ns, ''Proxy'', rid)) (map proxy_id_key ps)"
    "map consumer_key cs = map (\<lambda>(ns, rid). (ns, ''Consumer'', rid)) (map consumer_id_key cs)"
    "map upstream_key us = map (\<lambda>(ns, rid). (ns, ''Upstream'', rid)) (map upstream_id_key us)"
    "map plugin_config_key pcs = map (\<lambda>(ns, rid). (ns, ''PluginConfig'', rid)) (map plugin_id_key pcs)"
    for ps cs us pcs
    by (simp_all add: proxy_key_def consumer_key_def upstream_key_def plugin_config_key_def)
  show "distinct (map proxy_id_key (gc_proxies actual))" "distinct (map consumer_id_key (gc_consumers actual))"
    "distinct (map upstream_id_key (gc_upstreams actual))" "distinct (map plugin_id_key (gc_plugin_configs actual))"
    using assms unfolding config_keys_def keys distinct_append distinct_map[of "\<lambda>(ns, rid). (ns, _, rid)"] by blast+
qed

lemma live_row_cases:
  assumes "distinct (config_keys actual)"
  shows "(live_value actual r = Some v \<longleftrightarrow> (\<exists>l. stands_for actual r l \<and> v = cr_value l)) \<and>
    (is_spec_owned actual (cr_kind r) (fst (cr_key r)) (snd (cr_key r)) \<longleftrightarrow>
       (\<exists>l. stands_for actual r l \<and> cr_tag l \<noteq> None))"
proof (cases r)
  case (CreateProxy p)
  have "stands_for actual r l \<longleftrightarrow> (\<exists>x. l = CreateProxy x \<and> row_at proxy_id_key (gc_proxies actual) (proxy_id_key p) = Some x)" for l
    unfolding row_at_iff[OF distinct_config_keys(1)[OF assms]]
    by (auto simp: stands_for_def declared_rows_def CreateProxy)
  then show ?thesis
    by (cases "row_at proxy_id_key (gc_proxies actual) (proxy_id_key p)") (auto simp: is_spec_owned_def Let_def CreateProxy)
next
  case (CreateConsumer c)
  have "stands_for actual r l \<longleftrightarrow> (\<exists>x. l = CreateConsumer x \<and> row_at consumer_id_key (gc_consumers actual) (consumer_id_key c) = Some x)" for l
    unfolding row_at_iff[OF distinct_config_keys(2)[OF assms]]
    by (auto simp: stands_for_def declared_rows_def CreateConsumer)
  then show ?thesis
    by (cases "row_at consumer_id_key (gc_consumers actual) (consumer_id_key c)") (auto simp: is_spec_owned_def Let_def CreateConsumer)
next
  case (CreateUpstream u)
  have "stands_for actual r l \<longleftrightarrow> (\<exists>x. l = CreateUpstream x \<and> row_at upstream_id_key (gc_upstreams actual) (upstream_id_key u) = Some x)" for l
    unfolding row_at_iff[OF distinct_config_keys(3)[OF assms]]
    by (auto simp: stands_for_def declared_rows_def CreateUpstream)
  then show ?thesis
    by (cases "row_at upstream_id_key (gc_upstreams actual) (upstream_id_key u)") (auto simp: is_spec_owned_def Let_def CreateUpstream)
next
  case (CreatePluginConfig p)
  have "stands_for actual r l \<longleftrightarrow> (\<exists>x. l = CreatePluginConfig x \<and> row_at plugin_id_key (gc_plugin_configs actual) (plugin_id_key p) = Some x)" for l
    unfolding row_at_iff[OF distinct_config_keys(4)[OF assms]]
    by (auto simp: stands_for_def declared_rows_def CreatePluginConfig)
  then show ?thesis
    by (cases "row_at plugin_id_key (gc_plugin_configs actual) (plugin_id_key p)") (auto simp: is_spec_owned_def Let_def CreatePluginConfig)
qed

lemma stands_for_unique:
  assumes "distinct (config_keys actual)" and "stands_for actual r l" and "stands_for actual r l'"
  shows "cr_value l' = cr_value l"
proof -
  have "live_value actual r = Some (cr_value l)" "live_value actual r = Some (cr_value l')"
    using live_row_cases[OF assms(1)] assms(2,3) by blast+
  then show ?thesis by simp
qed

lemma stands_for_live: "distinct (config_keys actual) \<Longrightarrow> stands_for actual r l \<Longrightarrow> live_value actual r = Some (cr_value l)"
  using live_row_cases by blast

definition candidate_of :: "create_resource \<Rightarrow> adoption_candidate" where
  "candidate_of r = \<lparr>ac_kind = cr_kind r, ac_namespace = fst (cr_key r), ac_id = snd (cr_key r)\<rparr>"

text \<open>
  A row may be claimed when the gateway stores a row of that identity, and every one it stores is untagged
  and equal to the declaration.
\<close>

definition claimable :: "gateway_config \<Rightarrow> string set \<Rightarrow> create_resource \<Rightarrow> bool" where
  "claimable actual taken r \<longleftrightarrow>
     cr_state_key r \<notin> taken \<and> (\<exists>l. stands_for actual r l) \<and>
     (\<forall>l. stands_for actual r l \<longrightarrow> cr_tag l = None \<and>
        comparison_value (cr_kind r) (cr_value r) = comparison_value (cr_kind r) (cr_value l))"

lemma adoptable_iff:
  assumes "distinct (config_keys actual)"
  shows "adoptable actual ledger handled r \<longleftrightarrow> claimable actual (ledger \<union> handled) r"
proof (cases "live_value actual r")
  case None
  then have "\<not> stands_for actual r l" for l using stands_for_live[OF assms] by fastforce
  then show ?thesis using None by (simp add: adoptable_def safe_to_overwrite_def claimable_def)
next
  case (Some v)
  then obtain l where l: "stands_for actual r l" "v = cr_value l"
    using live_row_cases[OF assms, of r v] by blast
  have owned: "is_spec_owned actual (cr_kind r) (fst (cr_key r)) (snd (cr_key r)) \<longleftrightarrow>
      (\<exists>l. stands_for actual r l \<and> cr_tag l \<noteq> None)"
    using live_row_cases[OF assms, of r v] by (rule conjunct2)
  have same: "stands_for actual r l' \<Longrightarrow> cr_value l' = cr_value l" for l'
    by (rule stands_for_unique[OF assms l(1)])
  have "claimable actual (ledger \<union> handled) r \<longleftrightarrow>
      cr_state_key r \<notin> ledger \<union> handled \<and> \<not> (\<exists>l. stands_for actual r l \<and> cr_tag l \<noteq> None) \<and>
      comparison_value (cr_kind r) (cr_value r) = comparison_value (cr_kind r) (cr_value l)"
    unfolding claimable_def using l(1) same by metis
  moreover have "safe_to_overwrite actual r \<longleftrightarrow>
      comparison_value (cr_kind r) (cr_value r) = comparison_value (cr_kind r) (cr_value l)"
    by (simp add: safe_to_overwrite_def Some l(2) resource_values_equal_def)
  ultimately show ?thesis by (simp add: adoptable_def owned)
qed

text \<open>
  C20. Adoption is safe and complete.  It succeeds exactly on a live document without ambiguous keys, and it
  then claims exactly the declared rows that the gateway stores untagged by any API spec and equal to the
  declaration, save those the ledger holds already and those another operation of the run handles.
\<close>

theorem adoption_exact:
  "adoption_candidates desired actual ledger handled = Inr cs \<longleftrightarrow>
     distinct (config_keys actual) \<and>
     cs = map candidate_of (filter (claimable actual (ledger \<union> handled)) (declared_rows desired))"
proof (cases "distinct (config_keys actual)")
  case True
  then have "validate_unique_live_resource_keys actual = Inr ()"
    using validate_unique_live_ok_iff[of actual] by simp
  moreover have "adoptable actual ledger handled = claimable actual (ledger \<union> handled)"
    by (rule ext) (rule adoptable_iff[OF True])
  moreover have "(\<lambda>r. \<lparr>ac_kind = cr_kind r, ac_namespace = fst (cr_key r), ac_id = snd (cr_key r)\<rparr>) = candidate_of"
    by (rule ext) (simp add: candidate_of_def)
  ultimately show ?thesis using True by (auto simp: adoption_candidates_def)
next
  case False
  then obtain e where "validate_unique_live_resource_keys actual = Inl e"
    using validate_unique_live_ok_iff[of actual] by (cases "validate_unique_live_resource_keys actual") auto
  then show ?thesis using False by (simp add: adoption_candidates_def)
qed

section \<open>What a backup proves about a batch\<close>

text \<open>The live row carries every value the repository declared.\<close>

definition carries :: "gateway_config \<Rightarrow> create_resource \<Rightarrow> bool" where
  "carries actual r \<longleftrightarrow> (\<exists>l. stands_for actual r l) \<and>
     (\<forall>l. stands_for actual r l \<longrightarrow> cr_tag l = None \<and> resource_values_match (cr_kind r) (cr_value r) (cr_value l))"

lemma live_match_cases:
  assumes "distinct (config_keys actual)"
  shows "live_match_of actual r = Exact \<longleftrightarrow> carries actual r"
    and "live_match_of actual r = Absent \<longleftrightarrow> \<not> (\<exists>l. stands_for actual r l)"
proof -
  have owned: "is_spec_owned actual (cr_kind r) (fst (cr_key r)) (snd (cr_key r)) \<longleftrightarrow>
      (\<exists>l. stands_for actual r l \<and> cr_tag l \<noteq> None)"
    using live_row_cases[OF assms, of r undefined] by (rule conjunct2)
  have "(live_match_of actual r = Exact \<longleftrightarrow> carries actual r) \<and>
      (live_match_of actual r = Absent \<longleftrightarrow> \<not> (\<exists>l. stands_for actual r l))"
  proof (cases "live_value actual r")
    case None
    then have "\<not> stands_for actual r l" for l using stands_for_live[OF assms] by fastforce
    then show ?thesis using None by (simp add: live_match_of_def owned carries_def)
  next
    case (Some v)
    then obtain l where l: "stands_for actual r l" "v = cr_value l"
      using live_row_cases[OF assms, of r v] by blast
    have same: "stands_for actual r l' \<Longrightarrow> cr_value l' = cr_value l" for l'
      by (rule stands_for_unique[OF assms l(1)])
    have "carries actual r \<longleftrightarrow> \<not> (\<exists>l. stands_for actual r l \<and> cr_tag l \<noteq> None) \<and>
        resource_values_match (cr_kind r) (cr_value r) (cr_value l)"
      unfolding carries_def using l(1) same by metis
    then show ?thesis using l(1) by (auto simp: live_match_of_def owned Some l(2))
  qed
  then show "live_match_of actual r = Exact \<longleftrightarrow> carries actual r"
    "live_match_of actual r = Absent \<longleftrightarrow> \<not> (\<exists>l. stands_for actual r l)" by simp_all
qed

lemma live_match_all:
  "batch_live_match batch actual = Exact \<longleftrightarrow>
     batch_rows batch \<noteq> [] \<and> (\<forall>r \<in> set (batch_rows batch). live_match_of actual r = Exact)"
  "batch_live_match batch actual = Absent \<longleftrightarrow>
     batch_rows batch \<noteq> [] \<and> (\<forall>r \<in> set (batch_rows batch). live_match_of actual r = Absent)"
proof -
  have some: "(\<forall>r \<in> set rows. live_match_of actual r = m) \<and> rows \<noteq> [] \<longleftrightarrow>
      set (map (live_match_of actual) rows) = {m}" for rows m
    by (cases rows) auto
  have cases: "S = {m} \<longleftrightarrow> m \<in> S \<and> (\<forall>m'. m' \<noteq> m \<longrightarrow> m' \<notin> S)" for S :: "live_match set" and m by auto
  have every: "P Absent \<and> P Different \<and> P Exact \<Longrightarrow> P m" for P m by (cases m) auto
  let ?S = "set (map (live_match_of actual) (batch_rows batch))"
  have "batch_live_match batch actual = Exact \<longleftrightarrow> Exact \<in> ?S \<and> Absent \<notin> ?S \<and> Different \<notin> ?S"
    "batch_live_match batch actual = Absent \<longleftrightarrow> Exact \<notin> ?S \<and> Absent \<in> ?S \<and> Different \<notin> ?S"
    unfolding batch_live_match_def Let_def by (auto split: bool.splits)
  moreover have "?S = {Exact} \<longleftrightarrow> Exact \<in> ?S \<and> Absent \<notin> ?S \<and> Different \<notin> ?S"
    unfolding cases using every[of "\<lambda>m. m \<noteq> Exact \<longrightarrow> m \<notin> ?S"] by blast
  moreover have "?S = {Absent} \<longleftrightarrow> Exact \<notin> ?S \<and> Absent \<in> ?S \<and> Different \<notin> ?S"
    unfolding cases using every[of "\<lambda>m. m \<noteq> Absent \<longrightarrow> m \<notin> ?S"] by blast
  ultimately show "batch_live_match batch actual = Exact \<longleftrightarrow>
     batch_rows batch \<noteq> [] \<and> (\<forall>r \<in> set (batch_rows batch). live_match_of actual r = Exact)"
    "batch_live_match batch actual = Absent \<longleftrightarrow>
     batch_rows batch \<noteq> [] \<and> (\<forall>r \<in> set (batch_rows batch). live_match_of actual r = Absent)"
    unfolding some[symmetric] by blast+
qed

text \<open>
  C21. After a batch request of unknown outcome, a backup without ambiguous keys is read as proof that the
  batch landed only when every row of the batch is live, untagged, and carries each declared value, and as
  proof that nothing landed only when the gateway stores none of the rows; any mixture proves neither.
\<close>

theorem batch_outcome_proved:
  assumes "distinct (config_keys actual)"
  shows "(batch_live_match batch actual = Exact \<longleftrightarrow>
      batch_rows batch \<noteq> [] \<and> list_all (carries actual) (batch_rows batch)) \<and>
    (batch_live_match batch actual = Absent \<longleftrightarrow>
      batch_rows batch \<noteq> [] \<and> list_all (\<lambda>r. \<not> (\<exists>l. stands_for actual r l)) (batch_rows batch))"
  unfolding live_match_all live_match_cases[OF assms] list_all_iff by blast

definition sample_chunk :: batch_create where
  "sample_chunk = batch_create_default\<lparr>bc_proxies := [bare_proxy ''shop'' ''web'']\<rparr>"

theorem batch_outcome_proved_witness:
  "batch_live_match sample_chunk gateway_config_default = Absent \<longleftrightarrow>
     batch_rows sample_chunk \<noteq> [] \<and>
     list_all (\<lambda>r. \<not> (\<exists>l. stands_for gateway_config_default r l)) (batch_rows sample_chunk)"
proof -
  have "distinct (config_keys gateway_config_default)"
    by (simp add: config_keys_def gateway_config_default_def)
  then show ?thesis using batch_outcome_proved[of gateway_config_default sample_chunk] by blast
qed

end
