(* ===== verification/BatchPlan_Facts.thy ===== *)
theory BatchPlan_Facts
  imports BatchPlan "HOL-Library.Multiset"
begin

text \<open>
  What the batch plan guarantees: the union-find forest always answers, every row is in exactly one request,
  rows that refer to each other are never separated, and no request of several groups exceeds its budget.
\<close>

section \<open>The forest\<close>

text \<open>
  A forest is well formed when some height grows along its edges.  \<open>rep parents i r\<close> states that \<open>r\<close> is the
  root of \<open>i\<close>.
\<close>

definition forest :: "(nat \<Rightarrow> nat) \<Rightarrow> nat list \<Rightarrow> bool" where
  "forest h parents \<longleftrightarrow>
     (\<forall>i < length parents. parents ! i < length parents \<and> (parents ! i \<noteq> i \<longrightarrow> h i < h (parents ! i)))"

inductive rep :: "nat list \<Rightarrow> nat \<Rightarrow> nat \<Rightarrow> bool" for parents where
  rep_root: "parents ! i = i \<Longrightarrow> rep parents i i"
| rep_step: "parents ! i \<noteq> i \<Longrightarrow> rep parents (parents ! i) r \<Longrightarrow> rep parents i r"

inductive_cases rep_elim: "rep parents i r"

lemma rep_iff: "rep parents i r \<longleftrightarrow> (if parents ! i = i then r = i else rep parents (parents ! i) r)"
  by (auto elim: rep_elim intro: rep.intros)

lemma rep_unique:
  assumes "rep parents i r" and "rep parents i s"
  shows "r = s"
  using assms
proof (induction rule: rep.induct)
  case (rep_root i)
  then show ?case by (metis rep_iff)
next
  case (rep_step i r)
  then show ?case by (metis rep_iff)
qed

lemma rep_is_root: "rep parents i r \<Longrightarrow> parents ! r = r"
  by (induction rule: rep.induct)

lemma rep_bound:
  assumes "forest h parents" and "rep parents i r" and "i < length parents"
  shows "r < length parents"
  using assms(2,3) by (induction rule: rep.induct) (use assms(1) in \<open>auto simp: forest_def\<close>)

definition height_left :: "(nat \<Rightarrow> nat) \<Rightarrow> nat list \<Rightarrow> nat \<Rightarrow> nat" where
  "height_left h parents i = Max (h ` {..<length parents}) - h i"

lemma height_left_less:
  assumes "h i < h j" and "j < length parents"
  shows "height_left h parents j < height_left h parents i"
proof -
  have "h j \<le> Max (h ` {..<length parents})" by (rule Max_ge) (use assms(2) in auto)
  then show ?thesis using assms(1) by (simp add: height_left_def)
qed

lemma rep_exists:
  assumes "forest h parents" and "i < length parents"
  shows "\<exists>r. rep parents i r"
  using assms(2)
proof (induction "height_left h parents i" arbitrary: i rule: less_induct)
  case less
  show ?case
  proof (cases "parents ! i = i")
    case False
    then have "parents ! i < length parents" "h i < h (parents ! i)"
      using assms(1) less.prems by (auto simp: forest_def)
    then obtain r where "rep parents (parents ! i) r"
      using less.hyps[OF height_left_less] by blast
    then show ?thesis using False by (auto intro: rep_step)
  qed (auto intro: rep_root)
qed

text \<open>Halving the path of one node changes no root.\<close>

lemma halve_forest:
  assumes "forest h parents" and "i < length parents" and "parents ! i \<noteq> i"
  shows "forest h (parents[i := parents ! (parents ! i)])"
proof -
  have p: "parents ! i < length parents" "h i < h (parents ! i)" using assms by (auto simp: forest_def)
  have "parents ! (parents ! i) < length parents \<and>
      (parents ! (parents ! i) \<noteq> parents ! i \<longrightarrow> h (parents ! i) < h (parents ! (parents ! i)))"
    using assms(1)[unfolded forest_def, rule_format, OF p(1)] .
  then have "parents ! (parents ! i) < length parents" "h (parents ! i) \<le> h (parents ! (parents ! i))"
    by (auto simp: le_less)
  note up = this
  show ?thesis
    unfolding forest_def length_list_update
  proof (intro allI impI)
    fix k assume k: "k < length parents"
    let ?p = "parents[i := parents ! (parents ! i)]"
    show "?p ! k < length parents \<and> (?p ! k \<noteq> k \<longrightarrow> h k < h (?p ! k))"
    proof (cases "k = i")
      case True
      then show ?thesis using up p(2) assms(2) by simp
    next
      case False
      then show ?thesis using assms(1)[unfolded forest_def, rule_format, OF k] by simp
    qed
  qed
qed

lemma halve_rep:
  assumes f: "forest h parents" and i: "i < length parents" "parents ! i \<noteq> i" and j: "j < length parents"
  shows "rep (parents[i := parents ! (parents ! i)]) j r \<longleftrightarrow> rep parents j r"
proof -
  let ?p = "parents[i := parents ! (parents ! i)]"
  have dir: "rep ?p j r" if "rep parents j r" "j < length parents" for j r
    using that
  proof (induction rule: rep.induct)
    case (rep_root k)
    then show ?case using i by (cases "k = i") (auto intro: rep.rep_root)
  next
    case (rep_step k r)
    have k: "parents ! k < length parents" using f rep_step.prems by (auto simp: forest_def)
    then have r: "rep ?p (parents ! k) r" using rep_step.IH by blast
    show ?case
    proof (cases "k = i")
      case False
      then have "?p ! k = parents ! k" by simp
      then show ?thesis using r rep_step.hyps(1) by (metis rep.rep_step)
    next
      case True
      have at: "?p ! i = parents ! (parents ! i)" using i(1) by simp
      have less: "h i < h (parents ! i)" using f i by (auto simp: forest_def)
      have here: "?p ! (parents ! i) = parents ! (parents ! i)" using i(2) by simp
      have ne: "parents ! (parents ! i) \<noteq> i"
      proof
        assume "parents ! (parents ! i) = i"
        then have "h (parents ! i) < h i"
          using f[unfolded forest_def, rule_format, of "parents ! i"] f i by (auto simp: forest_def)
        then show False using less by simp
      qed
      have "rep ?p (parents ! (parents ! i)) r"
        using r[unfolded True] rep_iff[of ?p "parents ! i" r] here
        by (cases "parents ! (parents ! i) = parents ! i") simp_all
      then show ?thesis using at ne True by (metis rep.rep_step)
    qed
  qed
  have j': "j < length parents" by (rule j)
  obtain s where s: "rep parents j s" using rep_exists[OF f j] by blast
  then have "rep ?p j s" using dir j by blast
  then show ?thesis using s rep_unique by blast
qed

text \<open>The search ends at the root and leaves every root as it was.\<close>

lemma union_root_rep:
  assumes "forest h parents" and "i < length parents"
  shows "\<exists>parents' r. union_root parents i = Some (parents', r) \<and> rep parents i r \<and> r < length parents \<and>
    forest h parents' \<and> length parents' = length parents \<and>
    (\<forall>j < length parents. \<forall>s. rep parents' j s \<longleftrightarrow> rep parents j s)"
  using assms
proof (induction "height_left h parents i" arbitrary: parents i rule: less_induct)
  case less
  note f = less.prems(1) and i = less.prems(2)
  have p: "parents ! i < length parents" using f i by (simp add: forest_def)
  show ?case
  proof (cases "parents ! i = i")
    case True
    then have "union_root parents i = Some (parents, i)" using i by (subst union_root.simps) simp
    moreover have "rep parents i i" using True by (rule rep_root)
    ultimately show ?thesis using f i by auto
  next
    case False
    let ?q = "parents[i := parents ! (parents ! i)]"
    have q: "forest h ?q" by (rule halve_forest[OF f i False])
    have same: "rep ?q j s \<longleftrightarrow> rep parents j s" if "j < length parents" for j s
      by (rule halve_rep[OF f i False that])
    have at: "?q ! i = parents ! (parents ! i)" using i by simp
    have ne: "?q ! i \<noteq> i"
    proof
      assume "?q ! i = i"
      then have "rep ?q i i" by (rule rep_root)
      then have "rep parents i i" using same[OF i] by simp
      then have "parents ! i = i" by (rule rep_is_root)
      then show False using False by simp
    qed
    have next_lt: "?q ! i < length ?q" "h i < h (?q ! i)" using q i ne by (auto simp: forest_def)
    have "height_left h ?q (?q ! i) < height_left h ?q i" by (rule height_left_less) (use next_lt in auto)
    then have less': "height_left h ?q (?q ! i) < height_left h parents i" by (simp add: height_left_def)
    obtain parents' r where ih: "union_root ?q (?q ! i) = Some (parents', r)" "rep ?q (?q ! i) r" "r < length ?q"
        "forest h parents'" "length parents' = length ?q"
        "\<forall>j < length ?q. \<forall>s. rep parents' j s \<longleftrightarrow> rep ?q j s"
      using less.hyps[OF less' q next_lt(1)] by blast
    have "union_root parents i = Some (parents', r)"
      using ih(1) i p False by (subst union_root.simps) (simp add: Let_def)
    moreover have "rep parents i r" using rep_step[OF ne ih(2)] same[OF i] by blast
    ultimately show ?thesis using ih(3-6) same by auto
  qed
qed

lemma join_rep:
  assumes "rep parents j s" and "b < length parents" and "parents ! a = a" and "parents ! b = b"
  shows "rep (parents[b := a]) j (if s = b then a else s)"
  using assms(1)
proof (induction rule: rep.induct)
  case (rep_root k)
  have a: "rep (parents[b := a]) a a"
    by (rule rep.rep_root) (use assms in \<open>cases "a = b"; simp\<close>)
  show ?case
  proof (cases "k = b \<and> a \<noteq> b")
    case True
    then have "parents[b := a] ! k = a" "parents[b := a] ! k \<noteq> k" using assms(2) by auto
    then show ?thesis using a True by (metis rep.rep_step)
  next
    case False
    then have "parents[b := a] ! k = k" using rep_root assms(2) by (cases "k = b") auto
    then show ?thesis using False by (auto intro: rep.rep_root)
  qed
next
  case (rep_step k r)
  then have "k \<noteq> b" using assms(4) by blast
  then have "parents[b := a] ! k = parents ! k" by simp
  then show ?case using rep_step.hyps(1) rep_step.IH by (metis rep.rep_step)
qed

definition linked :: "nat list \<Rightarrow> nat \<Rightarrow> nat \<Rightarrow> bool" where
  "linked parents i j \<longleftrightarrow> (\<exists>r. rep parents i r \<and> rep parents j r)"

text \<open>A join links its pair, keeps every earlier link, and leaves a forest.\<close>

lemma union_join_ok:
  assumes f: "forest h parents" and a: "fst e < length parents" and b: "snd e < length parents"
  shows "\<exists>parents' h'. union_join e parents = Some parents' \<and> forest h' parents' \<and>
    length parents' = length parents \<and> linked parents' (fst e) (snd e) \<and>
    (\<forall>i < length parents. \<forall>j < length parents. linked parents i j \<longrightarrow> linked parents' i j)"
proof -
  obtain p1 r1 where r1: "union_root parents (fst e) = Some (p1, r1)" "rep parents (fst e) r1" "r1 < length parents"
      "forest h p1" "length p1 = length parents" "\<forall>j < length parents. \<forall>s. rep p1 j s \<longleftrightarrow> rep parents j s"
    using union_root_rep[OF f a] by blast
  obtain p2 r2 where r2: "union_root p1 (snd e) = Some (p2, r2)" "rep p1 (snd e) r2" "r2 < length p1"
      "forest h p2" "length p2 = length p1" "\<forall>j < length p1. \<forall>s. rep p2 j s \<longleftrightarrow> rep p1 j s"
    using union_root_rep[OF r1(4)] b r1(5) by metis
  let ?p = "p2[r2 := r1]"
  have same: "rep p2 j s \<longleftrightarrow> rep parents j s" if "j < length parents" for j s
    using that r1(5,6) r2(6) by simp
  have roots: "p2 ! r1 = r1" "p2 ! r2 = r2"
  proof -
    have "rep p2 (fst e) r1" using same[OF a] r1(2) by blast
    then show "p2 ! r1 = r1" by (rule rep_is_root)
    have "rep p2 (snd e) r2" using r2(2,6) b r1(5) by simp
    then show "p2 ! r2 = r2" by (rule rep_is_root)
  qed
  have b2: "r2 < length p2" using r2(3,5) by simp
  have moved: "rep ?p j (if s = r2 then r1 else s)" if "j < length parents" "rep parents j s" for j s
    by (rule join_rep[OF _ b2 roots]) (use same that in blast)
  have "forest (h(r1 := max (h r1) (h r2 + 1))) ?p"
    unfolding forest_def length_list_update
  proof (intro allI impI)
    fix k assume k: "k < length p2"
    let ?h = "h(r1 := max (h r1) (h r2 + 1))"
    show "?p ! k < length p2 \<and> (?p ! k \<noteq> k \<longrightarrow> ?h k < ?h (?p ! k))"
    proof (cases "k = r2")
      case True
      then show ?thesis using r1(3,5) r2(5) b2 by auto
    next
      case False
      then have at: "?p ! k = p2 ! k" by simp
      have old: "p2 ! k < length p2" "p2 ! k \<noteq> k \<longrightarrow> h k < h (p2 ! k)" using r2(4) k by (auto simp: forest_def)
      show ?thesis
      proof (cases "k = r1")
        case True
        then show ?thesis using at roots old by simp
      next
        case False
        then show ?thesis using at old by (auto simp: less_max_iff_disj)
      qed
    qed
  qed
  moreover have "linked ?p (fst e) (snd e)"
  proof -
    have "rep parents (snd e) r2" using r2(2) r1(6) b by blast
    then show ?thesis using moved[OF a r1(2)] moved[OF b] unfolding linked_def by (metis (full_types))
  qed
  moreover have "linked ?p i j" if "i < length parents" "j < length parents" "linked parents i j" for i j
    using moved[OF that(1)] moved[OF that(2)] that(3) unfolding linked_def by blast
  moreover have "union_join e parents = Some ?p" using r1(1) r2(1) by (simp add: union_join_def)
  ultimately show ?thesis using r1(5) r2(5) by auto
qed

lemma join_all:
  assumes "forest h parents" and "\<forall>e \<in> set es. fst e < length parents \<and> snd e < length parents"
  shows "\<exists>parents' h'. fold_option union_join es parents = Some parents' \<and> forest h' parents' \<and>
    length parents' = length parents \<and> (\<forall>e \<in> set es. linked parents' (fst e) (snd e)) \<and>
    (\<forall>i < length parents. \<forall>j < length parents. linked parents i j \<longrightarrow> linked parents' i j)"
  using assms
proof (induction es arbitrary: h parents)
  case (Cons e es)
  have e: "fst e < length parents" "snd e < length parents" using Cons.prems(2) by auto
  obtain p h' where p: "union_join e parents = Some p" "forest h' p" "length p = length parents"
      "linked p (fst e) (snd e)" "\<forall>i < length parents. \<forall>j < length parents. linked parents i j \<longrightarrow> linked p i j"
    using union_join_ok[OF Cons.prems(1) e] by blast
  obtain q h'' where q: "fold_option union_join es p = Some q" "forest h'' q" "length q = length p"
      "\<forall>e \<in> set es. linked q (fst e) (snd e)" "\<forall>i < length p. \<forall>j < length p. linked p i j \<longrightarrow> linked q i j"
    using Cons.IH[OF p(2)] Cons.prems(2) p(3) by auto
  have "linked q (fst e) (snd e)" using q(5) p(3,4) e by simp
  moreover have "\<forall>i < length parents. \<forall>j < length parents. linked parents i j \<longrightarrow> linked q i j"
    using q(5) p(3,5) by simp
  ultimately show ?case using p(1,3) q(1-4) by auto
qed auto

lemma start_forest: "forest (\<lambda>_. 0) [0..<n]"
  by (simp add: forest_def)

section \<open>Positions\<close>

lemma enumerate_indices: "fst ` set (List.enumerate k xs) = {k..<k + length xs}"
  unfolding set_map[symmetric] by simp

lemma bt_get_of_list: "bt_get (bt_of_list es) k = map_of (rev es) k"
proof (induction es rule: rev_induct)
  case (snoc e es)
  then show ?case by (simp add: bt_of_list_def bt_get_insert[OF bt_wf_of_list, unfolded bt_of_list_def])
qed (simp add: bt_of_list_def bt_get_def)

lemma position_bound:
  assumes "bt_get (row_positions key n rows) k = Some i"
  shows "n \<le> i \<and> i < n + length rows"
proof -
  have "(k, i) \<in> set (map (\<lambda>e. (key (snd e), fst e)) (List.enumerate n rows))"
    using assms by (auto simp: row_positions_def bt_get_of_list dest: map_of_SomeD)
  then show ?thesis by (auto simp: in_set_enumerate_eq)
qed

lemma position_here:
  assumes "distinct (map key rows)" and "i < length rows"
  shows "bt_get (row_positions key n rows) (key (rows ! i)) = Some (n + i)"
proof -
  let ?es = "map (\<lambda>e. (key (snd e), fst e)) (List.enumerate n rows)"
  have "map fst ?es = map key rows" by (rule nth_equalityI) (simp_all add: nth_enumerate_eq)
  then have "distinct (map fst ?es)" using assms(1) by (simp only:)
  then have d: "distinct (map fst (rev ?es))" by (simp only: rev_map[symmetric] distinct_rev)
  have "(n + i, rows ! i) \<in> set (List.enumerate n rows)" using assms(2) by (simp add: in_set_enumerate_eq)
  then have "(key (rows ! i), n + i) \<in> set ?es" by (auto simp del: enumerate_simps intro!: image_eqI[of _ _ "(n + i, rows ! i)"])
  then have "map_of (rev ?es) (key (rows ! i)) = Some (n + i)" using d by (metis map_of_eq_Some_iff set_rev)
  then show ?thesis by (simp add: row_positions_def bt_get_of_list)
qed

lemma joins_bound:
  assumes "e \<in> set (batch_joins plugin_configs proxies)"
  shows "fst e < length plugin_configs + length proxies \<and> snd e < length plugin_configs + length proxies"
proof -
  let ?n = "length plugin_configs"
  consider (association) i proxy where "(i, proxy) \<in> set (List.enumerate ?n proxies)"
        "e \<in> set (association_joins (row_positions plugin_id_key 0 plugin_configs) (i, proxy))"
    | (scope) i plugin where "(i, plugin) \<in> set (List.enumerate 0 plugin_configs)"
        "e \<in> set (scope_joins (row_positions proxy_id_key ?n proxies) (i, plugin))"
    using assms by (auto simp: batch_joins_def Let_def)
  then show ?thesis
  proof cases
    case association
    then obtain k where "bt_get (row_positions plugin_id_key 0 plugin_configs) k = Some (fst e)" "snd e = i"
      by (auto simp: association_joins_def List.map_filter_def)
    then show ?thesis using position_bound[of plugin_id_key 0 plugin_configs k "fst e"] association(1)
      by (auto simp: in_set_enumerate_eq)
  next
    case scope
    then obtain k where "bt_get (row_positions proxy_id_key ?n proxies) k = Some (snd e)" "fst e = i"
      by (auto simp: scope_joins_def split: if_splits option.splits Option.bind_splits)
    then show ?thesis using position_bound[of proxy_id_key ?n proxies k "snd e"] scope(1)
      by (auto simp: in_set_enumerate_eq)
  qed
qed

text \<open>A proxy and a plugin configuration that refer to each other.\<close>

definition related :: "proxy \<Rightarrow> plugin_config \<Rightarrow> bool" where
  "related proxy plugin \<longleftrightarrow> p_namespace proxy = pc_namespace plugin \<and>
     (pc_id plugin \<in> pa_plugin_config_id ` set (p_plugins proxy) \<or>
      pc_scope plugin = ProxyScope \<and> pc_proxy_id plugin = Some (p_id proxy))"

lemma related_joined:
  assumes d: "distinct (map plugin_id_key plugin_configs)" "distinct (map proxy_id_key proxies)"
    and i: "i < length plugin_configs" and j: "j < length proxies" and r: "related (proxies ! j) (plugin_configs ! i)"
  shows "(i, length plugin_configs + j) \<in> set (batch_joins plugin_configs proxies)"
proof -
  let ?n = "length plugin_configs" and ?plugin = "plugin_configs ! i" and ?proxy = "proxies ! j"
  have here: "(i, ?plugin) \<in> set (List.enumerate 0 plugin_configs)"
      "(?n + j, ?proxy) \<in> set (List.enumerate ?n proxies)"
    using i j by (auto simp: in_set_enumerate_eq)
  note plugin = position_here[OF d(1) i, of 0] and proxy = position_here[OF d(2) j, of ?n]
  from r consider (association) a where "a \<in> set (p_plugins ?proxy)" "pa_plugin_config_id a = pc_id ?plugin"
      "p_namespace ?proxy = pc_namespace ?plugin"
    | (scope) "pc_scope ?plugin = ProxyScope" "pc_proxy_id ?plugin = Some (p_id ?proxy)"
      "p_namespace ?proxy = pc_namespace ?plugin"
    by (auto simp: related_def)
  then show ?thesis
  proof cases
    case association
    have "(i, ?n + j) \<in> set (association_joins (row_positions plugin_id_key 0 plugin_configs) (?n + j, ?proxy))"
      using association plugin by (force simp: association_joins_def List.map_filter_def)
    then show ?thesis using here(2) unfolding batch_joins_def Let_def set_append set_concat set_map by blast
  next
    case scope
    have "(i, ?n + j) \<in> set (scope_joins (row_positions proxy_id_key ?n proxies) (i, ?plugin))"
      using scope proxy by (simp add: scope_joins_def)
    then show ?thesis using here(1) unfolding batch_joins_def Let_def set_append set_concat set_map by blast
  qed
qed

section \<open>Groups\<close>

abbreviation group_at :: "(nat, batch_create) btree_map \<Rightarrow> nat \<Rightarrow> batch_create" where
  "group_at m r \<equiv> (case bt_get m r of Some b \<Rightarrow> b | None \<Rightarrow> batch_create_default)"

lemma place_all:
  assumes "forest h parents" and "\<forall>j < length parents. rep parents j (R j)" and "bt_wf m"
    and "\<forall>e \<in> set es. fst e < length parents"
  shows "\<exists>parents' m'. fold_option place_row es (parents, m) = Some (parents', m') \<and> bt_wf m' \<and>
    set (bt_keys m') = set (bt_keys m) \<union> R ` fst ` set es \<and>
    (\<forall>r. group_at m' r = fold snd (filter (\<lambda>e. R (fst e) = r) es) (group_at m r))"
  using assms
proof (induction es arbitrary: parents m)
  case (Cons e es)
  have e: "fst e < length parents" using Cons.prems(4) by simp
  obtain p r where p: "union_root parents (fst e) = Some (p, r)" "rep parents (fst e) r" "forest h p"
      "length p = length parents" "\<forall>j < length parents. \<forall>s. rep p j s \<longleftrightarrow> rep parents j s"
    using union_root_rep[OF Cons.prems(1) e] by blast
  have r: "r = R (fst e)" using p(2) Cons.prems(2) e rep_unique by blast
  let ?m = "bt_insert r (snd e (group_at m r)) m"
  have wf: "bt_wf ?m" using Cons.prems(3) by (rule bt_wf_insert)
  have step: "place_row e (parents, m) = Some (p, ?m)" using p(1) by (simp add: place_row_def)
  have "\<forall>j < length p. rep p j (R j)" using p(4,5) Cons.prems(2) by simp
  then obtain parents' m' where ih: "fold_option place_row es (p, ?m) = Some (parents', m')" "bt_wf m'"
      "set (bt_keys m') = set (bt_keys ?m) \<union> R ` fst ` set es"
      "\<forall>s. group_at m' s = fold snd (filter (\<lambda>e. R (fst e) = s) es) (group_at ?m s)"
    using Cons.IH[OF p(3) _ wf] Cons.prems(4) p(4) by fastforce
  have keys: "set (bt_keys ?m) = insert r (set (bt_keys m))" by (simp add: bt_keys_def set_bt_insert_keys)
  have "group_at ?m s = (if s = r then snd e (group_at m r) else group_at m s)" for s
    using Cons.prems(3) by (simp add: bt_get_insert)
  then have "group_at m' s = fold snd (filter (\<lambda>e. R (fst e) = s) (e # es)) (group_at m s)" for s
    using ih(4) r by simp
  then show ?case using step ih(1-3) keys r by auto
qed simp

text \<open>The rows whose root is \<open>r\<close>.\<close>

definition part_of :: "(nat \<Rightarrow> nat) \<Rightarrow> plugin_config list \<Rightarrow> proxy list \<Rightarrow> nat \<Rightarrow> batch_create" where
  "part_of R plugin_configs proxies r = \<lparr>bc_upstreams = [], bc_consumers = [],
     bc_proxies = map snd (filter (\<lambda>e. R (fst e) = r) (List.enumerate (length plugin_configs) proxies)),
     bc_plugin_configs = map snd (filter (\<lambda>e. R (fst e) = r) (List.enumerate 0 plugin_configs))\<rparr>"

lemma fold_push_plugin:
  "fold snd (filter (\<lambda>e. R (fst e) = r) (map (\<lambda>e. (fst e, push_plugin (snd e))) es)) b =
     b\<lparr>bc_plugin_configs := bc_plugin_configs b @ map snd (filter (\<lambda>e. R (fst e) = r) es)\<rparr>"
  by (induction es arbitrary: b) (auto simp: push_plugin_def)

lemma fold_push_proxy:
  "fold snd (filter (\<lambda>e. R (fst e) = r) (map (\<lambda>e. (fst e, push_proxy (snd e))) es)) b =
     b\<lparr>bc_proxies := bc_proxies b @ map snd (filter (\<lambda>e. R (fst e) = r) es)\<rparr>"
  by (induction es arbitrary: b) (auto simp: push_proxy_def)

lemma connected_ok:
  "\<exists>R rs. connected_groups plugin_configs proxies = Some (map (part_of R plugin_configs proxies) rs) \<and> distinct rs \<and>
     set rs = R ` {..<length plugin_configs + length proxies} \<and>
     (\<forall>e \<in> set (batch_joins plugin_configs proxies). R (fst e) = R (snd e))"
proof -
  let ?n = "length plugin_configs + length proxies"
  let ?es = "map (\<lambda>e. (fst e, push_plugin (snd e))) (List.enumerate 0 plugin_configs) @
         map (\<lambda>e. (fst e, push_proxy (snd e))) (List.enumerate (length plugin_configs) proxies)"
  have in_range: "\<forall>e \<in> set (batch_joins plugin_configs proxies). fst e < length [0..<?n] \<and> snd e < length [0..<?n]"
    using joins_bound by simp
  obtain parents h where joined: "fold_option union_join (batch_joins plugin_configs proxies) [0..<?n] = Some parents"
      "forest h parents" "length parents = ?n" "\<forall>e \<in> set (batch_joins plugin_configs proxies). linked parents (fst e) (snd e)"
    using join_all[OF start_forest in_range] by auto
  define R where "R j = (SOME r. rep parents j r)" for j
  have R: "rep parents j (R j)" if "j < ?n" for j
    unfolding R_def by (rule someI_ex) (use rep_exists[OF joined(2)] joined(3) that in simp)
  have fsts: "fst ` set ?es = {..<?n}" by (simp add: image_Un image_image enumerate_indices) auto
  have reps: "\<forall>j < length parents. rep parents j (R j)" using R joined(3) by simp
  have indices: "\<forall>e \<in> set ?es. fst e < length parents"
  proof
    fix e assume "e \<in> set ?es"
    then have "fst e \<in> fst ` set ?es" by blast
    then show "fst e < length parents" unfolding fsts joined(3) by simp
  qed
  obtain parents' m where placed: "fold_option place_row ?es (parents, []) = Some (parents', m)" "bt_wf m"
      "set (bt_keys m) = set (bt_keys ([] :: (nat, batch_create) btree_map)) \<union> R ` fst ` set ?es"
      "\<forall>r. group_at m r = fold snd (filter (\<lambda>e. R (fst e) = r) ?es) (group_at [] r)"
    using place_all[OF joined(2) reps bt_wf_Nil indices] by blast
  have groups: "group_at m r = part_of R plugin_configs proxies r" for r
    using placed(4) by (simp add: filter_append fold_push_plugin fold_push_proxy part_of_def batch_create_default_def bt_get_def)
  have "map snd m = map (\<lambda>e. group_at m (fst e)) m"
    by (rule map_cong[OF refl]) (use placed(2) in \<open>auto simp: bt_get_def bt_wf_def strict_sorted_iff\<close>)
  then have vals: "map snd m = map (part_of R plugin_configs proxies) (bt_keys m)"
    unfolding groups by (simp add: bt_keys_def)
  have "connected_groups plugin_configs proxies = Some (map snd m)"
    using joined(1) placed(1) by (simp add: connected_groups_def)
  moreover have "distinct (bt_keys m)" using placed(2) by (simp add: bt_wf_def bt_keys_def strict_sorted_iff)
  moreover have "set (bt_keys m) = R ` {..<?n}" using placed(3) fsts by (simp add: bt_keys_def)
  moreover have "R (fst e) = R (snd e)" if e: "e \<in> set (batch_joins plugin_configs proxies)" for e
  proof -
    obtain r where r: "rep parents (fst e) r" "rep parents (snd e) r" using joined(4) e unfolding linked_def by blast
    have b: "fst e < ?n" "snd e < ?n" using joins_bound[OF e] by auto
    show ?thesis using rep_unique[OF R[OF b(1)] r(1)] rep_unique[OF R[OF b(2)] r(2)] by simp
  qed
  ultimately show ?thesis unfolding vals by blast
qed

lemma mset_parts:
  assumes "distinct rs" and "\<forall>x \<in> set xs. f x \<in> set rs"
  shows "mset (concat (map (\<lambda>r. filter (\<lambda>x. f x = r) xs) rs)) = mset xs"
  using assms(2)
proof (induction xs)
  case Nil
  have "concat (map (\<lambda>r. filter (\<lambda>x. f x = r) []) rs) = []" by (induction rs) simp_all
  then show ?case by (simp only: mset.simps)
next
  case (Cons x xs)
  obtain as bs where rs: "rs = as @ f x # bs" using Cons.prems by (metis list.set_intros(1) split_list)
  have "f x \<notin> set as" "f x \<notin> set bs" using assms(1) rs by auto
  then have same: "map (\<lambda>r. filter (\<lambda>y. f y = r) (x # xs)) as = map (\<lambda>r. filter (\<lambda>y. f y = r) xs) as"
      "map (\<lambda>r. filter (\<lambda>y. f y = r) (x # xs)) bs = map (\<lambda>r. filter (\<lambda>y. f y = r) xs) bs"
    by auto
  have "mset (concat (map (\<lambda>r. filter (\<lambda>y. f y = r) (x # xs)) rs)) =
      add_mset x (mset (concat (map (\<lambda>r. filter (\<lambda>y. f y = r) xs) rs)))"
    unfolding rs map_append list.map concat_append concat.simps same by simp
  then show ?case using Cons by simp
qed

lemma concat_snd_filter:
  assumes "distinct rs" and "\<forall>e \<in> set es. R (fst e) \<in> set rs"
  shows "mset (concat (map (\<lambda>r. map snd (filter (\<lambda>e. R (fst e) = r) es)) rs)) = mset (map snd es)"
proof -
  have "concat (map (\<lambda>r. map snd (filter (\<lambda>e. R (fst e) = r) es)) rs) =
      map snd (concat (map (\<lambda>r. filter (\<lambda>e. R (fst e) = r) es) rs))"
    by (simp add: map_concat comp_def)
  then show ?thesis using mset_parts[OF assms(1), of es "\<lambda>e. R (fst e)"] assms(2) by simp
qed

definition rows_once :: "batch_create list \<Rightarrow> batch_create \<Rightarrow> bool" where
  "rows_once groups batch \<longleftrightarrow>
     mset (concat (map bc_upstreams groups)) = mset (bc_upstreams batch) \<and>
     mset (concat (map bc_consumers groups)) = mset (bc_consumers batch) \<and>
     mset (concat (map bc_proxies groups)) = mset (bc_proxies batch) \<and>
     mset (concat (map bc_plugin_configs groups)) = mset (bc_plugin_configs batch)"

definition together :: "batch_create list \<Rightarrow> batch_create \<Rightarrow> bool" where
  "together groups batch \<longleftrightarrow>
     (\<forall>proxy \<in> set (bc_proxies batch). \<forall>plugin \<in> set (bc_plugin_configs batch). related proxy plugin \<longrightarrow>
        (\<forall>g \<in> set groups. proxy \<in> set (bc_proxies g) \<longleftrightarrow> plugin \<in> set (bc_plugin_configs g)))"

lemma part_member:
  assumes "distinct xs" and "j < length xs"
  shows "xs ! j \<in> snd ` set (filter (\<lambda>e. R (fst e) = r) (List.enumerate n xs)) \<longleftrightarrow> R (n + j) = r"
proof
  assume "xs ! j \<in> snd ` set (filter (\<lambda>e. R (fst e) = r) (List.enumerate n xs))"
  then obtain e where e: "e \<in> set (List.enumerate n xs)" "R (fst e) = r" "snd e = xs ! j" by auto
  then have "fst e - n = j" using assms by (auto simp: in_set_enumerate_eq nth_eq_iff_index_eq)
  then show "R (n + j) = r" using e by (auto simp: in_set_enumerate_eq)
next
  assume "R (n + j) = r"
  moreover have "(n + j, xs ! j) \<in> set (List.enumerate n xs)" using assms(2) by (simp add: in_set_enumerate_eq)
  ultimately show "xs ! j \<in> snd ` set (filter (\<lambda>e. R (fst e) = r) (List.enumerate n xs))" by force
qed

lemma member_nonempty: "x \<in> set xs \<Longrightarrow> xs \<noteq> []"
  by auto

lemma dependency_groups_ok:
  assumes d: "distinct (map plugin_id_key (bc_plugin_configs batch))" "distinct (map proxy_id_key (bc_proxies batch))"
  shows "\<exists>groups. batch_dependency_groups batch = Some groups \<and> rows_once groups batch \<and> together groups batch \<and>
    list_all (\<lambda>g. \<not> batch_is_empty g) groups"
proof -
  let ?P = "sort_key plugin_id_key (bc_plugin_configs batch)" and ?X = "sort_key proxy_id_key (bc_proxies batch)"
  let ?U = "map (\<lambda>u. batch_create_default\<lparr>bc_upstreams := [u]\<rparr>) (sort_key upstream_id_key (bc_upstreams batch))"
  let ?C = "map (\<lambda>c. batch_create_default\<lparr>bc_consumers := [c]\<rparr>) (sort_key consumer_id_key (bc_consumers batch))"
  obtain R rs where c: "connected_groups ?P ?X = Some (map (part_of R ?P ?X) rs)" "distinct rs"
      "set rs = R ` {..<length ?P + length ?X}" "\<forall>e \<in> set (batch_joins ?P ?X). R (fst e) = R (snd e)"
    using connected_ok[of ?P ?X] by blast
  let ?G = "map (part_of R ?P ?X) rs"
  have groups: "batch_dependency_groups batch = Some (?U @ ?C @ ?G)" using c(1) by (simp add: batch_dependency_groups_def)
  have single: "concat (map (f \<circ> (\<lambda>u. g u)) xs) = []" if "\<And>u. f (g u) = []" for f :: "batch_create \<Rightarrow> 'r list" and g xs
    using that by (induction xs) simp_all
  have plugin_parts: "mset (concat (map (bc_plugin_configs \<circ> part_of R ?P ?X) rs)) = mset ?P"
    using concat_snd_filter[OF c(2), of "List.enumerate 0 ?P" R] c(3)
    by (auto simp: part_of_def comp_def in_set_enumerate_eq)
  have proxy_parts: "mset (concat (map (bc_proxies \<circ> part_of R ?P ?X) rs)) = mset ?X"
    using concat_snd_filter[OF c(2), of "List.enumerate (length ?P) ?X" R] c(3)
    by (auto simp: part_of_def comp_def in_set_enumerate_eq)
  have "rows_once (?U @ ?C @ ?G) batch"
    using plugin_parts proxy_parts
    by (simp add: rows_once_def batch_create_default_def comp_def part_of_def)
  moreover have "together (?U @ ?C @ ?G) batch"
    unfolding together_def
  proof (intro ballI impI)
    fix proxy plugin g
    assume m: "proxy \<in> set (bc_proxies batch)" "plugin \<in> set (bc_plugin_configs batch)" and r: "related proxy plugin"
      and g: "g \<in> set (?U @ ?C @ ?G)"
    have dP: "distinct (map plugin_id_key ?P)" and dX: "distinct (map proxy_id_key ?X)"
      using d by (simp_all add: distinct_map)
    have "plugin \<in> set ?P" "proxy \<in> set ?X" using m by (simp_all only: set_sort)
    then obtain i j where i: "i < length ?P" "?P ! i = plugin" and j: "j < length ?X" "?X ! j = proxy"
      unfolding in_set_conv_nth by blast
    have "(i, length ?P + j) \<in> set (batch_joins ?P ?X)" by (rule related_joined[OF dP dX i(1) j(1)]) (use r i j in simp)
    then have same: "R i = R (length ?P + j)" using c(4) by force
    show "proxy \<in> set (bc_proxies g) \<longleftrightarrow> plugin \<in> set (bc_plugin_configs g)"
    proof (cases "g \<in> set ?G")
      case True
      then obtain q where q: "g = part_of R ?P ?X q" by auto
      have "proxy \<in> set (bc_proxies g) \<longleftrightarrow> R (length ?P + j) = q"
        using part_member[OF distinct_map[THEN iffD1, THEN conjunct1, OF dX] j(1), of R q "length ?P"] j(2) q by (simp add: part_of_def)
      moreover have "plugin \<in> set (bc_plugin_configs g) \<longleftrightarrow> R i = q"
        using part_member[OF distinct_map[THEN iffD1, THEN conjunct1, OF dP] i(1), of R q 0] i(2) q by (simp add: part_of_def)
      ultimately show ?thesis using same by simp
    next
      case False
      then show ?thesis using g by (auto simp: batch_create_default_def)
    qed
  qed
  moreover have "list_all (\<lambda>g. \<not> batch_is_empty g) (?U @ ?C @ ?G)"
  proof -
    have "\<not> batch_is_empty (part_of R ?P ?X r)" if r: "r \<in> set rs" for r
    proof -
      obtain k where k: "k < length ?P + length ?X" "r = R k" using c(3) r by auto
      show ?thesis
      proof (cases "k < length ?P")
        case True
        then have "(k, ?P ! k) \<in> set (filter (\<lambda>e. R (fst e) = r) (List.enumerate 0 ?P))"
          using k by (simp add: in_set_enumerate_eq)
        then have "filter (\<lambda>e. R (fst e) = r) (List.enumerate 0 ?P) \<noteq> []" by (rule member_nonempty)
        then show ?thesis by (simp add: batch_is_empty_def batch_len_def part_of_def)
      next
        case False
        then have "(k, ?X ! (k - length ?P)) \<in> set (filter (\<lambda>e. R (fst e) = r) (List.enumerate (length ?P) ?X))"
          using k by (simp add: in_set_enumerate_eq less_diff_conv2)
        then have "filter (\<lambda>e. R (fst e) = r) (List.enumerate (length ?P) ?X) \<noteq> []" by (rule member_nonempty)
        then show ?thesis by (simp add: batch_is_empty_def batch_len_def part_of_def)
      qed
    qed
    then show ?thesis by (auto simp: list_all_iff batch_is_empty_def batch_len_def batch_create_default_def)
  qed
  ultimately show ?thesis using groups by blast
qed

section \<open>Packing\<close>

definition merged :: "batch_create list \<Rightarrow> batch_create" where
  "merged groups = \<lparr>bc_upstreams = concat (map bc_upstreams groups), bc_consumers = concat (map bc_consumers groups),
     bc_proxies = concat (map bc_proxies groups), bc_plugin_configs = concat (map bc_plugin_configs groups)\<rparr>"

lemma merged_Nil: "merged [] = batch_create_default"
  by (simp add: merged_def batch_create_default_def)

lemma merged_snoc: "merged (gs @ [g]) = extend_batch (merged gs) g"
  by (simp add: merged_def extend_batch_def)

lemma merged_empty: "list_all (\<lambda>g. \<not> batch_is_empty g) gs \<Longrightarrow> batch_is_empty (merged gs) \<longleftrightarrow> gs = []"
  by (cases gs) (auto simp: batch_is_empty_def batch_len_def merged_def)

definition part_fits :: "(batch_create \<Rightarrow> nat) \<Rightarrow> nat \<Rightarrow> batch_create list \<Rightarrow> bool" where
  "part_fits sz budget part \<longleftrightarrow> part \<noteq> [] \<and> (length part = 1 \<or> sum_list (map sz part) \<le> budget)"

definition pack_inv ::
    "(batch_create \<Rightarrow> nat) \<Rightarrow> nat \<Rightarrow> batch_create list \<Rightarrow> batch_create list list \<Rightarrow> batch_create list \<Rightarrow> packing \<Rightarrow> bool"
  where
  "pack_inv sz budget gs parts cur st \<longleftrightarrow>
     concat parts @ cur = gs \<and> pk_chunks st = map merged parts \<and> pk_current st = merged cur \<and>
     pk_bytes st = sum_list (map sz cur) \<and> list_all (part_fits sz budget) parts \<and>
     (cur \<noteq> [] \<longrightarrow> part_fits sz budget cur)"

lemma pack_group_inv:
  assumes inv: "pack_inv sz budget gs parts cur st" and ne: "list_all (\<lambda>g. \<not> batch_is_empty g) gs"
  shows "\<exists>parts' cur' st'. pack_group (\<lambda>g. Inr (sz g)) budget g st = Inr st' \<and> pack_inv sz budget (gs @ [g]) parts' cur' st'"
proof -
  have cur: "batch_is_empty (pk_current st) \<longleftrightarrow> cur = []"
    using inv ne merged_empty[of cur] by (auto simp: pack_inv_def)
  show ?thesis
  proof (cases "cur \<noteq> [] \<and> budget < pk_bytes st + sz g")
    case True
    then have "pack_inv sz budget (gs @ [g]) (parts @ [cur]) [g]
        (st\<lparr>pk_chunks := pk_chunks st @ [pk_current st], pk_current := extend_batch batch_create_default g,
            pk_bytes := 0 + sz g\<rparr>)"
      using inv merged_snoc[of "[]" g] by (auto simp: pack_inv_def part_fits_def merged_Nil)
    then show ?thesis using True cur by (auto simp: pack_group_def Let_def)
  next
    case False
    then have "pack_inv sz budget (gs @ [g]) parts (cur @ [g])
        (st\<lparr>pk_current := extend_batch (pk_current st) g, pk_bytes := pk_bytes st + sz g\<rparr>)"
      using inv merged_snoc[of cur g] by (auto simp: pack_inv_def part_fits_def)
    then show ?thesis using False cur by (auto simp: pack_group_def Let_def)
  qed
qed

lemma pack_groups_ok:
  assumes "list_all (\<lambda>g. \<not> batch_is_empty g) groups"
  shows "\<exists>parts. pack_groups (\<lambda>g. Inr (sz g)) max_bytes groups = Inr (map merged parts) \<and> concat parts = groups \<and>
    list_all (part_fits sz (batch_budget max_bytes)) parts"
proof -
  let ?b = "batch_budget max_bytes"
  have "\<exists>parts cur st'. fold_result (pack_group (\<lambda>g. Inr (sz g)) ?b) rest st = Inr st' \<and>
      pack_inv sz ?b (gs @ rest) parts cur st'"
    if "pack_inv sz ?b gs parts cur st" "list_all (\<lambda>g. \<not> batch_is_empty g) (gs @ rest)" for gs rest parts cur st
    using that
  proof (induction rest arbitrary: gs parts cur st)
    case (Cons g rest)
    obtain parts' cur' st' where step: "pack_group (\<lambda>g. Inr (sz g)) ?b g st = Inr st'"
        "pack_inv sz ?b (gs @ [g]) parts' cur' st'"
      using pack_group_inv[OF Cons.prems(1), of g] Cons.prems(2) by auto
    show ?case using Cons.IH[OF step(2)] Cons.prems(2) step(1) by simp
  qed auto
  moreover have "pack_inv sz ?b [] [] [] \<lparr>pk_chunks = [], pk_current = batch_create_default, pk_bytes = 0\<rparr>"
    by (simp add: pack_inv_def merged_Nil)
  ultimately obtain parts cur st where st:
      "fold_result (pack_group (\<lambda>g. Inr (sz g)) ?b) groups
         \<lparr>pk_chunks = [], pk_current = batch_create_default, pk_bytes = 0\<rparr> = Inr st"
      "pack_inv sz ?b groups parts cur st"
    using assms by (metis append_Nil)
  have cur: "batch_is_empty (pk_current st) \<longleftrightarrow> cur = []"
    using st(2) assms merged_empty[of cur] by (auto simp: pack_inv_def)
  show ?thesis
  proof (cases "cur = []")
    case True
    then show ?thesis using st cur by (auto simp: pack_groups_def pack_inv_def intro!: exI[of _ parts])
  next
    case False
    then show ?thesis using st cur by (auto simp: pack_groups_def pack_inv_def intro!: exI[of _ "parts @ [cur]"])
  qed
qed

lemma merged_rows_once: "rows_once (map merged parts) batch \<longleftrightarrow> rows_once (concat parts) batch"
proof -
  have "concat (map (f \<circ> merged) parts) = concat (map f (concat parts))"
    if "\<And>gs. f (merged gs) = concat (map f gs)" for f :: "batch_create \<Rightarrow> 'r list"
    using that by (induction parts) simp_all
  moreover have "concat (map (bc_upstreams \<circ> merged) parts) = concat (map bc_upstreams (concat parts))"
      "concat (map (bc_consumers \<circ> merged) parts) = concat (map bc_consumers (concat parts))"
      "concat (map (bc_proxies \<circ> merged) parts) = concat (map bc_proxies (concat parts))"
      "concat (map (bc_plugin_configs \<circ> merged) parts) = concat (map bc_plugin_configs (concat parts))"
    by (induction parts) (simp_all add: merged_def)
  ultimately show ?thesis unfolding rows_once_def map_map by simp
qed

lemma merged_together: "together (concat parts) batch \<Longrightarrow> together (map merged parts) batch"
  by (fastforce simp: together_def merged_def)

text \<open>
  C18.  The batch plan always ends, and it separates nothing that belongs together.  Every new row is in exactly
  one request; a proxy and a plugin configuration that refer to each other, by association or by scope, are in
  the same request; and a request whose groups do not fit the budget together holds a single group, which no
  request could hold less of.
\<close>

theorem split_batch_exact:
  assumes "distinct (map plugin_id_key (bc_plugin_configs batch))"
    and "distinct (map proxy_id_key (bc_proxies batch))"
  shows "\<exists>parts. batch_dependency_groups batch = Some (concat parts) \<and>
    split_batch (\<lambda>g. Inr (sz g)) batch max_bytes = Some (Inr (map merged parts)) \<and>
    list_all (part_fits sz (batch_budget max_bytes)) parts \<and>
    rows_once (map merged parts) batch \<and> together (map merged parts) batch"
proof -
  obtain groups where g: "batch_dependency_groups batch = Some groups" "rows_once groups batch" "together groups batch"
      "list_all (\<lambda>g. \<not> batch_is_empty g) groups"
    using dependency_groups_ok[OF assms] by blast
  obtain parts where p: "pack_groups (\<lambda>g. Inr (sz g)) max_bytes groups = Inr (map merged parts)" "concat parts = groups"
      "list_all (part_fits sz (batch_budget max_bytes)) parts"
    using pack_groups_ok[OF g(4)] by blast
  then show ?thesis using g merged_rows_once merged_together by (auto simp: split_batch_def intro!: exI[of _ parts])
qed

definition sample_batch :: batch_create where
  "sample_batch = batch_create_default\<lparr>
     bc_proxies := [bare_proxy ''shop'' ''web'', bare_proxy ''shop'' ''api''],
     bc_plugin_configs := [(bare_plugin_config ''shop'' ''auth'' ''key_auth'')\<lparr>pc_scope := ProxyScope,
       pc_proxy_id := Some ''web''\<rparr>]\<rparr>"

theorem split_batch_exact_witness:
  "\<exists>parts. split_batch (\<lambda>g. Inr (batch_len g)) sample_batch 514 = Some (Inr (map merged parts)) \<and>
     list_all (part_fits batch_len 2) parts \<and> together (map merged parts) sample_batch"
proof -
  have "distinct (map plugin_id_key (bc_plugin_configs sample_batch))" by (simp add: sample_batch_def)
  moreover have "distinct (map proxy_id_key (bc_proxies sample_batch))"
    by (simp add: sample_batch_def bare_proxy_def)
  moreover have "batch_budget 514 = 2" by (simp add: batch_budget_def BATCH_ENVELOPE_OVERHEAD_def)
  ultimately show ?thesis
    using split_batch_exact[of sample_batch batch_len 514] by metis
qed

end
