(* ===== verification/Spec2Isabelle.thy ===== *)
theory Spec2Isabelle
  imports Reconcile_Facts NamespaceDiffs Diff_Modify Redact PolicyDomains_Facts Override_Facts OverrideInput_Facts
    LinkHeader_Facts Security_Facts SlotSafety Verdict_Facts Allocator_Facts
    Breaking_Facts ResourceTree_Facts Assemble_Facts SpecGraph_Facts ApplyPlan_Facts BatchPlan_Facts
begin

text \<open>
  gitforgeops reconciles a git repository of gateway resources with a live Ferrum Edge gateway: it
  loads the repository, assembles the desired configuration, compares it with the gateway's backup
  per namespace, and applies the difference, keeping a ledger of what it put there.  This library
  models the decision core of that program, file by file, and proves what makes it safe to run
  unattended.  Source files are named relative to \<open>src/\<close> of the repository.

  \<^bold>\<open>Theories and what they model.\<close>

  \<^item> \<open>Prelude\<close>, \<open>Maps\<close>, \<open>Json\<close>: strings as lists of UTF-8 bytes, results, ordered maps and sets of
    the standard library behind the locales \<open>dict\<close> and \<open>finset\<close>, JSON values.
  \<^item> \<open>Resources\<close>, \<open>Managed\<close>, \<open>Schema\<close>: the typed resource model of \<open>config/schema.rs\<close>, one record per
    struct, one datatype per enum, and the value the derived serializer gives for each.
  \<^item> \<open>StateKey\<close>: the canonical identity of a resource (\<open>state_key\<close> and its parser in
    \<open>diff/resource_diff.rs\<close>), through the locale \<open>percent_codec\<close>.
  \<^item> \<open>Config\<close>: \<open>config/mod.rs\<close>, selecting and splitting by namespace and the duplicate check.
  \<^item> \<open>Redact\<close>: detection and removal of URL userinfo (\<open>secrets/service_discovery.rs\<close>) and the redaction
    of rendered changes in \<open>diff/resource_diff.rs\<close>.
  \<^item> \<open>Diff\<close>, \<open>Diff_Facts\<close>, \<open>Diff_Safety\<close>, \<open>Compare\<close>, \<open>Diff_Modify\<close>: the diff of two configurations
    (\<open>diff/resource_diff.rs\<close>).  Hash map iteration is an argument, any rearrangement of the keys.
    The facts give the rows of the result independently of that order, the deletions and additions exactly,
    the exact meaning of the field comparison (the locale \<open>managed_kind\<close>), and with it the modifications
    exactly, down to the fields each names.
  \<^item> \<open>Ledger\<close>, \<open>Ledger_Facts\<close>: the ownership ledger (\<open>state.rs\<close>), all its operations as functions on
    the state record, and the step relation \<open>ledger_step\<close> over which the invariant (version, order,
    disjointness, markers, readable keys) and the origin of delete authority are proved by rule induction.
  \<^item> \<open>RepoConfig\<close>, \<open>RepoConfig_Facts\<close>, \<open>Resolved\<close>: \<open>.gitforgeops/config.yaml\<close> and its validation
    (\<open>config/repo_config.rs\<close>) and the settings of one run (\<open>config/resolved.rs\<close>).
  \<^item> \<open>Reconcile\<close>, \<open>Reconcile_Facts\<close>, \<open>NamespaceDiffs\<close>: the namespaces and the delete fence of a run (\<open>reconcile.rs\<close>), the
    exclusive scope check (\<open>pipeline.rs\<close>), the diff over all namespaces and the large-prune guard
    (\<open>main.rs\<close>, \<open>apply/api_target.rs\<close>).
  \<^item> \<open>Catalog\<close>, \<open>Catalog_Facts\<close>: \<open>plugin_catalog.rs\<close>, the plugin tables, the scope merge that decides which
    plugins a proxy runs, and authentication coverage.
  \<^item> \<open>Diagnostics\<close>: \<open>diagnostics.rs\<close>, what may reach a CI log.
  \<^item> \<open>Text\<close>, \<open>IpAddr\<close>: the string operations and the IP address parser of the standard library that the
    components below use.
  \<^item> \<open>PolicyConfig\<close>, \<open>PolicyRules\<close>, \<open>PolicyAuth\<close>, \<open>PolicyDomains\<close>, \<open>Policy\<close>, \<open>Policy_Facts\<close>, \<open>PolicyDomains_Facts\<close>:
    the policy file, one evaluation function per rule (\<open>policy/config.rs\<close>, \<open>policy/rules/\<close>) and the registry
    (\<open>policy/registry.rs\<close>); the locale \<open>policy_rule\<close> is what every rule promises.
  \<^item> \<open>Override\<close>, \<open>Override_Evidence\<close>, \<open>Override_Facts\<close>, \<open>OverrideInput\<close>, \<open>OverrideInput_Facts\<close>, \<open>LinkHeader\<close>,
    \<open>LinkHeader_Facts\<close>: policy overrides on GitHub evidence (\<open>policy/github_override.rs\<close>), bound to the bytes that
    are read (\<open>policy/override_input.rs\<close>), and the parser of the \<open>Link\<close> header that pages the evidence.
  \<^item> \<open>Placeholder\<close>, \<open>PluginSecrets\<close>, \<open>PluginSecrets_Facts\<close>, \<open>Security\<close>, \<open>Security_Facts\<close>: the placeholder grammar, which
    strings of a plugin configuration are secret (\<open>secrets/plugin_config.rs\<close>), and the audit that no committed
    value is one (\<open>diff/security.rs\<close>).
  \<^item> \<open>Slot\<close>, \<open>Slot_Facts\<close>, \<open>SlotReport\<close>, \<open>SlotPolicy\<close>, \<open>Resolver\<close>, \<open>Walks\<close>, \<open>Resolver_Facts\<close>, \<open>Resolution\<close>,
    \<open>SlotSpellings\<close>, \<open>SlotSafety\<close>: the names of broker slots and the resolution of placeholders
    (\<open>secrets/resolver.rs\<close>).  The walks of the code are interpretations of the locales \<open>read_walk\<close> and
    \<open>rewrite_walk\<close>; the facts give the resolved documents, the agreement of preview and apply, and what a
    resolution that refuses remaps excludes, under every spelling of a slot that is still read.
  \<^item> \<open>Bundle\<close>, \<open>Bundle_Facts\<close>, \<open>Delivery\<close>, \<open>Allocator\<close>, \<open>Allocator_Facts\<close>: the credential bundle and its shards
    (\<open>secrets/bundle.rs\<close>), the GitHub calls (\<open>secrets/delivery.rs\<close>, \<open>secrets/github_api.rs\<close>), and the two phases
    of allocation and rotation (\<open>secrets/allocator.rs\<close>).
  \<^item> \<open>Verdict\<close>, \<open>Verdict_Facts\<close>: the verdicts behind the exit codes (\<open>verdict.rs\<close>).
  \<^item> \<open>Breaking\<close>, \<open>Breaking_Facts\<close>: breaking changes of a diff (\<open>diff/breaking.rs\<close>).
  \<^item> \<open>ResourceTree\<close>, \<open>ResourceTree_Facts\<close>: reading the repository (\<open>config/repo_file.rs\<close>, \<open>config/strict.rs\<close>,
    \<open>config/loader.rs\<close>) over a parameter for the file system.
  \<^item> \<open>Overlay\<close>, \<open>Overlay_Arrays\<close>, \<open>Overlay_Facts\<close>, \<open>NamespaceGuard\<close>, \<open>Assemble\<close>, \<open>Assemble_Facts\<close>: overlays and
    assembly (\<open>config/assembler.rs\<close>) and the diagnosis of an empty namespace filter (\<open>config/namespace_guard.rs\<close>).
    The loop over an additive array is the locale \<open>item_merge\<close>, which gives it a specification without the loop.
  \<^item> \<open>SpecGraph\<close>, \<open>SpecGraph_Facts\<close>, \<open>BatchPlan\<close>, \<open>BatchPlan_Facts\<close>, \<open>ApplyPlan\<close>, \<open>ApplyPlan_Facts\<close>: what an apply decides
    about its requests (\<open>apply/api_target.rs\<close>, \<open>http_client.rs\<close>): the rows an API spec owns, the create batches, the
    order of operations, adoption and the reading of a backup after an unknown outcome.

  \<^bold>\<open>How the parts interact.\<close>  \<open>Resolved\<close> fixes the ownership mode; \<open>Reconcile\<close> turns it and the ledger into
  the namespaces visited and the fence; \<open>Diff\<close> uses the fence to classify every live row; the guard of
  \<open>Reconcile\<close> bounds the deletions; the ledger operations record what was done.  The theorem below
  closes that circle: a shared run deletes only what an earlier run of the repository asserted.  Before it,
  \<open>ResourceTree\<close>, \<open>Overlay\<close> and \<open>Assemble\<close> make the desired configuration, \<open>Security\<close>, \<open>Policy\<close> and \<open>Override\<close>
  decide whether it may be applied, and \<open>Resolver\<close> and \<open>Allocator\<close> put the secrets in; after it, \<open>ApplyPlan\<close> and
  \<open>BatchPlan\<close> arrange the requests.

  \<^bold>\<open>Conventions.\<close>  A Rust \<open>Result\<close> is a sum with the error on the left, each error a constructor with the
  values its message shows.  A \<open>BTreeMap\<close> is a sorted association list, a \<open>BTreeSet\<close> a sorted list, a
  \<open>HashSet\<close> of keys a set.  Fixed-width integers are words where a wrap-around or a width matters (\<open>u16\<close>
  priorities, the \<open>u128\<close> arithmetic of the guard), natural numbers for lengths.  Loops are recursions;
  no fuel is used.  A loop whose end depends on its data is an option, \<open>None\<close> when it does not return, and is proved
  to return (\<open>split_batch_exact\<close>); every other function terminates by a structural or a proved measure.  The JSON printer and
  parser of the serialization library are the parameter \<open>codec\<close>.  Clock, commit and actor strings are
  arguments.

  \<^bold>\<open>What is not modelled.\<close>  Operating-system effects (writing files, locks, atomic replacement), the transport of
  HTTP requests and the conditional writes of the admin API, the sending of the requests an apply has planned,
  YAML and the derived deserializers, encryption, the rendering of reports and the output filter, the import,
  export, review, verify, validate and doctor commands, and the command drivers beyond the parts named above.  Where
  a modelled function calls one of these, it is an argument of the function.
\<close>

section \<open>From the ledger to the gateway\<close>

text \<open>
  C3.  A shared run deletes only what this repository put there.  Take any ledger that a sequence of
  operations produced from an empty one, and the diff of a shared run over any namespace snapshots
  with the fence that ledger gives: every scheduled deletion concerns a row that is live and not
  declared in its snapshot, and whose key an earlier recorded run, successful add or modify, or full
  replacement of this repository asserted.
\<close>

theorem shared_run_deletes_asserted:
  assumes "ledger_run (state_file_default\<lparr>st_environment := env\<rparr>) ops st"
    and "oc_mode (re_ownership r) = ownership_mode.Shared" and "good_order order"
    and "compute_diffs_for_pairs order codec pairs (previously_managed r st) options = Inr res"
    and "d \<in> set (dr_diffs res)" and "rd_action d = Delete"
  shows "state_key (rd_namespace d) (rd_kind d) (rd_id d) \<in> (\<Union>op \<in> set ops. asserted op) \<and>
    (\<exists>(ns, desired, actual) \<in> set pairs.
       rd_key d \<in> set (config_keys actual) \<and> rd_key d \<notin> set (config_keys desired))"
proof -
  have "rd_key d \<in> delete_keys (dr_diffs res)" using assms(5,6) by (auto simp: delete_keys_def)
  then obtain ns desired actual where p: "(ns, desired, actual) \<in> set pairs"
      "rd_key d \<in> set (config_keys actual)" "rd_key d \<notin> set (config_keys desired)"
      "prunable (ownership_scope_of (previously_managed r st)) options actual (rd_key d)"
    using pairs_delete_keys[OF assms(3,4)] by blast
  have "state_key (rd_namespace d) (rd_kind d) (rd_id d) \<in> previously_managed_keys st"
    using p(4) assms(2)
    by (auto simp: prunable_def previously_managed_def ownership_scope_of_def rd_key_def split: if_splits)
  moreover have "previously_managed_keys st \<subseteq> (\<Union>op \<in> set ops. asserted op)"
    using ledger_run_ok[OF assms(1) ledger_ok_default(1)] ledger_ok_default(2)[of env] by auto
  ultimately show ?thesis using p(1-3) by blast
qed

theorem shared_run_deletes_asserted_witness:
  "\<exists>res. compute_diffs_for_pairs example_order example_codec shared_pairs
     (previously_managed shared_run recorded_ledger) \<lparr>do_prune_spec_owned = False\<rparr> = Inr res \<and>
     (\<forall>d. d \<in> set (dr_diffs res) \<and> rd_action d = Delete \<longrightarrow>
        state_key (rd_namespace d) (rd_kind d) (rd_id d) = key_a)"
proof -
  obtain res where res: "compute_diffs_for_pairs example_order example_codec shared_pairs
     (previously_managed shared_run recorded_ledger) \<lparr>do_prune_spec_owned = False\<rparr> = Inr res"
    using shared_pairs_diff by blast
  have "state_key (rd_namespace d) (rd_kind d) (rd_id d) = key_a"
    if "d \<in> set (dr_diffs res)" "rd_action d = Delete" for d
    using shared_run_deletes_asserted[OF recorded_run shared_run_simps(2) example_good res that] by simp
  then show ?thesis using res by blast
qed

end
